(* ===== verification/Js_Prelude.thy ===== *)
theory Js_Prelude
  imports Main "HOL-Library.Char_ord" "HOL-Library.List_Lexorder" "HOL-Library.Product_Lexorder"
begin

text \<open>
  Shared vocabulary of the development: the JavaScript run-time notions the sources use
  (thrown values, truthiness, JSON values, optional properties, string trimming, ISO dates),
  the result type in which every \<^verbatim>\<open>throw\<close> of the source is a left value, and the
  generic lemmas about results and lists that all components share.

  Strings are lists of 8-bit characters (the sources compare, trim and concatenate them).
  A \<^verbatim>\<open>Date\<close> is its time value, an \<open>int\<close> of milliseconds since the epoch.  The
  numbers inside a JSON payload are integers: the modelled code reads payload numbers only
  through \<^verbatim>\<open>Number.isSafeInteger\<close>, truthiness and string conversion.
\<close>

named_theorems result_simps \<open>rewriting of computations in the result type\<close>
named_theorems js_defs \<open>definitions of the JavaScript vocabulary, unfolded by evaluation\<close>

section \<open>Thrown values and results\<close>

text \<open>
  \<open>AppError status code message\<close> is the class of \<^verbatim>\<open>packages/domain/src/errors.ts\<close>;
  \<open>PlainError message code\<close> is any other \<^verbatim>\<open>Error\<close> (with the \<^verbatim>\<open>code\<close> property some
  carry); \<open>NonError\<close> is a thrown value that is not an \<^verbatim>\<open>Error\<close>.
\<close>

datatype js_error =
    AppError int string string
  | PlainError string "string option"
  | TypeError string
  | RangeError string
  | NonError

type_synonym 'a result = "js_error + 'a"

fun and_then :: "'e + 'a \<Rightarrow> ('a \<Rightarrow> 'e + 'b) \<Rightarrow> 'e + 'b" where
  "and_then (Inl e) f = Inl e"
| "and_then (Inr x) f = f x"

definition invariant :: "bool \<Rightarrow> int \<Rightarrow> string \<Rightarrow> string \<Rightarrow> unit result" where
  "invariant c status code message =
     (if c then Inr () else Inl (AppError status code message))"

text \<open>\<^verbatim>\<open>error.code\<close> and \<^verbatim>\<open>error.message\<close> of a thrown \<^verbatim>\<open>Error\<close>.\<close>

fun error_code :: "js_error \<Rightarrow> string option" where
  "error_code (AppError _ c _) = Some c"
| "error_code (PlainError _ c) = c"
| "error_code _ = None"

fun error_message :: "js_error \<Rightarrow> string" where
  "error_message (AppError _ _ m) = m"
| "error_message (PlainError m _) = m"
| "error_message (TypeError m) = m"
| "error_message (RangeError m) = m"
| "error_message NonError = []"

fun is_error :: "js_error \<Rightarrow> bool" where
  "is_error NonError = False"
| "is_error _ = True"

lemma and_then_Inr_iff [result_simps]:
  "and_then m f = Inr y \<longleftrightarrow> (\<exists>x. m = Inr x \<and> f x = Inr y)"
  by (cases m) auto

lemma and_then_Inl_iff [result_simps]:
  "and_then m f = Inl e \<longleftrightarrow> m = Inl e \<or> (\<exists>x. m = Inr x \<and> f x = Inl e)"
  by (cases m) auto

lemma and_then_assoc: "and_then (and_then m f) g = and_then m (\<lambda>x. and_then (f x) g)"
  by (cases m) auto

lemma and_then_Inr_right [simp]: "and_then m Inr = m"
  by (cases m) auto

lemma invariant_Inr_iff [result_simps]: "invariant c s k m = Inr u \<longleftrightarrow> c"
  by (simp add: invariant_def)

lemma invariant_Inl_iff [result_simps]:
  "invariant c s k m = Inl e \<longleftrightarrow> \<not> c \<and> e = AppError s k m"
  by (auto simp: invariant_def)

lemma and_then_invariant [simp]:
  "and_then (invariant c s k m) f = (if c then f () else Inl (AppError s k m))"
  by (simp add: invariant_def)

text \<open>
  Code that appends to one array section by section is the concatenation of the sections;
  the first section that throws aborts the whole function.
\<close>

fun concat_results :: "('e + 'a list) list \<Rightarrow> 'e + 'a list" where
  "concat_results [] = Inr []"
| "concat_results (r # rs) =
     and_then r (\<lambda>xs. and_then (concat_results rs) (\<lambda>ys. Inr (xs @ ys)))"

lemma concat_results_Inr_iff:
  "concat_results rs = Inr zs \<longleftrightarrow> (\<exists>xss. rs = map Inr xss \<and> zs = concat xss)"
proof (induction rs arbitrary: zs)
  case Nil
  then show ?case by auto
next
  case (Cons r rs)
  show ?case
  proof (cases r)
    case (Inl e)
    then show ?thesis by auto
  next
    case (Inr xs)
    show ?thesis
    proof
      assume "concat_results (r # rs) = Inr zs"
      then obtain ys where ys: "concat_results rs = Inr ys" "zs = xs @ ys"
        using Inr by (auto simp: result_simps)
      then obtain xss where "rs = map Inr xss" "ys = concat xss"
        using Cons.IH by blast
      with ys(2) Inr show "\<exists>xss. r # rs = map Inr xss \<and> zs = concat xss"
        by (intro exI [of _ "xs # xss"]) simp
    next
      assume "\<exists>xss. r # rs = map Inr xss \<and> zs = concat xss"
      then obtain ys yss where "xs = ys" "rs = map Inr yss" "zs = ys @ concat yss"
        using Inr by (auto simp: Cons_eq_map_conv)
      moreover then have "concat_results rs = Inr (concat yss)" using Cons.IH by blast
      ultimately show "concat_results (r # rs) = Inr zs" using Inr by simp
    qed
  qed
qed

lemma concat_results_members:
  assumes "concat_results rs = Inr zs" and "z \<in> set zs"
  shows "\<exists>xs. Inr xs \<in> set rs \<and> z \<in> set xs"
proof -
  from assms(1) obtain xss where "rs = map Inr xss" "zs = concat xss"
    by (auto simp: concat_results_Inr_iff)
  with assms(2) show ?thesis by auto
qed

lemma concat_results_Inl_mem:
  "concat_results rs = Inl e \<Longrightarrow> Inl e \<in> set rs"
proof (induction rs)
  case (Cons r rs)
  then show ?case by (cases r) (auto simp: result_simps)
qed simp

lemma concat_results_total:
  "\<forall>r \<in> set rs. \<exists>xs. r = Inr xs \<Longrightarrow> \<exists>zs. concat_results rs = Inr zs"
  by (induction rs) (auto simp: result_simps)

text \<open>A loop whose body may throw, over the elements of a list.\<close>

fun fold_result :: "('a \<Rightarrow> 's \<Rightarrow> 'e + 's) \<Rightarrow> 'a list \<Rightarrow> 's \<Rightarrow> 'e + 's" where
  "fold_result f [] s = Inr s"
| "fold_result f (x # xs) s = and_then (f x s) (fold_result f xs)"

lemma fold_result_inv:
  assumes "fold_result f xs s = Inr s'" and "P s"
    and "\<And>x s s'. x \<in> set xs \<Longrightarrow> P s \<Longrightarrow> f x s = Inr s' \<Longrightarrow> P s'"
  shows "P s'"
  using assms
proof (induction xs arbitrary: s)
  case Nil
  then show ?case by simp
next
  case (Cons x xs)
  then obtain t where "f x s = Inr t" "fold_result f xs t = Inr s'"
    by (auto simp: result_simps)
  with Cons show ?case by (metis list.set_intros(1) list.set_intros(2))
qed


section \<open>Strings\<close>

text \<open>
  \<^verbatim>\<open>trim\<close> removes the ECMAScript white space at both ends; below 256 that is tab, line feed,
  vertical tab, form feed, carriage return, space and no-break space.
\<close>

definition js_space :: "char \<Rightarrow> bool" where
  "js_space c \<longleftrightarrow> (of_char c :: nat) \<in> {9, 10, 11, 12, 13, 32, 160}"

definition js_trim :: "string \<Rightarrow> string" where
  "js_trim s = rev (dropWhile js_space (rev (dropWhile js_space s)))"

definition js_lower_char :: "char \<Rightarrow> char" where
  "js_lower_char c =
     (let n = (of_char c :: nat)
      in if 65 \<le> n \<and> n \<le> 90 \<or> 192 \<le> n \<and> n \<le> 222 \<and> n \<noteq> 215 then char_of (n + 32) else c)"

definition js_lower :: "string \<Rightarrow> string" where
  "js_lower s = map js_lower_char s"

definition starts_with :: "string \<Rightarrow> string \<Rightarrow> bool" where
  "starts_with s p \<longleftrightarrow> take (length p) s = p"

fun is_substring :: "string \<Rightarrow> string \<Rightarrow> bool" where
  "is_substring p [] \<longleftrightarrow> p = []"
| "is_substring p (c # s) \<longleftrightarrow> starts_with (c # s) p \<or> is_substring p s"

definition ends_with :: "string \<Rightarrow> string \<Rightarrow> bool" where
  "ends_with s p \<longleftrightarrow> length p \<le> length s \<and> drop (length s - length p) s = p"

lemma js_trim_Nil [simp]: "js_trim [] = []"
  by (simp add: js_trim_def)

lemma js_trim_set: "set (js_trim s) \<subseteq> set s"
  unfolding js_trim_def set_rev
  by (metis (no_types, opaque_lifting) set_dropWhileD set_rev subsetI)

lemma dropWhile_hd_stable: "dropWhile P xs = xs \<longleftrightarrow> xs = [] \<or> \<not> P (hd xs)"
  by (cases xs) (auto dest: arg_cong [where f = length] simp: length_dropWhile_le le_imp_less_Suc less_not_refl3)

lemma js_trim_idem [simp]: "js_trim (js_trim s) = js_trim s"
proof -
  define t where "t = dropWhile js_space s"
  define u where "u = dropWhile js_space (rev t)"
  have trim_u: "js_trim s = rev u" by (simp add: js_trim_def t_def u_def)
  have t_hd: "t = [] \<or> \<not> js_space (hd t)" unfolding t_def by (metis hd_dropWhile)
  have u_hd: "u = [] \<or> \<not> js_space (hd u)" unfolding u_def by (metis hd_dropWhile)
  obtain pre where "rev t = pre @ u" unfolding u_def by (metis takeWhile_dropWhile_id)
  then have t_split: "t = rev u @ rev pre" by (metis rev_append rev_rev_ident)
  have "rev u = [] \<or> \<not> js_space (hd (rev u))"
    using t_hd unfolding t_split by (cases "rev u") auto
  then have "dropWhile js_space (rev u) = rev u" by (simp add: dropWhile_hd_stable)
  moreover have "dropWhile js_space u = u" using u_hd by (simp add: dropWhile_hd_stable)
  ultimately show ?thesis by (simp add: trim_u) (simp add: js_trim_def)
qed

text \<open>Decimal notation, as template literals and \<^verbatim>\<open>String(n)\<close> print an integer.\<close>

definition digit_char :: "nat \<Rightarrow> char" where
  "digit_char d = char_of (48 + d mod 10)"

fun string_of_nat :: "nat \<Rightarrow> string" where
  "string_of_nat n =
     (if n < 10 then [digit_char n] else string_of_nat (n div 10) @ [digit_char n])"

declare string_of_nat.simps [simp del]

definition string_of_int :: "int \<Rightarrow> string" where
  "string_of_int i =
     (if i < 0 then CHR ''-'' # string_of_nat (nat (- i)) else string_of_nat (nat i))"

definition pad_left :: "nat \<Rightarrow> string \<Rightarrow> string" where
  "pad_left w s = replicate (w - length s) (CHR ''0'') @ s"

section \<open>JSON values\<close>

datatype json =
    JNull
  | JBool bool
  | JNum int
  | JStr string
  | JArr "json list"
  | JObj "(string \<times> json) list"

text \<open>
  The value of a property that may be absent is a \<open>json option\<close>, \<open>None\<close> standing for
  \<^verbatim>\<open>undefined\<close>.  Reading a property of \<^verbatim>\<open>null\<close> throws; reading one of a string, number,
  boolean or array that has no such property gives \<^verbatim>\<open>undefined\<close>.
\<close>

fun json_truthy :: "json \<Rightarrow> bool" where
  "json_truthy JNull = False"
| "json_truthy (JBool b) = b"
| "json_truthy (JNum n) = (n \<noteq> 0)"
| "json_truthy (JStr s) = (s \<noteq> [])"
| "json_truthy (JArr _) = True"
| "json_truthy (JObj _) = True"

definition truthy :: "json option \<Rightarrow> bool" where
  "truthy v = (case v of None \<Rightarrow> False | Some j \<Rightarrow> json_truthy j)"

definition truthy_str :: "string option \<Rightarrow> bool" where
  "truthy_str v = (case v of None \<Rightarrow> False | Some s \<Rightarrow> s \<noteq> [])"

fun is_object :: "json \<Rightarrow> bool" where
  "is_object (JObj _) = True"
| "is_object _ = False"

fun field :: "json \<Rightarrow> string \<Rightarrow> json option" where
  "field (JObj fs) k = map_of fs k"
| "field _ _ = None"

fun get_prop :: "json \<Rightarrow> string \<Rightarrow> json option result" where
  "get_prop JNull k = Inl (TypeError (''Cannot read properties of null (reading '' @ k @ '')''))"
| "get_prop v k = Inr (field v k)"

lemma get_prop_eq:
  "get_prop v k =
     (if v = JNull then Inl (TypeError (''Cannot read properties of null (reading '' @ k @ '')''))
      else Inr (field v k))"
  by (cases v) simp_all

text \<open>\<^verbatim>\<open>a ?? b\<close>.\<close>

definition nullish_or :: "json option \<Rightarrow> json option \<Rightarrow> json option" where
  "nullish_or a b = (case a of None \<Rightarrow> b | Some JNull \<Rightarrow> b | Some v \<Rightarrow> Some v)"

text \<open>
  String conversion in a template literal.  An array joins its elements with commas, a nested
  \<^verbatim>\<open>null\<close> printing as nothing; an object prints as \<^verbatim>\<open>[object Object]\<close>.
\<close>

fun join_with :: "string \<Rightarrow> string list \<Rightarrow> string" where
  "join_with sep [] = []"
| "join_with sep [x] = x"
| "join_with sep (x # y # ys) = x @ sep @ join_with sep (y # ys)"

fun json_string :: "json \<Rightarrow> string" where
  "json_string JNull = ''null''"
| "json_string (JBool b) = (if b then ''true'' else ''false'')"
| "json_string (JNum n) = string_of_int n"
| "json_string (JStr s) = s"
| "json_string (JArr vs) =
     join_with '','' (map (\<lambda>v. if v = JNull then [] else json_string v) vs)"
| "json_string (JObj _) = ''[object Object]''"

definition template_value :: "json option \<Rightarrow> string" where
  "template_value v = (case v of None \<Rightarrow> ''undefined'' | Some j \<Rightarrow> json_string j)"

text \<open>\<^verbatim>\<open>Number.isSafeInteger\<close> on the integers of a payload.\<close>

definition max_safe_integer :: int where
  "max_safe_integer = 9007199254740991"

section \<open>Dates\<close>

text \<open>
  \<^verbatim>\<open>new Date(t).toISOString()\<close>.  A time value beyond 8.64e15 ms is an invalid date and the
  conversion throws.  The civil date of a day number uses the 400-year era arithmetic of the
  proleptic Gregorian calendar; years outside 0 to 9999 print with a sign and six digits.
\<close>

definition ms_per_day :: int where
  "ms_per_day = 86400000"

definition max_time_value :: int where
  "max_time_value = 8640000000000000"

definition civil_of_day :: "int \<Rightarrow> int \<times> int \<times> int" where
  "civil_of_day d =
     (let z = d + 719468;
          era = z div 146097;
          doe = z mod 146097;
          yoe = (doe - doe div 1460 + doe div 36524 - doe div 146096) div 365;
          doy = doe - (365 * yoe + yoe div 4 - yoe div 100);
          mp = (5 * doy + 2) div 153;
          day = doy - (153 * mp + 2) div 5 + 1;
          month = (if mp < 10 then mp + 3 else mp - 9);
          year = yoe + era * 400 + (if month \<le> 2 then 1 else 0)
      in (year, month, day))"

definition pad_int :: "nat \<Rightarrow> int \<Rightarrow> string" where
  "pad_int w i = pad_left w (string_of_nat (nat i))"

definition iso_year :: "int \<Rightarrow> string" where
  "iso_year y =
     (if 0 \<le> y \<and> y \<le> 9999 then pad_int 4 y
      else (if y < 0 then ''-'' else ''+'') @ pad_int 6 \<bar>y\<bar>)"

definition iso_of_ms :: "int \<Rightarrow> string" where
  "iso_of_ms t =
     (let (y, m, d) = civil_of_day (t div ms_per_day);
          r = t mod ms_per_day
      in iso_year y @ ''-'' @ pad_int 2 m @ ''-'' @ pad_int 2 d @ ''T''
         @ pad_int 2 (r div 3600000) @ '':'' @ pad_int 2 (r div 60000 mod 60) @ '':''
         @ pad_int 2 (r div 1000 mod 60) @ ''.'' @ pad_int 3 (r mod 1000) @ ''Z'')"

definition to_iso_string :: "int \<Rightarrow> string result" where
  "to_iso_string t =
     (if \<bar>t\<bar> \<le> max_time_value then Inr (iso_of_ms t) else Inl (RangeError ''Invalid time value''))"

lemma iso_epoch: "iso_of_ms 0 = ''1970-01-01T00:00:00.000Z''"
  by code_simp

lemma iso_leap_day: "iso_of_ms 1709208000123 = ''2024-02-29T12:00:00.123Z''"
  by code_simp

end
