(* ===== verification/Js_Number.thy ===== *)
theory Js_Number
  imports Js_Prelude Complex_Main
begin

text \<open>
  JavaScript numbers where the sources compute with fractions.  A finite double is the rational
  it denotes; an arithmetic operation is the exact operation followed by \<open>fl\<close>, rounding to
  the nearest number with a 53-bit significand, ties to even.  The exponent is unbounded: the
  modelled code divides and multiplies counts and percentages, far from overflow and from the
  subnormal range.  The laws proved here are those a caller may rely on: \<open>fl\<close> is monotone,
  fixes the integers up to \<open>2 ^ 53\<close> and is odd.
\<close>

fun nbits :: "nat \<Rightarrow> nat" where
  "nbits n = (if n = 0 then 0 else Suc (nbits (n div 2)))"

declare nbits.simps [simp del]

lemma nbits_pos: "0 < n \<Longrightarrow> 0 < nbits n"
  by (subst nbits.simps) simp

lemma nbits_bounds: "0 < n \<Longrightarrow> 2 ^ (nbits n - 1) \<le> n \<and> n < 2 ^ nbits n"
proof (induction n rule: nbits.induct)
  case (1 n)
  show ?case
  proof (cases "n div 2 = 0")
    case True
    with 1 have "n = 1" by auto
    then show ?thesis by (simp add: nbits.simps [of "Suc 0"] nbits.simps [of 0])
  next
    case False
    with 1 have IH: "2 ^ (nbits (n div 2) - 1) \<le> n div 2" "n div 2 < 2 ^ nbits (n div 2)" by auto
    have pos: "0 < nbits (n div 2)" using False by (simp add: nbits_pos)
    have n: "nbits n = Suc (nbits (n div 2))" using 1 by (subst nbits.simps) simp
    have "2 ^ nbits (n div 2) = 2 * (2::nat) ^ (nbits (n div 2) - 1)"
      using pos by (simp flip: power_Suc)
    with IH(1) have "2 ^ nbits (n div 2) \<le> n" by linarith
    moreover have "n < 2 * 2 ^ nbits (n div 2)" using IH(2) by linarith
    ultimately show ?thesis by (simp add: n)
  qed
qed

text \<open>The binary exponent of a positive rational: \<open>2 powi e \<le> x < 2 powi (e + 1)\<close>.\<close>

definition expo :: "rat \<Rightarrow> int" where
  "expo x =
     (case quotient_of x of (n, d) \<Rightarrow>
        let k = int (nbits (nat n)) - int (nbits (nat d))
        in if x < 2 powi k then k - 1 else k)"

definition round_half_even :: "rat \<Rightarrow> int" where
  "round_half_even r =
     (let f = \<lfloor>r\<rfloor>; t = r - of_int f
      in if t < 1 / 2 then f else if 1 / 2 < t then f + 1 else if even f then f else f + 1)"

definition fl_pos :: "rat \<Rightarrow> rat" where
  "fl_pos x = (let u = 2 powi (expo x - 52) in of_int (round_half_even (x / u)) * u)"

definition fl :: "rat \<Rightarrow> rat" where
  "fl x = (if x = 0 then 0 else if 0 < x then fl_pos x else - fl_pos (- x))"

definition js_div :: "rat \<Rightarrow> rat \<Rightarrow> rat" where
  "js_div a b = fl (a / b)"

definition js_mul :: "rat \<Rightarrow> rat \<Rightarrow> rat" where
  "js_mul a b = fl (a * b)"

definition js_add :: "rat \<Rightarrow> rat \<Rightarrow> rat" where
  "js_add a b = fl (a + b)"

definition js_sub :: "rat \<Rightarrow> rat \<Rightarrow> rat" where
  "js_sub a b = fl (a - b)"

text \<open>\<^verbatim>\<open>Math.round\<close>: the nearest integer, ties towards plus infinity.\<close>

definition math_round :: "rat \<Rightarrow> int" where
  "math_round x = \<lfloor>x + 1 / 2\<rfloor>"

section \<open>The binary exponent\<close>

lemma expo_bounds:
  assumes "0 < x"
  shows "2 powi expo x \<le> x \<and> x < 2 powi (expo x + 1)"
proof -
  obtain n d where q: "quotient_of x = (n, d)" by force
  have d: "0 < d" using q by (rule quotient_of_denom_pos)
  have x_eq: "x = of_int n / of_int d" using q by (rule quotient_of_div)
  with assms d have n: "0 < n" by (simp add: zero_less_divide_iff)
  obtain N D where N: "n = int N" "0 < N" and D: "d = int D" "0 < D"
    using n d by (metis nat_0_le of_nat_0_less_iff order_less_imp_le)
  obtain a b where a: "nbits N = Suc a" and b: "nbits D = Suc b"
    using N(2) D(2) nbits_pos by (metis gr0_conv_Suc)
  have nb: "(2::rat) ^ a \<le> of_nat N" "of_nat N < (2::rat) ^ Suc a"
    using nbits_bounds [OF N(2)] of_nat_mono [of "2 ^ a" N, where 'a = rat]
      of_nat_less_iff [of N "2 ^ Suc a", where 'a = rat] by (simp_all add: a)
  have db: "(2::rat) ^ b \<le> of_nat D" "of_nat D < (2::rat) ^ Suc b"
    using nbits_bounds [OF D(2)] of_nat_mono [of "2 ^ b" D, where 'a = rat]
      of_nat_less_iff [of D "2 ^ Suc b", where 'a = rat] by (simp_all add: b)
  have x: "x = of_nat N / of_nat D" by (simp add: x_eq N D)
  define k where "k = int a - int b"
  have "(2::rat) powi (k - 1) = 2 ^ a / 2 ^ Suc b"
    by (simp add: k_def power_int_diff)
  also have "\<dots> \<le> x" unfolding x using nb db D by (intro frac_le) auto
  finally have lower: "2 powi (k - 1) \<le> x" .
  have "x < 2 ^ Suc a / 2 ^ b" unfolding x using nb db N D by (intro frac_less) auto
  also have "\<dots> = 2 powi (k + 1)" by (simp add: k_def power_int_diff power_int_add)
  finally have upper: "x < 2 powi (k + 1)" .
  have "expo x = (if x < 2 powi k then k - 1 else k)"
    by (simp add: expo_def q N D a b k_def Let_def)
  with lower upper show ?thesis by auto
qed

lemma expo_mono:
  assumes "0 < x" "x \<le> y" shows "expo x \<le> expo y"
proof (rule ccontr)
  assume "\<not> expo x \<le> expo y"
  then have "expo y + 1 \<le> expo x" by simp
  then have "(2::rat) powi (expo y + 1) \<le> 2 powi expo x" by (intro power_int_increasing) auto
  with expo_bounds [of x] expo_bounds [of y] assms show False by auto
qed


lemma expo_unique:
  assumes "0 < x" "2 powi e \<le> x" "x < 2 powi (e + 1)" shows "expo x = e"
proof (rule antisym; rule ccontr)
  assume "\<not> expo x \<le> e"
  then have "(2::rat) powi (e + 1) \<le> 2 powi expo x" by (intro power_int_increasing) auto
  with assms expo_bounds [of x] show False by auto
next
  assume "\<not> e \<le> expo x"
  then have "(2::rat) powi (expo x + 1) \<le> 2 powi e" by (intro power_int_increasing) auto
  with assms expo_bounds [of x] show False by auto
qed

section \<open>Rounding\<close>

lemma round_half_even_bounds: "\<lfloor>r\<rfloor> \<le> round_half_even r" "round_half_even r \<le> \<lfloor>r\<rfloor> + 1"
  by (simp_all add: round_half_even_def Let_def)

lemma round_half_even_of_int [simp]: "round_half_even (of_int i) = i"
  by (simp add: round_half_even_def)

lemma round_half_even_mono:
  assumes "r \<le> s" shows "round_half_even r \<le> round_half_even s"
proof (cases "\<lfloor>r\<rfloor> = \<lfloor>s\<rfloor>")
  case True
  with assms show ?thesis by (simp add: round_half_even_def Let_def)
next
  case False
  with floor_mono [OF assms] have "\<lfloor>r\<rfloor> + 1 \<le> \<lfloor>s\<rfloor>" by simp
  with round_half_even_bounds [of r] round_half_even_bounds [of s] show ?thesis by linarith
qed

lemma round_half_even_ge: "of_int i \<le> r \<Longrightarrow> i \<le> round_half_even r"
  using round_half_even_mono [of "of_int i" r] by simp

lemma round_half_even_le: "r \<le> of_int i \<Longrightarrow> round_half_even r \<le> i"
  using round_half_even_mono [of r "of_int i"] by simp

lemma round_half_even_near:
  assumes "of_int f - 1 / 2 < r" "r < of_int f + 1 / 2"
  shows "round_half_even r = f"
proof (cases "of_int f \<le> r")
  case True
  with assms have "\<lfloor>r\<rfloor> = f" by (intro floor_unique) auto
  with assms show ?thesis by (simp add: round_half_even_def Let_def)
next
  case False
  with assms have "\<lfloor>r\<rfloor> = f - 1" by (intro floor_unique) auto
  with assms show ?thesis by (auto simp: round_half_even_def Let_def)
qed

text \<open>How a concrete rounding is evaluated: name the binade and the significand.\<close>

lemma fl_eval:
  assumes "0 < x" "2 powi e \<le> x" "x < 2 powi (e + 1)"
    and "of_int f - 1 / 2 < x / 2 powi (e - 52)" "x / 2 powi (e - 52) < of_int f + 1 / 2"
  shows "fl x = of_int f * 2 powi (e - 52)"
  using assms expo_unique [OF assms(1-3)] round_half_even_near [OF assms(4,5)]
  by (simp add: fl_def fl_pos_def Let_def)

lemma fl_pos_bounds:
  assumes "0 < x"
  shows "2 powi expo x \<le> fl_pos x \<and> fl_pos x \<le> 2 powi (expo x + 1)"
proof -
  define u :: rat where "u = 2 powi (expo x - 52)"
  have u: "0 < u" by (simp add: u_def)
  have low: "2 powi expo x = of_int (2 ^ 52) * u"
    by (simp add: u_def power_int_diff)
  have high: "2 powi (expo x + 1) = of_int (2 ^ 53) * u"
    by (simp add: u_def power_int_diff power_int_add)
  have "of_int (2 ^ 52) \<le> x / u" "x / u \<le> of_int (2 ^ 53)"
    using expo_bounds [OF assms] u unfolding low high by (auto simp: field_simps)
  then have "2 ^ 52 \<le> round_half_even (x / u)" "round_half_even (x / u) \<le> 2 ^ 53"
    by (auto intro: round_half_even_ge round_half_even_le simp del: of_int_power)
  then have "(of_int (2 ^ 52) :: rat) \<le> of_int (round_half_even (x / u))"
      "(of_int (round_half_even (x / u)) :: rat) \<le> of_int (2 ^ 53)"
    by (simp_all only: of_int_le_iff)
  then show ?thesis
    using u unfolding low high fl_pos_def Let_def u_def [symmetric] by (simp add: mult_right_mono)
qed

lemma fl_pos_mono:
  assumes "0 < x" "x \<le> y" shows "fl_pos x \<le> fl_pos y"
proof (cases "expo x = expo y")
  case True
  have "0 < (2::rat) powi (expo y - 52)" by simp
  then have "x / 2 powi (expo y - 52) \<le> y / 2 powi (expo y - 52)"
    using assms by (intro divide_right_mono) auto
  then have "round_half_even (x / 2 powi (expo y - 52)) \<le> round_half_even (y / 2 powi (expo y - 52))"
    by (rule round_half_even_mono)
  then show ?thesis
    unfolding fl_pos_def Let_def True by (intro mult_right_mono) auto
next
  case False
  with expo_mono [OF assms] have "expo x + 1 \<le> expo y" by simp
  then have "(2::rat) powi (expo x + 1) \<le> 2 powi expo y" by (intro power_int_increasing) auto
  with fl_pos_bounds [of x] fl_pos_bounds [of y] assms show ?thesis by auto
qed

lemma fl_pos_pos: "0 < x \<Longrightarrow> 0 < fl_pos x"
  using fl_pos_bounds [of x] by (meson less_le_trans zero_less_numeral zero_less_power_int)

lemma fl_mono:
  assumes "x \<le> y" shows "fl x \<le> fl y"
proof -
  consider "0 < x" | "x = 0" | "x < 0" "y \<le> 0" | "x < 0" "0 < y" using assms by linarith
  then show ?thesis
  proof cases
    case 1 then show ?thesis using assms by (simp add: fl_def fl_pos_mono)
  next
    case 2 then show ?thesis using assms fl_pos_pos [of y] by (auto simp: fl_def)
  next
    case 3
    then show ?thesis
      using assms fl_pos_mono [of "- y" "- x"] fl_pos_pos [of "- x"]
      by (cases "y = 0") (auto simp: fl_def)
  next
    case 4
    then show ?thesis
      using fl_pos_pos [of "- x"] fl_pos_pos [of y] by (simp add: fl_def)
  qed
qed

lemma fl_0 [simp]: "fl 0 = 0"
  by (simp add: fl_def)

lemma fl_minus: "fl (- x) = - fl x"
  by (simp add: fl_def)

lemma fl_nonneg: "0 \<le> x \<Longrightarrow> 0 \<le> fl x"
  using fl_mono [of 0 x] by simp

text \<open>An integer that fits the significand is a double and is left alone.\<close>

lemma fl_of_nat:
  assumes "n \<le> 2 ^ 53" shows "fl (of_nat n) = of_nat n"
proof (cases "n = 0")
  case False
  let ?x = "of_nat n :: rat"
  define e where "e = expo ?x"
  have x: "0 < ?x" using False by simp
  have e: "2 powi e \<le> ?x" "?x < 2 powi (e + 1)" using expo_bounds [OF x] by (simp_all add: e_def)
  have fl: "fl ?x = of_int (round_half_even (?x / 2 powi (e - 52))) * 2 powi (e - 52)"
    using x False by (simp add: fl_def fl_pos_def e_def Let_def)
  show ?thesis
  proof (cases "e \<le> 52")
    case True
    then obtain k where k: "e - 52 = - int k" by (metis nonpos_int_cases diff_le_0_iff_le)
    have "?x / 2 powi (e - 52) = of_int (int n * 2 ^ k)"
      by (simp add: k power_int_minus divide_simps)
    then have "fl ?x = of_int (int n * 2 ^ k) * 2 powi (e - 52)"
      unfolding fl by (simp only: round_half_even_of_int)
    then show ?thesis by (simp add: k power_int_minus)
  next
    case False
    then have "(2::rat) powi 53 \<le> 2 powi e" by (intro power_int_increasing) auto
    then have "(2 ^ 53 :: rat) \<le> ?x" using e by simp
    moreover have "?x \<le> 2 ^ 53" using assms by (metis of_nat_le_iff of_nat_numeral of_nat_power)
    ultimately have n: "?x = 2 ^ 53" by simp
    have "e = 53"
    proof (rule antisym)
      show "e \<le> 53"
      proof (rule ccontr)
        assume "\<not> e \<le> 53"
        then have "(2::rat) powi 54 \<le> 2 powi e" by (intro power_int_increasing) auto
        with e n show False by simp
      qed
    qed (use False in simp)
    then have "?x / 2 powi (e - 52) = of_int (2 ^ 52)" by (simp add: n)
    then have "fl ?x = of_int (2 ^ 52) * 2 powi (e - 52)"
      unfolding fl by (simp only: round_half_even_of_int)
    also have "\<dots> = ?x" by (simp add: \<open>e = 53\<close> n)
    finally show ?thesis .
  qed
qed simp

lemma js_mul_mono_left: "0 \<le> c \<Longrightarrow> a \<le> b \<Longrightarrow> js_mul a c \<le> js_mul b c"
  unfolding js_mul_def by (intro fl_mono mult_right_mono)

lemma js_div_mono_left: "0 \<le> c \<Longrightarrow> a \<le> b \<Longrightarrow> js_div a c \<le> js_div b c"
  unfolding js_div_def by (intro fl_mono divide_right_mono)

lemma math_round_mono: "x \<le> y \<Longrightarrow> math_round x \<le> math_round y"
  unfolding math_round_def by (intro floor_mono) simp

lemma math_round_of_int [simp]: "math_round (of_int i) = i"
proof -
  have "\<lfloor>(of_int i :: rat) + 1 / 2\<rfloor> = i" by (rule floor_unique) auto
  then show ?thesis by (simp add: math_round_def)
qed

text \<open>The relative error of one rounding is at most half a unit in the last of 53 places.\<close>

lemma round_half_even_error: "\<bar>of_int (round_half_even r) - r\<bar> \<le> 1 / 2"
proof -
  define t where "t = r - of_int \<lfloor>r\<rfloor>"
  have "0 \<le> t" "t < 1" unfolding t_def by linarith+
  moreover have "of_int (round_half_even r) - r = - t \<and> t \<le> 1 / 2
      \<or> of_int (round_half_even r) - r = 1 - t \<and> 1 / 2 \<le> t"
    by (simp add: round_half_even_def Let_def t_def)
  ultimately show ?thesis by auto
qed

lemma fl_error:
  assumes "0 < x" shows "\<bar>fl x - x\<bar> \<le> x / 2 ^ 53"
proof -
  define u :: rat where "u = 2 powi (expo x - 52)"
  have u: "0 < u" by (simp add: u_def)
  have "2 powi expo x = 2 ^ 52 * u" by (simp add: u_def power_int_diff)
  then have ux: "2 ^ 52 * u \<le> x" using expo_bounds [OF assms] by simp
  have "fl x - x = (of_int (round_half_even (x / u)) - x / u) * u"
    using assms u by (simp add: fl_def fl_pos_def u_def [symmetric] field_simps)
  then have "\<bar>fl x - x\<bar> = \<bar>of_int (round_half_even (x / u)) - x / u\<bar> * u"
    using u by (simp add: abs_mult)
  also have "\<dots> \<le> (1 / 2) * u" using u round_half_even_error by (intro mult_right_mono) auto
  also have "\<dots> \<le> x / 2 ^ 53" using ux by (simp add: field_simps)
  finally show ?thesis .
qed

lemma fl_upper: "0 \<le> x \<Longrightarrow> fl x \<le> x * (1 + 1 / 2 ^ 53)"
proof (cases "x = 0")
  case False
  assume "0 \<le> x"
  with False have "fl x - x \<le> x / 2 ^ 53" using fl_error [of x] by linarith
  then show ?thesis by (simp add: distrib_left)
qed simp

lemma fl_lower: "0 \<le> x \<Longrightarrow> x * (1 - 1 / 2 ^ 53) \<le> fl x"
proof (cases "x = 0")
  case False
  assume "0 \<le> x"
  with False have "x - fl x \<le> x / 2 ^ 53" using fl_error [of x] by linarith
  then show ?thesis by (simp add: right_diff_distrib)
qed simp

end
