(* ===== verification/Module_Access.thy ===== *)
theory Module_Access
  imports Js_Prelude "HOL-Library.AList" "HOL-Library.Multiset"
begin

text \<open>
  The module access resolver of \<^verbatim>\<open>packages/domain/src/modules/access.ts\<close> over the manifest
  vocabulary of \<^verbatim>\<open>modules/types.ts\<close>: coarse member roles, access levels, per-workspace
  grants to four kinds of principal, and the effective level of a member for a module.

  A \<^verbatim>\<open>Map\<close> or \<^verbatim>\<open>Record\<close> whose insertion order is observable is an association list
  written with \<^const>\<open>AList.update\<close>, which replaces in place and appends a new key, as
  \<^verbatim>\<open>Map.set\<close> does.  A field that may be \<^verbatim>\<open>null\<close> or absent is an option: the code tests both
  only for truthiness.
\<close>

section \<open>The manifest vocabulary\<close>

datatype module_tier = Tier_core | Tier_first_party | Tier_satellite

datatype member_role = CONTRIBUTOR | FACILITATOR | FINANCE_STEWARD | ADMIN

datatype access_level = Access_none | Access_read | Access_write

datatype grant_principal = P_MEMBER | P_MEMBER_ROLE | P_GOVERNANCE_ROLE | P_CIRCLE

datatype data_ownership = Own_corgtex_postgres | Own_satellite

datatype graduation_stage = Stage_embed | Stage_dual_write | Stage_cutover

record module_grant =
  grant_module :: string
  grant_principal_type :: grant_principal
  grant_principal_id :: string
  grant_level :: access_level

record access_context =
  ctx_role :: "member_role option"
  ctx_member :: "string option"
  ctx_governance_roles :: "string list"
  ctx_circles :: "string list"
  ctx_flags :: "(string \<times> bool) list"
  ctx_grants :: "module_grant list"

record feature_flag =
  ff_flag :: string
  ff_label :: string
  ff_description :: string
  ff_default :: bool

record module_nav =
  nav_href :: string
  nav_label :: string
  nav_icon :: string
  nav_group :: string
  nav_mobile_order :: "int option"
  nav_capability :: "string option"

record module_capability =
  mc_key :: string
  mc_description :: string
  mc_scopes :: "string list"

record satellite_spec =
  sat_appKey :: string
  sat_repository :: string
  sat_appUrlEnv :: string
  sat_mcpUrlEnv :: string
  sat_appCategory :: string
  sat_routingCategory :: string
  sat_dataClassification :: string

record module_graduation =
  grad_stage :: graduation_stage
  grad_embed_in :: "string option"

record module_manifest =
  mm_key :: string
  mm_tier :: module_tier
  mm_title :: string
  mm_description :: string
  mm_flag :: "feature_flag option"
  mm_subflags :: "feature_flag list"
  mm_nav :: "module_nav option"
  mm_scopes :: "string list"
  mm_ownership :: data_ownership
  mm_contract :: "module_capability list"
  mm_satellite :: "satellite_spec option"
  mm_graduation :: "module_graduation option"
  mm_default_access :: "(member_role \<times> access_level) list option"

text \<open>The \<^verbatim>\<open>MemberRole\<close> strings a grant to a member role is compared with.\<close>

fun role_key :: "member_role \<Rightarrow> string" where
  "role_key CONTRIBUTOR = ''CONTRIBUTOR''"
| "role_key FACILITATOR = ''FACILITATOR''"
| "role_key FINANCE_STEWARD = ''FINANCE_STEWARD''"
| "role_key ADMIN = ''ADMIN''"

section \<open>Access levels\<close>

fun access_level_rank :: "access_level \<Rightarrow> nat" where
  "access_level_rank Access_none = 0"
| "access_level_rank Access_read = 1"
| "access_level_rank Access_write = 2"

definition maxAccessLevel :: "access_level \<Rightarrow> access_level \<Rightarrow> access_level" where
  "maxAccessLevel a b = (if access_level_rank a \<ge> access_level_rank b then a else b)"

definition isAtLeast :: "access_level \<Rightarrow> access_level \<Rightarrow> bool" where
  "isAtLeast l required \<longleftrightarrow> access_level_rank l \<ge> access_level_rank required"

text \<open>The rank table orders the levels linearly.\<close>

lemma access_level_rank_inj: "access_level_rank a = access_level_rank b \<longleftrightarrow> a = b"
  by (cases a; cases b) simp_all

instantiation access_level :: linorder
begin

definition less_eq_access_level :: "access_level \<Rightarrow> access_level \<Rightarrow> bool" where
  "less_eq_access_level a b \<longleftrightarrow> access_level_rank a \<le> access_level_rank b"

definition less_access_level :: "access_level \<Rightarrow> access_level \<Rightarrow> bool" where
  "less_access_level a b \<longleftrightarrow> access_level_rank a < access_level_rank b"

instance
  by standard (auto simp: less_eq_access_level_def less_access_level_def access_level_rank_inj)

end

lemma maxAccessLevel_max: "maxAccessLevel a b = max a b"
  by (cases a; cases b) (simp_all add: maxAccessLevel_def max_def less_eq_access_level_def)

lemma isAtLeast_le: "isAtLeast l r \<longleftrightarrow> r \<le> l"
  by (simp add: isAtLeast_def less_eq_access_level_def)

lemma Access_none_least [simp]: "Access_none \<le> l"
  by (cases l) (simp_all add: less_eq_access_level_def)

lemma le_Access_none [simp]: "l \<le> Access_none \<longleftrightarrow> l = Access_none"
  by (cases l) (simp_all add: less_eq_access_level_def)

section \<open>The resolver\<close>

definition isModuleEnabled :: "module_manifest \<Rightarrow> (string \<times> bool) list \<Rightarrow> bool" where
  "isModuleEnabled m flags =
     (case mm_flag m of
        None \<Rightarrow> True
      | Some ff \<Rightarrow> (case map_of flags (ff_flag ff) of None \<Rightarrow> False | Some b \<Rightarrow> b))"

definition moduleDefaultAccess :: "module_manifest \<Rightarrow> member_role option \<Rightarrow> access_level" where
  "moduleDefaultAccess m role =
     (case mm_default_access m of
        Some policy \<Rightarrow>
          (case role of
             None \<Rightarrow> Access_none
           | Some r \<Rightarrow> (case map_of policy r of None \<Rightarrow> Access_none | Some l \<Rightarrow> l))
      | None \<Rightarrow> (if mm_nav m \<noteq> None then Access_read else Access_none))"

fun grantMatchesContext :: "module_grant \<Rightarrow> access_context \<Rightarrow> bool" where
  "grantMatchesContext g ctx =
     (case grant_principal_type g of
        P_MEMBER \<Rightarrow> ctx_member ctx = Some (grant_principal_id g)
      | P_MEMBER_ROLE \<Rightarrow>
          (case ctx_role ctx of None \<Rightarrow> False | Some r \<Rightarrow> grant_principal_id g = role_key r)
      | P_GOVERNANCE_ROLE \<Rightarrow> grant_principal_id g \<in> set (ctx_governance_roles ctx)
      | P_CIRCLE \<Rightarrow> grant_principal_id g \<in> set (ctx_circles ctx))"

declare grantMatchesContext.simps [simp del]

definition resolveModuleAccess :: "access_context \<Rightarrow> module_manifest \<Rightarrow> access_level" where
  "resolveModuleAccess ctx m =
     fold (\<lambda>g level.
             if grant_module g \<noteq> mm_key m then level
             else if grantMatchesContext g ctx then maxAccessLevel level (grant_level g)
             else level)
       (ctx_grants ctx)
       (if isModuleEnabled m (ctx_flags ctx) then moduleDefaultAccess m (ctx_role ctx)
        else Access_none)"

definition MEMBER_ROLE_KEYS :: "member_role list" where
  "MEMBER_ROLE_KEYS = [CONTRIBUTOR, FACILITATOR, FINANCE_STEWARD, ADMIN]"

definition rolesWithDefaultAccess :: "module_manifest \<Rightarrow> access_level \<Rightarrow> member_role list" where
  "rolesWithDefaultAccess m required =
     filter (\<lambda>role. isAtLeast (moduleDefaultAccess m (Some role)) required) MEMBER_ROLE_KEYS"

definition resolveAllModuleAccess ::
    "access_context \<Rightarrow> module_manifest list \<Rightarrow> (string \<times> access_level) list" where
  "resolveAllModuleAccess ctx mods =
     fold (\<lambda>m result. AList.update (mm_key m) (resolveModuleAccess ctx m) result) mods []"

section \<open>Aggregating grants: the interface\<close>

text \<open>
  The resolver needs from its level type only a join.  The laws below give that the result of
  the loop is the least upper bound of its start and the selected levels, whatever the order
  in which the rows are read.
\<close>

locale level_join =
  fixes join :: "'l::linorder \<Rightarrow> 'l \<Rightarrow> 'l"
    and select :: "'g \<Rightarrow> bool"
    and level_of :: "'g \<Rightarrow> 'l"
  assumes join_upper1: "a \<le> join a b"
    and join_upper2: "b \<le> join a b"
    and join_least: "a \<le> c \<Longrightarrow> b \<le> c \<Longrightarrow> join a b \<le> c"
begin

definition step :: "'g \<Rightarrow> 'l \<Rightarrow> 'l" where
  "step g l = (if select g then join l (level_of g) else l)"

lemma start_le_fold: "l \<le> fold step gs l"
proof (induction gs arbitrary: l)
  case (Cons g gs)
  have "l \<le> step g l" by (simp add: step_def join_upper1)
  also have "\<dots> \<le> fold step gs (step g l)" by (rule Cons.IH)
  finally show ?case by simp
qed simp

lemma selected_le_fold: "g \<in> set gs \<Longrightarrow> select g \<Longrightarrow> level_of g \<le> fold step gs l"
proof (induction gs arbitrary: l)
  case (Cons h gs)
  show ?case
  proof (cases "g = h")
    case True
    with Cons.prems(2) have "level_of g \<le> step h l" by (simp add: step_def join_upper2)
    also have "\<dots> \<le> fold step gs (step h l)" by (rule start_le_fold)
    finally show ?thesis by simp
  next
    case False
    with Cons show ?thesis by simp
  qed
qed simp

lemma fold_least:
  "l \<le> c \<Longrightarrow> (\<And>g. g \<in> set gs \<Longrightarrow> select g \<Longrightarrow> level_of g \<le> c) \<Longrightarrow> fold step gs l \<le> c"
  by (induction gs arbitrary: l) (auto simp: step_def join_least)

lemma fold_le_iff:
  "fold step gs l \<le> c \<longleftrightarrow> l \<le> c \<and> (\<forall>g \<in> set gs. select g \<longrightarrow> level_of g \<le> c)"
  using start_le_fold selected_le_fold fold_least by (meson order_trans)

lemma fold_order_irrelevant: "set gs = set hs \<Longrightarrow> fold step gs l = fold step hs l"
  by (rule order_antisym) (simp_all add: fold_le_iff selected_le_fold start_le_fold)

end

text \<open>The grant table of the code provides the interface.\<close>

definition grant_selected :: "access_context \<Rightarrow> module_manifest \<Rightarrow> module_grant \<Rightarrow> bool" where
  "grant_selected ctx m g \<longleftrightarrow> grant_module g = mm_key m \<and> grantMatchesContext g ctx"

interpretation grants: level_join maxAccessLevel "grant_selected ctx m" grant_level
  for ctx m
  by unfold_locales (auto simp: maxAccessLevel_max)

definition org_level :: "access_context \<Rightarrow> module_manifest \<Rightarrow> access_level" where
  "org_level ctx m =
     (if isModuleEnabled m (ctx_flags ctx) then moduleDefaultAccess m (ctx_role ctx)
      else Access_none)"

lemma resolve_as_fold:
  "resolveModuleAccess ctx m = fold (grants.step ctx m) (ctx_grants ctx) (org_level ctx m)"
proof -
  have "(\<lambda>g level. if grant_module g \<noteq> mm_key m then level
          else if grantMatchesContext g ctx then maxAccessLevel level (grant_level g) else level)
        = grants.step ctx m"
    by (rule ext)+ (simp add: grants.step_def grant_selected_def)
  then show ?thesis by (simp add: resolveModuleAccess_def org_level_def)
qed

section \<open>Properties of the resolver\<close>

lemma resolve_le_iff:
  "resolveModuleAccess ctx m \<le> c \<longleftrightarrow>
   org_level ctx m \<le> c \<and> (\<forall>g \<in> set (ctx_grants ctx). grant_selected ctx m g \<longrightarrow> grant_level g \<le> c)"
  unfolding resolve_as_fold by (rule grants.fold_le_iff)

text \<open>
  C5: the effective access of a member to a module is the least upper bound of
  the module's organisation default (none while the feature flag is off) and of the levels of
  exactly those grants that name the module and a principal of the member; a grant counts whether the
  module is enabled or not.
\<close>

theorem resolveModuleAccess_is_lub:
  "resolveModuleAccess ctx m =
     Max (insert (if isModuleEnabled m (ctx_flags ctx) then moduleDefaultAccess m (ctx_role ctx)
                  else Access_none)
            (grant_level ` {g \<in> set (ctx_grants ctx).
               grant_module g = mm_key m \<and> grantMatchesContext g ctx}))"
    (is "_ = Max (insert ?d ?G)")
proof (rule order_antisym)
  have "finite ?G" by simp
  then have mem: "\<And>x. x \<in> insert ?d ?G \<Longrightarrow> x \<le> Max (insert ?d ?G)" by (intro Max_ge) auto
  show "resolveModuleAccess ctx m \<le> Max (insert ?d ?G)"
    unfolding resolve_le_iff org_level_def by (auto simp: grant_selected_def intro!: mem)
  have "org_level ctx m \<le> resolveModuleAccess ctx m"
    using resolve_le_iff [of ctx m "resolveModuleAccess ctx m"] by blast
  moreover have "\<And>g. g \<in> set (ctx_grants ctx) \<Longrightarrow> grant_selected ctx m g \<Longrightarrow>
      grant_level g \<le> resolveModuleAccess ctx m"
    using resolve_le_iff [of ctx m "resolveModuleAccess ctx m"] by blast
  ultimately show "Max (insert ?d ?G) \<le> resolveModuleAccess ctx m"
    by (auto simp: org_level_def grant_selected_def)
qed

text \<open>
  A grant opens a module that the organisation has not enabled, which the header of the file and the
  description of the resolver deny (the comment inside it says so).
\<close>

lemma grant_opens_disabled_module:
  assumes "\<not> isModuleEnabled m (ctx_flags ctx)" "g \<in> set (ctx_grants ctx)" "grant_module g = mm_key m"
    "grantMatchesContext g ctx"
  shows "grant_level g \<le> resolveModuleAccess ctx m"
  using assms resolve_le_iff [of ctx m "resolveModuleAccess ctx m"] by (simp add: grant_selected_def)

text \<open>
  A member who holds at least the required level through the resolver
  either has it from the organisation default of an enabled module, or holds a matching grant of
  at least that level; in particular write access to a disabled module always traces to a grant.
\<close>

lemma isAtLeast_resolved_has_reason:
  "isAtLeast (resolveModuleAccess ctx m) required \<longleftrightarrow>
     required = Access_none
     \<or> isModuleEnabled m (ctx_flags ctx) \<and> isAtLeast (moduleDefaultAccess m (ctx_role ctx)) required
     \<or> (\<exists>g. g \<in> set (ctx_grants ctx) \<and> grant_module g = mm_key m
            \<and> grantMatchesContext g ctx \<and> isAtLeast (grant_level g) required)"
    (is "?l \<longleftrightarrow> ?r")
proof
  assume ?r
  then show ?l
    using resolve_le_iff [of ctx m "resolveModuleAccess ctx m"]
    by (auto simp: isAtLeast_le org_level_def grant_selected_def intro: order_trans)
next
  assume l: ?l
  show ?r
  proof (rule ccontr)
    assume "\<not> ?r"
    then have neg: "required \<noteq> Access_none" "\<not> required \<le> org_level ctx m"
      "\<And>g. g \<in> set (ctx_grants ctx) \<Longrightarrow> grant_selected ctx m g \<Longrightarrow> grant_level g < required"
      by (auto simp: isAtLeast_le org_level_def grant_selected_def not_le less_le)
    define c where "c = (if required = Access_write then Access_read else Access_none)"
    have below: "\<And>l. l < required \<longleftrightarrow> l \<le> c" using neg(1)
      by (case_tac l; cases required) (simp_all add: c_def less_eq_access_level_def less_access_level_def)
    have "resolveModuleAccess ctx m \<le> c"
      unfolding resolve_le_iff using neg(2,3) by (simp add: not_le flip: below)
    then have "resolveModuleAccess ctx m < required" by (simp add: below)
    then show False using l by (simp add: isAtLeast_le not_le flip: not_le)
  qed
qed

end
