(* ===== verification/Module_Registry.thy ===== *)
theory Module_Registry
  imports Module_Access
begin

text \<open>
  The module manifest registry of \<^verbatim>\<open>packages/domain/src/modules/registry.ts\<close>: the table of
  module manifests, the canonical order of the workspace feature flags and the functions the
  control plane, the navigation and the MCP scope checks derive from them.

  The functions read one constant table.  The ones whose contract does not depend on its
  contents (the flag index, the scope ownership) are stated over any list of manifests first
  and then applied to the table, so that what they promise is separate from what the table
  holds.  A \<^verbatim>\<open>Map\<close> is an association list in insertion order.
\<close>

section \<open>The table\<close>

definition flag :: "string \<Rightarrow> string \<Rightarrow> string \<Rightarrow> bool \<Rightarrow> feature_flag" where
  "flag flagKey label description defaultEnabled =
     \<lparr>ff_flag = flagKey, ff_label = label, ff_description = description,
      ff_default = defaultEnabled\<rparr>"

definition WORKSPACE_FEATURE_FLAG_ORDER :: "string list" where
  "WORKSPACE_FEATURE_FLAG_ORDER = [
    ''GOALS'', ''BRAIN_SOURCE_REMOVAL'', ''TOOL_LINKS'', ''FINANCE'', ''FINANCE_PROJECTS'',
    ''FINANCE_CLIENTS'', ''FINANCE_CONSULTANTS'', ''FINANCE_TIME'', ''FINANCE_EXPENSES'',
    ''FINANCE_REPORTS'', ''FINANCE_SLICING_PIE'', ''FINANCE_CAPITAL'', ''BUILD_ARTIFACTS'',
    ''RELATIONSHIPS'', ''CONTEXT_MAPS'', ''AGENT_GOVERNANCE'', ''OS_METRICS'',
    ''SETTINGS_GENERAL'', ''MULTILINGUAL'', ''MEETING_TRANSCRIPT_SOURCES'',
    ''MEETING_RECORDERS'', ''MEETING_CONTEXTUAL_INTELLIGENCE'', ''CONTEXT_MAP_AI'',
    ''SLACK_MEETING_ACTION_REVIEW'', ''AI_WORKSPACES'', ''OPENWORK_DEFAULT'',
    ''EXECUTION_PACKETS'', ''MANAGED_ENTERPRISE_SERVICES'']"

definition workspace_modules :: "module_manifest list" where
  "workspace_modules = [
    \<lparr>mm_key = ''home'', mm_tier = Tier_core, mm_title = ''Home'',
      mm_description = ''Workspace home dashboard.'',
      mm_flag = None,
      mm_subflags = [],
      mm_nav = Some (\<lparr>nav_href = '''', nav_label = ''home'', nav_icon = ''home'', nav_group = ''workspace'',
        nav_mobile_order = Some 10, nav_capability = None\<rparr>),
      mm_scopes = [],
      mm_ownership = Own_corgtex_postgres, mm_contract = [], mm_satellite = None, mm_graduation = None,
      mm_default_access = None\<rparr>,
    \<lparr>mm_key = ''goals'', mm_tier = Tier_first_party, mm_title = ''Goals'',
      mm_description = ''Goal trees, recognition, and progress tracking.'',
      mm_flag = Some (flag ''GOALS'' ''Goals''
         ''Goal trees, recognition, and progress tracking.'' True),
      mm_subflags = [],
      mm_nav = Some (\<lparr>nav_href = ''/goals'', nav_label = ''goals'', nav_icon = ''goals'', nav_group = ''workspace'',
        nav_mobile_order = None, nav_capability = None\<rparr>),
      mm_scopes = [''goals:read'', ''goals:write''],
      mm_ownership = Own_corgtex_postgres, mm_contract = [], mm_satellite = None, mm_graduation = None,
      mm_default_access = None\<rparr>,
    \<lparr>mm_key = ''brain'', mm_tier = Tier_core, mm_title = ''Brain'',
      mm_description = ''Organizational knowledge base.'',
      mm_flag = None,
      mm_subflags = [flag ''BRAIN_SOURCE_REMOVAL'' ''Brain source removal''
         ''Reviewed removal of sources linked to Brain articles. Enable only after compatible workers are deployed.'' False],
      mm_nav = Some (\<lparr>nav_href = ''/brain'', nav_label = ''brain'', nav_icon = ''brain'', nav_group = ''workspace'',
        nav_mobile_order = None, nav_capability = None\<rparr>),
      mm_scopes = [''brain:read'', ''brain:write''],
      mm_ownership = Own_corgtex_postgres, mm_contract = [], mm_satellite = None, mm_graduation = None,
      mm_default_access = None\<rparr>,
    \<lparr>mm_key = ''tools'', mm_tier = Tier_first_party, mm_title = ''Tools catalog'',
      mm_description = ''Shared tool links, catalog approvals, and credentials.'',
      mm_flag = Some (flag ''TOOL_LINKS'' ''Tools catalog''
         ''Shared tool links, catalog approvals, and credentials.'' False),
      mm_subflags = [],
      mm_nav = Some (\<lparr>nav_href = ''/tools'', nav_label = ''tools'', nav_icon = ''tools'', nav_group = ''workspace'',
        nav_mobile_order = None, nav_capability = None\<rparr>),
      mm_scopes = [''tools:read'', ''tools:write'', ''tools:credentials:read''],
      mm_ownership = Own_corgtex_postgres, mm_contract = [], mm_satellite = None, mm_graduation = None,
      mm_default_access = None\<rparr>,
    \<lparr>mm_key = ''built'', mm_tier = Tier_first_party, mm_title = ''Build artifacts'',
      mm_description = ''Workspace build artifact publishing and review.'',
      mm_flag = Some (flag ''BUILD_ARTIFACTS'' ''Build artifacts''
         ''Workspace build artifact publishing and review.'' False),
      mm_subflags = [],
      mm_nav = Some (\<lparr>nav_href = ''/built'', nav_label = ''built'', nav_icon = ''built'', nav_group = ''workspace'',
        nav_mobile_order = None, nav_capability = None\<rparr>),
      mm_scopes = [],
      mm_ownership = Own_corgtex_postgres, mm_contract = [], mm_satellite = None, mm_graduation = None,
      mm_default_access = None\<rparr>,
    \<lparr>mm_key = ''members'', mm_tier = Tier_core, mm_title = ''Members'',
      mm_description = ''Workspace members directory.'',
      mm_flag = None,
      mm_subflags = [],
      mm_nav = Some (\<lparr>nav_href = ''/members'', nav_label = ''members'', nav_icon = ''members'', nav_group = ''workspace'',
        nav_mobile_order = None, nav_capability = None\<rparr>),
      mm_scopes = [''members:read'', ''members:write''],
      mm_ownership = Own_corgtex_postgres, mm_contract = [], mm_satellite = None, mm_graduation = None,
      mm_default_access = None\<rparr>]"

definition operations_modules :: "module_manifest list" where
  "operations_modules = [
    \<lparr>mm_key = ''tensions'', mm_tier = Tier_core, mm_title = ''Tensions'',
      mm_description = ''Tension capture and triage.'',
      mm_flag = None,
      mm_subflags = [],
      mm_nav = Some (\<lparr>nav_href = ''/tensions'', nav_label = ''tensions'', nav_icon = ''tensions'', nav_group = ''operations'',
        nav_mobile_order = Some 20, nav_capability = None\<rparr>),
      mm_scopes = [''tensions:read'', ''tensions:write''],
      mm_ownership = Own_corgtex_postgres, mm_contract = [], mm_satellite = None, mm_graduation = None,
      mm_default_access = None\<rparr>,
    \<lparr>mm_key = ''actions'', mm_tier = Tier_core, mm_title = ''Actions'',
      mm_description = ''Action items and assignments.'',
      mm_flag = None,
      mm_subflags = [],
      mm_nav = Some (\<lparr>nav_href = ''/actions'', nav_label = ''actions'', nav_icon = ''actions'', nav_group = ''operations'',
        nav_mobile_order = Some 30, nav_capability = None\<rparr>),
      mm_scopes = [''actions:read'', ''actions:write''],
      mm_ownership = Own_corgtex_postgres, mm_contract = [], mm_satellite = None, mm_graduation = None,
      mm_default_access = None\<rparr>,
    \<lparr>mm_key = ''meetings'', mm_tier = Tier_core, mm_title = ''Meetings'',
      mm_description = ''Meeting intake, summaries, and follow-up.'',
      mm_flag = None,
      mm_subflags = [flag ''MEETING_TRANSCRIPT_SOURCES'' ''Meeting transcript sources''
         ''Import transcripts from existing meeting recorders and upload exports.'' False,
       flag ''MEETING_RECORDERS'' ''Meeting recorders''
         ''Managed meeting recorder entitlement and recorder config.'' False,
       flag ''MEETING_CONTEXTUAL_INTELLIGENCE'' ''Context-aware meeting intelligence''
         ''Use workspace context to summarize meetings and automatically update related governance records.'' False,
       flag ''SLACK_MEETING_ACTION_REVIEW'' ''Slack meeting action review''
         ''Post meeting summaries and proposed action-item follow-ups to an approved Slack review surface before action creation.'' False],
      mm_nav = Some (\<lparr>nav_href = ''/meetings'', nav_label = ''meetings'', nav_icon = ''meetings'', nav_group = ''operations'',
        nav_mobile_order = None, nav_capability = None\<rparr>),
      mm_scopes = [''meetings:read'', ''meetings:write''],
      mm_ownership = Own_corgtex_postgres, mm_contract = [], mm_satellite = None, mm_graduation = None,
      mm_default_access = None\<rparr>,
    \<lparr>mm_key = ''relationships'', mm_tier = Tier_first_party, mm_title = ''Relationships'',
      mm_description = ''CRM, leads, and relationship workspace views.'',
      mm_flag = Some (flag ''RELATIONSHIPS'' ''Relationships''
         ''CRM, leads, and relationship workspace views.'' True),
      mm_subflags = [],
      mm_nav = Some (\<lparr>nav_href = ''/leads'', nav_label = ''relationships'', nav_icon = ''relationships'', nav_group = ''operations'',
        nav_mobile_order = None, nav_capability = None\<rparr>),
      mm_scopes = [''relationships:read'', ''relationships:write''],
      mm_ownership = Own_corgtex_postgres, mm_contract = [], mm_satellite = None, mm_graduation = None,
      mm_default_access = None\<rparr>,
    \<lparr>mm_key = ''context-maps'', mm_tier = Tier_first_party, mm_title = ''Context maps'',
      mm_description = ''Living company context graph maps, graph evidence, and region-scoped agent context.'',
      mm_flag = Some (flag ''CONTEXT_MAPS'' ''Context maps''
         ''Living company context graph maps, graph evidence, and region-scoped agent context.'' False),
      mm_subflags = [flag ''CONTEXT_MAP_AI'' ''Context map AI''
         ''Premium chat tools for reading, reasoning about, and applying living context map graph changes.'' False],
      mm_nav = Some (\<lparr>nav_href = ''/maps'', nav_label = ''contextMaps'', nav_icon = ''contextMaps'', nav_group = ''operations'',
        nav_mobile_order = None, nav_capability = None\<rparr>),
      mm_scopes = [''context-graph:read'', ''context-graph:propose'', ''context-graph:approve''],
      mm_ownership = Own_corgtex_postgres, mm_contract = [], mm_satellite = None, mm_graduation = None,
      mm_default_access = None\<rparr>]"

definition governance_modules :: "module_manifest list" where
  "governance_modules = [
    \<lparr>mm_key = ''agreements'', mm_tier = Tier_core, mm_title = ''Agreements'',
      mm_description = ''Constitution, accepted policies, and working agreements.'',
      mm_flag = None,
      mm_subflags = [],
      mm_nav = Some (\<lparr>nav_href = ''/agreements'', nav_label = ''agreements'', nav_icon = ''agreements'', nav_group = ''governance'',
        nav_mobile_order = None, nav_capability = None\<rparr>),
      mm_scopes = [],
      mm_ownership = Own_corgtex_postgres, mm_contract = [], mm_satellite = None, mm_graduation = None,
      mm_default_access = None\<rparr>,
    \<lparr>mm_key = ''decisions'', mm_tier = Tier_core, mm_title = ''Decision Register'',
      mm_description = ''Key workspace decisions and their related work.'',
      mm_flag = None,
      mm_subflags = [],
      mm_nav = Some (\<lparr>nav_href = ''/decisions'', nav_label = ''decisions'', nav_icon = ''decisions'', nav_group = ''governance'',
        nav_mobile_order = None, nav_capability = None\<rparr>),
      mm_scopes = [],
      mm_ownership = Own_corgtex_postgres, mm_contract = [], mm_satellite = None, mm_graduation = None,
      mm_default_access = None\<rparr>,
    \<lparr>mm_key = ''proposals'', mm_tier = Tier_core, mm_title = ''Proposals'',
      mm_description = ''Governance proposals and decisions.'',
      mm_flag = None,
      mm_subflags = [],
      mm_nav = Some (\<lparr>nav_href = ''/proposals'', nav_label = ''proposals'', nav_icon = ''proposals'', nav_group = ''governance'',
        nav_mobile_order = Some 50, nav_capability = None\<rparr>),
      mm_scopes = [''proposals:read'', ''proposals:write''],
      mm_ownership = Own_corgtex_postgres, mm_contract = [], mm_satellite = None, mm_graduation = None,
      mm_default_access = None\<rparr>,
    \<lparr>mm_key = ''circles'', mm_tier = Tier_core, mm_title = ''Circles'',
      mm_description = ''Circle structure, domains, and membership map.'',
      mm_flag = None,
      mm_subflags = [],
      mm_nav = Some (\<lparr>nav_href = ''/circles'', nav_label = ''circles'', nav_icon = ''circles'', nav_group = ''governance'',
        nav_mobile_order = None, nav_capability = None\<rparr>),
      mm_scopes = [''circles:read''],
      mm_ownership = Own_corgtex_postgres, mm_contract = [], mm_satellite = None, mm_graduation = None,
      mm_default_access = None\<rparr>,
    \<lparr>mm_key = ''roles'', mm_tier = Tier_core, mm_title = ''Roles'',
      mm_description = ''Role directory, staffing, and holder portfolios.'',
      mm_flag = None,
      mm_subflags = [],
      mm_nav = Some (\<lparr>nav_href = ''/roles'', nav_label = ''roles'', nav_icon = ''roles'', nav_group = ''governance'',
        nav_mobile_order = None, nav_capability = None\<rparr>),
      mm_scopes = [],
      mm_ownership = Own_corgtex_postgres, mm_contract = [], mm_satellite = None, mm_graduation = None,
      mm_default_access = None\<rparr>]"

definition finance_system_modules :: "module_manifest list" where
  "finance_system_modules = [
    \<lparr>mm_key = ''finance'', mm_tier = Tier_first_party, mm_title = ''Finance'',
      mm_description = ''Clean workspace shell for future finance workflows.'',
      mm_flag = Some (flag ''FINANCE'' ''Finance''
         ''Clean Finance workspace shell.'' True),
      mm_subflags = [flag ''FINANCE_PROJECTS'' ''Finance projects''
         ''Native Finance project records and project-level financial tracking.'' False,
       flag ''FINANCE_CLIENTS'' ''Finance clients''
         ''Native Finance client records.'' False,
       flag ''FINANCE_CONSULTANTS'' ''Finance consultants''
         ''Native Finance consultant records.'' False,
       flag ''FINANCE_TIME'' ''Finance time''
         ''Native Finance time-entry records.'' False,
       flag ''FINANCE_EXPENSES'' ''Finance expenses''
         ''Native Finance expense records.'' False,
       flag ''FINANCE_REPORTS'' ''Finance reports''
         ''Native Finance reporting summaries.'' False,
       flag ''FINANCE_SLICING_PIE'' ''Finance Slicing Pie''
         ''Native Finance Slicing Pie contribution tracking.'' False,
       flag ''FINANCE_CAPITAL'' ''Finance capital''
         ''Native Finance capital contribution tracking.'' False],
      mm_nav = Some (\<lparr>nav_href = ''/finance'', nav_label = ''finance'', nav_icon = ''finance'', nav_group = ''finance'',
        nav_mobile_order = None, nav_capability = None\<rparr>),
      mm_scopes = [''finance:read'', ''finance:write''],
      mm_ownership = Own_corgtex_postgres, mm_contract = [], mm_satellite = None, mm_graduation = None,
      mm_default_access = Some [(CONTRIBUTOR, Access_read), (FACILITATOR, Access_read), (FINANCE_STEWARD, Access_write), (ADMIN, Access_write)]\<rparr>,
    \<lparr>mm_key = ''agent-governance'', mm_tier = Tier_first_party, mm_title = ''Agent governance'',
      mm_description = ''Agent registry, access, spend, and observability controls.'',
      mm_flag = Some (flag ''AGENT_GOVERNANCE'' ''Agent governance''
         ''Agent registry, access, spend, and observability controls.'' True),
      mm_subflags = [],
      mm_nav = Some (\<lparr>nav_href = ''/agents'', nav_label = ''agentGovernance'', nav_icon = ''agents'', nav_group = ''aiGovernance'',
        nav_mobile_order = None, nav_capability = Some ''canManageAgentGovernance''\<rparr>),
      mm_scopes = [''agents:read'', ''runtime:read'', ''runtime:write''],
      mm_ownership = Own_corgtex_postgres, mm_contract = [], mm_satellite = None, mm_graduation = None,
      mm_default_access = None\<rparr>,
    \<lparr>mm_key = ''os-metrics'', mm_tier = Tier_first_party, mm_title = ''OS metrics'',
      mm_description = ''Governance health and operating-system metrics.'',
      mm_flag = Some (flag ''OS_METRICS'' ''OS metrics''
         ''Governance health and operating-system metrics.'' True),
      mm_subflags = [],
      mm_nav = Some (\<lparr>nav_href = ''/governance'', nav_label = ''osMetrics'', nav_icon = ''governance'', nav_group = ''system'',
        nav_mobile_order = None, nav_capability = None\<rparr>),
      mm_scopes = [],
      mm_ownership = Own_corgtex_postgres, mm_contract = [], mm_satellite = None, mm_graduation = None,
      mm_default_access = None\<rparr>,
    \<lparr>mm_key = ''audit'', mm_tier = Tier_core, mm_title = ''Audit trail'',
      mm_description = ''Workspace audit log.'',
      mm_flag = None,
      mm_subflags = [],
      mm_nav = Some (\<lparr>nav_href = ''/audit'', nav_label = ''auditTrail'', nav_icon = ''audit'', nav_group = ''system'',
        nav_mobile_order = None, nav_capability = None\<rparr>),
      mm_scopes = [],
      mm_ownership = Own_corgtex_postgres, mm_contract = [], mm_satellite = None, mm_graduation = None,
      mm_default_access = None\<rparr>,
    \<lparr>mm_key = ''notifications'', mm_tier = Tier_core, mm_title = ''Notifications'',
      mm_description = ''Workspace notifications.'',
      mm_flag = None,
      mm_subflags = [],
      mm_nav = Some (\<lparr>nav_href = ''/notifications'', nav_label = ''notifications'', nav_icon = ''notifications'', nav_group = ''system'',
        nav_mobile_order = Some 40, nav_capability = None\<rparr>),
      mm_scopes = [],
      mm_ownership = Own_corgtex_postgres, mm_contract = [], mm_satellite = None, mm_graduation = None,
      mm_default_access = None\<rparr>,
    \<lparr>mm_key = ''settings'', mm_tier = Tier_core, mm_title = ''Settings'',
      mm_description = ''Workspace settings.'',
      mm_flag = None,
      mm_subflags = [flag ''SETTINGS_GENERAL'' ''General settings''
         ''General workspace configuration screens.'' True],
      mm_nav = Some (\<lparr>nav_href = ''/settings'', nav_label = ''settings'', nav_icon = ''settings'', nav_group = ''system'',
        nav_mobile_order = None, nav_capability = None\<rparr>),
      mm_scopes = [],
      mm_ownership = Own_corgtex_postgres, mm_contract = [], mm_satellite = None, mm_graduation = None,
      mm_default_access = None\<rparr>]"

definition headless_modules :: "module_manifest list" where
  "headless_modules = [
    \<lparr>mm_key = ''multilingual'', mm_tier = Tier_core, mm_title = ''Multilingual'',
      mm_description = ''Locale switcher and translated workspace UI.'',
      mm_flag = Some (flag ''MULTILINGUAL'' ''Multilingual''
         ''Locale switcher and translated workspace UI.'' False),
      mm_subflags = [],
      mm_nav = None,
      mm_scopes = [],
      mm_ownership = Own_corgtex_postgres, mm_contract = [], mm_satellite = None, mm_graduation = None,
      mm_default_access = None\<rparr>,
    \<lparr>mm_key = ''ai-workspaces'', mm_tier = Tier_core, mm_title = ''AI workspaces'',
      mm_description = ''Catalog and setup foundation for OpenWork, ChatGPT, Claude, GitHub Copilot, Gemini, Cursor, and generic MCP clients.'',
      mm_flag = Some (flag ''AI_WORKSPACES'' ''AI workspaces''
         ''Catalog and setup foundation for OpenWork, ChatGPT, Claude, GitHub Copilot, Gemini, Cursor, and generic MCP clients.'' True),
      mm_subflags = [flag ''OPENWORK_DEFAULT'' ''OpenWork default''
         ''Recommend OpenWork as the default free self-managed AI workspace.'' False,
       flag ''MANAGED_ENTERPRISE_SERVICES'' ''Managed enterprise services''
         ''CORGTEX-managed service ownership, health, usage, and support escalation foundation.'' False],
      mm_nav = None,
      mm_scopes = [],
      mm_ownership = Own_corgtex_postgres, mm_contract = [], mm_satellite = None, mm_graduation = None,
      mm_default_access = None\<rparr>,
    \<lparr>mm_key = ''execution-packets'', mm_tier = Tier_core, mm_title = ''Execution packets'',
      mm_description = ''Durable execution request, context packet, and result write-back plumbing.'',
      mm_flag = Some (flag ''EXECUTION_PACKETS'' ''Execution packets''
         ''Durable execution request, context packet, and result write-back plumbing.'' False),
      mm_subflags = [],
      mm_nav = None,
      mm_scopes = [''execution:read'', ''execution:write''],
      mm_ownership = Own_corgtex_postgres, mm_contract = [], mm_satellite = None, mm_graduation = None,
      mm_default_access = None\<rparr>]"

definition MODULE_MANIFESTS :: "module_manifest list" where
  "MODULE_MANIFESTS =
     workspace_modules @ operations_modules @ governance_modules @ finance_system_modules
     @ headless_modules"

definition PLATFORM_SCOPES :: "string list" where
  "PLATFORM_SCOPES = [
    ''workspace:read'', ''workspace:write'', ''support:write'', ''archive:read'',
    ''archive:write'', ''conversations:write'', ''governance:read'', ''documents:write'',
    ''external-tools:read'', ''external-tools:write'', ''integrations:read'',
    ''data-sources:read'', ''data-sources:write'', ''webhooks:write'']"

section \<open>The derived functions\<close>

definition manifest_flags :: "module_manifest \<Rightarrow> feature_flag list" where
  "manifest_flags m = (case mm_flag m of None \<Rightarrow> [] | Some ff \<Rightarrow> [ff]) @ mm_subflags m"

definition getModuleManifests :: "module_manifest list" where
  "getModuleManifests = MODULE_MANIFESTS"

definition flag_definitions_of :: "module_manifest list \<Rightarrow> (string \<times> feature_flag) list" where
  "flag_definitions_of mods =
     fold (\<lambda>m byFlag. fold (\<lambda>ff. AList.update (ff_flag ff) ff) (manifest_flags m) byFlag) mods []"

definition collectFeatureFlagDefinitions :: "(string \<times> feature_flag) list" where
  "collectFeatureFlagDefinitions = flag_definitions_of MODULE_MANIFESTS"

fun lookup_flags ::
    "(string \<times> feature_flag) list \<Rightarrow> string list \<Rightarrow> feature_flag list result" where
  "lookup_flags byFlag [] = Inr []"
| "lookup_flags byFlag (k # ks) =
     (case map_of byFlag k of
        None \<Rightarrow> Inl (PlainError
           (''Module registry is missing a definition for feature flag \"'' @ k @ ''\".'') None)
      | Some d \<Rightarrow> and_then (lookup_flags byFlag ks) (\<lambda>ds. Inr (d # ds)))"

definition listWorkspaceFeatureFlagDefinitions :: "feature_flag list result" where
  "listWorkspaceFeatureFlagDefinitions =
     lookup_flags collectFeatureFlagDefinitions WORKSPACE_FEATURE_FLAG_ORDER"

definition listWorkspaceFeatureFlagKeys :: "string list" where
  "listWorkspaceFeatureFlagKeys = WORKSPACE_FEATURE_FLAG_ORDER"

definition defaultWorkspaceFeatureFlags :: "(string \<times> bool) list result" where
  "defaultWorkspaceFeatureFlags =
     and_then listWorkspaceFeatureFlagDefinitions
       (\<lambda>ds. Inr (fold (\<lambda>d defaults. AList.update (ff_flag d) (ff_default d) defaults) ds []))"

definition listNavModules :: "module_manifest list" where
  "listNavModules = filter (\<lambda>m. mm_nav m \<noteq> None) MODULE_MANIFESTS"

definition listSatelliteModules :: "module_manifest list" where
  "listSatelliteModules = filter (\<lambda>m. mm_tier m = Tier_satellite) MODULE_MANIFESTS"

definition getSatelliteModuleByAppKey :: "string \<Rightarrow> module_manifest option" where
  "getSatelliteModuleByAppKey appKey =
     find (\<lambda>m. map_option sat_appKey (mm_satellite m) = Some appKey) MODULE_MANIFESTS"

definition getModuleByKey :: "string \<Rightarrow> module_manifest option" where
  "getModuleByKey key = find (\<lambda>m. mm_key m = key) MODULE_MANIFESTS"

definition listModuleFlagKeys :: "string \<Rightarrow> string list" where
  "listModuleFlagKeys moduleKey =
     (case getModuleByKey moduleKey of
        None \<Rightarrow> []
      | Some m \<Rightarrow> map ff_flag (manifest_flags m))"

definition getSatelliteEmbedForModule :: "string \<Rightarrow> module_manifest option" where
  "getSatelliteEmbedForModule moduleKey =
     find (\<lambda>m. case mm_graduation m of
                 None \<Rightarrow> False
               | Some g \<Rightarrow> (grad_stage g = Stage_embed \<or> grad_stage g = Stage_dual_write)
                           \<and> grad_embed_in g = Some moduleKey) MODULE_MANIFESTS"

text \<open>
  \<^verbatim>\<open>listModuleScopeOwnership\<close>: the two nested loops over modules and their scopes.  A scope
  already owned by a module with another (non-empty) key throws.
\<close>

definition claim_scope ::
    "string \<Rightarrow> string \<Rightarrow> (string \<times> string) list \<Rightarrow> (string \<times> string) list result" where
  "claim_scope key scope owner =
     (case map_of owner scope of
        Some existing \<Rightarrow>
          (if existing \<noteq> [] \<and> existing \<noteq> key
           then Inl (PlainError
              (''MCP scope \"'' @ scope @ ''\" is claimed by both \"'' @ existing @ ''\" and \"'' @ key
               @ ''\". Scope ownership must be unique.'') None)
           else Inr (AList.update scope key owner))
      | None \<Rightarrow> Inr (AList.update scope key owner))"

definition scope_ownership_of :: "module_manifest list \<Rightarrow> (string \<times> string) list result" where
  "scope_ownership_of mods =
     fold_result (\<lambda>m. fold_result (claim_scope (mm_key m)) (mm_scopes m)) mods []"

definition listModuleScopeOwnership :: "(string \<times> string) list result" where
  "listModuleScopeOwnership = scope_ownership_of MODULE_MANIFESTS"

definition getModuleForScope :: "string \<Rightarrow> string option result" where
  "getModuleForScope scope = and_then listModuleScopeOwnership (\<lambda>owner. Inr (map_of owner scope))"

definition listModuleOwnedScopes :: "string list result" where
  "listModuleOwnedScopes = and_then listModuleScopeOwnership (\<lambda>owner. Inr (sort (map fst owner)))"

section \<open>Lemmas\<close>

text \<open>The two nested loops are one loop over the claims (module key, scope).\<close>

definition scope_claims :: "module_manifest list \<Rightarrow> (string \<times> string) list" where
  "scope_claims mods = concat (map (\<lambda>m. map (Pair (mm_key m)) (mm_scopes m)) mods)"

lemma fold_result_append:
  "fold_result f (xs @ ys) s = and_then (fold_result f xs s) (fold_result f ys)"
proof (induction xs arbitrary: s)
  case (Cons x xs)
  then show ?case by (cases "f x s") simp_all
qed simp

lemma fold_result_map: "fold_result f (map g xs) s = fold_result (\<lambda>x. f (g x)) xs s"
proof (induction xs arbitrary: s)
  case (Cons x xs)
  then show ?case by (cases "f (g x) s") simp_all
qed simp

lemma scope_ownership_flat:
  "scope_ownership_of mods = fold_result (\<lambda>(k, s). claim_scope k s) (scope_claims mods) []"
proof -
  have "fold_result (\<lambda>m. fold_result (claim_scope (mm_key m)) (mm_scopes m)) mods owner
        = fold_result (\<lambda>(k, s). claim_scope k s) (scope_claims mods) owner" for owner
  proof (induction mods arbitrary: owner)
    case (Cons m mods)
    then show ?case
      by (cases "fold_result (claim_scope (mm_key m)) (mm_scopes m) owner")
        (simp_all add: scope_claims_def fold_result_append fold_result_map)
  qed (simp add: scope_claims_def)
  then show ?thesis by (simp add: scope_ownership_of_def)
qed

lemma claims_owner:
  assumes "fold_result (\<lambda>(k, s). claim_scope k s) cs owner = Inr owner'"
    and "\<And>k s. (k, s) \<in> set cs \<Longrightarrow> k \<noteq> []" "\<And>s k. map_of owner s = Some k \<Longrightarrow> k \<noteq> []"
  shows "map_of owner' s = Some k \<longleftrightarrow> map_of owner s = Some k \<or> (k, s) \<in> set cs"
  using assms
proof (induction cs arbitrary: owner)
  case Nil
  then show ?case by simp
next
  case (Cons c cs)
  obtain k0 s0 where c: "c = (k0, s0)" by (cases c)
  from Cons.prems(1) obtain o1 where o1: "claim_scope k0 s0 owner = Inr o1"
    "fold_result (\<lambda>(k, s). claim_scope k s) cs o1 = Inr owner'"
    by (auto simp: c result_simps)
  then have "o1 = AList.update s0 k0 owner \<and> (map_of owner s0 = None \<or> map_of owner s0 = Some k0)"
    using Cons.prems(3) by (auto simp: claim_scope_def split: option.splits if_splits)
  then have m: "map_of o1 = (map_of owner)(s0 \<mapsto> k0)"
    and old: "map_of owner s0 = None \<or> map_of owner s0 = Some k0"
    by (simp_all add: update_conv')
  have "map_of owner' s = Some k \<longleftrightarrow> map_of o1 s = Some k \<or> (k, s) \<in> set cs"
  proof (rule Cons.IH [OF o1(2)])
    show "\<And>k s. (k, s) \<in> set cs \<Longrightarrow> k \<noteq> []" using Cons.prems(2) by (auto simp: c)
    show "\<And>s k. map_of o1 s = Some k \<Longrightarrow> k \<noteq> []"
      using Cons.prems(2,3) by (auto simp: m c split: if_splits)
  qed
  then show ?case using old by (auto simp: m c)
qed

lemma claims_succeed:
  assumes "\<And>s k k'. k = k' \<or> \<not> ((k, s) \<in> set cs \<union> {(k, s). map_of owner s = Some k}
                           \<and> (k', s) \<in> set cs \<union> {(k, s). map_of owner s = Some k})"
  shows "\<exists>owner'. fold_result (\<lambda>(k, s). claim_scope k s) cs owner = Inr owner'"
  using assms
proof (induction cs arbitrary: owner)
  case (Cons c cs)
  obtain k0 s0 where c: "c = (k0, s0)" by (cases c)
  have old: "map_of owner s0 = None \<or> map_of owner s0 = Some k0"
    using Cons.prems [of k0 "the (map_of owner s0)" s0] by (cases "map_of owner s0") (auto simp: c)
  then have "claim_scope k0 s0 owner = Inr (AList.update s0 k0 owner)"
    by (auto simp: claim_scope_def)
  moreover have "\<exists>owner'. fold_result (\<lambda>(k, s). claim_scope k s) cs (AList.update s0 k0 owner) = Inr owner'"
    by (rule Cons.IH) (use Cons.prems old in \<open>fastforce simp: update_conv' c split: if_splits\<close>)
  ultimately show ?case by (simp add: c)
qed simp

lemma registry_claims_functional:
  "list_all (\<lambda>(k, s). k \<noteq> [] \<and> list_all (\<lambda>(k', s'). s = s' \<longrightarrow> k = k') (scope_claims MODULE_MANIFESTS))
     (scope_claims MODULE_MANIFESTS)"
  by code_simp

lemma scope_claims_iff:
  "(k, s) \<in> set (scope_claims mods) \<longleftrightarrow> (\<exists>m. m \<in> set mods \<and> mm_key m = k \<and> s \<in> set (mm_scopes m))"
  by (auto simp: scope_claims_def)

lemma registry_ownership:
  obtains owner where "listModuleScopeOwnership = Inr owner"
    and "\<And>s k. map_of owner s = Some k \<longleftrightarrow> (k, s) \<in> set (scope_claims MODULE_MANIFESTS)"
proof -
  let ?cs = "scope_claims MODULE_MANIFESTS"
  have fn: "\<And>k k' s. (k, s) \<in> set ?cs \<Longrightarrow> (k', s) \<in> set ?cs \<Longrightarrow> k = k'"
    and ne: "\<And>k s. (k, s) \<in> set ?cs \<Longrightarrow> k \<noteq> []"
    using registry_claims_functional by (fastforce simp: list_all_iff)+
  obtain owner where o: "fold_result (\<lambda>(k, s). claim_scope k s) ?cs [] = Inr owner"
    using claims_succeed [of ?cs "[]"] fn by fastforce
  show ?thesis
  proof (rule that)
    show "listModuleScopeOwnership = Inr owner"
      using o by (simp add: listModuleScopeOwnership_def scope_ownership_flat)
    show "map_of owner s = Some k \<longleftrightarrow> (k, s) \<in> set ?cs" for s k
      using claims_owner [OF o] ne by simp
  qed
qed

lemma registry_flags_check:
  "case listWorkspaceFeatureFlagDefinitions of
     Inl _ \<Rightarrow> False
   | Inr ds \<Rightarrow>
       map ff_flag ds = listWorkspaceFeatureFlagKeys \<and> distinct (map ff_flag ds)
       \<and> list_all (\<lambda>d. List.member (concat (map manifest_flags MODULE_MANIFESTS)) d) ds
       \<and> list_all (\<lambda>d. List.member ds d) (concat (map manifest_flags MODULE_MANIFESTS))
       \<and> defaultWorkspaceFeatureFlags = Inr (map (\<lambda>d. (ff_flag d, ff_default d)) ds)"
  by code_simp

section \<open>Properties of the registry\<close>

text \<open>
  The ownership check of the shipped registry never throws, and the
  module it reports for a scope is exactly the one whose manifest declares the scope, so a scope
  has at most one owner and a scope no manifest declares (every platform scope) has none.
\<close>

lemma getModuleForScope_owner:
  "(getModuleForScope s = Inr (Some k) \<longleftrightarrow>
      (\<exists>m. m \<in> set MODULE_MANIFESTS \<and> mm_key m = k \<and> s \<in> set (mm_scopes m)))
   \<and> (getModuleForScope s = Inr None \<longleftrightarrow> s \<notin> (\<Union>m \<in> set MODULE_MANIFESTS. set (mm_scopes m)))
   \<and> (\<exists>r. getModuleForScope s = Inr r)"
proof -
  obtain owner where o: "listModuleScopeOwnership = Inr owner"
    and m: "\<And>s k. map_of owner s = Some k \<longleftrightarrow> (k, s) \<in> set (scope_claims MODULE_MANIFESTS)"
    using registry_ownership by blast
  have "map_of owner s = None \<longleftrightarrow> (\<forall>k. (k, s) \<notin> set (scope_claims MODULE_MANIFESTS))"
    using m by (metis not_None_eq)
  then show ?thesis by (auto simp: getModuleForScope_def o m scope_claims_iff)
qed

text \<open>
  Every flag of the canonical order has a definition in some module, so listing
  the definitions and their defaults never throws, the list has the canonical order without
  duplicates, and it holds every flag any manifest declares.
\<close>

lemma workspace_flags_complete:
  "\<exists>ds. listWorkspaceFeatureFlagDefinitions = Inr ds
        \<and> map ff_flag ds = listWorkspaceFeatureFlagKeys \<and> distinct (map ff_flag ds)
        \<and> set ds = (\<Union>m \<in> set MODULE_MANIFESTS. set (manifest_flags m))
        \<and> defaultWorkspaceFeatureFlags = Inr (map (\<lambda>d. (ff_flag d, ff_default d)) ds)"
proof -
  obtain ds where ds: "listWorkspaceFeatureFlagDefinitions = Inr ds"
    using registry_flags_check by (auto split: sum.splits)
  have check: "map ff_flag ds = listWorkspaceFeatureFlagKeys" "distinct (map ff_flag ds)"
    "list_all (\<lambda>d. List.member (concat (map manifest_flags MODULE_MANIFESTS)) d) ds"
    "list_all (\<lambda>d. List.member ds d) (concat (map manifest_flags MODULE_MANIFESTS))"
    "defaultWorkspaceFeatureFlags = Inr (map (\<lambda>d. (ff_flag d, ff_default d)) ds)"
    using registry_flags_check unfolding ds sum.case by blast+
  have "set ds = set (concat (map manifest_flags MODULE_MANIFESTS))"
    using check(3,4) by (fastforce simp: list_all_iff)
  then have "set ds = (\<Union>m \<in> set MODULE_MANIFESTS. set (manifest_flags m))" by simp
  with ds check(1,2,5) show ?thesis by blast
qed

end
