(* ===== verification/Permissions.thy ===== *)
theory Permissions
  imports Module_Access Js_Number
begin

text \<open>
  Who may do what to a record: the actors and membership summaries of
  \<^verbatim>\<open>packages/shared/src/types.ts\<close>, the collaborative permission predicates of
  \<^verbatim>\<open>packages/domain/src/collaborative-permissions.ts\<close>, the draft permissions of
  \<^verbatim>\<open>draft-permissions.ts\<close>, the classification of system and human members of
  \<^verbatim>\<open>member-identity.ts\<close> and the delegated action policy of \<^verbatim>\<open>action-policy.ts\<close>.

  A field that may be \<^verbatim>\<open>null\<close> or absent is an option.  A \<^verbatim>\<open>require...\<close> function that throws is
  a result.
\<close>

section \<open>Actors\<close>

datatype auth_provider = Auth_bootstrap | Auth_credential | Auth_control_plane

record agent_actor =
  ag_provider :: auth_provider
  ag_label :: string
  ag_workspaces :: "string list option"
  ag_scopes :: "string list option"

record human_user =
  hu_id :: string
  hu_email :: string
  hu_name :: "string option"

datatype app_actor = UserActor human_user | AgentActor agent_actor

record membership =
  mb_id :: string
  mb_workspace :: string
  mb_user :: string
  mb_role :: member_role
  mb_active :: bool

fun actor_user :: "app_actor \<Rightarrow> string option" where
  "actor_user (UserActor u) = Some (hu_id u)"
| "actor_user (AgentActor _) = None"

text \<open>\<^verbatim>\<open>record.field && record.field === actor.user.id\<close>.\<close>

definition names_user :: "string option \<Rightarrow> string \<Rightarrow> bool" where
  "names_user v uid \<longleftrightarrow> v = Some uid \<and> uid \<noteq> []"

definition active_membership :: "membership option \<Rightarrow> bool" where
  "active_membership m = (case m of None \<Rightarrow> False | Some mb \<Rightarrow> mb_active mb)"

section \<open>Collaborative permissions\<close>

record work_item_record =
  wi_archivedAt :: "int option"
  wi_isPrivate :: "bool option"
  wi_author :: "string option"

definition isActiveWorkspaceCollaborator :: "app_actor \<Rightarrow> membership option \<Rightarrow> bool" where
  "isActiveWorkspaceCollaborator actor m \<longleftrightarrow> actor_user actor = None \<or> active_membership m"

fun canEditPrivateDraft :: "app_actor \<Rightarrow> membership option \<Rightarrow> work_item_record \<Rightarrow> bool" where
  "canEditPrivateDraft (UserActor u) (Some mb) r =
     (if \<not> mb_active mb \<or> mb_user mb \<noteq> hu_id u then False
      else if mb_role mb = ADMIN then True
      else names_user (wi_author r) (hu_id u))"
| "canEditPrivateDraft _ _ _ = False"

definition canEditCollaborativeWorkItem ::
    "app_actor \<Rightarrow> membership option \<Rightarrow> work_item_record \<Rightarrow> bool" where
  "canEditCollaborativeWorkItem actor m r \<longleftrightarrow>
     wi_archivedAt r = None \<and> wi_isPrivate r \<noteq> Some True \<and> isActiveWorkspaceCollaborator actor m"

fun canEditProposalContent :: "app_actor \<Rightarrow> membership option \<Rightarrow> work_item_record \<Rightarrow> bool" where
  "canEditProposalContent (AgentActor _) _ _ = True"
| "canEditProposalContent (UserActor u) None _ = False"
| "canEditProposalContent (UserActor u) (Some mb) r =
     (if \<not> mb_active mb then False
      else if mb_role mb = ADMIN then True
      else names_user (wi_author r) (hu_id u))"

definition canEditToolLinkMetadata :: "app_actor \<Rightarrow> membership option \<Rightarrow> bool" where
  "canEditToolLinkMetadata actor m = isActiveWorkspaceCollaborator actor m"

fun canManageToolLinkCredential ::
    "app_actor \<Rightarrow> membership option \<Rightarrow> string option \<Rightarrow> bool" where
  "canManageToolLinkCredential (AgentActor _) _ _ = True"
| "canManageToolLinkCredential (UserActor u) None _ = False"
| "canManageToolLinkCredential (UserActor u) (Some mb) createdBy =
     (if \<not> mb_active mb then False
      else if mb_role mb \<in> {ADMIN, FACILITATOR} then True
      else names_user createdBy (hu_id u))"

definition canEditMeetingProcessedContent :: "app_actor \<Rightarrow> membership option \<Rightarrow> bool" where
  "canEditMeetingProcessedContent actor m = isActiveWorkspaceCollaborator actor m"

text \<open>The throwing variants.\<close>

definition requirePrivateDraftEditor ::
    "app_actor \<Rightarrow> membership option \<Rightarrow> work_item_record \<Rightarrow> unit result" where
  "requirePrivateDraftEditor actor m r =
     (if canEditPrivateDraft actor m r then Inr ()
      else Inl (AppError 403 ''FORBIDDEN''
        ''Only the draft creator or a current workspace administrator can manage this draft.''))"

definition requireCollaborativeWorkItemEditor ::
    "app_actor \<Rightarrow> membership option \<Rightarrow> work_item_record \<Rightarrow> unit result" where
  "requireCollaborativeWorkItemEditor actor m r =
     (if canEditCollaborativeWorkItem actor m r then Inr ()
      else Inl (AppError 403 ''FORBIDDEN''
        ''Any active workspace member can edit public open work items.''))"

definition requireProposalContentEditor ::
    "app_actor \<Rightarrow> membership option \<Rightarrow> work_item_record \<Rightarrow> unit result" where
  "requireProposalContentEditor actor m r =
     (if canEditProposalContent actor m r then Inr ()
      else Inl (AppError 403 ''FORBIDDEN''
        ''Only the proposal author, workspace admins, or agents can edit proposals.''))"

definition requireToolLinkMetadataEditor :: "app_actor \<Rightarrow> membership option \<Rightarrow> unit result" where
  "requireToolLinkMetadataEditor actor m =
     (if canEditToolLinkMetadata actor m then Inr ()
      else Inl (AppError 403 ''FORBIDDEN''
        ''Any active workspace member can edit tool link metadata.''))"

definition requireToolLinkCredentialManager ::
    "app_actor \<Rightarrow> membership option \<Rightarrow> string option \<Rightarrow> unit result" where
  "requireToolLinkCredentialManager actor m createdBy =
     (if canManageToolLinkCredential actor m createdBy then Inr ()
      else Inl (AppError 403 ''FORBIDDEN''
        ''Only the creator, facilitators, admins, or agents can manage tool credentials.''))"

definition requireMeetingProcessedContentEditor ::
    "app_actor \<Rightarrow> membership option \<Rightarrow> unit result" where
  "requireMeetingProcessedContentEditor actor m =
     (if canEditMeetingProcessedContent actor m then Inr ()
      else Inl (AppError 403 ''FORBIDDEN''
        ''Any active workspace member can edit meeting summaries and guidance.''))"

section \<open>Draft permissions\<close>

record draft_record =
  dr_workspace :: string
  dr_author :: "string option"
  dr_requester :: "string option"
  dr_owner_member :: "string option"
  dr_archivedAt :: "int option"

fun canManageDraftRecord :: "app_actor \<Rightarrow> membership option \<Rightarrow> draft_record \<Rightarrow> bool" where
  "canManageDraftRecord (UserActor u) (Some mb) r =
     (if \<not> mb_active mb then False
      else if mb_workspace mb \<noteq> dr_workspace r \<or> mb_user mb \<noteq> hu_id u then False
      else if mb_role mb = ADMIN then True
      else if names_user (dr_author r) (hu_id u) then True
      else if names_user (dr_requester r) (hu_id u) then True
      else if names_user (dr_owner_member r) (mb_id mb) then True
      else False)"
| "canManageDraftRecord _ _ _ = False"

text \<open>
  \<^verbatim>\<open>requireDraftManager\<close>.  The membership it checks is the one
  \<^verbatim>\<open>requireWorkspaceMembership\<close> of \<^verbatim>\<open>auth.ts\<close> returns (or the error it throws), which is an
  argument here.
\<close>

definition requireDraftManager ::
    "(app_actor \<Rightarrow> string \<Rightarrow> membership option result) \<Rightarrow> app_actor \<Rightarrow> string \<Rightarrow> draft_record
     \<Rightarrow> membership option result" where
  "requireDraftManager require_membership actor workspaceId r =
     and_then (invariant (dr_workspace r = workspaceId) 404 ''NOT_FOUND'' ''Record not found.'') (\<lambda>_.
     and_then (invariant (dr_archivedAt r = None) 400 ''INVALID_STATE''
                 ''Archived records cannot be managed as drafts.'') (\<lambda>_.
     and_then (require_membership actor workspaceId) (\<lambda>m.
       if canManageDraftRecord actor m r then Inr m
       else Inl (AppError 403 ''FORBIDDEN''
         ''Only the draft owner or a current workspace administrator can manage this draft.''))))"

section \<open>Human and system members\<close>

datatype member_kind = HUMAN | SYSTEM

definition identity_normalized :: "string option \<Rightarrow> string" where
  "identity_normalized v = (case v of None \<Rightarrow> [] | Some s \<Rightarrow> js_lower (js_trim s))"

definition SYSTEM_EMAIL_PREFIXES :: "string list" where
  "SYSTEM_EMAIL_PREFIXES = [''system+'', ''support+'']"

definition SYSTEM_DISPLAY_NAMES :: "string list" where
  "SYSTEM_DISPLAY_NAMES = [''corgtex support'', ''e2e ui testing agent'']"

definition inferMemberKindFromUserIdentity :: "string option \<Rightarrow> string option \<Rightarrow> member_kind" where
  "inferMemberKindFromUserIdentity email displayName =
     (let e = identity_normalized email; d = identity_normalized displayName
      in if list_ex (starts_with e) SYSTEM_EMAIL_PREFIXES then SYSTEM
         else if ends_with d '' system'' then SYSTEM
         else if d \<in> set SYSTEM_DISPLAY_NAMES then SYSTEM
         else HUMAN)"

text \<open>\<^verbatim>\<open>MemberIdentityInput\<close>: a member with its stored kind and joined user, or a bare user.\<close>

record member_identity =
  mi_kind :: "member_kind option"
  mi_user :: "(string option \<times> string option) option"
  mi_email :: "string option"
  mi_name :: "string option"

definition classifyMemberIdentity :: "member_identity option \<Rightarrow> member_kind" where
  "classifyMemberIdentity input =
     (case input of
        None \<Rightarrow> inferMemberKindFromUserIdentity None None
      | Some i \<Rightarrow>
          if mi_kind i = Some SYSTEM then SYSTEM
          else (case mi_user i of
                  Some (e, d) \<Rightarrow> inferMemberKindFromUserIdentity e d
                | None \<Rightarrow> inferMemberKindFromUserIdentity (mi_email i) (mi_name i)))"

definition isSystemMemberIdentity :: "member_identity option \<Rightarrow> bool" where
  "isSystemMemberIdentity input \<longleftrightarrow> classifyMemberIdentity input = SYSTEM"

definition isHumanMemberIdentity :: "member_identity option \<Rightarrow> bool" where
  "isHumanMemberIdentity input \<longleftrightarrow> classifyMemberIdentity input = HUMAN"

section \<open>Delegated action policy\<close>

datatype policy_class = PC_read | PC_normal_write | PC_draft_or_clarify | PC_sensitive

datatype operation = Op_read | Op_write

record policy_decision =
  pd_class :: policy_class
  pd_autoRun :: bool
  pd_sensitive :: bool
  pd_reason :: string

text \<open>
  The confidence and the thresholds are doubles; \<open>None\<close> is a value that is absent, not a
  number or not finite.  The default thresholds are the doubles nearest to 0.8 and 0.55.
\<close>

record policy_input =
  pi_tool :: "string option"
  pi_operation :: "operation option"
  pi_confidence :: "rat option"
  pi_explicit :: bool
  pi_high :: "rat option"
  pi_medium :: "rat option"

definition SENSITIVE_TOOL_NAMES :: "string list" where
  "SENSITIVE_TOOL_NAMES = [
    ''reveal_tool_link_credential'',
    ''record_support_audit'', ''set_feature_flag'', ''support_reopen_resolved_proposals'',
    ''set_meeting_series_recorder_url'', ''schedule_meeting_recording'',
    ''cancel_meeting_recording'', ''set_meeting_recorder_auto_recording'',
    ''ensure_meeting_recorder_coverage'', ''update_agent_credential_scopes'',
    ''revoke_agent_credential'', ''update_agent_policy'', ''update_model_budget'']"

definition isSensitiveDelegatedAction :: "string option \<Rightarrow> bool" where
  "isSensitiveDelegatedAction tool =
     (case tool of None \<Rightarrow> False | Some t \<Rightarrow> t \<noteq> [] \<and> t \<in> set SENSITIVE_TOOL_NAMES)"

definition normalizedConfidence :: "rat option \<Rightarrow> rat option" where
  "normalizedConfidence c = map_option (\<lambda>x. max 0 (min 1 x)) c"

definition policy_decision_of :: "policy_class \<Rightarrow> bool \<Rightarrow> bool \<Rightarrow> string \<Rightarrow> policy_decision" where
  "policy_decision_of c a s r = \<lparr>pd_class = c, pd_autoRun = a, pd_sensitive = s, pd_reason = r\<rparr>"

definition evaluateDelegatedActionPolicy :: "policy_input \<Rightarrow> policy_decision" where
  "evaluateDelegatedActionPolicy i =
     (if isSensitiveDelegatedAction (pi_tool i) then
        policy_decision_of PC_sensitive False True
          ''Credential reveal and support/control-plane mutations require the sensitive handling path.''
      else if pi_operation i = Some Op_read then
        policy_decision_of PC_read True False ''Read/search actions run automatically when scoped.''
      else
        (let confidence = normalizedConfidence (pi_confidence i);
             highThreshold = (case pi_high i of None \<Rightarrow> fl (4 / 5) | Some h \<Rightarrow> h);
             mediumThreshold = (case pi_medium i of None \<Rightarrow> fl (11 / 20) | Some h \<Rightarrow> h)
         in case confidence of
              None \<Rightarrow> policy_decision_of PC_normal_write True False
                ''Normal delegated writes run automatically when the user intent is explicit or confidence is high.''
            | Some c \<Rightarrow>
                if pi_explicit i \<or> c \<ge> highThreshold then
                  policy_decision_of PC_normal_write True False
                    ''Normal delegated writes run automatically when the user intent is explicit or confidence is high.''
                else
                  policy_decision_of PC_draft_or_clarify False False
                    (if c \<ge> mediumThreshold
                     then ''Medium-confidence work should become a draft before publishing.''
                     else ''Low-confidence work should ask for clarification before writing.'')))"

end
