(* ===== verification/Derive_Jobs.thy ===== *)
theory Derive_Jobs
  imports Js_Prelude
begin

text \<open>
  The derivation of follow-up jobs from a domain event, \<^verbatim>\<open>deriveJobsForEvent\<close> of
  \<^verbatim>\<open>packages/workflows/src/derive-jobs.ts\<close>.

  The function is a sequence of guarded sections that push onto one array; each section is a
  definition here, in the order of the file, and the whole is their concatenation.  A section
  that reads a property of a \<^verbatim>\<open>null\<close> payload throws.  An object literal in a job's payload is
  the list of its fields, a field whose value is \<^verbatim>\<open>undefined\<close> being \<open>None\<close>.
\<close>

section \<open>Events and jobs\<close>

record domain_event =
  ev_id :: string
  ev_type :: string
  ev_workspace :: "string option"
  ev_payload :: json
  ev_createdAt :: "int option"
  ev_aggregateId :: "string option"
  ev_aggregateType :: "string option"

record job_draft =
  jd_workspace :: string
  jd_event :: string
  jd_type :: string
  jd_payload :: "(string \<times> json option) list"
  jd_dedupe :: string
  jd_depends :: "string option"

text \<open>The workspace of the event where the code tests \<^verbatim>\<open>event.workspaceId\<close> for truth.\<close>

definition ws_of :: "domain_event \<Rightarrow> string option" where
  "ws_of e = (case ev_workspace e of Some w \<Rightarrow> if w \<noteq> [] then Some w else None | None \<Rightarrow> None)"

definition job ::
    "domain_event \<Rightarrow> string \<Rightarrow> string \<Rightarrow> (string \<times> json option) list \<Rightarrow> string \<Rightarrow> string option
     \<Rightarrow> job_draft" where
  "job e w ty payload dedupe dep =
     \<lparr>jd_workspace = w, jd_event = ev_id e, jd_type = ty, jd_payload = payload,
      jd_dedupe = dedupe, jd_depends = dep\<rparr>"

text \<open>The template literal \<^verbatim>\<open>`${event.id}:suffix`\<close>.\<close>

definition event_key :: "domain_event \<Rightarrow> string \<Rightarrow> string" where
  "event_key e suffix = ev_id e @ '':'' @ suffix"

section \<open>Readers\<close>

definition TRIAGE_COALESCE_WINDOW_MS :: int where
  "TRIAGE_COALESCE_WINDOW_MS = 5 * 60 * 1000"

definition triageBucketStart :: "int \<Rightarrow> int" where
  "triageBucketStart date = (date div TRIAGE_COALESCE_WINDOW_MS) * TRIAGE_COALESCE_WINDOW_MS"

definition TRIAGE_EVENT_TYPES :: "string list" where
  "TRIAGE_EVENT_TYPES =
     [''proposal.submitted'', ''meeting.created'', ''meeting.transcript-uploaded'',
      ''action.created'', ''tension.created'', ''checkin.response_received'']"

definition KNOWLEDGE_PULSE_EVENT_TYPES :: "string list" where
  "KNOWLEDGE_PULSE_EVENT_TYPES =
     [''proposal.submitted'', ''proposal.opened'', ''proposal.approved'', ''document.created'',
      ''meeting.created'', ''meeting.transcript-uploaded'', ''approval.finalized'']"

definition REBUILD_EVENTS :: "string list" where
  "REBUILD_EVENTS =
     [''source-lineage.changed'', ''source-permission.changed'', ''brain-source.created'',
      ''document.updated'', ''meeting.processed-content-updated'', ''member.created'',
      ''member.updated'', ''member.deactivated'', ''member.reactivated'', ''role.assigned'',
      ''role.unassigned'', ''role.assignment.updated'']"

fun readPayloadString :: "json \<Rightarrow> string \<Rightarrow> string option" where
  "readPayloadString payload key =
     (case field payload key of
        Some (JStr s) \<Rightarrow> (if js_trim s \<noteq> [] then Some (js_trim s) else None)
      | _ \<Rightarrow> None)"

fun readPayloadPositiveInteger :: "json \<Rightarrow> string \<Rightarrow> int option" where
  "readPayloadPositiveInteger payload key =
     (case field payload key of
        Some (JNum n) \<Rightarrow> (if \<bar>n\<bar> \<le> max_safe_integer \<and> n > 0 then Some n else None)
      | _ \<Rightarrow> None)"

definition isReplayEvent :: "json \<Rightarrow> bool" where
  "isReplayEvent payload =
     (case field payload ''runtimeMeta'' of
        Some (JObj fs) \<Rightarrow>
          (case map_of fs ''replayOfEventId'' of Some (JStr s) \<Rightarrow> js_trim s \<noteq> [] | _ \<Rightarrow> False)
      | _ \<Rightarrow> False)"

definition isSourceLineageRebuildEvent :: "string \<Rightarrow> bool" where
  "isSourceLineageRebuildEvent t \<longleftrightarrow> t \<in> set REBUILD_EVENTS"

section \<open>The sections of deriveJobsForEvent\<close>

definition pushContextGraphSync ::
    "domain_event \<Rightarrow> string \<Rightarrow> json option \<Rightarrow> string option \<Rightarrow> job_draft list" where
  "pushContextGraphSync e sourceType sourceId dep =
     (case ws_of e of
        None \<Rightarrow> []
      | Some w \<Rightarrow>
          if \<not> truthy sourceId then []
          else [job e w ''context-graph.sync''
                  [(''sourceType'', Some (JStr sourceType)), (''sourceId'', sourceId)]
                  (event_key e (''context-graph-sync:'' @ sourceType @ '':'' @ template_value sourceId))
                  dep])"

definition derive_crm_inquiry :: "domain_event \<Rightarrow> job_draft list result" where
  "derive_crm_inquiry e =
     (case ws_of e of
        Some w \<Rightarrow>
          if ev_type e = ''crm.inquiry.captured'' then
            (case readPayloadString (ev_payload e) ''conversationId'' of
               Some c \<Rightarrow>
                 if readPayloadString (ev_payload e) ''source'' = Some ''corporate_rebels_website'' then
                   Inr [job e w ''email.crm-inquiry-acknowledgement''
                          [(''conversationId'', Some (JStr c))]
                          (''crm-inquiry-acknowledgement:'' @ w @ '':'' @ c) None]
                 else Inr []
             | None \<Rightarrow> Inr [])
          else Inr []
      | None \<Rightarrow> Inr [])"

definition derive_proposal_approved :: "domain_event \<Rightarrow> job_draft list result" where
  "derive_proposal_approved e =
     (if ev_type e = ''proposal.approved'' then
        and_then (get_prop (ev_payload e) ''subjectId'') (\<lambda>subjectId.
          case ws_of e of
            Some w \<Rightarrow>
              if truthy subjectId then Inr (
                [job e w ''knowledge.sync.proposal'' [(''proposalId'', subjectId)]
                   (event_key e ''knowledge-sync'') None]
                @ pushContextGraphSync e ''PROPOSAL'' subjectId (Some (event_key e ''knowledge-sync''))
                @ [job e w ''agent.constitution-update-trigger'' [(''proposalId'', subjectId)]
                     (event_key e ''constitution-update-trigger'') None,
                   job e w ''agent.constitution-synthesis'' []
                     (event_key e ''constitution-synthesis'') None,
                   job e w ''governance.score'' [] (event_key e ''governance-score'') None])
              else Inr []
          | None \<Rightarrow> Inr [])
      else Inr [])"

definition derive_proposal_opened :: "domain_event \<Rightarrow> job_draft list result" where
  "derive_proposal_opened e =
     (if ev_type e = ''proposal.opened'' then
        and_then (get_prop (ev_payload e) ''proposalId'') (\<lambda>p.
        and_then (get_prop (ev_payload e) ''subjectId'') (\<lambda>s.
          let proposalId = nullish_or p s
          in case ws_of e of
               Some w \<Rightarrow>
                 if truthy proposalId then Inr (
                   [job e w ''knowledge.sync.proposal'' [(''proposalId'', proposalId)]
                      (event_key e ''knowledge-sync'') None]
                   @ pushContextGraphSync e ''PROPOSAL'' proposalId
                       (Some (event_key e ''knowledge-sync'')))
                 else Inr []
             | None \<Rightarrow> Inr []))
      else Inr [])"

definition finance_batch :: "domain_event \<Rightarrow> string option" where
  "finance_batch e =
     (case readPayloadString (ev_payload e) ''batchId'' of
        Some b \<Rightarrow> if ev_aggregateType e = Some ''FinanceImportBatch'' \<and> ev_aggregateId e = Some b
                   then Some b else None
      | None \<Rightarrow> None)"

definition derive_finance_uploaded :: "domain_event \<Rightarrow> job_draft list result" where
  "derive_finance_uploaded e =
     (if ev_type e = ''finance-report-import.uploaded'' then
        (case (ws_of e, finance_batch e) of
           (Some w, Some b) \<Rightarrow>
             Inr [job e w ''finance-report-import.extract'' [(''batchId'', Some (JStr b))]
                    (''finance-report-import:'' @ w @ '':'' @ b @ '':extract:v1'') None]
         | _ \<Rightarrow> Inr [])
      else Inr [])"

definition derive_finance_extracted :: "domain_event \<Rightarrow> job_draft list result" where
  "derive_finance_extracted e =
     (if ev_type e = ''finance-report-import.extracted'' then
        (case (ws_of e, finance_batch e,
               readPayloadPositiveInteger (ev_payload e) ''expectedVersion'') of
           (Some w, Some b, Some v) \<Rightarrow>
             Inr [job e w ''finance-report-import.interpret''
                    [(''batchId'', Some (JStr b)), (''expectedVersion'', Some (JNum v))]
                    (''finance-report-import:'' @ w @ '':'' @ b @ '':interpret:v1'') None]
         | _ \<Rightarrow> Inr [])
      else Inr [])"

definition derive_meeting :: "domain_event \<Rightarrow> job_draft list result" where
  "derive_meeting e =
     (if ev_type e = ''meeting.created'' \<or> ev_type e = ''meeting.transcript-uploaded'' then
        and_then (get_prop (ev_payload e) ''status'') (\<lambda>status.
        and_then (get_prop (ev_payload e) ''hasTranscript'') (\<lambda>hasTranscript.
        and_then (get_prop (ev_payload e) ''meetingId'') (\<lambda>meetingId.
          let shouldRunMeetingAgents =
                status \<noteq> Some (JStr ''SCHEDULED'') \<and> hasTranscript \<noteq> Some (JBool False);
              p = [(''meetingId'', meetingId)]
          in case ws_of e of
               None \<Rightarrow> Inr []
             | Some w \<Rightarrow>
                 if \<not> truthy meetingId then Inr []
                 else if \<not> shouldRunMeetingAgents then Inr (
                   [job e w ''knowledge.sync.meeting'' p (event_key e ''meeting-knowledge-sync'') None]
                   @ pushContextGraphSync e ''MEETING'' meetingId
                       (Some (event_key e ''meeting-knowledge-sync'')))
                 else Inr (
                   [job e w ''agent.meeting-summary'' p (event_key e ''meeting-summary'') None,
                    job e w ''meeting.insights.extract'' p (event_key e ''meeting-insights-extract'')
                      (Some (event_key e ''meeting-summary'')),
                    job e w ''agent.action-extraction''
                      [(''meetingId'', meetingId), (''reviewOnly'', Some (JBool True))]
                      (event_key e ''action-extraction'')
                      (Some (event_key e ''meeting-insights-extract'')),
                    job e w ''meeting.summary.post'' p (event_key e ''meeting-summary-post'')
                      (Some (event_key e ''action-extraction'')),
                    job e w ''knowledge.sync.meeting'' p (event_key e ''meeting-knowledge-sync'')
                      (Some (event_key e ''meeting-summary-post''))]
                   @ pushContextGraphSync e ''MEETING'' meetingId
                       (Some (event_key e ''meeting-insights-extract''))))))
      else Inr [])"

definition derive_processed_content :: "domain_event \<Rightarrow> job_draft list result" where
  "derive_processed_content e =
     (if ev_type e = ''meeting.processed-content-updated'' then
        and_then (get_prop (ev_payload e) ''meetingId'') (\<lambda>meetingId.
        and_then (get_prop (ev_payload e) ''editedSummary'') (\<lambda>edited.
          case ws_of e of
            Some w \<Rightarrow>
              if truthy meetingId \<and> edited \<noteq> Some (JBool False) then Inr (
                [job e w ''knowledge.sync.meeting'' [(''meetingId'', meetingId)]
                   (event_key e ''meeting-knowledge-sync'') None]
                @ pushContextGraphSync e ''MEETING'' meetingId None)
              else Inr []
          | None \<Rightarrow> Inr []))
      else Inr [])"

definition derive_brain_source :: "domain_event \<Rightarrow> job_draft list result" where
  "derive_brain_source e =
     (if ev_type e = ''brain-source.created'' then
        and_then (get_prop (ev_payload e) ''sourceId'') (\<lambda>sourceId.
          case ws_of e of
            Some w \<Rightarrow>
              if truthy sourceId then
                Inr [job e w ''agent.brain-absorb'' [(''sourceId'', sourceId)]
                       (event_key e ''brain-absorb'') None]
              else Inr []
          | None \<Rightarrow> Inr [])
      else Inr [])"

text \<open>
  The article, document, tension, action, circle and role sections have one shape: for the
  listed event types, a knowledge sync of the entity named by one payload property, and a
  context graph sync that depends on it.
\<close>

definition entity_sync ::
    "string list \<Rightarrow> string \<Rightarrow> string \<Rightarrow> string \<Rightarrow> string \<Rightarrow> domain_event \<Rightarrow> job_draft list result" where
  "entity_sync types prop jobType suffix sourceType e =
     (if ev_type e \<in> set types then
        and_then (get_prop (ev_payload e) prop) (\<lambda>v.
          case ws_of e of
            Some w \<Rightarrow>
              if truthy v then Inr (
                [job e w jobType [(prop, v)] (event_key e suffix) None]
                @ pushContextGraphSync e sourceType v (Some (event_key e suffix)))
              else Inr []
          | None \<Rightarrow> Inr [])
      else Inr [])"

definition derive_brain_article :: "domain_event \<Rightarrow> job_draft list result" where
  "derive_brain_article =
     entity_sync [''brain-article.created'', ''brain-article.updated'', ''brain-article.published'']
       ''articleId'' ''knowledge.sync.brain-article'' ''brain-article-knowledge-sync'' ''BRAIN_ARTICLE''"

definition derive_document :: "domain_event \<Rightarrow> job_draft list result" where
  "derive_document =
     entity_sync [''document.created'', ''document.updated'']
       ''documentId'' ''knowledge.sync.document'' ''document-knowledge-sync'' ''DOCUMENT''"

definition derive_tension :: "domain_event \<Rightarrow> job_draft list result" where
  "derive_tension =
     entity_sync [''tension.created'', ''tension.updated'']
       ''tensionId'' ''knowledge.sync.tension'' ''tension-knowledge-sync'' ''TENSION''"

definition derive_action :: "domain_event \<Rightarrow> job_draft list result" where
  "derive_action =
     entity_sync [''action.created'', ''action.updated'']
       ''actionId'' ''knowledge.sync.action'' ''action-knowledge-sync'' ''ACTION''"

definition derive_circle :: "domain_event \<Rightarrow> job_draft list result" where
  "derive_circle =
     entity_sync [''circle.created'', ''circle.updated'']
       ''circleId'' ''knowledge.sync.circle'' ''circle-knowledge-sync'' ''CIRCLE''"

definition derive_role :: "domain_event \<Rightarrow> job_draft list result" where
  "derive_role =
     entity_sync [''role.created'', ''role.updated'']
       ''roleId'' ''knowledge.sync.role'' ''role-knowledge-sync'' ''ROLE''"

definition derive_role_onboarding :: "domain_event \<Rightarrow> job_draft list result" where
  "derive_role_onboarding e =
     (if ev_type e = ''role.assigned'' then
        and_then (get_prop (ev_payload e) ''onboardingSessionId'') (\<lambda>sid.
          case ws_of e of
            Some w \<Rightarrow>
              if truthy sid then
                Inr [job e w ''agent.role-onboarding-intro'' [(''onboardingSessionId'', sid)]
                       (event_key e (''role-onboarding-intro:'' @ template_value sid)) None]
              else Inr []
          | None \<Rightarrow> Inr [])
      else Inr [])"

text \<open>The member, goal and agent identity sections push a context graph sync only.\<close>

definition graph_sync :: "string list \<Rightarrow> string \<Rightarrow> string \<Rightarrow> domain_event \<Rightarrow> job_draft list result" where
  "graph_sync types prop sourceType e =
     (if ev_type e \<in> set types then
        and_then (get_prop (ev_payload e) prop) (\<lambda>v. Inr (pushContextGraphSync e sourceType v None))
      else Inr [])"

definition derive_member :: "domain_event \<Rightarrow> job_draft list result" where
  "derive_member =
     graph_sync [''member.created'', ''member.updated'', ''member.deactivated'',
                 ''member.reactivated'', ''role.assigned'', ''role.unassigned'']
       ''memberId'' ''MEMBER''"

definition derive_goal :: "domain_event \<Rightarrow> job_draft list result" where
  "derive_goal = graph_sync [''goal.created'', ''goal.updated''] ''goalId'' ''GOAL''"

definition derive_agent_identity :: "domain_event \<Rightarrow> job_draft list result" where
  "derive_agent_identity =
     graph_sync [''agent-identity.created'', ''agent-identity.updated'',
                 ''agent-identity.deactivated'', ''agent-identity.circle-assigned'',
                 ''agent-identity.circle-unassigned'']
       ''agentIdentityId'' ''AGENT_IDENTITY''"

definition derive_checkin :: "domain_event \<Rightarrow> job_draft list result" where
  "derive_checkin e =
     (if ev_type e = ''checkin.response_received'' then
        and_then (get_prop (ev_payload e) ''memberId'') (\<lambda>memberId.
        and_then (get_prop (ev_payload e) ''checkInId'') (\<lambda>checkInId.
          case ws_of e of
            Some w \<Rightarrow>
              if truthy memberId then
                Inr [job e w ''agent.checkin-analysis''
                       [(''memberId'', memberId), (''checkInId'', checkInId)]
                       (event_key e ''checkin-analysis'') None]
              else Inr []
          | None \<Rightarrow> Inr []))
      else Inr [])"

text \<open>
  The triage section.  \<^verbatim>\<open>payload.runtimeMeta?.replayOfEventId\<close> over \<^verbatim>\<open>event.payload ?? {}\<close> is
  \<^verbatim>\<open>undefined\<close> for anything but an object holding an object.
\<close>

definition replay_of :: "json \<Rightarrow> json option" where
  "replay_of payload =
     (case field payload ''runtimeMeta'' of None \<Rightarrow> None | Some m \<Rightarrow> field m ''replayOfEventId'')"

definition derive_triage :: "int \<Rightarrow> domain_event \<Rightarrow> job_draft list result" where
  "derive_triage now e =
     (case ws_of e of
        None \<Rightarrow> Inr []
      | Some w \<Rightarrow>
          if ev_type e \<notin> set TRIAGE_EVENT_TYPES then Inr []
          else
            (let replayOfEventId = replay_of (ev_payload e);
                 created = (case ev_createdAt e of Some t \<Rightarrow> t | None \<Rightarrow> now)
             in and_then (to_iso_string (triageBucketStart created)) (\<lambda>bucketStart.
                  let dedupeKey = (if truthy replayOfEventId then w @ '':triage:replay:'' @ ev_id e
                                   else w @ '':triage:'' @ bucketStart)
                  in Inr [job e w ''agent.inbox-triage''
                            [(''eventType'', Some (JStr (ev_type e))),
                             (''bucketStart'', Some (JStr bucketStart)),
                             (''replayOfEventId'', Some (case replayOfEventId of None \<Rightarrow> JNull | Some v \<Rightarrow> v))]
                            dedupeKey None])))"

definition derive_pulse :: "domain_event \<Rightarrow> job_draft list result" where
  "derive_pulse e =
     (case ws_of e of
        Some w \<Rightarrow>
          if ev_type e \<in> set KNOWLEDGE_PULSE_EVENT_TYPES \<and> \<not> isReplayEvent (ev_payload e) then
            Inr [job e w ''knowledge.sync.event'' [(''eventId'', Some (JStr (ev_id e)))]
                   (event_key e ''knowledge-sync-event'') None]
          else Inr []
      | None \<Rightarrow> Inr [])"

definition aggregate_json :: "domain_event \<Rightarrow> json" where
  "aggregate_json e = (case ev_aggregateId e of None \<Rightarrow> JNull | Some a \<Rightarrow> JStr a)"

definition derive_crm_submitted :: "domain_event \<Rightarrow> job_draft list result" where
  "derive_crm_submitted e =
     (case ws_of e of
        Some w \<Rightarrow>
          if ev_type e = ''crm.qualification.submitted''
             \<and> readPayloadString (ev_payload e) ''channel'' = Some ''email_reply'' then
            (case readPayloadString (ev_payload e) ''qualificationId'' of
               Some q \<Rightarrow>
                 Inr [job e w ''agent.crm-email-extraction''
                        [(''eventId'', Some (JStr (ev_id e))),
                         (''aggregateId'', Some (aggregate_json e)),
                         (''qualificationId'', Some (JStr q))]
                        (event_key e ''crm-email-extraction'') None]
             | None \<Rightarrow> Inr [])
          else Inr []
      | None \<Rightarrow> Inr [])"

definition derive_crm_approved :: "domain_event \<Rightarrow> job_draft list result" where
  "derive_crm_approved e =
     (case ws_of e of
        Some w \<Rightarrow>
          if ev_type e = ''crm.qualification.approved'' then
            (case readPayloadString (ev_payload e) ''email'' of
               Some m \<Rightarrow>
                 Inr [job e w ''agent.crm-lead-enrichment''
                        [(''eventId'', Some (JStr (ev_id e))),
                         (''aggregateId'', Some (aggregate_json e)),
                         (''email'', Some (JStr m))]
                        (event_key e ''crm-enrichment'') None]
             | None \<Rightarrow> Inr [])
          else Inr []
      | None \<Rightarrow> Inr [])"

definition derive_demo_lead :: "domain_event \<Rightarrow> job_draft list result" where
  "derive_demo_lead e =
     (case ws_of e of
        Some w \<Rightarrow>
          if ev_type e = ''demo-lead.captured'' then
            (case readPayloadString (ev_payload e) ''demoLeadId'' of
               Some d \<Rightarrow>
                 Inr [job e w ''email.demo-welcome-newspaper'' [(''demoLeadId'', Some (JStr d))]
                        (w @ '':demo-welcome-newspaper:'' @ d) None]
             | None \<Rightarrow> Inr [])
          else Inr []
      | None \<Rightarrow> Inr [])"

definition derive_rebuild :: "domain_event \<Rightarrow> job_draft list result" where
  "derive_rebuild e =
     (case ws_of e of
        Some w \<Rightarrow>
          if isSourceLineageRebuildEvent (ev_type e) then
            Inr [job e w ''source-lineage.rebuild'' [(''eventId'', Some (JStr (ev_id e)))]
                   (event_key e ''source-lineage-rebuild'')
                   (if ev_type e = ''brain-source.created''
                       \<and> readPayloadString (ev_payload e) ''sourceId'' \<noteq> None
                    then Some (event_key e ''brain-absorb'') else None)]
          else Inr []
      | None \<Rightarrow> Inr [])"

text \<open>The sections in the order of the file; the rebuild section is the last.\<close>

definition derive_event_sections :: "int \<Rightarrow> domain_event \<Rightarrow> job_draft list result list" where
  "derive_event_sections now e =
     [derive_crm_inquiry e, derive_proposal_approved e, derive_proposal_opened e,
      derive_finance_uploaded e, derive_finance_extracted e, derive_meeting e,
      derive_processed_content e, derive_brain_source e, derive_brain_article e,
      derive_document e, derive_tension e, derive_action e, derive_circle e, derive_role e,
      derive_role_onboarding e, derive_member e, derive_goal e, derive_agent_identity e,
      derive_checkin e, derive_triage now e, derive_pulse e, derive_crm_submitted e,
      derive_crm_approved e, derive_demo_lead e]"

definition deriveJobsForEvent :: "int \<Rightarrow> domain_event \<Rightarrow> job_draft list result" where
  "deriveJobsForEvent now e =
     concat_results (derive_event_sections now e @ [derive_rebuild e])"

end
