(* ===== verification/Notifications.thy ===== *)
theory Notifications
  imports Derive_Jobs
begin

text \<open>
  The texts the outbox derives from an event: \<^verbatim>\<open>deriveNotificationsForEvent\<close> of
  \<^verbatim>\<open>packages/workflows/src/derive-notifications.ts\<close>, \<^verbatim>\<open>deriveAdviceNotificationContent\<close> and
  the payload readers of \<^verbatim>\<open>outbox.ts\<close>.  \<^verbatim>\<open>null\<close> is \<open>None\<close>.
\<close>

section \<open>Workspace notifications\<close>

record notification_draft =
  nd_type :: string
  nd_entityType :: "string option"
  nd_entityId :: "string option"
  nd_title :: string
  nd_body :: "string option"

definition deriveNotificationsForEvent :: "domain_event \<Rightarrow> notification_draft list" where
  "deriveNotificationsForEvent e =
     (if ws_of e = None \<or> isReplayEvent (ev_payload e) then []
      else
        let draft = (\<lambda>ty title body.
              [\<lparr>nd_type = ty, nd_entityType = ev_aggregateType e, nd_entityId = ev_aggregateId e,
                nd_title = title, nd_body = Some body\<rparr>]);
            title = readPayloadString (ev_payload e) ''title'';
            titled = (\<lambda>prefix alt. case title of Some t \<Rightarrow> prefix @ t | None \<Rightarrow> alt)
        in if ev_type e = ''proposal.submitted'' \<or> ev_type e = ''proposal.opened'' then
             draft (ev_type e) (titled ''Review requested: '' ''Proposal review requested'')
               (case title of
                  Some t \<Rightarrow> ''The proposal **'' @ t @ ''** is open for advisory review.''
                | None \<Rightarrow> ''A proposal is open for advisory review in the workspace dashboard.'')
           else if ev_type e = ''meeting.created'' then
             draft (ev_type e) (titled ''Meeting added: '' ''New meeting added'')
               ''Meeting summary and action extraction will run automatically.''
           else if ev_type e = ''action.published'' then
             draft ''action.created'' (titled ''New action: '' ''New action created'')
               ''An action item was added to the workspace.''
           else if ev_type e = ''tension.published'' then
             draft ''tension.created'' (titled ''New tension: '' ''New tension raised'')
               ''A new tension was captured in the workspace.''
           else [])"

section \<open>Advice notifications\<close>

definition TARGETED_ADVICE_NOTIFICATION_EVENTS :: "string list" where
  "TARGETED_ADVICE_NOTIFICATION_EVENTS =
     [''advice.requested'', ''advice.reminder_due'', ''advice.reply_posted'']"

definition subjectEntityType :: "json option \<Rightarrow> string option" where
  "subjectEntityType v =
     (if v = Some (JStr ''PROPOSAL'') then Some ''Proposal''
      else if v = Some (JStr ''TENSION'') then Some ''Tension''
      else if v = Some (JStr ''ACTION'') then Some ''Action''
      else case v of Some (JStr s) \<Rightarrow> if js_trim s \<noteq> [] then Some (js_trim s) else None | _ \<Rightarrow> None)"

record advice_content =
  ac_entityType :: "string option"
  ac_entityId :: "string option"
  ac_title :: string
  ac_body :: "string option"

text \<open>\<^verbatim>\<open>[...].filter(Boolean).join("\n\n") || alt\<close>.\<close>

definition paragraphs_or :: "string option list \<Rightarrow> string option \<Rightarrow> string option" where
  "paragraphs_or ps alt =
     (let text = join_with [CHR 0x0A, CHR 0x0A] (filter (\<lambda>s. s \<noteq> []) (List.map_filter id ps))
      in if text = [] then alt else Some text)"

definition deriveAdviceNotificationContent :: "string \<Rightarrow> json \<Rightarrow> advice_content" where
  "deriveAdviceNotificationContent ty p =
     (let payload = (if is_object p then p else JObj []);
          subjectTitle = readPayloadString payload ''subjectTitle'';
          messageMd = readPayloadString payload ''messageMd'';
          deadlineAt = readPayloadString payload ''deadlineAt'';
          subjectType = subjectEntityType
            (nullish_or (field payload ''subjectType'') (field payload ''parentType''));
          subjectId = (case readPayloadString payload ''subjectId'' of
                         Some s \<Rightarrow> Some s | None \<Rightarrow> readPayloadString payload ''parentId'');
          deadlineLine = map_option (\<lambda>d. ''Deadline: '' @ d) deadlineAt;
          content = (\<lambda>title body. \<lparr>ac_entityType = subjectType, ac_entityId = subjectId,
                                  ac_title = title, ac_body = body\<rparr>);
          titled = (\<lambda>prefix alt. case subjectTitle of Some t \<Rightarrow> prefix @ t | None \<Rightarrow> alt)
      in if ty = ''advice.reminder_due'' then
           content (titled ''Reminder: input requested for '' ''Reminder: input requested'')
             (paragraphs_or [Some (case messageMd of Some m \<Rightarrow> m
                                   | None \<Rightarrow> ''Your input is still requested.''), deadlineLine] None)
         else if ty = ''advice.reply_posted'' then
           content (titled ''Input received for '' ''Input received'')
             (Some ''Someone replied to an input request you own.'')
         else
           content (titled ''Input requested: '' ''Input requested'')
             (paragraphs_or [messageMd, deadlineLine] (Some ''Your input was requested.'')))"

text \<open>
  \<^verbatim>\<open>notificationActorUserIdForEvent\<close>: the actor named by the event, or the actor of the latest
  audit row (an argument) when the event names its aggregate.
\<close>

definition notificationActorUserIdForEvent :: "string option \<Rightarrow> domain_event \<Rightarrow> string option" where
  "notificationActorUserIdForEvent audit e =
     (let named =
            (if ev_type e \<in> {''action.published'', ''action.assigned'', ''tension.published''}
             then (case ev_payload e of
                     JObj fs \<Rightarrow>
                       (case map_of fs ''actorUserId'' of
                          Some JNull \<Rightarrow> Some None
                        | Some (JStr s) \<Rightarrow> if s \<noteq> [] then Some (Some s) else None
                        | _ \<Rightarrow> None)
                   | _ \<Rightarrow> None)
             else None)
      in case named of
           Some a \<Rightarrow> a
         | None \<Rightarrow>
             if ws_of e \<noteq> None \<and> truthy_str (ev_aggregateType e) \<and> truthy_str (ev_aggregateId e)
             then audit else None)"

section \<open>Other payload readers of the outbox\<close>

datatype newspaper_cadence = DAILY | WEEKLY | OFF

definition readNewspaperCadence :: "json option \<Rightarrow> newspaper_cadence" where
  "readNewspaperCadence v =
     (case v of
        Some (JStr s) \<Rightarrow>
          if s = ''DAILY'' then DAILY else if s = ''WEEKLY'' then WEEKLY
          else if s = ''OFF'' then OFF else WEEKLY
      | _ \<Rightarrow> WEEKLY)"

datatype cloud_provider = AZURE | RAILWAY

record release_target =
  rt_cloudProvider :: cloud_provider
  rt_releaseImageTag :: string
  rt_releaseVersion :: "string option"
  rt_releaseGitSha :: "string option"
  rt_webImage :: string
  rt_workerImage :: string
  rt_webRevision :: "string option"
  rt_workerRevision :: "string option"
  rt_migrationJobStatus :: "string option"
  rt_healthStatus :: "string option"

definition string_field :: "json \<Rightarrow> string \<Rightarrow> string option" where
  "string_field v k = (case field v k of Some (JStr s) \<Rightarrow> Some s | _ \<Rightarrow> None)"

definition releaseTargetFromPayload :: "json \<Rightarrow> release_target option" where
  "releaseTargetFromPayload v =
     (case (string_field v ''releaseImageTag'', string_field v ''webImage'', string_field v ''workerImage'') of
        (Some tag, Some web, Some worker) \<Rightarrow>
          Some \<lparr>rt_cloudProvider = (if field v ''cloudProvider'' = Some (JStr ''AZURE'') then AZURE else RAILWAY),
                rt_releaseImageTag = tag, rt_releaseVersion = string_field v ''releaseVersion'',
                rt_releaseGitSha = string_field v ''releaseGitSha'', rt_webImage = web,
                rt_workerImage = worker, rt_webRevision = string_field v ''webRevision'',
                rt_workerRevision = string_field v ''workerRevision'',
                rt_migrationJobStatus = string_field v ''migrationJobStatus'',
                rt_healthStatus = string_field v ''healthStatus''\<rparr>
      | _ \<Rightarrow> None)"

text \<open>
  \<^verbatim>\<open>meetingProgressContextForJob\<close>, with the stage and meeting readers of
  \<^verbatim>\<open>packages/domain/src/meeting-transcript-processing.ts\<close>.
\<close>

datatype transcript_stage = SUMMARIZING | EXTRACTING_INSIGHTS | SYNCING_OUTPUTS | INDEXING_BRAIN

definition meetingTranscriptProcessingStageForJobType :: "string \<Rightarrow> transcript_stage option" where
  "meetingTranscriptProcessingStageForJobType t =
     (if t = ''agent.meeting-summary'' then Some SUMMARIZING
      else if t = ''meeting.insights.extract'' then Some EXTRACTING_INSIGHTS
      else if t = ''agent.action-extraction'' \<or> t = ''meeting.summary.post'' then Some SYNCING_OUTPUTS
      else if t = ''knowledge.sync.meeting'' then Some INDEXING_BRAIN
      else None)"

definition meetingIdFromWorkflowJobPayload :: "json \<Rightarrow> string option" where
  "meetingIdFromWorkflowJobPayload payload = readPayloadString payload ''meetingId''"

definition meetingProgressContextForJob ::
    "string option \<Rightarrow> string \<Rightarrow> json \<Rightarrow> (string \<times> string \<times> transcript_stage) option" where
  "meetingProgressContextForJob workspaceId jobType payload =
     (case workspaceId of
        None \<Rightarrow> None
      | Some w \<Rightarrow>
          if w = [] then None
          else (case meetingIdFromWorkflowJobPayload payload of
                  None \<Rightarrow> None
                | Some m \<Rightarrow> map_option (\<lambda>s. (w, m, s)) (meetingTranscriptProcessingStageForJobType jobType)))"

text \<open>
  \<^verbatim>\<open>isSlackInvalidAuthError\<close> reads the message and, when the thrown value carries one, the
  \<^verbatim>\<open>data.error\<close> text.
\<close>

definition isSlackInvalidAuthError :: "string \<Rightarrow> string option \<Rightarrow> bool" where
  "isSlackInvalidAuthError message dataError \<longleftrightarrow>
     is_substring ''invalid_auth'' message \<or> dataError = Some ''invalid_auth''"

end
