(* ===== verification/Job_Store.thy ===== *)
theory Job_Store
  imports Derive_Jobs
begin

text \<open>
  The \<^verbatim>\<open>WorkflowJob\<close> table (\<^verbatim>\<open>prisma/schema.prisma\<close>) and the operations of
  \<^verbatim>\<open>packages/workflows/src/outbox.ts\<close> that write single jobs: enqueueing under a dedupe key
  and resolving a dedupe key to a job id.  A table is the list of its rows; \<^verbatim>\<open>updateMany\<close> changes
  the rows a condition selects and returns their number, \<^verbatim>\<open>update\<close> addresses one row by its id
  and throws when there is none.

  The id of a new row is drawn from the id generator of the database client, which is an
  argument.
\<close>

section \<open>Rows\<close>

datatype job_status = J_PENDING | J_RUNNING | J_COMPLETED | J_FAILED | J_CANCELLED

record job_row =
  j_id :: string
  j_workspace :: "string option"
  j_event :: "string option"
  j_type :: string
  j_payload :: json
  j_status :: job_status
  j_dedupe :: "string option"
  j_depends :: "string option"
  j_runAfter :: int
  j_attempts :: int
  j_lockedAt :: "int option"
  j_lockedBy :: "string option"
  j_startedAt :: "int option"
  j_completedAt :: "int option"
  j_error :: "string option"
  j_createdAt :: int

definition update_many ::
    "(job_row \<Rightarrow> bool) \<Rightarrow> (job_row \<Rightarrow> job_row) \<Rightarrow> job_row list \<Rightarrow> nat \<times> job_row list" where
  "update_many P f js = (length (filter P js), map (\<lambda>j. if P j then f j else j) js)"

definition update_by_id ::
    "string \<Rightarrow> (job_row \<Rightarrow> job_row) \<Rightarrow> job_row list \<Rightarrow> job_row list result" where
  "update_by_id i f js =
     (if i \<in> set (map j_id js) then Inr (map (\<lambda>j. if j_id j = i then f j else j) js)
      else Inl (PlainError ''No record was found for an update.'' (Some ''P2025'')))"

definition find_job :: "string \<Rightarrow> job_row list \<Rightarrow> job_row option" where
  "find_job i js = find (\<lambda>j. j_id j = i) js"

text \<open>The primary key and the unique index on \<^verbatim>\<open>dedupeKey\<close> (which ignores nulls).\<close>

definition wf_jobs :: "job_row list \<Rightarrow> bool" where
  "wf_jobs js \<longleftrightarrow> distinct (map j_id js) \<and> distinct (List.map_filter j_dedupe js)"

section \<open>Enqueueing\<close>

record enqueue_params =
  eq_workspace :: "string option"
  eq_event :: "string option"
  eq_type :: string
  eq_payload :: json
  eq_dedupe :: string
  eq_depends :: "string option"

definition toWorkflowJobCreateInput :: "string \<Rightarrow> int \<Rightarrow> enqueue_params \<Rightarrow> job_row" where
  "toWorkflowJobCreateInput new_id now p =
     \<lparr>j_id = new_id, j_workspace = eq_workspace p, j_event = eq_event p, j_type = eq_type p,
      j_payload = eq_payload p, j_status = J_PENDING, j_dedupe = Some (eq_dedupe p),
      j_depends = eq_depends p, j_runAfter = now, j_attempts = 0, j_lockedAt = None,
      j_lockedBy = None, j_startedAt = None, j_completedAt = None, j_error = None,
      j_createdAt = now\<rparr>"

definition resolveDedupeKeyToJobId :: "job_row list \<Rightarrow> string \<Rightarrow> string option" where
  "resolveDedupeKeyToJobId js key = map_option j_id (find (\<lambda>j. j_dedupe j = Some key) js)"

section \<open>CRM jobs\<close>

text \<open>
  \<^verbatim>\<open>enqueueCrmLineageJob\<close> of \<^verbatim>\<open>crm-job-lineage.ts\<close> handles the three CRM job types: it
  rebuilds the payload from the CRM rows and creates the job only with proved lineage.  The CRM
  tables it reads and the operations of the lineage store are arguments.
\<close>

record demo_lead =
  dl_id :: string
  dl_workspace :: string
  dl_email :: string
  dl_convertedAt :: "int option"
  dl_followUpCount :: int

record crm_qualification =
  cq_id :: string
  cq_workspace :: string
  cq_demoLeadId :: string
  cq_responseChannel :: "string option"
  cq_rawEmailReply :: "string option"
  cq_status :: string

record crm_contact =
  cc_id :: string
  cc_workspace :: string
  cc_email :: string
  cc_accountId :: "string option"
  cc_archivedAt :: "int option"

record 'r crm_env =
  ce_leads :: "demo_lead list"
  ce_qualifications :: "crm_qualification list"
  ce_contacts :: "crm_contact list"
  ce_captureJob :: "job_row \<Rightarrow> unit result"
  ce_capture :: "string \<Rightarrow> (string \<times> string) list \<Rightarrow> 'r result"
  ce_immutable :: "string \<Rightarrow> 'r \<Rightarrow> 'r result"
  ce_readable :: "string \<Rightarrow> 'r \<Rightarrow> bool result"
  ce_record :: "job_row \<Rightarrow> 'r \<Rightarrow> unit result"

definition crmJobTypes :: "string list" where
  "crmJobTypes = [''agent.crm-email-extraction'', ''agent.crm-lead-enrichment'', ''agent.crm-drip-followup'']"

definition crm_unavailable :: "js_error \<Rightarrow> bool" where
  "crm_unavailable e \<longleftrightarrow>
     (case error_code e of
        None \<Rightarrow> False
      | Some c \<Rightarrow> c \<in> set [''UNKNOWN_LINEAGE'', ''SOURCE_CHANGED'', ''SOURCE_RESTRICTED''])"

text \<open>\<^verbatim>\<open>===\<close> on JSON values read from two rows: two objects are never the same.\<close>

fun strict_eq :: "json option \<Rightarrow> json option \<Rightarrow> bool" where
  "strict_eq (Some (JObj _)) _ = False"
| "strict_eq (Some (JArr _)) _ = False"
| "strict_eq a b = (a = b)"

datatype crm_outcome = Crm_declined | Crm_skipped | Crm_reused string | Crm_scheduled string

text \<open>The part for a key that is already in the table.\<close>

definition crm_existing :: "'r crm_env \<Rightarrow> string \<Rightarrow> enqueue_params \<Rightarrow> job_row \<Rightarrow> crm_outcome result" where
  "crm_existing env w p existing =
     (let requested = eq_payload p; prior = j_payload existing
      in if j_workspace existing \<noteq> Some w \<or> j_type existing \<noteq> eq_type p then Inr Crm_skipped
         else if \<not> is_object prior then Inr Crm_skipped
         else if eq_type p = ''agent.crm-drip-followup''
              \<and> (\<not> strict_eq (field prior ''demoLeadId'') (field requested ''demoLeadId'')
                 \<or> \<not> strict_eq (field prior ''followUpNumber'') (field requested ''followUpNumber''))
         then Inr Crm_skipped
         else if eq_type p \<noteq> ''agent.crm-drip-followup''
              \<and> (j_event existing \<noteq> eq_event p
                 \<or> \<not> strict_eq (field prior ''aggregateId'')
                     (nullish_or (field requested ''qualificationId'') (field requested ''aggregateId'')))
         then Inr Crm_skipped
         else (case ce_captureJob env existing of
                 Inr _ \<Rightarrow> Inr (Crm_reused (j_id existing))
               | Inl e \<Rightarrow> if crm_unavailable e then Inr Crm_skipped else Inl e))"

text \<open>
  The inputs and the payload of a new job, read from the CRM rows; \<open>None\<close> where the code declines
  to schedule.
\<close>

definition json_text :: "json option \<Rightarrow> string" where
  "json_text v = (case v of Some (JStr s) \<Rightarrow> s | _ \<Rightarrow> [])"

definition crm_drip_inputs ::
    "'r crm_env \<Rightarrow> string \<Rightarrow> json \<Rightarrow> ((string \<times> string) list \<times> json) option" where
  "crm_drip_inputs env w requested =
     (case find (\<lambda>l. dl_id l = json_text (field requested ''demoLeadId'') \<and> dl_workspace l = w)
             (ce_leads env) of
        None \<Rightarrow> None
      | Some lead \<Rightarrow>
          if dl_convertedAt lead \<noteq> None \<or> \<bar>dl_followUpCount lead\<bar> > max_safe_integer
             \<or> dl_followUpCount lead < 0 then None
          else if field requested ''followUpNumber'' \<noteq> Some (JNum (dl_followUpCount lead + 1)) then None
          else Some ([(''DemoLead'', dl_id lead)],
                     JObj [(''demoLeadId'', JStr (dl_id lead)),
                           (''followUpNumber'', JNum (dl_followUpCount lead + 1))]))"

definition event_text :: "string option \<Rightarrow> string" where
  "event_text e = (case e of None \<Rightarrow> [] | Some i \<Rightarrow> i)"

definition crm_qualification_inputs ::
    "'r crm_env \<Rightarrow> string \<Rightarrow> enqueue_params \<Rightarrow> ((string \<times> string) list \<times> json) option" where
  "crm_qualification_inputs env w p =
     (let requested = eq_payload p;
          qid = (case field requested ''qualificationId'' of
                   Some (JStr s) \<Rightarrow> s | _ \<Rightarrow> json_text (field requested ''aggregateId''))
      in case find (\<lambda>q. cq_id q = qid \<and> cq_workspace q = w) (ce_qualifications env) of
           None \<Rightarrow> None
         | Some q \<Rightarrow>
             if eq_type p = ''agent.crm-email-extraction'' then
               (if cq_responseChannel q \<noteq> Some ''email_reply'' \<or> \<not> truthy_str (cq_rawEmailReply q)
                then None
                else Some ([(''CrmQualification'', cq_id q)],
                       JObj [(''eventId'', JStr (event_text (eq_event p))),
                             (''aggregateId'', JStr (cq_id q)), (''qualificationId'', JStr (cq_id q))]))
             else if cq_status q \<noteq> ''APPROVED'' then None
             else (case find (\<lambda>l. dl_id l = cq_demoLeadId q \<and> dl_workspace l = w) (ce_leads env) of
                     None \<Rightarrow> None
                   | Some lead \<Rightarrow>
                       (case find (\<lambda>c. cc_workspace c = w \<and> cc_email c = dl_email lead
                                       \<and> cc_archivedAt c = None) (ce_contacts env) of
                          None \<Rightarrow> None
                        | Some contact \<Rightarrow>
                            Some ([(''CrmQualification'', cq_id q), (''DemoLeadIntakeInput'', dl_id lead),
                                   (''CrmContact'', cc_id contact)]
                                  @ (case cc_accountId contact of
                                       None \<Rightarrow> []
                                     | Some a \<Rightarrow> if a = [] then [] else [(''CrmAccount'', a)]),
                                  JObj [(''eventId'', JStr (event_text (eq_event p))),
                                        (''aggregateId'', JStr (cq_id q)),
                                        (''email'', JStr (dl_email lead))]))))"

definition crm_inputs ::
    "'r crm_env \<Rightarrow> string \<Rightarrow> enqueue_params \<Rightarrow> ((string \<times> string) list \<times> json) option" where
  "crm_inputs env w p =
     (if eq_type p = ''agent.crm-drip-followup'' then crm_drip_inputs env w (eq_payload p)
      else crm_qualification_inputs env w p)"

text \<open>The proof of the inputs, whose failures for want of lineage decline the job.\<close>

definition crm_proof :: "'r crm_env \<Rightarrow> string \<Rightarrow> (string \<times> string) list \<Rightarrow> 'r result" where
  "crm_proof env w inputs =
     and_then (ce_capture env w inputs) (\<lambda>live.
     and_then (ce_immutable env w live) (\<lambda>roots.
     and_then (ce_readable env w live) (\<lambda>ok.
     and_then (invariant ok 409 ''SOURCE_CHANGED'' ''CRM job inputs changed.'') (\<lambda>_. Inr roots))))"

definition enqueueCrmLineageJob ::
    "'r crm_env \<Rightarrow> (job_row list \<Rightarrow> string) \<Rightarrow> int \<Rightarrow> enqueue_params \<Rightarrow> job_row list
     \<Rightarrow> (crm_outcome \<times> job_row list) result" where
  "enqueueCrmLineageJob env new_id now p js =
     (if eq_type p \<notin> set crmJobTypes then Inr (Crm_declined, js)
      else
        and_then (invariant (is_object (eq_payload p)) 400 ''INVALID_INPUT'' ''CRM job input must be an object.'') (\<lambda>_.
        and_then (invariant (truthy_str (eq_workspace p)) 400 ''INVALID_INPUT'' ''CRM jobs require a workspace.'') (\<lambda>_.
        let w = the (eq_workspace p)
        in case find (\<lambda>j. j_dedupe j = Some (eq_dedupe p)) js of
             Some existing \<Rightarrow> and_then (crm_existing env w p existing) (\<lambda>r. Inr (r, js))
           | None \<Rightarrow>
               (case crm_inputs env w p of
                  None \<Rightarrow> Inr (Crm_skipped, js)
                | Some (inputs, payload) \<Rightarrow>
                    (case crm_proof env w inputs of
                       Inl e \<Rightarrow> if crm_unavailable e then Inr (Crm_skipped, js) else Inl e
                     | Inr roots \<Rightarrow>
                         let row = toWorkflowJobCreateInput (new_id js) now (p\<lparr>eq_payload := payload\<rparr>)
                         in and_then (ce_record env row roots)
                              (\<lambda>_. Inr (Crm_scheduled (j_id row), js @ [row])))))))"

section \<open>Enqueueing any job\<close>

definition enqueueJob ::
    "'r crm_env \<Rightarrow> (job_row list \<Rightarrow> string) \<Rightarrow> int \<Rightarrow> enqueue_params \<Rightarrow> job_row list
     \<Rightarrow> (bool \<times> job_row list) result" where
  "enqueueJob env new_id now p js =
     and_then (enqueueCrmLineageJob env new_id now p js) (\<lambda>(crm, js').
       case crm of
         Crm_declined \<Rightarrow>
           if Some (eq_dedupe p) \<in> set (map j_dedupe js') then Inr (True, js')
           else Inr (True, js' @ [toWorkflowJobCreateInput (new_id js') now p])
       | Crm_scheduled _ \<Rightarrow> Inr (True, js')
       | _ \<Rightarrow> Inr (False, js'))"

text \<open>
  \<^verbatim>\<open>enqueueJobBatch\<close>: CRM jobs one by one, then the others in one \<^verbatim>\<open>createMany\<close> that skips
  present keys and counts the rows it creates.
\<close>

definition create_skip ::
    "(job_row list \<Rightarrow> string) \<Rightarrow> int \<Rightarrow> enqueue_params \<Rightarrow> nat \<times> job_row list \<Rightarrow> nat \<times> job_row list" where
  "create_skip new_id now p st =
     (let (n, js) = st
      in if Some (eq_dedupe p) \<in> set (map j_dedupe js) then (n, js)
         else (n + 1, js @ [toWorkflowJobCreateInput (new_id js) now p]))"

fun crm_batch ::
    "'r crm_env \<Rightarrow> (job_row list \<Rightarrow> string) \<Rightarrow> int \<Rightarrow> enqueue_params list \<Rightarrow> nat \<Rightarrow> job_row list
     \<Rightarrow> (nat \<times> enqueue_params list \<times> job_row list) result" where
  "crm_batch env new_id now [] n js = Inr (n, [], js)"
| "crm_batch env new_id now (p # ps) n js =
     and_then (enqueueCrmLineageJob env new_id now p js) (\<lambda>(crm, js').
       case crm of
         Crm_declined \<Rightarrow>
           and_then (crm_batch env new_id now ps n js') (\<lambda>(n', rest, js''). Inr (n', p # rest, js''))
       | Crm_scheduled _ \<Rightarrow> crm_batch env new_id now ps (n + 1) js'
       | _ \<Rightarrow> crm_batch env new_id now ps n js')"

definition enqueueJobBatch ::
    "'r crm_env \<Rightarrow> (job_row list \<Rightarrow> string) \<Rightarrow> int \<Rightarrow> enqueue_params list \<Rightarrow> job_row list
     \<Rightarrow> (nat \<times> job_row list) result" where
  "enqueueJobBatch env new_id now ps js =
     and_then (crm_batch env new_id now ps 0 js)
       (\<lambda>(n, rest, js'). Inr (fold (create_skip new_id now) rest (n, js')))"

section \<open>Lemmas\<close>

lemma update_many_count_0: "fst (update_many P f js) = 0 \<Longrightarrow> snd (update_many P f js) = js"
  by (induction js) (auto simp: update_many_def split: if_splits)

lemma update_many_id: "(\<And>j. j \<in> set js \<Longrightarrow> \<not> P j) \<Longrightarrow> update_many P f js = (0, js)"
  by (induction js) (auto simp: update_many_def)

lemma set_update_many:
  "set (snd (update_many P f js)) = {j \<in> set js. \<not> P j} \<union> f ` {j \<in> set js. P j}"
  by (auto simp: update_many_def)

lemma update_many_ids:
  "(\<And>j. j_id (f j) = j_id j) \<Longrightarrow> map j_id (snd (update_many P f js)) = map j_id js"
  by (simp add: update_many_def)

lemma map_filter_map_eq:
  "(\<And>x. g (f x) = g x) \<Longrightarrow> List.map_filter g (map f xs) = List.map_filter g xs"
  by (induction xs) (auto simp: List.map_filter_def)

lemma update_many_wf:
  assumes "\<And>j. j_id (f j) = j_id j" "\<And>j. j_dedupe (f j) = j_dedupe j" "wf_jobs js"
  shows "wf_jobs (snd (update_many P f js))"
proof -
  have "List.map_filter j_dedupe (snd (update_many P f js)) = List.map_filter j_dedupe js"
    unfolding update_many_def snd_conv by (rule map_filter_map_eq) (simp add: assms(2))
  then show ?thesis using assms by (simp add: wf_jobs_def update_many_ids)
qed

lemma map_filter_append: "List.map_filter f (xs @ ys) = List.map_filter f xs @ List.map_filter f ys"
  by (simp add: List.map_filter_def)

lemma set_map_filter_dedupe: "k \<in> set (List.map_filter j_dedupe js) \<longleftrightarrow> Some k \<in> set (map j_dedupe js)"
  by (induction js) (auto simp: List.map_filter_def split: option.splits)

lemma resolve_Some:
  "Some k \<in> set (map j_dedupe js) \<Longrightarrow>
   \<exists>j \<in> set js. j_dedupe j = Some k \<and> resolveDedupeKeyToJobId js k = Some (j_id j)"
  unfolding resolveDedupeKeyToJobId_def by (induction js) auto

lemma resolve_None_iff:
  "resolveDedupeKeyToJobId js k = None \<longleftrightarrow> Some k \<notin> set (map j_dedupe js)"
  unfolding resolveDedupeKeyToJobId_def by (induction js) auto

lemma create_input_simps [simp]:
  "j_id (toWorkflowJobCreateInput i now p) = i"
  "j_dedupe (toWorkflowJobCreateInput i now p) = Some (eq_dedupe p)"
  "j_depends (toWorkflowJobCreateInput i now p) = eq_depends p"
  "j_type (toWorkflowJobCreateInput i now p) = eq_type p"
  "j_status (toWorkflowJobCreateInput i now p) = J_PENDING"
  "j_workspace (toWorkflowJobCreateInput i now p) = eq_workspace p"
  "j_event (toWorkflowJobCreateInput i now p) = eq_event p"
  "j_payload (toWorkflowJobCreateInput i now p) = eq_payload p"
  "j_attempts (toWorkflowJobCreateInput i now p) = 0"
  by (simp_all add: toWorkflowJobCreateInput_def)

text \<open>
  What every enqueue does to the table: nothing, or one new pending row at its end, under a key
  that was free, for the workspace, event, type and dependency asked for.
\<close>

definition appended :: "(job_row list \<Rightarrow> string) \<Rightarrow> int \<Rightarrow> enqueue_params \<Rightarrow> job_row list \<Rightarrow> job_row list \<Rightarrow> bool" where
  "appended new_id now p js js' \<longleftrightarrow>
     js' = js
     \<or> Some (eq_dedupe p) \<notin> set (map j_dedupe js)
       \<and> (\<exists>payload. js' = js @ [toWorkflowJobCreateInput (new_id js) now (p\<lparr>eq_payload := payload\<rparr>)])"

lemma find_None_key: "find (\<lambda>j. j_dedupe j = Some k) js = None \<longleftrightarrow> Some k \<notin> set (map j_dedupe js)"
  by (induction js) auto

lemma crm_appended:
  assumes "enqueueCrmLineageJob env new_id now p js = Inr (r, js')"
  shows "appended new_id now p js js'"
proof (cases "eq_type p \<in> set crmJobTypes")
  case False
  then show ?thesis using assms by (simp add: enqueueCrmLineageJob_def appended_def)
next
  case True
  show ?thesis
  proof (cases "find (\<lambda>j. j_dedupe j = Some (eq_dedupe p)) js")
    case (Some existing)
    then show ?thesis using assms True
      by (auto simp: enqueueCrmLineageJob_def appended_def Let_def result_simps split: if_splits)
  next
    case None
    then have free: "Some (eq_dedupe p) \<notin> set (map j_dedupe js)" by (simp add: find_None_key)
    show ?thesis using assms True None
      by (auto simp: enqueueCrmLineageJob_def Let_def result_simps appended_def free [simplified]
          split: if_splits option.splits sum.splits)
  qed
qed

lemma crm_existing_declined: "crm_existing env w p existing \<noteq> Inr Crm_declined"
  by (auto simp: crm_existing_def Let_def split: if_splits sum.splits)

lemma crm_declined_iff:
  assumes "enqueueCrmLineageJob env new_id now p js = Inr (r, js')"
  shows "r = Crm_declined \<longleftrightarrow> eq_type p \<notin> set crmJobTypes"
proof (cases "eq_type p \<in> set crmJobTypes")
  case True
  have "r \<noteq> Crm_declined"
    using assms True crm_existing_declined
    by (auto simp: enqueueCrmLineageJob_def Let_def result_simps
        split: if_splits option.splits sum.splits)
  with True show ?thesis by simp
next
  case False
  then show ?thesis using assms by (simp add: enqueueCrmLineageJob_def)
qed

lemma enqueue_plain:
  "eq_type p \<notin> set crmJobTypes \<Longrightarrow>
   enqueueJob env new_id now p js =
     (if Some (eq_dedupe p) \<in> set (map j_dedupe js) then Inr (True, js)
      else Inr (True, js @ [toWorkflowJobCreateInput (new_id js) now p]))"
  by (simp add: enqueueJob_def enqueueCrmLineageJob_def)

lemma enqueue_appended:
  assumes "enqueueJob env new_id now p js = Inr (s, js')"
  shows "appended new_id now p js js'"
proof (cases "eq_type p \<in> set crmJobTypes")
  case False
  show ?thesis
  proof (cases "Some (eq_dedupe p) \<in> set (map j_dedupe js)")
    case True
    then show ?thesis using assms unfolding enqueue_plain [OF False] by (simp add: appended_def)
  next
    case absent: False
    then have "js' = js @ [toWorkflowJobCreateInput (new_id js) now (p\<lparr>eq_payload := eq_payload p\<rparr>)]"
      using assms unfolding enqueue_plain [OF False] by simp
    with absent show ?thesis unfolding appended_def by blast
  qed
next
  case True
  then obtain r js1 where crm: "enqueueCrmLineageJob env new_id now p js = Inr (r, js1)"
    "r \<noteq> Crm_declined"
    using assms crm_declined_iff by (fastforce simp: enqueueJob_def result_simps)
  then have "js' = js1" using assms by (auto simp: enqueueJob_def split: crm_outcome.splits)
  with crm(1) crm_appended show ?thesis by blast
qed

lemma appended_wf:
  assumes "appended new_id now p js js'" "wf_jobs js" "new_id js \<notin> set (map j_id js)"
  shows "wf_jobs js'"
  using assms
  by (auto simp: appended_def wf_jobs_def map_filter_append set_map_filter_dedupe List.map_filter_simps)

lemma resolve_append:
  "resolveDedupeKeyToJobId js k = Some i \<Longrightarrow> resolveDedupeKeyToJobId (js @ new) k = Some i"
  unfolding resolveDedupeKeyToJobId_def by (induction js) auto

lemma appended_resolve:
  "appended new_id now p js js' \<Longrightarrow> resolveDedupeKeyToJobId js k = Some i \<Longrightarrow>
   resolveDedupeKeyToJobId js' k = Some i"
  by (auto simp: appended_def resolve_append)

lemma appended_extends:
  "appended new_id now p js js' \<Longrightarrow>
   \<exists>new. js' = js @ new \<and> (\<forall>j \<in> set new. j_dedupe j = Some (eq_dedupe p))"
  by (auto simp: appended_def)

text \<open>An enqueued dedupe key is in the table, so a second enqueue under it changes nothing.\<close>

lemma enqueue_key:
  assumes "enqueueJob env new_id now p js = Inr (s, js')" "eq_type p \<notin> set crmJobTypes"
  shows "Some (eq_dedupe p) \<in> set (map j_dedupe js')"
  using assms by (auto simp: enqueue_plain split: if_splits)

lemma create_skip_rows:
  "\<exists>new. snd (create_skip new_id now p (n, js)) = js @ new \<and> fst (create_skip new_id now p (n, js)) = n + length new"
  by (simp add: create_skip_def)

lemma fold_create_skip_rows:
  "\<exists>new. snd (fold (create_skip new_id now) ps (n, js)) = js @ new
         \<and> fst (fold (create_skip new_id now) ps (n, js)) = n + length new"
proof (induction ps arbitrary: n js)
  case (Cons p ps)
  obtain new where "create_skip new_id now p (n, js) = (n + length new, js @ new)"
    using create_skip_rows [of new_id now p n js] by (metis prod.collapse)
  moreover obtain new2 where "snd (fold (create_skip new_id now) ps (n + length new, js @ new)) = (js @ new) @ new2"
    "fst (fold (create_skip new_id now) ps (n + length new, js @ new)) = n + length new + length new2"
    using Cons.IH by blast
  ultimately show ?case by (intro exI [of _ "new @ new2"]) simp
qed simp

lemma enqueue_present_noop:
  assumes "enqueueJob env new_id now p js = Inr (s, js')" "Some (eq_dedupe p) \<in> set (map j_dedupe js)"
  shows "js' = js"
  using enqueue_appended [OF assms(1)] assms(2) by (auto simp: appended_def)

end
