(* ===== verification/Job_Lease.thy ===== *)
theory Job_Lease
  imports Job_Store
begin

text \<open>
  The leases that protect a running job while its worker is busy:
  the SQL job lease of \<^verbatim>\<open>packages/workflows/src/sql-job-admission.ts\<close> and the knowledge
  ingestion lease of \<^verbatim>\<open>packages/domain/src/oauth-knowledge-sync-lease.ts\<close>, whose copy for event
  indexing is \<^verbatim>\<open>packages/workflows/src/handlers/event-knowledge-sync-lease.ts\<close>.

  A lease is held by one claim of one job.  Its operations are serialised by the code, so each
  is one step here: from the lease and the job table to the lease and the table after it.  The
  instant at which an operation reads the clock is an argument.
\<close>

definition LEASE_MS :: int where
  "LEASE_MS = 5 * 60000"

definition source_changed :: "string \<Rightarrow> js_error" where
  "source_changed m = AppError 409 ''SOURCE_CHANGED'' m"

section \<open>The knowledge ingestion lease\<close>

text \<open>
  \<open>kl_claim\<close> is the deep copy of the claimed row taken when the lease is made, \<open>kl_lockedAt\<close>
  the private stamp that only a successful renewal advances, \<open>kl_failure\<close> the first failure.
\<close>

record knowledge_lease =
  kl_claim :: job_row
  kl_lockedAt :: "int option"
  kl_failure :: "js_error option"
  kl_stopped :: bool

definition createKnowledgeLease :: "job_row \<Rightarrow> knowledge_lease" where
  "createKnowledgeLease claim =
     \<lparr>kl_claim = claim, kl_lockedAt = j_lockedAt claim, kl_failure = None, kl_stopped = False\<rparr>"

text \<open>\<^verbatim>\<open>createEventKnowledgeSyncLease\<close> admits only its own job type.\<close>

definition createEventKnowledgeLease :: "job_row \<Rightarrow> knowledge_lease result" where
  "createEventKnowledgeLease claim =
     and_then (invariant (j_type claim = ''knowledge.sync.event'') 409 ''SOURCE_CHANGED''
                 ''Event lease requires an Event indexing job.'')
       (\<lambda>_. Inr (createKnowledgeLease claim))"

text \<open>The fields of \<^verbatim>\<open>recipe\<close>, compared without \<^verbatim>\<open>lockedAt\<close>.\<close>

definition sameRecipe :: "job_row \<Rightarrow> job_row \<Rightarrow> bool" where
  "sameRecipe r c \<longleftrightarrow>
     j_id r = j_id c \<and> j_workspace r = j_workspace c \<and> j_type r = j_type c
     \<and> j_payload r = j_payload c \<and> j_attempts r = j_attempts c \<and> j_lockedBy r = j_lockedBy c
     \<and> j_startedAt r = j_startedAt c"

definition lease_fresh :: "int \<Rightarrow> knowledge_lease \<Rightarrow> bool" where
  "lease_fresh now l \<longleftrightarrow>
     (case kl_lockedAt l of None \<Rightarrow> False | Some t \<Rightarrow> t > now - LEASE_MS)
     \<and> j_lockedBy (kl_claim l) \<noteq> None \<and> j_lockedBy (kl_claim l) \<noteq> Some []
     \<and> j_startedAt (kl_claim l) \<noteq> None"

text \<open>\<^verbatim>\<open>fail\<close>: the first failure is kept.\<close>

definition lease_fail :: "js_error \<Rightarrow> knowledge_lease \<Rightarrow> knowledge_lease" where
  "lease_fail e l = (case kl_failure l of None \<Rightarrow> l\<lparr>kl_failure := Some e\<rparr> | Some _ \<Rightarrow> l)"

definition assertActive :: "int \<Rightarrow> knowledge_lease \<Rightarrow> knowledge_lease" where
  "assertActive now l =
     (case kl_failure l of
        Some _ \<Rightarrow> l
      | None \<Rightarrow> if lease_fresh now l then l
                else lease_fail (source_changed ''OAuth ingestion lease expired or was lost.'') l)"

definition assertCurrentRow :: "int \<Rightarrow> job_row option \<Rightarrow> knowledge_lease \<Rightarrow> knowledge_lease" where
  "assertCurrentRow now row l =
     (let l' = assertActive now l
      in if kl_failure l' \<noteq> None then l'
         else (case row of
                 None \<Rightarrow> lease_fail (source_changed ''OAuth ingestion lease was replaced.'') l'
               | Some r \<Rightarrow>
                   if sameRecipe r (kl_claim l') \<and> j_lockedAt r = kl_lockedAt l' then l'
                   else lease_fail (source_changed ''OAuth ingestion lease was replaced.'') l'))"

text \<open>The condition \<^verbatim>\<open>where()\<close> of the lease's updates.\<close>

definition lease_where :: "int \<Rightarrow> knowledge_lease \<Rightarrow> job_row \<Rightarrow> bool" where
  "lease_where now l r \<longleftrightarrow>
     sameRecipe r (kl_claim l) \<and> j_status r = J_RUNNING \<and> j_lockedAt r = kl_lockedAt l
     \<and> (case j_lockedAt r of None \<Rightarrow> False | Some t \<Rightarrow> t > now - LEASE_MS)"

text \<open>
  \<^verbatim>\<open>renew\<close>: under the row lock, check the row, and advance both stamps by a compare and set.
  A failed check leaves the table as it was and poisons the lease.
\<close>

definition renewLease ::
    "int \<Rightarrow> knowledge_lease \<Rightarrow> job_row list \<Rightarrow> knowledge_lease \<times> job_row list" where
  "renewLease now l js =
     (if kl_stopped l then (assertActive now l, js)
      else
        let l1 = assertCurrentRow now (find_job (j_id (kl_claim l)) js) l
        in if kl_failure l1 \<noteq> None then (l1, js)
           else if map_option j_status (find_job (j_id (kl_claim l)) js) \<noteq> Some J_RUNNING
           then (lease_fail (source_changed ''OAuth ingestion lease was replaced.'') l1, js)
           else
             let stamp = max now (the (kl_lockedAt l1) + 1);
                 (n, js') = update_many (lease_where now l1) (\<lambda>r. r\<lparr>j_lockedAt := Some stamp\<rparr>) js
             in if n \<noteq> 1
                then (lease_fail (source_changed ''OAuth ingestion lease was replaced.'') l1, js)
                else (assertActive now (l1\<lparr>kl_lockedAt := Some stamp\<rparr>), js'))"

text \<open>
  \<^verbatim>\<open>settle\<close>: dispose the lease, then write the outcome if the row still is the claimed one.
  A \<^verbatim>\<open>SOURCE_CHANGED\<close> error is reported as zero rows.
\<close>

definition settleLease ::
    "int \<Rightarrow> (job_row \<Rightarrow> job_row) \<Rightarrow> knowledge_lease \<Rightarrow> job_row list
     \<Rightarrow> nat \<times> knowledge_lease \<times> job_row list" where
  "settleLease now f l js =
     (let l0 = l\<lparr>kl_stopped := True\<rparr>
      in if kl_failure l0 \<noteq> None then (0, l0, js)
         else
           let l1 = assertCurrentRow now (find_job (j_id (kl_claim l)) js) l0
           in if kl_failure l1 \<noteq> None then (0, l1, js)
              else if map_option j_status (find_job (j_id (kl_claim l)) js) \<noteq> Some J_RUNNING
              then (0, l1, js)
              else let (n, js') = update_many (lease_where now l1) f js in (n, l1, js'))"

section \<open>The SQL job lease\<close>

text \<open>
  \<^verbatim>\<open>startSqlJobLease\<close>: the identity a \<^verbatim>\<open>data-source.sync\<close> worker renews and checks, with the
  database's own clock.
\<close>

record sql_lease =
  sl_id :: string
  sl_workspace :: string
  sl_lockedBy :: string
  sl_attempts :: int
  sl_source :: string
  sl_failure :: "js_error option"
  sl_stopped :: bool

definition startSqlJobLease :: "string \<Rightarrow> string \<Rightarrow> string \<Rightarrow> int \<Rightarrow> string \<Rightarrow> sql_lease" where
  "startSqlJobLease i w worker attempts source =
     \<lparr>sl_id = i, sl_workspace = w, sl_lockedBy = worker, sl_attempts = attempts,
      sl_source = source, sl_failure = None, sl_stopped = False\<rparr>"

definition sql_lease_lost :: js_error where
  "sql_lease_lost = PlainError ''SQL_WORKFLOW_LEASE_LOST'' None"

definition sql_lease_where :: "int \<Rightarrow> sql_lease \<Rightarrow> job_row \<Rightarrow> bool" where
  "sql_lease_where wall l r \<longleftrightarrow>
     j_id r = sl_id l \<and> j_workspace r = Some (sl_workspace l) \<and> j_type r = ''data-source.sync''
     \<and> j_status r = J_RUNNING \<and> j_lockedBy r = Some (sl_lockedBy l) \<and> j_attempts r = sl_attempts l
     \<and> field (j_payload r) ''sourceId'' = Some (JStr (sl_source l))
     \<and> (case j_lockedAt r of None \<Rightarrow> False | Some t \<Rightarrow> t > wall - LEASE_MS)"

definition sql_remember :: "js_error \<Rightarrow> sql_lease \<Rightarrow> sql_lease" where
  "sql_remember e l = (case sl_failure l of None \<Rightarrow> l\<lparr>sl_failure := Some e\<rparr> | Some _ \<Rightarrow> l)"

text \<open>The timer's renewal: skipped once stopped or failed, remembering a lost lease.\<close>

definition sqlRenew :: "int \<Rightarrow> sql_lease \<Rightarrow> job_row list \<Rightarrow> sql_lease \<times> job_row list" where
  "sqlRenew wall l js =
     (if sl_stopped l \<or> sl_failure l \<noteq> None then (l, js)
      else let (n, js') = update_many (sql_lease_where wall l) (\<lambda>r. r\<lparr>j_lockedAt := Some wall\<rparr>) js
           in if n = 1 then (l, js') else (sql_remember sql_lease_lost l, js'))"

definition sqlAssertCurrent :: "int \<Rightarrow> sql_lease \<Rightarrow> job_row list \<Rightarrow> sql_lease" where
  "sqlAssertCurrent wall l js =
     (if sl_failure l \<noteq> None then l
      else if length (filter (sql_lease_where wall l) js) = 1 then l
      else sql_remember sql_lease_lost l)"

definition sqlBeforePublication :: "int \<Rightarrow> sql_lease \<Rightarrow> job_row list \<Rightarrow> sql_lease \<times> job_row list" where
  "sqlBeforePublication wall l js =
     (let l0 = l\<lparr>sl_stopped := True\<rparr>
      in if sl_failure l0 \<noteq> None then (l0, js)
         else let (n, js') = update_many (sql_lease_where wall l0) (\<lambda>r. r\<lparr>j_lockedAt := Some wall\<rparr>) js
              in if n = 1 then (l0, js') else (sql_remember sql_lease_lost l0, js'))"

section \<open>Lemmas\<close>

lemma lease_fail_failure [simp]: "kl_failure (lease_fail e l) \<noteq> None"
  by (simp add: lease_fail_def split: option.split)

lemma lease_fail_claim [simp]: "kl_claim (lease_fail e l) = kl_claim l"
  by (simp add: lease_fail_def split: option.split)

lemma assertActive_claim [simp]: "kl_claim (assertActive now l) = kl_claim l"
  by (simp add: assertActive_def split: option.split)

lemma assertActive_ok: "kl_failure (assertActive now l) = None \<Longrightarrow> assertActive now l = l \<and> lease_fresh now l"
  by (auto simp: assertActive_def split: option.splits if_splits)

lemma assertCurrentRow_claim [simp]: "kl_claim (assertCurrentRow now row l) = kl_claim l"
  by (simp add: assertCurrentRow_def Let_def split: option.split)

lemma assertCurrentRow_ok:
  "kl_failure (assertCurrentRow now row l) = None \<Longrightarrow>
   assertCurrentRow now row l = l \<and> lease_fresh now l \<and>
   (\<exists>r. row = Some r \<and> sameRecipe r (kl_claim l) \<and> j_lockedAt r = kl_lockedAt l)"
  by (auto simp: assertCurrentRow_def Let_def dest: assertActive_ok split: option.splits if_splits)

text \<open>
  What a lease may change: the row it was issued for, still in the recorded claim, with the
  recorded stamp, and not expired.
\<close>

definition lease_owns :: "int \<Rightarrow> knowledge_lease \<Rightarrow> job_row list \<Rightarrow> bool" where
  "lease_owns now l js \<longleftrightarrow> (\<exists>r \<in> set js. lease_where now l r)"

lemma update_not_owned:
  "\<not> lease_owns now l js \<Longrightarrow> update_many (lease_where now l) f js = (0, js)"
  by (rule update_many_id) (auto simp: lease_owns_def)

lemma settleLease_not_owned:
  assumes "\<not> lease_owns now l js"
  shows "fst (settleLease now f l js) = 0 \<and> snd (snd (settleLease now f l js)) = js"
proof -
  let ?l0 = "l\<lparr>kl_stopped := True\<rparr>"
  let ?l1 = "assertCurrentRow now (find_job (j_id (kl_claim l)) js) ?l0"
  have "lease_where now ?l0 = lease_where now l" by (rule ext) (simp add: lease_where_def)
  then have "\<not> lease_owns now ?l0 js" using assms by (simp add: lease_owns_def)
  moreover have "kl_failure ?l1 = None \<Longrightarrow> ?l1 = ?l0" using assertCurrentRow_ok by blast
  ultimately show ?thesis
    by (auto simp: settleLease_def Let_def update_not_owned)
qed

lemma renewLease_not_owned:
  assumes "\<not> lease_owns now l js"
  shows "snd (renewLease now l js) = js"
proof -
  let ?l1 = "assertCurrentRow now (find_job (j_id (kl_claim l)) js) l"
  have "kl_failure ?l1 = None \<Longrightarrow> ?l1 = l" using assertCurrentRow_ok by blast
  with assms show ?thesis
    by (auto simp: renewLease_def Let_def update_not_owned)
qed

end
