(* ===== verification/Outbox_Claim.thy ===== *)
theory Outbox_Claim
  imports Job_Lease
begin

text \<open>
  Claiming work from the outbox: \<^verbatim>\<open>claimPendingEvents\<close> and \<^verbatim>\<open>claimPendingJobs\<close> of
  \<^verbatim>\<open>packages/workflows/src/outbox.ts\<close>.

  A claim is one SQL statement; it is modelled on the snapshot it reads.  Four clocks meet in it:
  the application's \<^verbatim>\<open>Date.now()\<close>, the start of the transaction \<^verbatim>\<open>NOW()\<close>, the wall clock
  \<^verbatim>\<open>clock_timestamp()\<close> and the session time zone, which PostgreSQL applies when a
  \<^verbatim>\<open>timestamp\<close> column meets a time with a zone.  Column values are UTC milliseconds, so in a
  session whose zone is \<open>tz\<close> milliseconds ahead of UTC, \<^verbatim>\<open>column <= NOW()\<close> compares with
  \<open>now + tz\<close> and \<^verbatim>\<open>NOW()::timestamp\<close> stores \<open>now + tz\<close>.

  \<^verbatim>\<open>SKIP LOCKED\<close> leaves out the rows that concurrent transactions hold, an argument of the
  claim.  Ids are ordered as strings.  Rows with one creation time are taken in table order where
  the statement leaves their order open, and the claimed rows are returned in claim order.
\<close>

record db_clock =
  clk_app :: int
  clk_now :: int
  clk_wall :: int
  clk_tz :: int

definition LOCK_TIMEOUT_MS :: int where
  "LOCK_TIMEOUT_MS = 5 * 60 * 1000"

definition staleBefore :: "db_clock \<Rightarrow> int" where
  "staleBefore c = clk_app c - LOCK_TIMEOUT_MS"

text \<open>
  The flag by which an operator import suppresses new claims of a workspace, in the table
  \<^verbatim>\<open>WorkspaceFeatureFlag\<close> of workspace, flag and enabled columns.
\<close>

type_synonym flag_table = "(string \<times> string \<times> bool) list"

definition OPERATOR_IMPORT_INACTIVE_FLAG :: string where
  "OPERATOR_IMPORT_INACTIVE_FLAG = ''operator_import_inactive''"

definition import_inactive :: "flag_table \<Rightarrow> string option \<Rightarrow> bool" where
  "import_inactive flags w =
     (case w of None \<Rightarrow> False | Some i \<Rightarrow> (i, OPERATOR_IMPORT_INACTIVE_FLAG, True) \<in> set flags)"

section \<open>Events\<close>

datatype event_status = E_PENDING | E_DISPATCHED | E_FAILED

record event_row =
  er_event :: domain_event
  er_status :: event_status
  er_availableAt :: int
  er_attempts :: int
  er_lockedAt :: "int option"
  er_lockedBy :: "string option"
  er_dispatchedAt :: "int option"
  er_error :: "string option"
  er_createdAt :: int

abbreviation er_id :: "event_row \<Rightarrow> string" where
  "er_id r \<equiv> ev_id (er_event r)"

abbreviation er_type :: "event_row \<Rightarrow> string" where
  "er_type r \<equiv> ev_type (er_event r)"

definition event_available :: "db_clock \<Rightarrow> event_row \<Rightarrow> bool" where
  "event_available c r \<longleftrightarrow>
     (if er_type r \<in> {''brain-source.created'', ''meeting.created'', ''meeting.transcript-uploaded''}
      then er_availableAt r \<le> clk_now c
      else er_availableAt r \<le> clk_now c + clk_tz c)"

definition event_unlocked :: "db_clock \<Rightarrow> event_row \<Rightarrow> bool" where
  "event_unlocked c r \<longleftrightarrow>
     (case er_lockedAt r of
        None \<Rightarrow> True
      | Some t \<Rightarrow>
          if er_type r \<in> {''meeting.created'', ''meeting.transcript-uploaded''}
          then t < clk_wall c - 5 * 60000 else t < staleBefore c)"

definition event_candidate :: "db_clock \<Rightarrow> flag_table \<Rightarrow> event_row \<Rightarrow> bool" where
  "event_candidate c flags r \<longleftrightarrow>
     er_status r = E_PENDING \<and> event_available c r \<and> event_unlocked c r
     \<and> \<not> import_inactive flags (ev_workspace (er_event r))"

definition claim_event :: "db_clock \<Rightarrow> string \<Rightarrow> event_row \<Rightarrow> event_row" where
  "claim_event c worker r =
     r\<lparr>er_lockedAt := Some (if er_type r \<in> {''meeting.created'', ''meeting.transcript-uploaded''}
                           then clk_wall c else clk_now c + clk_tz c),
       er_lockedBy := Some worker, er_attempts := er_attempts r + 1, er_error := None\<rparr>"

definition claimPendingEvents ::
    "db_clock \<Rightarrow> flag_table \<Rightarrow> string list \<Rightarrow> string \<Rightarrow> nat \<Rightarrow> event_row list
     \<Rightarrow> event_row list \<times> event_row list" where
  "claimPendingEvents c flags locked worker batchSize es =
     (let candidates =
            take batchSize (sort_key er_createdAt
              (filter (\<lambda>r. event_candidate c flags r \<and> er_id r \<notin> set locked) es));
          ids = map er_id candidates
      in (map (claim_event c worker) candidates,
          map (\<lambda>r. if er_id r \<in> set ids then claim_event c worker r else r) es))"

section \<open>Jobs\<close>

text \<open>The job types whose claim columns are kept in UTC whatever the session time zone.\<close>

definition utc_job_types :: "string list" where
  "utc_job_types =
     [''agent.brain-maintenance'', ''agent.brain-absorb'', ''agent.meeting-summary'',
      ''meeting.insights.extract'', ''agent.action-extraction'', ''meeting-audio.transcribe'']"

definition claimable :: "db_clock \<Rightarrow> job_row \<Rightarrow> bool" where
  "claimable c j \<longleftrightarrow>
     j_status j = J_PENDING
       \<and> (if j_type j \<in> set utc_job_types then j_runAfter j \<le> clk_now c
          else j_runAfter j \<le> clk_now c + clk_tz c)
     \<or> j_status j = J_RUNNING
       \<and> (case j_lockedAt j of
            None \<Rightarrow> False
          | Some t \<Rightarrow> if j_type j \<in> set utc_job_types then t < clk_wall c - 5 * 60000
                      else t < staleBefore c)"

text \<open>The left join with the job depended on: a dangling id joins with nothing.\<close>

definition dependency_met :: "job_row list \<Rightarrow> job_row \<Rightarrow> bool" where
  "dependency_met js j \<longleftrightarrow>
     (case j_depends j of
        None \<Rightarrow> True
      | Some d \<Rightarrow> map_option j_status (find_job d js) = Some J_COMPLETED)"

definition eligible :: "db_clock \<Rightarrow> flag_table \<Rightarrow> job_row list \<Rightarrow> job_row \<Rightarrow> bool" where
  "eligible c flags js j \<longleftrightarrow>
     claimable c j \<and> dependency_met js j \<and> \<not> import_inactive flags (j_workspace j)"

definition claim_order :: "job_row \<Rightarrow> int \<times> string" where
  "claim_order j = (j_createdAt j, j_id j)"

definition claim_queue ::
    "db_clock \<Rightarrow> flag_table \<Rightarrow> string list \<Rightarrow> job_row list \<Rightarrow> job_row list" where
  "claim_queue c flags locked js =
     sort_key claim_order (filter (\<lambda>j. eligible c flags js j \<and> j_id j \<notin> set locked) js)"

text \<open>
  \<^verbatim>\<open>head\<close> and \<^verbatim>\<open>candidates\<close>: the oldest eligible job picks the lane, and a
  \<^verbatim>\<open>data-source.sync\<close> head runs alone.
\<close>

definition job_candidates ::
    "db_clock \<Rightarrow> flag_table \<Rightarrow> string list \<Rightarrow> nat \<Rightarrow> job_row list \<Rightarrow> job_row list" where
  "job_candidates c flags locked batchSize js =
     (case claim_queue c flags locked js of
        [] \<Rightarrow> []
      | head # _ \<Rightarrow>
          take batchSize
            (filter (\<lambda>j. if j_type head = ''data-source.sync'' then j_id j = j_id head
                         else j_type j \<noteq> ''data-source.sync'')
               (claim_queue c flags locked js)))"

definition claim_job :: "db_clock \<Rightarrow> string \<Rightarrow> job_row \<Rightarrow> job_row" where
  "claim_job c worker j =
     j\<lparr>j_status := J_RUNNING, j_startedAt := Some (clk_now c + clk_tz c),
       j_lockedAt := Some (if j_type j \<in> set utc_job_types then clk_wall c else clk_now c + clk_tz c),
       j_lockedBy := Some worker, j_attempts := j_attempts j + 1, j_error := None\<rparr>"

definition claimPendingJobs ::
    "db_clock \<Rightarrow> flag_table \<Rightarrow> string list \<Rightarrow> string \<Rightarrow> nat \<Rightarrow> job_row list
     \<Rightarrow> job_row list \<times> job_row list" where
  "claimPendingJobs c flags locked worker batchSize js =
     (let candidates = job_candidates c flags locked batchSize js;
          ids = map j_id candidates
      in (map (claim_job c worker) candidates,
          map (\<lambda>j. if j_id j \<in> set ids then claim_job c worker j else j) js))"

section \<open>Lemmas\<close>

lemma claim_job_simps [simp]:
  "j_id (claim_job c w j) = j_id j" "j_type (claim_job c w j) = j_type j"
  "j_status (claim_job c w j) = J_RUNNING" "j_dedupe (claim_job c w j) = j_dedupe j"
  "j_depends (claim_job c w j) = j_depends j" "j_workspace (claim_job c w j) = j_workspace j"
  "j_lockedBy (claim_job c w j) = Some w" "j_attempts (claim_job c w j) = j_attempts j + 1"
  "j_payload (claim_job c w j) = j_payload j" "j_createdAt (claim_job c w j) = j_createdAt j"
  "j_event (claim_job c w j) = j_event j" "j_runAfter (claim_job c w j) = j_runAfter j"
  "j_error (claim_job c w j) = None" "j_completedAt (claim_job c w j) = j_completedAt j"
  by (simp_all add: claim_job_def)

lemma claim_event_simps [simp]:
  "er_event (claim_event c w r) = er_event r" "er_status (claim_event c w r) = er_status r"
  "er_attempts (claim_event c w r) = er_attempts r + 1" "er_lockedBy (claim_event c w r) = Some w"
  by (simp_all add: claim_event_def)

lemma set_claim_queue:
  "j \<in> set (claim_queue c flags locked js) \<longleftrightarrow>
   j \<in> set js \<and> eligible c flags js j \<and> j_id j \<notin> set locked"
  by (auto simp: claim_queue_def)

lemma sorted_claim_queue: "sorted (map claim_order (claim_queue c flags locked js))"
  by (simp add: claim_queue_def)

lemma job_candidates_queue:
  "j \<in> set (job_candidates c flags locked n js) \<Longrightarrow> j \<in> set (claim_queue c flags locked js)"
  by (auto simp: job_candidates_def split: list.splits if_splits dest: in_set_takeD)

lemma wf_jobs_id: "wf_jobs js \<Longrightarrow> i \<in> set js \<Longrightarrow> j \<in> set js \<Longrightarrow> j_id i = j_id j \<Longrightarrow> i = j"
  by (auto simp: wf_jobs_def distinct_map inj_on_def)

lemma candidate_ids:
  assumes "wf_jobs js" "j \<in> set js"
  shows "j_id j \<in> set (map j_id (job_candidates c flags locked n js))
         \<longleftrightarrow> j \<in> set (job_candidates c flags locked n js)"
proof
  assume "j_id j \<in> set (map j_id (job_candidates c flags locked n js))"
  then obtain k where k: "k \<in> set (job_candidates c flags locked n js)" "j_id k = j_id j" by auto
  then have "k \<in> set js" using job_candidates_queue set_claim_queue by blast
  with k assms show "j \<in> set (job_candidates c flags locked n js)"
    using wf_jobs_id [OF assms(1)] by blast
qed simp

lemma snd_claimPendingJobs:
  assumes "wf_jobs js"
  shows "snd (claimPendingJobs c flags locked w n js) =
     map (\<lambda>j. if j \<in> set (job_candidates c flags locked n js) then claim_job c w j else j) js"
  unfolding claimPendingJobs_def Let_def snd_conv
  by (rule map_cong [OF refl]) (simp only: candidate_ids [OF assms])

lemma fst_claimPendingJobs:
  "fst (claimPendingJobs c flags locked w n js) =
   map (claim_job c w) (job_candidates c flags locked n js)"
  by (simp add: claimPendingJobs_def Let_def)

lemma map_rows_wf:
  assumes "\<And>j. j_id (f j) = j_id j" "\<And>j. j_dedupe (f j) = j_dedupe j" "wf_jobs js"
  shows "wf_jobs (map f js)"
proof -
  have "map j_id (map f js) = map j_id js" using assms(1) by simp
  moreover have "List.map_filter j_dedupe (map f js) = List.map_filter j_dedupe js"
    by (rule map_filter_map_eq) (rule assms(2))
  ultimately show ?thesis using assms(3) unfolding wf_jobs_def by metis
qed

lemma claimPendingJobs_wf: "wf_jobs js \<Longrightarrow> wf_jobs (snd (claimPendingJobs c flags locked w n js))"
  by (simp add: snd_claimPendingJobs map_rows_wf)

lemma distinct_claim_queue: "wf_jobs js \<Longrightarrow> distinct (claim_queue c flags locked js)"
  by (simp add: claim_queue_def wf_jobs_def distinct_map)

lemma dependency_met_iff:
  "dependency_met js j \<longleftrightarrow>
   (\<forall>d. j_depends j = Some d \<longrightarrow> (\<exists>dep. find_job d js = Some dep \<and> j_status dep = J_COMPLETED))"
  by (auto simp: dependency_met_def split: option.splits)

lemma find_job_Some: "find_job i js = Some r \<Longrightarrow> r \<in> set js \<and> j_id r = i"
  by (auto simp: find_job_def find_Some_iff)

section \<open>Properties of a claim\<close>

text \<open>
  C2: every job a claim returns was due and pending, or running with an expired lock;
  its dependency, if it has one, is a completed job of the table; its workspace is not being
  imported; no concurrent transaction held it.  The claim writes exactly the running status, the
  worker's lock and one more attempt into it, and leaves every other row as it was.
\<close>

theorem claimPendingJobs_sound:
  assumes "wf_jobs js" and "claimPendingJobs c flags locked w n js = (claimed, js')"
    and "k \<in> set claimed"
  shows "(\<exists>j \<in> set js. k = claim_job c w j \<and> claimable c j
            \<and> (\<forall>d. j_depends j = Some d \<longrightarrow>
                 (\<exists>dep \<in> set js. j_id dep = d \<and> j_status dep = J_COMPLETED))
            \<and> \<not> import_inactive flags (j_workspace j) \<and> j_id j \<notin> set locked)
         \<and> k \<in> set js' \<and> j_status k = J_RUNNING \<and> j_lockedBy k = Some w
         \<and> length claimed \<le> n \<and> map j_id js' = map j_id js
         \<and> (\<forall>j \<in> set js. j_id j \<notin> set (map j_id claimed) \<longrightarrow> j \<in> set js')"
    (is "?source \<and> _")
proof -
  have cl: "claimed = map (claim_job c w) (job_candidates c flags locked n js)"
    and js': "js' = map (\<lambda>j. if j \<in> set (job_candidates c flags locked n js)
                            then claim_job c w j else j) js"
    using assms(2) fst_claimPendingJobs [of c flags locked w n js]
      snd_claimPendingJobs [OF assms(1), of c flags locked w n] by simp_all
  from assms(3) obtain j where j: "j \<in> set (job_candidates c flags locked n js)" "k = claim_job c w j"
    by (auto simp: cl)
  then have q: "j \<in> set js" "eligible c flags js j" "j_id j \<notin> set locked"
    using job_candidates_queue set_claim_queue by blast+
  have "\<forall>d. j_depends j = Some d \<longrightarrow> (\<exists>dep \<in> set js. j_id dep = d \<and> j_status dep = J_COMPLETED)"
    using q(2) find_job_Some unfolding eligible_def dependency_met_iff by metis
  then have ?source using q j(2) by (auto simp: eligible_def)
  moreover have "k \<in> set js' \<and> j_status k = J_RUNNING \<and> j_lockedBy k = Some w"
    using j q(1) by (force simp: js')
  moreover have "length claimed \<le> n" by (simp add: cl job_candidates_def split: list.split)
  moreover have "map j_id js' = map j_id js" by (simp add: js')
  moreover have "\<forall>j \<in> set js. j_id j \<notin> set (map j_id claimed) \<longrightarrow> j \<in> set js'"
    by (force simp: js' cl)
  ultimately show ?thesis by blast
qed

text \<open>
  A claim is either one \<^verbatim>\<open>data-source.sync\<close> job alone or a batch without any, the
  oldest eligible job always being in it; so a claim with room and eligible work is never empty
  and neither lane starves the other.
\<close>

lemma claimPendingJobs_lane:
  assumes "wf_jobs js" "0 < n" "j \<in> set js" "eligible c flags js j" "j_id j \<notin> set locked"
  shows "\<exists>k ks. fst (claimPendingJobs c flags locked w n js) = k # ks
           \<and> claim_order k \<le> claim_order j
           \<and> (if j_type k = ''data-source.sync'' then ks = []
              else \<forall>k' \<in> set ks. j_type k' \<noteq> ''data-source.sync'')"
proof -
  let ?q = "claim_queue c flags locked js"
  have jq: "j \<in> set ?q" using assms by (simp add: set_claim_queue)
  then obtain h rest where q: "?q = h # rest" by (cases ?q) auto
  have le: "claim_order h \<le> claim_order j"
    using jq sorted_claim_queue [of c flags locked js] by (auto simp: q)
  have hn: "h \<notin> set rest" using distinct_claim_queue [OF assms(1)] q by (metis distinct.simps(2))
  have ids: "\<And>k. k \<in> set rest \<Longrightarrow> j_id k \<noteq> j_id h"
    using hn wf_jobs_id [OF assms(1)] set_claim_queue q by (metis list.set_intros)
  show ?thesis
  proof (cases "j_type h = ''data-source.sync''")
    case True
    then have "filter (\<lambda>j. j_id j = j_id h) rest = []" using ids by (simp add: filter_empty_conv)
    with True assms(2) le show ?thesis
      by (cases n) (simp_all add: fst_claimPendingJobs job_candidates_def q claim_order_def)
  next
    case False
    with assms(2) le show ?thesis
      by (cases n)
        (auto simp: fst_claimPendingJobs job_candidates_def q claim_order_def dest!: in_set_takeD)
  qed
qed

text \<open>
  C3: in a UTC session, a job one worker has claimed is not claimed again by any
  worker until the five minutes of its lock have passed on the clocks the second claim reads,
  as long as nothing writes its row in between: no completion, failure or progress of the run.  (A
  job that fails is PENDING again, and is claimed as soon as its retry is due.)
\<close>

theorem claimPendingJobs_no_double:
  assumes "wf_jobs js" "clk_tz c1 = 0"
    and "clk_app c2 \<le> clk_now c1 + LOCK_TIMEOUT_MS" "clk_wall c2 \<le> clk_wall c1 + LOCK_TIMEOUT_MS"
    and "k \<in> set (fst (claimPendingJobs c1 flags1 locked1 w1 n1 js))"
  shows "k \<in> set js2 \<Longrightarrow> wf_jobs js2 \<Longrightarrow>
         j_id k \<notin> set (map j_id (fst (claimPendingJobs c2 flags2 locked2 w2 n2 js2)))"
proof
  assume k2: "k \<in> set js2" "wf_jobs js2"
  assume "j_id k \<in> set (map j_id (fst (claimPendingJobs c2 flags2 locked2 w2 n2 js2)))"
  then have "j_id k \<in> set (map j_id (job_candidates c2 flags2 locked2 n2 js2))"
    by (auto simp: fst_claimPendingJobs)
  then have "k \<in> set (job_candidates c2 flags2 locked2 n2 js2)"
    using candidate_ids [OF k2(2,1)] by blast
  then have "claimable c2 k"
    using job_candidates_queue set_claim_queue eligible_def by blast
  moreover obtain j where "k = claim_job c1 w1 j" using assms(5) by (auto simp: fst_claimPendingJobs)
  ultimately show False
    using assms(2-4)
    by (auto simp: claimable_def claim_job_def staleBefore_def LOCK_TIMEOUT_MS_def split: if_splits)
qed

section \<open>Witnesses\<close>

definition example_job :: "string \<Rightarrow> string \<Rightarrow> int \<Rightarrow> job_row" where
  "example_job i ty created =
     \<lparr>j_id = i, j_workspace = Some ''w'', j_event = None, j_type = ty, j_payload = JObj [],
      j_status = J_PENDING, j_dedupe = Some i, j_depends = None, j_runAfter = 0, j_attempts = 0,
      j_lockedAt = None, j_lockedBy = None, j_startedAt = None, j_completedAt = None,
      j_error = None, j_createdAt = created\<rparr>"

definition example_clock :: "int \<Rightarrow> db_clock" where
  "example_clock t = \<lparr>clk_app = t, clk_now = t, clk_wall = t, clk_tz = 0\<rparr>"

definition example_jobs :: "job_row list" where
  "example_jobs =
     [example_job ''a'' ''data-source.sync'' 7, example_job ''b'' ''governance.score'' 5,
      example_job ''c'' ''agent.brain-absorb'' 6]"

lemma example_jobs_wf: "wf_jobs example_jobs"
  by code_simp

lemma claimPendingJobs_sound_witness:
  "\<exists>j \<in> set example_jobs. claim_job (example_clock 10) ''w1'' (example_job ''b'' ''governance.score'' 5)
       = claim_job (example_clock 10) ''w1'' j \<and> claimable (example_clock 10) j"
proof -
  have "claimPendingJobs (example_clock 10) [] [] ''w1'' 25 example_jobs =
     (map (claim_job (example_clock 10) ''w1'')
        [example_job ''b'' ''governance.score'' 5, example_job ''c'' ''agent.brain-absorb'' 6],
      snd (claimPendingJobs (example_clock 10) [] [] ''w1'' 25 example_jobs))"
    by code_simp
  from claimPendingJobs_sound [OF example_jobs_wf this, of "claim_job (example_clock 10) ''w1'' (example_job ''b'' ''governance.score'' 5)"]
  show ?thesis by auto
qed

lemma claimPendingJobs_no_double_witness:
  "''b'' \<notin> set (map j_id (fst (claimPendingJobs (example_clock 300000) [] [] ''w2'' 25
              (snd (claimPendingJobs (example_clock 10) [] [] ''w1'' 25 example_jobs)))))"
proof -
  let ?k = "claim_job (example_clock 10) ''w1'' (example_job ''b'' ''governance.score'' 5)"
  have "?k \<in> set (fst (claimPendingJobs (example_clock 10) [] [] ''w1'' 25 example_jobs))"
    "?k \<in> set (snd (claimPendingJobs (example_clock 10) [] [] ''w1'' 25 example_jobs))"
    by code_simp+
  from claimPendingJobs_no_double [OF example_jobs_wf _ _ _ this claimPendingJobs_wf [OF example_jobs_wf],
      of "example_clock 300000" "[]" "[]" "''w2''" 25]
  show ?thesis by (simp add: example_clock_def LOCK_TIMEOUT_MS_def example_job_def)
qed

end
