(* ===== verification/Outbox_Settle.thy ===== *)
theory Outbox_Settle
  imports Outbox_Claim Js_Number
begin

text \<open>
  What happens to claimed work: the retry schedule, \<^verbatim>\<open>failEvent\<close>, \<^verbatim>\<open>completeJob\<close>,
  \<^verbatim>\<open>failJob\<close> and the settlement of a cj by \<^verbatim>\<open>processClaimedJob\<close>, all of
  \<^verbatim>\<open>packages/workflows/src/outbox.ts\<close>.

  The cj's handler, the recording of meeting progress and the execution contexts around them are
  arguments (\<open>job_env\<close>): each is a call that returns or throws.  While they run other workers may
  change the table, so the settlement acts on the table found at its time.  The clock reads of one
  settlement are one instant \<open>now\<close>.
\<close>

section \<open>Retry schedule\<close>

definition MAX_ATTEMPTS :: int where
  "MAX_ATTEMPTS = 5"

definition RETRY_BASE_DELAY_MS :: int where
  "RETRY_BASE_DELAY_MS = 5000"

definition RETRY_MAX_DELAY_MS :: int where
  "RETRY_MAX_DELAY_MS = 5 * 60 * 1000"

definition calculateRetryDelayMs :: "int \<Rightarrow> int" where
  "calculateRetryDelayMs attempt =
     (let normalizedAttempt = max 1 attempt
      in min (RETRY_BASE_DELAY_MS * 2 ^ nat (normalizedAttempt - 1)) RETRY_MAX_DELAY_MS)"

definition nextRetryTime :: "int \<Rightarrow> int \<Rightarrow> int" where
  "nextRetryTime now attempt = now + calculateRetryDelayMs attempt"

section \<open>Errors of a job\<close>

text \<open>
  A handler throws an error of its own or \<^verbatim>\<open>MaintenanceDeferred\<close>, which asks for another turn.
\<close>

datatype job_failure = Failed js_error | MaintenanceDeferred string

fun failure_error :: "job_failure \<Rightarrow> js_error" where
  "failure_error (Failed e) = e"
| "failure_error (MaintenanceDeferred r) = PlainError (''Brain maintenance deferred: '' @ r) None"

definition executionAuthorizationRevoked :: "js_error \<Rightarrow> bool" where
  "executionAuthorizationRevoked e =
     (let revokedCodes = [''SUPPORT_AUTHORIZATION_REVOKED'', ''MCP_AUTHORIZATION_REVOKED'']
      in is_error e
         \<and> ((case error_code e of None \<Rightarrow> [] | Some c \<Rightarrow> c) \<in> set revokedCodes
            \<or> error_message e \<in> set revokedCodes))"

definition message_or :: "string \<Rightarrow> js_error \<Rightarrow> string" where
  "message_or fallback e = (if is_error e then error_message e else fallback)"

section \<open>Failing events and jobs\<close>

definition fail_event_row :: "int \<Rightarrow> int \<Rightarrow> js_error \<Rightarrow> event_row \<Rightarrow> event_row" where
  "fail_event_row now attempts e r =
     (let status = (if attempts \<ge> MAX_ATTEMPTS \<or> executionAuthorizationRevoked e then E_FAILED
                    else E_PENDING)
      in r\<lparr>er_status := status, er_error := Some (message_or ''Unknown event dispatch error.'' e),
           er_availableAt := (if status = E_PENDING then nextRetryTime now attempts else now),
           er_lockedAt := None, er_lockedBy := None\<rparr>)"

definition failEvent :: "int \<Rightarrow> event_row \<Rightarrow> js_error \<Rightarrow> event_row list \<Rightarrow> event_row list result" where
  "failEvent now ev e es =
     (if er_id ev \<in> set (map er_id es)
      then Inr (map (\<lambda>r. if er_id r = er_id ev then fail_event_row now (er_attempts ev) e r else r) es)
      else Inl (PlainError ''No record was found for an update.'' (Some ''P2025'')))"

definition complete_row :: "int \<Rightarrow> job_row \<Rightarrow> job_row" where
  "complete_row now r =
     r\<lparr>j_status := J_COMPLETED, j_completedAt := Some now, j_error := None, j_lockedAt := None,
       j_lockedBy := None\<rparr>"

definition fail_row :: "int \<Rightarrow> int \<Rightarrow> js_error \<Rightarrow> job_row \<Rightarrow> job_row" where
  "fail_row now attempts e r =
     (let status = (if attempts \<ge> MAX_ATTEMPTS \<or> executionAuthorizationRevoked e then J_FAILED
                    else J_PENDING)
      in r\<lparr>j_status := status, j_error := Some (message_or ''Unknown worker error.'' e),
           j_completedAt := (if status = J_FAILED then Some now else None),
           j_runAfter := (if status = J_PENDING then nextRetryTime now attempts else j_runAfter r),
           j_lockedAt := None, j_lockedBy := None\<rparr>)"

definition completeJob :: "int \<Rightarrow> string \<Rightarrow> job_row list \<Rightarrow> job_row list result" where
  "completeJob now i js = update_by_id i (complete_row now) js"

definition failJob :: "int \<Rightarrow> job_row \<Rightarrow> js_error \<Rightarrow> job_row list \<Rightarrow> job_row list result" where
  "failJob now j e js = update_by_id (j_id j) (fail_row now (j_attempts j) e) js"

section \<open>Fenced job types\<close>

definition BRAIN_MAINTENANCE_JOB :: string where
  "BRAIN_MAINTENANCE_JOB = ''agent.brain-maintenance''"

definition MEETING_AUDIO_TRANSCRIPTION_JOB_TYPE :: string where
  "MEETING_AUDIO_TRANSCRIPTION_JOB_TYPE = ''meeting-audio.transcribe''"

definition RELEASE_DIAGNOSTIC_JOB_TYPE :: string where
  "RELEASE_DIAGNOSTIC_JOB_TYPE = ''runtime.release-diagnostic.v1''"

definition isMeetingTranscriptWorkerJob :: "string \<Rightarrow> bool" where
  "isMeetingTranscriptWorkerJob t \<longleftrightarrow>
     t \<in> set [''agent.meeting-summary'', ''meeting.insights.extract'', ''agent.action-extraction'']"

definition isClaimFencedKnowledgeSyncJob :: "string \<Rightarrow> bool" where
  "isClaimFencedKnowledgeSyncJob t \<longleftrightarrow>
     t = ''oauth.documents.sync'' \<or> t = ''oauth.email.sync'' \<or> t = ''knowledge.sync.event''"

definition isSourceRegenerationJob :: "string \<Rightarrow> bool" where
  "isSourceRegenerationJob t \<longleftrightarrow>
     t = ''agent.brain-source-regenerate'' \<or> t = ''agent.brain-article-variant''
     \<or> t = ''agent.graph-source-variant''"

definition fenced_type :: "string \<Rightarrow> bool" where
  "fenced_type t \<longleftrightarrow>
     isClaimFencedKnowledgeSyncJob t \<or> isSourceRegenerationJob t \<or> t = ''agent.brain-absorb''
     \<or> t = BRAIN_MAINTENANCE_JOB \<or> isMeetingTranscriptWorkerJob t
     \<or> t = MEETING_AUDIO_TRANSCRIPTION_JOB_TYPE"

text \<open>
  The \<^verbatim>\<open>where\<close> of the fenced updates.  The claimed row \<open>cj\<close> supplies the recipe; a later
  \<^verbatim>\<open>lockedAt\<close> entry of the object literal replaces an earlier one.
\<close>

definition settle_where :: "int \<Rightarrow> string \<Rightarrow> job_row \<Rightarrow> job_row \<Rightarrow> bool" where
  "settle_where now worker cj r \<longleftrightarrow>
     (let t = j_type cj;
          live = (case j_lockedAt r of None \<Rightarrow> False | Some l \<Rightarrow> l > now - LOCK_TIMEOUT_MS)
      in j_id r = j_id cj \<and> j_workspace r = j_workspace cj \<and> j_type r = t
         \<and> j_status r = J_RUNNING \<and> j_lockedBy r = Some worker \<and> j_attempts r = j_attempts cj
         \<and> (isClaimFencedKnowledgeSyncJob t \<or> isMeetingTranscriptWorkerJob t
            \<or> t = BRAIN_MAINTENANCE_JOB \<or> t = MEETING_AUDIO_TRANSCRIPTION_JOB_TYPE \<longrightarrow>
              j_payload r = j_payload cj \<and> live)
         \<and> (isClaimFencedKnowledgeSyncJob t \<longrightarrow>
              j_lockedAt r = j_lockedAt cj \<and> live \<and> j_startedAt r = j_startedAt cj)
         \<and> (t = MEETING_AUDIO_TRANSCRIPTION_JOB_TYPE \<longrightarrow> j_startedAt r = j_startedAt cj))"

text \<open>The narrower conditions of the SQL lane, of a deferral and of a failed diagnostic.\<close>

definition claim_where :: "string \<Rightarrow> job_row \<Rightarrow> job_row \<Rightarrow> bool" where
  "claim_where worker cj r \<longleftrightarrow>
     j_id r = j_id cj \<and> j_workspace r = j_workspace cj \<and> j_type r = j_type cj
     \<and> j_status r = J_RUNNING \<and> j_lockedBy r = Some worker \<and> j_attempts r = j_attempts cj"

definition defer_where :: "int \<Rightarrow> string \<Rightarrow> job_row \<Rightarrow> job_row \<Rightarrow> bool" where
  "defer_where now worker cj r \<longleftrightarrow>
     claim_where worker cj r \<and> j_lockedAt r = j_lockedAt cj
     \<and> (case j_lockedAt r of None \<Rightarrow> False | Some l \<Rightarrow> l > now - LOCK_TIMEOUT_MS)
     \<and> j_payload r = j_payload cj"

definition diagnostic_where :: "string \<Rightarrow> job_row \<Rightarrow> job_row \<Rightarrow> bool" where
  "diagnostic_where worker cj r \<longleftrightarrow>
     j_id r = j_id cj \<and> j_workspace r = j_workspace cj \<and> j_type r = RELEASE_DIAGNOSTIC_JOB_TYPE
     \<and> j_status r = J_RUNNING \<and> j_lockedBy r = Some worker"

definition defer_row :: "int \<Rightarrow> string \<Rightarrow> job_row \<Rightarrow> job_row" where
  "defer_row now reason r =
     (let delay = (if reason = ''daily_rate_limit'' then 24 * 60 * 60000
                   else if reason \<in> set [''hourly_rate_limit'', ''budget_exceeded''] then 60 * 60000
                   else 60000)
      in r\<lparr>j_status := J_PENDING, j_attempts := j_attempts r - 1, j_runAfter := now + delay,
           j_lockedAt := None, j_lockedBy := None,
           j_error := Some (error_message (failure_error (MaintenanceDeferred reason)))\<rparr>)"

definition diagnostic_failed_row :: "job_row \<Rightarrow> job_row" where
  "diagnostic_failed_row r =
     r\<lparr>j_status := J_FAILED, j_lockedAt := None, j_lockedBy := None,
       j_error := Some ''Release diagnostic failed; reconcile the exact operation.''\<rparr>"

section \<open>Processing a claimed job\<close>

datatype progress_status = PS_ACTIVE | PS_COMPLETED | PS_FAILED | PS_SKIPPED

record handler_result =
  hr_skipped :: bool
  hr_superseded :: bool

text \<open>
  The calls around a job: entering its execution contexts (support, MCP and, for a transcript job,
  the transcript worker), recording its meeting progress, running its handler, and the checks the
  contexts make once it is done.
\<close>

record job_env =
  je_enter :: "unit result"
  je_progress :: "progress_status \<Rightarrow> unit result"
  je_handler :: "job_failure + handler_result"
  je_leave :: "unit result"

definition lift_failure :: "'a result \<Rightarrow> job_failure + 'a" where
  "lift_failure r = (case r of Inl e \<Rightarrow> Inl (Failed e) | Inr x \<Rightarrow> Inr x)"

text \<open>\<^verbatim>\<open>execute\<close> with its inner \<^verbatim>\<open>catch\<close>, which only a transcript worker's actor enables.\<close>

definition execute_job :: "job_env \<Rightarrow> job_row \<Rightarrow> job_failure + bool" where
  "execute_job env cj =
     (let body =
            and_then (lift_failure (je_progress env PS_ACTIVE)) (\<lambda>_.
            and_then (je_handler env) (\<lambda>result.
              let superseded = isSourceRegenerationJob (j_type cj) \<and> hr_superseded result
              in and_then (lift_failure (je_progress env
                   (if hr_skipped result then PS_SKIPPED else PS_COMPLETED))) (\<lambda>_. Inr superseded)))
      in case body of
           Inr s \<Rightarrow> Inr s
         | Inl f \<Rightarrow>
             if isMeetingTranscriptWorkerJob (j_type cj) \<and> j_attempts cj \<ge> MAX_ATTEMPTS
                \<and> \<not> executionAuthorizationRevoked (failure_error f)
             then and_then (lift_failure (je_progress env PS_FAILED)) (\<lambda>_. Inl f)
             else Inl f)"

text \<open>The lease a claim-fenced job holds at the end of its run, whose renewals moved its stamp.\<close>

definition settleClaimedJob ::
    "int \<Rightarrow> string \<Rightarrow> knowledge_lease option \<Rightarrow> job_row \<Rightarrow> (job_row \<Rightarrow> job_row) \<Rightarrow> job_row list
     \<Rightarrow> nat \<times> job_row list" where
  "settleClaimedJob now worker lease cj f js =
     (case lease of
        Some l \<Rightarrow> (let (n, _, js') = settleLease now f l js in (n, js'))
      | None \<Rightarrow> update_many (settle_where now worker cj) f js)"

text \<open>The guard of a \<^verbatim>\<open>data-source.sync\<close> cj: its identity and its lease on the table.\<close>

definition data_source_guard :: "int \<Rightarrow> string \<Rightarrow> job_row \<Rightarrow> job_row list \<Rightarrow> unit result" where
  "data_source_guard now worker cj js =
     (case (j_workspace cj, field (j_payload cj) ''sourceId'') of
        (Some w, Some (JStr s)) \<Rightarrow>
          if w = [] \<or> s = [] \<or> j_lockedBy cj \<noteq> Some worker
          then Inl (PlainError ''Invalid SQL workflow identity.'' None)
          else (case sl_failure (sqlAssertCurrent now
                      (startSqlJobLease (j_id cj) w worker (j_attempts cj) s) js) of
                  Some e \<Rightarrow> Inl e
                | None \<Rightarrow> Inr ())
      | _ \<Rightarrow> Inl (PlainError ''Invalid SQL workflow identity.'' None))"

definition lease_check :: "int \<Rightarrow> knowledge_lease option \<Rightarrow> job_failure + unit" where
  "lease_check now lease =
     (case lease of
        None \<Rightarrow> Inr ()
      | Some l \<Rightarrow> (case kl_failure (assertActive now l) of Some e \<Rightarrow> Inl (Failed e) | None \<Rightarrow> Inr ()))"

text \<open>
  The successful end of the \<^verbatim>\<open>try\<close> block.  A diagnostic settles itself; a superseded
  regeneration is left to its successor.
\<close>

definition settle_success ::
    "int \<Rightarrow> string \<Rightarrow> knowledge_lease option \<Rightarrow> job_row \<Rightarrow> bool \<Rightarrow> job_row list
     \<Rightarrow> (job_failure + unit) \<times> job_row list" where
  "settle_success now worker lease cj superseded js =
     (if j_type cj = RELEASE_DIAGNOSTIC_JOB_TYPE then (Inr (), js)
      else if fenced_type (j_type cj) \<and> \<not> superseded then
        (let (n, js') = settleClaimedJob now worker lease cj (complete_row now) js
         in if lease = None \<or> n = 1 then (Inr (), js')
            else (Inl (Failed (source_changed ''Knowledge ingestion lease changed before completion.'')), js'))
      else if j_type cj = ''data-source.sync'' then
        (Inr (), snd (update_many (claim_where worker cj) (complete_row now) js))
      else if \<not> superseded then
        (case completeJob now (j_id cj) js of
           Inl e \<Rightarrow> (Inl (Failed e), js)
         | Inr js' \<Rightarrow> (Inr (), js'))
      else (Inr (), js))"

text \<open>The outer \<^verbatim>\<open>catch\<close>.  A left value is an error that escapes \<^verbatim>\<open>processClaimedJob\<close>.\<close>

definition settle_failure ::
    "int \<Rightarrow> job_env \<Rightarrow> string \<Rightarrow> knowledge_lease option \<Rightarrow> job_row \<Rightarrow> job_failure \<Rightarrow> job_row list
     \<Rightarrow> unit result \<times> job_row list" where
  "settle_failure now env worker lease cj f js =
     (case (j_type cj = BRAIN_MAINTENANCE_JOB, f) of
        (True, MaintenanceDeferred reason) \<Rightarrow>
          (Inr (), snd (update_many (defer_where now worker cj) (defer_row now reason) js))
      | _ \<Rightarrow>
          (let e = failure_error f;
               progress = (if \<not> isMeetingTranscriptWorkerJob (j_type cj)
                              \<and> j_attempts cj \<ge> MAX_ATTEMPTS \<and> \<not> executionAuthorizationRevoked e
                           then je_progress env PS_FAILED else Inr ())
           in case progress of
                Inl e' \<Rightarrow> (Inl e', js)
              | Inr _ \<Rightarrow>
                  if j_type cj = RELEASE_DIAGNOSTIC_JOB_TYPE then
                    (Inr (), snd (update_many (diagnostic_where worker cj) diagnostic_failed_row js))
                  else if j_type cj = ''data-source.sync'' \<or> fenced_type (j_type cj) then
                    (Inr (), snd (settleClaimedJob now worker lease cj (fail_row now (j_attempts cj) e) js))
                  else (case failJob now cj e js of
                          Inl e' \<Rightarrow> (Inl e', js)
                        | Inr js' \<Rightarrow> (Inr (), js'))))"

text \<open>
  The run of the job up to its settlement: \<open>js0\<close> is the table when it starts, \<open>lease\<close> the lease
  when the handler is done (only the claim-fenced types hold one, made from the claim).
\<close>

definition run_job ::
    "int \<Rightarrow> int \<Rightarrow> job_env \<Rightarrow> string \<Rightarrow> knowledge_lease option \<Rightarrow> job_row \<Rightarrow> job_row list
     \<Rightarrow> job_failure + bool" where
  "run_job start now env worker lease cj js0 =
     and_then (if j_type cj = ''data-source.sync''
               then lift_failure (data_source_guard start worker cj js0) else Inr ()) (\<lambda>_.
     and_then (lease_check start (map_option (\<lambda>_. createKnowledgeLease cj) lease)) (\<lambda>_.
     and_then (lift_failure (je_enter env)) (\<lambda>_.
     and_then (execute_job env cj) (\<lambda>superseded.
     and_then (lift_failure (je_leave env)) (\<lambda>_.
     and_then (lease_check now lease) (\<lambda>_. Inr superseded))))))"

text \<open>\<^verbatim>\<open>processClaimedJob\<close>; \<open>js\<close> is the table when the handler is done.\<close>

definition processClaimedJob ::
    "int \<Rightarrow> int \<Rightarrow> job_env \<Rightarrow> string \<Rightarrow> knowledge_lease option \<Rightarrow> job_row \<Rightarrow> job_row list
     \<Rightarrow> job_row list \<Rightarrow> unit result \<times> job_row list" where
  "processClaimedJob start now env worker lease cj js0 js =
     (case run_job start now env worker lease cj js0 of
        Inl f \<Rightarrow> settle_failure now env worker lease cj f js
      | Inr superseded \<Rightarrow>
          (case settle_success now worker lease cj superseded js of
             (Inr _, js') \<Rightarrow> (Inr (), js')
           | (Inl f, js') \<Rightarrow> settle_failure now env worker lease cj f js'))"

section \<open>Running a batch\<close>

definition DEFAULT_JOB_CONCURRENCY :: int where
  "DEFAULT_JOB_CONCURRENCY = 5"

text \<open>\<open>None\<close> is a concurrency that is not finite; a number is its rational value.\<close>

definition normalizeJobConcurrency :: "rat option \<Rightarrow> int \<Rightarrow> int" where
  "normalizeJobConcurrency concurrency jobCount =
     (if jobCount \<le> 0 then 0
      else case concurrency of
             None \<Rightarrow> min DEFAULT_JOB_CONCURRENCY jobCount
           | Some c \<Rightarrow> min (max 1 \<lfloor>c\<rfloor>) jobCount)"

section \<open>Lemmas\<close>

lemma calculateRetryDelayMs_eq:
  "calculateRetryDelayMs n =
     (if n \<le> 1 then 5000 else if n \<le> 6 then 5000 * 2 ^ nat (n - 1) else 300000)"
proof (cases "n \<le> 6")
  case True
  then consider "n \<le> 1" | "n = 2" | "n = 3" | "n = 4" | "n = 5" | "n = 6" by linarith
  then show ?thesis
    by cases (simp_all add: calculateRetryDelayMs_def RETRY_BASE_DELAY_MS_def RETRY_MAX_DELAY_MS_def)
next
  case False
  then have "(2::int) ^ 6 \<le> 2 ^ nat (n - 1)" by (intro power_increasing) auto
  with False show ?thesis
    by (simp add: calculateRetryDelayMs_def RETRY_BASE_DELAY_MS_def RETRY_MAX_DELAY_MS_def Let_def min_def)
qed

lemma retry_delay_bounds: "5000 \<le> calculateRetryDelayMs n \<and> calculateRetryDelayMs n \<le> 300000"
  by (simp add: calculateRetryDelayMs_def RETRY_BASE_DELAY_MS_def RETRY_MAX_DELAY_MS_def Let_def min_def)

lemma lock_timeout_lease: "LOCK_TIMEOUT_MS = LEASE_MS"
  by (simp add: LOCK_TIMEOUT_MS_def LEASE_MS_def)

text \<open>The row a settlement may write: the running row of this very claim.\<close>

definition still_claimed :: "string \<Rightarrow> job_row \<Rightarrow> job_row list \<Rightarrow> bool" where
  "still_claimed worker cj js \<longleftrightarrow>
     (\<exists>r \<in> set js. j_id r = j_id cj \<and> j_status r = J_RUNNING \<and> j_lockedBy r = Some worker
                  \<and> j_attempts r = j_attempts cj)"

lemma settleClaimedJob_stale:
  assumes "\<not> still_claimed worker cj js" "j_lockedBy cj = Some worker"
    and "\<And>l. lease = Some l \<Longrightarrow> kl_claim l = cj"
  shows "settleClaimedJob now worker lease cj f js = (0, js)"
proof (cases lease)
  case None
  have "update_many (settle_where now worker cj) f js = (0, js)"
    by (rule update_many_id) (use assms(1) in \<open>auto simp: still_claimed_def settle_where_def Let_def\<close>)
  with None show ?thesis by (simp add: settleClaimedJob_def)
next
  case (Some l)
  then have "\<not> lease_owns now l js"
    using assms by (auto simp: lease_owns_def lease_where_def sameRecipe_def still_claimed_def)
  from settleLease_not_owned [OF this, of f] Some show ?thesis
    by (cases "settleLease now f l js") (simp add: settleClaimedJob_def)
qed

lemma claim_where_stale:
  "\<not> still_claimed worker cj js \<Longrightarrow> update_many (claim_where worker cj) f js = (0, js)"
  by (rule update_many_id) (auto simp: still_claimed_def claim_where_def)

lemma defer_where_stale:
  "\<not> still_claimed worker cj js \<Longrightarrow> update_many (defer_where now worker cj) f js = (0, js)"
  by (rule update_many_id) (auto simp: still_claimed_def claim_where_def defer_where_def)

definition fenced_settlement :: "string \<Rightarrow> bool" where
  "fenced_settlement t \<longleftrightarrow> t = ''data-source.sync'' \<or> fenced_type t"

lemma fenced_not_diagnostic: "fenced_settlement t \<Longrightarrow> t \<noteq> RELEASE_DIAGNOSTIC_JOB_TYPE"
  by (auto simp: fenced_settlement_def fenced_type_def isClaimFencedKnowledgeSyncJob_def
      isSourceRegenerationJob_def isMeetingTranscriptWorkerJob_def BRAIN_MAINTENANCE_JOB_def
      MEETING_AUDIO_TRANSCRIPTION_JOB_TYPE_def RELEASE_DIAGNOSTIC_JOB_TYPE_def)

lemma settle_failure_stale:
  assumes "fenced_settlement (j_type cj)" "\<not> still_claimed worker cj js" "j_lockedBy cj = Some worker"
    and "\<And>l. lease = Some l \<Longrightarrow> kl_claim l = cj"
  shows "snd (settle_failure now env worker lease cj f js) = js"
proof -
  have "j_type cj \<noteq> RELEASE_DIAGNOSTIC_JOB_TYPE" using assms(1) fenced_not_diagnostic by blast
  moreover have "snd (settleClaimedJob now worker lease cj g js) = js" for g
    using settleClaimedJob_stale [OF assms(2-4)] by simp
  moreover have "snd (update_many (defer_where now worker cj) g js) = js" for g
    using defer_where_stale [OF assms(2)] by simp
  ultimately show ?thesis
    using assms(1)
    by (auto simp: settle_failure_def fenced_settlement_def Let_def
        split: job_failure.split sum.split bool.split)
qed

text \<open>The row the claim returned, still in the table and with a live lock.\<close>

lemma filter_one: "distinct xs \<Longrightarrow> x \<in> set xs \<Longrightarrow> filter (\<lambda>y. y = x) xs = [x]"
proof (induction xs)
  case (Cons y ys)
  then show ?case by (cases "y = x") (auto simp: filter_empty_conv)
qed simp

lemma update_one:
  assumes "wf_jobs js" "r \<in> set js" "P r" "\<And>x. P x \<Longrightarrow> j_id x = j_id r"
  shows "update_many P f js = (1, map (\<lambda>x. if j_id x = j_id r then f x else x) js)"
proof -
  have eq: "\<And>x. x \<in> set js \<Longrightarrow> P x \<longleftrightarrow> x = r" using assms wf_jobs_id by blast
  have "filter P js = filter (\<lambda>x. x = r) js" by (rule filter_cong) (simp_all add: eq)
  moreover have "distinct js" using assms(1) by (simp add: wf_jobs_def distinct_map)
  ultimately have "length (filter P js) = 1"
    using assms(2) by (simp add: filter_one)
  moreover have "map (\<lambda>x. if P x then f x else x) js = map (\<lambda>x. if j_id x = j_id r then f x else x) js"
    by (rule map_cong) (use eq assms(1,2) wf_jobs_id in auto)
  ultimately show ?thesis by (simp add: update_many_def)
qed

lemma find_job_row: "wf_jobs js \<Longrightarrow> r \<in> set js \<Longrightarrow> find_job (j_id r) js = Some r"
proof (cases "find_job (j_id r) js")
  case None
  then show "r \<in> set js \<Longrightarrow> ?thesis" by (auto simp: find_job_def find_None_iff)
next
  case (Some x)
  then show "wf_jobs js \<Longrightarrow> r \<in> set js \<Longrightarrow> ?thesis" using find_job_Some wf_jobs_id by metis
qed

text \<open>An intact claim: the row is as the claim left it and its lock has not expired.\<close>

definition intact_claim :: "int \<Rightarrow> string \<Rightarrow> job_row \<Rightarrow> job_row list \<Rightarrow> bool" where
  "intact_claim now worker cj js \<longleftrightarrow>
     cj \<in> set js \<and> j_status cj = J_RUNNING \<and> j_lockedBy cj = Some worker \<and> worker \<noteq> []
     \<and> j_startedAt cj \<noteq> None
     \<and> (case j_lockedAt cj of None \<Rightarrow> False | Some t \<Rightarrow> t > now - LOCK_TIMEOUT_MS)"

text \<open>The lease of a claim: held by the claim-fenced types, on the claimed row, not failed.\<close>

definition lease_of_claim :: "knowledge_lease option \<Rightarrow> job_row \<Rightarrow> bool" where
  "lease_of_claim lease cj \<longleftrightarrow>
     (case lease of
        None \<Rightarrow> \<not> isClaimFencedKnowledgeSyncJob (j_type cj)
      | Some l \<Rightarrow> isClaimFencedKnowledgeSyncJob (j_type cj) \<and> kl_claim l = cj
                  \<and> kl_lockedAt l = j_lockedAt cj \<and> kl_failure l = None)"

abbreviation on_row :: "job_row \<Rightarrow> (job_row \<Rightarrow> job_row) \<Rightarrow> job_row list \<Rightarrow> job_row list" where
  "on_row cj f js \<equiv> map (\<lambda>r. if j_id r = j_id cj then f r else r) js"

lemma settleClaimedJob_intact:
  assumes "wf_jobs js" "intact_claim now worker cj js" "lease_of_claim lease cj"
  shows "settleClaimedJob now worker lease cj f js = (1, on_row cj f js)"
proof (cases lease)
  case None
  have "settle_where now worker cj cj"
    using assms(2,3) None by (auto simp: settle_where_def intact_claim_def lease_of_claim_def Let_def)
  moreover have "\<And>x. settle_where now worker cj x \<Longrightarrow> j_id x = j_id cj"
    by (simp add: settle_where_def Let_def)
  moreover have "cj \<in> set js" using assms(2) by (simp add: intact_claim_def)
  ultimately have "update_many (settle_where now worker cj) f js = (1, on_row cj f js)"
    by (intro update_one [OF assms(1)])
  with None show ?thesis by (simp add: settleClaimedJob_def)
next
  case (Some l)
  let ?l = "l\<lparr>kl_stopped := True\<rparr>"
  have l: "kl_claim l = cj" "kl_lockedAt l = j_lockedAt cj" "kl_failure l = None"
    using assms(3) Some by (simp_all add: lease_of_claim_def)
  have row: "find_job (j_id cj) js = Some cj"
    using assms(1,2) find_job_row by (simp add: intact_claim_def)
  have fresh: "lease_fresh now ?l"
    using assms(2) l by (cases "j_lockedAt cj") (auto simp: lease_fresh_def intact_claim_def lock_timeout_lease)
  have cur: "assertCurrentRow now (Some cj) ?l = ?l"
    using fresh l by (simp add: assertCurrentRow_def assertActive_def sameRecipe_def)
  have "lease_where now ?l cj"
    using assms(2) l
    by (cases "j_lockedAt cj") (auto simp: lease_where_def sameRecipe_def intact_claim_def lock_timeout_lease)
  moreover have "\<And>x. lease_where now ?l x \<Longrightarrow> j_id x = j_id cj"
    using l by (simp add: lease_where_def sameRecipe_def)
  moreover have "cj \<in> set js" using assms(2) by (simp add: intact_claim_def)
  ultimately have "update_many (lease_where now ?l) f js = (1, on_row cj f js)"
    by (intro update_one [OF assms(1)])
  then show ?thesis
    using assms(2) Some l row cur
    by (simp add: settleClaimedJob_def settleLease_def Let_def intact_claim_def)
qed

lemma claim_where_intact:
  assumes "wf_jobs js" "intact_claim now worker cj js"
  shows "update_many (claim_where worker cj) f js = (1, on_row cj f js)"
  by (rule update_one) (use assms in \<open>auto simp: intact_claim_def claim_where_def\<close>)

lemma update_by_id_row: "cj \<in> set js \<Longrightarrow> update_by_id (j_id cj) f js = Inr (on_row cj f js)"
  by (auto simp: update_by_id_def)

section \<open>Properties of the settlement\<close>

text \<open>
  The wait before a retry doubles from five seconds and is capped at five minutes
  from the seventh attempt on; it never shrinks as attempts grow.
\<close>

lemma retry_schedule:
  "calculateRetryDelayMs n =
     (if n \<le> 1 then 5000 else if n \<le> 6 then 5000 * 2 ^ nat (n - 1) else 300000)
   \<and> calculateRetryDelayMs n \<le> calculateRetryDelayMs (n + 1)
   \<and> now + 5000 \<le> nextRetryTime now n \<and> nextRetryTime now n \<le> now + RETRY_MAX_DELAY_MS"
proof -
  have "calculateRetryDelayMs n \<le> calculateRetryDelayMs (n + 1)"
    unfolding calculateRetryDelayMs_def Let_def
    by (intro min.mono mult_left_mono power_increasing) (auto simp: RETRY_BASE_DELAY_MS_def)
  then show ?thesis
    using calculateRetryDelayMs_eq retry_delay_bounds
    by (simp add: nextRetryTime_def RETRY_MAX_DELAY_MS_def)
qed

text \<open>
  C4: a worker whose claim on a fenced job is gone (the row is no longer running
  under this worker and this attempt, because it was reclaimed, settled or cancelled) leaves the
  job table untouched, whatever its handler did and however the run ended.
\<close>

theorem stale_worker_writes_nothing:
  assumes "j_type cj = ''data-source.sync'' \<or> fenced_type (j_type cj)"
    and "j_lockedBy cj = Some worker" and "\<forall>l. lease = Some l \<longrightarrow> kl_claim l = cj"
    and "\<not> (\<exists>r \<in> set js. j_id r = j_id cj \<and> j_status r = J_RUNNING
                    \<and> j_lockedBy r = Some worker \<and> j_attempts r = j_attempts cj)"
  shows "snd (processClaimedJob start now env worker lease cj js0 js) = js"
proof -
  have stale: "\<not> still_claimed worker cj js" using assms(4) by (simp add: still_claimed_def)
  have fs: "fenced_settlement (j_type cj)" using assms(1) by (simp add: fenced_settlement_def)
  have fail: "snd (settle_failure now env worker lease cj f js) = js" for f
    using settle_failure_stale [OF fs stale assms(2)] assms(3) by blast
  have no_write: "settleClaimedJob now worker lease cj g js = (0, js)"
    "update_many (claim_where worker cj) g js = (0, js)" for g
    using settleClaimedJob_stale [OF stale assms(2)] claim_where_stale [OF stale] assms(3) by blast+
  show ?thesis
  proof (cases "run_job start now env worker lease cj js0")
    case (Inl f)
    then show ?thesis by (simp add: processClaimedJob_def fail)
  next
    case (Inr superseded)
    have "superseded \<Longrightarrow> isSourceRegenerationJob (j_type cj)"
      using Inr by (auto simp: run_job_def execute_job_def Let_def result_simps split: sum.splits if_splits)
    then have "snd (settle_success now worker lease cj superseded js) = js"
      using assms(1) fenced_not_diagnostic [OF fs]
      by (auto simp: settle_success_def no_write fenced_type_def isSourceRegenerationJob_def split: if_splits)
    then show ?thesis
      using Inr fail by (auto simp: processClaimedJob_def split: prod.split sum.split)
  qed
qed

text \<open>
  When the run of a job succeeds without being superseded and its claim is
  intact, the settlement returns normally and completes exactly this row, clearing its lock and
  error.
\<close>

lemma processClaimedJob_completes:
  assumes "run_job start now env worker lease cj js0 = Inr False"
    and "wf_jobs js" "intact_claim now worker cj js" "lease_of_claim lease cj"
    and "j_type cj \<noteq> RELEASE_DIAGNOSTIC_JOB_TYPE"
  shows "processClaimedJob start now env worker lease cj js0 js =
     (Inr (), map (\<lambda>r. if j_id r = j_id cj then complete_row now r else r) js)"
  using assms(5) settleClaimedJob_intact [OF assms(2-4)] claim_where_intact [OF assms(2,3)]
    update_by_id_row [of cj js] assms(3)
  by (auto simp: processClaimedJob_def assms(1) settle_success_def completeJob_def intact_claim_def)

text \<open>
  When the run of a job throws and its claim is intact, the settlement puts the
  job back for a retry after the scheduled delay, or fails it for good exactly when the attempt
  was the fifth or the error says that its authorisation was revoked.
\<close>

lemma processClaimedJob_fails:
  assumes "run_job start now env worker lease cj js0 = Inl (Failed e)"
    and "wf_jobs js" "intact_claim now worker cj js" "lease_of_claim lease cj"
    and "j_type cj \<noteq> RELEASE_DIAGNOSTIC_JOB_TYPE" "je_progress env PS_FAILED = Inr ()"
  shows "\<exists>js'. processClaimedJob start now env worker lease cj js0 js = (Inr (), js')
    \<and> js' = map (\<lambda>r. if j_id r = j_id cj then fail_row now (j_attempts cj) e r else r) js
    \<and> (\<forall>r \<in> set js'. j_id r = j_id cj \<longrightarrow>
         j_lockedAt r = None \<and> j_lockedBy r = None
         \<and> (if j_attempts cj \<ge> 5 \<or> executionAuthorizationRevoked e
            then j_status r = J_FAILED \<and> j_completedAt r = Some now
            else j_status r = J_PENDING \<and> j_runAfter r = now + calculateRetryDelayMs (j_attempts cj)))"
proof -
  have "processClaimedJob start now env worker lease cj js0 js =
      (Inr (), on_row cj (fail_row now (j_attempts cj) e) js)"
    using assms(5,6) settleClaimedJob_intact [OF assms(2-4)] update_by_id_row [of cj js] assms(3)
    by (auto simp: processClaimedJob_def assms(1) settle_failure_def failJob_def intact_claim_def
        Let_def split: bool.split)
  moreover have "\<forall>r \<in> set (on_row cj (fail_row now (j_attempts cj) e) js). j_id r = j_id cj \<longrightarrow>
      (\<exists>r0. r = fail_row now (j_attempts cj) e r0)"
    by (auto simp: fail_row_def Let_def)
  ultimately show ?thesis
    by (fastforce simp: fail_row_def Let_def MAX_ATTEMPTS_def nextRetryTime_def)
qed

text \<open>
  A maintenance run that asks for another turn gives its attempt back: after
  the claim and the deferral the row has the attempts it had before the claim, is pending, unlocked
  and due after the delay of the reason (a day, an hour or a minute), so deferrals never use up
  the retry budget.
\<close>

lemma maintenance_deferral_refunds:
  assumes "run_job start now env worker lease (claim_job c worker j) js0 = Inl (MaintenanceDeferred reason)"
    and "wf_jobs js" "intact_claim now worker (claim_job c worker j) js"
    and "j_type j = BRAIN_MAINTENANCE_JOB"
  shows "\<exists>r. processClaimedJob start now env worker lease (claim_job c worker j) js0 js
         = (Inr (), map (\<lambda>x. if j_id x = j_id j then r else x) js)
    \<and> j_id r = j_id j \<and> j_attempts r = j_attempts j \<and> j_status r = J_PENDING
    \<and> j_lockedAt r = None \<and> j_lockedBy r = None
    \<and> j_runAfter r = now + (if reason = ''daily_rate_limit'' then 86400000
                            else if reason = ''hourly_rate_limit'' \<or> reason = ''budget_exceeded''
                            then 3600000 else 60000)"
proof -
  let ?cj = "claim_job c worker j"
  have w: "defer_where now worker ?cj ?cj" and m: "?cj \<in> set js"
    using assms(3) by (auto simp: defer_where_def claim_where_def intact_claim_def)
  have "update_many (defer_where now worker ?cj) (defer_row now reason) js
        = (1, on_row ?cj (defer_row now reason) js)"
    by (rule update_one [where P = "defer_where now worker ?cj", OF assms(2) m w])
      (simp add: defer_where_def claim_where_def)
  moreover have "on_row ?cj (defer_row now reason) js
      = map (\<lambda>x. if j_id x = j_id j then defer_row now reason ?cj else x) js"
    by (rule map_cong) (use wf_jobs_id [OF assms(2) _ m] in auto)
  ultimately show ?thesis
    using assms(4)
    by (intro exI [of _ "defer_row now reason ?cj"])
      (simp add: processClaimedJob_def assms(1) settle_failure_def defer_row_def Let_def)
qed

text \<open>
  The remaining job types have no such fence: their successful run completes
  the row with the job's id whatever its state, also when the row has meanwhile been reclaimed by
  another worker and is still running there.
\<close>

lemma unfenced_settlement_ignores_claim:
  assumes "\<not> fenced_type (j_type cj)" "j_type cj \<noteq> ''data-source.sync''"
    and "j_type cj \<noteq> RELEASE_DIAGNOSTIC_JOB_TYPE"
    and "run_job start now env worker lease cj js0 = Inr False"
    and "r \<in> set js" "j_id r = j_id cj"
  shows "fst (processClaimedJob start now env worker lease cj js0 js) = Inr ()
    \<and> complete_row now r \<in> set (snd (processClaimedJob start now env worker lease cj js0 js))"
proof -
  have "j_id cj \<in> set (map j_id js)" using assms(5,6) by (metis image_eqI set_map)
  then have "completeJob now (j_id cj) js = Inr (on_row cj (complete_row now) js)"
    by (simp add: completeJob_def update_by_id_def)
  then show ?thesis
    using assms by (force simp: processClaimedJob_def settle_success_def)
qed

section \<open>Witnesses\<close>

definition example_env :: "job_failure + handler_result \<Rightarrow> job_env" where
  "example_env r = \<lparr>je_enter = Inr (), je_progress = (\<lambda>_. Inr ()), je_handler = r, je_leave = Inr ()\<rparr>"

definition example_ok :: "job_failure + handler_result" where
  "example_ok = Inr \<lparr>hr_skipped = False, hr_superseded = False\<rparr>"

definition example_claim :: "string \<Rightarrow> job_row" where
  "example_claim ty = claim_job (example_clock 10) ''w1'' (example_job ''k'' ty 5)"

lemma stale_worker_writes_nothing_witness:
  "snd (processClaimedJob 10 20 (example_env example_ok) ''w1''
          (Some (createKnowledgeLease (example_claim ''knowledge.sync.event'')))
          (example_claim ''knowledge.sync.event'') []
          [claim_job (example_clock 400000) ''w2'' (example_claim ''knowledge.sync.event'')])
   = [claim_job (example_clock 400000) ''w2'' (example_claim ''knowledge.sync.event'')]"
  by (rule stale_worker_writes_nothing)
    (simp_all add: example_claim_def example_job_def fenced_type_def
      isClaimFencedKnowledgeSyncJob_def createKnowledgeLease_def)

end
