(* ===== verification/Outbox_Dispatch.thy ===== *)
theory Outbox_Dispatch
  imports Outbox_Settle Notifications
begin

text \<open>
  The dispatch of claimed events, \<^verbatim>\<open>dispatchPendingEvents\<close> of
  \<^verbatim>\<open>packages/workflows/src/outbox.ts\<close>: the follow-up jobs of an event are enqueued with their
  dependencies resolved, notifications and webhook deliveries are written, and the event is marked
  dispatched, all in one transaction; a thrown error rolls the transaction back and fails the
  event.

  The state is the job table, the event table and the store \<open>'n\<close> of notifications and webhook
  deliveries, whose operations are arguments of the model, as are the execution contexts.
\<close>

section \<open>Enqueueing derived jobs: the interface\<close>

text \<open>
  What the dispatcher needs of the job table: after an item is put its key resolves, and what
  resolves once keeps its resolution.  The laws give that, in a list whose items depend only on
  keys of earlier items, every dependency is resolved when its item is put.
\<close>

locale job_sink =
  fixes put :: "'d \<Rightarrow> string option \<Rightarrow> 't \<Rightarrow> 'e + 't"
    and lookup :: "'t \<Rightarrow> string \<Rightarrow> string option"
    and key_of :: "'d \<Rightarrow> string"
    and needs :: "'d \<Rightarrow> string option"
    and direct :: "'d \<Rightarrow> bool"
  assumes put_present: "put d dep t = Inr t' \<Longrightarrow> direct d \<Longrightarrow> lookup t' (key_of d) \<noteq> None"
    and put_keeps: "put d dep t = Inr t' \<Longrightarrow> lookup t k = Some i \<Longrightarrow> lookup t' k = Some i"
begin

fun put_all :: "'d list \<Rightarrow> 't \<Rightarrow> 'e + 't" where
  "put_all [] t = Inr t"
| "put_all (d # ds) t =
     and_then (put d (case needs d of None \<Rightarrow> None | Some k \<Rightarrow> lookup t k) t) (put_all ds)"

text \<open>Every item that needs a key needs the key of an earlier item that is put directly.\<close>

fun ordered :: "string set \<Rightarrow> 'd list \<Rightarrow> bool" where
  "ordered seen [] \<longleftrightarrow> True"
| "ordered seen (d # ds) \<longleftrightarrow>
     (case needs d of None \<Rightarrow> True | Some k \<Rightarrow> k \<in> seen)
     \<and> ordered (if direct d then insert (key_of d) seen else seen) ds"

lemma put_all_keeps: "put_all ds t = Inr t' \<Longrightarrow> lookup t k = Some i \<Longrightarrow> lookup t' k = Some i"
  by (induction ds arbitrary: t) (auto simp: result_simps put_keeps)

text \<open>The puts that \<open>put_all\<close> makes, with the dependency each one is given.\<close>

fun puts_resolved :: "'d list \<Rightarrow> 't \<Rightarrow> bool" where
  "puts_resolved [] t \<longleftrightarrow> True"
| "puts_resolved (d # ds) t \<longleftrightarrow>
     (case needs d of None \<Rightarrow> True | Some k \<Rightarrow> lookup t k \<noteq> None)
     \<and> (case put d (case needs d of None \<Rightarrow> None | Some k \<Rightarrow> lookup t k) t of
          Inl _ \<Rightarrow> True | Inr t' \<Rightarrow> puts_resolved ds t')"

lemma ordered_puts_resolved:
  "ordered seen ds \<Longrightarrow> (\<And>k. k \<in> seen \<Longrightarrow> lookup t k \<noteq> None) \<Longrightarrow> puts_resolved ds t"
proof (induction ds arbitrary: seen t)
  case (Cons d ds)
  let ?dep = "case needs d of None \<Rightarrow> None | Some k \<Rightarrow> lookup t k"
  have now: "case needs d of None \<Rightarrow> True | Some k \<Rightarrow> lookup t k \<noteq> None"
    using Cons.prems by (auto split: option.splits)
  have "puts_resolved ds t'" if "put d ?dep t = Inr t'" for t'
  proof (rule Cons.IH)
    show "ordered (if direct d then insert (key_of d) seen else seen) ds" using Cons.prems by simp
    show "\<And>k. k \<in> (if direct d then insert (key_of d) seen else seen) \<Longrightarrow> lookup t' k \<noteq> None"
      using put_present [OF that] put_keeps [OF that] Cons.prems(2) by (fastforce split: if_splits)
  qed
  with now show ?case by (auto split: sum.split)
qed simp

lemma put_all_direct:
  "put_all ds t = Inr t' \<Longrightarrow> d \<in> set ds \<Longrightarrow> direct d \<Longrightarrow> lookup t' (key_of d) \<noteq> None"
proof (induction ds arbitrary: t)
  case (Cons x xs)
  then obtain u where u: "put x (case needs x of None \<Rightarrow> None | Some k \<Rightarrow> lookup t k) t = Inr u"
    "put_all xs u = Inr t'" by (auto simp: result_simps)
  show ?case
  proof (cases "d = x")
    case True
    with put_present [OF u(1)] Cons.prems(3) obtain i where "lookup u (key_of d) = Some i" by blast
    then show ?thesis using put_all_keeps [OF u(2)] by simp
  next
    case False
    with Cons u show ?thesis by simp
  qed
qed simp

end

section \<open>The job table provides the interface\<close>

definition payload_json :: "(string \<times> json option) list \<Rightarrow> json" where
  "payload_json fs = JObj (List.map_filter (\<lambda>(k, v). map_option (Pair k) v) fs)"

definition draft_params :: "job_draft \<Rightarrow> string option \<Rightarrow> enqueue_params" where
  "draft_params d dep =
     \<lparr>eq_workspace = Some (jd_workspace d), eq_event = Some (jd_event d), eq_type = jd_type d,
      eq_payload = payload_json (jd_payload d), eq_dedupe = jd_dedupe d, eq_depends = dep\<rparr>"

definition enqueue_draft ::
    "'r crm_env \<Rightarrow> (job_row list \<Rightarrow> string) \<Rightarrow> int \<Rightarrow> job_draft \<Rightarrow> string option \<Rightarrow> job_row list
     \<Rightarrow> job_row list result" where
  "enqueue_draft crm new_id now d dep js =
     and_then (enqueueJob crm new_id now (draft_params d dep) js) (\<lambda>(_, js'). Inr js')"

text \<open>\<^verbatim>\<open>if (job.dependsOnDedupeKey)\<close> leaves out the empty key.\<close>

definition needed_key :: "job_draft \<Rightarrow> string option" where
  "needed_key d = (case jd_depends d of None \<Rightarrow> None | Some k \<Rightarrow> if k = [] then None else Some k)"

definition direct_draft :: "job_draft \<Rightarrow> bool" where
  "direct_draft d \<longleftrightarrow> jd_type d \<notin> set crmJobTypes"

interpretation sink: job_sink "enqueue_draft crm new_id now" resolveDedupeKeyToJobId jd_dedupe
  needed_key direct_draft for crm new_id now
proof unfold_locales
  fix d dep js js'
  assume put: "enqueue_draft crm new_id now d dep js = Inr js'"
  then obtain s where enq: "enqueueJob crm new_id now (draft_params d dep) js = Inr (s, js')"
    by (auto simp: enqueue_draft_def result_simps)
  show "resolveDedupeKeyToJobId js' (jd_dedupe d) \<noteq> None" if "direct_draft d"
    using enqueue_key [OF enq] that
    by (auto simp: resolve_None_iff direct_draft_def draft_params_def)
  show "resolveDedupeKeyToJobId js' k = Some i" if "resolveDedupeKeyToJobId js k = Some i" for k i
    using enqueue_appended [OF enq] that appended_resolve by blast
qed

section \<open>Dispatching one event\<close>

record ('r, 'n) dispatch_env =
  de_crm :: "'r crm_env"
  de_new_id :: "job_row list \<Rightarrow> string"
  de_enter :: "event_row \<Rightarrow> unit result"
  de_notify :: "event_row \<Rightarrow> 'n \<Rightarrow> 'n result"
  de_webhooks :: "event_row \<Rightarrow> 'n \<Rightarrow> (string list \<times> 'n) result"
  de_leave :: "event_row \<Rightarrow> unit result"

record 'n outbox_state =
  ob_jobs :: "job_row list"
  ob_events :: "event_row list"
  ob_store :: 'n

text \<open>The loop over the derived jobs.\<close>

fun enqueue_derived ::
    "'r crm_env \<Rightarrow> (job_row list \<Rightarrow> string) \<Rightarrow> int \<Rightarrow> job_draft list \<Rightarrow> job_row list
     \<Rightarrow> job_row list result" where
  "enqueue_derived crm new_id now [] js = Inr js"
| "enqueue_derived crm new_id now (d # ds) js =
     (let dependsOnJobId =
            (case needed_key d of None \<Rightarrow> None | Some k \<Rightarrow> resolveDedupeKeyToJobId js k)
      in and_then (enqueue_draft crm new_id now d dependsOnJobId js)
           (enqueue_derived crm new_id now ds))"

definition webhook_params :: "event_row \<Rightarrow> string \<Rightarrow> enqueue_params" where
  "webhook_params ev delivery =
     \<lparr>eq_workspace = ev_workspace (er_event ev), eq_event = Some (er_id ev), eq_type = ''webhook.deliver'',
      eq_payload = JObj [(''deliveryId'', JStr delivery)],
      eq_dedupe = er_id ev @ '':webhook:'' @ delivery, eq_depends = None\<rparr>"

definition enqueue_webhooks ::
    "('r, 'n) dispatch_env \<Rightarrow> int \<Rightarrow> event_row \<Rightarrow> job_row list \<Rightarrow> 'n \<Rightarrow> (job_row list \<times> 'n) result" where
  "enqueue_webhooks env now ev js n =
     (if ws_of (er_event ev) = None then Inr (js, n)
      else and_then (de_webhooks env ev n) (\<lambda>(deliveries, n').
           and_then (fold_result
                (\<lambda>d js. and_then (enqueueJob (de_crm env) (de_new_id env) now (webhook_params ev d) js)
                          (\<lambda>(_, js'). Inr js')) deliveries js)
             (\<lambda>js'. Inr (js', n'))))"

definition dispatched_row :: "int \<Rightarrow> event_row \<Rightarrow> event_row" where
  "dispatched_row now r =
     r\<lparr>er_status := E_DISPATCHED, er_dispatchedAt := Some now, er_error := None,
       er_lockedAt := None, er_lockedBy := None\<rparr>"

definition mark_dispatched :: "int \<Rightarrow> string \<Rightarrow> event_row list \<Rightarrow> event_row list result" where
  "mark_dispatched now i es =
     (if i \<in> set (map er_id es)
      then Inr (map (\<lambda>r. if er_id r = i then dispatched_row now r else r) es)
      else Inl (PlainError ''No record was found for an update.'' (Some ''P2025'')))"

text \<open>The transaction of one event, inside its execution contexts.\<close>

definition dispatch_transaction ::
    "('r, 'n) dispatch_env \<Rightarrow> int \<Rightarrow> event_row \<Rightarrow> 'n outbox_state \<Rightarrow> 'n outbox_state result" where
  "dispatch_transaction env now ev st =
     and_then (de_enter env ev) (\<lambda>_.
     and_then (deriveJobsForEvent now (er_event ev)) (\<lambda>derivedJobs.
     and_then (enqueue_derived (de_crm env) (de_new_id env) now derivedJobs (ob_jobs st)) (\<lambda>js.
     and_then (if ws_of (er_event ev) = None then Inr (ob_store st) else de_notify env ev (ob_store st)) (\<lambda>n.
     and_then (enqueue_webhooks env now ev js n) (\<lambda>(js', n').
     and_then (mark_dispatched now (er_id ev) (ob_events st)) (\<lambda>es.
       Inr \<lparr>ob_jobs = js', ob_events = es, ob_store = n'\<rparr>))))))"

text \<open>
  One turn of the loop.  The checks a context makes after the transaction has committed can still
  throw; the event is then failed on the committed state.
\<close>

definition dispatch_one ::
    "('r, 'n) dispatch_env \<Rightarrow> int \<Rightarrow> event_row \<Rightarrow> 'n outbox_state \<Rightarrow> unit result \<times> 'n outbox_state" where
  "dispatch_one env now ev st =
     (let fail = (\<lambda>e s. case failEvent now ev e (ob_events s) of
                          Inl e' \<Rightarrow> (Inl e', s)
                        | Inr es \<Rightarrow> (Inr (), s\<lparr>ob_events := es\<rparr>))
      in case dispatch_transaction env now ev st of
           Inl e \<Rightarrow> fail e st
         | Inr st' \<Rightarrow> (case de_leave env ev of Inl e \<Rightarrow> fail e st' | Inr _ \<Rightarrow> (Inr (), st')))"

fun dispatch_loop ::
    "('r, 'n) dispatch_env \<Rightarrow> int \<Rightarrow> event_row list \<Rightarrow> 'n outbox_state \<Rightarrow> unit result \<times> 'n outbox_state" where
  "dispatch_loop env now [] st = (Inr (), st)"
| "dispatch_loop env now (ev # evs) st =
     (case dispatch_one env now ev st of
        (Inl e, st') \<Rightarrow> (Inl e, st')
      | (Inr _, st') \<Rightarrow> dispatch_loop env now evs st')"

definition dispatchPendingEvents ::
    "('r, 'n) dispatch_env \<Rightarrow> db_clock \<Rightarrow> flag_table \<Rightarrow> string list \<Rightarrow> string \<Rightarrow> nat \<Rightarrow> 'n outbox_state
     \<Rightarrow> nat result \<times> 'n outbox_state" where
  "dispatchPendingEvents env c flags locked worker batchSize st =
     (let (events, es) = claimPendingEvents c flags locked worker batchSize (ob_events st);
          (r, st') = dispatch_loop env (clk_app c) events (st\<lparr>ob_events := es\<rparr>)
      in (and_then r (\<lambda>_. Inr (length events)), st'))"

end
