(* ===== verification/Outbox_Facts.thy ===== *)
theory Outbox_Facts
  imports Outbox_Dispatch
begin

text \<open>
  The properties of the derivation of jobs and of the dispatch of events: which jobs an event
  yields, that their dependencies are resolved when they are stored, and that a dispatch is atomic,
  repeatable and never leaves a claimed event locked.
\<close>

section \<open>Sections of the derivation\<close>

lemmas derive_sections =
  derive_crm_inquiry_def derive_proposal_approved_def derive_proposal_opened_def
  derive_finance_uploaded_def derive_finance_extracted_def derive_meeting_def
  derive_processed_content_def derive_brain_source_def derive_brain_article_def
  derive_document_def derive_tension_def derive_action_def derive_circle_def derive_role_def
  derive_role_onboarding_def derive_member_def derive_goal_def derive_agent_identity_def
  derive_checkin_def derive_triage_def derive_pulse_def derive_crm_submitted_def
  derive_crm_approved_def derive_demo_lead_def derive_rebuild_def entity_sync_def graph_sync_def

lemma job_simps [simp]:
  "jd_workspace (job e w ty p k d) = w" "jd_event (job e w ty p k d) = ev_id e"
  "jd_type (job e w ty p k d) = ty" "jd_dedupe (job e w ty p k d) = k"
  "jd_depends (job e w ty p k d) = d" "jd_payload (job e w ty p k d) = p"
  by (simp_all add: job_def)

text \<open>What every section shares: its jobs are for the event and its workspace.\<close>

definition of_event :: "domain_event \<Rightarrow> job_draft list result \<Rightarrow> bool" where
  "of_event e r \<longleftrightarrow>
     (\<forall>ds d. r = Inr ds \<longrightarrow> d \<in> set ds \<longrightarrow> ws_of e = Some (jd_workspace d) \<and> jd_event d = ev_id e)"

lemma of_event_graph: "d \<in> set (pushContextGraphSync e t v dep) \<Longrightarrow>
   ws_of e = Some (jd_workspace d) \<and> jd_event d = ev_id e"
  by (auto simp: pushContextGraphSync_def split: option.splits if_splits)

lemma sections_of_event:
  "list_all (of_event e) (derive_event_sections now e @ [derive_rebuild e])"
proof (cases "ws_of e")
  case None
  then show ?thesis
    unfolding derive_event_sections_def append.simps list.pred_inject of_event_def
    by (intro conjI TrueI;
        simp add: derive_sections Let_def get_prop_eq pushContextGraphSync_def split: if_splits)
next
  case (Some w)
  show ?thesis
    unfolding derive_event_sections_def append.simps list.pred_inject of_event_def
    by (intro conjI TrueI;
        auto simp: derive_sections Let_def get_prop_eq Some result_simps pushContextGraphSync_def
          split: if_splits option.splits)
qed

lemma derive_of_event:
  assumes "deriveJobsForEvent now e = Inr ds" "d \<in> set ds"
  shows "ws_of e = Some (jd_workspace d) \<and> jd_event d = ev_id e"
proof -
  from concat_results_members [OF assms(1) [unfolded deriveJobsForEvent_def] assms(2)]
  obtain xs where xs: "Inr xs \<in> set (derive_event_sections now e @ [derive_rebuild e])" "d \<in> set xs" by blast
  then have "of_event e (Inr xs)" using sections_of_event [of e now] by (simp only: list_all_iff)
  with xs(2) show ?thesis by (simp add: of_event_def)
qed

abbreviation put_drafts ::
    "'r crm_env \<Rightarrow> (job_row list \<Rightarrow> string) \<Rightarrow> int \<Rightarrow> job_draft list \<Rightarrow> job_row list
     \<Rightarrow> job_row list result" where
  "put_drafts crm new_id now \<equiv>
     job_sink.put_all (enqueue_draft crm new_id now) resolveDedupeKeyToJobId needed_key"

abbreviation drafts_resolved ::
    "'r crm_env \<Rightarrow> (job_row list \<Rightarrow> string) \<Rightarrow> int \<Rightarrow> job_draft list \<Rightarrow> job_row list \<Rightarrow> bool" where
  "drafts_resolved crm new_id now \<equiv>
     job_sink.puts_resolved (enqueue_draft crm new_id now) resolveDedupeKeyToJobId needed_key"

text \<open>Dependencies stay inside a section, except that of the rebuild job.\<close>

abbreviation ordered_drafts :: "string set \<Rightarrow> job_draft list \<Rightarrow> bool" where
  "ordered_drafts \<equiv> job_sink.ordered jd_dedupe needed_key direct_draft"

definition keys_of :: "job_draft list \<Rightarrow> string set" where
  "keys_of ds = {jd_dedupe d | d. d \<in> set ds \<and> direct_draft d}"

lemma ordered_append:
  "ordered_drafts seen (xs @ ys) \<longleftrightarrow> ordered_drafts seen xs \<and> ordered_drafts (seen \<union> keys_of xs) ys"
proof (induction xs arbitrary: seen)
  case (Cons x xs)
  have "insert (jd_dedupe x) seen \<union> keys_of xs = seen \<union> keys_of (x # xs)" if "direct_draft x"
    using that by (auto simp: keys_of_def)
  moreover have "keys_of (x # xs) = keys_of xs" if "\<not> direct_draft x"
    using that by (auto simp: keys_of_def)
  ultimately show ?case using Cons by auto
qed (simp add: keys_of_def)

lemma ordered_mono: "ordered_drafts seen xs \<Longrightarrow> seen \<subseteq> seen' \<Longrightarrow> ordered_drafts seen' xs"
proof (induction xs arbitrary: seen seen')
  case (Cons x xs)
  have "ordered_drafts (if direct_draft x then insert (jd_dedupe x) seen' else seen') xs"
    by (rule Cons.IH [of "if direct_draft x then insert (jd_dedupe x) seen else seen"])
      (use Cons.prems in \<open>auto split: if_splits\<close>)
  then show ?case using Cons.prems by (auto split: option.splits)
qed simp

definition closed_section :: "job_draft list result \<Rightarrow> bool" where
  "closed_section r \<longleftrightarrow> (\<forall>ds. r = Inr ds \<longrightarrow> ordered_drafts {} ds)"

lemma event_key_nonempty [simp]: "event_key e s \<noteq> []"
  by (simp add: event_key_def)

lemma sections_closed:
  "list_all closed_section (derive_event_sections now e)"
proof (cases "ws_of e")
  case None
  then show ?thesis
    unfolding derive_event_sections_def list.pred_inject closed_section_def
    by (intro conjI TrueI;
        simp add: derive_sections Let_def get_prop_eq pushContextGraphSync_def split: if_splits)
next
  case (Some w)
  show ?thesis
    unfolding derive_event_sections_def list.pred_inject closed_section_def
    by (intro conjI TrueI;
        auto simp: derive_sections Let_def get_prop_eq Some result_simps pushContextGraphSync_def
          needed_key_def direct_draft_def crmJobTypes_def split: if_splits option.splits)
qed

lemma ordered_concat:
  "list_all (\<lambda>xs. ordered_drafts {} xs) xss \<Longrightarrow> ordered_drafts seen (concat xss)"
  by (induction xss arbitrary: seen) (auto simp: ordered_append intro: ordered_mono)

lemma ordered_nth:
  "ordered_drafts seen ds \<Longrightarrow> i < length ds \<Longrightarrow> needed_key (ds ! i) = Some k \<Longrightarrow>
   k \<in> seen \<or> (\<exists>j < i. jd_dedupe (ds ! j) = k \<and> direct_draft (ds ! j))"
proof (induction ds arbitrary: seen i)
  case (Cons d ds)
  show ?case
  proof (cases i)
    case 0
    with Cons.prems show ?thesis by simp
  next
    case (Suc i')
    with Cons have "k \<in> (if direct_draft d then insert (jd_dedupe d) seen else seen)
        \<or> (\<exists>j < i'. jd_dedupe (ds ! j) = k \<and> direct_draft (ds ! j))" by simp
    then show ?thesis using Suc by (force split: if_splits)
  qed
qed simp

text \<open>The sections that ran, and the jobs each of them pushed.\<close>

lemma derive_split:
  assumes "deriveJobsForEvent now e = Inr ds"
  obtains yss r where "derive_event_sections now e = map Inr yss" "derive_rebuild e = Inr r"
    "ds = concat yss @ r"
proof -
  from assms obtain xss where x: "derive_event_sections now e @ [derive_rebuild e] = map Inr xss"
    "ds = concat xss" by (auto simp: deriveJobsForEvent_def concat_results_Inr_iff)
  then obtain yss r where "xss = yss @ [r]"
    by (metis Nil_is_append_conv list.discI list.map_disc_iff rev_exhaust)
  with x show ?thesis by (intro that [of yss r]) auto
qed

lemma rebuild_needs_absorb:
  assumes "derive_brain_source e = Inr b" "derive_rebuild e = Inr r"
  shows "ordered_drafts (keys_of b) r"
proof (cases "ws_of e")
  case (Some w)
  have "jd_dedupe d \<in> keys_of b" if "d = job e w ''agent.brain-absorb'' p (event_key e ''brain-absorb'') None"
    "d \<in> set b" for d p
    using that unfolding keys_of_def by (intro CollectI exI [of _ d]) (simp add: direct_draft_def crmJobTypes_def)
  moreover have "truthy (field (ev_payload e) ''sourceId'')" if "readPayloadString (ev_payload e) ''sourceId'' = Some s" for s
    using that by (auto simp: truthy_def split: option.splits json.splits if_splits)
  moreover have "ev_payload e \<noteq> JNull" if "readPayloadString (ev_payload e) ''sourceId'' = Some s" for s
    using that by auto
  ultimately show ?thesis
    using assms Some
    by (auto simp: derive_brain_source_def derive_rebuild_def needed_key_def get_prop_eq
        simp del: readPayloadString.simps split: if_splits)
qed (use assms in \<open>simp add: derive_rebuild_def\<close>)

lemma derive_ordered:
  assumes "deriveJobsForEvent now e = Inr ds"
  shows "ordered_drafts {} ds"
proof -
  from derive_split [OF assms] obtain yss r where
    y: "derive_event_sections now e = map Inr yss" "derive_rebuild e = Inr r" "ds = concat yss @ r" .
  have "list_all closed_section (map Inr yss)" using sections_closed [of now e] by (simp add: y(1))
  then have "ordered_drafts {} (concat yss)"
    by (intro ordered_concat) (simp add: list_all_iff closed_section_def)
  moreover have "derive_brain_source e \<in> set (map Inr yss)"
    unfolding y(1) [symmetric] by (simp add: derive_event_sections_def)
  then obtain b where b: "derive_brain_source e = Inr b" "b \<in> set yss" by auto
  then have "keys_of b \<subseteq> keys_of (concat yss)" by (auto simp: keys_of_def)
  ultimately show ?thesis
    using rebuild_needs_absorb [OF b(1) y(2)] by (auto simp: y(3) ordered_append intro: ordered_mono)
qed

section \<open>Properties of the derivation\<close>

text \<open>
  Every job derived from an event is for the event itself and for its workspace,
  which is present; an event without a workspace yields no job.
\<close>

lemma derived_jobs_belong_to_event:
  assumes "deriveJobsForEvent now e = Inr ds" "d \<in> set ds"
  shows "ev_workspace e = Some (jd_workspace d) \<and> jd_workspace d \<noteq> [] \<and> jd_event d = ev_id e"
  using derive_of_event [OF assms] by (auto simp: ws_of_def split: option.splits if_splits)

text \<open>
  Whenever a derived job names the dedupe key of a job it depends on, a job
  with that key stands earlier in the same list and is enqueued unconditionally (it is not one of
  the CRM jobs that may be declined), so the dispatcher never resolves a key before it exists.
\<close>

lemma derived_dependencies_are_earlier:
  assumes "deriveJobsForEvent now e = Inr ds" "i < length ds" "jd_depends (ds ! i) = Some k"
    and "k \<noteq> []"
  shows "\<exists>j < i. jd_dedupe (ds ! j) = k \<and> jd_type (ds ! j) \<notin> set crmJobTypes"
  using ordered_nth [OF derive_ordered [OF assms(1)] assms(2), of k] assms(3,4)
  by (auto simp: needed_key_def direct_draft_def)

lemma sections_total:
  assumes "ev_payload e \<noteq> JNull"
    and "\<bar>triageBucketStart (case ev_createdAt e of Some t \<Rightarrow> t | None \<Rightarrow> now)\<bar> \<le> max_time_value"
  shows "\<forall>r \<in> set (derive_event_sections now e @ [derive_rebuild e]). \<exists>xs. r = Inr xs"
proof -
  have iso: "\<exists>b. to_iso_string (triageBucketStart (case ev_createdAt e of Some t \<Rightarrow> t | None \<Rightarrow> now)) = Inr b"
    using assms(2) by (simp add: to_iso_string_def)
  have "list_all (\<lambda>r. \<exists>xs. r = Inr xs) (derive_event_sections now e @ [derive_rebuild e])"
    unfolding derive_event_sections_def append.simps list.pred_inject
    by (intro conjI TrueI; cases "ws_of e";
        auto simp: derive_sections get_prop_eq assms(1) result_simps Let_def iso
          split: option.splits)
  then show ?thesis by (simp only: list_all_iff)
qed

text \<open>
  The derivation throws only on a payload that is JSON \<^verbatim>\<open>null\<close> or a creation time
  beyond the range of dates: for every other event, of any type and payload, it returns.
\<close>

lemma derivation_total:
  assumes "ev_payload e \<noteq> JNull"
    and "\<bar>triageBucketStart (case ev_createdAt e of Some t \<Rightarrow> t | None \<Rightarrow> now)\<bar> \<le> max_time_value"
  shows "\<exists>ds. deriveJobsForEvent now e = Inr ds"
  unfolding deriveJobsForEvent_def
  by (rule concat_results_total) (rule sections_total [OF assms])

text \<open>
  Triage is coalesced: two events of one workspace that are no replays, of any
  triage types, created in one five minute window derive triage jobs with one dedupe key, so only
  the first of them is stored; a replayed event gets a key of its own.
\<close>

lemma triage_coalesces:
  assumes "ws_of e1 = Some w" "ws_of e2 = Some w"
    and "ev_type e1 \<in> set TRIAGE_EVENT_TYPES" "ev_type e2 \<in> set TRIAGE_EVENT_TYPES"
    and "ev_createdAt e1 = Some t1" "ev_createdAt e2 = Some t2"
    and "t1 div 300000 = t2 div 300000" "\<bar>t1 div 300000 * 300000\<bar> \<le> max_time_value"
    and "\<not> truthy (replay_of (ev_payload e1))"
  shows "\<exists>d1 d2. derive_triage now1 e1 = Inr [d1] \<and> derive_triage now2 e2 = Inr [d2]
    \<and> jd_type d1 = ''agent.inbox-triage'' \<and> jd_type d2 = ''agent.inbox-triage''
    \<and> (if truthy (replay_of (ev_payload e2)) then jd_dedupe d2 = w @ '':triage:replay:'' @ ev_id e2
       else jd_dedupe d2 = jd_dedupe d1)"
proof -
  obtain b where "to_iso_string (triageBucketStart t1) = Inr b" "to_iso_string (triageBucketStart t2) = Inr b"
    using assms(7,8) by (simp add: to_iso_string_def triageBucketStart_def TRIAGE_COALESCE_WINDOW_MS_def)
  then show ?thesis using assms by (simp add: derive_triage_def Let_def)
qed

section \<open>Storing the derived jobs\<close>

lemma enqueue_derived_put_all:
  "enqueue_derived crm new_id now ds js = put_drafts crm new_id now ds js"
proof (induction ds arbitrary: js)
  case (Cons d ds)
  then have "enqueue_derived crm new_id now ds = put_drafts crm new_id now ds" by (intro ext)
  then show ?case by (simp add: Let_def sink.put_all.simps)
qed (simp add: sink.put_all.simps)

lemma enqueue_draft_appended:
  "enqueue_draft crm new_id now d dep js = Inr js' \<Longrightarrow> appended new_id now (draft_params d dep) js js'"
  using enqueue_appended by (fastforce simp: enqueue_draft_def result_simps)

lemma resolve_row: "resolveDedupeKeyToJobId js k = Some i \<Longrightarrow> \<exists>j \<in> set js. j_dedupe j = Some k \<and> j_id j = i"
  by (auto simp: resolveDedupeKeyToJobId_def find_Some_iff)

lemma enqueue_derived_extends:
  "enqueue_derived crm new_id now ds js = Inr js' \<Longrightarrow> set js \<subseteq> set js'"
proof (induction ds arbitrary: js)
  case (Cons d ds)
  then obtain js1 where j: "enqueue_draft crm new_id now d
      (case needed_key d of None \<Rightarrow> None | Some k \<Rightarrow> resolveDedupeKeyToJobId js k) js = Inr js1"
    "enqueue_derived crm new_id now ds js1 = Inr js'" by (auto simp: Let_def result_simps)
  have "set js \<subseteq> set js1" using enqueue_draft_appended [OF j(1)] by (auto simp: appended_def)
  with Cons.IH [OF j(2)] show ?case by blast
qed simp

lemma enqueue_derived_rows:
  assumes "enqueue_derived crm new_id now ds js = Inr js'" "drafts_resolved crm new_id now ds js"
    and "row \<in> set js'" "row \<notin> set js"
  shows "\<exists>d \<in> set ds. j_dedupe row = Some (jd_dedupe d) \<and> j_type row = jd_type d
           \<and> (\<forall>k. needed_key d = Some k \<longrightarrow>
                 (\<exists>dep \<in> set js'. j_dedupe dep = Some k \<and> j_depends row = Some (j_id dep)))"
  using assms
proof (induction ds arbitrary: js)
  case (Cons d ds)
  let ?dep = "case needed_key d of None \<Rightarrow> None | Some k \<Rightarrow> resolveDedupeKeyToJobId js k"
  from Cons.prems(1) obtain js1 where j: "enqueue_draft crm new_id now d ?dep js = Inr js1"
    "enqueue_derived crm new_id now ds js1 = Inr js'" by (auto simp: Let_def result_simps)
  have sub: "set js \<subseteq> set js1" "set js1 \<subseteq> set js'"
    using enqueue_draft_appended [OF j(1)] enqueue_derived_extends [OF j(2)] by (auto simp: appended_def)
  show ?case
  proof (cases "row \<in> set js1")
    case True
    then have row: "j_dedupe row = Some (jd_dedupe d)" "j_type row = jd_type d" "j_depends row = ?dep"
      using enqueue_draft_appended [OF j(1)] Cons.prems(4) by (auto simp: appended_def draft_params_def)
    have "\<exists>dep \<in> set js'. j_dedupe dep = Some k \<and> j_depends row = Some (j_id dep)"
      if k: "needed_key d = Some k" for k
    proof -
      obtain i where i: "resolveDedupeKeyToJobId js k = Some i"
        using Cons.prems(2) k by (auto simp: sink.puts_resolved.simps)
      with resolve_row [OF i] row(3) k sub show ?thesis by fastforce
    qed
    with row show ?thesis by auto
  next
    case False
    moreover have "drafts_resolved crm new_id now ds js1"
      using Cons.prems(2) j(1) by (simp add: sink.puts_resolved.simps)
    ultimately show ?thesis using Cons.IH [OF j(2)] Cons.prems(3) by auto
  qed
qed simp

text \<open>
  When the derived jobs of an event are stored, every row this adds is one
  of them, and a row whose job depends on a key points to the id of a row of the table with exactly
  this key: no dependency is lost and none dangles.
\<close>

lemma stored_dependencies_resolved:
  assumes "deriveJobsForEvent now e = Inr ds" "enqueue_derived crm new_id now ds js = Inr js'"
    and "row \<in> set js'" "row \<notin> set js"
  shows "\<exists>d \<in> set ds. j_dedupe row = Some (jd_dedupe d) \<and> j_type row = jd_type d
           \<and> (\<forall>k. jd_depends d = Some k \<longrightarrow>
                 k = [] \<or> (\<exists>dep \<in> set js'. j_dedupe dep = Some k \<and> j_depends row = Some (j_id dep)))"
proof -
  have "drafts_resolved crm new_id now ds js"
    by (rule sink.ordered_puts_resolved [OF derive_ordered [OF assms(1)]]) simp
  from enqueue_derived_rows [OF assms(2) this assms(3,4)] show ?thesis
    by (fastforce simp: needed_key_def)
qed

text \<open>
  Storing the derived jobs again, at a later time and with other ids, changes
  nothing: a retried event never duplicates a job it has stored.  (CRM jobs, which may be declined
  the first time, are left out.)
\<close>

lemma enqueue_derived_idempotent:
  assumes "enqueue_derived crm new_id now ds js = Inr js'"
    and "\<forall>d \<in> set ds. jd_type d \<notin> set crmJobTypes"
  shows "enqueue_derived crm' new_id' now' ds js' = Inr js'"
proof -
  have present: "Some (jd_dedupe d) \<in> set (map j_dedupe js')" if "d \<in> set ds" for d
    using sink.put_all_direct [OF assms(1) [unfolded enqueue_derived_put_all] that] assms(2) that
    by (auto simp: direct_draft_def resolve_None_iff)
  have again: "enqueue_draft crm' new_id' now' d dep js' = Inr js'" if "d \<in> set ds" for d dep
    using present [OF that] assms(2) that
    by (simp add: enqueue_draft_def enqueue_plain draft_params_def)
  have "set xs \<subseteq> set ds \<Longrightarrow> enqueue_derived crm' new_id' now' xs js' = Inr js'" for xs
    by (induction xs) (simp_all add: again Let_def)
  then show ?thesis by simp
qed

section \<open>The dispatch loop\<close>

text \<open>
  When anything in the dispatch of an event throws before its commit, no job,
  notification or delivery of the event is stored, and the event alone is rescheduled: pending
  after its retry delay, or failed for good from the fifth attempt or on a revoked authorisation.
\<close>

lemma dispatch_rolls_back:
  assumes "dispatch_transaction env now ev st = Inl err" "er_id ev \<in> set (map er_id (ob_events st))"
  shows "\<exists>st'. dispatch_one env now ev st = (Inr (), st')
    \<and> ob_jobs st' = ob_jobs st \<and> ob_store st' = ob_store st
    \<and> ob_events st' = map (\<lambda>r. if er_id r = er_id ev then fail_event_row now (er_attempts ev) err r else r)
                        (ob_events st)
    \<and> (\<forall>r \<in> set (ob_events st'). er_id r = er_id ev \<longrightarrow>
         er_lockedAt r = None
         \<and> (if er_attempts ev \<ge> 5 \<or> executionAuthorizationRevoked err then er_status r = E_FAILED
            else er_status r = E_PENDING
                 \<and> er_availableAt r = now + calculateRetryDelayMs (er_attempts ev)))"
proof -
  let ?es = "map (\<lambda>r. if er_id r = er_id ev then fail_event_row now (er_attempts ev) err r else r) (ob_events st)"
  have "dispatch_one env now ev st = (Inr (), st\<lparr>ob_events := ?es\<rparr>)"
    using assms by (simp add: dispatch_one_def failEvent_def)
  moreover have "\<forall>r \<in> set ?es. er_id r = er_id ev \<longrightarrow> (\<exists>r0. r = fail_event_row now (er_attempts ev) err r0)"
    by (auto simp: fail_event_row_def Let_def)
  ultimately show ?thesis
    by (fastforce simp: fail_event_row_def Let_def MAX_ATTEMPTS_def nextRetryTime_def)
qed

text \<open>One turn keeps the events and unlocks its own, and never locks another.\<close>

definition rows_settled :: "string set \<Rightarrow> event_row list \<Rightarrow> event_row list \<Rightarrow> bool" where
  "rows_settled ids es es' \<longleftrightarrow>
     length es' = length es
     \<and> (\<forall>i < length es. er_id (es' ! i) = er_id (es ! i)
          \<and> (if er_id (es ! i) \<in> ids then er_lockedAt (es' ! i) = None \<and> er_lockedBy (es' ! i) = None
             else es' ! i = es ! i))"

lemma rows_settled_refl: "rows_settled {} es es"
  by (simp add: rows_settled_def)

lemma rows_settled_ids: "rows_settled ids es es' \<Longrightarrow> map er_id es' = map er_id es"
  by (rule nth_equalityI) (auto simp: rows_settled_def)

lemma rows_settled_map:
  assumes "\<And>r. er_id (f r) = er_id r" "\<And>r. er_lockedAt (f r) = None \<and> er_lockedBy (f r) = None"
  shows "rows_settled {i} es (map (\<lambda>r. if er_id r = i then f r else r) es)"
  using assms by (simp add: rows_settled_def)

lemma rows_settled_trans:
  assumes "rows_settled A es es1" "rows_settled B es1 es2"
  shows "rows_settled (A \<union> B) es es2"
  unfolding rows_settled_def
proof (intro conjI allI impI)
  show "length es2 = length es" using assms by (simp add: rows_settled_def)
next
  fix i assume i: "i < length es"
  have 1: "er_id (es1 ! i) = er_id (es ! i)"
    "if er_id (es ! i) \<in> A then er_lockedAt (es1 ! i) = None \<and> er_lockedBy (es1 ! i) = None
     else es1 ! i = es ! i"
    using assms(1) i by (simp_all add: rows_settled_def)
  have 2: "er_id (es2 ! i) = er_id (es1 ! i)"
    "if er_id (es1 ! i) \<in> B then er_lockedAt (es2 ! i) = None \<and> er_lockedBy (es2 ! i) = None
     else es2 ! i = es1 ! i"
    using assms i by (simp_all add: rows_settled_def)
  show "er_id (es2 ! i) = er_id (es ! i)" using 1(1) 2(1) by simp
  show "if er_id (es ! i) \<in> A \<union> B then er_lockedAt (es2 ! i) = None \<and> er_lockedBy (es2 ! i) = None
        else es2 ! i = es ! i"
    using 1 2 by (auto split: if_splits)
qed

lemma fail_event_row_settled:
  "er_id (fail_event_row now n e r) = er_id r"
  "er_lockedAt (fail_event_row now n e r) = None" "er_lockedBy (fail_event_row now n e r) = None"
  by (simp_all add: fail_event_row_def Let_def)

lemma failEvent_settled:
  "failEvent now ev e es = Inr es' \<Longrightarrow> rows_settled {er_id ev} es es'"
  by (auto simp: failEvent_def fail_event_row_settled split: if_splits intro!: rows_settled_map)

lemma dispatch_transaction_settled:
  "dispatch_transaction env now ev st = Inr st' \<Longrightarrow> rows_settled {er_id ev} (ob_events st) (ob_events st')"
  by (auto simp: dispatch_transaction_def result_simps mark_dispatched_def dispatched_row_def
      split: if_splits intro!: rows_settled_map)

lemma dispatch_one_settled:
  assumes "er_id ev \<in> set (map er_id (ob_events st))"
  shows "\<exists>st'. dispatch_one env now ev st = (Inr (), st')
           \<and> rows_settled {er_id ev} (ob_events st) (ob_events st')"
proof (cases "dispatch_transaction env now ev st")
  case (Inl e)
  obtain es where "failEvent now ev e (ob_events st) = Inr es"
    using assms by (simp add: failEvent_def)
  with Inl failEvent_settled show ?thesis by (fastforce simp: dispatch_one_def)
next
  case (Inr st1)
  note settled = dispatch_transaction_settled [OF Inr]
  show ?thesis
  proof (cases "de_leave env ev")
    case (Inl e)
    have "er_id ev \<in> set (map er_id (ob_events st1))"
      using assms rows_settled_ids [OF settled] by simp
    then obtain es where es: "failEvent now ev e (ob_events st1) = Inr es"
      by (simp add: failEvent_def)
    have "rows_settled {er_id ev} (ob_events st) es"
      using rows_settled_trans [OF settled failEvent_settled [OF es]] by simp
    with Inl Inr es show ?thesis by (simp add: dispatch_one_def)
  next
    case (Inr u)
    with \<open>dispatch_transaction env now ev st = Inr st1\<close> settled show ?thesis
      by (simp add: dispatch_one_def)
  qed
qed

lemma dispatch_loop_settled:
  assumes "\<And>ev. ev \<in> set evs \<Longrightarrow> er_id ev \<in> set (map er_id (ob_events st))"
  shows "\<exists>st'. dispatch_loop env now evs st = (Inr (), st')
           \<and> rows_settled (er_id ` set evs) (ob_events st) (ob_events st')"
  using assms
proof (induction evs arbitrary: st)
  case Nil
  then show ?case by (simp add: rows_settled_refl)
next
  case (Cons ev evs)
  obtain st1 where st1: "dispatch_one env now ev st = (Inr (), st1)"
    "rows_settled {er_id ev} (ob_events st) (ob_events st1)"
    using dispatch_one_settled [OF Cons.prems [of ev]] by auto
  have "er_id ev' \<in> set (map er_id (ob_events st1))" if "ev' \<in> set evs" for ev'
    unfolding rows_settled_ids [OF st1(2)] using Cons.prems that by simp
  then obtain st2 where "dispatch_loop env now evs st1 = (Inr (), st2)"
    "rows_settled (er_id ` set evs) (ob_events st1) (ob_events st2)"
    using Cons.IH [of st1] by blast
  with st1 rows_settled_trans [OF st1(2)] show ?case by fastforce
qed

text \<open>
  C1: a dispatch turn never throws, whatever its events, handlers and stores do: it
  reports how many events it claimed, at most the batch size, keeps every event row, leaves each
  claimed event unlocked again, and writes no event it did not claim.
\<close>

theorem dispatch_settles_all_claims:
  assumes "claimPendingEvents c flags locked worker n (ob_events st) = (claimed, es)"
  shows "\<exists>st'. dispatchPendingEvents env c flags locked worker n st = (Inr (length claimed), st')
    \<and> length claimed \<le> n
    \<and> map er_id (ob_events st') = map er_id (ob_events st)
    \<and> (\<forall>i < length (ob_events st).
         if er_id (ob_events st ! i) \<in> er_id ` set claimed
         then er_lockedAt (ob_events st' ! i) = None \<and> er_lockedBy (ob_events st' ! i) = None
         else ob_events st' ! i = ob_events st ! i)"
proof -
  let ?cands = "take n (sort_key er_createdAt
      (filter (\<lambda>r. event_candidate c flags r \<and> er_id r \<notin> set locked) (ob_events st)))"
  have cl: "claimed = map (claim_event c worker) ?cands"
    and es: "es = map (\<lambda>r. if er_id r \<in> set (map er_id ?cands) then claim_event c worker r else r) (ob_events st)"
    using assms by (simp_all add: claimPendingEvents_def Let_def)
  have ids: "er_id ` set claimed = set (map er_id ?cands)" by (simp add: cl image_image)
  have es_ids: "map er_id es = map er_id (ob_events st)" by (simp add: es)
  have "er_id ev \<in> set (map er_id es)" if "ev \<in> set claimed" for ev
    using that unfolding es_ids by (fastforce simp: cl dest: in_set_takeD)
  then obtain st' where st': "dispatch_loop env (clk_app c) claimed (st\<lparr>ob_events := es\<rparr>) = (Inr (), st')"
    "rows_settled (er_id ` set claimed) es (ob_events st')"
    using dispatch_loop_settled [of claimed "st\<lparr>ob_events := es\<rparr>" env "clk_app c"] by auto
  have len: "length es = length (ob_events st)" by (simp add: es)
  have rows: "if er_id (ob_events st ! i) \<in> er_id ` set claimed
         then er_lockedAt (ob_events st' ! i) = None \<and> er_lockedBy (ob_events st' ! i) = None
         else ob_events st' ! i = ob_events st ! i" if "i < length (ob_events st)" for i
  proof -
    have "er_id (es ! i) = er_id (ob_events st ! i)" using that by (simp add: es)
    moreover have "er_id (ob_events st ! i) \<notin> er_id ` set claimed \<Longrightarrow> es ! i = ob_events st ! i"
      using that unfolding ids by (simp add: es)
    ultimately show ?thesis
      using st'(2) that len unfolding rows_settled_def by metis
  qed
  have "dispatchPendingEvents env c flags locked worker n st = (Inr (length claimed), st')"
    using assms st'(1) by (simp add: dispatchPendingEvents_def)
  moreover have "length claimed \<le> n" by (simp add: cl)
  moreover have "map er_id (ob_events st') = map er_id (ob_events st)"
    using rows_settled_ids [OF st'(2)] es_ids by simp
  ultimately show ?thesis using rows by blast
qed

section \<open>Witnesses\<close>

definition example_event :: "string \<Rightarrow> string \<Rightarrow> (string \<times> json) list \<Rightarrow> domain_event" where
  "example_event i ty fs =
     \<lparr>ev_id = i, ev_type = ty, ev_workspace = Some ''w'', ev_payload = JObj fs,
      ev_createdAt = Some 1709208000123, ev_aggregateId = None, ev_aggregateType = None\<rparr>"

definition example_crm :: "unit crm_env" where
  "example_crm =
     \<lparr>ce_leads = [], ce_qualifications = [], ce_contacts = [], ce_captureJob = (\<lambda>_. Inr ()),
      ce_capture = (\<lambda>_ _. Inr ()), ce_immutable = (\<lambda>_ _. Inr ()), ce_readable = (\<lambda>_ _. Inr True),
      ce_record = (\<lambda>_ _. Inr ())\<rparr>"

definition example_new_id :: "job_row list \<Rightarrow> string" where
  "example_new_id js = string_of_nat (length js)"

definition example_drafts :: "job_draft list" where
  "example_drafts =
     (case deriveJobsForEvent 0 (example_event ''e'' ''brain-source.created'' [(''sourceId'', JStr ''s'')]) of
        Inl _ \<Rightarrow> [] | Inr ds \<Rightarrow> ds)"

definition example_stored :: "job_row list" where
  "example_stored =
     (case enqueue_derived example_crm example_new_id 0 example_drafts [] of Inl _ \<Rightarrow> [] | Inr js \<Rightarrow> js)"

lemma example_derived:
  "deriveJobsForEvent 0 (example_event ''e'' ''brain-source.created'' [(''sourceId'', JStr ''s'')])
   = Inr example_drafts"
  by code_simp

lemma example_enqueued:
  "enqueue_derived example_crm example_new_id 0 example_drafts [] = Inr example_stored"
  by code_simp

definition example_row :: "string \<Rightarrow> string \<Rightarrow> event_row" where
  "example_row i ty =
     \<lparr>er_event = example_event i ty [], er_status = E_PENDING, er_availableAt = 0, er_attempts = 5,
      er_lockedAt = Some 10, er_lockedBy = Some ''w1'', er_dispatchedAt = None, er_error = None,
      er_createdAt = 0\<rparr>"

definition example_dispatch :: "(unit, unit) dispatch_env" where
  "example_dispatch =
     \<lparr>de_crm = example_crm, de_new_id = example_new_id, de_enter = (\<lambda>_. Inr ()),
      de_notify = (\<lambda>_ _. Inl (PlainError ''notify'' None)), de_webhooks = (\<lambda>_ n. Inr ([], n)),
      de_leave = (\<lambda>_. Inr ())\<rparr>"

definition example_state :: "unit outbox_state" where
  "example_state = \<lparr>ob_jobs = [], ob_events = [example_row ''e'' ''document.created''], ob_store = ()\<rparr>"

lemma dispatch_settles_all_claims_witness:
  "\<exists>st'. dispatchPendingEvents example_dispatch (example_clock 400000) [] [] ''w2'' 25 example_state = (Inr 1, st')
     \<and> er_lockedAt (ob_events st' ! 0) = None"
proof -
  have "claimPendingEvents (example_clock 400000) [] [] ''w2'' 25 (ob_events example_state)
      = ([claim_event (example_clock 400000) ''w2'' (example_row ''e'' ''document.created'')],
         [claim_event (example_clock 400000) ''w2'' (example_row ''e'' ''document.created'')])"
    by code_simp
  from dispatch_settles_all_claims [OF this, of example_dispatch] show ?thesis
    by (force simp: example_state_def)
qed

end
