(* ===== verification/Approval_Rules.thy ===== *)
theory Approval_Rules
  imports Js_Number Permissions
begin

text \<open>
  The pure rules of \<^verbatim>\<open>packages/domain/src/approvals.ts\<close>: counting the decisions of a flow, the
  outcome per approval mode, the checks of a choice and of the consent window, and the text that
  records a finalized decision.

  Participation is a quotient of JavaScript numbers, so it is a rounded double here
  (\<^const>\<open>js_div\<close> and \<^const>\<open>js_mul\<close> of \<^verbatim>\<open>Js_Number\<close>).
\<close>

section \<open>Flows and decisions\<close>

datatype approval_mode = SINGLE | MAJORITY | CONSENSUS | CONSENT

datatype approval_choice = APPROVE | REJECT | ABSTAIN | AGREE | BLOCK

datatype flow_status = FS_DRAFT | FS_ACTIVE | FS_APPROVED | FS_REJECTED | FS_WITHDRAWN | FS_EXPIRED

record decision_summary =
  ds_approve :: nat
  ds_reject :: nat
  ds_abstain :: nat
  ds_agree :: nat
  ds_block :: nat

record approval_outcome =
  ao_approved :: bool
  ao_quorumMet :: bool
  ao_minApproverCountMet :: bool
  ao_participationPercent :: rat
  ao_summary :: decision_summary

definition count_choice :: "approval_choice \<Rightarrow> decision_summary \<Rightarrow> decision_summary" where
  "count_choice c s =
     (case c of
        APPROVE \<Rightarrow> s\<lparr>ds_approve := ds_approve s + 1\<rparr>
      | REJECT \<Rightarrow> s\<lparr>ds_reject := ds_reject s + 1\<rparr>
      | ABSTAIN \<Rightarrow> s\<lparr>ds_abstain := ds_abstain s + 1\<rparr>
      | AGREE \<Rightarrow> s\<lparr>ds_agree := ds_agree s + 1\<rparr>
      | BLOCK \<Rightarrow> s\<lparr>ds_block := ds_block s + 1\<rparr>)"

definition buildDecisionSummary :: "approval_choice list \<Rightarrow> decision_summary" where
  "buildDecisionSummary choices =
     fold count_choice choices
       \<lparr>ds_approve = 0, ds_reject = 0, ds_abstain = 0, ds_agree = 0, ds_block = 0\<rparr>"

definition participation_percent :: "nat \<Rightarrow> nat \<Rightarrow> rat" where
  "participation_percent decisions eligible =
     (if eligible > 0 then js_mul (js_div (of_nat decisions) (of_nat eligible)) 100 else 0)"

definition calculateApprovalOutcome ::
    "approval_mode \<Rightarrow> int \<Rightarrow> int \<Rightarrow> approval_choice list \<Rightarrow> nat \<Rightarrow> nat \<Rightarrow> approval_outcome" where
  "calculateApprovalOutcome mode quorumPercent minApproverCount decisions eligibleApprovers openObjections =
     (let summary = buildDecisionSummary decisions;
          participationPercent = participation_percent (length decisions) eligibleApprovers;
          quorumMet = participationPercent \<ge> of_int quorumPercent;
          minApproverCountMet = int (length decisions) \<ge> minApproverCount;
          approved = (case mode of
              SINGLE \<Rightarrow> minApproverCountMet \<and> (ds_approve summary > 0 \<or> ds_agree summary > 0)
            | MAJORITY \<Rightarrow> minApproverCountMet \<and> quorumMet \<and> ds_approve summary > ds_reject summary
            | CONSENSUS \<Rightarrow>
                minApproverCountMet \<and> quorumMet \<and> ds_block summary = 0
                \<and> (decisions \<noteq> [] \<and> list_all (\<lambda>d. d = AGREE) decisions)
            | CONSENT \<Rightarrow> openObjections = 0)
      in \<lparr>ao_approved = approved, ao_quorumMet = quorumMet,
          ao_minApproverCountMet = minApproverCountMet,
          ao_participationPercent = participationPercent, ao_summary = summary\<rparr>)"

definition assertConsentWindowOpen ::
    "int \<Rightarrow> approval_mode \<Rightarrow> string \<Rightarrow> int option \<Rightarrow> unit result" where
  "assertConsentWindowOpen now mode subjectType closesAt =
     (if mode \<noteq> CONSENT then Inr ()
      else if subjectType = ''PROPOSAL'' then Inr ()
      else invariant (case closesAt of None \<Rightarrow> True | Some t \<Rightarrow> t > now) 400 ''INVALID_STATE''
             ''The approval window has already closed.'')"

definition validateDecisionChoice :: "approval_mode \<Rightarrow> approval_choice \<Rightarrow> unit result" where
  "validateDecisionChoice mode choice =
     (if mode \<noteq> CONSENT then Inr ()
      else invariant (choice = AGREE \<or> choice = ABSTAIN) 400 ''INVALID_INPUT''
             ''Consent flows accept AGREE or ABSTAIN decisions. Use objections for blocks.'')"

section \<open>The decision text\<close>

text \<open>\<^verbatim>\<open>toFixed(2)\<close> of a number below 10^21: the nearest multiple of a hundredth, upwards on ties.\<close>

definition to_fixed2 :: "rat \<Rightarrow> string" where
  "to_fixed2 x =
     (let n = nat \<lfloor>\<bar>x\<bar> * 100 + 1 / 2\<rfloor>
      in (if x < 0 then ''-'' else []) @ string_of_nat (n div 100) @ ''.''
         @ pad_left 2 (string_of_nat (n mod 100)))"

fun mode_text :: "approval_mode \<Rightarrow> string" where
  "mode_text SINGLE = ''SINGLE''"
| "mode_text MAJORITY = ''MAJORITY''"
| "mode_text CONSENSUS = ''CONSENSUS''"
| "mode_text CONSENT = ''CONSENT''"

definition yes_no :: "bool \<Rightarrow> string" where
  "yes_no b = (if b then ''yes'' else ''no'')"

definition approvalDecisionMd ::
    "int \<Rightarrow> approval_mode \<Rightarrow> string \<Rightarrow> approval_outcome \<Rightarrow> nat \<Rightarrow> nat \<Rightarrow> int option \<Rightarrow> string result" where
  "approvalDecisionMd now mode status outcome eligibleApprovers openObjections closesAt =
     (let nl = [CHR 0x0A];
          line = (\<lambda>label v. ''- '' @ label @ '': '' @ v);
          s = ao_summary outcome
      in if mode = CONSENT then
           and_then (to_iso_string (case closesAt of Some t \<Rightarrow> t | None \<Rightarrow> now)) (\<lambda>closed.
             Inr (join_with nl
               [''Approval finalized by system.'', [], line ''Mode'' (mode_text mode),
                line ''Eligible approvers'' (string_of_nat eligibleApprovers),
                line ''Open objections'' (string_of_nat openObjections),
                line ''Closed at'' closed, line ''Outcome'' status]))
         else
           Inr (join_with nl
             [''Approval finalized by system.'', [], line ''Mode'' (mode_text mode),
              line ''Eligible approvers'' (string_of_nat eligibleApprovers),
              line ''Participation'' (to_fixed2 (ao_participationPercent outcome) @ ''%''),
              line ''Quorum met'' (yes_no (ao_quorumMet outcome)),
              line ''Minimum approvers met'' (yes_no (ao_minApproverCountMet outcome)),
              line ''APPROVE'' (string_of_nat (ds_approve s)),
              line ''REJECT'' (string_of_nat (ds_reject s)),
              line ''ABSTAIN'' (string_of_nat (ds_abstain s)),
              line ''AGREE'' (string_of_nat (ds_agree s)),
              line ''BLOCK'' (string_of_nat (ds_block s)), line ''Outcome'' status]))"

section \<open>Lemmas\<close>

lemma fold_count_choice:
  "ds_approve (fold count_choice cs s) = ds_approve s + count_list cs APPROVE"
  "ds_reject (fold count_choice cs s) = ds_reject s + count_list cs REJECT"
  "ds_abstain (fold count_choice cs s) = ds_abstain s + count_list cs ABSTAIN"
  "ds_agree (fold count_choice cs s) = ds_agree s + count_list cs AGREE"
  "ds_block (fold count_choice cs s) = ds_block s + count_list cs BLOCK"
  by (induction cs arbitrary: s) (simp_all add: count_choice_def split: approval_choice.split)

lemma summary_counts [simp]:
  "ds_approve (buildDecisionSummary cs) = count_list cs APPROVE"
  "ds_reject (buildDecisionSummary cs) = count_list cs REJECT"
  "ds_abstain (buildDecisionSummary cs) = count_list cs ABSTAIN"
  "ds_agree (buildDecisionSummary cs) = count_list cs AGREE"
  "ds_block (buildDecisionSummary cs) = count_list cs BLOCK"
  by (simp_all add: buildDecisionSummary_def fold_count_choice)

lemma choices_total:
  "length cs = count_list cs APPROVE + count_list cs REJECT + count_list cs ABSTAIN
     + count_list cs AGREE + count_list cs BLOCK"
proof (induction cs)
  case (Cons c cs)
  then show ?case by (cases c) simp_all
qed simp

lemma participation_mono: "k \<le> l \<Longrightarrow> participation_percent k n \<le> participation_percent l n"
  by (simp add: participation_percent_def js_mul_mono_left js_div_mono_left)

lemma participation_full: "0 < n \<Longrightarrow> participation_percent n n = 100"
  using fl_of_nat [of 1] fl_of_nat [of 100] by (simp add: participation_percent_def js_div_def js_mul_def)

lemma participation_below:
  assumes "int k * 100 < q * int n" "0 < q" "q \<le> 100" "0 < n" "n \<le> 2 ^ 40"
  shows "participation_percent k n < of_int q"
proof -
  define x :: rat where "x = of_nat k / of_nat n"
  define N Q :: rat where "N = of_nat n" and "Q = of_int q"
  have N: "0 < N" "N \<le> 2 ^ 40" and Q: "0 < Q" "Q \<le> 100"
    using assms by (simp_all add: N_def Q_def)
  have "int k * 100 + 1 \<le> q * int n" using assms(1) by simp
  then have "(of_int (int k * 100 + 1) :: rat) \<le> of_int (q * int n)" by (simp only: of_int_le_iff)
  then have "of_nat k * 100 + 1 \<le> Q * N" by (simp add: N_def Q_def)
  then have x: "x * 100 \<le> Q - 1 / N" "0 \<le> x"
    using N by (simp_all add: x_def N_def [symmetric] field_simps)
  have "fl x * 100 \<le> x * 100 * (1 + 1 / 2 ^ 53)" "0 \<le> fl x"
    using fl_upper [OF x(2)] fl_nonneg [OF x(2)] by (simp_all add: field_simps)
  then have "fl (fl x * 100) \<le> fl x * 100 * (1 + 1 / 2 ^ 53)" by (intro fl_upper) simp
  also have "\<dots> \<le> x * 100 * (1 + 1 / 2 ^ 53) * (1 + 1 / 2 ^ 53)"
    using \<open>fl x * 100 \<le> x * 100 * (1 + 1 / 2 ^ 53)\<close> by (rule mult_right_mono) simp
  also have "\<dots> \<le> (Q - 1 / N) * ((1 + 1 / 2 ^ 53) * (1 + 1 / 2 ^ 53))"
    using x(1) by (simp add: mult.assoc mult_right_mono)
  also have "\<dots> < Q"
  proof -
    have "1 / 2 ^ 40 \<le> 1 / N" using N by (simp add: frac_le)
    then have "Q - 1 / N \<le> Q - 1 / 2 ^ 40" by simp
    then have "(Q - 1 / N) * ((1 + 1 / 2 ^ 53) * (1 + 1 / 2 ^ 53))
        \<le> (Q - 1 / 2 ^ 40) * ((1 + 1 / 2 ^ 53) * (1 + 1 / 2 ^ 53))"
      by (intro mult_right_mono) auto
    also have "\<dots> < Q" using Q by (simp add: field_simps)
    finally show ?thesis .
  qed
  finally show ?thesis
    using assms(4) by (simp add: participation_percent_def js_mul_def js_div_def x_def Q_def)
qed

lemma participation_above:
  assumes "q * int n < int k * 100" "0 < q" "q \<le> 100" "0 < n" "n \<le> 2 ^ 40"
  shows "of_int q \<le> participation_percent k n"
proof -
  define x :: rat where "x = of_nat k / of_nat n"
  define N Q :: rat where "N = of_nat n" and "Q = of_int q"
  have N: "0 < N" "N \<le> 2 ^ 40" and Q: "0 < Q" "Q \<le> 100"
    using assms by (simp_all add: N_def Q_def)
  have "q * int n + 1 \<le> int k * 100" using assms(1) by simp
  then have "(of_int (q * int n + 1) :: rat) \<le> of_int (int k * 100)" by (simp only: of_int_le_iff)
  then have "Q * N + 1 \<le> of_nat k * 100" by (simp add: N_def Q_def)
  then have "(Q * N + 1) / N \<le> of_nat k * 100 / N" using N by (intro divide_right_mono) auto
  then have x: "Q + 1 / N \<le> x * 100" "0 \<le> x"
    using N by (simp_all add: x_def N_def [symmetric] add_divide_distrib)
  have "Q \<le> (Q + 1 / 2 ^ 40) * (1 - 1 / 2 ^ 53)" using Q by (simp add: field_simps)
  also have "\<dots> \<le> (x * 100) * (1 - 1 / 2 ^ 53)"
  proof (rule mult_right_mono)
    have "1 / 2 ^ 40 \<le> 1 / N" using N by (simp add: frac_le)
    with x(1) show "Q + 1 / 2 ^ 40 \<le> x * 100" by simp
  qed simp
  also have "\<dots> \<le> fl x * 100" using fl_lower [OF x(2)] by (simp add: field_simps)
  finally have "fl Q \<le> fl (fl x * 100)" by (rule fl_mono)
  moreover have "fl Q = Q"
    using fl_of_nat [of "nat q"] assms(2,3) by (simp add: Q_def)
  ultimately show ?thesis
    using assms(4) by (simp add: participation_percent_def js_mul_def js_div_def x_def Q_def)
qed

section \<open>Properties of the rules\<close>

text \<open>
  C11: for any real number of approvers and a quorum between 1 and 100 percent, the
  rounded computation never reports a quorum that the exact share of decisions misses, and always
  reports one that the exact share exceeds: rounding can only matter at an exact tie.
\<close>

theorem quorum_exact_except_ties:
  assumes "0 < q" "q \<le> 100" "0 < n" "n \<le> 2 ^ 40"
  shows "(int (length ds) * 100 < q * int n \<longrightarrow>
            \<not> ao_quorumMet (calculateApprovalOutcome mode q m ds n obj))
       \<and> (q * int n < int (length ds) * 100 \<longrightarrow>
            ao_quorumMet (calculateApprovalOutcome mode q m ds n obj))"
  using participation_below [OF _ assms] participation_above [OF _ assms]
  by (auto simp: calculateApprovalOutcome_def Let_def not_le)

lemma quorum_exact_except_ties_witness:
  "\<not> ao_quorumMet (calculateApprovalOutcome MAJORITY 50 1 [APPROVE, REJECT] 5 0)
   \<and> ao_quorumMet (calculateApprovalOutcome MAJORITY 50 1 [APPROVE, APPROVE, ABSTAIN] 5 0)"
  using quorum_exact_except_ties [of 50 5 "[APPROVE, REJECT]" MAJORITY 1 0]
    quorum_exact_except_ties [of 50 5 "[APPROVE, APPROVE, ABSTAIN]" MAJORITY 1 0] by simp

text \<open>
  At a tie the rounding does matter: with 100 approvers, a quorum of 57 percent and
  57 decisions, all of them approvals, the quorum is reported as missed and a majority flow is not
  approved, although exactly 57 percent took part.
\<close>

lemma quorum_tie_missed:
  "\<not> ao_quorumMet (calculateApprovalOutcome MAJORITY 57 1 (replicate 57 APPROVE) 100 0)
   \<and> \<not> ao_approved (calculateApprovalOutcome MAJORITY 57 1 (replicate 57 APPROVE) 100 0)"
proof -
  have d: "js_div 57 100 = 5134103575202365 / 2 ^ 53"
    unfolding js_div_def
    by (subst fl_eval [where e = "-1" and f = 5134103575202365]) (simp_all add: power_int_minus)
  have "js_mul (js_div 57 100) 100 = 8022036836253695 / 2 ^ 47"
    unfolding d js_mul_def
    by (subst fl_eval [where e = 5 and f = 8022036836253695]) (simp_all add: power_int_minus)
  then have "participation_percent 57 100 < 57" by (simp add: participation_percent_def)
  then show ?thesis by (simp add: calculateApprovalOutcome_def Let_def)
qed

text \<open>
  In a single approver or a majority flow a further approval never undoes an
  approved outcome: it stays approved, and the participation it reports does not shrink.
\<close>

lemma approval_is_monotone:
  assumes "mode = SINGLE \<or> mode = MAJORITY"
    and "ao_approved (calculateApprovalOutcome mode q m ds n obj)"
  shows "ao_approved (calculateApprovalOutcome mode q m (ds @ [APPROVE]) n obj)
    \<and> ao_participationPercent (calculateApprovalOutcome mode q m ds n obj)
        \<le> ao_participationPercent (calculateApprovalOutcome mode q m (ds @ [APPROVE]) n obj)"
  using assms participation_mono [of "length ds" "Suc (length ds)" n]
  by (auto simp: calculateApprovalOutcome_def Let_def count_list_append)

text \<open>
  The summary of an outcome counts every decision exactly once, under its own
  choice.
\<close>

theorem summary_partitions_decisions:
  "let s = ao_summary (calculateApprovalOutcome mode q m ds n obj)
   in ds_approve s = count_list ds APPROVE \<and> ds_reject s = count_list ds REJECT
      \<and> ds_abstain s = count_list ds ABSTAIN \<and> ds_agree s = count_list ds AGREE
      \<and> ds_block s = count_list ds BLOCK
      \<and> ds_approve s + ds_reject s + ds_abstain s + ds_agree s + ds_block s = length ds"
  using choices_total [of ds] by (simp add: calculateApprovalOutcome_def Let_def)

end
