(* ===== verification/Approvals.thy ===== *)
theory Approvals
  imports Approval_Rules Outbox_Claim
begin

text \<open>
  The approval flows of \<^verbatim>\<open>packages/domain/src/approvals.ts\<close> as operations on the database:
  opening and withdrawing a flow, recording a decision, raising and resolving an objection, and
  finalizing expired consent flows.  Each operation is one transaction: it returns its result with
  the new database, or throws and leaves the database as it was.

  The lineage store is abstract: its state is \<open>'l\<close>, its operations are an argument (\<open>av_lineage\<close>,
  which may throw), as are the questions the code asks it, the membership check of
  \<^verbatim>\<open>auth.ts\<close>, the database's evaluation of the human member filter, the clock and the
  generated id.  Advisory locks have no effect in a single transaction.
\<close>

section \<open>The database\<close>

text \<open>
  \<^verbatim>\<open>resultJson\<close>: the outcome of the decisions, the cleanup record of a withdrawal, or the
  outcome and note of a proposal resolved by hand (\<^verbatim>\<open>resolveProposal\<close> of \<^verbatim>\<open>proposals.ts\<close>).
\<close>

datatype flow_result =
    Result_outcome approval_outcome
  | Result_withdrawn string string string string
  | Result_manual string string

record approval_flow =
  fl_id :: string
  fl_workspace :: string
  fl_subjectType :: string
  fl_subjectId :: string
  fl_mode :: approval_mode
  fl_status :: flow_status
  fl_quorumPercent :: int
  fl_minApproverCount :: int
  fl_openedAt :: "int option"
  fl_closesAt :: "int option"
  fl_closedAt :: "int option"
  fl_result :: "flow_result option"
  fl_createdBy :: "string option"

record approval_decision =
  ad_id :: string
  ad_flow :: string
  ad_member :: string
  ad_choice :: approval_choice
  ad_rationale :: "string option"

record objection_row =
  oj_id :: string
  oj_flow :: string
  oj_user :: string
  oj_body :: string
  oj_resolvedAt :: "int option"

record member_row =
  mr_id :: string
  mr_workspace :: string
  mr_user :: string
  mr_active :: bool
  mr_kind :: member_kind
  mr_email :: string
  mr_displayName :: "string option"

record proposal_row =
  pr_id :: string
  pr_workspace :: string
  pr_author :: "string option"
  pr_title :: string
  pr_body :: string
  pr_circle :: "string option"
  pr_status :: string
  pr_resolution :: "string option"
  pr_decidedAt :: "int option"
  pr_decisionMd :: "string option"
  pr_ownerMember :: "string option"
  pr_isPrivate :: bool
  pr_publishedAt :: "int option"
  pr_archivedAt :: "int option"
  pr_autoApproveAt :: "int option"

record policy_row =
  pc_id :: string
  pc_workspace :: string
  pc_proposal :: string
  pc_title :: string
  pc_body :: string
  pc_circle :: "string option"
  pc_acceptedAt :: int

record audit_row =
  au_workspace :: string
  au_actor :: "string option"
  au_action :: string
  au_entityType :: string
  au_entityId :: string
  au_meta :: json

record outbox_event =
  oe_workspace :: string
  oe_type :: string
  oe_aggregateType :: string
  oe_aggregateId :: string
  oe_payload :: json

record 'l approval_db =
  db_flows :: "approval_flow list"
  db_decisions :: "approval_decision list"
  db_objections :: "objection_row list"
  db_members :: "member_row list"
  db_proposals :: "proposal_row list"
  db_policies :: "policy_row list"
  db_audit :: "audit_row list"
  db_events :: "outbox_event list"
  db_lineage :: 'l

text \<open>A lineage artifact is a kind and an id.\<close>

type_synonym artifact = "string \<times> string"

datatype lineage_op =
    L_snapshot_proof artifact
  | L_capture_proof "artifact list"
  | L_record artifact "artifact list"
  | L_invalidate artifact
  | L_preserve_unknown artifact
  | L_advance_human artifact
  | L_admit_human artifact
  | L_capture_immutable "artifact list"

record 'l approval_env =
  av_membership :: "app_actor \<Rightarrow> string \<Rightarrow> membership option result"
  av_human :: "member_row \<Rightarrow> bool"
  av_now :: int
  av_new_id :: "string \<Rightarrow> string"
  av_readable :: "app_actor \<Rightarrow> string \<Rightarrow> artifact \<Rightarrow> 'l \<Rightarrow> bool"
  av_has_roots :: "string \<Rightarrow> artifact \<Rightarrow> 'l \<Rightarrow> bool"
  av_lineage :: "app_actor option \<Rightarrow> string \<Rightarrow> lineage_op \<Rightarrow> 'l \<Rightarrow> 'l result"

definition lineage ::
    "'l approval_env \<Rightarrow> app_actor option \<Rightarrow> string \<Rightarrow> lineage_op \<Rightarrow> 'l approval_db
     \<Rightarrow> 'l approval_db result" where
  "lineage env actor w op db =
     and_then (av_lineage env actor w op (db_lineage db)) (\<lambda>l. Inr (db\<lparr>db_lineage := l\<rparr>))"

section \<open>Reading a flow\<close>

definition find_flow :: "string \<Rightarrow> 'l approval_db \<Rightarrow> approval_flow option" where
  "find_flow i db = find (\<lambda>f. fl_id f = i) (db_flows db)"

definition flow_decisions :: "string \<Rightarrow> 'l approval_db \<Rightarrow> approval_decision list" where
  "flow_decisions i db = filter (\<lambda>d. ad_flow d = i) (db_decisions db)"

definition open_objections :: "string \<Rightarrow> 'l approval_db \<Rightarrow> objection_row list" where
  "open_objections i db = filter (\<lambda>ob. oj_flow ob = i \<and> oj_resolvedAt ob = None) (db_objections db)"

text \<open>\<^verbatim>\<open>loadFlow\<close>: the flow with its decisions and its unresolved objections.\<close>

record loaded_flow =
  lf_flow :: approval_flow
  lf_decisions :: "approval_decision list"
  lf_objections :: "objection_row list"

definition loadFlow :: "string \<Rightarrow> 'l approval_db \<Rightarrow> loaded_flow option" where
  "loadFlow i db =
     map_option (\<lambda>f. \<lparr>lf_flow = f, lf_decisions = flow_decisions i db,
                     lf_objections = open_objections i db\<rparr>) (find_flow i db)"

definition require_flow :: "string \<Rightarrow> 'l approval_db \<Rightarrow> loaded_flow result" where
  "require_flow i db =
     (case loadFlow i db of
        None \<Rightarrow> Inl (AppError 404 ''NOT_FOUND'' ''Approval flow not found.'')
      | Some f \<Rightarrow> Inr f)"

definition require_flow_in :: "string \<Rightarrow> string \<Rightarrow> 'l approval_db \<Rightarrow> loaded_flow result" where
  "require_flow_in w i db =
     and_then (require_flow i db) (\<lambda>f.
     and_then (invariant (fl_workspace (lf_flow f) = w) 404 ''NOT_FOUND'' ''Approval flow not found.'')
       (\<lambda>_. Inr f))"

definition workspace_members :: "'l approval_env \<Rightarrow> string \<Rightarrow> 'l approval_db \<Rightarrow> member_row list" where
  "workspace_members env w db =
     filter (\<lambda>m. mr_workspace m = w \<and> mr_active m \<and> av_human env m) (db_members db)"

definition not_excluded :: "string option \<Rightarrow> member_row \<Rightarrow> bool" where
  "not_excluded excluded m \<longleftrightarrow> \<not> truthy_str excluded \<or> excluded \<noteq> Some (mr_user m)"

definition eligibleApproverIds ::
    "'l approval_env \<Rightarrow> string \<Rightarrow> string option \<Rightarrow> 'l approval_db \<Rightarrow> string list" where
  "eligibleApproverIds env w excluded db =
     map mr_id (filter (not_excluded excluded) (workspace_members env w db))"

definition proposalAuthorUserIdForFlow :: "approval_flow \<Rightarrow> 'l approval_db \<Rightarrow> string option" where
  "proposalAuthorUserIdForFlow f db =
     (if fl_subjectType f \<noteq> ''PROPOSAL'' then None
      else case find (\<lambda>p. pr_id p = fl_subjectId f \<and> pr_workspace p = fl_workspace f) (db_proposals db) of
             None \<Rightarrow> None
           | Some p \<Rightarrow> pr_author p)"

definition assertProposalAuthorCanReview ::
    "approval_flow \<Rightarrow> string \<Rightarrow> 'l approval_db \<Rightarrow> unit result" where
  "assertProposalAuthorCanReview f actorUserId db =
     (let author = proposalAuthorUserIdForFlow f db
      in invariant (\<not> truthy_str author \<or> author \<noteq> Some actorUserId) 403 ''FORBIDDEN''
           ''Proposal authors cannot review their own proposal.'')"

definition eligibleFlowDecisions :: "loaded_flow \<Rightarrow> string list \<Rightarrow> approval_decision list" where
  "eligibleFlowDecisions f approverIds =
     (if fl_subjectType (lf_flow f) = ''PROPOSAL''
      then filter (\<lambda>d. ad_member d \<in> set approverIds) (lf_decisions f)
      else lf_decisions f)"

definition flow_outcome :: "loaded_flow \<Rightarrow> approval_decision list \<Rightarrow> string list \<Rightarrow> approval_outcome" where
  "flow_outcome f ds approverIds =
     calculateApprovalOutcome (fl_mode (lf_flow f)) (fl_quorumPercent (lf_flow f))
       (fl_minApproverCount (lf_flow f)) (map ad_choice ds) (length approverIds)
       (length (lf_objections f))"

section \<open>Lineage of a flow\<close>

definition approvalInputsReadable ::
    "'l approval_env \<Rightarrow> app_actor \<Rightarrow> string \<Rightarrow> loaded_flow \<Rightarrow> 'l approval_db \<Rightarrow> bool" where
  "approvalInputsReadable env actor w f db \<longleftrightarrow>
     (let readable = (\<lambda>a. av_readable env actor w a (db_lineage db))
      in readable (''ApprovalFlow'', fl_id (lf_flow f))
         \<and> list_all (\<lambda>d. readable (''ApprovalDecision'', ad_id d)) (lf_decisions f)
         \<and> list_all (\<lambda>ob. readable (''Objection'', oj_id ob)) (lf_objections f))"

definition subject_kind :: "string \<Rightarrow> string option" where
  "subject_kind t =
     (if t = ''PROPOSAL'' then Some ''Proposal''
      else if t = ''ACTION'' then Some ''Action''
      else if t = ''TENSION'' then Some ''Tension''
      else None)"

definition approvalSubjectRoots ::
    "'l approval_env \<Rightarrow> app_actor \<Rightarrow> approval_flow \<Rightarrow> 'l approval_db \<Rightarrow> 'l approval_db result" where
  "approvalSubjectRoots env actor f db =
     (case subject_kind (fl_subjectType f) of
        Some kind \<Rightarrow> lineage env (Some actor) (fl_workspace f) (L_snapshot_proof (kind, fl_subjectId f)) db
      | None \<Rightarrow> Inl (AppError 409 ''UNKNOWN_LINEAGE'' ''Approval subject inputs cannot be verified.''))"

definition outcomeInputRoots ::
    "'l approval_env \<Rightarrow> app_actor \<Rightarrow> loaded_flow \<Rightarrow> string list \<Rightarrow> 'l approval_db
     \<Rightarrow> 'l approval_db result" where
  "outcomeInputRoots env actor f approverIds db =
     (let flow = lf_flow f;
          members = filter (not_excluded (proposalAuthorUserIdForFlow flow db))
                      (workspace_members env (fl_workspace flow) db)
      in and_then (invariant (av_has_roots env (fl_workspace flow) (''ApprovalFlow'', fl_id flow) (db_lineage db))
                     409 ''UNKNOWN_LINEAGE'' ''Approval inputs cannot be verified.'') (\<lambda>_.
         and_then (invariant (length members = length approverIds
                              \<and> list_all (\<lambda>m. mr_id m \<in> set approverIds) members)
                     409 ''SOURCE_CHANGED'' ''Approval reviewers changed during the decision.'') (\<lambda>_.
         lineage env (Some actor) (fl_workspace flow)
           (L_capture_proof
              (map (\<lambda>m. (''Member'', mr_id m)) members
               @ map (\<lambda>d. (''ApprovalDecision'', ad_id d)) (eligibleFlowDecisions f approverIds)
               @ map (\<lambda>ob. (''Objection'', oj_id ob)) (lf_objections f))) db)))"

section \<open>Writing a flow\<close>

definition update_flow ::
    "string \<Rightarrow> (approval_flow \<Rightarrow> approval_flow) \<Rightarrow> 'l approval_db \<Rightarrow> 'l approval_db" where
  "update_flow i g db =
     db\<lparr>db_flows := map (\<lambda>f. if fl_id f = i then g f else f) (db_flows db)\<rparr>"

definition writeFlowOutcome ::
    "'l approval_env \<Rightarrow> app_actor \<Rightarrow> approval_flow \<Rightarrow> (approval_flow \<Rightarrow> approval_flow)
     \<Rightarrow> 'l approval_db \<Rightarrow> 'l approval_db result" where
  "writeFlowOutcome env actor f g db =
     lineage env (Some actor) (fl_workspace f) (L_record (''ApprovalFlow'', fl_id f) [])
       (update_flow (fl_id f) g db)"

definition set_outcome :: "approval_outcome \<Rightarrow> approval_flow \<Rightarrow> approval_flow" where
  "set_outcome outcome f = f\<lparr>fl_result := Some (Result_outcome outcome)\<rparr>"

definition audit ::
    "string \<Rightarrow> string option \<Rightarrow> string \<Rightarrow> string \<Rightarrow> json \<Rightarrow> 'l approval_db \<Rightarrow> 'l approval_db" where
  "audit w user action flowId meta db =
     db\<lparr>db_audit := db_audit db @
          [\<lparr>au_workspace = w, au_actor = user, au_action = action, au_entityType = ''ApprovalFlow'',
            au_entityId = flowId, au_meta = meta\<rparr>]\<rparr>"

definition appendEvents :: "outbox_event list \<Rightarrow> 'l approval_db \<Rightarrow> 'l approval_db" where
  "appendEvents es db = db\<lparr>db_events := db_events db @ es\<rparr>"

definition flow_event :: "string \<Rightarrow> string \<Rightarrow> string \<Rightarrow> json \<Rightarrow> outbox_event" where
  "flow_event w ty flowId payload =
     \<lparr>oe_workspace = w, oe_type = ty, oe_aggregateType = ''ApprovalFlow'', oe_aggregateId = flowId,
      oe_payload = payload\<rparr>"

section \<open>Finalizing\<close>

datatype final_status = Final_approved | Final_rejected

fun final_flow_status :: "final_status \<Rightarrow> flow_status" where
  "final_flow_status Final_approved = FS_APPROVED"
| "final_flow_status Final_rejected = FS_REJECTED"

fun final_text :: "final_status \<Rightarrow> string" where
  "final_text Final_approved = ''APPROVED''"
| "final_text Final_rejected = ''REJECTED''"

definition upsert_policy ::
    "string \<Rightarrow> int \<Rightarrow> proposal_row \<Rightarrow> policy_row list \<Rightarrow> string \<times> policy_row list" where
  "upsert_policy new_id now p ps =
     (let acceptedAt = (case pr_decidedAt p of Some t \<Rightarrow> t | None \<Rightarrow> now)
      in case find (\<lambda>c. pc_proposal c = pr_id p) ps of
           Some existing \<Rightarrow>
             (pc_id existing,
              map (\<lambda>c. if pc_proposal c = pr_id p
                       then c\<lparr>pc_title := pr_title p, pc_body := pr_body p,
                              pc_acceptedAt := acceptedAt, pc_circle := pr_circle p\<rparr>
                       else c) ps)
         | None \<Rightarrow>
             (new_id,
              ps @ [\<lparr>pc_id = new_id, pc_workspace = pr_workspace p, pc_proposal = pr_id p,
                     pc_title = pr_title p, pc_body = pr_body p, pc_circle = pr_circle p,
                     pc_acceptedAt = acceptedAt\<rparr>]))"

definition resolved_proposal :: "final_status \<Rightarrow> int \<Rightarrow> string \<Rightarrow> proposal_row \<Rightarrow> proposal_row" where
  "resolved_proposal status now md p =
     p\<lparr>pr_status := ''RESOLVED'',
       pr_resolution := Some (case status of Final_approved \<Rightarrow> ''ADOPTED'' | Final_rejected \<Rightarrow> ''NOT_ADOPTED''),
       pr_decidedAt := Some now, pr_decisionMd := Some md\<rparr>"

definition applySubjectOutcome ::
    "'l approval_env \<Rightarrow> app_actor \<Rightarrow> approval_flow \<Rightarrow> final_status \<Rightarrow> approval_outcome \<Rightarrow> nat \<Rightarrow> nat
     \<Rightarrow> 'l approval_db \<Rightarrow> 'l approval_db result" where
  "applySubjectOutcome env actor f status outcome approvers openObjections db =
     (if fl_subjectType f \<noteq> ''PROPOSAL'' then Inr db
      else case find (\<lambda>p. pr_id p = fl_subjectId f \<and> pr_workspace p = fl_workspace f) (db_proposals db) of
        None \<Rightarrow> Inl (AppError 404 ''NOT_FOUND'' ''Proposal not found.'')
      | Some before \<Rightarrow>
          and_then (invariant (av_has_roots env (fl_workspace f) (''Proposal'', pr_id before) (db_lineage db))
                      409 ''UNKNOWN_LINEAGE'' ''Proposal inputs cannot be verified.'') (\<lambda>_.
          and_then (approvalDecisionMd (av_now env) (fl_mode f) (final_text status) outcome approvers
                      openObjections (fl_closesAt f)) (\<lambda>md.
          let proposal = resolved_proposal status (av_now env) md before;
              db1 = db\<lparr>db_proposals := map (\<lambda>p. if pr_id p = pr_id before
                                               then resolved_proposal status (av_now env) md p else p)
                                          (db_proposals db)\<rparr>
          in and_then (lineage env (Some actor) (pr_workspace proposal)
                         (L_record (''Proposal'', pr_id proposal) [(''ApprovalFlow'', fl_id f)]) db1) (\<lambda>db2.
             if status = Final_rejected then Inr db2
             else
               let (policyId, policies) = upsert_policy (av_new_id env ''PolicyCorpus'') (av_now env)
                                            proposal (db_policies db2)
               in lineage env (Some actor) (pr_workspace proposal)
                    (L_record (''PolicyCorpus'', policyId) [(''Proposal'', pr_id proposal)])
                    (db2\<lparr>db_policies := policies\<rparr>)))))"

definition finalizeApprovalFlow ::
    "'l approval_env \<Rightarrow> app_actor \<Rightarrow> loaded_flow \<Rightarrow> final_status \<Rightarrow> approval_outcome \<Rightarrow> nat
     \<Rightarrow> string option \<Rightarrow> string \<Rightarrow> 'l approval_db \<Rightarrow> 'l approval_db result" where
  "finalizeApprovalFlow env actor lf status outcome approvers actorUserId finalizedBy db =
     (let f = lf_flow lf
      in and_then (writeFlowOutcome env actor f
                     (\<lambda>x. set_outcome outcome
                            (x\<lparr>fl_status := final_flow_status status, fl_closedAt := Some (av_now env)\<rparr>)) db) (\<lambda>db1.
         and_then (applySubjectOutcome env actor f status outcome approvers (length (lf_objections lf)) db1) (\<lambda>db2.
         Inr (appendEvents
           [flow_event (fl_workspace f) ''approval.finalized'' (fl_id f)
              (JObj [(''flowId'', JStr (fl_id f)), (''nextStatus'', JStr (final_text status)),
                     (''finalizedBy'', JStr finalizedBy)]),
            \<lparr>oe_workspace = fl_workspace f,
             oe_type = js_lower (fl_subjectType f) @ ''.'' @ js_lower (final_text status),
             oe_aggregateType = fl_subjectType f, oe_aggregateId = fl_subjectId f,
             oe_payload = JObj [(''subjectId'', JStr (fl_subjectId f)), (''flowId'', JStr (fl_id f)),
                                (''outcome'', JStr (final_text status))]\<rparr>]
           (audit (fl_workspace f) actorUserId ''approval.finalized'' (fl_id f)
              (JObj [(''nextStatus'', JStr (final_text status)),
                     (''subjectType'', JStr (fl_subjectType f)), (''subjectId'', JStr (fl_subjectId f)),
                     (''finalizedBy'', JStr finalizedBy)]) db2)))))"

section \<open>Opening and withdrawing a flow\<close>

record approval_policy =
  ap_id :: string
  ap_workspace :: string
  ap_subjectType :: string
  ap_mode :: approval_mode
  ap_quorumPercent :: int
  ap_minApproverCount :: int
  ap_decisionWindowHours :: int

definition getApprovalPolicy :: "approval_policy list \<Rightarrow> string \<Rightarrow> string \<Rightarrow> approval_policy result" where
  "getApprovalPolicy policies w subjectType =
     (case find (\<lambda>p. ap_workspace p = w \<and> ap_subjectType p = subjectType) policies of
        Some p \<Rightarrow> Inr p
      | None \<Rightarrow> Inl (AppError 404 ''NOT_FOUND'' (''Missing approval policy for '' @ subjectType @ ''.'')))"

definition ensureApprovalFlow ::
    "'l approval_env \<Rightarrow> app_actor option \<Rightarrow> string \<Rightarrow> string \<Rightarrow> string \<Rightarrow> approval_policy \<Rightarrow> string option
     \<Rightarrow> 'l approval_db \<Rightarrow> (approval_flow \<times> 'l approval_db) result" where
  "ensureApprovalFlow env actor w subjectType subjectId policy createdBy db =
     (case find (\<lambda>f. fl_subjectType f = subjectType \<and> fl_subjectId f = subjectId) (db_flows db) of
        Some existing \<Rightarrow> Inr (existing, db)
      | None \<Rightarrow>
          let flow = \<lparr>fl_id = av_new_id env ''ApprovalFlow'', fl_workspace = w, fl_subjectType = subjectType,
                      fl_subjectId = subjectId, fl_mode = ap_mode policy, fl_status = FS_DRAFT,
                      fl_quorumPercent = ap_quorumPercent policy,
                      fl_minApproverCount = ap_minApproverCount policy, fl_openedAt = None, fl_closesAt = None,
                      fl_closedAt = None, fl_result = None, fl_createdBy = createdBy\<rparr>;
              db1 = db\<lparr>db_flows := db_flows db @ [flow]\<rparr>
          in and_then
               (case actor of
                  Some a \<Rightarrow>
                    if subjectType \<in> set [''PROPOSAL'', ''ACTION'', ''TENSION''] then
                      and_then (approvalSubjectRoots env a flow db1)
                        (lineage env (Some a) w
                           (L_record (''ApprovalFlow'', fl_id flow) [(''ApprovalPolicy'', ap_id policy)]))
                    else lineage env None w (L_invalidate (''ApprovalFlow'', fl_id flow)) db1
                | None \<Rightarrow> lineage env None w (L_invalidate (''ApprovalFlow'', fl_id flow)) db1)
               (\<lambda>db2. Inr (flow, db2)))"

text \<open>
  \<^verbatim>\<open>activateProposalApprovalFlow\<close> of \<^verbatim>\<open>proposals.ts\<close>, by which an opened proposal's flow becomes
  active.
\<close>

definition activate_row :: "approval_policy \<Rightarrow> int \<Rightarrow> approval_flow \<Rightarrow> approval_flow" where
  "activate_row policy openedAt f =
     f\<lparr>fl_status := FS_ACTIVE, fl_openedAt := Some openedAt,
       fl_closesAt := (if ap_mode policy = CONSENT
                       then Some (openedAt + ap_decisionWindowHours policy * 60 * 60 * 1000) else None)\<rparr>"

definition activateProposalApprovalFlow ::
    "'l approval_env \<Rightarrow> app_actor \<Rightarrow> string \<Rightarrow> string \<Rightarrow> approval_policy \<Rightarrow> int \<Rightarrow> 'l approval_db
     \<Rightarrow> (approval_flow \<times> 'l approval_db) result" where
  "activateProposalApprovalFlow env actor w proposalId policy openedAt db =
     and_then (ensureApprovalFlow env (Some actor) w ''PROPOSAL'' proposalId policy (actor_user actor) db)
       (\<lambda>(flow, db1).
     and_then (lineage env (Some actor) w (L_advance_human (''ApprovalFlow'', fl_id flow))
                 (update_flow (fl_id flow) (activate_row policy openedAt) db1))
       (\<lambda>db2. Inr (flow, db2)))"

definition withdrawActiveApprovalFlowForSubject ::
    "'l approval_env \<Rightarrow> string \<Rightarrow> string \<Rightarrow> string \<Rightarrow> string \<Rightarrow> string option \<Rightarrow> int option
     \<Rightarrow> 'l approval_db \<Rightarrow> (string option \<times> 'l approval_db) result" where
  "withdrawActiveApprovalFlowForSubject env w subjectType subjectId cleanupReason actorUserId now db =
     (case find (\<lambda>f. fl_workspace f = w \<and> fl_subjectType f = subjectType \<and> fl_subjectId f = subjectId
                     \<and> fl_status f = FS_ACTIVE) (db_flows db) of
        None \<Rightarrow> Inr (None, db)
      | Some flow \<Rightarrow>
          let closedAt = (case now of Some t \<Rightarrow> t | None \<Rightarrow> av_now env)
          in and_then (lineage env None w (L_preserve_unknown (''ApprovalFlow'', fl_id flow)) db) (\<lambda>db1.
             and_then (to_iso_string closedAt) (\<lambda>withdrawnAt.
             let db2 = db1\<lparr>db_flows := map (\<lambda>f. if fl_id f = fl_id flow \<and> fl_status f = FS_ACTIVE
                     then f\<lparr>fl_status := FS_WITHDRAWN, fl_closedAt := Some closedAt,
                            fl_result := Some (Result_withdrawn cleanupReason subjectType subjectId withdrawnAt)\<rparr>
                     else f) (db_flows db1)\<rparr>
             in and_then (lineage env None w (L_invalidate (''ApprovalFlow'', fl_id flow)) db2) (\<lambda>db3.
                Inr (Some (fl_id flow),
                     audit w actorUserId ''approval.withdrawn'' (fl_id flow)
                       (JObj [(''cleanupReason'', JStr cleanupReason), (''subjectType'', JStr subjectType),
                              (''subjectId'', JStr subjectId)]) db3)))))"

section \<open>Recording a decision\<close>

definition trimmed_or_none :: "string option \<Rightarrow> string option" where
  "trimmed_or_none v = (case v of None \<Rightarrow> None | Some s \<Rightarrow> if js_trim s = [] then None else Some (js_trim s))"

definition upsert_decision ::
    "string \<Rightarrow> string \<Rightarrow> string \<Rightarrow> approval_choice \<Rightarrow> string option \<Rightarrow> approval_decision list
     \<Rightarrow> string \<times> approval_decision list" where
  "upsert_decision new_id flowId memberId choice rationale ds =
     (case find (\<lambda>d. ad_flow d = flowId \<and> ad_member d = memberId) ds of
        Some existing \<Rightarrow>
          (ad_id existing,
           map (\<lambda>d. if ad_flow d = flowId \<and> ad_member d = memberId
                    then d\<lparr>ad_choice := choice, ad_rationale := rationale\<rparr> else d) ds)
      | None \<Rightarrow>
          (new_id, ds @ [\<lparr>ad_id = new_id, ad_flow = flowId, ad_member = memberId, ad_choice = choice,
                          ad_rationale = rationale\<rparr>]))"

fun choice_text :: "approval_choice \<Rightarrow> string" where
  "choice_text APPROVE = ''APPROVE''"
| "choice_text REJECT = ''REJECT''"
| "choice_text ABSTAIN = ''ABSTAIN''"
| "choice_text AGREE = ''AGREE''"
| "choice_text BLOCK = ''BLOCK''"

fun status_text :: "flow_status \<Rightarrow> string" where
  "status_text FS_DRAFT = ''DRAFT''"
| "status_text FS_ACTIVE = ''ACTIVE''"
| "status_text FS_APPROVED = ''APPROVED''"
| "status_text FS_REJECTED = ''REJECTED''"
| "status_text FS_WITHDRAWN = ''WITHDRAWN''"
| "status_text FS_EXPIRED = ''EXPIRED''"

text \<open>The status a decision leads to: \<open>None\<close> keeps the flow open.\<close>

definition decision_verdict :: "loaded_flow \<Rightarrow> approval_outcome \<Rightarrow> nat \<Rightarrow> final_status option" where
  "decision_verdict f outcome approvers =
     (let mode = fl_mode (lf_flow f); choices = map ad_choice (lf_decisions f)
      in if fl_subjectType (lf_flow f) = ''PROPOSAL'' then None
         else if mode = CONSENT then None
         else if ao_approved outcome then Some Final_approved
         else if mode = SINGLE \<and> (REJECT \<in> set choices \<or> BLOCK \<in> set choices)
                 \<or> mode \<noteq> SINGLE
                   \<and> int (length choices) \<ge> max (fl_minApproverCount (lf_flow f)) (int approvers)
         then Some Final_rejected
         else None)"

definition settle_decision ::
    "'l approval_env \<Rightarrow> app_actor \<Rightarrow> loaded_flow \<Rightarrow> approval_outcome \<Rightarrow> nat \<Rightarrow> string
     \<Rightarrow> 'l approval_db \<Rightarrow> (flow_status \<times> 'l approval_db) result" where
  "settle_decision env actor f outcome approvers actorUserId db =
     (case decision_verdict f outcome approvers of
        None \<Rightarrow> and_then (writeFlowOutcome env actor (lf_flow f) (set_outcome outcome) db)
                  (\<lambda>db'. Inr (fl_status (lf_flow f), db'))
      | Some v \<Rightarrow> and_then (finalizeApprovalFlow env actor f v outcome approvers (Some actorUserId)
                              ''decision'' db)
                    (\<lambda>db'. Inr (final_flow_status v, db')))"

text \<open>The checks before the first write, in the order of the code.\<close>

definition decision_checks ::
    "'l approval_env \<Rightarrow> app_actor \<Rightarrow> membership \<Rightarrow> string \<Rightarrow> loaded_flow \<Rightarrow> approval_choice
     \<Rightarrow> 'l approval_db \<Rightarrow> (string list \<times> 'l approval_db) result" where
  "decision_checks env actor mb w current choice db =
     (let flow = lf_flow current
      in and_then (invariant (fl_status flow = FS_ACTIVE) 400 ''INVALID_STATE'' ''Approval flow is not active.'') (\<lambda>_.
         and_then (invariant (approvalInputsReadable env actor w current db) 409 ''UNKNOWN_LINEAGE''
                     ''Approval inputs cannot be verified.'') (\<lambda>_.
         and_then (approvalSubjectRoots env actor flow db) (\<lambda>db1.
         and_then (assertProposalAuthorCanReview flow (mb_user mb) db1) (\<lambda>_.
         and_then (assertConsentWindowOpen (av_now env) (fl_mode flow) (fl_subjectType flow) (fl_closesAt flow)) (\<lambda>_.
         and_then (validateDecisionChoice (fl_mode flow) choice) (\<lambda>_.
         let approverIds = eligibleApproverIds env w (proposalAuthorUserIdForFlow flow db1) db1
         in and_then (invariant (mb_id mb \<in> set approverIds) 403 ''FORBIDDEN''
                        ''Only active reviewers can submit a decision.'') (\<lambda>_.
            and_then (case find (\<lambda>d. ad_member d = mb_id mb) (lf_decisions current) of
                        None \<Rightarrow> Inr db1
                      | Some d \<Rightarrow> lineage env (Some actor) w (L_snapshot_proof (''ApprovalDecision'', ad_id d)) db1) (\<lambda>db2.
            Inr (approverIds, db2))))))))))"

text \<open>The writes of a decision: the row, the outcome of the flow, the audit row and the event.\<close>

definition log_decision ::
    "string \<Rightarrow> string \<Rightarrow> approval_flow \<Rightarrow> approval_choice \<Rightarrow> flow_status \<Rightarrow> 'l approval_db \<Rightarrow> 'l approval_db" where
  "log_decision w user flow choice next db =
     appendEvents [flow_event w ''approval.decision_recorded'' (fl_id flow)
         (JObj [(''flowId'', JStr (fl_id flow)), (''choice'', JStr (choice_text choice)),
                (''nextStatus'', JStr (status_text next))])]
       (audit w (Some user) ''approval.decision_recorded'' (fl_id flow)
          (JObj [(''choice'', JStr (choice_text choice)), (''nextStatus'', JStr (status_text next)),
                 (''subjectType'', JStr (fl_subjectType flow)),
                 (''subjectId'', JStr (fl_subjectId flow))]) db)"

definition store_decision ::
    "'l approval_env \<Rightarrow> app_actor \<Rightarrow> membership \<Rightarrow> string \<Rightarrow> string \<Rightarrow> approval_choice \<Rightarrow> string option
     \<Rightarrow> string list \<Rightarrow> 'l approval_db \<Rightarrow> (flow_status \<times> approval_outcome \<times> 'l approval_db) result" where
  "store_decision env actor mb w flowId choice rationale approverIds db =
     (let (decisionId, ds) = upsert_decision (av_new_id env ''ApprovalDecision'') flowId (mb_id mb) choice
                               (trimmed_or_none rationale) (db_decisions db)
      in and_then (lineage env (Some actor) w (L_record (''ApprovalDecision'', decisionId) [])
                     (db\<lparr>db_decisions := ds\<rparr>)) (\<lambda>db1.
         and_then (require_flow flowId db1) (\<lambda>flow.
         let outcome = flow_outcome flow (eligibleFlowDecisions flow approverIds) approverIds
         in and_then (outcomeInputRoots env actor flow approverIds db1) (\<lambda>db2.
            and_then (settle_decision env actor flow outcome (length approverIds) (mb_user mb) db2) (\<lambda>(next, db3).
            Inr (next, outcome, log_decision w (mb_user mb) (lf_flow flow) choice next db3))))))"

definition recordApprovalDecision ::
    "'l approval_env \<Rightarrow> app_actor \<Rightarrow> string \<Rightarrow> string \<Rightarrow> approval_choice \<Rightarrow> string option
     \<Rightarrow> 'l approval_db \<Rightarrow> (flow_status \<times> approval_outcome \<times> 'l approval_db) result" where
  "recordApprovalDecision env actor w flowId choice rationale db =
     and_then (av_membership env actor w) (\<lambda>m.
     case m of
       None \<Rightarrow> Inl (AppError 403 ''FORBIDDEN'' ''Agents cannot submit approval decisions.'')
     | Some mb \<Rightarrow>
         and_then (require_flow_in w flowId db) (\<lambda>current.
         and_then (decision_checks env actor mb w current choice db) (\<lambda>(approverIds, db1).
         store_decision env actor mb w flowId choice rationale approverIds db1)))"

section \<open>Objections\<close>

text \<open>The outcome written after an objection was raised or resolved.\<close>

definition rewrite_outcome ::
    "'l approval_env \<Rightarrow> app_actor \<Rightarrow> loaded_flow \<Rightarrow> string list \<Rightarrow> artifact list \<Rightarrow> 'l approval_db
     \<Rightarrow> (approval_outcome \<times> 'l approval_db) result" where
  "rewrite_outcome env actor f approverIds extra db =
     (let outcome = flow_outcome f (eligibleFlowDecisions f approverIds) approverIds
      in and_then (outcomeInputRoots env actor f approverIds db) (\<lambda>db1.
         and_then (if extra = [] then Inr db1
                   else lineage env (Some actor) (fl_workspace (lf_flow f)) (L_capture_proof extra) db1) (\<lambda>db2.
         and_then (writeFlowOutcome env actor (lf_flow f) (set_outcome outcome) db2) (\<lambda>db3.
         Inr (outcome, db3)))))"

definition log_objection :: "string \<Rightarrow> string \<Rightarrow> string \<Rightarrow> string \<Rightarrow> string \<Rightarrow> 'l approval_db \<Rightarrow> 'l approval_db" where
  "log_objection w user action flowId objectionId db =
     appendEvents [flow_event w action flowId
         (JObj [(''flowId'', JStr flowId), (''objectionId'', JStr objectionId)])]
       (audit w (Some user) action flowId (JObj [(''objectionId'', JStr objectionId)]) db)"

text \<open>The checks both operations make on their flow.\<close>

definition consent_flow_checks ::
    "'l approval_env \<Rightarrow> app_actor \<Rightarrow> string \<Rightarrow> loaded_flow \<Rightarrow> 'l approval_db \<Rightarrow> unit result" where
  "consent_flow_checks env actor w f db =
     and_then (invariant (approvalInputsReadable env actor w f db) 409 ''UNKNOWN_LINEAGE''
                 ''Approval inputs cannot be verified.'') (\<lambda>_.
     and_then (invariant (fl_status (lf_flow f) = FS_ACTIVE) 400 ''INVALID_STATE'' ''Approval flow is not active.'') (\<lambda>_.
     invariant (fl_mode (lf_flow f) = CONSENT) 400 ''INVALID_STATE''
       ''Objections are only supported on consent flows.''))"

definition objection_checks ::
    "'l approval_env \<Rightarrow> membership \<Rightarrow> string \<Rightarrow> loaded_flow \<Rightarrow> 'l approval_db \<Rightarrow> string list result" where
  "objection_checks env mb w f db =
     (let flow = lf_flow f
      in and_then (assertProposalAuthorCanReview flow (mb_user mb) db) (\<lambda>_.
         and_then (assertConsentWindowOpen (av_now env) (fl_mode flow) (fl_subjectType flow) (fl_closesAt flow)) (\<lambda>_.
         let approverIds = eligibleApproverIds env w (proposalAuthorUserIdForFlow flow db) db
         in and_then (invariant (mb_id mb \<in> set approverIds) 403 ''FORBIDDEN''
                        ''Only active reviewers can object.'') (\<lambda>_.
            and_then (invariant (mb_user mb \<notin> set (map oj_user (lf_objections f))) 409 ''ALREADY_EXISTS''
                        ''You already have an open objection on this flow.'') (\<lambda>_.
            Inr approverIds)))))"

definition createObjection ::
    "'l approval_env \<Rightarrow> app_actor \<Rightarrow> string \<Rightarrow> string \<Rightarrow> string \<Rightarrow> 'l approval_db
     \<Rightarrow> (objection_row \<times> approval_outcome \<times> 'l approval_db) result" where
  "createObjection env actor w flowId body db =
     and_then (av_membership env actor w) (\<lambda>m.
     case m of
       None \<Rightarrow> Inl (AppError 403 ''FORBIDDEN'' ''Agents cannot object to approvals.'')
     | Some mb \<Rightarrow>
         and_then (invariant (js_trim body \<noteq> []) 400 ''INVALID_INPUT'' ''Objection body is required.'') (\<lambda>_.
         and_then (require_flow_in w flowId db) (\<lambda>flow.
         and_then (consent_flow_checks env actor w flow db) (\<lambda>_.
         and_then (objection_checks env mb w flow db) (\<lambda>approverIds.
         and_then (approvalSubjectRoots env actor (lf_flow flow) db) (\<lambda>db1.
         let objection = \<lparr>oj_id = av_new_id env ''Objection'', oj_flow = flowId,
                          oj_user = mb_user mb, oj_body = js_trim body, oj_resolvedAt = None\<rparr>
         in and_then (lineage env (Some actor) w (L_record (''Objection'', oj_id objection) [])
                        (db1\<lparr>db_objections := db_objections db1 @ [objection]\<rparr>)) (\<lambda>db2.
            and_then (require_flow flowId db2) (\<lambda>refreshed.
            and_then (rewrite_outcome env actor refreshed approverIds [] db2) (\<lambda>(outcome, db3).
            Inr (objection, outcome,
                 log_objection w (mb_user mb) ''approval.objection_created'' flowId (oj_id objection) db3))))))))))"

definition resolve_checks ::
    "'l approval_env \<Rightarrow> membership \<Rightarrow> loaded_flow \<Rightarrow> string \<Rightarrow> 'l approval_db \<Rightarrow> unit result" where
  "resolve_checks env mb f objectionId db =
     (let flow = lf_flow f
      in and_then (assertConsentWindowOpen (av_now env) (fl_mode flow) (fl_subjectType flow) (fl_closesAt flow)) (\<lambda>_.
         case find (\<lambda>ob. oj_id ob = objectionId) (db_objections db) of
           None \<Rightarrow> Inl (AppError 404 ''NOT_FOUND'' ''Objection not found.'')
         | Some objection \<Rightarrow>
             and_then (invariant (oj_flow objection = fl_id flow) 404 ''NOT_FOUND'' ''Objection not found.'') (\<lambda>_.
             and_then (invariant (oj_resolvedAt objection = None) 400 ''INVALID_STATE''
                         ''Objection has already been resolved.'') (\<lambda>_.
             invariant (oj_user objection = mb_user mb \<or> mb_role mb = FACILITATOR \<or> mb_role mb = ADMIN)
               403 ''FORBIDDEN'' ''You cannot resolve this objection.''))))"

definition resolveObjection ::
    "'l approval_env \<Rightarrow> app_actor \<Rightarrow> string \<Rightarrow> string \<Rightarrow> string \<Rightarrow> 'l approval_db
     \<Rightarrow> (approval_outcome \<times> 'l approval_db) result" where
  "resolveObjection env actor w flowId objectionId db =
     and_then (av_membership env actor w) (\<lambda>m.
     case m of
       None \<Rightarrow> Inl (AppError 403 ''FORBIDDEN'' ''Agents cannot resolve objections.'')
     | Some mb \<Rightarrow>
         and_then (require_flow_in w flowId db) (\<lambda>flow.
         and_then (consent_flow_checks env actor w flow db) (\<lambda>_.
         and_then (resolve_checks env mb flow objectionId db) (\<lambda>_.
         and_then (lineage env (Some actor) w (L_snapshot_proof (''Objection'', objectionId)) db) (\<lambda>db1.
         and_then (lineage env (Some actor) w (L_advance_human (''Objection'', objectionId))
           (db1\<lparr>db_objections := map (\<lambda>ob. if oj_id ob = objectionId
                 then ob\<lparr>oj_resolvedAt := Some (av_now env)\<rparr> else ob) (db_objections db1)\<rparr>)) (\<lambda>db2.
         and_then (require_flow flowId db2) (\<lambda>refreshed.
         let approverIds = eligibleApproverIds env w
                             (proposalAuthorUserIdForFlow (lf_flow refreshed) db2) db2
         in and_then (rewrite_outcome env actor refreshed approverIds [(''Objection'', objectionId)] db2)
              (\<lambda>(outcome, db3).
            Inr (outcome,
                 log_objection w (mb_user mb) ''approval.objection_resolved'' flowId objectionId db3)))))))))"

section \<open>Expiry\<close>

definition expired_flow :: "db_clock \<Rightarrow> flag_table \<Rightarrow> approval_flow \<Rightarrow> bool" where
  "expired_flow c flags f \<longleftrightarrow>
     fl_status f = FS_ACTIVE \<and> fl_mode f = CONSENT \<and> fl_subjectType f \<noteq> ''PROPOSAL''
     \<and> (case fl_closesAt f of None \<Rightarrow> False | Some t \<Rightarrow> t \<le> clk_now c + clk_tz c)
     \<and> \<not> import_inactive flags (Some (fl_workspace f))"

definition closes_key :: "approval_flow \<Rightarrow> int" where
  "closes_key f = (case fl_closesAt f of None \<Rightarrow> 0 | Some t \<Rightarrow> t)"

definition expiry_batch ::
    "db_clock \<Rightarrow> flag_table \<Rightarrow> string list \<Rightarrow> nat \<Rightarrow> approval_flow list \<Rightarrow> string list" where
  "expiry_batch c flags locked n fs =
     map fl_id (take n (sort_key closes_key
       (filter (\<lambda>f. expired_flow c flags f \<and> fl_id f \<notin> set locked) fs)))"

definition resolution_actor :: "string \<Rightarrow> app_actor" where
  "resolution_actor w =
     AgentActor \<lparr>ag_provider = Auth_bootstrap, ag_label = ''approval-resolution'',
                 ag_workspaces = Some [w], ag_scopes = None\<rparr>"

definition expire_one ::
    "'l approval_env \<Rightarrow> string \<Rightarrow> nat \<times> 'l approval_db \<Rightarrow> (nat \<times> 'l approval_db) result" where
  "expire_one env i st =
     (let (finalized, db) = st
      in case loadFlow i db of
           None \<Rightarrow> Inr st
         | Some f \<Rightarrow>
             let flow = lf_flow f; actor = resolution_actor (fl_workspace flow)
             in if fl_status flow \<noteq> FS_ACTIVE \<or> fl_mode flow \<noteq> CONSENT \<or> fl_subjectType flow = ''PROPOSAL'' then Inr st
                else if \<not> approvalInputsReadable env actor (fl_workspace flow) f db then Inr st
                else
                  let approverIds = eligibleApproverIds env (fl_workspace flow) None db;
                      outcome = flow_outcome f (lf_decisions f) approverIds
                  in and_then (outcomeInputRoots env actor f approverIds db) (\<lambda>db1.
                     and_then (finalizeApprovalFlow env actor f
                                 (if ao_approved outcome then Final_approved else Final_rejected)
                                 outcome (length approverIds) None ''expiry'' db1) (\<lambda>db2.
                     Inr (finalized + 1, db2))))"

definition finalizeExpiredApprovalFlows ::
    "'l approval_env \<Rightarrow> db_clock \<Rightarrow> flag_table \<Rightarrow> string list \<Rightarrow> nat \<Rightarrow> 'l approval_db
     \<Rightarrow> (nat \<times> 'l approval_db) result" where
  "finalizeExpiredApprovalFlows env c flags locked batchSize db =
     fold_result (expire_one env) (expiry_batch c flags locked batchSize (db_flows db)) (0, db)"

end
