(* ===== verification/Approval_Facts.thy ===== *)
theory Approval_Facts
  imports Approvals
begin

text \<open>
  The correctness of the approval flows: the abstract machine \<open>decision_step\<close> of the flow tables,
  and what each operation of \<^verbatim>\<open>approvals.ts\<close> changes, as runs of that machine.
\<close>

section \<open>What the lineage calls leave alone\<close>

lemma lineage_iff [result_simps]:
  "lineage env actor w op db = Inr db' \<longleftrightarrow>
   (\<exists>l. av_lineage env actor w op (db_lineage db) = Inr l \<and> db' = db\<lparr>db_lineage := l\<rparr>)"
  by (auto simp: lineage_def result_simps)

lemma lineage_irrelevant [simp]:
  "find_flow i (db\<lparr>db_lineage := l\<rparr>) = find_flow i db"
  "flow_decisions i (db\<lparr>db_lineage := l\<rparr>) = flow_decisions i db"
  "open_objections i (db\<lparr>db_lineage := l\<rparr>) = open_objections i db"
  "loadFlow i (db\<lparr>db_lineage := l\<rparr>) = loadFlow i db"
  "workspace_members env w (db\<lparr>db_lineage := l\<rparr>) = workspace_members env w db"
  "eligibleApproverIds env w x (db\<lparr>db_lineage := l\<rparr>) = eligibleApproverIds env w x db"
  "proposalAuthorUserIdForFlow f (db\<lparr>db_lineage := l\<rparr>) = proposalAuthorUserIdForFlow f db"
  "require_flow i (db\<lparr>db_lineage := l\<rparr>) = require_flow i db"
  by (simp_all add: find_flow_def flow_decisions_def open_objections_def loadFlow_def
      workspace_members_def eligibleApproverIds_def proposalAuthorUserIdForFlow_def require_flow_def)

lemma require_flow_iff [result_simps]:
  "require_flow i db = Inr f \<longleftrightarrow> loadFlow i db = Some f"
  by (simp add: require_flow_def split: option.split)

lemma require_flow_in_iff [result_simps]:
  "require_flow_in w i db = Inr f \<longleftrightarrow> loadFlow i db = Some f \<and> fl_workspace (lf_flow f) = w"
  by (auto simp: require_flow_in_def result_simps)

lemma loadFlow_iff:
  "loadFlow i db = Some f \<longleftrightarrow>
   (\<exists>flow. find_flow i db = Some flow
         \<and> f = \<lparr>lf_flow = flow, lf_decisions = flow_decisions i db, lf_objections = open_objections i db\<rparr>)"
  by (auto simp: loadFlow_def)

lemma find_flow_Some: "find_flow i db = Some f \<Longrightarrow> f \<in> set (db_flows db) \<and> fl_id f = i"
  by (auto simp: find_flow_def find_Some_iff)

lemma outcomeInputRoots_Inr:
  "outcomeInputRoots env actor f ids db = Inr db' \<Longrightarrow> \<exists>l. db' = db\<lparr>db_lineage := l\<rparr>"
  by (auto simp: outcomeInputRoots_def Let_def result_simps split: if_splits)

lemma approvalSubjectRoots_Inr:
  "approvalSubjectRoots env actor f db = Inr db' \<Longrightarrow>
   subject_kind (fl_subjectType f) \<noteq> None \<and> (\<exists>l. db' = db\<lparr>db_lineage := l\<rparr>)"
  by (auto simp: approvalSubjectRoots_def result_simps split: option.splits)

lemma writeFlowOutcome_Inr:
  "writeFlowOutcome env actor f g db = Inr db' \<Longrightarrow>
   \<exists>l. db' = update_flow (fl_id f) g db\<lparr>db_lineage := l\<rparr>"
  by (auto simp: writeFlowOutcome_def result_simps)

section \<open>Effects\<close>

text \<open>The tables of an operation's result, apart from the lineage, audit and event tables.\<close>

definition tables :: "'l approval_db \<Rightarrow> approval_flow list \<times> approval_decision list \<times> objection_row list
    \<times> member_row list \<times> proposal_row list \<times> policy_row list" where
  "tables db = (db_flows db, db_decisions db, db_objections db, db_members db, db_proposals db, db_policies db)"

definition finalize_row :: "final_status \<Rightarrow> approval_outcome \<Rightarrow> int \<Rightarrow> approval_flow \<Rightarrow> approval_flow" where
  "finalize_row v outcome now f =
     set_outcome outcome (f\<lparr>fl_status := final_flow_status v, fl_closedAt := Some now\<rparr>)"

abbreviation map_flow :: "string \<Rightarrow> (approval_flow \<Rightarrow> approval_flow) \<Rightarrow> approval_flow list \<Rightarrow> approval_flow list" where
  "map_flow i g fs \<equiv> map (\<lambda>f. if fl_id f = i then g f else f) fs"

lemma finalize_tables:
  assumes "finalizeApprovalFlow env actor lf v outcome n u by db = Inr db'"
    and "fl_subjectType (lf_flow lf) \<noteq> ''PROPOSAL''"
  shows "tables db' = tables (update_flow (fl_id (lf_flow lf)) (finalize_row v outcome (av_now env)) db)"
  using assms
  by (auto simp: finalizeApprovalFlow_def Let_def result_simps applySubjectOutcome_def tables_def
      appendEvents_def audit_def update_flow_def finalize_row_def dest!: writeFlowOutcome_Inr)

lemma verdict_not_proposal:
  "decision_verdict f outcome n = Some v \<Longrightarrow>
   fl_subjectType (lf_flow f) \<noteq> ''PROPOSAL'' \<and> fl_mode (lf_flow f) \<noteq> CONSENT
   \<and> (v = Final_approved \<longleftrightarrow> ao_approved outcome)"
  by (auto simp: decision_verdict_def Let_def split: if_splits)

definition verdict_row :: "final_status option \<Rightarrow> approval_outcome \<Rightarrow> int \<Rightarrow> approval_flow \<Rightarrow> approval_flow" where
  "verdict_row v outcome now =
     (case v of None \<Rightarrow> set_outcome outcome | Some w \<Rightarrow> finalize_row w outcome now)"

lemma settle_decision_tables:
  assumes "settle_decision env actor f outcome n u db = Inr (next, db')"
  shows "tables db' = tables (update_flow (fl_id (lf_flow f))
           (verdict_row (decision_verdict f outcome n) outcome (av_now env)) db)
     \<and> next = (case decision_verdict f outcome n of None \<Rightarrow> fl_status (lf_flow f)
                                                 | Some v \<Rightarrow> final_flow_status v)"
proof (cases "decision_verdict f outcome n")
  case None
  with assms show ?thesis
    by (auto simp: settle_decision_def result_simps verdict_row_def tables_def update_flow_def
        dest!: writeFlowOutcome_Inr)
next
  case (Some v)
  with assms finalize_tables [of env actor f v outcome n "Some u" "''decision''" db]
    verdict_not_proposal [OF Some] show ?thesis
    by (auto simp: settle_decision_def result_simps verdict_row_def)
qed

lemma decision_checks_Inr:
  assumes "decision_checks env actor mb w current choice db = Inr (ids, db')"
  shows "fl_status (lf_flow current) = FS_ACTIVE
    \<and> approvalInputsReadable env actor w current db
    \<and> subject_kind (fl_subjectType (lf_flow current)) \<noteq> None
    \<and> assertProposalAuthorCanReview (lf_flow current) (mb_user mb) db = Inr ()
    \<and> assertConsentWindowOpen (av_now env) (fl_mode (lf_flow current))
        (fl_subjectType (lf_flow current)) (fl_closesAt (lf_flow current)) = Inr ()
    \<and> validateDecisionChoice (fl_mode (lf_flow current)) choice = Inr ()
    \<and> ids = eligibleApproverIds env w (proposalAuthorUserIdForFlow (lf_flow current) db) db
    \<and> mb_id mb \<in> set ids \<and> (\<exists>l. db' = db\<lparr>db_lineage := l\<rparr>)"
proof -
  from assms obtain db1 where a: "approvalSubjectRoots env actor (lf_flow current) db = Inr db1"
    by (auto simp: decision_checks_def Let_def result_simps split: if_splits)
  then obtain l1 where l1: "db1 = db\<lparr>db_lineage := l1\<rparr>"
    and kind: "subject_kind (fl_subjectType (lf_flow current)) \<noteq> None"
    using approvalSubjectRoots_Inr by blast
  show ?thesis
    using assms a kind unfolding l1
    by (auto simp: decision_checks_def Let_def result_simps assertProposalAuthorCanReview_def
        split: if_splits option.splits)
qed

text \<open>The flow an accepted decision has been added to.\<close>

definition stored_decisions ::
    "'l approval_env \<Rightarrow> string \<Rightarrow> string \<Rightarrow> approval_choice \<Rightarrow> string option \<Rightarrow> 'l approval_db
     \<Rightarrow> approval_decision list" where
  "stored_decisions env flowId memberId choice rationale db =
     snd (upsert_decision (av_new_id env ''ApprovalDecision'') flowId memberId choice
            (trimmed_or_none rationale) (db_decisions db))"

definition decided_flow ::
    "'l approval_env \<Rightarrow> approval_flow \<Rightarrow> string \<Rightarrow> approval_choice \<Rightarrow> string option \<Rightarrow> 'l approval_db \<Rightarrow> loaded_flow" where
  "decided_flow env flow memberId choice rationale db =
     \<lparr>lf_flow = flow,
      lf_decisions = filter (\<lambda>d. ad_flow d = fl_id flow)
        (stored_decisions env (fl_id flow) memberId choice rationale db),
      lf_objections = open_objections (fl_id flow) db\<rparr>"

lemma decided_flow_flow [simp]: "lf_flow (decided_flow env flow m choice r db) = flow"
  by (simp add: decided_flow_def)

text \<open>What a decision does to the tables, given the approvers it counts.\<close>

definition decision_effect ::
    "'l approval_env \<Rightarrow> approval_flow \<Rightarrow> string \<Rightarrow> approval_choice \<Rightarrow> string option \<Rightarrow> string list
     \<Rightarrow> flow_status \<Rightarrow> approval_outcome \<Rightarrow> 'l approval_db \<Rightarrow> 'l approval_db \<Rightarrow> bool" where
  "decision_effect env flow memberId choice rationale ids next outcome db db' \<longleftrightarrow>
     (let f = decided_flow env flow memberId choice rationale db;
          v = decision_verdict f outcome (length ids)
      in outcome = flow_outcome f (eligibleFlowDecisions f ids) ids
         \<and> next = (case v of None \<Rightarrow> fl_status flow | Some s \<Rightarrow> final_flow_status s)
         \<and> tables db' =
             (map_flow (fl_id flow) (verdict_row v outcome (av_now env)) (db_flows db),
              stored_decisions env (fl_id flow) memberId choice rationale db, db_objections db,
              db_members db, db_proposals db, db_policies db))"

lemma store_decision_effect:
  assumes "store_decision env actor mb w flowId choice rationale ids db = Inr (next, outcome, db')"
    and "find_flow flowId db = Some flow"
  shows "decision_effect env flow (mb_id mb) choice rationale ids next outcome db db'"
proof -
  let ?ds = "stored_decisions env flowId (mb_id mb) choice rationale db"
  let ?f = "decided_flow env flow (mb_id mb) choice rationale db"
  have i: "fl_id flow = flowId" using find_flow_Some [OF assms(2)] by simp
  have load: "loadFlow flowId (db\<lparr>db_decisions := ?ds\<rparr>) = Some ?f"
    using assms(2) i
    by (simp add: loadFlow_def find_flow_def flow_decisions_def open_objections_def decided_flow_def)
  obtain did where up: "upsert_decision (av_new_id env ''ApprovalDecision'') flowId (mb_id mb) choice
      (trimmed_or_none rationale) (db_decisions db) = (did, ?ds)"
    by (metis prod.collapse stored_decisions_def)
  from assms(1) obtain l1 db2 db3 where
    o: "outcome = flow_outcome ?f (eligibleFlowDecisions ?f ids) ids"
    and 2: "outcomeInputRoots env actor ?f ids (db\<lparr>db_decisions := ?ds, db_lineage := l1\<rparr>) = Inr db2"
    and 3: "settle_decision env actor ?f outcome (length ids) (mb_user mb) db2 = Inr (next, db3)"
    and db': "db' = log_decision w (mb_user mb) (lf_flow ?f) choice next db3"
    unfolding store_decision_def up by (auto simp: Let_def result_simps load)
  obtain l2 where l2: "db2 = db\<lparr>db_decisions := ?ds, db_lineage := l2\<rparr>"
    using outcomeInputRoots_Inr [OF 2] by auto
  have t: "tables db' = tables db3"
    by (simp add: db' log_decision_def appendEvents_def audit_def tables_def)
  show ?thesis
    using settle_decision_tables [OF 3] o t
    by (simp add: decision_effect_def Let_def i l2 tables_def update_flow_def cong: option.case_cong)
qed

lemma recordApprovalDecision_Inr:
  assumes "recordApprovalDecision env actor w flowId choice rationale db = Inr (next, outcome, db')"
  obtains mb flow ids where "av_membership env actor w = Inr (Some mb)" "find_flow flowId db = Some flow"
    "fl_workspace flow = w" "fl_status flow = FS_ACTIVE" "subject_kind (fl_subjectType flow) \<noteq> None"
    "assertProposalAuthorCanReview flow (mb_user mb) db = Inr ()"
    "assertConsentWindowOpen (av_now env) (fl_mode flow) (fl_subjectType flow) (fl_closesAt flow) = Inr ()"
    "validateDecisionChoice (fl_mode flow) choice = Inr ()"
    "ids = eligibleApproverIds env w (proposalAuthorUserIdForFlow flow db) db" "mb_id mb \<in> set ids"
    "decision_effect env flow (mb_id mb) choice rationale ids next outcome db db'"
proof -
  from assms obtain mb current ids db1 where
    m: "av_membership env actor w = Inr (Some mb)"
    and c: "loadFlow flowId db = Some current" "fl_workspace (lf_flow current) = w"
    and k: "decision_checks env actor mb w current choice db = Inr (ids, db1)"
    and st: "store_decision env actor mb w flowId choice rationale ids db1 = Inr (next, outcome, db')"
    by (auto simp: recordApprovalDecision_def result_simps split: option.splits)
  note checks = decision_checks_Inr [OF k]
  then obtain l where l: "db1 = db\<lparr>db_lineage := l\<rparr>" by blast
  have f: "find_flow flowId db = Some (lf_flow current)"
    using c(1) by (auto simp: loadFlow_iff)
  have "decision_effect env (lf_flow current) (mb_id mb) choice rationale ids next outcome db1 db'"
    by (rule store_decision_effect [OF st]) (simp add: l f)
  then have "decision_effect env (lf_flow current) (mb_id mb) choice rationale ids next outcome db db'"
    by (simp add: l decision_effect_def decided_flow_def stored_decisions_def tables_def)
  with that m f c(2) checks show ?thesis by blast
qed


section \<open>The flow tables as a state machine\<close>

text \<open>
  What the flow tables may do, without lineage, audit rows, events and the checks that only guard
  against unreadable inputs: the abstract machine the operations implement.
\<close>

type_synonym flow_tables = "approval_flow list \<times> approval_decision list \<times> objection_row list"

definition flow_tables :: "'l approval_db \<Rightarrow> flow_tables" where
  "flow_tables db = (db_flows db, db_decisions db, db_objections db)"

definition withdraw_row :: "flow_result \<Rightarrow> int \<Rightarrow> approval_flow \<Rightarrow> approval_flow" where
  "withdraw_row r closedAt f =
     (if fl_status f = FS_ACTIVE
      then f\<lparr>fl_status := FS_WITHDRAWN, fl_closedAt := Some closedAt, fl_result := Some r\<rparr> else f)"

definition resolve_row :: "string \<Rightarrow> int \<Rightarrow> objection_row \<Rightarrow> objection_row" where
  "resolve_row i now ob = (if oj_id ob = i then ob\<lparr>oj_resolvedAt := Some now\<rparr> else ob)"

definition final_matches :: "final_status \<Rightarrow> approval_outcome \<Rightarrow> bool" where
  "final_matches v outcome \<longleftrightarrow> (v = Final_approved \<longleftrightarrow> ao_approved outcome)"

definition verdict_allowed :: "approval_flow \<Rightarrow> final_status option \<Rightarrow> approval_outcome \<Rightarrow> bool" where
  "verdict_allowed f v outcome \<longleftrightarrow>
     (\<forall>w. v = Some w \<longrightarrow> fl_subjectType f \<noteq> ''PROPOSAL'' \<and> fl_mode f \<noteq> CONSENT \<and> final_matches w outcome)"

text \<open>The steps \<^verbatim>\<open>approvals.ts\<close> itself takes.\<close>

inductive decision_step :: "flow_tables \<Rightarrow> flow_tables \<Rightarrow> bool" where
  by_open: "fl_id f \<notin> set (map fl_id fs)
    \<Longrightarrow> (fl_subjectType f, fl_subjectId f) \<notin> set (map (\<lambda>x. (fl_subjectType x, fl_subjectId x)) fs)
    \<Longrightarrow> fl_status f = FS_DRAFT \<Longrightarrow> decision_step (fs, ds, obs) (fs @ [f], ds, obs)"
| by_withdraw: "f \<in> set fs \<Longrightarrow> fl_status f = FS_ACTIVE
    \<Longrightarrow> decision_step (fs, ds, obs) (map_flow (fl_id f)
          (withdraw_row (Result_withdrawn reason (fl_subjectType f) (fl_subjectId f) stamp) t) fs, ds, obs)"
| by_decide: "f \<in> set fs \<Longrightarrow> fl_status f = FS_ACTIVE \<Longrightarrow> validateDecisionChoice (fl_mode f) c = Inr ()
    \<Longrightarrow> verdict_allowed f v outcome
    \<Longrightarrow> decision_step (fs, ds, obs)
          (map_flow (fl_id f) (verdict_row v outcome t) fs, snd (upsert_decision n (fl_id f) m c r ds), obs)"
| by_object: "f \<in> set fs \<Longrightarrow> fl_status f = FS_ACTIVE \<Longrightarrow> fl_mode f = CONSENT
    \<Longrightarrow> oj_flow ob = fl_id f \<Longrightarrow> oj_resolvedAt ob = None
    \<Longrightarrow> \<forall>x \<in> set obs. oj_flow x = fl_id f \<and> oj_resolvedAt x = None \<longrightarrow> oj_user x \<noteq> oj_user ob
    \<Longrightarrow> decision_step (fs, ds, obs) (map_flow (fl_id f) (set_outcome outcome) fs, ds, obs @ [ob])"
| by_resolve: "f \<in> set fs \<Longrightarrow> fl_status f = FS_ACTIVE \<Longrightarrow> fl_mode f = CONSENT
    \<Longrightarrow> decision_step (fs, ds, obs)
          (map_flow (fl_id f) (set_outcome outcome) fs, ds, map (resolve_row i t) obs)"
| by_expire: "f \<in> set fs \<Longrightarrow> fl_status f = FS_ACTIVE \<Longrightarrow> fl_mode f = CONSENT
    \<Longrightarrow> fl_subjectType f \<noteq> ''PROPOSAL'' \<Longrightarrow> final_matches v outcome
    \<Longrightarrow> decision_step (fs, ds, obs) (map_flow (fl_id f) (finalize_row v outcome t) fs, ds, obs)"

text \<open>With the activation of a proposal's flow by \<^verbatim>\<open>proposals.ts\<close>.\<close>

inductive flow_step :: "flow_tables \<Rightarrow> flow_tables \<Rightarrow> bool" where
  step_decision: "decision_step s s' \<Longrightarrow> flow_step s s'"
| step_activate: "f \<in> set fs \<Longrightarrow> fl_subjectType f = ''PROPOSAL''
    \<Longrightarrow> flow_step (fs, ds, obs) (map_flow (fl_id f) (activate_row p t) fs, ds, obs)"

inductive_cases flow_stepE: "flow_step s s'"

lemma decision_steps_are_flow_steps: "decision_step\<^sup>*\<^sup>* s s' \<Longrightarrow> flow_step\<^sup>*\<^sup>* s s'"
  by (induction rule: rtranclp_induct) (auto intro: step_decision rtranclp.rtrancl_into_rtrancl)

section \<open>Every operation is a run of the machine\<close>

lemma flow_tables_lineage [simp]: "flow_tables (db\<lparr>db_lineage := l\<rparr>) = flow_tables db"
  by (simp add: flow_tables_def)

lemma tables_flow_tables: "tables db' = tables db \<Longrightarrow> flow_tables db' = flow_tables db"
  by (simp add: tables_def flow_tables_def)

text \<open>A new flow may be inserted only under an id that is not in use: its primary key.\<close>

definition fresh_flow_id :: "'l approval_env \<Rightarrow> 'l approval_db \<Rightarrow> bool" where
  "fresh_flow_id env db \<longleftrightarrow> av_new_id env ''ApprovalFlow'' \<notin> set (map fl_id (db_flows db))"

lemma ensureApprovalFlow_steps:
  assumes "ensureApprovalFlow env actor w ty i p by db = Inr (f, db')" "fresh_flow_id env db"
  shows "decision_step\<^sup>*\<^sup>* (flow_tables db) (flow_tables db') \<and> f \<in> set (db_flows db') \<and> fl_subjectType f = ty"
proof (cases "find (\<lambda>f. fl_subjectType f = ty \<and> fl_subjectId f = i) (db_flows db)")
  case (Some g)
  with assms(1) show ?thesis by (auto simp: ensureApprovalFlow_def find_Some_iff)
next
  case None
  then have n: "(ty, i) \<notin> set (map (\<lambda>x. (fl_subjectType x, fl_subjectId x)) (db_flows db))"
    by (auto simp: find_None_iff)
  from assms(1) None have "flow_tables db' = (db_flows db @ [f], db_decisions db, db_objections db)
      \<and> fl_id f = av_new_id env ''ApprovalFlow'' \<and> fl_subjectType f = ty \<and> fl_subjectId f = i
      \<and> fl_status f = FS_DRAFT"
    by (auto simp: ensureApprovalFlow_def Let_def result_simps flow_tables_def
        dest!: approvalSubjectRoots_Inr split: option.splits if_splits)
  with n assms(2) by_open [of f "db_flows db" "db_decisions db" "db_objections db"] show ?thesis
    by (auto simp: fresh_flow_id_def flow_tables_def)
qed

lemma activate_steps:
  assumes "activateProposalApprovalFlow env actor w i p t db = Inr (f, db')" "fresh_flow_id env db"
  shows "flow_step\<^sup>*\<^sup>* (flow_tables db) (flow_tables db')"
proof -
  from assms(1) obtain db1 l where
    e: "ensureApprovalFlow env (Some actor) w ''PROPOSAL'' i p (actor_user actor) db = Inr (f, db1)"
    and db': "db' = update_flow (fl_id f) (activate_row p t) db1\<lparr>db_lineage := l\<rparr>"
    by (auto simp: activateProposalApprovalFlow_def result_simps)
  note ensure = ensureApprovalFlow_steps [OF e assms(2)]
  then have run: "flow_step\<^sup>*\<^sup>* (flow_tables db) (flow_tables db1)"
    by (blast intro: decision_steps_are_flow_steps)
  have "flow_step (flow_tables db1) (flow_tables db')"
    using ensure step_activate [of f "db_flows db1" "db_decisions db1" "db_objections db1" p t]
    by (simp add: db' flow_tables_def update_flow_def)
  with run show ?thesis by (meson rtranclp.rtrancl_into_rtrancl)
qed

lemma withdraw_steps:
  assumes "withdrawActiveApprovalFlowForSubject env w ty i reason u now db = Inr (r, db')"
  shows "decision_step\<^sup>*\<^sup>* (flow_tables db) (flow_tables db')"
proof (cases "find (\<lambda>f. fl_workspace f = w \<and> fl_subjectType f = ty \<and> fl_subjectId f = i
                     \<and> fl_status f = FS_ACTIVE) (db_flows db)")
  case None
  with assms show ?thesis by (simp add: withdrawActiveApprovalFlowForSubject_def)
next
  case (Some f)
  then have f: "f \<in> set (db_flows db)" "fl_status f = FS_ACTIVE"
    and subject: "fl_subjectType f = ty" "fl_subjectId f = i" by (auto simp: find_Some_iff)
  have row: "(if fl_id x = j \<and> fl_status x = FS_ACTIVE
      then x\<lparr>fl_status := FS_WITHDRAWN, fl_closedAt := Some t, fl_result := Some res\<rparr> else x)
      = (if fl_id x = j then withdraw_row res t x else x)" for x j t res
    by (simp add: withdraw_row_def)
  define t where "t = (case now of None \<Rightarrow> av_now env | Some t \<Rightarrow> t)"
  from Some assms obtain iso where "flow_tables db' =
      (map_flow (fl_id f) (withdraw_row (Result_withdrawn reason ty i iso) t) (db_flows db),
       db_decisions db, db_objections db)"
    unfolding withdrawActiveApprovalFlowForSubject_def row t_def [symmetric]
    by (auto simp: Let_def result_simps flow_tables_def audit_def simp del: map_eq_conv)
  with by_withdraw [OF f] subject show ?thesis by (auto simp: flow_tables_def)
qed


lemma decide_steps:
  assumes "recordApprovalDecision env actor w flowId choice rationale db = Inr (next, outcome, db')"
  shows "decision_step\<^sup>*\<^sup>* (flow_tables db) (flow_tables db')"
proof (rule recordApprovalDecision_Inr [OF assms])
  fix mb flow ids
  assume f: "find_flow flowId db = Some flow" "fl_status flow = FS_ACTIVE"
    "validateDecisionChoice (fl_mode flow) choice = Inr ()"
    and e: "decision_effect env flow (mb_id mb) choice rationale ids next outcome db db'"
  define v where
    "v = decision_verdict (decided_flow env flow (mb_id mb) choice rationale db) outcome (length ids)"
  have ok: "verdict_allowed flow v outcome"
    by (auto simp: verdict_allowed_def final_matches_def v_def dest: verdict_not_proposal)
  from e have "flow_tables db' =
      (map_flow (fl_id flow) (verdict_row v outcome (av_now env)) (db_flows db),
       stored_decisions env (fl_id flow) (mb_id mb) choice rationale db, db_objections db)"
    by (simp add: decision_effect_def Let_def flow_tables_def tables_def v_def)
  then show ?thesis
    using by_decide [OF _ f(2,3) ok, of "db_flows db"] find_flow_Some [OF f(1)]
    by (auto simp: flow_tables_def stored_decisions_def)
qed

lemma rewrite_outcome_Inr:
  assumes "rewrite_outcome env actor f ids extra db = Inr (outcome, db')"
  shows "flow_tables db' = (map_flow (fl_id (lf_flow f)) (set_outcome outcome) (db_flows db),
           db_decisions db, db_objections db)
     \<and> outcome = flow_outcome f (eligibleFlowDecisions f ids) ids"
  using assms
  by (auto simp: rewrite_outcome_def Let_def result_simps flow_tables_def update_flow_def
      dest!: outcomeInputRoots_Inr writeFlowOutcome_Inr split: if_splits)

lemma log_objection_tables [simp]: "flow_tables (log_objection w u a i j db) = flow_tables db"
  by (simp add: log_objection_def appendEvents_def audit_def flow_tables_def)

lemma consent_flow_checks_Inr [result_simps]:
  "consent_flow_checks env actor w f db = Inr u \<longleftrightarrow>
   approvalInputsReadable env actor w f db \<and> fl_status (lf_flow f) = FS_ACTIVE \<and> fl_mode (lf_flow f) = CONSENT"
  by (simp add: consent_flow_checks_def result_simps)

lemma objection_checks_Inr:
  "objection_checks env mb w f db = Inr ids \<Longrightarrow>
   assertProposalAuthorCanReview (lf_flow f) (mb_user mb) db = Inr ()
   \<and> assertConsentWindowOpen (av_now env) (fl_mode (lf_flow f)) (fl_subjectType (lf_flow f))
        (fl_closesAt (lf_flow f)) = Inr ()
   \<and> ids = eligibleApproverIds env w (proposalAuthorUserIdForFlow (lf_flow f) db) db
   \<and> mb_id mb \<in> set ids \<and> mb_user mb \<notin> set (map oj_user (lf_objections f))"
  by (auto simp: objection_checks_def Let_def result_simps split: if_splits)

text \<open>The flow an accepted objection has been added to.\<close>

definition objected_flow :: "approval_flow \<Rightarrow> objection_row \<Rightarrow> 'l approval_db \<Rightarrow> loaded_flow" where
  "objected_flow flow ob db =
     \<lparr>lf_flow = flow, lf_decisions = flow_decisions (fl_id flow) db,
      lf_objections = open_objections (fl_id flow) db @ [ob]\<rparr>"

lemma objected_flow_flow [simp]: "lf_flow (objected_flow flow ob db) = flow"
  by (simp add: objected_flow_def)

lemma createObjection_Inr:
  assumes "createObjection env actor w flowId body db = Inr (ob, outcome, db')"
  obtains mb flow ids where "av_membership env actor w = Inr (Some mb)" "find_flow flowId db = Some flow"
    "js_trim body \<noteq> []" "fl_workspace flow = w" "fl_status flow = FS_ACTIVE" "fl_mode flow = CONSENT"
    "assertProposalAuthorCanReview flow (mb_user mb) db = Inr ()"
    "assertConsentWindowOpen (av_now env) CONSENT (fl_subjectType flow) (fl_closesAt flow) = Inr ()"
    "ids = eligibleApproverIds env w (proposalAuthorUserIdForFlow flow db) db" "mb_id mb \<in> set ids"
    "mb_user mb \<notin> set (map oj_user (open_objections flowId db))"
    "ob = \<lparr>oj_id = av_new_id env ''Objection'', oj_flow = flowId, oj_user = mb_user mb,
           oj_body = js_trim body, oj_resolvedAt = None\<rparr>"
    "outcome = flow_outcome (objected_flow flow ob db)
       (eligibleFlowDecisions (objected_flow flow ob db) ids) ids"
    "flow_tables db' = (map_flow flowId (set_outcome outcome) (db_flows db), db_decisions db,
       db_objections db @ [ob])"
proof -
  from assms obtain mb flow db1 db3 l refreshed ids where
    m: "av_membership env actor w = Inr (Some mb)" and body: "js_trim body \<noteq> []"
    and c: "loadFlow flowId db = Some flow" "fl_workspace (lf_flow flow) = w"
      "fl_status (lf_flow flow) = FS_ACTIVE" "fl_mode (lf_flow flow) = CONSENT"
    and ids: "objection_checks env mb w flow db = Inr ids"
    and root: "approvalSubjectRoots env actor (lf_flow flow) db = Inr db1"
    and re: "loadFlow flowId (db1\<lparr>db_objections := db_objections db1 @ [ob]\<rparr>) = Some refreshed"
    and r1: "rewrite_outcome env actor refreshed ids []
          (db1\<lparr>db_objections := db_objections db1 @ [ob], db_lineage := l\<rparr>) = Inr (outcome, db3)"
    and ob: "ob = \<lparr>oj_id = av_new_id env ''Objection'', oj_flow = flowId,
         oj_user = mb_user mb, oj_body = js_trim body, oj_resolvedAt = None\<rparr>"
    and db': "db' = log_objection w (mb_user mb) ''approval.objection_created'' flowId (oj_id ob) db3"
    by (auto simp: createObjection_def Let_def result_simps split: option.splits if_splits)
  from approvalSubjectRoots_Inr [OF root] obtain l1 where db1: "db1 = db\<lparr>db_lineage := l1\<rparr>" by blast
  have f: "find_flow flowId db = Some (lf_flow flow)" "lf_objections flow = open_objections flowId db"
    using c(1) by (auto simp: loadFlow_iff)
  have i: "fl_id (lf_flow flow) = flowId" using find_flow_Some [OF f(1)] by simp
  have load: "loadFlow flowId (db\<lparr>db_objections := db_objections db @ [ob]\<rparr>)
      = Some (objected_flow (lf_flow flow) ob db)"
    using f(1) i ob
    by (simp add: loadFlow_def find_flow_def flow_decisions_def open_objections_def objected_flow_def)
  have lin: "db\<lparr>db_lineage := l1, db_objections := os, db_lineage := l\<rparr> =
      db\<lparr>db_objections := os, db_lineage := l\<rparr>" "loadFlow i (db\<lparr>db_lineage := l1, db_objections := os\<rparr>) =
      loadFlow i (db\<lparr>db_objections := os\<rparr>)" for os i
    by (simp_all add: loadFlow_def find_flow_def flow_decisions_def open_objections_def)
  have r: "rewrite_outcome env actor (objected_flow (lf_flow flow) ob db) ids []
          (db\<lparr>db_objections := db_objections db @ [ob], db_lineage := l\<rparr>) = Inr (outcome, db3)"
    using r1 re load by (simp add: db1 lin)
  show ?thesis
    by (rule that [OF m f(1) body c(2-4), where ids = ids])
      (use objection_checks_Inr [OF ids] ob rewrite_outcome_Inr [OF r] c(4) in
        \<open>auto simp: f i db'\<close>)
qed


lemma object_steps:
  assumes "createObjection env actor w flowId body db = Inr (ob, outcome, db')"
  shows "decision_step\<^sup>*\<^sup>* (flow_tables db) (flow_tables db')"
proof (rule createObjection_Inr [OF assms])
  fix mb flow
  assume f: "find_flow flowId db = Some flow" "fl_status flow = FS_ACTIVE" "fl_mode flow = CONSENT"
    and u: "mb_user mb \<notin> set (map oj_user (open_objections flowId db))"
    and ob: "ob = \<lparr>oj_id = av_new_id env ''Objection'', oj_flow = flowId, oj_user = mb_user mb,
           oj_body = js_trim body, oj_resolvedAt = None\<rparr>"
    and t: "flow_tables db' = (map_flow flowId (set_outcome outcome) (db_flows db), db_decisions db,
       db_objections db @ [ob])"
  have "decision_step (db_flows db, db_decisions db, db_objections db)
     (map_flow (fl_id flow) (set_outcome outcome) (db_flows db), db_decisions db, db_objections db @ [ob])"
    by (rule by_object) (use f u ob find_flow_Some [OF f(1)] in \<open>auto simp: open_objections_def image_iff\<close>)
  then show ?thesis
    using find_flow_Some [OF f(1)] t by (auto simp: flow_tables_def)
qed

lemma resolve_steps:
  assumes "resolveObjection env actor w flowId objectionId db = Inr (outcome, db')"
  shows "decision_step\<^sup>*\<^sup>* (flow_tables db) (flow_tables db')"
proof -
  from assms obtain flow refreshed ids l db3 where
    c: "loadFlow flowId db = Some flow" "fl_status (lf_flow flow) = FS_ACTIVE" "fl_mode (lf_flow flow) = CONSENT"
    and re: "loadFlow flowId (db\<lparr>db_objections :=
        map (resolve_row objectionId (av_now env)) (db_objections db)\<rparr>) = Some refreshed"
    and r: "rewrite_outcome env actor refreshed ids [(''Objection'', objectionId)]
          (db\<lparr>db_objections :=
             map (resolve_row objectionId (av_now env)) (db_objections db), db_lineage := l\<rparr>) = Inr (outcome, db3)"
    and db': "flow_tables db' = flow_tables db3"
    unfolding resolveObjection_def resolve_row_def [symmetric]
    by (auto simp: Let_def result_simps split: option.splits if_splits)
  have f: "find_flow flowId db = Some (lf_flow flow)" using c(1) by (auto simp: loadFlow_iff)
  have "lf_flow refreshed = lf_flow flow"
    using f re by (auto simp: loadFlow_def find_flow_def)
  then have "flow_tables db' = (map_flow (fl_id (lf_flow flow)) (set_outcome outcome) (db_flows db),
      db_decisions db, map (resolve_row objectionId (av_now env)) (db_objections db))"
    using rewrite_outcome_Inr [OF r] by (simp add: db')
  with by_resolve [OF _ c(2,3), of "db_flows db"] find_flow_Some [OF f] show ?thesis
    by (auto simp: flow_tables_def)
qed

lemma expire_one_cases:
  assumes "expire_one env i (n, db) = Inr (n', db')"
  shows "(n', db') = (n, db) \<or>
    (\<exists>f ids outcome v. find_flow i db = Some f \<and> fl_status f = FS_ACTIVE \<and> fl_mode f = CONSENT
       \<and> fl_subjectType f \<noteq> ''PROPOSAL'' \<and> ids = eligibleApproverIds env (fl_workspace f) None db
       \<and> outcome = flow_outcome \<lparr>lf_flow = f, lf_decisions = flow_decisions i db,
                                 lf_objections = open_objections i db\<rparr> (flow_decisions i db) ids
       \<and> final_matches v outcome \<and> n' = n + 1
       \<and> flow_tables db' = (map_flow i (finalize_row v outcome (av_now env)) (db_flows db),
            db_decisions db, db_objections db))"
proof (cases "loadFlow i db")
  case None
  with assms show ?thesis by (simp add: expire_one_def)
next
  case (Some lf)
  let ?f = "lf_flow lf" and ?ids = "eligibleApproverIds env (fl_workspace (lf_flow lf)) None db"
  let ?o = "flow_outcome lf (lf_decisions lf) ?ids"
  let ?v = "if ao_approved ?o then Final_approved else Final_rejected"
  let ?actor = "resolution_actor (fl_workspace ?f)"
  from Some have l: "find_flow i db = Some ?f" "lf_decisions lf = flow_decisions i db"
    "lf = \<lparr>lf_flow = ?f, lf_decisions = flow_decisions i db, lf_objections = open_objections i db\<rparr>"
    by (auto simp: loadFlow_iff)
  show ?thesis
  proof (cases "(n', db') = (n, db)")
    case False
    with assms Some obtain db1 where open_flow: "fl_status ?f = FS_ACTIVE" "fl_mode ?f = CONSENT"
      "fl_subjectType ?f \<noteq> ''PROPOSAL''"
      and "outcomeInputRoots env ?actor lf ?ids db = Inr db1" "n' = n + 1"
      and fin: "finalizeApprovalFlow env ?actor lf ?v ?o (length ?ids) None ''expiry'' db1 = Inr db'"
      by (auto simp: expire_one_def Let_def result_simps split: if_splits)
    then have "flow_tables db' = (map_flow i (finalize_row ?v ?o (av_now env)) (db_flows db),
            db_decisions db, db_objections db)"
      using finalize_tables [OF fin open_flow(3)] outcomeInputRoots_Inr find_flow_Some [OF l(1)]
      by (fastforce simp: tables_def flow_tables_def update_flow_def)
    with open_flow l \<open>n' = n + 1\<close> show ?thesis
      by (intro disjI2 exI [of _ ?f] exI [of _ ?ids] exI [of _ ?o] exI [of _ ?v])
        (auto simp: final_matches_def)
  qed simp
qed

lemma expire_one_steps:
  assumes "expire_one env i (n, db) = Inr (n', db')"
  shows "decision_step\<^sup>*\<^sup>* (flow_tables db) (flow_tables db')"
  using expire_one_cases [OF assms]
proof (elim disjE exE conjE)
  fix f ids outcome v
  assume f: "find_flow i db = Some f" and m: "fl_status f = FS_ACTIVE" "fl_mode f = CONSENT"
    "fl_subjectType f \<noteq> ''PROPOSAL''" "final_matches v outcome"
    and t: "flow_tables db' = (map_flow i (finalize_row v outcome (av_now env)) (db_flows db),
            db_decisions db, db_objections db)"
  show ?thesis
    using by_expire [OF _ m, of "db_flows db"] find_flow_Some [OF f] t by (auto simp: flow_tables_def)
qed simp

lemma finalizeExpired_steps:
  assumes "finalizeExpiredApprovalFlows env c flags locked batch db = Inr (n, db')"
  shows "decision_step\<^sup>*\<^sup>* (flow_tables db) (flow_tables db')"
proof -
  have "decision_step\<^sup>*\<^sup>* (flow_tables db) (flow_tables (snd (n, db')))"
    by (rule fold_result_inv [OF assms [unfolded finalizeExpiredApprovalFlows_def],
        where P = "\<lambda>s. decision_step\<^sup>*\<^sup>* (flow_tables db) (flow_tables (snd s))"])
      (auto dest: expire_one_steps)
  then show ?thesis by simp
qed

end
