(* ===== verification/Approval_Invariant.thy ===== *)
theory Approval_Invariant
  imports Approval_Facts
begin

text \<open>
  The operations of \<^verbatim>\<open>approvals.ts\<close> refine the machine of \<^verbatim>\<open>Approval_Facts\<close>; the invariant of
  the flow tables, with the steps of that machine that keep it and leave a finalized flow alone; and
  what a decision, an objection and the expiry of a flow do.  What every writer of flows does,
  \<^verbatim>\<open>proposals.ts\<close> included, is proved in \<^verbatim>\<open>Proposal_Flow_Facts\<close>.
\<close>

section \<open>Steps of the operations\<close>

text \<open>One operation of \<^verbatim>\<open>approvals.ts\<close>, or the activation of a proposal's flow.\<close>

inductive approval_step :: "'l approval_db \<Rightarrow> 'l approval_db \<Rightarrow> bool" where
  op_ensure: "ensureApprovalFlow env actor w ty i p u db = Inr (f, db') \<Longrightarrow> fresh_flow_id env db
    \<Longrightarrow> approval_step db db'"
| op_activate: "activateProposalApprovalFlow env a w i p t db = Inr (f, db') \<Longrightarrow> fresh_flow_id env db
    \<Longrightarrow> approval_step db db'"
| op_withdraw: "withdrawActiveApprovalFlowForSubject env w ty i reason u now db = Inr (r, db')
    \<Longrightarrow> approval_step db db'"
| op_decide: "recordApprovalDecision env a w i choice rationale db = Inr (next, outcome, db')
    \<Longrightarrow> approval_step db db'"
| op_object: "createObjection env a w i body db = Inr (ob, outcome, db') \<Longrightarrow> approval_step db db'"
| op_resolve: "resolveObjection env a w i j db = Inr (outcome, db') \<Longrightarrow> approval_step db db'"
| op_expire: "finalizeExpiredApprovalFlows env c flags locked batch db = Inr (n, db')
    \<Longrightarrow> approval_step db db'"

inductive_cases approval_stepE: "approval_step db db'"

lemmas operation_steps = ensureApprovalFlow_steps activate_steps withdraw_steps decide_steps
  object_steps resolve_steps finalizeExpired_steps

lemma approval_step_refines:
  "approval_step db db' \<Longrightarrow> flow_step\<^sup>*\<^sup>* (flow_tables db) (flow_tables db')"
  by (induction rule: approval_step.induct) (blast dest: operation_steps decision_steps_are_flow_steps)+

section \<open>The invariant\<close>

text \<open>
  The result a final status demands.  A flow of an action or a tension ends by its decisions or its
  expiry, with the outcome that was computed; the flow of a proposal never does: it ends by hand
  (\<^verbatim>\<open>resolveProposal\<close>), with the outcome somebody chose.
\<close>

definition final_result_ok :: "approval_flow \<Rightarrow> bool \<Rightarrow> bool" where
  "final_result_ok f approved \<longleftrightarrow> fl_closedAt f \<noteq> None
     \<and> (if fl_subjectType f = ''PROPOSAL''
        then \<exists>out md. fl_result f = Some (Result_manual out md) \<and> out \<noteq> ''WITHDRAWN''
               \<and> approved = (out = ''ADOPTED'')
        else \<exists>out. fl_result f = Some (Result_outcome out) \<and> approved = ao_approved out)"

definition flow_ok :: "approval_flow \<Rightarrow> bool" where
  "flow_ok f \<longleftrightarrow>
     (fl_status f = FS_APPROVED \<longrightarrow> final_result_ok f True)
     \<and> (fl_status f = FS_REJECTED \<longrightarrow> final_result_ok f False)
     \<and> (fl_status f = FS_WITHDRAWN \<longrightarrow> fl_closedAt f \<noteq> None
        \<and> ((\<exists>r ty i t. fl_result f = Some (Result_withdrawn r ty i t))
           \<or> fl_subjectType f = ''PROPOSAL'' \<and> (\<exists>md. fl_result f = Some (Result_manual ''WITHDRAWN'' md))))"

definition unresolved :: "objection_row list \<Rightarrow> objection_row list" where
  "unresolved obs = filter (\<lambda>ob. oj_resolvedAt ob = None) obs"

definition flow_inv :: "flow_tables \<Rightarrow> bool" where
  "flow_inv = (\<lambda>(fs, ds, obs).
     distinct (map fl_id fs)
     \<and> distinct (map (\<lambda>f. (fl_subjectType f, fl_subjectId f)) fs)
     \<and> list_all flow_ok fs
     \<and> distinct (map (\<lambda>d. (ad_flow d, ad_member d)) ds)
     \<and> set (map ad_flow ds) \<subseteq> set (map fl_id fs)
     \<and> set (map oj_flow obs) \<subseteq> set (map fl_id fs)
     \<and> (\<forall>f \<in> set fs. fl_mode f = CONSENT \<longrightarrow>
          (\<forall>d \<in> set ds. ad_flow d = fl_id f \<longrightarrow> ad_choice d = AGREE \<or> ad_choice d = ABSTAIN))
     \<and> (\<forall>f \<in> set fs. fl_mode f \<noteq> CONSENT \<longrightarrow> fl_id f \<notin> set (map oj_flow obs))
     \<and> distinct (map (\<lambda>ob. (oj_flow ob, oj_user ob)) (unresolved obs)))"

lemma flow_ok_rows [simp]:
  "fl_status f = FS_ACTIVE \<Longrightarrow> flow_ok (withdraw_row (Result_withdrawn r ty i stamp) t f)"
  "flow_ok (activate_row p t f)"
  "fl_status f = FS_ACTIVE \<Longrightarrow> flow_ok (set_outcome outcome f)"
  "fl_subjectType f \<noteq> ''PROPOSAL'' \<Longrightarrow> final_matches v outcome \<Longrightarrow> flow_ok (finalize_row v outcome t f)"
  by (auto simp: flow_ok_def final_result_ok_def withdraw_row_def activate_row_def set_outcome_def
      finalize_row_def final_matches_def split: final_status.splits) (cases v; simp)+

text \<open>The rows an update may not change: identity, subject and mode.\<close>

definition row_update :: "(approval_flow \<Rightarrow> approval_flow) \<Rightarrow> bool" where
  "row_update g \<longleftrightarrow> (\<forall>f. fl_id (g f) = fl_id f \<and> fl_subjectType (g f) = fl_subjectType f
     \<and> fl_subjectId (g f) = fl_subjectId f \<and> fl_mode (g f) = fl_mode f)"

lemma row_updates [simp]:
  "row_update (activate_row p t)" "row_update (withdraw_row r t)" "row_update (set_outcome outcome)"
  "row_update (finalize_row v outcome t)" "row_update (verdict_row w outcome t)"
  by (auto simp: row_update_def activate_row_def withdraw_row_def set_outcome_def finalize_row_def
      verdict_row_def split: option.splits)

lemma row_update_maps:
  assumes "row_update g"
  shows "map fl_id (map_flow i g fs) = map fl_id fs"
    "map (\<lambda>f. (fl_subjectType f, fl_subjectId f)) (map_flow i g fs)
       = map (\<lambda>f. (fl_subjectType f, fl_subjectId f)) fs"
  using assms by (auto simp: row_update_def)

lemma row_update_ball:
  "row_update g \<Longrightarrow>
   (\<forall>f \<in> set (map_flow i g fs). Q (fl_mode f) (fl_id f)) \<longleftrightarrow> (\<forall>f \<in> set fs. Q (fl_mode f) (fl_id f))"
  by (induction fs) (auto simp: row_update_def)

lemma map_flow_ok:
  assumes "distinct (map fl_id fs)" "f \<in> set fs" "list_all flow_ok fs" "flow_ok (g f)"
  shows "list_all flow_ok (map_flow (fl_id f) g fs)"
  using assms by (auto simp: list_all_iff eq_key_imp_eq_value) (metis distinct_map inj_on_def)

text \<open>What a mode demands of the decisions and objections of its flow.\<close>

definition mode_ok :: "approval_decision list \<Rightarrow> objection_row list \<Rightarrow> approval_mode \<Rightarrow> string \<Rightarrow> bool" where
  "mode_ok ds obs m i \<longleftrightarrow>
     (if m = CONSENT then (\<forall>d \<in> set ds. ad_flow d = i \<longrightarrow> ad_choice d = AGREE \<or> ad_choice d = ABSTAIN)
      else i \<notin> set (map oj_flow obs))"

lemma flow_inv_iff:
  "flow_inv (fs, ds, obs) \<longleftrightarrow>
     distinct (map fl_id fs)
     \<and> distinct (map (\<lambda>f. (fl_subjectType f, fl_subjectId f)) fs)
     \<and> list_all flow_ok fs
     \<and> distinct (map (\<lambda>d. (ad_flow d, ad_member d)) ds)
     \<and> set (map ad_flow ds) \<subseteq> set (map fl_id fs)
     \<and> set (map oj_flow obs) \<subseteq> set (map fl_id fs)
     \<and> (\<forall>f \<in> set fs. mode_ok ds obs (fl_mode f) (fl_id f))
     \<and> distinct (map (\<lambda>ob. (oj_flow ob, oj_user ob)) (unresolved obs))"
  unfolding flow_inv_def mode_ok_def prod.case by (auto split: if_splits)

lemma map_flow_inv:
  assumes "flow_inv (fs, ds, obs)" "f \<in> set fs" "row_update g" "flow_ok (g f)"
  shows "flow_inv (map_flow (fl_id f) g fs, ds, obs)"
  using assms map_flow_ok [of fs f g]
  by (simp only: flow_inv_iff row_update_maps row_update_ball) blast

lemma upsert_keys:
  "map (\<lambda>d. (ad_flow d, ad_member d)) (snd (upsert_decision n i m c r ds)) =
     (let ks = map (\<lambda>d. (ad_flow d, ad_member d)) ds in if (i, m) \<in> set ks then ks else ks @ [(i, m)])"
  by (force simp: upsert_decision_def Let_def find_None_iff find_Some_iff image_iff split: option.splits)

lemma upsert_members:
  "d \<in> set (snd (upsert_decision n i m c r ds)) \<Longrightarrow> d \<in> set ds \<or> ad_flow d = i \<and> ad_choice d = c"
  by (auto simp: upsert_decision_def split: option.splits if_splits)

lemma upsert_flows: "set (map ad_flow (snd (upsert_decision n i m c r ds))) \<subseteq> insert i (set (map ad_flow ds))"
  by (auto dest: upsert_members)

lemma upsert_inv:
  assumes "flow_inv (fs, ds, obs)" "f \<in> set fs" "validateDecisionChoice (fl_mode f) c = Inr ()"
  shows "flow_inv (fs, snd (upsert_decision n (fl_id f) m c r ds), obs)"
proof -
  have d: "distinct (map fl_id fs)" using assms(1) by (simp add: flow_inv_iff)
  have c: "fl_mode f = CONSENT \<longrightarrow> c = AGREE \<or> c = ABSTAIN"
    using assms(3) by (auto simp: validateDecisionChoice_def result_simps)
  have "mode_ok (snd (upsert_decision n (fl_id f) m c r ds)) obs (fl_mode g) (fl_id g)" if g: "g \<in> set fs" for g
  proof -
    have "mode_ok ds obs (fl_mode g) (fl_id g)" using assms(1) g by (simp add: flow_inv_iff)
    moreover have "fl_id g = fl_id f \<Longrightarrow> g = f" using d g assms(2) by (auto simp: distinct_map inj_on_def)
    ultimately show ?thesis using c by (auto simp: mode_ok_def dest!: upsert_members)
  qed
  moreover have "set (map ad_flow (snd (upsert_decision n (fl_id f) m c r ds))) \<subseteq> set (map fl_id fs)"
  proof (rule subset_trans [OF upsert_flows])
    show "insert (fl_id f) (set (map ad_flow ds)) \<subseteq> set (map fl_id fs)"
      using assms(1,2) by (simp add: flow_inv_iff)
  qed
  ultimately show ?thesis
    using assms(1) by (simp add: flow_inv_iff upsert_keys Let_def)
qed

lemma object_inv:
  assumes "flow_inv (fs, ds, obs)" "f \<in> set fs" "fl_mode f = CONSENT" "oj_flow ob = fl_id f"
    "\<forall>x \<in> set obs. oj_flow x = fl_id f \<and> oj_resolvedAt x = None \<longrightarrow> oj_user x \<noteq> oj_user ob"
  shows "flow_inv (fs, ds, obs @ [ob])"
proof -
  have d: "distinct (map fl_id fs)" using assms(1) by (simp add: flow_inv_iff)
  have "mode_ok ds (obs @ [ob]) (fl_mode g) (fl_id g)" if g: "g \<in> set fs" for g
  proof -
    have "mode_ok ds obs (fl_mode g) (fl_id g)" using assms(1) g by (simp add: flow_inv_iff)
    moreover have "fl_id g = fl_id f \<Longrightarrow> g = f" using d g assms(2) by (auto simp: distinct_map inj_on_def)
    ultimately show ?thesis using assms(3,4) by (auto simp: mode_ok_def)
  qed
  then show ?thesis
    using assms by (auto simp: flow_inv_iff unresolved_def)
qed

lemma unresolved_resolve:
  "\<exists>P. unresolved (map (resolve_row i t) obs) = filter P (unresolved obs)"
proof
  show "unresolved (map (resolve_row i t) obs) = filter (\<lambda>ob. oj_id ob \<noteq> i) (unresolved obs)"
    by (induction obs) (auto simp: unresolved_def resolve_row_def)
qed

lemma resolve_inv:
  assumes "flow_inv (fs, ds, obs)"
  shows "flow_inv (fs, ds, map (resolve_row i t) obs)"
proof -
  have k: "map oj_flow (map (resolve_row i t) obs) = map oj_flow obs" by (simp add: resolve_row_def)
  have m: "mode_ok ds (map (resolve_row i t) obs) m j = mode_ok ds obs m j" for m j
    by (simp only: mode_ok_def k)
  show ?thesis
    using assms unresolved_resolve [of i t obs]
    by (auto simp: flow_inv_iff m k [simplified] distinct_map_filter simp del: map_map)
qed

lemma open_inv:
  assumes "flow_inv (fs, ds, obs)" "fl_id f \<notin> set (map fl_id fs)" "fl_status f = FS_DRAFT"
    "(fl_subjectType f, fl_subjectId f) \<notin> set (map (\<lambda>x. (fl_subjectType x, fl_subjectId x)) fs)"
  shows "flow_inv (fs @ [f], ds, obs)"
proof -
  have sub: "set (map ad_flow ds) \<subseteq> set (map fl_id fs)" "set (map oj_flow obs) \<subseteq> set (map fl_id fs)"
    using assms(1) by (simp_all add: flow_inv_iff)
  have "fl_id f \<notin> set (map ad_flow ds)" "fl_id f \<notin> set (map oj_flow obs)"
    using sub [THEN subsetD, of "fl_id f"] assms(2) by blast+
  then have "mode_ok ds obs (fl_mode f) (fl_id f)" by (force simp: mode_ok_def image_iff)
  moreover have "flow_ok f" using assms(3) by (simp add: flow_ok_def)
  ultimately show ?thesis
    using assms by (simp add: flow_inv_iff) blast
qed

lemma decision_step_inv:
  assumes "decision_step s s'" "flow_inv s"
  shows "flow_inv s'"
  using assms
proof (induction rule: decision_step.induct)
  case (by_decide f fs c v outcome ds obs t n m r)
  have "flow_ok (verdict_row v outcome t f)"
    using by_decide(2,4) by (cases v) (simp_all add: verdict_row_def verdict_allowed_def)
  then show ?case by (intro map_flow_inv upsert_inv by_decide) simp_all
qed (auto intro!: map_flow_inv open_inv object_inv resolve_inv)

section \<open>Finalized flows\<close>

definition finalized :: "approval_flow \<Rightarrow> bool" where
  "finalized f \<longleftrightarrow> fl_status f = FS_APPROVED \<or> fl_status f = FS_REJECTED"

definition frozen_in :: "approval_flow \<Rightarrow> approval_decision list \<Rightarrow> flow_tables \<Rightarrow> bool" where
  "frozen_in f dsf = (\<lambda>(fs, ds, obs). f \<in> set fs \<and> filter (\<lambda>d. ad_flow d = fl_id f) ds = dsf)"

lemma upsert_other_flow:
  "i \<noteq> j \<Longrightarrow> filter (\<lambda>d. ad_flow d = i) (snd (upsert_decision n j m c r ds)) = filter (\<lambda>d. ad_flow d = i) ds"
proof -
  assume "i \<noteq> j"
  then have "filter (\<lambda>d. ad_flow d = i) (map (\<lambda>d. if ad_flow d = j \<and> ad_member d = m
      then d\<lparr>ad_choice := c, ad_rationale := r\<rparr> else d) ds) = filter (\<lambda>d. ad_flow d = i) ds"
    by (induction ds) auto
  with \<open>i \<noteq> j\<close> show ?thesis by (simp add: upsert_decision_def split: option.splits)
qed

lemma map_flow_other: "f \<in> set fs \<Longrightarrow> fl_id f \<noteq> i \<Longrightarrow> f \<in> set (map_flow i g fs)"
  by force

lemma decision_step_frozen:
  assumes "decision_step s s'" "flow_inv s" "frozen_in f dsf s" "finalized f"
  shows "frozen_in f dsf s'"
  using assms
proof (induction rule: decision_step.induct)
  case (by_open g fs ds obs)
  then show ?case by (simp add: frozen_in_def)
next
  case (by_decide g fs c v outcome ds obs t n m r)
  then have "fl_id f \<noteq> fl_id g"
    by (auto simp: flow_inv_iff frozen_in_def finalized_def distinct_map inj_on_def)
  with by_decide show ?case by (auto simp: frozen_in_def upsert_other_flow intro: map_flow_other)
qed (auto simp: flow_inv_iff frozen_in_def finalized_def distinct_map inj_on_def intro!: map_flow_other)

section \<open>Properties\<close>

text \<open>
  C8: every operation of the approval module (opening, activating and withdrawing a
  flow, recording a decision, raising and resolving an objection, and the expiry run), when it does
  not throw, changes the flow tables only by steps of the abstract flow machine: a flow opens as a
  draft under a new subject, only active flows take decisions, objections, withdrawals and
  finalizations, and every final status agrees with the stored outcome.
\<close>

theorem approval_operations_refine_machine:
  assumes "approval_step db db'"
  shows "flow_step\<^sup>*\<^sup>* (flow_tables db) (flow_tables db')"
  using assms by (rule approval_step_refines)

lemma stored_decisions_member:
  "filter (\<lambda>d. ad_flow d = i \<longrightarrow> ad_member d \<noteq> m) (stored_decisions env i m c r db)
     = filter (\<lambda>d. ad_flow d = i \<longrightarrow> ad_member d \<noteq> m) (db_decisions db)"
proof -
  have "filter (\<lambda>d. ad_flow d = i \<longrightarrow> ad_member d \<noteq> m) (map (\<lambda>d. if ad_flow d = i \<and> ad_member d = m
      then d\<lparr>ad_choice := c, ad_rationale := t\<rparr> else d) ds)
      = filter (\<lambda>d. ad_flow d = i \<longrightarrow> ad_member d \<noteq> m) ds" for ds t
    by (induction ds) auto
  then show ?thesis by (auto simp: stored_decisions_def upsert_decision_def split: option.splits)
qed

lemma distinct_key_filter:
  "distinct (map k xs) \<Longrightarrow> x \<in> set xs \<Longrightarrow> k x = a \<Longrightarrow> filter (\<lambda>y. k y = a) xs = [x]"
proof (induction xs)
  case (Cons z zs)
  then show ?case by (cases "z = x") (force simp: filter_empty_conv image_iff)+
qed simp

lemma stored_decision_single:
  assumes "distinct (map (\<lambda>d. (ad_flow d, ad_member d)) (db_decisions db))"
  shows "\<exists>d. filter (\<lambda>d. ad_flow d = i \<and> ad_member d = m) (stored_decisions env i m c r db) = [d]
     \<and> ad_choice d = c \<and> ad_rationale d = trimmed_or_none r"
proof -
  let ?ds = "stored_decisions env i m c r db" and ?k = "\<lambda>d. (ad_flow d, ad_member d)"
  have "\<exists>d \<in> set ?ds. ?k d = (i, m) \<and> ad_choice d = c \<and> ad_rationale d = trimmed_or_none r"
  proof (cases "find (\<lambda>d. ad_flow d = i \<and> ad_member d = m) (db_decisions db)")
    case None
    then show ?thesis by (simp add: stored_decisions_def upsert_decision_def)
  next
    case (Some e)
    then have "e \<in> set (db_decisions db)" "ad_flow e = i" "ad_member e = m" by (auto simp: find_Some_iff)
    then show ?thesis
      using Some
      by (intro bexI [of _ "e\<lparr>ad_choice := c, ad_rationale := trimmed_or_none r\<rparr>"])
        (force simp: stored_decisions_def upsert_decision_def image_iff)+
  qed
  then obtain d where d: "d \<in> set ?ds" "?k d = (i, m)" "ad_choice d = c" "ad_rationale d = trimmed_or_none r"
    by blast
  have "distinct (map ?k ?ds)"
    unfolding stored_decisions_def upsert_keys using assms by (simp add: Let_def)
  from distinct_key_filter [OF this d(1,2)] d(3,4) show ?thesis by auto
qed

lemma find_map_flow:
  assumes "row_update g"
  shows "find (\<lambda>f. fl_id f = j) (map_flow i g fs) =
     map_option (\<lambda>f. if fl_id f = i then g f else f) (find (\<lambda>f. fl_id f = j) fs)"
  using assms by (induction fs) (auto simp: row_update_def)

lemma verdict_row_status:
  "fl_status (verdict_row v outcome t f) = (case v of None \<Rightarrow> fl_status f | Some s \<Rightarrow> final_flow_status s)"
  "fl_result (verdict_row v outcome t f) = Some (Result_outcome outcome)"
  by (simp_all add: verdict_row_def finalize_row_def set_outcome_def split: option.split)

text \<open>
  A decision that is accepted comes from a member who is an eligible approver of
  an active flow of that workspace and not the author of the proposal; it is stored as the member's
  only decision on the flow, the decisions of others stay as they were, and the flow ends in the
  status and with the outcome the caller is told.
\<close>

lemma accepted_decision_is_stored:
  assumes "recordApprovalDecision env actor w i choice rationale db = Inr (next, outcome, db')"
    and "flow_inv (flow_tables db)"
  shows "\<exists>mb f f' d. av_membership env actor w = Inr (Some mb) \<and> find_flow i db = Some f
     \<and> fl_workspace f = w \<and> fl_status f = FS_ACTIVE
     \<and> mb_id mb \<in> set (eligibleApproverIds env w (proposalAuthorUserIdForFlow f db) db)
     \<and> (truthy_str (proposalAuthorUserIdForFlow f db) \<longrightarrow> proposalAuthorUserIdForFlow f db \<noteq> Some (mb_user mb))
     \<and> filter (\<lambda>d. ad_flow d = i \<and> ad_member d = mb_id mb) (db_decisions db') = [d]
     \<and> ad_choice d = choice \<and> ad_rationale d = trimmed_or_none rationale
     \<and> filter (\<lambda>d. ad_flow d = i \<longrightarrow> ad_member d \<noteq> mb_id mb) (db_decisions db')
         = filter (\<lambda>d. ad_flow d = i \<longrightarrow> ad_member d \<noteq> mb_id mb) (db_decisions db)
     \<and> find_flow i db' = Some f' \<and> fl_status f' = next \<and> fl_result f' = Some (Result_outcome outcome)
     \<and> (\<forall>j. j \<noteq> i \<longrightarrow> find_flow j db' = find_flow j db) \<and> db_objections db' = db_objections db"
proof (rule recordApprovalDecision_Inr [OF assms(1)])
  fix mb f ids
  assume m: "av_membership env actor w = Inr (Some mb)" "find_flow i db = Some f" "fl_workspace f = w"
      "fl_status f = FS_ACTIVE" "assertProposalAuthorCanReview f (mb_user mb) db = Inr ()"
      "ids = eligibleApproverIds env w (proposalAuthorUserIdForFlow f db) db" "mb_id mb \<in> set ids"
    and e: "decision_effect env f (mb_id mb) choice rationale ids next outcome db db'"
  have i: "fl_id f = i" using find_flow_Some [OF m(2)] by simp
  define v where "v = decision_verdict (decided_flow env f (mb_id mb) choice rationale db) outcome (length ids)"
  from e have t: "db_flows db' = map_flow i (verdict_row v outcome (av_now env)) (db_flows db)"
      "db_decisions db' = stored_decisions env i (mb_id mb) choice rationale db"
      "db_objections db' = db_objections db"
      "next = (case v of None \<Rightarrow> fl_status f | Some s \<Rightarrow> final_flow_status s)"
    by (simp_all add: decision_effect_def Let_def tables_def v_def i)
  have "distinct (map (\<lambda>d. (ad_flow d, ad_member d)) (db_decisions db))"
    using assms(2) by (simp add: flow_tables_def flow_inv_iff)
  from stored_decision_single [OF this] obtain d where
    "filter (\<lambda>d. ad_flow d = i \<and> ad_member d = mb_id mb) (db_decisions db') = [d]"
    "ad_choice d = choice" "ad_rationale d = trimmed_or_none rationale"
    unfolding t by blast
  moreover have row: "find_flow j db' = map_option (\<lambda>f. if fl_id f = i then verdict_row v outcome (av_now env) f else f)
      (find_flow j db)" for j
    by (simp add: find_flow_def t find_map_flow)
  have "find_flow j db' = find_flow j db" if "j \<noteq> i" for j
    using that find_flow_Some [of j db] by (cases "find_flow j db") (auto simp: row)
  moreover have "find_flow i db' = Some (verdict_row v outcome (av_now env) f)"
    using m(2) i by (simp add: row)
  ultimately show ?thesis
    using m
    by (intro exI [of _ mb] exI [of _ f] exI [of _ "verdict_row v outcome (av_now env) f"] exI [of _ d])
      (auto simp: t(2-4) stored_decisions_member verdict_row_status assertProposalAuthorCanReview_def
        Let_def result_simps)
qed


text \<open>The flow tables during an expiry run: the flows finalized so far.\<close>

definition expired_row :: "'l approval_env \<Rightarrow> db_clock \<Rightarrow> flag_table \<Rightarrow> 'l approval_db \<Rightarrow> approval_flow \<Rightarrow> approval_flow \<Rightarrow> bool" where
  "expired_row env c flags db f f' \<longleftrightarrow>
     expired_flow c flags f
     \<and> (\<exists>v outcome. f' = finalize_row v outcome (av_now env) f
          \<and> (v = Final_approved \<longleftrightarrow> open_objections (fl_id f) db = []))"

definition expiry_progress ::
    "'l approval_env \<Rightarrow> db_clock \<Rightarrow> flag_table \<Rightarrow> 'l approval_db \<Rightarrow> nat \<times> 'l approval_db \<Rightarrow> bool" where
  "expiry_progress env c flags db = (\<lambda>(n, db').
     db_decisions db' = db_decisions db \<and> db_objections db' = db_objections db
     \<and> (\<exists>g. db_flows db' = map g (db_flows db)
          \<and> (\<forall>f \<in> set (db_flows db). g f = f \<or> expired_row env c flags db f (g f))
          \<and> n = length (filter (\<lambda>f. g f \<noteq> f) (db_flows db))))"

lemma finalize_row_id [simp]: "fl_id (finalize_row v outcome t f) = fl_id f"
  by (simp add: finalize_row_def set_outcome_def)

lemma finalize_row_status [simp]: "fl_status (finalize_row v outcome t f) = final_flow_status v"
  by (simp add: finalize_row_def set_outcome_def)

lemma final_not_active [simp]: "final_flow_status v \<noteq> FS_ACTIVE"
  by (cases v) simp_all

lemma expired_row_id: "expired_row env c flags db f f' \<Longrightarrow> fl_id f' = fl_id f \<and> fl_status f' \<noteq> FS_ACTIVE"
  by (auto simp: expired_row_def)

lemma filter_change_one:
  assumes "distinct xs" "x \<in> set xs" "P x" "\<not> Q x" "\<And>y. y \<in> set xs \<Longrightarrow> y \<noteq> x \<Longrightarrow> P y = Q y"
  shows "length (filter P xs) = Suc (length (filter Q xs))"
proof -
  have "set (filter P xs) = insert x (set (filter Q xs))" using assms by auto
  then have "card (set (filter P xs)) = Suc (card (set (filter Q xs)))" using assms(4) by simp
  with assms(1) show ?thesis by (simp only: distinct_card distinct_filter)
qed

lemma expire_one_progress:
  assumes "expire_one env i s = Inr s'" "expiry_progress env c flags db s"
    and "distinct (map fl_id (db_flows db))" "\<exists>f \<in> set (db_flows db). fl_id f = i \<and> expired_flow c flags f"
  shows "expiry_progress env c flags db s'"
proof -
  obtain n db1 n' db2 where s: "s = (n, db1)" "s' = (n', db2)" by (cases s, cases s')
  from assms(2) obtain g where g: "db_flows db1 = map g (db_flows db)"
    "\<And>f. f \<in> set (db_flows db) \<Longrightarrow> g f = f \<or> expired_row env c flags db f (g f)"
    and same: "db_decisions db1 = db_decisions db" "db_objections db1 = db_objections db"
    and n: "n = length (filter (\<lambda>f. g f \<noteq> f) (db_flows db))"
    by (auto simp: expiry_progress_def s)
  have gid: "fl_id (g f) = fl_id f" if "f \<in> set (db_flows db)" for f
    using g(2) [OF that] expired_row_id by fastforce
  from assms(4) obtain f0 where f0: "f0 \<in> set (db_flows db)" "fl_id f0 = i" "expired_flow c flags f0" by blast
  have uniq: "f = f0" if "f \<in> set (db_flows db)" "fl_id f = i" for f
    using that f0 assms(3) by (auto simp: distinct_map inj_on_def)
  from expire_one_cases [OF assms(1) [unfolded s]] show ?thesis
  proof (elim disjE exE conjE)
    fix f ids outcome v
    assume f: "find_flow i db1 = Some f" "fl_status f = FS_ACTIVE" "fl_mode f = CONSENT"
      and out: "outcome = flow_outcome \<lparr>lf_flow = f, lf_decisions = flow_decisions i db1,
          lf_objections = open_objections i db1\<rparr> (flow_decisions i db1) ids" "final_matches v outcome"
      and n': "n' = n + 1" and t: "flow_tables db2 =
          (map_flow i (finalize_row v outcome (av_now env)) (db_flows db1), db_decisions db1, db_objections db1)"
    from find_flow_Some [OF f(1)] g(1) obtain h where h: "h \<in> set (db_flows db)" "f = g h" "fl_id (g h) = i" by auto
    with gid uniq have "h = f0" by metis
    with g(2) [OF h(1)] h f(2) expired_row_id have gf: "g f0 = f0" "f = f0" by metis+
    have ob: "v = Final_approved \<longleftrightarrow> open_objections i db = []"
      using out f(3) by (simp add: final_matches_def flow_outcome_def calculateApprovalOutcome_def Let_def
          open_objections_def same)
    let ?g = "\<lambda>f. if fl_id f = i then finalize_row v outcome (av_now env) f else g f"
    have flows2: "db_flows db2 = map ?g (db_flows db)"
      using t gid uniq gf(1) by (auto simp: flow_tables_def g(1))
    have rows2: "?g f = f \<or> expired_row env c flags db f (?g f)" if "f \<in> set (db_flows db)" for f
      using g(2) [OF that] uniq [OF that] f0 ob by (auto simp: expired_row_def)
    have count2: "length (filter (\<lambda>f. ?g f \<noteq> f) (db_flows db)) = Suc n"
      unfolding n
    proof (rule filter_change_one)
      show "distinct (db_flows db)" using assms(3) by (simp add: distinct_map)
      show "?g f0 \<noteq> f0" using f0(2) f(2) gf(2) by (metis final_not_active finalize_row_status)
      show "(?g y \<noteq> y) = (g y \<noteq> y)" if "y \<in> set (db_flows db)" "y \<noteq> f0" for y
        using uniq [OF that(1)] that(2) by (cases "fl_id y = i") simp_all
    qed (use f0(1) gf(1) in simp_all)
    show ?thesis
      unfolding expiry_progress_def s prod.case
      by (intro conjI exI [of _ ?g] ballI rows2 flows2)
        (use t same n' count2 in \<open>simp_all add: flow_tables_def\<close>)
  qed (use assms(2) s in simp)
qed

text \<open>
  The expiry run touches only consent flows whose window has passed (never a
  proposal, never a flow of an inactive import); it approves such a flow exactly when it has no open
  objection and rejects it otherwise, changes no decision and no objection, and returns the number
  of flows it finalized.
\<close>

lemma expiry_finalizes_expired_flows:
  assumes "finalizeExpiredApprovalFlows env c flags locked batch db = Inr (n, db')"
    and "distinct (map fl_id (db_flows db))"
  shows "expiry_progress env c flags db (n, db')"
proof (rule fold_result_inv [OF assms(1) [unfolded finalizeExpiredApprovalFlows_def]])
  show "expiry_progress env c flags db (0, db)"
    by (auto simp: expiry_progress_def intro!: exI [of _ "\<lambda>f. f"])
next
  fix i s s'
  assume "i \<in> set (expiry_batch c flags locked batch (db_flows db))"
  then have "\<exists>f \<in> set (db_flows db). fl_id f = i \<and> expired_flow c flags f"
    by (auto simp: expiry_batch_def dest!: in_set_takeD)
  moreover assume "expiry_progress env c flags db s" "expire_one env i s = Inr s'"
  ultimately show "expiry_progress env c flags db s'"
    using expire_one_progress assms(2) by blast
qed


section \<open>A concrete flow\<close>

definition example_env :: "unit approval_env" where
  "example_env =
     \<lparr>av_membership = (\<lambda>a w. Inr (Some \<lparr>mb_id = ''m1'', mb_workspace = w, mb_user = ''u1'',
        mb_role = CONTRIBUTOR, mb_active = True\<rparr>)),
      av_human = (\<lambda>m. True), av_now = 1000, av_new_id = (\<lambda>t. t @ ''-1''),
      av_readable = (\<lambda>a w x l. True), av_has_roots = (\<lambda>w x l. True),
      av_lineage = (\<lambda>a w op l. Inr l)\<rparr>"

definition example_flow :: "string \<Rightarrow> approval_mode \<Rightarrow> flow_status \<Rightarrow> approval_flow" where
  "example_flow i m s =
     \<lparr>fl_id = i, fl_workspace = ''w'', fl_subjectType = ''ACTION'', fl_subjectId = i, fl_mode = m,
      fl_status = s, fl_quorumPercent = 0, fl_minApproverCount = 1, fl_openedAt = Some 0,
      fl_closesAt = Some 500, fl_closedAt = None, fl_result = None, fl_createdBy = None\<rparr>"

definition example_rejected :: approval_flow where
  "example_rejected = finalize_row Final_rejected (calculateApprovalOutcome SINGLE 0 1 [REJECT] 1 0) 5
     (example_flow ''f3'' SINGLE FS_ACTIVE)"

definition example_rejection :: approval_decision where
  "example_rejection = \<lparr>ad_id = ''d'', ad_flow = ''f3'', ad_member = ''m1'', ad_choice = REJECT, ad_rationale = None\<rparr>"

definition example_db :: "unit approval_db" where
  "example_db =
     \<lparr>db_flows = [example_flow ''f1'' SINGLE FS_ACTIVE, example_flow ''f2'' CONSENT FS_ACTIVE,
        example_rejected],
      db_decisions = [example_rejection], db_objections = [],
      db_members = [\<lparr>mr_id = ''m1'', mr_workspace = ''w'', mr_user = ''u1'', mr_active = True,
        mr_kind = HUMAN, mr_email = ''a@b'', mr_displayName = None\<rparr>],
      db_proposals = [], db_policies = [], db_audit = [], db_events = [], db_lineage = ()\<rparr>"

lemma example_env_sel [simp]:
  "av_membership example_env a w = Inr (Some \<lparr>mb_id = ''m1'', mb_workspace = w, mb_user = ''u1'',
     mb_role = CONTRIBUTOR, mb_active = True\<rparr>)"
  "av_human example_env m" "av_now example_env = 1000" "av_new_id example_env t = t @ ''-1''"
  "av_readable example_env a w x l" "av_has_roots example_env w x l" "av_lineage example_env b w op l = Inr l"
  by (simp_all add: example_env_def)

lemma example_flow_sel [simp]:
  "fl_id (example_flow i m s) = i" "fl_workspace (example_flow i m s) = ''w''"
  "fl_subjectType (example_flow i m s) = ''ACTION''" "fl_mode (example_flow i m s) = m"
  "fl_status (example_flow i m s) = s" "fl_closesAt (example_flow i m s) = Some 500"
  "fl_minApproverCount (example_flow i m s) = 1" "fl_subjectId (example_flow i m s) = i"
  "fl_id example_rejected = ''f3''" "fl_status example_rejected = FS_REJECTED"
  "fl_mode example_rejected = SINGLE" "fl_subjectType example_rejected = ''ACTION''"
  "fl_subjectId example_rejected = ''f3''"
  by (simp_all add: example_flow_def example_rejected_def finalize_row_def set_outcome_def)

lemma example_rejected_ok [simp]: "flow_ok example_rejected"
  by (simp add: example_rejected_def final_matches_def calculateApprovalOutcome_def Let_def)

lemma example_db_sel [simp]:
  "db_flows example_db = [example_flow ''f1'' SINGLE FS_ACTIVE, example_flow ''f2'' CONSENT FS_ACTIVE,
     example_rejected]"
  "db_decisions example_db = [example_rejection]" "db_objections example_db = []"
  "db_proposals example_db = []" "ad_flow example_rejection = ''f3''" "ad_member example_rejection = ''m1''"
  by (simp_all add: example_db_def example_rejection_def)

lemma example_approvers [simp]:
  "eligibleApproverIds example_env ''w'' None (example_db\<lparr>db_decisions := ds\<rparr>) = [''m1'']"
  "eligibleApproverIds example_env ''w'' None example_db = [''m1'']"
  "workspace_members example_env ''w'' (example_db\<lparr>db_decisions := ds\<rparr>) =
     [\<lparr>mr_id = ''m1'', mr_workspace = ''w'', mr_user = ''u1'', mr_active = True, mr_kind = HUMAN,
       mr_email = ''a@b'', mr_displayName = None\<rparr>]"
  "workspace_members example_env ''w'' example_db =
     [\<lparr>mr_id = ''m1'', mr_workspace = ''w'', mr_user = ''u1'', mr_active = True, mr_kind = HUMAN,
       mr_email = ''a@b'', mr_displayName = None\<rparr>]"
  by (simp_all add: eligibleApproverIds_def workspace_members_def not_excluded_def truthy_str_def example_db_def)

abbreviation example_decision where
  "example_decision \<equiv> recordApprovalDecision example_env (resolution_actor ''w'') ''w'' ''f1'' APPROVE None example_db"

lemma example_finalize:
  "fl_subjectType (lf_flow f) \<noteq> ''PROPOSAL'' \<Longrightarrow>
   \<exists>db'. finalizeApprovalFlow example_env actor f v outcome n u by db = Inr db'"
  by (simp add: finalizeApprovalFlow_def Let_def writeFlowOutcome_def lineage_def applySubjectOutcome_def)

lemma example_settle:
  "fl_subjectType (lf_flow f) \<noteq> ''PROPOSAL'' \<Longrightarrow>
   \<exists>next db'. settle_decision example_env actor f outcome n u db = Inr (next, db')"
  using example_finalize [of f actor _ outcome n "Some u" "''decision''" db]
  by (auto simp: settle_decision_def writeFlowOutcome_def lineage_def result_simps split: option.split)

lemma example_decision_ok: "\<exists>next outcome db'. example_decision = Inr (next, outcome, db')"
proof -
  define d where "d = \<lparr>ad_id = ''ApprovalDecision-1'', ad_flow = ''f1'', ad_member = ''m1'',
      ad_choice = APPROVE, ad_rationale = trimmed_or_none None\<rparr>"
  define f where "f = \<lparr>lf_flow = example_flow ''f1'' SINGLE FS_ACTIVE, lf_decisions = [d], lf_objections = []\<rparr>"
  have "\<exists>next db'. settle_decision example_env actor f outcome n u db = Inr (next, db')" for actor outcome n u db
    by (rule example_settle) (simp add: f_def)
  then show ?thesis
    unfolding f_def d_def
    by (simp add: recordApprovalDecision_def require_flow_in_def require_flow_def loadFlow_def find_flow_def
      decision_checks_def Let_def approvalInputsReadable_def approvalSubjectRoots_def subject_kind_def
      lineage_def proposalAuthorUserIdForFlow_def assertProposalAuthorCanReview_def truthy_str_def
      assertConsentWindowOpen_def validateDecisionChoice_def store_decision_def upsert_decision_def
      flow_decisions_def open_objections_def outcomeInputRoots_def not_excluded_def result_simps)
qed

abbreviation example_expiry where
  "example_expiry \<equiv> finalizeExpiredApprovalFlows example_env (example_clock 600) [] [] 10 example_db"

lemma example_expiry_ok: "\<exists>n db'. example_expiry = Inr (n, db')"
proof -
  have b: "expiry_batch (example_clock 600) [] [] 10 (db_flows example_db) = [''f2'']"
    by (simp add: expiry_batch_def expired_flow_def example_clock_def import_inactive_def)
  show ?thesis
    unfolding finalizeExpiredApprovalFlows_def b
    using example_finalize
    by (simp add: expire_one_def Let_def loadFlow_def find_flow_def
      approvalInputsReadable_def flow_decisions_def open_objections_def outcomeInputRoots_def not_excluded_def
      proposalAuthorUserIdForFlow_def truthy_str_def lineage_def result_simps)
qed

lemma example_inv: "flow_inv (flow_tables example_db)"
  by (simp add: flow_tables_def flow_inv_iff mode_ok_def unresolved_def)
    (simp add: flow_ok_def)

theorem approval_operations_refine_machine_witness:
  "\<exists>next outcome db'. example_decision = Inr (next, outcome, db')
     \<and> flow_step\<^sup>*\<^sup>* (flow_tables example_db) (flow_tables db')"
  using example_decision_ok approval_operations_refine_machine [OF op_decide] by metis

end
