(* ===== verification/Proposal_Flows.thy ===== *)
theory Proposal_Flows
  imports Approvals
begin

text \<open>
  What \<^verbatim>\<open>packages/domain/src/proposals.ts\<close> does to the approval flow of a proposal: submitting a
  draft, returning a proposal to draft, reopening a resolved one (by a member, or by support for up
  to 25 at once), and resolving it by hand; with the two operations outside the approval module that
  touch recorded decisions, the deletion of a member and the merge of two members.  Unlike the
  operations of \<^verbatim>\<open>Approvals\<close>, these reset flows that were final and delete their decisions.

  The lineage store stays abstract: what a capture returns, whether a proof can be read and whether
  a proposal is an independent human original are arguments, as is the operator check of
  \<^verbatim>\<open>auth.ts\<close>.  The value returned to the caller is the id of the proposal (the code returns the
  row, or only its id when its content must be withheld).
\<close>

section \<open>The tables beside the flows\<close>

record deliberation_row =
  dl_workspace :: string
  dl_parentType :: string
  dl_parentId :: string
  dl_resolvedAt :: "int option"
  dl_resolvedNote :: "string option"

record evidence_document =
  dc_id :: string
  dc_workspace :: string
  dc_archivedAt :: "int option"

record evidence_row =
  ev_workspace :: string
  ev_entityType :: string
  ev_entityId :: string
  ev_document :: string
  ev_purpose :: string

record 'l proposal_db =
  pd_db :: "'l approval_db"
  pd_deliberations :: "deliberation_row list"
  pd_documents :: "evidence_document list"
  pd_evidence :: "evidence_row list"

record 'l proposal_env =
  pv_env :: "'l approval_env"
  pv_turn_id :: "string \<Rightarrow> string \<Rightarrow> string"
  pv_operator :: "app_actor \<Rightarrow> bool"
  pv_fence :: "'l \<Rightarrow> unit result"
  pv_roots :: "string \<Rightarrow> artifact \<Rightarrow> 'l \<Rightarrow> artifact list option"
  pv_captured :: "lineage_op \<Rightarrow> 'l \<Rightarrow> artifact list"
  pv_proof_readable :: "app_actor \<Rightarrow> string \<Rightarrow> artifact list \<Rightarrow> 'l \<Rightarrow> bool"
  pv_human_original :: "string \<Rightarrow> artifact \<Rightarrow> 'l \<Rightarrow> bool"

section \<open>Lineage that may be withheld\<close>

text \<open>The errors after which the code keeps an unknown snapshot instead.\<close>

fun withheld_error :: "js_error \<Rightarrow> bool" where
  "withheld_error (AppError s c m) = (c \<in> set [''UNKNOWN_LINEAGE'', ''SOURCE_RESTRICTED''])"
| "withheld_error _ = False"

definition or_when_withheld :: "'a result \<Rightarrow> 'a result \<Rightarrow> 'a result" where
  "or_when_withheld r r' = (case r of Inr x \<Rightarrow> Inr x | Inl e \<Rightarrow> if withheld_error e then r' else Inl e)"

definition preserve_snapshot ::
    "'l approval_env \<Rightarrow> app_actor \<Rightarrow> string \<Rightarrow> artifact \<Rightarrow> 'l approval_db \<Rightarrow> 'l approval_db result" where
  "preserve_snapshot env actor w a db =
     or_when_withheld (lineage env (Some actor) w (L_snapshot_proof a) db)
       (lineage env None w (L_preserve_unknown a) db)"

definition preserveApprovalFlowHistory ::
    "'l approval_env \<Rightarrow> app_actor \<Rightarrow> string \<Rightarrow> approval_flow \<Rightarrow> 'l approval_db \<Rightarrow> 'l approval_db result" where
  "preserveApprovalFlowHistory env actor w flow db =
     fold_result (preserve_snapshot env actor w)
       ((''ApprovalFlow'', fl_id flow)
        # map (\<lambda>d. (''ApprovalDecision'', ad_id d)) (flow_decisions (fl_id flow) db)
        @ map (\<lambda>ob. (''Objection'', oj_id ob)) (filter (\<lambda>ob. oj_flow ob = fl_id flow) (db_objections db))) db"

definition preserveProposalResetHistory ::
    "'l approval_env \<Rightarrow> app_actor \<Rightarrow> string \<Rightarrow> string \<Rightarrow> 'l approval_db \<Rightarrow> 'l approval_db result" where
  "preserveProposalResetHistory env actor w proposalId db =
     fold_result (preserve_snapshot env actor w)
       ((''Proposal'', proposalId)
        # map (\<lambda>c. (''PolicyCorpus'', pc_id c))
            (filter (\<lambda>c. pc_workspace c = w \<and> pc_proposal c = proposalId) (db_policies db))) db"

definition advanceProposalResetProof ::
    "'l approval_env \<Rightarrow> app_actor \<Rightarrow> string \<Rightarrow> string \<Rightarrow> 'l approval_db \<Rightarrow> 'l approval_db result" where
  "advanceProposalResetProof env actor w proposalId db =
     or_when_withheld (lineage env (Some actor) w (L_advance_human (''Proposal'', proposalId)) db)
       (lineage env None w (L_invalidate (''Proposal'', proposalId)) db)"

section \<open>The flow of a proposal\<close>

definition proposal_flow :: "string \<Rightarrow> 'l approval_db \<Rightarrow> approval_flow option" where
  "proposal_flow i db = find (\<lambda>f. fl_subjectType f = ''PROPOSAL'' \<and> fl_subjectId f = i) (db_flows db)"

definition find_proposal :: "string \<Rightarrow> string \<Rightarrow> 'l approval_db \<Rightarrow> proposal_row result" where
  "find_proposal w i db =
     (case find (\<lambda>p. pr_id p = i) (db_proposals db) of
        None \<Rightarrow> Inl (AppError 404 ''NOT_FOUND'' ''Proposal not found.'')
      | Some p \<Rightarrow> and_then (invariant (pr_workspace p = w) 404 ''NOT_FOUND'' ''Proposal not found.'') (\<lambda>_. Inr p))"

definition readable_proposal ::
    "'l approval_env \<Rightarrow> app_actor \<Rightarrow> string \<Rightarrow> string \<Rightarrow> 'l approval_db \<Rightarrow> proposal_row result" where
  "readable_proposal env actor w i db =
     and_then (find_proposal w i db) (\<lambda>p.
     and_then (invariant (av_readable env actor w (''Proposal'', i) (db_lineage db)) 404 ''NOT_FOUND''
                 ''Proposal not found.'') (\<lambda>_. Inr p))"

definition draft_of :: "proposal_row \<Rightarrow> draft_record" where
  "draft_of p =
     \<lparr>dr_workspace = pr_workspace p, dr_author = pr_author p, dr_requester = None,
      dr_owner_member = pr_ownerMember p, dr_archivedAt = pr_archivedAt p\<rparr>"

definition update_proposal ::
    "string \<Rightarrow> (proposal_row \<Rightarrow> proposal_row) \<Rightarrow> 'l approval_db \<Rightarrow> 'l approval_db" where
  "update_proposal i g db = db\<lparr>db_proposals := map (\<lambda>p. if pr_id p = i then g p else p) (db_proposals db)\<rparr>"

text \<open>\<^verbatim>\<open>deleteMany\<close> on the decisions, the objections and the policy of a flow's proposal.\<close>

definition clear_votes :: "string \<Rightarrow> 'l approval_db \<Rightarrow> 'l approval_db" where
  "clear_votes i db =
     db\<lparr>db_decisions := filter (\<lambda>d. ad_flow d \<noteq> i) (db_decisions db),
        db_objections := filter (\<lambda>ob. oj_flow ob \<noteq> i) (db_objections db)\<rparr>"

definition clear_policies :: "string \<Rightarrow> 'l approval_db \<Rightarrow> 'l approval_db" where
  "clear_policies proposalId db =
     db\<lparr>db_policies := filter (\<lambda>c. pc_proposal c \<noteq> proposalId) (db_policies db)\<rparr>"

definition reset_flow_row :: "flow_status \<Rightarrow> int option \<Rightarrow> approval_flow \<Rightarrow> approval_flow" where
  "reset_flow_row status openedAt f =
     f\<lparr>fl_status := status, fl_openedAt := openedAt, fl_closesAt := None, fl_closedAt := None,
       fl_result := None\<rparr>"

text \<open>
  \<^verbatim>\<open>writeProposalApprovalFlow\<close>: a write that clears the result invalidates the flow's lineage
  instead of advancing it.
\<close>

definition writeProposalApprovalFlow ::
    "'l approval_env \<Rightarrow> app_actor \<Rightarrow> string \<Rightarrow> approval_flow \<Rightarrow> (approval_flow \<Rightarrow> approval_flow) \<Rightarrow> bool
     \<Rightarrow> 'l approval_db \<Rightarrow> 'l approval_db result" where
  "writeProposalApprovalFlow env actor w before g clears_result db =
     (let db1 = update_flow (fl_id before) g db
      in if clears_result then lineage env None w (L_invalidate (''ApprovalFlow'', fl_id before)) db1
         else lineage env (Some actor) w (L_advance_human (''ApprovalFlow'', fl_id before)) db1)"

definition proposal_audit ::
    "string \<Rightarrow> string option \<Rightarrow> string \<Rightarrow> string \<Rightarrow> json \<Rightarrow> 'l approval_db \<Rightarrow> 'l approval_db" where
  "proposal_audit w user action proposalId meta db =
     db\<lparr>db_audit := db_audit db @
          [\<lparr>au_workspace = w, au_actor = user, au_action = action, au_entityType = ''Proposal'',
            au_entityId = proposalId, au_meta = meta\<rparr>]\<rparr>"

definition proposal_event :: "string \<Rightarrow> string \<Rightarrow> string \<Rightarrow> json \<Rightarrow> outbox_event" where
  "proposal_event w ty proposalId payload =
     \<lparr>oe_workspace = w, oe_type = ty, oe_aggregateType = ''Proposal'', oe_aggregateId = proposalId,
      oe_payload = payload\<rparr>"

definition recordProposalOpened ::
    "app_actor \<Rightarrow> string \<Rightarrow> proposal_row \<Rightarrow> string \<Rightarrow> 'l approval_db \<Rightarrow> 'l approval_db" where
  "recordProposalOpened actor w p flowId db =
     appendEvents [proposal_event w ''proposal.opened'' (pr_id p)
         (JObj [(''proposalId'', JStr (pr_id p)), (''flowId'', JStr flowId), (''title'', JStr (pr_title p))])]
       (proposal_audit w (actor_user actor) ''proposal.opened'' (pr_id p) (JObj [(''flowId'', JStr flowId)]) db)"

section \<open>Submitting\<close>

text \<open>\<^verbatim>\<open>publishedAt || now\<close> and \<^verbatim>\<open>publishedAt ?? now\<close> agree: a date is truthy.\<close>

definition published :: "int \<Rightarrow> proposal_row \<Rightarrow> int option" where
  "published now p = (case pr_publishedAt p of Some t \<Rightarrow> Some t | None \<Rightarrow> Some now)"

definition opened_proposal :: "int \<Rightarrow> proposal_row \<Rightarrow> proposal_row" where
  "opened_proposal now p =
     p\<lparr>pr_status := ''OPEN'', pr_isPrivate := False, pr_publishedAt := published now p,
       pr_autoApproveAt := None\<rparr>"

definition submitProposal ::
    "'l approval_env \<Rightarrow> app_actor \<Rightarrow> approval_policy list \<Rightarrow> string \<Rightarrow> string \<Rightarrow> 'l approval_db
     \<Rightarrow> (string \<times> string \<times> 'l approval_db) result" where
  "submitProposal env actor policies w i db =
     and_then (av_membership env actor w) (\<lambda>_.
     and_then (getApprovalPolicy policies w ''PROPOSAL'') (\<lambda>policy.
     and_then (readable_proposal env actor w i db) (\<lambda>p.
     and_then (invariant (pr_status p = ''DRAFT'') 400 ''INVALID_STATE'' ''Only draft proposals can be opened.'') (\<lambda>_.
     and_then (requireDraftManager (av_membership env) actor w (draft_of p)) (\<lambda>_.
     and_then (lineage env (Some actor) w (L_admit_human (''Proposal'', i)) db) (\<lambda>db1.
     and_then (activateProposalApprovalFlow env actor w i policy (av_now env) db1) (\<lambda>(flow, db2).
     and_then (lineage env (Some actor) w (L_advance_human (''Proposal'', i))
                 (update_proposal i (opened_proposal (av_now env)) db2)) (\<lambda>db3.
     Inr (i, fl_id flow, recordProposalOpened actor w p (fl_id flow) db3)))))))))"

section \<open>Returning to draft\<close>

definition drafted_proposal :: "proposal_row \<Rightarrow> proposal_row" where
  "drafted_proposal p =
     p\<lparr>pr_status := ''DRAFT'', pr_resolution := None, pr_decisionMd := None, pr_decidedAt := None,
       pr_isPrivate := True, pr_publishedAt := None, pr_autoApproveAt := None\<rparr>"

definition clear_deliberation :: "int \<Rightarrow> string \<Rightarrow> string \<Rightarrow> deliberation_row \<Rightarrow> deliberation_row" where
  "clear_deliberation now w i d =
     (if dl_workspace d = w \<and> dl_parentType d = ''PROPOSAL'' \<and> dl_parentId d = i \<and> dl_resolvedAt d = None
      then d\<lparr>dl_resolvedAt := Some now,
             dl_resolvedNote := Some ''Cleared when proposal returned to draft.''\<rparr> else d)"

definition return_flow ::
    "'l approval_env \<Rightarrow> app_actor \<Rightarrow> string \<Rightarrow> string \<Rightarrow> 'l approval_db \<Rightarrow> 'l approval_db result" where
  "return_flow env actor w i db =
     (case proposal_flow i db of
        None \<Rightarrow> Inr db
      | Some flow \<Rightarrow>
          and_then (preserveApprovalFlowHistory env actor w flow db) (\<lambda>db1.
          writeProposalApprovalFlow env actor w flow (reset_flow_row FS_DRAFT None) True
            (clear_votes (fl_id flow) db1)))"

definition returnProposalToDraft ::
    "'l proposal_env \<Rightarrow> app_actor \<Rightarrow> string \<Rightarrow> string \<Rightarrow> 'l proposal_db \<Rightarrow> (string \<times> 'l proposal_db) result" where
  "returnProposalToDraft penv actor w i pdb =
     (let env = pv_env penv; db = pd_db pdb in
     and_then (av_membership env actor w) (\<lambda>_.
     and_then (readable_proposal env actor w i db) (\<lambda>p.
     and_then (invariant (pr_status p = ''OPEN'' \<or> pr_status p = ''RESOLVED'') 400 ''INVALID_STATE''
                 ''Only open or resolved proposals can be returned to draft.'') (\<lambda>_.
     and_then (requireDraftManager (av_membership env) actor w (draft_of p)) (\<lambda>_.
     and_then (lineage env (Some actor) w (L_admit_human (''Proposal'', i)) db) (\<lambda>db1.
     and_then (preserveProposalResetHistory env actor w i db1) (\<lambda>db2.
     and_then (return_flow env actor w i db2) (\<lambda>db3.
     and_then (advanceProposalResetProof env actor w i
                 (update_proposal i drafted_proposal (clear_policies i db3))) (\<lambda>db4.
     Inr (i, pdb\<lparr>pd_db := appendEvents [proposal_event w ''proposal.returned_to_draft'' i
                              (JObj [(''proposalId'', JStr i)])]
                            (proposal_audit w (actor_user actor) ''proposal.returned_to_draft'' i JNull db4),
                 pd_deliberations := map (clear_deliberation (av_now env) w i) (pd_deliberations pdb)\<rparr>))))))))))"

section \<open>Reopening\<close>

definition reopened_proposal :: "int \<Rightarrow> proposal_row \<Rightarrow> proposal_row" where
  "reopened_proposal now p =
     p\<lparr>pr_status := ''OPEN'', pr_resolution := None, pr_decisionMd := None, pr_decidedAt := None,
       pr_autoApproveAt := None, pr_isPrivate := False, pr_publishedAt := published now p\<rparr>"

definition reopened_at :: "int \<Rightarrow> approval_flow \<Rightarrow> int option" where
  "reopened_at now f = (case fl_openedAt f of Some t \<Rightarrow> Some t | None \<Rightarrow> Some now)"

text \<open>The flow that is reopened: the proposal's, or a new one.\<close>

definition flow_or_new ::
    "'l approval_env \<Rightarrow> app_actor \<Rightarrow> string \<Rightarrow> string \<Rightarrow> approval_policy \<Rightarrow> string option \<Rightarrow> 'l approval_db
     \<Rightarrow> (approval_flow \<times> 'l approval_db) result" where
  "flow_or_new env actor w i policy createdBy db =
     (case proposal_flow i db of
        Some flow \<Rightarrow> Inr (flow, db)
      | None \<Rightarrow> ensureApprovalFlow env (Some actor) w ''PROPOSAL'' i policy createdBy db)"

definition cleared_counts :: "string \<Rightarrow> string \<Rightarrow> 'l approval_db \<Rightarrow> (string \<times> json) list" where
  "cleared_counts flowId proposalId db =
     [(''flowId'', JStr flowId),
      (''approvalDecisionsDeleted'', JNum (int (length (filter (\<lambda>d. ad_flow d = flowId) (db_decisions db))))),
      (''objectionsDeleted'', JNum (int (length (filter (\<lambda>ob. oj_flow ob = flowId) (db_objections db))))),
      (''policyCorpusRowsDeleted'', JNum (int (length (filter (\<lambda>c. pc_proposal c = proposalId) (db_policies db)))))]"

text \<open>
  The part both reopenings share, once the proposal has passed its checks: from the admission of the
  change to the write of the proposal.  It returns the counts for the audit row and the event.  (The
  two functions delete the policy rows before and after the write of the flow, within one
  transaction.)
\<close>

definition reopen_flow ::
    "'l approval_env \<Rightarrow> app_actor \<Rightarrow> string \<Rightarrow> string \<Rightarrow> approval_policy \<Rightarrow> string option \<Rightarrow> 'l approval_db
     \<Rightarrow> ((string \<times> json) list \<times> 'l approval_db) result" where
  "reopen_flow env actor w i policy createdBy db =
     and_then (lineage env (Some actor) w (L_admit_human (''Proposal'', i)) db) (\<lambda>db1.
     and_then (preserveProposalResetHistory env actor w i db1) (\<lambda>db2.
     and_then (flow_or_new env actor w i policy createdBy db2) (\<lambda>(flow, db3).
     and_then (preserveApprovalFlowHistory env actor w flow db3) (\<lambda>db4.
     and_then (writeProposalApprovalFlow env actor w flow
                 (reset_flow_row FS_ACTIVE (reopened_at (av_now env) flow)) True
                 (clear_policies i (clear_votes (fl_id flow) db4))) (\<lambda>db5.
     and_then (advanceProposalResetProof env actor w i
                 (update_proposal i (reopened_proposal (av_now env)) db5)) (\<lambda>db6.
     Inr (cleared_counts (fl_id flow) i db4, db6)))))))"

definition reopenProposal ::
    "'l approval_env \<Rightarrow> app_actor \<Rightarrow> approval_policy list \<Rightarrow> string \<Rightarrow> string \<Rightarrow> 'l approval_db
     \<Rightarrow> (string \<times> 'l approval_db) result" where
  "reopenProposal env actor policies w i db =
     and_then (av_membership env actor w) (\<lambda>_.
     and_then (getApprovalPolicy policies w ''PROPOSAL'') (\<lambda>policy.
     and_then (readable_proposal env actor w i db) (\<lambda>p.
     and_then (invariant (pr_archivedAt p = None) 400 ''INVALID_STATE'' ''Archived proposals cannot be reopened.'') (\<lambda>_.
     and_then (invariant (pr_status p = ''RESOLVED'') 400 ''INVALID_STATE'' ''Only resolved proposals can be reopened.'') (\<lambda>_.
     and_then (reopen_flow env actor w i policy (actor_user actor) db) (\<lambda>(counts, db1).
     Inr (i, appendEvents [proposal_event w ''proposal.reopened'' i (JObj ((''proposalId'', JStr i) # counts))]
               (proposal_audit w (actor_user actor) ''proposal.reopened'' i (JObj counts) db1))))))))"

subsection \<open>Reopening by support\<close>

definition requireSupportRepairActor :: "'l proposal_env \<Rightarrow> app_actor \<Rightarrow> unit result" where
  "requireSupportRepairActor penv actor =
     (if pv_operator penv actor then Inr ()
      else case actor of
        AgentActor a \<Rightarrow>
          invariant (ag_provider a = Auth_bootstrap
                     \<or> (case ag_scopes a of None \<Rightarrow> False | Some ss \<Rightarrow> ''support:write'' \<in> set ss))
            403 ''FORBIDDEN'' ''Support repair requires a support-scoped actor.''
      | UserActor u \<Rightarrow> Inl (AppError 403 ''FORBIDDEN'' ''Support repair requires a support-scoped actor.''))"

text \<open>\<^verbatim>\<open>Array.from(new Set(ids.map(trim).filter(Boolean)))\<close>: the first occurrence stays.\<close>

definition normalizeIds :: "string list \<Rightarrow> string list" where
  "normalizeIds ids = rev (remdups (rev (filter (\<lambda>i. i \<noteq> []) (map js_trim ids))))"

fun js_join :: "string \<Rightarrow> string list \<Rightarrow> string" where
  "js_join sep [] = []"
| "js_join sep [x] = x"
| "js_join sep (x # xs) = x @ sep @ js_join sep xs"

definition support_reopen_audit :: "string \<Rightarrow> proposal_row \<Rightarrow> (string \<times> json) list \<Rightarrow> json" where
  "support_reopen_audit reason p counts =
     JObj ([(''reason'', JStr reason), (''previousStatus'', JStr (pr_status p)),
            (''previousResolutionOutcome'', case pr_resolution p of None \<Rightarrow> JNull | Some r \<Rightarrow> JStr r),
            (''previousDecidedAt'', case pr_decidedAt p of None \<Rightarrow> JNull | Some t \<Rightarrow> JNum t)] @ counts)"

text \<open>
  One turn of the loop; the proposals were read before it.  Ids generated in the turn of a proposal
  are \<open>pv_turn_id\<close>.
\<close>

definition turn_env :: "'l proposal_env \<Rightarrow> string \<Rightarrow> 'l approval_env" where
  "turn_env penv i = (pv_env penv)\<lparr>av_new_id := pv_turn_id penv i\<rparr>"

definition support_reopen_one ::
    "'l proposal_env \<Rightarrow> app_actor \<Rightarrow> approval_policy \<Rightarrow> string \<Rightarrow> string \<Rightarrow> 'l approval_db
     \<Rightarrow> string \<Rightarrow> outbox_event list \<times> 'l approval_db \<Rightarrow> (outbox_event list \<times> 'l approval_db) result" where
  "support_reopen_one penv actor policy w reason db0 i st =
     (let (events, db) = st; env = turn_env penv i in
     and_then (find_proposal w i db0) (\<lambda>p.
     and_then (invariant (av_readable env actor w (''Proposal'', i) (db_lineage db0)) 404 ''NOT_FOUND''
                 ''Proposal not found.'') (\<lambda>_.
     and_then (invariant (pr_archivedAt p = None) 400 ''INVALID_STATE''
                 (''Archived proposal cannot be reopened: '' @ i @ ''.'')) (\<lambda>_.
     and_then (invariant (pr_status p = ''RESOLVED'') 400 ''INVALID_STATE''
                 (''Only resolved proposals can be reopened: '' @ i @ ''.'')) (\<lambda>_.
     and_then (reopen_flow env actor w i policy None db) (\<lambda>(counts, db1).
     Inr (events @ [proposal_event w ''proposal.support_reopened_resolved'' i
                      (JObj ([(''proposalId'', JStr i)] @ take 1 counts @ [(''reason'', JStr reason)] @ drop 1 counts))],
          proposal_audit w (actor_user actor) ''proposal.support_reopened_resolved'' i
            (support_reopen_audit reason p counts) db1)))))))"

definition supportReopenResolvedProposals ::
    "'l proposal_env \<Rightarrow> app_actor \<Rightarrow> approval_policy list \<Rightarrow> string \<Rightarrow> string list \<Rightarrow> string \<Rightarrow> 'l approval_db
     \<Rightarrow> (string list \<times> 'l approval_db) result" where
  "supportReopenResolvedProposals penv actor policies w proposalIds reason db =
     (let env = pv_env penv; ids = normalizeIds proposalIds;
          missing = filter (\<lambda>i. \<not> (\<exists>p \<in> set (db_proposals db). pr_id p = i \<and> pr_workspace p = w)) ids in
     and_then (requireSupportRepairActor penv actor) (\<lambda>_.
     and_then (av_membership env actor w) (\<lambda>_.
     and_then (invariant (0 < length ids) 400 ''INVALID_INPUT'' ''At least one proposal ID is required.'') (\<lambda>_.
     and_then (invariant (length ids \<le> 25) 400 ''INVALID_INPUT'' ''Cannot repair more than 25 proposals at once.'') (\<lambda>_.
     and_then (invariant (js_trim reason \<noteq> []) 400 ''INVALID_INPUT'' ''Support repair reason is required.'') (\<lambda>_.
     and_then (getApprovalPolicy policies w ''PROPOSAL'') (\<lambda>policy.
     and_then (invariant (missing = []) 404 ''NOT_FOUND''
                 (''Proposal not found: '' @ js_join '', '' missing @ ''.'')) (\<lambda>_.
     and_then (fold_result (support_reopen_one penv actor policy w (js_trim reason) db) ids ([], db)) (\<lambda>(events, db1).
     Inr (ids, appendEvents events db1))))))))))"

section \<open>Resolving by hand\<close>

definition PROPOSAL_RESOLUTION_OUTCOMES :: "string list" where
  "PROPOSAL_RESOLUTION_OUTCOMES = [''ADOPTED'', ''NOT_ADOPTED'', ''WITHDRAWN'']"

record resolution_request =
  rq_outcome :: string
  rq_decisionMd :: string
  rq_evidence :: "string list"
  rq_supplied :: "artifact list"
  rq_inputs :: "artifact list"
  rq_copied :: bool

definition manual_row :: "string \<Rightarrow> string \<Rightarrow> int \<Rightarrow> approval_flow \<Rightarrow> approval_flow" where
  "manual_row outcome md now f =
     f\<lparr>fl_status := (if outcome = ''ADOPTED'' then FS_APPROVED
                     else if outcome = ''WITHDRAWN'' then FS_WITHDRAWN else FS_REJECTED),
       fl_closedAt := Some now, fl_result := Some (Result_manual outcome md)\<rparr>"

definition hand_resolved_proposal :: "string \<Rightarrow> string \<Rightarrow> int \<Rightarrow> proposal_row \<Rightarrow> proposal_row" where
  "hand_resolved_proposal outcome md now p =
     p\<lparr>pr_status := ''RESOLVED'', pr_resolution := Some outcome, pr_decisionMd := Some md,
       pr_decidedAt := Some now, pr_autoApproveAt := None, pr_isPrivate := False,
       pr_publishedAt := published now p\<rparr>"

text \<open>A capture: the roots it returns, and the state it leaves.\<close>

definition capture ::
    "'l proposal_env \<Rightarrow> app_actor \<Rightarrow> string \<Rightarrow> lineage_op \<Rightarrow> 'l approval_db
     \<Rightarrow> (artifact list \<times> 'l approval_db) result" where
  "capture penv actor w op db =
     and_then (lineage (pv_env penv) (Some actor) w op db) (\<lambda>db1. Inr (pv_captured penv op (db_lineage db), db1))"

definition capture_unless_empty ::
    "'l proposal_env \<Rightarrow> app_actor \<Rightarrow> string \<Rightarrow> artifact list \<Rightarrow> 'l approval_db
     \<Rightarrow> (artifact list \<times> 'l approval_db) result" where
  "capture_unless_empty penv actor w as db =
     (if as = [] then Inr ([], db) else capture penv actor w (L_capture_proof as) db)"

text \<open>
  The roots a resolution rests on, with the checks in their order; the flag says whether the
  proposal stays a human original.
\<close>

definition resolution_roots ::
    "'l proposal_env \<Rightarrow> app_actor \<Rightarrow> string \<Rightarrow> resolution_request \<Rightarrow> proposal_row \<Rightarrow> approval_flow option
     \<Rightarrow> 'l approval_db \<Rightarrow> (artifact list \<times> bool \<times> 'l approval_db) result" where
  "resolution_roots penv actor w rq p flow db =
     (case pv_roots penv w (''Proposal'', pr_id p) (db_lineage db) of
        None \<Rightarrow> Inl (AppError 409 ''UNKNOWN_LINEAGE'' ''Proposal inputs cannot be verified.'')
      | Some prior \<Rightarrow>
     and_then (capture_unless_empty penv actor w
                 (map (\<lambda>i. (''Document'', i)) (normalizeIds (rq_evidence rq))) db) (\<lambda>(evidence, db1).
     and_then (capture penv actor w (L_capture_proof (rq_inputs rq)) db1) (\<lambda>(inputs, db2).
     let supplied = rq_supplied rq @ inputs in
     and_then (invariant (actor_user actor \<noteq> None \<or> supplied \<noteq> []) 409 ''UNKNOWN_LINEAGE''
                 ''Generated resolution requires its complete input receipt.'') (\<lambda>_.
     and_then (invariant (\<not> rq_copied rq \<or> supplied \<noteq> []) 409 ''UNKNOWN_LINEAGE''
                 ''Copied resolution requires its complete input receipt.'') (\<lambda>_.
     and_then (invariant (supplied = [] \<or> pv_proof_readable penv actor w supplied (db_lineage db2)) 409
                 ''SOURCE_CHANGED'' ''Resolution inputs changed before persistence.'') (\<lambda>_.
     let native = actor_user actor \<noteq> None \<and> \<not> rq_copied rq \<and> prior = [] \<and> evidence = [] \<and> supplied = []
                  \<and> rq_inputs rq = [] \<and> pv_human_original penv w (''Proposal'', pr_id p) (db_lineage db2) in
     and_then (capture penv actor w (L_snapshot_proof (''Proposal'', pr_id p)) db2) (\<lambda>(snap, db3).
     and_then (case flow of
                 None \<Rightarrow> Inr ([], db3)
               | Some f \<Rightarrow> capture penv actor w (L_snapshot_proof (''ApprovalFlow'', fl_id f)) db3) (\<lambda>(fsnap, db4).
     and_then (capture penv actor w (L_capture_immutable (snap @ fsnap @ prior @ evidence @ supplied)) db4)
       (\<lambda>(roots, db5). Inr (roots, native, db5))))))))))"

definition createWorkItemEvidenceLinks ::
    "string \<Rightarrow> string \<Rightarrow> string \<Rightarrow> string list \<Rightarrow> string \<Rightarrow> 'l proposal_db
     \<Rightarrow> (string list \<times> 'l proposal_db) result" where
  "createWorkItemEvidenceLinks w entityType entityId documentIds purpose pdb =
     (let ids = normalizeIds documentIds;
          links = map (\<lambda>i. \<lparr>ev_workspace = w, ev_entityType = entityType, ev_entityId = entityId,
                            ev_document = i, ev_purpose = purpose\<rparr>) ids;
          key = (\<lambda>e. (ev_entityType e, ev_entityId e, ev_document e, ev_purpose e))
      in if ids = [] then Inr ([], pdb)
         else and_then (invariant (length (filter (\<lambda>d. dc_id d \<in> set ids \<and> dc_workspace d = w
                                     \<and> dc_archivedAt d = None) (pd_documents pdb)) = length ids)
                          404 ''NOT_FOUND'' ''Evidence document not found.'') (\<lambda>_.
              Inr (ids, pdb\<lparr>pd_evidence := pd_evidence pdb
                     @ filter (\<lambda>e. key e \<notin> set (map key (pd_evidence pdb))) links\<rparr>)))"

text \<open>The write of the proposal with its lineage; it returns the roots of the new row.\<close>

definition write_resolution ::
    "'l proposal_env \<Rightarrow> app_actor \<Rightarrow> string \<Rightarrow> string \<Rightarrow> string \<Rightarrow> string \<Rightarrow> artifact list \<Rightarrow> bool
     \<Rightarrow> 'l approval_db \<Rightarrow> (artifact list \<times> 'l approval_db) result" where
  "write_resolution penv actor w i outcome md roots native db =
     (let env = pv_env penv in
     and_then (lineage env (Some actor) w (L_record (''Proposal'', i) (if native then [] else roots))
                 (update_proposal i (hand_resolved_proposal outcome md (av_now env)) db)) (\<lambda>db1.
     and_then (capture penv actor w (L_capture_proof [(''Proposal'', i)]) db1) (\<lambda>(own, db2).
     capture penv actor w (L_capture_immutable own) db2)))"

text \<open>The write of the flow, and of the policy of an adopted proposal.\<close>

definition write_manual_flow ::
    "'l proposal_env \<Rightarrow> app_actor \<Rightarrow> string \<Rightarrow> approval_flow option \<Rightarrow> string \<Rightarrow> string \<Rightarrow> artifact list
     \<Rightarrow> 'l approval_db \<Rightarrow> 'l approval_db result" where
  "write_manual_flow penv actor w flow outcome md roots db =
     (case flow of
        None \<Rightarrow> Inr db
      | Some f \<Rightarrow>
          lineage (pv_env penv) (Some actor) w (L_record (''ApprovalFlow'', fl_id f) roots)
            (update_flow (fl_id f) (manual_row outcome md (av_now (pv_env penv))) db))"

definition adopt_policy ::
    "'l proposal_env \<Rightarrow> app_actor \<Rightarrow> string \<Rightarrow> string \<Rightarrow> proposal_row \<Rightarrow> artifact list
     \<Rightarrow> 'l approval_db \<Rightarrow> 'l approval_db result" where
  "adopt_policy penv actor w outcome updated roots db =
     (let env = pv_env penv in
      if outcome \<noteq> ''ADOPTED'' then Inr db
      else let (policyId, policies) = upsert_policy (av_new_id env ''PolicyCorpus'') (av_now env) updated (db_policies db)
           in lineage env (Some actor) w (L_record (''PolicyCorpus'', policyId) roots)
                (db\<lparr>db_policies := policies\<rparr>))"

definition log_resolution ::
    "string \<Rightarrow> string option \<Rightarrow> string \<Rightarrow> string \<Rightarrow> approval_flow option \<Rightarrow> string list \<Rightarrow> 'l approval_db
     \<Rightarrow> 'l approval_db" where
  "log_resolution w user i outcome flow evidence db =
     (let common = [(''outcome'', JStr outcome),
                    (''flowId'', case flow of None \<Rightarrow> JNull | Some f \<Rightarrow> JStr (fl_id f)),
                    (''evidenceDocumentIds'', JArr (map JStr evidence))]
      in appendEvents
           [proposal_event w (if outcome = ''ADOPTED'' then ''proposal.approved'' else ''proposal.rejected'') i
              (JObj ([(''proposalId'', JStr i), (''subjectId'', JStr i)] @ common))]
           (proposal_audit w user ''proposal.resolved'' i (JObj common) db))"

definition resolvable ::
    "'l approval_env \<Rightarrow> app_actor \<Rightarrow> string \<Rightarrow> string \<Rightarrow> 'l approval_db \<Rightarrow> proposal_row result" where
  "resolvable env actor w i db =
     and_then (readable_proposal env actor w i db) (\<lambda>p.
     and_then (invariant (pr_status p = ''DRAFT'' \<or> pr_status p = ''OPEN'') 400 ''INVALID_STATE''
                 ''Only draft or open proposals can be resolved.'') (\<lambda>_.
     and_then (if pr_status p = ''DRAFT''
               then and_then (requireDraftManager (av_membership env) actor w (draft_of p)) (\<lambda>_. Inr ())
               else Inr ()) (\<lambda>_. Inr p)))"

definition resolveProposal ::
    "'l proposal_env \<Rightarrow> app_actor \<Rightarrow> string \<Rightarrow> string \<Rightarrow> resolution_request \<Rightarrow> 'l proposal_db
     \<Rightarrow> (proposal_row \<times> 'l proposal_db) result" where
  "resolveProposal penv actor w i rq pdb =
     (let env = pv_env penv; db = pd_db pdb; outcome = rq_outcome rq; md = js_trim (rq_decisionMd rq);
          flow = proposal_flow i db in
     and_then (invariant (outcome \<in> set PROPOSAL_RESOLUTION_OUTCOMES) 400 ''INVALID_INPUT''
                 ''Resolution outcome is required.'') (\<lambda>_.
     and_then (invariant (md \<noteq> []) 400 ''INVALID_INPUT'' ''Resolution note is required.'') (\<lambda>_.
     and_then (pv_fence penv (db_lineage db)) (\<lambda>_.
     and_then (av_membership env actor w) (\<lambda>_.
     and_then (resolvable env actor w i db) (\<lambda>p.
     and_then (resolution_roots penv actor w rq p flow db) (\<lambda>(roots, native, db1).
     let updated = hand_resolved_proposal outcome md (av_now env) p in
     and_then (write_resolution penv actor w i outcome md roots native db1) (\<lambda>(own, db2).
     and_then (createWorkItemEvidenceLinks w ''Proposal'' i (rq_evidence rq) ''resolution_evidence''
                 (pdb\<lparr>pd_db := db2\<rparr>)) (\<lambda>(evidence, pdb1).
     and_then (write_manual_flow penv actor w flow outcome md (roots @ own) db2) (\<lambda>db3.
     and_then (adopt_policy penv actor w outcome updated own db3) (\<lambda>db4.
     let db5 = log_resolution w (actor_user actor) i outcome flow evidence db4 in
     and_then (pv_fence penv (db_lineage db5)) (\<lambda>_.
     and_then (invariant (native \<or> pv_proof_readable penv actor w roots (db_lineage db5)) 409 ''SOURCE_CHANGED''
                 ''Resolution input permissions changed during persistence.'') (\<lambda>_.
     Inr (updated, pdb1\<lparr>pd_db := db5\<rparr>))))))))))))))"

section \<open>Members and the decisions they made\<close>

text \<open>
  \<^verbatim>\<open>tx.member.delete\<close> of \<^verbatim>\<open>adminRemoveFromWorkspace\<close>: the database deletes the member's
  decisions with the member (\<^verbatim>\<open>onDelete: Cascade\<close>).
\<close>

definition delete_member :: "string \<Rightarrow> 'l approval_db \<Rightarrow> 'l approval_db" where
  "delete_member m db =
     db\<lparr>db_members := filter (\<lambda>r. mr_id r \<noteq> m) (db_members db),
        db_decisions := filter (\<lambda>d. ad_member d \<noteq> m) (db_decisions db)\<rparr>"

text \<open>
  The merge of two members (\<^verbatim>\<open>member-merge.ts\<close>) moves the decisions of one to the other, unless
  both decided on a flow.  The conflicts in the two tables that are not modelled are arguments.
\<close>

definition decision_conflicts :: "string \<Rightarrow> string \<Rightarrow> 'l approval_db \<Rightarrow> approval_decision list" where
  "decision_conflicts source target db =
     filter (\<lambda>d. ad_member d = target
                 \<and> ad_flow d \<in> set (map ad_flow (filter (\<lambda>e. ad_member e = source) (db_decisions db))))
       (db_decisions db)"

definition merge_decisions ::
    "string \<Rightarrow> string \<Rightarrow> bool \<Rightarrow> bool \<Rightarrow> 'l approval_db \<Rightarrow> 'l approval_db result" where
  "merge_decisions source target expertise footprints db =
     (let conflicts = (if decision_conflicts source target db = [] then [] else [''approval decisions''])
                      @ (if expertise then [''member expertise''] else [])
                      @ (if footprints then [''impact footprints''] else [])
      in and_then (invariant (conflicts = []) 409 ''MEMBER_MERGE_CONFLICT''
                     (''Merge would conflict with existing '' @ js_join '', '' conflicts @ '' records.'')) (\<lambda>_.
         Inr (db\<lparr>db_decisions := map (\<lambda>d. if ad_member d = source then d\<lparr>ad_member := target\<rparr> else d)
                                   (db_decisions db)\<rparr>)))"

end
