(* ===== verification/Proposal_Flow_Facts.thy ===== *)
theory Proposal_Flow_Facts
  imports Proposal_Flows Approval_Invariant "HOL-Library.Sublist"
begin

text \<open>
  Every writer of approval flows and decisions in the services: the operations of
  \<^verbatim>\<open>approvals.ts\<close>, those of \<^verbatim>\<open>proposals.ts\<close>, the deletion and the merge of members, and code
  that does not touch these tables.  Together they are runs of a machine that extends the one of
  \<^verbatim>\<open>Approval_Facts\<close>; the machine keeps the invariant of the flow tables, and a finalized flow
  changes only where \<^verbatim>\<open>proposals.ts\<close> is called for its proposal.
\<close>

section \<open>Writers and runs\<close>

datatype flow_writer = Approvals_ts | Proposals_ts "string list" | Members_ts | Elsewhere

definition fresh_turn_ids :: "'l proposal_env \<Rightarrow> string list \<Rightarrow> 'l approval_db \<Rightarrow> bool" where
  "fresh_turn_ids penv is db \<longleftrightarrow>
     distinct (map (\<lambda>i. pv_turn_id penv i ''ApprovalFlow'') is)
     \<and> (\<forall>i \<in> set is. fresh_flow_id (turn_env penv i) db)"

text \<open>
  One call; the new flow ids it generates are not in use.  The label says which module made it, and
  for which proposals.  \<^verbatim>\<open>activateProposalApprovalFlow\<close> stands for the creation of a proposal,
  which calls it for the row it has inserted.
\<close>

inductive flow_write :: "flow_writer \<Rightarrow> 'l approval_db \<Rightarrow> 'l approval_db \<Rightarrow> bool" where
  w_ensure: "ensureApprovalFlow env actor w ty i p u db = Inr (f, db') \<Longrightarrow> fresh_flow_id env db
    \<Longrightarrow> flow_write Approvals_ts db db'"
| w_withdraw: "withdrawActiveApprovalFlowForSubject env w ty i reason u now db = Inr (r, db')
    \<Longrightarrow> flow_write Approvals_ts db db'"
| w_decide: "recordApprovalDecision env a w i choice rationale db = Inr (next, outcome, db')
    \<Longrightarrow> flow_write Approvals_ts db db'"
| w_object: "createObjection env a w i body db = Inr (ob, outcome, db') \<Longrightarrow> flow_write Approvals_ts db db'"
| w_settle: "resolveObjection env a w i j db = Inr (outcome, db') \<Longrightarrow> flow_write Approvals_ts db db'"
| w_expire: "finalizeExpiredApprovalFlows env c flags locked batch db = Inr (n, db')
    \<Longrightarrow> flow_write Approvals_ts db db'"
| w_activate: "activateProposalApprovalFlow env a w i p t db = Inr (f, db') \<Longrightarrow> fresh_flow_id env db
    \<Longrightarrow> flow_write (Proposals_ts [i]) db db'"
| w_submit: "submitProposal env a ps w i db = Inr (j, flowId, db') \<Longrightarrow> fresh_flow_id env db
    \<Longrightarrow> flow_write (Proposals_ts [i]) db db'"
| w_return: "returnProposalToDraft penv a w i pdb = Inr (j, pdb')
    \<Longrightarrow> flow_write (Proposals_ts [i]) (pd_db pdb) (pd_db pdb')"
| w_reopen: "reopenProposal env a ps w i db = Inr (j, db') \<Longrightarrow> fresh_flow_id env db
    \<Longrightarrow> flow_write (Proposals_ts [i]) db db'"
| w_support: "supportReopenResolvedProposals penv a ps w is reason db = Inr (js, db')
    \<Longrightarrow> fresh_turn_ids penv js db \<Longrightarrow> flow_write (Proposals_ts js) db db'"
| w_resolve: "resolveProposal penv a w i rq pdb = Inr (p, pdb')
    \<Longrightarrow> flow_write (Proposals_ts [i]) (pd_db pdb) (pd_db pdb')"
| w_delete: "flow_write Members_ts db (delete_member m db)"
| w_merge: "merge_decisions source target e fp db = Inr db' \<Longrightarrow> flow_write Members_ts db db'"
| w_elsewhere: "flow_tables db' = flow_tables db \<Longrightarrow> flow_write Elsewhere db db'"

inductive_cases flow_writeE: "flow_write l db db'"

inductive flow_run :: "flow_writer list \<Rightarrow> 'l approval_db \<Rightarrow> 'l approval_db \<Rightarrow> bool" where
  run_done: "flow_run [] db db"
| run_next: "flow_write l db db1 \<Longrightarrow> flow_run ls db1 db' \<Longrightarrow> flow_run (l # ls) db db'"

section \<open>The machine\<close>

definition rename_member :: "string \<Rightarrow> string \<Rightarrow> approval_decision \<Rightarrow> approval_decision" where
  "rename_member source target d = (if ad_member d = source then d\<lparr>ad_member := target\<rparr> else d)"

inductive flow_move :: "flow_writer \<Rightarrow> flow_tables \<Rightarrow> flow_tables \<Rightarrow> bool" where
  move_decision: "decision_step s s' \<Longrightarrow> flow_move l s s'"
| move_activate: "f \<in> set fs \<Longrightarrow> fl_subjectType f = ''PROPOSAL'' \<Longrightarrow> fl_subjectId f \<in> set is
    \<Longrightarrow> flow_move (Proposals_ts is) (fs, ds, obs) (map_flow (fl_id f) (activate_row p t) fs, ds, obs)"
| move_reset: "f \<in> set fs \<Longrightarrow> fl_subjectType f = ''PROPOSAL'' \<Longrightarrow> fl_subjectId f \<in> set is
    \<Longrightarrow> st = FS_DRAFT \<or> st = FS_ACTIVE
    \<Longrightarrow> flow_move (Proposals_ts is) (fs, ds, obs)
          (map_flow (fl_id f) (reset_flow_row st opened) fs, filter (\<lambda>d. ad_flow d \<noteq> fl_id f) ds,
           filter (\<lambda>ob. oj_flow ob \<noteq> fl_id f) obs)"
| move_manual: "f \<in> set fs \<Longrightarrow> fl_subjectType f = ''PROPOSAL'' \<Longrightarrow> fl_subjectId f \<in> set is
    \<Longrightarrow> flow_move (Proposals_ts is) (fs, ds, obs) (map_flow (fl_id f) (manual_row outcome md t) fs, ds, obs)"
| move_delete: "flow_move Members_ts (fs, ds, obs) (fs, filter (\<lambda>d. ad_member d \<noteq> m) ds, obs)"
| move_merge: "\<forall>d \<in> set ds. \<forall>e \<in> set ds. ad_member d = target \<and> ad_member e = source \<longrightarrow> ad_flow d \<noteq> ad_flow e
    \<Longrightarrow> flow_move Members_ts (fs, ds, obs) (fs, map (rename_member source target) ds, obs)"

lemma decision_moves: "decision_step\<^sup>*\<^sup>* s s' \<Longrightarrow> (flow_move l)\<^sup>*\<^sup>* s s'"
  by (induction rule: rtranclp_induct) (auto intro: move_decision rtranclp.rtrancl_into_rtrancl)

lemma flow_move_mono:
  "flow_move (Proposals_ts is) s s' \<Longrightarrow> set is \<subseteq> set js \<Longrightarrow> flow_move (Proposals_ts js) s s'"
  by (erule flow_move.cases) (auto intro: flow_move.intros)

lemma flow_moves_mono:
  "(flow_move (Proposals_ts is))\<^sup>*\<^sup>* s s' \<Longrightarrow> set is \<subseteq> set js \<Longrightarrow> (flow_move (Proposals_ts js))\<^sup>*\<^sup>* s s'"
  by (induction rule: rtranclp_induct) (auto intro: flow_move_mono rtranclp.rtrancl_into_rtrancl)

section \<open>What the parts of an operation change\<close>

lemma or_when_withheld_Inr: "or_when_withheld r r' = Inr x \<Longrightarrow> r = Inr x \<or> r' = Inr x"
  by (auto simp: or_when_withheld_def split: sum.splits if_splits)

lemma preserve_snapshot_Inr: "preserve_snapshot env a w x db = Inr db' \<Longrightarrow> \<exists>l. db' = db\<lparr>db_lineage := l\<rparr>"
  by (auto simp: preserve_snapshot_def result_simps dest!: or_when_withheld_Inr)

lemma preserve_all_Inr:
  assumes "fold_result (preserve_snapshot env a w) xs db = Inr db'"
  shows "\<exists>l. db' = db\<lparr>db_lineage := l\<rparr>"
proof (rule fold_result_inv [OF assms])
  show "\<exists>l. db = db\<lparr>db_lineage := l\<rparr>" by (rule exI [of _ "db_lineage db"]) simp
qed (fastforce dest: preserve_snapshot_Inr)

lemma history_Inr:
  "preserveApprovalFlowHistory env a w f db = Inr db' \<Longrightarrow> \<exists>l. db' = db\<lparr>db_lineage := l\<rparr>"
  "preserveProposalResetHistory env a w i db = Inr db' \<Longrightarrow> \<exists>l. db' = db\<lparr>db_lineage := l\<rparr>"
  "advanceProposalResetProof env a w i db = Inr db' \<Longrightarrow> \<exists>l. db' = db\<lparr>db_lineage := l\<rparr>"
  by (auto simp: preserveApprovalFlowHistory_def preserveProposalResetHistory_def
      advanceProposalResetProof_def result_simps dest!: or_when_withheld_Inr dest: preserve_all_Inr
      simp del: fold_result.simps)

lemma write_flow_Inr:
  "writeProposalApprovalFlow env a w f g c db = Inr db' \<Longrightarrow> \<exists>l. db' = update_flow (fl_id f) g db\<lparr>db_lineage := l\<rparr>"
  by (auto simp: writeProposalApprovalFlow_def Let_def result_simps split: if_splits)

lemma capture_Inr: "capture penv a w op db = Inr (r, db') \<Longrightarrow> \<exists>l. db' = db\<lparr>db_lineage := l\<rparr>"
  by (auto simp: capture_def result_simps)

lemma flow_tables_other [simp]:
  "flow_tables (update_proposal i g db) = flow_tables db"
  "flow_tables (clear_policies i db) = flow_tables db"
  "flow_tables (appendEvents es db) = flow_tables db"
  "flow_tables (proposal_audit w u a i j db) = flow_tables db"
  "flow_tables (recordProposalOpened actor w p i db) = flow_tables db"
  "flow_tables (log_resolution w u i out f ev db) = flow_tables db"
  "flow_tables (db\<lparr>db_policies := ps\<rparr>) = flow_tables db"
  by (simp_all add: flow_tables_def update_proposal_def clear_policies_def appendEvents_def
      proposal_audit_def recordProposalOpened_def log_resolution_def Let_def)

lemma flow_tables_update:
  "flow_tables (update_flow i g db) = (map_flow i g (db_flows db), db_decisions db, db_objections db)"
  "flow_tables (clear_votes i db) = (db_flows db, filter (\<lambda>d. ad_flow d \<noteq> i) (db_decisions db),
     filter (\<lambda>ob. oj_flow ob \<noteq> i) (db_objections db))"
  by (simp_all add: flow_tables_def update_flow_def clear_votes_def)

lemma proposal_flow_Some:
  "proposal_flow i db = Some f \<Longrightarrow> f \<in> set (db_flows db) \<and> fl_subjectType f = ''PROPOSAL'' \<and> fl_subjectId f = i"
  by (auto simp: proposal_flow_def find_Some_iff)

lemma proposal_flow_lineage [simp]: "proposal_flow i (db\<lparr>db_lineage := l\<rparr>) = proposal_flow i db"
  by (simp add: proposal_flow_def)

lemma ensureApprovalFlow_subject:
  "ensureApprovalFlow env a w ty i p u db = Inr (f, db') \<Longrightarrow> fl_subjectId f = i \<and> fl_subjectType f = ty"
  by (auto simp: ensureApprovalFlow_def Let_def result_simps find_Some_iff split: option.splits if_splits)

section \<open>Every writer is a run of the machine\<close>

lemma activate_moves:
  assumes "activateProposalApprovalFlow env a w i p t db = Inr (f, db')" "fresh_flow_id env db"
  shows "(flow_move (Proposals_ts [i]))\<^sup>*\<^sup>* (flow_tables db) (flow_tables db')"
proof -
  from assms(1) obtain db1 l where
    e: "ensureApprovalFlow env (Some a) w ''PROPOSAL'' i p (actor_user a) db = Inr (f, db1)"
    and db': "db' = update_flow (fl_id f) (activate_row p t) db1\<lparr>db_lineage := l\<rparr>"
    by (auto simp: activateProposalApprovalFlow_def result_simps)
  note opened = ensureApprovalFlow_steps [OF e assms(2)] ensureApprovalFlow_subject [OF e]
  then have "flow_move (Proposals_ts [i]) (flow_tables db1) (flow_tables db')"
    using move_activate [of f "db_flows db1" "[i]" "db_decisions db1" "db_objections db1" p t]
    by (simp add: db' flow_tables_update) (simp add: flow_tables_def)
  moreover have "(flow_move (Proposals_ts [i]))\<^sup>*\<^sup>* (flow_tables db) (flow_tables db1)"
    using opened by (blast intro: decision_moves)
  ultimately show ?thesis by (rule rtranclp.rtrancl_into_rtrancl [rotated])
qed

lemma submit_moves:
  assumes "submitProposal env a ps w i db = Inr (j, flowId, db')" "fresh_flow_id env db"
  shows "(flow_move (Proposals_ts [i]))\<^sup>*\<^sup>* (flow_tables db) (flow_tables db')"
proof -
  from assms(1) obtain p l1 f db2 l3 t where
    "activateProposalApprovalFlow env a w i p t (db\<lparr>db_lineage := l1\<rparr>) = Inr (f, db2)"
    "flow_tables db' = flow_tables (db2\<lparr>db_lineage := l3\<rparr>)"
    by (auto simp: submitProposal_def result_simps simp del: and_then_invariant)
  with activate_moves [of env a w i p t "db\<lparr>db_lineage := l1\<rparr>" f db2] assms(2) show ?thesis
    by (simp add: fresh_flow_id_def)
qed

lemma reset_moves:
  assumes "f \<in> set (db_flows db)" "fl_subjectType f = ''PROPOSAL''" "fl_subjectId f = i"
    "st = FS_DRAFT \<or> st = FS_ACTIVE"
    "flow_tables db' = flow_tables (update_flow (fl_id f) (reset_flow_row st o') (clear_votes (fl_id f) db))"
  shows "flow_move (Proposals_ts [i]) (flow_tables db) (flow_tables db')"
  using move_reset [of f "db_flows db" "[i]" st "db_decisions db" "db_objections db" o'] assms
  by (simp add: flow_tables_update clear_votes_def) (simp add: flow_tables_def)

text \<open>
  Returning a proposal to draft takes its flow back whatever its status was: the result and the dates
  are gone, and with them every decision and objection on it.
\<close>

lemma return_effect:
  assumes "returnProposalToDraft penv a w i pdb = Inr (j, pdb')"
  shows "flow_tables (pd_db pdb') =
     (case proposal_flow i (pd_db pdb) of
        None \<Rightarrow> flow_tables (pd_db pdb)
      | Some f \<Rightarrow> flow_tables (update_flow (fl_id f) (reset_flow_row FS_DRAFT None) (clear_votes (fl_id f) (pd_db pdb))))"
proof -
  let ?env = "pv_env penv"
  from assms obtain l1 db2 db3 db4 where
    h: "preserveProposalResetHistory ?env a w i (pd_db pdb\<lparr>db_lineage := l1\<rparr>) = Inr db2"
    and r: "return_flow ?env a w i db2 = Inr db3"
    and p: "advanceProposalResetProof ?env a w i (update_proposal i drafted_proposal (clear_policies i db3)) = Inr db4"
    and t: "flow_tables (pd_db pdb') = flow_tables db4"
    by (auto simp: returnProposalToDraft_def Let_def result_simps simp del: and_then_invariant)
  from history_Inr(2) [OF h] obtain l2 where l2: "db2 = pd_db pdb\<lparr>db_lineage := l2\<rparr>" by auto
  have t3: "flow_tables (pd_db pdb') = flow_tables db3"
    using history_Inr(3) [OF p] t by auto
  show ?thesis
  proof (cases "proposal_flow i db2")
    case None
    with r have "db3 = db2" by (simp add: return_flow_def)
    with t3 l2 None show ?thesis by simp
  next
    case (Some f)
    with r obtain dbh where hh: "preserveApprovalFlowHistory ?env a w f db2 = Inr dbh"
      and wr: "writeProposalApprovalFlow ?env a w f (reset_flow_row FS_DRAFT None) True (clear_votes (fl_id f) dbh) = Inr db3"
      by (auto simp: return_flow_def result_simps)
    from Some have "proposal_flow i (pd_db pdb) = Some f" by (simp add: l2)
    with history_Inr(1) [OF hh] write_flow_Inr [OF wr] t3 l2 show ?thesis
      by (auto simp: flow_tables_update clear_votes_def)
  qed
qed

lemma return_moves:
  assumes "returnProposalToDraft penv a w i pdb = Inr (j, pdb')"
  shows "(flow_move (Proposals_ts [i]))\<^sup>*\<^sup>* (flow_tables (pd_db pdb)) (flow_tables (pd_db pdb'))"
proof (cases "proposal_flow i (pd_db pdb)")
  case None
  with return_effect [OF assms] show ?thesis by simp
next
  case (Some f)
  with return_effect [OF assms] reset_moves [of f "pd_db pdb" i FS_DRAFT "pd_db pdb'"] proposal_flow_Some [OF Some]
  show ?thesis by auto
qed

lemma reopen_flow_moves:
  assumes "reopen_flow env a w i p u db = Inr (counts, db')" "fresh_flow_id env db"
  shows "(flow_move (Proposals_ts [i]))\<^sup>*\<^sup>* (flow_tables db) (flow_tables db')"
proof -
  from assms(1) obtain l1 db2 f db3 db4 db5 where
    h: "preserveProposalResetHistory env a w i (db\<lparr>db_lineage := l1\<rparr>) = Inr db2"
    and fl: "flow_or_new env a w i p u db2 = Inr (f, db3)"
    and hh: "preserveApprovalFlowHistory env a w f db3 = Inr db4"
    and wr: "writeProposalApprovalFlow env a w f (reset_flow_row FS_ACTIVE (reopened_at (av_now env) f)) True
          (clear_policies i (clear_votes (fl_id f) db4)) = Inr db5"
    and pr: "advanceProposalResetProof env a w i (update_proposal i (reopened_proposal (av_now env)) db5) = Inr db'"
    by (auto simp: reopen_flow_def result_simps)
  from history_Inr(2) [OF h] obtain l2 where l2: "db2 = db\<lparr>db_lineage := l2\<rparr>" by auto
  have opened: "(flow_move (Proposals_ts [i]))\<^sup>*\<^sup>* (flow_tables db) (flow_tables db3)
      \<and> f \<in> set (db_flows db3) \<and> fl_subjectType f = ''PROPOSAL'' \<and> fl_subjectId f = i"
  proof (cases "proposal_flow i db2")
    case None
    with fl have e: "ensureApprovalFlow env (Some a) w ''PROPOSAL'' i p u db2 = Inr (f, db3)"
      by (simp add: flow_or_new_def)
    have "fresh_flow_id env db2" using assms(2) by (simp add: l2 fresh_flow_id_def)
    from ensureApprovalFlow_steps [OF e this] ensureApprovalFlow_subject [OF e] show ?thesis
      using decision_moves by (fastforce simp: l2)
  next
    case (Some g)
    with fl have "g = f" "db3 = db2" by (simp_all add: flow_or_new_def)
    with proposal_flow_Some [OF Some] show ?thesis by (simp add: l2)
  qed
  from history_Inr(1) [OF hh] write_flow_Inr [OF wr] history_Inr(3) [OF pr]
  have "flow_tables db' = flow_tables (update_flow (fl_id f) (reset_flow_row FS_ACTIVE (reopened_at (av_now env) f))
      (clear_votes (fl_id f) db3))"
    by (auto simp: flow_tables_update clear_votes_def clear_policies_def)
  with opened reset_moves [of f db3 i FS_ACTIVE db'] show ?thesis
    by (blast intro: rtranclp.rtrancl_into_rtrancl)
qed

lemma reopen_moves:
  assumes "reopenProposal env a ps w i db = Inr (j, db')" "fresh_flow_id env db"
  shows "(flow_move (Proposals_ts [i]))\<^sup>*\<^sup>* (flow_tables db) (flow_tables db')"
proof -
  from assms(1) obtain p counts db1 where "reopen_flow env a w i p (actor_user a) db = Inr (counts, db1)"
    "flow_tables db' = flow_tables db1"
    by (auto simp: reopenProposal_def result_simps simp del: and_then_invariant)
  with reopen_flow_moves [OF _ assms(2)] show ?thesis by simp
qed

text \<open>The flows a turn of the support loop adds have its own id.\<close>

lemma reopen_flow_ids:
  assumes "reopen_flow env a w i p u db = Inr (counts, db')"
  shows "set (map fl_id (db_flows db')) \<subseteq> insert (av_new_id env ''ApprovalFlow'') (set (map fl_id (db_flows db)))"
proof -
  from assms obtain l1 db2 f db3 db4 db5 where
    h: "preserveProposalResetHistory env a w i (db\<lparr>db_lineage := l1\<rparr>) = Inr db2"
    and fl: "flow_or_new env a w i p u db2 = Inr (f, db3)"
    and hh: "preserveApprovalFlowHistory env a w f db3 = Inr db4"
    and wr: "writeProposalApprovalFlow env a w f (reset_flow_row FS_ACTIVE (reopened_at (av_now env) f)) True
          (clear_policies i (clear_votes (fl_id f) db4)) = Inr db5"
    and pr: "advanceProposalResetProof env a w i (update_proposal i (reopened_proposal (av_now env)) db5) = Inr db'"
    by (auto simp: reopen_flow_def result_simps)
  have "set (map fl_id (db_flows db3)) \<subseteq> insert (av_new_id env ''ApprovalFlow'') (set (map fl_id (db_flows db2)))"
    using fl by (auto simp: flow_or_new_def ensureApprovalFlow_def Let_def result_simps
        dest!: approvalSubjectRoots_Inr split: option.splits if_splits)
  moreover have "map fl_id (db_flows db') = map fl_id (db_flows db3)"
    using history_Inr(1) [OF hh] write_flow_Inr [OF wr] history_Inr(3) [OF pr]
    by (auto simp: update_flow_def clear_policies_def clear_votes_def update_proposal_def reset_flow_row_def)
  ultimately show ?thesis using history_Inr(2) [OF h] by auto
qed

lemma support_turns_move:
  assumes "fold_result (support_reopen_one penv a p w reason db0) is (es, db) = Inr (es', db')"
    and "distinct (map (\<lambda>i. pv_turn_id penv i ''ApprovalFlow'') is)"
    and "\<forall>i \<in> set is. pv_turn_id penv i ''ApprovalFlow'' \<notin> set (map fl_id (db_flows db))"
  shows "(flow_move (Proposals_ts is))\<^sup>*\<^sup>* (flow_tables db) (flow_tables db')"
  using assms
proof (induction "is" arbitrary: es db)
  case Nil
  then show ?case by simp
next
  case (Cons i "is")
  from Cons.prems(1) obtain es1 db1 where one: "support_reopen_one penv a p w reason db0 i (es, db) = Inr (es1, db1)"
    and rest: "fold_result (support_reopen_one penv a p w reason db0) is (es1, db1) = Inr (es', db')"
    by (auto simp: result_simps)
  from one obtain counts db2 where r: "reopen_flow (turn_env penv i) a w i p None db = Inr (counts, db2)"
    and t: "flow_tables db1 = flow_tables db2"
    by (auto simp: support_reopen_one_def Let_def result_simps simp del: and_then_invariant)
  have "fresh_flow_id (turn_env penv i) db"
    using Cons.prems(3) by (simp add: fresh_flow_id_def turn_env_def)
  from reopen_flow_moves [OF r this] have first: "(flow_move (Proposals_ts (i # is)))\<^sup>*\<^sup>* (flow_tables db) (flow_tables db1)"
    unfolding t by (rule flow_moves_mono) simp
  have "db_flows db1 = db_flows db2" using t by (simp add: flow_tables_def)
  moreover have "av_new_id (turn_env penv i) t = pv_turn_id penv i t" for t by (simp add: turn_env_def)
  ultimately have ids: "set (map fl_id (db_flows db1))
      \<subseteq> insert (pv_turn_id penv i ''ApprovalFlow'') (set (map fl_id (db_flows db)))"
    using reopen_flow_ids [OF r] by simp
  have "\<forall>j \<in> set is. pv_turn_id penv j ''ApprovalFlow'' \<notin> set (map fl_id (db_flows db1))"
  proof
    fix j assume j: "j \<in> set is"
    with Cons.prems(2,3) have "pv_turn_id penv j ''ApprovalFlow'' \<notin>
        insert (pv_turn_id penv i ''ApprovalFlow'') (set (map fl_id (db_flows db)))"
      by (force simp: image_iff)
    with ids show "pv_turn_id penv j ''ApprovalFlow'' \<notin> set (map fl_id (db_flows db1))" by blast
  qed
  with Cons.IH [OF rest] Cons.prems(2)
  have "(flow_move (Proposals_ts is))\<^sup>*\<^sup>* (flow_tables db1) (flow_tables db')" by simp
  then have "(flow_move (Proposals_ts (i # is)))\<^sup>*\<^sup>* (flow_tables db1) (flow_tables db')"
    by (rule flow_moves_mono) auto
  with first show ?case by (rule rtranclp_trans)
qed

lemma support_moves:
  assumes "supportReopenResolvedProposals penv a ps w is reason db = Inr (js, db')" "fresh_turn_ids penv js db"
  shows "(flow_move (Proposals_ts js))\<^sup>*\<^sup>* (flow_tables db) (flow_tables db')"
proof -
  from assms(1) obtain p es db1 where
    "fold_result (support_reopen_one penv a p w (js_trim reason) db) js ([], db) = Inr (es, db1)"
    "flow_tables db' = flow_tables db1"
    by (auto simp: supportReopenResolvedProposals_def Let_def result_simps simp del: and_then_invariant fold_result.simps)
  with support_turns_move [of penv a p w "js_trim reason" db js "[]" db es db1] assms(2) show ?thesis
    by (simp add: fresh_turn_ids_def fresh_flow_id_def turn_env_def)
qed

lemma resolution_roots_Inr:
  "resolution_roots penv a w rq p flow db = Inr (roots, native, db') \<Longrightarrow> flow_tables db' = flow_tables db"
  by (auto simp: resolution_roots_def Let_def result_simps capture_unless_empty_def
      dest!: capture_Inr split: option.splits if_splits simp del: and_then_invariant)

lemma resolve_moves:
  assumes "resolveProposal penv a w i rq pdb = Inr (p, pdb')"
  shows "(flow_move (Proposals_ts [i]))\<^sup>*\<^sup>* (flow_tables (pd_db pdb)) (flow_tables (pd_db pdb'))"
proof -
  let ?out = "rq_outcome rq" and ?md = "js_trim (rq_decisionMd rq)" and ?flow = "proposal_flow i (pd_db pdb)"
  from assms obtain p roots native db1 own db2 db3 db4 where
    r: "resolution_roots penv a w rq p ?flow (pd_db pdb) = Inr (roots, native, db1)"
    and wr: "write_resolution penv a w i ?out ?md roots native db1 = Inr (own, db2)"
    and fl: "write_manual_flow penv a w ?flow ?out ?md (roots @ own) db2 = Inr db3"
    and ad: "adopt_policy penv a w ?out (hand_resolved_proposal ?out ?md (av_now (pv_env penv)) p) own db3 = Inr db4"
    and t: "flow_tables (pd_db pdb') = flow_tables db4"
    by (auto simp: resolveProposal_def Let_def result_simps simp del: and_then_invariant)
  have t2: "flow_tables db2 = flow_tables (pd_db pdb)"
    using resolution_roots_Inr [OF r] wr
    by (auto simp: write_resolution_def Let_def result_simps dest!: capture_Inr)
  have t4: "flow_tables (pd_db pdb') = flow_tables db3"
    using ad t by (auto simp: adopt_policy_def Let_def result_simps split: if_splits prod.splits)
  show ?thesis
  proof (cases ?flow)
    case None
    with fl t2 t4 show ?thesis by (simp add: write_manual_flow_def)
  next
    case (Some f)
    from proposal_flow_Some [OF this] have f: "f \<in> set (db_flows (pd_db pdb))" "fl_subjectType f = ''PROPOSAL''"
      "fl_subjectId f = i" by simp_all
    from fl Some have "flow_tables db3 = (map_flow (fl_id f) (manual_row ?out ?md (av_now (pv_env penv)))
        (db_flows db2), db_decisions db2, db_objections db2)"
      by (auto simp: write_manual_flow_def result_simps flow_tables_update)
    with move_manual [OF f(1,2), of "[i]"] f(3) t2 t4 show ?thesis by (auto simp: flow_tables_def)
  qed
qed

lemma merge_moves:
  assumes "merge_decisions source target e fp db = Inr db'"
  shows "flow_move Members_ts (flow_tables db) (flow_tables db')"
proof -
  have "decision_conflicts source target db = []"
    "flow_tables db' = (db_flows db, map (rename_member source target) (db_decisions db), db_objections db)"
    using assms by (auto simp: merge_decisions_def Let_def result_simps flow_tables_def rename_member_def
        split: if_splits)
  then show ?thesis
    unfolding flow_tables_def
    by (auto simp: decision_conflicts_def filter_empty_conv intro!: move_merge)
qed

lemma flow_write_moves: "flow_write l db db' \<Longrightarrow> (flow_move l)\<^sup>*\<^sup>* (flow_tables db) (flow_tables db')"
proof (induction rule: flow_write.induct)
  case (w_delete db m)
  have "flow_move Members_ts (flow_tables db) (flow_tables (delete_member m db))"
    by (simp add: flow_tables_def delete_member_def move_delete)
  then show ?case by blast
qed (auto dest: ensureApprovalFlow_steps withdraw_steps decide_steps object_steps resolve_steps
      finalizeExpired_steps decision_moves activate_moves submit_moves return_moves reopen_moves
      support_moves resolve_moves merge_moves)

section \<open>The invariant\<close>

lemma proposal_rows_ok [simp]:
  "st = FS_DRAFT \<or> st = FS_ACTIVE \<Longrightarrow> flow_ok (reset_flow_row st opened f)"
  "fl_subjectType f = ''PROPOSAL'' \<Longrightarrow> flow_ok (manual_row outcome md t f)"
  by (auto simp: flow_ok_def final_result_ok_def reset_flow_row_def manual_row_def)

lemma proposal_row_updates [simp]: "row_update (reset_flow_row st opened)" "row_update (manual_row outcome md t)"
  by (auto simp: row_update_def reset_flow_row_def manual_row_def)

lemma fewer_votes_inv:
  assumes "flow_inv (fs, ds, obs)"
  shows "flow_inv (fs, filter P ds, filter Q obs)"
proof -
  have "unresolved (filter Q obs) = filter Q (unresolved obs)"
    by (simp add: unresolved_def conj_commute)
  with assms show ?thesis
    by (auto simp: flow_inv_iff mode_ok_def distinct_map_filter split: if_splits)
qed

lemma rename_member_inv:
  assumes "flow_inv (fs, ds, obs)"
    and "\<forall>d \<in> set ds. \<forall>e \<in> set ds. ad_member d = target \<and> ad_member e = source \<longrightarrow> ad_flow d \<noteq> ad_flow e"
  shows "flow_inv (fs, map (rename_member source target) ds, obs)"
proof -
  let ?r = "rename_member source target" and ?k = "\<lambda>d. (ad_flow d, ad_member d)"
  have sel: "ad_flow (?r d) = ad_flow d" "ad_choice (?r d) = ad_choice d" for d
    by (simp_all add: rename_member_def)
  have d: "distinct ds" "inj_on ?k (set ds)" using assms(1) by (simp_all add: flow_inv_iff distinct_map)
  have "inj_on (\<lambda>d. ?k (?r d)) (set ds)"
  proof (rule inj_onI)
    fix x y assume "x \<in> set ds" "y \<in> set ds" "?k (?r x) = ?k (?r y)"
    with assms(2) inj_onD [OF d(2), of x y] show "x = y"
      by (auto simp: rename_member_def split: if_splits) metis+
  qed
  with d(1) have "distinct (map ?k (map ?r ds))" by (simp add: distinct_map comp_def)
  moreover have "map ad_flow (map ?r ds) = map ad_flow ds" by (simp add: sel)
  moreover have "mode_ok (map ?r ds) obs m i = mode_ok ds obs m i" for m i by (auto simp: mode_ok_def sel)
  ultimately show ?thesis using assms(1) by (simp add: flow_inv_iff del: map_map set_map)
qed

lemma flow_move_inv: "flow_move l s s' \<Longrightarrow> flow_inv s \<Longrightarrow> flow_inv s'"
proof (induction rule: flow_move.induct)
  case (move_reset f fs "is" st ds obs opened)
  then show ?case by (intro map_flow_inv fewer_votes_inv) simp_all
next
  case (move_delete fs ds obs m)
  from fewer_votes_inv [OF this, of "\<lambda>d. ad_member d \<noteq> m" "\<lambda>_. True"] show ?case by simp
qed (auto intro: decision_step_inv rename_member_inv intro!: map_flow_inv)

lemma flow_moves_inv: "(flow_move l)\<^sup>*\<^sup>* s s' \<Longrightarrow> flow_inv s \<Longrightarrow> flow_inv s'"
  by (induction rule: rtranclp_induct) (auto intro: flow_move_inv)

lemma flow_run_inv: "flow_run ls db db' \<Longrightarrow> flow_inv (flow_tables db) \<Longrightarrow> flow_inv (flow_tables db')"
  by (induction rule: flow_run.induct) (auto intro: flow_moves_inv flow_write_moves)

section \<open>Finalized flows\<close>

text \<open>What a decision says, whoever holds it after a merge of members.\<close>

definition vote :: "approval_decision \<Rightarrow> string \<times> approval_choice \<times> string option" where
  "vote d = (ad_id d, ad_choice d, ad_rationale d)"

definition votes_on :: "string \<Rightarrow> approval_decision list \<Rightarrow> (string \<times> approval_choice \<times> string option) list" where
  "votes_on i ds = map vote (filter (\<lambda>d. ad_flow d = i) ds)"

definition out_of_reach :: "approval_flow \<Rightarrow> flow_writer \<Rightarrow> bool" where
  "out_of_reach f l \<longleftrightarrow>
     (fl_subjectType f = ''PROPOSAL'' \<longrightarrow> (\<forall>is. l = Proposals_ts is \<longrightarrow> fl_subjectId f \<notin> set is))"

definition kept_by :: "flow_writer \<Rightarrow> approval_flow \<Rightarrow> flow_tables \<Rightarrow> flow_tables \<Rightarrow> bool" where
  "kept_by l f = (\<lambda>(fs, ds, obs) (fs', ds', obs').
     f \<in> set fs \<longrightarrow> f \<in> set fs' \<and> subseq (votes_on (fl_id f) ds') (votes_on (fl_id f) ds)
       \<and> (l \<noteq> Members_ts \<longrightarrow> filter (\<lambda>d. ad_flow d = fl_id f) ds' = filter (\<lambda>d. ad_flow d = fl_id f) ds))"

lemma kept_by_trans: "kept_by l f s s' \<Longrightarrow> kept_by l f s' s'' \<Longrightarrow> kept_by l f s s''"
  by (auto simp: kept_by_def intro: subseq_order.trans)

lemma kept_by_refl: "kept_by l f s s"
  by (auto simp: kept_by_def)

lemma votes_on_cong:
  "filter (\<lambda>d. ad_flow d = i) ds' = filter (\<lambda>d. ad_flow d = i) ds \<Longrightarrow> votes_on i ds' = votes_on i ds"
  by (simp add: votes_on_def)

lemma other_flow:
  assumes "flow_inv (fs, ds, obs)" "f \<in> set fs" "g \<in> set fs" "f \<noteq> g"
  shows "fl_id f \<noteq> fl_id g"
  using assms by (auto simp: flow_inv_iff distinct_map inj_on_def)

lemma proposal_move_keeps:
  assumes "flow_inv (fs, ds, obs)" "out_of_reach f (Proposals_ts is)" "g \<in> set fs"
    "fl_subjectType g = ''PROPOSAL''" "fl_subjectId g \<in> set is"
    and "\<And>d. ad_flow d = fl_id f \<Longrightarrow> fl_id f \<noteq> fl_id g \<Longrightarrow> P d"
  shows "kept_by (Proposals_ts is) f (fs, ds, obs) (map_flow (fl_id g) h fs, filter P ds, obs')"
proof -
  have "f \<in> set (map_flow (fl_id g) h fs)
      \<and> filter (\<lambda>d. ad_flow d = fl_id f) (filter P ds) = filter (\<lambda>d. ad_flow d = fl_id f) ds" if f: "f \<in> set fs"
  proof -
    have "f \<noteq> g" using assms(2,4,5) by (auto simp: out_of_reach_def)
    from other_flow [OF assms(1) f assms(3) this] assms(6) map_flow_other [OF f] show ?thesis
      by (auto intro: filter_cong)
  qed
  then show ?thesis by (auto simp: kept_by_def votes_on_def)
qed

lemma subseq_votes: "subseq (votes_on i (filter P ds)) (votes_on i ds)"
proof -
  have "filter (\<lambda>d. ad_flow d = i) (filter P ds) = filter P (filter (\<lambda>d. ad_flow d = i) ds)"
    by (simp add: conj_commute)
  then show ?thesis unfolding votes_on_def by (simp only: subseq_map subseq_filter_left)
qed

lemma renamed_votes: "votes_on i (map (rename_member source target) ds) = votes_on i ds"
  by (induction ds) (auto simp: votes_on_def vote_def rename_member_def)

lemma flow_move_keeps:
  assumes "flow_move l s s'" "flow_inv s" "finalized f" "out_of_reach f l"
  shows "kept_by l f s s'"
  using assms
proof (induction rule: flow_move.induct)
  case (move_decision s s' l)
  obtain fs ds obs fs' ds' obs' where s: "s = (fs, ds, obs)" "s' = (fs', ds', obs')" by (cases s, cases s')
  from decision_step_frozen [OF move_decision(1,2), of f "filter (\<lambda>d. ad_flow d = fl_id f) ds"] move_decision(3)
  show ?case by (auto simp: s kept_by_def frozen_in_def votes_on_def)
next
  case (move_activate g fs "is" ds obs p t)
  from proposal_move_keeps [OF this(4,6) this(1-3), where P = "\<lambda>_. True"] show ?case by simp
next
  case (move_reset g fs "is" st ds obs opened)
  show ?case by (rule proposal_move_keeps [OF move_reset(5,7) move_reset(1-3)]) simp
next
  case (move_manual g fs "is" ds obs outcome md t)
  from proposal_move_keeps [OF this(4,6) this(1-3), where P = "\<lambda>_. True"] show ?case by simp
next
  case (move_delete fs ds obs m)
  show ?case by (simp add: kept_by_def subseq_votes)
next
  case (move_merge ds target source fs obs)
  show ?case by (simp add: kept_by_def renamed_votes)
qed

lemma flow_moves_keep:
  assumes "(flow_move l)\<^sup>*\<^sup>* s s'" "flow_inv s" "finalized f" "out_of_reach f l"
  shows "kept_by l f s s'"
  using assms
proof (induction rule: rtranclp_induct)
  case base
  show ?case by (rule kept_by_refl)
next
  case (step y z)
  from flow_moves_inv [OF step(1)] step have "flow_inv y" by blast
  with step flow_move_keeps [OF step(2)] show ?case by (blast intro: kept_by_trans)
qed

lemma flow_run_keeps:
  assumes "flow_run ls db db'" "flow_inv (flow_tables db)" "f \<in> set (db_flows db)" "finalized f"
    "\<forall>l \<in> set ls. out_of_reach f l"
  shows "f \<in> set (db_flows db') \<and> subseq (votes_on (fl_id f) (db_decisions db')) (votes_on (fl_id f) (db_decisions db))
     \<and> (Members_ts \<notin> set ls \<longrightarrow> flow_decisions (fl_id f) db' = flow_decisions (fl_id f) db)"
  using assms
proof (induction rule: flow_run.induct)
  case (run_done db)
  then show ?case by simp
next
  case (run_next l db db1 ls db')
  note moves = flow_write_moves [OF run_next(1)]
  from flow_moves_keep [OF moves run_next(4,6)] run_next(5,7)
  have one: "f \<in> set (db_flows db1)" "subseq (votes_on (fl_id f) (db_decisions db1)) (votes_on (fl_id f) (db_decisions db))"
    "l \<noteq> Members_ts \<Longrightarrow> flow_decisions (fl_id f) db1 = flow_decisions (fl_id f) db"
    by (auto simp: kept_by_def flow_tables_def flow_decisions_def)
  from run_next(3) [OF flow_moves_inv [OF moves run_next(4)] one(1) run_next(6)] run_next(7) one(2,3)
  show ?case by (auto intro: subseq_order.trans)
qed

section \<open>Properties\<close>

text \<open>
  C9: any sequence of calls of \<^verbatim>\<open>approvals.ts\<close> and of the flow operations of
  \<^verbatim>\<open>proposals.ts\<close> (submitting, returning to draft, reopening, resolving by hand), of deletions and
  merges of members and of writes elsewhere keeps the flow tables well formed: ids and subjects are
  unique; a final flow has its closing time and the result of its status (of a proposal: the outcome
  chosen by hand; of any other subject: the computed outcome); a member has one decision per flow;
  decisions and objections belong to flows; consent flows hold only AGREE and ABSTAIN decisions, only
  consent flows have objections, and a user has at most one open objection per flow.
\<close>

theorem approval_run_keeps_invariant:
  assumes "flow_run ls db db'" "flow_inv (flow_tables db)"
  shows "flow_inv (flow_tables db')"
  using assms by (rule flow_run_inv)

text \<open>
  C10: once a flow is approved or rejected, its row is never changed by any sequence of those calls
  in which \<^verbatim>\<open>proposals.ts\<close> is not called for the flow's own proposal (submit, return to draft,
  reopen, resolve by hand): for the flow of an action or a tension that is no exception at all.  No
  decision on it is added or altered; only the deletion or the merge of members takes a decision away
  or gives it another holder, and without one the decisions stay exactly as they were.
\<close>

theorem finalized_flow_is_frozen:
  assumes "flow_run ls db db'" "flow_inv (flow_tables db)"
    and "f \<in> set (db_flows db)" "finalized f" "\<forall>l \<in> set ls. out_of_reach f l"
  shows "f \<in> set (db_flows db') \<and> subseq (votes_on (fl_id f) (db_decisions db')) (votes_on (fl_id f) (db_decisions db))
     \<and> (Members_ts \<notin> set ls \<longrightarrow> flow_decisions (fl_id f) db' = flow_decisions (fl_id f) db)"
  using assms by (rule flow_run_keeps)

section \<open>A concrete run\<close>

lemma example_flow_run:
  "example_decision = Inr (next, outcome, db') \<Longrightarrow> flow_run [Approvals_ts, Members_ts] example_db (delete_member ''m2'' db')"
  by (rule run_next [OF _ run_next [OF w_delete run_done]]) (rule w_decide)

theorem approval_run_keeps_invariant_witness:
  "\<exists>next outcome db'. example_decision = Inr (next, outcome, db')
     \<and> flow_inv (flow_tables (delete_member ''m2'' db'))"
  using example_decision_ok approval_run_keeps_invariant [OF example_flow_run example_inv] by metis

theorem finalized_flow_is_frozen_witness:
  "\<exists>next outcome db'. example_decision = Inr (next, outcome, db')
     \<and> example_rejected \<in> set (db_flows (delete_member ''m2'' db'))
     \<and> subseq (votes_on ''f3'' (db_decisions (delete_member ''m2'' db'))) [(''d'', REJECT, None)]"
proof -
  obtain nx outcome db' where run: "example_decision = Inr (nx, outcome, db')"
    using example_decision_ok by blast
  have "example_rejected \<in> set (db_flows example_db)" "finalized example_rejected"
    "\<forall>l \<in> set [Approvals_ts, Members_ts]. out_of_reach example_rejected l"
    "votes_on ''f3'' (db_decisions example_db) = [(''d'', REJECT, None)]"
    by (simp_all add: finalized_def out_of_reach_def votes_on_def vote_def) (simp add: example_rejection_def)
  with run finalized_flow_is_frozen [OF example_flow_run [OF run] example_inv this(1-3)]
  show ?thesis by auto
qed

end
