(* ===== verification/Rate_Limiter.thy ===== *)
theory Rate_Limiter
  imports Js_Prelude
begin

text \<open>
  \<^verbatim>\<open>packages/shared/src/rate-limiter.ts\<close> and the limiter of \<^verbatim>\<open>postgres-shared-state.ts\<close>: a
  sliding window log of admitted requests per key, kept in memory, in Redis or in a table.

  The clocks are arguments.  Redis is a service: its reply to the limiter script, no client, or a
  thrown error is an argument.  The table is modelled as its rows; the hash of a key
  (\<^verbatim>\<open>sharedStateKey\<close>) is an argument, as is the set of expired rows the background cleanup happens
  to delete.  Options are integers.
\<close>

section \<open>The sliding window\<close>

text \<open>
  The contract both stores keep: admit when fewer than \<open>limit\<close> admissions are younger than the
  window, and remember the admission.
\<close>

locale sliding_window =
  fixes admit :: "int \<Rightarrow> int list \<Rightarrow> bool \<times> int list"
    and window :: int
    and limit :: int
  assumes admit_window: "sorted log \<Longrightarrow> admit now log =
      (let live = filter (\<lambda>t. now - window < t) log
       in if int (length live) < limit then (True, live @ [now]) else (False, live))"
begin

definition within :: "int \<Rightarrow> int list \<Rightarrow> int list" where
  "within t ts = filter (\<lambda>s. t - window < s \<and> s \<le> t) ts"

text \<open>
  From time \<open>p\<close> on, the log holds exactly the past admissions that are still in the window, and no
  window has seen more admissions than the limit.
\<close>

definition tracks :: "int \<Rightarrow> int list \<Rightarrow> int list \<Rightarrow> bool" where
  "tracks p past log \<longleftrightarrow> sorted past \<and> sorted log \<and> (\<forall>s \<in> set past \<union> set log. s \<le> p)
     \<and> (\<forall>n \<ge> p. filter (\<lambda>s. n - window < s) log = filter (\<lambda>s. n - window < s) past)
     \<and> (\<forall>t. int (length (within t past)) \<le> max 0 limit)"

lemma tracks_le: "tracks p past log \<Longrightarrow> p \<le> n \<Longrightarrow> \<forall>s \<in> set past \<union> set log. s \<le> n"
  unfolding tracks_def by (meson order_trans)

lemma tracks_later: "tracks p past log \<Longrightarrow> p \<le> n \<Longrightarrow> tracks n past log"
  using tracks_le [of p past log n] by (simp add: tracks_def)

lemma tracks_initial: "tracks p [] []"
  by (simp add: tracks_def within_def)

lemma filter_window_twice:
  "m \<le> n \<Longrightarrow> filter (\<lambda>s. n - window < s) (filter (\<lambda>s. m - window < s) ts) = filter (\<lambda>s. n - window < s) ts"
  for m n :: int
  by (induction ts) auto

lemma tracks_admit:
  assumes "tracks p past log" "p \<le> now" "admit now log = (ok, log')"
  shows "tracks now (past @ (if ok then [now] else [])) log'"
proof -
  let ?live = "filter (\<lambda>t. now - window < t) past"
  have past: "sorted past" "\<forall>s \<in> set past. s \<le> now" "sorted log"
    using assms(1) tracks_le [OF assms(1,2)] by (auto simp: tracks_def)
  have "filter (\<lambda>t. now - window < t) log = ?live"
    using assms(1,2) by (simp add: tracks_def)
  with admit_window [OF past(3), of now] assms(3)
  have step: "(ok, log') = (if int (length ?live) < limit then (True, ?live @ [now]) else (False, ?live))"
    by (simp add: Let_def)
  have live: "sorted ?live" "\<forall>s \<in> set ?live. s \<le> now" using past by (simp_all add: sorted_wrt_filter)
  show ?thesis
  proof (cases ok)
    case False
    with step past live assms(1) show ?thesis
      by (auto simp: tracks_def filter_window_twice simp del: filter_filter split: if_splits)
  next
    case True
    with step have log': "log' = ?live @ [now]" and lt: "int (length ?live) < limit" by (auto split: if_splits)
    have bound: "int (length (within t (past @ [now]))) \<le> max 0 limit" for t
    proof (cases "now \<le> t")
      case True
      then have "length (within t past) \<le> length ?live"
        unfolding within_def by (induction past) auto
      then show ?thesis using lt by (auto simp: within_def)
    next
      case False
      then show ?thesis using assms(1) by (simp add: tracks_def within_def)
    qed
    with True past live log' show ?thesis
      by (auto simp: tracks_def sorted_append filter_window_twice simp del: filter_filter)
  qed
qed

lemma tracks_forget:
  assumes "tracks p past log" "p \<le> c" "\<forall>s \<in> set log. s \<le> c - window"
  shows "tracks c past []"
proof -
  have "filter (\<lambda>s. n - window < s) past = []" if "c \<le> n" for n
  proof -
    have "filter (\<lambda>s. n - window < s) log = []" using assms(3) that by (auto simp: filter_empty_conv)
    then show ?thesis using assms(1,2) that by (simp add: tracks_def)
  qed
  with assms(1,2) tracks_le [OF assms(1,2)] show ?thesis by (auto simp: tracks_def)
qed

lemma tracks_bound: "tracks p past log \<Longrightarrow> int (length (within t past)) \<le> max 0 limit"
  by (simp add: tracks_def)

end

section \<open>The in-memory store\<close>

record rate_limit_options =
  ro_windowMs :: int
  ro_limit :: int
  ro_failClosed :: bool

record rate_limit_result =
  rr_allowed :: bool
  rr_remaining :: int
  rr_limit :: int
  rr_resetAtMs :: int

record bucket =
  bk_timestamps :: "int list"
  bk_windowMs :: int
  bk_limit :: int

type_synonym buckets = "string \<Rightarrow> bucket option"

definition find_index :: "('a \<Rightarrow> bool) \<Rightarrow> 'a list \<Rightarrow> nat option" where
  "find_index P xs =
     (let n = length (takeWhile (\<lambda>x. \<not> P x) xs) in if n < length xs then Some n else None)"

definition pruneExpired :: "int \<Rightarrow> bucket \<Rightarrow> bucket" where
  "pruneExpired now b =
     (let cutoff = now - bk_windowMs b
      in case find_index (\<lambda>t. t > cutoff) (bk_timestamps b) of
           None \<Rightarrow> b\<lparr>bk_timestamps := []\<rparr>
         | Some firstValid \<Rightarrow>
             if firstValid > 0 then b\<lparr>bk_timestamps := drop firstValid (bk_timestamps b)\<rparr> else b)"

definition denied :: "int \<Rightarrow> int \<Rightarrow> rate_limit_result" where
  "denied limit resetAtMs =
     \<lparr>rr_allowed = False, rr_remaining = 0, rr_limit = limit, rr_resetAtMs = resetAtMs\<rparr>"

definition current_bucket :: "rate_limit_options \<Rightarrow> int \<Rightarrow> bucket option \<Rightarrow> bucket" where
  "current_bucket opts now b =
     (let base = (case b of Some b \<Rightarrow> b
                  | None \<Rightarrow> \<lparr>bk_timestamps = [], bk_windowMs = ro_windowMs opts, bk_limit = ro_limit opts\<rparr>)
      in pruneExpired now (base\<lparr>bk_windowMs := ro_windowMs opts, bk_limit := ro_limit opts\<rparr>))"

definition checkInMemoryRateLimit ::
    "string \<Rightarrow> rate_limit_options \<Rightarrow> int \<Rightarrow> buckets \<Rightarrow> rate_limit_result \<times> buckets" where
  "checkInMemoryRateLimit key opts now buckets =
     (let b = current_bucket opts now (buckets key);
          remaining = max 0 (bk_limit b - int (length (bk_timestamps b)));
          resetAtMs = (case bk_timestamps b of t # _ \<Rightarrow> t + bk_windowMs b | [] \<Rightarrow> now + bk_windowMs b)
      in if int (length (bk_timestamps b)) \<ge> bk_limit b
         then (denied (bk_limit b) resetAtMs, buckets(key \<mapsto> b))
         else (\<lparr>rr_allowed = True, rr_remaining = remaining - 1, rr_limit = bk_limit b,
                rr_resetAtMs = resetAtMs\<rparr>,
               buckets(key \<mapsto> b\<lparr>bk_timestamps := bk_timestamps b @ [now]\<rparr>)))"

section \<open>The table\<close>

record shared_rate =
  sr_timestamps :: "int list"
  sr_expiresAt :: int

type_synonym shared_rates = "string \<Rightarrow> shared_rate option"

definition max_safe :: int where
  "max_safe = 9007199254740991"

definition pg_options_ok :: "rate_limit_options \<Rightarrow> bool" where
  "pg_options_ok opts \<longleftrightarrow>
     \<bar>ro_limit opts\<bar> \<le> max_safe \<and> 1 \<le> ro_limit opts \<and> \<bar>ro_windowMs opts\<bar> \<le> max_safe \<and> 1 \<le> ro_windowMs opts"

definition pg_check_row :: "rate_limit_options \<Rightarrow> int \<Rightarrow> int list \<Rightarrow> rate_limit_result \<times> shared_rate" where
  "pg_check_row opts now stored =
     (let live = filter (\<lambda>time. time > now - ro_windowMs opts) stored;
          resetAtMs = (case live of t # _ \<Rightarrow> t | [] \<Rightarrow> now) + ro_windowMs opts;
          allowed = int (length live) < ro_limit opts;
          timestamps = (if allowed then live @ [now] else live)
      in (\<lparr>rr_allowed = allowed, rr_remaining = max 0 (ro_limit opts - int (length timestamps)),
           rr_limit = ro_limit opts, rr_resetAtMs = resetAtMs\<rparr>,
          \<lparr>sr_timestamps = timestamps,
           sr_expiresAt = (if timestamps = [] then now else last timestamps) + ro_windowMs opts\<rparr>))"

text \<open>
  The check and the reset each run in one transaction under the key's lock; \<open>now\<close> is the
  database clock.
\<close>

definition pg_check ::
    "(string \<Rightarrow> string) \<Rightarrow> string \<Rightarrow> rate_limit_options \<Rightarrow> int \<Rightarrow> shared_rates
     \<Rightarrow> (rate_limit_result \<times> shared_rates) result" where
  "pg_check keyOf key opts now rows =
     (if \<not> pg_options_ok opts then Inl (PlainError ''Invalid rate limit options'' None)
      else
        let i = keyOf key;
            stored = (case rows i of Some r \<Rightarrow> sr_timestamps r | None \<Rightarrow> []);
            (result, row) = pg_check_row opts now stored
        in Inr (result, rows(i \<mapsto> row)))"

definition pg_cleanup :: "string set \<Rightarrow> int \<Rightarrow> shared_rates \<Rightarrow> shared_rates" where
  "pg_cleanup batch now rows =
     (\<lambda>i. case rows i of
            Some r \<Rightarrow> if i \<in> batch \<and> sr_expiresAt r \<le> now then None else Some r
          | None \<Rightarrow> None)"

definition pg_reset :: "(string \<Rightarrow> string) \<Rightarrow> string \<Rightarrow> shared_rates \<Rightarrow> shared_rates" where
  "pg_reset keyOf key rows = rows(keyOf key := None)"

section \<open>Choosing the store\<close>

text \<open>The reply of the Redis script: an array of integers, or something else.\<close>

datatype redis_reply = Reply "int list" | Not_an_array

definition asRedisResult :: "int \<Rightarrow> int \<Rightarrow> redis_reply \<Rightarrow> rate_limit_result option" where
  "asRedisResult now limit v =
     (case v of
        Reply (allowed # remaining # resetAtMs # _) \<Rightarrow>
          Some \<lparr>rr_allowed = (allowed = 1), rr_remaining = max 0 remaining, rr_limit = limit,
                rr_resetAtMs = (if resetAtMs = 0 then now else resetAtMs)\<rparr>
      | _ \<Rightarrow> None)"

datatype shared_backend = Backend_redis | Backend_postgres

record limiter_env =
  le_backend :: shared_backend
  le_production :: bool
  le_redisConfigured :: bool
  le_redis :: "redis_reply option result"
  le_now :: int

definition shouldFailClosed :: "limiter_env \<Rightarrow> rate_limit_options \<Rightarrow> bool" where
  "shouldFailClosed env opts \<longleftrightarrow> ro_failClosed opts \<and> le_production env \<and> le_redisConfigured env"

definition checkRedisRateLimit :: "limiter_env \<Rightarrow> rate_limit_options \<Rightarrow> rate_limit_result option result" where
  "checkRedisRateLimit env opts =
     and_then (le_redis env) (\<lambda>reply.
       Inr (case reply of None \<Rightarrow> None | Some v \<Rightarrow> asRedisResult (le_now env) (ro_limit opts) v))"

text \<open>
  \<open>pg\<close> is the outcome of the table's check, which may also throw because the database is
  unreachable; the second component is the in-memory store afterwards.
\<close>

definition checkRateLimit ::
    "limiter_env \<Rightarrow> rate_limit_result result \<Rightarrow> string \<Rightarrow> rate_limit_options \<Rightarrow> buckets
     \<Rightarrow> rate_limit_result result \<times> buckets" where
  "checkRateLimit env pg key opts buckets =
     (let closed = (Inr (denied (ro_limit opts) (le_now env + ro_windowMs opts)), buckets);
          fallback = (if shouldFailClosed env opts then closed
                      else case checkInMemoryRateLimit key opts (le_now env) buckets of
                             (r, b) \<Rightarrow> (Inr r, b))
      in if le_backend env = Backend_postgres then
           (case pg of
              Inr r \<Rightarrow> (Inr r, buckets)
            | Inl e \<Rightarrow> if \<not> ro_failClosed opts then (Inl e, buckets) else closed)
         else
           (case checkRedisRateLimit env opts of
              Inr (Some r) \<Rightarrow> (Inr r, buckets)
            | Inr None \<Rightarrow> fallback
            | Inl e \<Rightarrow> fallback))"

record reset_result =
  rs_key :: string
  rs_redisCleared :: bool
  rs_sharedStateCleared :: bool
  rs_backend :: shared_backend

text \<open>\<open>pg\<close> tells whether the table's reset succeeds, \<open>redis\<close> what the Redis reset returns or throws.\<close>

definition resetRateLimit ::
    "shared_backend \<Rightarrow> bool \<Rightarrow> bool result \<Rightarrow> string \<Rightarrow> buckets \<Rightarrow> reset_result \<times> buckets" where
  "resetRateLimit backend pg redis key buckets =
     (let cleared = (case redis of Inr b \<Rightarrow> b | Inl _ \<Rightarrow> False)
      in (if backend = Backend_postgres
          then \<lparr>rs_key = key, rs_redisCleared = False, rs_sharedStateCleared = pg, rs_backend = backend\<rparr>
          else \<lparr>rs_key = key, rs_redisCleared = cleared, rs_sharedStateCleared = cleared, rs_backend = backend\<rparr>,
          buckets(key := None)))"


section \<open>Both stores keep the contract\<close>

lemma find_index_drop:
  "(case find_index P xs of None \<Rightarrow> [] | Some n \<Rightarrow> if n > 0 then drop n xs else xs) = dropWhile (\<lambda>x. \<not> P x) xs"
proof -
  have "dropWhile Q xs = drop (length (takeWhile Q xs)) xs" for Q
    by (induction xs) auto
  then show ?thesis by (auto simp: find_index_def Let_def not_less)
qed

lemma dropWhile_sorted:
  "sorted (xs :: int list) \<Longrightarrow> dropWhile (\<lambda>t. \<not> t > c) xs = filter (\<lambda>t. c < t) xs"
  by (induction xs) (auto simp: filter_id_conv intro!: filter_True [symmetric])

lemma current_bucket_simps [simp]:
  "bk_windowMs (current_bucket opts now b) = ro_windowMs opts"
  "bk_limit (current_bucket opts now b) = ro_limit opts"
  by (auto simp: current_bucket_def pruneExpired_def Let_def split: option.splits)

definition bucket_log :: "bucket option \<Rightarrow> int list" where
  "bucket_log b = (case b of None \<Rightarrow> [] | Some b \<Rightarrow> bk_timestamps b)"

lemma current_bucket_live:
  assumes "sorted (bucket_log b)"
  shows "bk_timestamps (current_bucket opts now b) = filter (\<lambda>t. now - ro_windowMs opts < t) (bucket_log b)"
proof -
  have "bk_timestamps (pruneExpired now c) = dropWhile (\<lambda>t. \<not> t > now - bk_windowMs c) (bk_timestamps c)" for c
    using find_index_drop [where P = "\<lambda>t. t > now - bk_windowMs c" and xs = "bk_timestamps c"]
    by (auto simp: pruneExpired_def Let_def split: option.splits if_splits)
  then show ?thesis
    using assms dropWhile_sorted [of "bucket_log b" "now - ro_windowMs opts"]
    by (cases b) (simp_all add: current_bucket_def bucket_log_def)
qed

text \<open>What one check does to the log of its key.\<close>

definition memory_admit :: "rate_limit_options \<Rightarrow> int \<Rightarrow> int list \<Rightarrow> bool \<times> int list" where
  "memory_admit opts now log =
     (case checkInMemoryRateLimit [] opts now
             (\<lambda>_. Some \<lparr>bk_timestamps = log, bk_windowMs = ro_windowMs opts, bk_limit = ro_limit opts\<rparr>) of
        (r, buckets) \<Rightarrow> (rr_allowed r, bucket_log (buckets [])))"

definition pg_admit :: "rate_limit_options \<Rightarrow> int \<Rightarrow> int list \<Rightarrow> bool \<times> int list" where
  "pg_admit opts now log = (case pg_check_row opts now log of (r, row) \<Rightarrow> (rr_allowed r, sr_timestamps row))"

interpretation memory: sliding_window "memory_admit opts" "ro_windowMs opts" "ro_limit opts" for opts
  by unfold_locales
    (auto simp: memory_admit_def checkInMemoryRateLimit_def Let_def current_bucket_live bucket_log_def denied_def)

interpretation pg: sliding_window "pg_admit opts" "ro_windowMs opts" "ro_limit opts" for opts
  by unfold_locales (auto simp: pg_admit_def pg_check_row_def Let_def)


section \<open>Runs\<close>

text \<open>The admitted requests of a sequence of checks, each for a key at a time.\<close>

fun memory_run ::
    "(string \<Rightarrow> rate_limit_options) \<Rightarrow> (string \<times> int) list \<Rightarrow> buckets \<Rightarrow> (string \<times> int) list" where
  "memory_run opts [] buckets = []"
| "memory_run opts ((key, now) # requests) buckets =
     (case checkInMemoryRateLimit key (opts key) now buckets of
        (r, buckets') \<Rightarrow> (if rr_allowed r then [(key, now)] else []) @ memory_run opts requests buckets')"

text \<open>On the table every check is followed by a cleanup of some expired rows at a later time.\<close>

record pg_request =
  rq_key :: string
  rq_now :: int
  rq_batch :: "string set"
  rq_cleanup :: int

fun pg_run ::
    "(string \<Rightarrow> string) \<Rightarrow> (string \<Rightarrow> rate_limit_options) \<Rightarrow> pg_request list \<Rightarrow> shared_rates
     \<Rightarrow> (string \<times> int) list" where
  "pg_run keyOf opts [] rows = []"
| "pg_run keyOf opts (q # requests) rows =
     (case pg_check keyOf (rq_key q) (opts (rq_key q)) (rq_now q) rows of
        Inl _ \<Rightarrow> pg_run keyOf opts requests rows
      | Inr (r, rows') \<Rightarrow>
          (if rr_allowed r then [(rq_key q, rq_now q)] else [])
          @ pg_run keyOf opts requests (pg_cleanup (rq_batch q) (rq_cleanup q) rows'))"

fun in_order :: "int \<Rightarrow> pg_request list \<Rightarrow> bool" where
  "in_order p [] = True"
| "in_order p (q # requests) = (p \<le> rq_now q \<and> rq_now q \<le> rq_cleanup q \<and> in_order (rq_cleanup q) requests)"

definition times_of :: "string \<Rightarrow> (string \<times> int) list \<Rightarrow> int list" where
  "times_of key admitted = map snd (filter (\<lambda>r. fst r = key) admitted)"

text \<open>The admitted requests of a key with a time in the window that ends at \<open>t\<close>.\<close>

definition admitted_within :: "int \<Rightarrow> string \<Rightarrow> int \<Rightarrow> (string \<times> int) list \<Rightarrow> (string \<times> int) list" where
  "admitted_within window key t admitted =
     filter (\<lambda>r. fst r = key \<and> t - window < snd r \<and> snd r \<le> t) admitted"

lemma times_of_simps [simp]:
  "times_of key [] = []" "times_of key (xs @ ys) = times_of key xs @ times_of key ys"
  "times_of key ((k, t) # xs) = (if k = key then t # times_of key xs else times_of key xs)"
  by (simp_all add: times_of_def)

lemma admitted_within_length:
  "length (admitted_within (ro_windowMs opt) key t admitted) = length (memory.within opt t (times_of key admitted))"
  "length (admitted_within (ro_windowMs opt) key t admitted) = length (pg.within opt t (times_of key admitted))"
  by (induction admitted) (auto simp: admitted_within_def memory.within_def pg.within_def times_of_def)

lemma check_memory_admit:
  assumes "checkInMemoryRateLimit key opt now buckets = (r, buckets')"
  shows "memory_admit opt now (bucket_log (buckets key)) = (rr_allowed r, bucket_log (buckets' key))
    \<and> (\<forall>k. k \<noteq> key \<longrightarrow> buckets' k = buckets k)"
proof -
  have "current_bucket opt now (Some \<lparr>bk_timestamps = bucket_log b, bk_windowMs = ro_windowMs opt, bk_limit = ro_limit opt\<rparr>)
      = current_bucket opt now b" for b
  proof (cases b)
    case (Some a)
    then show ?thesis by (cases a) (simp add: current_bucket_def bucket_log_def)
  qed (simp add: current_bucket_def bucket_log_def)
  with assms show ?thesis
    by (auto simp: memory_admit_def checkInMemoryRateLimit_def Let_def bucket_log_def denied_def
        split: if_splits)
qed

lemma memory_run_tracks:
  assumes "\<forall>k. memory.tracks (opts k) p (times_of k past) (bucket_log (buckets k))"
    and "sorted (p # map snd requests)"
  shows "int (length (admitted_within (ro_windowMs (opts key)) key t (past @ memory_run opts requests buckets)))
     \<le> max 0 (ro_limit (opts key))"
  using assms
proof (induction requests arbitrary: p past buckets)
  case Nil
  from memory.tracks_bound [OF Nil.prems(1) [rule_format, of key], of t] show ?case
    by (simp add: admitted_within_length(1))
next
  case (Cons q requests)
  obtain k now where q: "q = (k, now)" by (cases q)
  obtain r buckets' where c: "checkInMemoryRateLimit k (opts k) now buckets = (r, buckets')" by fastforce
  note m = check_memory_admit [OF c]
  let ?new = "if rr_allowed r then [(k, now)] else []"
  have le: "p \<le> now" using Cons.prems(2) by (simp add: q)
  have new: "memory.tracks (opts j) now (times_of j (past @ ?new)) (bucket_log (buckets' j))" for j
  proof (cases "j = k")
    case True
    with memory.tracks_admit [OF Cons.prems(1) [rule_format, of k] le m [THEN conjunct1]] show ?thesis
      by (auto split: if_splits)
  next
    case False
    with memory.tracks_later [OF Cons.prems(1) [rule_format, of j] le] m show ?thesis by auto
  qed
  have "sorted (now # map snd requests)" using Cons.prems(2) q by simp
  from Cons.IH [OF allI [OF new] this] show ?case by (simp add: q c)
qed

definition row_log :: "shared_rate option \<Rightarrow> int list" where
  "row_log r = (case r of None \<Rightarrow> [] | Some r \<Rightarrow> sr_timestamps r)"

definition row_expiry_ok :: "int \<Rightarrow> shared_rate option \<Rightarrow> bool" where
  "row_expiry_ok window r \<longleftrightarrow>
     (case r of None \<Rightarrow> True | Some r \<Rightarrow> \<forall>s \<in> set (sr_timestamps r). s + window \<le> sr_expiresAt r)"

lemma sorted_le_last: "sorted xs \<Longrightarrow> x \<in> set xs \<Longrightarrow> x \<le> last xs" for xs :: "int list"
  by (cases xs rule: rev_cases) (auto simp: sorted_append)

lemma pg_check_admit:
  assumes "pg_check keyOf key opt now rows = Inr (r, rows')" "sorted (row_log (rows (keyOf key)))"
    and "\<forall>s \<in> set (row_log (rows (keyOf key))). s \<le> now"
  shows "pg_admit opt now (row_log (rows (keyOf key))) = (rr_allowed r, row_log (rows' (keyOf key)))
    \<and> row_expiry_ok (ro_windowMs opt) (rows' (keyOf key)) \<and> (\<forall>i. i \<noteq> keyOf key \<longrightarrow> rows' i = rows i)"
proof -
  define live where "live = filter (\<lambda>time. time > now - ro_windowMs opt) (row_log (rows (keyOf key)))"
  have "sorted live" using assms(2) by (simp add: live_def sorted_wrt_filter)
  moreover have "sorted (live @ [now])" using \<open>sorted live\<close> assms(3) by (auto simp: live_def sorted_append)
  ultimately show ?thesis
    using assms(1) sorted_le_last [of live] sorted_le_last [of "live @ [now]"]
    by (fastforce simp: pg_check_def pg_check_row_def pg_admit_def Let_def row_log_def row_expiry_ok_def live_def
        split: if_splits option.splits)
qed


lemma pg_cleanup_row:
  "pg_cleanup batch c rows i = rows i \<or> pg_cleanup batch c rows i = None \<and> (\<exists>r. rows i = Some r \<and> sr_expiresAt r \<le> c)"
  by (auto simp: pg_cleanup_def split: option.splits)

definition pg_state_ok ::
    "(string \<Rightarrow> string) \<Rightarrow> (string \<Rightarrow> rate_limit_options) \<Rightarrow> int \<Rightarrow> (string \<times> int) list \<Rightarrow> shared_rates \<Rightarrow> bool" where
  "pg_state_ok keyOf opts p past rows \<longleftrightarrow>
     (\<forall>k. pg.tracks (opts k) p (times_of k past) (row_log (rows (keyOf k)))
        \<and> row_expiry_ok (ro_windowMs (opts k)) (rows (keyOf k)))"

lemma pg_state_cleanup:
  assumes "pg_state_ok keyOf opts p past rows" "p \<le> c"
  shows "pg_state_ok keyOf opts c past (pg_cleanup batch c rows)"
  unfolding pg_state_ok_def
proof (intro allI)
  fix k
  have ok: "pg.tracks (opts k) p (times_of k past) (row_log (rows (keyOf k)))"
      "row_expiry_ok (ro_windowMs (opts k)) (rows (keyOf k))"
    using assms(1) by (auto simp: pg_state_ok_def)
  show "pg.tracks (opts k) c (times_of k past) (row_log (pg_cleanup batch c rows (keyOf k)))
      \<and> row_expiry_ok (ro_windowMs (opts k)) (pg_cleanup batch c rows (keyOf k))"
  proof (cases "pg_cleanup batch c rows (keyOf k) = rows (keyOf k)")
    case True
    with ok pg.tracks_later [OF ok(1) assms(2)] show ?thesis by simp
  next
    case False
    with pg_cleanup_row obtain r where r: "pg_cleanup batch c rows (keyOf k) = None" "rows (keyOf k) = Some r"
      "sr_expiresAt r \<le> c" by metis
    with ok(2) have "\<forall>s \<in> set (row_log (rows (keyOf k))). s \<le> c - ro_windowMs (opts k)"
      by (fastforce simp: row_expiry_ok_def row_log_def)
    from pg.tracks_forget [OF ok(1) assms(2) this] r(1) show ?thesis
      by (simp add: row_log_def row_expiry_ok_def)
  qed
qed

lemma pg_state_check:
  assumes "pg_state_ok keyOf opts p past rows" "p \<le> now" "inj keyOf"
    and "pg_check keyOf k (opts k) now rows = Inr (r, rows')"
  shows "pg_state_ok keyOf opts now (past @ (if rr_allowed r then [(k, now)] else [])) rows'"
  unfolding pg_state_ok_def
proof (intro allI)
  fix j
  have ok: "pg.tracks (opts j) p (times_of j past) (row_log (rows (keyOf j)))"
      "row_expiry_ok (ro_windowMs (opts j)) (rows (keyOf j))" for j
    using assms(1) by (auto simp: pg_state_ok_def)
  have "sorted (row_log (rows (keyOf k)))" using ok(1) [of k] by (simp add: pg.tracks_def)
  moreover have "\<forall>s \<in> set (row_log (rows (keyOf k))). s \<le> now" using pg.tracks_le [OF ok(1) assms(2), of k] by blast
  ultimately have a: "pg_admit (opts k) now (row_log (rows (keyOf k))) = (rr_allowed r, row_log (rows' (keyOf k)))
    \<and> row_expiry_ok (ro_windowMs (opts k)) (rows' (keyOf k)) \<and> (\<forall>i. i \<noteq> keyOf k \<longrightarrow> rows' i = rows i)"
    by (rule pg_check_admit [OF assms(4)])
  show "pg.tracks (opts j) now (times_of j (past @ (if rr_allowed r then [(k, now)] else []))) (row_log (rows' (keyOf j)))
      \<and> row_expiry_ok (ro_windowMs (opts j)) (rows' (keyOf j))"
  proof (cases "j = k")
    case True
    with pg.tracks_admit [OF ok(1) assms(2) a [THEN conjunct1]] a show ?thesis by (auto split: if_splits)
  next
    case False
    then have "keyOf j \<noteq> keyOf k" using assms(3) by (auto dest: injD)
    with False a ok(2) pg.tracks_later [OF ok(1) assms(2), of j] show ?thesis by auto
  qed
qed

lemma pg_run_tracks:
  assumes "pg_state_ok keyOf opts p past rows" "in_order p requests" "inj keyOf"
  shows "int (length (admitted_within (ro_windowMs (opts key)) key t (past @ pg_run keyOf opts requests rows)))
     \<le> max 0 (ro_limit (opts key))"
  using assms(1,2)
proof (induction requests arbitrary: p past rows)
  case Nil
  have "pg.tracks (opts key) p (times_of key past) (row_log (rows (keyOf key)))"
    using Nil.prems(1) by (simp add: pg_state_ok_def)
  from pg.tracks_bound [OF this, of t] show ?case by (simp add: admitted_within_length(2))
next
  case (Cons q requests)
  have le: "p \<le> rq_now q" "rq_now q \<le> rq_cleanup q" "in_order (rq_cleanup q) requests" using Cons.prems(2) by auto
  show ?case
  proof (cases "pg_check keyOf (rq_key q) (opts (rq_key q)) (rq_now q) rows")
    case (Inl e)
    have "pg_state_ok keyOf opts (rq_cleanup q) past (pg_cleanup {} (rq_cleanup q) rows)"
      using pg_state_cleanup [OF Cons.prems(1)] le by simp
    moreover have "pg_cleanup {} (rq_cleanup q) rows = rows" by (auto simp: pg_cleanup_def split: option.splits)
    ultimately show ?thesis using Cons.IH le(3) Inl by simp
  next
    case (Inr x)
    obtain r rows' where x: "x = (r, rows')" by (cases x)
    let ?new = "if rr_allowed r then [(rq_key q, rq_now q)] else []"
    have "pg_state_ok keyOf opts (rq_cleanup q) (past @ ?new) (pg_cleanup (rq_batch q) (rq_cleanup q) rows')"
      using pg_state_cleanup [OF pg_state_check [OF Cons.prems(1) le(1) assms(3)] le(2)] Inr x by simp
    from Cons.IH [OF this le(3)] show ?thesis by (simp add: Inr x)
  qed
qed

section \<open>Properties\<close>

text \<open>
  C12: the in-memory limiter never admits more than the limit of a key in any window:
  whatever keys are checked in whatever order, as long as the clock does not run backwards, every
  interval of the window's length holds at most that many admitted requests of the key.
\<close>

theorem memory_limit_holds_in_every_window:
  assumes "sorted (map snd requests)"
  shows "int (length (admitted_within (ro_windowMs (opts key)) key t (memory_run opts requests (\<lambda>_. None))))
     \<le> max 0 (ro_limit (opts key))"
proof (cases requests)
  case Nil
  then show ?thesis by (simp add: admitted_within_def)
next
  case (Cons q rest)
  have "\<forall>k. memory.tracks (opts k) (snd q) (times_of k []) (bucket_log None)"
    using memory.tracks_initial by (simp add: bucket_log_def)
  from memory_run_tracks [OF this [unfolded], of requests key t] assms Cons show ?thesis by simp
qed

text \<open>
  The limiter of the database table keeps the same bound, although a background
  cleanup deletes any of the rows it finds expired after each check: a deleted row held no admission
  that could still count.
\<close>

lemma table_limit_survives_cleanup:
  assumes "inj keyOf" "in_order p requests"
  shows "int (length (admitted_within (ro_windowMs (opts key)) key t (pg_run keyOf opts requests (\<lambda>_. None))))
     \<le> max 0 (ro_limit (opts key))"
proof -
  have "pg_state_ok keyOf opts p [] (\<lambda>_. None)"
    using pg.tracks_initial by (simp add: pg_state_ok_def row_log_def row_expiry_ok_def)
  from pg_run_tracks [OF this assms(2,1)] show ?thesis by simp
qed

text \<open>
  A limit that must fail closed never falls back to the process's own memory: in
  production with Redis configured, or on the table, a request is allowed only when the shared store
  itself allowed it, and the in-memory store is left alone.
\<close>

lemma fail_closed_needs_shared_store:
  assumes "ro_failClosed opts" "le_backend env = Backend_postgres \<or> le_production env \<and> le_redisConfigured env"
    and "checkRateLimit env pg key opts buckets = (Inr r, buckets')" "rr_allowed r"
  shows "buckets' = buckets
     \<and> (if le_backend env = Backend_postgres then pg = Inr r
        else \<exists>reply. le_redis env = Inr (Some reply) \<and> asRedisResult (le_now env) (ro_limit opts) reply = Some r)"
  using assms
  by (auto simp: checkRateLimit_def Let_def shouldFailClosed_def checkRedisRateLimit_def denied_def result_simps
      split: if_splits sum.splits option.splits)


section \<open>Examples\<close>

definition example_limit :: rate_limit_options where
  "example_limit = \<lparr>ro_windowMs = 10, ro_limit = 2, ro_failClosed = True\<rparr>"

lemma memory_limit_holds_in_every_window_witness:
  "length (admitted_within 10 ''k'' 12 (memory_run (\<lambda>_. example_limit)
     [(''k'', 1), (''k'', 5), (''j'', 6), (''k'', 7), (''k'', 12)] (\<lambda>_. None))) \<le> 2"
  using memory_limit_holds_in_every_window [of "[(''k'', 1), (''k'', 5), (''j'', 6), (''k'', 7), (''k'', 12)]"
      "\<lambda>_. example_limit" "''k''" 12]
  by (simp add: example_limit_def)

definition example_limiter :: limiter_env where
  "example_limiter =
     \<lparr>le_backend = Backend_redis, le_production = True, le_redisConfigured = True,
      le_redis = Inr (Some (Reply [1, 1, 20])), le_now = 10\<rparr>"

end
