(* ===== verification/Transcript_Chunks.thy ===== *)
theory Transcript_Chunks
  imports Js_Number
begin

text \<open>
  \<^verbatim>\<open>packages/domain/src/meeting-transcript-chunks.ts\<close>: a transcript is cut into overlapping
  chunks of about a target size, preferably where a speaker's turn begins.

  Positions are natural numbers; a search that returns -1 returns \<open>None\<close>.  The loop over the
  ranges is a partial function, so that its termination is a theorem and not part of the
  definition.  The options are integers, as every caller passes them.
\<close>

section \<open>Where a chunk ends\<close>

abbreviation newline :: char where
  "newline \<equiv> CHR 0x0A"

text \<open>
  The expression \<^verbatim>\<open>\n(?=[^\n]{1,80}:\s)\<close> at a position of the window: a line break before one to
  eighty characters of the same line, a colon and white space.
\<close>

definition turn_follows :: "string \<Rightarrow> bool" where
  "turn_follows rest \<longleftrightarrow>
     list_ex (\<lambda>k. k + 1 < length rest \<and> list_all (\<lambda>c. c \<noteq> newline) (take k rest)
                  \<and> rest ! k = CHR '':'' \<and> js_space (rest ! (k + 1))) [1..<81]"

definition last_position :: "nat list \<Rightarrow> nat option" where
  "last_position ps = (if ps = [] then None else Some (last ps))"

definition lastTurnBoundaryInWindow :: "string \<Rightarrow> nat \<Rightarrow> nat \<Rightarrow> nat option" where
  "lastTurnBoundaryInWindow transcript start endChar =
     (let window = take (endChar - start) (drop start transcript)
      in map_option (\<lambda>i. start + i + 1)
           (last_position (filter (\<lambda>i. window ! i = newline \<and> turn_follows (drop (i + 1) window))
              [0..<length window])))"

definition lastIndexOf :: "char \<Rightarrow> string \<Rightarrow> nat \<Rightarrow> nat option" where
  "lastIndexOf c s from =
     last_position (filter (\<lambda>i. s ! i = c) [0..<min (length s) (from + 1)])"

definition minimumEnd :: "nat \<Rightarrow> nat \<Rightarrow> nat \<Rightarrow> nat" where
  "minimumEnd start hardEnd targetChars =
     min hardEnd (start + nat \<lfloor>js_mul (of_nat targetChars) (fl (65 / 100))\<rfloor>)"

definition preferredChunkEnd :: "string \<Rightarrow> nat \<Rightarrow> nat \<Rightarrow> nat \<Rightarrow> nat" where
  "preferredChunkEnd transcript start hardEnd targetChars =
     (if hardEnd \<ge> length transcript then length transcript
      else let least = minimumEnd start hardEnd targetChars
           in case lastTurnBoundaryInWindow transcript least hardEnd of
                Some boundary \<Rightarrow>
                  if boundary > least then boundary
                  else (case lastIndexOf newline transcript hardEnd of
                          Some i \<Rightarrow> if i > least then i + 1 else hardEnd
                        | None \<Rightarrow> hardEnd)
              | None \<Rightarrow>
                  (case lastIndexOf newline transcript hardEnd of
                     Some i \<Rightarrow> if i > least then i + 1 else hardEnd
                   | None \<Rightarrow> hardEnd))"

section \<open>The chunks\<close>

record transcript_chunk =
  tc_index :: nat
  tc_count :: nat
  tc_start :: nat
  tc_end :: nat
  tc_text :: string

definition chunk_end :: "string \<Rightarrow> nat \<Rightarrow> nat \<Rightarrow> nat" where
  "chunk_end transcript targetChars startChar =
     (let hardEnd = min (length transcript) (startChar + targetChars);
          endChar = preferredChunkEnd transcript startChar hardEnd targetChars
      in if endChar > startChar then endChar else hardEnd)"

definition next_start :: "nat \<Rightarrow> nat \<Rightarrow> nat \<Rightarrow> nat" where
  "next_start overlapChars startChar safeEndChar =
     (let nextStart = safeEndChar - overlapChars
      in if nextStart > startChar then nextStart else safeEndChar)"

partial_function (option) chunk_ranges ::
    "string \<Rightarrow> nat \<Rightarrow> nat \<Rightarrow> nat \<Rightarrow> (nat \<times> nat) list option" where
  "chunk_ranges transcript targetChars overlapChars startChar =
     (if startChar < length transcript then
        let safeEndChar = chunk_end transcript targetChars startChar
        in if safeEndChar \<ge> length transcript then Some [(startChar, safeEndChar)]
           else Option.bind
                  (chunk_ranges transcript targetChars overlapChars (next_start overlapChars startChar safeEndChar))
                  (\<lambda>rs. Some ((startChar, safeEndChar) # rs))
      else Some [])"

definition chunk_of :: "string \<Rightarrow> nat \<Rightarrow> nat \<Rightarrow> nat \<times> nat \<Rightarrow> transcript_chunk" where
  "chunk_of transcript n i r =
     \<lparr>tc_index = i + 1, tc_count = n, tc_start = fst r, tc_end = snd r,
      tc_text = take (snd r - fst r) (drop (fst r) transcript)\<rparr>"

definition chunk_target :: "int option \<Rightarrow> nat" where
  "chunk_target targetChars = nat (max 1 (case targetChars of None \<Rightarrow> 16000 | Some t \<Rightarrow> t))"

definition chunk_overlap :: "int option \<Rightarrow> int option \<Rightarrow> nat" where
  "chunk_overlap targetChars overlapChars =
     nat (max 0 (min (case overlapChars of None \<Rightarrow> 750 | Some n \<Rightarrow> n) (int (chunk_target targetChars) - 1)))"

definition buildMeetingTranscriptChunks ::
    "string \<Rightarrow> int option \<Rightarrow> int option \<Rightarrow> transcript_chunk list option" where
  "buildMeetingTranscriptChunks transcript targetChars overlapChars =
     (if transcript = [] then Some []
      else if length transcript \<le> chunk_target targetChars then
        Some [\<lparr>tc_index = 1, tc_count = 1, tc_start = 0, tc_end = length transcript, tc_text = transcript\<rparr>]
      else map_option (\<lambda>rs. map2 (chunk_of transcript (length rs)) [0..<length rs] rs)
             (chunk_ranges transcript (chunk_target targetChars)
                (chunk_overlap targetChars overlapChars) 0))"

declare chunk_ranges.simps [simp del]

section \<open>Bounds of one chunk\<close>

lemma last_position_Some: "last_position ps = Some i \<Longrightarrow> i \<in> set ps"
  by (auto simp: last_position_def split: if_splits)

lemma lastIndexOf_Some: "lastIndexOf c s from = Some i \<Longrightarrow> i < length s \<and> i \<le> from \<and> s ! i = c"
  by (auto simp: lastIndexOf_def dest!: last_position_Some)

lemma lastTurnBoundary_Some:
  "lastTurnBoundaryInWindow s a b = Some k \<Longrightarrow> a < k \<and> k \<le> b"
  by (auto simp: lastTurnBoundaryInWindow_def Let_def dest!: last_position_Some)

lemma minimumEnd_bounds: "start \<le> h \<Longrightarrow> start \<le> minimumEnd start h t \<and> minimumEnd start h t \<le> h"
  by (simp add: minimumEnd_def)

lemma preferred_bounds:
  assumes "start < h" "h < length s"
  shows "start < preferredChunkEnd s start h t \<and> preferredChunkEnd s start h t \<le> h + 1
    \<and> preferredChunkEnd s start h t \<le> length s"
proof -
  let ?m = "minimumEnd start h t"
  have m: "start \<le> ?m" "?m \<le> h" using minimumEnd_bounds [of start h t] assms by auto
  have nl: "start < (case lastIndexOf newline s h of Some i \<Rightarrow> if i > ?m then i + 1 else h | None \<Rightarrow> h)
      \<and> (case lastIndexOf newline s h of Some i \<Rightarrow> if i > ?m then i + 1 else h | None \<Rightarrow> h) \<le> h + 1
      \<and> (case lastIndexOf newline s h of Some i \<Rightarrow> if i > ?m then i + 1 else h | None \<Rightarrow> h) \<le> length s"
    using assms m by (cases "lastIndexOf newline s h") (auto dest: lastIndexOf_Some)
  show ?thesis
    using assms m nl lastTurnBoundary_Some [of s ?m h]
    by (cases "lastTurnBoundaryInWindow s ?m h") (auto simp: preferredChunkEnd_def Let_def)
qed

lemma chunk_end_bounds:
  assumes "0 < t" "a < length s"
  shows "a < chunk_end s t a \<and> chunk_end s t a \<le> a + t + 1 \<and> chunk_end s t a \<le> length s"
proof (cases "a + t < length s")
  case True
  then show ?thesis
    using preferred_bounds [of a "a + t" s t] assms by (auto simp: chunk_end_def Let_def min_def)
next
  case False
  then show ?thesis using assms by (auto simp: chunk_end_def Let_def preferredChunkEnd_def min_def)
qed

lemma next_start_bounds: "a < e \<Longrightarrow> a < next_start ov a e \<and> next_start ov a e \<le> e"
  by (auto simp: next_start_def Let_def)

section \<open>All ranges\<close>

text \<open>
  The ranges of a chunking from a position: each is non-empty and at most the target plus one long,
  the next one starts behind the start and not behind the end of the one before, and the last one
  reaches the end of the transcript.
\<close>

fun ranges_ok :: "nat \<Rightarrow> nat \<Rightarrow> nat \<Rightarrow> (nat \<times> nat) list \<Rightarrow> bool" where
  "ranges_ok len t a [] = False"
| "ranges_ok len t a [(b, e)] = (b = a \<and> a < e \<and> e \<le> a + t + 1 \<and> e = len)"
| "ranges_ok len t a ((b, e) # (c, f) # rs) =
     (b = a \<and> a < e \<and> e \<le> a + t + 1 \<and> e < len \<and> a < c \<and> c \<le> e \<and> ranges_ok len t c ((c, f) # rs))"

lemma ranges_ok_hd: "ranges_ok len t a rs \<Longrightarrow> \<exists>e rs'. rs = (a, e) # rs'"
  by (cases "(len, t, a, rs)" rule: ranges_ok.cases) auto

lemma chunk_ranges_total:
  assumes "0 < t" "a < length s"
  shows "\<exists>rs. chunk_ranges s t ov a = Some rs \<and> ranges_ok (length s) t a rs"
  using assms(2)
proof (induction "length s - a" arbitrary: a rule: less_induct)
  case less
  let ?e = "chunk_end s t a" and ?n = "next_start ov a (chunk_end s t a)"
  note e = chunk_end_bounds [OF assms(1) less.prems]
  show ?case
  proof (cases "length s \<le> ?e")
    case True
    then show ?thesis using e less.prems by (subst chunk_ranges.simps) auto
  next
    case False
    have n: "a < ?n" "?n \<le> ?e" using next_start_bounds [of a ?e ov] e by auto
    then have "length s - ?n < length s - a" "?n < length s" using False by auto
    from less.hyps [OF this] obtain rs where rs: "chunk_ranges s t ov ?n = Some rs" "ranges_ok (length s) t ?n rs"
      by blast
    then obtain f rs' where "rs = (?n, f) # rs'" using ranges_ok_hd by blast
    with rs n e False less.prems show ?thesis by (subst chunk_ranges.simps) (auto simp: Let_def)
  qed
qed


section \<open>Properties\<close>

definition chunk_ok :: "string \<Rightarrow> nat \<Rightarrow> nat \<Rightarrow> nat \<Rightarrow> transcript_chunk \<Rightarrow> bool" where
  "chunk_ok s t n i c \<longleftrightarrow>
     tc_index c = i + 1 \<and> tc_count c = n \<and> tc_start c < tc_end c \<and> tc_end c \<le> length s
     \<and> tc_end c - tc_start c \<le> t + 1
     \<and> tc_text c = take (tc_end c - tc_start c) (drop (tc_start c) s)"

lemma ranges_ok_nth:
  "ranges_ok len t a rs \<Longrightarrow> i < length rs \<Longrightarrow>
   fst (rs ! i) < snd (rs ! i) \<and> snd (rs ! i) \<le> len \<and> snd (rs ! i) - fst (rs ! i) \<le> t + 1"
  by (induction len t a rs arbitrary: i rule: ranges_ok.induct) (auto simp: nth_Cons split: nat.splits)

definition add_chunk :: "string \<Rightarrow> transcript_chunk \<Rightarrow> string" where
  "add_chunk acc c = acc @ drop (length acc - tc_start c) (tc_text c)"

definition reassemble :: "transcript_chunk list \<Rightarrow> string" where
  "reassemble cs = foldl add_chunk [] cs"

lemma add_chunk_prefix:
  assumes "a \<le> n" "n \<le> length s" "a \<le> e" "e \<le> length s"
  shows "add_chunk (take n s) (chunk_of s m i (a, e)) = take (max n e) s"
proof -
  have "drop (n - a) (take (e - a) (drop a s)) = take (e - n) (drop n s)"
    using assms by (simp add: drop_take)
  then have "add_chunk (take n s) (chunk_of s m i (a, e)) = take n s @ take (e - n) (drop n s)"
    using assms by (simp add: add_chunk_def chunk_of_def min_def)
  also have "\<dots> = take (n + (e - n)) s" by (simp add: take_add)
  finally show ?thesis by (simp add: max_def)
qed

lemma reassemble_ranges:
  assumes "ranges_ok (length s) t a rs" "a \<le> n" "n \<le> length s" "length is = length rs"
  shows "foldl add_chunk (take n s) (map2 (chunk_of s m) is rs) = s"
  using assms
proof (induction rs arbitrary: a n "is")
  case (Cons r rs)
  obtain b e where r: "r = (b, e)" by (cases r)
  obtain i js where i: "is = i # js" "length js = length rs" using Cons.prems(4) by (cases "is") auto
  have ok: "b = a" "a < e" "e \<le> length s"
    using Cons.prems(1) by (auto simp: r elim: ranges_ok.elims)
  have step: "add_chunk (take n s) (chunk_of s m i (b, e)) = take (max n e) s"
    using Cons.prems ok by (intro add_chunk_prefix) auto
  show ?case
  proof (cases rs)
    case Nil
    then have "e = length s" using Cons.prems(1) by (simp add: r)
    with step Nil i show ?thesis by (simp add: r)
  next
    case (Cons r' rs')
    obtain c f where r': "r' = (c, f)" by (cases r')
    have "ranges_ok (length s) t c rs" "c \<le> e"
      using Cons.prems(1) by (simp_all add: r r' Cons)
    then have "foldl add_chunk (take (max n e) s) (map2 (chunk_of s m) js rs) = s"
      using Cons.IH Cons.prems(3) ok(3) i(2) by simp
    with step show ?thesis by (simp add: r i(1))
  qed
qed simp

lemma build_cases:
  obtains "s = []" "buildMeetingTranscriptChunks s t ov = Some []"
  | "s \<noteq> []" "buildMeetingTranscriptChunks s t ov = Some [chunk_of s 1 0 (0, length s)]"
      "length s \<le> chunk_target t"
  | rs where "buildMeetingTranscriptChunks s t ov = Some (map2 (chunk_of s (length rs)) [0..<length rs] rs)"
      "ranges_ok (length s) (chunk_target t) 0 rs"
proof (cases "s = [] \<or> length s \<le> chunk_target t")
  case True
  then show ?thesis using that(1,2) by (auto simp: buildMeetingTranscriptChunks_def chunk_of_def)
next
  case False
  then have "0 < length s" "0 < chunk_target t" by (simp_all add: chunk_target_def)
  with chunk_ranges_total obtain rs where "chunk_ranges s (chunk_target t) (chunk_overlap t ov) 0 = Some rs"
    "ranges_ok (length s) (chunk_target t) 0 rs" by blast
  note ranges = this
  have "buildMeetingTranscriptChunks s t ov = Some (map2 (chunk_of s (length rs)) [0..<length rs] rs)"
    unfolding buildMeetingTranscriptChunks_def using False by (simp only: ranges option.map if_False de_Morgan_disj simp_thms)
  with ranges(2) that(3) show ?thesis by blast
qed

text \<open>
  C13: for every transcript and every choice of the options, however extreme, the
  chunking returns, and every chunk it returns is numbered in order, non-empty, inside the
  transcript, at most one character longer than the target, and carries exactly its slice.
\<close>

theorem chunking_returns_well_formed_chunks:
  "\<exists>cs. buildMeetingTranscriptChunks s t ov = Some cs
     \<and> (s = [] \<longleftrightarrow> cs = []) \<and> list_all2 (chunk_ok s (chunk_target t) (length cs)) [0..<length cs] cs"
proof (cases rule: build_cases [of s t ov])
  case 1
  then show ?thesis by simp
next
  case 2
  then show ?thesis by (auto simp: chunk_ok_def chunk_of_def)
next
  case (3 rs)
  then have "s \<noteq> []" using ranges_ok_hd [OF 3(2)] ranges_ok_nth [OF 3(2), of 0] by auto
  with ranges_ok_nth [OF 3(2)] ranges_ok_hd [OF 3(2)] 3(1) show ?thesis
    by (intro exI [of _ "map2 (chunk_of s (length rs)) [0..<length rs] rs"])
      (auto simp: list_all2_conv_all_nth chunk_ok_def chunk_of_def)
qed

text \<open>
  C14: nothing of a transcript is lost: appending the chunks in order, each without
  the part that overlaps what came before, gives the transcript back.
\<close>

theorem chunks_reassemble:
  "map_option reassemble (buildMeetingTranscriptChunks s t ov) = Some s"
proof (cases rule: build_cases [of s t ov])
  case (3 rs)
  then show ?thesis
    using reassemble_ranges [OF 3(2), of 0 "[0..<length rs]" "length rs"] by (simp add: reassemble_def)
qed (simp_all add: reassemble_def add_chunk_def chunk_of_def)

text \<open>
  The target is not a hard limit: a line break exactly at the limit is still
  included, so that with a target of four the first chunk of this transcript has five characters.
\<close>

lemma chunk_can_exceed_target:
  "\<exists>c cs. buildMeetingTranscriptChunks (''abcd'' @ [newline] @ ''ef'') (Some 4) (Some 0) = Some (c # cs)
     \<and> length (tc_text c) = 5"
proof -
  have "fl (13 / 20) = 5854679515581645 / 2 ^ 53"
    by (subst fl_eval [where e = "-1" and f = 5854679515581645]) (simp_all add: power_int_minus)
  then have "js_mul 4 (fl (13 / 20)) = 5854679515581645 / 2 ^ 51"
    unfolding js_mul_def
    by (subst fl_eval [where e = 1 and f = 5854679515581645]) (simp_all add: power_int_minus)
  then have "\<lfloor>js_mul 4 (fl (13 / 20))\<rfloor> = 2"
    by (simp only:) (rule floor_unique, simp_all)
  then have "minimumEnd 0 4 4 = 2" by (simp add: minimumEnd_def)
  moreover have "lastTurnBoundaryInWindow (''abcd'' @ [newline] @ ''ef'') 2 4 = None"
    by (simp add: lastTurnBoundaryInWindow_def last_position_def upt_conv_Cons Let_def)
  moreover have "lastIndexOf newline (''abcd'' @ [newline] @ ''ef'') 4 = Some 4"
    by (simp add: lastIndexOf_def last_position_def upt_conv_Cons)
  ultimately have "preferredChunkEnd (''abcd'' @ [newline] @ ''ef'') 0 4 4 = 5"
    by (simp add: preferredChunkEnd_def Let_def)
  moreover have m: "min (length (''abcd'' @ [newline] @ ''ef'')) (0 + 4) = 4" by simp
  ultimately have e: "chunk_end (''abcd'' @ [newline] @ ''ef'') 4 0 = 5"
    unfolding chunk_end_def Let_def m by simp
  have e': "chunk_end (''abcd'' @ [newline] @ ''ef'') 4 5 = 7"
    by (simp add: chunk_end_def preferredChunkEnd_def)
  have "chunk_ranges (''abcd'' @ [newline] @ ''ef'') 4 0 5 = Some [(5, 7)]"
    by (subst chunk_ranges.simps) (simp add: e' [simplified])
  then have "chunk_ranges (''abcd'' @ [newline] @ ''ef'') 4 0 0 = Some [(0, 5), (5, 7)]"
    by (subst chunk_ranges.simps) (simp add: e [simplified] next_start_def)
  then show ?thesis
    by (simp add: buildMeetingTranscriptChunks_def chunk_target_def chunk_overlap_def chunk_of_def)
qed

end
