(* ===== verification/Circles.thy ===== *)
theory Circles
  imports Approvals "HOL-Library.Product_Lexorder"
begin

text \<open>
  The circle hierarchy of \<^verbatim>\<open>packages/domain/src/circles.ts\<close>: creating, editing and deleting a
  circle, the check that a move does not put a circle under one of its own descendants, the
  listings, the tree built for display and the maturity hint, together with what
  \<^verbatim>\<open>archive.ts\<close> does when the archived, restored or purged artifact is a circle.

  Tables other than \<^verbatim>\<open>Circle\<close>, \<^verbatim>\<open>WorkspaceArchiveRecord\<close>, \<^verbatim>\<open>AuditLog\<close> and
  \<^verbatim>\<open>Event\<close> are one abstract component \<open>'l\<close>; what \<^verbatim>\<open>producer-lineage.ts\<close>,
  \<^verbatim>\<open>source-lineage.ts\<close>, \<^verbatim>\<open>role-onboarding.ts\<close> and \<^verbatim>\<open>auth.ts\<close> answer or do there
  are arguments.  Each transaction reads one state of the circle table.
\<close>

section \<open>The tables\<close>

record circle =
  ci_id :: string
  ci_workspace :: string
  ci_parent :: "string option"
  ci_name :: string
  ci_purpose :: "string option"
  ci_domain :: "string option"
  ci_maturity :: string
  ci_sortOrder :: int
  ci_archivedAt :: "int option"
  ci_archivedBy :: "string option"
  ci_archiveReason :: "string option"
  ci_createdAt :: int
  ci_updatedAt :: int

record archive_row =
  ar_id :: string
  ar_workspace :: string
  ar_entityType :: string
  ar_entityId :: string
  ar_label :: string
  ar_previous :: "circle option"
  ar_reason :: "string option"
  ar_archivedBy :: "string option"
  ar_archivedByLabel :: string
  ar_archivedAt :: int
  ar_restoredBy :: "string option"
  ar_restoredAt :: "int option"
  ar_purgedBy :: "string option"
  ar_purgedAt :: "int option"
  ar_purgeReason :: "string option"

record 'l circle_db =
  cd_circles :: "circle list"
  cd_archive :: "archive_row list"
  cd_audit :: "audit_row list"
  cd_events :: "outbox_event list"
  cd_rest :: 'l

record ('l, 'r) circle_env =
  ce_membership :: "app_actor \<Rightarrow> string \<Rightarrow> member_role list option \<Rightarrow> 'l \<Rightarrow> membership option result"
  ce_now :: int
  ce_new_id :: string
  ce_archive_id :: string
  ce_prepare :: "app_actor \<Rightarrow> string \<Rightarrow> circle option \<Rightarrow> 'l \<Rightarrow> ('r \<times> 'l) result"
  ce_finish :: "app_actor \<Rightarrow> string \<Rightarrow> circle \<Rightarrow> 'r \<Rightarrow> 'l \<Rightarrow> 'l result"
  ce_readable :: "app_actor \<Rightarrow> string \<Rightarrow> circle \<Rightarrow> 'l \<Rightarrow> bool"
  ce_fence :: "'l \<Rightarrow> unit result"
  ce_advance :: "string \<Rightarrow> circle \<Rightarrow> circle \<Rightarrow> 'l \<Rightarrow> 'l result"
  ce_close_roles :: "app_actor \<Rightarrow> string \<Rightarrow> string \<Rightarrow> 'l \<Rightarrow> 'l result"
  ce_purge :: "app_actor \<Rightarrow> string \<Rightarrow> circle \<Rightarrow> 'l \<Rightarrow> 'l result"

definition find_circle :: "string \<Rightarrow> circle list \<Rightarrow> circle option" where
  "find_circle i cs = find (\<lambda>c. ci_id c = i) cs"

definition circle_active_in :: "string \<Rightarrow> circle \<Rightarrow> bool" where
  "circle_active_in w c \<longleftrightarrow> ci_workspace c = w \<and> ci_archivedAt c = None"

section \<open>The parent of a circle\<close>

text \<open>
  The loop of \<^verbatim>\<open>validateParentCircle\<close>: it climbs from the new parent towards the root and
  throws when it meets the circle being moved; it stops at the root, at a circle it has seen, and
  at an ancestor that is missing, archived or of another workspace.
\<close>

function ancestor_walk ::
    "circle list \<Rightarrow> string \<Rightarrow> string \<Rightarrow> string list \<Rightarrow> string option \<Rightarrow> unit result" where
  "ancestor_walk cs w cid visited None = Inr ()"
| "ancestor_walk cs w cid visited (Some n) =
     (if n = [] then Inr ()
      else if n = cid then
        Inl (AppError 400 ''INVALID_INPUT'' ''A circle cannot be moved under one of its descendants.'')
      else if n \<in> set visited then Inr ()
      else case find_circle n cs of
             None \<Rightarrow> Inr ()
           | Some a \<Rightarrow> if \<not> circle_active_in w a then Inr ()
                       else ancestor_walk cs w cid (n # visited) (ci_parent a))"
  by pat_completeness auto

lemma find_circle_SomeD: "find_circle i cs = Some c \<Longrightarrow> c \<in> set cs \<and> ci_id c = i"
  unfolding find_circle_def by (metis (mono_tags, lifting) find_Some_iff nth_mem)

termination ancestor_walk
proof (relation "measure (\<lambda>(cs, w, cid, visited, n). card (ci_id ` set cs - set visited))")
  show "wf (measure (\<lambda>(cs, w, cid, visited, n). card (ci_id ` set cs - set visited)))" by simp
next
  fix cs w cid visited n a
  assume n: "n \<notin> set visited" and a: "find_circle n cs = Some a"
  have "n \<in> ci_id ` set cs - set visited" using n find_circle_SomeD [OF a] by auto
  then have "card (ci_id ` set cs - set (n # visited)) < card (ci_id ` set cs - set visited)"
    by (intro psubset_card_mono) auto
  then show "((cs, w, cid, n # visited, ci_parent a), (cs, w, cid, visited, Some n))
      \<in> measure (\<lambda>(cs, w, cid, visited, n). card (ci_id ` set cs - set visited))" by simp
qed

definition validateParentCircle ::
    "circle list \<Rightarrow> string \<Rightarrow> string option \<Rightarrow> string option \<Rightarrow> string option result" where
  "validateParentCircle cs w cid parent =
     (case trimmed_or_none parent of
        None \<Rightarrow> Inr None
      | Some p \<Rightarrow>
          and_then (invariant (cid \<noteq> Some p) 400 ''INVALID_INPUT'' ''A circle cannot be its own parent.'') (\<lambda>_.
          (case find_circle p cs of
             None \<Rightarrow> Inl (AppError 404 ''NOT_FOUND'' ''Parent circle not found.'')
           | Some a \<Rightarrow>
               and_then (invariant (circle_active_in w a) 404 ''NOT_FOUND'' ''Parent circle not found.'') (\<lambda>_.
               if \<not> truthy_str cid then Inr (Some p)
               else and_then (ancestor_walk cs w (the cid) [ci_id a] (ci_parent a)) (\<lambda>_. Inr (Some p))))))"

section \<open>Creating, editing and deleting\<close>

datatype circle_result = Circle_withheld string | Circle_shown circle

definition circleMutationResult ::
    "('l, 'r) circle_env \<Rightarrow> app_actor \<Rightarrow> string \<Rightarrow> circle \<Rightarrow> 'l circle_db \<Rightarrow> circle_result" where
  "circleMutationResult env actor w c db =
     (if \<not> ce_readable env actor w c (cd_rest db) then Circle_withheld (ci_id c)
      else if \<not> truthy_str (ci_parent c) then Circle_shown c
      else Circle_shown
        (c\<lparr>ci_parent :=
            (case find_circle (the (ci_parent c)) (cd_circles db) of
               None \<Rightarrow> None
             | Some p \<Rightarrow> if ce_readable env actor w p (cd_rest db) then ci_parent c else None)\<rparr>))"

definition circle_audit ::
    "app_actor \<Rightarrow> string \<Rightarrow> string \<Rightarrow> string \<Rightarrow> json \<Rightarrow> 'l circle_db \<Rightarrow> 'l circle_db" where
  "circle_audit actor w action cid meta db =
     db\<lparr>cd_audit := cd_audit db @
          [\<lparr>au_workspace = w, au_actor = actor_user actor, au_action = action,
            au_entityType = ''Circle'', au_entityId = cid, au_meta = meta\<rparr>]\<rparr>"

record create_circle_params =
  cp_name :: string
  cp_purpose :: "string option"
  cp_domain :: "string option"
  cp_parent :: "string option"
  cp_maturity :: "string option"

definition or_default :: "string option \<Rightarrow> string \<Rightarrow> string" where
  "or_default v d = (if truthy_str v then the v else d)"

definition new_circle ::
    "('l, 'r) circle_env \<Rightarrow> string \<Rightarrow> create_circle_params \<Rightarrow> string option \<Rightarrow> circle" where
  "new_circle env w ps parent =
     \<lparr>ci_id = ce_new_id env, ci_workspace = w, ci_parent = parent, ci_name = js_trim (cp_name ps),
      ci_purpose = trimmed_or_none (cp_purpose ps), ci_domain = trimmed_or_none (cp_domain ps),
      ci_maturity = or_default (cp_maturity ps) ''GETTING_STARTED'', ci_sortOrder = 0,
      ci_archivedAt = None, ci_archivedBy = None, ci_archiveReason = None,
      ci_createdAt = ce_now env, ci_updatedAt = ce_now env\<rparr>"

definition insert_circle :: "circle \<Rightarrow> circle list \<Rightarrow> circle list result" where
  "insert_circle c cs =
     (if find_circle (ci_id c) cs = None then Inr (cs @ [c])
      else Inl (PlainError ''Unique constraint failed on the fields: (`id`)'' (Some ''P2002'')))"

definition circle_managers :: "member_role list" where
  "circle_managers = [FACILITATOR, ADMIN]"

definition createCircle ::
    "('l, 'r) circle_env \<Rightarrow> app_actor \<Rightarrow> string \<Rightarrow> create_circle_params \<Rightarrow> 'l circle_db
     \<Rightarrow> (circle_result \<times> 'l circle_db) result" where
  "createCircle env actor w ps db =
     and_then (ce_membership env actor w (Some circle_managers) (cd_rest db)) (\<lambda>_.
     and_then (invariant (js_trim (cp_name ps) \<noteq> []) 400 ''INVALID_INPUT'' ''Circle name is required.'') (\<lambda>_.
     and_then (validateParentCircle (cd_circles db) w None (cp_parent ps)) (\<lambda>parent.
     and_then (ce_prepare env actor w None (cd_rest db)) (\<lambda>(receipt, l1).
     (let c = new_circle env w ps parent in
     and_then (insert_circle c (cd_circles db)) (\<lambda>cs.
     and_then (ce_finish env actor w c receipt l1) (\<lambda>l2.
     (let db1 = circle_audit actor w ''circle.created'' (ci_id c) (JObj [(''name'', JStr (ci_name c))])
                  (db\<lparr>cd_circles := cs, cd_rest := l2\<rparr>);
          db2 = db1\<lparr>cd_events := cd_events db1 @
                  [\<lparr>oe_workspace = w, oe_type = ''circle.created'', oe_aggregateType = ''Circle'',
                    oe_aggregateId = ci_id c,
                    oe_payload = JObj [(''circleId'', JStr (ci_id c)), (''name'', JStr (ci_name c))]\<rparr>]\<rparr>
      in Inr (circleMutationResult env actor w c db2, db2)))))))))"

text \<open>
  An update names the fields it changes; \<open>None\<close> is \<^verbatim>\<open>undefined\<close>, \<open>Some None\<close> is
  \<^verbatim>\<open>null\<close>.  \<open>circle_data\<close> is the object \<^verbatim>\<open>data\<close> the handler collects.
\<close>

record update_circle_params =
  up_name :: "string option"
  up_purpose :: "string option option"
  up_domain :: "string option option"
  up_parent :: "string option option"
  up_maturity :: "string option"

record circle_data =
  dt_name :: "string option"
  dt_purpose :: "string option option"
  dt_domain :: "string option option"
  dt_parent :: "string option option"
  dt_maturity :: "string option"

definition require_circle :: "string \<Rightarrow> string \<Rightarrow> circle list \<Rightarrow> circle result" where
  "require_circle w cid cs =
     (case find_circle cid cs of
        None \<Rightarrow> Inl (AppError 404 ''NOT_FOUND'' ''Circle not found.'')
      | Some c \<Rightarrow>
          and_then (invariant (circle_active_in w c) 404 ''NOT_FOUND'' ''Circle not found.'') (\<lambda>_. Inr c))"

definition optional_step :: "'a option \<Rightarrow> ('a \<Rightarrow> 'b result) \<Rightarrow> 'b option result" where
  "optional_step v f = (case v of None \<Rightarrow> Inr None | Some x \<Rightarrow> and_then (f x) (\<lambda>y. Inr (Some y)))"

definition circle_update_data ::
    "circle list \<Rightarrow> string \<Rightarrow> circle \<Rightarrow> update_circle_params \<Rightarrow> circle_data result" where
  "circle_update_data cs w c ps =
     and_then (optional_step (up_name ps) (\<lambda>n.
       and_then (invariant (js_trim n \<noteq> []) 400 ''INVALID_INPUT'' ''Circle name is required.'')
         (\<lambda>_. Inr (js_trim n)))) (\<lambda>name.
     and_then (optional_step (up_parent ps) (\<lambda>p. validateParentCircle cs w (Some (ci_id c)) p)) (\<lambda>parent.
       Inr \<lparr>dt_name = name, dt_purpose = map_option trimmed_or_none (up_purpose ps),
            dt_domain = map_option trimmed_or_none (up_domain ps), dt_parent = parent,
            dt_maturity = up_maturity ps\<rparr>))"

definition data_keys :: "circle_data \<Rightarrow> string list" where
  "data_keys d =
     (if dt_name d = None then [] else [''name'']) @ (if dt_purpose d = None then [] else [''purposeMd'']) @
     (if dt_domain d = None then [] else [''domainMd'']) @
     (if dt_parent d = None then [] else [''parentCircleId'']) @
     (if dt_maturity d = None then [] else [''maturityStage''])"

definition or_keep :: "'a option \<Rightarrow> 'a \<Rightarrow> 'a" where
  "or_keep v x = (case v of None \<Rightarrow> x | Some y \<Rightarrow> y)"

definition apply_circle_data :: "int \<Rightarrow> circle_data \<Rightarrow> circle \<Rightarrow> circle" where
  "apply_circle_data now d c =
     c\<lparr>ci_name := or_keep (dt_name d) (ci_name c), ci_purpose := or_keep (dt_purpose d) (ci_purpose c),
       ci_domain := or_keep (dt_domain d) (ci_domain c), ci_parent := or_keep (dt_parent d) (ci_parent c),
       ci_maturity := or_keep (dt_maturity d) (ci_maturity c), ci_updatedAt := now\<rparr>"

definition map_circle :: "string \<Rightarrow> (circle \<Rightarrow> circle) \<Rightarrow> circle list \<Rightarrow> circle list" where
  "map_circle cid f cs = map (\<lambda>c. if ci_id c = cid then f c else c) cs"

text \<open>
  The handler reads and validates first (\<open>read_update\<close>) and writes afterwards (\<open>write_update\<close>);
  the transaction takes no lock in between, so another one may commit there.
\<close>

definition read_update ::
    "string \<Rightarrow> string \<Rightarrow> update_circle_params \<Rightarrow> circle list \<Rightarrow> (circle \<times> circle_data) result" where
  "read_update w cid ps cs =
     and_then (require_circle w cid cs) (\<lambda>c.
     and_then (circle_update_data cs w c ps) (\<lambda>d. Inr (c, d)))"

definition write_update ::
    "('l, 'r) circle_env \<Rightarrow> app_actor \<Rightarrow> string \<Rightarrow> circle \<times> circle_data \<Rightarrow> 'l circle_db
     \<Rightarrow> (circle_result \<times> 'l circle_db) result" where
  "write_update env actor w cd db =
     and_then (ce_prepare env actor w (Some (fst cd)) (cd_rest db)) (\<lambda>(receipt, l1).
     (let cid = ci_id (fst cd);
          cs = map_circle cid (apply_circle_data (ce_now env) (snd cd)) (cd_circles db) in
     (case find_circle cid cs of
        None \<Rightarrow> Inl (PlainError ''Record to update not found.'' (Some ''P2025''))
      | Some updated \<Rightarrow>
          and_then (ce_finish env actor w updated receipt l1) (\<lambda>l2.
          (let db1 = circle_audit actor w ''circle.updated'' (ci_id updated)
                       (JObj [(''fields'', JArr (map JStr (data_keys (snd cd))))])
                       (db\<lparr>cd_circles := cs, cd_rest := l2\<rparr>)
           in Inr (circleMutationResult env actor w updated db1, db1))))))"

definition updateCircle ::
    "('l, 'r) circle_env \<Rightarrow> app_actor \<Rightarrow> string \<Rightarrow> string \<Rightarrow> update_circle_params \<Rightarrow> 'l circle_db
     \<Rightarrow> (circle_result \<times> 'l circle_db) result" where
  "updateCircle env actor w cid ps db =
     and_then (ce_membership env actor w (Some circle_managers) (cd_rest db)) (\<lambda>_.
     and_then (read_update w cid ps (cd_circles db)) (\<lambda>cd. write_update env actor w cd db))"

section \<open>Archiving, restoring and purging a circle\<close>

definition actorLabel :: "app_actor \<Rightarrow> string" where
  "actorLabel actor =
     (case actor of
        UserActor u \<Rightarrow> (case hu_name u of None \<Rightarrow> hu_email u | Some n \<Rightarrow> n)
      | AgentActor a \<Rightarrow> ag_label a)"

definition findRecord :: "string \<Rightarrow> string \<Rightarrow> circle list \<Rightarrow> circle result" where
  "findRecord w cid cs =
     (case find (\<lambda>c. ci_id c = cid \<and> ci_workspace c = w) cs of
        None \<Rightarrow> Inl (AppError 404 ''NOT_FOUND'' ''Circle not found.'')
      | Some c \<Rightarrow> Inr c)"

definition opt_json :: "string option \<Rightarrow> json" where
  "opt_json v = (case v of None \<Rightarrow> JNull | Some s \<Rightarrow> JStr s)"

definition archiveCircle ::
    "('l, 'r) circle_env \<Rightarrow> app_actor \<Rightarrow> string \<Rightarrow> string \<Rightarrow> string option \<Rightarrow> 'l circle_db
     \<Rightarrow> (string \<times> 'l circle_db) result" where
  "archiveCircle env actor w cid reason0 db =
     (let reason = trimmed_or_none reason0 in
     and_then (ce_membership env actor w None (cd_rest db)) (\<lambda>_.
     and_then (ce_fence env (cd_rest db)) (\<lambda>_.
     and_then (ce_membership env actor w None (cd_rest db)) (\<lambda>_.
     and_then (findRecord w cid (cd_circles db)) (\<lambda>rec.
     if ci_archivedAt rec \<noteq> None
     then and_then (ce_fence env (cd_rest db)) (\<lambda>_. Inr (ci_id rec, db))
     else
       (let archived = (\<lambda>c. c\<lparr>ci_archivedAt := Some (ce_now env), ci_archivedBy := actor_user actor,
                                ci_archiveReason := reason, ci_updatedAt := ce_now env\<rparr>) in
       and_then (ce_advance env w rec (archived rec) (cd_rest db)) (\<lambda>l1.
       (let db1 = circle_audit actor w ''workspace-artifact.archived'' (ci_id rec)
                    (JObj [(''label'', JStr (ci_name rec)), (''reason'', opt_json reason)])
                    (db\<lparr>cd_circles := map_circle (ci_id rec) archived (cd_circles db), cd_rest := l1,
                        cd_archive := cd_archive db @
                          [\<lparr>ar_id = ce_archive_id env, ar_workspace = w, ar_entityType = ''Circle'',
                            ar_entityId = ci_id rec, ar_label = ci_name rec, ar_previous = Some rec,
                            ar_reason = reason, ar_archivedBy = actor_user actor,
                            ar_archivedByLabel = actorLabel actor, ar_archivedAt = ce_now env,
                            ar_restoredBy = None, ar_restoredAt = None, ar_purgedBy = None,
                            ar_purgedAt = None, ar_purgeReason = None\<rparr>]\<rparr>) in
       and_then (ce_membership env actor w None (cd_rest db1)) (\<lambda>_.
       and_then (ce_fence env (cd_rest db1)) (\<lambda>_.
       Inr (ci_id rec, db1)))))))))))"

definition open_archive :: "string \<Rightarrow> string \<Rightarrow> archive_row \<Rightarrow> bool" where
  "open_archive w cid r \<longleftrightarrow>
     ar_workspace r = w \<and> ar_entityType r = ''Circle'' \<and> ar_entityId r = cid \<and>
     ar_restoredAt r = None \<and> ar_purgedAt r = None"

definition activeArchiveRecord :: "string \<Rightarrow> string \<Rightarrow> archive_row list \<Rightarrow> archive_row option" where
  "activeArchiveRecord w cid rs =
     (case sort_key (\<lambda>r. - ar_archivedAt r) (filter (open_archive w cid) rs) of
        [] \<Rightarrow> None | r # _ \<Rightarrow> Some r)"

definition map_archive :: "string \<Rightarrow> (archive_row \<Rightarrow> archive_row) \<Rightarrow> archive_row list \<Rightarrow> archive_row list" where
  "map_archive i f rs = map (\<lambda>r. if ar_id r = i then f r else r) rs"

definition close_archive_row ::
    "archive_row option \<Rightarrow> (archive_row \<Rightarrow> archive_row) \<Rightarrow> 'l circle_db \<Rightarrow> 'l circle_db" where
  "close_archive_row r f db =
     (case r of None \<Rightarrow> db | Some x \<Rightarrow> db\<lparr>cd_archive := map_archive (ar_id x) f (cd_archive db)\<rparr>)"

definition restoreCircle ::
    "('l, 'r) circle_env \<Rightarrow> app_actor \<Rightarrow> string \<Rightarrow> string \<Rightarrow> 'l circle_db
     \<Rightarrow> (string \<times> 'l circle_db) result" where
  "restoreCircle env actor w cid db =
     and_then (ce_membership env actor w (Some [ADMIN]) (cd_rest db)) (\<lambda>_.
     and_then (ce_fence env (cd_rest db)) (\<lambda>_.
     and_then (ce_membership env actor w (Some [ADMIN]) (cd_rest db)) (\<lambda>_.
     and_then (findRecord w cid (cd_circles db)) (\<lambda>rec.
     and_then (invariant (ci_archivedAt rec \<noteq> None) 400 ''INVALID_STATE'' ''Circle is not archived.'') (\<lambda>_.
     (let restored = (\<lambda>c. c\<lparr>ci_archivedAt := None, ci_archivedBy := None, ci_archiveReason := None,
                            ci_updatedAt := ce_now env\<rparr>) in
     and_then (ce_advance env w rec (restored rec) (cd_rest db)) (\<lambda>l1.
     (let db1 = close_archive_row (activeArchiveRecord w (ci_id rec) (cd_archive db))
                  (\<lambda>r. r\<lparr>ar_restoredAt := Some (ce_now env), ar_restoredBy := actor_user actor\<rparr>)
                  (db\<lparr>cd_circles := map_circle (ci_id rec) restored (cd_circles db), cd_rest := l1\<rparr>);
          db2 = circle_audit actor w ''workspace-artifact.restored'' (ci_id rec)
                  (JObj [(''label'', JStr (ci_name rec))]) db1 in
     and_then (ce_membership env actor w (Some [ADMIN]) (cd_rest db2)) (\<lambda>_.
     and_then (ce_fence env (cd_rest db2)) (\<lambda>_.
     Inr (ci_id rec, db2)))))))))))"

text \<open>
  Purging deletes the row; the foreign key of its children is \<^verbatim>\<open>onDelete: SetNull\<close>.  The
  deletions in other tables and the metadata receipt are \<open>ce_purge\<close>.
\<close>

definition delete_circle_row :: "string \<Rightarrow> circle list \<Rightarrow> circle list" where
  "delete_circle_row cid cs =
     map (\<lambda>c. if ci_parent c = Some cid then c\<lparr>ci_parent := None\<rparr> else c)
       (filter (\<lambda>c. ci_id c \<noteq> cid) cs)"

definition purgeCircle ::
    "('l, 'r) circle_env \<Rightarrow> app_actor \<Rightarrow> string \<Rightarrow> string \<Rightarrow> string \<Rightarrow> 'l circle_db
     \<Rightarrow> (string \<times> 'l circle_db) result" where
  "purgeCircle env actor w cid reason0 db =
     and_then (ce_membership env actor w (Some [ADMIN]) (cd_rest db)) (\<lambda>_.
     and_then (invariant (js_trim reason0 \<noteq> []) 400 ''INVALID_INPUT'' ''Purge reason is required.'') (\<lambda>_.
     and_then (findRecord w cid (cd_circles db)) (\<lambda>rec.
     and_then (invariant (ci_archivedAt rec \<noteq> None) 400 ''INVALID_STATE''
       ''Archive the artifact before purging it.'') (\<lambda>_.
     (case activeArchiveRecord w (ci_id rec) (cd_archive db) of
        None \<Rightarrow> Inl (AppError 400 ''INVALID_STATE'' ''Active archive record not found.'')
      | Some r \<Rightarrow>
          and_then (ce_purge env actor w rec (cd_rest db)) (\<lambda>l1.
          (let db1 = close_archive_row (Some r)
                       (\<lambda>x. x\<lparr>ar_previous := None, ar_purgedAt := Some (ce_now env),
                             ar_purgedBy := actor_user actor, ar_purgeReason := Some (js_trim reason0)\<rparr>)
                       (db\<lparr>cd_circles := delete_circle_row (ci_id rec) (cd_circles db), cd_rest := l1\<rparr>)
           in Inr (ci_id rec,
                circle_audit actor w ''workspace-artifact.purged'' (ci_id rec)
                  (JObj [(''label'', JStr (ci_name rec)), (''reason'', JStr (js_trim reason0))]) db1))))))))"

text \<open>\<^verbatim>\<open>deleteCircle\<close> archives in one transaction and closes the roles in a second one.\<close>

definition delete_reason :: string where
  "delete_reason = ''Archived from circle delete path.''"

definition deleteCircle ::
    "('l, 'r) circle_env \<Rightarrow> app_actor \<Rightarrow> string \<Rightarrow> string \<Rightarrow> 'l circle_db
     \<Rightarrow> string result \<times> 'l circle_db" where
  "deleteCircle env actor w cid db =
     (case ce_membership env actor w (Some circle_managers) (cd_rest db) of
        Inl e \<Rightarrow> (Inl e, db)
      | Inr _ \<Rightarrow>
          (case archiveCircle env actor w cid (Some delete_reason) db of
             Inl e \<Rightarrow> (Inl e, db)
           | Inr (_, db1) \<Rightarrow>
               (case ce_close_roles env actor w cid (cd_rest db1) of
                  Inl e \<Rightarrow> (Inl e, db1)
                | Inr l \<Rightarrow> (Inr cid, db1\<lparr>cd_rest := l\<rparr>))))"


section \<open>Listing circles\<close>

datatype archive_filter = Filter_active | Filter_archived | Filter_all

fun archiveFilterWhere :: "archive_filter \<Rightarrow> circle \<Rightarrow> bool" where
  "archiveFilterWhere Filter_all c = True"
| "archiveFilterWhere Filter_archived c = (ci_archivedAt c \<noteq> None)"
| "archiveFilterWhere Filter_active c = (ci_archivedAt c = None)"

record assignment_row =
  as_id :: string
  as_assignedAt :: int

record role_row =
  ro_id :: string
  ro_circle :: string
  ro_sortOrder :: int
  ro_createdAt :: int
  ro_archivedAt :: "int option"
  ro_assignments :: "assignment_row list"

text \<open>
  What the reader may see: the release object admits or withholds each record it captures and may
  refuse the whole answer at the end.
\<close>

record circle_view =
  cv_membership :: "app_actor \<Rightarrow> string \<Rightarrow> membership option result"
  cv_circle :: "string \<Rightarrow> bool"
  cv_role :: "string \<Rightarrow> bool"
  cv_assignment :: "string \<Rightarrow> bool"
  cv_finish :: "unit result"

record circle_item =
  it_circle :: circle
  it_parent :: "(string \<times> string) option"
  it_roles :: "role_row list"

definition compareCircleOrder :: "circle \<Rightarrow> int \<times> int" where
  "compareCircleOrder c = (ci_sortOrder c, ci_createdAt c)"

definition role_order :: "role_row \<Rightarrow> int \<times> int" where
  "role_order r = (ro_sortOrder r, ro_createdAt r)"

definition admitted_circles ::
    "circle_view \<Rightarrow> string \<Rightarrow> archive_filter \<Rightarrow> circle list \<Rightarrow> circle list" where
  "admitted_circles v w flt cs =
     sort_key compareCircleOrder
       (filter (\<lambda>c. cv_circle v (ci_id c)) (filter (\<lambda>c. ci_workspace c = w \<and> archiveFilterWhere flt c) cs))"

text \<open>The parents captured are those of the admitted circles, archived or not.\<close>

definition visible_parent :: "circle_view \<Rightarrow> circle list \<Rightarrow> circle \<Rightarrow> circle option" where
  "visible_parent v cs c =
     (if \<not> truthy_str (ci_parent c) then None
      else case find_circle (the (ci_parent c)) cs of
             None \<Rightarrow> None
           | Some p \<Rightarrow> if cv_circle v (ci_id p) then Some p else None)"

definition visible_roles :: "circle_view \<Rightarrow> role_row list \<Rightarrow> circle \<Rightarrow> role_row list" where
  "visible_roles v rs c =
     sort_key role_order
       (filter (\<lambda>r. cv_role v (ro_id r)) (filter (\<lambda>r. ro_circle r = ci_id c \<and> ro_archivedAt r = None) rs))"

definition listed_circle :: "circle_view \<Rightarrow> circle list \<Rightarrow> role_row list \<Rightarrow> circle \<Rightarrow> circle_item" where
  "listed_circle v cs rs c =
     \<lparr>it_circle = c\<lparr>ci_parent := map_option ci_id (visible_parent v cs c)\<rparr>, it_parent = None,
      it_roles = visible_roles v rs c\<rparr>"

definition listCircles ::
    "circle_view \<Rightarrow> app_actor \<Rightarrow> string \<Rightarrow> archive_filter \<Rightarrow> circle list \<Rightarrow> role_row list
     \<Rightarrow> circle_item list result" where
  "listCircles v actor w flt cs rs =
     and_then (cv_membership v actor w) (\<lambda>_.
     and_then (cv_finish v) (\<lambda>_.
     Inr (map (listed_circle v cs rs) (admitted_circles v w flt cs))))"

definition safe_circle :: "circle_view \<Rightarrow> circle list \<Rightarrow> role_row list \<Rightarrow> circle \<Rightarrow> circle_item" where
  "safe_circle v cs rs c =
     \<lparr>it_circle = c\<lparr>ci_parent := map_option ci_id (visible_parent v cs c)\<rparr>,
      it_parent = map_option (\<lambda>p. (ci_id p, ci_name p)) (visible_parent v cs c),
      it_roles = map (\<lambda>r. r\<lparr>ro_assignments :=
          sort_key (\<lambda>a. - as_assignedAt a) (filter (\<lambda>a. cv_assignment v (as_id a)) (ro_assignments r))\<rparr>)
        (visible_roles v rs c)\<rparr>"

section \<open>The circle tree\<close>

text \<open>
  \<^verbatim>\<open>buildCircleTree\<close> links objects it holds in a \<^verbatim>\<open>Map\<close>.  The objects are kept by
  reference: the map takes an id to its item and to the ids of the children pushed onto it, and the
  result is the list of the ids of the roots.
\<close>

type_synonym tree_map = "string \<Rightarrow> (circle_item \<times> string list) option"

definition item_id :: "circle_item \<Rightarrow> string" where
  "item_id it = ci_id (it_circle it)"

definition item_parent :: "circle_item \<Rightarrow> string option" where
  "item_parent it = ci_parent (it_circle it)"

definition tree_node :: "circle_item \<Rightarrow> tree_map \<Rightarrow> tree_map" where
  "tree_node it m = m(item_id it \<mapsto> (it, []))"

definition tree_link :: "circle_item \<Rightarrow> tree_map \<times> string list \<Rightarrow> tree_map \<times> string list" where
  "tree_link it s =
     (case item_parent it of
        Some p \<Rightarrow>
          (if p = [] then (fst s, snd s @ [item_id it])
           else case fst s p of
             None \<Rightarrow> (fst s, snd s @ [item_id it])
           | Some (q, ch) \<Rightarrow> ((fst s)(p \<mapsto> (q, ch @ [item_id it])), snd s))
      | None \<Rightarrow> (fst s, snd s @ [item_id it]))"

definition buildCircleTree :: "circle_item list \<Rightarrow> tree_map \<times> string list" where
  "buildCircleTree flat = fold tree_link flat (fold tree_node flat Map.empty, [])"

definition listCircleTree ::
    "circle_view \<Rightarrow> app_actor \<Rightarrow> string \<Rightarrow> archive_filter \<Rightarrow> circle list \<Rightarrow> role_row list
     \<Rightarrow> (tree_map \<times> string list) result" where
  "listCircleTree v actor w flt cs rs =
     and_then (cv_membership v actor w) (\<lambda>_.
     and_then (cv_finish v) (\<lambda>_.
     Inr (buildCircleTree (map (safe_circle v cs rs) (admitted_circles v w flt cs)))))"

section \<open>The maturity hint\<close>

record tension_row =
  te_id :: string
  te_circle :: string
  te_resolved :: bool
  te_archivedAt :: "int option"
  te_updatedAt :: int

definition recent_resolved :: "int \<Rightarrow> string \<Rightarrow> tension_row \<Rightarrow> bool" where
  "recent_resolved now cid t \<longleftrightarrow>
     te_circle t = cid \<and> te_resolved t \<and> te_archivedAt t = None \<and> te_updatedAt t \<ge> now - 30 * ms_per_day"

definition maturity_hint :: "string \<Rightarrow> nat \<Rightarrow> bool \<times> string" where
  "maturity_hint stage n =
     (if stage = ''FULL_O2'' then (False, ''Already at highest maturity stage.'')
      else if stage = ''GETTING_STARTED'' \<and> n \<ge> 5 then
        (True, ''Circle has resolved '' @ string_of_nat n @ '' tensions recently. Ready to practice proposals.'')
      else if stage = ''BUILDING_MUSCLE'' \<and> n \<ge> 20 then
        (True, ''Circle has resolved '' @ string_of_nat n @ '' tensions recently. Ready for full O2 (artifacts, links).'')
      else (False, ''Not enough recent activity to suggest upgrade.''))"

definition suggestMaturityUpgrade ::
    "circle_view \<Rightarrow> app_actor \<Rightarrow> (string \<Rightarrow> bool) \<Rightarrow> int \<Rightarrow> string \<Rightarrow> string \<Rightarrow> circle list \<Rightarrow> tension_row list
     \<Rightarrow> (bool \<times> string) result" where
  "suggestMaturityUpgrade v actor tension_visible now w cid cs ts =
     and_then (cv_membership v actor w) (\<lambda>_.
     (case find_circle cid cs of
        None \<Rightarrow> Inl (AppError 404 ''NOT_FOUND'' ''Circle not found.'')
      | Some c \<Rightarrow>
          and_then (invariant (ci_workspace c = w) 404 ''NOT_FOUND'' ''Circle not found.'') (\<lambda>_.
          and_then (invariant (cv_circle v (ci_id c)) 404 ''NOT_FOUND'' ''Circle not found.'') (\<lambda>_.
          Inr (maturity_hint (ci_maturity c)
            (length (filter (\<lambda>t. tension_visible (te_id t)) (filter (recent_resolved now cid) ts))))))))"

end
