(* ===== verification/Circle_Facts.thy ===== *)
theory Circle_Facts
  imports Circles
begin

text \<open>
  The hierarchy of active circles: which operations keep it free of cycles, what an accepted move
  guarantees, and the two ways the code lets a cycle in - restoring an archived circle, and two
  moves that validate before either of them writes.
\<close>

section \<open>The hierarchy\<close>

definition parent_edges :: "circle list \<Rightarrow> (string \<times> string) set" where
  "parent_edges cs =
     {(ci_id c, ci_id q) | c q. c \<in> set cs \<and> q \<in> set cs \<and> ci_parent c = Some (ci_id q) \<and>
        ci_archivedAt c = None \<and> ci_archivedAt q = None \<and> ci_workspace c = ci_workspace q}"

definition parents_ok :: "circle list \<Rightarrow> bool" where
  "parents_ok cs \<longleftrightarrow>
     (\<forall>c\<in>set cs. \<forall>p. ci_parent c = Some p \<longrightarrow>
        p \<noteq> [] \<and> p \<noteq> ci_id c \<and> (\<exists>q\<in>set cs. ci_id q = p \<and> ci_workspace q = ci_workspace c))"

definition hierarchy_ok :: "circle list \<Rightarrow> bool" where
  "hierarchy_ok cs \<longleftrightarrow> distinct (map ci_id cs) \<and> parents_ok cs \<and> acyclic (parent_edges cs)"

lemma parent_edgesI:
  assumes "c \<in> set cs" "q \<in> set cs" "ci_parent c = Some (ci_id q)" "ci_archivedAt c = None"
    "ci_archivedAt q = None" "ci_workspace c = ci_workspace q"
  shows "(ci_id c, ci_id q) \<in> parent_edges cs"
  using assms unfolding parent_edges_def by blast

lemma parent_edgesE:
  assumes "(a, b) \<in> parent_edges cs"
  obtains c q where "c \<in> set cs" "q \<in> set cs" "ci_id c = a" "ci_id q = b" "ci_parent c = Some b"
    "ci_archivedAt c = None" "ci_archivedAt q = None" "ci_workspace c = ci_workspace q"
  using assms unfolding parent_edges_def by blast

lemma find_circle_unique:
  assumes "distinct (map ci_id cs)" "c \<in> set cs"
  shows "find_circle (ci_id c) cs = Some c"
  using assms unfolding find_circle_def by (induction cs) auto

lemma same_id_same_circle:
  fixes cs :: "circle list"
  assumes "distinct (map ci_id cs)" "c \<in> set cs" "d \<in> set cs" "ci_id c = ci_id d"
  shows "c = d"
  using assms
  by (metis find_circle_unique option.inject)

lemma find_circle_None_iff: "find_circle i cs = None \<longleftrightarrow> i \<notin> ci_id ` set cs"
  unfolding find_circle_def by (auto simp: find_None_iff)

section \<open>The climb\<close>

text \<open>
  The circle the climb has reached is \<open>q\<close>; everything it visited lies below \<open>q\<close>, so in an
  acyclic hierarchy it never meets a visited circle again.
\<close>

lemma ancestor_walk_no_descendant:
  assumes "ancestor_walk cs w cid visited next = Inr ()"
    and "distinct (map ci_id cs)" "parents_ok cs" "acyclic (parent_edges cs)"
    and "q \<in> set cs" "circle_active_in w q" "next = ci_parent q"
    and "\<And>v. v \<in> set visited \<Longrightarrow> (v, ci_id q) \<in> (parent_edges cs)\<^sup>*"
  shows "(ci_id q, cid) \<notin> (parent_edges cs)\<^sup>+"
  using assms
proof (induction cs w cid visited "next" arbitrary: q rule: ancestor_walk.induct)
  case (1 cs w cid visited)
  have "(ci_id q, b) \<notin> parent_edges cs" for b
    using 1(2,5,7) same_id_same_circle by (fastforce elim: parent_edgesE)
  then show ?case by (auto dest: tranclD)
next
  case (2 cs w cid visited n)
  have only: "b = n" if "(ci_id q, b) \<in> parent_edges cs" for b
    using that 2(3,6,8) same_id_same_circle by (fastforce elim: parent_edgesE)
  have act: "\<exists>a. find_circle n cs = Some a \<and> circle_active_in w a" if "(ci_id q, n) \<in> parent_edges cs"
    using that
  proof (rule parent_edgesE)
    fix c a assume a: "c \<in> set cs" "a \<in> set cs" "ci_id c = ci_id q" "ci_id a = n" "ci_archivedAt a = None"
      "ci_workspace c = ci_workspace a"
    then have "c = q" using same_id_same_circle [OF 2(3)] 2(6) by blast
    then show ?thesis using a 2(7) find_circle_unique [OF 2(3) a(2)] by (auto simp: circle_active_in_def)
  qed
  show ?case
  proof
    assume "(ci_id q, cid) \<in> (parent_edges cs)\<^sup>+"
    then have e: "(ci_id q, n) \<in> parent_edges cs" and rest: "n = cid \<or> (n, cid) \<in> (parent_edges cs)\<^sup>+"
      using only by (auto dest!: tranclD simp: rtrancl_eq_or_trancl)
    obtain a where a: "find_circle n cs = Some a" "circle_active_in w a" using act [OF e] by blast
    have n: "n \<noteq> []" using 2(4,6,8) unfolding parents_ok_def by metis
    have nc: "n \<noteq> cid" using 2(2) n by auto
    have nv: "n \<notin> set visited"
    proof
      assume "n \<in> set visited"
      then have "(n, ci_id q) \<in> (parent_edges cs)\<^sup>*" by (rule 2(9))
      then have "(n, n) \<in> (parent_edges cs)\<^sup>+" using e by (rule rtrancl_into_trancl1)
      then show False using 2(5) unfolding acyclic_def by blast
    qed
    have ida: "ci_id a = n" and ain: "a \<in> set cs" using find_circle_SomeD [OF a(1)] by auto
    have "(ci_id a, cid) \<notin> (parent_edges cs)\<^sup>+"
    proof (rule 2(1) [OF n nc nv a(1)])
      show "\<not> \<not> circle_active_in w a" using a(2) by simp
      show "ancestor_walk cs w cid (n # visited) (ci_parent a) = Inr ()" using 2(2) n nc nv a by simp
      show "(v, ci_id a) \<in> (parent_edges cs)\<^sup>*" if "v \<in> set (n # visited)" for v
        using that 2(9) e ida by (auto intro: rtrancl_into_rtrancl)
    qed (use 2 a ain in simp_all)
    then show False using rest nc ida by simp
  qed
qed

text \<open>Conversely the climb only refuses a circle it has reached.\<close>

lemma ancestor_walk_refuses:
  assumes "ancestor_walk cs w cid visited next = Inl e"
    and "q \<in> set cs" "circle_active_in w q" "next = ci_parent q"
    and "c \<in> set cs" "circle_active_in w c" "ci_id c = cid"
  shows "(ci_id q, cid) \<in> (parent_edges cs)\<^sup>+ \<and>
    e = AppError 400 ''INVALID_INPUT'' ''A circle cannot be moved under one of its descendants.''"
  using assms
proof (induction cs w cid visited "next" arbitrary: q rule: ancestor_walk.induct)
  case (1 cs w cid visited)
  then show ?case by simp
next
  case (2 cs w cid visited n)
  show ?case
  proof (cases "n = cid")
    case True
    then have "(ci_id q, cid) \<in> parent_edges cs"
      using 2(3-8) parent_edgesI [of q cs c] by (auto simp: circle_active_in_def)
    then show ?thesis using 2(2) True by (auto split: if_splits)
  next
    case False
    then obtain a where n: "n \<noteq> []" "n \<notin> set visited" and a: "find_circle n cs = Some a" "circle_active_in w a"
      and rest: "ancestor_walk cs w cid (n # visited) (ci_parent a) = Inl e"
      using 2(2) by (auto split: if_splits option.splits)
    note mem = find_circle_SomeD [OF a(1)]
    have "(ci_id a, cid) \<in> (parent_edges cs)\<^sup>+ \<and>
        e = AppError 400 ''INVALID_INPUT'' ''A circle cannot be moved under one of its descendants.''"
      by (rule 2(1) [OF n(1) False n(2) a(1) _ rest]) (use mem a(2) 2(6-8) in auto)
    moreover have "(ci_id q, ci_id a) \<in> parent_edges cs"
      using 2(3-5) mem a(2) parent_edgesI [of q cs a] by (auto simp: circle_active_in_def)
    ultimately show ?thesis by (blast intro: trancl_into_trancl2)
  qed
qed

lemma validateParentCircle_Some:
  assumes "validateParentCircle cs w cid parent = Inr (Some p)"
  obtains a where "find_circle p cs = Some a" "circle_active_in w a" "cid \<noteq> Some p" "p \<noteq> []"
    "truthy_str cid \<Longrightarrow> ancestor_walk cs w (the cid) [p] (ci_parent a) = Inr ()"
proof -
  obtain t where t: "trimmed_or_none parent = Some t"
    using assms by (cases "trimmed_or_none parent") (auto simp: validateParentCircle_def)
  have "t \<noteq> []" using t by (auto simp: trimmed_or_none_def split: option.splits if_splits)
  obtain a where a: "find_circle t cs = Some a"
    using assms t by (cases "find_circle t cs") (auto simp: validateParentCircle_def result_simps Js_Prelude.invariant_def split: if_splits)
  show thesis
    by (rule that [of a]) (use assms t a \<open>t \<noteq> []\<close> find_circle_SomeD [OF a] in
      \<open>auto simp: validateParentCircle_def result_simps Js_Prelude.invariant_def split: if_splits\<close>)
qed

text \<open>An accepted parent: active, in the workspace, and not the circle itself or one below it.\<close>

lemma accepted_parent_not_below:
  assumes "validateParentCircle cs w (Some cid) parent = Inr (Some p)" and "hierarchy_ok cs" "cid \<noteq> []"
  shows "(p, cid) \<notin> (parent_edges cs)\<^sup>*"
proof (rule validateParentCircle_Some [OF assms(1)])
  fix a assume a: "find_circle p cs = Some a" "circle_active_in w a" "Some cid \<noteq> Some p"
    and walk: "truthy_str (Some cid) \<Longrightarrow> ancestor_walk cs w (the (Some cid)) [p] (ci_parent a) = Inr ()"
  have "(ci_id a, cid) \<notin> (parent_edges cs)\<^sup>+"
    by (rule ancestor_walk_no_descendant [where w = w and visited = "[p]"])
      (use assms(2,3) walk a find_circle_SomeD [OF a(1)] in \<open>auto simp: truthy_str_def hierarchy_ok_def\<close>)
  then show ?thesis using a(3) find_circle_SomeD [OF a(1)] by (auto simp: rtrancl_eq_or_trancl)
qed


section \<open>Changes to the table\<close>

lemma map_circle_ids:
  assumes "\<And>c. ci_id (f c) = ci_id c"
  shows "map ci_id (map_circle cid f cs) = map ci_id cs"
  using assms by (auto simp: map_circle_def)

lemma in_map_circle:
  assumes "c \<in> set (map_circle cid f cs)"
  obtains c0 where "c0 \<in> set cs" "c = (if ci_id c0 = cid then f c0 else c0)"
  using assms by (auto simp: map_circle_def)

lemma edges_of_changed_circle:
  assumes keep: "\<And>c. ci_id (f c) = ci_id c" "\<And>c. ci_workspace (f c) = ci_workspace c"
    and other: "\<And>c. ci_archivedAt (f c) = None \<Longrightarrow> ci_archivedAt c = None"
    and e: "(a, b) \<in> parent_edges (map_circle cid f cs)"
    and new: "\<And>c. \<lbrakk>c \<in> set cs; ci_id c = cid; ci_parent (f c) = Some b\<rbrakk> \<Longrightarrow> P \<or> ci_parent c = Some b"
    and p: "P \<Longrightarrow> a = cid \<Longrightarrow> (a, b) \<in> S"
  shows "(a, b) \<in> S \<union> parent_edges cs"
  using e
proof (rule parent_edgesE)
  fix c q assume m: "c \<in> set (map_circle cid f cs)" "q \<in> set (map_circle cid f cs)"
    and x: "ci_id c = a" "ci_id q = b" "ci_parent c = Some b" "ci_archivedAt c = None"
      "ci_archivedAt q = None" "ci_workspace c = ci_workspace q"
  obtain c0 where c0: "c0 \<in> set cs" "c = (if ci_id c0 = cid then f c0 else c0)"
    using m(1) by (rule in_map_circle)
  obtain q0 where q0: "q0 \<in> set cs" "q = (if ci_id q0 = cid then f q0 else q0)"
    using m(2) by (rule in_map_circle)
  have ids: "ci_id c0 = a" "ci_id q0 = b" "ci_workspace c0 = ci_workspace q0"
    using x c0(2) q0(2) keep by (auto split: if_splits)
  have act: "ci_archivedAt c0 = None" "ci_archivedAt q0 = None"
    using x c0(2) q0(2) other by (auto split: if_splits)
  show ?thesis
  proof (cases "ci_parent c0 = Some b")
    case True
    then have "(ci_id c0, ci_id q0) \<in> parent_edges cs"
      using c0(1) q0(1) ids act by (intro parent_edgesI) auto
    then show ?thesis using ids by simp
  next
    case False
    then have "ci_id c0 = cid" "ci_parent (f c0) = Some b" using x(3) c0(2) by (auto split: if_splits)
    then show ?thesis using new [OF c0(1)] False p ids by blast
  qed
qed

lemma parents_ok_changed:
  assumes "parents_ok cs"
    and keep: "\<And>c. ci_id (f c) = ci_id c" "\<And>c. ci_workspace (f c) = ci_workspace c"
    and new: "\<And>c p. \<lbrakk>c \<in> set cs; ci_id c = cid; ci_parent (f c) = Some p\<rbrakk> \<Longrightarrow>
        ci_parent c = Some p \<or>
        p \<noteq> [] \<and> p \<noteq> cid \<and> (\<exists>q\<in>set cs. ci_id q = p \<and> ci_workspace q = ci_workspace c)"
  shows "parents_ok (map_circle cid f cs)"
  unfolding parents_ok_def
proof (intro ballI allI impI)
  fix c p assume "c \<in> set (map_circle cid f cs)" and p: "ci_parent c = Some p"
  then obtain c0 where c0: "c0 \<in> set cs" "c = (if ci_id c0 = cid then f c0 else c0)"
    by (auto elim: in_map_circle)
  have ids: "ci_id c = ci_id c0" "ci_workspace c = ci_workspace c0" using c0(2) keep by simp_all
  have "p \<noteq> [] \<and> p \<noteq> ci_id c0 \<and> (\<exists>q\<in>set cs. ci_id q = p \<and> ci_workspace q = ci_workspace c0)"
    using assms(1) c0 p new [OF c0(1), of p] unfolding parents_ok_def by (auto split: if_splits)
  then obtain q where q: "p \<noteq> []" "p \<noteq> ci_id c0" "q \<in> set cs" "ci_id q = p" "ci_workspace q = ci_workspace c0"
    by blast
  let ?q = "if ci_id q = cid then f q else q"
  have "?q \<in> set (map_circle cid f cs)" using q(3) by (auto simp: map_circle_def)
  moreover have "ci_id ?q = p" "ci_workspace ?q = ci_workspace c" using q keep ids by auto
  ultimately show "p \<noteq> [] \<and> p \<noteq> ci_id c \<and>
      (\<exists>q\<in>set (map_circle cid f cs). ci_id q = p \<and> ci_workspace q = ci_workspace c)"
    using q ids by auto
qed

lemma hierarchy_ok_same_parent:
  assumes ok: "hierarchy_ok cs"
    and keep: "\<And>c. ci_id (f c) = ci_id c" "\<And>c. ci_workspace (f c) = ci_workspace c"
      "\<And>c. ci_parent (f c) = ci_parent c" "\<And>c. ci_archivedAt (f c) = None \<Longrightarrow> ci_archivedAt c = None"
  shows "hierarchy_ok (map_circle cid f cs)"
proof -
  have "parent_edges (map_circle cid f cs) \<subseteq> parent_edges cs"
  proof (rule subrelI)
    fix a b assume "(a, b) \<in> parent_edges (map_circle cid f cs)"
    from edges_of_changed_circle [OF keep(1,2,4) this, where P = False and S = "{}"] keep(3)
    show "(a, b) \<in> parent_edges cs" by simp
  qed
  moreover have "parents_ok (map_circle cid f cs)"
    by (rule parents_ok_changed) (use ok keep in \<open>auto simp: hierarchy_ok_def\<close>)
  ultimately show ?thesis using ok map_circle_ids [OF keep(1)]
    unfolding hierarchy_ok_def by (auto intro: acyclic_subset)
qed

lemma hierarchy_ok_moved:
  assumes ok: "hierarchy_ok cs" and q: "q \<in> set cs" "ci_id q = p" "p \<noteq> []" "p \<noteq> cid"
    and ws: "\<And>c. \<lbrakk>c \<in> set cs; ci_id c = cid\<rbrakk> \<Longrightarrow> ci_workspace c = ci_workspace q"
    and below: "(p, cid) \<notin> (parent_edges cs)\<^sup>*"
    and keep: "\<And>c. ci_id (f c) = ci_id c" "\<And>c. ci_workspace (f c) = ci_workspace c"
      "\<And>c. ci_archivedAt (f c) = None \<Longrightarrow> ci_archivedAt c = None" "\<And>c. ci_parent (f c) = Some p"
  shows "hierarchy_ok (map_circle cid f cs)"
proof -
  have "parent_edges (map_circle cid f cs) \<subseteq> {(cid, p)} \<union> parent_edges cs"
  proof (rule subrelI)
    fix a b assume "(a, b) \<in> parent_edges (map_circle cid f cs)"
    from edges_of_changed_circle [OF keep(1-3) this, where P = "b = p" and S = "{(cid, p)}"] keep(4)
    show "(a, b) \<in> {(cid, p)} \<union> parent_edges cs" by auto
  qed
  moreover have "acyclic ({(cid, p)} \<union> parent_edges cs)"
    using ok below by (simp add: hierarchy_ok_def acyclic_insert)
  moreover have "parents_ok (map_circle cid f cs)"
    by (rule parents_ok_changed) (use ok q keep(4) keep(1,2) ws in \<open>auto simp: hierarchy_ok_def intro!: bexI [of _ q]\<close>)
  ultimately show ?thesis using ok map_circle_ids [OF keep(1)]
    unfolding hierarchy_ok_def by (auto intro: acyclic_subset)
qed

lemma hierarchy_ok_detached:
  assumes ok: "hierarchy_ok cs"
    and keep: "\<And>c. ci_id (f c) = ci_id c" "\<And>c. ci_workspace (f c) = ci_workspace c"
      "\<And>c. ci_archivedAt (f c) = None \<Longrightarrow> ci_archivedAt c = None" "\<And>c. ci_parent (f c) = None"
  shows "hierarchy_ok (map_circle cid f cs)"
proof -
  have "parent_edges (map_circle cid f cs) \<subseteq> parent_edges cs"
  proof (rule subrelI)
    fix a b assume "(a, b) \<in> parent_edges (map_circle cid f cs)"
    from edges_of_changed_circle [OF keep(1-3) this, where P = False and S = "{}"] keep(4)
    show "(a, b) \<in> parent_edges cs" by simp
  qed
  moreover have "parents_ok (map_circle cid f cs)"
    by (rule parents_ok_changed) (use ok keep in \<open>auto simp: hierarchy_ok_def\<close>)
  ultimately show ?thesis using ok map_circle_ids [OF keep(1)]
    unfolding hierarchy_ok_def by (auto intro: acyclic_subset)
qed

lemma hierarchy_ok_new_circle:
  assumes ok: "hierarchy_ok cs" and fresh: "ci_id c \<notin> ci_id ` set cs"
    and p: "\<And>p. ci_parent c = Some p \<Longrightarrow> p \<noteq> [] \<and> (\<exists>q\<in>set cs. ci_id q = p \<and> ci_workspace q = ci_workspace c)"
  shows "hierarchy_ok (cs @ [c])"
proof -
  have noparent: "ci_parent d \<noteq> Some (ci_id c)" if "d \<in> set cs" for d
    using ok that fresh unfolding hierarchy_ok_def parents_ok_def by (metis image_eqI)
  have self: "ci_parent c \<noteq> Some (ci_id c)" using p fresh by (metis image_eqI)
  have pok: "parents_ok (cs @ [c])"
    unfolding parents_ok_def
  proof (intro ballI allI impI)
    fix d x assume d: "d \<in> set (cs @ [c])" "ci_parent d = Some x"
    show "x \<noteq> [] \<and> x \<noteq> ci_id d \<and> (\<exists>q\<in>set (cs @ [c]). ci_id q = x \<and> ci_workspace q = ci_workspace d)"
    proof (cases "d = c")
      case True then show ?thesis using p [of x] d self by auto
    next
      case False
      then have "d \<in> set cs" using d by simp
      then show ?thesis using ok d(2) unfolding hierarchy_ok_def parents_ok_def by fastforce
    qed
  qed
  have split: "parent_edges (cs @ [c]) \<subseteq> parent_edges cs \<union> {(ci_id c, b) | b. ci_parent c = Some b}"
    using noparent self by (fastforce elim!: parent_edgesE intro: parent_edgesI)
  have "acyclic (parent_edges (cs @ [c]))"
  proof (cases "ci_parent c")
    case None
    then show ?thesis using split ok by (auto simp: hierarchy_ok_def intro: acyclic_subset)
  next
    case (Some b)
    have no: "(x, ci_id c) \<notin> parent_edges cs" for x
      using noparent by (blast elim: parent_edgesE)
    have "b \<noteq> ci_id c" using self Some by simp
    then have "(b, ci_id c) \<notin> (parent_edges cs)\<^sup>*"
      using no by (blast elim: rtranclE)
    then have "acyclic (insert (ci_id c, b) (parent_edges cs))"
      using ok by (simp add: hierarchy_ok_def acyclic_insert)
    then show ?thesis using split Some by (auto intro: acyclic_subset)
  qed
  then show ?thesis using pok ok fresh by (auto simp: hierarchy_ok_def)
qed

lemma hierarchy_ok_purged:
  assumes "hierarchy_ok cs"
  shows "hierarchy_ok (delete_circle_row cid cs)"
proof -
  have ids: "map ci_id (delete_circle_row cid cs) = map ci_id (filter (\<lambda>c. ci_id c \<noteq> cid) cs)"
    by (simp add: delete_circle_row_def)
  have mem: "\<exists>d\<in>set cs. ci_id d = ci_id c \<and> ci_id d \<noteq> cid \<and> ci_workspace d = ci_workspace c \<and>
      ci_archivedAt d = ci_archivedAt c \<and> ci_parent c = (if ci_parent d = Some cid then None else ci_parent d)"
    if "c \<in> set (delete_circle_row cid cs)" for c
    using that by (auto simp: delete_circle_row_def)
  have "parent_edges (delete_circle_row cid cs) \<subseteq> parent_edges cs"
  proof (rule subrelI, erule parent_edgesE)
    fix a b c q
    assume x: "c \<in> set (delete_circle_row cid cs)" "q \<in> set (delete_circle_row cid cs)" "ci_id c = a"
      "ci_id q = b" "ci_parent c = Some b" "ci_archivedAt c = None" "ci_archivedAt q = None"
      "ci_workspace c = ci_workspace q"
    obtain c0 where c0: "c0 \<in> set cs" "ci_id c0 = ci_id c" "ci_workspace c0 = ci_workspace c"
      "ci_archivedAt c0 = ci_archivedAt c" "ci_parent c0 = Some b"
      using mem [OF x(1)] x(5) by (auto split: if_splits)
    obtain q0 where q0: "q0 \<in> set cs" "ci_id q0 = ci_id q" "ci_workspace q0 = ci_workspace q"
      "ci_archivedAt q0 = ci_archivedAt q"
      using mem [OF x(2)] by blast
    show "(a, b) \<in> parent_edges cs"
      using parent_edgesI [OF c0(1) q0(1)] c0 q0 x by simp
  qed
  moreover have "parents_ok (delete_circle_row cid cs)"
    unfolding parents_ok_def
  proof (intro ballI allI impI)
    fix c p assume c: "c \<in> set (delete_circle_row cid cs)" "ci_parent c = Some p"
    obtain d where d: "d \<in> set cs" "ci_id d = ci_id c" "ci_workspace d = ci_workspace c"
      "ci_parent d = Some p" "p \<noteq> cid"
      using mem [OF c(1)] c(2) by (metis option.distinct(1) option.inject)
    obtain q where q: "p \<noteq> []" "p \<noteq> ci_id d" "q \<in> set cs" "ci_id q = p" "ci_workspace q = ci_workspace d"
      using assms d(1,4) unfolding hierarchy_ok_def parents_ok_def by blast
    have "(if ci_parent q = Some cid then q\<lparr>ci_parent := None\<rparr> else q) \<in> set (delete_circle_row cid cs)"
      using q d(5) by (auto simp: delete_circle_row_def)
    then show "p \<noteq> [] \<and> p \<noteq> ci_id c \<and>
        (\<exists>q\<in>set (delete_circle_row cid cs). ci_id q = p \<and> ci_workspace q = ci_workspace c)"
      using q d by (auto intro: bexI [rotated])
  qed
  ultimately show ?thesis using assms ids
    by (auto simp: hierarchy_ok_def distinct_map_filter intro: acyclic_subset)
qed


text \<open>Restoring a circle no active circle has as its parent is harmless.\<close>

lemma hierarchy_ok_restored_leaf:
  assumes ok: "hierarchy_ok cs" and leaf: "\<And>c. \<lbrakk>c \<in> set cs; ci_parent c = Some cid\<rbrakk> \<Longrightarrow> ci_archivedAt c \<noteq> None"
    and keep: "\<And>c. ci_id (f c) = ci_id c" "\<And>c. ci_workspace (f c) = ci_workspace c"
      "\<And>c. ci_parent (f c) = ci_parent c"
  shows "hierarchy_ok (map_circle cid f cs)"
proof -
  let ?up = "{(cid, b) | b. \<exists>c\<in>set cs. ci_id c = cid \<and> ci_parent c = Some b}"
  have self: "(cid, cid) \<notin> ?up" using ok by (auto simp: hierarchy_ok_def parents_ok_def)
  have "parent_edges (map_circle cid f cs) \<subseteq> ?up \<union> parent_edges cs"
  proof (rule subrelI, erule parent_edgesE)
    fix a b c q assume x: "c \<in> set (map_circle cid f cs)" "q \<in> set (map_circle cid f cs)" "ci_id c = a"
      "ci_id q = b" "ci_parent c = Some b" "ci_archivedAt c = None" "ci_archivedAt q = None"
      "ci_workspace c = ci_workspace q"
    obtain c0 where c0: "c0 \<in> set cs" "c = (if ci_id c0 = cid then f c0 else c0)"
      using x(1) by (rule in_map_circle)
    obtain q0 where q0: "q0 \<in> set cs" "q = (if ci_id q0 = cid then f q0 else q0)"
      using x(2) by (rule in_map_circle)
    show "(a, b) \<in> ?up \<union> parent_edges cs"
    proof (cases "a = cid")
      case True then show ?thesis using c0 x(3,5) keep by (auto split: if_splits)
    next
      case False
      then have c: "c = c0" using c0(2) x(3) keep(1) by (metis)
      then have "q = q0" using q0(2) leaf [OF c0(1)] x(4-6) keep(1) by (metis)
      then have "(ci_id c0, ci_id q0) \<in> parent_edges cs"
        using c c0(1) q0(1) x by (intro parent_edgesI) auto
      then show ?thesis using c \<open>q = q0\<close> x(3,4) by simp
    qed
  qed
  moreover have into: "(x, cid) \<notin> ?up \<union> parent_edges cs" for x
    using self leaf by (fastforce elim!: parent_edgesE)
  have "acyclic (?up \<union> parent_edges cs)"
    unfolding acyclic_def
  proof (intro allI notI)
    fix x assume x: "(x, x) \<in> (?up \<union> parent_edges cs)\<^sup>+"
    have "(y, z) \<in> (parent_edges cs)\<^sup>+" if "(y, z) \<in> (?up \<union> parent_edges cs)\<^sup>+" "y \<noteq> cid" for y z
      using that
    proof (induction rule: trancl_induct)
      case (base z) then show ?case by auto
    next
      case (step z z')
      have "z \<noteq> cid" using step(1) into by (auto dest: tranclD2)
      then show ?case using step by (auto intro: trancl_into_trancl)
    qed
    moreover have "x \<noteq> cid" using x into by (auto dest: tranclD2)
    ultimately show False using x ok unfolding hierarchy_ok_def acyclic_def by blast
  qed
  moreover have "parents_ok (map_circle cid f cs)"
    by (rule parents_ok_changed) (use ok keep in \<open>auto simp: hierarchy_ok_def\<close>)
  ultimately show ?thesis using ok map_circle_ids [OF keep(1)]
    unfolding hierarchy_ok_def by (auto intro: acyclic_subset)
qed

section \<open>The operations on the table\<close>

lemma circle_audit_circles [simp]:
  "cd_circles (circle_audit actor w a cid meta db) = cd_circles db"
  by (simp add: circle_audit_def)

lemma close_archive_row_circles [simp]: "cd_circles (close_archive_row r f db) = cd_circles db"
  by (cases r) (simp_all add: close_archive_row_def)

lemma insert_circle_Inr:
  "insert_circle c cs = Inr cs' \<longleftrightarrow> cs' = cs @ [c] \<and> ci_id c \<notin> ci_id ` set cs"
  by (auto simp: insert_circle_def find_circle_None_iff)

lemma new_circle_ids [simp]:
  "ci_id (new_circle env w ps parent) = ce_new_id env"
  "ci_workspace (new_circle env w ps parent) = w"
  "ci_parent (new_circle env w ps parent) = parent"
  by (simp_all add: new_circle_def)

lemma createCircle_circles:
  assumes "createCircle env actor w ps db = Inr (r, db')"
  obtains parent where "validateParentCircle (cd_circles db) w None (cp_parent ps) = Inr parent"
    "cd_circles db' = cd_circles db @ [new_circle env w ps parent]"
    "ce_new_id env \<notin> ci_id ` set (cd_circles db)"
  using assms
  by (auto simp: createCircle_def result_simps Let_def insert_circle_Inr split: prod.splits if_splits)

lemma updateCircle_circles:
  assumes "updateCircle env actor w cid ps db = Inr (r, db')"
  obtains c d where "require_circle w cid (cd_circles db) = Inr c"
    "circle_update_data (cd_circles db) w c ps = Inr d"
    "cd_circles db' = map_circle (ci_id c) (apply_circle_data (ce_now env) d) (cd_circles db)"
  using assms
  by (auto simp: updateCircle_def read_update_def write_update_def result_simps Let_def
      split: prod.splits option.splits)

lemma archiveCircle_circles:
  assumes "archiveCircle env actor w cid reason db = Inr (i, db')"
  shows "cd_circles db' = cd_circles db \<or>
    (\<exists>i f. cd_circles db' = map_circle i f (cd_circles db) \<and>
       f = (\<lambda>c. c\<lparr>ci_archivedAt := Some (ce_now env), ci_archivedBy := actor_user actor,
                  ci_archiveReason := trimmed_or_none reason, ci_updatedAt := ce_now env\<rparr>))"
  using assms by (auto simp: archiveCircle_def result_simps Let_def split: if_splits)

lemma restoreCircle_circles:
  assumes "restoreCircle env actor w cid db = Inr (i, db')"
  shows "cd_circles db' = map_circle cid (\<lambda>c. c\<lparr>ci_archivedAt := None, ci_archivedBy := None,
    ci_archiveReason := None, ci_updatedAt := ce_now env\<rparr>) (cd_circles db)"
proof -
  obtain rec where "findRecord w cid (cd_circles db) = Inr rec"
    using assms by (auto simp: restoreCircle_def result_simps)
  moreover have "ci_id rec = cid"
    using calculation by (auto simp: findRecord_def find_Some_iff split: option.splits)
  ultimately show ?thesis
    using assms by (auto simp: restoreCircle_def result_simps Let_def split: if_splits)
qed

lemma purgeCircle_circles:
  assumes "purgeCircle env actor w cid reason db = Inr (i, db')"
  shows "cd_circles db' = delete_circle_row i (cd_circles db)"
  using assms by (auto simp: purgeCircle_def result_simps Let_def split: option.splits if_splits)

lemma deleteCircle_circles:
  assumes "deleteCircle env actor w cid db = (r, db')"
  shows "cd_circles db' = cd_circles db \<or>
    (\<exists>i db1. archiveCircle env actor w cid (Some delete_reason) db = Inr (i, db1) \<and>
       cd_circles db' = cd_circles db1)"
  using assms by (auto simp: deleteCircle_def split: sum.splits)

section \<open>Which operations keep the hierarchy\<close>

lemma createCircle_keeps_hierarchy:
  assumes "createCircle env actor w ps db = Inr (r, db')" and ok: "hierarchy_ok (cd_circles db)"
  shows "hierarchy_ok (cd_circles db')"
proof (rule createCircle_circles [OF assms(1)])
  fix parent
  assume v: "validateParentCircle (cd_circles db) w None (cp_parent ps) = Inr parent"
    and cs: "cd_circles db' = cd_circles db @ [new_circle env w ps parent]"
    and fresh: "ce_new_id env \<notin> ci_id ` set (cd_circles db)"
  have "p \<noteq> [] \<and> (\<exists>q\<in>set (cd_circles db). ci_id q = p \<and> ci_workspace q = w)" if "parent = Some p" for p
    using validateParentCircle_Some [OF v [unfolded that]]
    by (metis circle_active_in_def find_circle_SomeD)
  then show ?thesis
    unfolding cs by (intro hierarchy_ok_new_circle) (use ok fresh in auto)
qed

lemma updateCircle_keeps_hierarchy:
  assumes "updateCircle env actor w cid ps db = Inr (r, db')"
    and ok: "hierarchy_ok (cd_circles db)" and named: "cid \<noteq> []"
  shows "hierarchy_ok (cd_circles db')"
proof (rule updateCircle_circles [OF assms(1)])
  fix c d
  assume c: "require_circle w cid (cd_circles db) = Inr c"
    and d: "circle_update_data (cd_circles db) w c ps = Inr d"
    and cs: "cd_circles db' = map_circle (ci_id c) (apply_circle_data (ce_now env) d) (cd_circles db)"
  have cin: "c \<in> set (cd_circles db)" "ci_id c = cid" "ci_workspace c = w"
    using c find_circle_SomeD
    by (auto simp: require_circle_def result_simps Js_Prelude.invariant_def circle_active_in_def
        split: option.splits if_splits)
  have keep: "ci_id (apply_circle_data n d x) = ci_id x" "ci_workspace (apply_circle_data n d x) = ci_workspace x"
    "ci_archivedAt (apply_circle_data n d x) = ci_archivedAt x" for n x
    by (simp_all add: apply_circle_data_def)
  consider "dt_parent d = None" | "dt_parent d = Some None" | p where "dt_parent d = Some (Some p)"
    by (metis option.exhaust)
  then show ?thesis
  proof cases
    case 1
    then show ?thesis unfolding cs
      by (intro hierarchy_ok_same_parent ok) (simp_all add: keep apply_circle_data_def or_keep_def)
  next
    case 2
    then show ?thesis unfolding cs
      by (intro hierarchy_ok_detached ok) (simp_all add: keep apply_circle_data_def or_keep_def)
  next
    case (3 p)
    then obtain q where v: "validateParentCircle (cd_circles db) w (Some (ci_id c)) q = Inr (Some p)"
      using d by (auto simp: circle_update_data_def optional_step_def result_simps split: option.splits)
    have below: "(p, ci_id c) \<notin> (parent_edges (cd_circles db))\<^sup>*"
      by (rule accepted_parent_not_below [OF v ok]) (use cin named in simp)
    obtain a where a: "find_circle p (cd_circles db) = Some a" "circle_active_in w a"
      "Some (ci_id c) \<noteq> Some p" "p \<noteq> []"
      using validateParentCircle_Some [OF v] by metis
    have ain: "a \<in> set (cd_circles db)" "ci_id a = p" using find_circle_SomeD [OF a(1)] by auto
    show ?thesis unfolding cs
    proof (rule hierarchy_ok_moved [OF ok ain a(4) _ _ below keep(1,2)])
      show "p \<noteq> ci_id c" using a(3) by simp
      show "ci_workspace x = ci_workspace a" if "x \<in> set (cd_circles db)" "ci_id x = ci_id c" for x
        using same_id_same_circle [OF _ that(1) cin(1) that(2)] ok cin a(2)
        by (simp add: hierarchy_ok_def circle_active_in_def)
    qed (use 3 keep in \<open>simp_all add: apply_circle_data_def or_keep_def\<close>)
  qed
qed

lemma archiveCircle_keeps_hierarchy:
  assumes "archiveCircle env actor w cid reason db = Inr (i, db')" and ok: "hierarchy_ok (cd_circles db)"
  shows "hierarchy_ok (cd_circles db')"
  using archiveCircle_circles [OF assms(1)] ok
  by (auto intro!: hierarchy_ok_same_parent)

lemma deleteCircle_keeps_hierarchy:
  assumes "deleteCircle env actor w cid db = (r, db')" and ok: "hierarchy_ok (cd_circles db)"
  shows "hierarchy_ok (cd_circles db')"
  using deleteCircle_circles [OF assms(1)] ok archiveCircle_keeps_hierarchy by metis

lemma purgeCircle_keeps_hierarchy:
  assumes "purgeCircle env actor w cid reason db = Inr (i, db')" and ok: "hierarchy_ok (cd_circles db)"
  shows "hierarchy_ok (cd_circles db')"
  using purgeCircle_circles [OF assms(1)] hierarchy_ok_purged [OF ok] by auto

lemma restoreCircle_leaf_keeps_hierarchy:
  assumes "restoreCircle env actor w cid db = Inr (i, db')" and ok: "hierarchy_ok (cd_circles db)"
    and "\<And>c. \<lbrakk>c \<in> set (cd_circles db); ci_parent c = Some cid\<rbrakk> \<Longrightarrow> ci_archivedAt c \<noteq> None"
  shows "hierarchy_ok (cd_circles db')"
  unfolding restoreCircle_circles [OF assms(1)]
  by (rule hierarchy_ok_restored_leaf [OF ok assms(3)]) simp_all

end
