(* ===== verification/Circle_Hierarchy.thy ===== *)
theory Circle_Hierarchy
  imports Circle_Facts
begin

text \<open>
  The circle operations as steps on the database, the tree built for display, and the properties of
  both.
\<close>

section \<open>Steps\<close>

inductive circle_step :: "('l, 'r) circle_env set \<Rightarrow> 'l circle_db \<Rightarrow> 'l circle_db \<Rightarrow> bool"
  for envs :: "('l, 'r) circle_env set" where
  created: "\<lbrakk>env \<in> envs; createCircle env actor w (ps :: create_circle_params) db = Inr (r, db')\<rbrakk>
     \<Longrightarrow> circle_step envs db db'"
| updated: "\<lbrakk>env \<in> envs; updateCircle env actor w cid (up :: update_circle_params) db = Inr (r, db'); cid \<noteq> []\<rbrakk>
     \<Longrightarrow> circle_step envs db db'"
| archived: "\<lbrakk>env \<in> envs; archiveCircle env actor w cid reason db = Inr (i, db')\<rbrakk>
     \<Longrightarrow> circle_step envs db db'"
| deleted: "\<lbrakk>env \<in> envs; deleteCircle env actor w cid db = (d, db')\<rbrakk> \<Longrightarrow> circle_step envs db db'"
| purged: "\<lbrakk>env \<in> envs; purgeCircle env actor w cid why db = Inr (i, db')\<rbrakk> \<Longrightarrow> circle_step envs db db'"
| restored_leaf: "\<lbrakk>env \<in> envs; restoreCircle env actor w cid db = Inr (i, db');
     \<forall>c\<in>set (cd_circles db). ci_parent c = Some cid \<longrightarrow> ci_archivedAt c \<noteq> None\<rbrakk>
     \<Longrightarrow> circle_step envs db db'"

lemma circle_step_keeps_hierarchy:
  assumes "circle_step envs db db'" "hierarchy_ok (cd_circles db)"
  shows "hierarchy_ok (cd_circles db')"
  using assms
proof cases
  case (restored_leaf env actor w cid i)
  then show ?thesis using restoreCircle_leaf_keeps_hierarchy assms(2) by metis
qed (use assms(2) in \<open>blast intro: createCircle_keeps_hierarchy updateCircle_keeps_hierarchy
      archiveCircle_keeps_hierarchy deleteCircle_keeps_hierarchy purgeCircle_keeps_hierarchy\<close>)+

section \<open>What the tree holds\<close>

definition tree_children :: "tree_map \<times> string list \<Rightarrow> string \<Rightarrow> string list" where
  "tree_children t p = (case fst t p of None \<Rightarrow> [] | Some (_, ch) \<Rightarrow> ch)"

inductive_set tree_reach :: "tree_map \<times> string list \<Rightarrow> string set" for t where
  root: "i \<in> set (snd t) \<Longrightarrow> i \<in> tree_reach t"
| child: "\<lbrakk>p \<in> tree_reach t; i \<in> set (tree_children t p)\<rbrakk> \<Longrightarrow> i \<in> tree_reach t"

definition attached :: "string set \<Rightarrow> circle_item \<Rightarrow> bool" where
  "attached ids it \<longleftrightarrow> (\<exists>p\<in>ids. item_parent it = Some p \<and> p \<noteq> [])"

definition kids :: "circle_item list \<Rightarrow> string \<Rightarrow> string list" where
  "kids flat p = map item_id (filter (\<lambda>it. item_parent it = Some p \<and> p \<noteq> []) flat)"

definition item_edges :: "circle_item list \<Rightarrow> (string \<times> string) set" where
  "item_edges flat =
     {(item_id it, p) | it p. it \<in> set flat \<and> item_parent it = Some p \<and> p \<noteq> [] \<and> p \<in> item_id ` set flat}"

lemma tree_nodes:
  "map_option snd (fold tree_node flat m i) =
     (if i \<in> item_id ` set flat then Some [] else map_option snd (m i))"
  by (induction flat arbitrary: m) (auto simp: tree_node_def)

lemma tree_link_step:
  "map_option snd (fst (tree_link it s) i) =
     map_option (\<lambda>x. snd x @ (if item_parent it = Some i \<and> i \<noteq> [] then [item_id it] else [])) (fst s i)"
  "snd (tree_link it s) = snd s @ (if attached (dom (fst s)) it then [] else [item_id it])"
  "dom (fst (tree_link it s)) = dom (fst s)"
  by (auto simp: tree_link_def attached_def split: option.splits)

lemma tree_links:
  "map_option snd (fst (fold tree_link xs s) i) = map_option (\<lambda>x. snd x @ kids xs i) (fst s i) \<and>
   snd (fold tree_link xs s) = snd s @ map item_id (filter (\<lambda>it. \<not> attached (dom (fst s)) it) xs)"
proof (induction xs arbitrary: s)
  case Nil
  then show ?case by (simp add: kids_def option.map_ident option.map_comp comp_def)
next
  case (Cons it xs)
  have "map_option (\<lambda>x. snd x @ kids xs i) (fst (tree_link it s) i)
      = map_option (\<lambda>ch. ch @ kids xs i) (map_option snd (fst (tree_link it s) i))"
    by (simp add: option.map_comp comp_def)
  also have "\<dots> = map_option (\<lambda>x. snd x @ kids (it # xs) i) (fst s i)"
    by (simp add: tree_link_step option.map_comp comp_def kids_def)
  finally show ?case using Cons.IH [of "tree_link it s"] by (simp add: tree_link_step)
qed

lemma buildCircleTree_parts:
  "tree_children (buildCircleTree flat) p = (if p \<in> item_id ` set flat then kids flat p else [])"
  "snd (buildCircleTree flat) = map item_id (filter (\<lambda>it. \<not> attached (item_id ` set flat) it) flat)"
proof -
  let ?m = "fold tree_node flat (Map.empty :: tree_map)"
  have d: "dom ?m = item_id ` set flat"
  proof (rule set_eqI)
    fix i
    have "i \<in> dom ?m \<longleftrightarrow> map_option snd (?m i) \<noteq> None" by (simp add: dom_def)
    also have "\<dots> \<longleftrightarrow> i \<in> item_id ` set flat" by (simp add: tree_nodes)
    finally show "i \<in> dom ?m \<longleftrightarrow> i \<in> item_id ` set flat" .
  qed
  have "map_option snd (fst (buildCircleTree flat) p) = map_option (\<lambda>ch. ch @ kids flat p) (map_option snd (?m p))"
    using tree_links [of flat "(?m, [])" p] by (simp add: buildCircleTree_def option.map_comp comp_def)
  also have "\<dots> = (if p \<in> item_id ` set flat then Some (kids flat p) else None)"
    by (simp add: tree_nodes)
  finally show "tree_children (buildCircleTree flat) p = (if p \<in> item_id ` set flat then kids flat p else [])"
    by (auto simp: tree_children_def split: option.splits if_splits)
  show "snd (buildCircleTree flat) = map item_id (filter (\<lambda>it. \<not> attached (item_id ` set flat) it) flat)"
    using tree_links [of flat "(?m, [])"] d by (simp add: buildCircleTree_def)
qed

lemma kids_of_all:
  assumes "distinct ps"
  shows "(\<Sum>p\<leftarrow>ps. mset (kids flat p)) = mset (map item_id (filter (attached (set ps)) flat))"
proof (induction flat)
  case Nil
  then show ?case by (simp add: kids_def)
next
  case (Cons it flat)
  have "(\<Sum>p\<leftarrow>ps. mset (kids (it # flat) p))
      = (\<Sum>p\<leftarrow>ps. mset (kids flat p)) + (\<Sum>p\<leftarrow>ps. if item_parent it = Some p \<and> p \<noteq> [] then {#item_id it#} else {#})"
    by (simp add: kids_def flip: sum_list_addf) (intro arg_cong [where f = sum_list] map_cong, auto)
  also have "(\<Sum>p\<leftarrow>ps. if item_parent it = Some p \<and> p \<noteq> [] then {#item_id it#} else {#})
      = (if attached (set ps) it then {#item_id it#} else {#})"
    using assms by (induction ps) (auto simp: attached_def)
  finally show ?case using Cons by simp
qed

text \<open>Which circles a reader who starts at the roots meets.\<close>

lemma tree_reach_acyclic:
  assumes d: "distinct (map item_id flat)"
  shows "tree_reach (buildCircleTree flat) = item_id ` set flat \<longleftrightarrow> acyclic (item_edges flat)"
proof
  assume ac: "acyclic (item_edges flat)"
  have fin: "finite (item_edges flat)"
    by (rule finite_subset [of _ "item_id ` set flat \<times> item_id ` set flat"]) (auto simp: item_edges_def)
  have wf: "wf ((item_edges flat)\<inverse>)" using ac fin by (rule finite_acyclic_wf_converse [rotated])
  have up: "i \<in> item_id ` set flat \<longrightarrow> i \<in> tree_reach (buildCircleTree flat)" for i
  proof (rule wf_induct_rule [OF wf])
    fix i
    assume IH: "\<And>p. (p, i) \<in> (item_edges flat)\<inverse> \<Longrightarrow>
        p \<in> item_id ` set flat \<longrightarrow> p \<in> tree_reach (buildCircleTree flat)"
    show "i \<in> item_id ` set flat \<longrightarrow> i \<in> tree_reach (buildCircleTree flat)"
    proof
      assume "i \<in> item_id ` set flat"
      then obtain it where it: "it \<in> set flat" "item_id it = i" by auto
      show "i \<in> tree_reach (buildCircleTree flat)"
      proof (cases "attached (item_id ` set flat) it")
        case True
        then obtain p where p: "item_parent it = Some p" "p \<noteq> []" "p \<in> item_id ` set flat"
          by (auto simp: attached_def)
        then have "p \<in> tree_reach (buildCircleTree flat)"
          using IH it by (auto simp: item_edges_def)
        moreover have "i \<in> set (tree_children (buildCircleTree flat) p)"
          using it p by (auto simp: buildCircleTree_parts kids_def)
        ultimately show ?thesis by (rule tree_reach.child)
      next
        case False
        then show ?thesis using it by (intro tree_reach.root) (auto simp: buildCircleTree_parts)
      qed
    qed
  qed
  have "i \<in> item_id ` set flat" if "i \<in> tree_reach (buildCircleTree flat)" for i
    using that by induction (auto simp: buildCircleTree_parts kids_def split: if_splits)
  then show "tree_reach (buildCircleTree flat) = item_id ` set flat" using up by blast
next
  assume all: "tree_reach (buildCircleTree flat) = item_id ` set flat"
  have one: "item_parent it = Some b \<and> b \<noteq> [] \<and> b \<in> item_id ` set flat"
    if it: "it \<in> set flat" and e: "(item_id it, b) \<in> item_edges flat" for it b
  proof -
    obtain it' where it': "item_id it' = item_id it" "it' \<in> set flat" "item_parent it' = Some b" "b \<noteq> []"
      "b \<in> item_id ` set flat"
      using e unfolding item_edges_def by auto
    have "it' = it" using d it it' unfolding distinct_map inj_on_def by blast
    then show ?thesis using it' by simp
  qed
  have "(i, i) \<notin> (item_edges flat)\<^sup>+" if "i \<in> tree_reach (buildCircleTree flat)" for i
    using that
  proof induction
    case (root i)
    then obtain it where it: "it \<in> set flat" "i = item_id it" "\<not> attached (item_id ` set flat) it"
      by (auto simp: buildCircleTree_parts)
    have "(i, b) \<notin> item_edges flat" for b
      using one [OF it(1)] it(2,3) unfolding attached_def by blast
    then show ?case by (auto dest: tranclD)
  next
    case (child p i)
    obtain it where it: "it \<in> set flat" "i = item_id it" "item_parent it = Some p"
      using child(2) by (auto simp: buildCircleTree_parts kids_def split: if_splits)
    have only: "b = p" if "(i, b) \<in> item_edges flat" for b
      using one [OF it(1)] it(2,3) that by simp
    show ?case
    proof
      assume "(i, i) \<in> (item_edges flat)\<^sup>+"
      then obtain b where b: "(i, b) \<in> item_edges flat" "(b, i) \<in> (item_edges flat)\<^sup>*"
        by (blast dest: tranclD)
      then have "(p, p) \<in> (item_edges flat)\<^sup>+" using only by (metis rtrancl_into_trancl1)
      then show False using child(3) by blast
    qed
  qed
  moreover have "i \<in> item_id ` set flat" if "(i, i) \<in> (item_edges flat)\<^sup>+" for i
    using tranclD [OF that] by (auto simp: item_edges_def)
  ultimately show "acyclic (item_edges flat)"
    using all unfolding acyclic_def by blast
qed


section \<open>The tree of a workspace\<close>

lemma admitted_circles_set:
  "set (admitted_circles v w flt cs) =
     {c \<in> set cs. ci_workspace c = w \<and> archiveFilterWhere flt c \<and> cv_circle v (ci_id c)}"
  by (auto simp: admitted_circles_def)

lemma safe_circle_simps [simp]:
  "item_id (safe_circle v cs rs c) = ci_id c"
  "item_parent (safe_circle v cs rs c) = map_option ci_id (visible_parent v cs c)"
  by (simp_all add: item_id_def item_parent_def safe_circle_def)

lemma visible_parent_SomeD:
  assumes "visible_parent v cs c = Some p"
  shows "ci_parent c = Some (ci_id p)" "p \<in> set cs"
proof -
  obtain i where i: "ci_parent c = Some i" "find_circle i cs = Some p"
    using assms by (auto simp: visible_parent_def truthy_str_def split: option.splits if_splits)
  show "ci_parent c = Some (ci_id p)" "p \<in> set cs" using i find_circle_SomeD [OF i(2)] by simp_all
qed

lemma distinct_admitted:
  assumes "distinct (map ci_id cs)"
  shows "distinct (map ci_id (admitted_circles v w flt cs))"
  using assms by (auto simp: admitted_circles_def distinct_map intro: inj_on_subset)

lemma active_item_edges:
  assumes "hierarchy_ok cs"
  shows "item_edges (map (safe_circle v cs rs) (admitted_circles v w Filter_active cs)) \<subseteq> parent_edges cs"
proof (rule subrelI)
  fix a b
  assume "(a, b) \<in> item_edges (map (safe_circle v cs rs) (admitted_circles v w Filter_active cs))"
  then obtain c q d where c: "c \<in> set cs" "ci_workspace c = w" "ci_archivedAt c = None" "ci_id c = a"
    and q: "visible_parent v cs c = Some q" "ci_id q = b"
    and d: "d \<in> set cs" "ci_workspace d = w" "ci_archivedAt d = None" "ci_id d = b"
    by (auto simp: item_edges_def admitted_circles_set)
  have "(ci_id c, ci_id d) \<in> parent_edges cs"
    using visible_parent_SomeD [OF q(1)] c d q(2) by (intro parent_edgesI) auto
  then show "(a, b) \<in> parent_edges cs" using c d by simp
qed

section \<open>Example runs\<close>

definition example_circle_env :: "string \<Rightarrow> int \<Rightarrow> (unit, unit) circle_env" where
  "example_circle_env new now =
     \<lparr>ce_membership = (\<lambda>a w rs l. Inr None), ce_now = now, ce_new_id = new, ce_archive_id = new,
      ce_prepare = (\<lambda>a w c l. Inr ((), l)), ce_finish = (\<lambda>a w c r l. Inr l),
      ce_readable = (\<lambda>a w c l. True), ce_fence = (\<lambda>l. Inr ()), ce_advance = (\<lambda>w c d l. Inr l),
      ce_close_roles = (\<lambda>a w c l. Inr l), ce_purge = (\<lambda>a w c l. Inr l)\<rparr>"

definition example_circle_admin :: app_actor where
  "example_circle_admin = UserActor \<lparr>hu_id = ''u'', hu_email = ''u@x'', hu_name = None\<rparr>"

definition example_view :: circle_view where
  "example_view =
     \<lparr>cv_membership = (\<lambda>a w. Inr None), cv_circle = (\<lambda>i. True), cv_role = (\<lambda>i. True),
      cv_assignment = (\<lambda>i. True), cv_finish = Inr ()\<rparr>"

definition empty_circles :: "unit circle_db" where
  "empty_circles = \<lparr>cd_circles = [], cd_archive = [], cd_audit = [], cd_events = [], cd_rest = ()\<rparr>"

definition named_circle :: "string option \<Rightarrow> create_circle_params" where
  "named_circle p = \<lparr>cp_name = ''n'', cp_purpose = None, cp_domain = None, cp_parent = p, cp_maturity = None\<rparr>"

definition move_under :: "string \<Rightarrow> update_circle_params" where
  "move_under p = \<lparr>up_name = None, up_purpose = None, up_domain = None, up_parent = Some (Some p), up_maturity = None\<rparr>"

definition example_create :: "string \<Rightarrow> string option \<Rightarrow> unit circle_db \<Rightarrow> unit circle_db result" where
  "example_create i p db =
     and_then (createCircle (example_circle_env i 1) example_circle_admin ''w'' (named_circle p) db)
       (\<lambda>x. Inr (snd x))"

definition example_move :: "string \<Rightarrow> string \<Rightarrow> unit circle_db \<Rightarrow> unit circle_db result" where
  "example_move i p db =
     and_then (updateCircle (example_circle_env ''z'' 2) example_circle_admin ''w'' i (move_under p) db)
       (\<lambda>x. Inr (snd x))"

definition chain_of_three :: "unit circle_db result" where
  "chain_of_three =
     and_then (example_create ''a'' None empty_circles) (\<lambda>d1.
     and_then (example_create ''b'' (Some ''a'') d1) (\<lambda>d2. example_create ''c'' (Some ''b'') d2))"

text \<open>Archive the middle circle, move the root under its grandchild, restore the middle circle.\<close>

definition restore_run :: "unit circle_db result" where
  "restore_run =
     and_then chain_of_three (\<lambda>d3.
     and_then (archiveCircle (example_circle_env ''r'' 2) example_circle_admin ''w'' ''b'' None d3) (\<lambda>d4.
     and_then (example_move ''a'' ''c'' (snd d4)) (\<lambda>d5.
     and_then (restoreCircle (example_circle_env ''z'' 3) example_circle_admin ''w'' ''b'' d5) (\<lambda>d6.
     Inr (snd d6)))))"

text \<open>Two moves that both validate before either writes.\<close>

definition concurrent_run :: "unit circle_db result" where
  "concurrent_run =
     and_then (example_create ''a'' None empty_circles) (\<lambda>d1.
     and_then (example_create ''b'' None d1) (\<lambda>d2.
     and_then (read_update ''w'' ''a'' (move_under ''b'') (cd_circles d2)) (\<lambda>ma.
     and_then (read_update ''w'' ''b'' (move_under ''a'') (cd_circles d2)) (\<lambda>mb.
     and_then (write_update (example_circle_env ''z'' 2) example_circle_admin ''w'' ma d2) (\<lambda>d3.
     and_then (write_update (example_circle_env ''z'' 3) example_circle_admin ''w'' mb (snd d3)) (\<lambda>d4.
     Inr (snd d4)))))))"

definition tree_roots :: "unit circle_db \<Rightarrow> string list result" where
  "tree_roots db =
     and_then (listCircleTree example_view example_circle_admin ''w'' Filter_active (cd_circles db) [])
       (\<lambda>t. Inr (snd t))"

definition active_parents :: "unit circle_db \<Rightarrow> (string \<times> string option) list" where
  "active_parents db =
     map (\<lambda>c. (ci_id c, ci_parent c)) (filter (\<lambda>c. ci_archivedAt c = None) (cd_circles db))"


definition example_circles :: "circle list" where
  "example_circles =
     [new_circle (example_circle_env ''a'' 1) ''w'' (named_circle None) None,
      new_circle (example_circle_env ''b'' 1) ''w'' (named_circle None) (Some ''a'')]"

lemma example_circles_ok: "hierarchy_ok example_circles"
proof -
  have "parent_edges example_circles \<subseteq> {(''b'', ''a'')}"
    by (auto simp: parent_edges_def example_circles_def new_circle_def example_circle_env_def)
  moreover have "acyclic {(''b'', ''a'')}" by (simp add: acyclic_def trancl_insert2)
  ultimately have "acyclic (parent_edges example_circles)" by (rule acyclic_subset [rotated])
  then show ?thesis
    by (auto simp: hierarchy_ok_def parents_ok_def example_circles_def new_circle_def example_circle_env_def)
qed

lemma example_create_step:
  assumes "example_create i p db = Inr db'"
  shows "circle_step {example_circle_env i 1} db db'"
  using assms by (auto simp: example_create_def result_simps intro: circle_step.created)

lemma example_create_run:
  "example_create ''a'' None empty_circles = Inr (empty_circles\<lparr>
     cd_circles := [new_circle (example_circle_env ''a'' 1) ''w'' (named_circle None) None],
     cd_audit := [\<lparr>au_workspace = ''w'', au_actor = Some ''u'', au_action = ''circle.created'',
       au_entityType = ''Circle'', au_entityId = ''a'', au_meta = JObj [(''name'', JStr ''n'')]\<rparr>],
     cd_events := [\<lparr>oe_workspace = ''w'', oe_type = ''circle.created'', oe_aggregateType = ''Circle'',
       oe_aggregateId = ''a'', oe_payload = JObj [(''circleId'', JStr ''a''), (''name'', JStr ''n'')]\<rparr>]\<rparr>)"
  by code_simp

lemma empty_hierarchy_ok: "hierarchy_ok (cd_circles empty_circles)"
  by (auto simp: hierarchy_ok_def parents_ok_def parent_edges_def empty_circles_def acyclic_def)

section \<open>Properties\<close>

text \<open>
  C15: creating, editing, moving, archiving, deleting and purging circles, and restoring a circle
  that no active circle has as its parent, keep the parents of the active circles free of cycles
  (and every parent an existing circle of the same workspace), in any order and any number.
\<close>

theorem circle_operations_keep_hierarchy:
  assumes "(circle_step envs)\<^sup>*\<^sup>* db db'" and "hierarchy_ok (cd_circles db)"
  shows "hierarchy_ok (cd_circles db')"
  using assms(1) by induction (use assms(2) circle_step_keeps_hierarchy in auto)

theorem circle_operations_keep_hierarchy_witness:
  "case example_create ''a'' None empty_circles of Inl e \<Rightarrow> False | Inr db \<Rightarrow> hierarchy_ok (cd_circles db)"
  using circle_operations_keep_hierarchy [OF r_into_rtranclp [where r = "circle_step _",
      OF example_create_step [OF example_create_run]] empty_hierarchy_ok]
  by (simp add: example_create_run)

text \<open>
  C16: the check of a move is exact: in a hierarchy without cycles an active circle is refused as its
  own parent, refused an absent, archived or foreign parent, refused exactly the circles below it,
  and every other parent is accepted.
\<close>

theorem validateParentCircle_exact:
  assumes "hierarchy_ok cs" "c \<in> set cs" "circle_active_in w c" "ci_id c \<noteq> []"
    and "trimmed_or_none parent = Some p"
  shows "validateParentCircle cs w (Some (ci_id c)) parent =
    (if p = ci_id c then Inl (AppError 400 ''INVALID_INPUT'' ''A circle cannot be its own parent.'')
     else if \<not> (\<exists>a\<in>set cs. ci_id a = p \<and> circle_active_in w a)
     then Inl (AppError 404 ''NOT_FOUND'' ''Parent circle not found.'')
     else if (p, ci_id c) \<in> (parent_edges cs)\<^sup>+
     then Inl (AppError 400 ''INVALID_INPUT'' ''A circle cannot be moved under one of its descendants.'')
     else Inr (Some p))"
proof (cases "p = ci_id c \<or> \<not> (\<exists>a\<in>set cs. ci_id a = p \<and> circle_active_in w a)")
  case True
  then show ?thesis
    using assms(5) find_circle_SomeD
    by (cases "find_circle p cs") (auto simp: validateParentCircle_def Js_Prelude.invariant_def)
next
  case False
  then obtain a where a: "a \<in> set cs" "ci_id a = p" "circle_active_in w a" "p \<noteq> ci_id c" by blast
  have d: "distinct (map ci_id cs)" using assms(1) by (simp add: hierarchy_ok_def)
  have fa: "find_circle p cs = Some a" using find_circle_unique [OF d a(1)] a(2) by simp
  have v: "validateParentCircle cs w (Some (ci_id c)) parent =
      and_then (ancestor_walk cs w (ci_id c) [p] (ci_parent a)) (\<lambda>_. Inr (Some p))"
    using a assms(4,5) fa by (simp add: validateParentCircle_def Js_Prelude.invariant_def truthy_str_def)
  show ?thesis
  proof (cases "ancestor_walk cs w (ci_id c) [p] (ci_parent a)")
    case (Inl e)
    then have "(p, ci_id c) \<in> (parent_edges cs)\<^sup>+ \<and>
        e = AppError 400 ''INVALID_INPUT'' ''A circle cannot be moved under one of its descendants.''"
      using ancestor_walk_refuses [OF Inl a(1,3) _ assms(2,3)] a(2) by simp
    then show ?thesis using v Inl a False by auto
  next
    case (Inr u)
    then have ok: "validateParentCircle cs w (Some (ci_id c)) parent = Inr (Some p)" using v by simp
    have "(p, ci_id c) \<notin> (parent_edges cs)\<^sup>*" by (rule accepted_parent_not_below [OF ok assms(1,4)])
    then show ?thesis using ok a False by (auto dest: trancl_into_rtrancl)
  qed
qed

theorem validateParentCircle_exact_witness:
  "validateParentCircle [new_circle (example_circle_env ''a'' 1) ''w'' (named_circle None) None] ''w''
     (Some ''a'') (Some ''a'') = Inl (AppError 400 ''INVALID_INPUT'' ''A circle cannot be its own parent.'')"
proof -
  have ok: "hierarchy_ok [new_circle (example_circle_env ''a'' 1) ''w'' (named_circle None) None]"
    by (auto simp: hierarchy_ok_def parents_ok_def parent_edges_def acyclic_def)
  show ?thesis
    using validateParentCircle_exact [OF ok, of "new_circle (example_circle_env ''a'' 1) ''w'' (named_circle None) None" "''w''" "Some ''a''" "''a''"]
    by (simp add: circle_active_in_def new_circle_def example_circle_env_def trimmed_or_none_def js_trim_def js_space_def)
qed

text \<open>
  \<^verbatim>\<open>buildCircleTree\<close> puts every circle in exactly one place: the roots and the child lists
  of all circles together are the circles of the flat list, each as often as it occurs there,
  whatever the parents say.
\<close>

lemma tree_places_each_circle_once:
  assumes "distinct (map item_id flat)"
  shows "mset (snd (buildCircleTree flat))
           + (\<Sum>p\<leftarrow>map item_id flat. mset (tree_children (buildCircleTree flat) p))
         = mset (map item_id flat)"
proof -
  have "(\<Sum>p\<leftarrow>map item_id flat. mset (tree_children (buildCircleTree flat) p))
      = (\<Sum>p\<leftarrow>map item_id flat. mset (kids flat p))"
    by (intro arg_cong [where f = sum_list] map_cong) (auto simp: buildCircleTree_parts)
  also have "\<dots> = mset (map item_id (filter (attached (item_id ` set flat)) flat))"
    using kids_of_all [OF assms, of flat] by simp
  finally show ?thesis
    by (simp add: buildCircleTree_parts flip: image_mset_union)
qed


text \<open>
  While the hierarchy of active circles is free of cycles, the tree of a workspace shows every
  active circle the reader may see: each of them is met from the roots, and nothing else is.
\<close>

lemma active_tree_shows_every_circle:
  assumes "hierarchy_ok cs" and "listCircleTree v actor w Filter_active cs rs = Inr t"
  shows "tree_reach t = ci_id ` {c \<in> set cs. ci_workspace c = w \<and> ci_archivedAt c = None \<and> cv_circle v (ci_id c)}"
proof -
  let ?items = "map (safe_circle v cs rs) (admitted_circles v w Filter_active cs)"
  have t: "t = buildCircleTree ?items"
    using assms(2) by (auto simp: listCircleTree_def result_simps)
  have "distinct (map item_id ?items)"
    using distinct_admitted assms(1) by (simp add: hierarchy_ok_def comp_def)
  moreover have "acyclic (parent_edges cs)" using assms(1) by (simp add: hierarchy_ok_def)
  then have "acyclic (item_edges ?items)" by (rule acyclic_subset) (rule active_item_edges [OF assms(1)])
  ultimately have "tree_reach t = item_id ` set ?items" using tree_reach_acyclic t by blast
  also have "\<dots> = ci_id ` {c \<in> set cs. ci_workspace c = w \<and> ci_archivedAt c = None \<and> cv_circle v (ci_id c)}"
    by (auto simp: admitted_circles_set image_image)
  finally show ?thesis .
qed

text \<open>
  Restoring a circle is not checked.  After its root has been moved under its grandchild while
  the circle between them was archived, restoring that circle closes a cycle of three active
  circles, and the tree built for display shows none of them.
\<close>

lemma restoring_can_close_a_cycle:
  "case restore_run of
     Inl e \<Rightarrow> False
   | Inr db \<Rightarrow> active_parents db = [(''a'', Some ''c''), (''b'', Some ''a''), (''c'', Some ''b'')] \<and>
       tree_roots db = Inr []"
  by code_simp

text \<open>
  Two moves that both validate before either writes are both accepted although together they
  make each of the two circles the parent of the other.
\<close>

lemma concurrent_moves_make_a_cycle:
  "case concurrent_run of
     Inl e \<Rightarrow> False
   | Inr db \<Rightarrow> active_parents db = [(''a'', Some ''b''), (''b'', Some ''a'')] \<and> tree_roots db = Inr []"
  by code_simp

end
