(* ===== verification/Workspace_Auth.thy ===== *)
theory Workspace_Auth
  imports Approvals
begin

text \<open>
  Authentication and workspace membership: the whole of \<^verbatim>\<open>packages/domain/src/auth.ts\<close>, with
  the support context of \<^verbatim>\<open>packages/shared/src/support-context.ts\<close> threaded as a value (the
  store of one asynchronous context; an object mutated in place).

  Arguments of the model: the hash functions, the random token, the configuration, the clock, the
  check of an MCP origin (\<open>ac_mcp\<close>, nothing when the call has no origin) and the database's order of
  workspaces by name.
\<close>

section \<open>Actors and tables\<close>

datatype global_role = GR_user | GR_operator

record support_origin =
  so_user :: string
  so_workspace :: string
  so_version :: int

record auth_user = human_user +
  xu_globalRole :: global_role
  xu_support :: bool

record auth_agent = agent_actor +
  xa_supportOrigin :: "support_origin option"

datatype auth_actor = Auth_user auth_user | Auth_agent auth_agent

record user_row =
  us_id :: string
  us_email :: string
  us_displayName :: "string option"
  us_globalRole :: global_role
  us_support :: bool
  us_passwordHash :: string

record workspace_row =
  wk_id :: string
  wk_slug :: string
  wk_name :: string
  wk_description :: "string option"
  wk_supportOwner :: "string option"

record auth_member =
  am_id :: string
  am_workspace :: string
  am_user :: string
  am_role :: member_role
  am_kind :: member_kind
  am_active :: bool

datatype support_role = SR_setup | SR_full

record support_grant =
  sg_id :: string
  sg_workspace :: string
  sg_user :: string
  sg_role :: support_role
  sg_active :: bool
  sg_version :: int
  sg_grantedBy :: string
  sg_revokedAt :: "int option"
  sg_checklist :: "(string \<times> bool) list option"
  sg_connectors :: "json option"
  sg_revision :: int

record session_row =
  se_id :: string
  se_user :: string
  se_tokenHash :: string
  se_expiresAt :: int
  se_lastSeenAt :: int
  se_ip :: "string option"
  se_agent :: "string option"

text \<open>A capability issued to a user: a credential or token, and whether it is still usable.\<close>

record capability_row =
  ca_workspace :: string
  ca_user :: string
  ca_revokedAt :: "int option"

record credential_row =
  cr_workspace :: "string option"
  cr_createdBy :: "string option"
  cr_active :: bool

record 'l auth_db =
  tb_users :: "user_row list"
  tb_workspaces :: "workspace_row list"
  tb_members :: "auth_member list"
  tb_grants :: "support_grant list"
  tb_sessions :: "session_row list"
  tb_credentials :: "credential_row list"
  tb_appSessions :: "capability_row list"
  tb_mcpTokens :: "capability_row list"
  tb_oauthTokens :: "capability_row list"
  tb_mcpCodes :: "(string \<times> string) list"
  tb_oauthCodes :: "(string \<times> string) list"
  tb_events :: "outbox_event list"
  tb_audit :: "audit_row list"
  tb_rest :: 'l

record auth_config =
  ac_scopeSlug :: "string option"
  ac_lastSeenInterval :: int
  ac_sha256 :: "string \<Rightarrow> string"
  ac_hashPassword :: "string \<Rightarrow> string"
  ac_verifyPassword :: "string \<Rightarrow> string \<Rightarrow> bool"
  ac_token :: string
  ac_new_id :: "string \<Rightarrow> string"
  ac_now :: int
  ac_mcp :: "string \<Rightarrow> unit result"
  ac_by_name :: "workspace_row list \<Rightarrow> workspace_row list"

definition find_user :: "string \<Rightarrow> user_row list \<Rightarrow> user_row option" where
  "find_user i us = find (\<lambda>u. us_id u = i) us"

definition find_email :: "string \<Rightarrow> user_row list \<Rightarrow> user_row option" where
  "find_email e us = find (\<lambda>u. us_email u = e) us"

definition find_grant :: "string \<Rightarrow> string \<Rightarrow> support_grant list \<Rightarrow> support_grant option" where
  "find_grant w u gs = find (\<lambda>g. sg_workspace g = w \<and> sg_user g = u) gs"

definition find_member :: "string \<Rightarrow> string \<Rightarrow> auth_member list \<Rightarrow> auth_member option" where
  "find_member w u ms = find (\<lambda>m. am_workspace m = w \<and> am_user m = u) ms"

definition find_workspace :: "string \<Rightarrow> workspace_row list \<Rightarrow> workspace_row option" where
  "find_workspace w ws = find (\<lambda>x. wk_id x = w) ws"

section \<open>The support context\<close>

record support_ctx =
  sc_user :: "string option"
  sc_origin :: "support_origin option"

type_synonym support_store = "support_ctx option"

definition empty_ctx :: support_ctx where
  "empty_ctx = \<lparr>sc_user = None, sc_origin = None\<rparr>"

definition setSupportAuthorizationActor :: "auth_actor \<Rightarrow> support_store \<Rightarrow> support_store" where
  "setSupportAuthorizationActor actor st =
     (let c = (case st of None \<Rightarrow> empty_ctx | Some c \<Rightarrow> c) in
      case actor of
        Auth_agent a \<Rightarrow>
          (case xa_supportOrigin a of
             None \<Rightarrow> Some c
           | Some og \<Rightarrow> Some (c\<lparr>sc_user := Some (so_user og), sc_origin := Some og\<rparr>))
      | Auth_user _ \<Rightarrow> Some c)"

definition setSupportAuthorizationGrant :: "support_origin \<Rightarrow> support_store \<Rightarrow> support_store result" where
  "setSupportAuthorizationGrant og st =
     (case st of
        None \<Rightarrow> Inl (PlainError ''AUTHORIZATION_CONTEXT_REQUIRED'' None)
      | Some c \<Rightarrow>
          Inr (Some (c\<lparr>sc_user := Some (so_user og),
                       sc_origin := (case sc_origin c of None \<Rightarrow> Some og | Some x \<Rightarrow> Some x)\<rparr>)))"

definition ctx_origin :: "support_store \<Rightarrow> support_origin option" where
  "ctx_origin st = (case st of None \<Rightarrow> None | Some c \<Rightarrow> sc_origin c)"

section \<open>The public demo account and the deployment scope\<close>

definition PUBLIC_DEMO_EMAIL :: string where
  "PUBLIC_DEMO_EMAIL = ''demo@jnj-demo.corgtex.app''"

definition isPublicDemoUser :: "string \<Rightarrow> bool" where
  "isPublicDemoUser email \<longleftrightarrow> js_lower (js_trim email) = PUBLIC_DEMO_EMAIL"

definition publicDemoWorkspaceId :: "string \<Rightarrow> 'l auth_db \<Rightarrow> string option" where
  "publicDemoWorkspaceId uid db =
     (case find_user uid (tb_users db) of
        None \<Rightarrow> None
      | Some u \<Rightarrow>
          if \<not> isPublicDemoUser (us_email u) \<or> us_globalRole u \<noteq> GR_user then None
          else (case filter (\<lambda>m. am_user m = uid \<and> am_active m) (tb_members db) of
                  [m] \<Rightarrow>
                    (case find_workspace (am_workspace m) (tb_workspaces db) of
                       None \<Rightarrow> None
                     | Some w \<Rightarrow>
                         if wk_slug w \<noteq> ''jnj-demo'' \<or> am_role m \<noteq> CONTRIBUTOR then None
                         else if list_ex (\<lambda>g. sg_user g = uid \<and> sg_active g \<and> sg_workspace g \<noteq> am_workspace m)
                                   (tb_grants db) then None
                         else Some (am_workspace m))
                | _ \<Rightarrow> None))"

definition requireDeploymentWorkspaceScope :: "auth_config \<Rightarrow> string \<Rightarrow> 'l auth_db \<Rightarrow> unit result" where
  "requireDeploymentWorkspaceScope cfg w db =
     (if \<not> truthy_str (ac_scopeSlug cfg) then Inr ()
      else invariant (list_ex (\<lambda>x. wk_id x = w \<and> Some (wk_slug x) = ac_scopeSlug cfg) (tb_workspaces db))
             403 ''WORKSPACE_SCOPE_MISMATCH'' ''This deployment is restricted to its configured workspace.'')"

section \<open>Sessions\<close>

definition SESSION_TTL_MS :: int where
  "SESSION_TTL_MS = 1000 * 60 * 60 * 24 * 14"

definition isPasswordLoginDisabled :: "string \<Rightarrow> bool" where
  "isPasswordLoginDisabled h \<longleftrightarrow> starts_with h ''disabled$''"

definition createSession ::
    "auth_config \<Rightarrow> string \<Rightarrow> string option \<Rightarrow> string option \<Rightarrow> 'l auth_db
     \<Rightarrow> ((string \<times> int) \<times> 'l auth_db) result" where
  "createSession cfg uid ip agent db =
     (case find_user uid (tb_users db) of
        None \<Rightarrow> Inl (AppError 401 ''UNAUTHENTICATED'' ''This account cannot sign in.'')
      | Some u \<Rightarrow>
          and_then (invariant (\<not> isPasswordLoginDisabled (us_passwordHash u)) 401 ''UNAUTHENTICATED''
            ''This account cannot sign in.'') (\<lambda>_.
          and_then (invariant (\<not> isPublicDemoUser (us_email u) \<or> truthy_str (publicDemoWorkspaceId uid db))
            401 ''UNAUTHENTICATED'' ''This demo account is unavailable.'') (\<lambda>_.
          (let e = ac_now cfg + SESSION_TTL_MS in
           Inr ((ac_token cfg, e),
             db\<lparr>tb_sessions := tb_sessions db @
                  [\<lparr>se_id = ac_new_id cfg ''session'', se_user = uid, se_tokenHash = ac_sha256 cfg (ac_token cfg),
                    se_expiresAt = e, se_lastSeenAt = ac_now cfg, se_ip = ip, se_agent = agent\<rparr>]\<rparr>)))))"

definition loginUserWithPassword ::
    "auth_config \<Rightarrow> string \<Rightarrow> string \<Rightarrow> string option \<Rightarrow> string option \<Rightarrow> 'l auth_db
     \<Rightarrow> ((string \<times> int \<times> user_row) \<times> 'l auth_db) result" where
  "loginUserWithPassword cfg email0 password ip agent db =
     (let email = js_lower (js_trim email0) in
     and_then (invariant (email \<noteq> []) 400 ''INVALID_INPUT'' ''Email is required.'') (\<lambda>_.
     and_then (invariant (length password \<ge> 8) 400 ''INVALID_INPUT''
       ''Password must be at least 8 characters.'') (\<lambda>_.
     (case find_email email (tb_users db) of
        None \<Rightarrow> Inl (AppError 401 ''UNAUTHENTICATED'' ''Invalid email or password.'')
      | Some u \<Rightarrow>
          if \<not> ac_verifyPassword cfg password (us_passwordHash u)
          then Inl (AppError 401 ''UNAUTHENTICATED'' ''Invalid email or password.'')
          else and_then (createSession cfg (us_id u) ip agent db) (\<lambda>(s, db').
                 Inr ((fst s, snd s, u), db'))))))"

definition registerUser ::
    "auth_config \<Rightarrow> string \<Rightarrow> string \<Rightarrow> string option \<Rightarrow> 'l auth_db
     \<Rightarrow> ((string \<times> string \<times> string option) \<times> 'l auth_db) result" where
  "registerUser cfg email0 password name db =
     (let email = js_lower (js_trim email0) in
     and_then (invariant (email \<noteq> []) 400 ''INVALID_INPUT'' ''Email is required.'') (\<lambda>_.
     and_then (invariant (length password \<ge> 8) 400 ''INVALID_INPUT''
       ''Password must be at least 8 characters.'') (\<lambda>_.
     and_then (invariant (find_email email (tb_users db) = None) 409 ''ALREADY_EXISTS''
       ''A user with that email already exists.'') (\<lambda>_.
     (let u = \<lparr>us_id = ac_new_id cfg ''user'', us_email = email, us_displayName = trimmed_or_none name,
               us_globalRole = GR_user, us_support = False, us_passwordHash = ac_hashPassword cfg password\<rparr>
      in Inr ((us_id u, us_email u, us_displayName u), db\<lparr>tb_users := tb_users db @ [u]\<rparr>))))))"

definition session_user :: "user_row \<Rightarrow> auth_user" where
  "session_user u =
     \<lparr>hu_id = us_id u, hu_email = us_email u, hu_name = us_displayName u,
      xu_globalRole = us_globalRole u, xu_support = us_support u\<rparr>"

definition touch_session :: "auth_config \<Rightarrow> session_row \<Rightarrow> session_row list \<Rightarrow> session_row list" where
  "touch_session cfg s ss =
     (let cutoff = ac_now cfg - ac_lastSeenInterval cfg in
      if se_lastSeenAt s \<le> cutoff
      then map (\<lambda>x. if se_id x = se_id s \<and> se_lastSeenAt x \<le> cutoff
                     then x\<lparr>se_lastSeenAt := ac_now cfg\<rparr> else x) ss
      else ss)"

definition resolveSessionActor ::
    "auth_config \<Rightarrow> string \<Rightarrow> 'l auth_db \<Rightarrow> auth_actor option \<times> 'l auth_db" where
  "resolveSessionActor cfg token db =
     (case find (\<lambda>s. se_tokenHash s = ac_sha256 cfg token) (tb_sessions db) of
        None \<Rightarrow> (None, db)
      | Some s \<Rightarrow>
          (case find_user (se_user s) (tb_users db) of
             None \<Rightarrow> (None, db)
           | Some u \<Rightarrow>
               if se_expiresAt s \<le> ac_now cfg \<or> isPasswordLoginDisabled (us_passwordHash u) then (None, db)
               else if isPublicDemoUser (us_email u) \<and> \<not> truthy_str (publicDemoWorkspaceId (us_id u) db)
               then (None, db)
               else (Some (Auth_user (session_user u)),
                     db\<lparr>tb_sessions := touch_session cfg s (tb_sessions db)\<rparr>)))"

definition clearSession :: "auth_config \<Rightarrow> string \<Rightarrow> 'l auth_db \<Rightarrow> 'l auth_db" where
  "clearSession cfg token db =
     db\<lparr>tb_sessions := filter (\<lambda>s. se_tokenHash s \<noteq> ac_sha256 cfg token) (tb_sessions db)\<rparr>"

fun isGlobalOperator :: "auth_actor \<Rightarrow> bool" where
  "isGlobalOperator (Auth_user u) = (xu_globalRole u = GR_operator)"
| "isGlobalOperator (Auth_agent _) = False"

definition requireGlobalOperator :: "auth_actor \<Rightarrow> unit result" where
  "requireGlobalOperator actor =
     (if isGlobalOperator actor then Inr ()
      else Inl (AppError 403 ''FORBIDDEN'' ''Only global operators can perform this action.''))"

section \<open>Workspace membership\<close>

definition names_roles :: "member_role list option \<Rightarrow> bool" where
  "names_roles rs = (case rs of None \<Rightarrow> False | Some xs \<Rightarrow> xs \<noteq> [])"

definition role_allowed :: "member_role list option \<Rightarrow> member_role \<Rightarrow> bool" where
  "role_allowed rs r = (case rs of None \<Rightarrow> True | Some xs \<Rightarrow> xs = [] \<or> r \<in> set xs)"

definition membership_of :: "auth_member \<Rightarrow> membership" where
  "membership_of m =
     \<lparr>mb_id = am_id m, mb_workspace = am_workspace m, mb_user = am_user m, mb_role = am_role m,
      mb_active = am_active m\<rparr>"

definition require_agent ::
    "auth_agent \<Rightarrow> string \<Rightarrow> member_role list option \<Rightarrow> 'l auth_db \<Rightarrow> unit result" where
  "require_agent a w roles db =
     and_then
       (case xa_supportOrigin a of
          None \<Rightarrow> Inr ()
        | Some og \<Rightarrow>
            invariant
              (so_workspace og = w \<and>
               (case find_grant w (so_user og) (tb_grants db) of
                  None \<Rightarrow> False
                | Some g \<Rightarrow> sg_active g \<and> sg_role g = SR_full \<and> sg_version g = so_version og))
              403 ''SUPPORT_AUTHORIZATION_REVOKED'' ''Support authorization is unavailable.'') (\<lambda>_.
     (let allowed = (case ag_workspaces a of None \<Rightarrow> [] | Some xs \<Rightarrow> xs) in
     if allowed = [] then
       Inl (AppError 403 ''AGENT_WORKSPACE_SCOPE_REQUIRED'' ''Agent is not scoped to any workspace.'')
     else if w \<notin> set allowed then
       Inl (AppError 403 ''FORBIDDEN'' ''Agent is not allowed for this workspace.'')
     else if names_roles roles \<and> \<not> (case ag_scopes a of None \<Rightarrow> False | Some ss \<Rightarrow> ''support:write'' \<in> set ss) then
       Inl (AppError 403 ''FORBIDDEN'' ''Agent cannot perform this human-gated action.'')
     else Inr ()))"

definition support_gate ::
    "string \<Rightarrow> string \<Rightarrow> support_store \<Rightarrow> 'l auth_db \<Rightarrow> (support_grant option \<times> support_store) result" where
  "support_gate w uid st db =
     (case find_grant w uid (tb_grants db) of
        None \<Rightarrow> Inr (None, st)
      | Some g \<Rightarrow>
          if \<not> sg_active g \<or> sg_role g \<noteq> SR_full
          then Inl (AppError 403 ''SUPPORT_CONTENT_RESTRICTED'' ''Content access is restricted.'')
          else
            and_then (invariant
                (case ctx_origin st of
                   None \<Rightarrow> True
                 | Some og \<Rightarrow> so_user og = uid \<and> so_workspace og = w \<and> so_version og = sg_version g)
                403 ''SUPPORT_AUTHORIZATION_REVOKED'' ''Support authorization is unavailable.'') (\<lambda>_.
            and_then (setSupportAuthorizationGrant
                \<lparr>so_user = uid, so_workspace = w, so_version = sg_version g\<rparr> st) (\<lambda>st'.
            Inr (Some g, st'))))"

text \<open>\<open>resolved\<close> is \<^verbatim>\<open>params.resolvedMembership\<close>: absent, \<^verbatim>\<open>null\<close>, or a membership.\<close>

definition require_user ::
    "string \<Rightarrow> string \<Rightarrow> member_role list option \<Rightarrow> membership option option \<Rightarrow> bool \<Rightarrow> 'l auth_db
     \<Rightarrow> membership result" where
  "require_user w uid roles resolved granted db =
     (case (resolved, granted) of
        (Some r, False) \<Rightarrow>
          and_then (if names_roles roles \<and> (case r of None \<Rightarrow> True | Some m \<Rightarrow> \<not> role_allowed roles (mb_role m))
                    then Inl (AppError 403 ''FORBIDDEN'' ''Insufficient permissions.'') else Inr ()) (\<lambda>_.
          (case r of
             None \<Rightarrow> Inl (AppError 403 ''NOT_A_MEMBER'' ''You are not an active member of this workspace.'')
           | Some m \<Rightarrow>
               and_then (invariant (mb_active m) 403 ''NOT_A_MEMBER''
                 ''You are not an active member of this workspace.'') (\<lambda>_. Inr m)))
      | _ \<Rightarrow>
          (case find_member w uid (tb_members db) of
             None \<Rightarrow> Inl (AppError 403 ''NOT_A_MEMBER'' ''You are not an active member of this workspace.'')
           | Some m \<Rightarrow>
               and_then (invariant (am_active m) 403 ''NOT_A_MEMBER''
                 ''You are not an active member of this workspace.'') (\<lambda>_.
               if \<not> role_allowed roles (am_role m)
               then Inl (AppError 403 ''FORBIDDEN'' ''Insufficient permissions.'')
               else Inr (membership_of m))))"

definition requireWorkspaceMembership ::
    "auth_config \<Rightarrow> auth_actor \<Rightarrow> string \<Rightarrow> member_role list option \<Rightarrow> membership option option
     \<Rightarrow> support_store \<Rightarrow> 'l auth_db \<Rightarrow> (membership option \<times> support_store) result" where
  "requireWorkspaceMembership cfg actor w roles resolved st0 db =
     and_then (ac_mcp cfg w) (\<lambda>_.
     (let st = setSupportAuthorizationActor actor st0 in
     and_then (requireDeploymentWorkspaceScope cfg w db) (\<lambda>_.
     (case actor of
        Auth_agent a \<Rightarrow> and_then (require_agent a w roles db) (\<lambda>_. Inr (None, st))
      | Auth_user u \<Rightarrow>
          and_then (if isPublicDemoUser (hu_email u)
                    then invariant (publicDemoWorkspaceId (hu_id u) db = Some w) 403 ''FORBIDDEN''
                      ''The public demo is restricted to its dedicated workspace.''
                    else Inr ()) (\<lambda>_.
          and_then (support_gate w (hu_id u) st db) (\<lambda>(g, st').
          and_then (require_user w (hu_id u) roles resolved (g \<noteq> None) db) (\<lambda>m.
          Inr (Some m, st'))))))))"

section \<open>System users and workspace lists\<close>

definition actorUserIdForWorkspace :: "auth_actor \<Rightarrow> string \<Rightarrow> 'l auth_db \<Rightarrow> string result" where
  "actorUserIdForWorkspace actor w db =
     (case actor of
        Auth_user u \<Rightarrow> Inr (hu_id u)
      | Auth_agent _ \<Rightarrow>
          (let admin = (\<lambda>m. am_workspace m = w \<and> am_active m \<and> am_role m = ADMIN);
               system = (\<lambda>m. case find_user (am_user m) (tb_users db) of
                                None \<Rightarrow> False | Some u \<Rightarrow> starts_with (js_lower (us_email u)) ''system+'') in
           case find (\<lambda>m. admin m \<and> system m) (tb_members db) of
             Some m \<Rightarrow> Inr (am_user m)
           | None \<Rightarrow>
               (case find admin (tb_members db) of
                  Some m \<Rightarrow> Inr (am_user m)
                | None \<Rightarrow> Inl (AppError 500 ''CONFIG_ERROR''
                    ''Workspace has no admin member available for system actions.''))))"

definition in_scope :: "auth_config \<Rightarrow> workspace_row \<Rightarrow> bool" where
  "in_scope cfg w \<longleftrightarrow> \<not> truthy_str (ac_scopeSlug cfg) \<or> Some (wk_slug w) = ac_scopeSlug cfg"

definition no_restricted_grant :: "string \<Rightarrow> 'l auth_db \<Rightarrow> workspace_row \<Rightarrow> bool" where
  "no_restricted_grant uid db w \<longleftrightarrow>
     \<not> list_ex (\<lambda>g. sg_workspace g = wk_id w \<and> sg_user g = uid \<and> (\<not> sg_active g \<or> sg_role g = SR_setup))
       (tb_grants db)"

definition listActorWorkspaces :: "auth_config \<Rightarrow> auth_actor \<Rightarrow> 'l auth_db \<Rightarrow> workspace_row list" where
  "listActorWorkspaces cfg actor db =
     (case actor of
        Auth_agent a \<Rightarrow>
          (case ag_workspaces a of
             None \<Rightarrow> []
           | Some xs \<Rightarrow> ac_by_name cfg (filter (\<lambda>w. wk_id w \<in> set xs \<and> in_scope cfg w) (tb_workspaces db)))
      | Auth_user u \<Rightarrow>
          if isPublicDemoUser (hu_email u) then
            (case publicDemoWorkspaceId (hu_id u) db of
               None \<Rightarrow> []
             | Some i \<Rightarrow>
                 if truthy_str (ac_scopeSlug cfg) \<and> ac_scopeSlug cfg \<noteq> Some ''jnj-demo'' then []
                 else ac_by_name cfg (filter (\<lambda>w. wk_id w = i \<and> wk_slug w = ''jnj-demo'') (tb_workspaces db)))
          else if isGlobalOperator actor then
            ac_by_name cfg (filter (\<lambda>w. in_scope cfg w \<and> no_restricted_grant (hu_id u) db w) (tb_workspaces db))
          else
            ac_by_name cfg
              (filter (\<lambda>w. in_scope cfg w \<and>
                 list_ex (\<lambda>m. am_workspace m = wk_id w \<and> am_user m = hu_id u \<and> am_active m) (tb_members db) \<and>
                 no_restricted_grant (hu_id u) db w) (tb_workspaces db)))"

end
