(* ===== verification/Support_Access.thy ===== *)
theory Support_Access
  imports Workspace_Auth
begin

text \<open>
  Support access to a workspace, \<^verbatim>\<open>packages/domain/src/workspace-support-access.ts\<close>: who may
  manage it, granting, changing and revoking it, and the checks made when a capability issued under
  a grant is used later.  \<open>sp_close_roles\<close> stands for \<^verbatim>\<open>closeRoleLifecycleForMember\<close>.  The
  grant change runs under the row lock of the workspace, so it is one step on the database.
\<close>

definition isReservedPublicDemoEmail :: "string option \<Rightarrow> bool" where
  "isReservedPublicDemoEmail email =
     (case email of None \<Rightarrow> False | Some e \<Rightarrow> js_lower (js_trim e) = ''demo@jnj-demo.corgtex.app'')"

definition requireUnreservedPublicDemoEmail :: "string option \<Rightarrow> unit result" where
  "requireUnreservedPublicDemoEmail email =
     invariant (\<not> isReservedPublicDemoEmail email) 400 ''RESERVED_IDENTITY''
       ''The public demo account is reserved for its dedicated workspace.''"

section \<open>Who may manage support\<close>

definition owner_member :: "string \<Rightarrow> string \<Rightarrow> 'l auth_db \<Rightarrow> bool" where
  "owner_member w uid db \<longleftrightarrow>
     (case find_member w uid (tb_members db) of
        None \<Rightarrow> False
      | Some m \<Rightarrow> am_active m \<and> am_role m = ADMIN \<and> am_kind m = HUMAN)"

definition support_owner :: "string \<Rightarrow> 'l auth_db \<Rightarrow> string option" where
  "support_owner w db =
     (case find_workspace w (tb_workspaces db) of None \<Rightarrow> None | Some x \<Rightarrow> wk_supportOwner x)"

definition canManageWorkspaceSupport :: "auth_config \<Rightarrow> auth_actor \<Rightarrow> string \<Rightarrow> 'l auth_db \<Rightarrow> bool result" where
  "canManageWorkspaceSupport cfg actor w db =
     and_then (requireDeploymentWorkspaceScope cfg w db) (\<lambda>_.
     (case actor of
        Auth_agent _ \<Rightarrow> Inr False
      | Auth_user u \<Rightarrow>
          if support_owner w db \<noteq> Some (hu_id u) then Inr False
          else Inr (owner_member w (hu_id u) db)))"

definition hasActiveWorkspaceSupport :: "auth_config \<Rightarrow> auth_actor \<Rightarrow> 'l auth_db \<Rightarrow> bool" where
  "hasActiveWorkspaceSupport cfg actor db =
     (case actor of
        Auth_agent _ \<Rightarrow> False
      | Auth_user u \<Rightarrow>
          list_ex (\<lambda>g. sg_user g = hu_id u \<and> sg_active g \<and>
             (\<not> truthy_str (ac_scopeSlug cfg) \<or>
              list_ex (\<lambda>x. wk_id x = sg_workspace g \<and> Some (wk_slug x) = ac_scopeSlug cfg) (tb_workspaces db)))
            (tb_grants db))"

definition requireSupportOwner :: "auth_config \<Rightarrow> auth_actor \<Rightarrow> string \<Rightarrow> 'l auth_db \<Rightarrow> string result" where
  "requireSupportOwner cfg actor w db =
     and_then (requireDeploymentWorkspaceScope cfg w db) (\<lambda>_.
     (case actor of
        Auth_agent _ \<Rightarrow> Inl (AppError 403 ''FORBIDDEN'' ''A workspace owner is required.'')
      | Auth_user u \<Rightarrow>
          and_then (invariant (support_owner w db = Some (hu_id u)) 403 ''SUPPORT_OWNER_REQUIRED''
            ''A verified workspace owner is required.'') (\<lambda>_.
          and_then (invariant (owner_member w (hu_id u) db) 403 ''SUPPORT_OWNER_REQUIRED''
            ''An active workspace owner is required.'') (\<lambda>_. Inr (hu_id u)))))"

definition getWorkspaceSupportGrant ::
    "auth_config \<Rightarrow> auth_actor \<Rightarrow> string \<Rightarrow> 'l auth_db \<Rightarrow> support_grant option result" where
  "getWorkspaceSupportGrant cfg actor w db =
     and_then (requireDeploymentWorkspaceScope cfg w db) (\<lambda>_.
     (case actor of
        Auth_agent _ \<Rightarrow> Inl (AppError 403 ''FORBIDDEN'' ''Named account access is required.'')
      | Auth_user u \<Rightarrow> Inr (find_grant w (hu_id u) (tb_grants db))))"

definition listWorkspaceSupportGrants ::
    "auth_config \<Rightarrow> auth_actor \<Rightarrow> string \<Rightarrow> 'l auth_db \<Rightarrow> support_grant list result" where
  "listWorkspaceSupportGrants cfg actor w db =
     and_then (requireSupportOwner cfg actor w db) (\<lambda>_.
     Inr (filter (\<lambda>g. sg_workspace g = w) (tb_grants db)))"

section \<open>Capabilities issued under a grant\<close>

definition revoked_error :: js_error where
  "revoked_error = AppError 403 ''SUPPORT_AUTHORIZATION_REVOKED'' ''Support authorization is unavailable.''"

definition require_support :: "bool \<Rightarrow> unit result" where
  "require_support c = (if c then Inr () else Inl revoked_error)"

text \<open>\<open>expected\<close>: absent, \<^verbatim>\<open>null\<close>, or a version.\<close>

definition supportCapabilityVersion ::
    "support_store \<Rightarrow> string option \<Rightarrow> string \<Rightarrow> int option option \<Rightarrow> 'l auth_db \<Rightarrow> int option result" where
  "supportCapabilityVersion st uid w expected db =
     and_then
       (case expected of
          Some e \<Rightarrow> Inr e
        | None \<Rightarrow>
            (case ctx_origin st of
               None \<Rightarrow> Inr None
             | Some og \<Rightarrow>
                 and_then (require_support (Some (so_user og) = uid \<and> so_workspace og = w)) (\<lambda>_.
                 Inr (Some (so_version og))))) (\<lambda>e.
     if \<not> truthy_str uid then and_then (require_support (e = None)) (\<lambda>_. Inr None)
     else (case find_grant w (the uid) (tb_grants db) of
             None \<Rightarrow> and_then (require_support (e = None)) (\<lambda>_. Inr None)
           | Some g \<Rightarrow>
               and_then (require_support (sg_active g \<and> sg_role g = SR_full \<and> e = Some (sg_version g))) (\<lambda>_.
               Inr (Some (sg_version g)))))"

text \<open>
  The check before \<^verbatim>\<open>withWorkspaceSupportExecution\<close> runs its callback: the support context the
  callback gets, or the throw.
\<close>

record support_record =
  sr_workspace :: "string option"
  sr_originUser :: "string option"
  sr_version :: "int option"

definition runWithSupportOrigin :: "support_origin option \<Rightarrow> support_store" where
  "runWithSupportOrigin og =
     Some (case og of None \<Rightarrow> empty_ctx | Some x \<Rightarrow> \<lparr>sc_user = Some (so_user x), sc_origin = Some x\<rparr>)"

definition withWorkspaceSupportExecution :: "support_record \<Rightarrow> 'l auth_db \<Rightarrow> support_store result" where
  "withWorkspaceSupportExecution r db =
     (if \<not> truthy_str (sr_originUser r) then Inr (runWithSupportOrigin None)
      else
        and_then (require_support (truthy_str (sr_workspace r) \<and>
          (case sr_version r of None \<Rightarrow> False | Some v \<Rightarrow> v \<noteq> 0))) (\<lambda>_.
        and_then (require_support
          (case find_grant (the (sr_workspace r)) (the (sr_originUser r)) (tb_grants db) of
             None \<Rightarrow> False
           | Some g \<Rightarrow> sg_active g \<and> sg_role g = SR_full \<and> Some (sg_version g) = sr_version r)) (\<lambda>_.
        Inr (runWithSupportOrigin
          (Some \<lparr>so_user = the (sr_originUser r), so_workspace = the (sr_workspace r),
                 so_version = the (sr_version r)\<rparr>)))))"

section \<open>Changing a grant\<close>

definition upsert_grant ::
    "auth_config \<Rightarrow> string \<Rightarrow> string \<Rightarrow> string \<Rightarrow> support_role \<Rightarrow> bool \<Rightarrow> support_grant list \<Rightarrow> support_grant list" where
  "upsert_grant cfg w uid owner role active gs =
     (case find_grant w uid gs of
        None \<Rightarrow> gs @ [\<lparr>sg_id = ac_new_id cfg ''grant'', sg_workspace = w, sg_user = uid, sg_role = role,
                       sg_active = active, sg_version = 1, sg_grantedBy = owner, sg_revokedAt = None,
                       sg_checklist = None, sg_connectors = None, sg_revision = 0\<rparr>]
      | Some _ \<Rightarrow>
          map (\<lambda>g. if sg_workspace g = w \<and> sg_user g = uid
                    then g\<lparr>sg_role := role, sg_active := active, sg_version := sg_version g + 1,
                           sg_grantedBy := owner, sg_revokedAt := (if active then None else Some (ac_now cfg))\<rparr>
                    else g) gs)"

definition upsert_support_member ::
    "auth_config \<Rightarrow> string \<Rightarrow> string \<Rightarrow> auth_member list \<Rightarrow> auth_member list" where
  "upsert_support_member cfg w uid ms =
     (case find_member w uid ms of
        None \<Rightarrow> ms @ [\<lparr>am_id = ac_new_id cfg ''member'', am_workspace = w, am_user = uid, am_role = ADMIN,
                       am_kind = HUMAN, am_active = True\<rparr>]
      | Some _ \<Rightarrow>
          map (\<lambda>m. if am_workspace m = w \<and> am_user m = uid
                    then m\<lparr>am_role := ADMIN, am_kind := HUMAN, am_active := True\<rparr> else m) ms)"

definition member_event :: "string \<Rightarrow> string \<Rightarrow> string \<Rightarrow> json \<Rightarrow> outbox_event" where
  "member_event w ty i payload =
     \<lparr>oe_workspace = w, oe_type = ty, oe_aggregateType = ''Member'', oe_aggregateId = i, oe_payload = payload\<rparr>"

definition support_member_event :: "string \<Rightarrow> string \<Rightarrow> auth_member option \<Rightarrow> auth_member \<Rightarrow> outbox_event list" where
  "support_member_event w uid prior now =
     (case prior of
        None \<Rightarrow> [member_event w ''member.created'' (am_id now)
           (JObj [(''memberId'', JStr (am_id now)), (''userId'', JStr uid), (''role'', JStr ''ADMIN''), (''kind'', JStr ''HUMAN'')])]
      | Some m \<Rightarrow>
          (let payload = JObj [(''memberId'', JStr (am_id now)),
                 (''fields'', JArr [JStr ''role'', JStr ''kind'', JStr ''isActive''])] in
           if \<not> am_active m then [member_event w ''member.reactivated'' (am_id now) payload]
           else if am_role m \<noteq> ADMIN \<or> am_kind m \<noteq> HUMAN then [member_event w ''member.updated'' (am_id now) payload]
           else []))"

definition grant_members ::
    "auth_config \<Rightarrow> (auth_actor \<Rightarrow> string \<Rightarrow> string \<Rightarrow> 'l \<Rightarrow> 'l result) \<Rightarrow> auth_actor \<Rightarrow> string \<Rightarrow> string
     \<Rightarrow> support_role \<Rightarrow> bool \<Rightarrow> 'l auth_db \<Rightarrow> 'l auth_db result" where
  "grant_members cfg close_roles actor w uid role active db =
     (let member = find_member w uid (tb_members db) in
      if active \<and> role = SR_full then
        (let ms = upsert_support_member cfg w uid (tb_members db) in
         case find_member w uid ms of
           None \<Rightarrow> Inr (db\<lparr>tb_members := ms\<rparr>)
         | Some now \<Rightarrow>
             Inr (db\<lparr>tb_members := ms, tb_events := tb_events db @ support_member_event w uid member now\<rparr>))
      else
        (case member of
           None \<Rightarrow> Inr db
         | Some m \<Rightarrow>
             and_then (close_roles actor w (am_id m) (tb_rest db)) (\<lambda>l.
             Inr (db\<lparr>tb_members := map (\<lambda>x. if am_id x = am_id m then x\<lparr>am_active := False\<rparr> else x) (tb_members db),
                     tb_rest := l,
                     tb_events := tb_events db @
                       (if am_active m
                        then [member_event w ''member.deactivated'' (am_id m)
                                (JObj [(''memberId'', JStr (am_id m)), (''fields'', JArr [JStr ''isActive''])])]
                        else [])\<rparr>))))"

definition revoke_capability :: "int \<Rightarrow> string \<Rightarrow> string \<Rightarrow> capability_row list \<Rightarrow> capability_row list" where
  "revoke_capability now w uid rows =
     map (\<lambda>r. if ca_workspace r = w \<and> ca_user r = uid \<and> ca_revokedAt r = None
               then r\<lparr>ca_revokedAt := Some now\<rparr> else r) rows"

definition revoke_capabilities :: "int \<Rightarrow> string \<Rightarrow> string \<Rightarrow> 'l auth_db \<Rightarrow> 'l auth_db" where
  "revoke_capabilities now w uid db =
     db\<lparr>tb_credentials := map (\<lambda>c. if cr_workspace c = Some w \<and> cr_createdBy c = Some uid
                                   then c\<lparr>cr_active := False\<rparr> else c) (tb_credentials db),
        tb_appSessions := revoke_capability now w uid (tb_appSessions db),
        tb_mcpTokens := revoke_capability now w uid (tb_mcpTokens db),
        tb_mcpCodes := filter (\<lambda>c. c \<noteq> (w, uid)) (tb_mcpCodes db),
        tb_oauthCodes := filter (\<lambda>c. c \<noteq> (w, uid)) (tb_oauthCodes db),
        tb_oauthTokens := revoke_capability now w uid (tb_oauthTokens db)\<rparr>"

fun support_role_text :: "support_role \<Rightarrow> string" where
  "support_role_text SR_setup = ''SETUP''"
| "support_role_text SR_full = ''FULL''"

text \<open>
  The checks of \<^verbatim>\<open>changeWorkspaceSupportGrant\<close> give the recipient, the owner and the current
  grant; the writes follow.
\<close>

definition grant_checks ::
    "auth_config \<Rightarrow> auth_actor \<Rightarrow> string \<Rightarrow> string \<Rightarrow> bool \<Rightarrow> int \<Rightarrow> 'l auth_db
     \<Rightarrow> (string \<times> string \<times> support_grant option) result" where
  "grant_checks cfg actor w email0 active expected db =
     and_then (invariant (0 \<le> expected \<and> expected \<le> max_safe_integer) 400 ''INVALID_INPUT''
       ''A grant version is required.'') (\<lambda>_.
     (let email = js_lower (js_trim email0) in
     and_then (if active then requireUnreservedPublicDemoEmail (Some email) else Inr ()) (\<lambda>_.
     and_then (invariant (email \<noteq> []) 400 ''INVALID_INPUT'' ''A named account is required.'') (\<lambda>_.
     and_then (requireSupportOwner cfg actor w db) (\<lambda>owner.
     (case find_email email (tb_users db) of
        None \<Rightarrow> Inl (AppError 400 ''INVALID_SUPPORT_ACCOUNT'' ''Choose another existing named account.'')
      | Some u \<Rightarrow>
          and_then (invariant (us_id u \<noteq> owner) 400 ''INVALID_SUPPORT_ACCOUNT''
            ''Choose another existing named account.'') (\<lambda>_.
          and_then (invariant (\<not> active \<or> \<not> us_support u) 400 ''INVALID_SUPPORT_ACCOUNT''
            ''Retired support identities cannot receive access.'') (\<lambda>_.
          (let current = find_grant w (us_id u) (tb_grants db) in
          and_then (invariant ((case current of None \<Rightarrow> 0 | Some g \<Rightarrow> sg_version g) = expected) 409
            ''VERSION_CONFLICT'' ''Support access changed. Refresh and try again.'') (\<lambda>_.
          and_then (invariant (current \<noteq> None \<or>
              (case find_member w (us_id u) (tb_members db) of None \<Rightarrow> True | Some m \<Rightarrow> \<not> am_active m)) 409
            ''EXISTING_MEMBERSHIP'' ''Remove existing workspace membership before granting support access.'') (\<lambda>_.
          and_then (invariant (current \<noteq> None \<or> active) 400 ''INVALID_INPUT''
            ''There is no support grant to revoke.'') (\<lambda>_.
          Inr (us_id u, owner, current)))))))))))))"

definition store_grant ::
    "auth_config \<Rightarrow> (auth_actor \<Rightarrow> string \<Rightarrow> string \<Rightarrow> 'l \<Rightarrow> 'l result) \<Rightarrow> auth_actor \<Rightarrow> string
     \<Rightarrow> string \<times> string \<times> support_grant option \<Rightarrow> support_role \<Rightarrow> bool \<Rightarrow> 'l auth_db
     \<Rightarrow> (support_grant \<times> 'l auth_db) result" where
  "store_grant cfg close_roles actor w target role active db =
     (let uid = fst target; owner = fst (snd target); current = snd (snd target);
          gs = upsert_grant cfg w uid owner role active (tb_grants db) in
      and_then (grant_members cfg close_roles actor w uid role active (db\<lparr>tb_grants := gs\<rparr>)) (\<lambda>db2.
      (case find_grant w uid gs of
         None \<Rightarrow> Inl NonError
       | Some g \<Rightarrow>
           Inr (g, (revoke_capabilities (ac_now cfg) w uid db2)\<lparr>tb_audit := tb_audit db2 @
             [\<lparr>au_workspace = w, au_actor = Some owner,
               au_action = (if active then ''support.access.granted'' else ''support.access.revoked''),
               au_entityType = ''WorkspaceSupportGrant'', au_entityId = sg_id g,
               au_meta = JObj [(''recipientUserId'', JStr uid), (''role'', JStr (support_role_text role)),
                 (''version'', JNum (sg_version g)),
                 (''previousRole'', case current of None \<Rightarrow> JNull | Some c \<Rightarrow> JStr (support_role_text (sg_role c)))]\<rparr>]\<rparr>))))"

definition changeWorkspaceSupportGrant ::
    "auth_config \<Rightarrow> (auth_actor \<Rightarrow> string \<Rightarrow> string \<Rightarrow> 'l \<Rightarrow> 'l result) \<Rightarrow> auth_actor \<Rightarrow> string \<Rightarrow> string
     \<Rightarrow> support_role \<Rightarrow> bool \<Rightarrow> int \<Rightarrow> 'l auth_db \<Rightarrow> (support_grant \<times> 'l auth_db) result" where
  "changeWorkspaceSupportGrant cfg close_roles actor w email0 role active expected db =
     and_then (grant_checks cfg actor w email0 active expected db) (\<lambda>target.
     store_grant cfg close_roles actor w target role active db)"

definition requireUnmanagedMember :: "string \<Rightarrow> string \<Rightarrow> 'l auth_db \<Rightarrow> unit result" where
  "requireUnmanagedMember w uid db =
     and_then (invariant (\<not> truthy_str (support_owner w db) \<or> support_owner w db \<noteq> Some uid) 403
       ''SUPPORT_OWNER_PROTECTED'' ''Use the owner's account settings to manage this identity.'') (\<lambda>_.
     (if find_grant w uid (tb_grants db) \<noteq> None
      then Inl (AppError 403 ''SUPPORT_OWNER_REQUIRED'' ''Support access is managed by the workspace owner.'')
      else Inr ()))"

section \<open>The setup checklist\<close>

definition SUPPORT_CHECKLIST_KEYS :: "string list" where
  "SUPPORT_CHECKLIST_KEYS = [''configurationPrepared'', ''consentRequested'', ''handoffReady'']"

text \<open>
  The connector list has passed \<^verbatim>\<open>supportConnectorPreparationSchema\<close>; the checklist is given
  with the JSON values the caller sent.
\<close>

definition json_bool :: "json \<Rightarrow> bool option" where
  "json_bool v = (case v of JBool b \<Rightarrow> Some b | _ \<Rightarrow> None)"

definition setup_row :: "(string \<times> json) list \<Rightarrow> json option \<Rightarrow> support_grant \<Rightarrow> support_grant" where
  "setup_row checklist connectors g =
     g\<lparr>sg_checklist := Some (map (\<lambda>e. (fst e, the (json_bool (snd e)))) checklist),
       sg_connectors := (if connectors = None then sg_connectors g else connectors),
       sg_revision := sg_revision g + (if connectors = None then 0 else 1)\<rparr>"

definition updateSupportSetup ::
    "auth_config \<Rightarrow> auth_actor \<Rightarrow> string \<Rightarrow> int \<Rightarrow> (string \<times> json) list \<Rightarrow> json option \<Rightarrow> int option
     \<Rightarrow> 'l auth_db \<Rightarrow> ((int \<times> int) \<times> 'l auth_db) result" where
  "updateSupportSetup cfg actor w expected checklist connectors revision db =
     and_then (requireDeploymentWorkspaceScope cfg w db) (\<lambda>_.
     and_then (invariant (connectors = None \<or> revision \<noteq> None) 400 ''INVALID_INPUT''
       ''Preparation revision is required.'') (\<lambda>_.
     and_then (invariant (list_all (\<lambda>e. fst e \<in> set SUPPORT_CHECKLIST_KEYS) checklist) 400 ''INVALID_INPUT''
       ''Unknown setup setting.'') (\<lambda>_.
     and_then (invariant (list_all (\<lambda>e. json_bool (snd e) \<noteq> None) checklist) 400 ''INVALID_INPUT''
       ''Invalid setup setting.'') (\<lambda>_.
     (case actor of
        Auth_agent _ \<Rightarrow> Inl (AppError 403 ''FORBIDDEN'' ''Named account access is required.'')
      | Auth_user u \<Rightarrow>
          (case find_grant w (hu_id u) (tb_grants db) of
             None \<Rightarrow> Inl (AppError 403 ''SUPPORT_ACCESS_REQUIRED'' ''Support access is unavailable.'')
           | Some g \<Rightarrow>
               and_then (invariant (sg_active g) 403 ''SUPPORT_ACCESS_REQUIRED''
                 ''Support access is unavailable.'') (\<lambda>_.
               (let hit = (\<lambda>x. sg_id x = sg_id g \<and> sg_active x \<and> sg_version x = expected \<and>
                             (connectors = None \<or> Some (sg_revision x) = revision)) in
               and_then (invariant (length (filter hit (tb_grants db)) = 1) 409 ''VERSION_CONFLICT''
                 ''Support access changed. Refresh and try again.'') (\<lambda>_.
               Inr ((expected, sg_revision g + (if connectors = None then 0 else 1)),
                 db\<lparr>tb_grants := map (\<lambda>x. if hit x then setup_row checklist connectors x else x) (tb_grants db),
                    tb_audit := tb_audit db @
                      [\<lparr>au_workspace = w, au_actor = Some (hu_id u), au_action = ''support.setup.updated'',
                        au_entityType = ''WorkspaceSupportGrant'', au_entityId = sg_id g,
                        au_meta = JObj [(''fields'', JArr (map (JStr \<circ> fst) checklist @
                          (if connectors = None then [] else [JStr ''connectorPreparation''])))]\<rparr>]\<rparr>))))))))))"

end
