(* ===== verification/Auth_Facts.thy ===== *)
theory Auth_Facts
  imports Support_Access
begin

text \<open>
  What authentication and support access guarantee: a session opens its user's account until it
  expires or is cleared, the workspaces listed to a user are the ones the membership check opens,
  a revoked support grant closes every way in, and a superseded grant version never works again.
\<close>

section \<open>Lookups\<close>

definition auth_keys_unique :: "'l auth_db \<Rightarrow> bool" where
  "auth_keys_unique db \<longleftrightarrow>
     distinct (map us_id (tb_users db)) \<and>
     distinct (map (\<lambda>g. (sg_workspace g, sg_user g)) (tb_grants db)) \<and>
     distinct (map (\<lambda>m. (am_workspace m, am_user m)) (tb_members db))"

lemma find_by_key:
  assumes "distinct (map k xs)" "x \<in> set xs"
  shows "find (\<lambda>y. k y = k x) xs = Some x"
  using assms by (induction xs) auto

lemma find_new_last:
  assumes "\<forall>x\<in>set xs. \<not> P x" "P s"
  shows "find P (xs @ [s]) = Some s"
  using assms by (induction xs) auto

lemma find_user_mem:
  assumes "auth_keys_unique db" "u \<in> set (tb_users db)"
  shows "find_user (us_id u) (tb_users db) = Some u"
  using find_by_key [of us_id "tb_users db" u] assms unfolding find_user_def auth_keys_unique_def by simp

lemma find_email_SomeD:
  assumes "find_email e us = Some u"
  shows "u \<in> set us" "us_email u = e"
  using assms unfolding find_email_def by (auto simp: find_Some_iff)

lemma find_grant_SomeD:
  assumes "find_grant w u gs = Some g"
  shows "g \<in> set gs" "sg_workspace g = w" "sg_user g = u"
  using assms unfolding find_grant_def by (auto simp: find_Some_iff)

lemma find_grant_NoneD: "find_grant w u gs = None \<Longrightarrow> g \<in> set gs \<Longrightarrow> \<not> (sg_workspace g = w \<and> sg_user g = u)"
  unfolding find_grant_def by (auto simp: find_None_iff)

lemma find_member_SomeD:
  assumes "find_member w u ms = Some m"
  shows "m \<in> set ms" "am_workspace m = w" "am_user m = u"
  using assms unfolding find_member_def by (auto simp: find_Some_iff)

lemma find_member_mem:
  assumes "auth_keys_unique db" "m \<in> set (tb_members db)" "am_workspace m = w" "am_user m = u"
  shows "find_member w u (tb_members db) = Some m"
  using find_by_key [of "\<lambda>m. (am_workspace m, am_user m)" "tb_members db" m] assms
  unfolding find_member_def auth_keys_unique_def by simp

lemma find_grant_mem:
  assumes "auth_keys_unique db" "g \<in> set (tb_grants db)" "sg_workspace g = w" "sg_user g = u"
  shows "find_grant w u (tb_grants db) = Some g"
  using find_by_key [of "\<lambda>g. (sg_workspace g, sg_user g)" "tb_grants db" g] assms
  unfolding find_grant_def auth_keys_unique_def by simp

lemma invariant_Inr [simp]: "Js_Prelude.invariant c s k m = Inr u \<longleftrightarrow> c"
  by (simp add: Js_Prelude.invariant_def)

lemma require_support_Inr [simp]: "require_support c = Inr u \<longleftrightarrow> c"
  by (simp add: require_support_def)

section \<open>Sessions\<close>

lemma createSession_effect:
  assumes "createSession cfg uid ip agent db = Inr ((tok, e), db')"
  obtains u s where "find_user uid (tb_users db) = Some u" "\<not> isPasswordLoginDisabled (us_passwordHash u)"
    "isPublicDemoUser (us_email u) \<Longrightarrow> truthy_str (publicDemoWorkspaceId uid db)"
    "tok = ac_token cfg" "e = ac_now cfg + SESSION_TTL_MS"
    "db' = db\<lparr>tb_sessions := tb_sessions db @ [s]\<rparr>" "se_user s = uid"
    "se_tokenHash s = ac_sha256 cfg (ac_token cfg)" "se_expiresAt s = e"
  using assms
  by (auto simp: createSession_def result_simps Let_def split: option.splits if_splits)

lemma publicDemoWorkspaceId_sessions [simp]:
  "publicDemoWorkspaceId uid (db\<lparr>tb_sessions := ss\<rparr>) = publicDemoWorkspaceId uid db"
  by (simp add: publicDemoWorkspaceId_def cong: option.case_cong list.case_cong if_cong)

lemma loginUserWithPassword_effect:
  assumes "loginUserWithPassword cfg email password ip agent db = Inr ((tok, e, u), db')"
  obtains "find_email (js_lower (js_trim email)) (tb_users db) = Some u"
    "ac_verifyPassword cfg password (us_passwordHash u)"
    "createSession cfg (us_id u) ip agent db = Inr ((tok, e), db')"
  using assms
  by (auto simp: loginUserWithPassword_def result_simps Let_def split: option.splits if_splits)

lemma login_session_parts:
  assumes "loginUserWithPassword cfg email password ip agent db = Inr ((tok, e, u), db')"
    and "auth_keys_unique db" and "ac_sha256 cfg (ac_token cfg) \<notin> se_tokenHash ` set (tb_sessions db)"
  shows "fst (resolveSessionActor (cfg\<lparr>ac_now := t\<rparr>) tok db') =
           (if t < e then Some (Auth_user (session_user u)) else None)"
    and "fst (resolveSessionActor (cfg\<lparr>ac_now := t\<rparr>) tok (clearSession cfg tok db')) = None"
    and "e = ac_now cfg + 14 * ms_per_day"
proof -
  obtain found: "find_email (js_lower (js_trim email)) (tb_users db) = Some u"
    and created: "createSession cfg (us_id u) ip agent db = Inr ((tok, e), db')"
    using loginUserWithPassword_effect [OF assms(1)] by metis
  have fu: "find_user (us_id u) (tb_users db) = Some u"
    using find_user_mem [OF assms(2)] find_email_SomeD(1) [OF found] by blast
  obtain v s where s: "find_user (us_id u) (tb_users db) = Some v"
    "\<not> isPasswordLoginDisabled (us_passwordHash v)"
    "isPublicDemoUser (us_email v) \<Longrightarrow> truthy_str (publicDemoWorkspaceId (us_id u) db)"
    "tok = ac_token cfg" "e = ac_now cfg + SESSION_TTL_MS"
    "db' = db\<lparr>tb_sessions := tb_sessions db @ [s]\<rparr>" "se_user s = us_id u"
    "se_tokenHash s = ac_sha256 cfg (ac_token cfg)" "se_expiresAt s = e"
    using createSession_effect [OF created] by metis
  have v: "v = u" using s(1) fu by simp
  have "find (\<lambda>x. se_tokenHash x = ac_sha256 cfg (ac_token cfg)) (tb_sessions db @ [s]) = Some s"
    by (rule find_new_last) (use assms(3) s(8) in \<open>auto intro: rev_image_eqI\<close>)
  then show "fst (resolveSessionActor (cfg\<lparr>ac_now := t\<rparr>) tok db') =
      (if t < e then Some (Auth_user (session_user u)) else None)"
    using s v fu by (auto simp: resolveSessionActor_def)
  show "fst (resolveSessionActor (cfg\<lparr>ac_now := t\<rparr>) tok (clearSession cfg tok db')) = None"
  proof -
    have "find (\<lambda>s. se_tokenHash s = ac_sha256 cfg tok) (tb_sessions (clearSession cfg tok db')) = None"
      by (simp add: find_None_iff clearSession_def)
    then show ?thesis by (simp add: resolveSessionActor_def)
  qed
  show "e = ac_now cfg + 14 * ms_per_day" using s(5) by (simp add: SESSION_TTL_MS_def ms_per_day_def)
qed

section \<open>What the membership check opens\<close>

text \<open>The check for a signed-in user without a resolved membership and without a support context.\<close>

lemma require_user_open:
  assumes "auth_keys_unique db" "\<not> isPublicDemoUser (hu_email u)" "ac_mcp cfg w = Inr ()"
  shows "(\<exists>m st. requireWorkspaceMembership cfg (Auth_user u) w None None None db = Inr (m, st)) \<longleftrightarrow>
    requireDeploymentWorkspaceScope cfg w db = Inr () \<and>
    (\<exists>m\<in>set (tb_members db). am_workspace m = w \<and> am_user m = hu_id u \<and> am_active m) \<and>
    \<not> (\<exists>g\<in>set (tb_grants db). sg_workspace g = w \<and> sg_user g = hu_id u \<and> (\<not> sg_active g \<or> sg_role g = SR_setup))"
proof -
  let ?st = "setSupportAuthorizationActor (Auth_user u) None"
  have st: "?st = Some empty_ctx" by (simp add: setSupportAuthorizationActor_def)
  have gate: "(\<exists>g st'. support_gate w (hu_id u) (Some empty_ctx) db = Inr (g, st')) \<longleftrightarrow>
      \<not> (\<exists>g\<in>set (tb_grants db). sg_workspace g = w \<and> sg_user g = hu_id u \<and> (\<not> sg_active g \<or> sg_role g = SR_setup))"
  proof (cases "find_grant w (hu_id u) (tb_grants db)")
    case None
    then show ?thesis using find_grant_NoneD [OF None] by (auto simp: support_gate_def)
  next
    case (Some g)
    have only: "g' = g" if "g' \<in> set (tb_grants db)" "sg_workspace g' = w" "sg_user g' = hu_id u" for g'
      using find_grant_mem [OF assms(1) that] Some by simp
    have role: "sg_role g \<noteq> SR_full \<longleftrightarrow> sg_role g = SR_setup" by (cases "sg_role g") auto
    have "(\<exists>g st'. support_gate w (hu_id u) (Some empty_ctx) db = Inr (g, st')) \<longleftrightarrow>
        sg_active g \<and> sg_role g = SR_full"
      using Some by (simp add: support_gate_def ctx_origin_def empty_ctx_def setSupportAuthorizationGrant_def)
    moreover have "(\<exists>g\<in>set (tb_grants db). sg_workspace g = w \<and> sg_user g = hu_id u \<and>
        (\<not> sg_active g \<or> sg_role g = SR_setup)) \<longleftrightarrow> \<not> sg_active g \<or> sg_role g = SR_setup"
      using find_grant_SomeD [OF Some] only by blast
    ultimately show ?thesis using role by blast
  qed
  have member: "(\<exists>m. require_user w (hu_id u) None None granted db = Inr m) \<longleftrightarrow>
      (\<exists>m\<in>set (tb_members db). am_workspace m = w \<and> am_user m = hu_id u \<and> am_active m)" for granted
  proof (cases "find_member w (hu_id u) (tb_members db)")
    case None
    have "\<not> (\<exists>m\<in>set (tb_members db). am_workspace m = w \<and> am_user m = hu_id u \<and> am_active m)"
      using None by (auto simp: find_member_def find_None_iff)
    moreover have "require_user w (hu_id u) None None granted db =
        Inl (AppError 403 ''NOT_A_MEMBER'' ''You are not an active member of this workspace.'')"
      using None by (simp add: require_user_def)
    ultimately show ?thesis by simp
  next
    case (Some m)
    have only: "m' = m" if "m' \<in> set (tb_members db)" "am_workspace m' = w" "am_user m' = hu_id u" for m'
      using find_member_mem [OF assms(1) that] Some by simp
    have "(\<exists>x. require_user w (hu_id u) None None granted db = Inr x) \<longleftrightarrow> am_active m"
      using Some by (simp add: require_user_def role_allowed_def result_simps)
    moreover have "(\<exists>m\<in>set (tb_members db). am_workspace m = w \<and> am_user m = hu_id u \<and> am_active m) \<longleftrightarrow>
        am_active m"
      using find_member_SomeD [OF Some] only by blast
    ultimately show ?thesis by simp
  qed
  have "(\<exists>m st. requireWorkspaceMembership cfg (Auth_user u) w None None None db = Inr (m, st)) \<longleftrightarrow>
      requireDeploymentWorkspaceScope cfg w db = Inr () \<and>
      (\<exists>g st' m. support_gate w (hu_id u) (Some empty_ctx) db = Inr (g, st') \<and>
         require_user w (hu_id u) None None (g \<noteq> None) db = Inr m)"
    using assms(2,3) by (auto simp: requireWorkspaceMembership_def result_simps st Let_def)
  then show ?thesis using gate member by blast
qed

section \<open>Changing a grant\<close>

lemma find_grant_map:
  assumes "\<And>g. sg_workspace (f g) = sg_workspace g" "\<And>g. sg_user (f g) = sg_user g"
  shows "find_grant w u (map f gs) = map_option f (find_grant w u gs)"
  using assms unfolding find_grant_def by (induction gs) auto

lemma find_grant_append:
  "find_grant w u (gs @ [g]) =
     (case find_grant w u gs of
        None \<Rightarrow> if sg_workspace g = w \<and> sg_user g = u then Some g else None | Some x \<Rightarrow> Some x)"
  unfolding find_grant_def by (induction gs) auto

lemma upsert_grant_other:
  assumes "\<not> (w' = w \<and> u' = uid)"
  shows "find_grant w' u' (upsert_grant cfg w uid owner role active gs) = find_grant w' u' gs"
proof (cases "find_grant w uid gs")
  case None
  then show ?thesis using assms by (auto simp: upsert_grant_def find_grant_append split: option.splits)
next
  case (Some g)
  show ?thesis
  proof (cases "find_grant w' u' gs")
    case None
    then show ?thesis using Some by (simp add: upsert_grant_def find_grant_map)
  next
    case (Some h)
    then have "\<not> (sg_workspace h = w \<and> sg_user h = uid)"
      using assms find_grant_SomeD [OF Some] by auto
    then show ?thesis using \<open>find_grant w uid gs = Some g\<close> Some
      by (auto simp: upsert_grant_def find_grant_map)
  qed
qed

lemma upsert_grant_same:
  obtains g where "find_grant w uid (upsert_grant cfg w uid owner role active gs) = Some g"
    "sg_workspace g = w" "sg_user g = uid" "sg_active g = active" "sg_role g = role"
    "sg_version g = (case find_grant w uid gs of None \<Rightarrow> 1 | Some o' \<Rightarrow> sg_version o' + 1)"
proof (cases "find_grant w uid gs")
  case None
  then show ?thesis by (intro that) (auto simp: upsert_grant_def find_grant_append)
next
  case (Some h)
  show ?thesis
    by (rule that [of "h\<lparr>sg_role := role, sg_active := active, sg_version := sg_version h + 1,
          sg_grantedBy := owner, sg_revokedAt := (if active then None else Some (ac_now cfg))\<rparr>"])
      (use Some find_grant_SomeD [OF Some] in \<open>simp_all add: upsert_grant_def find_grant_map\<close>)
qed

lemma grant_members_keeps:
  assumes "grant_members cfg close_roles actor w uid role active db = Inr db'"
  shows "tb_grants db' = tb_grants db" "tb_users db' = tb_users db"
  using assms
  by (auto simp: grant_members_def result_simps Let_def split: option.splits if_splits)

definition no_live_capability :: "string \<Rightarrow> string \<Rightarrow> 'l auth_db \<Rightarrow> bool" where
  "no_live_capability w uid db \<longleftrightarrow>
     (\<forall>c\<in>set (tb_credentials db). cr_workspace c = Some w \<and> cr_createdBy c = Some uid \<longrightarrow> \<not> cr_active c) \<and>
     (\<forall>c\<in>set (tb_appSessions db @ tb_mcpTokens db @ tb_oauthTokens db).
        ca_workspace c = w \<and> ca_user c = uid \<longrightarrow> ca_revokedAt c \<noteq> None) \<and>
     (w, uid) \<notin> set (tb_mcpCodes db @ tb_oauthCodes db)"

lemma revoke_capability_closes:
  "\<forall>c\<in>set (revoke_capability now w uid rows).
     ca_workspace c = w \<and> ca_user c = uid \<longrightarrow> ca_revokedAt c \<noteq> None"
proof (intro ballI impI, elim conjE)
  fix c assume "c \<in> set (revoke_capability now w uid rows)" and key: "ca_workspace c = w" "ca_user c = uid"
  then obtain r where r: "c = (if ca_workspace r = w \<and> ca_user r = uid \<and> ca_revokedAt r = None
      then r\<lparr>ca_revokedAt := Some now\<rparr> else r)"
    unfolding revoke_capability_def set_map by blast
  show "ca_revokedAt c \<noteq> None"
  proof (cases "ca_workspace r = w \<and> ca_user r = uid \<and> ca_revokedAt r = None")
    case True
    then show ?thesis unfolding r by simp
  next
    case False
    then have "c = r" unfolding r by (simp only: if_False)
    then show ?thesis using False key by metis
  qed
qed

lemma revoke_capabilities_closes: "no_live_capability w uid ((revoke_capabilities now w uid db)\<lparr>tb_audit := x\<rparr>)"
  unfolding no_live_capability_def
proof (intro conjI)
  show "\<forall>c\<in>set (tb_credentials ((revoke_capabilities now w uid db)\<lparr>tb_audit := x\<rparr>)).
      cr_workspace c = Some w \<and> cr_createdBy c = Some uid \<longrightarrow> \<not> cr_active c"
    by (auto simp: revoke_capabilities_def split: if_splits)
  show "\<forall>c\<in>set (tb_appSessions ((revoke_capabilities now w uid db)\<lparr>tb_audit := x\<rparr>) @
      tb_mcpTokens ((revoke_capabilities now w uid db)\<lparr>tb_audit := x\<rparr>) @
      tb_oauthTokens ((revoke_capabilities now w uid db)\<lparr>tb_audit := x\<rparr>)).
      ca_workspace c = w \<and> ca_user c = uid \<longrightarrow> ca_revokedAt c \<noteq> None"
    unfolding set_append ball_Un using revoke_capability_closes by (simp add: revoke_capabilities_def)
  show "(w, uid) \<notin> set (tb_mcpCodes ((revoke_capabilities now w uid db)\<lparr>tb_audit := x\<rparr>) @
      tb_oauthCodes ((revoke_capabilities now w uid db)\<lparr>tb_audit := x\<rparr>))"
    by (simp add: revoke_capabilities_def)
qed

lemma revoke_capabilities_grants [simp]: "tb_grants (revoke_capabilities now w uid db) = tb_grants db"
  by (simp add: revoke_capabilities_def)

lemma store_grant_effect:
  assumes "store_grant cfg close_roles actor w (uid, owner, current) role active db = Inr (g, db')"
  shows "find_grant w uid (upsert_grant cfg w uid owner role active (tb_grants db)) = Some g \<and>
    tb_grants db' = upsert_grant cfg w uid owner role active (tb_grants db) \<and>
    no_live_capability w uid db'"
proof -
  let ?gs = "upsert_grant cfg w uid owner role active (tb_grants db)"
  obtain db2 where m: "grant_members cfg close_roles actor w uid role active (db\<lparr>tb_grants := ?gs\<rparr>) = Inr db2"
    using assms by (auto simp: store_grant_def result_simps Let_def)
  obtain x where "find_grant w uid ?gs = Some g"
    "db' = (revoke_capabilities (ac_now cfg) w uid db2)\<lparr>tb_audit := x\<rparr>"
    using assms m by (cases "find_grant w uid ?gs") (auto simp: store_grant_def Let_def)
  then show ?thesis using grant_members_keeps(1) [OF m] revoke_capabilities_closes by simp
qed

text \<open>What a change leaves behind.\<close>

lemma changeWorkspaceSupportGrant_effect:
  assumes "changeWorkspaceSupportGrant cfg close_roles actor w email role active expected db = Inr (g, db')"
  obtains owner where
    "tb_grants db' = upsert_grant cfg w (sg_user g) owner role active (tb_grants db)"
    "find_grant w (sg_user g) (tb_grants db') = Some g"
    "sg_active g = active" "sg_role g = role"
    "sg_version g = (case find_grant w (sg_user g) (tb_grants db) of None \<Rightarrow> 1 | Some h \<Rightarrow> sg_version h + 1)"
    "no_live_capability w (sg_user g) db'"
proof -
  obtain uid owner current where
    "store_grant cfg close_roles actor w (uid, owner, current) role active db = Inr (g, db')"
    using assms by (auto simp: changeWorkspaceSupportGrant_def result_simps)
  note e = store_grant_effect [OF this]
  have uid: "sg_user g = uid" using e find_grant_SomeD(3) by blast
  show thesis
    by (rule upsert_grant_same [of w uid cfg owner role active "tb_grants db"]) (use e uid that [of owner] in auto)
qed

text \<open>A support origin a later check accepts.\<close>

definition valid_origin :: "support_origin \<Rightarrow> 'l auth_db \<Rightarrow> bool" where
  "valid_origin og db \<longleftrightarrow>
     (case find_grant (so_workspace og) (so_user og) (tb_grants db) of
        None \<Rightarrow> False
      | Some g \<Rightarrow> sg_active g \<and> sg_role g = SR_full \<and> sg_version g = so_version og)"

lemma require_agent_needs_valid_origin:
  assumes "requireWorkspaceMembership cfg (Auth_agent a) w roles resolved st db = Inr r"
    and "xa_supportOrigin a = Some og"
  shows "so_workspace og = w \<and> valid_origin og db"
proof -
  have "require_agent a w roles db = Inr ()"
    using assms(1) by (auto simp: requireWorkspaceMembership_def result_simps Let_def)
  then have "so_workspace og = w \<and>
      (case find_grant w (so_user og) (tb_grants db) of
         None \<Rightarrow> False
       | Some g \<Rightarrow> sg_active g \<and> sg_role g = SR_full \<and> sg_version g = so_version og)"
    using assms(2) by (simp add: require_agent_def split: if_splits)
  then show ?thesis by (auto simp: valid_origin_def)
qed

lemma withWorkspaceSupportExecution_needs_valid_origin:
  assumes "withWorkspaceSupportExecution r db = Inr st" "sr_originUser r = Some uid" "uid \<noteq> []"
  shows "\<exists>w v. sr_workspace r = Some w \<and> sr_version r = Some v \<and>
    valid_origin \<lparr>so_user = uid, so_workspace = w, so_version = v\<rparr> db"
  using assms
  by (auto simp: withWorkspaceSupportExecution_def result_simps valid_origin_def truthy_str_def
      split: option.splits if_splits)

lemma supportCapabilityVersion_needs_valid_origin:
  assumes "supportCapabilityVersion st (Some uid) w (Some (Some v)) db = Inr r" "uid \<noteq> []"
  shows "valid_origin \<lparr>so_user = uid, so_workspace = w, so_version = v\<rparr> db"
  using assms
  by (auto simp: supportCapabilityVersion_def result_simps valid_origin_def truthy_str_def
      split: option.splits if_splits)

lemma support_user_needs_full_grant:
  assumes "requireWorkspaceMembership cfg (Auth_user u) w roles resolved st db = Inr r"
    and "find_grant w (hu_id u) (tb_grants db) = Some g"
  shows "sg_active g \<and> sg_role g = SR_full"
  using assms
  by (auto simp: requireWorkspaceMembership_def support_gate_def result_simps Let_def split: if_splits)

section \<open>Revocation\<close>

lemma restricted_support_parts:
  assumes "changeWorkspaceSupportGrant cfg close_roles actor w email role active expected db = Inr (g, db')"
    and "\<not> (active \<and> role = SR_full)"
  shows "hu_id u = sg_user g \<Longrightarrow> \<exists>e. requireWorkspaceMembership cfg' (Auth_user u) w roles resolved st db' = Inl e"
    and "xa_supportOrigin a = Some og \<Longrightarrow> so_user og = sg_user g \<Longrightarrow>
      \<exists>e. requireWorkspaceMembership cfg' (Auth_agent a) w roles resolved st db' = Inl e"
    and "no_live_capability w (sg_user g) db'"
proof -
  obtain owner where g: "find_grant w (sg_user g) (tb_grants db') = Some g"
    and "sg_active g = active" "sg_role g = role" and dead: "no_live_capability w (sg_user g) db'"
    using changeWorkspaceSupportGrant_effect [OF assms(1)] by metis
  then have closed: "\<not> (sg_active g \<and> sg_role g = SR_full)" using assms(2) by simp
  show "\<exists>e. requireWorkspaceMembership cfg' (Auth_user u) w roles resolved st db' = Inl e"
    if "hu_id u = sg_user g"
    using support_user_needs_full_grant [where u = u and w = w and db = db' and g = g] g closed that
    by (metis sum.exhaust)
  show "\<exists>e. requireWorkspaceMembership cfg' (Auth_agent a) w roles resolved st db' = Inl e"
    if "xa_supportOrigin a = Some og" "so_user og = sg_user g"
  proof (cases "requireWorkspaceMembership cfg' (Auth_agent a) w roles resolved st db'")
    case (Inr r)
    then have "so_workspace og = w" "valid_origin og db'"
      using require_agent_needs_valid_origin [OF Inr that(1)] by auto
    then show ?thesis using g closed that(2) by (simp add: valid_origin_def)
  qed auto
  show "no_live_capability w (sg_user g) db'" by (rule dead)
qed


section \<open>Versions only grow\<close>

inductive support_step ::
    "(auth_actor \<Rightarrow> string \<Rightarrow> string \<Rightarrow> 'l \<Rightarrow> 'l result) \<Rightarrow> 'l auth_db \<Rightarrow> 'l auth_db \<Rightarrow> bool"
  for close_roles :: "auth_actor \<Rightarrow> string \<Rightarrow> string \<Rightarrow> 'l \<Rightarrow> 'l result" where
  changed: "changeWorkspaceSupportGrant (cfg :: auth_config) close_roles actor w email role active expected db
      = Inr (g, db') \<Longrightarrow> support_step close_roles db db'"
| prepared: "updateSupportSetup (cfg :: auth_config) actor w expected checklist connectors revision db = Inr (r, db')
      \<Longrightarrow> support_step close_roles db db'"
| logged_in: "loginUserWithPassword (cfg :: auth_config) email password ip agent db = Inr (s, db')
      \<Longrightarrow> support_step close_roles db db'"
| registered: "registerUser (cfg :: auth_config) email password name db = Inr (u, db')
      \<Longrightarrow> support_step close_roles db db'"
| resolved: "resolveSessionActor (cfg :: auth_config) token db = (found, db') \<Longrightarrow> support_step close_roles db db'"
| cleared: "support_step close_roles db (clearSession (cfg :: auth_config) token db)"

definition at_least :: "string \<Rightarrow> string \<Rightarrow> int \<Rightarrow> 'l auth_db \<Rightarrow> bool" where
  "at_least w u k db \<longleftrightarrow> (\<exists>g. find_grant w u (tb_grants db) = Some g \<and> k \<le> sg_version g)"

lemma at_least_same_grants: "tb_grants db' = tb_grants db \<Longrightarrow> at_least w u k db \<Longrightarrow> at_least w u k db'"
  by (simp add: at_least_def)

lemma at_least_changed:
  assumes "changeWorkspaceSupportGrant cfg close_roles actor w' email role active expected db = Inr (g, db')"
    and "at_least w u k db"
  shows "at_least w u k db'"
proof -
  obtain h where h: "find_grant w u (tb_grants db) = Some h" "k \<le> sg_version h"
    using assms(2) unfolding at_least_def by blast
  obtain owner where e: "tb_grants db' = upsert_grant cfg w' (sg_user g) owner role active (tb_grants db)"
    "find_grant w' (sg_user g) (tb_grants db') = Some g"
    "sg_version g = (case find_grant w' (sg_user g) (tb_grants db) of None \<Rightarrow> 1 | Some h \<Rightarrow> sg_version h + 1)"
    using changeWorkspaceSupportGrant_effect [OF assms(1)] by metis
  show ?thesis
  proof (cases "w = w' \<and> u = sg_user g")
    case True
    then show ?thesis using h e(2,3) by (auto simp: at_least_def)
  next
    case False
    then show ?thesis using h upsert_grant_other [OF False] unfolding at_least_def e(1) by simp
  qed
qed

lemma updateSupportSetup_grants:
  assumes "updateSupportSetup cfg actor w expected checklist connectors revision db = Inr (r, db')"
  obtains f where "tb_grants db' = map f (tb_grants db)" "\<And>g. sg_workspace (f g) = sg_workspace g"
    "\<And>g. sg_user (f g) = sg_user g" "\<And>g. sg_version (f g) = sg_version g"
proof -
  obtain hit where "tb_grants db' = map (\<lambda>x. if hit x then setup_row checklist connectors x else x) (tb_grants db)"
    using assms
    by (auto simp: updateSupportSetup_def result_simps Let_def simp del: map_eq_conv
        split: auth_actor.splits option.splits if_splits)
  then show thesis by (rule that) (simp_all add: setup_row_def)
qed

lemma support_step_at_least:
  assumes "support_step close_roles db db'" "at_least w u k db"
  shows "at_least w u k db'"
  using assms(1)
proof cases
  case (changed cfg actor w' email role active expected g)
  then show ?thesis using at_least_changed assms(2) by metis
next
  case (prepared cfg actor w' expected checklist connectors revision r)
  then obtain f where "tb_grants db' = map f (tb_grants db)" "\<And>g. sg_workspace (f g) = sg_workspace g"
    "\<And>g. sg_user (f g) = sg_user g" "\<And>g. sg_version (f g) = sg_version g"
    using updateSupportSetup_grants by metis
  then show ?thesis using assms(2) by (auto simp: at_least_def find_grant_map)
next
  case (logged_in cfg email password ip agent s)
  then have "tb_grants db' = tb_grants db"
    by (cases s) (auto elim!: loginUserWithPassword_effect createSession_effect)
  then show ?thesis using at_least_same_grants assms(2) by blast
next
  case (registered cfg email password name u)
  then have "tb_grants db' = tb_grants db"
    by (auto simp: registerUser_def result_simps Let_def split: if_splits)
  then show ?thesis using at_least_same_grants assms(2) by blast
next
  case (resolved cfg token found)
  then have "tb_grants db' = tb_grants db"
    by (auto simp: resolveSessionActor_def split: option.splits if_splits)
  then show ?thesis using at_least_same_grants assms(2) by blast
next
  case (cleared cfg token)
  then show ?thesis using at_least_same_grants assms(2) by (simp add: clearSession_def at_least_def)
qed

lemma superseded_support_parts:
  assumes "changeWorkspaceSupportGrant cfg close_roles actor w email role active expected db = Inr (g, db1)"
    and "(support_step close_roles)\<^sup>*\<^sup>* db1 db2"
    and "so_workspace og = w" "so_user og = sg_user g" "so_version og < sg_version g" "so_user og \<noteq> []"
  shows "xa_supportOrigin a = Some og \<Longrightarrow>
      \<exists>e. requireWorkspaceMembership cfg' (Auth_agent a) w' roles resolved st db2 = Inl e"
    and "\<exists>e. withWorkspaceSupportExecution \<lparr>sr_workspace = Some w, sr_originUser = Some (so_user og),
      sr_version = Some (so_version og)\<rparr> db2 = Inl e"
    and "\<exists>e. supportCapabilityVersion st (Some (so_user og)) w (Some (Some (so_version og))) db2 = Inl e"
proof -
  have "at_least w (sg_user g) (sg_version g) db1"
    using changeWorkspaceSupportGrant_effect [OF assms(1)] unfolding at_least_def by (metis order_refl)
  with assms(2) have "at_least w (sg_user g) (sg_version g) db2"
    by induction (auto intro: support_step_at_least)
  then have dead: "\<not> valid_origin og db2"
    using assms(3-5) by (auto simp: valid_origin_def at_least_def)
  then show "\<exists>e. requireWorkspaceMembership cfg' (Auth_agent a) w' roles resolved st db2 = Inl e"
    if "xa_supportOrigin a = Some og"
    using require_agent_needs_valid_origin that by (metis sum.exhaust)
  have og: "og = \<lparr>so_user = so_user og, so_workspace = w, so_version = so_version og\<rparr>" using assms(3) by simp
  show "\<exists>e. supportCapabilityVersion st (Some (so_user og)) w (Some (Some (so_version og))) db2 = Inl e"
    using supportCapabilityVersion_needs_valid_origin assms(6) dead og by (metis sum.exhaust)
  show "\<exists>e. withWorkspaceSupportExecution \<lparr>sr_workspace = Some w, sr_originUser = Some (so_user og),
      sr_version = Some (so_version og)\<rparr> db2 = Inl e"
  proof (cases "withWorkspaceSupportExecution \<lparr>sr_workspace = Some w, sr_originUser = Some (so_user og),
      sr_version = Some (so_version og)\<rparr> db2")
    case (Inr st)
    from withWorkspaceSupportExecution_needs_valid_origin [OF Inr _ assms(6)] dead og show ?thesis by simp
  qed auto
qed


section \<open>Example\<close>

definition example_auth_cfg :: auth_config where
  "example_auth_cfg =
     \<lparr>ac_scopeSlug = None, ac_lastSeenInterval = 60000, ac_sha256 = (\<lambda>s. ''h'' @ s),
      ac_hashPassword = (\<lambda>s. s), ac_verifyPassword = (=), ac_token = ''t'', ac_new_id = (\<lambda>s. s),
      ac_now = 0, ac_mcp = (\<lambda>w. Inr ()), ac_by_name = (\<lambda>ws. ws)\<rparr>"

definition example_account :: "string \<Rightarrow> user_row" where
  "example_account i =
     \<lparr>us_id = i, us_email = i, us_displayName = None, us_globalRole = GR_user, us_support = False,
      us_passwordHash = ''password''\<rparr>"

definition example_auth_db :: "unit auth_db" where
  "example_auth_db =
     \<lparr>tb_users = [example_account ''o'', example_account ''s''],
      tb_workspaces = [\<lparr>wk_id = ''w'', wk_slug = ''w'', wk_name = ''w'', wk_description = None, wk_supportOwner = Some ''o''\<rparr>],
      tb_members = [\<lparr>am_id = ''m'', am_workspace = ''w'', am_user = ''o'', am_role = ADMIN, am_kind = HUMAN, am_active = True\<rparr>],
      tb_grants = [], tb_sessions = [], tb_credentials = [], tb_appSessions = [], tb_mcpTokens = [],
      tb_oauthTokens = [], tb_mcpCodes = [], tb_oauthCodes = [], tb_events = [], tb_audit = [], tb_rest = ()\<rparr>"

definition example_owner :: auth_user where
  "example_owner = session_user (example_account ''o'')"

definition example_grant ::
    "support_role \<Rightarrow> int \<Rightarrow> unit auth_db \<Rightarrow> (support_grant \<times> unit auth_db) result" where
  "example_grant role expected db =
     changeWorkspaceSupportGrant example_auth_cfg (\<lambda>a w m l. Inr l) (Auth_user example_owner) ''w'' ''s'' role True expected db"

lemma example_auth_unique: "auth_keys_unique example_auth_db"
  by (simp add: auth_keys_unique_def example_auth_db_def example_account_def)


lemma example_logged_in:
  obtains e db' where "loginUserWithPassword example_auth_cfg ''s'' ''password'' None None example_auth_db =
      Inr ((''t'', e, example_account ''s''), db')" "e = 14 * ms_per_day"
proof -
  have "case loginUserWithPassword example_auth_cfg ''s'' ''password'' None None example_auth_db of
      Inl e \<Rightarrow> False
    | Inr ((tok, e, u), db') \<Rightarrow> tok = ''t'' \<and> e = 14 * ms_per_day \<and> us_id u = ''s'' \<and> us_email u = ''s'' \<and>
        us_displayName u = None \<and> us_globalRole u = GR_user \<and> \<not> us_support u \<and> us_passwordHash u = ''password''"
    by code_simp
  then show thesis
    by (auto split: sum.splits prod.splits intro!: that user_row.equality simp: example_account_def)
qed

lemma example_granted:
  obtains g1 db1 g2 db2 where "example_grant SR_full 0 example_auth_db = Inr (g1, db1)"
    "example_grant SR_setup 1 db1 = Inr (g2, db2)" "sg_user g1 = ''s''" "sg_user g2 = ''s''"
    "sg_version g1 = 1" "sg_version g2 = 2"
proof -
  have run: "case example_grant SR_full 0 example_auth_db of
      Inl e \<Rightarrow> False
    | Inr (g1, db1) \<Rightarrow>
        (case example_grant SR_setup 1 db1 of
           Inl e \<Rightarrow> False
         | Inr (g2, db2) \<Rightarrow> sg_user g1 = ''s'' \<and> sg_user g2 = ''s'' \<and> sg_version g1 = 1 \<and> sg_version g2 = 2)"
    by code_simp
  then obtain g1 db1 where 1: "example_grant SR_full 0 example_auth_db = Inr (g1, db1)"
    by (cases "example_grant SR_full 0 example_auth_db") auto
  with run obtain g2 db2 where 2: "example_grant SR_setup 1 db1 = Inr (g2, db2)"
    by (cases "example_grant SR_setup 1 db1") auto
  show thesis using that [OF 1 2] run 1 2 by simp
qed

section \<open>Properties\<close>

text \<open>
  The session a login creates opens the account of that user, at every time before it expires
  and at none after, and no longer once it is cleared; the token's hash must be new.
\<close>

lemma login_session_lifetime:
  assumes "loginUserWithPassword cfg email password ip agent db = Inr ((tok, e, u), db')"
    and "auth_keys_unique db" and "ac_sha256 cfg (ac_token cfg) \<notin> se_tokenHash ` set (tb_sessions db)"
  shows "e = ac_now cfg + 14 * ms_per_day \<and>
    (\<forall>t. fst (resolveSessionActor (cfg\<lparr>ac_now := t\<rparr>) tok db') =
       (if t < e then Some (Auth_user (session_user u)) else None)) \<and>
    (\<forall>t. fst (resolveSessionActor (cfg\<lparr>ac_now := t\<rparr>) tok (clearSession cfg tok db')) = None)"
  using login_session_parts [OF assms] by blast

text \<open>
  For a signed-in user who is neither a global operator nor the public demo account, the
  workspaces listed are exactly the existing workspaces whose membership check lets the user in.
\<close>
lemma listed_workspaces_are_the_open_ones:
  assumes "auth_keys_unique db" "xu_globalRole u \<noteq> GR_operator" "\<not> isPublicDemoUser (hu_email u)"
    and "\<And>i. ac_mcp cfg i = Inr ()" "\<And>ws. set (ac_by_name cfg ws) = set ws"
    and "distinct (map wk_id (tb_workspaces db))"
  shows "set (listActorWorkspaces cfg (Auth_user u) db) =
    {w \<in> set (tb_workspaces db).
       \<exists>m st. requireWorkspaceMembership cfg (Auth_user u) (wk_id w) None None None db = Inr (m, st)}"
proof -
  have scope: "requireDeploymentWorkspaceScope cfg (wk_id w) db = Inr () \<longleftrightarrow> in_scope cfg w"
    if "w \<in> set (tb_workspaces db)" for w
    using that assms(6) by (auto simp: requireDeploymentWorkspaceScope_def in_scope_def list_ex_iff distinct_map dest: inj_onD)
  have "set (listActorWorkspaces cfg (Auth_user u) db) = {w \<in> set (tb_workspaces db). in_scope cfg w \<and>
      (\<exists>m\<in>set (tb_members db). am_workspace m = wk_id w \<and> am_user m = hu_id u \<and> am_active m) \<and>
      no_restricted_grant (hu_id u) db w}"
    using assms(2,3,5) by (auto simp: listActorWorkspaces_def list_ex_iff)
  then show ?thesis
    using scope require_user_open [OF assms(1,3) assms(4)]
    by (auto simp: no_restricted_grant_def list_ex_iff)
qed

text \<open>
  C7: once a support grant has been changed to anything but active full access, nothing issued
  under it works: every membership check of that user in that workspace throws, whatever roles,
  resolved membership or context are passed; so does that of every agent carrying a support origin
  of the user there; and no credential, session, token or code of the user is left alive.
\<close>

theorem restricted_support_is_locked_out:
  assumes "changeWorkspaceSupportGrant cfg close_roles actor w email role active expected db = Inr (g, db')"
    and "\<not> (active \<and> role = SR_full)"
  shows "(\<forall>cfg' u roles resolved st. hu_id u = sg_user g \<longrightarrow>
      (\<exists>e. requireWorkspaceMembership cfg' (Auth_user u) w roles resolved st db' = Inl e)) \<and>
    (\<forall>cfg' a og roles resolved st. xa_supportOrigin a = Some og \<and> so_user og = sg_user g \<longrightarrow>
      (\<exists>e. requireWorkspaceMembership cfg' (Auth_agent a) w roles resolved st db' = Inl e)) \<and>
    no_live_capability w (sg_user g) db'"
  using restricted_support_parts [OF assms] by blast

theorem restricted_support_is_locked_out_witness:
  "case example_grant SR_full 0 example_auth_db of
     Inl e \<Rightarrow> False
   | Inr (g1, db1) \<Rightarrow>
       (case example_grant SR_setup 1 db1 of
          Inl e \<Rightarrow> False
        | Inr (g2, db2) \<Rightarrow> \<exists>e. requireWorkspaceMembership example_auth_cfg
            (Auth_user (session_user (example_account ''s''))) ''w'' None None None db2 = Inl e)"
proof (rule example_granted)
  fix g1 db1 g2 db2
  assume g: "example_grant SR_full 0 example_auth_db = Inr (g1, db1)"
    "example_grant SR_setup 1 db1 = Inr (g2, db2)" "sg_user g2 = ''s''"
  show ?thesis
    using restricted_support_is_locked_out [OF g(2) [unfolded example_grant_def]] g
    by (simp add: session_user_def example_account_def)
qed

text \<open>
  C6: a support version is dead for good once the grant has changed again: whatever happens
  afterwards - further grants and revocations, setup edits, logins - an agent that carries an
  earlier version is refused by the membership check, and so is the version itself where a stored
  record or a capability is redeemed.
\<close>

theorem superseded_support_never_revives:
  assumes "changeWorkspaceSupportGrant cfg close_roles actor w email role active expected db = Inr (g, db1)"
    and "(support_step close_roles)\<^sup>*\<^sup>* db1 db2"
    and "so_workspace og = w" "so_user og = sg_user g" "so_version og < sg_version g" "so_user og \<noteq> []"
  shows "(\<forall>cfg' a w' roles resolved st. xa_supportOrigin a = Some og \<longrightarrow>
      (\<exists>e. requireWorkspaceMembership cfg' (Auth_agent a) w' roles resolved st db2 = Inl e)) \<and>
    (\<exists>e. withWorkspaceSupportExecution \<lparr>sr_workspace = Some w, sr_originUser = Some (so_user og),
      sr_version = Some (so_version og)\<rparr> db2 = Inl e) \<and>
    (\<forall>st. \<exists>e. supportCapabilityVersion st (Some (so_user og)) w (Some (Some (so_version og))) db2 = Inl e)"
  using superseded_support_parts [OF assms] by blast

theorem superseded_support_never_revives_witness:
  "case example_grant SR_full 0 example_auth_db of
     Inl e \<Rightarrow> False
   | Inr (g1, db1) \<Rightarrow>
       (case example_grant SR_setup 1 db1 of
          Inl e \<Rightarrow> False
        | Inr (g2, db2) \<Rightarrow> \<exists>e. withWorkspaceSupportExecution
            \<lparr>sr_workspace = Some ''w'', sr_originUser = Some ''s'', sr_version = Some 1\<rparr> db2 = Inl e)"
proof (rule example_granted)
  fix g1 db1 g2 db2
  assume g: "example_grant SR_full 0 example_auth_db = Inr (g1, db1)"
    "example_grant SR_setup 1 db1 = Inr (g2, db2)" "sg_user g2 = ''s''" "sg_version g2 = 2"
  show ?thesis
    using superseded_support_never_revives [OF g(2) [unfolded example_grant_def] rtranclp.rtrancl_refl,
        where og = "\<lparr>so_user = ''s'', so_workspace = ''w'', so_version = 1\<rparr>"] g
    by simp
qed

end
