(* ===== verification/Release_Lease.thy ===== *)
theory Release_Lease
  imports Js_Prelude
begin

text \<open>
  The managed release lease of \<^verbatim>\<open>packages/domain/src/control-plane-release-lease.ts\<close>: one
  deployment row carries the lease (an id, the hash of a capability, an owner, a phase, an expiry)
  and a fence that counts leases.  A release is reserved, records how to roll back, mutates, and
  ends in success, compatible recovery or rollback; a lease that expires while mutating is claimed
  for recovery.

  The operations that write the row are modelled with every guard, together with the table's own
  constraints (the \<^verbatim>\<open>CHECK\<close>s and the update trigger of the
  \<^verbatim>\<open>customer_deployment_release_lease\<close> migrations).  Each operation runs under
  \<^verbatim>\<open>SELECT ... FOR UPDATE\<close> of its row, so it is one step.  Questions about other columns, other
  tables and configuration are arguments (\<open>lease_env\<close>): eligibility, account authority, target overlap
  and binding, the canonical form of a rollback payload \<open>'p\<close>, of provenance \<open>'v\<close> and of a recovery
  intent \<open>'i\<close>; \<open>'c\<close> are the other columns.  The database clock has millisecond values.
\<close>

section \<open>Syntax of the inputs\<close>

definition lower_hex :: "char \<Rightarrow> bool" where
  "lower_hex c \<longleftrightarrow> c \<in> set ''0123456789abcdef''"

definition hex_run :: "nat \<Rightarrow> string \<Rightarrow> bool" where
  "hex_run n s \<longleftrightarrow> length s = n \<and> list_all lower_hex s"

definition IMAGE_TAG :: "string \<Rightarrow> bool" where
  "IMAGE_TAG s \<longleftrightarrow> starts_with s ''sha-'' \<and> hex_run 40 (drop 4 s)"

definition uuid_shape :: "string \<Rightarrow> bool" where
  "uuid_shape s \<longleftrightarrow>
     length s = 36 \<and>
     list_all (\<lambda>i. if i \<in> {8, 13, 18, 23} then s ! i = CHR ''-'' else lower_hex (s ! i)) [0..<36] \<and>
     s ! 14 \<in> set ''12345678'' \<and> s ! 19 \<in> set ''89ab''"

definition ROLLBACK_RESERVATION :: "string \<Rightarrow> bool" where
  "ROLLBACK_RESERVATION s \<longleftrightarrow> starts_with s ''rollback-archive:'' \<and> uuid_shape (drop 17 s)"

definition MAX_INT :: int where
  "MAX_INT = 2147483647"

definition TTL_MS :: int where
  "TTL_MS = 5 * 60 * 1000"

definition owner_char :: "char \<Rightarrow> bool" where
  "owner_char c \<longleftrightarrow> c \<in> set ''abcdefghijklmnopqrstuvwxyz0123456789''"

definition owner_ok :: "string \<Rightarrow> bool" where
  "owner_ok s \<longleftrightarrow>
     (case s of
        [] \<Rightarrow> False
      | c # cs \<Rightarrow> owner_char c \<and> length cs \<le> 127 \<and>
                  list_all (\<lambda>x. owner_char x \<or> x \<in> set ''._:/-'') cs)"

text \<open>
  The version of an incoming release: no control characters.  A character here is one byte, so the
  unpaired surrogates the code also refuses do not occur.
\<close>

definition version_ok :: "string \<Rightarrow> bool" where
  "version_ok s \<longleftrightarrow> js_trim s \<noteq> [] \<and> length s \<le> 128 \<and>
     list_all (\<lambda>c. of_char c > (31 :: nat) \<and> of_char c \<noteq> (127 :: nat)) s"

section \<open>The row\<close>

datatype lease_phase = RESERVED | MUTATING | RECOVERY_REQUIRED

datatype recovery_stage =
  INVENTORY | PREFLIGHT | IMPORT | WEB | WORKER | READBACK | AUTH | DIAGNOSTIC | OBSERVATION | ROLLBACK | FENCING

datatype intent_role = Role_web | Role_worker

record 'i recovery_evidence =
  ev_stage :: recovery_stage
  ev_code :: string
  ev_intents :: "(intent_role \<times> 'i) list option"

record ('p, 'v) rollback_envelope =
  re_deployment :: string
  re_lease :: string
  re_fence :: int
  re_expected :: string
  re_incoming :: string
  re_incomingVersion :: string
  re_payload :: 'p
  re_provenance :: "'v option"

record ('c, 'p, 'v, 'i) deployment =
  dp_id :: string
  dp_remote :: bool
  dp_image :: "string option"
  dp_version :: "string option"
  dp_fence :: int
  dp_lease :: "string option"
  dp_token :: "string option"
  dp_owner :: "string option"
  dp_expected :: "string option"
  dp_incoming :: "string option"
  dp_incomingVersion :: "string option"
  dp_phase :: "lease_phase option"
  dp_acquired :: "int option"
  dp_heartbeat :: "int option"
  dp_expires :: "int option"
  dp_rollback :: "('p, 'v) rollback_envelope option"
  dp_evidence :: "'i recovery_evidence option"
  dp_error :: "string option"
  dp_releaseCheck :: "int option"
  dp_healthCheck :: "int option"
  dp_healthStatus :: "string option"
  dp_healthError :: "string option"
  dp_columns :: 'c

record 'v lease_event =
  le_deployment :: string
  le_action :: string
  le_lease :: "string option"
  le_fence :: int
  le_owner :: "string option"
  le_expected :: "string option"
  le_incoming :: "string option"
  le_incomingVersion :: "string option"
  le_provenance :: "'v option"
  le_targetDigest :: "string option"
  le_recoveryDigest :: "string option"

text \<open>Events are kept oldest first.\<close>

record ('c, 'p, 'v, 'i) lease_db =
  rd_rows :: "('c, 'p, 'v, 'i) deployment list"
  rd_events :: "'v lease_event list"

record ('c, 'p, 'v, 'i) lease_env =
  ln_now :: int
  ln_capability :: string
  ln_lease_id :: string
  ln_sha256 :: "string \<Rightarrow> string"
  ln_active :: "('c, 'p, 'v, 'i) deployment \<Rightarrow> bool"
  ln_eligible :: "('c, 'p, 'v, 'i) deployment \<Rightarrow> bool"
  ln_protected :: "('c, 'p, 'v, 'i) deployment \<Rightarrow> bool"
  ln_authority :: "('c, 'p, 'v, 'i) deployment \<Rightarrow> unit result"
  ln_overlap :: "('c, 'p, 'v, 'i) deployment \<Rightarrow> unit result"
  ln_target :: "('c, 'p, 'v, 'i) deployment \<Rightarrow> bool \<Rightarrow> (string \<times> string) result"
  ln_bind :: "('c, 'p, 'v, 'i) deployment \<Rightarrow> unit result"
  ln_bind_payload :: "('c, 'p, 'v, 'i) deployment \<Rightarrow> 'p \<Rightarrow> unit result"
  ln_approval :: "('c, 'p, 'v, 'i) deployment \<Rightarrow> 'p \<Rightarrow> unit result"
  ln_provenance :: "('c, 'p, 'v, 'i) deployment \<Rightarrow> 'v result"
  ln_same_provenance :: "('c, 'p, 'v, 'i) deployment \<Rightarrow> 'v \<Rightarrow> bool \<Rightarrow> unit result"
  ln_canonical :: "'p \<Rightarrow> 'p result"
  ln_target_matches :: "('c, 'p, 'v, 'i) deployment \<Rightarrow> 'p \<Rightarrow> bool"
  ln_schema_one :: "'p \<Rightarrow> bool"
  ln_recovery :: "'p \<Rightarrow> string \<times> string"
  ln_accepts :: "('p, 'v) rollback_envelope \<Rightarrow> json \<Rightarrow> unit result"
  ln_accepts_rollback :: "('c, 'p, 'v, 'i) deployment \<Rightarrow> ('p, 'v) rollback_envelope \<Rightarrow> json \<Rightarrow> unit result"
  ln_intent :: "('p, 'v) rollback_envelope \<Rightarrow> json \<Rightarrow> (intent_role \<times> 'i) result"
  ln_evidence_ok :: "('p, 'v) rollback_envelope \<Rightarrow> 'i recovery_evidence \<Rightarrow> unit result"

definition reject_with :: "string \<Rightarrow> js_error" where
  "reject_with code = AppError 409 code ''Managed release lease request was rejected.''"

definition need :: "bool \<Rightarrow> string \<Rightarrow> unit result" where
  "need c code = (if c then Inr () else Inl (reject_with code))"

definition requireInput :: "bool \<Rightarrow> unit result" where
  "requireInput c =
     (if c then Inr ()
      else Inl (AppError 400 ''MANAGED_RELEASE_INVALID_INPUT'' ''Managed release lease request was rejected.''))"

section \<open>The constraints of the table\<close>

definition slot_check :: "('c, 'p, 'v, 'i) deployment \<Rightarrow> bool" where
  "slot_check r \<longleftrightarrow>
     dp_fence r \<ge> 0 \<and>
     (dp_lease r = None \<and> dp_token r = None \<and> dp_owner r = None \<and> dp_expected r = None \<and>
      dp_incoming r = None \<and> dp_incomingVersion r = None \<and> dp_phase r = None \<and> dp_acquired r = None \<and>
      dp_heartbeat r = None \<and> dp_expires r = None \<and> dp_rollback r = None \<and> dp_evidence r = None \<and>
      dp_error r = None
      \<or> dp_fence r > 0 \<and>
      (case (dp_lease r, dp_token r, dp_owner r, dp_expected r, dp_incoming r, dp_incomingVersion r) of
         (Some i, Some t, Some w, Some e, Some n, Some v) \<Rightarrow>
           js_trim i \<noteq> [] \<and> hex_run 64 t \<and> js_trim w \<noteq> [] \<and> IMAGE_TAG e \<and> IMAGE_TAG n \<and>
           js_trim v \<noteq> [] \<and> dp_image r = Some e
       | _ \<Rightarrow> False) \<and>
      (case (dp_phase r, dp_acquired r, dp_heartbeat r, dp_expires r) of
         (Some ph, Some a, Some h, Some x) \<Rightarrow> a \<le> h \<and> h < x
       | _ \<Rightarrow> False))"

definition rollback_check :: "('c, 'p, 'v, 'i) deployment \<Rightarrow> bool" where
  "rollback_check r \<longleftrightarrow> dp_phase r = None \<or> dp_phase r = Some RESERVED \<or> dp_rollback r \<noteq> None"

definition clearLeaseData :: "('c, 'p, 'v, 'i) deployment \<Rightarrow> ('c, 'p, 'v, 'i) deployment" where
  "clearLeaseData r =
     r\<lparr>dp_lease := None, dp_token := None, dp_owner := None, dp_expected := None, dp_incoming := None,
       dp_incomingVersion := None, dp_phase := None, dp_acquired := None, dp_heartbeat := None,
       dp_expires := None, dp_rollback := None, dp_evidence := None, dp_error := None\<rparr>"

definition other_columns :: "('c, 'p, 'v, 'i) deployment \<Rightarrow> ('c, 'p, 'v, 'i) deployment" where
  "other_columns r = (clearLeaseData r)\<lparr>dp_fence := 0\<rparr>"

definition update_guard :: "('c, 'p, 'v, 'i) deployment \<Rightarrow> ('c, 'p, 'v, 'i) deployment \<Rightarrow> bool" where
  "update_guard old new \<longleftrightarrow>
     dp_lease old = None \<or>
     (if dp_lease new = None then dp_fence new = dp_fence old \<and> other_columns new = other_columns old
      else new \<noteq> old \<and> other_columns new = other_columns old)"

definition find_deployment ::
    "string \<Rightarrow> ('c, 'p, 'v, 'i) lease_db \<Rightarrow> ('c, 'p, 'v, 'i) deployment option" where
  "find_deployment i db = find (\<lambda>r. dp_id r = i) (rd_rows db)"

definition put_row ::
    "('c, 'p, 'v, 'i) deployment \<Rightarrow> ('c, 'p, 'v, 'i) lease_db \<Rightarrow> ('c, 'p, 'v, 'i) lease_db" where
  "put_row r db = db\<lparr>rd_rows := map (\<lambda>x. if dp_id x = dp_id r then r else x) (rd_rows db)\<rparr>"

text \<open>
  An update of a row: refused by a unique index (another row has the lease id or the token hash),
  by a check, or by the trigger.  The database's refusals are two errors here.
\<close>

definition unique_violation :: "('c, 'p, 'v, 'i) deployment \<Rightarrow> ('c, 'p, 'v, 'i) lease_db \<Rightarrow> bool" where
  "unique_violation r db \<longleftrightarrow>
     list_ex (\<lambda>x. dp_id x \<noteq> dp_id r \<and>
        (dp_lease x = dp_lease r \<and> dp_lease r \<noteq> None \<or> dp_token x = dp_token r \<and> dp_token r \<noteq> None))
       (rd_rows db)"

definition update_row ::
    "('c, 'p, 'v, 'i) deployment \<Rightarrow> ('c, 'p, 'v, 'i) deployment \<Rightarrow> ('c, 'p, 'v, 'i) lease_db
     \<Rightarrow> ('c, 'p, 'v, 'i) lease_db result" where
  "update_row old new db =
     (if unique_violation new db then Inl (reject_with ''MANAGED_RELEASE_LEASE_CONFLICT'')
      else if \<not> (update_guard old new \<and> slot_check new \<and> rollback_check new)
      then Inl (reject_with ''MANAGED_RELEASE_LEASE_STATE_CONFLICT'')
      else Inr (put_row new db))"

section \<open>Reading the lease\<close>

record lease_handle =
  lh_deployment :: string
  lh_lease :: string
  lh_capability :: string
  lh_fence :: int

definition validateHandle :: "lease_handle \<Rightarrow> unit result" where
  "validateHandle h =
     requireInput (uuid_shape (lh_deployment h) \<and> uuid_shape (lh_lease h) \<and>
       0 < length (lh_capability h) \<and> length (lh_capability h) \<le> 512 \<and>
       0 < lh_fence h \<and> lh_fence h \<le> MAX_INT)"

definition lock_row ::
    "string \<Rightarrow> ('c, 'p, 'v, 'i) lease_db \<Rightarrow> ('c, 'p, 'v, 'i) deployment result" where
  "lock_row i db =
     (case find_deployment i db of
        None \<Rightarrow> Inl (AppError 404 ''MANAGED_RELEASE_DEPLOYMENT_NOT_FOUND'' ''Managed release lease request was rejected.'')
      | Some r \<Rightarrow> Inr r)"

definition unexpired :: "int \<Rightarrow> ('c, 'p, 'v, 'i) deployment \<Rightarrow> bool" where
  "unexpired now r \<longleftrightarrow> (case dp_expires r of None \<Rightarrow> False | Some x \<Rightarrow> x > now)"

definition owned ::
    "('c, 'p, 'v, 'i) lease_env \<Rightarrow> lease_handle \<Rightarrow> bool \<Rightarrow> ('c, 'p, 'v, 'i) lease_db
     \<Rightarrow> ('c, 'p, 'v, 'i) deployment result" where
  "owned env h allowExpired db =
     and_then (validateHandle h) (\<lambda>_.
     and_then (lock_row (lh_deployment h) db) (\<lambda>r.
     and_then (need (dp_lease r = Some (lh_lease h) \<and> dp_token r = Some (ln_sha256 env (lh_capability h)) \<and>
                     dp_fence r = lh_fence h) ''MANAGED_RELEASE_LEASE_CONFLICT'') (\<lambda>_.
     and_then (need (allowExpired \<or> unexpired (ln_now env) r) ''MANAGED_RELEASE_LEASE_EXPIRED'') (\<lambda>_. Inr r))))"

definition storedRollbackEnvelope ::
    "('c, 'p, 'v, 'i) lease_env \<Rightarrow> ('c, 'p, 'v, 'i) deployment \<Rightarrow> ('p, 'v) rollback_envelope result" where
  "storedRollbackEnvelope env r =
     (case dp_rollback r of
        None \<Rightarrow> Inl (reject_with ''MANAGED_RELEASE_LEASE_STATE_CONFLICT'')
      | Some e \<Rightarrow>
          and_then (need (re_deployment e = dp_id r \<and> uuid_shape (re_lease e) \<and> 1 \<le> re_fence e \<and>
              re_fence e \<le> MAX_INT \<and> dp_expected r = Some (re_expected e) \<and>
              dp_incoming r = Some (re_incoming e) \<and> dp_incomingVersion r = Some (re_incomingVersion e))
            ''MANAGED_RELEASE_LEASE_STATE_CONFLICT'') (\<lambda>_.
          and_then (need (dp_lease r = Some (re_lease e) \<and> re_fence e = dp_fence r \<or>
              dp_phase r = Some RECOVERY_REQUIRED \<and> re_fence e \<le> dp_fence r)
            ''MANAGED_RELEASE_LEASE_STATE_CONFLICT'') (\<lambda>_.
          (case ln_canonical env (re_payload e) of
             Inl _ \<Rightarrow> Inl (reject_with ''MANAGED_RELEASE_LEASE_STATE_CONFLICT'')
           | Inr p \<Rightarrow>
               and_then (need (ln_target_matches env r p) ''MANAGED_RELEASE_LEASE_STATE_CONFLICT'') (\<lambda>_.
               and_then (case re_provenance e of None \<Rightarrow> Inr () | Some v \<Rightarrow> ln_same_provenance env r v True) (\<lambda>_.
               Inr (e\<lparr>re_payload := p\<rparr>)))))))"

definition ORIGINATING_LEASE_EVENT_ACTION :: string where
  "ORIGINATING_LEASE_EVENT_ACTION = ''control_plane.release_lease.rollback_recorded''"

definition originatingLeaseFromEvent ::
    "('c, 'p, 'v, 'i) deployment \<Rightarrow> 'v lease_event \<Rightarrow> (string \<times> int) option" where
  "originatingLeaseFromEvent r ev =
     (if le_expected ev \<noteq> dp_expected r \<or> le_incoming ev \<noteq> dp_incoming r \<or>
         le_incomingVersion ev \<noteq> dp_incomingVersion r then None
      else case le_lease ev of
             None \<Rightarrow> None
           | Some i \<Rightarrow> if uuid_shape i \<and> 1 \<le> le_fence ev \<and> le_fence ev \<le> dp_fence r
                       then Some (i, le_fence ev) else None)"

definition originatingRollbackEnvelope ::
    "('c, 'p, 'v, 'i) lease_env \<Rightarrow> 'v lease_event list \<Rightarrow> ('c, 'p, 'v, 'i) deployment
     \<Rightarrow> ('p, 'v) rollback_envelope result" where
  "originatingRollbackEnvelope env evs r =
     and_then (storedRollbackEnvelope env r) (\<lambda>e.
     if dp_phase r \<noteq> Some RECOVERY_REQUIRED then Inr e
     else
       (let recent = take 10 (rev (filter (\<lambda>x. le_deployment x = dp_id r \<and>
                        le_action x = ORIGINATING_LEASE_EVENT_ACTION) evs)) in
        case List.map_filter (originatingLeaseFromEvent r) recent of
          [] \<Rightarrow> Inr e
        | (i, f) # _ \<Rightarrow> Inr (e\<lparr>re_lease := i, re_fence := f\<rparr>)))"

section \<open>Admission\<close>

definition ACQUIRING_ACTIONS :: "string list" where
  "ACQUIRING_ACTIONS =
     [''control_plane.release_lease.acquired'', ''control_plane.release_lease.reservation_replaced'',
      ''control_plane.release_lease.recovery_claimed'']"

record 'v acquisition_proof =
  ap_provenance :: "'v option"
  ap_target :: "string option"
  ap_recovery :: "string option"

definition sha_or_none :: "string option \<Rightarrow> string option" where
  "sha_or_none v = (case v of None \<Rightarrow> None | Some s \<Rightarrow> if hex_run 64 s then Some s else None)"

definition acquisitionProof ::
    "'v lease_event list \<Rightarrow> ('c, 'p, 'v, 'i) deployment \<Rightarrow> 'v acquisition_proof result" where
  "acquisitionProof evs r =
     (case rev (filter (\<lambda>x. le_deployment x = dp_id r \<and> le_action x \<in> set ACQUIRING_ACTIONS \<and>
                  le_lease x = dp_lease r \<and> le_fence x = dp_fence r) evs) of
        [] \<Rightarrow> Inr \<lparr>ap_provenance = None, ap_target = None, ap_recovery = None\<rparr>
      | ev # _ \<Rightarrow>
          and_then (need (le_owner ev = dp_owner r) ''MANAGED_RELEASE_PROVENANCE_CONFLICT'') (\<lambda>_.
          Inr \<lparr>ap_provenance = le_provenance ev, ap_target = sha_or_none (le_targetDigest ev),
               ap_recovery = sha_or_none (le_recoveryDigest ev)\<rparr>))"

definition admission_binding ::
    "('c, 'p, 'v, 'i) lease_env \<Rightarrow> ('c, 'p, 'v, 'i) deployment \<Rightarrow> bool \<Rightarrow> 'v acquisition_proof \<Rightarrow> unit result" where
  "admission_binding env r recovery pf =
     (if ln_protected env r \<or> truthy_str (ap_target pf) \<or> truthy_str (ap_recovery pf) then
        and_then (ln_target env r True) (\<lambda>(target, rec).
        (case (if recovery then ap_recovery pf else ap_target pf) of
           None \<Rightarrow> Inl (reject_with ''MANAGED_RELEASE_PROVENANCE_CONFLICT'')
         | Some d \<Rightarrow> need (d = (if recovery then rec else target)) ''MANAGED_RELEASE_TARGET_CONFIG_CONFLICT''))
      else if recovery then Inr () else ln_bind env r)"

definition requireAdmission ::
    "('c, 'p, 'v, 'i) lease_env \<Rightarrow> 'v lease_event list \<Rightarrow> ('c, 'p, 'v, 'i) deployment \<Rightarrow> bool
     \<Rightarrow> 'v acquisition_proof result" where
  "requireAdmission env evs r recovery =
     and_then (need (ln_active env r) ''MANAGED_RELEASE_TARGET_INELIGIBLE'') (\<lambda>_.
     and_then (if ln_protected env r then ln_authority env r else Inr ()) (\<lambda>_.
     and_then (acquisitionProof evs r) (\<lambda>pf.
     and_then (case ap_provenance pf of None \<Rightarrow> Inr () | Some v \<Rightarrow> ln_same_provenance env r v recovery) (\<lambda>_.
     and_then (if dp_rollback r = None then Inr None
               else and_then (storedRollbackEnvelope env r) (\<lambda>e. Inr (re_provenance e))) (\<lambda>held.
     and_then (case held of None \<Rightarrow> Inr () | Some v \<Rightarrow> ln_same_provenance env r v recovery) (\<lambda>_.
     and_then (need (ap_provenance pf \<noteq> None \<or> dp_remote r \<and> held = None) ''MANAGED_RELEASE_PROVENANCE_CONFLICT'') (\<lambda>_.
     and_then (if recovery
               then need (held \<noteq> None \<or> ap_provenance pf \<noteq> None \<or> ln_eligible env r) ''MANAGED_RELEASE_TARGET_INELIGIBLE''
               else need (ln_eligible env r) ''MANAGED_RELEASE_FORWARD_NOT_ALLOWED'') (\<lambda>_.
     and_then (ln_overlap env r) (\<lambda>_.
     and_then (admission_binding env r recovery pf) (\<lambda>_. Inr pf))))))))))"

definition lease_event_of ::
    "('c, 'p, 'v, 'i) lease_env \<Rightarrow> ('c, 'p, 'v, 'i) deployment \<Rightarrow> string \<Rightarrow> (string \<times> string) option
     \<Rightarrow> 'v lease_event result" where
  "lease_event_of env r action digests =
     and_then (if action \<in> set ACQUIRING_ACTIONS then and_then (ln_provenance env r) (\<lambda>v. Inr (Some v)) else Inr None)
       (\<lambda>v.
     Inr \<lparr>le_deployment = dp_id r, le_action = action, le_lease = dp_lease r, le_fence = dp_fence r,
          le_owner = dp_owner r, le_expected = dp_expected r, le_incoming = dp_incoming r,
          le_incomingVersion = dp_incomingVersion r, le_provenance = v,
          le_targetDigest = map_option fst digests, le_recoveryDigest = map_option snd digests\<rparr>)"

definition log_event ::
    "('c, 'p, 'v, 'i) lease_env \<Rightarrow> ('c, 'p, 'v, 'i) deployment \<Rightarrow> string \<Rightarrow> (string \<times> string) option
     \<Rightarrow> ('c, 'p, 'v, 'i) lease_db \<Rightarrow> ('c, 'p, 'v, 'i) lease_db result" where
  "log_event env r action digests db =
     and_then (lease_event_of env r action digests) (\<lambda>e. Inr (db\<lparr>rd_events := rd_events db @ [e]\<rparr>))"

end
