(* ===== verification/Release_Ops.thy ===== *)
theory Release_Ops
  imports Release_Lease
begin

text \<open>
  The operations of the managed release lease, in the order of
  \<^verbatim>\<open>control-plane-release-lease.ts\<close>.  Each returns the new tables or the error, after which the
  transaction leaves the tables as they were.  What the readers return is left to the caller; an
  operation's own result is a projection of the row it wrote.
\<close>

section \<open>Recovery evidence\<close>

definition code_ok :: "string \<Rightarrow> bool" where
  "code_ok s \<longleftrightarrow>
     (case s of
        [] \<Rightarrow> False
      | c # cs \<Rightarrow>
          c \<in> set ''ABCDEFGHIJKLMNOPQRSTUVWXYZ'' \<and> 2 \<le> length cs \<and> length cs \<le> 63 \<and>
          list_all (\<lambda>x. x \<in> set ''ABCDEFGHIJKLMNOPQRSTUVWXYZ0123456789_'') cs)"

definition validateRecoveryStageCode :: "recovery_stage \<Rightarrow> string \<Rightarrow> unit result" where
  "validateRecoveryStageCode stage code = requireInput (code_ok code)"

definition currentEvidence ::
    "('c, 'p, 'v, 'i) lease_env \<Rightarrow> ('p, 'v) rollback_envelope \<Rightarrow> ('c, 'p, 'v, 'i) deployment
     \<Rightarrow> 'i recovery_evidence option result" where
  "currentEvidence env e r =
     (case dp_evidence r of
        None \<Rightarrow> Inr None
      | Some v \<Rightarrow> and_then (ln_evidence_ok env e v) (\<lambda>_. Inr (Some v)))"

definition recoveryEvidenceForStageCode ::
    "('c, 'p, 'v, 'i) lease_env \<Rightarrow> ('c, 'p, 'v, 'i) deployment \<Rightarrow> ('p, 'v) rollback_envelope
     \<Rightarrow> recovery_stage \<Rightarrow> string \<Rightarrow> 'i recovery_evidence result" where
  "recoveryEvidenceForStageCode env r e stage code =
     and_then (currentEvidence env e r) (\<lambda>current.
     Inr \<lparr>ev_stage = stage, ev_code = code,
          ev_intents = (case current of None \<Rightarrow> None | Some v \<Rightarrow> ev_intents v)\<rparr>)"

definition recoveryEvidenceWithRecordedIntent ::
    "'i recovery_evidence option \<Rightarrow> intent_role \<Rightarrow> 'i \<Rightarrow> (bool \<times> 'i recovery_evidence) result" where
  "recoveryEvidenceWithRecordedIntent current role intent =
     (let intents = (case current of
                       None \<Rightarrow> []
                     | Some v \<Rightarrow> (case ev_intents v of None \<Rightarrow> [] | Some is \<Rightarrow> is));
          recorded = (\<lambda>is. \<lparr>ev_stage = ROLLBACK, ev_code = ''RECOVERY_WRITE_INTENT_RECORDED'', ev_intents = Some is\<rparr>)
      in case find (\<lambda>x. fst x = role) intents of
           Some (_, j) \<Rightarrow>
             and_then (need (j = intent) ''MANAGED_RELEASE_RECOVERY_INTENT_CONFLICT'') (\<lambda>_.
             Inr (False, recorded intents))
         | None \<Rightarrow>
             (let updated = (if role = Role_web then (role, intent) # intents else intents @ [(role, intent)])
              in and_then (need (length updated \<le> 2) ''MANAGED_RELEASE_RECOVERY_INTENT_CONFLICT'') (\<lambda>_.
                 Inr (True, recorded updated))))"

definition rollbackEnvelope ::
    "('c, 'p, 'v, 'i) deployment \<Rightarrow> 'p \<Rightarrow> string \<Rightarrow> int \<Rightarrow> 'v option \<Rightarrow> ('p, 'v) rollback_envelope" where
  "rollbackEnvelope r payload lease fence provenance =
     \<lparr>re_deployment = dp_id r, re_lease = lease, re_fence = fence, re_expected = the (dp_expected r),
      re_incoming = the (dp_incoming r), re_incomingVersion = the (dp_incomingVersion r),
      re_payload = payload, re_provenance = provenance\<rparr>"

text \<open>The lock, the write, the event: what most operations end with.\<close>

definition write_and_log ::
    "('c, 'p, 'v, 'i) lease_env \<Rightarrow> ('c, 'p, 'v, 'i) deployment \<Rightarrow> ('c, 'p, 'v, 'i) deployment
     \<Rightarrow> ('c, 'p, 'v, 'i) deployment \<Rightarrow> string \<Rightarrow> (string \<times> string) option
     \<Rightarrow> ('c, 'p, 'v, 'i) lease_db \<Rightarrow> ('c, 'p, 'v, 'i) lease_db result" where
  "write_and_log env old new subject action digests db =
     and_then (update_row old new db) (log_event env subject action digests)"

section \<open>Acquiring\<close>

record acquire_params =
  aq_deployment :: string
  aq_expected :: string
  aq_incoming :: string
  aq_version :: string
  aq_owner :: string
  aq_digest :: "string option"

definition acquire_input :: "acquire_params \<Rightarrow> unit result" where
  "acquire_input p =
     requireInput (uuid_shape (aq_deployment p) \<and> IMAGE_TAG (aq_expected p) \<and>
       IMAGE_TAG (aq_incoming p) \<and> aq_incoming p \<noteq> aq_expected p \<and> version_ok (aq_version p) \<and>
       owner_ok (aq_owner p) \<and> (case aq_digest p of None \<Rightarrow> True | Some d \<Rightarrow> hex_run 64 d))"

definition acquire_binding ::
    "('c, 'p, 'v, 'i) lease_env \<Rightarrow> ('c, 'p, 'v, 'i) deployment \<Rightarrow> string option
     \<Rightarrow> (string \<times> string) option result" where
  "acquire_binding env r digest =
     (if ln_protected env r then
        and_then (ln_authority env r) (\<lambda>_.
        and_then (ln_target env r False) (\<lambda>t.
        and_then (need (digest = Some (fst t)) ''MANAGED_RELEASE_TARGET_CONFIG_CONFLICT'') (\<lambda>_.
        Inr (Some t))))
      else
        and_then (requireInput (digest = None)) (\<lambda>_.
        and_then (ln_bind env r) (\<lambda>_. Inr None)))"

definition acquired_row ::
    "('c, 'p, 'v, 'i) lease_env \<Rightarrow> acquire_params \<Rightarrow> ('c, 'p, 'v, 'i) deployment
     \<Rightarrow> ('c, 'p, 'v, 'i) deployment" where
  "acquired_row env p r =
     r\<lparr>dp_fence := dp_fence r + 1, dp_lease := Some (ln_lease_id env),
       dp_token := Some (ln_sha256 env (ln_capability env)), dp_owner := Some (aq_owner p),
       dp_expected := Some (aq_expected p), dp_incoming := Some (aq_incoming p),
       dp_incomingVersion := Some (aq_version p), dp_phase := Some RESERVED,
       dp_acquired := Some (ln_now env), dp_heartbeat := Some (ln_now env),
       dp_expires := Some (ln_now env + TTL_MS), dp_rollback := None, dp_evidence := None, dp_error := None\<rparr>"

definition acquireManagedReleaseLease ::
    "('c, 'p, 'v, 'i) lease_env \<Rightarrow> acquire_params \<Rightarrow> ('c, 'p, 'v, 'i) lease_db
     \<Rightarrow> ('c, 'p, 'v, 'i) lease_db result" where
  "acquireManagedReleaseLease env p db =
     and_then (acquire_input p) (\<lambda>_.
     and_then (lock_row (aq_deployment p) db) (\<lambda>r.
     and_then (need (ln_eligible env r) ''MANAGED_RELEASE_TARGET_INELIGIBLE'') (\<lambda>_.
     and_then (ln_overlap env r) (\<lambda>_.
     and_then (acquire_binding env r (aq_digest p)) (\<lambda>digests.
     and_then (need (\<not> (truthy_str (dp_lease r) \<and> unexpired (ln_now env) r)) ''MANAGED_RELEASE_LEASE_CONFLICT'') (\<lambda>_.
     and_then (need (\<not> (truthy_str (dp_lease r) \<and> dp_phase r \<noteq> Some RESERVED)) ''MANAGED_RELEASE_RECOVERY_REQUIRED'') (\<lambda>_.
     and_then (need (dp_image r = Some (aq_expected p)) ''MANAGED_RELEASE_BASELINE_CONFLICT'') (\<lambda>_.
     and_then (need (dp_fence r < MAX_INT) ''MANAGED_RELEASE_LEASE_CONFLICT'') (\<lambda>_.
     write_and_log env r (acquired_row env p r) (acquired_row env p r)
       (if truthy_str (dp_lease r) then ''control_plane.release_lease.reservation_replaced''
        else ''control_plane.release_lease.acquired'')
       (case digests of
          None \<Rightarrow> None
        | Some (t, c) \<Rightarrow> if t \<noteq> [] \<and> c \<noteq> [] then Some (t, c) else None) db)))))))))"

definition renewed :: "('c, 'p, 'v, 'i) lease_env \<Rightarrow> ('c, 'p, 'v, 'i) deployment \<Rightarrow> ('c, 'p, 'v, 'i) deployment" where
  "renewed env r = r\<lparr>dp_heartbeat := Some (ln_now env), dp_expires := Some (ln_now env + TTL_MS)\<rparr>"

definition heartbeatManagedReleaseLease ::
    "('c, 'p, 'v, 'i) lease_env \<Rightarrow> lease_handle \<Rightarrow> bool \<Rightarrow> ('c, 'p, 'v, 'i) lease_db
     \<Rightarrow> ('c, 'p, 'v, 'i) lease_db result" where
  "heartbeatManagedReleaseLease env h recovery db =
     and_then (owned env h False db) (\<lambda>r.
     and_then (requireAdmission env (rd_events db) r recovery) (\<lambda>_.
     and_then (need (dp_phase r \<noteq> None) ''MANAGED_RELEASE_LEASE_STATE_CONFLICT'') (\<lambda>_.
     and_then (if dp_rollback r = None then Inr () else and_then (storedRollbackEnvelope env r) (\<lambda>_. Inr ())) (\<lambda>_.
     update_row r (renewed env r) db))))"

section \<open>Rolling forward\<close>

definition recordManagedReleaseRollbackRecord ::
    "('c, 'p, 'v, 'i) lease_env \<Rightarrow> lease_handle \<Rightarrow> 'p \<Rightarrow> ('c, 'p, 'v, 'i) lease_db
     \<Rightarrow> ('c, 'p, 'v, 'i) lease_db result" where
  "recordManagedReleaseRollbackRecord env h payload db =
     and_then (ln_canonical env payload) (\<lambda>canonical.
     and_then (owned env h False db) (\<lambda>r.
     and_then (requireAdmission env (rd_events db) r False) (\<lambda>pf.
     and_then (ln_bind_payload env r canonical) (\<lambda>_.
     and_then (need (dp_phase r = Some RESERVED) ''MANAGED_RELEASE_LEASE_STATE_CONFLICT'') (\<lambda>_.
     and_then (need (ln_target_matches env r canonical) ''MANAGED_RELEASE_LEASE_STATE_CONFLICT'') (\<lambda>_.
     and_then (ln_approval env r canonical) (\<lambda>_.
     if dp_rollback r \<noteq> None then
       and_then (storedRollbackEnvelope env r) (\<lambda>e.
       and_then (need (re_payload e = canonical) ''MANAGED_RELEASE_LEASE_STATE_CONFLICT'') (\<lambda>_. Inr db))
     else
       write_and_log env r
         (r\<lparr>dp_rollback := Some (rollbackEnvelope r canonical (the (dp_lease r)) (dp_fence r) (ap_provenance pf))\<rparr>)
         r ORIGINATING_LEASE_EVENT_ACTION None db)))))))"

definition mutating_row :: "('c, 'p, 'v, 'i) lease_env \<Rightarrow> ('c, 'p, 'v, 'i) deployment \<Rightarrow> ('c, 'p, 'v, 'i) deployment" where
  "mutating_row env r = (renewed env r)\<lparr>dp_phase := Some MUTATING\<rparr>"

definition beginManagedReleaseMutation ::
    "('c, 'p, 'v, 'i) lease_env \<Rightarrow> lease_handle \<Rightarrow> ('c, 'p, 'v, 'i) lease_db
     \<Rightarrow> ('c, 'p, 'v, 'i) lease_db result" where
  "beginManagedReleaseMutation env h db =
     and_then (owned env h False db) (\<lambda>r.
     and_then (requireAdmission env (rd_events db) r False) (\<lambda>_.
     if dp_phase r = Some MUTATING then
       and_then (storedRollbackEnvelope env r) (\<lambda>e.
       and_then (ln_approval env r (re_payload e)) (\<lambda>_. Inr db))
     else
       and_then (need (dp_phase r = Some RESERVED) ''MANAGED_RELEASE_LEASE_STATE_CONFLICT'') (\<lambda>_.
       and_then (need (dp_image r = dp_expected r) ''MANAGED_RELEASE_BASELINE_CONFLICT'') (\<lambda>_.
       and_then (need (dp_rollback r \<noteq> None) ''MANAGED_RELEASE_ROLLBACK_RECORD_REQUIRED'') (\<lambda>_.
       and_then (storedRollbackEnvelope env r) (\<lambda>e.
       and_then (ln_approval env r (re_payload e)) (\<lambda>_.
       write_and_log env r (mutating_row env r) (mutating_row env r)
         ''control_plane.release_lease.mutation_begun'' None db)))))))"

definition abortManagedReleaseLease ::
    "('c, 'p, 'v, 'i) lease_env \<Rightarrow> lease_handle \<Rightarrow> ('c, 'p, 'v, 'i) lease_db
     \<Rightarrow> ('c, 'p, 'v, 'i) lease_db result" where
  "abortManagedReleaseLease env h db =
     and_then (owned env h True db) (\<lambda>r.
     and_then (requireAdmission env (rd_events db) r True) (\<lambda>_.
     and_then (need (dp_phase r = Some RESERVED) ''MANAGED_RELEASE_LEASE_STATE_CONFLICT'') (\<lambda>_.
     write_and_log env r (clearLeaseData r) r ''control_plane.release_lease.aborted'' None db)))"

section \<open>The three endings of a mutation\<close>

definition in_mutation :: "('c, 'p, 'v, 'i) deployment \<Rightarrow> bool" where
  "in_mutation r \<longleftrightarrow> dp_phase r = Some MUTATING \<or> dp_phase r = Some RECOVERY_REQUIRED"

definition released_row ::
    "('c, 'p, 'v, 'i) lease_env \<Rightarrow> string \<Rightarrow> string \<Rightarrow> ('c, 'p, 'v, 'i) deployment
     \<Rightarrow> ('c, 'p, 'v, 'i) deployment" where
  "released_row env img version r =
     (clearLeaseData r)\<lparr>dp_image := Some img, dp_version := Some version,
        dp_releaseCheck := Some (ln_now env), dp_healthCheck := Some (ln_now env),
        dp_healthStatus := Some ''ok'', dp_healthError := None\<rparr>"

text \<open>The slot is emptied first, then the release is written: two updates, as the trigger demands.\<close>

definition write_release ::
    "('c, 'p, 'v, 'i) lease_env \<Rightarrow> string \<Rightarrow> string \<Rightarrow> ('c, 'p, 'v, 'i) deployment
     \<Rightarrow> ('c, 'p, 'v, 'i) lease_db \<Rightarrow> ('c, 'p, 'v, 'i) lease_db result" where
  "write_release env img version r db =
     and_then (update_row r (clearLeaseData r) db)
       (update_row (clearLeaseData r) (released_row env img version r))"

definition finalizeManagedReleaseSuccess ::
    "('c, 'p, 'v, 'i) lease_env \<Rightarrow> lease_handle \<Rightarrow> ('c, 'p, 'v, 'i) lease_db
     \<Rightarrow> ('c, 'p, 'v, 'i) lease_db result" where
  "finalizeManagedReleaseSuccess env h db =
     and_then (owned env h False db) (\<lambda>r.
     and_then (requireAdmission env (rd_events db) r False) (\<lambda>_.
     and_then (need (in_mutation r) ''MANAGED_RELEASE_LEASE_STATE_CONFLICT'') (\<lambda>_.
     and_then (storedRollbackEnvelope env r) (\<lambda>_.
     case (dp_incoming r, dp_incomingVersion r) of
       (Some img, Some version) \<Rightarrow>
         and_then (need (img \<noteq> [] \<and> version \<noteq> [] \<and> \<not> ROLLBACK_RESERVATION version)
           ''MANAGED_RELEASE_LEASE_STATE_CONFLICT'') (\<lambda>_.
         and_then (write_release env img version r db)
           (log_event env r ''control_plane.release_lease.succeeded'' None))
     | _ \<Rightarrow> Inl (reject_with ''MANAGED_RELEASE_LEASE_STATE_CONFLICT'')))))"

text \<open>An event with its own receipt instead of the usual description of the lease.\<close>

definition log_receipt ::
    "('c, 'p, 'v, 'i) deployment \<Rightarrow> string \<Rightarrow> ('c, 'p, 'v, 'i) lease_db \<Rightarrow> ('c, 'p, 'v, 'i) lease_db" where
  "log_receipt r action db =
     db\<lparr>rd_events := rd_events db @
        [\<lparr>le_deployment = dp_id r, le_action = action, le_lease = dp_lease r, le_fence = dp_fence r,
          le_owner = None, le_expected = None, le_incoming = None, le_incomingVersion = None,
          le_provenance = None, le_targetDigest = None, le_recoveryDigest = None\<rparr>]\<rparr>"

definition finalizeManagedReleaseCompatibleRecovery ::
    "('c, 'p, 'v, 'i) lease_env \<Rightarrow> lease_handle \<Rightarrow> json \<Rightarrow> ('c, 'p, 'v, 'i) lease_db
     \<Rightarrow> ('c, 'p, 'v, 'i) lease_db result" where
  "finalizeManagedReleaseCompatibleRecovery env h evidence db =
     and_then (owned env h False db) (\<lambda>r.
     and_then (requireAdmission env (rd_events db) r True) (\<lambda>_.
     and_then (need (in_mutation r) ''MANAGED_RELEASE_LEASE_STATE_CONFLICT'') (\<lambda>_.
     and_then (originatingRollbackEnvelope env (rd_events db) r) (\<lambda>e.
     and_then (need (\<not> ln_schema_one env (re_payload e)) ''MANAGED_RELEASE_LEASE_STATE_CONFLICT'') (\<lambda>_.
     and_then (ln_accepts env e evidence) (\<lambda>_.
     and_then (write_release env (fst (ln_recovery env (re_payload e))) (snd (ln_recovery env (re_payload e))) r db) (\<lambda>db'.
     Inr (log_receipt r ''control_plane.release_lease.compatible_recovery_succeeded'' db'))))))))"

definition finalizeManagedReleaseRollback ::
    "('c, 'p, 'v, 'i) lease_env \<Rightarrow> lease_handle \<Rightarrow> json option \<Rightarrow> ('c, 'p, 'v, 'i) lease_db
     \<Rightarrow> ('c, 'p, 'v, 'i) lease_db result" where
  "finalizeManagedReleaseRollback env h evidence db =
     and_then (owned env h False db) (\<lambda>r.
     and_then (requireAdmission env (rd_events db) r True) (\<lambda>_.
     and_then (need (in_mutation r) ''MANAGED_RELEASE_LEASE_STATE_CONFLICT'') (\<lambda>_.
     and_then (originatingRollbackEnvelope env (rd_events db) r) (\<lambda>e.
     and_then (need (ln_schema_one env (re_payload e)) ''MANAGED_RELEASE_LEASE_STATE_CONFLICT'') (\<lambda>_.
     and_then (case evidence of None \<Rightarrow> Inr () | Some v \<Rightarrow> ln_accepts_rollback env r e v) (\<lambda>_.
     and_then (update_row r (clearLeaseData r) db) (\<lambda>db'.
     if evidence = None then log_event env r ''control_plane.release_lease.rolled_back'' None db'
     else Inr (log_receipt r ''control_plane.release_lease.rolled_back'' db'))))))))"

section \<open>Recovery\<close>

definition recovering_row ::
    "('c, 'p, 'v, 'i) lease_env \<Rightarrow> 'i recovery_evidence \<Rightarrow> string \<Rightarrow> ('c, 'p, 'v, 'i) deployment
     \<Rightarrow> ('c, 'p, 'v, 'i) deployment" where
  "recovering_row env v code r =
     (renewed env r)\<lparr>dp_phase := Some RECOVERY_REQUIRED, dp_evidence := Some v, dp_error := Some code\<rparr>"

definition recordManagedReleaseRecoveryIntent ::
    "('c, 'p, 'v, 'i) lease_env \<Rightarrow> lease_handle \<Rightarrow> json \<Rightarrow> ('c, 'p, 'v, 'i) lease_db
     \<Rightarrow> ('c, 'p, 'v, 'i) lease_db result" where
  "recordManagedReleaseRecoveryIntent env h input db =
     and_then (owned env h False db) (\<lambda>r.
     and_then (requireAdmission env (rd_events db) r True) (\<lambda>_.
     and_then (need (in_mutation r \<and> dp_rollback r \<noteq> None) ''MANAGED_RELEASE_LEASE_STATE_CONFLICT'') (\<lambda>_.
     and_then (originatingRollbackEnvelope env (rd_events db) r) (\<lambda>e.
     and_then (need (\<not> ln_schema_one env (re_payload e)) ''MANAGED_RELEASE_LEASE_STATE_CONFLICT'') (\<lambda>_.
     and_then (ln_approval env r (re_payload e)) (\<lambda>_.
     and_then (ln_intent env e input) (\<lambda>intent.
     and_then (currentEvidence env e r) (\<lambda>current.
     and_then (recoveryEvidenceWithRecordedIntent current (fst intent) (snd intent)) (\<lambda>w.
     write_and_log env r (recovering_row env (snd w) (ev_code (snd w)) r)
       (recovering_row env (snd w) (ev_code (snd w)) r)
       ''control_plane.release_lease.recovery_intent_recorded'' None db)))))))))"

definition markManagedReleaseRecoveryRequired ::
    "('c, 'p, 'v, 'i) lease_env \<Rightarrow> lease_handle \<Rightarrow> recovery_stage \<Rightarrow> string \<Rightarrow> ('c, 'p, 'v, 'i) lease_db
     \<Rightarrow> ('c, 'p, 'v, 'i) lease_db result" where
  "markManagedReleaseRecoveryRequired env h stage code db =
     and_then (validateRecoveryStageCode stage code) (\<lambda>_.
     and_then (owned env h True db) (\<lambda>r.
     and_then (requireAdmission env (rd_events db) r True) (\<lambda>_.
     and_then (need (dp_phase r \<noteq> None \<and> dp_rollback r \<noteq> None) ''MANAGED_RELEASE_LEASE_STATE_CONFLICT'') (\<lambda>_.
     and_then (originatingRollbackEnvelope env (rd_events db) r) (\<lambda>e.
     and_then (storedRollbackEnvelope env r) (\<lambda>_.
     and_then (recoveryEvidenceForStageCode env r e stage code) (\<lambda>v.
     write_and_log env r (recovering_row env v code r) (recovering_row env v code r)
       ''control_plane.release_lease.recovery_required'' None db)))))))"

record claim_params =
  cq_deployment :: string
  cq_lease :: string
  cq_fence :: int
  cq_owner :: string

definition claimed_row ::
    "('c, 'p, 'v, 'i) lease_env \<Rightarrow> claim_params \<Rightarrow> ('p, 'v) rollback_envelope \<Rightarrow> ('c, 'p, 'v, 'i) deployment
     \<Rightarrow> ('c, 'p, 'v, 'i) deployment" where
  "claimed_row env p e r =
     r\<lparr>dp_fence := dp_fence r + 1, dp_lease := Some (ln_lease_id env),
       dp_token := Some (ln_sha256 env (ln_capability env)), dp_owner := Some (cq_owner p),
       dp_phase := Some RECOVERY_REQUIRED, dp_acquired := Some (ln_now env),
       dp_heartbeat := Some (ln_now env), dp_expires := Some (ln_now env + TTL_MS),
       dp_rollback := Some (rollbackEnvelope r (re_payload e) (re_lease e) (re_fence e) (re_provenance e))\<rparr>"

definition proof_digests :: "'v acquisition_proof \<Rightarrow> (string \<times> string) option" where
  "proof_digests pf =
     (case (ap_target pf, ap_recovery pf) of (Some t, Some c) \<Rightarrow> Some (t, c) | _ \<Rightarrow> None)"

definition claimManagedReleaseRecovery ::
    "('c, 'p, 'v, 'i) lease_env \<Rightarrow> claim_params \<Rightarrow> ('c, 'p, 'v, 'i) lease_db
     \<Rightarrow> ('c, 'p, 'v, 'i) lease_db result" where
  "claimManagedReleaseRecovery env p db =
     and_then (requireInput (uuid_shape (cq_deployment p) \<and> uuid_shape (cq_lease p) \<and> 0 < cq_fence p \<and>
        cq_fence p < MAX_INT \<and> owner_ok (cq_owner p))) (\<lambda>_.
     and_then (lock_row (cq_deployment p) db) (\<lambda>r.
     and_then (requireAdmission env (rd_events db) r True) (\<lambda>pf.
     and_then (need (dp_lease r = Some (cq_lease p) \<and> dp_fence r = cq_fence p) ''MANAGED_RELEASE_LEASE_CONFLICT'') (\<lambda>_.
     and_then (need (in_mutation r \<and> dp_expires r \<noteq> None \<and> \<not> unexpired (ln_now env) r \<and> dp_rollback r \<noteq> None)
       ''MANAGED_RELEASE_RECOVERY_REQUIRED'') (\<lambda>_.
     and_then (originatingRollbackEnvelope env (rd_events db) r) (\<lambda>e.
     write_and_log env r (claimed_row env p e r) (claimed_row env p e r)
       ''control_plane.release_lease.recovery_claimed'' (proof_digests pf) db))))))"

end
