(* ===== verification/Release_Facts.thy ===== *)
theory Release_Facts
  imports Release_Ops
begin

text \<open>
  What the managed release lease guarantees.  The operations are gathered in one datatype and run
  against the tables; \<open>lease_move\<close> is the state machine of one row, every operation is shown to make
  one of its moves or none, and the invariants and the fencing of superseded holders are read off it.
\<close>

section \<open>Runs of operations\<close>

datatype 'p lease_op =
    Acquire acquire_params
  | Heartbeat lease_handle bool
  | Record_rollback lease_handle 'p
  | Begin_mutation lease_handle
  | Abort lease_handle
  | Succeed lease_handle
  | Recover_compatible lease_handle json
  | Roll_back lease_handle "json option"
  | Record_intent lease_handle json
  | Mark_recovery lease_handle recovery_stage string
  | Claim_recovery claim_params

fun lease_run ::
    "('c, 'p, 'v, 'i) lease_env \<Rightarrow> 'p lease_op \<Rightarrow> ('c, 'p, 'v, 'i) lease_db \<Rightarrow> ('c, 'p, 'v, 'i) lease_db result" where
  "lease_run env (Acquire p) db = acquireManagedReleaseLease env p db"
| "lease_run env (Heartbeat h recovery) db = heartbeatManagedReleaseLease env h recovery db"
| "lease_run env (Record_rollback h payload) db = recordManagedReleaseRollbackRecord env h payload db"
| "lease_run env (Begin_mutation h) db = beginManagedReleaseMutation env h db"
| "lease_run env (Abort h) db = abortManagedReleaseLease env h db"
| "lease_run env (Succeed h) db = finalizeManagedReleaseSuccess env h db"
| "lease_run env (Recover_compatible h ev) db = finalizeManagedReleaseCompatibleRecovery env h ev db"
| "lease_run env (Roll_back h ev) db = finalizeManagedReleaseRollback env h ev db"
| "lease_run env (Record_intent h input) db = recordManagedReleaseRecoveryIntent env h input db"
| "lease_run env (Mark_recovery h stage code) db = markManagedReleaseRecoveryRequired env h stage code db"
| "lease_run env (Claim_recovery p) db = claimManagedReleaseRecovery env p db"

text \<open>A failed transaction leaves the tables as they were.\<close>

definition lease_attempt ::
    "('c, 'p, 'v, 'i) lease_env \<times> 'p lease_op \<Rightarrow> ('c, 'p, 'v, 'i) lease_db \<Rightarrow> ('c, 'p, 'v, 'i) lease_db" where
  "lease_attempt s db = (case lease_run (fst s) (snd s) db of Inl _ \<Rightarrow> db | Inr db' \<Rightarrow> db')"

fun lease_history ::
    "(('c, 'p, 'v, 'i) lease_env \<times> 'p lease_op) list \<Rightarrow> ('c, 'p, 'v, 'i) lease_db \<Rightarrow> ('c, 'p, 'v, 'i) lease_db" where
  "lease_history [] db = db"
| "lease_history (s # ss) db = lease_history ss (lease_attempt s db)"

fun op_handle :: "'p lease_op \<Rightarrow> lease_handle option" where
  "op_handle (Acquire p) = None"
| "op_handle (Heartbeat h recovery) = Some h"
| "op_handle (Record_rollback h payload) = Some h"
| "op_handle (Begin_mutation h) = Some h"
| "op_handle (Abort h) = Some h"
| "op_handle (Succeed h) = Some h"
| "op_handle (Recover_compatible h ev) = Some h"
| "op_handle (Roll_back h ev) = Some h"
| "op_handle (Record_intent h input) = Some h"
| "op_handle (Mark_recovery h stage code) = Some h"
| "op_handle (Claim_recovery p) = None"

definition holds :: "('c, 'p, 'v, 'i) lease_env \<Rightarrow> lease_handle \<Rightarrow> ('c, 'p, 'v, 'i) deployment \<Rightarrow> bool" where
  "holds env h r \<longleftrightarrow>
     dp_id r = lh_deployment h \<and> dp_lease r = Some (lh_lease h) \<and>
     dp_token r = Some (ln_sha256 env (lh_capability h)) \<and> dp_fence r = lh_fence h"

section \<open>The machine of one row\<close>

inductive lease_move ::
    "('c, 'p, 'v, 'i) lease_env \<Rightarrow> 'p lease_op \<Rightarrow> ('c, 'p, 'v, 'i) deployment \<Rightarrow> ('c, 'p, 'v, 'i) deployment \<Rightarrow> bool"
  for env where
  move_reserve:
    "lease_move env (Acquire p) r (acquired_row env p r)"
    if "\<not> truthy_str (dp_lease r) \<or> dp_phase r = Some RESERVED \<and> \<not> unexpired (ln_now env) r"
       "dp_image r = Some (aq_expected p)" "aq_incoming p \<noteq> aq_expected p" "dp_fence r < MAX_INT"
| move_renew:
    "lease_move env (Heartbeat h recovery) r (renewed env r)"
    if "holds env h r" "unexpired (ln_now env) r"
| move_record:
    "lease_move env (Record_rollback h payload) r
       (r\<lparr>dp_rollback := Some (rollbackEnvelope r q (the (dp_lease r)) (dp_fence r) v)\<rparr>)"
    if "holds env h r" "unexpired (ln_now env) r" "dp_phase r = Some RESERVED" "dp_rollback r = None"
| move_mutate:
    "lease_move env (Begin_mutation h) r (mutating_row env r)"
    if "holds env h r" "unexpired (ln_now env) r" "dp_phase r = Some RESERVED" "dp_rollback r \<noteq> None"
| move_abort:
    "lease_move env (Abort h) r (clearLeaseData r)"
    if "holds env h r" "dp_phase r = Some RESERVED"
| move_succeed:
    "lease_move env (Succeed h) r (released_row env img version r)"
    if "holds env h r" "unexpired (ln_now env) r" "in_mutation r" "dp_rollback r \<noteq> None"
       "dp_incoming r = Some img" "dp_incomingVersion r = Some version" "\<not> ROLLBACK_RESERVATION version"
| move_recovered:
    "lease_move env (Recover_compatible h ev) r (released_row env img version r)"
    if "holds env h r" "unexpired (ln_now env) r" "in_mutation r" "dp_rollback r = Some e"
       "ln_canonical env (re_payload e) = Inr q" "\<not> ln_schema_one env q" "ln_recovery env q = (img, version)"
| move_rolled_back:
    "lease_move env (Roll_back h ev) r (clearLeaseData r)"
    if "holds env h r" "unexpired (ln_now env) r" "in_mutation r" "dp_rollback r \<noteq> None"
| move_intent:
    "lease_move env (Record_intent h input) r (recovering_row env v code r)"
    if "holds env h r" "unexpired (ln_now env) r" "in_mutation r" "dp_rollback r \<noteq> None"
| move_recovery:
    "lease_move env (Mark_recovery h stage code) r (recovering_row env v code r)"
    if "holds env h r" "dp_phase r \<noteq> None" "dp_rollback r \<noteq> None"
| move_claim:
    "lease_move env (Claim_recovery p) r (claimed_row env p e r)"
    if "in_mutation r" "\<not> unexpired (ln_now env) r" "dp_rollback r = Some d"
       "ln_canonical env (re_payload d) = Inr (re_payload e)" "re_provenance e = re_provenance d"
       "1 \<le> re_fence e" "re_fence e \<le> dp_fence r" "dp_fence r < MAX_INT" "dp_fence r = cq_fence p"

section \<open>Effects of the operations\<close>

text \<open>The row of the tables an operation touches, and the rows after it.\<close>

definition row_change ::
    "('c, 'p, 'v, 'i) lease_env \<Rightarrow> 'p lease_op \<Rightarrow> ('c, 'p, 'v, 'i) lease_db \<Rightarrow> ('c, 'p, 'v, 'i) lease_db \<Rightarrow> bool" where
  "row_change env op db db' \<longleftrightarrow>
     (\<exists>r r'. r \<in> set (rd_rows db) \<and> find_deployment (dp_id r) db = Some r \<and> lease_move env op r r' \<and>
        dp_id r' = dp_id r \<and> slot_check r' \<and> rollback_check r' \<and> \<not> unique_violation r' db \<and>
        rd_rows db' = map (\<lambda>x. if dp_id x = dp_id r then r' else x) (rd_rows db))"

lemma need_iff [result_simps]: "need c code = Inr u \<longleftrightarrow> c"
  by (simp add: need_def)

lemma requireInput_iff [result_simps]: "requireInput c = Inr u \<longleftrightarrow> c"
  by (simp add: requireInput_def)

lemma lock_row_iff [result_simps]: "lock_row i db = Inr r \<longleftrightarrow> find_deployment i db = Some r"
  by (simp add: lock_row_def split: option.splits)

lemma find_deployment_SomeD:
  assumes "find_deployment i db = Some r"
  shows "r \<in> set (rd_rows db) \<and> dp_id r = i"
  using assms unfolding find_deployment_def by (auto simp: find_Some_iff in_set_conv_nth)

lemma update_row_iff [result_simps]:
  "update_row r r' db = Inr db' \<longleftrightarrow>
     \<not> unique_violation r' db \<and> update_guard r r' \<and> slot_check r' \<and> rollback_check r' \<and> db' = put_row r' db"
  by (auto simp: update_row_def)

lemma log_event_rows:
  assumes "log_event env r action digests db = Inr db'"
  shows "rd_rows db' = rd_rows db"
  using assms by (auto simp: log_event_def result_simps)

lemma ownedD:
  assumes "owned env h b db = Inr r"
  shows "find_deployment (lh_deployment h) db = Some r \<and> r \<in> set (rd_rows db) \<and> holds env h r \<and>
    (b \<or> unexpired (ln_now env) r)"
  using assms find_deployment_SomeD[of "lh_deployment h" db r]
  unfolding owned_def holds_def by (auto simp: result_simps)

lemma row_ids [simp]:
  "dp_id (renewed env r) = dp_id r" "dp_id (mutating_row env r) = dp_id r" "dp_id (clearLeaseData r) = dp_id r"
  "dp_id (released_row env img version r) = dp_id r" "dp_id (recovering_row env v code r) = dp_id r"
  "dp_id (acquired_row env p r) = dp_id r" "dp_id (claimed_row env c e r) = dp_id r"
  by (simp_all add: renewed_def mutating_row_def clearLeaseData_def released_row_def recovering_row_def
      acquired_row_def claimed_row_def)

lemma written_change:
  assumes "find_deployment i db = Some r" "lease_move env op r r'" "dp_id r' = dp_id r"
    "update_row r r' db = Inr db1" "rd_rows db' = rd_rows db1"
  shows "row_change env op db db'"
  unfolding row_change_def
  by (intro exI[of _ r] exI[of _ r'] conjI)
    (use assms find_deployment_SomeD[OF assms(1)] in \<open>simp_all add: result_simps put_row_def\<close>)

lemma logged_change:
  assumes "find_deployment i db = Some r" "lease_move env op r r'" "dp_id r' = dp_id r"
    "write_and_log env r r' subject action digests db = Inr db'"
  shows "row_change env op db db'"
  using assms(4) log_event_rows unfolding write_and_log_def and_then_Inr_iff
  by (metis written_change[OF assms(1-3)])

lemma storedD:
  assumes "storedRollbackEnvelope env r = Inr e"
  shows "\<exists>d. dp_rollback r = Some d \<and> ln_canonical env (re_payload d) = Inr (re_payload e) \<and>
    re_provenance e = re_provenance d \<and> re_fence e = re_fence d \<and> 1 \<le> re_fence d \<and>
    (dp_fence r = re_fence d \<or> re_fence d \<le> dp_fence r)"
  using assms unfolding storedRollbackEnvelope_def
  by (auto simp: result_simps split: option.splits sum.splits)

lemma originating_fence:
  assumes "originatingLeaseFromEvent r ev = Some (i, f)"
  shows "1 \<le> f \<and> f \<le> dp_fence r"
  using assms unfolding originatingLeaseFromEvent_def by (auto split: if_splits option.splits)

lemma originatingD:
  assumes "originatingRollbackEnvelope env evs r = Inr e"
  shows "\<exists>d. dp_rollback r = Some d \<and> ln_canonical env (re_payload d) = Inr (re_payload e) \<and>
    re_provenance e = re_provenance d \<and> 1 \<le> re_fence e \<and> re_fence e \<le> dp_fence r"
proof -
  obtain s where s: "storedRollbackEnvelope env r = Inr s"
    using assms unfolding originatingRollbackEnvelope_def by (auto simp: result_simps)
  note d = storedD[OF s]
  have "e = s \<or> (\<exists>i f ev. originatingLeaseFromEvent r ev = Some (i, f) \<and> e = s\<lparr>re_lease := i, re_fence := f\<rparr>)"
  proof (cases "List.map_filter (originatingLeaseFromEvent r) (take 10 (rev (filter (\<lambda>x. le_deployment x = dp_id r \<and>
                        le_action x = ORIGINATING_LEASE_EVENT_ACTION) evs)))")
    case Nil
    then show ?thesis
      using assms s unfolding originatingRollbackEnvelope_def by (auto simp: Let_def split: if_splits)
  next
    case (Cons a as)
    then have "a \<in> set (List.map_filter (originatingLeaseFromEvent r) (take 10 (rev (filter (\<lambda>x. le_deployment x = dp_id r \<and>
                        le_action x = ORIGINATING_LEASE_EVENT_ACTION) evs))))"
      by simp
    then have "\<exists>ev. originatingLeaseFromEvent r ev = Some a"
      by (auto simp: List.map_filter_def)
    then show ?thesis
      using assms s Cons unfolding originatingRollbackEnvelope_def
      by (cases a) (auto simp: Let_def split: if_splits)
  qed
  then show ?thesis using d by (auto dest: originating_fence)
qed

lemma truthy_str_Some: "truthy_str (Some s) \<longleftrightarrow> s \<noteq> []"
  by (simp add: truthy_str_def)

lemma acquire_effect:
  assumes "acquireManagedReleaseLease env p db = Inr db'"
  shows "row_change env (Acquire p) db db'"
proof -
  obtain r digests action pairs where r: "find_deployment (aq_deployment p) db = Some r"
    and i: "acquire_input p = Inr ()"
    and free: "\<not> (truthy_str (dp_lease r) \<and> unexpired (ln_now env) r)"
      "\<not> (truthy_str (dp_lease r) \<and> dp_phase r \<noteq> Some RESERVED)"
    and base: "dp_image r = Some (aq_expected p)" and f: "dp_fence r < MAX_INT"
    and w: "write_and_log env r (acquired_row env p r) (acquired_row env p r) action pairs db = Inr db'"
    using assms unfolding acquireManagedReleaseLease_def by (auto simp: result_simps)
  have "aq_incoming p \<noteq> aq_expected p"
    using i by (simp add: acquire_input_def result_simps)
  then have "lease_move env (Acquire p) r (acquired_row env p r)"
    using free base f by (intro move_reserve) auto
  then show ?thesis by (rule logged_change[OF r _ _ w]) simp
qed

lemma heartbeat_effect:
  assumes "heartbeatManagedReleaseLease env h recovery db = Inr db'"
  shows "row_change env (Heartbeat h recovery) db db'"
proof -
  obtain r where r: "owned env h False db = Inr r" and w: "update_row r (renewed env r) db = Inr db'"
    using assms unfolding heartbeatManagedReleaseLease_def by (auto simp: result_simps)
  note q = ownedD[OF r]
  then have "lease_move env (Heartbeat h recovery) r (renewed env r)"
    by (intro move_renew) auto
  then show ?thesis using q by (intro written_change[OF _ _ _ w refl]) auto
qed

lemma record_effect:
  fixes env :: "('c, 'p, 'v, 'i) lease_env"
  assumes "recordManagedReleaseRollbackRecord env h payload db = Inr db'"
  shows "db' = db \<or> row_change env (Record_rollback h payload) db db'"
proof -
  obtain q r and pf :: "'v acquisition_proof" where r: "owned env h False db = Inr r" and ph: "dp_phase r = Some RESERVED"
    and v: "(if dp_rollback r \<noteq> None then
       and_then (storedRollbackEnvelope env r) (\<lambda>e.
       and_then (need (re_payload e = q) ''MANAGED_RELEASE_LEASE_STATE_CONFLICT'') (\<lambda>_. Inr db))
     else write_and_log env r
         (r\<lparr>dp_rollback := Some (rollbackEnvelope r q (the (dp_lease r)) (dp_fence r) (ap_provenance pf))\<rparr>)
         r ORIGINATING_LEASE_EVENT_ACTION None db) = Inr db'"
    using assms unfolding recordManagedReleaseRollbackRecord_def and_then_Inr_iff need_iff
    by (elim exE conjE) (rule that, assumption+)
  have w: "dp_rollback r \<noteq> None \<and> db' = db \<or> dp_rollback r = None \<and>
      write_and_log env r
         (r\<lparr>dp_rollback := Some (rollbackEnvelope r q (the (dp_lease r)) (dp_fence r) (ap_provenance pf))\<rparr>)
         r ORIGINATING_LEASE_EVENT_ACTION None db = Inr db'"
    using v by (auto simp: result_simps split: if_splits)
  note own = ownedD[OF r]
  show ?thesis
  proof (cases "dp_rollback r")
    case None
    then have "lease_move env (Record_rollback h payload) r
        (r\<lparr>dp_rollback := Some (rollbackEnvelope r q (the (dp_lease r)) (dp_fence r) (ap_provenance pf))\<rparr>)"
      using own ph by (intro move_record) auto
    then show ?thesis
      using own w None by (intro disjI2 logged_change[where i = "lh_deployment h" and r = r]) auto
  next
    case (Some a)
    then show ?thesis using w by simp
  qed
qed

lemma mutate_effect:
  assumes "beginManagedReleaseMutation env h db = Inr db'"
  shows "db' = db \<or> row_change env (Begin_mutation h) db db'"
proof -
  obtain r where r: "owned env h False db = Inr r"
    and v: "(if dp_phase r = Some MUTATING then
       and_then (storedRollbackEnvelope env r) (\<lambda>e.
       and_then (ln_approval env r (re_payload e)) (\<lambda>_. Inr db))
     else
       and_then (need (dp_phase r = Some RESERVED) ''MANAGED_RELEASE_LEASE_STATE_CONFLICT'') (\<lambda>_.
       and_then (need (dp_image r = dp_expected r) ''MANAGED_RELEASE_BASELINE_CONFLICT'') (\<lambda>_.
       and_then (need (dp_rollback r \<noteq> None) ''MANAGED_RELEASE_ROLLBACK_RECORD_REQUIRED'') (\<lambda>_.
       and_then (storedRollbackEnvelope env r) (\<lambda>e.
       and_then (ln_approval env r (re_payload e)) (\<lambda>_.
       write_and_log env r (mutating_row env r) (mutating_row env r)
         ''control_plane.release_lease.mutation_begun'' None db)))))) = Inr db'"
    using assms unfolding beginManagedReleaseMutation_def and_then_Inr_iff
    by (elim exE conjE) (rule that, assumption+)
  have w: "db' = db \<or> dp_phase r = Some RESERVED \<and> dp_rollback r \<noteq> None \<and>
       write_and_log env r (mutating_row env r) (mutating_row env r)
         ''control_plane.release_lease.mutation_begun'' None db = Inr db'"
    using v by (auto simp: result_simps split: if_splits)
  note own = ownedD[OF r]
  show ?thesis
    using w
  proof (elim disjE conjE)
    assume g: "dp_phase r = Some RESERVED" "dp_rollback r \<noteq> None"
      "write_and_log env r (mutating_row env r) (mutating_row env r)
         ''control_plane.release_lease.mutation_begun'' None db = Inr db'"
    then have "lease_move env (Begin_mutation h) r (mutating_row env r)"
      using own by (intro move_mutate) auto
    then show ?thesis
      using own by (intro disjI2 logged_change[OF _ _ _ g(3)]) auto
  qed simp
qed

lemma abort_effect:
  assumes "abortManagedReleaseLease env h db = Inr db'"
  shows "row_change env (Abort h) db db'"
proof -
  obtain r where r: "owned env h True db = Inr r" and ph: "dp_phase r = Some RESERVED"
    and w: "write_and_log env r (clearLeaseData r) r ''control_plane.release_lease.aborted'' None db = Inr db'"
    using assms unfolding abortManagedReleaseLease_def by (auto simp: result_simps)
  note own = ownedD[OF r]
  then have "lease_move env (Abort h) r (clearLeaseData r)"
    using ph by (intro move_abort) auto
  then show ?thesis
    using own by (intro logged_change[OF _ _ _ w]) auto
qed

text \<open>The two updates of an ending act as one.\<close>

lemma write_releaseD:
  assumes "find_deployment i db = Some r" "write_release env img version r db = Inr db1"
    "lease_move env op r (released_row env img version r)" "rd_rows db' = rd_rows db1"
  shows "row_change env op db db'"
proof -
  obtain dbm where m: "update_row r (clearLeaseData r) db = Inr dbm"
      "update_row (clearLeaseData r) (released_row env img version r) dbm = Inr db1"
    using assms(2) unfolding write_release_def and_then_Inr_iff by blast
  have same: "rd_rows db1 = map (\<lambda>x. if dp_id x = dp_id r then released_row env img version r else x) (rd_rows db)"
    using m by (auto simp: result_simps put_row_def)
  have "dp_lease (released_row env img version r) = None" "dp_token (released_row env img version r) = None"
    by (simp_all add: released_row_def clearLeaseData_def)
  then have "\<not> unique_violation (released_row env img version r) db"
    by (simp add: unique_violation_def flip: Bex_set)
  then show ?thesis
    using assms m(2) same find_deployment_SomeD[OF assms(1)] unfolding row_change_def
    by (intro exI[of _ r] exI[of _ "released_row env img version r"]) (simp add: result_simps)
qed

lemma succeed_effect:
  assumes "finalizeManagedReleaseSuccess env h db = Inr db'"
  shows "row_change env (Succeed h) db db'"
proof -
  obtain r e where r: "owned env h False db = Inr r" and m: "in_mutation r"
    and e: "storedRollbackEnvelope env r = Inr e"
    and rest: "(case (dp_incoming r, dp_incomingVersion r) of
       (Some img, Some version) \<Rightarrow>
         and_then (need (img \<noteq> [] \<and> version \<noteq> [] \<and> \<not> ROLLBACK_RESERVATION version)
           ''MANAGED_RELEASE_LEASE_STATE_CONFLICT'') (\<lambda>_.
         and_then (write_release env img version r db)
           (log_event env r ''control_plane.release_lease.succeeded'' None))
     | _ \<Rightarrow> Inl (reject_with ''MANAGED_RELEASE_LEASE_STATE_CONFLICT'')) = Inr db'"
    using assms unfolding finalizeManagedReleaseSuccess_def and_then_Inr_iff[of "owned env h False db"]
      and_then_Inr_iff[of "requireAdmission _ _ _ _"] and_then_Inr_iff[of "storedRollbackEnvelope _ _"]
      and_then_Inr_iff[of "need (in_mutation _) _"] need_iff
    by (elim exE conjE) (rule that, assumption+)
  obtain img version db1 where inc: "dp_incoming r = Some img" "dp_incomingVersion r = Some version"
      "\<not> ROLLBACK_RESERVATION version"
    and w: "write_release env img version r db = Inr db1"
    and l: "log_event env r ''control_plane.release_lease.succeeded'' None db1 = Inr db'"
    using rest by (cases "dp_incoming r"; cases "dp_incomingVersion r") (auto simp: result_simps)
  note own = ownedD[OF r]
  have "lease_move env (Succeed h) r (released_row env img version r)"
    using own m inc storedD[OF e] by (intro move_succeed) auto
  then show ?thesis
    using own write_releaseD[OF _ w _ log_event_rows[OF l]] by blast
qed

lemma recovered_effect:
  assumes "finalizeManagedReleaseCompatibleRecovery env h ev db = Inr db'"
  shows "row_change env (Recover_compatible h ev) db db'"
proof -
  obtain r e db1 where r: "owned env h False db = Inr r" and m: "in_mutation r"
    and e: "originatingRollbackEnvelope env (rd_events db) r = Inr e"
    and one: "\<not> ln_schema_one env (re_payload e)"
    and w: "write_release env (fst (ln_recovery env (re_payload e))) (snd (ln_recovery env (re_payload e))) r db = Inr db1"
    and l: "db' = log_receipt r ''control_plane.release_lease.compatible_recovery_succeeded'' db1"
    using assms unfolding finalizeManagedReleaseCompatibleRecovery_def by (auto simp: result_simps)
  note own = ownedD[OF r]
  obtain d where d: "dp_rollback r = Some d" "ln_canonical env (re_payload d) = Inr (re_payload e)"
    using originatingD[OF e] by blast
  have "lease_move env (Recover_compatible h ev) r
      (released_row env (fst (ln_recovery env (re_payload e))) (snd (ln_recovery env (re_payload e))) r)"
    using own m d one by (intro move_recovered[where e = d and q = "re_payload e"]) auto
  moreover have "rd_rows db' = rd_rows db1" using l by (simp add: log_receipt_def)
  ultimately show ?thesis
    using own write_releaseD[OF _ w] by blast
qed

lemma rolled_back_effect:
  assumes "finalizeManagedReleaseRollback env h ev db = Inr db'"
  shows "row_change env (Roll_back h ev) db db'"
proof -
  obtain r e db1 where r: "owned env h False db = Inr r" and m: "in_mutation r"
    and e: "originatingRollbackEnvelope env (rd_events db) r = Inr e"
    and w: "update_row r (clearLeaseData r) db = Inr db1"
    and l: "(if ev = None then log_event env r ''control_plane.release_lease.rolled_back'' None db1
       else Inr (log_receipt r ''control_plane.release_lease.rolled_back'' db1)) = Inr db'"
    using assms unfolding finalizeManagedReleaseRollback_def and_then_Inr_iff need_iff
    by (elim exE conjE) (rule that, assumption+)
  note own = ownedD[OF r]
  have "lease_move env (Roll_back h ev) r (clearLeaseData r)"
    using own m originatingD[OF e] by (intro move_rolled_back) auto
  moreover have "rd_rows db' = rd_rows db1"
    using l by (auto simp: log_receipt_def split: if_splits dest: log_event_rows)
  ultimately show ?thesis
    using own w by (intro written_change[OF _ _ _ w]) auto
qed

lemma intent_effect:
  assumes "recordManagedReleaseRecoveryIntent env h input db = Inr db'"
  shows "row_change env (Record_intent h input) db db'"
proof -
  obtain r v where r: "owned env h False db = Inr r" and m: "in_mutation r" "dp_rollback r \<noteq> None"
    and w: "write_and_log env r (recovering_row env v (ev_code v) r) (recovering_row env v (ev_code v) r)
       ''control_plane.release_lease.recovery_intent_recorded'' None db = Inr db'"
    using assms unfolding recordManagedReleaseRecoveryIntent_def by (auto simp: result_simps)
  note own = ownedD[OF r]
  have "lease_move env (Record_intent h input) r (recovering_row env v (ev_code v) r)"
    using own m by (intro move_intent) auto
  then show ?thesis using own by (intro logged_change[OF _ _ _ w]) auto
qed

lemma recovery_effect:
  assumes "markManagedReleaseRecoveryRequired env h stage code db = Inr db'"
  shows "row_change env (Mark_recovery h stage code) db db'"
proof -
  obtain r v where r: "owned env h True db = Inr r" and m: "dp_phase r \<noteq> None" "dp_rollback r \<noteq> None"
    and w: "write_and_log env r (recovering_row env v code r) (recovering_row env v code r)
       ''control_plane.release_lease.recovery_required'' None db = Inr db'"
    using assms unfolding markManagedReleaseRecoveryRequired_def by (auto simp: result_simps)
  note own = ownedD[OF r]
  have "lease_move env (Mark_recovery h stage code) r (recovering_row env v code r)"
    using own m by (intro move_recovery) auto
  then show ?thesis using own by (intro logged_change[OF _ _ _ w]) auto
qed

lemma claim_effect:
  fixes env :: "('c, 'p, 'v, 'i) lease_env"
  assumes "claimManagedReleaseRecovery env p db = Inr db'"
  shows "row_change env (Claim_recovery p) db db'"
proof -
  obtain r e and pf :: "'v acquisition_proof" where
    i: "uuid_shape (cq_deployment p) \<and> uuid_shape (cq_lease p) \<and> 0 < cq_fence p \<and>
        cq_fence p < MAX_INT \<and> owner_ok (cq_owner p)"
    and r: "find_deployment (cq_deployment p) db = Some r"
    and b: "dp_lease r = Some (cq_lease p) \<and> dp_fence r = cq_fence p"
    and m: "in_mutation r \<and> dp_expires r \<noteq> None \<and> \<not> unexpired (ln_now env) r \<and> dp_rollback r \<noteq> None"
    and e: "originatingRollbackEnvelope env (rd_events db) r = Inr e"
    and w: "write_and_log env r (claimed_row env p e r) (claimed_row env p e r)
       ''control_plane.release_lease.recovery_claimed'' (proof_digests pf) db = Inr db'"
    using assms unfolding claimManagedReleaseRecovery_def and_then_Inr_iff requireInput_iff need_iff
      lock_row_iff
    by (elim exE conjE) (rule that, (assumption | intro conjI)+)
  obtain d where d: "dp_rollback r = Some d" "ln_canonical env (re_payload d) = Inr (re_payload e)"
      "re_provenance e = re_provenance d" "1 \<le> re_fence e" "re_fence e \<le> dp_fence r"
    using originatingD[OF e] by blast
  have "lease_move env (Claim_recovery p) r (claimed_row env p e r)"
    using m d b i by (intro move_claim[where d = d]) auto
  then show ?thesis by (intro logged_change[OF r _ _ w]) auto
qed

lemmas lease_effects =
  acquire_effect heartbeat_effect record_effect mutate_effect abort_effect succeed_effect
  recovered_effect rolled_back_effect intent_effect recovery_effect claim_effect

lemma lease_run_effect:
  assumes "lease_run env op db = Inr db'"
  shows "db' = db \<or> row_change env op db db'"
  using assms by (cases op) (auto dest: lease_effects)

section \<open>The invariant of the tables\<close>

text \<open>
  Beyond the constraints of the table: a lease moves away from its baseline image, it expires five
  minutes after its last heartbeat, its fence stays in range, recovery evidence exists in recovery
  only, and the rollback record describes this very lease - under its own fence, or after a claim
  under an earlier one.
\<close>

definition envelope_ok :: "('c, 'p, 'v, 'i) deployment \<Rightarrow> ('p, 'v) rollback_envelope \<Rightarrow> bool" where
  "envelope_ok r e \<longleftrightarrow>
     re_deployment e = dp_id r \<and> dp_expected r = Some (re_expected e) \<and>
     dp_incoming r = Some (re_incoming e) \<and> dp_incomingVersion r = Some (re_incomingVersion e) \<and>
     1 \<le> re_fence e \<and> re_fence e \<le> dp_fence r \<and>
     (dp_phase r = Some RECOVERY_REQUIRED \<or> dp_lease r = Some (re_lease e) \<and> dp_fence r = re_fence e)"

definition lease_wf :: "('c, 'p, 'v, 'i) deployment \<Rightarrow> bool" where
  "lease_wf r \<longleftrightarrow>
     slot_check r \<and> rollback_check r \<and> dp_fence r \<le> MAX_INT \<and>
     (dp_lease r \<noteq> None \<longrightarrow> dp_incoming r \<noteq> dp_expected r \<and>
        dp_expires r = map_option (\<lambda>t. t + TTL_MS) (dp_heartbeat r)) \<and>
     (dp_evidence r \<noteq> None \<longrightarrow> dp_phase r = Some RECOVERY_REQUIRED) \<and>
     (case dp_rollback r of None \<Rightarrow> True | Some e \<Rightarrow> envelope_ok r e)"

definition lease_db_wf :: "('c, 'p, 'v, 'i) lease_db \<Rightarrow> bool" where
  "lease_db_wf db \<longleftrightarrow>
     distinct (map dp_id (rd_rows db)) \<and> list_all lease_wf (rd_rows db) \<and>
     (\<forall>r\<in>set (rd_rows db). \<not> unique_violation r db)"

lemma slot_empty_or_full:
  assumes "slot_check r"
  shows "dp_lease r = None \<and> dp_phase r = None \<and> dp_rollback r = None \<and> dp_evidence r = None \<or>
    (\<exists>i t w e n v ph a hb x. dp_lease r = Some i \<and> i \<noteq> [] \<and> dp_token r = Some t \<and> dp_owner r = Some w \<and>
       dp_expected r = Some e \<and> dp_incoming r = Some n \<and> dp_incomingVersion r = Some v \<and>
       dp_phase r = Some ph \<and> dp_acquired r = Some a \<and> dp_heartbeat r = Some hb \<and> dp_expires r = Some x \<and>
       dp_image r = Some e \<and> 0 < dp_fence r)"
  using assms unfolding slot_check_def by (auto split: option.splits)

lemma in_mutation_held:
  assumes "slot_check r" "in_mutation r"
  shows "truthy_str (dp_lease r) \<and> dp_phase r \<noteq> Some RESERVED"
  using slot_empty_or_full[OF assms(1)] assms(2) by (auto simp: in_mutation_def truthy_str_def)

lemmas row_updates =
  acquired_row_def renewed_def mutating_row_def clearLeaseData_def released_row_def recovering_row_def
  claimed_row_def rollbackEnvelope_def

lemma lease_move_wf:
  assumes "lease_move env op r r'" "lease_wf r" "slot_check r'" "rollback_check r'"
  shows "lease_wf r'"
  using assms(1)
proof cases
  case (move_record h payload q v)
  then show ?thesis
    using assms(2-4) slot_empty_or_full[of r] unfolding lease_wf_def holds_def
    by (auto simp: row_updates envelope_ok_def slot_check_def)
next
  case (move_claim p d e)
  then show ?thesis
    using assms(2-4) slot_empty_or_full[of r] unfolding lease_wf_def holds_def in_mutation_def
    by (auto simp: row_updates envelope_ok_def)
qed (use assms(2-4) slot_empty_or_full[of r] in
    \<open>auto simp: lease_wf_def holds_def row_updates envelope_ok_def in_mutation_def split: option.splits\<close>)

lemma unique_violation_map:
  assumes "\<not> unique_violation r' db" "\<forall>x\<in>set (rd_rows db). \<not> unique_violation x db" "dp_id r' = dp_id r"
    "rd_rows db' = map (\<lambda>x. if dp_id x = dp_id r then r' else x) (rd_rows db)"
  shows "\<forall>x\<in>set (rd_rows db'). \<not> unique_violation x db'"
  using assms unfolding unique_violation_def by (auto simp flip: Bex_set split: if_splits)

lemma row_change_wf:
  assumes "row_change env op db db'" "lease_db_wf db"
  shows "lease_db_wf db'"
proof -
  obtain r r' where c: "r \<in> set (rd_rows db)" "lease_move env op r r'" "dp_id r' = dp_id r" "slot_check r'"
      "rollback_check r'" "\<not> unique_violation r' db"
      "rd_rows db' = map (\<lambda>x. if dp_id x = dp_id r then r' else x) (rd_rows db)"
    using assms(1) unfolding row_change_def by blast
  have "lease_wf r'"
    using lease_move_wf[OF c(2) _ c(4,5)] assms(2) c(1) by (auto simp: lease_db_wf_def list_all_iff)
  then have rows: "list_all lease_wf (rd_rows db')"
    using assms(2) c(7) by (auto simp: lease_db_wf_def list_all_iff)
  have ids: "map dp_id (rd_rows db') = map dp_id (rd_rows db)"
    using c(3,7) by simp
  show ?thesis
    unfolding lease_db_wf_def ids
    using assms(2) unique_violation_map[OF c(6) _ c(3,7)] rows unfolding lease_db_wf_def by blast
qed

lemma lease_attempt_wf:
  assumes "lease_db_wf db"
  shows "lease_db_wf (lease_attempt s db)"
  using assms lease_run_effect[of "fst s" "snd s" db] row_change_wf[of "fst s" "snd s" db]
  unfolding lease_attempt_def by (auto split: sum.splits)

lemma lease_history_wf:
  assumes "lease_db_wf db"
  shows "lease_db_wf (lease_history ss db)"
  using assms by (induction ss arbitrary: db) (auto intro: lease_attempt_wf)

section \<open>One row\<close>

lemma find_deployment_map:
  assumes "dp_id r' = dp_id r"
  shows "find (\<lambda>x. dp_id x = i) (map (\<lambda>x. if dp_id x = dp_id r then r' else x) xs) =
    (case find (\<lambda>x. dp_id x = i) xs of None \<Rightarrow> None | Some x \<Rightarrow> Some (if dp_id r = i then r' else x))"
  using assms by (induction xs) auto

text \<open>What one attempted operation does to the row of a deployment.\<close>

lemma lease_attempt_row:
  assumes "find_deployment i db = Some r"
  obtains "find_deployment i (lease_attempt (env, op) db) = Some r"
  | r' where "find_deployment i (lease_attempt (env, op) db) = Some r'" "lease_move env op r r'"
      "dp_id r = i" "dp_id r' = i" "slot_check r'" "rollback_check r'"
proof (cases "lease_run env op db")
  case (Inl e)
  then show thesis using that(1) assms by (simp add: lease_attempt_def)
next
  case (Inr db')
  show thesis
  proof (cases "row_change env op db db'")
    case False
    then show thesis
      using that(1) assms Inr lease_run_effect[OF Inr] by (auto simp: lease_attempt_def)
  next
    case True
    then obtain q q' where c: "find_deployment (dp_id q) db = Some q" "lease_move env op q q'"
        "dp_id q' = dp_id q" "slot_check q'" "rollback_check q'"
        "rd_rows db' = map (\<lambda>x. if dp_id x = dp_id q then q' else x) (rd_rows db)"
      unfolding row_change_def by blast
    have "find_deployment i db' = Some (if dp_id q = i then q' else r)"
      using c(6) assms find_deployment_map[OF c(3)] unfolding find_deployment_def by simp
    then show thesis
      using that c assms Inr by (auto simp: lease_attempt_def split: if_splits)
  qed
qed

section \<open>Fencing\<close>

text \<open>A handle is spent when the fence has passed it, or its lease is gone.\<close>

definition spent :: "lease_handle \<Rightarrow> ('c, 'p, 'v, 'i) deployment \<Rightarrow> bool" where
  "spent h r \<longleftrightarrow> lh_fence h < dp_fence r \<or> lh_fence h = dp_fence r \<and> dp_lease r = None"

lemma lease_move_fence:
  assumes "lease_move env op r r'"
  shows "dp_fence r' = dp_fence r + 1 \<or>
    dp_fence r' = dp_fence r \<and> (dp_lease r' = None \<or> dp_lease r' = dp_lease r \<and> dp_token r' = dp_token r)"
  using assms by cases (auto simp: row_updates)

text \<open>A move that keeps the fence comes from a live lease.\<close>

lemma lease_move_live:
  assumes "lease_move env op r r'" "dp_lease r = None"
  shows "dp_fence r' = dp_fence r + 1 \<or> dp_lease r' = None"
  using assms by cases (auto simp: row_updates holds_def)

lemma spent_stays:
  assumes "find_deployment i db = Some r" "spent h r"
  shows "\<exists>r'. find_deployment i (lease_history ss db) = Some r' \<and> spent h r'"
  using assms
proof (induction ss arbitrary: db r)
  case (Cons s ss)
  obtain env op where s: "s = (env, op)" by (cases s)
  have "\<exists>r1. find_deployment i (lease_attempt s db) = Some r1 \<and> spent h r1"
    using lease_attempt_row[OF Cons.prems(1), of env op]
  proof cases
    case 1
    then show ?thesis using Cons.prems(2) s by auto
  next
    case (2 r1)
    then show ?thesis
      using Cons.prems(2) lease_move_fence[OF 2(2)] lease_move_live[OF 2(2)] s
      by (auto simp: spent_def)
  qed
  then show ?case using Cons.IH by fastforce
qed auto

lemma spent_refused:
  assumes "find_deployment (lh_deployment h) db = Some r" "spent h r"
  shows "\<exists>e. owned env h b db = Inl e"
  using assms unfolding owned_def lock_row_def spent_def need_def
  by (cases "validateHandle h") auto

lemma handle_needs_owned:
  assumes "op_handle op = Some h" "lease_run env op db = Inr db'"
  shows "\<exists>b r. owned env h b db = Inr r"
  using assms
  by (cases op)
    (auto simp: heartbeatManagedReleaseLease_def recordManagedReleaseRollbackRecord_def
      beginManagedReleaseMutation_def abortManagedReleaseLease_def finalizeManagedReleaseSuccess_def
      finalizeManagedReleaseCompatibleRecovery_def finalizeManagedReleaseRollback_def
      recordManagedReleaseRecoveryIntent_def markManagedReleaseRecoveryRequired_def and_then_Inr_iff)

lemma spent_run_fails:
  assumes "find_deployment (lh_deployment h) db = Some r" "spent h r" "op_handle op = Some h"
  shows "\<exists>e. lease_run env op db = Inl e"
proof (cases "lease_run env op db")
  case (Inr db')
  then obtain b q where "owned env h b db = Inr q"
    using handle_needs_owned[OF assms(3)] by blast
  then show ?thesis using spent_refused[OF assms(1,2), of env b] by simp
qed simp

section \<open>The fate of a mutation\<close>

lemma mutation_move:
  assumes "lease_move env op r r'" "in_mutation r" "lease_wf r"
  shows "(\<exists>h. op_handle op = Some h \<and> holds env h r) \<and>
      ((unexpired (ln_now env) r
          \<or> (\<exists>h stage code. op = Mark_recovery h stage code) \<and> dp_phase r' = Some RECOVERY_REQUIRED) \<and>
         in_mutation r' \<and> dp_lease r' = dp_lease r \<and> dp_fence r' = dp_fence r \<and> dp_image r' = dp_image r \<and>
         dp_rollback r' = dp_rollback r \<and> dp_incoming r' = dp_incoming r
       \<or> unexpired (ln_now env) r \<and> dp_lease r' = None \<and> dp_phase r' = None \<and>
         ((\<exists>h. op = Succeed h) \<and> dp_image r' = dp_incoming r \<or>
          (\<exists>h v d q. op = Recover_compatible h v \<and> dp_rollback r = Some d \<and>
             ln_canonical env (re_payload d) = Inr q \<and> dp_image r' = Some (fst (ln_recovery env q))) \<or>
          (\<exists>h v. op = Roll_back h v) \<and> dp_image r' = dp_image r \<and> dp_version r' = dp_version r))
    \<or> (\<exists>p. op = Claim_recovery p) \<and> \<not> unexpired (ln_now env) r \<and> dp_phase r' = Some RECOVERY_REQUIRED \<and>
      dp_fence r' = dp_fence r + 1 \<and> dp_image r' = dp_image r \<and> dp_incoming r' = dp_incoming r \<and>
      (\<exists>d e. dp_rollback r = Some d \<and> dp_rollback r' = Some e \<and>
          ln_canonical env (re_payload d) = Inr (re_payload e) \<and> re_provenance e = re_provenance d)"
  using assms(1)
proof cases
  case (move_reserve p)
  then show ?thesis
    using in_mutation_held[of r] assms(2,3) by (auto simp: lease_wf_def)
qed (use assms(2) in \<open>auto simp: row_updates in_mutation_def\<close>)

text \<open>The release of a deployment changes at two endings only.\<close>

lemma release_move:
  assumes "lease_move env op r r'" "dp_image r' \<noteq> dp_image r \<or> dp_version r' \<noteq> dp_version r"
  shows "(\<exists>h. op = Succeed h \<or> (\<exists>v. op = Recover_compatible h v)) \<and> in_mutation r \<and> unexpired (ln_now env) r \<and>
    dp_rollback r \<noteq> None"
  using assms by cases (auto simp: row_updates)

section \<open>Properties\<close>

text \<open>
  A deployment on release \<open>a\<close>, a runner that holds lease number one and moves it to release \<open>b\<close>.
\<close>

definition uuid_of :: "char \<Rightarrow> string" where
  "uuid_of c = replicate 8 c @ ''-'' @ replicate 4 c @ ''-4'' @ replicate 3 c @ ''-8'' @ replicate 3 c @ ''-'' @ replicate 12 c"

definition tag_of :: "char \<Rightarrow> string" where
  "tag_of c = ''sha-'' @ replicate 40 c"

definition example_env :: "int \<Rightarrow> char \<Rightarrow> (unit, nat, nat, nat) lease_env" where
  "example_env now c =
     \<lparr>ln_now = now, ln_capability = [c], ln_lease_id = uuid_of c,
      ln_sha256 = (\<lambda>s. replicate 64 (hd s)), ln_active = (\<lambda>_. True), ln_eligible = (\<lambda>_. True),
      ln_protected = (\<lambda>_. False), ln_authority = (\<lambda>_. Inr ()), ln_overlap = (\<lambda>_. Inr ()),
      ln_target = (\<lambda>_ _. Inr ([], [])), ln_bind = (\<lambda>_. Inr ()), ln_bind_payload = (\<lambda>_ _. Inr ()),
      ln_approval = (\<lambda>_ _. Inr ()), ln_provenance = (\<lambda>_. Inr 0), ln_same_provenance = (\<lambda>_ _ _. Inr ()),
      ln_canonical = Inr, ln_target_matches = (\<lambda>_ _. True), ln_schema_one = (\<lambda>p. p = 1),
      ln_recovery = (\<lambda>p. (tag_of (CHR ''c''), ''1.2.1'')), ln_accepts = (\<lambda>_ _. Inr ()),
      ln_accepts_rollback = (\<lambda>_ _ _. Inr ()), ln_intent = (\<lambda>_ _. Inr (Role_web, 0)),
      ln_evidence_ok = (\<lambda>_ _. Inr ())\<rparr>"

definition example_deployment :: "(unit, nat, nat, nat) deployment" where
  "example_deployment =
     \<lparr>dp_id = uuid_of (CHR ''d''), dp_remote = True, dp_image = Some (tag_of (CHR ''a'')), dp_version = Some ''1.0.0'',
      dp_fence = 0, dp_lease = None, dp_token = None, dp_owner = None, dp_expected = None, dp_incoming = None,
      dp_incomingVersion = None, dp_phase = None, dp_acquired = None, dp_heartbeat = None, dp_expires = None,
      dp_rollback = None, dp_evidence = None, dp_error = None, dp_releaseCheck = None, dp_healthCheck = None,
      dp_healthStatus = None, dp_healthError = None, dp_columns = ()\<rparr>"

definition example_tables :: "(unit, nat, nat, nat) lease_db" where
  "example_tables = \<lparr>rd_rows = [example_deployment], rd_events = []\<rparr>"

definition example_acquire :: acquire_params where
  "example_acquire =
     \<lparr>aq_deployment = uuid_of (CHR ''d''), aq_expected = tag_of (CHR ''a''), aq_incoming = tag_of (CHR ''b''),
      aq_version = ''1.1.0'', aq_owner = ''runner-1'', aq_digest = None\<rparr>"

definition example_handle :: lease_handle where
  "example_handle =
     \<lparr>lh_deployment = uuid_of (CHR ''d''), lh_lease = uuid_of (CHR ''1''), lh_capability = ''1'', lh_fence = 1\<rparr>"

definition example_steps :: "((unit, nat, nat, nat) lease_env \<times> nat lease_op) list" where
  "example_steps =
     [(example_env 1000 (CHR ''1''), Acquire example_acquire),
      (example_env 2000 (CHR ''0''), Record_rollback example_handle 7),
      (example_env 3000 (CHR ''0''), Begin_mutation example_handle)]"

definition example_finish :: "((unit, nat, nat, nat) lease_env \<times> nat lease_op) list" where
  "example_finish = [(example_env 4000 (CHR ''0''), Succeed example_handle)]"

lemma example_tables_wf: "lease_db_wf example_tables"
  by code_simp

lemma example_mutating:
  "map_option (\<lambda>r. (dp_phase r, dp_fence r)) (find_deployment (uuid_of (CHR ''d'')) (lease_history example_steps example_tables))
     = Some (Some MUTATING, 1)"
  by code_simp

lemma example_finished:
  "map_option (\<lambda>r. (dp_image r, dp_phase r))
       (find_deployment (uuid_of (CHR ''d'')) (lease_history (example_steps @ example_finish) example_tables))
     = Some (Some (tag_of (CHR ''b'')), None)"
  by code_simp

text \<open>
  C17: Release leases, invariant: whatever operations are attempted, in whatever order and
  environment, every deployment row keeps satisfying the table's constraints and the lease's own
  invariant (baseline image unchanged while leased, expiry five minutes after the heartbeat, a
  rollback record of this very lease whenever it mutates or recovers, the fence in range), and no two
  deployments share a lease.
\<close>

theorem lease_tables_stay_consistent:
  assumes "lease_db_wf db"
  shows "lease_db_wf (lease_history ss db)"
  using assms by (rule lease_history_wf)

theorem lease_tables_stay_consistent_witness:
  "lease_db_wf (lease_history (example_steps @ example_finish) example_tables) \<and>
   map_option dp_image (find_deployment (uuid_of (CHR ''d'')) (lease_history (example_steps @ example_finish) example_tables))
     = Some (Some (tag_of (CHR ''b'')))"
  using lease_tables_stay_consistent[OF example_tables_wf, of "example_steps @ example_finish"]
    example_finished by auto

text \<open>
  C18: Release leases, fencing: once the fence of a deployment has passed a handle, or the handle's
  lease has ended, no operation with that handle ever succeeds again, whatever else is attempted in
  between and whatever the capabilities hash to.
\<close>

theorem spent_handle_is_refused_forever:
  assumes "find_deployment (lh_deployment h) db = Some r" "spent h r" "op_handle op = Some h"
  shows "\<exists>e. lease_run env op (lease_history ss db) = Inl e"
  using spent_stays[OF assms(1,2), of ss] spent_run_fails[OF _ _ assms(3)] by blast

theorem spent_handle_is_refused_forever_witness:
  "\<exists>e. lease_run (example_env 9000 (CHR ''0'')) (Begin_mutation example_handle)
     (lease_history [(example_env 8000 (CHR ''2''), Acquire (example_acquire\<lparr>aq_expected := tag_of (CHR ''b''), aq_incoming := tag_of (CHR ''a'')\<rparr>))]
       (lease_history (example_steps @ example_finish) example_tables)) = Inl e"
proof -
  let ?db = "lease_history (example_steps @ example_finish) example_tables"
  have "map_option (\<lambda>r. (dp_fence r, dp_lease r)) (find_deployment (lh_deployment example_handle) ?db) = Some (1, None)"
    by code_simp
  then obtain r where r: "find_deployment (lh_deployment example_handle) ?db = Some r" "dp_fence r = 1" "dp_lease r = None"
    by auto
  then have "spent example_handle r" by (simp add: spent_def example_handle_def)
  then show ?thesis by (rule spent_handle_is_refused_forever[OF r(1)]) simp
qed

text \<open>
  C19: Release leases, the fate of a mutation: when an operation changes the row of a deployment whose
  lease is mutating or recovering, then either the holder keeps the lease in that state with its
  baseline and rollback record, before expiry by any of its operations and after it only by marking
  the deployment as needing recovery (which renews the lease); or the holder, before expiry, ends it as
  a success that releases the incoming image, as a compatible recovery, or as a rollback that changes
  nothing; or, after expiry, a recovery claim takes it over under the next fence with the rollback
  record kept.
\<close>

theorem mutation_ends_by_holder_or_claim:
  assumes "lease_db_wf db" "find_deployment i db = Some r" "in_mutation r" "lease_run env op db = Inr db'"
  shows "\<exists>r'. find_deployment i db' = Some r' \<and>
    (r' = r \<or>
     (\<exists>h. op_handle op = Some h \<and> holds env h r) \<and>
      ((unexpired (ln_now env) r
          \<or> (\<exists>h stage code. op = Mark_recovery h stage code) \<and> dp_phase r' = Some RECOVERY_REQUIRED) \<and>
         in_mutation r' \<and> dp_lease r' = dp_lease r \<and> dp_fence r' = dp_fence r \<and> dp_image r' = dp_image r \<and>
         dp_rollback r' = dp_rollback r \<and> dp_incoming r' = dp_incoming r
       \<or> unexpired (ln_now env) r \<and> dp_lease r' = None \<and> dp_phase r' = None \<and>
         ((\<exists>h. op = Succeed h) \<and> dp_image r' = dp_incoming r \<or>
          (\<exists>h v d q. op = Recover_compatible h v \<and> dp_rollback r = Some d \<and>
             ln_canonical env (re_payload d) = Inr q \<and> dp_image r' = Some (fst (ln_recovery env q))) \<or>
          (\<exists>h v. op = Roll_back h v) \<and> dp_image r' = dp_image r \<and> dp_version r' = dp_version r))
     \<or> (\<exists>p. op = Claim_recovery p) \<and> \<not> unexpired (ln_now env) r \<and> dp_phase r' = Some RECOVERY_REQUIRED \<and>
       dp_fence r' = dp_fence r + 1 \<and> dp_image r' = dp_image r \<and> dp_incoming r' = dp_incoming r \<and>
       (\<exists>d e. dp_rollback r = Some d \<and> dp_rollback r' = Some e \<and>
          ln_canonical env (re_payload d) = Inr (re_payload e) \<and> re_provenance e = re_provenance d))"
proof -
  have db': "lease_attempt (env, op) db = db'" using assms(4) by (simp add: lease_attempt_def)
  have wf: "lease_wf r"
    using assms(1) find_deployment_SomeD[OF assms(2)] by (auto simp: lease_db_wf_def list_all_iff)
  show ?thesis
    using lease_attempt_row[OF assms(2), of env op]
  proof cases
    case 1
    then show ?thesis using db' by auto
  next
    case (2 r')
    then show ?thesis using mutation_move[OF 2(2) assms(3) wf] db' by blast
  qed
qed

theorem mutation_ends_by_holder_or_claim_witness:
  "\<exists>r r' db'. find_deployment (uuid_of (CHR ''d'')) (lease_history example_steps example_tables) = Some r \<and>
     lease_run (example_env 4000 (CHR ''0'')) (Succeed example_handle) (lease_history example_steps example_tables) = Inr db' \<and>
     find_deployment (uuid_of (CHR ''d'')) db' = Some r' \<and> dp_phase r' = None \<and> dp_image r' = dp_incoming r"
proof -
  let ?db = "lease_history example_steps example_tables"
  let ?run = "lease_run (example_env 4000 (CHR ''0'')) (Succeed example_handle) ?db"
  obtain r where r: "find_deployment (uuid_of (CHR ''d'')) ?db = Some r" "dp_phase r = Some MUTATING"
    using example_mutating by auto
  have "map_option (map_option dp_phase \<circ> find_deployment (uuid_of (CHR ''d''))) (case ?run of Inl _ \<Rightarrow> None | Inr d \<Rightarrow> Some d)
      = Some (Some None)"
    by code_simp
  then obtain db' q where d: "?run = Inr db'" "find_deployment (uuid_of (CHR ''d'')) db' = Some q" "dp_phase q = None"
    by (auto split: sum.splits)
  have wf: "lease_db_wf ?db" using lease_history_wf[OF example_tables_wf] .
  show ?thesis
    using mutation_ends_by_holder_or_claim[OF wf r(1) _ d(1)] r d by (auto simp: in_mutation_def)
qed

end
