(* ===== verification/Module_Grants.thy ===== *)
theory Module_Grants
  imports Workspace_Auth Circles Module_Registry
begin

text \<open>
  Module access as the domain layer gathers and changes it: the whole of
  \<^verbatim>\<open>packages/domain/src/module-access.ts\<close>.  The context of a member is read from the flag, grant,
  role assignment and circle tables and handed to the resolver of \<open>Module_Access\<close>; grants are set and
  removed by admins, and members request access that an admin decides on.  Membership is checked by
  \<open>requireWorkspaceMembership\<close> of \<open>Workspace_Auth\<close>; the parents of circles come from the circle table.

  Typed values replace the run-time checks of principal types and access levels.  An operation is one
  step; ids and the clock come from the configuration.
\<close>

section \<open>The tables\<close>

record flag_row =
  wf_id :: string
  wf_workspace :: string
  wf_flag :: string
  wf_enabled :: bool
  wf_config :: "json option"
  wf_updatedAt :: int

record grant_row =
  mg_id :: string
  mg_workspace :: string
  mg_grant :: module_grant
  mg_createdBy :: "string option"

datatype request_status = REQ_PENDING | REQ_APPROVED | REQ_REJECTED

record request_row =
  mq_id :: string
  mq_workspace :: string
  mq_module :: string
  mq_access :: access_level
  mq_requester :: string
  mq_reason :: string
  mq_status :: request_status
  mq_note :: "string option"
  mq_decidedBy :: "string option"
  mq_decidedAt :: "int option"
  mq_createdAt :: int

record held_role =
  ma_member :: string
  ma_role :: string
  ma_circle :: string
  ma_expiresAt :: "int option"

record 'l module_db =
  gd_auth :: "'l auth_db"
  gd_flags :: "flag_row list"
  gd_grants :: "grant_row list"
  gd_requests :: "request_row list"
  gd_roles :: "held_role list"
  gd_circles :: "circle list"

section \<open>Gathering a context\<close>

definition flags_over :: "flag_row list \<Rightarrow> (string \<times> bool) list \<Rightarrow> (string \<times> bool) list" where
  "flags_over rows defaults = fold (\<lambda>r fs. AList.update (wf_flag r) (wf_enabled r) fs) rows defaults"

definition getWorkspaceModuleFlags :: "string \<Rightarrow> flag_row list \<Rightarrow> (string \<times> bool) list result" where
  "getWorkspaceModuleFlags w rows =
     and_then defaultWorkspaceFeatureFlags (\<lambda>defaults.
     Inr (flags_over (filter (\<lambda>r. wf_workspace r = w) rows) defaults))"

definition add_once :: "'a \<Rightarrow> 'a list \<Rightarrow> 'a list" where
  "add_once x xs = (if x \<in> set xs then xs else xs @ [x])"

text \<open>
  One walk from a circle to the root.  \<open>parents\<close> is the map the code builds, as its entries; an
  empty id ends the walk as \<^verbatim>\<open>null\<close> does.
\<close>

function climb_circles ::
    "(string \<times> string option) list \<Rightarrow> string list \<Rightarrow> string list \<Rightarrow> string option \<Rightarrow> string list" where
  "climb_circles parents visited acc None = acc"
| "climb_circles parents visited acc (Some c) =
     (if c = [] \<or> c \<in> set visited then acc
      else climb_circles parents (c # visited) (add_once c acc)
             (case map_of (rev parents) c of None \<Rightarrow> None | Some p \<Rightarrow> p))"
  by pat_completeness auto

termination climb_circles
proof (relation "measure (\<lambda>(parents, visited, acc, c).
    card (fst ` set parents - set visited) + (if c = None then 0 else 1))")
  show "wf (measure (\<lambda>(parents :: (string \<times> string option) list, visited, acc :: string list, c :: string option).
    card (fst ` set parents - set visited) + (if c = None then 0 else 1)))" by simp
next
  fix parents :: "(string \<times> string option) list" and visited acc :: "string list" and c :: string
  assume "\<not> (c = [] \<or> c \<in> set visited)"
  then have c: "c \<notin> set visited" by blast
  show "((parents, c # visited, add_once c acc, case map_of (rev parents) c of None \<Rightarrow> None | Some p \<Rightarrow> p),
      (parents, visited, acc, Some c))
    \<in> measure (\<lambda>(parents, visited, acc, c). card (fst ` set parents - set visited) + (if c = None then 0 else 1))"
  proof (cases "c \<in> fst ` set parents")
    case True
    then have "card (fst ` set parents - set (c # visited)) < card (fst ` set parents - set visited)"
      using c by (intro psubset_card_mono) auto
    then show ?thesis by simp
  next
    case False
    then have "map_of (rev parents) c = None" by (simp add: map_of_eq_None_iff)
    moreover have "fst ` set parents - set (c # visited) = fst ` set parents - set visited" using False by auto
    ultimately show ?thesis by simp
  qed
qed

definition expandCircleAncestors :: "string list \<Rightarrow> (string \<times> string option) list \<Rightarrow> string list" where
  "expandCircleAncestors base parents = fold (\<lambda>start acc. climb_circles parents [] acc (Some start)) base []"

definition activeRoleAssignmentWhere :: "int \<Rightarrow> held_role \<Rightarrow> bool" where
  "activeRoleAssignmentWhere now a \<longleftrightarrow> (case ma_expiresAt a of None \<Rightarrow> True | Some t \<Rightarrow> t > now)"

definition gatherModuleAccessContext ::
    "int \<Rightarrow> string \<Rightarrow> string option \<Rightarrow> member_role option \<Rightarrow> 'l module_db \<Rightarrow> access_context result" where
  "gatherModuleAccessContext now w member role db =
     and_then (getWorkspaceModuleFlags w (gd_flags db)) (\<lambda>flags.
     (let assignments = (if truthy_str member
                         then filter (\<lambda>a. Some (ma_member a) = member \<and> activeRoleAssignmentWhere now a) (gd_roles db)
                         else []);
          parents = map (\<lambda>c. (ci_id c, ci_parent c)) (filter (\<lambda>c. ci_workspace c = w) (gd_circles db)) in
     Inr \<lparr>ctx_role = role, ctx_member = member, ctx_governance_roles = map ma_role assignments,
          ctx_circles = expandCircleAncestors (map ma_circle assignments) parents, ctx_flags = flags,
          ctx_grants = map mg_grant (filter (\<lambda>g. mg_workspace g = w) (gd_grants db))\<rparr>))"

definition resolveWorkspaceModuleAccess ::
    "int \<Rightarrow> string \<Rightarrow> string option \<Rightarrow> member_role option \<Rightarrow> 'l module_db \<Rightarrow> (string \<times> access_level) list result" where
  "resolveWorkspaceModuleAccess now w member role db =
     and_then (gatherModuleAccessContext now w member role db) (\<lambda>ctx.
     Inr (resolveAllModuleAccess ctx getModuleManifests))"

definition resolveSingleModuleAccess ::
    "int \<Rightarrow> string \<Rightarrow> string option \<Rightarrow> member_role option \<Rightarrow> module_manifest \<Rightarrow> 'l module_db
     \<Rightarrow> access_level result" where
  "resolveSingleModuleAccess now w member role m db =
     and_then (gatherModuleAccessContext now w member role db) (\<lambda>ctx. Inr (resolveModuleAccess ctx m))"

section \<open>Grants\<close>

definition listWorkspaceModuleGrants ::
    "auth_config \<Rightarrow> auth_actor \<Rightarrow> string \<Rightarrow> support_store \<Rightarrow> 'l module_db \<Rightarrow> grant_row list result" where
  "listWorkspaceModuleGrants cfg actor w st db =
     and_then (requireWorkspaceMembership cfg actor w (Some [ADMIN]) None st (gd_auth db)) (\<lambda>_.
     Inr (filter (\<lambda>g. mg_workspace g = w) (gd_grants db)))"

definition same_principal :: "string \<Rightarrow> module_grant \<Rightarrow> grant_row \<Rightarrow> bool" where
  "same_principal w g r \<longleftrightarrow>
     mg_workspace r = w \<and> grant_module (mg_grant r) = grant_module g \<and>
     grant_principal_type (mg_grant r) = grant_principal_type g \<and>
     grant_principal_id (mg_grant r) = grant_principal_id g"

definition upsert_module_grant ::
    "string \<Rightarrow> string \<Rightarrow> module_grant \<Rightarrow> string option \<Rightarrow> grant_row list \<Rightarrow> grant_row list" where
  "upsert_module_grant new_id w g createdBy rows =
     (if list_ex (same_principal w g) rows
      then map (\<lambda>r. if same_principal w g r then r\<lparr>mg_grant := (mg_grant r)\<lparr>grant_level := grant_level g\<rparr>\<rparr> else r) rows
      else rows @ [\<lparr>mg_id = new_id, mg_workspace = w, mg_grant = g, mg_createdBy = createdBy\<rparr>])"

definition actor_user_id :: "auth_actor \<Rightarrow> string option" where
  "actor_user_id actor = (case actor of Auth_user u \<Rightarrow> Some (hu_id u) | Auth_agent _ \<Rightarrow> None)"

definition setWorkspaceModuleGrant ::
    "auth_config \<Rightarrow> auth_actor \<Rightarrow> string \<Rightarrow> module_grant \<Rightarrow> support_store \<Rightarrow> 'l module_db \<Rightarrow> 'l module_db result" where
  "setWorkspaceModuleGrant cfg actor w g0 st db =
     and_then (requireWorkspaceMembership cfg actor w (Some [ADMIN]) None st (gd_auth db)) (\<lambda>_.
     (let g = g0\<lparr>grant_module := js_trim (grant_module g0), grant_principal_id := js_trim (grant_principal_id g0)\<rparr> in
     and_then (invariant (grant_module g \<noteq> []) 400 ''INVALID_INPUT'' ''moduleKey is required.'') (\<lambda>_.
     and_then (invariant (list_ex (\<lambda>m. mm_key m = grant_module g) getModuleManifests) 404 ''NOT_FOUND'' ''Unknown module.'') (\<lambda>_.
     and_then (invariant (grant_principal_id g \<noteq> []) 400 ''INVALID_INPUT'' ''principalId is required.'') (\<lambda>_.
     Inr (db\<lparr>gd_grants := upsert_module_grant (ac_new_id cfg ''grant'') w g (actor_user_id actor) (gd_grants db)\<rparr>))))))"

definition deleteWorkspaceModuleGrant ::
    "auth_config \<Rightarrow> auth_actor \<Rightarrow> string \<Rightarrow> string \<Rightarrow> support_store \<Rightarrow> 'l module_db \<Rightarrow> 'l module_db result" where
  "deleteWorkspaceModuleGrant cfg actor w gid st db =
     and_then (requireWorkspaceMembership cfg actor w (Some [ADMIN]) None st (gd_auth db)) (\<lambda>_.
     and_then (invariant (list_ex (\<lambda>g. mg_id g = gid \<and> mg_workspace g = w) (gd_grants db)) 404 ''NOT_FOUND''
       ''Module grant not found.'') (\<lambda>_.
     Inr (db\<lparr>gd_grants := filter (\<lambda>g. mg_id g \<noteq> gid) (gd_grants db)\<rparr>)))"

section \<open>Requests\<close>

definition createModuleAccessRequest ::
    "auth_config \<Rightarrow> auth_actor \<Rightarrow> string \<Rightarrow> string \<Rightarrow> access_level \<Rightarrow> string \<Rightarrow> support_store \<Rightarrow> 'l module_db
     \<Rightarrow> 'l module_db result" where
  "createModuleAccessRequest cfg actor w key level reason st db =
     and_then (requireWorkspaceMembership cfg actor w None None st (gd_auth db)) (\<lambda>_.
     (case actor of
        Auth_agent _ \<Rightarrow> Inl (AppError 403 ''FORBIDDEN'' ''Only signed-in members can request module access.'')
      | Auth_user u \<Rightarrow>
          and_then (invariant (js_trim key \<noteq> [] \<and> getModuleByKey (js_trim key) \<noteq> None) 404 ''NOT_FOUND'' ''Unknown module.'') (\<lambda>_.
          and_then (invariant (level \<noteq> Access_none) 400 ''INVALID_INPUT'' ''Requested access must be read or write.'') (\<lambda>_.
          and_then (invariant (js_trim reason \<noteq> []) 400 ''INVALID_INPUT'' ''A reason is required.'') (\<lambda>_.
          Inr (db\<lparr>gd_requests := gd_requests db @
            [\<lparr>mq_id = ac_new_id cfg ''request'', mq_workspace = w, mq_module = js_trim key, mq_access = level,
              mq_requester = hu_id u, mq_reason = js_trim reason, mq_status = REQ_PENDING, mq_note = None,
              mq_decidedBy = None, mq_decidedAt = None, mq_createdAt = ac_now cfg\<rparr>]\<rparr>))))))"

definition listModuleAccessRequests ::
    "auth_config \<Rightarrow> auth_actor \<Rightarrow> string \<Rightarrow> request_status option \<Rightarrow> support_store \<Rightarrow> 'l module_db
     \<Rightarrow> request_row list result" where
  "listModuleAccessRequests cfg actor w status st db =
     and_then (requireWorkspaceMembership cfg actor w None None st (gd_auth db)) (\<lambda>(m, _).
     (let admin = (case m of None \<Rightarrow> False | Some b \<Rightarrow> mb_role b = ADMIN);
          uid = (case actor_user_id actor of None \<Rightarrow> [] | Some u \<Rightarrow> u) in
     Inr (take 100 (rev (sort_key mq_createdAt
       (filter (\<lambda>q. mq_workspace q = w \<and> (case status of None \<Rightarrow> True | Some s \<Rightarrow> mq_status q = s) \<and>
                   (admin \<or> mq_requester q = uid)) (gd_requests db)))))))"

definition find_request :: "string \<Rightarrow> string \<Rightarrow> request_row list \<Rightarrow> request_row option" where
  "find_request w i qs = find (\<lambda>q. mq_id q = i \<and> mq_workspace q = w) qs"

definition grant_of_request :: "request_row \<Rightarrow> string \<Rightarrow> module_grant" where
  "grant_of_request q member =
     \<lparr>grant_module = mq_module q, grant_principal_type = P_MEMBER, grant_principal_id = member,
      grant_level = mq_access q\<rparr>"

definition decideModuleAccessRequest ::
    "auth_config \<Rightarrow> auth_actor \<Rightarrow> string \<Rightarrow> string \<Rightarrow> bool \<Rightarrow> string option \<Rightarrow> support_store \<Rightarrow> 'l module_db
     \<Rightarrow> 'l module_db result" where
  "decideModuleAccessRequest cfg actor w rid approve note st db =
     and_then (requireWorkspaceMembership cfg actor w (Some [ADMIN]) None st (gd_auth db)) (\<lambda>_.
     (case find_request w rid (gd_requests db) of
        None \<Rightarrow> Inl (AppError 404 ''NOT_FOUND'' ''Module access request not found.'')
      | Some q \<Rightarrow>
          and_then (invariant (mq_status q = REQ_PENDING) 400 ''INVALID_STATE'' ''Request has already been decided.'') (\<lambda>_.
          and_then
            (if approve then
               (case find (\<lambda>m. am_workspace m = w \<and> am_user m = mq_requester q \<and> am_active m) (tb_members (gd_auth db)) of
                  None \<Rightarrow> Inl (AppError 404 ''NOT_FOUND'' ''Requester is no longer an active member.'')
                | Some m \<Rightarrow>
                    Inr (upsert_module_grant (ac_new_id cfg ''grant'') w (grant_of_request q (am_id m))
                           (actor_user_id actor) (gd_grants db)))
             else Inr (gd_grants db)) (\<lambda>grants.
          Inr (db\<lparr>gd_grants := grants,
            gd_requests := map (\<lambda>x. if mq_id x = mq_id q
              then x\<lparr>mq_status := (if approve then REQ_APPROVED else REQ_REJECTED),
                     mq_decidedBy := actor_user_id actor, mq_decidedAt := Some (ac_now cfg),
                     mq_note := trimmed_or_none note\<rparr>
              else x) (gd_requests db)\<rparr>)))))"

end
