(* ===== verification/Module_Grant_Facts.thy ===== *)
theory Module_Grant_Facts
  imports Module_Grants
begin

text \<open>
  What the domain layer adds to the module resolver: the circle cascade of a member is the
  reflexive transitive closure of the parent relation, cycles included, and an approved request
  changes the access of its requester to its module only.
\<close>

section \<open>The circle cascade\<close>

definition parent_links :: "(string \<times> string option) list \<Rightarrow> (string \<times> string) set" where
  "parent_links ps = {(c, p). c \<noteq> [] \<and> p \<noteq> [] \<and> map_of (rev ps) c = Some (Some p)}"

definition climbed :: "(string \<times> string option) list \<Rightarrow> string option \<Rightarrow> string set" where
  "climbed ps cur = (case cur of None \<Rightarrow> {} | Some c \<Rightarrow> if c = [] then {} else (parent_links ps)\<^sup>* `` {c})"

lemma set_add_once [simp]: "set (add_once x xs) = insert x (set xs)"
  by (auto simp: add_once_def)

lemma distinct_add_once [simp]: "distinct (add_once x xs) = distinct xs"
  by (auto simp: add_once_def)

text \<open>Nothing new lies above a set of circles that is closed under parents.\<close>

lemma closed_contains_reach:
  assumes "(c, x) \<in> R\<^sup>*" "c \<in> V" "\<forall>v\<in>V. \<forall>p. (v, p) \<in> R \<longrightarrow> p \<in> V"
  shows "x \<in> V"
  using assms(1,2) by (induction rule: rtrancl_induct) (use assms(3) in auto)

lemma climbed_step:
  assumes "c \<noteq> []"
  shows "climbed ps (Some c) = insert c (climbed ps (case map_of (rev ps) c of None \<Rightarrow> None | Some p \<Rightarrow> p))"
proof -
  have "(parent_links ps)\<^sup>* `` {c} = insert c ((parent_links ps)\<^sup>* `` (parent_links ps `` {c}))"
    by (auto intro: converse_rtrancl_into_rtrancl elim: converse_rtranclE)
  moreover have "parent_links ps `` {c} =
      (case map_of (rev ps) c of Some (Some p) \<Rightarrow> if p = [] then {} else {p} | _ \<Rightarrow> {})"
    using assms by (auto simp: parent_links_def split: option.splits)
  ultimately show ?thesis
    using assms by (auto simp: climbed_def split: option.splits if_splits)
qed

lemma climb_circles_set:
  assumes "set visited \<subseteq> set acc"
    and "\<forall>v\<in>set visited. \<forall>p. (v, p) \<in> parent_links ps \<longrightarrow> p \<in> set visited \<or> cur = Some p"
  shows "set (climb_circles ps visited acc cur) = set acc \<union> climbed ps cur"
  using assms
proof (induction ps visited acc cur rule: climb_circles.induct)
  case (2 ps visited acc c)
  show ?case
  proof (cases "c = [] \<or> c \<in> set visited")
    case True
    have "climbed ps (Some c) \<subseteq> set visited" if c: "c \<in> set visited"
    proof -
      have "\<forall>v\<in>set visited. \<forall>p. (v, p) \<in> parent_links ps \<longrightarrow> p \<in> set visited" using 2(3) c by auto
      then have "(parent_links ps)\<^sup>* `` {c} \<subseteq> set visited" using closed_contains_reach[OF _ c] by blast
      then show ?thesis by (simp add: climbed_def)
    qed
    moreover have "climbed ps (Some []) = {}" by (simp add: climbed_def)
    ultimately have "climbed ps (Some c) \<subseteq> set acc" using True 2(2) by blast
    then show ?thesis using True by auto
  next
    case False
    let ?next = "case map_of (rev ps) c of None \<Rightarrow> None | Some p \<Rightarrow> p"
    have "\<forall>v\<in>set (c # visited). \<forall>p. (v, p) \<in> parent_links ps \<longrightarrow> p \<in> set (c # visited) \<or> ?next = Some p"
      using 2(3) by (auto simp: parent_links_def)
    then have "set (climb_circles ps (c # visited) (add_once c acc) ?next) = set (add_once c acc) \<union> climbed ps ?next"
      using 2(1)[OF False] 2(2) by auto
    then show ?thesis using False climbed_step[of c ps] by auto
  qed
qed (simp add: climbed_def)

lemma climb_circles_distinct:
  "distinct acc \<Longrightarrow> distinct (climb_circles ps visited acc cur)"
  by (induction ps visited acc cur rule: climb_circles.induct) auto

lemma expand_fold:
  "set (fold (\<lambda>start acc. climb_circles ps [] acc (Some start)) base acc) =
     set acc \<union> (\<Union>b\<in>set base. climbed ps (Some b))"
  by (induction base arbitrary: acc) (auto simp: climb_circles_set simp del: climb_circles.simps)

lemma expand_distinct:
  "distinct acc \<Longrightarrow> distinct (fold (\<lambda>start acc. climb_circles ps [] acc (Some start)) base acc)"
  by (induction base arbitrary: acc) (simp_all add: climb_circles_distinct del: climb_circles.simps)

section \<open>Grants and the resolver\<close>

lemma org_level_grants [simp]:
  "org_level (ctx\<lparr>ctx_grants := gs\<rparr>) m = org_level ctx m"
  by (simp add: org_level_def)

lemma grant_selected_grants [simp]:
  "grant_selected (ctx\<lparr>ctx_grants := gs\<rparr>) m g = grant_selected ctx m g"
  by (simp add: grant_selected_def grantMatchesContext.simps cong: grant_principal.case_cong)

lemma resolve_same_selected:
  assumes "{g \<in> set gs. grant_selected ctx m g} = {g \<in> set hs. grant_selected ctx m g}"
  shows "resolveModuleAccess (ctx\<lparr>ctx_grants := gs\<rparr>) m = resolveModuleAccess (ctx\<lparr>ctx_grants := hs\<rparr>) m"
proof -
  have "resolveModuleAccess (ctx\<lparr>ctx_grants := gs\<rparr>) m \<le> c \<longleftrightarrow> resolveModuleAccess (ctx\<lparr>ctx_grants := hs\<rparr>) m \<le> c" for c
    unfolding resolve_le_iff using assms by auto
  then show ?thesis by (meson order_antisym order_refl)
qed

lemma gather_grants:
  "gatherModuleAccessContext now w member role (db\<lparr>gd_grants := gs, gd_requests := qs\<rparr>) =
     and_then (gatherModuleAccessContext now w member role db) (\<lambda>ctx.
       Inr (ctx\<lparr>ctx_grants := map mg_grant (filter (\<lambda>g. mg_workspace g = w) gs)\<rparr>))"
  by (cases "getWorkspaceModuleFlags w (gd_flags db)") (simp_all add: gatherModuleAccessContext_def Let_def)

lemma gathered_grants:
  assumes "gatherModuleAccessContext now w member role db = Inr ctx"
  shows "ctx_grants ctx = map mg_grant (filter (\<lambda>g. mg_workspace g = w) (gd_grants db)) \<and> ctx_member ctx = member"
  using assms by (auto simp: gatherModuleAccessContext_def result_simps Let_def)

text \<open>The rows other than the written one are as before, and the written one is there.\<close>

lemma upsert_module_grant_mem:
  "\<exists>r\<in>set (upsert_module_grant i w g cb rows). same_principal w g r \<and> mg_grant r = g"
proof (cases "list_ex (same_principal w g) rows")
  case True
  then obtain r where r: "r \<in> set rows" "same_principal w g r" by (auto simp: list_ex_iff)
  then show ?thesis
    using True
    by (intro bexI[of _ "r\<lparr>mg_grant := (mg_grant r)\<lparr>grant_level := grant_level g\<rparr>\<rparr>"])
      (auto simp: upsert_module_grant_def same_principal_def intro!: image_eqI[of _ _ r])
next
  case False
  then show ?thesis by (auto simp: upsert_module_grant_def same_principal_def)
qed

lemma upsert_module_grant_other:
  assumes "\<not> same_principal w g r"
  shows "r \<in> set (upsert_module_grant i w g cb rows) \<longleftrightarrow> r \<in> set rows"
  using assms unfolding upsert_module_grant_def
  by (auto simp: same_principal_def split: if_splits)

section \<open>Properties\<close>

text \<open>
  Module access, the circle cascade: the circles of a member are, without duplicates, exactly
  the circles of the member's roles and everything above them, also when parents form a cycle.
\<close>

lemma circle_cascade_is_closure:
  "distinct (expandCircleAncestors base ps) \<and>
   set (expandCircleAncestors base ps) =
     {x. \<exists>b\<in>set base. b \<noteq> [] \<and> (b, x) \<in> {(c, p). c \<noteq> [] \<and> p \<noteq> [] \<and> map_of (rev ps) c = Some (Some p)}\<^sup>*}"
  unfolding expandCircleAncestors_def expand_fold
  by (auto simp: expand_distinct climbed_def parent_links_def split: if_splits simp del: climb_circles.simps)

text \<open>The access of a member to a module after a grant was written.\<close>

lemma written_grant_level:
  assumes "resolveSingleModuleAccess now w (Some mid) role m
      (db\<lparr>gd_grants := upsert_module_grant i w g cb (gd_grants db), gd_requests := qs\<rparr>) = Inr l"
    "grant_module g = mm_key m" "grant_principal_type g = P_MEMBER" "grant_principal_id g = mid"
  shows "grant_level g \<le> l"
proof -
  obtain ctx where ctx: "gatherModuleAccessContext now w (Some mid) role db = Inr ctx"
      "l = resolveModuleAccess (ctx\<lparr>ctx_grants := map mg_grant (filter (\<lambda>r. mg_workspace r = w)
             (upsert_module_grant i w g cb (gd_grants db)))\<rparr>) m"
    using assms(1) unfolding resolveSingleModuleAccess_def gather_grants by (auto simp: result_simps)
  obtain r where r: "r \<in> set (upsert_module_grant i w g cb (gd_grants db))" "same_principal w g r" "mg_grant r = g"
    using upsert_module_grant_mem by blast
  have "grant_selected ctx m g"
    using assms(2-4) gathered_grants[OF ctx(1)] by (simp add: grant_selected_def grantMatchesContext.simps)
  moreover have "g \<in> set (map mg_grant (filter (\<lambda>r. mg_workspace r = w) (upsert_module_grant i w g cb (gd_grants db))))"
    using r by (force simp: same_principal_def)
  ultimately show ?thesis
    using resolve_le_iff[of "ctx\<lparr>ctx_grants := map mg_grant (filter (\<lambda>r. mg_workspace r = w)
             (upsert_module_grant i w g cb (gd_grants db)))\<rparr>" m l] ctx(2) by auto
qed

lemma written_grant_elsewhere:
  assumes "grant_principal_type g = P_MEMBER"
    "w' \<noteq> w \<or> mid \<noteq> Some (grant_principal_id g) \<or> mm_key m \<noteq> grant_module g"
  shows "resolveSingleModuleAccess now w' mid role m
      (db\<lparr>gd_grants := upsert_module_grant i w g cb (gd_grants db), gd_requests := qs\<rparr>) =
    resolveSingleModuleAccess now w' mid role m db"
proof (cases "gatherModuleAccessContext now w' mid role db")
  case (Inr ctx)
  let ?G = "\<lambda>rows. map mg_grant (filter (\<lambda>r. mg_workspace r = w') rows)"
  have no: "w' \<noteq> w \<or> \<not> grant_selected ctx m (mg_grant r)" if "same_principal w g r" for r
    using that assms gathered_grants[OF Inr]
    by (auto simp: same_principal_def grant_selected_def grantMatchesContext.simps)
  have "{h \<in> set (?G (upsert_module_grant i w g cb (gd_grants db))). grant_selected ctx m h} =
      {h \<in> set (?G (gd_grants db)). grant_selected ctx m h}"
    using no upsert_module_grant_other[of w g _ i cb "gd_grants db"]
    by (auto simp: image_iff) (metis same_principal_def)+
  then have "resolveModuleAccess (ctx\<lparr>ctx_grants := ?G (upsert_module_grant i w g cb (gd_grants db))\<rparr>) m =
      resolveModuleAccess (ctx\<lparr>ctx_grants := ?G (gd_grants db)\<rparr>) m"
    by (rule resolve_same_selected)
  moreover have "ctx\<lparr>ctx_grants := ?G (gd_grants db)\<rparr> = ctx"
    using gathered_grants[OF Inr] by simp
  ultimately show ?thesis
    unfolding resolveSingleModuleAccess_def gather_grants using Inr by simp
qed (simp add: resolveSingleModuleAccess_def gather_grants)

text \<open>A workspace with an admin and a member, a request of the member and an older write grant.\<close>

definition grant_example_config :: auth_config where
  "grant_example_config =
     \<lparr>ac_scopeSlug = None, ac_lastSeenInterval = 0, ac_sha256 = (\<lambda>s. s), ac_hashPassword = (\<lambda>s. s),
      ac_verifyPassword = (\<lambda>a b. a = b), ac_token = ''t'', ac_new_id = (\<lambda>k. k @ ''-new''), ac_now = 1000,
      ac_mcp = (\<lambda>_. Inr ()), ac_by_name = (\<lambda>xs. xs)\<rparr>"

definition grant_example_admin :: auth_actor where
  "grant_example_admin =
     Auth_user \<lparr>hu_id = ''ua'', hu_email = ''a@x.org'', hu_name = None, xu_globalRole = GR_user, xu_support = False\<rparr>"

definition grant_example_member :: "string \<Rightarrow> string \<Rightarrow> member_role \<Rightarrow> auth_member" where
  "grant_example_member i u r =
     \<lparr>am_id = i, am_workspace = ''w'', am_user = u, am_role = r, am_kind = HUMAN, am_active = True\<rparr>"

definition grant_example :: "grant_row list \<Rightarrow> access_level \<Rightarrow> unit module_db" where
  "grant_example grants level =
     \<lparr>gd_auth = \<lparr>tb_users = [], tb_workspaces = [],
        tb_members = [grant_example_member ''ma'' ''ua'' ADMIN, grant_example_member ''mb'' ''ub'' CONTRIBUTOR],
        tb_grants = [], tb_sessions = [], tb_credentials = [], tb_appSessions = [], tb_mcpTokens = [],
        tb_oauthTokens = [], tb_mcpCodes = [], tb_oauthCodes = [], tb_events = [], tb_audit = [], tb_rest = ()\<rparr>,
      gd_flags = [], gd_grants = grants,
      gd_requests = [\<lparr>mq_id = ''q'', mq_workspace = ''w'', mq_module = ''finance'', mq_access = level,
        mq_requester = ''ub'', mq_reason = ''r'', mq_status = REQ_PENDING, mq_note = None, mq_decidedBy = None,
        mq_decidedAt = None, mq_createdAt = 1\<rparr>],
      gd_roles = [], gd_circles = []\<rparr>"

definition write_grant :: grant_row where
  "write_grant =
     \<lparr>mg_id = ''g'', mg_workspace = ''w'',
      mg_grant = \<lparr>grant_module = ''finance'', grant_principal_type = P_MEMBER, grant_principal_id = ''mb'', grant_level = Access_write\<rparr>,
      mg_createdBy = None\<rparr>"

definition finance_access :: "unit module_db \<Rightarrow> access_level result" where
  "finance_access db =
     (case getModuleByKey ''finance'' of
        None \<Rightarrow> Inl (PlainError ''no module'' None)
      | Some m \<Rightarrow> resolveSingleModuleAccess 1000 ''w'' (Some ''mb'') (Some CONTRIBUTOR) m db)"

text \<open>
  Module access, an approved request takes access away: a member with write access to Finance
  whose request for read access is approved is left with read access, because the approval
  overwrites the level of the member's grant.
\<close>

lemma approval_lowers_existing_grant:
  "finance_access (grant_example [write_grant] Access_read) = Inr Access_write \<and>
   (\<exists>db'. decideModuleAccessRequest grant_example_config grant_example_admin ''w'' ''q'' True None None
        (grant_example [write_grant] Access_read) = Inr db' \<and>
      finance_access db' = Inr Access_read)"
proof
  show "finance_access (grant_example [write_grant] Access_read) = Inr Access_write" by code_simp
  have "(case decideModuleAccessRequest grant_example_config grant_example_admin ''w'' ''q'' True None None
        (grant_example [write_grant] Access_read) of Inl _ \<Rightarrow> False | Inr db' \<Rightarrow> finance_access db' = Inr Access_read)"
    by code_simp
  then show "\<exists>db'. decideModuleAccessRequest grant_example_config grant_example_admin ''w'' ''q'' True None None
        (grant_example [write_grant] Access_read) = Inr db' \<and> finance_access db' = Inr Access_read"
    by (auto split: sum.splits)
qed

text \<open>
  C20: Module access, approvals: an approved request leaves the requester, an active member, with
  at least the requested access to the requested module, and changes no access of anyone else, to any
  other module, or in any other workspace; the feature flags stay as they are
  (no opt-in is switched on, also where the module is off).
\<close>

theorem approval_reaches_requester_only:
  assumes "decideModuleAccessRequest cfg actor w rid True note st db = Inr db'"
    "find_request w rid (gd_requests db) = Some q"
  shows "\<exists>b\<in>set (tb_members (gd_auth db)). am_workspace b = w \<and> am_user b = mq_requester q \<and> am_active b \<and>
    (\<forall>now role m l. mm_key m = mq_module q \<longrightarrow>
       resolveSingleModuleAccess now w (Some (am_id b)) role m db' = Inr l \<longrightarrow> mq_access q \<le> l) \<and>
    (\<forall>now w' mid role m. w' \<noteq> w \<or> mid \<noteq> Some (am_id b) \<or> mm_key m \<noteq> mq_module q \<longrightarrow>
       resolveSingleModuleAccess now w' mid role m db' = resolveSingleModuleAccess now w' mid role m db) \<and>
    gd_flags db' = gd_flags db"
proof -
  let ?find = "find (\<lambda>m. am_workspace m = w \<and> am_user m = mq_requester q \<and> am_active m) (tb_members (gd_auth db))"
  have "?find \<noteq> None"
    using assms unfolding decideModuleAccessRequest_def by (auto simp: result_simps split: if_splits option.splits)
  then obtain b where b: "?find = Some b" by blast
  then obtain qs where db': "db' = db\<lparr>gd_grants := upsert_module_grant (ac_new_id cfg ''grant'') w (grant_of_request q (am_id b))
                           (actor_user_id actor) (gd_grants db), gd_requests := qs\<rparr>"
    using assms unfolding decideModuleAccessRequest_def by (auto simp: result_simps split: if_splits)
  have g: "grant_principal_type (grant_of_request q (am_id b)) = P_MEMBER"
      "grant_principal_id (grant_of_request q (am_id b)) = am_id b"
      "grant_module (grant_of_request q (am_id b)) = mq_module q" "grant_level (grant_of_request q (am_id b)) = mq_access q"
    by (simp_all add: grant_of_request_def)
  have "b \<in> set (tb_members (gd_auth db)) \<and> am_workspace b = w \<and> am_user b = mq_requester q \<and> am_active b"
    using b by (auto simp: find_Some_iff)
  moreover have "mq_access q \<le> l" if "mm_key m = mq_module q"
      "resolveSingleModuleAccess now w (Some (am_id b)) role m db' = Inr l" for now role m l
    using written_grant_level[OF that(2)[unfolded db']] that(1) g by simp
  moreover have "resolveSingleModuleAccess now w' mid role m db' = resolveSingleModuleAccess now w' mid role m db"
    if "w' \<noteq> w \<or> mid \<noteq> Some (am_id b) \<or> mm_key m \<noteq> mq_module q" for now w' mid role m
    unfolding db' by (rule written_grant_elsewhere) (use that g in simp_all)
  moreover have "gd_flags db' = gd_flags db" by (simp add: db')
  ultimately show ?thesis by blast
qed

theorem approval_reaches_requester_only_witness:
  "\<exists>db'. decideModuleAccessRequest grant_example_config grant_example_admin ''w'' ''q'' True None None
        (grant_example [] Access_write) = Inr db' \<and>
     (\<exists>b\<in>set (tb_members (gd_auth (grant_example [] Access_write))). am_user b = ''ub'' \<and> am_active b)"
proof -
  let ?db = "grant_example [] Access_write"
  let ?d = "decideModuleAccessRequest grant_example_config grant_example_admin ''w'' ''q'' True None None ?db"
  have "(case ?d of Inl _ \<Rightarrow> False | Inr _ \<Rightarrow> True)" by code_simp
  then obtain db' where d: "?d = Inr db'" by (auto split: sum.splits)
  have "map_option mq_requester (find_request ''w'' ''q'' (gd_requests ?db)) = Some ''ub''" by code_simp
  then obtain q where q: "find_request ''w'' ''q'' (gd_requests ?db) = Some q" "mq_requester q = ''ub''" by auto
  have "\<exists>b\<in>set (tb_members (gd_auth ?db)). am_user b = mq_requester q \<and> am_active b"
    by (rule bexE[OF approval_reaches_requester_only[OF d q(1)]], elim conjE, rule bexI, intro conjI)
  then show ?thesis using d q(2) by (intro exI[of _ db'] conjI) simp_all
qed

end
