(* ===== verification/OAuth_Server.thy ===== *)
theory OAuth_Server
  imports Support_Access Circles
begin

text \<open>
  The OAuth provider for custom GPTs: the whole of \<^verbatim>\<open>packages/domain/src/oauth-server.ts\<close> with
  \<^verbatim>\<open>oauth-workspace-authorization.ts\<close>, on top of the authentication and support tables.

  An operation captures part of its input before it waits for the workspace lock and reads the rest
  under the lock; \<open>db0\<close> is the state of the first reads and \<open>db\<close> the state under the lock, so that an
  operation may act on an outdated capture.  Tokens, ids, the clock and the hash come from the
  environment.  A refused insertion (a hash that is already in use) is the database's error.
\<close>

section \<open>The tables\<close>

record oauth_app =
  oa_id :: string
  oa_workspace :: string
  oa_clientId :: string
  oa_clientSecret :: string
  oa_name :: string
  oa_redirectUris :: "string list"
  oa_scopes :: "string list"
  oa_active :: bool
  oa_archivedAt :: "int option"
  oa_createdAt :: int

record oauth_code =
  oc_id :: string
  oc_app :: string
  oc_user :: string
  oc_workspace :: string
  oc_code :: string
  oc_redirectUri :: string
  oc_scopes :: "string list"
  oc_expiresAt :: int
  oc_usedAt :: "int option"

record oauth_token =
  ot_id :: string
  ot_app :: string
  ot_user :: string
  ot_workspace :: string
  ot_tokenHash :: string
  ot_refreshHash :: "string option"
  ot_scopes :: "string list"
  ot_expiresAt :: int
  ot_refreshExpiresAt :: "int option"
  ot_revokedAt :: "int option"

record 'l oauth_db =
  od_auth :: "'l auth_db"
  od_apps :: "oauth_app list"
  od_codes :: "oauth_code list"
  od_tokens :: "oauth_token list"

text \<open>Three random tokens are enough for every operation.\<close>

record oauth_env =
  ov_cfg :: auth_config
  ov_random1 :: string
  ov_random2 :: string

definition hash_in :: "oauth_env \<Rightarrow> string \<Rightarrow> string" where
  "hash_in env = ac_sha256 (ov_cfg env)"

definition now_in :: "oauth_env \<Rightarrow> int" where
  "now_in env = ac_now (ov_cfg env)"

definition id_in :: "oauth_env \<Rightarrow> string \<Rightarrow> string" where
  "id_in env = ac_new_id (ov_cfg env)"

definition unique_constraint :: js_error where
  "unique_constraint = PlainError ''Unique constraint failed'' (Some ''P2002'')"

section \<open>Scopes and redirect URIs\<close>

definition DEFAULT_GPT_OAUTH_SCOPES :: "string list" where
  "DEFAULT_GPT_OAUTH_SCOPES = [''chat'', ''read'', ''write'']"

definition uniq :: "'a list \<Rightarrow> 'a list" where
  "uniq xs = fold (\<lambda>x acc. if x \<in> set acc then acc else acc @ [x]) xs []"

definition normalizeScopes :: "string list option \<Rightarrow> string list" where
  "normalizeScopes scopes =
     uniq (filter (\<lambda>s. s \<noteq> []) (map js_trim (case scopes of None \<Rightarrow> [] | Some xs \<Rightarrow> xs)))"

definition normalizeConfiguredScopes :: "string list option \<Rightarrow> string list result" where
  "normalizeConfiguredScopes scopes =
     (let effective = (if normalizeScopes scopes \<noteq> [] then normalizeScopes scopes else DEFAULT_GPT_OAUTH_SCOPES);
          unknown = filter (\<lambda>s. s \<notin> set DEFAULT_GPT_OAUTH_SCOPES) effective in
      and_then (invariant (unknown = []) 400 ''INVALID_INPUT'' (''Unknown OAuth scope(s): '' @ join_with '', '' unknown @ ''.''))
        (\<lambda>_. Inr effective))"

definition normalizeRequestedScopes :: "string list option \<Rightarrow> string list \<Rightarrow> string list result" where
  "normalizeRequestedScopes scopes allowed =
     (let effective = (if normalizeScopes scopes \<noteq> [] then normalizeScopes scopes else allowed);
          forbidden = filter (\<lambda>s. s \<notin> set allowed) effective in
      and_then (invariant (forbidden = []) 400 ''INVALID_INPUT''
          (''Requested scope(s) are not allowed for this OAuth app: '' @ join_with '', '' forbidden @ ''.''))
        (\<lambda>_. Inr effective))"

definition CHATGPT_PLACEHOLDER_REDIRECT_URI :: string where
  "CHATGPT_PLACEHOLDER_REDIRECT_URI = ''https://chatgpt.com/aip/g-PLACEHOLDER/oauth/callback''"

definition gpt_id_char :: "char \<Rightarrow> bool" where
  "gpt_id_char c \<longleftrightarrow>
     c \<in> set ''ABCDEFGHIJKLMNOPQRSTUVWXYZabcdefghijklmnopqrstuvwxyz0123456789_-''"

text \<open>The callback pattern: no character of an id is a slash, so the id is what lies between.\<close>

definition CHATGPT_CALLBACK_PATTERN :: "string \<Rightarrow> bool" where
  "CHATGPT_CALLBACK_PATTERN s \<longleftrightarrow>
     starts_with s ''https://chatgpt.com/aip/g-'' \<and>
     (let rest = drop (length ''https://chatgpt.com/aip/g-'') s; i = takeWhile gpt_id_char rest in
      i \<noteq> [] \<and> drop (length i) rest = ''/oauth/callback'')"

definition isAllowedOAuthRedirectUri :: "string list \<Rightarrow> string \<Rightarrow> bool" where
  "isAllowedOAuthRedirectUri registered uri \<longleftrightarrow>
     uri \<in> set registered \<or>
     CHATGPT_PLACEHOLDER_REDIRECT_URI \<in> set registered \<and> CHATGPT_CALLBACK_PATTERN uri"

section \<open>Apps\<close>

definition createOAuthApp ::
    "oauth_env \<Rightarrow> auth_actor \<Rightarrow> string \<Rightarrow> string \<Rightarrow> string list \<Rightarrow> string list option \<Rightarrow> support_store
     \<Rightarrow> 'l oauth_db \<Rightarrow> ((oauth_app \<times> string) \<times> 'l oauth_db) result" where
  "createOAuthApp env actor w name0 uris0 scopes0 st db =
     and_then (requireWorkspaceMembership (ov_cfg env) actor w (Some [ADMIN]) None st (od_auth db)) (\<lambda>_.
     and_then (invariant (js_trim name0 \<noteq> []) 400 ''INVALID_INPUT'' ''App name is required.'') (\<lambda>_.
     (let uris = filter (\<lambda>u. u \<noteq> []) (map js_trim uris0) in
     and_then (invariant (uris \<noteq> []) 400 ''INVALID_INPUT'' ''At least one redirect URI is required.'') (\<lambda>_.
     and_then (normalizeConfiguredScopes scopes0) (\<lambda>scopes.
     (let client = ''client_'' @ take 24 (ov_random1 env);
          app = \<lparr>oa_id = id_in env ''oauthApp'', oa_workspace = w, oa_clientId = client,
                 oa_clientSecret = hash_in env (ov_random2 env), oa_name = js_trim name0, oa_redirectUris = uris,
                 oa_scopes = scopes, oa_active = True, oa_archivedAt = None, oa_createdAt = now_in env\<rparr> in
      if list_ex (\<lambda>a. oa_clientId a = client \<or> oa_id a = oa_id app) (od_apps db) then Inl unique_constraint
      else Inr ((app, ov_random2 env), db\<lparr>od_apps := od_apps db @ [app]\<rparr>)))))))"

definition listOAuthApps ::
    "oauth_env \<Rightarrow> auth_actor \<Rightarrow> string \<Rightarrow> archive_filter \<Rightarrow> support_store \<Rightarrow> 'l oauth_db \<Rightarrow> oauth_app list result" where
  "listOAuthApps env actor w flt st db =
     and_then (requireWorkspaceMembership (ov_cfg env) actor w (Some [ADMIN]) None st (od_auth db)) (\<lambda>_.
     Inr (rev (sort_key oa_createdAt (filter (\<lambda>a. oa_workspace a = w \<and>
       (case flt of
          Filter_active \<Rightarrow> oa_active a \<and> oa_archivedAt a = None
        | Filter_archived \<Rightarrow> oa_archivedAt a \<noteq> None
        | Filter_all \<Rightarrow> True)) (od_apps db)))))"

definition getOAuthAppByClientId :: "string \<Rightarrow> 'l oauth_db \<Rightarrow> oauth_app result" where
  "getOAuthAppByClientId client db =
     (case find (\<lambda>a. oa_clientId a = client) (od_apps db) of
        None \<Rightarrow> Inl (AppError 404 ''NOT_FOUND'' ''OAuth app not found or inactive.'')
      | Some a \<Rightarrow>
          if \<not> oa_active a \<or> oa_archivedAt a \<noteq> None
          then Inl (AppError 404 ''NOT_FOUND'' ''OAuth app not found or inactive.'')
          else Inr a)"

section \<open>Authorization under the lock\<close>

text \<open>
  \<^verbatim>\<open>withOAuthWorkspaceAuthorization\<close>: the checks before and after the lock; its callback is what
  follows.  The callers modelled here expect no particular version.
\<close>

definition grant_open :: "support_grant option \<Rightarrow> bool" where
  "grant_open g = (case g of None \<Rightarrow> True | Some x \<Rightarrow> sg_active x \<and> sg_role x = SR_full)"

definition withOAuthWorkspaceAuthorization ::
    "oauth_env \<Rightarrow> support_store \<Rightarrow> string \<Rightarrow> string \<Rightarrow> 'l auth_db \<Rightarrow> 'l auth_db \<Rightarrow> unit result" where
  "withOAuthWorkspaceAuthorization env st uid w db0 db =
     (let captured = find_grant w uid (tb_grants db0); current = find_grant w uid (tb_grants db) in
     and_then (invariant
        (case ctx_origin st of
           None \<Rightarrow> True
         | Some og \<Rightarrow> so_user og = uid \<and> so_workspace og = w \<and> Some (so_version og) = map_option sg_version captured)
        403 ''SUPPORT_AUTHORIZATION_REVOKED'' ''Support authorization is unavailable.'') (\<lambda>_.
     and_then (invariant (grant_open captured) 403 ''SUPPORT_CONTENT_RESTRICTED'' ''Content access is restricted.'') (\<lambda>_.
     and_then (requireDeploymentWorkspaceScope (ov_cfg env) w db) (\<lambda>_.
     and_then (invariant (map_option sg_version current = map_option sg_version captured \<and> grant_open current)
        403 ''SUPPORT_AUTHORIZATION_REVOKED'' ''Support authorization is unavailable.'') (\<lambda>_.
     invariant (case find_member w uid (tb_members db) of None \<Rightarrow> False | Some m \<Rightarrow> am_active m)
        403 ''NOT_A_MEMBER'' ''You are not an active member of this workspace.'')))))"

section \<open>Codes\<close>

definition issueAuthorizationCode ::
    "oauth_env \<Rightarrow> auth_actor \<Rightarrow> string \<Rightarrow> string \<Rightarrow> string \<Rightarrow> string list \<Rightarrow> support_store
     \<Rightarrow> 'l oauth_db \<Rightarrow> 'l oauth_db \<Rightarrow> (string \<times> 'l oauth_db) result" where
  "issueAuthorizationCode env actor client w uri scopes0 st db0 db =
     (case actor of
        Auth_agent _ \<Rightarrow> Inl (AppError 403 ''FORBIDDEN'' ''Only users can complete OAuth flows'')
      | Auth_user u \<Rightarrow>
          and_then (getOAuthAppByClientId client db0) (\<lambda>app.
          if oa_workspace app \<noteq> w
          then Inl (AppError 400 ''INVALID_INPUT'' ''Client ID is not associated with this workspace.'')
          else
            and_then (requireWorkspaceMembership (ov_cfg env) actor w None None st (od_auth db0)) (\<lambda>(m, st').
            if \<not> isAllowedOAuthRedirectUri (oa_redirectUris app) uri
            then Inl (AppError 400 ''INVALID_INPUT'' ''Redirect URI is not registered for this app.'')
            else
              and_then (normalizeRequestedScopes (Some scopes0) (oa_scopes app)) (\<lambda>scopes.
              and_then (withOAuthWorkspaceAuthorization env st' (hu_id u) w (od_auth db0) (od_auth db)) (\<lambda>_.
              (let code = ''code_'' @ ov_random1 env in
               if list_ex (\<lambda>c. oc_code c = hash_in env code) (od_codes db) then Inl unique_constraint
               else Inr (code,
                 db\<lparr>od_codes := od_codes db @
                   [\<lparr>oc_id = id_in env ''oauthCode'', oc_app = oa_id app, oc_user = hu_id u, oc_workspace = w,
                     oc_code = hash_in env code, oc_redirectUri = uri, oc_scopes = scopes,
                     oc_expiresAt = now_in env + 10 * 60 * 1000, oc_usedAt = None\<rparr>]\<rparr>)))))))"

definition find_code :: "string \<Rightarrow> oauth_code list \<Rightarrow> oauth_code option" where
  "find_code h cs = find (\<lambda>c. oc_code c = h) cs"

record issued_tokens =
  it_access :: string
  it_refresh :: string
  it_expiresIn :: int
  it_scopes :: "string list"

definition token_of_code :: "oauth_env \<Rightarrow> oauth_app \<Rightarrow> oauth_code \<Rightarrow> string \<Rightarrow> oauth_token" where
  "token_of_code env app c i =
     \<lparr>ot_id = i, ot_app = oa_id app, ot_user = oc_user c, ot_workspace = oc_workspace c,
      ot_tokenHash = hash_in env (''at_'' @ ov_random1 env),
      ot_refreshHash = Some (hash_in env (''rt_'' @ ov_random2 env)), ot_scopes = oc_scopes c,
      ot_expiresAt = now_in env + 3600 * 1000,
      ot_refreshExpiresAt = Some (now_in env + 30 * 24 * 60 * 60 * 1000), ot_revokedAt = None\<rparr>"

definition hash_taken :: "string \<Rightarrow> oauth_token \<Rightarrow> oauth_token list \<Rightarrow> bool" where
  "hash_taken i t ts \<longleftrightarrow>
     list_ex (\<lambda>x. ot_id x \<noteq> i \<and> (ot_tokenHash x = ot_tokenHash t \<or>
        ot_refreshHash x = ot_refreshHash t \<and> ot_refreshHash t \<noteq> None)) ts"

text \<open>The row of the user, app and workspace is written again, or there is a new one.\<close>

definition store_token ::
    "oauth_env \<Rightarrow> oauth_app \<Rightarrow> oauth_code \<Rightarrow> oauth_token list \<Rightarrow> oauth_token list result" where
  "store_token env app c ts =
     (case find (\<lambda>x. ot_app x = oa_id app \<and> ot_user x = oc_user c \<and> ot_workspace x = oc_workspace c) ts of
        Some x \<Rightarrow>
          (let t = token_of_code env app c (ot_id x) in
           if hash_taken (ot_id x) t ts then Inl unique_constraint
           else Inr (map (\<lambda>y. if ot_id y = ot_id x then t else y) ts))
      | None \<Rightarrow>
          (let t = token_of_code env app c (id_in env ''oauthToken'') in
           if list_ex (\<lambda>y. ot_id y = ot_id t) ts \<or> hash_taken (ot_id t) t ts then Inl unique_constraint
           else Inr (ts @ [t])))"

definition exchangeAuthorizationCode ::
    "oauth_env \<Rightarrow> string \<Rightarrow> string \<Rightarrow> string \<Rightarrow> string \<Rightarrow> support_store
     \<Rightarrow> 'l oauth_db \<Rightarrow> 'l oauth_db \<Rightarrow> (issued_tokens \<times> 'l oauth_db) result" where
  "exchangeAuthorizationCode env code client secret uri st db0 db =
     and_then (getOAuthAppByClientId client db0) (\<lambda>app.
     if oa_clientSecret app \<noteq> hash_in env secret
     then Inl (AppError 401 ''UNAUTHENTICATED'' ''Invalid client secret.'')
     else
       (case find_code (hash_in env code) (od_codes db0) of
          None \<Rightarrow> Inl (AppError 400 ''INVALID_INPUT'' ''Invalid authorization code.'')
        | Some candidate \<Rightarrow>
            and_then (withOAuthWorkspaceAuthorization env st (oc_user candidate) (oc_workspace candidate)
              (od_auth db0) (od_auth db)) (\<lambda>_.
            (case find_code (hash_in env code) (od_codes db) of
               None \<Rightarrow> Inl (AppError 400 ''INVALID_INPUT'' ''Invalid authorization code.'')
             | Some c \<Rightarrow>
                 if oc_usedAt c \<noteq> None
                 then Inl (AppError 400 ''INVALID_INPUT'' ''Authorization code already used.'')
                 else if now_in env > oc_expiresAt c
                 then Inl (AppError 400 ''INVALID_INPUT'' ''Authorization code expired.'')
                 else if oc_app c \<noteq> oa_id app
                 then Inl (AppError 400 ''INVALID_INPUT'' ''Authorization code not issued for this client.'')
                 else if oc_redirectUri c \<noteq> uri
                 then Inl (AppError 400 ''INVALID_INPUT'' ''Redirect URI mismatch.'')
                 else
                   and_then (store_token env app c (od_tokens db)) (\<lambda>ts.
                   Inr (\<lparr>it_access = ''at_'' @ ov_random1 env, it_refresh = ''rt_'' @ ov_random2 env,
                          it_expiresIn = 3600, it_scopes = oc_scopes c\<rparr>,
                     db\<lparr>od_codes := map (\<lambda>x. if oc_id x = oc_id c then x\<lparr>oc_usedAt := Some (now_in env)\<rparr> else x) (od_codes db),
                        od_tokens := ts\<rparr>))))))"

section \<open>Tokens\<close>

definition find_refresh :: "string \<Rightarrow> oauth_token list \<Rightarrow> oauth_token option" where
  "find_refresh h ts = find (\<lambda>t. ot_refreshHash t = Some h) ts"

definition refreshed_token :: "oauth_env \<Rightarrow> oauth_token \<Rightarrow> oauth_token" where
  "refreshed_token env t =
     t\<lparr>ot_tokenHash := hash_in env (''at_'' @ ov_random1 env),
       ot_refreshHash := Some (hash_in env (''rt_'' @ ov_random2 env)),
       ot_expiresAt := now_in env + 3600 * 1000,
       ot_refreshExpiresAt := Some (now_in env + 30 * 24 * 60 * 60 * 1000)\<rparr>"

definition refreshAccessToken ::
    "oauth_env \<Rightarrow> string \<Rightarrow> string \<Rightarrow> string option \<Rightarrow> support_store
     \<Rightarrow> 'l oauth_db \<Rightarrow> 'l oauth_db \<Rightarrow> (issued_tokens \<times> 'l oauth_db) result" where
  "refreshAccessToken env refresh client secret st db0 db =
     and_then (getOAuthAppByClientId client db0) (\<lambda>app.
     if truthy_str secret \<and> Some (oa_clientSecret app) \<noteq> map_option (hash_in env) secret
     then Inl (AppError 401 ''UNAUTHENTICATED'' ''Invalid client secret.'')
     else
       (case find_refresh (hash_in env refresh) (od_tokens db0) of
          None \<Rightarrow> Inl (AppError 401 ''UNAUTHENTICATED'' ''Invalid or revoked refresh token.'')
        | Some candidate \<Rightarrow>
            and_then (invariant (ot_revokedAt candidate = None) 401 ''UNAUTHENTICATED''
              ''Invalid or revoked refresh token.'') (\<lambda>_.
            and_then (withOAuthWorkspaceAuthorization env st (ot_user candidate) (ot_workspace candidate)
              (od_auth db0) (od_auth db)) (\<lambda>_.
            (case find_refresh (hash_in env refresh) (od_tokens db) of
               None \<Rightarrow> Inl (AppError 401 ''UNAUTHENTICATED'' ''Invalid or revoked refresh token.'')
             | Some t \<Rightarrow>
                 if ot_revokedAt t \<noteq> None
                 then Inl (AppError 401 ''UNAUTHENTICATED'' ''Invalid or revoked refresh token.'')
                 else if (case ot_refreshExpiresAt t of None \<Rightarrow> False | Some e \<Rightarrow> now_in env > e)
                 then Inl (AppError 401 ''UNAUTHENTICATED'' ''Refresh token expired.'')
                 else if ot_app t \<noteq> oa_id app
                 then Inl (AppError 400 ''INVALID_INPUT'' ''Token not issued for this client.'')
                 else if hash_taken (ot_id t) (refreshed_token env t) (od_tokens db) then Inl unique_constraint
                 else
                   and_then (invariant (list_ex (\<lambda>x. ot_id x = ot_id t \<and>
                       ot_refreshHash x = Some (hash_in env refresh) \<and> ot_revokedAt x = None) (od_tokens db))
                     401 ''UNAUTHENTICATED'' ''Invalid or revoked refresh token.'') (\<lambda>_.
                   Inr (\<lparr>it_access = ''at_'' @ ov_random1 env, it_refresh = ''rt_'' @ ov_random2 env,
                          it_expiresIn = 3600, it_scopes = ot_scopes t\<rparr>,
                     db\<lparr>od_tokens := map (\<lambda>x. if ot_id x = ot_id t \<and>
                          ot_refreshHash x = Some (hash_in env refresh) \<and> ot_revokedAt x = None
                          then refreshed_token env x else x) (od_tokens db)\<rparr>)))))))"

definition resolveOAuthAccessToken ::
    "oauth_env \<Rightarrow> string \<Rightarrow> 'l oauth_db \<Rightarrow> (auth_actor \<times> string \<times> string list) option" where
  "resolveOAuthAccessToken env token db =
     (case find (\<lambda>t. ot_tokenHash t = hash_in env token) (od_tokens db) of
        None \<Rightarrow> None
      | Some t \<Rightarrow>
          if ot_revokedAt t \<noteq> None then None
          else
            (case find (\<lambda>a. oa_id a = ot_app t) (od_apps db) of
               None \<Rightarrow> None
             | Some app \<Rightarrow>
                 if now_in env > ot_expiresAt t then None
                 else if \<not> oa_active app then None
                 else
                   (case find_user (ot_user t) (tb_users (od_auth db)) of
                      None \<Rightarrow> None
                    | Some u \<Rightarrow> Some (Auth_user (session_user u), ot_workspace t, ot_scopes t))))"

section \<open>The support tables see these rows\<close>

text \<open>
  A support change works on the token rows through their workspace, user and revocation columns,
  and deletes codes by workspace and user.
\<close>

definition token_capability :: "oauth_token \<Rightarrow> capability_row" where
  "token_capability t = \<lparr>ca_workspace = ot_workspace t, ca_user = ot_user t, ca_revokedAt = ot_revokedAt t\<rparr>"

definition support_view :: "'l oauth_db \<Rightarrow> 'l auth_db" where
  "support_view db =
     (od_auth db)\<lparr>tb_oauthTokens := map token_capability (od_tokens db),
                  tb_oauthCodes := map (\<lambda>c. (oc_workspace c, oc_user c)) (od_codes db)\<rparr>"

definition after_support :: "'l oauth_db \<Rightarrow> 'l auth_db \<Rightarrow> 'l oauth_db" where
  "after_support db auth =
     db\<lparr>od_auth := auth,
        od_codes := filter (\<lambda>c. (oc_workspace c, oc_user c) \<in> set (tb_oauthCodes auth)) (od_codes db),
        od_tokens := map2 (\<lambda>t c. t\<lparr>ot_revokedAt := ca_revokedAt c\<rparr>) (od_tokens db) (tb_oauthTokens auth)\<rparr>"

definition changeSupport ::
    "auth_config \<Rightarrow> (auth_actor \<Rightarrow> string \<Rightarrow> string \<Rightarrow> 'l \<Rightarrow> 'l result) \<Rightarrow> auth_actor \<Rightarrow> string \<Rightarrow> string
     \<Rightarrow> support_role \<Rightarrow> bool \<Rightarrow> int \<Rightarrow> 'l oauth_db \<Rightarrow> (support_grant \<times> 'l oauth_db) result" where
  "changeSupport cfg close_roles actor w email role active expected db =
     and_then (changeWorkspaceSupportGrant cfg close_roles actor w email role active expected (support_view db))
       (\<lambda>(g, auth). Inr (g, after_support db auth))"

end
