(* ===== verification/OAuth_Facts.thy ===== *)
theory OAuth_Facts
  imports OAuth_Server Auth_Facts
begin

text \<open>
  What the OAuth provider promises: its tables stay consistent, an authorization code is good for one
  exchange, a refresh retires the tokens it replaces, a flow gives access to the account and scopes
  that were granted, and a change of support access cuts every token off.

  Steps of other modules may change accounts, memberships, grants and apps at will, and every
  operation may have captured its first reads in another state.
\<close>

section \<open>Consistent tables\<close>

definition scopes_ok :: "string list \<Rightarrow> bool" where
  "scopes_ok ss \<longleftrightarrow> set ss \<subseteq> set DEFAULT_GPT_OAUTH_SCOPES"

definition apps_ok :: "oauth_app list \<Rightarrow> bool" where
  "apps_ok apps \<longleftrightarrow> list_all (\<lambda>a. scopes_ok (oa_scopes a)) apps"

definition same_token :: "oauth_token \<Rightarrow> oauth_token \<Rightarrow> bool" where
  "same_token t u \<longleftrightarrow>
     ot_tokenHash t = ot_tokenHash u \<or> ot_refreshHash t = ot_refreshHash u \<and> ot_refreshHash t \<noteq> None \<or>
     ot_app t = ot_app u \<and> ot_user t = ot_user u \<and> ot_workspace t = ot_workspace u"

definition tokens_ok :: "oauth_token list \<Rightarrow> bool" where
  "tokens_ok ts \<longleftrightarrow>
     distinct (map ot_id ts) \<and> (\<forall>t\<in>set ts. \<forall>u\<in>set ts. same_token t u \<longrightarrow> ot_id t = ot_id u) \<and>
     list_all (\<lambda>t. scopes_ok (ot_scopes t)) ts"

definition codes_ok :: "oauth_code list \<Rightarrow> bool" where
  "codes_ok cs \<longleftrightarrow> distinct (map oc_code cs) \<and> list_all (\<lambda>c. scopes_ok (oc_scopes c)) cs"

definition oauth_wf :: "'l oauth_db \<Rightarrow> bool" where
  "oauth_wf db \<longleftrightarrow> apps_ok (od_apps db) \<and> codes_ok (od_codes db) \<and> tokens_ok (od_tokens db)"

text \<open>No step of this environment produces a hash of the set.\<close>

definition fresh_env :: "string set \<Rightarrow> oauth_env \<Rightarrow> bool" where
  "fresh_env X env \<longleftrightarrow>
     hash_in env (''code_'' @ ov_random1 env) \<notin> X \<and> hash_in env (''at_'' @ ov_random1 env) \<notin> X \<and>
     hash_in env (''rt_'' @ ov_random2 env) \<notin> X"

inductive oauth_step :: "string set \<Rightarrow> 'l oauth_db \<Rightarrow> 'l oauth_db \<Rightarrow> bool" for X where
  step_create:
    "createOAuthApp env actor w name uris scopes st db = Inr (a, db') \<Longrightarrow> oauth_step X db db'"
| step_issue:
    "issueAuthorizationCode env actor client w uri scopes st db0 db = Inr (code, db') \<Longrightarrow>
     oauth_wf db0 \<Longrightarrow> fresh_env X env \<Longrightarrow> oauth_step X db db'"
| step_exchange:
    "exchangeAuthorizationCode env code client secret uri st db0 db = Inr (tk, db') \<Longrightarrow>
     fresh_env X env \<Longrightarrow> oauth_step X db db'"
| step_refresh:
    "refreshAccessToken env refresh client secret' st db0 db = Inr (tk, db') \<Longrightarrow>
     fresh_env X env \<Longrightarrow> oauth_step X db db'"
| step_support:
    "changeSupport cfg close_roles actor w email role active expected db = Inr (g, db') \<Longrightarrow> oauth_step X db db'"
| step_other:
    "apps_ok apps \<Longrightarrow> oauth_step X db (db\<lparr>od_auth := auth, od_apps := apps\<rparr>)"

section \<open>Effects\<close>

lemma set_uniq_fold: "set (fold (\<lambda>x acc. if x \<in> set acc then acc else acc @ [x]) xs acc) = set acc \<union> set xs"
  by (induction xs arbitrary: acc) auto

lemma set_uniq [simp]: "set (uniq xs) = set xs"
  unfolding uniq_def by (simp add: set_uniq_fold)

lemma configured_scopes_ok:
  assumes "normalizeConfiguredScopes ss = Inr scopes"
  shows "scopes_ok scopes"
  using assms unfolding normalizeConfiguredScopes_def scopes_ok_def
  by (auto simp: Let_def filter_empty_conv split: if_splits)

lemma requested_scopes_subset:
  assumes "normalizeRequestedScopes ss allowed = Inr scopes"
  shows "set scopes \<subseteq> set allowed \<and> (normalizeScopes ss \<noteq> [] \<longrightarrow> scopes = normalizeScopes ss)"
  using assms unfolding normalizeRequestedScopes_def
  by (auto simp: Let_def filter_empty_conv split: if_splits)

lemma getOAuthAppD:
  assumes "getOAuthAppByClientId client db = Inr app"
  shows "app \<in> set (od_apps db) \<and> oa_clientId app = client \<and> oa_active app \<and> oa_archivedAt app = None"
  using assms unfolding getOAuthAppByClientId_def by (auto simp: find_Some_iff split: option.splits if_splits)

lemma createOAuthApp_effect:
  assumes "createOAuthApp env actor w name uris scopes st db = Inr (a, db')"
  shows "\<exists>app. db' = db\<lparr>od_apps := od_apps db @ [app]\<rparr> \<and> scopes_ok (oa_scopes app)"
  using assms configured_scopes_ok[of scopes] unfolding createOAuthApp_def
  by (auto simp: result_simps Let_def split: if_splits)

lemma issue_effect:
  assumes "issueAuthorizationCode env actor client w uri scopes0 st db0 db = Inr (code, db')"
  obtains u app scopes c where "actor = Auth_user u" "getOAuthAppByClientId client db0 = Inr app"
    "oa_workspace app = w" "isAllowedOAuthRedirectUri (oa_redirectUris app) uri"
    "normalizeRequestedScopes (Some scopes0) (oa_scopes app) = Inr scopes" "code = ''code_'' @ ov_random1 env"
    "db' = db\<lparr>od_codes := od_codes db @ [c]\<rparr>" "\<forall>x\<in>set (od_codes db). oc_code x \<noteq> hash_in env code"
    "c = \<lparr>oc_id = id_in env ''oauthCode'', oc_app = oa_id app, oc_user = hu_id u, oc_workspace = w,
          oc_code = hash_in env code, oc_redirectUri = uri, oc_scopes = scopes,
          oc_expiresAt = now_in env + 10 * 60 * 1000, oc_usedAt = None\<rparr>"
proof (cases actor)
  case (Auth_user u)
  then show thesis
    using assms that unfolding issueAuthorizationCode_def
    by (auto simp: result_simps Let_def list_ex_iff split: if_splits prod.splits)
next
  case (Auth_agent a)
  then show thesis using assms by (simp add: issueAuthorizationCode_def)
qed

lemma issue_authorized:
  assumes "issueAuthorizationCode env (Auth_user u) client w uri scopes0 st db0 db = Inr (code, db')"
  obtains st' where "withOAuthWorkspaceAuthorization env st' (hu_id u) w (od_auth db0) (od_auth db) = Inr ()"
  using assms that unfolding issueAuthorizationCode_def
  by (auto simp: result_simps Let_def split: if_splits prod.splits)

lemma store_token_cases:
  assumes "store_token env app c ts = Inr ts'"
  obtains i t where "t = token_of_code env app c i" "hash_taken i t ts = False"
    "ts' = map (\<lambda>y. if ot_id y = i then t else y) ts"
    "\<exists>x\<in>set ts. ot_id x = i \<and> ot_app x = oa_id app \<and> ot_user x = oc_user c \<and> ot_workspace x = oc_workspace c"
  | i t where "t = token_of_code env app c i" "hash_taken i t ts = False" "ts' = ts @ [t]"
    "\<forall>x\<in>set ts. ot_id x \<noteq> i \<and> \<not> (ot_app x = oa_id app \<and> ot_user x = oc_user c \<and> ot_workspace x = oc_workspace c)"
proof (cases "find (\<lambda>x. ot_app x = oa_id app \<and> ot_user x = oc_user c \<and> ot_workspace x = oc_workspace c) ts")
  case None
  then have "ts' = ts @ [token_of_code env app c (id_in env ''oauthToken'')]"
      "hash_taken (id_in env ''oauthToken'') (token_of_code env app c (id_in env ''oauthToken'')) ts = False"
      "\<forall>x\<in>set ts. ot_id x \<noteq> id_in env ''oauthToken''"
    using assms unfolding store_token_def
    by (auto simp: Let_def token_of_code_def list_ex_iff split: if_splits)
  then show thesis using that(2)[OF refl] None by (auto simp: find_None_iff)
next
  case (Some x)
  then have "ts' = map (\<lambda>y. if ot_id y = ot_id x then token_of_code env app c (ot_id x) else y) ts"
      "hash_taken (ot_id x) (token_of_code env app c (ot_id x)) ts = False"
    using assms unfolding store_token_def by (auto simp: Let_def split: if_splits)
  moreover have "x \<in> set ts \<and> ot_app x = oa_id app \<and> ot_user x = oc_user c \<and> ot_workspace x = oc_workspace c"
    using Some by (auto simp: find_Some_iff)
  ultimately show thesis using that(1)[OF refl] by blast
qed

lemma find_codeD:
  assumes "find_code h cs = Some c"
  shows "c \<in> set cs \<and> oc_code c = h"
  using assms unfolding find_code_def by (auto simp: find_Some_iff)

lemma find_refreshD:
  assumes "find_refresh h ts = Some t"
  shows "t \<in> set ts \<and> ot_refreshHash t = Some h"
  using assms unfolding find_refresh_def by (auto simp: find_Some_iff)

definition used_code :: "int \<Rightarrow> oauth_code \<Rightarrow> oauth_code list \<Rightarrow> oauth_code list" where
  "used_code now c cs = map (\<lambda>x. if oc_id x = oc_id c then x\<lparr>oc_usedAt := Some now\<rparr> else x) cs"

lemma exchange_effect:
  assumes "exchangeAuthorizationCode env code client secret uri st db0 db = Inr (tk, db')"
  obtains app cand c ts where "getOAuthAppByClientId client db0 = Inr app" "oa_clientSecret app = hash_in env secret"
    "withOAuthWorkspaceAuthorization env st (oc_user cand) (oc_workspace cand) (od_auth db0) (od_auth db) = Inr ()"
    "find_code (hash_in env code) (od_codes db0) = Some cand"
    "find_code (hash_in env code) (od_codes db) = Some c" "oc_usedAt c = None" "now_in env \<le> oc_expiresAt c"
    "oc_app c = oa_id app" "oc_redirectUri c = uri" "store_token env app c (od_tokens db) = Inr ts"
    "db' = db\<lparr>od_codes := used_code (now_in env) c (od_codes db), od_tokens := ts\<rparr>"
    "tk = \<lparr>it_access = ''at_'' @ ov_random1 env, it_refresh = ''rt_'' @ ov_random2 env, it_expiresIn = 3600,
           it_scopes = oc_scopes c\<rparr>"
  using assms unfolding exchangeAuthorizationCode_def
  by (auto simp: result_simps used_code_def split: if_splits option.splits)

lemma refresh_effect:
  assumes "refreshAccessToken env refresh client secret st db0 db = Inr (tk, db')"
  obtains t cand app where "find_refresh (hash_in env refresh) (od_tokens db) = Some t"
    "getOAuthAppByClientId client db0 = Inr app" "ot_app t = oa_id app"
    "find_refresh (hash_in env refresh) (od_tokens db0) = Some cand"
    "withOAuthWorkspaceAuthorization env st (ot_user cand) (ot_workspace cand) (od_auth db0) (od_auth db) = Inr ()"
    "ot_revokedAt t = None" "hash_taken (ot_id t) (refreshed_token env t) (od_tokens db) = False"
    "db' = db\<lparr>od_tokens := map (\<lambda>x. if ot_id x = ot_id t \<and> ot_refreshHash x = Some (hash_in env refresh) \<and>
         ot_revokedAt x = None then refreshed_token env x else x) (od_tokens db)\<rparr>"
    "tk = \<lparr>it_access = ''at_'' @ ov_random1 env, it_refresh = ''rt_'' @ ov_random2 env, it_expiresIn = 3600,
           it_scopes = ot_scopes t\<rparr>"
  using assms unfolding refreshAccessToken_def
  by (auto simp: result_simps split: if_splits option.splits)

section \<open>Support changes\<close>

lemma grant_members_tokens:
  assumes "grant_members cfg close_roles actor w uid role active db = Inr db'"
  shows "tb_oauthTokens db' = tb_oauthTokens db \<and> tb_oauthCodes db' = tb_oauthCodes db"
  using assms
  by (auto simp: grant_members_def result_simps Let_def split: option.splits if_splits)

lemma store_grant_tokens:
  assumes "store_grant cfg close_roles actor w (uid, owner, current) role active db = Inr (g, db')"
  shows "sg_user g = uid \<and> tb_oauthTokens db' = revoke_capability (ac_now cfg) w uid (tb_oauthTokens db) \<and>
    tb_oauthCodes db' = filter (\<lambda>c. c \<noteq> (w, uid)) (tb_oauthCodes db)"
  using assms grant_members_tokens[of cfg close_roles actor w uid role active "db\<lparr>tb_grants := _\<rparr>"]
    find_grant_SomeD(3)
  by (auto simp: store_grant_def result_simps Let_def revoke_capabilities_def split: option.splits)

lemma changeSupport_effect:
  assumes "changeSupport cfg close_roles actor w email role active expected db = Inr (g, db')"
  shows "od_apps db' = od_apps db \<and>
    od_codes db' = filter (\<lambda>c. \<not> (oc_workspace c = w \<and> oc_user c = sg_user g)) (od_codes db) \<and>
    od_tokens db' = map (\<lambda>t. if ot_workspace t = w \<and> ot_user t = sg_user g \<and> ot_revokedAt t = None
      then t\<lparr>ot_revokedAt := Some (ac_now cfg)\<rparr> else t) (od_tokens db)"
proof -
  obtain uid owner current auth where sg: "store_grant cfg close_roles actor w (uid, owner, current) role active (support_view db)
      = Inr (g, auth)" and db': "db' = after_support db auth"
    using assms by (auto simp: changeSupport_def changeWorkspaceSupportGrant_def result_simps)
  have e: "tb_oauthTokens auth = revoke_capability (ac_now cfg) w uid (map token_capability (od_tokens db))"
      "tb_oauthCodes auth = filter (\<lambda>c. c \<noteq> (w, uid)) (map (\<lambda>c. (oc_workspace c, oc_user c)) (od_codes db))"
      "sg_user g = uid"
    using store_grant_tokens[OF sg] by (simp_all add: support_view_def)
  have "map2 (\<lambda>t c. t\<lparr>ot_revokedAt := ca_revokedAt c\<rparr>) ts (revoke_capability now w uid (map token_capability ts)) =
      map (\<lambda>t. if ot_workspace t = w \<and> ot_user t = uid \<and> ot_revokedAt t = None
        then t\<lparr>ot_revokedAt := Some now\<rparr> else t) ts" for ts now
    by (induction ts) (auto simp: revoke_capability_def token_capability_def)
  moreover have "filter (\<lambda>c. (oc_workspace c, oc_user c) \<in> set (tb_oauthCodes auth)) (od_codes db) =
      filter (\<lambda>c. \<not> (oc_workspace c = w \<and> oc_user c = uid)) (od_codes db)"
    unfolding e(2) by (intro filter_cong) auto
  ultimately show ?thesis unfolding db' after_support_def using e by simp
qed

section \<open>The invariant\<close>

text \<open>Replacing the rows of one id by a row that shares its key and takes no hash of another row.\<close>

lemma not_taken:
  assumes "\<not> hash_taken i t ts" "u \<in> set ts" "ot_id u \<noteq> i"
  shows "ot_tokenHash u \<noteq> ot_tokenHash t \<and> (ot_refreshHash u = ot_refreshHash t \<longrightarrow> ot_refreshHash t = None)"
  using assms by (auto simp: hash_taken_def list_ex_iff)

lemma same_token_sym: "same_token t u \<Longrightarrow> same_token u t"
  unfolding same_token_def by (elim disjE conjE) simp_all

lemma apart_token:
  assumes "ot_tokenHash u \<noteq> ot_tokenHash t \<and> (ot_refreshHash u = ot_refreshHash t \<longrightarrow> ot_refreshHash t = None)"
    "\<not> (ot_app t = ot_app u \<and> ot_user t = ot_user u \<and> ot_workspace t = ot_workspace u)"
  shows "\<not> same_token t u \<and> \<not> same_token u t"
proof -
  have "\<not> same_token t u"
    using assms unfolding same_token_def by (intro notI, elim disjE conjE) simp_all
  then show ?thesis using same_token_sym by blast
qed

lemma tokens_ok_replace:
  assumes "tokens_ok ts" "ot_id t = i" "scopes_ok (ot_scopes t)" "\<not> hash_taken i t ts"
    "\<exists>x\<in>set ts. ot_id x = i \<and> ot_app x = ot_app t \<and> ot_user x = ot_user t \<and> ot_workspace x = ot_workspace t"
  shows "tokens_ok (map (\<lambda>y. if ot_id y = i then t else y) ts)"
proof -
  obtain x where x: "x \<in> set ts" "ot_id x = i" "ot_app x = ot_app t" "ot_user x = ot_user t" "ot_workspace x = ot_workspace t"
    using assms(5) by blast
  have ids: "map ot_id (map (\<lambda>y. if ot_id y = i then t else y) ts) = map ot_id ts"
    using assms(2) by simp
  have other: "\<not> same_token t u \<and> \<not> same_token u t" if "u \<in> set ts" "ot_id u \<noteq> i" for u
  proof -
    have "\<not> same_token x u" using assms(1) x(1,2) that by (auto simp: tokens_ok_def)
    then have "\<not> (ot_app t = ot_app u \<and> ot_user t = ot_user u \<and> ot_workspace t = ot_workspace u)"
      unfolding same_token_def x by blast
    then show ?thesis by (rule apart_token[OF not_taken[OF assms(4) that]])
  qed
  have pairs: "\<forall>a\<in>set (map (\<lambda>y. if ot_id y = i then t else y) ts). \<forall>b\<in>set (map (\<lambda>y. if ot_id y = i then t else y) ts).
      same_token a b \<longrightarrow> ot_id a = ot_id b"
  proof (intro ballI impI)
    fix a b
    assume ab: "a \<in> set (map (\<lambda>y. if ot_id y = i then t else y) ts)"
      "b \<in> set (map (\<lambda>y. if ot_id y = i then t else y) ts)" "same_token a b"
    have "a = t \<or> a \<in> set ts \<and> ot_id a \<noteq> i" "b = t \<or> b \<in> set ts \<and> ot_id b \<noteq> i"
      using ab(1,2) by auto
    then show "ot_id a = ot_id b" using ab(3) other assms(1) unfolding tokens_ok_def by blast
  qed
  have scopes: "list_all (\<lambda>t. scopes_ok (ot_scopes t)) (map (\<lambda>y. if ot_id y = i then t else y) ts)"
    using assms(1,3) unfolding tokens_ok_def list_all_iff set_map by (intro ballI) (elim imageE, simp)
  have "distinct (map ot_id ts)" using assms(1) by (simp add: tokens_ok_def)
  then show ?thesis unfolding tokens_ok_def ids by (intro conjI pairs scopes)
qed

lemma tokens_ok_append:
  assumes "tokens_ok ts" "scopes_ok (ot_scopes t)" "\<not> hash_taken (ot_id t) t ts"
    "\<forall>x\<in>set ts. ot_id x \<noteq> ot_id t \<and> \<not> (ot_app x = ot_app t \<and> ot_user x = ot_user t \<and> ot_workspace x = ot_workspace t)"
  shows "tokens_ok (ts @ [t])"
proof -
  have "\<not> same_token t u \<and> \<not> same_token u t" if "u \<in> set ts" for u
    using assms(4) that by (intro apart_token not_taken[OF assms(3)]) (simp_all, metis)
  then have "\<forall>a\<in>set (ts @ [t]). \<forall>b\<in>set (ts @ [t]). same_token a b \<longrightarrow> ot_id a = ot_id b"
    using assms(1) unfolding tokens_ok_def by (simp add: ball_Un)
  moreover have "distinct (map ot_id (ts @ [t]))"
    using assms(1,4) by (auto simp: tokens_ok_def)
  ultimately show ?thesis
    using assms(1,2) unfolding tokens_ok_def by simp
qed

lemma tokens_ok_map:
  assumes "tokens_ok ts" "\<And>t. ot_id (f t) = ot_id t" "\<And>t. ot_scopes (f t) = ot_scopes t"
    "\<And>t u. same_token (f t) (f u) = same_token t u"
  shows "tokens_ok (map f ts)"
  using assms unfolding tokens_ok_def by (auto simp: list_all_iff o_def)

lemma tokens_ok_map_revoked:
  assumes "tokens_ok ts"
  shows "tokens_ok (map (\<lambda>t. if P t then t\<lparr>ot_revokedAt := r\<rparr> else t) ts)"
  by (rule tokens_ok_map[OF assms]) (simp_all add: same_token_def)

lemma unique_replace_cond:
  assumes "distinct (map ot_id ts)" "t \<in> set ts" "P t"
  shows "map (\<lambda>x. if ot_id x = ot_id t \<and> P x then f x else x) ts = map (\<lambda>x. if ot_id x = ot_id t then f t else x) ts"
proof (rule map_cong[OF refl])
  fix x assume x: "x \<in> set ts"
  have "x = t" if "ot_id x = ot_id t" using assms(1,2) x that by (auto simp: distinct_map dest: inj_onD)
  then show "(if ot_id x = ot_id t \<and> P x then f x else x) = (if ot_id x = ot_id t then f t else x)"
    using assms(3) by auto
qed

lemma refresh_tokens:
  assumes "tokens_ok (od_tokens db)" "find_refresh (hash_in env refresh) (od_tokens db) = Some t" "ot_revokedAt t = None"
  shows "map (\<lambda>x. if ot_id x = ot_id t \<and> ot_refreshHash x = Some (hash_in env refresh) \<and>
         ot_revokedAt x = None then refreshed_token env x else x) (od_tokens db)
    = map (\<lambda>x. if ot_id x = ot_id t then refreshed_token env t else x) (od_tokens db)"
  using unique_replace_cond[of "od_tokens db" t
      "\<lambda>x. ot_refreshHash x = Some (hash_in env refresh) \<and> ot_revokedAt x = None" "refreshed_token env"]
    assms find_refreshD[OF assms(2)] unfolding tokens_ok_def by simp

lemma store_token_ok:
  assumes "store_token env app c ts = Inr ts'" "tokens_ok ts" "scopes_ok (oc_scopes c)"
  shows "tokens_ok ts'"
  using assms(1)
proof (cases rule: store_token_cases)
  case (1 i t)
  then show ?thesis using assms(2,3) by (auto intro!: tokens_ok_replace simp: token_of_code_def)
next
  case (2 i t)
  then show ?thesis using assms(2,3) by (auto intro!: tokens_ok_append simp: token_of_code_def)
qed

lemma used_code_ok:
  assumes "codes_ok cs"
  shows "codes_ok (used_code now c cs)"
proof -
  have "map oc_code (used_code now c cs) = map oc_code cs" by (simp add: used_code_def)
  moreover have "list_all (\<lambda>c. scopes_ok (oc_scopes c)) (used_code now c cs)"
    using assms by (auto simp: codes_ok_def used_code_def list_all_iff)
  ultimately show ?thesis using assms by (simp add: codes_ok_def)
qed

lemma oauth_step_wf:
  assumes "oauth_step X db db'" "oauth_wf db"
  shows "oauth_wf db'"
  using assms(1)
proof cases
  case (step_create env actor w name uris scopes st a)
  then show ?thesis
    using assms(2) createOAuthApp_effect[OF step_create] by (auto simp: oauth_wf_def apps_ok_def)
next
  case (step_issue env actor client w uri scopes0 st db0 code)
  obtain u app scopes c where e: "actor = Auth_user u" "getOAuthAppByClientId client db0 = Inr app"
    "normalizeRequestedScopes (Some scopes0) (oa_scopes app) = Inr scopes"
    "db' = db\<lparr>od_codes := od_codes db @ [c]\<rparr>" "\<forall>x\<in>set (od_codes db). oc_code x \<noteq> hash_in env code"
    "c = \<lparr>oc_id = id_in env ''oauthCode'', oc_app = oa_id app, oc_user = hu_id u, oc_workspace = w,
          oc_code = hash_in env code, oc_redirectUri = uri, oc_scopes = scopes,
          oc_expiresAt = now_in env + 10 * 60 * 1000, oc_usedAt = None\<rparr>"
    by (rule issue_effect[OF step_issue(1)]) (rule that, assumption+)
  have "scopes_ok (oa_scopes app)"
    using step_issue(2) getOAuthAppD[OF e(2)] by (auto simp: oauth_wf_def apps_ok_def list_all_iff)
  then have "scopes_ok scopes"
    using requested_scopes_subset[OF e(3)] by (auto simp: scopes_ok_def)
  then show ?thesis
    using assms(2) e(4-6) by (auto simp: oauth_wf_def codes_ok_def)
next
  case (step_exchange env code client secret uri st db0 tk)
  obtain app c ts where e: "find_code (hash_in env code) (od_codes db) = Some c"
    "store_token env app c (od_tokens db) = Inr ts"
    "db' = db\<lparr>od_codes := used_code (now_in env) c (od_codes db), od_tokens := ts\<rparr>"
    by (rule exchange_effect[OF step_exchange(1)]) (rule that, assumption+)
  then show ?thesis
    using assms(2) store_token_ok[OF e(2)] find_codeD[OF e(1)] used_code_ok[of "od_codes db" "now_in env" c]
    by (auto simp: oauth_wf_def codes_ok_def list_all_iff)
next
  case (step_refresh env refresh client secret st db0 tk)
  obtain t where e: "find_refresh (hash_in env refresh) (od_tokens db) = Some t" "ot_revokedAt t = None"
    "hash_taken (ot_id t) (refreshed_token env t) (od_tokens db) = False"
    "db' = db\<lparr>od_tokens := map (\<lambda>x. if ot_id x = ot_id t \<and> ot_refreshHash x = Some (hash_in env refresh) \<and>
         ot_revokedAt x = None then refreshed_token env x else x) (od_tokens db)\<rparr>"
    by (rule refresh_effect[OF step_refresh(1)]) (rule that, assumption+)
  have ok: "tokens_ok (od_tokens db)" using assms(2) by (simp add: oauth_wf_def)
  have "tokens_ok (map (\<lambda>x. if ot_id x = ot_id t then refreshed_token env t else x) (od_tokens db))"
    using ok e find_refreshD[OF e(1)]
    by (intro tokens_ok_replace) (auto simp: refreshed_token_def tokens_ok_def list_all_iff)
  then show ?thesis
    using assms(2) e(4) refresh_tokens[OF ok e(1,2)] by (simp add: oauth_wf_def)
next
  case (step_support cfg close_roles actor w email role active expected g)
  then show ?thesis
    using assms(2) changeSupport_effect[OF step_support]
    by (auto simp: oauth_wf_def tokens_ok_map_revoked codes_ok_def list_all_iff distinct_map
        intro: inj_on_subset)
next
  case (step_other apps auth)
  then show ?thesis using assms(2) by (simp add: oauth_wf_def)
qed

lemma oauth_steps_wf:
  assumes "(oauth_step X)\<^sup>*\<^sup>* db db'" "oauth_wf db"
  shows "oauth_wf db'"
  using assms by (induction rule: rtranclp_induct) (auto intro: oauth_step_wf)

section \<open>Spent codes and retired tokens\<close>

definition code_spent :: "string \<Rightarrow> 'l oauth_db \<Rightarrow> bool" where
  "code_spent h db \<longleftrightarrow> (\<forall>c\<in>set (od_codes db). oc_code c = h \<longrightarrow> oc_usedAt c \<noteq> None)"

definition all_tokens :: "(oauth_token \<Rightarrow> bool) \<Rightarrow> 'l oauth_db \<Rightarrow> bool" where
  "all_tokens P db \<longleftrightarrow> (\<forall>t\<in>set (od_tokens db). P t)"

lemma used_code_spent:
  assumes "code_spent h db"
  shows "\<forall>x\<in>set (used_code now c (od_codes db)). oc_code x = h \<longrightarrow> oc_usedAt x \<noteq> None"
  using assms by (auto simp: code_spent_def used_code_def)

lemma oauth_step_spent:
  assumes "oauth_step X db db'" "code_spent h db" "h \<in> X"
  shows "code_spent h db'"
  using assms(1)
proof cases
  case (step_create env actor w name uris scopes st a)
  then show ?thesis
    using assms(2) createOAuthApp_effect[OF step_create] by (auto simp: code_spent_def)
next
  case (step_issue env actor client w uri scopes0 st db0 code)
  obtain c where c: "db' = db\<lparr>od_codes := od_codes db @ [c]\<rparr>" "oc_code c = hash_in env (''code_'' @ ov_random1 env)"
    by (rule issue_effect[OF step_issue(1)]) (rule that, assumption, simp)
  have "hash_in env (''code_'' @ ov_random1 env) \<noteq> h"
    using step_issue(3) assms(3) by (auto simp: fresh_env_def)
  then show ?thesis
    using assms(2) c by (auto simp: code_spent_def)
next
  case (step_exchange env code client secret uri st db0 tk)
  obtain c ts where "db' = db\<lparr>od_codes := used_code (now_in env) c (od_codes db), od_tokens := ts\<rparr>"
    by (rule exchange_effect[OF step_exchange(1)]) (rule that, assumption)
  then show ?thesis using used_code_spent[OF assms(2)] by (simp add: code_spent_def)
next
  case (step_refresh env refresh client secret st db0 tk)
  obtain ts where "db' = db\<lparr>od_tokens := ts\<rparr>"
    by (rule refresh_effect[OF step_refresh(1)]) (rule that, assumption)
  then show ?thesis using assms(2) by (simp add: code_spent_def)
next
  case (step_support cfg close_roles actor w email role active expected g)
  then show ?thesis
    using assms(2) changeSupport_effect[OF step_support] by (simp add: code_spent_def)
next
  case (step_other apps auth)
  then show ?thesis using assms(2) by (simp add: code_spent_def)
qed

lemma store_token_all:
  assumes "store_token env app c ts = Inr ts'" "\<forall>t\<in>set ts. P t" "\<And>i. P (token_of_code env app c i)"
  shows "\<forall>t\<in>set ts'. P t"
  using assms(1)
proof (cases rule: store_token_cases)
  case (1 i t)
  show ?thesis
  proof
    fix y assume "y \<in> set ts'"
    then obtain z where "z \<in> set ts" "y = (if ot_id z = i then t else z)" unfolding 1(3) by auto
    then show "P y" using assms(2,3) 1(1) by (cases "ot_id z = i") simp_all
  qed
next
  case (2 i t)
  show ?thesis using assms(2,3) 2(1,3) by simp
qed

text \<open>
  A property of every token row that fresh rows have and that revocation keeps is kept by every
  step.
\<close>

lemma oauth_step_tokens:
  fixes P :: "oauth_token \<Rightarrow> bool"
  assumes "oauth_step X db db'" "all_tokens P db"
    and code: "\<And>env app c i. fresh_env X env \<Longrightarrow> P (token_of_code env app c i)"
    and refreshed: "\<And>env t. fresh_env X env \<Longrightarrow> P (refreshed_token env t)"
    and revoked: "\<And>t r. P t \<Longrightarrow> P (t\<lparr>ot_revokedAt := Some r\<rparr>)"
  shows "all_tokens P db'"
  using assms(1)
proof cases
  case (step_create env actor w name uris scopes st a)
  then show ?thesis
    using assms(2) createOAuthApp_effect[OF step_create] by (auto simp: all_tokens_def)
next
  case (step_issue env actor client w uri scopes0 st db0 code)
  obtain cs where "db' = db\<lparr>od_codes := cs\<rparr>"
    by (rule issue_effect[OF step_issue(1)]) (rule that, assumption)
  then show ?thesis using assms(2) by (simp add: all_tokens_def)
next
  case (step_exchange env code' client secret uri st db0 tk)
  obtain app c ts where e: "store_token env app c (od_tokens db) = Inr ts"
    "db' = db\<lparr>od_codes := used_code (now_in env) c (od_codes db), od_tokens := ts\<rparr>"
    by (rule exchange_effect[OF step_exchange(1)]) (rule that, assumption+)
  show ?thesis
    using store_token_all[OF e(1), of P] code[OF step_exchange(2)] assms(2) e(2) by (simp add: all_tokens_def)
next
  case (step_refresh env refresh client secret st db0 tk)
  obtain t :: oauth_token where
    e: "db' = db\<lparr>od_tokens := map (\<lambda>x. if ot_id x = ot_id t \<and> ot_refreshHash x = Some (hash_in env refresh) \<and>
         ot_revokedAt x = None then refreshed_token env x else x) (od_tokens db)\<rparr>"
    by (rule refresh_effect[OF step_refresh(1)]) (rule that, assumption)
  show ?thesis
    unfolding all_tokens_def e using assms(2) refreshed[OF step_refresh(2)] by (auto simp: all_tokens_def)
next
  case (step_support cfg close_roles actor w email role active expected g)
  then show ?thesis
    using assms(2) changeSupport_effect[OF step_support] revoked by (auto simp: all_tokens_def)
next
  case (step_other apps auth)
  then show ?thesis using assms(2) by (simp add: all_tokens_def)
qed

definition access_retired :: "string \<Rightarrow> 'l oauth_db \<Rightarrow> bool" where
  "access_retired h = all_tokens (\<lambda>t. ot_tokenHash t \<noteq> h)"

definition refresh_retired :: "string \<Rightarrow> 'l oauth_db \<Rightarrow> bool" where
  "refresh_retired h = all_tokens (\<lambda>t. ot_refreshHash t \<noteq> Some h)"

lemma oauth_step_retired:
  assumes "oauth_step X db db'" "h \<in> X"
  shows "access_retired h db \<Longrightarrow> access_retired h db'" "refresh_retired h db \<Longrightarrow> refresh_retired h db'"
  using assms(2) unfolding access_retired_def refresh_retired_def
  by (auto elim!: oauth_step_tokens[OF assms(1)] simp: fresh_env_def token_of_code_def refreshed_token_def)

lemma oauth_steps_spent:
  assumes "(oauth_step X)\<^sup>*\<^sup>* db db'" "code_spent h db" "h \<in> X"
  shows "code_spent h db'"
  using assms by (induction rule: rtranclp_induct) (auto intro: oauth_step_spent)

lemma oauth_steps_retired:
  assumes "(oauth_step X)\<^sup>*\<^sup>* db db'" "h \<in> X"
  shows "access_retired h db \<Longrightarrow> access_retired h db'" "refresh_retired h db \<Longrightarrow> refresh_retired h db'"
  using assms by (induction rule: rtranclp_induct) (auto intro: oauth_step_retired)

lemma exchange_spends:
  assumes "exchangeAuthorizationCode env code client secret uri st db0 db = Inr (tk, db1)" "oauth_wf db"
  shows "code_spent (hash_in env code) db1"
proof -
  obtain c ts where c: "find_code (hash_in env code) (od_codes db) = Some c"
    "db1 = db\<lparr>od_codes := used_code (now_in env) c (od_codes db), od_tokens := ts\<rparr>"
    by (rule exchange_effect[OF assms(1)]) (rule that, assumption+)
  have "x = c" if "x \<in> set (od_codes db)" "oc_code x = hash_in env code" for x
    using that find_codeD[OF c(1)] assms(2) unfolding oauth_wf_def codes_ok_def by (metis distinct_map inj_onD)
  then show ?thesis unfolding code_spent_def c(2) by (auto simp: used_code_def split: if_splits)
qed

lemma spent_code_refused:
  assumes "code_spent (hash_in env code) db"
  shows "\<exists>e. exchangeAuthorizationCode env code client secret uri st db0 db = Inl e"
proof (cases "exchangeAuthorizationCode env code client secret uri st db0 db")
  case (Inr r)
  then obtain tk db1 where r: "exchangeAuthorizationCode env code client secret uri st db0 db = Inr (tk, db1)"
    by (cases r) simp
  obtain c where "find_code (hash_in env code) (od_codes db) = Some c" "oc_usedAt c = None"
    by (rule exchange_effect[OF r]) (rule that, assumption+)
  then show ?thesis using assms find_codeD unfolding code_spent_def by fastforce
qed simp

lemma refresh_retires:
  assumes "refreshAccessToken env refresh client secret st db0 db = Inr (tk, db1)" "oauth_wf db"
    "find_refresh (hash_in env refresh) (od_tokens db) = Some t" "fresh_env X env"
  shows "hash_in env refresh \<in> X \<Longrightarrow> refresh_retired (hash_in env refresh) db1"
    "ot_tokenHash t \<in> X \<Longrightarrow> access_retired (ot_tokenHash t) db1"
proof -
  have ok: "tokens_ok (od_tokens db)" using assms(2) by (simp add: oauth_wf_def)
  obtain t' where e: "find_refresh (hash_in env refresh) (od_tokens db) = Some t'" "ot_revokedAt t' = None"
    "db1 = db\<lparr>od_tokens := map (\<lambda>x. if ot_id x = ot_id t' \<and> ot_refreshHash x = Some (hash_in env refresh) \<and>
         ot_revokedAt x = None then refreshed_token env x else x) (od_tokens db)\<rparr>"
    by (rule refresh_effect[OF assms(1)]) (rule that, assumption+)
  have t': "t' = t" using e(1) assms(3) by simp
  have db1: "od_tokens db1 = map (\<lambda>x. if ot_id x = ot_id t then refreshed_token env t else x) (od_tokens db)"
    using e(3) refresh_tokens[OF ok e(1,2)] t' by simp
  note f = find_refreshD[OF assms(3)]
  have other: "ot_tokenHash u \<noteq> ot_tokenHash t \<and> ot_refreshHash u \<noteq> Some (hash_in env refresh)"
    if "u \<in> set (od_tokens db)" "ot_id u \<noteq> ot_id t" for u
  proof -
    have "\<not> same_token u t" using ok that f unfolding tokens_ok_def by blast
    then show ?thesis using f unfolding same_token_def by auto
  qed
  show "hash_in env refresh \<in> X \<Longrightarrow> refresh_retired (hash_in env refresh) db1"
    "ot_tokenHash t \<in> X \<Longrightarrow> access_retired (ot_tokenHash t) db1"
    using other assms(4) unfolding refresh_retired_def access_retired_def all_tokens_def db1
    by (auto simp: fresh_env_def refreshed_token_def)
qed

section \<open>The flow\<close>

text \<open>The row an exchange stores is found by the hash of the access token it returns.\<close>

lemma store_token_found:
  assumes "store_token env app c ts = Inr ts'" "tokens_ok ts" "scopes_ok (oc_scopes c)"
  shows "\<exists>i. find (\<lambda>t. ot_tokenHash t = hash_in env (''at_'' @ ov_random1 env)) ts' = Some (token_of_code env app c i)"
proof -
  have key: "ot_tokenHash (token_of_code env app c i) = hash_in env (''at_'' @ ov_random1 env)" for i
    by (simp add: token_of_code_def)
  have "\<exists>i. token_of_code env app c i \<in> set ts'"
    using assms(1) by (cases rule: store_token_cases) auto
  then obtain i where i: "token_of_code env app c i \<in> set ts'" by blast
  have ok: "tokens_ok ts'" by (rule store_token_ok[OF assms])
  obtain t where t: "find (\<lambda>t. ot_tokenHash t = hash_in env (''at_'' @ ov_random1 env)) ts' = Some t"
    using i key by (cases "find (\<lambda>t. ot_tokenHash t = hash_in env (''at_'' @ ov_random1 env)) ts'") (auto simp: find_None_iff)
  then have m: "t \<in> set ts'" "ot_tokenHash t = hash_in env (''at_'' @ ov_random1 env)"
    by (auto simp: find_Some_iff)
  have "same_token t (token_of_code env app c i)" unfolding same_token_def using m(2) key by simp
  then have "ot_id t = ot_id (token_of_code env app c i)" using ok m(1) i unfolding tokens_ok_def by blast
  then have "t = token_of_code env app c i"
    using ok m(1) i unfolding tokens_ok_def by (metis distinct_map inj_onD)
  then show ?thesis using t by blast
qed

lemma find_code_issued:
  assumes "\<forall>x\<in>set cs. oc_code x \<noteq> oc_code c"
  shows "find_code (oc_code c) (cs @ [c]) = Some c"
  using assms unfolding find_code_def by (induction cs) auto

lemma flow_parts:
  assumes "issueAuthorizationCode env1 (Auth_user u) client w uri scopes0 st db0 db = Inr (code, db1)"
    "exchangeAuthorizationCode env2 code client2 secret uri2 st2 db02 db1 = Inr (tk, db2)"
    "hash_in env2 = hash_in env1" "hash_in env3 = hash_in env2" "oauth_wf db" "oauth_wf db0"
  shows "\<exists>app app2. app \<in> set (od_apps db0) \<and> oa_clientId app = client \<and> oa_workspace app = w \<and>
      app2 \<in> set (od_apps db02) \<and> oa_clientId app2 = client2 \<and> oa_id app2 = oa_id app \<and>
      isAllowedOAuthRedirectUri (oa_redirectUris app) uri \<and> uri2 = uri \<and> set (it_scopes tk) \<subseteq> set (oa_scopes app) \<and>
      (normalizeScopes (Some scopes0) \<noteq> [] \<longrightarrow> it_scopes tk = normalizeScopes (Some scopes0)) \<and>
      resolveOAuthAccessToken env3 (it_access tk) db2 =
        (case find (\<lambda>a. oa_id a = oa_id app) (od_apps db2) of
           None \<Rightarrow> None
         | Some a \<Rightarrow>
             if now_in env3 > now_in env2 + 3600 * 1000 \<or> \<not> oa_active a then None
             else map_option (\<lambda>v. (Auth_user (session_user v), w, it_scopes tk))
                    (find_user (hu_id u) (tb_users (od_auth db2))))"
proof -
  have wf1: "oauth_wf db1"
    using oauth_step_wf[OF step_issue[OF assms(1,6), of "{}"] assms(5)] by (simp add: fresh_env_def)
  obtain u' app scopes c where i: "Auth_user u = Auth_user u'" "getOAuthAppByClientId client db0 = Inr app"
    "oa_workspace app = w" "isAllowedOAuthRedirectUri (oa_redirectUris app) uri"
    "normalizeRequestedScopes (Some scopes0) (oa_scopes app) = Inr scopes"
    "db1 = db\<lparr>od_codes := od_codes db @ [c]\<rparr>" "\<forall>x\<in>set (od_codes db). oc_code x \<noteq> hash_in env1 code"
    "c = \<lparr>oc_id = id_in env1 ''oauthCode'', oc_app = oa_id app, oc_user = hu_id u', oc_workspace = w,
          oc_code = hash_in env1 code, oc_redirectUri = uri, oc_scopes = scopes,
          oc_expiresAt = now_in env1 + 10 * 60 * 1000, oc_usedAt = None\<rparr>"
    by (rule issue_effect[OF assms(1)]) (rule that, assumption+)
  have c: "oc_code c = hash_in env1 code" "oc_app c = oa_id app" "oc_user c = hu_id u" "oc_workspace c = w"
    "oc_redirectUri c = uri" "oc_scopes c = scopes"
    using i(1,8) by simp_all
  obtain app2 c2 ts where e: "getOAuthAppByClientId client2 db02 = Inr app2"
    "find_code (hash_in env2 code) (od_codes db1) = Some c2" "oc_app c2 = oa_id app2" "oc_redirectUri c2 = uri2"
    "store_token env2 app2 c2 (od_tokens db1) = Inr ts"
    "db2 = db1\<lparr>od_codes := used_code (now_in env2) c2 (od_codes db1), od_tokens := ts\<rparr>"
    "tk = \<lparr>it_access = ''at_'' @ ov_random1 env2, it_refresh = ''rt_'' @ ov_random2 env2, it_expiresIn = 3600,
           it_scopes = oc_scopes c2\<rparr>"
    by (rule exchange_effect[OF assms(2)]) (rule that, assumption+)
  have "find_code (oc_code c) (od_codes db1) = Some c"
    using find_code_issued[of "od_codes db" c] i(7) c(1) unfolding i(6) by simp
  then have c2: "c2 = c" using e(2) assms(3) c(1) by simp
  have "c \<in> set (od_codes db1)" by (simp add: i(6))
  then have sc: "scopes_ok (oc_scopes c)" "tokens_ok (od_tokens db1)"
    using wf1 by (auto simp: oauth_wf_def codes_ok_def list_all_iff)
  obtain j where j: "find (\<lambda>t. ot_tokenHash t = hash_in env3 (it_access tk)) (od_tokens db2) = Some (token_of_code env2 app2 c j)"
    using store_token_found[OF e(5)[unfolded c2] sc(2,1)] e(6,7) assms(4) by auto
  have apps: "oa_id app2 = oa_id app" "uri2 = uri" using e(3,4) c2 c by simp_all
  have tk: "it_scopes tk = scopes" using e(7) c2 c by simp
  have "resolveOAuthAccessToken env3 (it_access tk) db2 =
        (case find (\<lambda>a. oa_id a = oa_id app) (od_apps db2) of
           None \<Rightarrow> None
         | Some a \<Rightarrow>
             if now_in env3 > now_in env2 + 3600 * 1000 \<or> \<not> oa_active a then None
             else map_option (\<lambda>v. (Auth_user (session_user v), w, it_scopes tk))
                    (find_user (hu_id u) (tb_users (od_auth db2))))"
    unfolding resolveOAuthAccessToken_def j using apps(1) c tk
    by (auto simp: token_of_code_def split: option.splits)
  moreover have "app \<in> set (od_apps db0) \<and> oa_clientId app = client \<and> app2 \<in> set (od_apps db02) \<and> oa_clientId app2 = client2"
    using getOAuthAppD[OF i(2)] getOAuthAppD[OF e(1)] by blast
  ultimately show ?thesis
    using i(3,4) apps tk requested_scopes_subset[OF i(5)] by (intro exI[of _ app] exI[of _ app2]) simp
qed

section \<open>Cut off\<close>

definition cut_off :: "string \<Rightarrow> string \<Rightarrow> 'l oauth_db \<Rightarrow> bool" where
  "cut_off w u db \<longleftrightarrow>
     (\<forall>t\<in>set (od_tokens db). ot_workspace t = w \<and> ot_user t = u \<longrightarrow> ot_revokedAt t \<noteq> None) \<and>
     (\<forall>c\<in>set (od_codes db). \<not> (oc_workspace c = w \<and> oc_user c = u))"

definition support_restricted :: "string \<Rightarrow> string \<Rightarrow> 'l oauth_db \<Rightarrow> bool" where
  "support_restricted w u db \<longleftrightarrow> \<not> grant_open (find_grant w u (tb_grants (od_auth db)))"

lemma authorization_needs_open_grant:
  assumes "withOAuthWorkspaceAuthorization env st u w auth0 auth = Inr ()"
  shows "grant_open (find_grant w u (tb_grants auth))"
  using assms unfolding withOAuthWorkspaceAuthorization_def by (auto simp: Let_def result_simps split: if_splits)

lemma store_token_cut_off:
  assumes "store_token env app c ts = Inr ts'" "\<not> (oc_workspace c = w \<and> oc_user c = u)"
    "\<forall>t\<in>set ts. ot_workspace t = w \<and> ot_user t = u \<longrightarrow> ot_revokedAt t \<noteq> None"
  shows "\<forall>t\<in>set ts'. ot_workspace t = w \<and> ot_user t = u \<longrightarrow> ot_revokedAt t \<noteq> None"
  by (rule store_token_all[OF assms(1,3)]) (use assms(2) in \<open>simp add: token_of_code_def\<close>)

lemma oauth_step_cut_off:
  assumes "oauth_step X db db'" "cut_off w u db" "support_restricted w u db"
  shows "cut_off w u db'"
  using assms(1)
proof cases
  case (step_create env actor w' name uris scopes st a)
  then show ?thesis
    using assms(2) createOAuthApp_effect[OF step_create] by (auto simp: cut_off_def)
next
  case (step_issue env actor client w' uri scopes0 st db0 code)
  obtain v c where i: "actor = Auth_user v" "db' = db\<lparr>od_codes := od_codes db @ [c]\<rparr>"
    "oc_user c = hu_id v \<and> oc_workspace c = w'"
    by (rule issue_effect[OF step_issue(1)]) (rule that, assumption, assumption, simp)
  obtain st' where a: "withOAuthWorkspaceAuthorization env st' (hu_id v) w' (od_auth db0) (od_auth db) = Inr ()"
    by (rule issue_authorized[OF step_issue(1)[unfolded i(1)]]) (rule that)
  have "\<not> (w' = w \<and> hu_id v = u)"
    using authorization_needs_open_grant[OF a] assms(3) by (auto simp: support_restricted_def)
  then show ?thesis
    using assms(2) i(2,3) by (simp add: cut_off_def)
next
  case (step_exchange env code client secret uri st db0 tk)
  obtain app c ts where e: "find_code (hash_in env code) (od_codes db) = Some c"
    "store_token env app c (od_tokens db) = Inr ts"
    "db' = db\<lparr>od_codes := used_code (now_in env) c (od_codes db), od_tokens := ts\<rparr>"
    by (rule exchange_effect[OF step_exchange(1)]) (rule that, assumption+)
  have "\<not> (oc_workspace c = w \<and> oc_user c = u)"
    using assms(2) find_codeD[OF e(1)] by (auto simp: cut_off_def)
  then show ?thesis
    using assms(2) store_token_cut_off[OF e(2), of w u] e(3) by (auto simp: cut_off_def used_code_def)
next
  case (step_refresh env refresh client secret st db0 tk)
  obtain t :: oauth_token where
    e: "db' = db\<lparr>od_tokens := map (\<lambda>x. if ot_id x = ot_id t \<and> ot_refreshHash x = Some (hash_in env refresh) \<and>
         ot_revokedAt x = None then refreshed_token env x else x) (od_tokens db)\<rparr>"
    by (rule refresh_effect[OF step_refresh(1)]) (rule that, assumption)
  then show ?thesis
    using assms(2) unfolding cut_off_def by (auto simp: refreshed_token_def)
next
  case (step_support cfg close_roles actor w' email role active expected g)
  then show ?thesis
    using assms(2) changeSupport_effect[OF step_support] unfolding cut_off_def by auto
next
  case (step_other apps auth)
  then show ?thesis using assms(2) by (simp add: cut_off_def)
qed

lemma resolve_needs_live_token:
  assumes "resolveOAuthAccessToken env s db = Some (Auth_user v, w, ss)"
  shows "\<exists>t\<in>set (od_tokens db). ot_workspace t = w \<and> ot_user t = hu_id v \<and> ot_revokedAt t = None"
proof (cases "find (\<lambda>t. ot_tokenHash t = hash_in env s) (od_tokens db)")
  case None
  then show ?thesis using assms by (simp add: resolveOAuthAccessToken_def)
next
  case (Some t)
  then have t: "t \<in> set (od_tokens db)" by (auto simp: find_Some_iff)
  obtain u where "find_user (ot_user t) (tb_users (od_auth db)) = Some u" "v = session_user u"
    "w = ot_workspace t" "ot_revokedAt t = None"
    using assms Some unfolding resolveOAuthAccessToken_def by (auto split: option.splits if_splits)
  then show ?thesis
    using t by (intro bexI[of _ t]) (auto simp: session_user_def find_user_def find_Some_iff)
qed

definition cut_token :: "int \<Rightarrow> string \<Rightarrow> string \<Rightarrow> oauth_token \<Rightarrow> oauth_token" where
  "cut_token now w u t =
     (if ot_workspace t = w \<and> ot_user t = u \<and> ot_revokedAt t = None then t\<lparr>ot_revokedAt := Some now\<rparr> else t)"

lemma cut_token_simps [simp]:
  "ot_workspace (cut_token now w u t) = ot_workspace t" "ot_user (cut_token now w u t) = ot_user t"
  "ot_tokenHash (cut_token now w u t) = ot_tokenHash t" "ot_refreshHash (cut_token now w u t) = ot_refreshHash t"
  "ot_revokedAt (cut_token now (ot_workspace t) (ot_user t) t) \<noteq> None"
  by (auto simp: cut_token_def)

lemma changeSupport_token:
  assumes "changeSupport cfg close_roles actor w email role active expected db = Inr (g, db1)"
    "t \<in> set (od_tokens db1)"
  obtains t0 where "t0 \<in> set (od_tokens db)" "t = cut_token (ac_now cfg) w (sg_user g) t0"
proof -
  have "od_tokens db1 = map (cut_token (ac_now cfg) w (sg_user g)) (od_tokens db)"
    using changeSupport_effect[OF assms(1)] by (simp add: cut_token_def[abs_def])
  with assms(2) that show thesis by (auto simp: image_iff)
qed

lemma changeSupport_cuts_off:
  assumes "changeSupport cfg close_roles actor w email role active expected db = Inr (g, db1)"
  shows "cut_off w (sg_user g) db1"
proof -
  note e = changeSupport_effect[OF assms]
  have "ot_revokedAt t \<noteq> None" if t: "t \<in> set (od_tokens db1)" "ot_workspace t = w" "ot_user t = sg_user g" for t
  proof -
    obtain t0 where t0: "t = cut_token (ac_now cfg) w (sg_user g) t0"
      by (rule changeSupport_token[OF assms t(1)])
    show ?thesis
      using t(2,3) cut_token_simps(5)[of "ac_now cfg" t0] unfolding t0 by simp
  qed
  moreover have "od_codes db1 = filter (\<lambda>c. \<not> (oc_workspace c = w \<and> oc_user c = sg_user g)) (od_codes db)"
    using e by (rule conjunct1[OF conjunct2])
  ultimately show ?thesis unfolding cut_off_def by auto
qed

lemma restricted_steps_cut_off:
  assumes "(\<lambda>a b. oauth_step X a b \<and> support_restricted w u a)\<^sup>*\<^sup>* db db'" "cut_off w u db"
  shows "cut_off w u db'"
  using assms by (induction rule: rtranclp_induct) (auto intro: oauth_step_cut_off)

definition token_dead :: "string \<Rightarrow> 'l oauth_db \<Rightarrow> bool" where
  "token_dead h = all_tokens (\<lambda>t. ot_tokenHash t = h \<longrightarrow> ot_revokedAt t \<noteq> None)"

definition refresh_dead :: "string \<Rightarrow> 'l oauth_db \<Rightarrow> bool" where
  "refresh_dead h = all_tokens (\<lambda>t. ot_refreshHash t = Some h \<longrightarrow> ot_revokedAt t \<noteq> None)"

lemma oauth_step_dead:
  assumes "oauth_step X db db'" "h \<in> X"
  shows "token_dead h db \<Longrightarrow> token_dead h db'" "refresh_dead h db \<Longrightarrow> refresh_dead h db'"
  using assms(2) unfolding token_dead_def refresh_dead_def
  by (auto elim!: oauth_step_tokens[OF assms(1)] simp: fresh_env_def token_of_code_def refreshed_token_def)

lemma oauth_steps_dead:
  assumes "(oauth_step X)\<^sup>*\<^sup>* db db'" "h \<in> X"
  shows "token_dead h db \<Longrightarrow> token_dead h db'" "refresh_dead h db \<Longrightarrow> refresh_dead h db'"
  using assms by (induction rule: rtranclp_induct) (auto intro: oauth_step_dead)

lemma changeSupport_kills:
  assumes "changeSupport cfg close_roles actor w email role active expected db = Inr (g, db1)" "oauth_wf db"
    "t \<in> set (od_tokens db)" "ot_workspace t = w" "ot_user t = sg_user g"
  shows "token_dead (ot_tokenHash t) db1" "ot_refreshHash t = Some r \<Longrightarrow> refresh_dead r db1"
proof -
  have cut: "cut_off w (sg_user g) db1" by (rule changeSupport_cuts_off[OF assms(1)])
  have same: "x = t" if "x \<in> set (od_tokens db)" "same_token x t" for x
  proof -
    have "ot_id x = ot_id t" "distinct (map ot_id (od_tokens db))"
      using assms(2,3) that by (auto simp: oauth_wf_def tokens_ok_def)
    then show ?thesis using that(1) assms(3) by (metis distinct_map inj_onD)
  qed
  have dead: "ot_revokedAt y \<noteq> None" if y: "y \<in> set (od_tokens db1)"
    "ot_tokenHash y = ot_tokenHash t \<or> ot_refreshHash y = ot_refreshHash t \<and> ot_refreshHash t \<noteq> None" for y
  proof -
    obtain x where x: "x \<in> set (od_tokens db)" "y = cut_token (ac_now cfg) w (sg_user g) x"
      by (rule changeSupport_token[OF assms(1) y(1)])
    have xy: "ot_tokenHash x = ot_tokenHash y \<and> ot_refreshHash x = ot_refreshHash y \<and>
        ot_workspace x = ot_workspace y \<and> ot_user x = ot_user y"
      unfolding x(2) by simp
    have "same_token x t" using xy y(2) by (auto simp: same_token_def)
    then have "x = t" by (rule same[OF x(1)])
    then show ?thesis using xy assms(4,5) cut y(1) by (simp add: cut_off_def)
  qed
  show "token_dead (ot_tokenHash t) db1" "ot_refreshHash t = Some r \<Longrightarrow> refresh_dead r db1"
    using dead by (auto simp: token_dead_def refresh_dead_def all_tokens_def)
qed

lemma dead_tokens_refused:
  shows "token_dead (hash_in env s) db \<Longrightarrow> resolveOAuthAccessToken env s db = None"
    "refresh_dead (hash_in env s) db \<Longrightarrow> \<exists>e. refreshAccessToken env s client secret st db0 db = Inl e"
proof -
  assume "token_dead (hash_in env s) db"
  then show "resolveOAuthAccessToken env s db = None"
    unfolding resolveOAuthAccessToken_def token_dead_def all_tokens_def
    by (auto simp: find_Some_iff split: option.split)
next
  assume d: "refresh_dead (hash_in env s) db"
  show "\<exists>e. refreshAccessToken env s client secret st db0 db = Inl e"
  proof (cases "refreshAccessToken env s client secret st db0 db")
    case (Inr r)
    then obtain tk db1 where r: "refreshAccessToken env s client secret st db0 db = Inr (tk, db1)"
      by (cases r) simp
    obtain t where "find_refresh (hash_in env s) (od_tokens db) = Some t" "ot_revokedAt t = None"
      by (rule refresh_effect[OF r]) (rule that, assumption+)
    then show ?thesis using d find_refreshD unfolding refresh_dead_def all_tokens_def by blast
  qed simp
qed

lemma retired_tokens_refused:
  shows "access_retired (hash_in env s) db \<Longrightarrow> resolveOAuthAccessToken env s db = None"
    "refresh_retired (hash_in env s) db \<Longrightarrow> \<exists>e. refreshAccessToken env s client secret st db0 db = Inl e"
  by (rule dead_tokens_refused, simp add: access_retired_def token_dead_def all_tokens_def)
     (rule dead_tokens_refused, simp add: refresh_retired_def refresh_dead_def all_tokens_def)

section \<open>An example\<close>

definition example_oauth_env :: "string \<Rightarrow> oauth_env" where
  "example_oauth_env r = \<lparr>ov_cfg = example_auth_cfg\<lparr>ac_new_id := (\<lambda>s. s @ r)\<rparr>, ov_random1 = r, ov_random2 = r\<rparr>"

definition example_app :: oauth_app where
  "example_app = \<lparr>oa_id = ''a'', oa_workspace = ''w'', oa_clientId = ''c'', oa_clientSecret = ''hs'', oa_name = ''app'',
     oa_redirectUris = [''r''], oa_scopes = DEFAULT_GPT_OAUTH_SCOPES, oa_active = True, oa_archivedAt = None,
     oa_createdAt = 0\<rparr>"

definition example_agent :: auth_actor where
  "example_agent = Auth_user (session_user (example_account ''s''))"

definition example_oauth_db :: "unit oauth_db" where
  "example_oauth_db =
     \<lparr>od_auth = (case example_grant SR_full 0 example_auth_db of Inl _ \<Rightarrow> example_auth_db | Inr (_, db) \<Rightarrow> db),
      od_apps = [example_app], od_codes = [], od_tokens = []\<rparr>"

definition example_issue :: "unit oauth_db \<Rightarrow> (string \<times> unit oauth_db) result" where
  "example_issue db = issueAuthorizationCode (example_oauth_env ''1'') example_agent ''c'' ''w'' ''r'' [] None db db"

definition example_exchange :: "unit oauth_db \<Rightarrow> (issued_tokens \<times> unit oauth_db) result" where
  "example_exchange db = exchangeAuthorizationCode (example_oauth_env ''2'') ''code_1'' ''c'' ''s'' ''r'' None db db"

definition example_refresh :: "unit oauth_db \<Rightarrow> (issued_tokens \<times> unit oauth_db) result" where
  "example_refresh db = refreshAccessToken (example_oauth_env ''3'') ''rt_2'' ''c'' None None db db"

definition example_restrict :: "unit oauth_db \<Rightarrow> (support_grant \<times> unit oauth_db) result" where
  "example_restrict db =
     changeSupport example_auth_cfg (\<lambda>a w m l. Inr l) (Auth_user example_owner) ''w'' ''s'' SR_setup True 1 db"

lemma example_oauth_wf: "oauth_wf example_oauth_db"
  by (simp add: oauth_wf_def example_oauth_db_def example_app_def apps_ok_def scopes_ok_def codes_ok_def tokens_ok_def)

lemma example_flow:
  obtains db1 tk db2 tk3 db3 g db4 t where "example_issue example_oauth_db = Inr (''code_1'', db1)"
    "example_exchange db1 = Inr (tk, db2)" "example_refresh db2 = Inr (tk3, db3)"
    "example_restrict db2 = Inr (g, db4)" "sg_user g = ''s''" "od_tokens db2 = [t]" "it_access tk = ''at_2''"
    "ot_tokenHash t = ''hat_2''" "ot_refreshHash t = Some ''hrt_2''" "ot_workspace t = ''w''" "ot_user t = ''s''"
proof -
  have run: "case example_issue example_oauth_db of Inl e \<Rightarrow> False | Inr (code, db1) \<Rightarrow>
      code = ''code_1'' \<and>
      (case example_exchange db1 of Inl e \<Rightarrow> False | Inr (tk, db2) \<Rightarrow>
        it_access tk = ''at_2'' \<and> (case example_refresh db2 of Inl e \<Rightarrow> False | Inr _ \<Rightarrow> True) \<and>
        (case example_restrict db2 of Inl e \<Rightarrow> False | Inr (g, _) \<Rightarrow> sg_user g = ''s'') \<and>
        (case od_tokens db2 of [] \<Rightarrow> False | t # ts \<Rightarrow> ts = [] \<and> ot_tokenHash t = ''hat_2'' \<and>
          ot_refreshHash t = Some ''hrt_2'' \<and> ot_workspace t = ''w'' \<and> ot_user t = ''s''))"
    by code_simp
  then obtain db1 where 1: "example_issue example_oauth_db = Inr (''code_1'', db1)"
    by (cases "example_issue example_oauth_db") auto
  with run obtain tk db2 where 2: "example_exchange db1 = Inr (tk, db2)" "it_access tk = ''at_2''"
    by (cases "example_exchange db1") auto
  with run 1 obtain tk3 db3 where 3: "example_refresh db2 = Inr (tk3, db3)"
    by (cases "example_refresh db2") auto
  from run 1 2 obtain g db4 where 4: "example_restrict db2 = Inr (g, db4)" "sg_user g = ''s''"
    by (cases "example_restrict db2") auto
  from run 1 2 obtain t where "od_tokens db2 = [t]" "ot_tokenHash t = ''hat_2''"
      "ot_refreshHash t = Some ''hrt_2''" "ot_workspace t = ''w''" "ot_user t = ''s''"
    by (cases "od_tokens db2") auto
  with 1 2 3 4 show thesis by (intro that)
qed

lemma example_hash [simp]: "hash_in (example_oauth_env r) s = ''h'' @ s"
  by (simp add: hash_in_def example_oauth_env_def example_auth_cfg_def)

lemma example_random [simp]: "ov_random1 (example_oauth_env r) = r" "ov_random2 (example_oauth_env r) = r"
  by (simp_all add: example_oauth_env_def)

lemma example_issued_wf:
  assumes "example_issue example_oauth_db = Inr (code, db1)"
  shows "oauth_step {} example_oauth_db db1" "oauth_wf db1"
proof -
  show "oauth_step {} example_oauth_db db1"
    using assms unfolding example_issue_def
    by (rule oauth_step.step_issue) (simp_all add: example_oauth_wf fresh_env_def)
  then show "oauth_wf db1" by (rule oauth_step_wf) (rule example_oauth_wf)
qed

lemma example_exchanged_wf:
  assumes "example_issue example_oauth_db = Inr (code, db1)" "example_exchange db1 = Inr (tk, db2)"
  shows "oauth_step {} db1 db2" "oauth_wf db2"
proof -
  show "oauth_step {} db1 db2"
    using assms(2) unfolding example_exchange_def by (rule oauth_step.step_exchange) (simp add: fresh_env_def)
  then show "oauth_wf db2" by (rule oauth_step_wf) (rule example_issued_wf(2)[OF assms(1)])
qed

section \<open>Properties\<close>

text \<open>
  Whatever operations run, in any order and with their first reads taken in other states, app
  scopes stay within the default ones, a code hash names one row, a token hash or refresh hash names
  one row, there is one row per app, user and workspace, and every scope handed out is a known one.
\<close>

lemma oauth_tables_stay_consistent:
  assumes "(oauth_step X)\<^sup>*\<^sup>* db db'" "oauth_wf db"
  shows "oauth_wf db'"
  using assms by (rule oauth_steps_wf)

text \<open>
  C22: an authorization code is good for one exchange: once an exchange of it has succeeded, whatever
  runs afterwards - codes issued, other codes exchanged, refreshes, support changes, accounts, grants
  and apps changed, as long as no new secret has the same hash - every other exchange of it fails,
  even one that read the code before it was spent.
\<close>

theorem code_is_good_for_one_exchange:
  assumes "exchangeAuthorizationCode env code client secret uri st db0 db = Inr (tk, db1)" "oauth_wf db"
    "(oauth_step {hash_in env code})\<^sup>*\<^sup>* db1 db2" "hash_in env' = hash_in env"
  shows "\<exists>e. exchangeAuthorizationCode env' code client' secret' uri' st' db0' db2 = Inl e"
proof (rule spent_code_refused)
  have "code_spent (hash_in env code) db2"
    using assms(3) exchange_spends[OF assms(1,2)] by (rule oauth_steps_spent) simp
  then show "code_spent (hash_in env' code) db2" by (simp add: assms(4))
qed

theorem code_is_good_for_one_exchange_witness:
  "case example_issue example_oauth_db of Inl e \<Rightarrow> False | Inr (code, db1) \<Rightarrow>
     (case example_exchange db1 of Inl e \<Rightarrow> False | Inr (tk, db2) \<Rightarrow>
        \<exists>e. exchangeAuthorizationCode (example_oauth_env ''4'') code ''c'' ''s'' ''r'' None db1 db2 = Inl e)"
proof (rule example_flow)
  fix db1 tk db2
  assume e: "example_issue example_oauth_db = Inr (''code_1'', db1)" "example_exchange db1 = Inr (tk, db2)"
  have "hash_in (example_oauth_env ''4'') = hash_in (example_oauth_env ''2'')" by (rule ext) simp
  then show ?thesis
    using code_is_good_for_one_exchange[OF e(2)[unfolded example_exchange_def] example_issued_wf(2)[OF e(1)]
      rtranclp.rtrancl_refl] e by simp
qed

text \<open>
  C23: a refresh retires what it replaces: from then on the refresh token it was given is refused and
  the access token of that row no longer resolves, whatever runs afterwards.
\<close>

theorem refresh_retires_tokens:
  assumes "refreshAccessToken env refresh client secret st db0 db = Inr (tk, db1)" "oauth_wf db"
    "find_refresh (hash_in env refresh) (od_tokens db) = Some t" "ot_tokenHash t = hash_in env access"
    "fresh_env {hash_in env refresh, hash_in env access} env"
    "(oauth_step {hash_in env refresh, hash_in env access})\<^sup>*\<^sup>* db1 db2" "hash_in env' = hash_in env"
  shows "(\<exists>e. refreshAccessToken env' refresh client' secret' st' db0' db2 = Inl e) \<and>
    resolveOAuthAccessToken env' access db2 = None"
proof -
  have r: "refresh_retired (hash_in env refresh) db1" "access_retired (hash_in env access) db1"
    using refresh_retires[OF assms(1-3,5)] assms(4) by simp_all
  have "refresh_retired (hash_in env' refresh) db2" "access_retired (hash_in env' access) db2"
    using oauth_steps_retired[OF assms(6), of "hash_in env access"]
      oauth_steps_retired[OF assms(6), of "hash_in env refresh"] r by (simp_all add: assms(7))
  then show ?thesis by (intro conjI retired_tokens_refused)
qed

theorem refresh_retires_tokens_witness:
  "case example_issue example_oauth_db of Inl e \<Rightarrow> False | Inr (code, db1) \<Rightarrow>
     (case example_exchange db1 of Inl e \<Rightarrow> False | Inr (tk, db2) \<Rightarrow>
        (case example_refresh db2 of Inl e \<Rightarrow> False | Inr (tk3, db3) \<Rightarrow>
           resolveOAuthAccessToken (example_oauth_env ''3'') ''at_2'' db3 = None))"
proof (rule example_flow)
  fix db1 tk db2 tk3 db3 t
  assume e: "example_issue example_oauth_db = Inr (''code_1'', db1)" "example_exchange db1 = Inr (tk, db2)"
    "example_refresh db2 = Inr (tk3, db3)" "od_tokens db2 = [t]" "ot_tokenHash t = ''hat_2''" "ot_refreshHash t = Some ''hrt_2''"
  have f: "find_refresh (hash_in (example_oauth_env ''3'') ''rt_2'') (od_tokens db2) = Some t"
    "ot_tokenHash t = hash_in (example_oauth_env ''3'') ''at_2''"
    "fresh_env {hash_in (example_oauth_env ''3'') ''rt_2'', hash_in (example_oauth_env ''3'') ''at_2''} (example_oauth_env ''3'')"
    using e by (simp_all add: find_refresh_def fresh_env_def)
  show ?thesis
    using refresh_retires_tokens[OF e(3)[unfolded example_refresh_def] example_exchanged_wf(2)[OF e(1,2)] f
      rtranclp.rtrancl_refl refl] e by simp
qed

text \<open>
  C21: what a flow hands out is what was granted: the code is issued for an app of that workspace to a
  redirect URI the app allows, only that app redeems it and with that URI, the scopes are the
  requested ones or the app's, and never more than the app's; and the access token resolves to the
  signed-in account, that workspace and those scopes for exactly an hour, while app and account exist.
\<close>

theorem granted_flow_opens_the_account:
  assumes "issueAuthorizationCode env1 (Auth_user u) client w uri scopes0 st db0 db = Inr (code, db1)"
    "exchangeAuthorizationCode env2 code client2 secret uri2 st2 db02 db1 = Inr (tk, db2)"
    "hash_in env2 = hash_in env1" "hash_in env3 = hash_in env2" "oauth_wf db" "oauth_wf db0"
  shows "\<exists>app app2. app \<in> set (od_apps db0) \<and> oa_clientId app = client \<and> oa_workspace app = w \<and>
      app2 \<in> set (od_apps db02) \<and> oa_clientId app2 = client2 \<and> oa_id app2 = oa_id app \<and>
      isAllowedOAuthRedirectUri (oa_redirectUris app) uri \<and> uri2 = uri \<and> set (it_scopes tk) \<subseteq> set (oa_scopes app) \<and>
      (normalizeScopes (Some scopes0) \<noteq> [] \<longrightarrow> it_scopes tk = normalizeScopes (Some scopes0)) \<and>
      resolveOAuthAccessToken env3 (it_access tk) db2 =
        (case find (\<lambda>a. oa_id a = oa_id app) (od_apps db2) of
           None \<Rightarrow> None
         | Some a \<Rightarrow>
             if now_in env3 > now_in env2 + 3600 * 1000 \<or> \<not> oa_active a then None
             else map_option (\<lambda>v. (Auth_user (session_user v), w, it_scopes tk))
                    (find_user (hu_id u) (tb_users (od_auth db2))))"
  using assms by (rule flow_parts)

theorem granted_flow_opens_the_account_witness:
  "case example_issue example_oauth_db of Inl e \<Rightarrow> False | Inr (code, db1) \<Rightarrow>
     (case example_exchange db1 of Inl e \<Rightarrow> False | Inr (tk, db2) \<Rightarrow>
        set (it_scopes tk) \<subseteq> set (oa_scopes example_app))"
proof (rule example_flow)
  fix db1 tk db2
  assume e: "example_issue example_oauth_db = Inr (''code_1'', db1)" "example_exchange db1 = Inr (tk, db2)"
  have h: "hash_in (example_oauth_env ''2'') = hash_in (example_oauth_env ''1'')" by (rule ext) simp
  obtain app where "app \<in> set (od_apps example_oauth_db)" "set (it_scopes tk) \<subseteq> set (oa_scopes app)"
    using granted_flow_opens_the_account[OF e(1)[unfolded example_issue_def example_agent_def]
      e(2)[unfolded example_exchange_def] h refl example_oauth_wf example_oauth_wf] by blast
  then show ?thesis using e by (simp add: example_oauth_db_def)
qed

text \<open>
  C24: a change of a support account's access, in either direction, ends the tokens it holds in that
  workspace for good: no access token of its rows resolves again and no refresh token of them is
  accepted again, whatever runs afterwards and even if full access is granted anew.
\<close>

theorem support_change_ends_tokens:
  assumes "changeSupport cfg close_roles actor w email role active expected db = Inr (g, db1)" "oauth_wf db"
    "t \<in> set (od_tokens db)" "ot_workspace t = w" "ot_user t = sg_user g"
    "ot_tokenHash t = hash_in env access" "ot_refreshHash t = Some (hash_in env refresh)"
    "(oauth_step {hash_in env access, hash_in env refresh})\<^sup>*\<^sup>* db1 db2" "hash_in env' = hash_in env"
  shows "resolveOAuthAccessToken env' access db2 = None \<and>
    (\<exists>e. refreshAccessToken env' refresh client secret st db0 db2 = Inl e)"
proof -
  have d: "token_dead (hash_in env access) db1" "refresh_dead (hash_in env refresh) db1"
    using changeSupport_kills[OF assms(1-5)] assms(6,7) by simp_all
  have "token_dead (hash_in env' access) db2" "refresh_dead (hash_in env' refresh) db2"
    using oauth_steps_dead[OF assms(8), of "hash_in env access"]
      oauth_steps_dead[OF assms(8), of "hash_in env refresh"] d by (simp_all add: assms(9))
  then show ?thesis by (intro conjI dead_tokens_refused)
qed

theorem support_change_ends_tokens_witness:
  "case example_issue example_oauth_db of Inl e \<Rightarrow> False | Inr (code, db1) \<Rightarrow>
     (case example_exchange db1 of Inl e \<Rightarrow> False | Inr (tk, db2) \<Rightarrow>
        (case example_restrict db2 of Inl e \<Rightarrow> False | Inr (g, db4) \<Rightarrow>
           resolveOAuthAccessToken (example_oauth_env ''5'') (it_access tk) db4 = None))"
proof (rule example_flow)
  fix db1 tk db2 g db4 t
  assume e: "example_issue example_oauth_db = Inr (''code_1'', db1)" "example_exchange db1 = Inr (tk, db2)"
    "example_restrict db2 = Inr (g, db4)" "it_access tk = ''at_2''"
    and t: "od_tokens db2 = [t]" "ot_tokenHash t = ''hat_2''" "ot_refreshHash t = Some ''hrt_2''"
      "ot_workspace t = ''w''" "ot_user t = ''s''" "sg_user g = ''s''"
  have f: "t \<in> set (od_tokens db2)" "ot_workspace t = ''w''" "ot_user t = sg_user g"
    "ot_tokenHash t = hash_in (example_oauth_env ''5'') ''at_2''"
    "ot_refreshHash t = Some (hash_in (example_oauth_env ''5'') ''rt_2'')"
    using t by simp_all
  show ?thesis
    using support_change_ends_tokens[OF e(3)[unfolded example_restrict_def] example_exchanged_wf(2)[OF e(1,2)] f
      rtranclp.rtrancl_refl refl] e by simp
qed

text \<open>
  While a support account's access is anything but full in a workspace, no OAuth token at all
  opens that workspace to it: from the change on, as long as every step starts from a restricted
  grant, whichever token is presented.
\<close>

lemma restricted_support_has_no_token:
  assumes "changeSupport cfg close_roles actor w email role active expected db = Inr (g, db1)"
    "(\<lambda>a b. oauth_step X a b \<and> support_restricted w (sg_user g) a)\<^sup>*\<^sup>* db1 db2"
  shows "\<nexists>v scopes. resolveOAuthAccessToken env s db2 = Some (Auth_user v, w, scopes) \<and> hu_id v = sg_user g"
proof -
  have "cut_off w (sg_user g) db2"
    by (rule restricted_steps_cut_off[OF assms(2) changeSupport_cuts_off[OF assms(1)]])
  then have dead: "\<forall>t\<in>set (od_tokens db2). ot_workspace t = w \<and> ot_user t = sg_user g \<longrightarrow> ot_revokedAt t \<noteq> None"
    by (simp add: cut_off_def)
  show ?thesis
  proof (rule notI, elim exE conjE)
    fix v scopes
    assume r: "resolveOAuthAccessToken env s db2 = Some (Auth_user v, w, scopes)" and v: "hu_id v = sg_user g"
    from resolve_needs_live_token[OF r] dead v show False by auto
  qed
qed

end
