(* ===== verification/Js_Json.thy ===== *)
theory Js_Json
  imports Js_Prelude "HOL-Library.Multiset"
begin

text \<open>
  JSON texts and object keys as the JavaScript run time has them: the order in which an object lists
  its own keys, \<^verbatim>\<open>JSON.stringify\<close>, equality of values up to the order of keys, and the
  facts that a text determines the value and that printing with sorted keys decides that equality.

  The numbers of a value are integers below 10^21 in magnitude, which print as their decimal digits.
\<close>

section \<open>Own keys\<close>

text \<open>
  Array indices come first, in numeric order, then the other keys in the order they were added.
  An object is the association list of its keys in that order.
\<close>

definition digit_value :: "char \<Rightarrow> nat" where
  "digit_value c = of_char c - 48"

definition is_digit :: "char \<Rightarrow> bool" where
  "is_digit c \<longleftrightarrow> 48 \<le> (of_char c :: nat) \<and> (of_char c :: nat) \<le> 57"

definition decimal_value :: "string \<Rightarrow> nat" where
  "decimal_value s = fold (\<lambda>c n. 10 * n + digit_value c) s 0"

definition array_index :: "string \<Rightarrow> bool" where
  "array_index s \<longleftrightarrow>
     s \<noteq> [] \<and> list_all is_digit s \<and> (hd s = CHR ''0'' \<longrightarrow> length s = 1) \<and> decimal_value s < 4294967295"

definition own_order :: "(string \<times> 'a) list \<Rightarrow> (string \<times> 'a) list" where
  "own_order fs =
     sort_key (decimal_value \<circ> fst) (filter (array_index \<circ> fst) fs) @ filter (Not \<circ> array_index \<circ> fst) fs"

definition put_field :: "string \<Rightarrow> json \<Rightarrow> (string \<times> json) list \<Rightarrow> (string \<times> json) list" where
  "put_field k v fs = (if k \<in> fst ` set fs then map (\<lambda>(k', v'). (k', if k' = k then v else v')) fs else own_order (fs @ [(k, v)]))"

section \<open>Texts\<close>

definition hex_digit :: "nat \<Rightarrow> char" where
  "hex_digit n = (if n < 10 then char_of (48 + n) else char_of (87 + n))"

definition escape_char :: "char \<Rightarrow> string" where
  "escape_char c =
     (let n = (of_char c :: nat) in
      if n = 34 then [CHR 0x5C, CHR 0x22]
      else if n = 92 then [CHR 0x5C, CHR 0x5C]
      else if n = 8 then [CHR 0x5C, CHR ''b'']
      else if n = 9 then [CHR 0x5C, CHR ''t'']
      else if n = 10 then [CHR 0x5C, CHR ''n'']
      else if n = 12 then [CHR 0x5C, CHR ''f'']
      else if n = 13 then [CHR 0x5C, CHR ''r'']
      else if n < 32 then [CHR 0x5C, CHR ''u'', CHR ''0'', CHR ''0'', hex_digit (n div 16), hex_digit (n mod 16)]
      else [c])"

definition quote_string :: "string \<Rightarrow> string" where
  "quote_string s = CHR 0x22 # concat (map escape_char s) @ [CHR 0x22]"

fun stringify :: "json \<Rightarrow> string" where
  "stringify JNull = ''null''"
| "stringify (JBool b) = (if b then ''true'' else ''false'')"
| "stringify (JNum n) = string_of_int n"
| "stringify (JStr s) = quote_string s"
| "stringify (JArr vs) = ''['' @ join_with '','' (map stringify vs) @ '']''"
| "stringify (JObj fs) =
     ''{'' @ join_with '','' (map (\<lambda>(k, v). quote_string k @ '':'' @ stringify v) fs) @ ''}''"

section \<open>Equality up to the order of keys\<close>

inductive json_eq :: "json \<Rightarrow> json \<Rightarrow> bool" where
  eq_null: "json_eq JNull JNull"
| eq_bool: "json_eq (JBool b) (JBool b)"
| eq_num: "json_eq (JNum n) (JNum n)"
| eq_str: "json_eq (JStr s) (JStr s)"
| eq_arr: "list_all2 json_eq vs ws \<Longrightarrow> json_eq (JArr vs) (JArr ws)"
| eq_obj: "(\<And>k. rel_option json_eq (map_of fs k) (map_of gs k)) \<Longrightarrow> json_eq (JObj fs) (JObj gs)"
monos list_all2_mono option.rel_mono

text \<open>No key twice, in any object of the value.\<close>

fun json_wf :: "json \<Rightarrow> bool" where
  "json_wf (JArr vs) = list_all json_wf vs"
| "json_wf (JObj fs) = (distinct (map fst fs) \<and> list_all (\<lambda>(k, v). json_wf v) fs)"
| "json_wf _ = True"

text \<open>A copy whose objects were filled in the order of the keys.\<close>

fun sorted_copy :: "json \<Rightarrow> json" where
  "sorted_copy (JArr vs) = JArr (map sorted_copy vs)"
| "sorted_copy (JObj fs) = JObj (own_order (sort_key fst (map (\<lambda>(k, v). (k, sorted_copy v)) fs)))"
| "sorted_copy v = v"

section \<open>A text determines its value\<close>

definition unescape :: "string \<Rightarrow> (char \<times> string) option" where
  "unescape s =
     (case s of
        [] \<Rightarrow> None
      | c # r \<Rightarrow>
          if c \<noteq> CHR 0x5C then Some (c, r)
          else
            (case r of
               [] \<Rightarrow> None
             | d # r' \<Rightarrow>
                 if d = CHR ''b'' then Some (CHR 0x08, r')
                 else if d = CHR ''t'' then Some (CHR 0x09, r')
                 else if d = CHR ''n'' then Some (CHR 0x0A, r')
                 else if d = CHR ''f'' then Some (CHR 0x0C, r')
                 else if d = CHR ''r'' then Some (CHR 0x0D, r')
                 else if d = CHR ''u'' then
                   (case r' of
                      _ # _ # h # l # r'' \<Rightarrow>
                        Some (char_of (16 * (of_char h - 48) + (if of_char l < (58 :: nat) then of_char l - 48 else of_char l - 87) :: nat), r'')
                    | _ \<Rightarrow> None)
                 else Some (d, r')))"

lemma hex_digits:
  assumes "n < 32"
  shows "16 * (of_char (hex_digit (n div 16)) - 48) +
    (if of_char (hex_digit (n mod 16)) < (58 :: nat) then of_char (hex_digit (n mod 16)) - 48
     else of_char (hex_digit (n mod 16)) - 87) = (n :: nat)"
proof -
  have "n div 16 < 2" using assms by linarith
  then have d: "of_char (hex_digit (n div 16)) = 48 + n div 16"
    by (simp add: hex_digit_def of_char_of)
  have "n mod 16 < 16" by simp
  then have m: "of_char (hex_digit (n mod 16)) = (if n mod 16 < 10 then 48 + n mod 16 else 87 + n mod 16)"
    by (simp add: hex_digit_def of_char_of)
  show ?thesis unfolding d m using mult_div_mod_eq[of 16 n] by (auto simp: ac_simps)
qed

lemma escape_char_eq:
  "escape_char c =
     (if c = CHR 0x22 then [CHR 0x5C, CHR 0x22]
      else if c = CHR 0x5C then [CHR 0x5C, CHR 0x5C]
      else if c = CHR 0x08 then [CHR 0x5C, CHR ''b'']
      else if c = CHR 0x09 then [CHR 0x5C, CHR ''t'']
      else if c = CHR 0x0A then [CHR 0x5C, CHR ''n'']
      else if c = CHR 0x0C then [CHR 0x5C, CHR ''f'']
      else if c = CHR 0x0D then [CHR 0x5C, CHR ''r'']
      else if (of_char c :: nat) < 32
      then [CHR 0x5C, CHR ''u'', CHR ''0'', CHR ''0'', hex_digit (of_char c div 16), hex_digit (of_char c mod 16)]
      else [c])"
proof -
  have "((of_char c :: nat) = of_char d) = (c = d)" for d by (rule of_char_eq_iff)
  from this[of "CHR 0x22"] this[of "CHR 0x5C"] this[of "CHR 0x08"] this[of "CHR 0x09"] this[of "CHR 0x0A"]
    this[of "CHR 0x0C"] this[of "CHR 0x0D"]
  show ?thesis unfolding escape_char_def Let_def by simp
qed

lemma unescape_u:
  "unescape (CHR 0x5C # CHR ''u'' # a # b # h # l # s) =
     Some (char_of (16 * (of_char h - 48) + (if of_char l < (58 :: nat) then of_char l - 48 else of_char l - 87) :: nat), s)"
  by (simp add: unescape_def)

lemma unescape_escape: "unescape (escape_char c @ s) = Some (c, s)"
proof (cases "(of_char c :: nat) < 32 \<and> c \<notin> {CHR 0x08, CHR 0x09, CHR 0x0A, CHR 0x0C, CHR 0x0D}")
  case True
  then have small: "(of_char c :: nat) < 32" by (rule conjunct1)
  have "c \<noteq> d" if "32 \<le> (of_char d :: nat)" for d
    using small that by (meson leD)
  from this[of "CHR 0x22"] this[of "CHR 0x5C"] have "c \<noteq> CHR 0x22" "c \<noteq> CHR 0x5C" by simp_all
  with True have "escape_char c =
      [CHR 0x5C, CHR ''u'', CHR ''0'', CHR ''0'', hex_digit (of_char c div 16), hex_digit (of_char c mod 16)]"
    unfolding escape_char_eq by simp
  then show ?thesis
    using hex_digits[of "of_char c"] True by (simp only: append.simps unescape_u) simp
next
  case False
  show ?thesis
  proof (cases "c \<in> {CHR 0x22, CHR 0x5C, CHR 0x08, CHR 0x09, CHR 0x0A, CHR 0x0C, CHR 0x0D}")
    case True
    then show ?thesis unfolding escape_char_eq by (elim insertE emptyE) (simp_all add: unescape_def)
  next
    case plain: False
    then have "escape_char c = [c]" using False unfolding escape_char_eq by simp
    then show ?thesis using plain by (simp add: unescape_def)
  qed
qed

lemma escape_char_hd: "escape_char c \<noteq> [] \<and> hd (escape_char c) \<noteq> CHR 0x22"
  by (simp add: escape_char_eq)

lemma quote_string_prefix:
  assumes "quote_string s @ r = quote_string t @ r'"
  shows "s = t \<and> r = r'"
proof -
  have "concat (map escape_char s) @ CHR 0x22 # r = concat (map escape_char t) @ CHR 0x22 # r' \<Longrightarrow> s = t \<and> r = r'"
  proof (induction s arbitrary: t)
    case Nil
    show ?case
    proof (cases t)
      case (Cons d u)
      then show ?thesis using Nil escape_char_hd[of d] by (cases "escape_char d") auto
    qed (use Nil in simp)
  next
    case (Cons c s)
    show ?case
    proof (cases t)
      case Nil
      then show ?thesis using Cons.prems escape_char_hd[of c] by (cases "escape_char c") auto
    next
      case t: (Cons d u)
      let ?x = "concat (map escape_char s) @ CHR 0x22 # r" and ?y = "concat (map escape_char u) @ CHR 0x22 # r'"
      have eq: "escape_char c @ ?x = escape_char d @ ?y" using Cons.prems t by simp
      have "Some (c, ?x) = unescape (escape_char d @ ?y)" unfolding eq[symmetric] by (simp only: unescape_escape)
      also have "\<dots> = Some (d, ?y)" by (rule unescape_escape)
      finally have "c = d" "?x = ?y" by simp_all
      then show ?thesis using Cons.IH[of u] t by simp
    qed
  qed
  then show ?thesis using assms by (simp add: quote_string_def)
qed

subsection \<open>Numbers\<close>

lemma of_char_digit: "of_char (digit_char d) = (48 + d mod 10 :: nat)"
  by (simp add: digit_char_def of_char_of)

lemma string_of_nat_digits: "c \<in> set (string_of_nat n) \<Longrightarrow> is_digit c"
proof (induction n rule: string_of_nat.induct)
  case (1 n)
  have "is_digit (digit_char n)" by (simp add: is_digit_def of_char_digit)
  with 1 show ?case by (auto simp: string_of_nat.simps[of n] split: if_splits)
qed

lemma string_of_nat_value: "decimal_value (string_of_nat n) = n"
proof (induction n rule: string_of_nat.induct)
  case (1 n)
  show ?case
  proof (cases "n < 10")
    case True
    then show ?thesis
      by (simp add: string_of_nat.simps[of n] decimal_value_def digit_value_def of_char_digit)
  next
    case False
    then show ?thesis using 1
      by (simp add: string_of_nat.simps[of n] decimal_value_def digit_value_def of_char_digit)
  qed
qed

lemma string_of_nat_ne [simp]: "string_of_nat n \<noteq> []"
  by (simp add: string_of_nat.simps[of n])

lemma string_of_nat_inj: "string_of_nat n = string_of_nat m \<Longrightarrow> n = m"
  by (metis string_of_nat_value)

lemma string_of_nat_sign: "string_of_nat n \<noteq> CHR ''-'' # s"
proof
  assume "string_of_nat n = CHR ''-'' # s"
  then have "is_digit (CHR ''-'')" using string_of_nat_digits[of "CHR ''-''" n] by simp
  then show False by (simp add: is_digit_def)
qed

lemma string_of_int_inj:
  assumes "string_of_int i = string_of_int k"
  shows "i = k"
proof (cases "i < 0"; cases "k < 0")
  assume "i < 0" "k < 0"
  then show ?thesis using assms string_of_nat_inj[of "nat (- i)" "nat (- k)"] by (simp add: string_of_int_def)
next
  assume "i < 0" "\<not> k < 0"
  then show ?thesis using assms string_of_nat_sign[of "nat k", symmetric] by (simp add: string_of_int_def)
next
  assume "\<not> i < 0" "k < 0"
  then show ?thesis using assms string_of_nat_sign[of "nat i"] by (simp add: string_of_int_def)
next
  assume "\<not> i < 0" "\<not> k < 0"
  then show ?thesis using assms string_of_nat_inj[of "nat i" "nat k"] by (simp add: string_of_int_def)
qed

definition delimited :: "string \<Rightarrow> bool" where
  "delimited r \<longleftrightarrow> r = [] \<or> hd r \<in> {CHR '','', CHR '']'', CHR ''}''}"

definition number_char :: "char \<Rightarrow> bool" where
  "number_char c \<longleftrightarrow> is_digit c \<or> c = CHR ''-''"

lemma string_of_int_chars: "c \<in> set (string_of_int n) \<Longrightarrow> number_char c"
  by (auto simp: string_of_int_def number_char_def split: if_splits dest: string_of_nat_digits)

lemma string_of_int_ne [simp]: "string_of_int n \<noteq> []"
  by (simp add: string_of_int_def)

lemma string_of_int_prefix:
  assumes "string_of_int n @ r = string_of_int m @ r'" "delimited r" "delimited r'"
  shows "n = m \<and> r = r'"
proof -
  have t: "takeWhile number_char (string_of_int k @ x) = string_of_int k" if "delimited x" for k x
  proof -
    have "x = [] \<or> \<not> number_char (hd x)" using that by (auto simp: delimited_def number_char_def is_digit_def)
    then have "takeWhile number_char x = []" by (cases x) auto
    then show ?thesis using string_of_int_chars[of _ k] by (simp add: takeWhile_append)
  qed
  have "string_of_int n = string_of_int m" using t[OF assms(2), of n] t[OF assms(3), of m] assms(1) by simp
  then show ?thesis using assms(1) string_of_int_inj by auto
qed

subsection \<open>Lists\<close>

definition prefix_code :: "('a \<Rightarrow> string) \<Rightarrow> 'a \<Rightarrow> bool" where
  "prefix_code f x \<longleftrightarrow>
     (\<forall>y r r'. delimited r \<longrightarrow> delimited r' \<longrightarrow> f x @ r = f y @ r' \<longrightarrow> x = y \<and> r = r')"

lemma prefix_codeD:
  "prefix_code f x \<Longrightarrow> f x @ r = f y @ r' \<Longrightarrow> delimited r \<Longrightarrow> delimited r' \<Longrightarrow> x = y \<and> r = r'"
  by (simp add: prefix_code_def)

lemma join_with_Cons: "join_with sep (x # xs) = x @ concat (map (\<lambda>y. sep @ y) xs)"
  by (induction xs arbitrary: x) simp_all

lemma delimited_tail:
  assumes "e \<in> {CHR '']'', CHR ''}''}"
  shows "delimited (concat (map (\<lambda>y. '','' @ f y) xs) @ e # r)"
  using assms by (cases xs) (auto simp: delimited_def)

lemma tail_prefix:
  assumes "\<And>x. x \<in> set xs \<Longrightarrow> prefix_code f x" "e \<in> {CHR '']'', CHR ''}''}"
    "concat (map (\<lambda>y. '','' @ f y) xs) @ e # r = concat (map (\<lambda>y. '','' @ f y) ys) @ e # r'"
  shows "xs = ys \<and> r = r'"
  using assms(1,3)
proof (induction xs arbitrary: ys)
  case Nil
  then show ?case using assms(2) by (cases ys) auto
next
  case (Cons x xs)
  note prems = Cons.prems
  show ?case
  proof (cases ys)
    case Nil
    then show ?thesis using prems(2) assms(2) by auto
  next
    case ys: (Cons y zs)
    have "f x @ concat (map (\<lambda>y. '','' @ f y) xs) @ e # r = f y @ concat (map (\<lambda>y. '','' @ f y) zs) @ e # r'"
      using prems(2) ys by simp
    then have xy: "x = y \<and> concat (map (\<lambda>y. '','' @ f y) xs) @ e # r = concat (map (\<lambda>y. '','' @ f y) zs) @ e # r'"
      using prems(1) assms(2) by (intro prefix_codeD[of f] delimited_tail) simp_all
    then have "xs = zs \<and> r = r'" using prems(1) by (intro Cons.IH) simp_all
    then show ?thesis using xy ys by simp
  qed
qed

lemma join_prefix:
  assumes "\<And>x. x \<in> set xs \<Longrightarrow> prefix_code f x" "\<And>y. f y \<noteq> [] \<and> hd (f y) \<noteq> e" "e \<in> {CHR '']'', CHR ''}''}"
    "join_with '','' (map f xs) @ e # r = join_with '','' (map f ys) @ e # r'"
  shows "xs = ys \<and> r = r'"
proof (cases xs; cases ys)
  fix y zs
  assume "xs = []" "ys = y # zs"
  then show ?thesis using assms(2)[of y] assms(4) by (cases "f y") (auto simp: join_with_Cons)
next
  fix x zs
  assume "xs = x # zs" "ys = []"
  then show ?thesis using assms(2)[of x] assms(4) by (cases "f x") (auto simp: join_with_Cons)
next
  fix x xs' y ys'
  assume e: "xs = x # xs'" "ys = y # ys'"
  have "f x @ concat (map (\<lambda>y. '','' @ f y) xs') @ e # r = f y @ concat (map (\<lambda>y. '','' @ f y) ys') @ e # r'"
    using assms(4) unfolding e by (simp add: join_with_Cons comp_def)
  then have xy: "x = y \<and> concat (map (\<lambda>y. '','' @ f y) xs') @ e # r = concat (map (\<lambda>y. '','' @ f y) ys') @ e # r'"
    using assms(1,3) e by (intro prefix_codeD[of f] delimited_tail) simp_all
  then have "xs' = ys' \<and> r = r'" using assms(1,3) e by (intro tail_prefix[of xs' f e]) simp_all
  then show ?thesis using xy e by simp
qed (use assms(4) in simp)

subsection \<open>Values\<close>

definition pair_text :: "string \<times> json \<Rightarrow> string" where
  "pair_text p = quote_string (fst p) @ '':'' @ stringify (snd p)"

lemma stringify_obj: "stringify (JObj fs) = ''{'' @ join_with '','' (map pair_text fs) @ ''}''"
  by (simp add: pair_text_def[abs_def] split_def)

declare stringify.simps(6) [simp del] stringify_obj [simp]

lemma string_of_int_hd: "number_char (hd (string_of_int n))"
  using string_of_int_chars[of "hd (string_of_int n)" n] by simp

lemma quote_string_hd [simp]: "hd (quote_string s) = CHR 0x22" "quote_string s \<noteq> []"
  by (simp_all add: quote_string_def)

lemma stringify_hd:
  "stringify j \<noteq> []"
  "hd (stringify j) =
     (case j of JNull \<Rightarrow> CHR ''n'' | JBool b \<Rightarrow> if b then CHR ''t'' else CHR ''f'' | JNum n \<Rightarrow> hd (string_of_int n)
      | JStr s \<Rightarrow> CHR 0x22 | JArr vs \<Rightarrow> CHR ''['' | JObj fs \<Rightarrow> CHR ''{'')"
  by (cases j; simp add: quote_string_def)+

fun json_kind :: "json \<Rightarrow> nat" where
  "json_kind JNull = 0"
| "json_kind (JBool b) = (if b then 1 else 2)"
| "json_kind (JNum n) = 3"
| "json_kind (JStr s) = 4"
| "json_kind (JArr vs) = 5"
| "json_kind (JObj fs) = 6"

lemma number_hd_ne [simp]:
  "\<not> number_char c \<Longrightarrow> hd (string_of_int n) \<noteq> c" "\<not> number_char c \<Longrightarrow> c \<noteq> hd (string_of_int n)"
  using string_of_int_hd[of n] by auto

lemma letters_not_numbers [simp]:
  "\<not> number_char (CHR ''n'')" "\<not> number_char (CHR ''t'')" "\<not> number_char (CHR ''f'')"
  "\<not> number_char (CHR 0x22)" "\<not> number_char (CHR ''['')" "\<not> number_char (CHR ''{'')"
  by (simp_all add: number_char_def is_digit_def)

lemma same_kind: "hd (stringify j) = hd (stringify k) \<Longrightarrow> json_kind j = json_kind k"
  by (cases j; cases k; simp add: stringify_hd split: if_splits)

lemma prefix_same_kind:
  assumes "stringify j @ r = stringify k @ r'"
  shows "json_kind j = json_kind k"
proof (rule same_kind)
  have "hd (stringify j @ r) = hd (stringify k @ r')" by (simp add: assms)
  then show "hd (stringify j) = hd (stringify k)" by (simp add: stringify_hd(1))
qed

lemma prefix_codeI:
  assumes "\<And>y r r'. json_kind j = json_kind y \<Longrightarrow> delimited r \<Longrightarrow> delimited r' \<Longrightarrow>
      stringify j @ r = stringify y @ r' \<Longrightarrow> j = y \<and> r = r'"
  shows "prefix_code stringify j"
  unfolding prefix_code_def using assms prefix_same_kind by blast

lemma kind_cases:
  "json_kind y = 0 \<Longrightarrow> y = JNull" "json_kind y = 1 \<Longrightarrow> y = JBool True" "json_kind y = 2 \<Longrightarrow> y = JBool False"
  "json_kind y = 3 \<Longrightarrow> \<exists>n. y = JNum n" "json_kind y = 4 \<Longrightarrow> \<exists>s. y = JStr s"
  "json_kind y = 5 \<Longrightarrow> \<exists>vs. y = JArr vs" "json_kind y = 6 \<Longrightarrow> \<exists>fs. y = JObj fs"
  by (cases y; simp split: if_splits)+

lemma pair_text_prefix:
  assumes "prefix_code stringify (snd p)"
  shows "prefix_code pair_text p"
  unfolding prefix_code_def
proof (intro allI impI)
  fix q r r'
  assume d: "delimited r" "delimited r'" and eq: "pair_text p @ r = pair_text q @ r'"
  have "fst p = fst q \<and> '':'' @ stringify (snd p) @ r = '':'' @ stringify (snd q) @ r'"
    using eq by (intro quote_string_prefix) (simp add: pair_text_def)
  then show "p = q \<and> r = r'"
    using prefix_codeD[OF assms _ d, of "snd q"] by (auto simp: prod_eq_iff)
qed

lemma stringify_prefix: "prefix_code stringify j"
proof (induction j)
  case JNull
  show ?case
  proof (rule prefix_codeI)
    fix y r r'
    assume k: "json_kind JNull = json_kind y" and eq: "stringify JNull @ r = stringify y @ r'"
    have "y = JNull" using k kind_cases(1)[of y] by simp
    then show "JNull = y \<and> r = r'" using eq by simp
  qed
next
  case (JBool b)
  show ?case
  proof (rule prefix_codeI)
    fix y r r'
    assume k: "json_kind (JBool b) = json_kind y" and eq: "stringify (JBool b) @ r = stringify y @ r'"
    have "y = JBool b"
    proof (cases b)
      case True
      then have "json_kind y = 1" using k by simp
      from kind_cases(2)[OF this] True show ?thesis by simp
    next
      case False
      then have "json_kind y = 2" using k by simp
      from kind_cases(3)[OF this] False show ?thesis by simp
    qed
    then show "JBool b = y \<and> r = r'" using eq by simp
  qed
next
  case (JNum n)
  show ?case
  proof (rule prefix_codeI)
    fix y r r'
    assume d: "delimited r" "delimited r'" and k: "json_kind (JNum n) = json_kind y"
      and eq: "stringify (JNum n) @ r = stringify y @ r'"
    obtain m where y: "y = JNum m" using k kind_cases(4)[of y] by auto
    show "JNum n = y \<and> r = r'" using string_of_int_prefix[of n r m r'] d eq y by simp
  qed
next
  case (JStr s)
  show ?case
  proof (rule prefix_codeI)
    fix y r r'
    assume k: "json_kind (JStr s) = json_kind y" and eq: "stringify (JStr s) @ r = stringify y @ r'"
    obtain t where y: "y = JStr t" using k kind_cases(5)[of y] by auto
    show "JStr s = y \<and> r = r'" using quote_string_prefix[of s r t r'] eq y by simp
  qed
next
  case (JArr vs)
  show ?case
  proof (rule prefix_codeI)
    fix y r r'
    assume k: "json_kind (JArr vs) = json_kind y" and eq: "stringify (JArr vs) @ r = stringify y @ r'"
    obtain ws where y: "y = JArr ws" using k kind_cases(6)[of y] by auto
    have "hd (stringify v) \<noteq> CHR '']''" for v
    proof (cases v)
      case (JNum n)
      have "\<not> number_char (CHR '']'')" by (simp add: number_char_def is_digit_def)
      then show ?thesis using JNum by simp
    qed (simp_all add: stringify_hd)
    then have "vs = ws \<and> r = r'"
      using eq y JArr by (intro join_prefix[of vs stringify "CHR '']''"]) (simp_all add: stringify_hd(1))
    then show "JArr vs = y \<and> r = r'" using y by simp
  qed
next
  case (JObj fs)
  show ?case
  proof (rule prefix_codeI)
    fix y r r'
    assume k: "json_kind (JObj fs) = json_kind y" and eq: "stringify (JObj fs) @ r = stringify y @ r'"
    obtain gs where y: "y = JObj gs" using k kind_cases(7)[of y] by auto
    have "prefix_code pair_text p" if "p \<in> set fs" for p
      using JObj[of p "snd p"] that by (intro pair_text_prefix) (cases p, simp)
    then have "fs = gs \<and> r = r'"
      using eq y by (intro join_prefix[of fs pair_text "CHR ''}''"]) (simp_all add: pair_text_def quote_string_def)
    then show "JObj fs = y \<and> r = r'" using y by simp
  qed
qed

lemma stringify_inj: "stringify j = stringify k \<longleftrightarrow> j = k"
  using prefix_codeD[OF stringify_prefix, of j "[]" k "[]"] by (auto simp: delimited_def)

section \<open>Sorted copies decide equality\<close>

lemma set_own_order [simp]: "set (own_order fs) = set fs"
  by (auto simp: own_order_def)

lemma sorted_object_eq_iff:
  assumes "distinct (map fst fs)" "distinct (map fst gs)"
  shows "own_order (sort_key fst fs) = own_order (sort_key fst gs) \<longleftrightarrow> map_of fs = map_of gs"
proof
  assume "own_order (sort_key fst fs) = own_order (sort_key fst gs)"
  then have "set (own_order (sort_key fst fs)) = set (own_order (sort_key fst gs))" by simp
  then show "map_of fs = map_of gs" using assms by (simp add: map_of_inject_set)
next
  assume "map_of fs = map_of gs"
  then have "set fs = set gs" using assms by (simp add: map_of_inject_set)
  then have "mset fs = mset gs"
    using assms set_eq_iff_mset_eq_distinct[of fs gs] by (simp add: distinct_map)
  then have "sort_key fst fs = sort_key fst gs"
    using assms(1) by (intro sort_key_inj_key_eq) (simp_all add: distinct_map)
  then show "own_order (sort_key fst fs) = own_order (sort_key fst gs)" by simp
qed

lemma map_of_copies: "map_of (map (\<lambda>(k, v). (k, f v)) fs) k = map_option f (map_of fs k)"
  by (induction fs) auto

lemma json_eq_simps [simp]:
  "json_eq JNull k \<longleftrightarrow> k = JNull" "json_eq (JBool b) k \<longleftrightarrow> k = JBool b" "json_eq (JNum n) k \<longleftrightarrow> k = JNum n"
  "json_eq (JStr s) k \<longleftrightarrow> k = JStr s"
  "json_eq (JArr vs) (JArr ws) \<longleftrightarrow> list_all2 json_eq vs ws"
  "json_eq (JObj fs) (JObj gs) \<longleftrightarrow> (\<forall>x. rel_option json_eq (map_of fs x) (map_of gs x))"
  by (auto elim: json_eq.cases intro: json_eq.intros)

lemma json_eq_arr: "json_eq (JArr vs) k \<longleftrightarrow> (\<exists>ws. k = JArr ws \<and> list_all2 json_eq vs ws)"
  by (auto elim: json_eq.cases intro: json_eq.intros)

lemma json_eq_obj:
  "json_eq (JObj fs) k \<longleftrightarrow> (\<exists>gs. k = JObj gs \<and> (\<forall>x. rel_option json_eq (map_of fs x) (map_of gs x)))"
  by (auto elim: json_eq.cases intro: json_eq.intros)

lemma sorted_copy_kind: "json_kind (sorted_copy j) = json_kind j"
  by (cases j) simp_all

lemma sorted_copy_eq_iff:
  assumes "json_wf j" "json_wf k"
  shows "sorted_copy j = sorted_copy k \<longleftrightarrow> json_eq j k"
  using assms
proof (induction j arbitrary: k)
  case (JArr vs)
  show ?case
  proof (cases k)
    case k: (JArr ws)
    have "map sorted_copy vs = map sorted_copy ws \<longleftrightarrow> list_all2 (\<lambda>v w. sorted_copy v = sorted_copy w) vs ws"
      by (simp add: list_all2_conv_all_nth list_eq_iff_nth_eq) auto
    also have "\<dots> \<longleftrightarrow> list_all2 json_eq vs ws"
      using JArr.IH JArr.prems k by (intro list.rel_cong refl) (auto simp: list_all_iff)
    finally show ?thesis using k by simp
  qed (simp_all add: json_eq_arr)
next
  case (JObj fs)
  show ?case
  proof (cases k)
    case k: (JObj gs)
    have d: "distinct (map fst fs)" "distinct (map fst gs)" using JObj.prems k by simp_all
    have keys: "distinct (map fst (map (\<lambda>(x, v). (x, sorted_copy v)) hs))" if "distinct (map fst hs)" for hs
      using that by (simp add: comp_def split_def)
    have iff: "(sorted_copy v = sorted_copy w) \<longleftrightarrow> json_eq v w" if "map_of fs x = Some v" "map_of gs x = Some w" for x v w
    proof -
      have "(x, v) \<in> set fs" "(x, w) \<in> set gs" using that by (auto dest: map_of_SomeD)
      then show ?thesis
        using JObj.IH[of "(x, v)" v w] JObj.prems k by (auto simp: list_all_iff)
    qed
    have "sorted_copy (JObj fs) = sorted_copy k \<longleftrightarrow>
        map_of (map (\<lambda>(x, v). (x, sorted_copy v)) fs) = map_of (map (\<lambda>(x, v). (x, sorted_copy v)) gs)"
      unfolding k sorted_copy.simps json.inject
      by (rule sorted_object_eq_iff[OF keys[OF d(1)] keys[OF d(2)]])
    also have "\<dots> \<longleftrightarrow> (\<forall>x. map_option sorted_copy (map_of fs x) = map_option sorted_copy (map_of gs x))"
      by (simp add: fun_eq_iff map_of_copies)
    also have "\<dots> \<longleftrightarrow> (\<forall>x. rel_option json_eq (map_of fs x) (map_of gs x))"
    proof (rule all_cong1)
      fix x
      show "map_option sorted_copy (map_of fs x) = map_option sorted_copy (map_of gs x) \<longleftrightarrow>
          rel_option json_eq (map_of fs x) (map_of gs x)"
        using iff[of x] by (cases "map_of fs x"; cases "map_of gs x") simp_all
    qed
    finally show ?thesis using k by simp
  qed (simp_all add: json_eq_obj)
next
  case JNull
  show ?case by (cases k) simp_all
next
  case (JBool b)
  show ?case by (cases k) auto
next
  case (JNum n)
  show ?case by (cases k) auto
next
  case (JStr t)
  show ?case by (cases k) auto
qed

theorem sorted_text_eq_iff:
  assumes "json_wf j" "json_wf k"
  shows "stringify (sorted_copy j) = stringify (sorted_copy k) \<longleftrightarrow> json_eq j k"
  using sorted_copy_eq_iff[OF assms] by (simp add: stringify_inj)

end
