(* ===== verification/Finance.thy ===== *)
theory Finance
  imports Module_Grants OAuth_Server Js_Json
begin

text \<open>
  The Finance module (\<^verbatim>\<open>packages/domain/src/finance.ts\<close>): its workspace configuration with the
  compare-and-set that changes it, the access policy, and projects, contributions and the
  confirmation of cash payables.

  \<open>compareAndSetFinanceConfig\<close> and \<open>confirmFinanceCashPayablePaid\<close> read and write outside a
  transaction, so they take one state per access.  Amounts are JavaScript numbers, here the finite
  ones as rationals.
\<close>

section \<open>Tables\<close>

record finance_client =
  fc_id :: string
  fc_workspace :: string
  fc_name :: string

record finance_consultant =
  fk_id :: string
  fk_workspace :: string
  fk_name :: string

record finance_project =
  fp_id :: string
  fp_workspace :: string
  fp_client :: "string option"
  fp_name :: string
  fp_budgetCents :: "rat option"
  fp_currency :: string
  fp_createdBy :: "string option"

datatype contribution_type = TIME | EXPENSE | CAPITAL_TYPE

datatype payment_choice = CASH | SLICING_PIE | CAPITAL_CHOICE

datatype cash_status = CASH_NOT_APPLICABLE | CASH_REQUESTED | CASH_PAID

record contribution_entry =
  ce_id :: string
  ce_workspace :: string
  ce_project :: "string option"
  ce_consultant :: "string option"
  ce_contributor :: "string option"
  ce_submittedBy :: "string option"
  ce_type :: contribution_type
  ce_choice :: payment_choice
  ce_cash :: cash_status
  ce_occurredAt :: int
  ce_minutes :: "rat option"
  ce_amountCents :: "rat option"
  ce_currency :: string
  ce_description :: "string option"
  ce_paidBy :: "string option"
  ce_paidAt :: "int option"
  ce_version :: int

record 'l finance_db =
  fd_modules :: "'l module_db"
  fd_clients :: "finance_client list"
  fd_consultants :: "finance_consultant list"
  fd_projects :: "finance_project list"
  fd_entries :: "contribution_entry list"

section \<open>Sections and configuration\<close>

definition FINANCE_PARENT_FLAG :: string where
  "FINANCE_PARENT_FLAG = ''FINANCE''"

definition FINANCE_ALL_MEMBER_WRITE_CONFIG_KEY :: string where
  "FINANCE_ALL_MEMBER_WRITE_CONFIG_KEY = ''financeAllMemberWrite''"

definition FINANCE_CAPABILITIES_CONFIG_KEY :: string where
  "FINANCE_CAPABILITIES_CONFIG_KEY = ''financeCapabilities''"

definition FINANCE_REPORT_IMPORT_CAPABILITY_KEY :: string where
  "FINANCE_REPORT_IMPORT_CAPABILITY_KEY = ''reportImports''"

record finance_section =
  fs_key :: string
  fs_label :: string
  fs_href :: string
  fs_flag :: "string option"

definition FINANCE_SECTIONS :: "finance_section list" where
  "FINANCE_SECTIONS = [
    \<lparr>fs_key = ''overview'', fs_label = ''Overview'', fs_href = ''/finance'', fs_flag = None\<rparr>,
    \<lparr>fs_key = ''projects'', fs_label = ''Projects'', fs_href = ''/finance/projects'', fs_flag = Some ''FINANCE_PROJECTS''\<rparr>,
    \<lparr>fs_key = ''clients'', fs_label = ''Clients'', fs_href = ''/finance/clients'', fs_flag = Some ''FINANCE_CLIENTS''\<rparr>,
    \<lparr>fs_key = ''consultants'', fs_label = ''Consultants'', fs_href = ''/finance/consultants'', fs_flag = Some ''FINANCE_CONSULTANTS''\<rparr>,
    \<lparr>fs_key = ''time'', fs_label = ''Time'', fs_href = ''/finance/time'', fs_flag = Some ''FINANCE_TIME''\<rparr>,
    \<lparr>fs_key = ''expenses'', fs_label = ''Expenses'', fs_href = ''/finance/expenses'', fs_flag = Some ''FINANCE_EXPENSES''\<rparr>,
    \<lparr>fs_key = ''reports'', fs_label = ''Reports'', fs_href = ''/finance/reports'', fs_flag = Some ''FINANCE_REPORTS''\<rparr>,
    \<lparr>fs_key = ''slicing-pie'', fs_label = ''Slicing Pie'', fs_href = ''/finance/slicing-pie'', fs_flag = Some ''FINANCE_SLICING_PIE''\<rparr>,
    \<lparr>fs_key = ''capital'', fs_label = ''Capital'', fs_href = ''/finance/capital'', fs_flag = Some ''FINANCE_CAPITAL''\<rparr>]"

definition FINANCE_SECTION_CONFIG_KEYS :: "string \<Rightarrow> string list" where
  "FINANCE_SECTION_CONFIG_KEYS key = (if key = ''slicing-pie'' then [''slicingPie'', ''slicing-pie''] else [key])"

definition FINANCE_SECTION_KEY_BY_FLAG :: "string \<Rightarrow> string option" where
  "FINANCE_SECTION_KEY_BY_FLAG fg = map_option fs_key (find (\<lambda>s. fs_flag s = Some fg) FINANCE_SECTIONS)"

definition FINANCE_FLAG_KEYS :: "string list" where
  "FINANCE_FLAG_KEYS = FINANCE_PARENT_FLAG # concat (map (\<lambda>s. case fs_flag s of None \<Rightarrow> [] | Some fg \<Rightarrow> [fg]) FINANCE_SECTIONS)"

definition PRISMA_INT_MAX :: int where
  "PRISMA_INT_MAX = 2147483647"

definition financeAllMemberWriteFromConfig :: "json \<Rightarrow> bool" where
  "financeAllMemberWriteFromConfig config \<longleftrightarrow> field config FINANCE_ALL_MEMBER_WRITE_CONFIG_KEY = Some (JBool True)"

definition as_bool :: "json option \<Rightarrow> bool option" where
  "as_bool v = (case v of Some (JBool b) \<Rightarrow> Some b | _ \<Rightarrow> None)"

text \<open>The first of the section's keys that holds a boolean.\<close>

fun first_bool :: "json \<Rightarrow> string list \<Rightarrow> bool option" where
  "first_bool raw [] = None"
| "first_bool raw (k # ks) = (case as_bool (field raw k) of Some b \<Rightarrow> Some b | None \<Rightarrow> first_bool raw ks)"

definition financeCapabilitiesFromConfig :: "json \<Rightarrow> string \<Rightarrow> bool option" where
  "financeCapabilitiesFromConfig config key =
     (case field config FINANCE_CAPABILITIES_CONFIG_KEY of
        None \<Rightarrow> None
      | Some raw \<Rightarrow>
          if key \<in> set (map fs_key FINANCE_SECTIONS) then first_bool raw (FINANCE_SECTION_CONFIG_KEYS key) else None)"

definition financeReportImportsEnabledFromConfig :: "json \<Rightarrow> bool" where
  "financeReportImportsEnabledFromConfig config \<longleftrightarrow>
     (case field config FINANCE_CAPABILITIES_CONFIG_KEY of
        None \<Rightarrow> False
      | Some raw \<Rightarrow> field raw FINANCE_REPORT_IMPORT_CAPABILITY_KEY = Some (JBool True))"

definition canonicalFinanceConfig :: "json \<Rightarrow> json" where
  "canonicalFinanceConfig config = sorted_copy config"

definition financeConfigIdentity :: "auth_config \<Rightarrow> bool \<Rightarrow> json \<Rightarrow> string" where
  "financeConfigIdentity cfg enabled config =
     ac_sha256 cfg (stringify (JObj [(''enabled'', JBool enabled), (''config'', canonicalFinanceConfig config)]))"

section \<open>Changing the configuration\<close>

datatype config_change = Set_report_imports bool | Set_config json bool

datatype invalid_reason = CONFIG_NOT_OBJECT | CAPABILITIES_NOT_OBJECT

datatype cas_result =
    Cas_updated bool json int string bool
  | Cas_conflict "string option"
  | Cas_invalid invalid_reason string

text \<open>A null configuration is stored as a JSON null and read as \<^verbatim>\<open>null\<close>.\<close>

definition config_of :: "flag_row \<Rightarrow> json" where
  "config_of r = (case wf_config r of None \<Rightarrow> JNull | Some j \<Rightarrow> j)"

definition find_finance_flag :: "string \<Rightarrow> flag_row list \<Rightarrow> flag_row option" where
  "find_finance_flag w rows = find (\<lambda>r. wf_workspace r = w \<and> wf_flag r = FINANCE_PARENT_FLAG) rows"

definition row_identity :: "auth_config \<Rightarrow> flag_row \<Rightarrow> string" where
  "row_identity cfg r = financeConfigIdentity cfg (wf_enabled r) (config_of r)"

definition updatedFinanceConfig :: "auth_config \<Rightarrow> flag_row \<Rightarrow> cas_result" where
  "updatedFinanceConfig cfg r =
     Cas_updated (wf_enabled r) (config_of r) (wf_updatedAt r) (row_identity cfg r)
       (financeReportImportsEnabledFromConfig (config_of r))"

definition winner_conflict :: "auth_config \<Rightarrow> string \<Rightarrow> flag_row list \<Rightarrow> cas_result" where
  "winner_conflict cfg w rows = Cas_conflict (map_option (row_identity cfg) (find_finance_flag w rows))"

text \<open>The spread of an object, or of nothing where it is null or absent.\<close>

definition fields_of :: "json \<Rightarrow> (string \<times> json) list" where
  "fields_of v = (case v of JObj fs \<Rightarrow> fs | _ \<Rightarrow> [])"

definition nextConfig :: "config_change \<Rightarrow> json \<Rightarrow> json + invalid_reason" where
  "nextConfig change current =
     (case change of
        Set_config config _ \<Rightarrow> Inl config
      | Set_report_imports b \<Rightarrow>
          if current \<noteq> JNull \<and> \<not> is_object current then Inr CONFIG_NOT_OBJECT
          else
            (let caps = (case field current FINANCE_CAPABILITIES_CONFIG_KEY of None \<Rightarrow> JNull | Some c \<Rightarrow> c) in
             if caps \<noteq> JNull \<and> \<not> is_object caps then Inr CAPABILITIES_NOT_OBJECT
             else Inl (JObj (put_field FINANCE_CAPABILITIES_CONFIG_KEY
                    (JObj (put_field FINANCE_REPORT_IMPORT_CAPABILITY_KEY (JBool b) (fields_of caps)))
                    (fields_of current)))))"

definition nextEnabled :: "config_change \<Rightarrow> bool \<Rightarrow> bool" where
  "nextEnabled change current = (case change of Set_config _ e \<Rightarrow> e | Set_report_imports _ \<Rightarrow> current)"

text \<open>
  The database compares JSON documents as documents: \<open>json_same\<close> is that comparison, on values as
  they are stored.
\<close>

definition json_same :: "json \<Rightarrow> json \<Rightarrow> bool" where
  "json_same a b \<longleftrightarrow> sorted_copy a = sorted_copy b"

definition compareAndSetFinanceConfig ::
    "auth_config \<Rightarrow> string \<Rightarrow> string option \<Rightarrow> config_change \<Rightarrow> flag_row list \<Rightarrow> flag_row list \<Rightarrow> flag_row list
     \<Rightarrow> (cas_result \<times> flag_row list) result" where
  "compareAndSetFinanceConfig cfg w expected change rows0 rows rows2 =
     (case find_finance_flag w rows0 of
        Some current \<Rightarrow>
          if Some (row_identity cfg current) \<noteq> expected
          then Inr (Cas_conflict (Some (row_identity cfg current)), rows)
          else
            (case nextConfig change (config_of current) of
               Inr reason \<Rightarrow> Inr (Cas_invalid reason (row_identity cfg current), rows)
             | Inl next \<Rightarrow>
                 (case find (\<lambda>r. wf_id r = wf_id current \<and> wf_enabled r = wf_enabled current \<and>
                        json_same (config_of r) (config_of current)) rows of
                    None \<Rightarrow> Inr (winner_conflict cfg w rows2, rows)
                  | Some r \<Rightarrow>
                      (let r' = r\<lparr>wf_enabled := nextEnabled change (wf_enabled r), wf_config := Some next,
                                  wf_updatedAt := ac_now cfg\<rparr> in
                       Inr (updatedFinanceConfig cfg r', map (\<lambda>x. if wf_id x = wf_id r then r' else x) rows))))
      | None \<Rightarrow>
          if expected \<noteq> None then Inr (Cas_conflict None, rows)
          else
            and_then defaultWorkspaceFeatureFlags (\<lambda>defaults.
            (let config = (case change of
                             Set_report_imports b \<Rightarrow>
                               JObj [(FINANCE_CAPABILITIES_CONFIG_KEY, JObj [(FINANCE_REPORT_IMPORT_CAPABILITY_KEY, JBool b)])]
                           | Set_config c _ \<Rightarrow> c);
                 r = \<lparr>wf_id = ac_new_id cfg ''workspaceFeatureFlag'', wf_workspace = w, wf_flag = FINANCE_PARENT_FLAG,
                      wf_enabled = nextEnabled change (map_of defaults FINANCE_PARENT_FLAG = Some True),
                      wf_config = Some config, wf_updatedAt = ac_now cfg\<rparr> in
             if find_finance_flag w rows \<noteq> None then Inr (winner_conflict cfg w rows2, rows)
             else if list_ex (\<lambda>x. wf_id x = wf_id r) rows then Inl unique_constraint
             else Inr (updatedFinanceConfig cfg r, rows @ [r]))))"

section \<open>Access policy\<close>

definition resolveFinanceSectionCapabilities :: "(string \<times> bool) list \<Rightarrow> json \<Rightarrow> (string \<times> bool) list" where
  "resolveFinanceSectionCapabilities flags config =
     map (\<lambda>s. (fs_key s,
            map_of flags FINANCE_PARENT_FLAG = Some True \<and>
            (case financeCapabilitiesFromConfig config (fs_key s) of
               Some configured \<Rightarrow> configured
             | None \<Rightarrow> (case fs_flag s of Some fg \<Rightarrow> map_of flags fg = Some True | None \<Rightarrow> True))))
       FINANCE_SECTIONS"

record flag_state =
  fg_flags :: "(string \<times> bool) list"
  fg_sections :: "(string \<times> bool) list"
  fg_imports :: bool
  fg_config :: json
  fg_updatedAt :: "(string \<times> int) list"

definition financeFlagState :: "string \<Rightarrow> flag_row list \<Rightarrow> flag_state result" where
  "financeFlagState w rows =
     and_then defaultWorkspaceFeatureFlags (\<lambda>defaults.
     (let records = filter (\<lambda>r. wf_workspace r = w \<and> wf_flag r \<in> set FINANCE_FLAG_KEYS) rows;
          flags = flags_over records defaults;
          config = (case map_of (rev (map (\<lambda>r. (wf_flag r, config_of r)) records)) FINANCE_PARENT_FLAG of
                      None \<Rightarrow> JNull | Some c \<Rightarrow> c) in
     Inr \<lparr>fg_flags = flags, fg_sections = resolveFinanceSectionCapabilities flags config,
          fg_imports = financeReportImportsEnabledFromConfig config, fg_config = config,
          fg_updatedAt = fold (\<lambda>r acc. AList.update (wf_flag r) (wf_updatedAt r) acc) records []\<rparr>))"

definition resolveFinanceModuleAccess ::
    "int \<Rightarrow> string \<Rightarrow> membership option \<Rightarrow> bool \<Rightarrow> 'l module_db \<Rightarrow> access_level result" where
  "resolveFinanceModuleAccess now w m enabled db =
     (if \<not> enabled then Inr Access_none
      else
        (case m of
           None \<Rightarrow> Inr Access_read
         | Some mb \<Rightarrow>
             (case getModuleByKey ''finance'' of
                None \<Rightarrow> Inl (AppError 500 ''FINANCE_MODULE_MISSING'' ''Finance module manifest is missing.'')
              | Some finance \<Rightarrow> resolveSingleModuleAccess now w (Some (mb_id mb)) (Some (mb_role mb)) finance db)))"

definition requireAgentScope :: "auth_actor \<Rightarrow> string \<Rightarrow> unit result" where
  "requireAgentScope actor scope =
     (case actor of
        Auth_user _ \<Rightarrow> Inr ()
      | Auth_agent a \<Rightarrow>
          if ag_provider a \<noteq> Auth_credential then Inr ()
          else if \<not> (case ag_scopes a of None \<Rightarrow> False | Some ss \<Rightarrow> scope \<in> set ss)
          then Inl (AppError 403 ''FORBIDDEN'' ''Agent credential is missing the required scope.'')
          else Inr ())"

record finance_policy =
  fy_workspace :: string
  fy_enabled :: bool
  fy_allMemberWrite :: bool
  fy_imports :: bool
  fy_member :: "membership option"
  fy_role :: "member_role option"
  fy_canRead :: bool
  fy_canWrite :: bool
  fy_flags :: "(string \<times> bool) list"
  fy_sections :: "(string \<times> bool) list"
  fy_config :: json
  fy_updatedAt :: "(string \<times> int) list"

definition getFinanceAccessPolicy ::
    "auth_config \<Rightarrow> auth_actor \<Rightarrow> string \<Rightarrow> support_store \<Rightarrow> 'l module_db \<Rightarrow> finance_policy result" where
  "getFinanceAccessPolicy cfg actor w st db =
     and_then (requireAgentScope actor ''finance:read'') (\<lambda>_.
     and_then (requireWorkspaceMembership cfg actor w None None st (gd_auth db)) (\<lambda>(m, st').
     and_then (financeFlagState w (gd_flags db)) (\<lambda>fg.
     (let enabled = (map_of (fg_flags fg) FINANCE_PARENT_FLAG = Some True);
          allWrite = (enabled \<and> financeAllMemberWriteFromConfig (fg_config fg)) in
     and_then (resolveFinanceModuleAccess (ac_now cfg) w m enabled db) (\<lambda>level.
     Inr \<lparr>fy_workspace = w, fy_enabled = enabled, fy_allMemberWrite = allWrite, fy_imports = fg_imports fg,
          fy_member = m, fy_role = map_option mb_role m,
          fy_canRead = (enabled \<and> isAtLeast level Access_read),
          fy_canWrite = (enabled \<and> (isAtLeast level Access_write \<or> m \<noteq> None \<and> allWrite)),
          fy_flags = fg_flags fg, fy_sections = fg_sections fg, fy_config = fg_config fg,
          fy_updatedAt = fg_updatedAt fg\<rparr>)))))"

definition requireFinanceReadAccess ::
    "auth_config \<Rightarrow> auth_actor \<Rightarrow> string \<Rightarrow> support_store \<Rightarrow> 'l module_db \<Rightarrow> finance_policy result" where
  "requireFinanceReadAccess cfg actor w st db =
     and_then (getFinanceAccessPolicy cfg actor w st db) (\<lambda>p.
     and_then (invariant (fy_canRead p) 404 ''FINANCE_NOT_ENABLED'' ''Finance is not enabled for this workspace.'') (\<lambda>_.
     Inr p))"

definition requireFinanceWriteAccess ::
    "auth_config \<Rightarrow> auth_actor \<Rightarrow> string \<Rightarrow> support_store \<Rightarrow> 'l module_db \<Rightarrow> finance_policy result" where
  "requireFinanceWriteAccess cfg actor w st db =
     and_then (requireFinanceReadAccess cfg actor w st db) (\<lambda>p.
     and_then (invariant (fy_canWrite p) 403 ''FORBIDDEN'' ''You do not have Finance write access.'') (\<lambda>_. Inr p))"

definition requireHumanActorUserId :: "auth_actor \<Rightarrow> string result" where
  "requireHumanActorUserId actor =
     (case actor of
        Auth_user u \<Rightarrow> Inr (hu_id u)
      | Auth_agent _ \<Rightarrow> Inl (AppError 403 ''HUMAN_REVIEW_REQUIRED''
          ''A human workspace member must perform this Finance action.''))"

definition requireFinanceHumanWriteAccess ::
    "auth_config \<Rightarrow> auth_actor \<Rightarrow> string \<Rightarrow> support_store \<Rightarrow> 'l module_db \<Rightarrow> finance_policy result" where
  "requireFinanceHumanWriteAccess cfg actor w st db =
     and_then (requireFinanceWriteAccess cfg actor w st db) (\<lambda>p.
     and_then (requireHumanActorUserId actor) (\<lambda>_. Inr p))"

definition requireFinanceCapability :: "(string \<times> bool) list \<Rightarrow> string \<Rightarrow> unit result" where
  "requireFinanceCapability sections fg =
     invariant (case FINANCE_SECTION_KEY_BY_FLAG fg of None \<Rightarrow> False | Some k \<Rightarrow> map_of sections k = Some True)
       404 ''FINANCE_CAPABILITY_DISABLED'' ''This Finance section is not enabled for this workspace.''"

definition requireFinanceReportImportCapability :: "finance_policy \<Rightarrow> finance_policy result" where
  "requireFinanceReportImportCapability p =
     and_then (requireFinanceCapability (fy_sections p) ''FINANCE_REPORTS'') (\<lambda>_.
     and_then (invariant (fy_imports p) 404 ''FINANCE_REPORT_IMPORTS_DISABLED''
       ''Finance report imports are not enabled for this workspace.'') (\<lambda>_. Inr p))"

definition requireFinanceReportImportReadAccess ::
    "auth_config \<Rightarrow> auth_actor \<Rightarrow> string \<Rightarrow> support_store \<Rightarrow> 'l module_db \<Rightarrow> finance_policy result" where
  "requireFinanceReportImportReadAccess cfg actor w st db =
     and_then (requireFinanceReadAccess cfg actor w st db) requireFinanceReportImportCapability"

definition requireFinanceReportImportHumanWriteAccess ::
    "auth_config \<Rightarrow> auth_actor \<Rightarrow> string \<Rightarrow> support_store \<Rightarrow> 'l module_db \<Rightarrow> finance_policy result" where
  "requireFinanceReportImportHumanWriteAccess cfg actor w st db =
     and_then (requireFinanceHumanWriteAccess cfg actor w st db) requireFinanceReportImportCapability"

section \<open>Input\<close>

text \<open>
  \<^verbatim>\<open>toUpperCase\<close> below 256; the sharp s becomes two letters, and the micro sign and y with
  diaeresis, whose capitals lie above, stay as they are: no currency code contains them either way.
\<close>

definition js_upper_char :: "char \<Rightarrow> string" where
  "js_upper_char c =
     (let n = (of_char c :: nat) in
      if n = 223 then ''SS''
      else if 97 \<le> n \<and> n \<le> 122 \<or> 224 \<le> n \<and> n \<le> 254 \<and> n \<noteq> 247 then [char_of (n - 32)] else [c])"

definition js_upper :: "string \<Rightarrow> string" where
  "js_upper s = concat (map js_upper_char s)"

definition capital_letter :: "char \<Rightarrow> bool" where
  "capital_letter c \<longleftrightarrow> 65 \<le> (of_char c :: nat) \<and> (of_char c :: nat) \<le> 90"

definition normalizeCurrency :: "string option \<Rightarrow> string result" where
  "normalizeCurrency v =
     (let currency = js_upper (js_trim (case v of None \<Rightarrow> ''USD'' | Some s \<Rightarrow> s)) in
      and_then (invariant (length currency = 3 \<and> list_all capital_letter currency) 400 ''INVALID_INPUT''
        ''Currency must be a three-letter code.'') (\<lambda>_. Inr currency))"

definition normalizeName :: "string \<Rightarrow> string \<Rightarrow> string result" where
  "normalizeName v label =
     (let name = js_trim v in
      and_then (invariant (length name > 0) 400 ''INVALID_INPUT'' (label @ '' is required.'')) (\<lambda>_.
      and_then (invariant (length name \<le> 160) 400 ''INVALID_INPUT'' (label @ '' is too long.'')) (\<lambda>_. Inr name)))"

definition is_integer :: "rat \<Rightarrow> bool" where
  "is_integer r \<longleftrightarrow> of_int \<lfloor>r\<rfloor> = r"

definition normalizeCents :: "rat option \<Rightarrow> string \<Rightarrow> bool \<Rightarrow> rat option result" where
  "normalizeCents v label allowZero =
     (case v of
        None \<Rightarrow> Inr None
      | Some n \<Rightarrow>
          and_then (invariant (is_integer n) 400 ''INVALID_INPUT'' (label @ '' must be a whole number of cents.'')) (\<lambda>_.
          and_then (invariant (if allowZero then n \<ge> 0 else n > 0) 400 ''INVALID_INPUT''
            (if allowZero then label @ '' cannot be negative.'' else label @ '' must be positive.'')) (\<lambda>_.
          and_then (invariant (n \<le> of_int PRISMA_INT_MAX) 400 ''INVALID_INPUT''
            (label @ '' cannot exceed '' @ string_of_int PRISMA_INT_MAX @ '' cents.'')) (\<lambda>_. Inr (Some n)))))"

definition require_reference :: "bool \<Rightarrow> string option \<Rightarrow> string \<Rightarrow> string \<Rightarrow> string option result" where
  "require_reference found i code message =
     (case i of
        None \<Rightarrow> Inr None
      | Some s \<Rightarrow> if js_trim s = [] then Inr None
          else and_then (invariant found 404 code message) (\<lambda>_. Inr (Some (js_trim s))))"

definition requireFinanceClientInWorkspace :: "string \<Rightarrow> string option \<Rightarrow> 'l finance_db \<Rightarrow> string option result" where
  "requireFinanceClientInWorkspace w i db =
     require_reference (list_ex (\<lambda>c. Some (fc_id c) = map_option js_trim i \<and> fc_workspace c = w) (fd_clients db)) i
       ''FINANCE_CLIENT_NOT_FOUND'' ''Finance client not found.''"

definition requireFinanceProjectInWorkspace :: "string \<Rightarrow> string option \<Rightarrow> 'l finance_db \<Rightarrow> string option result" where
  "requireFinanceProjectInWorkspace w i db =
     require_reference (list_ex (\<lambda>p. Some (fp_id p) = map_option js_trim i \<and> fp_workspace p = w) (fd_projects db)) i
       ''FINANCE_PROJECT_NOT_FOUND'' ''Finance project not found.''"

definition requireFinanceConsultantInWorkspace :: "string \<Rightarrow> string option \<Rightarrow> 'l finance_db \<Rightarrow> string option result" where
  "requireFinanceConsultantInWorkspace w i db =
     require_reference (list_ex (\<lambda>c. Some (fk_id c) = map_option js_trim i \<and> fk_workspace c = w) (fd_consultants db)) i
       ''FINANCE_CONSULTANT_NOT_FOUND'' ''Finance consultant not found.''"

definition requireFinanceContributorUserInWorkspace ::
    "string \<Rightarrow> string option \<Rightarrow> string \<Rightarrow> 'l finance_db \<Rightarrow> string result" where
  "requireFinanceContributorUserInWorkspace w i fallback db =
     (let uid = (case i of None \<Rightarrow> fallback | Some s \<Rightarrow> if js_trim s = [] then fallback else js_trim s) in
      and_then (invariant (case find_member w uid (tb_members (gd_auth (fd_modules db))) of None \<Rightarrow> False | Some m \<Rightarrow> am_active m)
        404 ''FINANCE_CONTRIBUTOR_NOT_FOUND'' ''Finance contributor is not an active member of this workspace.'') (\<lambda>_.
      Inr uid))"

section \<open>Projects and contributions\<close>

definition createFinanceProject ::
    "auth_config \<Rightarrow> auth_actor \<Rightarrow> string \<Rightarrow> string \<Rightarrow> string option \<Rightarrow> rat option \<Rightarrow> string option
     \<Rightarrow> support_store \<Rightarrow> 'l finance_db \<Rightarrow> (finance_project \<times> 'l finance_db) result" where
  "createFinanceProject cfg actor w name0 client0 budget0 currency0 st db =
     and_then (requireFinanceHumanWriteAccess cfg actor w st (fd_modules db)) (\<lambda>policy.
     and_then (requireHumanActorUserId actor) (\<lambda>uid.
     and_then (requireFinanceCapability (fy_sections policy) ''FINANCE_PROJECTS'') (\<lambda>_.
     and_then (requireFinanceClientInWorkspace w client0 db) (\<lambda>client.
     and_then (normalizeName name0 ''Project name'') (\<lambda>name.
     and_then (normalizeCents budget0 ''Budget'' True) (\<lambda>budget.
     and_then (normalizeCurrency currency0) (\<lambda>currency.
     (let p = \<lparr>fp_id = ac_new_id cfg ''financeProject'', fp_workspace = w, fp_client = client, fp_name = name,
               fp_budgetCents = budget, fp_currency = currency, fp_createdBy = Some uid\<rparr> in
      if list_ex (\<lambda>x. fp_id x = fp_id p) (fd_projects db) then Inl unique_constraint
      else if list_ex (\<lambda>x. fp_workspace x = w \<and> fp_name x = name) (fd_projects db)
      then Inl (AppError 409 ''FINANCE_PROJECT_ALREADY_EXISTS'' ''A Finance project with this name already exists.'')
      else Inr (p, db\<lparr>fd_projects := fd_projects db @ [p]\<rparr>)))))))))"

record contribution_params =
  cp_project :: "string option"
  cp_consultant :: "string option"
  cp_contributor :: "string option"
  cp_type :: contribution_type
  cp_choice :: payment_choice
  cp_occurredAt :: "int option"
  cp_minutes :: "rat option"
  cp_amountCents :: "rat option"
  cp_currency :: "string option"
  cp_description :: "string option"

definition capability_of_type :: "contribution_type \<Rightarrow> string" where
  "capability_of_type t = (if t = CAPITAL_TYPE then ''FINANCE_CAPITAL'' else ''FINANCE_SLICING_PIE'')"

definition minutes_ok :: "rat option \<Rightarrow> bool" where
  "minutes_ok v = (case v of None \<Rightarrow> True | Some n \<Rightarrow> is_integer n \<and> n > 0 \<and> n \<le> of_int PRISMA_INT_MAX)"

text \<open>The three references are looked up concurrently; here the first bad one is reported.\<close>

definition createFinanceContributionEntry ::
    "auth_config \<Rightarrow> auth_actor \<Rightarrow> string \<Rightarrow> contribution_params \<Rightarrow> support_store \<Rightarrow> 'l finance_db
     \<Rightarrow> (contribution_entry \<times> 'l finance_db) result" where
  "createFinanceContributionEntry cfg actor w cp st db =
     and_then (requireFinanceHumanWriteAccess cfg actor w st (fd_modules db)) (\<lambda>policy.
     and_then (requireHumanActorUserId actor) (\<lambda>uid.
     and_then (requireFinanceCapability (fy_sections policy) (capability_of_type (cp_type cp))) (\<lambda>_.
     and_then (invariant (cp_choice cp \<noteq> CAPITAL_CHOICE \<or> cp_type cp = CAPITAL_TYPE) 400 ''INVALID_INPUT''
       ''Capital payment choice requires a capital contribution.'') (\<lambda>_.
     and_then (invariant (minutes_ok (cp_minutes cp)) 400 ''INVALID_INPUT''
       ''Minutes must be a positive whole number within the Prisma Int range.'') (\<lambda>_.
     and_then (normalizeCents (cp_amountCents cp) ''Amount'' False) (\<lambda>amount.
     and_then (invariant (cp_type cp \<noteq> TIME \<or> cp_minutes cp \<noteq> None) 400 ''INVALID_INPUT''
       ''Time contributions require positive minutes.'') (\<lambda>_.
     and_then (invariant (cp_choice cp = CASH \<or> cp_type cp = TIME \<or> amount \<noteq> None) 400 ''INVALID_INPUT''
       ''Expense and capital contributions require a positive amount.'') (\<lambda>_.
     and_then (requireFinanceProjectInWorkspace w (cp_project cp) db) (\<lambda>project.
     and_then (requireFinanceConsultantInWorkspace w (cp_consultant cp) db) (\<lambda>consultant.
     and_then (requireFinanceContributorUserInWorkspace w (cp_contributor cp) uid db) (\<lambda>contributor.
     and_then (invariant (cp_choice cp \<noteq> CASH \<or> amount \<noteq> None) 400 ''PAYABLE_AMOUNT_REQUIRED''
       ''Cash payables require a positive amount.'') (\<lambda>_.
     and_then (normalizeCurrency (cp_currency cp)) (\<lambda>currency.
     (let e = \<lparr>ce_id = ac_new_id cfg ''financeContributionEntry'', ce_workspace = w, ce_project = project,
               ce_consultant = consultant, ce_contributor = Some contributor, ce_submittedBy = Some uid,
               ce_type = cp_type cp, ce_choice = cp_choice cp,
               ce_cash = (if cp_choice cp = CASH then CASH_REQUESTED else CASH_NOT_APPLICABLE),
               ce_occurredAt = (case cp_occurredAt cp of None \<Rightarrow> ac_now cfg | Some t \<Rightarrow> t),
               ce_minutes = cp_minutes cp, ce_amountCents = amount, ce_currency = currency,
               ce_description = (case cp_description cp of None \<Rightarrow> None
                                 | Some d \<Rightarrow> if js_trim d = [] then None else Some (js_trim d)),
               ce_paidBy = None, ce_paidAt = None, ce_version = 1\<rparr> in
      if list_ex (\<lambda>x. ce_id x = ce_id e) (fd_entries db) then Inl unique_constraint
      else Inr (e, db\<lparr>fd_entries := fd_entries db @ [e]\<rparr>)))))))))))))))"

definition find_entry :: "string \<Rightarrow> string \<Rightarrow> contribution_entry list \<Rightarrow> contribution_entry option" where
  "find_entry w i es = find (\<lambda>e. ce_id e = i \<and> ce_workspace e = w) es"

definition creator_ids :: "contribution_entry \<Rightarrow> string list" where
  "creator_ids e = filter (\<lambda>u. u \<noteq> []) (map the (filter (\<lambda>u. u \<noteq> None) [ce_submittedBy e, ce_contributor e]))"

definition payable_row :: "string \<Rightarrow> string \<Rightarrow> rat \<Rightarrow> contribution_entry \<Rightarrow> bool" where
  "payable_row w i expected e \<longleftrightarrow>
     ce_id e = i \<and> ce_workspace e = w \<and> ce_choice e = CASH \<and> ce_cash e = CASH_REQUESTED \<and> of_int (ce_version e) = expected"

definition paid_row :: "int \<Rightarrow> string \<Rightarrow> contribution_entry \<Rightarrow> contribution_entry" where
  "paid_row now uid e =
     e\<lparr>ce_cash := CASH_PAID, ce_paidBy := Some uid, ce_paidAt := Some now, ce_version := ce_version e + 1\<rparr>"

text \<open>Policy and payable are read in \<open>db0\<close>, the conditional update runs in \<open>db\<close>.\<close>

definition confirmFinanceCashPayablePaid ::
    "auth_config \<Rightarrow> auth_actor \<Rightarrow> string \<Rightarrow> string \<Rightarrow> rat \<Rightarrow> support_store \<Rightarrow> 'l finance_db \<Rightarrow> 'l finance_db
     \<Rightarrow> (contribution_entry \<times> 'l finance_db) result" where
  "confirmFinanceCashPayablePaid cfg actor w i expected st db0 db =
     and_then (requireFinanceHumanWriteAccess cfg actor w st (fd_modules db0)) (\<lambda>policy.
     and_then (requireHumanActorUserId actor) (\<lambda>uid.
     and_then (invariant (is_integer expected \<and> expected > 0 \<and> expected \<le> of_int PRISMA_INT_MAX) 400 ''INVALID_INPUT''
       ''A payable version within the Prisma Int range is required.'') (\<lambda>_.
     (case find_entry w i (fd_entries db0) of
        None \<Rightarrow> Inl (AppError 404 ''NOT_FOUND'' ''Finance payable not found.'')
      | Some payable \<Rightarrow>
          and_then (invariant (ce_choice payable = CASH) 400 ''PAYABLE_NOT_CASH''
            ''Only cash payables can be confirmed as paid.'') (\<lambda>_.
          and_then (invariant (ce_cash payable \<noteq> CASH_PAID) 409 ''PAYABLE_ALREADY_PAID'' ''This payable is already paid.'') (\<lambda>_.
          and_then (invariant (ce_cash payable = CASH_REQUESTED) 400 ''PAYABLE_NOT_REQUESTED''
            ''This payable is not awaiting payment.'') (\<lambda>_.
          and_then (requireFinanceCapability (fy_sections policy) (capability_of_type (ce_type payable))) (\<lambda>_.
          and_then (invariant (creator_ids payable \<noteq> []) 409 ''PAYABLE_SUBMITTER_REQUIRED''
            ''A human submitter must be recorded before payment can be confirmed.'') (\<lambda>_.
          if uid \<in> set (creator_ids payable)
          then Inl (AppError 403 ''PEER_REVIEW_REQUIRED'' ''Needs another contributor to confirm.'')
          else
            (let rows = filter (payable_row w i expected) (fd_entries db);
                 es = map (\<lambda>e. if payable_row w i expected e then paid_row (ac_now cfg) uid e else e) (fd_entries db) in
             and_then (invariant (length rows = 1) 409 ''CONFLICT''
               ''The payable changed before payment confirmation. Refresh and try again.'') (\<lambda>_.
             (case find (\<lambda>e. ce_id e = i) es of
                None \<Rightarrow> Inl (PlainError ''No record was found for a query.'' (Some ''P2025''))
              | Some e \<Rightarrow> Inr (e, db\<lparr>fd_entries := es\<rparr>)))))))))))))"

end
