(* ===== verification/Finance_Config_Facts.thy ===== *)
theory Finance_Config_Facts
  imports Finance Auth_Facts
begin

text \<open>
  The Finance configuration: its identity is exact, and the compare-and-set is atomic although it
  reads and writes separately and outside a transaction.
\<close>

section \<open>Configurations\<close>

lemma identity_eq_iff:
  assumes "inj (ac_sha256 cfg)" "json_wf c" "json_wf d"
  shows "financeConfigIdentity cfg e c = financeConfigIdentity cfg f d \<longleftrightarrow> e = f \<and> json_eq c d"
  unfolding financeConfigIdentity_def canonicalFinanceConfig_def inj_eq[OF assms(1)] stringify_inj
    sorted_copy_eq_iff[OF assms(2,3), symmetric] by simp

lemma json_eq_is_object: "json_eq c d \<Longrightarrow> is_object c = is_object d \<and> (c = JNull \<longleftrightarrow> d = JNull)"
  by (auto elim: json_eq.cases)

lemma json_eq_field: "json_eq c d \<Longrightarrow> rel_option json_eq (field c k) (field d k)"
  by (auto elim: json_eq.cases)

lemma json_eq_bool: "rel_option json_eq v w \<Longrightarrow> (v = Some (JBool b)) = (w = Some (JBool b))"
  by (auto elim!: option.rel_cases elim: json_eq.cases)

lemma json_eq_as_bool: "rel_option json_eq v w \<Longrightarrow> as_bool v = as_bool w"
  by (auto elim!: option.rel_cases elim: json_eq.cases simp: as_bool_def)

lemma json_eq_first_bool: "json_eq c d \<Longrightarrow> first_bool c ks = first_bool d ks"
  by (induction ks) (auto simp: json_eq_as_bool[OF json_eq_field] split: option.split)

lemma json_eq_config:
  assumes "json_eq c d"
  shows "financeAllMemberWriteFromConfig c = financeAllMemberWriteFromConfig d"
    "financeCapabilitiesFromConfig c = financeCapabilitiesFromConfig d"
    "financeReportImportsEnabledFromConfig c = financeReportImportsEnabledFromConfig d"
proof -
  note f = json_eq_field[OF assms]
  show "financeAllMemberWriteFromConfig c = financeAllMemberWriteFromConfig d"
    using json_eq_bool[OF f] by (simp add: financeAllMemberWriteFromConfig_def)
  show "financeCapabilitiesFromConfig c = financeCapabilitiesFromConfig d"
    using f[of FINANCE_CAPABILITIES_CONFIG_KEY] json_eq_first_bool
    unfolding financeCapabilitiesFromConfig_def by (auto elim!: option.rel_cases)
  show "financeReportImportsEnabledFromConfig c = financeReportImportsEnabledFromConfig d"
    using f[of FINANCE_CAPABILITIES_CONFIG_KEY] json_eq_bool[OF json_eq_field]
    unfolding financeReportImportsEnabledFromConfig_def by (auto elim!: option.rel_cases)
qed

lemma map_of_own_order:
  assumes "distinct (map fst fs)"
  shows "map_of (own_order fs) = map_of fs"
proof -
  have "distinct fs" using assms by (simp add: distinct_map)
  then have "distinct (own_order fs)" by (auto simp: own_order_def)
  moreover have "inj_on fst (set (own_order fs))" using assms by (simp add: distinct_map)
  ultimately have "distinct (map fst (own_order fs))" by (simp add: distinct_map)
  then show ?thesis using assms by (simp add: map_of_inject_set)
qed

lemma map_of_replace:
  "map_of (map (\<lambda>(k', v'). (k', if k' = k then v else v')) fs) x =
     (if x = k then map_option (\<lambda>_. v) (map_of fs x) else map_of fs x)"
  by (induction fs) (auto simp: split_def)

lemma map_of_put_field:
  assumes "distinct (map fst fs)"
  shows "map_of (put_field k v fs) x = (if x = k then Some v else map_of fs x)"
proof (cases "k \<in> fst ` set fs")
  case True
  then have "map_of fs k \<noteq> None" by (simp add: map_of_eq_None_iff)
  with True show ?thesis by (auto simp: put_field_def map_of_replace)
next
  case False
  then have d: "distinct (map fst (fs @ [(k, v)]))" using assms by simp
  have "map_of (put_field k v fs) x = map_of (fs @ [(k, v)]) x"
    using False map_of_own_order[OF d] by (simp only: put_field_def if_False)
  also have "\<dots> = (if x = k then Some v else map_of fs x)"
  proof -
    have "map_of fs k = None" using False by (simp add: map_of_eq_None_iff)
    then show ?thesis by (simp add: map_add_def split: option.split)
  qed
  finally show ?thesis .
qed

lemma field_fields_of: "field v k = map_of (fields_of v) k"
  by (cases v) (simp_all add: fields_of_def)

lemma distinct_fields_of: "json_wf v \<Longrightarrow> distinct (map fst (fields_of v))"
  by (cases v) (simp_all add: fields_of_def)

lemma json_wf_field: "json_wf v \<Longrightarrow> field v k = Some u \<Longrightarrow> json_wf u"
  by (cases v) (auto simp: list_all_iff dest: map_of_SomeD)

lemma first_bool_cong: "(\<And>k. k \<in> set ks \<Longrightarrow> field u k = field v k) \<Longrightarrow> first_bool u ks = first_bool v ks"
  by (induction ks) (simp_all split: option.split)

lemma json_wf_put_field:
  assumes "json_wf v" "distinct (map fst fs)" "list_all (\<lambda>(k, u). json_wf u) fs"
  shows "json_wf (JObj (put_field k v fs))"
proof (cases "k \<in> fst ` set fs")
  case True
  have "map fst (map (\<lambda>(k', v'). (k', if k' = k then v else v')) fs) = map fst fs" by (simp add: comp_def split_def)
  with True assms show ?thesis by (auto simp: put_field_def list_all_iff comp_def split_def)
next
  case False
  then have "distinct (map fst (fs @ [(k, v)]))" using assms(2) by simp
  then have "inj_on fst (set (fs @ [(k, v)]))" "distinct (fs @ [(k, v)])" by (simp_all only: distinct_map)
  then have "distinct (map fst (own_order (fs @ [(k, v)])))"
    unfolding distinct_map set_own_order by (auto simp: own_order_def)
  moreover have "list_all (\<lambda>(k, u). json_wf u) (own_order (fs @ [(k, v)]))"
    using assms(1,3) unfolding list_all_iff set_own_order by auto
  ultimately show ?thesis using False by (simp add: put_field_def)
qed

lemma field_put:
  assumes "json_wf v"
  shows "field (JObj (put_field k u (fields_of v))) x = (if x = k then Some u else field v x)"
  by (simp add: map_of_put_field distinct_fields_of[OF assms] field_fields_of[of v])

lemma json_wf_put:
  assumes "json_wf v" "json_wf u"
  shows "json_wf (JObj (put_field k u (fields_of v)))"
proof (rule json_wf_put_field[OF assms(2) distinct_fields_of[OF assms(1)]])
  show "list_all (\<lambda>(k, u). json_wf u) (fields_of v)"
    using assms(1) by (cases v) (simp_all add: fields_of_def)
qed

lemma nextConfig_imports:
  assumes "nextConfig (Set_report_imports b) current = Inl next" "json_wf current"
  shows "financeAllMemberWriteFromConfig next = financeAllMemberWriteFromConfig current"
    "financeCapabilitiesFromConfig next = financeCapabilitiesFromConfig current"
    "financeReportImportsEnabledFromConfig next = b" "json_wf next"
proof -
  define caps where "caps = (case field current FINANCE_CAPABILITIES_CONFIG_KEY of None \<Rightarrow> JNull | Some c \<Rightarrow> c)"
  define inner where "inner = JObj (put_field FINANCE_REPORT_IMPORT_CAPABILITY_KEY (JBool b) (fields_of caps))"
  have n: "next = JObj (put_field FINANCE_CAPABILITIES_CONFIG_KEY inner (fields_of current))"
    using assms(1) by (simp add: nextConfig_def Let_def inner_def caps_def split: if_splits)
  have wf: "json_wf caps" using json_wf_field[OF assms(2)] by (simp add: caps_def split: option.split)
  note f = field_put[OF assms(2), of FINANCE_CAPABILITIES_CONFIG_KEY inner, folded n]
  note g = field_put[OF wf, of FINANCE_REPORT_IMPORT_CAPABILITY_KEY "JBool b", folded inner_def]
  show "financeAllMemberWriteFromConfig next = financeAllMemberWriteFromConfig current"
    by (simp add: financeAllMemberWriteFromConfig_def f FINANCE_ALL_MEMBER_WRITE_CONFIG_KEY_def FINANCE_CAPABILITIES_CONFIG_KEY_def)
  show "financeReportImportsEnabledFromConfig next = b"
    by (simp add: financeReportImportsEnabledFromConfig_def f g)
  show "json_wf next"
    unfolding n inner_def by (intro json_wf_put assms(2) wf) simp
  show "financeCapabilitiesFromConfig next = financeCapabilitiesFromConfig current"
  proof
    fix key
    have keys: "first_bool inner (FINANCE_SECTION_CONFIG_KEYS key) = first_bool caps (FINANCE_SECTION_CONFIG_KEYS key)"
      if "key \<in> set (map fs_key FINANCE_SECTIONS)"
      using that by (intro first_bool_cong)
        (auto simp: g FINANCE_SECTIONS_def FINANCE_SECTION_CONFIG_KEYS_def FINANCE_REPORT_IMPORT_CAPABILITY_KEY_def)
    have null: "first_bool JNull ks = None" for ks by (induction ks) (simp_all add: as_bool_def)
    show "financeCapabilitiesFromConfig next key = financeCapabilitiesFromConfig current key"
      using keys null unfolding financeCapabilitiesFromConfig_def f by (simp add: caps_def split: option.split)
  qed
qed

section \<open>Compare and set\<close>

abbreviation finance_row :: "string \<Rightarrow> flag_row \<Rightarrow> bool" where
  "finance_row w r \<equiv> wf_workspace r = w \<and> wf_flag r = FINANCE_PARENT_FLAG"

definition flag_keys_unique :: "flag_row list \<Rightarrow> bool" where
  "flag_keys_unique rows \<longleftrightarrow>
     distinct (map wf_id rows) \<and> distinct (map (\<lambda>r. (wf_workspace r, wf_flag r)) rows)"

definition config_identity :: "auth_config \<Rightarrow> string \<Rightarrow> flag_row list \<Rightarrow> string option" where
  "config_identity cfg w rows = map_option (row_identity cfg) (find_finance_flag w rows)"

text \<open>A row that is in both states is of the same workspace and flag in both.\<close>

definition same_rows :: "flag_row list \<Rightarrow> flag_row list \<Rightarrow> bool" where
  "same_rows rows0 rows \<longleftrightarrow>
     (\<forall>r0\<in>set rows0. \<forall>r\<in>set rows. wf_id r = wf_id r0 \<longrightarrow> wf_workspace r = wf_workspace r0 \<and> wf_flag r = wf_flag r0)"

lemma find_finance_flag_iff:
  assumes "flag_keys_unique rows"
  shows "find_finance_flag w rows = Some r \<longleftrightarrow> r \<in> set rows \<and> finance_row w r"
proof
  assume "find_finance_flag w rows = Some r"
  then show "r \<in> set rows \<and> finance_row w r" by (auto simp: find_finance_flag_def find_Some_iff)
next
  assume r: "r \<in> set rows \<and> finance_row w r"
  then obtain x where x: "find_finance_flag w rows = Some x"
    by (cases "find_finance_flag w rows") (auto simp: find_finance_flag_def find_None_iff)
  then have "x \<in> set rows \<and> finance_row w x" by (auto simp: find_finance_flag_def find_Some_iff)
  moreover have "inj_on (\<lambda>r. (wf_workspace r, wf_flag r)) (set rows)"
    using assms by (simp add: flag_keys_unique_def distinct_map)
  ultimately have "x = r" using r by (auto dest: inj_onD)
  then show "find_finance_flag w rows = Some r" using x by simp
qed

lemma same_document_identity:
  assumes "wf_enabled r = wf_enabled s" "json_same (config_of r) (config_of s)"
  shows "row_identity cfg r = row_identity cfg s"
  using assms by (simp add: row_identity_def financeConfigIdentity_def canonicalFinanceConfig_def json_same_def)

lemma replaced_row:
  assumes "flag_keys_unique rows" "r \<in> set rows" "finance_row w r"
    and r': "wf_id r' = wf_id r" "finance_row w r'"
  shows "find_finance_flag w (map (\<lambda>x. if wf_id x = wf_id r then r' else x) rows) = Some r'"
    "filter (\<lambda>x. \<not> finance_row w x) (map (\<lambda>x. if wf_id x = wf_id r then r' else x) rows) =
     filter (\<lambda>x. \<not> finance_row w x) rows"
proof -
  let ?f = "\<lambda>x. if wf_id x = wf_id r then r' else x"
  have one: "x = r" if "x \<in> set rows" "wf_id x = wf_id r" for x
    using that assms(1,2) by (auto simp: flag_keys_unique_def distinct_map dest: inj_onD)
  have key: "wf_id (?f x) = wf_id x \<and> wf_workspace (?f x) = wf_workspace x \<and> wf_flag (?f x) = wf_flag x"
    if "x \<in> set rows" for x
    using one[OF that] assms(3) r' by auto
  have "map wf_id (map ?f rows) = map wf_id rows"
    "map (\<lambda>r. (wf_workspace r, wf_flag r)) (map ?f rows) = map (\<lambda>r. (wf_workspace r, wf_flag r)) rows"
    using key by auto
  then have "flag_keys_unique (map ?f rows)"
    using assms(1) unfolding flag_keys_unique_def by (simp only:)
  moreover have "r' \<in> set (map ?f rows)" using assms(2) by force
  ultimately show "find_finance_flag w (map ?f rows) = Some r'"
    using r'(2) by (simp add: find_finance_flag_iff)
  have "filter (\<lambda>x. \<not> finance_row w x) (map ?f xs) = filter (\<lambda>x. \<not> finance_row w x) xs"
    if "set xs \<subseteq> set rows" for xs
    using that one assms(3) r'(2) by (induction xs) auto
  then show "filter (\<lambda>x. \<not> finance_row w x) (map ?f rows) = filter (\<lambda>x. \<not> finance_row w x) rows" by simp
qed

lemma config_of_Some [simp]: "config_of (r\<lparr>wf_enabled := e, wf_config := Some c, wf_updatedAt := t\<rparr>) = c"
  by (simp add: config_of_def)

definition changed_row :: "auth_config \<Rightarrow> config_change \<Rightarrow> json \<Rightarrow> flag_row \<Rightarrow> flag_row" where
  "changed_row cfg change c r =
     r\<lparr>wf_enabled := nextEnabled change (wf_enabled r), wf_config := Some c, wf_updatedAt := ac_now cfg\<rparr>"

lemma changed_row_simps [simp]:
  "wf_id (changed_row cfg change c r) = wf_id r" "wf_workspace (changed_row cfg change c r) = wf_workspace r"
  "wf_flag (changed_row cfg change c r) = wf_flag r" "config_of (changed_row cfg change c r) = c"
  "wf_enabled (changed_row cfg change c r) = nextEnabled change (wf_enabled r)"
  by (simp_all add: changed_row_def)

definition matching_row :: "flag_row \<Rightarrow> flag_row \<Rightarrow> bool" where
  "matching_row current r \<longleftrightarrow>
     wf_id r = wf_id current \<and> wf_enabled r = wf_enabled current \<and> json_same (config_of r) (config_of current)"

lemma cas_present:
  assumes "find_finance_flag w rows0 = Some current"
  shows "compareAndSetFinanceConfig cfg w expected change rows0 rows rows2 =
     (if Some (row_identity cfg current) \<noteq> expected
      then Inr (Cas_conflict (Some (row_identity cfg current)), rows)
      else
        (case nextConfig change (config_of current) of
           Inr reason \<Rightarrow> Inr (Cas_invalid reason (row_identity cfg current), rows)
         | Inl c \<Rightarrow>
             (case find (matching_row current) rows of
                None \<Rightarrow> Inr (winner_conflict cfg w rows2, rows)
              | Some r \<Rightarrow> Inr (updatedFinanceConfig cfg (changed_row cfg change c r),
                  map (\<lambda>x. if wf_id x = wf_id r then changed_row cfg change c r else x) rows))))"
  using assms
  by (simp add: compareAndSetFinanceConfig_def changed_row_def matching_row_def[abs_def] Let_def
      split: sum.split option.split)

lemma cas_replace:
  assumes "compareAndSetFinanceConfig cfg w expected change rows0 rows rows2 = Inr (Cas_updated e c t i b, rows')"
    "flag_keys_unique rows" "same_rows rows0 rows" "find_finance_flag w rows0 = Some current"
  obtains r where "find_finance_flag w rows = Some r" "expected = Some (row_identity cfg r)"
    "rows' = map (\<lambda>x. if wf_id x = wf_id r then changed_row cfg change c r else x) rows"
    "updatedFinanceConfig cfg (changed_row cfg change c r) = Cas_updated e c t i b"
    "nextConfig change (config_of current) = Inl c" "json_same (config_of r) (config_of current)"
proof -
  note run = assms(1)[unfolded cas_present[OF assms(4)]]
  have ex: "expected = Some (row_identity cfg current)"
    using run by (cases "Some (row_identity cfg current) = expected") simp_all
  obtain nc where nc: "nextConfig change (config_of current) = Inl nc"
    using run ex by (cases "nextConfig change (config_of current)") simp_all
  obtain r where r: "find (matching_row current) rows = Some r"
    using run ex nc by (cases "find (matching_row current) rows") (simp_all add: winner_conflict_def)
  have u: "updatedFinanceConfig cfg (changed_row cfg change nc r) = Cas_updated e c t i b"
    "rows' = map (\<lambda>x. if wf_id x = wf_id r then changed_row cfg change nc r else x) rows"
    using run ex nc r by simp_all
  have c: "nc = c" using u(1) by (simp add: updatedFinanceConfig_def)
  have m: "r \<in> set rows" "wf_id r = wf_id current" "wf_enabled r = wf_enabled current"
    "json_same (config_of r) (config_of current)"
    using r by (auto simp: find_Some_iff matching_row_def)
  have "current \<in> set rows0" "finance_row w current"
    using assms(4) by (auto simp: find_finance_flag_def find_Some_iff)
  then have "finance_row w r" using assms(3) m(1,2) unfolding same_rows_def by metis
  then have f: "find_finance_flag w rows = Some r" using m(1) by (simp add: find_finance_flag_iff[OF assms(2)])
  have "expected = Some (row_identity cfg r)" using ex same_document_identity[OF m(3,4), of cfg] by simp
  then show thesis using that[OF f] u nc m(4) unfolding c by simp
qed

definition first_config :: "config_change \<Rightarrow> json" where
  "first_config change =
     (case change of
        Set_report_imports b \<Rightarrow>
          JObj [(FINANCE_CAPABILITIES_CONFIG_KEY, JObj [(FINANCE_REPORT_IMPORT_CAPABILITY_KEY, JBool b)])]
      | Set_config c _ \<Rightarrow> c)"

definition created_row :: "auth_config \<Rightarrow> string \<Rightarrow> config_change \<Rightarrow> (string \<times> bool) list \<Rightarrow> flag_row" where
  "created_row cfg w change ds =
     \<lparr>wf_id = ac_new_id cfg ''workspaceFeatureFlag'', wf_workspace = w, wf_flag = FINANCE_PARENT_FLAG,
      wf_enabled = nextEnabled change (map_of ds FINANCE_PARENT_FLAG = Some True),
      wf_config = Some (first_config change), wf_updatedAt = ac_now cfg\<rparr>"

lemma cas_absent:
  assumes "find_finance_flag w rows0 = None"
  shows "compareAndSetFinanceConfig cfg w expected change rows0 rows rows2 =
     (if expected \<noteq> None then Inr (Cas_conflict None, rows)
      else
        and_then defaultWorkspaceFeatureFlags (\<lambda>ds.
        if find_finance_flag w rows \<noteq> None then Inr (winner_conflict cfg w rows2, rows)
        else if list_ex (\<lambda>x. wf_id x = wf_id (created_row cfg w change ds)) rows then Inl unique_constraint
        else Inr (updatedFinanceConfig cfg (created_row cfg w change ds), rows @ [created_row cfg w change ds])))"
  using assms unfolding compareAndSetFinanceConfig_def first_config_def created_row_def Let_def by simp

lemma cas_create:
  assumes "compareAndSetFinanceConfig cfg w expected change rows0 rows rows2 = Inr (Cas_updated e c t i b, rows')"
    "find_finance_flag w rows0 = None"
  obtains r' where "find_finance_flag w rows = None" "expected = None" "rows' = rows @ [r']" "finance_row w r'"
    "updatedFinanceConfig cfg r' = Cas_updated e c t i b" "config_of r' = first_config change"
    "\<forall>c' e'. change = Set_config c' e' \<longrightarrow> wf_enabled r' = e'"
proof -
  note run = assms(1)[unfolded cas_absent[OF assms(2)]]
  have ex: "expected = None" using run by (cases expected) simp_all
  then obtain ds where ds: "(if find_finance_flag w rows \<noteq> None then Inr (winner_conflict cfg w rows2, rows)
      else if list_ex (\<lambda>x. wf_id x = wf_id (created_row cfg w change ds)) rows then Inl unique_constraint
      else Inr (updatedFinanceConfig cfg (created_row cfg w change ds), rows @ [created_row cfg w change ds])) =
      Inr (Cas_updated e c t i b, rows')"
    using run by (auto simp only: and_then_Inr_iff simp_thms if_False)
  have f: "find_finance_flag w rows = None"
    using ds by (cases "find_finance_flag w rows") (simp_all add: winner_conflict_def)
  have "updatedFinanceConfig cfg (created_row cfg w change ds) = Cas_updated e c t i b \<and>
      rows' = rows @ [created_row cfg w change ds]"
    using ds f by (simp split: if_splits)
  then show thesis
    by (intro that[OF f ex]) (auto simp: created_row_def config_of_def nextEnabled_def)
qed

lemma cas_kept:
  assumes "compareAndSetFinanceConfig cfg w expected change rows0 rows rows2 = Inr (res, rows')"
    "\<forall>e c t i b. res \<noteq> Cas_updated e c t i b"
  shows "rows' = rows"
proof (cases "find_finance_flag w rows0")
  case (Some current)
  then show ?thesis
    using assms by (auto simp: cas_present updatedFinanceConfig_def split: if_splits sum.splits option.splits)
next
  case None
  then show ?thesis
    using assms by (auto simp: cas_absent updatedFinanceConfig_def result_simps split: if_splits)
qed

definition configs_wf :: "flag_row list \<Rightarrow> bool" where
  "configs_wf rows \<longleftrightarrow> list_all (\<lambda>r. json_wf (config_of r)) rows"

text \<open>What a change makes of the row \<open>old\<close> that is there when it is written.\<close>

definition change_applied :: "config_change \<Rightarrow> flag_row option \<Rightarrow> bool \<Rightarrow> json \<Rightarrow> bool" where
  "change_applied change old enabled config \<longleftrightarrow>
     (case change of
        Set_config c e \<Rightarrow> config = c \<and> enabled = e
      | Set_report_imports v \<Rightarrow>
          financeReportImportsEnabledFromConfig config = v \<and>
          (case old of
             None \<Rightarrow> True
           | Some r \<Rightarrow> enabled = wf_enabled r \<and>
               financeAllMemberWriteFromConfig config = financeAllMemberWriteFromConfig (config_of r) \<and>
               financeCapabilitiesFromConfig config = financeCapabilitiesFromConfig (config_of r)))"

lemma updatedFinanceConfigD:
  assumes "updatedFinanceConfig cfg r = Cas_updated e c t i b"
  shows "e = wf_enabled r" "c = config_of r" "i = row_identity cfg r" "b = financeReportImportsEnabledFromConfig c"
  using assms by (auto simp: updatedFinanceConfig_def)

lemma find_after: "find P xs = None \<Longrightarrow> find P (xs @ ys) = find P ys"
  by (induction xs) (simp_all split: if_splits)

lemma cas_atomic:
  assumes run: "compareAndSetFinanceConfig cfg w expected change rows0 rows rows2 = Inr (Cas_updated e c t i b, rows')"
    and "flag_keys_unique rows" "same_rows rows0 rows" "configs_wf rows0" "configs_wf rows"
  shows "config_identity cfg w rows = expected \<and> config_identity cfg w rows' = Some i \<and>
    filter (\<lambda>r. \<not> finance_row w r) rows' = filter (\<lambda>r. \<not> finance_row w r) rows \<and>
    (\<exists>r. find_finance_flag w rows' = Some r \<and> wf_enabled r = e \<and> config_of r = c) \<and>
    b = financeReportImportsEnabledFromConfig c \<and> change_applied change (find_finance_flag w rows) e c"
proof (cases "find_finance_flag w rows0")
  case (Some current)
  obtain r where r: "find_finance_flag w rows = Some r" "expected = Some (row_identity cfg r)"
    "rows' = map (\<lambda>x. if wf_id x = wf_id r then changed_row cfg change c r else x) rows"
    "updatedFinanceConfig cfg (changed_row cfg change c r) = Cas_updated e c t i b"
    "nextConfig change (config_of current) = Inl c" "json_same (config_of r) (config_of current)"
    by (rule cas_replace[OF run assms(2,3) Some])
  have m: "r \<in> set rows" "finance_row w r" using r(1) by (simp_all add: find_finance_flag_iff[OF assms(2)])
  have f: "find_finance_flag w rows' = Some (changed_row cfg change c r)"
    "filter (\<lambda>x. \<not> finance_row w x) rows' = filter (\<lambda>x. \<not> finance_row w x) rows"
    unfolding r(3) using m by (intro replaced_row[OF assms(2)]; simp)+
  have wf: "json_wf (config_of r)" "json_wf (config_of current)"
    using m(1) assms(4,5) Some by (auto simp: configs_wf_def list_all_iff find_finance_flag_def find_Some_iff)
  have eq: "json_eq (config_of r) (config_of current)"
    using r(6) sorted_copy_eq_iff[OF wf] by (simp add: json_same_def)
  note u = updatedFinanceConfigD[OF r(4)]
  have "change_applied change (Some r) e c"
  proof (cases change)
    case (Set_report_imports v)
    note n = nextConfig_imports[OF r(5)[unfolded Set_report_imports] wf(2)]
    show ?thesis
      using n(1-3) json_eq_config[OF eq] u(1) by (simp add: change_applied_def Set_report_imports nextEnabled_def)
  next
    case (Set_config c' e')
    then show ?thesis using r(5) u(1) by (simp add: change_applied_def nextConfig_def nextEnabled_def)
  qed
  then show ?thesis using r(1,2) f u by (simp add: config_identity_def)
next
  case None
  obtain r' where r: "find_finance_flag w rows = None" "expected = None" "rows' = rows @ [r']" "finance_row w r'"
    "updatedFinanceConfig cfg r' = Cas_updated e c t i b" "config_of r' = first_config change"
    "\<forall>c' e'. change = Set_config c' e' \<longrightarrow> wf_enabled r' = e'"
    by (rule cas_create[OF run None])
  note u = updatedFinanceConfigD[OF r(5)]
  have f: "find_finance_flag w rows' = Some r'"
    using r(1,4) unfolding r(3) find_finance_flag_def by (simp add: find_after)
  have "change_applied change None e c"
    using u(1,2) r(6,7)
    by (cases change) (auto simp: change_applied_def first_config_def financeReportImportsEnabledFromConfig_def)
  then show ?thesis using r(1-4) f u by (simp add: config_identity_def)
qed

section \<open>Properties\<close>

text \<open>
  Two configurations have the same identity exactly when Finance is on in both or off in both and
  the documents are equal up to the order of their keys, at every depth - for documents without
  repeated keys and a hash without collisions.
\<close>

lemma finance_config_identity_exact:
  assumes "inj (ac_sha256 cfg)" "json_wf c" "json_wf d"
  shows "financeConfigIdentity cfg e c = financeConfigIdentity cfg f d \<longleftrightarrow> e = f \<and> json_eq c d"
  by (rule identity_eq_iff[OF assms])

text \<open>
  C26: a compare-and-set is atomic although it reads and writes separately: when it reports an update,
  the configuration had the expected identity at the moment of the write, the identity it reports is
  that of the row it leaves, no row but the workspace's Finance row changes, and the change is made to
  what was there - setting report imports keeps the flag, the all-member setting and every section
  capability of that moment; when it reports anything else, nothing is written.
\<close>

theorem finance_config_cas_is_atomic:
  assumes "compareAndSetFinanceConfig cfg w expected change rows0 rows rows2 = Inr (res, rows')"
    "flag_keys_unique rows" "same_rows rows0 rows" "configs_wf rows0" "configs_wf rows"
  shows "case res of
      Cas_updated e c t i b \<Rightarrow>
        config_identity cfg w rows = expected \<and> config_identity cfg w rows' = Some i \<and>
        filter (\<lambda>r. \<not> finance_row w r) rows' = filter (\<lambda>r. \<not> finance_row w r) rows \<and>
        (\<exists>r. find_finance_flag w rows' = Some r \<and> wf_enabled r = e \<and> config_of r = c) \<and>
        b = financeReportImportsEnabledFromConfig c \<and> change_applied change (find_finance_flag w rows) e c
    | _ \<Rightarrow> rows' = rows"
proof (cases res)
  case (Cas_updated e c t i b)
  then show ?thesis using cas_atomic[OF assms(1)[unfolded Cas_updated] assms(2-5)] by simp
next
  case (Cas_conflict i)
  then show ?thesis using cas_kept[OF assms(1)] by simp
next
  case (Cas_invalid reason i)
  then show ?thesis using cas_kept[OF assms(1)] by simp
qed

definition example_flag :: flag_row where
  "example_flag =
     \<lparr>wf_id = ''f'', wf_workspace = ''w'', wf_flag = ''FINANCE'', wf_enabled = True,
      wf_config = Some (JObj [(''financeCapabilities'', JObj [(''slicing-pie'', JBool True)])]), wf_updatedAt = 0\<rparr>"

theorem finance_config_cas_is_atomic_witness:
  "case compareAndSetFinanceConfig example_auth_cfg ''w'' (Some (row_identity example_auth_cfg example_flag))
       (Set_report_imports True) [example_flag] [example_flag] [] of
     Inl e \<Rightarrow> False
   | Inr (Cas_updated e c t i b, rows) \<Rightarrow> config_identity example_auth_cfg ''w'' rows = Some i
   | Inr _ \<Rightarrow> False"
proof -
  have "case compareAndSetFinanceConfig example_auth_cfg ''w'' (Some (row_identity example_auth_cfg example_flag))
       (Set_report_imports True) [example_flag] [example_flag] [] of
     Inl e \<Rightarrow> False | Inr (Cas_updated e c t i b, rows) \<Rightarrow> True | Inr _ \<Rightarrow> False"
    by code_simp
  then obtain e c t i b rows where run: "compareAndSetFinanceConfig example_auth_cfg ''w''
      (Some (row_identity example_auth_cfg example_flag)) (Set_report_imports True) [example_flag] [example_flag] [] =
      Inr (Cas_updated e c t i b, rows)"
    by (auto split: sum.splits prod.splits cas_result.splits)
  have "flag_keys_unique [example_flag]" "same_rows [example_flag] [example_flag]" "configs_wf [example_flag]"
    by (simp_all add: flag_keys_unique_def same_rows_def configs_wf_def config_of_def example_flag_def)
  from finance_config_cas_is_atomic[OF run this(1,2,3,3)] show ?thesis by (simp add: run)
qed

end
