(* ===== verification/Finance_Facts.thy ===== *)
theory Finance_Facts
  imports Finance_Config_Facts
begin

text \<open>
  What the Finance module promises: write access needs a member and follows the flag, the member's
  module access and the all-member setting, and a cash payable is paid once, by a peer, whatever
  interleaves.
\<close>

section \<open>Access\<close>

lemma requireFinanceReadAccess_iff:
  "requireFinanceReadAccess cfg actor w st db = Inr p \<longleftrightarrow> getFinanceAccessPolicy cfg actor w st db = Inr p \<and> fy_canRead p"
  by (auto simp: requireFinanceReadAccess_def result_simps)

lemma human_write_iff:
  "requireFinanceHumanWriteAccess cfg actor w st db = Inr p \<longleftrightarrow>
     getFinanceAccessPolicy cfg actor w st db = Inr p \<and> fy_canRead p \<and> fy_canWrite p \<and> (\<exists>u. actor = Auth_user u)"
  by (auto simp: requireFinanceHumanWriteAccess_def requireFinanceWriteAccess_def requireFinanceReadAccess_iff
      requireHumanActorUserId_def result_simps split: auth_actor.splits)

lemma human_id_iff: "requireHumanActorUserId actor = Inr i \<longleftrightarrow> (\<exists>u. actor = Auth_user u \<and> hu_id u = i)"
  by (auto simp: requireHumanActorUserId_def split: auth_actor.splits)

lemma finance_manifest:
  obtains finance where "getModuleByKey ''finance'' = Some finance" "mm_key finance = ''finance''"
proof -
  have "case getModuleByKey ''finance'' of None \<Rightarrow> False | Some m \<Rightarrow> mm_key m = ''finance''" by code_simp
  with that show thesis by (auto split: option.splits)
qed

text \<open>The flag, the level and the configuration that decide, read off the tables.\<close>

definition finance_on :: "string \<Rightarrow> flag_row list \<Rightarrow> bool" where
  "finance_on w rows \<longleftrightarrow> (\<exists>fg. financeFlagState w rows = Inr fg \<and> map_of (fg_flags fg) FINANCE_PARENT_FLAG = Some True)"

definition all_members_write :: "string \<Rightarrow> flag_row list \<Rightarrow> bool" where
  "all_members_write w rows \<longleftrightarrow> (\<exists>fg. financeFlagState w rows = Inr fg \<and> financeAllMemberWriteFromConfig (fg_config fg))"

definition finance_level :: "int \<Rightarrow> string \<Rightarrow> membership \<Rightarrow> 'l module_db \<Rightarrow> access_level result" where
  "finance_level now w m db =
     (case getModuleByKey ''finance'' of
        None \<Rightarrow> Inr Access_none
      | Some finance \<Rightarrow> resolveSingleModuleAccess now w (Some (mb_id m)) (Some (mb_role m)) finance db)"

definition policy_of :: "string \<Rightarrow> membership option \<Rightarrow> flag_state \<Rightarrow> access_level \<Rightarrow> finance_policy" where
  "policy_of w m fg level =
     (let enabled = (map_of (fg_flags fg) FINANCE_PARENT_FLAG = Some True);
          allWrite = (enabled \<and> financeAllMemberWriteFromConfig (fg_config fg)) in
      \<lparr>fy_workspace = w, fy_enabled = enabled, fy_allMemberWrite = allWrite, fy_imports = fg_imports fg,
       fy_member = m, fy_role = map_option mb_role m,
       fy_canRead = (enabled \<and> isAtLeast level Access_read),
       fy_canWrite = (enabled \<and> (isAtLeast level Access_write \<or> m \<noteq> None \<and> allWrite)),
       fy_flags = fg_flags fg, fy_sections = fg_sections fg, fy_config = fg_config fg,
       fy_updatedAt = fg_updatedAt fg\<rparr>)"

lemma policy_iff:
  "getFinanceAccessPolicy cfg actor w st db = Inr p \<longleftrightarrow>
     requireAgentScope actor ''finance:read'' = Inr () \<and>
     (\<exists>m st' fg level. requireWorkspaceMembership cfg actor w None None st (gd_auth db) = Inr (m, st') \<and>
        financeFlagState w (gd_flags db) = Inr fg \<and>
        resolveFinanceModuleAccess (ac_now cfg) w m (map_of (fg_flags fg) FINANCE_PARENT_FLAG = Some True) db = Inr level \<and>
        p = policy_of w m fg level)"
  unfolding getFinanceAccessPolicy_def policy_of_def Let_def
  by (auto simp: and_then_Inr_iff)

lemma policy_of_simps [simp]:
  "fy_canRead (policy_of w m fg level) \<longleftrightarrow> map_of (fg_flags fg) FINANCE_PARENT_FLAG = Some True \<and> isAtLeast level Access_read"
  "fy_canWrite (policy_of w m fg level) \<longleftrightarrow> map_of (fg_flags fg) FINANCE_PARENT_FLAG = Some True \<and>
     (isAtLeast level Access_write \<or> m \<noteq> None \<and> financeAllMemberWriteFromConfig (fg_config fg))"
  "fy_member (policy_of w m fg level) = m" "fy_workspace (policy_of w m fg level) = w"
  "fy_sections (policy_of w m fg level) = fg_sections fg"
  by (auto simp: policy_of_def Let_def)

lemma user_membership:
  assumes "requireWorkspaceMembership cfg (Auth_user u) w None None st db = Inr (m, st')"
  obtains mb where "m = Some mb"
  using assms by (auto simp: requireWorkspaceMembership_def result_simps Let_def)

lemma enabled_level:
  "resolveFinanceModuleAccess now w (Some m) True db = finance_level now w m db"
proof -
  obtain finance where "getModuleByKey ''finance'' = Some finance" by (rule finance_manifest)
  then show ?thesis by (simp add: resolveFinanceModuleAccess_def finance_level_def)
qed

definition may_write :: "auth_config \<Rightarrow> auth_user \<Rightarrow> string \<Rightarrow> support_store \<Rightarrow> 'l module_db \<Rightarrow> membership \<Rightarrow> bool" where
  "may_write cfg u w st db m \<longleftrightarrow>
     (\<exists>st'. requireWorkspaceMembership cfg (Auth_user u) w None None st (gd_auth db) = Inr (Some m, st')) \<and>
     finance_on w (gd_flags db) \<and>
     (\<exists>level. finance_level (ac_now cfg) w m db = Inr level \<and> isAtLeast level Access_read \<and>
        (isAtLeast level Access_write \<or> all_members_write w (gd_flags db)))"

lemma user_policy_may_write:
  assumes "getFinanceAccessPolicy cfg (Auth_user u) w st db = Inr p" "fy_canRead p" "fy_canWrite p"
  obtains m where "fy_member p = Some m" "may_write cfg u w st db m"
proof -
  obtain m st' fg level where p: "requireWorkspaceMembership cfg (Auth_user u) w None None st (gd_auth db) = Inr (m, st')"
    "financeFlagState w (gd_flags db) = Inr fg"
    "resolveFinanceModuleAccess (ac_now cfg) w m (map_of (fg_flags fg) FINANCE_PARENT_FLAG = Some True) db = Inr level"
    "p = policy_of w m fg level"
    using assms(1) unfolding policy_iff by blast
  obtain mb where m: "m = Some mb" by (rule user_membership[OF p(1)])
  have on: "map_of (fg_flags fg) FINANCE_PARENT_FLAG = Some True" using assms(2) p(4) by simp
  have "finance_level (ac_now cfg) w mb db = Inr level" using p(3) unfolding m on by (simp add: enabled_level)
  then have "may_write cfg u w st db mb"
    using p(1,2) m on assms(2,3) unfolding p(4) may_write_def finance_on_def all_members_write_def by auto
  then show thesis using that m p(4) by simp
qed

lemma may_write_policy:
  assumes "may_write cfg u w st db m"
  shows "\<exists>p. getFinanceAccessPolicy cfg (Auth_user u) w st db = Inr p \<and> fy_canRead p \<and> fy_canWrite p \<and> fy_member p = Some m"
proof -
  obtain st' fg level where p: "requireWorkspaceMembership cfg (Auth_user u) w None None st (gd_auth db) = Inr (Some m, st')"
    "financeFlagState w (gd_flags db) = Inr fg" "map_of (fg_flags fg) FINANCE_PARENT_FLAG = Some True"
    "finance_level (ac_now cfg) w m db = Inr level" "isAtLeast level Access_read"
    "isAtLeast level Access_write \<or> all_members_write w (gd_flags db)"
    using assms unfolding may_write_def finance_on_def by auto
  have "getFinanceAccessPolicy cfg (Auth_user u) w st db = Inr (policy_of w (Some m) fg level)"
    unfolding policy_iff using p by (auto simp: requireAgentScope_def enabled_level)
  moreover have "financeAllMemberWriteFromConfig (fg_config fg) \<or> isAtLeast level Access_write"
    using p(2,6) by (auto simp: all_members_write_def)
  ultimately show ?thesis using p(3,5) by auto
qed

section \<open>Payables\<close>

text \<open>
  A history of the Finance tables: every operation, with the reads of a confirmation taken in an
  earlier state of the same history, and any change of everything but the entries by other modules.
\<close>

inductive finance_run :: "'l finance_db \<Rightarrow> 'l finance_db \<Rightarrow> bool" where
  run_start: "finance_run db db"
| run_project:
    "finance_run a db \<Longrightarrow> createFinanceProject cfg actor w name client budget currency st db = Inr (p, db') \<Longrightarrow>
     finance_run a db'"
| run_entry:
    "finance_run a db \<Longrightarrow> createFinanceContributionEntry cfg actor w cp st db = Inr (e, db') \<Longrightarrow> finance_run a db'"
| run_confirm:
    "finance_run a db0 \<Longrightarrow> finance_run db0 db \<Longrightarrow>
     confirmFinanceCashPayablePaid cfg actor w i v st db0 db = Inr (e, db') \<Longrightarrow> finance_run a db'"
| run_other:
    "finance_run a db \<Longrightarrow>
     finance_run a (db\<lparr>fd_modules := m, fd_clients := cs, fd_consultants := ks, fd_projects := ps\<rparr>)"

definition positive_cents :: "rat option \<Rightarrow> bool" where
  "positive_cents v \<longleftrightarrow> (\<exists>n. v = Some (of_int n) \<and> 0 < n \<and> n \<le> PRISMA_INT_MAX)"

definition entry_ok :: "contribution_entry \<Rightarrow> bool" where
  "entry_ok e \<longleftrightarrow>
     (ce_cash e = CASH_NOT_APPLICABLE \<longleftrightarrow> ce_choice e \<noteq> CASH) \<and>
     (ce_choice e = CASH \<longrightarrow> positive_cents (ce_amountCents e)) \<and>
     (ce_type e = TIME \<longrightarrow> positive_cents (ce_minutes e)) \<and>
     (ce_type e \<noteq> TIME \<longrightarrow> positive_cents (ce_amountCents e)) \<and>
     (ce_choice e = CAPITAL_CHOICE \<longrightarrow> ce_type e = CAPITAL_TYPE) \<and>
     (if ce_cash e = CASH_PAID
      then ce_version e = 2 \<and> ce_paidAt e \<noteq> None \<and>
        (\<exists>u. ce_paidBy e = Some u \<and> u \<notin> set (creator_ids e) \<and> creator_ids e \<noteq> [])
      else ce_version e = 1 \<and> ce_paidAt e = None \<and> ce_paidBy e = None)"

definition entries_ok :: "contribution_entry list \<Rightarrow> bool" where
  "entries_ok es \<longleftrightarrow> distinct (map ce_id es) \<and> (\<forall>e\<in>set es. entry_ok e)"

text \<open>What later states keep of an entry: its paid form entirely, otherwise all but the payment.\<close>

definition same_claim :: "contribution_entry \<Rightarrow> contribution_entry \<Rightarrow> bool" where
  "same_claim e f \<longleftrightarrow>
     f = e \<or> ce_cash e = CASH_REQUESTED \<and> (\<exists>now uid. f = paid_row now uid e)"

definition keeps_entries :: "contribution_entry list \<Rightarrow> contribution_entry list \<Rightarrow> bool" where
  "keeps_entries es fs \<longleftrightarrow> (\<forall>e\<in>set es. \<exists>f\<in>set fs. same_claim e f)"

lemma paid_row_simps [simp]:
  "ce_id (paid_row now uid e) = ce_id e" "ce_workspace (paid_row now uid e) = ce_workspace e"
  "ce_contributor (paid_row now uid e) = ce_contributor e" "ce_submittedBy (paid_row now uid e) = ce_submittedBy e"
  "ce_type (paid_row now uid e) = ce_type e" "ce_choice (paid_row now uid e) = ce_choice e"
  "ce_minutes (paid_row now uid e) = ce_minutes e" "ce_amountCents (paid_row now uid e) = ce_amountCents e"
  "ce_cash (paid_row now uid e) = CASH_PAID" "ce_paidBy (paid_row now uid e) = Some uid"
  "ce_paidAt (paid_row now uid e) = Some now" "ce_version (paid_row now uid e) = ce_version e + 1"
  "creator_ids (paid_row now uid e) = creator_ids e"
  by (simp_all add: paid_row_def creator_ids_def)

lemma same_claim_trans: "same_claim e f \<Longrightarrow> same_claim f g \<Longrightarrow> same_claim e g"
  by (auto simp: same_claim_def)

lemma keeps_entries_refl: "keeps_entries es es"
  by (auto simp: keeps_entries_def same_claim_def)

lemma keeps_entries_trans: "keeps_entries es fs \<Longrightarrow> keeps_entries fs gs \<Longrightarrow> keeps_entries es gs"
  unfolding keeps_entries_def by (meson same_claim_trans)

lemma project_entries:
  "createFinanceProject cfg actor w name client budget currency st db = Inr (p, db') \<Longrightarrow> fd_entries db' = fd_entries db"
  by (auto simp: createFinanceProject_def result_simps Let_def split: if_splits)

lemma integer_of: "is_integer r \<Longrightarrow> \<exists>n. r = of_int n"
  unfolding is_integer_def by metis

lemma normalizeCents_positive:
  assumes "normalizeCents v label False = Inr r"
  shows "r = v \<and> (v \<noteq> None \<longrightarrow> positive_cents v)"
proof (cases v)
  case None
  then show ?thesis using assms by (simp add: normalizeCents_def)
next
  case (Some n)
  then have n: "is_integer n" "0 < n" "n \<le> of_int PRISMA_INT_MAX" "r = Some n"
    using assms by (auto simp: normalizeCents_def split: if_splits)
  obtain k where "n = of_int k" using integer_of[OF n(1)] by blast
  then show ?thesis using n Some by (auto simp: positive_cents_def)
qed

lemma minutes_positive: "minutes_ok v \<Longrightarrow> v \<noteq> None \<Longrightarrow> positive_cents v"
  by (auto simp: minutes_ok_def positive_cents_def dest!: integer_of)

lemma entry_created:
  assumes "createFinanceContributionEntry cfg actor w cp st db = Inr (e, db')"
  shows "fd_entries db' = fd_entries db @ [e] \<and> entry_ok e \<and> (\<forall>x\<in>set (fd_entries db). ce_id x \<noteq> ce_id e)"
proof -
  have f: "fd_entries db' = fd_entries db @ [e]" "\<forall>x\<in>set (fd_entries db). ce_id x \<noteq> ce_id e"
      "ce_cash e = (if ce_choice e = CASH then CASH_REQUESTED else CASH_NOT_APPLICABLE)"
      "ce_choice e \<noteq> CAPITAL_CHOICE \<or> ce_type e = CAPITAL_TYPE" "minutes_ok (ce_minutes e)"
      "normalizeCents (cp_amountCents cp) ''Amount'' False = Inr (ce_amountCents e)"
      "ce_type e \<noteq> TIME \<or> ce_minutes e \<noteq> None" "ce_choice e = CASH \<or> ce_type e = TIME \<or> ce_amountCents e \<noteq> None"
      "ce_choice e \<noteq> CASH \<or> ce_amountCents e \<noteq> None" "ce_version e = 1" "ce_paidAt e = None" "ce_paidBy e = None"
    using assms unfolding createFinanceContributionEntry_def
    by (auto simp: result_simps Let_def list_ex_iff split: if_splits)
  have amount: "ce_amountCents e \<noteq> None \<Longrightarrow> positive_cents (ce_amountCents e)"
    using normalizeCents_positive[OF f(6)] by simp
  have "entry_ok e"
    unfolding entry_ok_def using f(3-5,7-12) amount minutes_positive[OF f(5)] by auto
  then show ?thesis using f(1,2) by simp
qed

lemma confirm_effect:
  assumes "confirmFinanceCashPayablePaid cfg actor w i v st db0 db = Inr (e, db')"
  obtains u r payable where "actor = Auth_user u" "find_entry w i (fd_entries db0) = Some payable"
    "hu_id u \<notin> set (creator_ids payable)" "creator_ids payable \<noteq> []"
    "filter (payable_row w i v) (fd_entries db) = [r]"
    "db' = db\<lparr>fd_entries := map (\<lambda>e. if payable_row w i v e then paid_row (ac_now cfg) (hu_id u) e else e) (fd_entries db)\<rparr>"
    "find (\<lambda>e. ce_id e = i) (fd_entries db') = Some e"
proof -
  obtain u payable where 1: "actor = Auth_user u" "find_entry w i (fd_entries db0) = Some payable"
    "hu_id u \<notin> set (creator_ids payable)" "creator_ids payable \<noteq> []"
    "length (filter (payable_row w i v) (fd_entries db)) = 1"
    "db' = db\<lparr>fd_entries := map (\<lambda>e. if payable_row w i v e then paid_row (ac_now cfg) (hu_id u) e else e) (fd_entries db)\<rparr>"
    "find (\<lambda>e. ce_id e = i) (fd_entries db') = Some e"
    using assms unfolding confirmFinanceCashPayablePaid_def
    by (auto simp: result_simps human_id_iff Let_def split: option.splits if_splits)
  obtain r where "filter (payable_row w i v) (fd_entries db) = [r]"
    using 1(5) by (cases "filter (payable_row w i v) (fd_entries db)") auto
  with 1 that show thesis by simp
qed

lemma same_claim_facts: "same_claim e f \<Longrightarrow> ce_id f = ce_id e \<and> ce_workspace f = ce_workspace e \<and> creator_ids f = creator_ids e"
  by (auto simp: same_claim_def)

lemma paid_row_ok:
  assumes "entry_ok e" "payable_row w i v e" "u \<notin> set (creator_ids e)" "creator_ids e \<noteq> []"
  shows "entry_ok (paid_row now u e)"
  using assms by (simp add: entry_ok_def payable_row_def)

lemma find_entryD: "find_entry w i es = Some e \<Longrightarrow> e \<in> set es \<and> ce_id e = i \<and> ce_workspace e = w"
  by (auto simp: find_entry_def find_Some_iff)

lemma unique_entry:
  assumes "entries_ok es" "e \<in> set es" "f \<in> set es" "ce_id e = ce_id f"
  shows "e = f"
  using assms by (auto simp: entries_ok_def distinct_map dest: inj_onD)

lemma confirm_step:
  assumes run: "confirmFinanceCashPayablePaid cfg actor w i v st db0 db = Inr (e, db')"
    and ok: "entries_ok (fd_entries db)" and keeps: "keeps_entries (fd_entries db0) (fd_entries db)"
  shows "entries_ok (fd_entries db') \<and> keeps_entries (fd_entries db) (fd_entries db')"
proof -
  obtain u r payable where c: "actor = Auth_user u" "find_entry w i (fd_entries db0) = Some payable"
    "hu_id u \<notin> set (creator_ids payable)" "creator_ids payable \<noteq> []"
    "filter (payable_row w i v) (fd_entries db) = [r]"
    "db' = db\<lparr>fd_entries := map (\<lambda>e. if payable_row w i v e then paid_row (ac_now cfg) (hu_id u) e else e) (fd_entries db)\<rparr>"
    by (rule confirm_effect[OF run])
  note p = find_entryD[OF c(2)]
  obtain f where f: "f \<in> set (fd_entries db)" "same_claim payable f" using keeps p by (auto simp: keeps_entries_def)
  have creators: "creator_ids x = creator_ids payable" if "x \<in> set (fd_entries db)" "payable_row w i v x" for x
  proof -
    have "ce_id x = ce_id f" using that(2) p same_claim_facts[OF f(2)] by (simp add: payable_row_def)
    then have "x = f" by (rule unique_entry[OF ok that(1) f(1)])
    then show ?thesis using same_claim_facts[OF f(2)] by simp
  qed
  let ?f = "\<lambda>e. if payable_row w i v e then paid_row (ac_now cfg) (hu_id u) e else e"
  have "map ce_id (map ?f (fd_entries db)) = map ce_id (fd_entries db)" by simp
  moreover have "entry_ok (?f x)" if "x \<in> set (fd_entries db)" for x
    using that creators[OF that] c(3,4) ok paid_row_ok[of x w i v "hu_id u"] by (auto simp: entries_ok_def)
  ultimately have "entries_ok (map ?f (fd_entries db))"
    using ok unfolding entries_ok_def by (simp only: set_map ball_simps) simp
  moreover have "same_claim x (?f x)" for x by (auto simp: same_claim_def payable_row_def)
  then have "keeps_entries (fd_entries db) (map ?f (fd_entries db))"
    unfolding keeps_entries_def set_map by blast
  ultimately show ?thesis unfolding c(6) by simp
qed

lemma run_facts:
  assumes "finance_run a db" "entries_ok (fd_entries a)"
  shows "entries_ok (fd_entries db) \<and> keeps_entries (fd_entries a) (fd_entries db)"
  using assms
proof (induction rule: finance_run.induct)
  case (run_start db)
  then show ?case by (simp add: keeps_entries_refl)
next
  case (run_project a db cfg actor w name client budget currency st p db')
  then show ?case using project_entries by metis
next
  case (run_entry a db cfg actor w cp st e db')
  then have ok: "entries_ok (fd_entries db)" "keeps_entries (fd_entries a) (fd_entries db)" by simp_all
  note e = entry_created[OF run_entry.hyps(2)]
  have "entries_ok (fd_entries db')" using ok(1) e by (auto simp: entries_ok_def)
  moreover have "keeps_entries (fd_entries db) (fd_entries db')"
    using e by (auto simp: keeps_entries_def same_claim_def)
  ultimately show ?case using keeps_entries_trans[OF ok(2)] by simp
next
  case (run_confirm a db0 db cfg actor w i v st e db')
  then have "entries_ok (fd_entries db)" "keeps_entries (fd_entries a) (fd_entries db)"
      "keeps_entries (fd_entries db0) (fd_entries db)"
    using keeps_entries_trans by blast+
  then show ?case using confirm_step[OF run_confirm.hyps(3)] keeps_entries_trans by blast
next
  case (run_other a db m cs ks ps)
  then show ?case by simp
qed

lemma paid_stays:
  assumes "finance_run a db" "entries_ok (fd_entries a)" "e \<in> set (fd_entries a)" "ce_cash e = CASH_PAID"
  shows "e \<in> set (fd_entries db)"
proof -
  obtain f where "f \<in> set (fd_entries db)" "same_claim e f"
    using run_facts[OF assms(1,2)] assms(3) by (auto simp: keeps_entries_def)
  then show ?thesis using assms(4) by (simp add: same_claim_def)
qed

lemma confirmed_entry:
  assumes run: "confirmFinanceCashPayablePaid cfg actor w i v st db0 db = Inr (e, db')"
    and ok: "entries_ok (fd_entries db)"
  shows "e \<in> set (fd_entries db') \<and> ce_cash e = CASH_PAID \<and> ce_id e = i \<and>
    (\<exists>u. actor = Auth_user u \<and> ce_paidBy e = Some (hu_id u))"
proof -
  obtain u :: auth_user and r where c0: "actor = Auth_user u" and c:
    "filter (payable_row w i v) (fd_entries db) = [r]"
    "db' = db\<lparr>fd_entries := map (\<lambda>e. if payable_row w i v e then paid_row (ac_now cfg) (hu_id u) e else e) (fd_entries db)\<rparr>"
    "find (\<lambda>e. ce_id e = i) (fd_entries db') = Some e"
    by (rule confirm_effect[OF run]) (rule that, assumption+)
  have "r \<in> set (filter (payable_row w i v) (fd_entries db))" unfolding c(1) by simp
  then have r: "r \<in> set (fd_entries db)" "payable_row w i v r" by simp_all
  let ?f = "\<lambda>e. if payable_row w i v e then paid_row (ac_now cfg) (hu_id u) e else e"
  have e: "e \<in> set (fd_entries db')" "ce_id e = i" using c(3) by (auto simp: find_Some_iff in_set_conv_nth)
  have es: "fd_entries db' = map ?f (fd_entries db)" unfolding c(2) by simp
  have "e \<in> ?f ` set (fd_entries db)" using e(1) unfolding es set_map .
  then obtain x where x: "x \<in> set (fd_entries db)" "e = ?f x" by (rule imageE) blast
  have "ce_id x = ce_id r" using x(2) e(2) r(2) by (auto simp: payable_row_def split: if_splits)
  then have "x = r" by (rule unique_entry[OF ok x(1) r(1)])
  then show ?thesis using x e r(2) c0 by simp
qed

lemma paid_entry_refused:
  assumes "entries_ok (fd_entries db)" "e \<in> set (fd_entries db)" "ce_cash e = CASH_PAID"
  shows "\<exists>err. confirmFinanceCashPayablePaid cfg actor w (ce_id e) v st db0 db = Inl err"
proof (cases "confirmFinanceCashPayablePaid cfg actor w (ce_id e) v st db0 db")
  case (Inr x)
  obtain f db' where run: "confirmFinanceCashPayablePaid cfg actor w (ce_id e) v st db0 db = Inr (f, db')"
    using Inr by (cases x) simp
  obtain r where "filter (payable_row w (ce_id e) v) (fd_entries db) = [r]"
    by (rule confirm_effect[OF run]) (rule that, assumption+)
  then have "r \<in> set (filter (payable_row w (ce_id e) v) (fd_entries db))" by simp
  then have r: "r \<in> set (fd_entries db)" "payable_row w (ce_id e) v r" by simp_all
  have "r = e" using r by (intro unique_entry[OF assms(1) r(1) assms(2)]) (simp add: payable_row_def)
  then show ?thesis using r(2) assms(3) by (simp add: payable_row_def)
qed simp

section \<open>An example\<close>

definition example_entry :: contribution_entry where
  "example_entry =
     \<lparr>ce_id = ''e'', ce_workspace = ''w'', ce_project = None, ce_consultant = None, ce_contributor = Some ''s'',
      ce_submittedBy = Some ''s'', ce_type = EXPENSE, ce_choice = CASH, ce_cash = CASH_REQUESTED, ce_occurredAt = 0,
      ce_minutes = None, ce_amountCents = Some (of_int 100), ce_currency = ''USD'', ce_description = None,
      ce_paidBy = None, ce_paidAt = None, ce_version = 1\<rparr>"

definition example_finance_db :: "unit finance_db" where
  "example_finance_db =
     \<lparr>fd_modules = \<lparr>gd_auth = example_auth_db, gd_flags = [example_flag], gd_grants = [], gd_requests = [],
                    gd_roles = [], gd_circles = []\<rparr>,
      fd_clients = [], fd_consultants = [], fd_projects = [], fd_entries = [example_entry]\<rparr>"

lemma example_entries_ok: "entries_ok (fd_entries example_finance_db)"
  by (simp add: entries_ok_def example_finance_db_def example_entry_def entry_ok_def positive_cents_def PRISMA_INT_MAX_def)

lemma example_confirmed:
  obtains e db where "confirmFinanceCashPayablePaid example_auth_cfg (Auth_user example_owner) ''w'' ''e'' 1 None
    example_finance_db example_finance_db = Inr (e, db)"
proof -
  have "case confirmFinanceCashPayablePaid example_auth_cfg (Auth_user example_owner) ''w'' ''e'' 1 None
    example_finance_db example_finance_db of Inl e \<Rightarrow> False | Inr _ \<Rightarrow> True" by code_simp
  with that show thesis by (auto split: sum.splits)
qed

section \<open>Properties\<close>

text \<open>
  C25: a cash payable is paid once, by a peer: a confirmation that succeeds - with its reads taken at
  any earlier moment of the same history - records as payer its signed-in actor, who neither
  submitted the entry nor is its contributor; the paid entry stays as it is whatever follows; and
  every later confirmation of it, by anyone, with any version and whatever it read, fails.
\<close>

theorem cash_payable_is_paid_once_by_a_peer:
  assumes "finance_run a db0" "finance_run db0 db"
    "confirmFinanceCashPayablePaid cfg actor w i v st db0 db = Inr (e, db1)"
    "finance_run db1 db2" "entries_ok (fd_entries a)"
  shows "e \<in> set (fd_entries db2) \<and> ce_id e = i \<and> ce_cash e = CASH_PAID \<and>
    (\<exists>u. actor = Auth_user u \<and> ce_paidBy e = Some (hu_id u) \<and> hu_id u \<notin> set (creator_ids e)) \<and>
    (\<exists>err. confirmFinanceCashPayablePaid cfg' actor' w' i v' st' db3 db2 = Inl err)"
proof -
  have ok0: "entries_ok (fd_entries db0)" using run_facts[OF assms(1,5)] by simp
  have ok: "entries_ok (fd_entries db)" "keeps_entries (fd_entries db0) (fd_entries db)"
    using run_facts[OF assms(2) ok0] by simp_all
  have ok1: "entries_ok (fd_entries db1)" using confirm_step[OF assms(3) ok] by simp
  note e = confirmed_entry[OF assms(3) ok(1)]
  have e2: "e \<in> set (fd_entries db2)" "entries_ok (fd_entries db2)"
    using paid_stays[OF assms(4) ok1] run_facts[OF assms(4) ok1] e by simp_all
  have "entry_ok e" using e2 by (simp add: entries_ok_def)
  then obtain x where "ce_paidBy e = Some x" "x \<notin> set (creator_ids e)" using e by (auto simp: entry_ok_def)
  then have "\<exists>u. actor = Auth_user u \<and> ce_paidBy e = Some (hu_id u) \<and> hu_id u \<notin> set (creator_ids e)"
    using e by auto
  then show ?thesis using e e2 paid_entry_refused[OF e2(2,1)] by simp
qed

theorem cash_payable_is_paid_once_by_a_peer_witness:
  "case confirmFinanceCashPayablePaid example_auth_cfg (Auth_user example_owner) ''w'' ''e'' 1 None
       example_finance_db example_finance_db of
     Inl e \<Rightarrow> False
   | Inr (e, db) \<Rightarrow> \<exists>err. confirmFinanceCashPayablePaid example_auth_cfg (Auth_user example_owner) ''w'' ''e'' 1 None
       example_finance_db db = Inl err"
proof (rule example_confirmed)
  fix e db
  assume run: "confirmFinanceCashPayablePaid example_auth_cfg (Auth_user example_owner) ''w'' ''e'' 1 None
    example_finance_db example_finance_db = Inr (e, db)"
  show ?thesis
    using cash_payable_is_paid_once_by_a_peer[OF finance_run.run_start finance_run.run_start run
      finance_run.run_start example_entries_ok] run by simp
qed

text \<open>
  In every history, however reads and writes interleave, an entry is awaiting payment or paid
  exactly when it is a cash entry, amounts and minutes are positive whole numbers in range where the
  entry needs them, and a paid entry has a payer other than its submitter and contributor, a payment
  time and version two, an unpaid one none of these and version one.
\<close>

lemma finance_entries_stay_sound:
  assumes "finance_run a db" "entries_ok (fd_entries a)"
  shows "entries_ok (fd_entries db)"
  using run_facts[OF assms] by simp

text \<open>
  C27: Finance may be changed exactly by a signed-in user who passes the workspace's membership check,
  while the Finance flag is on, with read access to the module and either write access to it or the
  all-member setting; the policy returned then carries that membership, so no caller acts without one.
\<close>

theorem finance_write_access_exact:
  "((\<exists>p. requireFinanceHumanWriteAccess cfg actor w st db = Inr p \<and> fy_member p = Some m) \<longleftrightarrow>
      (\<exists>u. actor = Auth_user u \<and> may_write cfg u w st db m)) \<and>
   \<not> (\<exists>p. requireFinanceHumanWriteAccess cfg actor w st db = Inr p \<and> fy_member p = None)"
proof (intro conjI)
  have member: "\<exists>u m. actor = Auth_user u \<and> fy_member p = Some m \<and> may_write cfg u w st db m"
    if run: "requireFinanceHumanWriteAccess cfg actor w st db = Inr p" for p
  proof -
    obtain u where u: "actor = Auth_user u" using run by (auto simp: human_write_iff)
    have "getFinanceAccessPolicy cfg (Auth_user u) w st db = Inr p" "fy_canRead p" "fy_canWrite p"
      using run u by (simp_all add: human_write_iff)
    then show ?thesis using user_policy_may_write u by metis
  qed
  then show "\<not> (\<exists>p. requireFinanceHumanWriteAccess cfg actor w st db = Inr p \<and> fy_member p = None)" by force
  show "(\<exists>p. requireFinanceHumanWriteAccess cfg actor w st db = Inr p \<and> fy_member p = Some m) \<longleftrightarrow>
     (\<exists>u. actor = Auth_user u \<and> may_write cfg u w st db m)"
    using member may_write_policy[of cfg _ w st db m] by (auto simp: human_write_iff)
qed

end
