(* ===== verification/Plans.thy ===== *)
theory Plans
  imports Module_Grants Js_Number Rate_Limiter Approvals
begin

text \<open>
  Workspace plans: procurement trials (\<^verbatim>\<open>packages/domain/src/trial-entitlements.ts\<close>), the AI budget
  (\<^verbatim>\<open>packages/domain/src/cost-budget.ts\<close>) and the gate in front of the models
  (\<^verbatim>\<open>packages/models/src/usage.ts\<close>).

  The tables are lists of rows.  An update of a row that is not there throws, as Prisma does; a
  transaction that throws leaves the state it started from.  Money columns are rationals, and their
  conversion to a number rounds to a double (\<open>fl\<close>).
\<close>

section \<open>Tables\<close>

datatype plan = CORE_FREE | TRIAL_PLAN | PAYG_AI | ENTERPRISE_MANAGED

record workspace_plan =
  wp_id :: string
  wp_plan :: plan
  wp_activatedAt :: "int option"
  wp_trialEndsAt :: "int option"

record model_budget =
  bu_id :: string
  bu_workspace :: string
  bu_capUsd :: rat
  bu_alertPct :: int
  bu_startDay :: int
  bu_alertSentAt :: "int option"

datatype trial_status = TRIAL_ACTIVE | TRIAL_REVIEW_REQUIRED | TRIAL_SUSPENDED | TRIAL_EXPIRED | TRIAL_CONVERTED

record trial_row =
  tr_id :: string
  tr_workspace :: "string option"
  tr_credential :: "string option"
  tr_adminEmail :: string
  tr_emailDomain :: string
  tr_status :: trial_status
  tr_expiresAt :: int
  tr_memberLimit :: int
  tr_storageLimitMb :: int
  tr_mcpDailyCallLimit :: int
  tr_suspendedAt :: "int option"
  tr_suspensionReason :: "string option"

record trial_credential =
  cr_id :: string
  cr_workspace :: string
  cr_active :: bool
  cr_item :: "string option"
  cr_budgetCents :: "int option"
  cr_dailyLimit :: "int option"

record catalog_row =
  ci_id :: string
  ci_workspace :: string
  ci_budgetCents :: "int option"
  ci_dailyLimit :: "int option"
  ci_archivedAt :: "int option"

record usage_row =
  mu_id :: string
  mu_workspace :: string
  mu_item :: "string option"
  mu_credential :: "string option"
  mu_createdAt :: int
  mu_estimatedUsd :: "rat option"
  mu_billableUsd :: "rat option"

record document_row =
  do_id :: string
  do_workspace :: string
  do_metadata :: json

datatype billing_status = BILLING_NONE | CHECKOUT_PENDING | BILLING_ACTIVE | PAST_DUE | PAYMENT_REQUIRED | CANCELED

record billing_profile =
  bp_workspace :: string
  bp_customer :: "string option"
  bp_subscription :: "string option"
  bp_item :: "string option"
  bp_price :: "string option"
  bp_session :: "string option"
  bp_status :: billing_status
  bp_email :: "string option"
  bp_ready :: bool
  bp_periodStart :: "int option"
  bp_periodEnd :: "int option"
  bp_failedAt :: "int option"
  bp_canceledAt :: "int option"

datatype ledger_status = LEDGER_PENDING | LEDGER_REPORTED | LEDGER_INVOICED | LEDGER_FAILED

record ledger_entry =
  le_id :: string
  le_workspace :: string
  le_usage :: "string option"
  le_billableUsd :: rat
  le_status :: ledger_status
  le_record :: "string option"
  le_invoice :: "string option"
  le_reportedAt :: "int option"
  le_error :: "string option"
  le_createdAt :: int

record stripe_event_row =
  sv_id :: string
  sv_type :: string
  sv_processedAt :: "int option"
  sv_error :: "string option"

datatype account_status =
    ACCOUNT_PROSPECT | ACCOUNT_TRIAL | ACCOUNT_ONBOARDING | ACCOUNT_ACTIVE | ACCOUNT_SUSPENDED | ACCOUNT_CHURNED
  | ACCOUNT_INTERNAL | ACCOUNT_DEMO

record customer_account =
  cu_id :: string
  cu_workspaces :: "string list"
  cu_status :: account_status

record plan_db =
  pl_workspaces :: "workspace_plan list"
  pl_budgets :: "model_budget list"
  pl_trials :: "trial_row list"
  pl_credentials :: "trial_credential list"
  pl_items :: "catalog_row list"
  pl_usage :: "usage_row list"
  pl_documents :: "document_row list"
  pl_profiles :: "billing_profile list"
  pl_ledger :: "ledger_entry list"
  pl_stripe :: "stripe_event_row list"
  pl_accounts :: "customer_account list"
  pl_flags :: "flag_row list"
  pl_audit :: "audit_row list"
  pl_events :: "outbox_event list"

text \<open>
  The clock and the offset of the server's local time from UTC (taken as fixed), the identifiers given
  to new rows, the rate limiter in front of the trial's connector; and for the budgets: how the
  database stores a number in a column with two decimals, the decimal library's percentage, the lineage receipt of an amount, whether a
  workspace has an active administrator, and the delivery of an alert, which may throw.
\<close>

record plan_env =
  pe_now :: int
  pe_zone :: int
  pe_new_id :: "string \<Rightarrow> string"
  pe_rate :: "string \<Rightarrow> rate_limit_options \<Rightarrow> rate_limit_result result"
  pe_column :: "rat \<Rightarrow> rat result"
  pe_percent :: "rat \<Rightarrow> rat \<Rightarrow> rat"
  pe_receipt :: "model_budget \<Rightarrow> usage_row list \<Rightarrow> unit result"
  pe_admins :: "string \<Rightarrow> bool"
  pe_alert :: "model_budget \<Rightarrow> usage_row list \<Rightarrow> unit result"

definition record_not_found :: js_error where
  "record_not_found = PlainError ''An operation failed because it depends on one or more records that were required but not found.'' (Some ''P2025'')"

section \<open>Rows\<close>

definition find_plan :: "string \<Rightarrow> plan_db \<Rightarrow> workspace_plan option" where
  "find_plan w db = find (\<lambda>p. wp_id p = w) (pl_workspaces db)"

definition find_budget :: "string \<Rightarrow> plan_db \<Rightarrow> model_budget option" where
  "find_budget w db = find (\<lambda>b. bu_workspace b = w) (pl_budgets db)"

definition find_trial :: "string \<Rightarrow> plan_db \<Rightarrow> trial_row option" where
  "find_trial w db = find (\<lambda>t. tr_workspace t = Some w) (pl_trials db)"

definition update_workspace :: "string \<Rightarrow> (workspace_plan \<Rightarrow> workspace_plan) \<Rightarrow> plan_db \<Rightarrow> plan_db result" where
  "update_workspace w f db =
     (if list_ex (\<lambda>p. wp_id p = w) (pl_workspaces db)
      then Inr (db\<lparr>pl_workspaces := map (\<lambda>p. if wp_id p = w then f p else p) (pl_workspaces db)\<rparr>)
      else Inl record_not_found)"

definition upsert_cap :: "plan_env \<Rightarrow> string \<Rightarrow> rat \<Rightarrow> plan_db \<Rightarrow> plan_db" where
  "upsert_cap env w cap db =
     db\<lparr>pl_budgets :=
       (if list_ex (\<lambda>b. bu_workspace b = w) (pl_budgets db)
        then map (\<lambda>b. if bu_workspace b = w then b\<lparr>bu_capUsd := cap\<rparr> else b) (pl_budgets db)
        else pl_budgets db @ [\<lparr>bu_id = pe_new_id env ''modelUsageBudget'', bu_workspace = w, bu_capUsd = cap,
               bu_alertPct = 80, bu_startDay = 1, bu_alertSentAt = None\<rparr>])\<rparr>"

definition update_trial :: "string \<Rightarrow> (trial_row \<Rightarrow> trial_row) \<Rightarrow> plan_db \<Rightarrow> plan_db result" where
  "update_trial i f db =
     (if list_ex (\<lambda>t. tr_id t = i) (pl_trials db)
      then Inr (db\<lparr>pl_trials := map (\<lambda>t. if tr_id t = i then f t else t) (pl_trials db)\<rparr>)
      else Inl record_not_found)"

definition deactivate_credential :: "string option \<Rightarrow> plan_db \<Rightarrow> plan_db result" where
  "deactivate_credential c db =
     (case c of
        None \<Rightarrow> Inr db
      | Some i \<Rightarrow>
          if i = [] then Inr db
          else if list_ex (\<lambda>r. cr_id r = i) (pl_credentials db)
          then Inr (db\<lparr>pl_credentials := map (\<lambda>r. if cr_id r = i then r\<lparr>cr_active := False\<rparr> else r) (pl_credentials db)\<rparr>)
          else Inl record_not_found)"

definition plan_log ::
    "string \<Rightarrow> string option \<Rightarrow> string \<Rightarrow> string \<Rightarrow> json \<Rightarrow> json \<Rightarrow> plan_db \<Rightarrow> plan_db" where
  "plan_log w actor action tid meta payload db =
     db\<lparr>pl_audit := pl_audit db @ [\<lparr>au_workspace = w, au_actor = actor, au_action = action,
          au_entityType = ''ProcurementTrial'', au_entityId = tid, au_meta = meta\<rparr>],
        pl_events := pl_events db @ [\<lparr>oe_workspace = w, oe_type = action, oe_aggregateType = ''ProcurementTrial'',
          oe_aggregateId = tid, oe_payload = payload\<rparr>]\<rparr>"

section \<open>Trials\<close>

definition DAY_MS :: int where
  "DAY_MS = 24 * 60 * 60 * 1000"

definition SUPPORT_EMAIL_DOMAIN :: string where
  "SUPPORT_EMAIL_DOMAIN = ''corgtex.local''"

definition TRIAL_ENABLED_FEATURE_FLAGS :: "(string \<times> bool) list" where
  "TRIAL_ENABLED_FEATURE_FLAGS = [
     (''GOALS'', True), (''AGENT_GOVERNANCE'', True), (''TOOL_LINKS'', True), (''CONTEXT_MAPS'', True),
     (''SETTINGS_GENERAL'', True), (''AI_WORKSPACES'', True), (''OPENWORK_DEFAULT'', True),
     (''EXECUTION_PACKETS'', True), (''MEETING_TRANSCRIPT_SOURCES'', False), (''MEETING_RECORDERS'', False)]"

text \<open>Flags that are set already are skipped.\<close>

definition applyTrialFeatureFlags :: "plan_env \<Rightarrow> string \<Rightarrow> plan_db \<Rightarrow> plan_db" where
  "applyTrialFeatureFlags env w db =
     db\<lparr>pl_flags := pl_flags db @
       map (\<lambda>(fg, enabled). \<lparr>wf_id = pe_new_id env fg, wf_workspace = w, wf_flag = fg, wf_enabled = enabled,
              wf_config = None, wf_updatedAt = pe_now env\<rparr>)
         (filter (\<lambda>(fg, enabled). \<not> list_ex (\<lambda>r. wf_workspace r = w \<and> wf_flag r = fg) (pl_flags db))
            TRIAL_ENABLED_FEATURE_FLAGS)\<rparr>"

definition free_plan :: "plan_env \<Rightarrow> workspace_plan \<Rightarrow> workspace_plan" where
  "free_plan env p = p\<lparr>wp_plan := CORE_FREE, wp_activatedAt := Some (pe_now env)\<rparr>"

definition expireTrial :: "plan_env \<Rightarrow> trial_row \<Rightarrow> plan_db \<Rightarrow> plan_db result" where
  "expireTrial env trial db =
     and_then (update_trial (tr_id trial) (\<lambda>t. t\<lparr>tr_status := TRIAL_EXPIRED\<rparr>) db) (\<lambda>db1.
     and_then
       (case tr_workspace trial of
          None \<Rightarrow> Inr db1
        | Some w \<Rightarrow>
            if w = [] then Inr db1
            else
              and_then (update_workspace w (\<lambda>p. (free_plan env p)\<lparr>wp_trialEndsAt := Some (tr_expiresAt trial)\<rparr>) db1) (\<lambda>db2.
              Inr (plan_log w None ''procurement_trial.expired'' (tr_id trial)
                (JObj [(''downgradePlan'', JStr ''CORE_FREE'')])
                (JObj [(''trialId'', JStr (tr_id trial)), (''downgradePlan'', JStr ''CORE_FREE'')])
                (upsert_cap env w 0 db2))))
       (deactivate_credential (tr_credential trial)))"

definition assertActiveTrial :: "plan_env \<Rightarrow> trial_row \<Rightarrow> unit result" where
  "assertActiveTrial env trial =
     (if tr_status trial \<noteq> TRIAL_ACTIVE then Inl (AppError 403 ''TRIAL_INACTIVE'' ''This trial is not active.'')
      else if tr_expiresAt trial \<le> pe_now env then Inl (AppError 403 ''TRIAL_EXPIRED'' ''This trial has expired.'')
      else Inr ())"

text \<open>The state afterwards is returned beside the answer: an expired trial is written before the throw.\<close>

definition requireTrialMcpAccess :: "plan_env \<Rightarrow> string \<Rightarrow> plan_db \<Rightarrow> trial_row option result \<times> plan_db" where
  "requireTrialMcpAccess env w db =
     (case find_trial w db of
        None \<Rightarrow> (Inr None, db)
      | Some trial \<Rightarrow>
          (case assertActiveTrial env trial of
             Inl e \<Rightarrow>
               if error_code e = Some ''TRIAL_EXPIRED''
               then (case expireTrial env trial db of Inl e' \<Rightarrow> (Inl e', db) | Inr db' \<Rightarrow> (Inl e, db'))
               else (Inl e, db)
           | Inr _ \<Rightarrow>
               (and_then (pe_rate env (''procurement-trial:'' @ tr_id trial @ '':mcp:day'')
                   \<lparr>ro_windowMs = DAY_MS, ro_limit = tr_mcpDailyCallLimit trial, ro_failClosed = True\<rparr>) (\<lambda>r.
                and_then (invariant (rr_allowed r) 429 ''TRIAL_MCP_LIMIT_EXCEEDED'' ''Trial MCP call limit exceeded.'') (\<lambda>_.
                Inr (Some trial))), db)))"

definition counts_as_member :: "string \<Rightarrow> 'l auth_db \<Rightarrow> auth_member \<Rightarrow> bool" where
  "counts_as_member w db m \<longleftrightarrow>
     am_workspace m = w \<and> am_active m \<and>
     \<not> (\<exists>g\<in>set (tb_grants db). sg_user g = am_user m \<and> sg_workspace g = w \<and> sg_role g = SR_full \<and> sg_active g) \<and>
     \<not> (case find_user (am_user m) (tb_users db) of
           None \<Rightarrow> False
         | Some u \<Rightarrow> starts_with (us_email u) ''support+'' \<and> ends_with (us_email u) (''@'' @ SUPPORT_EMAIL_DOMAIN))"

definition assertTrialMemberCapacity :: "plan_env \<Rightarrow> string \<Rightarrow> 'l auth_db \<Rightarrow> plan_db \<Rightarrow> unit result" where
  "assertTrialMemberCapacity env w auth db =
     (case find_trial w db of
        None \<Rightarrow> Inr ()
      | Some trial \<Rightarrow>
          and_then (assertActiveTrial env trial) (\<lambda>_.
          invariant (int (length (filter (counts_as_member w auth) (tb_members auth))) < tr_memberLimit trial)
            403 ''TRIAL_MEMBER_LIMIT_EXCEEDED'' ''Trial member limit exceeded.''))"

definition documentStorageBytes :: "json \<Rightarrow> int" where
  "documentStorageBytes metadata = (case field metadata ''size'' of Some (JNum n) \<Rightarrow> if n > 0 then n else 0 | _ \<Rightarrow> 0)"

definition used_bytes :: "string \<Rightarrow> plan_db \<Rightarrow> int" where
  "used_bytes w db = sum_list (map (documentStorageBytes \<circ> do_metadata) (filter (\<lambda>d. do_workspace d = w) (pl_documents db)))"

definition assertTrialStorageCapacity :: "plan_env \<Rightarrow> string \<Rightarrow> int \<Rightarrow> plan_db \<Rightarrow> unit result" where
  "assertTrialStorageCapacity env w bytes db =
     (if bytes \<le> 0 then Inr ()
      else
        (case find_trial w db of
           None \<Rightarrow> Inr ()
         | Some trial \<Rightarrow>
             if tr_status trial = TRIAL_CONVERTED then Inr ()
             else
               and_then (assertActiveTrial env trial) (\<lambda>_.
               invariant (used_bytes w db + bytes \<le> tr_storageLimitMb trial * 1024 * 1024)
                 403 ''TRIAL_STORAGE_LIMIT_EXCEEDED'' ''Trial storage limit exceeded.'')))"

definition replaced_bytes :: "string \<Rightarrow> string option \<Rightarrow> plan_db \<Rightarrow> int" where
  "replaced_bytes w replacing db =
     (case find (\<lambda>d. do_workspace d = w \<and> Some (do_id d) = replacing) (pl_documents db) of
        None \<Rightarrow> 0 | Some d \<Rightarrow> documentStorageBytes (do_metadata d))"

definition lockAndAssertTrialStorageCapacity ::
    "plan_env \<Rightarrow> string \<Rightarrow> int \<Rightarrow> string option \<Rightarrow> plan_db \<Rightarrow> unit result" where
  "lockAndAssertTrialStorageCapacity env w incoming replacing db =
     (if incoming \<le> 0 then Inr ()
      else
        (case find_trial w db of
           None \<Rightarrow> Inr ()
         | Some trial \<Rightarrow>
             if tr_status trial = TRIAL_CONVERTED then Inr ()
             else
               and_then (assertActiveTrial env trial) (\<lambda>_.
               (let bytes = (if truthy_str replacing then max 0 (incoming - replaced_bytes w replacing db) else incoming) in
                if bytes \<le> 0 then Inr ()
                else invariant (used_bytes w db + bytes \<le> tr_storageLimitMb trial * 1024 * 1024)
                  403 ''TRIAL_STORAGE_LIMIT_EXCEEDED'' ''Trial storage limit exceeded.''))))"

end
