(* ===== verification/Budgets.thy ===== *)
theory Budgets
  imports Plans Workspace_Auth
begin

text \<open>
  What ends a trial beside its expiry on access: the suspension by an operator
  (\<^verbatim>\<open>trial-entitlements.ts\<close>) and the sweeps of \<^verbatim>\<open>procurement-trials.ts\<close>.  Then the AI budgets:
  \<^verbatim>\<open>packages/domain/src/cost-budget.ts\<close> and \<^verbatim>\<open>packages/models/src/usage.ts\<close>, with the usage period of
  \<^verbatim>\<open>agent-run-usage.ts\<close>.
\<close>

section \<open>Ending trials\<close>

definition acting_user_id :: "auth_actor \<Rightarrow> string option" where
  "acting_user_id actor = (case actor of Auth_user u \<Rightarrow> Some (hu_id u) | Auth_agent _ \<Rightarrow> None)"

definition suspendProcurementTrial ::
    "plan_env \<Rightarrow> auth_actor \<Rightarrow> string \<Rightarrow> string \<Rightarrow> plan_db \<Rightarrow> plan_db result" where
  "suspendProcurementTrial env actor trialId reason0 db =
     and_then (requireGlobalOperator actor) (\<lambda>_.
     (let reason = js_trim reason0 in
      and_then (invariant (reason \<noteq> []) 400 ''INVALID_INPUT'' ''Suspension reason is required.'') (\<lambda>_.
      (case find (\<lambda>t. tr_id t = trialId) (pl_trials db) of
         None \<Rightarrow> Inl (AppError 404 ''NOT_FOUND'' ''Procurement trial not found.'')
       | Some trial \<Rightarrow>
           and_then (update_trial trialId (\<lambda>t. t\<lparr>tr_status := TRIAL_SUSPENDED, tr_suspendedAt := Some (pe_now env),
                       tr_suspensionReason := Some reason\<rparr>) db) (\<lambda>db1.
           and_then (deactivate_credential (tr_credential trial) db1) (\<lambda>db2.
           (case tr_workspace trial of
              None \<Rightarrow> Inr db2
            | Some w \<Rightarrow>
                if w = [] then Inr db2
                else and_then (update_workspace w (free_plan env) db2) (\<lambda>db3.
                     Inr (plan_log w (acting_user_id actor) ''procurement_trial.suspended'' trialId
                       (JObj [(''reason'', JStr reason)])
                       (JObj [(''trialId'', JStr trialId), (''reason'', JStr reason)])
                       (upsert_cap env w 0 db3))))))))))"

text \<open>
  One transaction over the rows a first query found; \<open>updateMany\<close> writes the rows that match and does
  not throw.  The rows may have changed since the query, so the found rows and the tables are separate
  arguments.
\<close>

definition present :: "string option list \<Rightarrow> string list" where
  "present xs = filter (\<lambda>x. x \<noteq> []) (List.map_filter id xs)"

definition expire_found :: "plan_env \<Rightarrow> trial_row list \<Rightarrow> plan_db \<Rightarrow> plan_db" where
  "expire_found env found db =
     (let ws = present (map tr_workspace found);
          db1 = db\<lparr>
            pl_trials := map (\<lambda>t. if tr_id t \<in> tr_id ` set found then t\<lparr>tr_status := TRIAL_EXPIRED\<rparr> else t) (pl_trials db),
            pl_workspaces := map (\<lambda>p. if wp_id p \<in> set ws then free_plan env p else p) (pl_workspaces db)\<rparr>;
          db2 = fold (\<lambda>w. upsert_cap env w 0) ws db1
      in db2\<lparr>pl_credentials := map (\<lambda>r. if cr_id r \<in> set (present (map tr_credential found))
                                          then r\<lparr>cr_active := False\<rparr> else r) (pl_credentials db2)\<rparr>)"

definition expireStaleTrialsForIdentity ::
    "plan_env \<Rightarrow> string \<Rightarrow> string \<Rightarrow> plan_db \<Rightarrow> plan_db \<Rightarrow> plan_db" where
  "expireStaleTrialsForIdentity env adminEmail emailDomain seen db =
     (let stale = filter (\<lambda>t. tr_status t = TRIAL_ACTIVE \<and> tr_expiresAt t \<le> pe_now env
                            \<and> (tr_adminEmail t = adminEmail \<or> tr_emailDomain t = emailDomain)) (pl_trials seen)
      in if stale = [] then db else expire_found env stale db)"

definition expireActiveSmokeTrialsForDomain ::
    "plan_env \<Rightarrow> bool \<Rightarrow> string \<Rightarrow> plan_db \<Rightarrow> plan_db \<Rightarrow> plan_db" where
  "expireActiveSmokeTrialsForDomain env smokeDomain emailDomain seen db =
     (if \<not> smokeDomain then db
      else
        (let active = filter (\<lambda>t. tr_status t = TRIAL_ACTIVE \<and> tr_emailDomain t = emailDomain) (pl_trials seen)
         in if active = [] then db else expire_found env active db))"

definition expireTrialConnector :: "plan_env \<Rightarrow> trial_row \<Rightarrow> plan_db \<Rightarrow> plan_db result" where
  "expireTrialConnector env trial db =
     (let db1 = db\<lparr>pl_trials := map (\<lambda>t. if tr_id t = tr_id trial \<and> tr_status t = TRIAL_ACTIVE
                                        then t\<lparr>tr_status := TRIAL_EXPIRED\<rparr> else t) (pl_trials db)\<rparr> in
      and_then
        (if truthy_str (tr_workspace trial)
         then and_then (update_workspace (the (tr_workspace trial))
                (\<lambda>p. (free_plan env p)\<lparr>wp_trialEndsAt := Some (tr_expiresAt trial)\<rparr>) db1) (\<lambda>db2.
              Inr (upsert_cap env (the (tr_workspace trial)) 0 db2))
         else Inr db1) (\<lambda>db3.
      Inr (if truthy_str (tr_credential trial)
           then db3\<lparr>pl_credentials := map (\<lambda>r. if Some (cr_id r) = tr_credential trial
                                           then r\<lparr>cr_active := False\<rparr> else r) (pl_credentials db3)\<rparr>
           else db3)))"

section \<open>Usage periods\<close>

text \<open>The day number of a civil date, with months counted on past December and before January.\<close>

definition day_of_civil :: "int \<Rightarrow> int \<Rightarrow> int \<Rightarrow> int" where
  "day_of_civil y m d =
     (let y' = y + (m - 1) div 12;
          m' = (m - 1) mod 12 + 1;
          z = (if m' \<le> 2 then y' - 1 else y');
          mp = (if m' > 2 then m' - 3 else m' + 9)
      in z * 365 + z div 4 - z div 100 + z div 400 + (153 * mp + 2) div 5 + d - 1 - 719468)"

definition start_in_month :: "int \<Rightarrow> int \<Rightarrow> int \<Rightarrow> int \<Rightarrow> int" where
  "start_in_month zone startDay year month =
     (let lastDay = day_of_civil year (month + 1) 1 - day_of_civil year month 1
      in day_of_civil year month (min startDay lastDay) * ms_per_day - zone)"

definition currentUsagePeriodStart :: "int \<Rightarrow> int \<Rightarrow> int \<Rightarrow> int" where
  "currentUsagePeriodStart zone now startDay =
     (let (year, month, _) = civil_of_day ((now + zone) div ms_per_day);
          current = start_in_month zone startDay year month
      in if current \<le> now then current else start_in_month zone startDay year (month - 1))"

definition startOfUtcDay :: "int \<Rightarrow> int" where
  "startOfUtcDay now = now div ms_per_day * ms_per_day"

definition startOfUtcMonth :: "int \<Rightarrow> int" where
  "startOfUtcMonth now =
     (let (year, month, _) = civil_of_day (now div ms_per_day) in day_of_civil year month 1 * ms_per_day)"

section \<open>Amounts\<close>

text \<open>A decimal column read as a number; a missing amount is 0.\<close>

definition asCostNumber :: "rat option \<Rightarrow> rat" where
  "asCostNumber v = (case v of None \<Rightarrow> 0 | Some q \<Rightarrow> fl q)"

definition usage_cost :: "usage_row \<Rightarrow> rat option" where
  "usage_cost u = (case mu_billableUsd u of None \<Rightarrow> mu_estimatedUsd u | Some q \<Rightarrow> Some q)"

definition used_since :: "string \<Rightarrow> int \<Rightarrow> plan_db \<Rightarrow> rat" where
  "used_since w since db =
     foldl (\<lambda>total u. js_add total (asCostNumber (usage_cost u))) 0
       (filter (\<lambda>u. mu_workspace u = w \<and> since \<le> mu_createdAt u) (pl_usage db))"

definition getWorkspaceMonthlyUsage :: "plan_env \<Rightarrow> string \<Rightarrow> int \<Rightarrow> plan_db \<Rightarrow> rat" where
  "getWorkspaceMonthlyUsage env w startDay db =
     used_since w (currentUsagePeriodStart (pe_zone env) (pe_now env) startDay) db"

definition costUsdToCents :: "rat option \<Rightarrow> int" where
  "costUsdToCents v = (let usd = asCostNumber v in if usd \<le> 0 then 0 else \<lceil>js_mul usd 100\<rceil>)"

section \<open>The budget of a workspace\<close>

datatype js_number = Num rat | Not_finite

fun whole_number :: "js_number \<Rightarrow> bool" where
  "whole_number (Num q) = (of_int \<lfloor>q\<rfloor> = q)"
| "whole_number Not_finite = False"

definition whole_in :: "int \<Rightarrow> int \<Rightarrow> js_number option \<Rightarrow> bool" where
  "whole_in lo hi v =
     (case v of
        None \<Rightarrow> True
      | Some n \<Rightarrow> whole_number n \<and> (case n of Num q \<Rightarrow> of_int lo \<le> q \<and> q \<le> of_int hi | Not_finite \<Rightarrow> False))"

definition whole_or :: "int \<Rightarrow> js_number option \<Rightarrow> int" where
  "whole_or d v = (case v of Some (Num q) \<Rightarrow> \<lfloor>q\<rfloor> | _ \<Rightarrow> d)"

definition getModelUsageBudget ::
    "auth_config \<Rightarrow> support_store \<Rightarrow> auth_actor \<Rightarrow> string \<Rightarrow> 'l auth_db \<Rightarrow> plan_db \<Rightarrow> model_budget option result" where
  "getModelUsageBudget cfg st actor w auth db =
     and_then (requireWorkspaceMembership cfg actor w (Some [ADMIN]) None st auth) (\<lambda>_. Inr (find_budget w db))"

definition updateModelUsageBudget ::
    "plan_env \<Rightarrow> auth_config \<Rightarrow> support_store \<Rightarrow> auth_actor \<Rightarrow> string \<Rightarrow> js_number \<Rightarrow> js_number option
     \<Rightarrow> js_number option \<Rightarrow> 'l auth_db \<Rightarrow> plan_db \<Rightarrow> plan_db result" where
  "updateModelUsageBudget env cfg st actor w cap alertPct startDay auth db =
     and_then (requireWorkspaceMembership cfg actor w (Some [ADMIN]) None st auth) (\<lambda>_.
     (case cap of
        Not_finite \<Rightarrow> Inl (AppError 400 ''INVALID_INPUT'' ''Budget must be a number.'')
      | Num q \<Rightarrow>
          if \<not> whole_in 1 100 alertPct
          then Inl (AppError 400 ''INVALID_INPUT'' ''Alert threshold must be between 1 and 100.'')
          else if \<not> whole_in 1 31 startDay
          then Inl (AppError 400 ''INVALID_INPUT'' ''Billing cycle start day must be between 1 and 31.'')
          else
            and_then (pe_column env q) (\<lambda>stored.
            Inr (db\<lparr>pl_budgets :=
              (if list_ex (\<lambda>b. bu_workspace b = w) (pl_budgets db)
               then map (\<lambda>b. if bu_workspace b = w
                             then b\<lparr>bu_capUsd := stored, bu_alertPct := whole_or (bu_alertPct b) alertPct,
                                    bu_startDay := whole_or (bu_startDay b) startDay\<rparr>
                             else b) (pl_budgets db)
               else pl_budgets db @ [\<lparr>bu_id = pe_new_id env ''modelUsageBudget'', bu_workspace = w, bu_capUsd = stored,
                      bu_alertPct = whole_or 80 alertPct, bu_startDay = whole_or 1 startDay, bu_alertSentAt = None\<rparr>])\<rparr>))))"

record budget_answer =
  ba_allowed :: bool
  ba_usedPct :: rat
  ba_usedUsd :: rat
  ba_capUsd :: rat

definition paused_answer :: budget_answer where
  "paused_answer = \<lparr>ba_allowed = False, ba_usedPct = 100, ba_usedUsd = 0, ba_capUsd = 0\<rparr>"

definition expire_in_check :: "plan_env \<Rightarrow> string \<Rightarrow> trial_row \<Rightarrow> plan_db \<Rightarrow> plan_db result" where
  "expire_in_check env w trial db =
     and_then (update_trial (tr_id trial) (\<lambda>t. t\<lparr>tr_status := TRIAL_EXPIRED\<rparr>) db) (\<lambda>db1.
     and_then (update_workspace w (\<lambda>p. (free_plan env p)\<lparr>wp_trialEndsAt := Some (tr_expiresAt trial)\<rparr>) db1) (\<lambda>db2.
     deactivate_credential (tr_credential trial) (upsert_cap env w 0 db2)))"

text \<open>
  The alert transaction.  The amount of the receipt is an exact decimal sum; the percentage is the
  decimal library's.
\<close>

definition budget_alert :: "plan_env \<Rightarrow> string \<Rightarrow> plan_db \<Rightarrow> plan_db result" where
  "budget_alert env w db =
     (case find_budget w db of
        None \<Rightarrow> Inr db
      | Some b \<Rightarrow>
          if fl (bu_capUsd b) \<le> 0 then Inr db
          else
            (let period = currentUsagePeriodStart (pe_zone env) (pe_now env) (bu_startDay b) in
             if (case bu_alertSentAt b of None \<Rightarrow> False | Some t \<Rightarrow> period \<le> t) then Inr db
             else
               (let usages = filter (\<lambda>u. mu_workspace u = w \<and> period \<le> mu_createdAt u) (pl_usage db) in
                if length usages > 5000 then Inr db
                else
                  and_then (pe_receipt env b usages) (\<lambda>_.
                  (let used = sum_list (map (\<lambda>u. case usage_cost u of None \<Rightarrow> 0 | Some q \<Rightarrow> q) usages) in
                   if pe_percent env used (bu_capUsd b) < of_int (bu_alertPct b) then Inr db
                   else if \<not> pe_admins env w then Inr db
                   else and_then (pe_alert env b usages) (\<lambda>_.
                     Inr (db\<lparr>pl_budgets := map (\<lambda>r. if bu_id r = bu_id b
                                                    then r\<lparr>bu_alertSentAt := Some (pe_now env)\<rparr> else r)
                                              (pl_budgets db)\<rparr>)))))))"

text \<open>The answer and the tables afterwards; a transaction that throws leaves the tables.\<close>

definition check_cap :: "plan_env \<Rightarrow> string \<Rightarrow> plan_db \<Rightarrow> budget_answer result \<times> plan_db" where
  "check_cap env w db =
     (case find_budget w db of
        None \<Rightarrow> (Inr \<lparr>ba_allowed = True, ba_usedPct = 0, ba_usedUsd = 0, ba_capUsd = -1\<rparr>, db)
      | Some budget \<Rightarrow>
          (let capUsd = fl (bu_capUsd budget) in
           if capUsd < 0 then (Inr \<lparr>ba_allowed = True, ba_usedPct = 0, ba_usedUsd = 0, ba_capUsd = capUsd\<rparr>, db)
           else if capUsd = 0 then (Inr paused_answer, db)
           else
             (let usedUsd = getWorkspaceMonthlyUsage env w (bu_startDay budget) db;
                  usedPct = js_mul (js_div usedUsd capUsd) 100;
                  answer = \<lparr>ba_allowed = usedUsd < capUsd, ba_usedPct = usedPct, ba_usedUsd = usedUsd, ba_capUsd = capUsd\<rparr> in
              if usedPct \<ge> of_int (bu_alertPct budget)
                 \<and> (case bu_alertSentAt budget of
                      None \<Rightarrow> True
                    | Some t \<Rightarrow> t < currentUsagePeriodStart (pe_zone env) (pe_now env) (bu_startDay budget))
              then (case budget_alert env w db of
                      Inl e \<Rightarrow> (Inl e, db)
                    | Inr db' \<Rightarrow> (Inr answer, db'))
              else (Inr answer, db))))"

definition checkBudget :: "plan_env \<Rightarrow> string \<Rightarrow> plan_db \<Rightarrow> budget_answer result \<times> plan_db" where
  "checkBudget env w db =
     (if map_option wp_plan (find_plan w db) = Some CORE_FREE then (Inr paused_answer, db)
      else
        (case find_trial w db of
           None \<Rightarrow> check_cap env w db
         | Some trial \<Rightarrow>
             if tr_status trial \<noteq> TRIAL_ACTIVE \<and> tr_status trial \<noteq> TRIAL_CONVERTED then (Inr paused_answer, db)
             else if tr_status trial = TRIAL_ACTIVE \<and> tr_expiresAt trial \<le> pe_now env
             then (case expire_in_check env w trial db of
                     Inl e \<Rightarrow> (Inl e, db)
                   | Inr db' \<Rightarrow> (Inr paused_answer, db'))
             else check_cap env w db))"

section \<open>The gates in front of the models\<close>

text \<open>
  \<^verbatim>\<open>CatalogBudgetError\<close> and \<^verbatim>\<open>WorkspaceModelBudgetError\<close> carry the status 429, a code and a message;
  they are application errors of the model.
\<close>

record budget_subject =
  bs_item :: "string option"
  bs_budgetCents :: "int option"
  bs_dailyLimit :: "int option"

definition own_or :: "int option \<Rightarrow> int option \<Rightarrow> int option" where
  "own_or a b = (case a of None \<Rightarrow> b | Some v \<Rightarrow> Some v)"

definition resolveBudgetSubject ::
    "string \<Rightarrow> string option \<Rightarrow> string option \<Rightarrow> plan_db \<Rightarrow> budget_subject option result" where
  "resolveBudgetSubject w itemId credentialId db =
     (if truthy_str credentialId
      then
        (case find (\<lambda>c. Some (cr_id c) = credentialId \<and> cr_workspace c = w) (pl_credentials db) of
           None \<Rightarrow> Inl (AppError 429 ''CATALOG_CREDENTIAL_REVOKED'' ''This catalog API key is inactive.'')
         | Some c \<Rightarrow>
             if \<not> cr_active c
             then Inl (AppError 429 ''CATALOG_CREDENTIAL_REVOKED'' ''This catalog API key is inactive.'')
             else
               (let item = (case cr_item c of None \<Rightarrow> None | Some i \<Rightarrow> find (\<lambda>r. ci_id r = i) (pl_items db)) in
                if item \<noteq> None \<and> ci_archivedAt (the item) \<noteq> None
                then Inl (AppError 429 ''CATALOG_ITEM_ARCHIVED'' ''This catalog item is archived.'')
                else Inr (Some \<lparr>bs_item = cr_item c,
                       bs_budgetCents = own_or (cr_budgetCents c) (case item of None \<Rightarrow> None | Some r \<Rightarrow> ci_budgetCents r),
                       bs_dailyLimit = own_or (cr_dailyLimit c) (case item of None \<Rightarrow> None | Some r \<Rightarrow> ci_dailyLimit r)\<rparr>)))
      else if \<not> truthy_str itemId then Inr None
      else
        (case find (\<lambda>r. Some (ci_id r) = itemId \<and> ci_workspace r = w \<and> ci_archivedAt r = None) (pl_items db) of
           None \<Rightarrow> Inr None
         | Some r \<Rightarrow> Inr (Some \<lparr>bs_item = Some (ci_id r), bs_budgetCents = ci_budgetCents r, bs_dailyLimit = ci_dailyLimit r\<rparr>)))"

definition in_usage_scope :: "string \<Rightarrow> string option \<Rightarrow> budget_subject \<Rightarrow> usage_row \<Rightarrow> bool" where
  "in_usage_scope w credentialId subject u \<longleftrightarrow>
     mu_workspace u = w \<and>
     (if truthy_str credentialId then mu_credential u = credentialId else mu_item u = bs_item subject)"

definition assertCatalogModelBudget ::
    "plan_env \<Rightarrow> string \<Rightarrow> string option \<Rightarrow> string option \<Rightarrow> plan_db \<Rightarrow> unit result" where
  "assertCatalogModelBudget env w itemId credentialId db =
     (if \<not> truthy_str itemId \<and> \<not> truthy_str credentialId then Inr ()
      else
        and_then (resolveBudgetSubject w itemId credentialId db) (\<lambda>found.
        (case found of
           None \<Rightarrow> Inr ()
         | Some subject \<Rightarrow>
             if bs_budgetCents subject = None \<and> bs_dailyLimit subject = None then Inr ()
             else
               (let scoped = filter (in_usage_scope w credentialId subject) (pl_usage db) in
                and_then
                  (case bs_dailyLimit subject of
                     None \<Rightarrow> Inr ()
                   | Some limit \<Rightarrow>
                       if int (length (filter (\<lambda>u. startOfUtcDay (pe_now env) \<le> mu_createdAt u) scoped)) \<ge> limit
                       then Inl (AppError 429 ''CATALOG_DAILY_LIMIT_EXCEEDED'' ''This catalog item has reached today's call limit.'')
                       else Inr ()) (\<lambda>_.
                (case bs_budgetCents subject of
                   None \<Rightarrow> Inr ()
                 | Some budget \<Rightarrow>
                     if sum_list (map (costUsdToCents \<circ> usage_cost)
                          (filter (\<lambda>u. startOfUtcMonth (pe_now env) \<le> mu_createdAt u) scoped)) \<ge> budget
                     then Inl (AppError 429 ''CATALOG_MONTHLY_BUDGET_EXCEEDED'' ''This catalog item has reached its monthly AI budget.'')
                     else Inr ()))))))"

definition gate_error :: "string \<Rightarrow> string \<Rightarrow> js_error" where
  "gate_error c m = AppError 429 c m"

text \<open>The trial that is expired here is the active one of the workspace, if it has one.\<close>

definition expire_in_gate :: "plan_env \<Rightarrow> string \<Rightarrow> plan_db \<Rightarrow> plan_db result" where
  "expire_in_gate env w db =
     and_then (update_workspace w (free_plan env) db) (\<lambda>db1.
     (let db2 = upsert_cap env w 0 db1 in
      (case find (\<lambda>t. tr_workspace t = Some w \<and> tr_status t = TRIAL_ACTIVE) (pl_trials db) of
         None \<Rightarrow> Inr db2
       | Some trial \<Rightarrow>
           and_then (update_trial (tr_id trial) (\<lambda>t. t\<lparr>tr_status := TRIAL_EXPIRED\<rparr>) db2)
             (deactivate_credential (tr_credential trial)))))"

definition assertWorkspaceModelBudget :: "plan_env \<Rightarrow> string \<Rightarrow> plan_db \<Rightarrow> unit result \<times> plan_db" where
  "assertWorkspaceModelBudget env w db =
     (case find_plan w db of
        None \<Rightarrow> (Inl (gate_error ''WORKSPACE_NOT_FOUND'' ''Workspace not found.''), db)
      | Some p \<Rightarrow>
          if wp_plan p = CORE_FREE
          then (Inl (gate_error ''AI_BUDGET_PAUSED'' ''AI usage is paused for this workspace.''), db)
          else if wp_plan p = TRIAL_PLAN \<and> (case wp_trialEndsAt p of None \<Rightarrow> False | Some t \<Rightarrow> t \<le> pe_now env)
          then (case expire_in_gate env w db of
                  Inl e \<Rightarrow> (Inl e, db)
                | Inr db' \<Rightarrow> (Inl (gate_error ''TRIAL_EXPIRED'' ''Trial AI usage has expired.''), db'))
          else
            (case find_budget w db of
               None \<Rightarrow> (Inr (), db)
             | Some budget \<Rightarrow>
                 (let capUsd = fl (bu_capUsd budget) in
                  if capUsd < 0 then (Inr (), db)
                  else if capUsd = 0
                  then (Inl (gate_error ''AI_BUDGET_PAUSED'' ''AI usage is paused for this workspace.''), db)
                  else if used_since w (startOfUtcMonth (pe_now env)) db \<ge> capUsd
                  then (Inl (gate_error ''AI_BUDGET_EXCEEDED'' ''This workspace has reached its AI budget.''), db)
                  else (Inr (), db))))"

text \<open>Amounts arrive as decimal texts; their values are taken as already parsed.\<close>

record usage_input =
  ui_workspace :: string
  ui_item :: "string option"
  ui_credential :: "string option"
  ui_estimatedUsd :: "rat option"
  ui_rawUsd :: "rat option"
  ui_billableUsd :: "rat option"

definition unique_failed :: js_error where
  "unique_failed = PlainError ''Unique constraint failed'' (Some ''P2002'')"

text \<open>Two writes without a transaction: the usage stays when its ledger entry cannot be written.\<close>

definition recordModelUsage :: "plan_env \<Rightarrow> usage_input \<Rightarrow> plan_db \<Rightarrow> unit result \<times> plan_db" where
  "recordModelUsage env inp db =
     (let uid = pe_new_id env ''modelUsage''; lid = pe_new_id env ''aiUsageLedgerEntry'' in
      if list_ex (\<lambda>u. mu_id u = uid) (pl_usage db) then (Inl unique_failed, db)
      else
        (let usage = \<lparr>mu_id = uid, mu_workspace = ui_workspace inp, mu_item = ui_item inp,
               mu_credential = ui_credential inp, mu_createdAt = pe_now env, mu_estimatedUsd = ui_estimatedUsd inp,
               mu_billableUsd = (case ui_billableUsd inp of None \<Rightarrow> ui_estimatedUsd inp | Some q \<Rightarrow> Some q)\<rparr>;
             db1 = db\<lparr>pl_usage := pl_usage db @ [usage]\<rparr>
         in (case (ui_rawUsd inp, ui_billableUsd inp) of
               (Some _, Some billable) \<Rightarrow>
                 if list_ex (\<lambda>e. le_id e = lid \<or> le_usage e = Some uid) (pl_ledger db1) then (Inl unique_failed, db1)
                 else (Inr (), db1\<lparr>pl_ledger := pl_ledger db1 @ [\<lparr>le_id = lid, le_workspace = ui_workspace inp,
                   le_usage = Some uid, le_billableUsd = billable, le_status = LEDGER_PENDING, le_record = None,
                   le_invoice = None, le_reportedAt = None, le_error = None, le_createdAt = pe_now env\<rparr>]\<rparr>)
             | _ \<Rightarrow> (Inr (), db1))))"

end
