(* ===== verification/Billing.thy ===== *)
theory Billing
  imports Budgets Js_Json
begin

text \<open>
  Billing with Stripe, \<^verbatim>\<open>packages/domain/src/billing.ts\<close>: the signed webhook and what its events
  do to the plan, the budget and the recorder flag of a workspace, the checkout, and the reporting of
  AI usage.

  Stripe is an argument (\<open>be_fetch\<close>): the status and parsed body of the answer to a request, or the
  error of the request, given the requests made before it in the same run.  \<open>JSON.parse\<close> (\<open>be_parse\<close>),
  the HMAC and dates in a format other than ISO's are arguments as well.
\<close>

record stripe_call =
  sc_method :: string
  sc_path :: string
  sc_params :: "(string \<times> string) list"

record billing_env =
  be_plan :: plan_env
  be_auth :: auth_config
  be_appUrl :: string
  be_secretKey :: "string option"
  be_webhookSecret :: "string option"
  be_priceId :: "string option"
  be_fetch :: "stripe_call list \<Rightarrow> stripe_call \<Rightarrow> (int \<times> json) result"
  be_hmac :: "string \<Rightarrow> string \<Rightarrow> string"
  be_parse :: "string \<Rightarrow> json result"
  be_otherDate :: "string \<Rightarrow> int option"

definition be_now :: "billing_env \<Rightarrow> int" where
  "be_now env = pe_now (be_plan env)"

definition invalid_argument :: js_error where
  "invalid_argument = PlainError ''Invalid value for argument'' None"

section \<open>Fields and dates\<close>

definition stringField :: "json option \<Rightarrow> string option" where
  "stringField v = (case v of Some (JStr s) \<Rightarrow> if js_trim s \<noteq> [] then Some s else None | _ \<Rightarrow> None)"

definition numberDate :: "json option \<Rightarrow> int option" where
  "numberDate v = (case v of Some (JNum n) \<Rightarrow> Some (n * 1000) | _ \<Rightarrow> None)"

definition either :: "'a option \<Rightarrow> 'a option \<Rightarrow> 'a option" where
  "either a b = (case a of None \<Rightarrow> b | Some v \<Rightarrow> Some v)"

fun elements :: "json option \<Rightarrow> json list" where
  "elements (Some (JArr xs)) = xs"
| "elements _ = []"

definition subscriptionItemIdFromObject :: "json \<Rightarrow> string option" where
  "subscriptionItemIdFromObject value =
     (case field value ''items'' of
        Some (JObj items) \<Rightarrow>
          List.find (\<lambda>_. True)
            (List.map_filter (\<lambda>e. case field e ''id'' of Some (JStr s) \<Rightarrow> Some s | _ \<Rightarrow> None)
              (elements (map_of items ''data'')))
      | _ \<Rightarrow> None)"

text \<open>\<open>Date.parse\<close> of the format \<open>toISOString\<close> prints for the years 0 to 9999.\<close>

definition number_at :: "nat \<Rightarrow> nat \<Rightarrow> string \<Rightarrow> int" where
  "number_at i n s = int (decimal_value (take n (drop i s)))"

definition iso_shape :: "string \<Rightarrow> bool" where
  "iso_shape s \<longleftrightarrow>
     length s = 24 \<and> s ! 4 = CHR ''-'' \<and> s ! 7 = CHR ''-'' \<and> s ! 10 = CHR ''T'' \<and> s ! 13 = CHR '':''
     \<and> s ! 16 = CHR '':'' \<and> s ! 19 = CHR ''.'' \<and> s ! 23 = CHR ''Z''
     \<and> list_all (\<lambda>i. is_digit (s ! i)) [0, 1, 2, 3, 5, 6, 8, 9, 11, 12, 14, 15, 17, 18, 20, 21, 22]"

definition iso_value :: "string \<Rightarrow> int option" where
  "iso_value s =
     (let y = number_at 0 4 s; mo = number_at 5 2 s; d = number_at 8 2 s;
          h = number_at 11 2 s; mi = number_at 14 2 s; sec = number_at 17 2 s; ms = number_at 20 3 s in
      if 1 \<le> mo \<and> mo \<le> 12 \<and> 1 \<le> d \<and> d \<le> day_of_civil y (mo + 1) 1 - day_of_civil y mo 1
         \<and> (h \<le> 23 \<or> h = 24 \<and> mi = 0 \<and> sec = 0 \<and> ms = 0) \<and> mi \<le> 59 \<and> sec \<le> 59
      then Some (day_of_civil y mo d * ms_per_day + h * 3600000 + mi * 60000 + sec * 1000 + ms)
      else None)"

definition date_parse :: "billing_env \<Rightarrow> string \<Rightarrow> int option" where
  "date_parse env s =
     (case (if iso_shape s then iso_value s else None) of
        None \<Rightarrow> be_otherDate env s
      | Some t \<Rightarrow> Some t)"

section \<open>Requests\<close>

definition upper_hex :: "nat \<Rightarrow> string" where
  "upper_hex n = (''0123456789ABCDEF'' ! (n div 16 mod 16)) # [''0123456789ABCDEF'' ! (n mod 16)]"

definition uri_unreserved :: "char \<Rightarrow> bool" where
  "uri_unreserved c \<longleftrightarrow>
     list_ex (\<lambda>(first, last). first \<le> c \<and> c \<le> last)
       [(CHR ''0'', CHR ''9''), (CHR ''A'', CHR ''Z''), (CHR ''a'', CHR ''z'')]
     \<or> c \<in> set [CHR ''-'', CHR ''_'', CHR ''.'', CHR ''!'', CHR ''~'', CHR ''*'', CHR 0x27, CHR ''('', CHR '')'']"

definition encodeURIComponent :: "string \<Rightarrow> string" where
  "encodeURIComponent s =
     concat (map (\<lambda>c. if uri_unreserved c then [c]
                      else if of_char c < (128 :: nat) then CHR ''%'' # upper_hex (of_char c)
                      else CHR ''%'' # upper_hex (192 + of_char c div 64) @ CHR ''%'' # upper_hex (128 + of_char c mod 64)) s)"

definition requireStripeSecret :: "billing_env \<Rightarrow> string result" where
  "requireStripeSecret env =
     (if truthy_str (be_secretKey env) then Inr (the (be_secretKey env))
      else Inl (AppError 503 ''STRIPE_NOT_CONFIGURED'' ''Stripe billing is not configured.''))"

definition requireStripePriceId :: "billing_env \<Rightarrow> string result" where
  "requireStripePriceId env =
     (if truthy_str (be_priceId env) then Inr (the (be_priceId env))
      else Inl (AppError 503 ''STRIPE_PRICE_NOT_CONFIGURED'' ''Stripe AI usage price is not configured.''))"

definition appReturnUrl :: "billing_env \<Rightarrow> string \<Rightarrow> string \<Rightarrow> string" where
  "appReturnUrl env w status =
     (if ends_with (be_appUrl env) ''/'' then butlast (be_appUrl env) else be_appUrl env)
       @ ''/workspaces/'' @ w @ ''/settings?tab=agents&billing='' @ status"

definition stripeRequest :: "billing_env \<Rightarrow> stripe_call list \<Rightarrow> stripe_call \<Rightarrow> json result" where
  "stripeRequest env past call =
     and_then (requireStripeSecret env) (\<lambda>_.
     and_then (be_fetch env past call) (\<lambda>(status, data).
     if 200 \<le> status \<and> status \<le> 299 then Inr data
     else
       and_then (get_prop data ''error'') (\<lambda>err.
       Inl (AppError 502 ''STRIPE_REQUEST_FAILED''
         (case stringField (case err of None \<Rightarrow> None | Some e \<Rightarrow> field e ''message'') of
            Some m \<Rightarrow> m
          | None \<Rightarrow> ''Stripe request failed with status '' @ string_of_int status @ ''.'')))))"

definition getStripeSubscription :: "billing_env \<Rightarrow> string \<Rightarrow> json result" where
  "getStripeSubscription env i =
     stripeRequest env [] \<lparr>sc_method = ''GET'', sc_path = ''/subscriptions/'' @ encodeURIComponent i, sc_params = []\<rparr>"

section \<open>The recorder flag\<close>

definition MEETING_RECORDERS_FEATURE_FLAG :: string where
  "MEETING_RECORDERS_FEATURE_FLAG = ''MEETING_RECORDERS''"

definition STRIPE_PAYG_RECORDER_ACCESS_KEY :: string where
  "STRIPE_PAYG_RECORDER_ACCESS_KEY = ''stripePaygAiRecorderAccess''"

definition STRIPE_PAYG_RECORDER_ACCESS_GRANTED_AT_KEY :: string where
  "STRIPE_PAYG_RECORDER_ACCESS_GRANTED_AT_KEY = ''stripePaygAiRecorderAccessGrantedAt''"

definition RECORDER_ACCESS_EXTERNAL_TOUCH_GRACE_MS :: int where
  "RECORDER_ACCESS_EXTERNAL_TOUCH_GRACE_MS = 5000"

definition config_field :: "json option \<Rightarrow> string \<Rightarrow> json option" where
  "config_field config k = (case config of Some (JObj fs) \<Rightarrow> map_of fs k | _ \<Rightarrow> None)"

definition hasStripePaygRecorderAccess :: "json option \<Rightarrow> bool" where
  "hasStripePaygRecorderAccess config \<longleftrightarrow> config_field config STRIPE_PAYG_RECORDER_ACCESS_KEY = Some (JBool True)"

definition wasTouchedAfterStripeGrant :: "billing_env \<Rightarrow> flag_row option \<Rightarrow> bool" where
  "wasTouchedAfterStripeGrant env row =
     (case row of
        None \<Rightarrow> False
      | Some r \<Rightarrow>
          (case config_field (wf_config r) STRIPE_PAYG_RECORDER_ACCESS_GRANTED_AT_KEY of
             Some (JStr s) \<Rightarrow>
               (case date_parse env s of
                  None \<Rightarrow> False
                | Some grantedAt \<Rightarrow> wf_updatedAt r - grantedAt > RECORDER_ACCESS_EXTERNAL_TOUCH_GRACE_MS)
           | _ \<Rightarrow> False))"

definition recorderAccessConfig :: "billing_env \<Rightarrow> json option \<Rightarrow> bool \<Rightarrow> json" where
  "recorderAccessConfig env config enabled =
     (let own = (case config of Some (JObj fs) \<Rightarrow> fs | _ \<Rightarrow> []);
          marked = put_field STRIPE_PAYG_RECORDER_ACCESS_KEY (JBool enabled) own
      in JObj (if enabled
               then put_field STRIPE_PAYG_RECORDER_ACCESS_GRANTED_AT_KEY (JStr (iso_of_ms (be_now env))) marked
               else marked))"

definition recorder_flag :: "string \<Rightarrow> plan_db \<Rightarrow> flag_row option" where
  "recorder_flag w db =
     find (\<lambda>r. wf_workspace r = w \<and> wf_flag r = MEETING_RECORDERS_FEATURE_FLAG) (pl_flags db)"

definition setPurchasedRecorderAccess :: "billing_env \<Rightarrow> string \<Rightarrow> bool \<Rightarrow> plan_db \<Rightarrow> plan_db" where
  "setPurchasedRecorderAccess env w enabled db =
     (let existing = recorder_flag w db;
          config0 = (case existing of None \<Rightarrow> None | Some r \<Rightarrow> wf_config r) in
      if enabled \<and> (case existing of None \<Rightarrow> False | Some r \<Rightarrow> wf_enabled r) then db
      else if \<not> enabled \<and> (\<not> hasStripePaygRecorderAccess config0 \<or> wasTouchedAfterStripeGrant env existing) then db
      else
        (let config = recorderAccessConfig env config0 enabled in
         case existing of
           None \<Rightarrow>
             db\<lparr>pl_flags := pl_flags db @ [\<lparr>wf_id = pe_new_id (be_plan env) MEETING_RECORDERS_FEATURE_FLAG, wf_workspace = w,
               wf_flag = MEETING_RECORDERS_FEATURE_FLAG, wf_enabled = enabled, wf_config = Some config,
               wf_updatedAt = be_now env\<rparr>]\<rparr>
         | Some _ \<Rightarrow>
             db\<lparr>pl_flags := map (\<lambda>r. if wf_workspace r = w \<and> wf_flag r = MEETING_RECORDERS_FEATURE_FLAG
                  then r\<lparr>wf_enabled := enabled, wf_config := Some config, wf_updatedAt := be_now env\<rparr> else r)
                (pl_flags db)\<rparr>))"

section \<open>Activating and pausing\<close>

record billing_activation =
  av_customer :: "string option"
  av_subscription :: "string option"
  av_item :: "string option"
  av_price :: "string option"
  av_email :: "string option"
  av_periodStart :: "int option"
  av_periodEnd :: "int option"

definition find_profile :: "string \<Rightarrow> plan_db \<Rightarrow> billing_profile option" where
  "find_profile w db = find (\<lambda>p. bp_workspace p = w) (pl_profiles db)"

definition valid_date :: "int option \<Rightarrow> bool" where
  "valid_date d = (case d of None \<Rightarrow> True | Some t \<Rightarrow> \<bar>t\<bar> \<le> max_time_value)"

text \<open>The customer and the subscription of a profile are unique columns.\<close>

definition profile_clash :: "billing_profile list \<Rightarrow> bool" where
  "profile_clash ps \<longleftrightarrow>
     \<not> distinct (List.map_filter bp_customer ps) \<or> \<not> distinct (List.map_filter bp_subscription ps)"

definition put_profile :: "string \<Rightarrow> billing_profile \<Rightarrow> (billing_profile \<Rightarrow> billing_profile) \<Rightarrow> plan_db \<Rightarrow> plan_db result" where
  "put_profile w fresh f db =
     (let ps = (if find_profile w db = None then pl_profiles db @ [fresh]
                else map (\<lambda>p. if bp_workspace p = w then f p else p) (pl_profiles db))
      in if profile_clash ps then Inl unique_failed else Inr (db\<lparr>pl_profiles := ps\<rparr>))"

definition activate_profile :: "billing_activation \<Rightarrow> billing_profile \<Rightarrow> billing_profile" where
  "activate_profile a p =
     p\<lparr>bp_status := BILLING_ACTIVE, bp_customer := either (av_customer a) (bp_customer p),
       bp_subscription := either (av_subscription a) (bp_subscription p), bp_item := either (av_item a) (bp_item p),
       bp_price := either (av_price a) (bp_price p), bp_email := either (av_email a) (bp_email p), bp_ready := True,
       bp_failedAt := None, bp_canceledAt := None,
       bp_periodStart := either (av_periodStart a) (bp_periodStart p),
       bp_periodEnd := either (av_periodEnd a) (bp_periodEnd p)\<rparr>"

definition empty_profile :: "string \<Rightarrow> billing_profile" where
  "empty_profile w = \<lparr>bp_workspace = w, bp_customer = None, bp_subscription = None, bp_item = None, bp_price = None,
     bp_session = None, bp_status = BILLING_NONE, bp_email = None, bp_ready = False, bp_periodStart = None,
     bp_periodEnd = None, bp_failedAt = None, bp_canceledAt = None\<rparr>"

definition activatePaygAi :: "billing_env \<Rightarrow> string \<Rightarrow> billing_activation \<Rightarrow> plan_db \<Rightarrow> plan_db result" where
  "activatePaygAi env w a db =
     and_then (update_workspace w (\<lambda>p. p\<lparr>wp_plan := PAYG_AI, wp_activatedAt := Some (be_now env)\<rparr>) db) (\<lambda>db1.
     (let db2 = upsert_cap (be_plan env) w (-1) db1 in
      if \<not> valid_date (av_periodStart a) \<or> \<not> valid_date (av_periodEnd a) then Inl invalid_argument
      else
        and_then (put_profile w (activate_profile a (empty_profile w)) (activate_profile a) db2) (\<lambda>db3.
        (let db4 = setPurchasedRecorderAccess env w True db3 in
         Inr (db4\<lparr>pl_accounts := map (\<lambda>c. if w \<in> set (cu_workspaces c) then c\<lparr>cu_status := ACCOUNT_ACTIVE\<rparr> else c)
                (pl_accounts db4)\<rparr>)))))"

definition pauseAiForBilling :: "billing_env \<Rightarrow> string \<Rightarrow> billing_status \<Rightarrow> plan_db \<Rightarrow> plan_db result" where
  "pauseAiForBilling env w status db =
     and_then (update_workspace w (free_plan (be_plan env)) db) (\<lambda>db1.
     (let db2 = upsert_cap (be_plan env) w 0 db1 in
      if find_profile w db2 = None then Inl record_not_found
      else
        (let db3 = db2\<lparr>pl_profiles := map (\<lambda>p. if bp_workspace p = w
               then (if status = CANCELED
                     then p\<lparr>bp_status := status, bp_ready := False, bp_canceledAt := Some (be_now env)\<rparr>
                     else p\<lparr>bp_status := status, bp_ready := False, bp_failedAt := Some (be_now env)\<rparr>)
               else p) (pl_profiles db2)\<rparr>
         in Inr (setPurchasedRecorderAccess env w False db3))))"

section \<open>Checkout\<close>

definition createStripeCheckoutSession ::
    "billing_env \<Rightarrow> support_store \<Rightarrow> auth_actor \<Rightarrow> string \<Rightarrow> 'l auth_db \<Rightarrow> plan_db
     \<Rightarrow> ((string \<times> string option) \<times> plan_db) result" where
  "createStripeCheckoutSession env st actor w auth db =
     and_then (requireWorkspaceMembership (be_auth env) actor w (Some [ADMIN]) None st auth) (\<lambda>_.
     (case actor of
        Auth_agent _ \<Rightarrow> Inl (AppError 403 ''FORBIDDEN'' ''Only users can start billing checkout.'')
      | Auth_user u \<Rightarrow>
          and_then (requireStripePriceId env) (\<lambda>priceId.
          (case find_workspace w (tb_workspaces auth) of
             None \<Rightarrow> Inl (AppError 404 ''NOT_FOUND'' ''Workspace not found.'')
           | Some ws \<Rightarrow>
               (let known = (case find_profile w db of None \<Rightarrow> None | Some p \<Rightarrow> bp_customer p);
                    newCustomer = \<lparr>sc_method = ''POST'', sc_path = ''/customers'', sc_params =
                      [(''email'', hu_email u), (''name'', wk_name ws), (''metadata[workspaceId]'', wk_id ws),
                       (''metadata[workspaceSlug]'', wk_slug ws)]\<rparr> in
                and_then
                  (if truthy_str known then Inr (the known, [])
                   else and_then (stripeRequest env [] newCustomer) (\<lambda>customer.
                        and_then (get_prop customer ''id'') (\<lambda>i. Inr (template_value i, [newCustomer])))) (\<lambda>(customerId, past).
                and_then
                  (stripeRequest env past \<lparr>sc_method = ''POST'', sc_path = ''/checkout/sessions'', sc_params =
                     [(''mode'', ''subscription''), (''customer'', customerId), (''client_reference_id'', wk_id ws),
                      (''success_url'', appReturnUrl env (wk_id ws) ''success''),
                      (''cancel_url'', appReturnUrl env (wk_id ws) ''canceled''),
                      (''line_items[0][price]'', priceId), (''metadata[workspaceId]'', wk_id ws),
                      (''subscription_data[metadata][workspaceId]'', wk_id ws)]\<rparr>) (\<lambda>session.
                and_then (get_prop session ''id'') (\<lambda>sid.
                (let pending = (\<lambda>p. p\<lparr>bp_customer := Some customerId, bp_session := Some (template_value sid),
                       bp_price := Some priceId, bp_status := CHECKOUT_PENDING, bp_email := Some (hu_email u)\<rparr>) in
                 and_then (put_profile (wk_id ws) (pending (empty_profile (wk_id ws))) pending db) (\<lambda>db'.
                 Inr ((template_value sid, stringField (field session ''url'')), db')))))))))))"

definition createStripeBillingPortalSession ::
    "billing_env \<Rightarrow> support_store \<Rightarrow> auth_actor \<Rightarrow> string \<Rightarrow> 'l auth_db \<Rightarrow> plan_db
     \<Rightarrow> (string \<times> string option) result" where
  "createStripeBillingPortalSession env st actor w auth db =
     and_then (requireWorkspaceMembership (be_auth env) actor w (Some [ADMIN]) None st auth) (\<lambda>_.
     (let customer = (case find_profile w db of None \<Rightarrow> None | Some p \<Rightarrow> bp_customer p) in
      and_then (invariant (truthy_str customer) 400 ''BILLING_NOT_CONNECTED''
        ''Billing is not connected for this workspace.'') (\<lambda>_.
      and_then (stripeRequest env [] \<lparr>sc_method = ''POST'', sc_path = ''/billing_portal/sessions'', sc_params =
        [(''customer'', the customer), (''return_url'', appReturnUrl env w ''portal_return'')]\<rparr>) (\<lambda>session.
      and_then (get_prop session ''id'') (\<lambda>sid.
      Inr (template_value sid, stringField (field session ''url'')))))))"

section \<open>The signature of a webhook\<close>

fun split_char :: "char \<Rightarrow> string \<Rightarrow> string list" where
  "split_char c [] = [[]]"
| "split_char c (x # xs) =
     (if x = c then [] # split_char c xs
      else (case split_char c xs of [] \<Rightarrow> [[x]] | p # ps \<Rightarrow> (x # p) # ps))"

definition hex_value :: "char \<Rightarrow> nat option" where
  "hex_value c =
     (if is_digit c then Some (of_char c - 48)
      else if CHR ''a'' \<le> c \<and> c \<le> CHR ''f'' then Some (of_char c - 87)
      else if CHR ''A'' \<le> c \<and> c \<le> CHR ''F'' then Some (of_char c - 55)
      else None)"

text \<open>\<^verbatim>\<open>Buffer.from(s, "hex")\<close> reads pairs of digits and stops at the first pair that is none.\<close>

fun from_hex :: "string \<Rightarrow> nat list" where
  "from_hex (a # b # s) =
     (case (hex_value a, hex_value b) of (Some x, Some y) \<Rightarrow> (16 * x + y) # from_hex s | _ \<Rightarrow> [])"
| "from_hex _ = []"

definition verifyStripeWebhookSignature :: "billing_env \<Rightarrow> string \<Rightarrow> string option \<Rightarrow> unit result" where
  "verifyStripeWebhookSignature env rawBody signatureHeader =
     (if \<not> truthy_str (be_webhookSecret env)
      then Inl (AppError 503 ''STRIPE_WEBHOOK_NOT_CONFIGURED'' ''Stripe webhook signing secret is not configured.'')
      else if \<not> truthy_str signatureHeader
      then Inl (AppError 400 ''STRIPE_SIGNATURE_MISSING'' ''Missing Stripe-Signature header.'')
      else
        (let parts = map js_trim (split_char CHR '','' (the signatureHeader));
             timestamp = map_option (drop 2) (find (\<lambda>p. starts_with p ''t='') parts);
             signatures = map (drop 3) (filter (\<lambda>p. starts_with p ''v1='') parts) in
         and_then (invariant (truthy_str timestamp \<and> signatures \<noteq> []) 400 ''STRIPE_SIGNATURE_INVALID''
           ''Invalid Stripe-Signature header.'') (\<lambda>_.
         (let expected = from_hex (be_hmac env (the (be_webhookSecret env)) (the timestamp @ ''.'' @ rawBody)) in
          if list_ex (\<lambda>s. from_hex s = expected) signatures then Inr ()
          else Inl (AppError 400 ''STRIPE_SIGNATURE_INVALID'' ''Invalid Stripe webhook signature.'')))))"

section \<open>Events\<close>

definition stripeStatus :: "string option \<Rightarrow> billing_status" where
  "stripeStatus s =
     (if s = Some ''active'' \<or> s = Some ''trialing'' then BILLING_ACTIVE
      else if s = Some ''past_due'' then PAST_DUE
      else if s = Some ''canceled'' then CANCELED
      else if s = Some ''unpaid'' \<or> s = Some ''incomplete'' \<or> s = Some ''incomplete_expired'' then PAYMENT_REQUIRED
      else CHECKOUT_PENDING)"

definition resolveWorkspaceIdFromStripeObject :: "json \<Rightarrow> plan_db \<Rightarrow> string option" where
  "resolveWorkspaceIdFromStripeObject object db =
     (let named = either
        (stringField (case field object ''metadata'' of Some (JObj m) \<Rightarrow> map_of m ''workspaceId'' | _ \<Rightarrow> None))
        (stringField (field object ''client_reference_id'')) in
      if named \<noteq> None then named
      else
        (let customer = stringField (field object ''customer'');
             subscription = either (stringField (field object ''subscription'')) (stringField (field object ''id'')) in
         map_option bp_workspace
           (find (\<lambda>p. customer \<noteq> None \<and> bp_customer p = customer \<or> subscription \<noteq> None \<and> bp_subscription p = subscription)
             (pl_profiles db))))"

definition subscription_of :: "billing_env \<Rightarrow> json \<Rightarrow> json option result" where
  "subscription_of env object =
     (case stringField (field object ''subscription'') of
        None \<Rightarrow> Inr None
      | Some i \<Rightarrow> and_then (getStripeSubscription env i) (\<lambda>s. Inr (Some s)))"

text \<open>The activation of a checkout or an invoice takes the period and the item from the subscription.\<close>

definition paid_activation :: "billing_env \<Rightarrow> json \<Rightarrow> json option \<Rightarrow> string option \<Rightarrow> billing_activation" where
  "paid_activation env object subscription email =
     \<lparr>av_customer = stringField (field object ''customer''),
      av_subscription = stringField (field object ''subscription''),
      av_item = (case subscription of None \<Rightarrow> None | Some s \<Rightarrow> subscriptionItemIdFromObject s),
      av_price = be_priceId env, av_email = email,
      av_periodStart = (case subscription of None \<Rightarrow> None | Some s \<Rightarrow> numberDate (field s ''current_period_start'')),
      av_periodEnd = (case subscription of None \<Rightarrow> None | Some s \<Rightarrow> numberDate (field s ''current_period_end''))\<rparr>"

definition subscription_activation :: "billing_env \<Rightarrow> json \<Rightarrow> billing_activation" where
  "subscription_activation env object =
     \<lparr>av_customer = stringField (field object ''customer''), av_subscription = stringField (field object ''id''),
      av_item = subscriptionItemIdFromObject object, av_price = be_priceId env, av_email = None,
      av_periodStart = numberDate (field object ''current_period_start''),
      av_periodEnd = numberDate (field object ''current_period_end'')\<rparr>"

definition invoice_ledger :: "string \<Rightarrow> string option \<Rightarrow> plan_db \<Rightarrow> plan_db" where
  "invoice_ledger w invoice db =
     db\<lparr>pl_ledger := map (\<lambda>e. if le_workspace e = w \<and> le_status e = LEDGER_REPORTED \<and> le_invoice e = None
                           then e\<lparr>le_status := LEDGER_INVOICED, le_invoice := invoice\<rparr> else e) (pl_ledger db)\<rparr>"

definition apply_to_workspace :: "billing_env \<Rightarrow> string \<Rightarrow> json \<Rightarrow> string \<Rightarrow> plan_db \<Rightarrow> plan_db result" where
  "apply_to_workspace env ty object w db =
     (if ty = ''checkout.session.completed''
      then and_then (subscription_of env object) (\<lambda>s.
           activatePaygAi env w (paid_activation env object s (stringField (field object ''customer_email''))) db)
      else if ty = ''customer.subscription.updated'' \<or> ty = ''customer.subscription.deleted''
      then
        (let status = (if ty = ''customer.subscription.deleted'' then CANCELED
                       else stripeStatus (stringField (field object ''status''))) in
         if status = BILLING_ACTIVE then activatePaygAi env w (subscription_activation env object) db
         else if status = PAST_DUE \<or> status = PAYMENT_REQUIRED \<or> status = CANCELED
         then pauseAiForBilling env w status db
         else Inr db)
      else if ty = ''invoice.payment_failed'' then pauseAiForBilling env w PAST_DUE db
      else if ty = ''invoice.payment_succeeded''
      then and_then (subscription_of env object) (\<lambda>s.
           and_then (activatePaygAi env w (paid_activation env object s None) db) (\<lambda>db1.
           Inr (invoice_ledger w (stringField (field object ''id'')) db1)))
      else if ty = ''payment_method.detached''
      then Inr (db\<lparr>pl_profiles := map (\<lambda>p. if bp_workspace p = w then p\<lparr>bp_ready := False\<rparr> else p) (pl_profiles db)\<rparr>)
      else Inr db)"

definition applyStripeEvent :: "billing_env \<Rightarrow> string \<Rightarrow> json \<Rightarrow> plan_db \<Rightarrow> plan_db result" where
  "applyStripeEvent env ty event db =
     (let object = (case field event ''data'' of None \<Rightarrow> None | Some d \<Rightarrow> field d ''object'') in
      if \<not> truthy object then Inr db
      else
        (case resolveWorkspaceIdFromStripeObject (the object) db of
           None \<Rightarrow> Inr db
         | Some w \<Rightarrow> apply_to_workspace env ty (the object) w db))"

definition find_event :: "string \<Rightarrow> plan_db \<Rightarrow> stripe_event_row option" where
  "find_event i db = find (\<lambda>r. sv_id r = i) (pl_stripe db)"

definition store_event :: "string \<Rightarrow> string \<Rightarrow> plan_db \<Rightarrow> plan_db" where
  "store_event i ty db =
     (if find_event i db \<noteq> None then db
      else db\<lparr>pl_stripe := pl_stripe db @ [\<lparr>sv_id = i, sv_type = ty, sv_processedAt = None, sv_error = None\<rparr>]\<rparr>)"

definition mark_event :: "string \<Rightarrow> (stripe_event_row \<Rightarrow> stripe_event_row) \<Rightarrow> plan_db \<Rightarrow> plan_db" where
  "mark_event i f db = db\<lparr>pl_stripe := map (\<lambda>r. if sv_id r = i then f r else r) (pl_stripe db)\<rparr>"

text \<open>
  The event with its identifier and type.  An identifier or type that is truthy but no text is refused
  by the database client.
\<close>

definition accepted_event :: "billing_env \<Rightarrow> string \<Rightarrow> string option \<Rightarrow> (json \<times> string \<times> string) result" where
  "accepted_event env rawBody signatureHeader =
     and_then (verifyStripeWebhookSignature env rawBody signatureHeader) (\<lambda>_.
     and_then (be_parse env rawBody) (\<lambda>event.
     and_then (get_prop event ''id'') (\<lambda>i.
     and_then (invariant (truthy i \<and> truthy (field event ''type'')) 400 ''STRIPE_EVENT_INVALID''
       ''Invalid Stripe event payload.'') (\<lambda>_.
     (case (i, field event ''type'') of
        (Some (JStr i'), Some (JStr ty)) \<Rightarrow> Inr (event, i', ty)
      | _ \<Rightarrow> Inl invalid_argument)))))"

text \<open>
  A delivery is three steps on the database, each with its own statements, so that another delivery
  can act between them.  It stores the event unless it is stored and reads whether it was processed:
  \<open>Inl i\<close> if it was, else the event to apply.
\<close>

definition receiveStripeEvent ::
    "billing_env \<Rightarrow> string \<Rightarrow> string option \<Rightarrow> plan_db \<Rightarrow> (string + json \<times> string \<times> string) result \<times> plan_db" where
  "receiveStripeEvent env rawBody signatureHeader db =
     (case accepted_event env rawBody signatureHeader of
        Inl e \<Rightarrow> (Inl e, db)
      | Inr (event, i, ty) \<Rightarrow>
          (let db1 = store_event i ty db in
           if (case find_event i db1 of None \<Rightarrow> False | Some r \<Rightarrow> sv_processedAt r \<noteq> None)
           then (Inr (Inl i), db1)
           else (Inr (Inr (event, i, ty)), db1)))"

text \<open>
  After \<^verbatim>\<open>applyStripeEvent\<close> it marks the event processed, or stores the error and throws it on.
  A thrown value is always an error here.
\<close>

definition settleStripeEvent ::
    "billing_env \<Rightarrow> string \<Rightarrow> unit result \<Rightarrow> plan_db \<Rightarrow> (bool \<times> string) result \<times> plan_db" where
  "settleStripeEvent env i outcome db =
     (case outcome of
        Inr u \<Rightarrow>
          (Inr (True, i), mark_event i (\<lambda>r. r\<lparr>sv_processedAt := Some (be_now env), sv_error := None\<rparr>) db)
      | Inl e \<Rightarrow> (Inl e, mark_event i (\<lambda>r. r\<lparr>sv_error := Some (error_message e)\<rparr>) db))"

text \<open>
  The whole function, when nothing else writes during the call; the answer says whether the event was
  processed now.
\<close>

definition handleStripeWebhook ::
    "billing_env \<Rightarrow> string \<Rightarrow> string option \<Rightarrow> plan_db \<Rightarrow> (bool \<times> string) result \<times> plan_db" where
  "handleStripeWebhook env rawBody signatureHeader db =
     (case receiveStripeEvent env rawBody signatureHeader db of
        (Inl e, db1) \<Rightarrow> (Inl e, db1)
      | (Inr (Inl i), db1) \<Rightarrow> (Inr (False, i), db1)
      | (Inr (Inr (event, i, ty)), db1) \<Rightarrow>
          (case applyStripeEvent env ty event db1 of
             Inr db2 \<Rightarrow> settleStripeEvent env i (Inr ()) db2
           | Inl e \<Rightarrow> settleStripeEvent env i (Inl e) db1))"

section \<open>Reporting usage\<close>

definition report_limit :: "int option \<Rightarrow> int" where
  "report_limit l = min (max (case l of None \<Rightarrow> 100 | Some n \<Rightarrow> n) 1) 500"

definition billable_profile :: "string \<Rightarrow> plan_db \<Rightarrow> billing_profile option" where
  "billable_profile w db =
     (case find_profile w db of
        None \<Rightarrow> None
      | Some p \<Rightarrow> if bp_status p = BILLING_ACTIVE \<and> bp_item p \<noteq> None then Some p else None)"

text \<open>The entries of one status, oldest first, with their subscription items.\<close>

definition reportable :: "ledger_status \<Rightarrow> plan_db \<Rightarrow> (ledger_entry \<times> string) list" where
  "reportable status db =
     List.map_filter (\<lambda>e. case billable_profile (le_workspace e) db of
                            None \<Rightarrow> None | Some p \<Rightarrow> Some (e, the (bp_item p)))
       (sort_key le_createdAt (filter (\<lambda>e. le_status e = status) (pl_ledger db)))"

definition scanned_entries :: "int \<Rightarrow> plan_db \<Rightarrow> (ledger_entry \<times> string) list" where
  "scanned_entries limit db =
     (let pending = take (nat limit) (reportable LEDGER_PENDING db);
          rest = limit - int (length pending)
      in pending @ (if rest > 0 then take (nat rest) (reportable LEDGER_FAILED db) else []))"

definition quantity_cents :: "rat \<Rightarrow> int" where
  "quantity_cents cost = \<lceil>js_mul (fl cost) 100\<rceil>"

definition update_entry :: "string \<Rightarrow> (ledger_entry \<Rightarrow> ledger_entry) \<Rightarrow> plan_db \<Rightarrow> plan_db" where
  "update_entry i f db = db\<lparr>pl_ledger := map (\<lambda>e. if le_id e = i then f e else e) (pl_ledger db)\<rparr>"

definition usage_call :: "string \<Rightarrow> ledger_entry \<Rightarrow> stripe_call" where
  "usage_call item e =
     \<lparr>sc_method = ''POST'', sc_path = ''/subscription_items/'' @ encodeURIComponent item @ ''/usage_records'',
      sc_params = [(''quantity'', string_of_int (quantity_cents (le_billableUsd e))),
        (''timestamp'', string_of_int (le_createdAt e div 1000)), (''action'', ''increment'')]\<rparr>"

text \<open>
  The state of the loop: the requests made, the number reported and the tables.  The loop runs over
  the entries that were read before it; entries are not deleted, so their updates find them.
\<close>

type_synonym report_state = "stripe_call list \<times> int \<times> plan_db"

definition report_entry :: "billing_env \<Rightarrow> ledger_entry \<times> string \<Rightarrow> report_state \<Rightarrow> report_state" where
  "report_entry env ei s =
     (case (ei, s) of
        ((e, item), (calls, reported, db)) \<Rightarrow>
          if item = [] then s
          else if quantity_cents (le_billableUsd e) \<le> 0
          then (calls, reported + 1,
                update_entry (le_id e) (\<lambda>r. r\<lparr>le_status := LEDGER_REPORTED, le_reportedAt := Some (be_now env)\<rparr>) db)
          else
            (let call = usage_call item e;
                 calls' = (if truthy_str (be_secretKey env) then calls @ [call] else calls) in
             case and_then (stripeRequest env calls call) (\<lambda>answer. get_prop answer ''id'') of
               Inr i \<Rightarrow>
                 (calls', reported + 1,
                  update_entry (le_id e) (\<lambda>r. r\<lparr>le_status := LEDGER_REPORTED, le_record := stringField i,
                    le_reportedAt := Some (be_now env), le_error := None\<rparr>) db)
             | Inl err \<Rightarrow>
                 (calls', reported,
                  update_entry (le_id e) (\<lambda>r. r\<lparr>le_status := LEDGER_FAILED, le_error := Some (error_message err)\<rparr>) db)))"

definition reportPendingAiUsageToStripe ::
    "billing_env \<Rightarrow> int option \<Rightarrow> plan_db \<Rightarrow> plan_db \<Rightarrow> (int \<times> int) \<times> stripe_call list \<times> plan_db" where
  "reportPendingAiUsageToStripe env limit seen db =
     (let entries = scanned_entries (report_limit limit) seen;
          (calls, reported, db') = fold (report_entry env) entries ([], 0, db)
      in ((int (length entries), reported), calls, db'))"

end
