(* ===== verification/Billing_Facts.thy ===== *)
theory Billing_Facts
  imports Billing
begin

text \<open>
  What the plans promise: a paused workspace uses no AI until it pays, a Stripe event takes effect
  once, a webhook is accepted exactly when it is signed, usage is reported once per entry and billed
  within a cent, and the recorder flag is only withdrawn where Stripe granted it.
\<close>

named_theorems plan_simps \<open>what the primitive writes leave unchanged\<close>

section \<open>Primitive writes\<close>

lemma update_workspace_eq [plan_simps]:
  "update_workspace w f db = Inr db' \<longleftrightarrow>
     list_ex (\<lambda>p. wp_id p = w) (pl_workspaces db) \<and>
     db' = db\<lparr>pl_workspaces := map (\<lambda>p. if wp_id p = w then f p else p) (pl_workspaces db)\<rparr>"
  by (auto simp: update_workspace_def)

lemma update_trial_eq [plan_simps]:
  "update_trial i f db = Inr db' \<longleftrightarrow>
     list_ex (\<lambda>t. tr_id t = i) (pl_trials db) \<and>
     db' = db\<lparr>pl_trials := map (\<lambda>t. if tr_id t = i then f t else t) (pl_trials db)\<rparr>"
  by (auto simp: update_trial_def)

text \<open>The parts of the tables the other primitives leave alone.\<close>

definition core :: "plan_db \<Rightarrow> workspace_plan list \<times> trial_row list \<times> stripe_event_row list \<times> ledger_entry list" where
  "core db = (pl_workspaces db, pl_trials db, pl_stripe db, pl_ledger db)"

lemma core_upsert_cap [plan_simps]: "core (upsert_cap env w c db) = core db"
  by (simp add: core_def upsert_cap_def)

lemma core_plan_log [plan_simps]: "core (plan_log w a x t m p db) = core db"
  by (simp add: core_def plan_log_def)

lemma core_deactivate [plan_simps]: "deactivate_credential c db = Inr db' \<Longrightarrow> core db' = core db"
  by (auto simp: core_def deactivate_credential_def split: option.splits if_splits)

lemma core_recorder [plan_simps]: "core (setPurchasedRecorderAccess env w b db) = core db"
  by (auto simp: core_def setPurchasedRecorderAccess_def Let_def split: option.splits)

lemma core_put_profile [plan_simps]: "put_profile w a f db = Inr db' \<Longrightarrow> core db' = core db"
  by (auto simp: core_def put_profile_def Let_def split: if_splits)

lemma core_flags [plan_simps]: "core (applyTrialFeatureFlags env w db) = core db"
  by (simp add: core_def applyTrialFeatureFlags_def)

lemma coreD:
  assumes "core db' = core db"
  shows "pl_workspaces db' = pl_workspaces db" "pl_trials db' = pl_trials db"
    "pl_stripe db' = pl_stripe db" "pl_ledger db' = pl_ledger db"
  using assms by (simp_all add: core_def)

section \<open>How the tables may change\<close>

text \<open>
  The plan of a workspace moves only to \<^verbatim>\<open>CORE_FREE\<close> unless it is one that was paid for; a trial
  moves only to an end; an entry of the ledger keeps its amount and, once reported, stays reported;
  the rows keep their identifiers and order, entries being added at the end.
\<close>

definition ended :: "trial_status \<Rightarrow> bool" where
  "ended s \<longleftrightarrow> s = TRIAL_EXPIRED \<or> s = TRIAL_SUSPENDED"

definition plan_move :: "string set \<Rightarrow> workspace_plan \<Rightarrow> workspace_plan \<Rightarrow> bool" where
  "plan_move paid p q \<longleftrightarrow>
     wp_id q = wp_id p \<and> (wp_plan q = wp_plan p \<or> wp_plan q = CORE_FREE \<or> wp_id p \<in> paid)"

definition trial_move :: "trial_row \<Rightarrow> trial_row \<Rightarrow> bool" where
  "trial_move t u \<longleftrightarrow>
     tr_id u = tr_id t \<and> tr_workspace u = tr_workspace t \<and> (tr_status u = tr_status t \<or> ended (tr_status u))"

definition settled :: "ledger_entry \<Rightarrow> bool" where
  "settled e \<longleftrightarrow> le_status e = LEDGER_REPORTED \<or> le_status e = LEDGER_INVOICED"

definition entry_move :: "ledger_entry \<Rightarrow> ledger_entry \<Rightarrow> bool" where
  "entry_move e f \<longleftrightarrow>
     le_id f = le_id e \<and> le_workspace f = le_workspace e \<and> le_billableUsd f = le_billableUsd e \<and>
     le_createdAt f = le_createdAt e \<and> (settled e \<longrightarrow> settled f)"

definition ledger_moves :: "ledger_entry list \<Rightarrow> ledger_entry list \<Rightarrow> bool" where
  "ledger_moves es fs \<longleftrightarrow>
     length es \<le> length fs \<and> list_all2 entry_move es (take (length es) fs) \<and>
     (distinct (map le_id es) \<longrightarrow> distinct (map le_id fs))"

lemma entry_move_refl [simp]: "entry_move e e"
  by (simp add: entry_move_def)

lemma ledger_moves_refl [simp]: "ledger_moves es es"
  by (simp add: ledger_moves_def list_all2_same)

lemma ledger_moves_nth:
  "ledger_moves es fs \<longleftrightarrow>
     length es \<le> length fs \<and> (\<forall>i<length es. entry_move (es ! i) (fs ! i)) \<and>
     (distinct (map le_id es) \<longrightarrow> distinct (map le_id fs))"
  by (auto simp: ledger_moves_def list_all2_conv_all_nth)

lemma ledger_moves_map:
  assumes "\<And>e. e \<in> set es \<Longrightarrow> P e \<Longrightarrow> entry_move e (f e)"
  shows "ledger_moves es (map (\<lambda>e. if P e then f e else e) es)"
proof -
  have "map le_id (map (\<lambda>e. if P e then f e else e) es) = map le_id es"
    using assms by (auto simp: entry_move_def)
  then show ?thesis using assms unfolding ledger_moves_nth by (auto simp del: map_map)
qed

lemma ledger_moves_append: "le_id x \<notin> le_id ` set es \<Longrightarrow> ledger_moves es (es @ [x])"
  by (auto simp: ledger_moves_def list_all2_same)

lemma entry_move_trans: "entry_move e f \<Longrightarrow> entry_move f g \<Longrightarrow> entry_move e g"
  by (auto simp: entry_move_def)

lemma ledger_moves_trans: "ledger_moves es fs \<Longrightarrow> ledger_moves fs gs \<Longrightarrow> ledger_moves es gs"
  unfolding ledger_moves_nth by (metis entry_move_trans le_trans order_less_le_trans)

text \<open>A stored Stripe event keeps a row, and once processed it stays so.\<close>

definition events_move :: "stripe_event_row list \<Rightarrow> stripe_event_row list \<Rightarrow> bool" where
  "events_move es fs \<longleftrightarrow>
     (\<forall>i r. find (\<lambda>r. sv_id r = i) es = Some r \<longrightarrow>
        (\<exists>r'. find (\<lambda>r. sv_id r = i) fs = Some r' \<and> (sv_processedAt r \<noteq> None \<longrightarrow> sv_processedAt r' \<noteq> None)))"

lemma events_move_refl [simp]: "events_move es es"
  by (simp add: events_move_def)

definition moves :: "string set \<Rightarrow> plan_db \<Rightarrow> plan_db \<Rightarrow> bool" where
  "moves paid db db' \<longleftrightarrow>
     list_all2 (plan_move paid) (pl_workspaces db) (pl_workspaces db') \<and>
     list_all2 trial_move (pl_trials db) (pl_trials db') \<and>
     ledger_moves (pl_ledger db) (pl_ledger db') \<and> events_move (pl_stripe db) (pl_stripe db')"

lemma moves_refl [simp]: "moves paid db db"
  by (simp add: moves_def plan_move_def trial_move_def list_all2_same)

lemma plan_move_trans: "plan_move paid p q \<Longrightarrow> plan_move paid q r \<Longrightarrow> plan_move paid p r"
  by (auto simp: plan_move_def)

lemma trial_move_trans: "trial_move t u \<Longrightarrow> trial_move u v \<Longrightarrow> trial_move t v"
  by (auto simp: trial_move_def)

lemma moves_trans [trans]:
  assumes ab: "moves paid a b" and bc: "moves paid b c"
  shows "moves paid a c"
proof -
  have "list_all2 (plan_move paid) (pl_workspaces a) (pl_workspaces c)"
    using plan_move_trans by (rule list_all2_trans) (use ab bc in \<open>auto simp: moves_def\<close>)
  moreover have "list_all2 trial_move (pl_trials a) (pl_trials c)"
    using trial_move_trans by (rule list_all2_trans) (use ab bc in \<open>auto simp: moves_def\<close>)
  moreover have "ledger_moves (pl_ledger a) (pl_ledger c)"
    using ab bc by (auto simp: moves_def intro: ledger_moves_trans)
  moreover have "events_move (pl_stripe a) (pl_stripe c)"
    using ab bc unfolding moves_def events_move_def by metis
  ultimately show ?thesis by (simp add: moves_def)
qed

lemma moves_core: "core b = core a \<Longrightarrow> moves paid a b"
  by (simp add: core_def moves_def plan_move_def trial_move_def list_all2_same)

lemma moves_core_right: "moves paid a b \<Longrightarrow> core c = core b \<Longrightarrow> moves paid a c"
  by (simp add: core_def moves_def)

lemma list_all2_map_if: "(\<And>x. P x \<Longrightarrow> R x (f x)) \<Longrightarrow> (\<And>x. R x x) \<Longrightarrow>
    list_all2 R xs (map (\<lambda>x. if P x then f x else x) xs)"
  by (simp add: list_all2_map2 list_all2_same)

lemma moves_workspaces:
  "(\<And>p. P p \<Longrightarrow> plan_move paid p (f p)) \<Longrightarrow>
   moves paid db (db\<lparr>pl_workspaces := map (\<lambda>p. if P p then f p else p) (pl_workspaces db)\<rparr>)"
  unfolding moves_def
  by (auto intro!: list_all2_map_if simp: plan_move_def trial_move_def list_all2_same)

lemma moves_trials:
  "(\<And>t. P t \<Longrightarrow> trial_move t (f t)) \<Longrightarrow>
   moves paid db (db\<lparr>pl_trials := map (\<lambda>t. if P t then f t else t) (pl_trials db)\<rparr>)"
  unfolding moves_def
  by (auto intro!: list_all2_map_if simp: plan_move_def trial_move_def list_all2_same)

lemma free_plan_move [simp]: "plan_move paid p (free_plan env p)"
  by (simp add: plan_move_def free_plan_def)

lemma free_plan_ends_move [simp]: "plan_move paid p (free_plan env p\<lparr>wp_trialEndsAt := e\<rparr>)"
  by (simp add: plan_move_def free_plan_def)

lemma ended_moves [simp]: "trial_move t (t\<lparr>tr_status := TRIAL_EXPIRED\<rparr>)"
  "trial_move t (t\<lparr>tr_status := TRIAL_SUSPENDED, tr_suspendedAt := a, tr_suspensionReason := r\<rparr>)"
  by (simp_all add: trial_move_def ended_def)

text \<open>
  A computation from \<open>db\<close> that ends well ends in tables \<open>db\<close> may move to.  The rules follow the
  shape of the operations.
\<close>

definition yields :: "string set \<Rightarrow> plan_db \<Rightarrow> plan_db result \<Rightarrow> bool" where
  "yields paid db r \<longleftrightarrow> (\<forall>db'. r = Inr db' \<longrightarrow> moves paid db db')"

named_theorems yields_intros \<open>rules for operations on the plan tables\<close>

lemma yields_Inr [yields_intros]: "moves paid db x \<Longrightarrow> yields paid db (Inr x)"
  by (simp add: yields_def)

lemma yields_Inl [yields_intros]: "yields paid db (Inl e)"
  by (simp add: yields_def)

lemma yields_bind [yields_intros]:
  "yields paid db m \<Longrightarrow> (\<And>x. moves paid db x \<Longrightarrow> yields paid db (f x)) \<Longrightarrow> yields paid db (and_then m f)"
  by (cases m) (simp_all add: yields_def)

lemma yields_unit [yields_intros]:
  "(\<And>u. m = Inr u \<Longrightarrow> yields paid db (f u)) \<Longrightarrow> yields paid db (and_then (m :: unit result) f)"
  by (cases m) (simp_all add: yields_def)

lemma yields_other: "(\<And>u. m = Inr u \<Longrightarrow> yields paid db (f u)) \<Longrightarrow> yields paid db (and_then m f)"
  by (cases m) (simp_all add: yields_def)

lemma yields_if [yields_intros]:
  "(c \<Longrightarrow> yields paid db a) \<Longrightarrow> (\<not> c \<Longrightarrow> yields paid db b) \<Longrightarrow> yields paid db (if c then a else b)"
  by simp

lemma yields_option [yields_intros]:
  "(v = None \<Longrightarrow> yields paid db a) \<Longrightarrow> (\<And>x. v = Some x \<Longrightarrow> yields paid db (f x)) \<Longrightarrow>
   yields paid db (case v of None \<Rightarrow> a | Some x \<Rightarrow> f x)"
  by (cases v) simp_all

lemma moves_if [yields_intros]:
  "(c \<Longrightarrow> moves paid db a) \<Longrightarrow> (\<not> c \<Longrightarrow> moves paid db b) \<Longrightarrow> moves paid db (if c then a else b)"
  by simp

lemma moves_trials_right:
  "moves paid db x \<Longrightarrow> (\<And>t. P t \<Longrightarrow> trial_move t (f t)) \<Longrightarrow>
   moves paid db (x\<lparr>pl_trials := map (\<lambda>t. if P t then f t else t) (pl_trials x)\<rparr>)"
  by (erule moves_trans) (rule moves_trials)

lemma moves_workspaces_right:
  "moves paid db x \<Longrightarrow> (\<And>t. P t \<Longrightarrow> plan_move paid t (f t)) \<Longrightarrow>
   moves paid db (x\<lparr>pl_workspaces := map (\<lambda>t. if P t then f t else t) (pl_workspaces x)\<rparr>)"
  by (erule moves_trans) (rule moves_workspaces)

lemma yields_workspace [yields_intros]:
  "moves paid db x \<Longrightarrow> (\<And>p. wp_id p = w \<Longrightarrow> plan_move paid p (f p)) \<Longrightarrow> yields paid db (update_workspace w f x)"
  by (auto simp: yields_def update_workspace_eq intro!: moves_workspaces_right)

lemma yields_trial [yields_intros]:
  "moves paid db x \<Longrightarrow> (\<And>t. trial_move t (f t)) \<Longrightarrow> yields paid db (update_trial i f x)"
  by (auto simp: yields_def update_trial_eq intro!: moves_trials_right)

lemma yields_deactivate [yields_intros]: "moves paid db x \<Longrightarrow> yields paid db (deactivate_credential c x)"
  unfolding yields_def using moves_core_right core_deactivate by blast

lemma yields_put_profile [yields_intros]: "moves paid db x \<Longrightarrow> yields paid db (put_profile w a f x)"
  unfolding yields_def using moves_core_right core_put_profile by blast

lemma moves_pure [yields_intros]:
  "moves paid db x \<Longrightarrow> moves paid db (upsert_cap env w c x)"
  "moves paid db x \<Longrightarrow> moves paid db (plan_log w a y t m p x)"
  "moves paid db x \<Longrightarrow> moves paid db (setPurchasedRecorderAccess benv w b x)"
  "moves paid db x \<Longrightarrow> moves paid db (applyTrialFeatureFlags env w x)"
  by (erule moves_core_right, simp add: plan_simps)+

lemma moves_fields [yields_intros]:
  "moves paid db x \<Longrightarrow> moves paid db (x\<lparr>pl_budgets := b\<rparr>)"
  "moves paid db x \<Longrightarrow> moves paid db (x\<lparr>pl_credentials := c\<rparr>)"
  "moves paid db x \<Longrightarrow> moves paid db (x\<lparr>pl_accounts := a\<rparr>)"
  "moves paid db x \<Longrightarrow> moves paid db (x\<lparr>pl_profiles := p\<rparr>)"
  "moves paid db x \<Longrightarrow> moves paid db (x\<lparr>pl_usage := u\<rparr>)"
  by (simp_all add: moves_def)

lemma moves_fold_cap: "moves paid db x \<Longrightarrow> moves paid db (fold (\<lambda>w. upsert_cap env w 0) ws x)"
  by (induction ws arbitrary: x) (simp_all add: moves_pure)

section \<open>Every operation moves them so\<close>

lemma expireTrial_yields: "yields paid db (expireTrial env trial db)"
  unfolding expireTrial_def by (intro yields_intros moves_refl; simp)

lemma expire_in_check_yields: "yields paid db (expire_in_check env w trial db)"
  unfolding expire_in_check_def by (intro yields_intros moves_refl; simp)

lemma expire_in_gate_yields: "yields paid db (expire_in_gate env w db)"
  unfolding expire_in_gate_def Let_def by (intro yields_intros moves_refl; simp)

lemma suspend_yields: "yields paid db (suspendProcurementTrial env actor i reason db)"
  unfolding suspendProcurementTrial_def Let_def by (intro yields_intros moves_refl; simp)

lemma expire_connector_yields: "yields paid db (expireTrialConnector env trial db)"
  unfolding expireTrialConnector_def Let_def
  by (intro yields_intros moves_trials_right moves_refl; simp)

lemma pause_yields: "yields paid db (pauseAiForBilling env w status db)"
  unfolding pauseAiForBilling_def Let_def by (intro yields_intros moves_refl; simp)

lemma activate_yields [yields_intros]: "w \<in> paid \<Longrightarrow> yields paid db (activatePaygAi env w a db)"
  unfolding activatePaygAi_def Let_def
  by (intro yields_intros moves_refl; simp add: plan_move_def)

lemma invoice_moves: "moves paid db x \<Longrightarrow> moves paid db (invoice_ledger w i x)"
proof (erule moves_trans)
  show "moves paid x (invoice_ledger w i x)"
    by (auto simp: moves_def invoice_ledger_def entry_move_def settled_def plan_move_def trial_move_def
        list_all2_same intro!: ledger_moves_map)
qed

definition payment_event :: "string \<Rightarrow> json \<Rightarrow> bool" where
  "payment_event ty object \<longleftrightarrow>
     ty = ''checkout.session.completed'' \<or> ty = ''invoice.payment_succeeded'' \<or>
     ty = ''customer.subscription.updated'' \<and> stripeStatus (stringField (field object ''status'')) = BILLING_ACTIVE"

lemma apply_yields:
  "(payment_event ty object \<Longrightarrow> w \<in> paid) \<Longrightarrow> yields paid db (apply_to_workspace env ty object w db)"
  unfolding apply_to_workspace_def Let_def
  by (intro yields_intros yields_other invoice_moves pause_yields moves_refl;
      auto simp: payment_event_def split: if_splits)

section \<open>Histories\<close>

text \<open>
  One operation at a time, on the tables it finds.  A delivery of Stripe is a step as a whole, and so
  is each of its parts, with the workspace the event was resolved to before: overlapping deliveries are
  histories in which these parts alternate.  Sweeps may act on what an earlier query saw, and an
  expiry on a trial row that was read before.
\<close>

datatype 'l plan_op =
    Deliver billing_env string "string option"
  | Receive billing_env string "string option"
  | Apply_event billing_env string json string
  | Settle_event billing_env string "unit result"
  | Checkout billing_env support_store auth_actor string "'l auth_db"
  | Report billing_env "int option"
  | Edit_budget plan_env auth_config support_store auth_actor string js_number "js_number option" "js_number option" "'l auth_db"
  | Check_budget plan_env string
  | Gate plan_env string
  | Record plan_env usage_input
  | Suspend plan_env auth_actor string string
  | Expire plan_env trial_row
  | Mcp_access plan_env string
  | Sweep_identity plan_env string string plan_db
  | Sweep_smoke plan_env bool string plan_db
  | Expire_connector plan_env trial_row
  | Trial_flags plan_env string

definition committed :: "plan_db \<Rightarrow> plan_db result \<Rightarrow> plan_db" where
  "committed db r = (case r of Inl _ \<Rightarrow> db | Inr db' \<Rightarrow> db')"

fun plan_step :: "'l plan_op \<Rightarrow> plan_db \<Rightarrow> plan_db" where
  "plan_step (Deliver env raw sig) db = snd (handleStripeWebhook env raw sig db)"
| "plan_step (Receive env raw sig) db = snd (receiveStripeEvent env raw sig db)"
| "plan_step (Apply_event env ty object w) db = committed db (apply_to_workspace env ty object w db)"
| "plan_step (Settle_event env i outcome) db = snd (settleStripeEvent env i outcome db)"
| "plan_step (Checkout env st actor w auth) db =
     committed db (and_then (createStripeCheckoutSession env st actor w auth db) (\<lambda>(_, db'). Inr db'))"
| "plan_step (Report env limit) db = snd (snd (reportPendingAiUsageToStripe env limit db db))"
| "plan_step (Edit_budget env cfg st actor w cap pct day auth) db =
     committed db (updateModelUsageBudget env cfg st actor w cap pct day auth db)"
| "plan_step (Check_budget env w) db = snd (checkBudget env w db)"
| "plan_step (Gate env w) db = snd (assertWorkspaceModelBudget env w db)"
| "plan_step (Record env inp) db = snd (recordModelUsage env inp db)"
| "plan_step (Suspend env actor i reason) db = committed db (suspendProcurementTrial env actor i reason db)"
| "plan_step (Expire env trial) db = committed db (expireTrial env trial db)"
| "plan_step (Mcp_access env w) db = snd (requireTrialMcpAccess env w db)"
| "plan_step (Sweep_identity env a d seen) db = expireStaleTrialsForIdentity env a d seen db"
| "plan_step (Sweep_smoke env b d seen) db = expireActiveSmokeTrialsForDomain env b d seen db"
| "plan_step (Expire_connector env trial) db = committed db (expireTrialConnector env trial db)"
| "plan_step (Trial_flags env w) db = applyTrialFeatureFlags env w db"

fun plan_history :: "'l plan_op list \<Rightarrow> plan_db \<Rightarrow> plan_db" where
  "plan_history [] db = db"
| "plan_history (x # xs) db = plan_history xs (plan_step x db)"

text \<open>The workspace for which a delivery is the news of a payment.\<close>

definition paid_workspace :: "billing_env \<Rightarrow> string \<Rightarrow> plan_db \<Rightarrow> string option" where
  "paid_workspace env raw db =
     (case be_parse env raw of
        Inl _ \<Rightarrow> None
      | Inr event \<Rightarrow>
          (case (field event ''type'', case field event ''data'' of None \<Rightarrow> None | Some d \<Rightarrow> field d ''object'') of
             (Some (JStr ty), Some object) \<Rightarrow>
               if payment_event ty object then resolveWorkspaceIdFromStripeObject object db else None
           | _ \<Rightarrow> None))"

fun paid_by :: "'l plan_op \<Rightarrow> plan_db \<Rightarrow> string set" where
  "paid_by (Deliver env raw sig) db = set_option (paid_workspace env raw db)"
| "paid_by (Apply_event env ty object w) db = (if payment_event ty object then {w} else {})"
| "paid_by _ db = {}"

fun paid_during :: "'l plan_op list \<Rightarrow> plan_db \<Rightarrow> string set" where
  "paid_during [] db = {}"
| "paid_during (x # xs) db = paid_by x db \<union> paid_during xs (plan_step x db)"

lemma committed_moves: "yields paid db r \<Longrightarrow> moves paid db (committed db r)"
  by (cases r) (simp_all add: committed_def yields_def)

lemma moves_sum:
  "yields paid db r \<Longrightarrow> moves paid db (snd (case r of Inl e \<Rightarrow> (f e, db) | Inr db' \<Rightarrow> (g db', db')))"
  by (cases r) (simp_all add: yields_def)

lemma alert_yields: "yields paid db (budget_alert env w db)"
  unfolding budget_alert_def Let_def
  by (intro yields_intros moves_refl)

lemma check_cap_moves: "moves paid db (snd (check_cap env w db))"
  by (auto simp: check_cap_def Let_def intro!: moves_sum alert_yields split: option.split)

lemma check_moves: "moves paid db (snd (checkBudget env w db))"
  by (auto simp: checkBudget_def intro!: moves_sum expire_in_check_yields check_cap_moves split: option.split)

lemma gate_moves: "moves paid db (snd (assertWorkspaceModelBudget env w db))"
  by (auto simp: assertWorkspaceModelBudget_def Let_def intro!: moves_sum expire_in_gate_yields split: option.split)

lemma record_moves: "moves paid db (snd (recordModelUsage env inp db))"
  by (auto simp: moves_def recordModelUsage_def Let_def plan_move_def trial_move_def list_ex_iff
      list_all2_same intro!: ledger_moves_append split: option.split)

lemma mcp_moves: "moves paid db (snd (requireTrialMcpAccess env w db))"
proof (cases "find_trial w db")
  case (Some trial)
  show ?thesis
  proof (cases "assertActiveTrial env trial")
    case (Inl e)
    then show ?thesis
      using Some expireTrial_yields [of paid db env trial]
      by (cases "expireTrial env trial db") (auto simp: requireTrialMcpAccess_def yields_def)
  qed (simp add: requireTrialMcpAccess_def Some)
qed (simp add: requireTrialMcpAccess_def)

lemma expire_found_moves: "moves paid db (expire_found env found db)"
  unfolding expire_found_def Let_def
  by (intro moves_fields moves_fold_cap)
     (auto simp: moves_def trial_move_def ended_def intro!: list_all2_map_if free_plan_move simp: plan_move_def)

lemma update_entry_moves:
  "moves paid db x \<Longrightarrow> (\<And>e. e \<in> set (pl_ledger x) \<Longrightarrow> le_id e = i \<Longrightarrow> entry_move e (f e)) \<Longrightarrow>
   moves paid db (update_entry i f x)"
  by (erule moves_trans)
     (auto simp: moves_def update_entry_def plan_move_def trial_move_def list_all2_same intro!: ledger_moves_map)

text \<open>A run of the report touches entries that were not settled when it read them.\<close>

definition open_entries :: "(ledger_entry \<times> string) list \<Rightarrow> plan_db \<Rightarrow> bool" where
  "open_entries es db \<longleftrightarrow>
     distinct (map (le_id \<circ> fst) es) \<and>
     (\<forall>r\<in>set (pl_ledger db). le_id r \<in> (le_id \<circ> fst) ` set es \<longrightarrow> \<not> settled r)"

lemma report_entry_moves:
  assumes "\<And>r. r \<in> set (pl_ledger x) \<Longrightarrow> le_id r = le_id (fst ei) \<Longrightarrow> \<not> settled r"
  shows "moves paid x (snd (snd (report_entry env ei (c, n, x))))"
  using assms
  by (auto simp: report_entry_def Let_def entry_move_def settled_def split: prod.split sum.split
      intro!: update_entry_moves)

lemma report_entry_others:
  assumes "r \<in> set (pl_ledger (snd (snd (report_entry env ei (c, n, x)))))" "le_id r \<noteq> le_id (fst ei)"
  shows "r \<in> set (pl_ledger x)"
  using assms
  by (auto simp: report_entry_def update_entry_def Let_def split: prod.splits sum.splits if_splits)

lemma fold_report_moves:
  "open_entries es (snd (snd s)) \<Longrightarrow> moves paid (snd (snd s)) (snd (snd (fold (report_entry env) es s)))"
proof (induction es arbitrary: s)
  case (Cons ei es)
  obtain c n x where s: "s = (c, n, x)" by (cases s)
  have "moves paid x (snd (snd (report_entry env ei s)))"
    using Cons.prems by (auto simp: s open_entries_def intro!: report_entry_moves)
  moreover have "open_entries es (snd (snd (report_entry env ei s)))"
    unfolding open_entries_def
  proof (intro conjI ballI impI)
    fix r
    assume r: "r \<in> set (pl_ledger (snd (snd (report_entry env ei s))))" "le_id r \<in> (le_id \<circ> fst) ` set es"
    have "le_id (fst ei) \<notin> (le_id \<circ> fst) ` set es" using Cons.prems by (auto simp: open_entries_def)
    with r have "le_id r \<noteq> le_id (fst ei)" by metis
    with r have "r \<in> set (pl_ledger x)" using report_entry_others [of r env ei c n x] by (simp add: s)
    then show "\<not> settled r" using Cons.prems r by (auto simp: s open_entries_def)
  qed (use Cons.prems in \<open>auto simp: open_entries_def\<close>)
  ultimately show ?case using moves_trans [OF _ Cons.IH [of "report_entry env ei s"]] by (simp add: s)
qed simp

section \<open>What a run of the report scans\<close>

lemma map_filter_set: "y \<in> set (List.map_filter f xs) \<longleftrightarrow> (\<exists>x\<in>set xs. f x = Some y)"
  by (induction xs) (auto simp: List.map_filter_def split: option.splits)

lemma billable_profile_eq:
  "billable_profile w db = Some p \<longleftrightarrow> find_profile w db = Some p \<and> bp_status p = BILLING_ACTIVE \<and> bp_item p \<noteq> None"
  by (auto simp: billable_profile_def split: option.splits)

lemma reportable_iff:
  "(e, item) \<in> set (reportable status db) \<longleftrightarrow>
     e \<in> set (pl_ledger db) \<and> le_status e = status \<and>
     (\<exists>p. find_profile (le_workspace e) db = Some p \<and> bp_status p = BILLING_ACTIVE \<and> bp_item p = Some item)"
proof -
  have "(case billable_profile w db of None \<Rightarrow> None | Some p \<Rightarrow> Some (x, the (bp_item p))) = Some (e, item) \<longleftrightarrow>
      x = e \<and> (\<exists>p. billable_profile w db = Some p \<and> bp_item p = Some item)" for x w
  proof (cases "billable_profile w db")
    case (Some p)
    then have "bp_item p \<noteq> None" using billable_profile_eq by blast
    then show ?thesis using Some by auto
  qed simp
  then show ?thesis by (auto simp: reportable_def map_filter_set billable_profile_eq)
qed

lemma scanned_reportable:
  "ei \<in> set (scanned_entries l db) \<Longrightarrow>
   ei \<in> set (reportable LEDGER_PENDING db) \<or> ei \<in> set (reportable LEDGER_FAILED db)"
  by (auto simp: scanned_entries_def Let_def dest: in_set_takeD split: if_splits)

lemma scanned_open: "(e, item) \<in> set (scanned_entries l db) \<Longrightarrow> e \<in> set (pl_ledger db) \<and> \<not> settled e"
  by (auto dest!: scanned_reportable simp: reportable_iff settled_def)

lemma map_filter_ids: "(\<And>x y. f x = Some y \<Longrightarrow> fst y = x) \<Longrightarrow>
    map fst (List.map_filter f xs) = filter (\<lambda>x. f x \<noteq> None) xs"
  by (induction xs) (auto simp: List.map_filter_def split: option.splits)

lemma distinct_reportable:
  assumes "distinct (map le_id (pl_ledger db))"
  shows "distinct (map (le_id \<circ> fst) (reportable status db))"
proof -
  have "map fst (reportable status db) =
      filter (\<lambda>e. billable_profile (le_workspace e) db \<noteq> None)
        (sort_key le_createdAt (filter (\<lambda>e. le_status e = status) (pl_ledger db)))"
    unfolding reportable_def by (subst map_filter_ids) (auto split: option.splits intro: filter_cong)
  then have "map (le_id \<circ> fst) (reportable status db) =
      map le_id (filter (\<lambda>e. billable_profile (le_workspace e) db \<noteq> None)
        (sort_key le_createdAt (filter (\<lambda>e. le_status e = status) (pl_ledger db))))"
    by (metis map_map)
  moreover have "distinct (map le_id (sort_key le_createdAt (filter (\<lambda>e. le_status e = status) (pl_ledger db))))"
    using assms by (simp add: distinct_map inj_on_def)
  ultimately show ?thesis by (simp add: distinct_map_filter)
qed

lemma id_determines:
  "distinct (map le_id es) \<Longrightarrow> e \<in> set es \<Longrightarrow> f \<in> set es \<Longrightarrow> le_id e = le_id f \<Longrightarrow> e = f"
  by (simp add: distinct_map inj_on_def)

lemma scanned_open_entries:
  assumes "distinct (map le_id (pl_ledger db))"
  shows "open_entries (scanned_entries l db) db"
  unfolding open_entries_def
proof (intro conjI ballI impI)
  let ?P = "take (nat l) (reportable LEDGER_PENDING db)"
  let ?F = "reportable LEDGER_FAILED db"
  have "distinct (map (le_id \<circ> fst) (?P @ take n ?F))" for n
  proof -
    have "le_id (fst a) \<noteq> le_id (fst b)" if "a \<in> set ?P" "b \<in> set ?F" for a b
    proof -
      obtain e i f j where ab: "a = (e, i)" "b = (f, j)" by (cases a, cases b)
      then have "e \<in> set (pl_ledger db)" "le_status e = LEDGER_PENDING" "f \<in> set (pl_ledger db)" "le_status f = LEDGER_FAILED"
        using that by (auto dest: in_set_takeD simp: reportable_iff)
      then show ?thesis using id_determines [OF assms, of e f] ab by auto
    qed
    then have "(le_id \<circ> fst) ` set ?P \<inter> (le_id \<circ> fst) ` set (take n ?F) = {}"
      by (auto dest!: in_set_takeD [of _ n])
    then show ?thesis
      using distinct_reportable [OF assms] by (simp add: take_map [symmetric] distinct_take)
        (simp add: take_map image_comp)
  qed
  moreover have "scanned_entries l db = ?P @ take (nat (l - int (length ?P))) ?F"
    by (simp add: scanned_entries_def Let_def)
  ultimately show "distinct (map (le_id \<circ> fst) (scanned_entries l db))" by simp
next
  fix r
  assume r: "r \<in> set (pl_ledger db)" "le_id r \<in> (le_id \<circ> fst) ` set (scanned_entries l db)"
  then obtain e item where "(e, item) \<in> set (scanned_entries l db)" "le_id r = le_id e" by auto
  with scanned_open [of e item l db] id_determines [OF assms r(1), of e] show "\<not> settled r" by auto
qed

section \<open>Histories keep what the moves keep\<close>

lemma resolve_profiles: "pl_profiles db' = pl_profiles db \<Longrightarrow>
    resolveWorkspaceIdFromStripeObject o' db' = resolveWorkspaceIdFromStripeObject o' db"
  by (simp add: resolveWorkspaceIdFromStripeObject_def Let_def)

lemma store_event_fields [simp]:
  "pl_workspaces (store_event i ty db) = pl_workspaces db" "pl_trials (store_event i ty db) = pl_trials db"
  "pl_ledger (store_event i ty db) = pl_ledger db" "pl_profiles (store_event i ty db) = pl_profiles db"
  "pl_budgets (store_event i ty db) = pl_budgets db" "pl_flags (store_event i ty db) = pl_flags db"
  by (simp_all add: store_event_def)

lemma find_map_other:
  "(\<And>r. sv_id (f r) = sv_id r) \<Longrightarrow>
   find (\<lambda>r. sv_id r = j) (map (\<lambda>r. if sv_id r = i then f r else r) es) =
     map_option (\<lambda>r. if i = j then f r else r) (find (\<lambda>r. sv_id r = j) es)"
  by (induction es) auto

definition processed :: "string \<Rightarrow> plan_db \<Rightarrow> bool" where
  "processed i db \<longleftrightarrow> (\<exists>r. find_event i db = Some r \<and> sv_processedAt r \<noteq> None)"

lemma mark_event_moves:
  assumes "moves paid db x" "\<And>r. sv_id (f r) = sv_id r" "\<And>r. sv_processedAt r \<noteq> None \<Longrightarrow> sv_processedAt (f r) \<noteq> None"
  shows "moves paid db (mark_event i f x)"
proof -
  have "events_move (pl_stripe x) (pl_stripe (mark_event i f x))"
    using assms(2,3) by (auto simp: events_move_def mark_event_def find_map_other)
  then have "moves paid x (mark_event i f x)"
    by (simp add: moves_def mark_event_def plan_move_def trial_move_def list_all2_same)
  with assms(1) show ?thesis by (rule moves_trans)
qed

lemma find_append: "find P (xs @ ys) = (case find P xs of None \<Rightarrow> find P ys | Some x \<Rightarrow> Some x)"
  by (induction xs) auto

lemma store_event_moves: "moves paid db (store_event i ty db)"
  by (auto simp: moves_def plan_move_def trial_move_def list_all2_same store_event_def events_move_def find_append)

lemma processed_store [simp]: "processed i (store_event i ty db) = processed i db"
  by (auto simp: processed_def store_event_def find_event_def find_append split: option.splits)

text \<open>A delivery by the row of its event.\<close>

lemma receive_eq:
  "receiveStripeEvent env raw sig db =
     (case accepted_event env raw sig of
        Inl e \<Rightarrow> (Inl e, db)
      | Inr (event, i, ty) \<Rightarrow>
          (if processed i db then Inr (Inl i) else Inr (Inr (event, i, ty)), store_event i ty db))"
proof -
  have "(case find_event i (store_event i ty db) of None \<Rightarrow> False | Some r \<Rightarrow> sv_processedAt r \<noteq> None)
      = processed i db" for i ty
    using processed_store [of i ty db] by (auto simp: processed_def split: option.splits)
  then show ?thesis by (simp add: receiveStripeEvent_def Let_def split: sum.split prod.split)
qed

lemma handle_eq:
  "handleStripeWebhook env raw sig db =
     (case accepted_event env raw sig of
        Inl e \<Rightarrow> (Inl e, db)
      | Inr (event, i, ty) \<Rightarrow>
          (let db1 = store_event i ty db in
           if processed i db then (Inr (False, i), db1)
           else
             (case applyStripeEvent env ty event db1 of
                Inr db2 \<Rightarrow> (Inr (True, i), mark_event i (\<lambda>r. r\<lparr>sv_processedAt := Some (be_now env), sv_error := None\<rparr>) db2)
              | Inl e \<Rightarrow> (Inl e, mark_event i (\<lambda>r. r\<lparr>sv_error := Some (error_message e)\<rparr>) db1))))"
  by (simp add: handleStripeWebhook_def receive_eq settleStripeEvent_def Let_def split: sum.split prod.split)

lemma both_texts:
  "(case (a, b) of (Some (JStr x), Some (JStr y)) \<Rightarrow> Inr (e, x, y) | _ \<Rightarrow> Inl k) = Inr (event, i, ty) \<longleftrightarrow>
     e = event \<and> a = Some (JStr i) \<and> b = Some (JStr ty)"
  by (auto split: option.splits json.splits)

lemma accepted_eventD:
  assumes "accepted_event env raw sig = Inr (event, i, ty)"
  shows "verifyStripeWebhookSignature env raw sig = Inr ()" "be_parse env raw = Inr event"
    "field event ''id'' = Some (JStr i)" "field event ''type'' = Some (JStr ty)"
proof -
  from assms obtain e v where *: "verifyStripeWebhookSignature env raw sig = Inr ()" "be_parse env raw = Inr e"
      "get_prop e ''id'' = Inr v"
      "(case (v, field e ''type'') of (Some (JStr i'), Some (JStr ty)) \<Rightarrow> Inr (e, i', ty)
          | _ \<Rightarrow> Inl invalid_argument) = Inr (event, i, ty)"
    unfolding accepted_event_def and_then_Inr_iff by auto
  from *(3) have "v = field e ''id''" by (simp add: get_prop_eq split: if_splits)
  with * show "verifyStripeWebhookSignature env raw sig = Inr ()" "be_parse env raw = Inr event"
      "field event ''id'' = Some (JStr i)" "field event ''type'' = Some (JStr ty)"
    unfolding both_texts by auto
qed

lemma applyStripeEvent_yields:
  assumes "be_parse env raw = Inr event" "field event ''type'' = Some (JStr ty)"
  shows "yields (set_option (paid_workspace env raw db)) db (applyStripeEvent env ty event db)"
proof -
  define obj where "obj = (case field event ''data'' of None \<Rightarrow> None | Some d \<Rightarrow> field d ''object'')"
  have "yields (set_option (paid_workspace env raw db)) db (apply_to_workspace env ty object w db)"
    if "obj = Some object" "resolveWorkspaceIdFromStripeObject object db = Some w" for object w
    using that assms by (intro apply_yields) (simp add: paid_workspace_def obj_def)
  then show ?thesis
    unfolding applyStripeEvent_def obj_def [symmetric] Let_def
    by (cases obj) (auto simp: truthy_def intro!: yields_intros)
qed

lemma paid_workspace_profiles:
  assumes "pl_profiles db' = pl_profiles db"
  shows "paid_workspace env raw db' = paid_workspace env raw db"
  unfolding paid_workspace_def resolve_profiles [OF assms] ..

lemma receive_moves: "moves paid db (snd (receiveStripeEvent env raw sig db))"
  by (simp add: receive_eq store_event_moves split: sum.split prod.split)

lemma settle_moves: "moves paid db x \<Longrightarrow> moves paid db (snd (settleStripeEvent env i outcome x))"
  by (auto simp: settleStripeEvent_def intro!: mark_event_moves split: sum.split)

lemma delivery_moves: "moves (set_option (paid_workspace env raw db)) db (snd (handleStripeWebhook env raw sig db))"
proof (cases "accepted_event env raw sig")
  case (Inr t)
  obtain event i ty where t: "t = (event, i, ty)" by (cases t)
  let ?db = "store_event i ty db" and ?P = "set_option (paid_workspace env raw db)"
  have y: "yields ?P ?db (applyStripeEvent env ty event ?db)"
    using applyStripeEvent_yields [of env raw event ty ?db] accepted_eventD [of env raw sig event i ty] Inr t
    by (simp add: paid_workspace_profiles [of ?db])
  have "moves ?P db db2" if "applyStripeEvent env ty event ?db = Inr db2" for db2
    using y that store_event_moves moves_trans by (fastforce simp: yields_def)
  then show ?thesis
    by (auto simp: handle_eq Inr t Let_def intro!: mark_event_moves store_event_moves split: sum.split)
qed (simp add: handle_eq)

definition lands :: "string set \<Rightarrow> plan_db \<Rightarrow> ('a \<times> plan_db) result \<Rightarrow> bool" where
  "lands paid db r \<longleftrightarrow> (\<forall>a db'. r = Inr (a, db') \<longrightarrow> moves paid db db')"

lemma lands_bind: "(\<And>u. lands paid db (f u)) \<Longrightarrow> lands paid db (and_then m f)"
  by (cases m) (simp_all add: lands_def)

lemma lands_profile: "lands paid db (and_then (put_profile w a f db) (\<lambda>db'. Inr (x, db')))"
  by (auto simp: lands_def and_then_Inr_iff intro: moves_core core_put_profile)

lemma checkout_lands: "lands paid db (createStripeCheckoutSession env st actor w auth db)"
proof (cases actor)
  case (Auth_user u)
  show ?thesis
  proof (cases "find_workspace w (tb_workspaces auth)")
    case None
    then show ?thesis
      by (simp add: createStripeCheckoutSession_def Auth_user) (intro lands_bind, simp add: lands_def)
  next
    case (Some ws)
    show ?thesis
      unfolding createStripeCheckoutSession_def Auth_user Some Let_def split_def
        auth_actor.case option.case
      by (intro lands_bind lands_profile)
  qed
qed (simp add: createStripeCheckoutSession_def, intro lands_bind, simp add: lands_def)

lemma checkout_yields:
  "yields paid db (and_then (createStripeCheckoutSession env st actor w auth db) (\<lambda>(_, db'). Inr db'))"
  using checkout_lands [of paid db env st actor w auth]
  by (auto simp: yields_def and_then_Inr_iff lands_def)

lemma edit_budget_yields: "yields paid db (updateModelUsageBudget env cfg st actor w cap pct day auth db)"
proof -
  have "moves paid db db'" if "updateModelUsageBudget env cfg st actor w cap pct day auth db = Inr db'" for db'
    using that
    by (auto simp: updateModelUsageBudget_def and_then_Inr_iff intro!: moves_core
        split: js_number.splits if_splits) (simp_all add: core_def)
  then show ?thesis by (auto simp: yields_def)
qed

definition keyed :: "plan_db \<Rightarrow> bool" where
  "keyed db \<longleftrightarrow> distinct (map le_id (pl_ledger db))"

lemma moves_keyed: "moves paid db db' \<Longrightarrow> keyed db \<Longrightarrow> keyed db'"
  by (simp add: moves_def ledger_moves_def keyed_def)

lemma report_moves:
  assumes "keyed db"
  shows "moves paid db (snd (snd (reportPendingAiUsageToStripe env limit db db)))"
  using fold_report_moves [of "scanned_entries (report_limit limit) db" "([], 0, db)" paid env]
    scanned_open_entries [of db "report_limit limit"] assms
  by (auto simp: reportPendingAiUsageToStripe_def Let_def keyed_def split: prod.split)

lemma moves_mono: "moves p db db' \<Longrightarrow> p \<subseteq> q \<Longrightarrow> moves q db db'"
  by (auto simp: moves_def plan_move_def elim!: list_all2_mono)

lemma plan_step_moves: "keyed db \<Longrightarrow> moves (paid_by op db) db (plan_step op db)"
proof (cases op)
  case (Sweep_identity env a d seen)
  then show ?thesis by (simp add: expireStaleTrialsForIdentity_def Let_def expire_found_moves)
next
  case (Sweep_smoke env b d seen)
  then show ?thesis by (simp add: expireActiveSmokeTrialsForDomain_def Let_def expire_found_moves)
qed (simp_all add: delivery_moves receive_moves settle_moves apply_yields report_moves check_moves gate_moves record_moves mcp_moves moves_pure
    committed_moves checkout_yields edit_budget_yields suspend_yields expireTrial_yields expire_connector_yields
    del: plan_step.simps(5), simp_all add: committed_moves checkout_yields)

lemma plan_history_moves: "keyed db \<Longrightarrow> moves (paid_during ops db) db (plan_history ops db)"
proof (induction ops arbitrary: db)
  case (Cons op ops)
  have "moves (paid_during (op # ops) db) db (plan_step op db)"
    using plan_step_moves [OF Cons.prems, of op] by (rule moves_mono) simp
  moreover have "keyed (plan_step op db)"
    using plan_step_moves [OF Cons.prems] Cons.prems by (rule moves_keyed)
  then have "moves (paid_during (op # ops) db) (plan_step op db) (plan_history ops (plan_step op db))"
    by (rule moves_mono [OF Cons.IH]) simp
  ultimately show ?case using moves_trans by simp
qed simp

end
