(* ===== verification/Billing_Promises.thy ===== *)
theory Billing_Promises
  imports Billing_Facts
begin

text \<open>
  What the plans and the billing promise over every history of operations, and the pieces the promises
  rest on: the refusals of the two budget gates, the fate of a Stripe event, the run of the usage
  report, the signature of a webhook and the cents that are billed.
\<close>

section \<open>Paused workspaces\<close>

lemma find_rel:
  "list_all2 R xs ys \<Longrightarrow> (\<And>x y. R x y \<Longrightarrow> P y = P x) \<Longrightarrow> rel_option R (find P xs) (find P ys)"
  by (induction rule: list_all2_induct) auto

definition plan_of :: "string \<Rightarrow> plan_db \<Rightarrow> plan option" where
  "plan_of w db = map_option wp_plan (find_plan w db)"

lemma find_id: "find P xs = Some x \<Longrightarrow> P x"
  by (simp add: find_Some_iff) metis

lemma moves_plan:
  assumes "moves paid db db'" "plan_of w db = Some CORE_FREE" "w \<notin> paid"
  shows "plan_of w db' = Some CORE_FREE"
proof -
  have "rel_option (plan_move paid) (find_plan w db) (find_plan w db')"
    using assms(1) unfolding find_plan_def moves_def by (auto intro!: find_rel simp: plan_move_def)
  with assms(2,3) show ?thesis
    by (auto simp: plan_of_def plan_move_def option_rel_Some1 find_plan_def dest: find_id)
qed

lemma moves_trial:
  assumes "moves paid db db'" "find_trial w db = Some t" "ended (tr_status t)"
  shows "\<exists>u. find_trial w db' = Some u \<and> ended (tr_status u)"
proof -
  have "rel_option trial_move (find_trial w db) (find_trial w db')"
    using assms(1) unfolding find_trial_def moves_def by (auto intro!: find_rel simp: trial_move_def)
  with assms(2,3) show ?thesis by (auto simp: trial_move_def option_rel_Some1)
qed

lemma free_plan_is_refused:
  assumes "plan_of w db = Some CORE_FREE"
  shows "checkBudget env w db = (Inr paused_answer, db)"
    "assertWorkspaceModelBudget env w db =
       (Inl (gate_error ''AI_BUDGET_PAUSED'' ''AI usage is paused for this workspace.''), db)"
  using assms by (auto simp: checkBudget_def assertWorkspaceModelBudget_def plan_of_def)

lemma ended_trial_is_refused:
  "find_trial w db = Some t \<Longrightarrow> ended (tr_status t) \<Longrightarrow> checkBudget env w db = (Inr paused_answer, db)"
  by (auto simp: checkBudget_def ended_def)

text \<open>Tables in which the plan of a workspace was just written.\<close>

lemma find_map_id:
  "(\<And>p. wp_id (f p) = wp_id p) \<Longrightarrow>
   find (\<lambda>p. wp_id p = w) (map (\<lambda>p. if wp_id p = v then f p else p) ps) =
     map_option (\<lambda>p. if v = w then f p else p) (find (\<lambda>p. wp_id p = w) ps)"
  by (induction ps) auto

lemma plan_of_core: "core db' = core db \<Longrightarrow> plan_of w db' = plan_of w db"
  by (simp add: core_def plan_of_def find_plan_def)

lemma update_workspace_free:
  assumes "update_workspace w f db = Inr db'" "\<And>p. wp_id (f p) = wp_id p" "\<And>p. wp_plan (f p) = CORE_FREE"
  shows "plan_of w db' = Some CORE_FREE"
proof -
  from assms(1) obtain p where "find (\<lambda>p. wp_id p = w) (pl_workspaces db) = Some p"
    by (cases "find (\<lambda>p. wp_id p = w) (pl_workspaces db)")
       (auto simp: update_workspace_eq list_ex_iff find_None_iff)
  then show ?thesis using assms by (simp add: update_workspace_eq plan_of_def find_plan_def find_map_id)
qed

lemma pause_frees: "pauseAiForBilling env w status db = Inr db' \<Longrightarrow> plan_of w db' = Some CORE_FREE"
proof -
  assume p: "pauseAiForBilling env w status db = Inr db'"
  then obtain db1 where u: "update_workspace w (free_plan (be_plan env)) db = Inr db1"
    and c: "core db' = core (upsert_cap (be_plan env) w 0 db1)"
    by (auto simp: pauseAiForBilling_def and_then_Inr_iff Let_def core_recorder split: if_splits)
       (auto simp: core_def)
  then have "plan_of w db' = plan_of w db1" using plan_of_core core_upsert_cap by metis
  then show ?thesis using update_workspace_free [OF u] by (simp add: free_plan_def)
qed

lemma suspend_frees:
  assumes "suspendProcurementTrial env actor i reason db = Inr db'"
    and "find (\<lambda>t. tr_id t = i) (pl_trials db) = Some t" "tr_workspace t = Some w" "w \<noteq> []"
  shows "plan_of w db' = Some CORE_FREE"
proof -
  from assms obtain db2 db3 where u: "update_workspace w (free_plan env) db2 = Inr db3"
    and c: "core db' = core db3"
    by (auto simp: suspendProcurementTrial_def and_then_Inr_iff Let_def core_plan_log core_upsert_cap
        split: if_splits)
  then show ?thesis using update_workspace_free [OF u] plan_of_core [OF c] by (simp add: free_plan_def)
qed

lemma expireTrial_frees:
  assumes "expireTrial env t db = Inr db'" "tr_workspace t = Some w" "w \<noteq> []"
  shows "plan_of w db' = Some CORE_FREE"
proof -
  let ?f = "\<lambda>p. (free_plan env p)\<lparr>wp_trialEndsAt := Some (tr_expiresAt t)\<rparr>"
  from assms obtain db1 db2 where u: "update_workspace w ?f db1 = Inr db2"
    and d: "deactivate_credential (tr_credential t)
        (plan_log w None ''procurement_trial.expired'' (tr_id t)
          (JObj [(''downgradePlan'', JStr ''CORE_FREE'')])
          (JObj [(''trialId'', JStr (tr_id t)), (''downgradePlan'', JStr ''CORE_FREE'')])
          (upsert_cap env w 0 db2)) = Inr db'"
    by (auto simp: expireTrial_def and_then_Inr_iff)
  have "core db' = core db2" using core_deactivate [OF d] by (simp add: core_plan_log core_upsert_cap)
  then have "plan_of w db' = plan_of w db2" by (rule plan_of_core)
  moreover have "plan_of w db2 = Some CORE_FREE"
    by (rule update_workspace_free [OF u]) (simp_all add: free_plan_def)
  ultimately show ?thesis by simp
qed

text \<open>What pauses a workspace.\<close>

definition pauses :: "string \<Rightarrow> plan_db \<Rightarrow> plan_db \<Rightarrow> bool" where
  "pauses w db db' \<longleftrightarrow>
     (\<exists>env status. pauseAiForBilling env w status db = Inr db') \<or>
     (\<exists>env actor i reason t. suspendProcurementTrial env actor i reason db = Inr db' \<and>
        find (\<lambda>t. tr_id t = i) (pl_trials db) = Some t \<and> tr_workspace t = Some w \<and> w \<noteq> []) \<or>
     (\<exists>env t. expireTrial env t db = Inr db' \<and> tr_workspace t = Some w \<and> w \<noteq> [])"

lemma pauses_frees: "pauses w db db' \<Longrightarrow> plan_of w db' = Some CORE_FREE"
  by (auto simp: pauses_def intro: pause_frees suspend_frees expireTrial_frees)

section \<open>Events\<close>

lemma processed_history: "keyed db \<Longrightarrow> processed i db \<Longrightarrow> processed i (plan_history ops db)"
  using plan_history_moves [of db ops] by (fastforce simp: moves_def events_move_def processed_def find_event_def)

lemma stored_history:
  "keyed db \<Longrightarrow> find_event i db \<noteq> None \<Longrightarrow> find_event i (plan_history ops db) \<noteq> None"
  using plan_history_moves [of db ops] by (fastforce simp: moves_def events_move_def find_event_def)

lemma processed_delivery:
  assumes "accepted_event env raw sig = Inr (event, i, ty)" "processed i db"
  shows "receiveStripeEvent env raw sig db = (Inr (Inl i), db)"
    "handleStripeWebhook env raw sig db = (Inr (False, i), db)"
proof -
  have "store_event i ty db = db" using assms(2) by (auto simp: store_event_def processed_def)
  then show "receiveStripeEvent env raw sig db = (Inr (Inl i), db)"
    "handleStripeWebhook env raw sig db = (Inr (False, i), db)" using assms by (simp_all add: receive_eq handle_eq)
qed

text \<open>
  Two deliveries of an event that both read before either has marked it both go on to apply it.
\<close>

lemma overlapping_deliveries_both_apply:
  assumes "accepted_event env raw sig = Inr (event, i, ty)" "\<not> processed i db"
  shows "fst (receiveStripeEvent env raw sig db) = Inr (Inr (event, i, ty))"
    "fst (receiveStripeEvent env raw sig (snd (receiveStripeEvent env raw sig db))) = Inr (Inr (event, i, ty))"
  using assms by (simp_all add: receive_eq)

lemma handled_cases:
  obtains (refused) e where "accepted_event env raw sig = Inl e" "handleStripeWebhook env raw sig db = (Inl e, db)"
  | (repeated) event i ty where "accepted_event env raw sig = Inr (event, i, ty)" "processed i db"
      "handleStripeWebhook env raw sig db = (Inr (False, i), db)"
  | (failed) event i ty e where "accepted_event env raw sig = Inr (event, i, ty)" "\<not> processed i db"
      "applyStripeEvent env ty event (store_event i ty db) = Inl e"
      "handleStripeWebhook env raw sig db =
         (Inl e, mark_event i (\<lambda>r. r\<lparr>sv_error := Some (error_message e)\<rparr>) (store_event i ty db))"
  | (applied) event i ty db2 where "accepted_event env raw sig = Inr (event, i, ty)" "\<not> processed i db"
      "applyStripeEvent env ty event (store_event i ty db) = Inr db2"
      "handleStripeWebhook env raw sig db =
         (Inr (True, i), mark_event i (\<lambda>r. r\<lparr>sv_processedAt := Some (be_now env), sv_error := None\<rparr>) db2)"
proof (cases "accepted_event env raw sig")
  case (Inl e)
  then show ?thesis by (intro refused) (simp_all add: handle_eq)
next
  case (Inr t)
  obtain event i ty where t: "accepted_event env raw sig = Inr (event, i, ty)" using Inr by (cases t) auto
  show ?thesis
  proof (cases "processed i db")
    case True
    then show ?thesis using t processed_delivery by (intro repeated)
  next
    case False
    then show ?thesis
      using t failed applied by (cases "applyStripeEvent env ty event (store_event i ty db)") (auto simp: handle_eq Let_def)
  qed
qed

lemma find_event_core: "core db' = core db \<Longrightarrow> find_event i db' = find_event i db"
  by (simp add: core_def find_event_def)

text \<open>Applying an event leaves the rows of the events alone.\<close>

definition same_events :: "plan_db \<Rightarrow> plan_db result \<Rightarrow> bool" where
  "same_events db r \<longleftrightarrow> (\<forall>db'. r = Inr db' \<longrightarrow> pl_stripe db' = pl_stripe db)"

lemma pause_same_events: "same_events db (pauseAiForBilling env w status db)"
  using coreD(3) [OF core_recorder] coreD(3) [OF core_upsert_cap]
  by (auto simp: same_events_def pauseAiForBilling_def and_then_Inr_iff update_workspace_eq Let_def split: if_splits)

lemma activate_same_events: "same_events db (activatePaygAi env w a db)"
proof -
  have "pl_stripe db' = pl_stripe db" if "activatePaygAi env w a db = Inr db'" for db'
  proof -
    from that obtain db1 db3 where u: "update_workspace w (\<lambda>p. p\<lparr>wp_plan := PAYG_AI, wp_activatedAt := Some (be_now env)\<rparr>) db = Inr db1"
      and p: "put_profile w (activate_profile a (empty_profile w)) (activate_profile a) (upsert_cap (be_plan env) w (-1) db1) = Inr db3"
      and d: "db' = (setPurchasedRecorderAccess env w True db3)\<lparr>pl_accounts :=
         map (\<lambda>c. if w \<in> set (cu_workspaces c) then c\<lparr>cu_status := ACCOUNT_ACTIVE\<rparr> else c)
           (pl_accounts (setPurchasedRecorderAccess env w True db3))\<rparr>"
      by (auto simp: activatePaygAi_def and_then_Inr_iff Let_def split: if_splits)
    have "pl_stripe db' = pl_stripe db3" by (simp add: d coreD(3) [OF core_recorder])
    also have "\<dots> = pl_stripe db1" using coreD(3) [OF core_put_profile [OF p]] coreD(3) [OF core_upsert_cap] by simp
    also have "\<dots> = pl_stripe db" using u by (simp add: update_workspace_eq)
    finally show ?thesis .
  qed
  then show ?thesis by (simp add: same_events_def)
qed

lemma same_Inr: "pl_stripe x = pl_stripe db \<Longrightarrow> same_events db (Inr x)"
  by (simp add: same_events_def)

lemma same_bind: "(\<And>x. same_events db (f x)) \<Longrightarrow> same_events db (and_then m f)"
  by (cases m) (simp_all add: same_events_def)

lemma same_invoice: "same_events db m \<Longrightarrow> same_events db (and_then m (\<lambda>x. Inr (invoice_ledger w i x)))"
  by (cases m) (simp_all add: same_events_def invoice_ledger_def)

lemma apply_same_events: "same_events db (apply_to_workspace env ty object w db)"
  using pause_same_events [of db env w] activate_same_events [of db env w]
  by (simp add: apply_to_workspace_def Let_def same_invoice same_bind same_Inr)

lemma applied_event_stays:
  assumes "applyStripeEvent env ty event (store_event i ty db) = Inr db2"
  shows "find_event i db2 \<noteq> None"
proof -
  have "pl_stripe db2 = pl_stripe (store_event i ty db)"
    using assms apply_same_events by (auto simp: applyStripeEvent_def same_events_def Let_def split: if_splits option.splits)
  then show ?thesis by (auto simp: find_event_def store_event_def find_append)
qed

lemma find_marked: "(\<And>r. sv_id (f r) = sv_id r) \<Longrightarrow> find_event i (mark_event i f db) = map_option f (find_event i db)"
  by (simp add: find_event_def mark_event_def find_map_other)

lemma find_stored:
  "find_event i (store_event i ty db) =
     Some (case find_event i db of None \<Rightarrow> \<lparr>sv_id = i, sv_type = ty, sv_processedAt = None, sv_error = None\<rparr> | Some r \<Rightarrow> r)"
  by (simp add: find_event_def store_event_def find_append split: option.split)

lemma failed_row:
  assumes "\<not> processed i db"
  shows "\<not> processed i (mark_event i (\<lambda>r. r\<lparr>sv_error := Some m\<rparr>) (store_event i ty db)) \<and>
    (\<exists>r. find_event i (mark_event i (\<lambda>r. r\<lparr>sv_error := Some m\<rparr>) (store_event i ty db)) = Some r \<and> sv_error r = Some m)"
  using assms by (cases "find_event i db") (simp_all add: processed_def find_marked find_stored)

lemma failed_rest: "(mark_event i f (store_event i ty db))\<lparr>pl_stripe := pl_stripe db\<rparr> = db"
  by (simp add: mark_event_def store_event_def)

section \<open>A run of the report\<close>

definition sendable :: "ledger_entry \<times> string \<Rightarrow> bool" where
  "sendable ei \<longleftrightarrow> snd ei \<noteq> [] \<and> quantity_cents (le_billableUsd (fst ei)) > 0"

definition usage_calls :: "billing_env \<Rightarrow> (ledger_entry \<times> string) list \<Rightarrow> stripe_call list" where
  "usage_calls env es =
     (if truthy_str (be_secretKey env) then map (\<lambda>(e, item). usage_call item e) (filter sendable es) else [])"

lemma usage_calls_append: "usage_calls env (es @ fs) = usage_calls env es @ usage_calls env fs"
  by (simp add: usage_calls_def)

lemma report_entry_calls: "fst (report_entry env ei (c, n, db)) = c @ usage_calls env [ei]"
  by (cases ei) (auto simp: report_entry_def usage_calls_def sendable_def Let_def split: sum.split)

lemma fold_report_calls: "fst (fold (report_entry env) es s) = fst s @ usage_calls env es"
proof (induction es arbitrary: s)
  case (Cons ei es)
  obtain c n db where s: "s = (c, n, db)" by (cases s)
  show ?case
    using Cons.IH [of "report_entry env ei s"] report_entry_calls [of env ei c n db]
      usage_calls_append [of env "[ei]" es]
    by (simp add: s)
qed (simp add: usage_calls_def)

text \<open>The requests of a run depend on what it read, not on the tables it writes.\<close>

lemma report_calls:
  "fst (snd (reportPendingAiUsageToStripe env limit seen db)) =
     usage_calls env (scanned_entries (report_limit limit) seen)"
  using fold_report_calls [of env "scanned_entries (report_limit limit) seen" "([], 0, db)"]
  by (cases "fold (report_entry env) (scanned_entries (report_limit limit) seen) ([], 0, db)")
     (simp add: reportPendingAiUsageToStripe_def Let_def)

definition tried :: "ledger_entry \<Rightarrow> bool" where
  "tried e \<longleftrightarrow> le_status e = LEDGER_REPORTED \<or> le_status e = LEDGER_FAILED"

lemma update_entry_mem: "e \<in> set (pl_ledger db) \<Longrightarrow> f e \<in> set (pl_ledger (update_entry (le_id e) f db))"
  by (force simp: update_entry_def)

lemma report_entry_own:
  assumes "e \<in> set (pl_ledger db)" "item \<noteq> []"
  shows "\<exists>r\<in>set (pl_ledger (snd (snd (report_entry env (e, item) (c, n, db))))). le_id r = le_id e \<and> tried r"
proof (cases "quantity_cents (le_billableUsd e) \<le> 0")
  case True
  then show ?thesis
    using assms by (auto simp: report_entry_def tried_def intro!: bexI [OF _ update_entry_mem])
next
  case False
  then show ?thesis
    using assms
    by (cases "and_then (stripeRequest env c (usage_call item e)) (\<lambda>answer. get_prop answer ''id'')")
       (auto simp: report_entry_def tried_def Let_def intro!: bexI [OF _ update_entry_mem])
qed

lemma report_entry_keeps:
  assumes "r \<in> set (pl_ledger db)" "le_id r \<noteq> le_id (fst ei)"
  shows "r \<in> set (pl_ledger (snd (snd (report_entry env ei (c, n, db)))))"
  using assms
  by (cases ei) (auto simp: report_entry_def update_entry_def Let_def image_iff split: sum.split intro!: bexI [of _ r])

lemma fold_report_keeps:
  "r \<in> set (pl_ledger (snd (snd s))) \<Longrightarrow> le_id r \<notin> (le_id \<circ> fst) ` set es \<Longrightarrow>
   r \<in> set (pl_ledger (snd (snd (fold (report_entry env) es s))))"
proof (induction es arbitrary: s)
  case (Cons ei es)
  obtain c n db where s: "s = (c, n, db)" by (cases s)
  show ?case using Cons report_entry_keeps [of r db ei env c n] by (auto simp: s)
qed simp

lemma fold_report_tries:
  "open_entries es (snd (snd s)) \<Longrightarrow> fst ` set es \<subseteq> set (pl_ledger (snd (snd s))) \<Longrightarrow>
   (e, item) \<in> set es \<Longrightarrow> item \<noteq> [] \<Longrightarrow>
   \<exists>r\<in>set (pl_ledger (snd (snd (fold (report_entry env) es s)))). le_id r = le_id e \<and> tried r"
proof (induction es arbitrary: s)
  case (Cons ei es)
  obtain c n db where s: "s = (c, n, db)" by (cases s)
  let ?s = "report_entry env ei s"
  have d: "le_id (fst ei) \<notin> (le_id \<circ> fst) ` set es" "distinct (map (le_id \<circ> fst) es)"
    using Cons.prems(1) by (auto simp: open_entries_def)
  show ?case
  proof (cases "(e, item) = ei")
    case True
    then obtain r where r: "r \<in> set (pl_ledger (snd (snd ?s)))" "le_id r = le_id e" "tried r"
      using report_entry_own [of e db item env c n] Cons.prems by (auto simp: s)
    have "le_id r \<notin> (le_id \<circ> fst) ` set es" using d(1) r(2) True by (metis fst_conv)
    with r fold_report_keeps [of r ?s es env] show ?thesis by auto
  next
    case False
    have other: "f \<in> set (pl_ledger (snd (snd ?s)))" if "(f, j) \<in> set es" for f j
    proof -
      have "le_id f \<noteq> le_id (fst ei)" using d(1) imageI [OF that, of "le_id \<circ> fst"] by (metis comp_apply fst_conv)
      moreover have "f \<in> set (pl_ledger db)" using Cons.prems(2) that by (force simp: s)
      ultimately show ?thesis using report_entry_keeps [of f db ei env c n] by (simp add: s)
    qed
    have "open_entries es (snd (snd ?s))"
      unfolding open_entries_def
    proof (intro conjI ballI impI)
      fix r
      assume r: "r \<in> set (pl_ledger (snd (snd ?s)))" "le_id r \<in> (le_id \<circ> fst) ` set es"
      with d(1) have "le_id r \<noteq> le_id (fst ei)" by metis
      with r have "r \<in> set (pl_ledger db)" using report_entry_others [of r env ei c n db] by (simp add: s)
      then show "\<not> settled r" using Cons.prems(1) r(2) by (auto simp: s open_entries_def)
    qed (rule d(2))
    moreover have "fst ` set es \<subseteq> set (pl_ledger (snd (snd ?s)))" using other by auto
    ultimately show ?thesis using Cons.IH [of ?s] Cons.prems False by simp
  qed
qed simp

lemma length_reportable_limit: "0 \<le> l \<Longrightarrow> int (length (scanned_entries l db)) \<le> l"
  by (auto simp: scanned_entries_def Let_def)

lemma report_limit_bounds: "1 \<le> report_limit l" "report_limit l \<le> 500"
  by (simp_all add: report_limit_def)

lemma failed_wait_for_pending:
  assumes "(f, i) \<in> set (scanned_entries l db)" "le_status f = LEDGER_FAILED" "ei \<in> set (reportable LEDGER_PENDING db)"
  shows "ei \<in> set (scanned_entries l db)"
proof -
  have "(f, i) \<notin> set (take (nat l) (reportable LEDGER_PENDING db))"
    using assms(2) by (auto dest!: in_set_takeD simp: reportable_iff)
  with assms(1) have "int (length (take (nat l) (reportable LEDGER_PENDING db))) < l"
    by (auto simp: scanned_entries_def Let_def split: if_splits)
  then have "take (nat l) (reportable LEDGER_PENDING db) = reportable LEDGER_PENDING db" by simp
  then show ?thesis using assms(3) by (simp add: scanned_entries_def Let_def)
qed

section \<open>Cents\<close>

text \<open>
  Amounts have six decimals and are below a million dollars, so their cents are multiples of 1/10000
  below a hundred million, and the two roundings cannot move them to another whole number.
\<close>

lemma fl_near:
  assumes "0 \<le> x" shows "\<bar>fl x - x\<bar> \<le> x / 2 ^ 53"
  using fl_error [of x] assms by (cases "x = 0") auto

lemma cents_error:
  assumes "0 \<le> c" "c \<le> 1000000"
  shows "\<bar>js_mul (fl c) 100 - 100 * c\<bar> < 1 / 10000"
proof -
  have c: "c / 2 ^ 53 \<le> 1000000 / 2 ^ 53" using assms(2) by (rule divide_right_mono) simp
  have f: "0 \<le> fl c" using assms(1) by (rule fl_nonneg)
  have n: "\<bar>fl c - c\<bar> \<le> 1000000 / 2 ^ 53" using fl_near [OF assms(1)] c by linarith
  moreover have "(1000000 :: rat) / 2 ^ 53 \<le> 1" by simp
  ultimately have "fl c \<le> 1000001" using assms(2) unfolding abs_le_iff by linarith
  then have "fl c * 100 / 2 ^ 53 \<le> 100000100 / 2 ^ 53" by (intro divide_right_mono) simp_all
  moreover have "\<bar>fl (fl c * 100) - fl c * 100\<bar> \<le> fl c * 100 / 2 ^ 53" by (rule fl_near) (use f in simp)
  ultimately have m: "\<bar>fl (fl c * 100) - fl c * 100\<bar> \<le> 100000100 / 2 ^ 53" by linarith
  have "(1000000 :: rat) / 2 ^ 53 \<le> 1 / 100000000" "(100000100 :: rat) / 2 ^ 53 \<le> 1 / 1000000" by simp_all
  then have n: "\<bar>fl c - c\<bar> \<le> 1 / 100000000" and m: "\<bar>fl (fl c * 100) - fl c * 100\<bar> \<le> 1 / 1000000"
    using n m by (meson order_trans)+
  show ?thesis
    using abs_le_D1 [OF n] abs_le_D2 [OF n] abs_le_D1 [OF m] abs_le_D2 [OF m]
    unfolding js_mul_def abs_less_iff by (intro conjI) linarith+
qed

lemma ceiling_near_whole:
  assumes "\<bar>v - of_int m\<bar> < (1 / 10000 :: rat)" shows "\<lceil>v\<rceil> = m \<or> \<lceil>v\<rceil> = m + 1"
  using assms unfolding abs_less_iff by linarith

lemma ceiling_near_fraction:
  assumes "\<bar>v - of_int k / 10000\<bar> < (1 / 10000 :: rat)" "\<not> 10000 dvd k" shows "\<lceil>v\<rceil> = k div 10000 + 1"
proof -
  have "(of_int k :: rat) = 10000 * of_int (k div 10000) + of_int (k mod 10000)"
    by (metis of_int_add of_int_mult of_int_numeral mult_div_mod_eq)
  then have k: "of_int k / 10000 = of_int (k div 10000) + of_int (k mod 10000) / (10000 :: rat)" by linarith
  have "0 \<le> k mod 10000" "k mod 10000 < 10000" by simp_all
  moreover have "k mod 10000 \<noteq> 0" using assms(2) by (simp add: dvd_eq_mod_eq_0)
  ultimately have "1 \<le> k mod 10000" "k mod 10000 \<le> 9999" by linarith+
  then have "(1 :: rat) \<le> of_int (k mod 10000)" "of_int (k mod 10000) \<le> (9999 :: rat)" by linarith+
  then have "of_int (k div 10000) < v" "v < of_int (k div 10000) + 1"
    using assms(1) k unfolding abs_less_iff by linarith+
  then show ?thesis by linarith
qed

section \<open>Signatures\<close>

definition hex_lower :: "char \<Rightarrow> bool" where
  "hex_lower c \<longleftrightarrow> is_digit c \<or> CHR ''a'' \<le> c \<and> c \<le> CHR ''f''"

lemma hex_value_code:
  "hex_value c =
     (if 48 \<le> (of_char c :: nat) \<and> (of_char c :: nat) \<le> 57 then Some (of_char c - 48)
      else if 97 \<le> (of_char c :: nat) \<and> (of_char c :: nat) \<le> 102 then Some (of_char c - 87)
      else if 65 \<le> (of_char c :: nat) \<and> (of_char c :: nat) \<le> 70 then Some (of_char c - 55) else None)"
  by (simp add: hex_value_def is_digit_def less_eq_char_def)

lemma lower_code:
  "(of_char (js_lower_char c) :: nat) =
     (if 65 \<le> (of_char c :: nat) \<and> (of_char c :: nat) \<le> 90
         \<or> 192 \<le> (of_char c :: nat) \<and> (of_char c :: nat) \<le> 222 \<and> (of_char c :: nat) \<noteq> 215
      then of_char c + 32 else of_char c)"
  by (simp add: js_lower_char_def Let_def)

lemma char_code_eq: "x = y \<longleftrightarrow> (of_char x :: nat) = of_char y"
  by simp

lemma hex_value_lower:
  assumes "hex_lower a"
  shows "hex_value x = hex_value a \<longleftrightarrow> js_lower_char x = a" "hex_value a \<noteq> None"
proof -
  define m n :: nat where "m = of_char a" and "n = of_char x"
  have a: "48 \<le> m \<and> m \<le> 57 \<or> 97 \<le> m \<and> m \<le> 102"
    using assms by (simp add: hex_lower_def is_digit_def less_eq_char_def m_def)
  then show "hex_value a \<noteq> None" by (auto simp: hex_value_code m_def)
  show "hex_value x = hex_value a \<longleftrightarrow> js_lower_char x = a"
    unfolding char_code_eq [of "js_lower_char x"] lower_code hex_value_code m_def [symmetric] n_def [symmetric]
    using a by auto
qed

lemma hex_value_bound: "hex_value c = Some v \<Longrightarrow> v < 16"
  by (auto simp: hex_value_code split: if_splits)

lemma hex_pair: "v < 16 \<Longrightarrow> q < 16 \<Longrightarrow> 16 * p + q = 16 * u + v \<longleftrightarrow> p = u \<and> q = (v :: nat)"
proof
  assume "v < 16" "q < 16" "16 * p + q = 16 * u + v"
  then have "(16 * p + q) mod 16 = (16 * u + v) mod 16" by simp
  with \<open>v < 16\<close> \<open>q < 16\<close> have "q = v" by simp
  with \<open>16 * p + q = 16 * u + v\<close> show "p = u \<and> q = v" by simp
qed simp

lemma from_hex_eq_iff:
  "list_all hex_lower d \<Longrightarrow> even (length d) \<Longrightarrow>
   from_hex s = from_hex d \<longleftrightarrow>
     length d \<le> length s \<and> map js_lower_char (take (length d) s) = d \<and> from_hex (drop (length d) s) = []"
proof (induction d arbitrary: s rule: from_hex.induct)
  case (1 a b d)
  then obtain u v where ab: "hex_value a = Some u" "hex_value b = Some v"
    using hex_value_lower(2) by fastforce
  have IH: "from_hex s' = from_hex d \<longleftrightarrow>
      length d \<le> length s' \<and> map js_lower_char (take (length d) s') = d \<and> from_hex (drop (length d) s') = []" for s'
    using 1 ab by simp
  show ?case
  proof (cases s rule: from_hex.cases)
    case (1 x y s')
    have "from_hex s = from_hex (a # b # d) \<longleftrightarrow>
        hex_value x = Some u \<and> hex_value y = Some v \<and> from_hex s' = from_hex d"
      using 1 ab hex_value_bound [OF ab(1)] hex_value_bound [OF ab(2)] hex_value_bound [of x] hex_value_bound [of y]
      by (auto simp: hex_pair split: option.split)
    also have "\<dots> \<longleftrightarrow> js_lower_char x = a \<and> js_lower_char y = b \<and> from_hex s' = from_hex d"
      using hex_value_lower(1) [of a x] hex_value_lower(1) [of b y] "1.prems" ab by simp
    finally show ?thesis using 1 IH by auto
  qed (use ab in auto)
qed auto

section \<open>What the gates and the report do not do\<close>

text \<open>
  A trial that ended closes the agents' gate for good: no operation leaves \<^verbatim>\<open>EXPIRED\<close> or
  \<^verbatim>\<open>SUSPENDED\<close>, so \<open>checkBudget\<close> refuses whatever is paid afterwards.
\<close>

lemma ended_trial_outlives_payment:
  fixes ops :: "'l plan_op list"
  assumes "keyed db" "find_trial w db = Some t" "ended (tr_status t)"
  shows "checkBudget env w (plan_history ops db) = (Inr paused_answer, plan_history ops db)"
  using moves_trial [OF plan_history_moves [OF assms(1)] assms(2,3)] ended_trial_is_refused by blast

text \<open>Two runs that read the same entries send the same requests, whatever the first has written.\<close>

lemma overlapping_reports_bill_twice:
  "fst (snd (reportPendingAiUsageToStripe env l seen (snd (snd (reportPendingAiUsageToStripe env l seen seen))))) =
   fst (snd (reportPendingAiUsageToStripe env l seen seen))"
  by (simp add: report_calls)

lemma seven_cents_bill_eight: "quantity_cents (7 / 100) = 8"
proof -
  have c: "fl (7 / 100) = 5044031582654956 / 2 ^ 56"
    by (subst fl_eval [where e = "-4" and f = 5044031582654956]) (simp_all add: power_int_minus)
  have "js_mul (fl (7 / 100)) 100 = 7881299347898369 / 2 ^ 50"
    unfolding c js_mul_def
    by (subst fl_eval [where e = 2 and f = 7881299347898369]) (simp_all add: power_int_minus)
  then show ?thesis by (simp add: quantity_cents_def ceiling_unique)
qed

definition header_parts :: "string \<Rightarrow> string list" where
  "header_parts header = map js_trim (split_char CHR '','' header)"

section \<open>Examples\<close>

definition bill_example_plan :: plan_env where
  "bill_example_plan =
     \<lparr>pe_now = 1000000, pe_zone = 0, pe_new_id = (\<lambda>k. k @ ''-new''),
      pe_rate = (\<lambda>k r. Inl (PlainError ''closed'' None)), pe_column = Inr, pe_percent = (\<lambda>u c. 100 * u / c),
      pe_receipt = (\<lambda>b us. Inr ()), pe_admins = (\<lambda>w. False), pe_alert = (\<lambda>b us. Inr ())\<rparr>"

definition bill_example_auth :: auth_config where
  "bill_example_auth =
     \<lparr>ac_scopeSlug = None, ac_lastSeenInterval = 0, ac_sha256 = id, ac_hashPassword = id, ac_verifyPassword = (=),
      ac_token = ''t'', ac_new_id = id, ac_now = 0, ac_mcp = (\<lambda>w. Inr ()), ac_by_name = id\<rparr>"

definition bill_example_event :: "string \<Rightarrow> string \<Rightarrow> json" where
  "bill_example_event ty w =
     JObj [(''id'', JStr ''evt_1''), (''type'', JStr ty),
           (''data'', JObj [(''object'', JObj [(''client_reference_id'', JStr w), (''id'', JStr ''in_1'')])])]"

definition bill_example_env :: "json \<Rightarrow> billing_env" where
  "bill_example_env event =
     \<lparr>be_plan = bill_example_plan, be_auth = bill_example_auth, be_appUrl = ''https://app'',
      be_secretKey = Some ''sk'', be_webhookSecret = Some ''whsec'', be_priceId = Some ''price'',
      be_fetch = (\<lambda>past call. Inr (200, JObj [(''id'', JStr ''mbur_1'')])),
      be_hmac = (\<lambda>k m. ''ab''), be_parse = (\<lambda>s. Inr event), be_otherDate = (\<lambda>s. None)\<rparr>"

definition bill_example_entry :: "string \<Rightarrow> string \<Rightarrow> rat \<Rightarrow> ledger_status \<Rightarrow> ledger_entry" where
  "bill_example_entry i w cost st =
     \<lparr>le_id = i, le_workspace = w, le_usage = None, le_billableUsd = cost, le_status = st, le_record = None,
      le_invoice = None, le_reportedAt = None, le_error = None, le_createdAt = 5000\<rparr>"

definition bill_example_profile :: "string \<Rightarrow> billing_profile" where
  "bill_example_profile w =
     (empty_profile w)\<lparr>bp_status := BILLING_ACTIVE, bp_item := Some ''si_1'', bp_customer := Some (''cus_'' @ w)\<rparr>"

text \<open>Two workspaces that pay, \<open>w\<close> and \<open>v\<close>, with an entry to report and one that was reported.\<close>

definition bill_example_db :: plan_db where
  "bill_example_db =
     \<lparr>pl_workspaces = [\<lparr>wp_id = ''w'', wp_plan = PAYG_AI, wp_activatedAt = None, wp_trialEndsAt = None\<rparr>,
                       \<lparr>wp_id = ''v'', wp_plan = PAYG_AI, wp_activatedAt = None, wp_trialEndsAt = None\<rparr>],
      pl_budgets = [], pl_trials = [], pl_credentials = [], pl_items = [], pl_usage = [], pl_documents = [],
      pl_profiles = [bill_example_profile ''w'', bill_example_profile ''v''],
      pl_ledger = [bill_example_entry ''e1'' ''w'' (1 / 2) LEDGER_PENDING, bill_example_entry ''e2'' ''w'' 1 LEDGER_REPORTED],
      pl_stripe = [], pl_accounts = [], pl_flags = [], pl_audit = [], pl_events = []\<rparr>"

lemmas bill_example_defs = bill_example_plan_def bill_example_auth_def bill_example_event_def bill_example_env_def
  bill_example_entry_def bill_example_profile_def bill_example_db_def empty_profile_def

lemma bill_example_fresh: "pl_stripe db = [] \<Longrightarrow> \<not> processed i db" "\<not> processed i bill_example_db"
  by (simp_all add: processed_def find_event_def bill_example_db_def)

lemma bill_example_accepted:
  "ty \<noteq> [] \<Longrightarrow> accepted_event (bill_example_env (bill_example_event ty w)) ''body'' (Some ''t=1,v1=ab'') =
     Inr (bill_example_event ty w, ''evt_1'', ty)"
  by (auto simp: accepted_event_def verifyStripeWebhookSignature_def bill_example_defs truthy_str_def
      truthy_def js_trim_def js_space_def starts_with_def Let_def)

text \<open>
  What an overlapping delivery can do: the failure of a payment of \<open>v\<close> is delivered twice; the first
  delivery is applied and marked, the payment that follows reopens the workspace, and the second
  delivery, which has read before, pauses it again.
\<close>

definition overlap_run :: "unit plan_op list" where
  "overlap_run =
     (let event = bill_example_event ''invoice.payment_failed'' ''v''; benv = bill_example_env event;
          object = JObj [(''client_reference_id'', JStr ''v''), (''id'', JStr ''in_1'')] in
      [Receive benv ''body'' (Some ''t=1,v1=ab''), Receive benv ''body'' (Some ''t=1,v1=ab''),
       Apply_event benv ''invoice.payment_failed'' object ''v'', Settle_event benv ''evt_1'' (Inr ()),
       Apply_event benv ''invoice.payment_succeeded'' object ''v'',
       Apply_event benv ''invoice.payment_failed'' object ''v''])"

lemma late_delivery_pauses_paid_workspace:
  "map_option (\<lambda>r. sv_processedAt r \<noteq> None)
     (find_event ''evt_1'' (plan_history (take 4 overlap_run) bill_example_db)) = Some True"
  "plan_of ''v'' (plan_history (take 5 overlap_run) bill_example_db) = Some PAYG_AI"
  "plan_of ''v'' (plan_history overlap_run bill_example_db) = Some CORE_FREE"
  by code_simp+

section \<open>Properties\<close>

text \<open>
  C28: A workspace whose AI was paused, by a failed or cancelled subscription, the suspension of its
  trial or the end of it, uses no AI until Stripe reports a payment for it: after every history of
  operations in which no delivered event is a payment for this workspace, budget edits included, both
  gates refuse and write nothing.
\<close>

theorem paused_workspace_uses_no_ai_until_paid:
  fixes ops :: "'l plan_op list"
  assumes "pauses w db0 db" "keyed db" "w \<notin> paid_during ops db"
  shows "checkBudget env w (plan_history ops db) = (Inr paused_answer, plan_history ops db) \<and>
    assertWorkspaceModelBudget env w (plan_history ops db) =
      (Inl (gate_error ''AI_BUDGET_PAUSED'' ''AI usage is paused for this workspace.''), plan_history ops db)"
proof -
  have "plan_of w (plan_history ops db) = Some CORE_FREE"
    using plan_history_moves [OF assms(2)] pauses_frees [OF assms(1)] assms(3) by (rule moves_plan)
  then show ?thesis by (simp add: free_plan_is_refused)
qed

text \<open>
  C29: A Stripe event that was marked processed is never applied by a later delivery.  A delivery
  receives the event; whatever happens while it runs, other deliveries of the same event included, and
  whatever happens after it has marked the event, every delivery of an event with the same identifier
  that reads from then on answers that it was not processed and changes nothing, whatever its type and
  content.  (Deliveries that have read before the mark are not stopped:
  \<open>overlapping_deliveries_both_apply\<close>.)
\<close>

theorem stripe_event_takes_effect_once:
  fixes ops later :: "'l plan_op list"
  assumes received: "receiveStripeEvent env raw sig db = (Inr (Inr (event, i, ty)), db1)" and "keyed db"
    and settled: "settleStripeEvent env i (Inr ()) (plan_history ops db1) = (answer, db2)"
    and again: "accepted_event env' raw' sig' = Inr (event', i, ty')"
  shows "receiveStripeEvent env' raw' sig' (plan_history later db2) = (Inr (Inl i), plan_history later db2) \<and>
    handleStripeWebhook env' raw' sig' (plan_history later db2) = (Inr (False, i), plan_history later db2)"
proof -
  have "find_event i db1 \<noteq> None" "keyed db1"
    using received assms(2) moves_keyed [OF receive_moves, of db env raw sig]
    by (auto simp: receive_eq find_stored split: sum.splits if_splits)
  then have stored: "find_event i (plan_history ops db1) \<noteq> None" and k: "keyed (plan_history ops db1)"
    using stored_history moves_keyed [OF plan_history_moves] by blast+
  have "processed i db2"
    using settled stored by (auto simp: settleStripeEvent_def processed_def find_marked)
  moreover have "keyed db2"
    using moves_keyed [OF settle_moves [OF moves_refl] k, of env i "Inr ()"] settled by simp
  ultimately show ?thesis using processed_history processed_delivery [OF again] by blast
qed

text \<open>
  C30: A delivery that fails changes nothing but the row of its event: every other table is as before,
  and if the event was accepted it is stored with the error, unprocessed, so that the next delivery of
  it is applied.
\<close>

theorem failed_stripe_event_changes_nothing:
  assumes "handleStripeWebhook env raw sig db = (Inl e, db1)"
  shows "db1\<lparr>pl_stripe := pl_stripe db\<rparr> = db \<and>
    (case accepted_event env raw sig of
       Inl e' \<Rightarrow> e' = e \<and> db1 = db
     | Inr (event, i, ty) \<Rightarrow>
         \<not> processed i db1 \<and> (\<exists>r. find_event i db1 = Some r \<and> sv_error r = Some (error_message e)))"
  by (rule handled_cases [of env raw sig db])
     (use assms in \<open>auto simp: failed_row failed_rest\<close>)

theorem paused_workspace_uses_no_ai_until_paid_witness:
  "let benv = bill_example_env (bill_example_event ''invoice.payment_succeeded'' ''v'');
       db = (case pauseAiForBilling benv ''w'' PAST_DUE bill_example_db of Inl _ \<Rightarrow> bill_example_db | Inr d \<Rightarrow> d);
       ops = [Deliver benv ''body'' (Some ''t=1,v1=ab''), Report benv None] :: unit plan_op list in
     checkBudget bill_example_plan ''w'' (plan_history ops db) = (Inr paused_answer, plan_history ops db)"
proof -
  define benv where "benv = bill_example_env (bill_example_event ''invoice.payment_succeeded'' ''v'')"
  define db where "db = (case pauseAiForBilling benv ''w'' PAST_DUE bill_example_db of Inl _ \<Rightarrow> bill_example_db | Inr d \<Rightarrow> d)"
  define ops :: "unit plan_op list" where "ops = [Deliver benv ''body'' (Some ''t=1,v1=ab''), Report benv None]"
  have p: "pauseAiForBilling benv ''w'' PAST_DUE bill_example_db = Inr db"
    by (simp add: db_def benv_def bill_example_defs pauseAiForBilling_def update_workspace_def Let_def upsert_cap_def
        find_profile_def)
  have k: "keyed db"
    using p
    by (auto simp: benv_def bill_example_defs pauseAiForBilling_def update_workspace_def Let_def upsert_cap_def
        find_profile_def setPurchasedRecorderAccess_def recorder_flag_def hasStripePaygRecorderAccess_def
        config_field_def keyed_def)
  have n: "''w'' \<notin> paid_during ops db"
    by (simp add: ops_def benv_def bill_example_defs paid_workspace_def payment_event_def
        resolveWorkspaceIdFromStripeObject_def stringField_def either_def js_trim_def js_space_def Let_def)
  show ?thesis
    using paused_workspace_uses_no_ai_until_paid [OF _ k n, of bill_example_db bill_example_plan] p
    unfolding Let_def ops_def db_def benv_def pauses_def by blast
qed

theorem stripe_event_takes_effect_once_witness:
  "let event = bill_example_event ''invoice.payment_failed'' ''v''; benv = bill_example_env event;
       db1 = snd (receiveStripeEvent benv ''body'' (Some ''t=1,v1=ab'') bill_example_db);
       ops = [Receive benv ''body'' (Some ''t=1,v1=ab''), Report benv None] :: unit plan_op list;
       db2 = snd (settleStripeEvent benv ''evt_1'' (Inr ()) (plan_history ops db1));
       later = plan_history ops db2 in
     handleStripeWebhook benv ''body'' (Some ''t=1,v1=ab'') later = (Inr (False, ''evt_1''), later)"
proof -
  define benv where "benv = bill_example_env (bill_example_event ''invoice.payment_failed'' ''v'')"
  have a: "accepted_event benv ''body'' (Some ''t=1,v1=ab'') =
      Inr (bill_example_event ''invoice.payment_failed'' ''v'', ''evt_1'', ''invoice.payment_failed'')"
    unfolding benv_def by (rule bill_example_accepted) simp
  have r: "receiveStripeEvent benv ''body'' (Some ''t=1,v1=ab'') bill_example_db =
      (Inr (Inr (bill_example_event ''invoice.payment_failed'' ''v'', ''evt_1'', ''invoice.payment_failed'')),
       snd (receiveStripeEvent benv ''body'' (Some ''t=1,v1=ab'') bill_example_db))"
    by (simp add: receive_eq a bill_example_fresh)
  have k: "keyed bill_example_db" by (simp add: keyed_def bill_example_defs)
  show ?thesis
    using stripe_event_takes_effect_once [OF r k _ a] unfolding Let_def benv_def [symmetric] by (metis prod.collapse)
qed

theorem failed_stripe_event_changes_nothing_witness:
  "let benv = bill_example_env (bill_example_event ''invoice.payment_failed'' ''x'');
       db1 = snd (handleStripeWebhook benv ''body'' (Some ''t=1,v1=ab'') bill_example_db) in
     db1\<lparr>pl_stripe := []\<rparr> = bill_example_db \<and> \<not> processed ''evt_1'' db1"
proof -
  define benv where "benv = bill_example_env (bill_example_event ''invoice.payment_failed'' ''x'')"
  have a: "accepted_event benv ''body'' (Some ''t=1,v1=ab'') =
      Inr (bill_example_event ''invoice.payment_failed'' ''x'', ''evt_1'', ''invoice.payment_failed'')"
    by (simp add: accepted_event_def verifyStripeWebhookSignature_def benv_def bill_example_defs truthy_str_def
        truthy_def js_trim_def js_space_def starts_with_def Let_def)
  have h: "handleStripeWebhook benv ''body'' (Some ''t=1,v1=ab'') bill_example_db =
      (Inl record_not_found, snd (handleStripeWebhook benv ''body'' (Some ''t=1,v1=ab'') bill_example_db))"
    by (simp add: handle_eq bill_example_fresh a find_event_def store_event_def applyStripeEvent_def apply_to_workspace_def
        resolveWorkspaceIdFromStripeObject_def stringField_def either_def js_trim_def js_space_def truthy_def Let_def
        bill_example_defs pauseAiForBilling_def update_workspace_def)
  have "pl_stripe bill_example_db = []" by (simp add: bill_example_db_def)
  then show ?thesis
    using failed_stripe_event_changes_nothing [OF h] a unfolding Let_def benv_def by simp
qed

text \<open>
  C31: A run of the report scans at most 500 entries (at most the limit it was given), retries failed
  entries only when it scans every pending one, sends exactly one request for each scanned entry that
  costs something, settles each or marks it failed, and leaves every other entry as it was.
\<close>

theorem usage_run_requests_each_entry_once:
  assumes "keyed db"
    and run: "reportPendingAiUsageToStripe env limit db db = ((scanned, reported), calls, db')"
  shows "\<exists>entries. entries = scanned_entries (report_limit limit) db \<and> distinct (map (le_id \<circ> fst) entries) \<and>
    scanned = int (length entries) \<and> scanned \<le> report_limit limit \<and> report_limit limit \<le> 500 \<and>
    calls = (if truthy_str (be_secretKey env) then map (\<lambda>(e, item). usage_call item e) (filter sendable entries) else []) \<and>
    (\<forall>(f, i)\<in>set entries. le_status f = LEDGER_FAILED \<longrightarrow> set (reportable LEDGER_PENDING db) \<subseteq> set entries) \<and>
    (\<forall>(e, item)\<in>set entries. item \<noteq> [] \<longrightarrow> (\<exists>r\<in>set (pl_ledger db'). le_id r = le_id e \<and> tried r)) \<and>
    (\<forall>r\<in>set (pl_ledger db). le_id r \<notin> (le_id \<circ> fst) ` set entries \<longrightarrow> r \<in> set (pl_ledger db'))"
proof (intro exI conjI)
  let ?es = "scanned_entries (report_limit limit) db"
  have o: "open_entries ?es db" using assms(1) by (intro scanned_open_entries) (simp add: keyed_def)
  have db': "db' = snd (snd (fold (report_entry env) ?es ([], 0, db)))" and n: "scanned = int (length ?es)"
    using run by (auto simp: reportPendingAiUsageToStripe_def Let_def split: prod.splits)
  show "distinct (map (le_id \<circ> fst) ?es)" using o by (simp add: open_entries_def)
  show "scanned = int (length ?es)" by (rule n)
  show "scanned \<le> report_limit limit"
    using report_limit_bounds(1) [of limit] by (simp add: n length_reportable_limit)
  show "report_limit limit \<le> 500" by (rule report_limit_bounds)
  show "calls = (if truthy_str (be_secretKey env) then map (\<lambda>(e, item). usage_call item e) (filter sendable ?es) else [])"
    using report_calls [of env limit db db] run by (simp add: usage_calls_def)
  show "\<forall>(f, i)\<in>set ?es. le_status f = LEDGER_FAILED \<longrightarrow> set (reportable LEDGER_PENDING db) \<subseteq> set ?es"
    using failed_wait_for_pending by blast
  have in_db: "fst ` set ?es \<subseteq> set (pl_ledger (snd (snd ([] :: stripe_call list, 0 :: int, db))))"
    using scanned_open by fastforce
  show "\<forall>(e, item)\<in>set ?es. item \<noteq> [] \<longrightarrow> (\<exists>r\<in>set (pl_ledger db'). le_id r = le_id e \<and> tried r)"
    using fold_report_tries [of ?es "([], 0, db)", OF _ in_db] o by (auto simp: db')
  show "\<forall>r\<in>set (pl_ledger db). le_id r \<notin> (le_id \<circ> fst) ` set ?es \<longrightarrow> r \<in> set (pl_ledger db')"
    using fold_report_keeps [of _ "([], 0, db)" ?es env] by (simp add: db')
qed (rule refl)

theorem usage_run_requests_each_entry_once_witness:
  "\<exists>entries. entries = scanned_entries 100 bill_example_db \<and> length entries = 1 \<and>
    fst (snd (reportPendingAiUsageToStripe (bill_example_env JNull) None bill_example_db bill_example_db)) =
      map (\<lambda>(e, item). usage_call item e) (filter sendable entries)"
proof -
  have k: "keyed bill_example_db" by (simp add: keyed_def bill_example_defs)
  have l: "report_limit None = 100" by (simp add: report_limit_def)
  have e: "scanned_entries 100 bill_example_db = [(bill_example_entry ''e1'' ''w'' (1 / 2) LEDGER_PENDING, ''si_1'')]"
    by (simp add: scanned_entries_def reportable_def billable_profile_def find_profile_def bill_example_defs
        List.map_filter_def)
  obtain n m cs db' where r: "reportPendingAiUsageToStripe (bill_example_env JNull) None bill_example_db bill_example_db =
      ((n, m), cs, db')"
    by (metis surj_pair)
  show ?thesis
    using usage_run_requests_each_entry_once [OF k r] e
    by (simp add: r l truthy_str_def) (simp add: bill_example_env_def)
qed

text \<open>
  Usage that was reported is never reported again: after every history of operations an entry that
  was reported or invoiced is so still, for the same amount, and no later run scans it.
\<close>

lemma reported_usage_is_never_reported_again:
  fixes ops :: "'l plan_op list"
  assumes "keyed db" "e \<in> set (pl_ledger db)" "settled e"
  shows "(\<exists>f\<in>set (pl_ledger (plan_history ops db)).
      le_id f = le_id e \<and> settled f \<and> le_billableUsd f = le_billableUsd e \<and> le_workspace f = le_workspace e) \<and>
    le_id e \<notin> (le_id \<circ> fst) ` set (scanned_entries l (plan_history ops db))"
proof -
  let ?db = "plan_history ops db"
  have m: "moves (paid_during ops db) db ?db" using assms(1) by (rule plan_history_moves)
  then have lm: "ledger_moves (pl_ledger db) (pl_ledger ?db)" by (simp add: moves_def)
  from assms(2) obtain i where "i < length (pl_ledger db)" "pl_ledger db ! i = e" by (auto simp: in_set_conv_nth)
  with lm have f: "pl_ledger ?db ! i \<in> set (pl_ledger ?db)" "entry_move e (pl_ledger ?db ! i)"
    by (auto simp: ledger_moves_nth)
  have "distinct (map le_id (pl_ledger ?db))" using moves_keyed [OF m assms(1)] by (simp add: keyed_def)
  then have "\<not> settled (pl_ledger ?db ! i)" if "le_id e \<in> (le_id \<circ> fst) ` set (scanned_entries l ?db)"
    using scanned_open_entries [of ?db l] f that by (auto simp: open_entries_def entry_move_def)
  then show ?thesis using f assms(3) by (auto simp: entry_move_def)
qed

text \<open>
  C32: What is billed for an amount of up to a million dollars with six decimals is its number of cents
  rounded up, computed through two roundings of floating point; only where the amount is a whole number
  of cents can it be one cent more.  It is never less than the amount, and never more than a cent above.
\<close>

theorem billed_cents_bounds:
  assumes "0 \<le> micros" "micros \<le> 1000000000000"
  shows "of_int micros / 10000 \<le> (of_int (quantity_cents (of_int micros / 1000000)) :: rat) \<and>
    (of_int (quantity_cents (of_int micros / 1000000)) :: rat) \<le> of_int micros / 10000 + 1 \<and>
    (\<not> 10000 dvd micros \<longrightarrow> quantity_cents (of_int micros / 1000000) = micros div 10000 + 1)"
proof -
  let ?c = "of_int micros / 1000000 :: rat"
  have c: "0 \<le> ?c" "?c \<le> 1000000"
  proof -
    have "(0 :: rat) \<le> of_int micros" "of_int micros \<le> (1000000000000 :: rat)" using assms by linarith+
    then show "0 \<le> ?c" "?c \<le> 1000000" by simp_all
  qed
  have e: "\<bar>js_mul (fl ?c) 100 - of_int micros / 10000\<bar> < 1 / 10000" using cents_error [OF c] by simp
  have fraction: "quantity_cents ?c = micros div 10000 + 1" if "\<not> 10000 dvd micros"
    unfolding quantity_cents_def by (rule ceiling_near_fraction [OF e that])
  have "of_int micros / 10000 \<le> (of_int (quantity_cents ?c) :: rat) \<and> (of_int (quantity_cents ?c) :: rat) \<le> of_int micros / 10000 + 1"
  proof (cases "10000 dvd micros")
    case True
    then obtain m where m: "micros = 10000 * m" by (elim dvdE)
    then have "\<bar>js_mul (fl ?c) 100 - of_int m\<bar> < 1 / 10000" using e by simp
    then have "quantity_cents ?c = m \<or> quantity_cents ?c = m + 1"
      unfolding quantity_cents_def by (rule ceiling_near_whole)
    then show ?thesis using m by auto
  next
    case False
    define d r where "d = micros div 10000" and "r = micros mod 10000"
    have "micros = d * 10000 + r" "0 \<le> r" "r < 10000" unfolding d_def r_def by simp_all
    then have "d * 10000 \<le> micros" "micros \<le> (d + 1) * 10000" by (auto simp: algebra_simps)
    then have "micros div 10000 * 10000 \<le> micros" "micros \<le> (micros div 10000 + 1) * 10000" by (simp_all only: d_def)
    then have "(of_int (micros div 10000 * 10000) :: rat) \<le> of_int micros"
      "of_int micros \<le> (of_int ((micros div 10000 + 1) * 10000) :: rat)"
      unfolding of_int_le_iff .
    then show ?thesis unfolding fraction [OF False] by simp
  qed
  with fraction show ?thesis by blast
qed

theorem billed_cents_bounds_witness: "quantity_cents (123456 / 1000000) = 13"
  using billed_cents_bounds [of 123456] by simp

text \<open>
  C33: A webhook is accepted exactly when its header carries a first timestamp that is not empty and a
  signature that starts with the digest of the timestamp and the body, in either case, and goes on, if
  it does, with no pair of hexadecimal digits.
\<close>

theorem webhook_signature_exact:
  assumes secret: "be_webhookSecret env = Some secret" "secret \<noteq> []" and header: "header \<noteq> []"
    and digest: "\<And>m. length (be_hmac env secret m) = 64 \<and> list_all hex_lower (be_hmac env secret m)"
  shows "verifyStripeWebhookSignature env raw (Some header) = Inr () \<longleftrightarrow>
    (\<exists>t s. find (\<lambda>p. starts_with p ''t='') (header_parts header) = Some (''t='' @ t) \<and> t \<noteq> [] \<and>
       ''v1='' @ s \<in> set (header_parts header) \<and> 64 \<le> length s \<and>
       map js_lower_char (take 64 s) = be_hmac env secret (t @ ''.'' @ raw) \<and> from_hex (drop 64 s) = [])"
    (is "?L \<longleftrightarrow> ?R")
proof -
  have dig: "from_hex s = from_hex (be_hmac env secret m) \<longleftrightarrow>
      64 \<le> length s \<and> map js_lower_char (take 64 s) = be_hmac env secret m \<and> from_hex (drop 64 s) = []" for s m
    using from_hex_eq_iff [of "be_hmac env secret m" s] digest [of m] by simp
  have pre: "starts_with p q \<longleftrightarrow> (\<exists>s. p = q @ s)" for p q
    unfolding starts_with_def by (metis append_eq_conv_conj append_take_drop_id)
  show ?thesis
  proof (cases "find (\<lambda>p. starts_with p ''t='') (header_parts header)")
    case None
    then show ?thesis
      using secret header by (simp add: verifyStripeWebhookSignature_def header_parts_def Let_def truthy_str_def)
  next
    case (Some p)
    then have "starts_with p ''t=''" by (simp add: find_Some_iff) metis
    then obtain t where p: "p = ''t='' @ t" by (auto simp: pre)
    let ?sigs = "map (drop 3) (filter (\<lambda>p. starts_with p ''v1='') (header_parts header))"
    have sigs: "s \<in> set ?sigs \<longleftrightarrow> ''v1='' @ s \<in> set (header_parts header)" for s
      by (force simp: pre)
    have "?L \<longleftrightarrow> t \<noteq> [] \<and> (\<exists>s\<in>set ?sigs. from_hex s = from_hex (be_hmac env secret (t @ ''.'' @ raw)))"
      using Some p secret header
      by (auto simp: verifyStripeWebhookSignature_def header_parts_def [symmetric] Let_def truthy_str_def list_ex_iff
          filter_empty_conv split: if_splits)
    also have "\<dots> \<longleftrightarrow> ?R" unfolding dig sigs Bex_def using Some p by auto
    finally show ?thesis .
  qed
qed

text \<open>A digest of zeros, and a signature with trailing text.\<close>

theorem webhook_signature_exact_witness:
  "verifyStripeWebhookSignature ((bill_example_env JNull)\<lparr>be_hmac := (\<lambda>k m. replicate 64 CHR ''0'')\<rparr>) ''body''
     (Some (''v1='' @ replicate 64 CHR ''0'' @ ''z, t=1'')) = Inr ()"
proof -
  let ?env = "(bill_example_env JNull)\<lparr>be_hmac := (\<lambda>k m. replicate 64 CHR ''0'')\<rparr>"
  let ?h = "''v1='' @ replicate 64 CHR ''0'' @ ''z, t=1''"
  have parts: "header_parts ?h = [''v1='' @ replicate 64 CHR ''0'' @ ''z'', ''t=1'']"
    by code_simp
  have e: "be_webhookSecret ?env = Some ''whsec''" by (simp add: bill_example_env_def)
  have d: "length (be_hmac ?env ''whsec'' m) = 64 \<and> list_all hex_lower (be_hmac ?env ''whsec'' m)" for m
    by (simp add: list_all_iff hex_lower_def is_digit_def)
  have x: "map js_lower_char (take 64 (replicate 64 CHR ''0'' @ ''z'')) = replicate 64 CHR ''0''" by code_simp
  have f: "find (\<lambda>p. starts_with p ''t='') (header_parts ?h) = Some (''t='' @ ''1'')"
    unfolding parts by (simp add: starts_with_def)
  have v: "''v1='' @ (replicate 64 CHR ''0'' @ ''z'') \<in> set (header_parts ?h)" unfolding parts by simp
  have z: "from_hex (drop 64 (replicate 64 CHR ''0'' @ ''z'')) = []" by simp
  show ?thesis
    by (rule iffD2 [OF webhook_signature_exact [OF e _ _ d]], simp, simp)
       (intro exI conjI, rule f, simp, rule v, simp, simp only: x, simp, rule z)
qed

end
