(* ===== verification/Members.thy ===== *)
theory Members
  imports Budgets Support_Access
begin

text \<open>
  The members of a workspace and the links that open their accounts: the operations of
  \<^verbatim>\<open>packages/domain/src/members.ts\<close> that change state and the whole of
  \<^verbatim>\<open>packages/domain/src/password-reset.ts\<close>.

  An operation that reads outside of its transaction takes the state of those reads (\<open>db0\<close>) and the
  state its transaction meets (\<open>db\<close>).  The row locks inside the transactions make each of them one
  step.  Closing the roles of a member, the random tokens and the hash are arguments.
\<close>

section \<open>Tables\<close>

record reset_row =
  rs_id :: string
  rs_user :: string
  rs_tokenHash :: string
  rs_expiresAt :: int
  rs_usedAt :: "int option"

datatype invite_status = INVITE_PENDING | INVITE_APPROVED | INVITE_REJECTED

record invite_request =
  iq_id :: string
  iq_workspace :: string
  iq_requester :: string
  iq_decider :: "string option"
  iq_email :: string
  iq_displayName :: "string option"
  iq_status :: invite_status
  iq_decidedAt :: "int option"

text \<open>An identity of single sign-on and a further address of a member.\<close>

record sso_identity =
  si_provider :: string
  si_subject :: string
  si_user :: string
  si_email :: string

record alias_row =
  ea_workspace :: string
  ea_member :: string
  ea_email :: string
  ea_source :: string
  ea_createdBy :: "string option"

datatype member_invite_policy = ADMINS_ONLY | MEMBERS_CAN_INVITE | MEMBERS_CAN_REQUEST

text \<open>
  The commands of a support account that concern members (the other commands set the workspace's name,
  budget and integrations), what a request for one was made on, and the request.
\<close>

datatype support_command =
    Cmd_member string member_role bool
  | Cmd_addMember string member_role
  | Cmd_invitePolicy member_invite_policy

datatype access_target =
    Target_user "string option"
  | Target_member auth_member string
  | Target_policy string

record access_request =
  aq_id :: string
  aq_workspace :: string
  aq_grant :: string
  aq_version :: int
  aq_requester :: string
  aq_command :: support_command
  aq_target :: access_target
  aq_status :: invite_status
  aq_decider :: "string option"
  aq_decidedAt :: "int option"

text \<open>\<open>md_merged\<close>: the members that were merged, with the member each of them was merged into.\<close>

record 'l member_db =
  md_auth :: "'l auth_db"
  md_plans :: plan_db
  md_resets :: "reset_row list"
  md_invites :: "invite_request list"
  md_sso :: "sso_identity list"
  md_aliases :: "alias_row list"
  md_merged :: "(string \<times> string) list"
  md_access :: "access_request list"

text \<open>
  The tables of other modules change with a member in four ways, which are arguments: its roles are
  closed, it is deleted (what a reference to it prescribes), two members may not be merged because
  of a conflict, and the records of one pass to another (with the number of each kind).
\<close>

record 'l member_env =
  me_cfg :: auth_config
  me_plans :: plan_env
  me_password :: string
  me_close_roles :: "auth_actor \<Rightarrow> string \<Rightarrow> string \<Rightarrow> 'l \<Rightarrow> 'l result"
  me_remove :: "string \<Rightarrow> 'l \<Rightarrow> 'l result"
  me_conflicts :: "string \<Rightarrow> string \<Rightarrow> 'l \<Rightarrow> unit result"
  me_rewire :: "string \<Rightarrow> string \<Rightarrow> 'l \<Rightarrow> (string \<times> json) list \<times> 'l"

definition normalizeEmail :: "string \<Rightarrow> string" where
  "normalizeEmail email = js_lower (js_trim email)"

definition normalizeDisplayName :: "string option \<Rightarrow> string option" where
  "normalizeDisplayName displayName = trimmed_or_none displayName"

section \<open>Links that set a password\<close>

definition SETUP_TOKEN_TTL_MS :: int where
  "SETUP_TOKEN_TTL_MS = 7 * 24 * 60 * 60 * 1000"

definition RESET_TOKEN_TTL_MS :: int where
  "RESET_TOKEN_TTL_MS = 1000 * 60 * 15"

text \<open>\<^verbatim>\<open>updateMany\<close>: every unused link of the user is used up.\<close>

definition retire_links :: "auth_config \<Rightarrow> string \<Rightarrow> reset_row list \<Rightarrow> reset_row list" where
  "retire_links cfg uid rs =
     map (\<lambda>r. if rs_user r = uid \<and> rs_usedAt r = None then r\<lparr>rs_usedAt := Some (ac_now cfg)\<rparr> else r) rs"

definition create_link :: "auth_config \<Rightarrow> int \<Rightarrow> string \<Rightarrow> reset_row list \<Rightarrow> reset_row list result" where
  "create_link cfg ttl uid rs =
     (if list_ex (\<lambda>r. rs_id r = ac_new_id cfg ''passwordResetToken'' \<or>
            rs_tokenHash r = ac_sha256 cfg (ac_token cfg)) rs
      then Inl unique_failed
      else Inr (rs @ [\<lparr>rs_id = ac_new_id cfg ''passwordResetToken'', rs_user = uid,
                 rs_tokenHash = ac_sha256 cfg (ac_token cfg), rs_expiresAt = ac_now cfg + ttl,
                 rs_usedAt = None\<rparr>]))"

definition issueSetupToken :: "auth_config \<Rightarrow> string \<Rightarrow> 'l member_db \<Rightarrow> (string \<times> 'l member_db) result" where
  "issueSetupToken cfg uid db =
     and_then (create_link cfg SETUP_TOKEN_TTL_MS uid (retire_links cfg uid (md_resets db))) (\<lambda>rs.
     Inr (ac_token cfg, db\<lparr>md_resets := rs\<rparr>))"

text \<open>Outside a transaction: the links are used up even where the new one cannot be stored.\<close>

definition issuePasswordResetToken ::
    "auth_config \<Rightarrow> user_row \<Rightarrow> 'l member_db \<Rightarrow> (string \<times> user_row) result \<times> 'l member_db" where
  "issuePasswordResetToken cfg u db =
     (let rs = retire_links cfg (us_id u) (md_resets db) in
      case create_link cfg RESET_TOKEN_TTL_MS (us_id u) rs of
        Inl e \<Rightarrow> (Inl e, db\<lparr>md_resets := rs\<rparr>)
      | Inr rs' \<Rightarrow> (Inr (ac_token cfg, u), db\<lparr>md_resets := rs'\<rparr>))"

definition request_link ::
    "auth_config \<Rightarrow> (user_row \<Rightarrow> bool) \<Rightarrow> string \<Rightarrow> 'l member_db
     \<Rightarrow> (string \<times> user_row) option result \<times> 'l member_db" where
  "request_link cfg ok email0 db =
     (let email = normalizeEmail email0 in
      case invariant (email \<noteq> []) 400 ''INVALID_INPUT'' ''Email is required.'' of
        Inl e \<Rightarrow> (Inl e, db)
      | Inr _ \<Rightarrow>
          (case find_email email (tb_users (md_auth db)) of
             None \<Rightarrow> (Inr None, db)
           | Some u \<Rightarrow>
               if isPasswordLoginDisabled (us_passwordHash u) \<or> \<not> ok u then (Inr None, db)
               else (case issuePasswordResetToken cfg u db of
                       (Inl e, db') \<Rightarrow> (Inl e, db')
                     | (Inr r, db') \<Rightarrow> (Inr (Some r), db'))))"

definition requestPasswordReset ::
    "auth_config \<Rightarrow> string \<Rightarrow> 'l member_db \<Rightarrow> (string \<times> user_row) option result \<times> 'l member_db" where
  "requestPasswordReset cfg email db = request_link cfg (\<lambda>_. True) email db"

definition requestPasswordResetForActiveMember ::
    "auth_config \<Rightarrow> string \<Rightarrow> 'l member_db \<Rightarrow> (string \<times> user_row) option result \<times> 'l member_db" where
  "requestPasswordResetForActiveMember cfg email db =
     request_link cfg (\<lambda>u. list_ex (\<lambda>m. am_user m = us_id u \<and> am_active m) (tb_members (md_auth db))) email db"

definition usable_link :: "auth_config \<Rightarrow> string \<Rightarrow> string \<Rightarrow> 'l member_db \<Rightarrow> reset_row result" where
  "usable_link cfg token password db =
     and_then (invariant (token \<noteq> []) 400 ''INVALID_INPUT'' ''Reset token is required.'') (\<lambda>_.
     and_then (invariant (length password \<ge> 8) 400 ''INVALID_INPUT''
       ''Password must be at least 8 characters.'') (\<lambda>_.
     (case find (\<lambda>r. rs_tokenHash r = ac_sha256 cfg token) (md_resets db) of
        None \<Rightarrow> Inl (AppError 400 ''INVALID_TOKEN'' ''This reset link is invalid or has expired.'')
      | Some r \<Rightarrow>
          if rs_usedAt r \<noteq> None then Inl (AppError 400 ''TOKEN_USED'' ''This reset link has already been used.'')
          else if rs_expiresAt r \<le> ac_now cfg
          then Inl (AppError 400 ''TOKEN_EXPIRED'' ''This reset link has expired. Please request a new one.'')
          else
            (case find_user (rs_user r) (tb_users (md_auth db)) of
               None \<Rightarrow> Inl record_not_found
             | Some u \<Rightarrow>
                 and_then (invariant (\<not> isPasswordLoginDisabled (us_passwordHash u)) 400 ''INVALID_TOKEN''
                   ''This reset link is invalid or has expired.'') (\<lambda>_. Inr r)))))"

definition set_password :: "auth_config \<Rightarrow> reset_row \<Rightarrow> string \<Rightarrow> 'l member_db \<Rightarrow> 'l member_db result" where
  "set_password cfg r password db =
     (let auth = md_auth db in
      if \<not> list_ex (\<lambda>u. us_id u = rs_user r) (tb_users auth) \<or> \<not> list_ex (\<lambda>x. rs_id x = rs_id r) (md_resets db)
      then Inl record_not_found
      else Inr (db\<lparr>md_auth := auth\<lparr>
               tb_users := map (\<lambda>u. if us_id u = rs_user r
                   then u\<lparr>us_passwordHash := ac_hashPassword cfg password\<rparr> else u) (tb_users auth),
               tb_sessions := filter (\<lambda>s. se_user s \<noteq> rs_user r) (tb_sessions auth)\<rparr>,
             md_resets := map (\<lambda>x. if rs_id x = rs_id r
                 then x\<lparr>rs_usedAt := Some (ac_now cfg)\<rparr> else x) (md_resets db)\<rparr>))"

definition consumePasswordReset ::
    "auth_config \<Rightarrow> string \<Rightarrow> string \<Rightarrow> 'l member_db \<Rightarrow> 'l member_db \<Rightarrow> 'l member_db result" where
  "consumePasswordReset cfg token password db0 db =
     and_then (usable_link cfg token password db0) (\<lambda>r. set_password cfg r password db)"

section \<open>The invite policy\<close>

definition MEMBER_INVITE_SETTINGS_FLAG :: string where
  "MEMBER_INVITE_SETTINGS_FLAG = ''MEMBER_INVITES''"

definition parseInvitePolicy :: "json option \<Rightarrow> member_invite_policy" where
  "parseInvitePolicy config =
     (case config of
        Some (JObj kvs) \<Rightarrow>
          if field (JObj kvs) ''policy'' = Some (JStr ''MEMBERS_CAN_INVITE'') then MEMBERS_CAN_INVITE
          else if field (JObj kvs) ''policy'' = Some (JStr ''MEMBERS_CAN_REQUEST'') then MEMBERS_CAN_REQUEST
          else ADMINS_ONLY
      | _ \<Rightarrow> ADMINS_ONLY)"

fun policy_text :: "member_invite_policy \<Rightarrow> string" where
  "policy_text ADMINS_ONLY = ''ADMINS_ONLY''"
| "policy_text MEMBERS_CAN_INVITE = ''MEMBERS_CAN_INVITE''"
| "policy_text MEMBERS_CAN_REQUEST = ''MEMBERS_CAN_REQUEST''"

definition invite_flag :: "string \<Rightarrow> flag_row \<Rightarrow> bool" where
  "invite_flag w f \<longleftrightarrow> wf_workspace f = w \<and> wf_flag f = MEMBER_INVITE_SETTINGS_FLAG"

definition getMemberInvitePolicy :: "string \<Rightarrow> 'l member_db \<Rightarrow> member_invite_policy" where
  "getMemberInvitePolicy w db =
     parseInvitePolicy (case find (invite_flag w) (pl_flags (md_plans db)) of None \<Rightarrow> None | Some f \<Rightarrow> wf_config f)"

text \<open>\<^verbatim>\<open>requireWorkspaceMembership\<close> on the tables of this module; \<open>admins\<close> are the roles of an administrator's check.\<close>

abbreviation admins :: "member_role list option" where
  "admins \<equiv> Some [ADMIN]"

definition member_access ::
    "'l member_env \<Rightarrow> auth_actor \<Rightarrow> string \<Rightarrow> member_role list option \<Rightarrow> support_store \<Rightarrow> 'l member_db
     \<Rightarrow> (membership option \<times> support_store) result" where
  "member_access env actor w roles st db =
     requireWorkspaceMembership (me_cfg env) actor w roles None st (md_auth db)"

definition updateMemberInvitePolicy ::
    "'l member_env \<Rightarrow> auth_actor \<Rightarrow> string \<Rightarrow> member_invite_policy \<Rightarrow> support_store \<Rightarrow> 'l member_db
     \<Rightarrow> 'l member_db result" where
  "updateMemberInvitePolicy env actor w policy st db =
     and_then (member_access env actor w admins st db) (\<lambda>_.
     (let config = Some (JObj [(''policy'', JStr (policy_text policy))]); cfg = me_cfg env;
          flags = pl_flags (md_plans db) in
      Inr (db\<lparr>md_plans := (md_plans db)\<lparr>pl_flags :=
        (if list_ex (invite_flag w) flags
         then map (\<lambda>f. if invite_flag w f
                then f\<lparr>wf_enabled := True, wf_config := config, wf_updatedAt := ac_now cfg\<rparr> else f) flags
         else flags @ [\<lparr>wf_id = ac_new_id cfg ''workspaceFeatureFlag'', wf_workspace = w,
                wf_flag = MEMBER_INVITE_SETTINGS_FLAG, wf_enabled = True, wf_config = config,
                wf_updatedAt = ac_now cfg\<rparr>])\<rparr>\<rparr>)))"

section \<open>Creating and inviting\<close>

definition upsert_account ::
    "'l member_env \<Rightarrow> string \<Rightarrow> string option \<Rightarrow> 'l auth_db \<Rightarrow> (user_row \<times> 'l auth_db) result" where
  "upsert_account env email displayName auth =
     (let cfg = me_cfg env; new_id = ac_new_id cfg ''user'' in
      case find_email email (tb_users auth) of
        Some u \<Rightarrow>
          (let v = (if displayName = None then u else u\<lparr>us_displayName := displayName\<rparr>) in
           Inr (v, auth\<lparr>tb_users := map (\<lambda>x. if us_id x = us_id u then v else x) (tb_users auth)\<rparr>))
      | None \<Rightarrow>
          if list_ex (\<lambda>x. us_id x = new_id) (tb_users auth) then Inl unique_failed
          else
            (let v = \<lparr>us_id = new_id, us_email = email, us_displayName = displayName, us_globalRole = GR_user,
                      us_support = False, us_passwordHash = ac_hashPassword cfg (me_password env)\<rparr> in
             Inr (v, auth\<lparr>tb_users := tb_users auth @ [v]\<rparr>)))"

definition upsert_member ::
    "auth_config \<Rightarrow> string \<Rightarrow> string \<Rightarrow> member_role \<Rightarrow> member_kind \<Rightarrow> 'l auth_db
     \<Rightarrow> (auth_member \<times> 'l auth_db) result" where
  "upsert_member cfg w uid role kind auth =
     (let new_id = ac_new_id cfg ''member'' in
      case find_member w uid (tb_members auth) of
        Some m \<Rightarrow>
          (let n = m\<lparr>am_role := role, am_kind := kind, am_active := True\<rparr> in
           Inr (n, auth\<lparr>tb_members := map (\<lambda>x. if am_id x = am_id m then n else x) (tb_members auth)\<rparr>))
      | None \<Rightarrow>
          if list_ex (\<lambda>x. am_id x = new_id) (tb_members auth) then Inl unique_failed
          else
            (let n = \<lparr>am_id = new_id, am_workspace = w, am_user = uid, am_role = role, am_kind = kind,
                      am_active = True\<rparr> in
             Inr (n, auth\<lparr>tb_members := tb_members auth @ [n]\<rparr>)))"

definition record_member ::
    "auth_actor \<Rightarrow> string \<Rightarrow> string \<Rightarrow> string \<Rightarrow> json \<Rightarrow> json option \<Rightarrow> 'l auth_db \<Rightarrow> 'l auth_db" where
  "record_member actor w action memberId meta payload auth =
     auth\<lparr>tb_audit := tb_audit auth @
            [\<lparr>au_workspace = w, au_actor = (case actor of Auth_user u \<Rightarrow> Some (hu_id u) | Auth_agent _ \<Rightarrow> None),
              au_action = action, au_entityType = ''Member'', au_entityId = memberId, au_meta = meta\<rparr>],
          tb_events := tb_events auth @
            (case payload of None \<Rightarrow> [] | Some p \<Rightarrow> [member_event w action memberId p])\<rparr>"

fun role_text :: "member_role \<Rightarrow> string" where
  "role_text CONTRIBUTOR = ''CONTRIBUTOR''"
| "role_text FACILITATOR = ''FACILITATOR''"
| "role_text FINANCE_STEWARD = ''FINANCE_STEWARD''"
| "role_text ADMIN = ''ADMIN''"

fun kind_text :: "member_kind \<Rightarrow> string" where
  "kind_text HUMAN = ''HUMAN''"
| "kind_text SYSTEM = ''SYSTEM''"

text \<open>
  The normalised address, display name and kind of a member to be created.  The trial's capacity is
  checked before the transaction opens.
\<close>

definition member_input ::
    "string \<Rightarrow> string option \<Rightarrow> member_kind option \<Rightarrow> string \<times> string option \<times> member_kind" where
  "member_input email0 name0 kind0 =
     (let email = normalizeEmail email0; displayName = normalizeDisplayName name0 in
      (email, displayName,
       case kind0 of Some k \<Rightarrow> k | None \<Rightarrow> inferMemberKindFromUserIdentity (Some email) displayName))"

definition create_checks ::
    "'l member_env \<Rightarrow> auth_actor \<Rightarrow> string \<Rightarrow> string \<Rightarrow> bool \<Rightarrow> support_store \<Rightarrow> 'l member_db
     \<Rightarrow> support_store result" where
  "create_checks env actor w email skipAdminCheck st db =
     and_then (if skipAdminCheck then Inr st
               else and_then (member_access env actor w admins st db) (\<lambda>(_, st'). Inr st')) (\<lambda>st'.
     and_then (requireUnreservedPublicDemoEmail (Some email)) (\<lambda>_.
     and_then (invariant (email \<noteq> []) 400 ''INVALID_INPUT'' ''Email is required.'') (\<lambda>_.
     and_then (assertTrialMemberCapacity (me_plans env) w (md_auth db) (md_plans db)) (\<lambda>_.
     Inr st'))))"

definition store_member ::
    "'l member_env \<Rightarrow> auth_actor \<Rightarrow> string \<Rightarrow> string \<times> string option \<times> member_kind \<Rightarrow> member_role \<Rightarrow> bool
     \<Rightarrow> support_store \<Rightarrow> 'l member_db \<Rightarrow> ((user_row \<times> auth_member \<times> string) \<times> 'l member_db) result" where
  "store_member env actor w info role skipAdminCheck st db =
     (let email = fst info; displayName = fst (snd info); kind = snd (snd info); cfg = me_cfg env in
     and_then (if skipAdminCheck then Inr ()
               else and_then (member_access env actor w admins st db) (\<lambda>_. Inr ())) (\<lambda>_.
     and_then (upsert_account env email displayName (md_auth db)) (\<lambda>(user, auth1).
     and_then (requireUnmanagedMember w (us_id user) auth1) (\<lambda>_.
     and_then (upsert_member cfg w (us_id user) role kind auth1) (\<lambda>(member, auth2).
     (let auth3 = record_member actor w ''member.created'' (am_id member)
            (JObj [(''email'', JStr email), (''role'', JStr (role_text role)), (''kind'', JStr (kind_text kind))])
            (Some (JObj [(''memberId'', JStr (am_id member)), (''userId'', JStr (us_id user)),
               (''role'', JStr (role_text (am_role member))), (''kind'', JStr (kind_text (am_kind member)))])) auth2 in
      and_then (issueSetupToken cfg (us_id user) (db\<lparr>md_auth := auth3\<rparr>)) (\<lambda>(token, db').
      Inr ((user, member, token), db'))))))))"

definition createMember ::
    "'l member_env \<Rightarrow> auth_actor \<Rightarrow> string \<Rightarrow> string \<Rightarrow> string option \<Rightarrow> member_role \<Rightarrow> member_kind option \<Rightarrow> bool
     \<Rightarrow> support_store \<Rightarrow> 'l member_db \<Rightarrow> 'l member_db
     \<Rightarrow> ((user_row \<times> auth_member \<times> string) \<times> 'l member_db) result" where
  "createMember env actor w email0 name0 role kind0 skipAdminCheck st db0 db =
     (let info = member_input email0 name0 kind0 in
     and_then (create_checks env actor w (fst info) skipAdminCheck st db0) (\<lambda>st'.
     store_member env actor w info role skipAdminCheck st' db))"

definition inviteMember ::
    "'l member_env \<Rightarrow> auth_actor \<Rightarrow> string \<Rightarrow> string \<Rightarrow> string option \<Rightarrow> support_store \<Rightarrow> 'l member_db
     \<Rightarrow> 'l member_db \<Rightarrow> ((user_row \<times> auth_member \<times> string) \<times> 'l member_db) result" where
  "inviteMember env actor w email name st db0 db =
     and_then (member_access env actor w None st db0) (\<lambda>(membership, st').
     (case membership of
        None \<Rightarrow> Inl (AppError 403 ''FORBIDDEN'' ''Only workspace members can invite members.'')
      | Some m \<Rightarrow>
          and_then (if mb_role m \<noteq> ADMIN \<and> getMemberInvitePolicy w db0 \<noteq> MEMBERS_CAN_INVITE
                    then Inl (AppError 403 ''FORBIDDEN'' ''Only admins can invite members in this workspace.'')
                    else Inr ()) (\<lambda>_.
          createMember env actor w email name CONTRIBUTOR None True st' db0 db)))"

record invite_info =
  ii_email :: string
  ii_displayName :: "string option"
  ii_role :: "member_role option"
  ii_kind :: "member_kind option"

record invite_report =
  ir_invited :: int
  ir_details :: "(string \<times> string option \<times> string) list"
  ir_errors :: "string list"

text \<open>The loop of the bulk invitation; \<open>envs\<close> has the random values of each turn.\<close>

fun invite_all ::
    "(nat \<Rightarrow> 'l member_env) \<Rightarrow> auth_actor \<Rightarrow> string \<Rightarrow> support_store \<Rightarrow> invite_info list
     \<Rightarrow> invite_report \<times> 'l member_db \<Rightarrow> invite_report \<times> 'l member_db" where
  "invite_all envs actor w st [] s = s"
| "invite_all envs actor w st (info # infos) (report, db) =
     invite_all (\<lambda>i. envs (Suc i)) actor w st infos
       (case createMember (envs 0) actor w (ii_email info) (ii_displayName info)
               (case ii_role info of None \<Rightarrow> CONTRIBUTOR | Some r \<Rightarrow> r) (ii_kind info) False st db db of
          Inl e \<Rightarrow>
            (report\<lparr>ir_errors := ir_errors report @ [''Failed for '' @ ii_email info @ '': '' @ error_message e]\<rparr>, db)
        | Inr ((user, member, token), db') \<Rightarrow>
            (report\<lparr>ir_invited := ir_invited report + 1,
                    ir_details := ir_details report @ [(us_email user, us_displayName user, token)]\<rparr>, db'))"

definition bulkInviteMembers ::
    "(nat \<Rightarrow> 'l member_env) \<Rightarrow> auth_actor \<Rightarrow> string \<Rightarrow> invite_info list \<Rightarrow> support_store
     \<Rightarrow> 'l member_db \<Rightarrow> (invite_report \<times> 'l member_db) result" where
  "bulkInviteMembers envs actor w infos st db =
     and_then (member_access (envs 0) actor w admins st db) (\<lambda>(_, st').
     Inr (invite_all envs actor w st' infos (\<lparr>ir_invited = 0, ir_details = [], ir_errors = []\<rparr>, db)))"

section \<open>Changing a member\<close>

text \<open>
  The parameters of \<^verbatim>\<open>updateMember\<close>: what is absent stays as it is.  The name and the address may
  also be \<^verbatim>\<open>null\<close>, which clears the name and leaves the address.
\<close>

record member_update =
  up_role :: "member_role option"
  up_kind :: "member_kind option"
  up_active :: "bool option"
  up_displayName :: "string option option"
  up_email :: "string option option"

definition given_email :: "member_update \<Rightarrow> string option" where
  "given_email up = (case up_email up of Some (Some e) \<Rightarrow> Some (normalizeEmail e) | _ \<Rightarrow> None)"

definition changed_email :: "member_update \<Rightarrow> user_row \<Rightarrow> string option" where
  "changed_email up u = (case given_email up of None \<Rightarrow> None | Some e \<Rightarrow> if e = us_email u then None else Some e)"

definition given_name :: "member_update \<Rightarrow> string option option" where
  "given_name up = (case up_displayName up of None \<Rightarrow> None | Some n \<Rightarrow> Some (normalizeDisplayName n))"

definition keeps_admin :: "string \<Rightarrow> member_update \<Rightarrow> auth_member \<Rightarrow> 'l auth_db \<Rightarrow> unit result" where
  "keeps_admin w up m auth =
     (if am_role m = ADMIN \<and> am_active m \<and>
         ((case up_role up of None \<Rightarrow> am_role m | Some r \<Rightarrow> r) \<noteq> ADMIN \<or>
          \<not> (case up_active up of None \<Rightarrow> am_active m | Some b \<Rightarrow> b))
      then invariant (list_ex (\<lambda>x. am_workspace x = w \<and> am_role x = ADMIN \<and> am_active x \<and> am_id x \<noteq> am_id m)
             (tb_members auth)) 400 ''LAST_ADMIN'' ''Workspace must keep at least one active admin.''
      else Inr ())"

definition may_change_email :: "auth_actor \<Rightarrow> string \<Rightarrow> auth_member \<Rightarrow> 'l member_db \<Rightarrow> unit result" where
  "may_change_email actor email m db =
     (let auth = md_auth db in
     and_then (invariant (case find_email email (tb_users auth) of None \<Rightarrow> True | Some x \<Rightarrow> us_id x = am_user m)
       409 ''ALREADY_EXISTS'' ''A user with that email already exists.'') (\<lambda>_.
     if isGlobalOperator actor then Inr ()
     else
       and_then (invariant (length (filter (\<lambda>x. am_user x = am_user m) (tb_members auth)) = 1) 400
         ''SHARED_ACCOUNT''
         ''This user belongs to multiple workspaces. A platform operator must change their email.'') (\<lambda>_.
       invariant (\<not> list_ex (\<lambda>s. si_user s = am_user m) (md_sso db)) 400 ''SSO_ACCOUNT''
         ''This user signs in with SSO. A platform operator must change their email.'')))"

text \<open>The kind that is written: the one given, or else one inferred anew from a new name or address.\<close>

definition next_kind :: "member_update \<Rightarrow> user_row \<Rightarrow> auth_member \<Rightarrow> member_kind option" where
  "next_kind up u m =
     (case up_kind up of
        Some k \<Rightarrow> Some k
      | None \<Rightarrow>
          if given_email up = None \<and> given_name up = None then None
          else
            (let k = inferMemberKindFromUserIdentity
                   (Some (case given_email up of None \<Rightarrow> us_email u | Some e \<Rightarrow> e))
                   (case given_name up of None \<Rightarrow> us_displayName u | Some n \<Rightarrow> n) in
             if k = am_kind m then None else Some k))"

definition update_checks ::
    "'l member_env \<Rightarrow> auth_actor \<Rightarrow> string \<Rightarrow> string \<Rightarrow> member_update \<Rightarrow> 'l member_db
     \<Rightarrow> (auth_member \<times> user_row) result" where
  "update_checks env actor w memberId up db =
     (let auth = md_auth db in
      case find (\<lambda>m. am_id m = memberId \<and> am_workspace m = w) (tb_members auth) of
        None \<Rightarrow> Inl (AppError 404 ''NOT_FOUND'' ''Member not found.'')
      | Some m \<Rightarrow>
          (case find_user (am_user m) (tb_users auth) of
             None \<Rightarrow> Inl record_not_found
           | Some u \<Rightarrow>
               and_then (requireUnreservedPublicDemoEmail (Some (us_email u))) (\<lambda>_.
               and_then (case up_email up of
                           Some (Some e) \<Rightarrow> requireUnreservedPublicDemoEmail (Some e) | _ \<Rightarrow> Inr ()) (\<lambda>_.
               and_then (requireUnmanagedMember w (am_user m) auth) (\<lambda>_.
               and_then (invariant (\<not> (up_active up = Some False \<and> \<not> am_active m)) 400 ''INVALID_STATE''
                 ''Member is already deactivated.'') (\<lambda>_.
               and_then (keeps_admin w up m auth) (\<lambda>_.
               and_then (invariant (given_email up \<noteq> Some []) 400 ''INVALID_INPUT'' ''Email is required.'') (\<lambda>_.
               and_then (case changed_email up u of None \<Rightarrow> Inr () | Some e \<Rightarrow> may_change_email actor e m db) (\<lambda>_.
               Inr (m, u))))))))))"

definition updated_user :: "member_update \<Rightarrow> user_row \<Rightarrow> user_row" where
  "updated_user up u =
     u\<lparr>us_displayName := (case given_name up of None \<Rightarrow> us_displayName u | Some n \<Rightarrow> n),
       us_email := (case changed_email up u of None \<Rightarrow> us_email u | Some e \<Rightarrow> e)\<rparr>"

definition updated_member :: "member_update \<Rightarrow> user_row \<Rightarrow> auth_member \<Rightarrow> auth_member" where
  "updated_member up u m =
     m\<lparr>am_role := (case up_role up of None \<Rightarrow> am_role m | Some r \<Rightarrow> r),
       am_kind := (case next_kind up u m of None \<Rightarrow> am_kind m | Some k \<Rightarrow> k),
       am_active := (case up_active up of None \<Rightarrow> am_active m | Some b \<Rightarrow> b)\<rparr>"

definition update_fields :: "member_update \<Rightarrow> user_row \<Rightarrow> auth_member \<Rightarrow> json" where
  "update_fields up u m =
     JArr (map JStr
       ((if up_role up = None then [] else [''role'']) @
        (if up_kind up = None then [] else [''kind'']) @
        (if up_active up = None then [] else [''isActive'']) @
        (if up_kind up = None \<and> next_kind up u m \<noteq> None then [''kind''] else []) @
        (if up_displayName up = None then [] else [''displayName'']) @
        (if changed_email up u = None then [] else [''email''])))"

definition update_meta :: "member_update \<Rightarrow> user_row \<Rightarrow> auth_member \<Rightarrow> json" where
  "update_meta up u m =
     (let str_or_null = (\<lambda>v. case v of None \<Rightarrow> JNull | Some s \<Rightarrow> JStr s) in
      JObj ([(''fields'', update_fields up u m)] @
        (case changed_email up u of None \<Rightarrow> []
         | Some e \<Rightarrow> [(''oldEmail'', JStr (us_email u)), (''newEmail'', JStr e)]) @
        (case given_name up of None \<Rightarrow> []
         | Some n \<Rightarrow> [(''oldDisplayName'', str_or_null (us_displayName u)), (''newDisplayName'', str_or_null n)])))"

definition update_action :: "member_update \<Rightarrow> auth_member \<Rightarrow> string" where
  "update_action up m =
     (if up_active up = Some False then ''member.deactivated''
      else if up_active up = Some True \<and> \<not> am_active m then ''member.reactivated''
      else ''member.updated'')"

definition store_update ::
    "'l member_env \<Rightarrow> auth_actor \<Rightarrow> string \<Rightarrow> member_update \<Rightarrow> auth_member \<Rightarrow> user_row \<Rightarrow> 'l member_db
     \<Rightarrow> ((auth_member \<times> string option) \<times> 'l member_db) result" where
  "store_update env actor w up m u db =
     (let auth = md_auth db; m' = updated_member up u m; changed = changed_email up u in
     and_then (if up_active up = Some False then me_close_roles env actor w (am_id m) (tb_rest auth)
               else Inr (tb_rest auth)) (\<lambda>rest.
     (let auth1 = auth\<lparr>
            tb_users := map (\<lambda>x. if us_id x = us_id u then updated_user up u else x) (tb_users auth),
            tb_members := map (\<lambda>x. if am_id x = am_id m then m' else x) (tb_members auth),
            tb_sessions := (if changed = None then tb_sessions auth
                            else filter (\<lambda>s. se_user s \<noteq> am_user m) (tb_sessions auth)),
            tb_rest := rest\<rparr> in
     and_then (case changed of
                 None \<Rightarrow> Inr (None, db\<lparr>md_auth := auth1\<rparr>)
               | Some _ \<Rightarrow> and_then (issueSetupToken (me_cfg env) (am_user m) (db\<lparr>md_auth := auth1\<rparr>))
                   (\<lambda>(t, db'). Inr (Some t, db'))) (\<lambda>(token, db1).
     (let auth2 = record_member actor w (update_action up m) (am_id m) (update_meta up u m)
            (Some (JObj [(''memberId'', JStr (am_id m)), (''fields'', update_fields up u m)])) (md_auth db1) in
      Inr ((m', token), db1\<lparr>md_auth := auth2\<rparr>))))))"

definition updateMember ::
    "'l member_env \<Rightarrow> auth_actor \<Rightarrow> string \<Rightarrow> string \<Rightarrow> member_update \<Rightarrow> support_store \<Rightarrow> 'l member_db
     \<Rightarrow> 'l member_db \<Rightarrow> ((auth_member \<times> string option) \<times> 'l member_db) result" where
  "updateMember env actor w memberId up st db0 db =
     and_then (member_access env actor w admins st db0) (\<lambda>(_, st').
     and_then (member_access env actor w admins st' db) (\<lambda>_.
     and_then (update_checks env actor w memberId up db) (\<lambda>(m, u).
     store_update env actor w up m u db)))"

definition deactivateMember ::
    "'l member_env \<Rightarrow> auth_actor \<Rightarrow> string \<Rightarrow> string \<Rightarrow> support_store \<Rightarrow> 'l member_db
     \<Rightarrow> 'l member_db \<Rightarrow> ((auth_member \<times> string option) \<times> 'l member_db) result" where
  "deactivateMember env actor w memberId st db0 db =
     updateMember env actor w memberId
       \<lparr>up_role = None, up_kind = None, up_active = Some False, up_displayName = None, up_email = None\<rparr> st db0 db"

definition resendMemberAccessLink ::
    "'l member_env \<Rightarrow> auth_actor \<Rightarrow> string \<Rightarrow> string \<Rightarrow> support_store \<Rightarrow> 'l member_db \<Rightarrow> 'l member_db
     \<Rightarrow> ((user_row \<times> auth_member \<times> string) \<times> 'l member_db) result" where
  "resendMemberAccessLink env actor w memberId st db0 db =
     and_then (member_access env actor w admins st db0) (\<lambda>(_, st').
     and_then (member_access env actor w admins st' db) (\<lambda>_.
     (case find (\<lambda>m. am_id m = memberId \<and> am_workspace m = w) (tb_members (md_auth db)) of
        None \<Rightarrow> Inl (AppError 404 ''NOT_FOUND'' ''Member not found.'')
      | Some m \<Rightarrow>
          and_then (requireUnmanagedMember w (am_user m) (md_auth db)) (\<lambda>_.
          and_then (issueSetupToken (me_cfg env) (am_user m) db) (\<lambda>(token, db').
          (case find_user (am_user m) (tb_users (md_auth db)) of
             None \<Rightarrow> Inl record_not_found
           | Some u \<Rightarrow>
               Inr ((u, m, token), db'\<lparr>md_auth := record_member actor w ''member.access_link.created'' (am_id m)
                 (JObj [(''email'', JStr (us_email u))]) None (md_auth db')\<rparr>)))))))"

section \<open>Requests for an invitation\<close>

definition requestMemberInvite ::
    "'l member_env \<Rightarrow> auth_actor \<Rightarrow> string \<Rightarrow> string \<Rightarrow> string option \<Rightarrow> support_store \<Rightarrow> 'l member_db
     \<Rightarrow> (invite_request \<times> 'l member_db) result" where
  "requestMemberInvite env actor w email0 name st db =
     and_then (member_access env actor w None st db) (\<lambda>(membership, _).
     (case membership of
        None \<Rightarrow> Inl (AppError 403 ''FORBIDDEN'' ''Only workspace members can request invites.'')
      | Some m \<Rightarrow>
          if mb_role m = ADMIN then Inl (AppError 400 ''INVALID_STATE'' ''Admins can invite members directly.'')
          else if getMemberInvitePolicy w db \<noteq> MEMBERS_CAN_REQUEST
          then Inl (AppError 403 ''FORBIDDEN'' ''Invite requests are not enabled for this workspace.'')
          else
            (let email = normalizeEmail email0; auth = md_auth db in
            and_then (requireUnreservedPublicDemoEmail (Some email)) (\<lambda>_.
            and_then (invariant (email \<noteq> []) 400 ''INVALID_INPUT'' ''Email is required.'') (\<lambda>_.
            and_then (invariant (\<not> list_ex (\<lambda>x. am_workspace x = w \<and> am_active x \<and>
                (case find_user (am_user x) (tb_users auth) of None \<Rightarrow> False | Some u \<Rightarrow> us_email u = email))
                (tb_members auth)) 409 ''ALREADY_EXISTS'' ''That email is already an active member.'') (\<lambda>_.
            and_then (invariant (\<not> list_ex (\<lambda>q. iq_workspace q = w \<and> iq_email q = email \<and> iq_status q = INVITE_PENDING)
                (md_invites db)) 409 ''ALREADY_EXISTS''
                ''There is already a pending invite request for that email.'') (\<lambda>_.
            (let q = \<lparr>iq_id = ac_new_id (me_cfg env) ''memberInviteRequest'', iq_workspace = w, iq_requester = mb_id m,
                      iq_decider = None, iq_email = email, iq_displayName = normalizeDisplayName name,
                      iq_status = INVITE_PENDING, iq_decidedAt = None\<rparr> in
             if list_ex (\<lambda>x. iq_id x = iq_id q) (md_invites db) then Inl unique_failed
             else Inr (q, db\<lparr>md_invites := md_invites db @ [q]\<rparr>)))))))))"

text \<open>A decision: the reads, and then an update by id.\<close>

definition decidable_request ::
    "'l member_env \<Rightarrow> auth_actor \<Rightarrow> string \<Rightarrow> string \<Rightarrow> support_store \<Rightarrow> 'l member_db
     \<Rightarrow> (membership option \<times> invite_request \<times> support_store) result" where
  "decidable_request env actor w requestId st db =
     and_then (member_access env actor w admins st db) (\<lambda>(m, st').
     (case find (\<lambda>q. iq_id q = requestId \<and> iq_workspace q = w) (md_invites db) of
        None \<Rightarrow> Inl (AppError 404 ''NOT_FOUND'' ''Invite request not found.'')
      | Some q \<Rightarrow>
          and_then (invariant (iq_status q = INVITE_PENDING) 400 ''INVALID_STATE''
            ''Invite request is already decided.'') (\<lambda>_. Inr (m, q, st'))))"

definition decide_request ::
    "auth_config \<Rightarrow> membership option \<Rightarrow> string \<Rightarrow> invite_status \<Rightarrow> 'l member_db \<Rightarrow> 'l member_db result" where
  "decide_request cfg m requestId status db =
     (if \<not> list_ex (\<lambda>q. iq_id q = requestId) (md_invites db) then Inl record_not_found
      else Inr (db\<lparr>md_invites := map (\<lambda>q. if iq_id q = requestId
             then q\<lparr>iq_status := status,
                    iq_decider := (case m of None \<Rightarrow> None
                      | Some x \<Rightarrow> if mb_id x = ''global-operator'' then None else Some (mb_id x)),
                    iq_decidedAt := Some (ac_now cfg)\<rparr>
             else q) (md_invites db)\<rparr>))"

text \<open>The new member is committed before the decision is written, and stays if that fails.\<close>

definition approveMemberInviteRequest ::
    "'l member_env \<Rightarrow> auth_actor \<Rightarrow> string \<Rightarrow> string \<Rightarrow> support_store \<Rightarrow> 'l member_db \<Rightarrow> 'l member_db
     \<Rightarrow> (user_row \<times> auth_member \<times> string) result \<times> 'l member_db" where
  "approveMemberInviteRequest env actor w requestId st db0 db =
     (case decidable_request env actor w requestId st db0 of
        Inl e \<Rightarrow> (Inl e, db)
      | Inr (m, q, st') \<Rightarrow>
          (case createMember env actor w (iq_email q) (iq_displayName q) CONTRIBUTOR None False st' db0 db of
             Inl e \<Rightarrow> (Inl e, db)
           | Inr (r, db1) \<Rightarrow>
               (case decide_request (me_cfg env) m requestId INVITE_APPROVED db1 of
                  Inl e \<Rightarrow> (Inl e, db1)
                | Inr db2 \<Rightarrow> (Inr r, db2))))"

definition rejectMemberInviteRequest ::
    "'l member_env \<Rightarrow> auth_actor \<Rightarrow> string \<Rightarrow> string \<Rightarrow> support_store \<Rightarrow> 'l member_db \<Rightarrow> 'l member_db
     \<Rightarrow> 'l member_db result" where
  "rejectMemberInviteRequest env actor w requestId st db0 db =
     and_then (decidable_request env actor w requestId st db0) (\<lambda>(m, _, _).
     decide_request (me_cfg env) m requestId INVITE_REJECTED db)"

end
