(* ===== verification/Member_Admin.thy ===== *)
theory Member_Admin
  imports Members
begin

text \<open>
  The operations on members outside of \<^verbatim>\<open>members.ts\<close>: those of a platform operator in
  \<^verbatim>\<open>packages/domain/src/admin.ts\<close>, the merge of two members in \<^verbatim>\<open>member-merge.ts\<close> and the
  provisioning of an account that signs in with single sign-on in \<^verbatim>\<open>sso.ts\<close>.

  As in the theory of members, an operation that reads outside of its transaction takes the state of
  those reads (\<open>db0\<close>) and the state its transaction meets (\<open>db\<close>); the lock of the workspace makes each
  transaction one step.
\<close>

section \<open>Platform operators\<close>

text \<open>\<^verbatim>\<open>createMember\<close> without \<^verbatim>\<open>skipAdminCheck\<close>: the operator passes the membership check as one.\<close>

definition adminAddToWorkspace ::
    "'l member_env \<Rightarrow> auth_actor \<Rightarrow> string \<Rightarrow> string \<Rightarrow> member_role \<Rightarrow> support_store \<Rightarrow> 'l member_db
     \<Rightarrow> 'l member_db \<Rightarrow> ((user_row \<times> auth_member \<times> string) \<times> 'l member_db) result" where
  "adminAddToWorkspace env actor userId w role st db0 db =
     and_then (requireGlobalOperator actor) (\<lambda>_.
     (case find_user userId (tb_users (md_auth db0)) of
        None \<Rightarrow> Inl (AppError 404 ''NOT_FOUND'' ''User not found.'')
      | Some u \<Rightarrow> createMember env actor w (us_email u) (us_displayName u) role None False st db0 db))"

definition adminCreateMember ::
    "'l member_env \<Rightarrow> auth_actor \<Rightarrow> string \<Rightarrow> string \<Rightarrow> string option \<Rightarrow> member_role \<Rightarrow> support_store
     \<Rightarrow> 'l member_db \<Rightarrow> 'l member_db \<Rightarrow> ((user_row \<times> auth_member \<times> string) \<times> 'l member_db) result" where
  "adminCreateMember env actor w email name role st db0 db =
     and_then (requireGlobalOperator actor) (\<lambda>_. createMember env actor w email name role None True st db0 db)"

text \<open>The members invited before one fails stay; \<open>envs\<close> has the random values of each turn.\<close>

fun admin_invite_all ::
    "(nat \<Rightarrow> 'l member_env) \<Rightarrow> auth_actor \<Rightarrow> string \<Rightarrow> support_store
     \<Rightarrow> (string \<times> string option \<times> member_role) list \<Rightarrow> 'l member_db \<Rightarrow> unit result \<times> 'l member_db" where
  "admin_invite_all envs actor w st [] db = (Inr (), db)"
| "admin_invite_all envs actor w st ((email, name, role) # infos) db =
     (case createMember (envs 0) actor w email (if name = Some [] then None else name) role None True st db db of
        Inl e \<Rightarrow> (Inl e, db)
      | Inr (_, db') \<Rightarrow> admin_invite_all (\<lambda>i. envs (Suc i)) actor w st infos db')"

definition adminBulkInvite ::
    "(nat \<Rightarrow> 'l member_env) \<Rightarrow> auth_actor \<Rightarrow> string \<Rightarrow> (string \<times> string option \<times> member_role) list
     \<Rightarrow> support_store \<Rightarrow> 'l member_db \<Rightarrow> unit result \<times> 'l member_db" where
  "adminBulkInvite envs actor w infos st db =
     (case requireGlobalOperator actor of
        Inl e \<Rightarrow> (Inl e, db)
      | Inr _ \<Rightarrow> admin_invite_all envs actor w st infos db)"

definition unmanaged_member :: "string \<Rightarrow> string \<Rightarrow> 'l member_db \<Rightarrow> auth_member result" where
  "unmanaged_member w memberId db =
     (case find (\<lambda>m. am_id m = memberId \<and> am_workspace m = w) (tb_members (md_auth db)) of
        None \<Rightarrow> Inl (AppError 404 ''NOT_FOUND'' ''Member not found'')
      | Some m \<Rightarrow> and_then (requireUnmanagedMember w (am_user m) (md_auth db)) (\<lambda>_. Inr m))"

definition change_member :: "string \<Rightarrow> (auth_member \<Rightarrow> auth_member) \<Rightarrow> 'l member_db \<Rightarrow> 'l member_db" where
  "change_member i f db =
     db\<lparr>md_auth := (md_auth db)\<lparr>
       tb_members := map (\<lambda>x. if am_id x = i then f x else x) (tb_members (md_auth db))\<rparr>\<rparr>"

definition adminUpdateMember ::
    "auth_actor \<Rightarrow> string \<Rightarrow> string \<Rightarrow> member_role \<Rightarrow> 'l member_db \<Rightarrow> 'l member_db result" where
  "adminUpdateMember actor w memberId role db =
     and_then (requireGlobalOperator actor) (\<lambda>_.
     and_then (unmanaged_member w memberId db) (\<lambda>m.
     Inr (change_member (am_id m) (\<lambda>x. x\<lparr>am_role := role\<rparr>) db)))"

definition adminDeactivateMember ::
    "auth_actor \<Rightarrow> string \<Rightarrow> string \<Rightarrow> 'l member_db \<Rightarrow> 'l member_db result" where
  "adminDeactivateMember actor w memberId db =
     and_then (requireGlobalOperator actor) (\<lambda>_.
     and_then (unmanaged_member w memberId db) (\<lambda>m.
     Inr (change_member (am_id m) (\<lambda>x. x\<lparr>am_active := False\<rparr>) db)))"

text \<open>A deleted member takes its requests and addresses along; the requests it decided stay.\<close>

definition remove_member_row ::
    "'l member_env \<Rightarrow> string \<Rightarrow> 'l member_db \<Rightarrow> 'l member_db result" where
  "remove_member_row env i db =
     and_then (me_remove env i (tb_rest (md_auth db))) (\<lambda>rest.
     Inr (db\<lparr>md_auth := (md_auth db)\<lparr>tb_members := filter (\<lambda>x. am_id x \<noteq> i) (tb_members (md_auth db)),
                tb_rest := rest\<rparr>,
             md_invites := map (\<lambda>q. if iq_decider q = Some i then q\<lparr>iq_decider := None\<rparr> else q)
               (filter (\<lambda>q. iq_requester q \<noteq> i) (md_invites db)),
             md_aliases := filter (\<lambda>a. ea_member a \<noteq> i) (md_aliases db),
             md_merged := filter (\<lambda>p. fst p \<noteq> i \<and> snd p \<noteq> i) (md_merged db)\<rparr>))"

definition adminRemoveFromWorkspace ::
    "'l member_env \<Rightarrow> auth_actor \<Rightarrow> string \<Rightarrow> 'l member_db \<Rightarrow> 'l member_db \<Rightarrow> 'l member_db result" where
  "adminRemoveFromWorkspace env actor memberId db0 db =
     and_then (requireGlobalOperator actor) (\<lambda>_.
     (case find (\<lambda>m. am_id m = memberId) (tb_members (md_auth db0)) of
        None \<Rightarrow> Inl (AppError 404 ''NOT_FOUND'' ''Member not found'')
      | Some target \<Rightarrow>
          and_then (unmanaged_member (am_workspace target) memberId db) (\<lambda>m.
          remove_member_row env (am_id m) db)))"

definition adminTriggerPasswordReset ::
    "auth_config \<Rightarrow> auth_actor \<Rightarrow> string \<Rightarrow> 'l member_db \<Rightarrow> string result \<times> 'l member_db" where
  "adminTriggerPasswordReset cfg actor email db =
     (case requireGlobalOperator actor of
        Inl e \<Rightarrow> (Inl e, db)
      | Inr _ \<Rightarrow>
          (case requestPasswordReset cfg email db of
             (Inl e, db') \<Rightarrow> (Inl e, db')
           | (Inr None, db') \<Rightarrow> (Inl (AppError 404 ''NOT_FOUND'' ''User not found.''), db')
           | (Inr (Some r), db') \<Rightarrow> (Inr (fst r), db')))"

definition adminResendAccessLink ::
    "auth_config \<Rightarrow> auth_actor \<Rightarrow> string \<Rightarrow> 'l member_db \<Rightarrow> (user_row \<times> string option) result \<times> 'l member_db" where
  "adminResendAccessLink cfg actor memberId db =
     (case requireGlobalOperator actor of
        Inl e \<Rightarrow> (Inl e, db)
      | Inr _ \<Rightarrow>
          (case find (\<lambda>m. am_id m = memberId) (tb_members (md_auth db)) of
             None \<Rightarrow> (Inl record_not_found, db)
           | Some m \<Rightarrow>
               (case find_user (am_user m) (tb_users (md_auth db)) of
                  None \<Rightarrow> (Inl record_not_found, db)
                | Some u \<Rightarrow>
                    (case requestPasswordReset cfg (us_email u) db of
                       (Inl e, db') \<Rightarrow> (Inl e, db')
                     | (Inr r, db') \<Rightarrow> (Inr (u, map_option fst r), db')))))"

section \<open>Further addresses of a member\<close>

text \<open>\<open>allowed\<close>: the members that may have the address already, as their first or a further one.\<close>

definition writeMemberEmailAlias ::
    "string \<Rightarrow> string \<Rightarrow> string \<Rightarrow> string \<Rightarrow> string option \<Rightarrow> string list \<Rightarrow> 'l member_db
     \<Rightarrow> (alias_row option \<times> 'l member_db) result" where
  "writeMemberEmailAlias w memberId email0 source createdBy allowed db =
     (let email = normalizeEmail email0; auth = md_auth db;
          has = (\<lambda>m e. case find_user (am_user m) (tb_users auth) of None \<Rightarrow> False | Some u \<Rightarrow> us_email u = e);
          row = (\<lambda>a. ea_workspace a = w \<and> ea_email a = email) in
     and_then (invariant (email \<noteq> []) 400 ''INVALID_INPUT'' ''Email is required.'') (\<lambda>_.
     (case find (\<lambda>m. am_id m = memberId) (tb_members auth) of
        None \<Rightarrow> Inl (AppError 404 ''NOT_FOUND'' ''Member not found.'')
      | Some m \<Rightarrow>
          and_then (invariant (am_workspace m = w) 404 ''NOT_FOUND'' ''Member not found.'') (\<lambda>_.
          (case find_user (am_user m) (tb_users auth) of
             None \<Rightarrow> Inl record_not_found
           | Some u \<Rightarrow>
               if normalizeEmail (us_email u) = email then Inr (None, db)
               else
                 and_then (invariant (case find (\<lambda>x. am_workspace x = w \<and> has x email) (tb_members auth) of
                       None \<Rightarrow> True | Some x \<Rightarrow> am_id x \<in> set allowed) 409 ''ALIAS_EMAIL_CONFLICT''
                     ''Alias email belongs to another workspace member.'') (\<lambda>_.
                 and_then (invariant (case find row (md_aliases db) of
                       None \<Rightarrow> True | Some a \<Rightarrow> ea_member a \<in> set allowed) 409 ''ALIAS_EMAIL_CONFLICT''
                     ''Alias email is already assigned to another workspace member.'') (\<lambda>_.
                 (case find row (md_aliases db) of
                    Some a \<Rightarrow>
                      (let b = a\<lparr>ea_member := memberId, ea_source := source\<rparr> in
                       Inr (Some b, db\<lparr>md_aliases := map (\<lambda>x. if row x then b else x) (md_aliases db)\<rparr>))
                  | None \<Rightarrow>
                      (let b = \<lparr>ea_workspace = w, ea_member = memberId, ea_email = email, ea_source = source,
                                ea_createdBy = createdBy\<rparr> in
                       Inr (Some b, db\<lparr>md_aliases := md_aliases db @ [b]\<rparr>))))))))))"

definition addMemberEmailAlias ::
    "'l member_env \<Rightarrow> auth_actor \<Rightarrow> string \<Rightarrow> string \<Rightarrow> string \<Rightarrow> string option \<Rightarrow> support_store \<Rightarrow> 'l member_db
     \<Rightarrow> 'l member_db \<Rightarrow> (alias_row \<times> 'l member_db) result" where
  "addMemberEmailAlias env actor w memberId email source st db0 db =
     and_then (member_access env actor w admins st db0) (\<lambda>(_, st').
     and_then (member_access env actor w admins st' db) (\<lambda>_.
     (case find (\<lambda>m. am_id m = memberId) (tb_members (md_auth db)) of
        None \<Rightarrow> Inl (AppError 404 ''NOT_FOUND'' ''Member not found.'')
      | Some m \<Rightarrow>
          and_then (invariant (am_workspace m = w) 404 ''NOT_FOUND'' ''Member not found.'') (\<lambda>_.
          and_then (requireUnmanagedMember w (am_user m) (md_auth db)) (\<lambda>_.
          and_then (writeMemberEmailAlias w memberId email
              (case trimmed_or_none source of None \<Rightarrow> ''MANUAL'' | Some s \<Rightarrow> s) (acting_user_id actor) [memberId] db)
            (\<lambda>(alias, db').
          (case alias of
             None \<Rightarrow> Inl (AppError 400 ''INVALID_INPUT'' ''Alias email must differ from the member primary email.'')
           | Some a \<Rightarrow> Inr (a, db'))))))))"

section \<open>Merging two members\<close>

definition strongestRole :: "member_role \<Rightarrow> member_role \<Rightarrow> member_role" where
  "strongestRole l r = (if l = ADMIN \<or> r = ADMIN then ADMIN else CONTRIBUTOR)"

text \<open>A \<^verbatim>\<open>Set\<close> keeps the first of equal addresses.\<close>

definition uniqueNormalizedEmails :: "string list \<Rightarrow> string list" where
  "uniqueNormalizedEmails emails = rev (remdups (rev (filter (\<lambda>e. e \<noteq> []) (map normalizeEmail emails))))"

definition mergeAliasEmails :: "string \<Rightarrow> string list \<Rightarrow> string \<Rightarrow> string list \<Rightarrow> string list" where
  "mergeAliasEmails sourceEmail aliases targetEmail extra =
     filter (\<lambda>e. e \<noteq> normalizeEmail targetEmail) (uniqueNormalizedEmails (sourceEmail # aliases @ extra))"

fun write_merge_aliases ::
    "string \<Rightarrow> string \<Rightarrow> string option \<Rightarrow> string list \<Rightarrow> string list \<Rightarrow> 'l member_db \<Rightarrow> 'l member_db result" where
  "write_merge_aliases w target createdBy allowed [] db = Inr db"
| "write_merge_aliases w target createdBy allowed (e # es) db =
     and_then (writeMemberEmailAlias w target e ''MERGE'' createdBy allowed db) (\<lambda>(_, db').
     write_merge_aliases w target createdBy allowed es db')"

definition merge_party :: "string \<Rightarrow> string \<Rightarrow> string \<Rightarrow> 'l member_db \<Rightarrow> (auth_member \<times> user_row) result" where
  "merge_party w i message db =
     (case find (\<lambda>m. am_id m = i) (tb_members (md_auth db)) of
        None \<Rightarrow> Inl (AppError 404 ''NOT_FOUND'' message)
      | Some m \<Rightarrow>
          and_then (invariant (am_workspace m = w) 404 ''NOT_FOUND'' message) (\<lambda>_.
          (case find_user (am_user m) (tb_users (md_auth db)) of
             None \<Rightarrow> Inl record_not_found
           | Some u \<Rightarrow> Inr (m, u))))"

definition was_merged :: "string \<Rightarrow> 'l member_db \<Rightarrow> bool" where
  "was_merged i db \<longleftrightarrow> list_ex (\<lambda>p. fst p = i) (md_merged db)"

definition merge_checks ::
    "'l member_env \<Rightarrow> string \<Rightarrow> string \<Rightarrow> string \<Rightarrow> 'l member_db
     \<Rightarrow> ((auth_member \<times> user_row) \<times> (auth_member \<times> user_row)) result" where
  "merge_checks env w s t db =
     and_then (merge_party w s ''Source member not found.'' db) (\<lambda>(source, su).
     and_then (merge_party w t ''Target member not found.'' db) (\<lambda>(target, tu).
     and_then (requireUnreservedPublicDemoEmail (Some (us_email su))) (\<lambda>_.
     and_then (requireUnreservedPublicDemoEmail (Some (us_email tu))) (\<lambda>_.
     and_then (requireUnmanagedMember w (am_user source) (md_auth db)) (\<lambda>_.
     and_then (requireUnmanagedMember w (am_user target) (md_auth db)) (\<lambda>_.
     and_then (invariant (\<not> was_merged s db) 400 ''INVALID_STATE'' ''Source member has already been merged.'') (\<lambda>_.
     and_then (invariant (\<not> was_merged t db \<and> am_active target) 400 ''INVALID_STATE''
       ''Target member must be active and unmerged.'') (\<lambda>_.
     and_then (invariant (am_kind source = am_kind target) 400 ''INVALID_INPUT''
       ''Source and target member kinds must match.'') (\<lambda>_.
     and_then (me_conflicts env s t (tb_rest (md_auth db))) (\<lambda>_.
     Inr ((source, su), (target, tu))))))))))))"

text \<open>The requests for an invitation pass to the target; what other tables record of the source, too.\<close>

definition rewire_invites :: "string \<Rightarrow> string \<Rightarrow> invite_request list \<Rightarrow> (string \<times> json) list \<times> invite_request list" where
  "rewire_invites s t qs =
     (let made = length (filter (\<lambda>q. iq_requester q = s) qs);
          decided = length (filter (\<lambda>q. iq_decider q = Some s) qs) in
      ((if made = 0 then [] else [(''memberInviteRequest.requesterMemberId'', JNum (int made))]) @
       (if decided = 0 then [] else [(''memberInviteRequest.deciderMemberId'', JNum (int decided))]),
       map (\<lambda>q. q\<lparr>iq_requester := (if iq_requester q = s then t else iq_requester q),
                   iq_decider := (if iq_decider q = Some s then Some t else iq_decider q)\<rparr>) qs))"

text \<open>The two updates, of the target and then of the source.\<close>

definition merge_rows :: "string \<Rightarrow> string \<Rightarrow> member_role \<Rightarrow> auth_member list \<Rightarrow> auth_member list" where
  "merge_rows s t role ms =
     map (\<lambda>x. if am_id x = s then x\<lparr>am_active := False\<rparr> else x)
       (map (\<lambda>x. if am_id x = t then x\<lparr>am_role := role\<rparr> else x) ms)"

definition store_merge ::
    "'l member_env \<Rightarrow> auth_actor \<Rightarrow> string \<Rightarrow> auth_member \<Rightarrow> auth_member \<Rightarrow> string list \<Rightarrow> 'l member_db
     \<Rightarrow> (string list \<times> json) \<times> 'l member_db" where
  "store_merge env actor w source target aliases db =
     (let s = am_id source; t = am_id target; auth = md_auth db;
          (counts, rest) = me_rewire env s t (tb_rest auth);
          (invited, invites) = rewire_invites s t (md_invites db);
          rewired = JObj (counts @ invited);
          meta = JObj [(''sourceMemberId'', JStr s), (''targetMemberId'', JStr t),
            (''aliasEmails'', JArr (map JStr aliases)), (''rewired'', rewired)] in
      ((aliases, rewired),
       db\<lparr>md_auth := record_member actor w ''member.merged'' t meta (Some meta)
             (auth\<lparr>tb_members := merge_rows s t (strongestRole (am_role source) (am_role target)) (tb_members auth),
                    tb_rest := rest\<rparr>),
          md_invites := invites,
          md_merged := md_merged db @ [(s, t)]\<rparr>))"

definition mergeWorkspaceMembers ::
    "'l member_env \<Rightarrow> auth_actor \<Rightarrow> string \<Rightarrow> string \<Rightarrow> string \<Rightarrow> string list \<Rightarrow> support_store \<Rightarrow> 'l member_db
     \<Rightarrow> 'l member_db \<Rightarrow> ((string list \<times> json) \<times> 'l member_db) result" where
  "mergeWorkspaceMembers env actor w s t extra st db0 db =
     and_then (member_access env actor w admins st db0) (\<lambda>(_, st').
     and_then (if s = t
               then Inl (AppError 400 ''INVALID_INPUT'' ''Choose two different members to merge.'') else Inr ()) (\<lambda>_.
     and_then (member_access env actor w admins st' db) (\<lambda>_.
     and_then (merge_checks env w s t db) (\<lambda>((source, su), (target, tu)).
     (let aliases = mergeAliasEmails (us_email su)
            (map ea_email (filter (\<lambda>a. ea_member a = s) (md_aliases db))) (us_email tu) extra in
     and_then (write_merge_aliases w t (acting_user_id actor) [s, t] aliases db) (\<lambda>db'.
     Inr (store_merge env actor w source target aliases db')))))))"

section \<open>Single sign-on\<close>

text \<open>An account managed as support never gains an ordinary membership; an existing one stays as it is.\<close>

definition ensureSsoMembership :: "auth_config \<Rightarrow> string \<Rightarrow> string \<Rightarrow> 'l member_db \<Rightarrow> 'l member_db result" where
  "ensureSsoMembership cfg w uid db =
     (let auth = md_auth db; new_id = ac_new_id cfg ''member'' in
      if find_grant w uid (tb_grants auth) \<noteq> None \<or> find_member w uid (tb_members auth) \<noteq> None then Inr db
      else if list_ex (\<lambda>x. am_id x = new_id) (tb_members auth) then Inl unique_failed
      else Inr (db\<lparr>md_auth := auth\<lparr>tb_members := tb_members auth @
             [\<lparr>am_id = new_id, am_workspace = w, am_user = uid, am_role = CONTRIBUTOR, am_kind = HUMAN,
               am_active = True\<rparr>]\<rparr>\<rparr>))"

definition sso_key :: "string \<Rightarrow> string \<Rightarrow> sso_identity \<Rightarrow> bool" where
  "sso_key provider subject i \<longleftrightarrow> si_provider i = provider \<and> si_subject i = subject"

definition sso_account ::
    "'l member_env \<Rightarrow> string \<Rightarrow> string option \<Rightarrow> user_row option \<Rightarrow> 'l member_db \<Rightarrow> (user_row \<times> 'l member_db) result" where
  "sso_account env email name known db =
     (case known of
        Some u \<Rightarrow> Inr (u, db)
      | None \<Rightarrow>
          (let auth = md_auth db; new_id = ac_new_id (me_cfg env) ''user'' in
           if list_ex (\<lambda>x. us_id x = new_id \<or> us_email x = email) (tb_users auth) then Inl unique_failed
           else
             (let u = \<lparr>us_id = new_id, us_email = email,
                       us_displayName = Some (if truthy_str name then the name else takeWhile (\<lambda>c. c \<noteq> CHR ''@'') email),
                       us_globalRole = GR_user, us_support = False, us_passwordHash = ''sso$'' @ me_password env\<rparr> in
              Inr (u, db\<lparr>md_auth := auth\<lparr>tb_users := tb_users auth @ [u]\<rparr>\<rparr>))))"

definition link_identity :: "string \<Rightarrow> string \<Rightarrow> string \<Rightarrow> string \<Rightarrow> 'l member_db \<Rightarrow> 'l member_db" where
  "link_identity provider subject uid email db =
     db\<lparr>md_sso :=
       (if list_ex (sso_key provider subject) (md_sso db)
        then map (\<lambda>i. if sso_key provider subject i then i\<lparr>si_user := uid, si_email := email\<rparr> else i) (md_sso db)
        else md_sso db @ [\<lparr>si_provider = provider, si_subject = subject, si_user = uid, si_email = email\<rparr>])\<rparr>"

text \<open>The reads of \<^verbatim>\<open>linkOrProvisionSsoUser\<close>: the account of a known identity, or the one of the address.\<close>

definition sso_reads ::
    "string \<Rightarrow> string \<Rightarrow> string \<Rightarrow> 'l member_db \<Rightarrow> (user_row option \<times> user_row option) result" where
  "sso_reads provider subject email db =
     and_then (requireUnreservedPublicDemoEmail (Some email)) (\<lambda>_.
     (let users = tb_users (md_auth db); user = find_email email users;
          enabled = (\<lambda>u. invariant (\<not> isPasswordLoginDisabled (us_passwordHash u)) 401 ''UNAUTHENTICATED''
            ''This account cannot sign in.'') in
     and_then (case user of None \<Rightarrow> Inr () | Some u \<Rightarrow> enabled u) (\<lambda>_.
     (case find (sso_key provider subject) (md_sso db) of
        None \<Rightarrow> Inr (None, user)
      | Some i \<Rightarrow>
          (case find_user (si_user i) users of
             None \<Rightarrow> Inl record_not_found
           | Some u \<Rightarrow>
               and_then (requireUnreservedPublicDemoEmail (Some (us_email u))) (\<lambda>_.
               and_then (enabled u) (\<lambda>_. Inr (Some u, user))))))))"

text \<open>Three writes, each on its own: the account and the identity stay where a later write fails.\<close>

definition linkOrProvisionSsoUser ::
    "'l member_env \<Rightarrow> string \<Rightarrow> string \<Rightarrow> string \<Rightarrow> string \<Rightarrow> string option \<Rightarrow> 'l member_db \<Rightarrow> 'l member_db
     \<Rightarrow> user_row result \<times> 'l member_db" where
  "linkOrProvisionSsoUser env w provider subject email0 name db0 db =
     (let email = normalizeEmail email0 in
      case sso_reads provider subject email db0 of
        Inl e \<Rightarrow> (Inl e, db)
      | Inr (Some u, _) \<Rightarrow>
          (case ensureSsoMembership (me_cfg env) w (us_id u) db of
             Inl e \<Rightarrow> (Inl e, db) | Inr db' \<Rightarrow> (Inr u, db'))
      | Inr (None, user) \<Rightarrow>
          (case sso_account env email name user db of
             Inl e \<Rightarrow> (Inl e, db)
           | Inr (u, db1) \<Rightarrow>
               (let db2 = link_identity provider subject (us_id u) email db1 in
                case ensureSsoMembership (me_cfg env) w (us_id u) db2 of
                  Inl e \<Rightarrow> (Inl e, db2) | Inr db' \<Rightarrow> (Inr u, db'))))"

end
