(* ===== verification/Support_Commands.thy ===== *)
theory Support_Commands
  imports Members
begin

text \<open>
  What a support account changes of the members of a workspace,
  \<^verbatim>\<open>packages/domain/src/workspace-support-configuration.ts\<close>: the commands \<^verbatim>\<open>member\<close>, \<^verbatim>\<open>addMember\<close>
  and \<^verbatim>\<open>invitePolicy\<close>, the requests for them that an account with a setup grant makes, and the
  decision of the workspace's owner.  The other commands set names, budgets and integrations and are
  left out.  Each operation is one transaction under the lock of the workspace; the trial's capacity
  is read outside of it, so it does not see an account the transaction made.
\<close>

definition authorize_support ::
    "auth_config \<Rightarrow> auth_actor \<Rightarrow> string \<Rightarrow> int \<Rightarrow> 'l auth_db \<Rightarrow> (string \<times> support_grant) result" where
  "authorize_support cfg actor w expected auth =
     and_then (requireDeploymentWorkspaceScope cfg w auth) (\<lambda>_.
     (case actor of
        Auth_agent _ \<Rightarrow> Inl (AppError 403 ''SUPPORT_ACCESS_REQUIRED'' ''Named support access is required.'')
      | Auth_user u \<Rightarrow>
          (case find_grant w (hu_id u) (tb_grants auth) of
             None \<Rightarrow> Inl (AppError 403 ''SUPPORT_ACCESS_REQUIRED'' ''Support access is unavailable.'')
           | Some g \<Rightarrow>
               and_then (invariant (sg_active g) 403 ''SUPPORT_ACCESS_REQUIRED'' ''Support access is unavailable.'') (\<lambda>_.
               and_then (invariant (expected = sg_version g) 409 ''VERSION_CONFLICT''
                 ''Support access changed. Refresh and try again.'') (\<lambda>_.
               Inr (hu_id u, g))))))"

text \<open>The policy as it is stored: the text of the flag, whatever it is.\<close>

definition stored_policy :: "string \<Rightarrow> 'l member_db \<Rightarrow> string option" where
  "stored_policy w db =
     (case find (invite_flag w) (pl_flags (md_plans db)) of
        None \<Rightarrow> None
      | Some f \<Rightarrow>
          (case wf_config f of
             Some (JObj kvs) \<Rightarrow> (case field (JObj kvs) ''policy'' of Some (JStr s) \<Rightarrow> Some s | _ \<Rightarrow> None)
           | _ \<Rightarrow> None))"

definition human_member :: "string \<Rightarrow> string \<Rightarrow> 'l auth_db \<Rightarrow> auth_member option" where
  "human_member w i auth = find (\<lambda>m. am_workspace m = w \<and> am_id m = i \<and> am_kind m = HUMAN) (tb_members auth)"

text \<open>Whether a command needs the owner's approval, and the state the approval is about.\<close>

definition accessChange :: "string \<Rightarrow> support_command \<Rightarrow> 'l member_db \<Rightarrow> (bool \<times> access_target) result" where
  "accessChange w command db =
     (let auth = md_auth db in
      case command of
        Cmd_addMember email _ \<Rightarrow>
          (let user = find_email (normalizeEmail email) (tb_users auth) in
          and_then (invariant (case user of None \<Rightarrow> True | Some u \<Rightarrow> \<not> us_support u) 400 ''MEMBER_UNAVAILABLE''
            ''Named member account is unavailable.'') (\<lambda>_.
          and_then (case user of None \<Rightarrow> Inr ()
              | Some u \<Rightarrow>
                  and_then (requireUnmanagedMember w (us_id u) auth) (\<lambda>_.
                  invariant (find_member w (us_id u) (tb_members auth) = None) 409 ''EXISTING_MEMBERSHIP''
                    ''Use the existing membership controls.'')) (\<lambda>_.
          Inr (True, Target_user (map_option us_id user)))))
      | Cmd_member i role active \<Rightarrow>
          (case human_member w i auth of
             None \<Rightarrow> Inl (AppError 404 ''MEMBER_UNAVAILABLE'' ''Member not found.'')
           | Some m \<Rightarrow>
               and_then (requireUnmanagedMember w (am_user m) auth) (\<lambda>_.
               (case find_user (am_user m) (tb_users auth) of
                  None \<Rightarrow> Inl record_not_found
                | Some u \<Rightarrow> Inr ((\<not> am_active m \<and> active) \<or> role \<noteq> am_role m, Target_member m (us_email u)))))
      | Cmd_invitePolicy policy \<Rightarrow>
          Inr (policy = MEMBERS_CAN_INVITE \<and> stored_policy w db \<noteq> Some ''MEMBERS_CAN_INVITE'',
            Target_policy (case stored_policy w db of None \<Rightarrow> ''ADMINS_ONLY'' | Some s \<Rightarrow> s)))"

section \<open>Applying a command\<close>

definition support_audit ::
    "auth_config \<Rightarrow> string \<Rightarrow> string \<Rightarrow> string \<Rightarrow> string \<Rightarrow> string \<Rightarrow> json \<Rightarrow> 'l member_db \<Rightarrow> 'l member_db" where
  "support_audit cfg w uid action entity i meta db =
     db\<lparr>md_auth := (md_auth db)\<lparr>tb_audit := tb_audit (md_auth db) @
       [\<lparr>au_workspace = w, au_actor = Some uid, au_action = action, au_entityType = entity, au_entityId = i,
         au_meta = meta\<rparr>]\<rparr>\<rparr>"

definition emit_member :: "string \<Rightarrow> string \<Rightarrow> string \<Rightarrow> json \<Rightarrow> 'l member_db \<Rightarrow> 'l member_db" where
  "emit_member w action i payload db =
     db\<lparr>md_auth := (md_auth db)\<lparr>tb_events := tb_events (md_auth db) @ [member_event w action i payload]\<rparr>\<rparr>"

text \<open>The account of the address; a new one gets a link, which is delivered.\<close>

definition command_account ::
    "'l member_env \<Rightarrow> string \<Rightarrow> string \<Rightarrow> 'l member_db
     \<Rightarrow> (string \<times> (string \<times> string) list \<times> 'l member_db) result" where
  "command_account env w email db =
     (let auth = md_auth db; cfg = me_cfg env; new_id = ac_new_id cfg ''user'' in
      case find_email email (tb_users auth) of
        Some u \<Rightarrow>
          and_then (invariant (\<not> us_support u) 400 ''MEMBER_UNAVAILABLE'' ''Named member account is unavailable.'') (\<lambda>_.
          Inr (us_id u, [], db))
      | None \<Rightarrow>
          and_then (assertTrialMemberCapacity (me_plans env) w auth (md_plans db)) (\<lambda>_.
          if list_ex (\<lambda>x. us_id x = new_id) (tb_users auth) then Inl unique_failed
          else
            (let u = \<lparr>us_id = new_id, us_email = email, us_displayName = None, us_globalRole = GR_user,
                      us_support = False, us_passwordHash = ac_hashPassword cfg (me_password env)\<rparr> in
            and_then (issueSetupToken cfg new_id (db\<lparr>md_auth := auth\<lparr>tb_users := tb_users auth @ [u]\<rparr>\<rparr>)) (\<lambda>(t, db').
            Inr (new_id, [(email, t)], db')))))"

definition apply_addMember ::
    "'l member_env \<Rightarrow> string \<Rightarrow> string \<Rightarrow> string \<Rightarrow> member_role \<Rightarrow> 'l member_db
     \<Rightarrow> (string \<times> (string \<times> string) list \<times> 'l member_db) result" where
  "apply_addMember env w uid email0 role db =
     (let email = normalizeEmail email0; new_id = ac_new_id (me_cfg env) ''member'' in
     and_then (requireUnreservedPublicDemoEmail (Some email)) (\<lambda>_.
     and_then (command_account env w email db) (\<lambda>(target, delivery, db1).
     and_then (invariant (target \<noteq> uid) 403 ''SUPPORT_OWNER_REQUIRED'' ''Support cannot change its own access.'') (\<lambda>_.
     and_then (requireUnmanagedMember w target (md_auth db1)) (\<lambda>_.
     and_then (invariant (find_member w target (tb_members (md_auth db1)) = None) 409 ''EXISTING_MEMBERSHIP''
       ''Use the existing membership controls.'') (\<lambda>_.
     and_then (assertTrialMemberCapacity (me_plans env) w (md_auth db) (md_plans db)) (\<lambda>_.
     if list_ex (\<lambda>x. am_id x = new_id) (tb_members (md_auth db1)) then Inl unique_failed
     else
       (let n = \<lparr>am_id = new_id, am_workspace = w, am_user = target, am_role = role, am_kind = HUMAN,
                 am_active = True\<rparr> in
        Inr (new_id, delivery, emit_member w ''member.created'' new_id
          (JObj [(''memberId'', JStr new_id), (''userId'', JStr target), (''role'', JStr (role_text role)),
            (''kind'', JStr ''HUMAN'')])
          (db1\<lparr>md_auth := (md_auth db1)\<lparr>tb_members := tb_members (md_auth db1) @ [n]\<rparr>\<rparr>))))))))))"

definition command_checks ::
    "'l member_env \<Rightarrow> string \<Rightarrow> string \<Rightarrow> string \<Rightarrow> member_role \<Rightarrow> bool \<Rightarrow> 'l member_db \<Rightarrow> auth_member result" where
  "command_checks env w uid i role active db =
     (let auth = md_auth db in
      case human_member w i auth of
        None \<Rightarrow> Inl (AppError 400 ''MEMBER_UNAVAILABLE'' ''Named member account is unavailable.'')
      | Some m \<Rightarrow>
          and_then (requireUnreservedPublicDemoEmail (map_option us_email (find_user (am_user m) (tb_users auth)))) (\<lambda>_.
          and_then (invariant (am_user m \<noteq> uid) 403 ''SUPPORT_OWNER_REQUIRED''
            ''Support cannot change its own access.'') (\<lambda>_.
          and_then (requireUnmanagedMember w (am_user m) auth) (\<lambda>_.
          and_then (if \<not> am_active m \<and> active then assertTrialMemberCapacity (me_plans env) w auth (md_plans db)
                    else Inr ()) (\<lambda>_.
          and_then (if am_role m = ADMIN \<and> am_active m \<and> (role \<noteq> ADMIN \<or> \<not> active)
                    then invariant (list_ex (\<lambda>x. am_workspace x = w \<and> am_role x = ADMIN \<and> am_active x \<and>
                        am_id x \<noteq> am_id m) (tb_members auth)) 400 ''LAST_ADMIN'' ''Workspace must keep an active admin.''
                    else Inr ()) (\<lambda>_.
          Inr m))))))"

definition command_action :: "auth_member \<Rightarrow> bool \<Rightarrow> string" where
  "command_action m active =
     (if am_active m \<and> \<not> active then ''member.deactivated''
      else if \<not> am_active m \<and> active then ''member.reactivated'' else ''member.updated'')"

definition apply_member ::
    "'l member_env \<Rightarrow> auth_actor \<Rightarrow> string \<Rightarrow> string \<Rightarrow> string \<Rightarrow> member_role \<Rightarrow> bool \<Rightarrow> 'l member_db
     \<Rightarrow> (string \<times> (string \<times> string) list \<times> 'l member_db) result" where
  "apply_member env actor w uid i role active db =
     and_then (command_checks env w uid i role active db) (\<lambda>m.
     (let auth = md_auth db;
          n = m\<lparr>am_role := role, am_active := active\<rparr> in
     and_then (if am_active m \<and> \<not> active then me_close_roles env actor w (am_id m) (tb_rest auth)
               else Inr (tb_rest auth)) (\<lambda>rest.
     Inr (am_id m, [], emit_member w (command_action m active) (am_id m)
       (JObj [(''memberId'', JStr (am_id m)), (''fields'', JArr [JStr ''role'', JStr ''isActive''])])
       (db\<lparr>md_auth := auth\<lparr>
          tb_members := map (\<lambda>x. if am_id x = am_id m then n else x) (tb_members auth), tb_rest := rest\<rparr>\<rparr>)))))"

definition store_policy :: "auth_config \<Rightarrow> string \<Rightarrow> member_invite_policy \<Rightarrow> 'l member_db \<Rightarrow> 'l member_db" where
  "store_policy cfg w policy db =
     (let config = Some (JObj [(''policy'', JStr (policy_text policy))]); flags = pl_flags (md_plans db) in
      db\<lparr>md_plans := (md_plans db)\<lparr>pl_flags :=
        (if list_ex (invite_flag w) flags
         then map (\<lambda>f. if invite_flag w f
                then f\<lparr>wf_enabled := True, wf_config := config, wf_updatedAt := ac_now cfg\<rparr> else f) flags
         else flags @ [\<lparr>wf_id = ac_new_id cfg ''workspaceFeatureFlag'', wf_workspace = w,
                wf_flag = MEMBER_INVITE_SETTINGS_FLAG, wf_enabled = True, wf_config = config,
                wf_updatedAt = ac_now cfg\<rparr>])\<rparr>\<rparr>)"

fun command_kind :: "support_command \<Rightarrow> string" where
  "command_kind (Cmd_member _ _ _) = ''member''"
| "command_kind (Cmd_addMember _ _) = ''addMember''"
| "command_kind (Cmd_invitePolicy _) = ''invitePolicy''"

fun command_fields :: "support_command \<Rightarrow> string list" where
  "command_fields (Cmd_member _ _ _) = [''memberId'', ''role'', ''isActive'']"
| "command_fields (Cmd_addMember _ _) = [''email'', ''role'']"
| "command_fields (Cmd_invitePolicy _) = [''policy'']"

definition applyConfiguration ::
    "'l member_env \<Rightarrow> auth_actor \<Rightarrow> string \<Rightarrow> string \<Rightarrow> support_grant \<Rightarrow> support_command \<Rightarrow> 'l member_db
     \<Rightarrow> ((string \<times> string) list \<times> 'l member_db) result" where
  "applyConfiguration env actor w uid grant command db =
     and_then (case command of
         Cmd_member i role active \<Rightarrow> apply_member env actor w uid i role active db
       | Cmd_addMember email role \<Rightarrow> apply_addMember env w uid email role db
       | Cmd_invitePolicy policy \<Rightarrow> Inr (w, [], store_policy (me_cfg env) w policy db)) (\<lambda>(entity, delivery, db').
     Inr (delivery, support_audit (me_cfg env) w uid (''support.configuration.'' @ command_kind command)
       ''WorkspaceConfiguration'' entity
       (JObj [(''grantId'', JStr (sg_id grant)), (''version'', JNum (sg_version grant)),
         (''fields'', JArr (map JStr (command_fields command)))]) db'))"

section \<open>Requesting and deciding\<close>

definition request_access ::
    "'l member_env \<Rightarrow> string \<Rightarrow> string \<Rightarrow> support_grant \<Rightarrow> support_command \<Rightarrow> access_target \<Rightarrow> 'l member_db
     \<Rightarrow> (string \<times> 'l member_db) result" where
  "request_access env w uid grant command target db =
     (let cfg = me_cfg env; new_id = ac_new_id cfg ''workspaceSupportAccessRequest'';
          mine = (\<lambda>q. aq_workspace q = w \<and> aq_grant q = sg_id grant \<and> aq_version q = sg_version grant \<and>
            aq_status q = INVITE_PENDING) in
     and_then (invariant (length (filter mine (md_access db)) < 50) 409 ''PENDING_REQUEST_LIMIT''
       ''The owner must review pending access requests first.'') (\<lambda>_.
     if list_ex (\<lambda>q. aq_id q = new_id) (md_access db) then Inl unique_failed
     else
       Inr (new_id, support_audit cfg w uid ''support.access.requested'' ''WorkspaceSupportAccessRequest'' new_id
         (JObj [(''grantId'', JStr (sg_id grant)), (''version'', JNum (sg_version grant)),
           (''kind'', JStr (command_kind command))])
         (db\<lparr>md_access := md_access db @
            [\<lparr>aq_id = new_id, aq_workspace = w, aq_grant = sg_id grant, aq_version = sg_version grant,
              aq_requester = uid, aq_command = command, aq_target = target, aq_status = INVITE_PENDING,
              aq_decider = None, aq_decidedAt = None\<rparr>]\<rparr>))))"

text \<open>The result: the id of a request, where one was made, and the links to deliver.\<close>

definition changeSupportConfiguration ::
    "'l member_env \<Rightarrow> auth_actor \<Rightarrow> string \<Rightarrow> int \<Rightarrow> support_command \<Rightarrow> 'l member_db
     \<Rightarrow> ((string option \<times> (string \<times> string) list) \<times> 'l member_db) result" where
  "changeSupportConfiguration env actor w expected command db =
     and_then (case command of
         Cmd_addMember email _ \<Rightarrow> requireUnreservedPublicDemoEmail (Some email) | _ \<Rightarrow> Inr ()) (\<lambda>_.
     and_then (invariant (0 < expected \<and> expected \<le> max_safe_integer) 400 ''INVALID_INPUT''
       ''A grant version is required.'') (\<lambda>_.
     and_then (authorize_support (me_cfg env) actor w expected (md_auth db)) (\<lambda>(uid, grant).
     (let run = and_then (applyConfiguration env actor w uid grant command db) (\<lambda>(delivery, db').
            Inr ((None, delivery), db')) in
      if sg_role grant = SR_setup then
        and_then (accessChange w command db) (\<lambda>(approval, target).
        if approval then
          and_then (request_access env w uid grant command target db) (\<lambda>(i, db'). Inr ((Some i, []), db'))
        else run)
      else run))))"

definition decided_access ::
    "auth_config \<Rightarrow> string \<Rightarrow> string \<Rightarrow> bool \<Rightarrow> 'l member_db \<Rightarrow> 'l member_db" where
  "decided_access cfg i owner approve db =
     db\<lparr>md_access := map (\<lambda>q. if aq_id q = i
          then q\<lparr>aq_status := (if approve then INVITE_APPROVED else INVITE_REJECTED), aq_decider := Some owner,
                 aq_decidedAt := Some (ac_now cfg)\<rparr>
          else q) (md_access db)\<rparr>"

text \<open>
  Approving runs the stored command as the owner, provided the grant it was requested under and the
  state it was requested on are still the same.
\<close>

definition approve_access ::
    "'l member_env \<Rightarrow> auth_actor \<Rightarrow> string \<Rightarrow> string \<Rightarrow> access_request \<Rightarrow> 'l member_db
     \<Rightarrow> ((string \<times> string) list \<times> 'l member_db) result" where
  "approve_access env actor w owner q db =
     (case find (\<lambda>g. sg_id g = aq_grant q \<and> sg_workspace g = w \<and> sg_user g = aq_requester q \<and>
          sg_version g = aq_version q \<and> sg_active g \<and> sg_role g = SR_setup) (tb_grants (md_auth db)) of
        None \<Rightarrow> Inl (AppError 409 ''VERSION_CONFLICT''
          ''Support access changed. This request cannot be approved.'')
      | Some grant \<Rightarrow>
          and_then (accessChange w (aq_command q) db) (\<lambda>(_, target).
          and_then (invariant (target = aq_target q) 409 ''VERSION_CONFLICT''
            ''The target changed. Request a new owner decision.'') (\<lambda>_.
          applyConfiguration env actor w owner grant (aq_command q) db)))"

definition decideSupportAccessRequest ::
    "'l member_env \<Rightarrow> auth_actor \<Rightarrow> string \<Rightarrow> string \<Rightarrow> bool \<Rightarrow> 'l member_db
     \<Rightarrow> ((string \<times> string) list \<times> 'l member_db) result" where
  "decideSupportAccessRequest env actor w requestId approve db =
     and_then (requireSupportOwner (me_cfg env) actor w (md_auth db)) (\<lambda>owner.
     (case find (\<lambda>q. aq_id q = requestId \<and> aq_workspace q = w) (md_access db) of
        None \<Rightarrow> Inl (AppError 409 ''REQUEST_UNAVAILABLE'' ''The access request is no longer pending.'')
      | Some q \<Rightarrow>
          and_then (invariant (aq_status q = INVITE_PENDING) 409 ''REQUEST_UNAVAILABLE''
            ''The access request is no longer pending.'') (\<lambda>_.
          and_then (if approve then approve_access env actor w owner q db else Inr ([], db)) (\<lambda>(delivery, db1).
          Inr (delivery, support_audit (me_cfg env) w owner
            (if approve then ''support.access.approved'' else ''support.access.rejected'')
            ''WorkspaceSupportAccessRequest'' (aq_id q)
            (JObj [(''grantId'', JStr (aq_grant q)), (''version'', JNum (aq_version q)),
              (''requestedByUserId'', JStr (aq_requester q))])
            (decided_access (me_cfg env) (aq_id q) owner approve db1))))))"

end
