(* ===== verification/Member_Facts.thy ===== *)
theory Member_Facts
  imports Member_Admin Support_Commands Auth_Facts
begin

text \<open>
  The operations on the members of a workspace and on the links of accounts, their histories, and what
  every operation keeps of a link: whose it is, and that it is used up.

  The operations are all that write members in \<^verbatim>\<open>packages/domain/src\<close>, but for the
  creation of a workspace with its first administrator (\<^verbatim>\<open>workspaces.ts\<close>,
  \<^verbatim>\<open>procurement-trials.ts\<close>) and the reading preferences of a member (\<^verbatim>\<open>user-profile.ts\<close>).  The bulk
  invitations are sequences of creations (lemmas \<open>bulk_invitation_is_run\<close> and
  \<open>admin_bulk_invitation_is_run\<close>).
\<close>

section \<open>Operations and histories\<close>

datatype 'l member_op =
    Create auth_actor string string "string option" member_role "member_kind option"
  | Invite auth_actor string string "string option"
  | Update auth_actor string string member_update
  | Resend auth_actor string string
  | Set_policy auth_actor string member_invite_policy
  | Request auth_actor string string "string option"
  | Approve auth_actor string string
  | Reject auth_actor string string
  | Reset string
  | Reset_member string
  | Consume string string
  | Add_to_workspace auth_actor string string member_role
  | Admin_create auth_actor string string "string option" member_role
  | Admin_update auth_actor string string member_role
  | Admin_deactivate auth_actor string string
  | Admin_remove auth_actor string
  | Admin_reset auth_actor string
  | Admin_resend auth_actor string
  | Add_alias auth_actor string string string "string option"
  | Merge auth_actor string string string "string list"
  | Sso string string string string "string option"
  | Change_grant auth_actor string string support_role bool int
  | Configure auth_actor string int support_command
  | Decide auth_actor string string bool

text \<open>What an operation leaves: nothing where it throws inside its transaction.\<close>

definition kept :: "'d \<Rightarrow> ('a \<times> 'd) result \<Rightarrow> 'd" where
  "kept db r = (case r of Inl _ \<Rightarrow> db | Inr (_, db') \<Rightarrow> db')"

definition saved :: "'d \<Rightarrow> 'd result \<Rightarrow> 'd" where
  "saved db r = (case r of Inl _ \<Rightarrow> db | Inr db' \<Rightarrow> db')"

text \<open>The change of a support grant works on the tables of authentication.\<close>

definition grant_change ::
    "'l member_env \<Rightarrow> auth_actor \<Rightarrow> string \<Rightarrow> string \<Rightarrow> support_role \<Rightarrow> bool \<Rightarrow> int \<Rightarrow> 'l member_db
     \<Rightarrow> 'l member_db result" where
  "grant_change env actor w email role active expected db =
     and_then (changeWorkspaceSupportGrant (me_cfg env) (me_close_roles env) actor w email role active expected
       (md_auth db)) (\<lambda>(_, auth).
     Inr (db\<lparr>md_auth := auth\<rparr>))"

fun member_step ::
    "'l member_env \<Rightarrow> support_store \<Rightarrow> 'l member_op \<Rightarrow> 'l member_db \<Rightarrow> 'l member_db \<Rightarrow> 'l member_db" where
  "member_step env st (Create actor w email name role kind) db0 db =
     kept db (createMember env actor w email name role kind False st db0 db)"
| "member_step env st (Invite actor w email name) db0 db = kept db (inviteMember env actor w email name st db0 db)"
| "member_step env st (Update actor w i up) db0 db = kept db (updateMember env actor w i up st db0 db)"
| "member_step env st (Resend actor w i) db0 db = kept db (resendMemberAccessLink env actor w i st db0 db)"
| "member_step env st (Set_policy actor w policy) db0 db = saved db (updateMemberInvitePolicy env actor w policy st db)"
| "member_step env st (Request actor w email name) db0 db = kept db (requestMemberInvite env actor w email name st db)"
| "member_step env st (Approve actor w i) db0 db = snd (approveMemberInviteRequest env actor w i st db0 db)"
| "member_step env st (Reject actor w i) db0 db = saved db (rejectMemberInviteRequest env actor w i st db0 db)"
| "member_step env st (Reset email) db0 db = snd (requestPasswordReset (me_cfg env) email db)"
| "member_step env st (Reset_member email) db0 db = snd (requestPasswordResetForActiveMember (me_cfg env) email db)"
| "member_step env st (Consume token password) db0 db =
     saved db (consumePasswordReset (me_cfg env) token password db0 db)"
| "member_step env st (Add_to_workspace actor uid w role) db0 db =
     kept db (adminAddToWorkspace env actor uid w role st db0 db)"
| "member_step env st (Admin_create actor w email name role) db0 db =
     kept db (adminCreateMember env actor w email name role st db0 db)"
| "member_step env st (Admin_update actor w i role) db0 db = saved db (adminUpdateMember actor w i role db)"
| "member_step env st (Admin_deactivate actor w i) db0 db = saved db (adminDeactivateMember actor w i db)"
| "member_step env st (Admin_remove actor i) db0 db = saved db (adminRemoveFromWorkspace env actor i db0 db)"
| "member_step env st (Admin_reset actor email) db0 db = snd (adminTriggerPasswordReset (me_cfg env) actor email db)"
| "member_step env st (Admin_resend actor i) db0 db = snd (adminResendAccessLink (me_cfg env) actor i db)"
| "member_step env st (Add_alias actor w i email source) db0 db =
     kept db (addMemberEmailAlias env actor w i email source st db0 db)"
| "member_step env st (Merge actor w s t extra) db0 db =
     kept db (mergeWorkspaceMembers env actor w s t extra st db0 db)"
| "member_step env st (Sso w provider subject email name) db0 db =
     snd (linkOrProvisionSsoUser env w provider subject email name db0 db)"
| "member_step env st (Change_grant actor w email role active expected) db0 db =
     saved db (grant_change env actor w email role active expected db)"
| "member_step env st (Configure actor w expected command) db0 db =
     kept db (changeSupportConfiguration env actor w expected command db)"
| "member_step env st (Decide actor w i approve) db0 db =
     kept db (decideSupportAccessRequest env actor w i approve db)"

text \<open>
  A history of operations, each of which may have read in any state before, between steps
  of other modules, which satisfy \<open>other\<close>.
\<close>

inductive member_run :: "('l member_db \<Rightarrow> 'l member_db \<Rightarrow> bool) \<Rightarrow> 'l member_db \<Rightarrow> 'l member_db \<Rightarrow> bool"
  for other where
  run_none: "member_run other a a"
| run_op: "member_run other a db \<Longrightarrow> member_run other a (member_step env st op db0 db)"
| run_else: "member_run other a db \<Longrightarrow> other db db' \<Longrightarrow> member_run other a db'"

text \<open>The bulk invitations are histories of creations.\<close>

lemma invite_all_is_run:
  "member_run other a db \<Longrightarrow> member_run other a (snd (invite_all envs actor w st infos (report, db)))"
proof (induction infos arbitrary: envs report db)
  case (Cons info infos)
  let ?op = "Create actor w (ii_email info) (ii_displayName info)
      (case ii_role info of None \<Rightarrow> CONTRIBUTOR | Some r \<Rightarrow> r) (ii_kind info)"
  have "member_run other a (member_step (envs 0) st ?op db db)" by (rule run_op [OF Cons.prems])
  then show ?case using Cons.IH Cons.prems by (auto simp: kept_def split: sum.split)
qed simp

lemma bulk_invitation_is_run:
  "bulkInviteMembers envs actor w infos st db = Inr (report, db') \<Longrightarrow> member_run other db db'"
  by (auto simp: bulkInviteMembers_def result_simps) (metis invite_all_is_run run_none snd_conv)

lemma admin_invite_all_is_run:
  assumes "isGlobalOperator actor"
  shows "member_run other a db \<Longrightarrow> member_run other a (snd (admin_invite_all envs actor w st infos db))"
proof (induction infos arbitrary: envs db)
  case (Cons info infos)
  obtain email name role where info: "info = (email, name, role)" by (metis prod_cases3)
  have "member_run other a (member_step (envs 0) st
      (Admin_create actor w email (if name = Some [] then None else name) role) db db)"
    by (rule run_op [OF Cons.prems])
  then show ?case
    using Cons.IH Cons.prems assms
    by (auto simp: info kept_def adminCreateMember_def requireGlobalOperator_def split: sum.split)
qed simp

lemma admin_bulk_invitation_is_run: "member_run other db (snd (adminBulkInvite envs actor w infos st db))"
  using admin_invite_all_is_run [OF _ run_none]
  by (auto simp: adminBulkInvite_def requireGlobalOperator_def intro: run_none)

lemma kept_cases:
  assumes "P db" "\<And>x db'. r = Inr (x, db') \<Longrightarrow> P db'"
  shows "P (kept db r)"
  using assms by (auto simp: kept_def split: sum.split)

lemma saved_cases:
  assumes "P db" "\<And>db'. r = Inr db' \<Longrightarrow> P db'"
  shows "P (saved db r)"
  using assms by (auto simp: saved_def split: sum.split)

section \<open>Links\<close>

definition links_ok :: "reset_row list \<Rightarrow> bool" where
  "links_ok rs \<longleftrightarrow> distinct (map rs_id rs) \<and> distinct (map rs_tokenHash rs)"

text \<open>What every change keeps of a link: whose it is, and that it is used up.\<close>

definition same_link :: "reset_row \<Rightarrow> reset_row \<Rightarrow> bool" where
  "same_link r r' \<longleftrightarrow>
     rs_id r' = rs_id r \<and> rs_user r' = rs_user r \<and> rs_tokenHash r' = rs_tokenHash r \<and>
     rs_expiresAt r' = rs_expiresAt r \<and> (rs_usedAt r \<noteq> None \<longrightarrow> rs_usedAt r' \<noteq> None)"

definition links_move :: "reset_row list \<Rightarrow> reset_row list \<Rightarrow> bool" where
  "links_move rs rs' \<longleftrightarrow> (\<forall>r\<in>set rs. \<exists>r'\<in>set rs'. same_link r r') \<and> (links_ok rs \<longrightarrow> links_ok rs')"

lemma links_move_refl [intro, simp]: "links_move rs rs"
  by (auto simp: links_move_def same_link_def)

lemma same_link_trans: "same_link r s \<Longrightarrow> same_link s t \<Longrightarrow> same_link r t"
  by (simp add: same_link_def)

lemma links_move_trans: "links_move a b \<Longrightarrow> links_move b c \<Longrightarrow> links_move a c"
  unfolding links_move_def by (meson same_link_trans)

lemma links_move_map:
  assumes "\<And>r. same_link r (f r)"
  shows "links_move rs (map f rs)"
proof -
  have "rs_id \<circ> f = rs_id" "rs_tokenHash \<circ> f = rs_tokenHash"
    using assms by (auto simp: same_link_def fun_eq_iff)
  then show ?thesis using assms by (auto simp: links_move_def links_ok_def)
qed

lemma retire_moves: "links_move rs (retire_links cfg uid rs)"
  unfolding retire_links_def by (rule links_move_map) (simp add: same_link_def)

lemma create_link_moves:
  assumes "create_link cfg ttl uid rs = Inr rs'"
  shows "links_move rs rs'"
  using assms
  by (auto simp: create_link_def links_move_def links_ok_def same_link_def list_ex_iff split: if_splits)
    metis+

lemma issue_moves:
  assumes "issueSetupToken cfg uid db = Inr (t, db')"
  shows "links_move (md_resets db) (md_resets db')"
  using assms links_move_trans [OF retire_moves create_link_moves]
  by (auto simp: issueSetupToken_def result_simps)

lemma issue_frame:
  assumes "issueSetupToken cfg uid db = Inr (t, db')"
  shows "md_auth db' = md_auth db" "md_plans db' = md_plans db" "md_invites db' = md_invites db" "t = ac_token cfg"
  using assms by (auto simp: issueSetupToken_def result_simps)

lemma reset_issue_moves: "links_move (md_resets db) (md_resets (snd (issuePasswordResetToken cfg u db)))"
proof (cases "create_link cfg RESET_TOKEN_TTL_MS (us_id u) (retire_links cfg (us_id u) (md_resets db))")
  case (Inr rs)
  then show ?thesis
    using links_move_trans [OF retire_moves create_link_moves [OF Inr]] by (simp add: issuePasswordResetToken_def)
qed (simp add: issuePasswordResetToken_def retire_moves)

lemma request_moves: "links_move (md_resets db) (md_resets (snd (request_link cfg ok email db)))"
proof -
  have "snd (request_link cfg ok email db) \<in> insert db ((\<lambda>u. snd (issuePasswordResetToken cfg u db)) ` UNIV)"
    by (auto simp: request_link_def Let_def split: sum.splits option.splits prod.splits)
      (metis rangeI snd_conv)+
  then show ?thesis using reset_issue_moves by auto
qed

lemma set_password_moves:
  assumes "set_password cfg r pw db = Inr db'"
  shows "links_move (md_resets db) (md_resets db')"
  using assms links_move_map [of "\<lambda>x. if rs_id x = rs_id r then x\<lparr>rs_usedAt := Some (ac_now cfg)\<rparr> else x"]
  by (auto simp: set_password_def Let_def same_link_def split: if_splits)

lemma store_member_links:
  assumes "store_member env actor w info role skip st db = Inr (r, db')"
  shows "links_move (md_resets db) (md_resets db')"
proof -
  obtain auth t where "issueSetupToken (me_cfg env) (us_id (fst r)) (db\<lparr>md_auth := auth\<rparr>) = Inr (t, db')"
    using assms by (cases r) (auto simp: store_member_def Let_def result_simps split: prod.splits)
  then show ?thesis by (fastforce dest: issue_moves)
qed

lemma createMember_store:
  assumes "createMember env actor w email name role kind skip st db0 db = Inr (r, db')"
  obtains st' where "create_checks env actor w (normalizeEmail email) skip st db0 = Inr st'"
    "store_member env actor w (member_input email name kind) role skip st' db = Inr (r, db')"
  using assms by (auto simp: createMember_def Let_def result_simps member_input_def)

lemma inviteMember_create:
  assumes "inviteMember env actor w email name st db0 db = Inr (r, db')"
  obtains m st' where "member_access env actor w None st db0 = Inr (Some m, st')"
    "mb_role m = ADMIN \<or> getMemberInvitePolicy w db0 = MEMBERS_CAN_INVITE"
    "createMember env actor w email name CONTRIBUTOR None True st' db0 db = Inr (r, db')"
  using assms by (auto simp: inviteMember_def result_simps split: option.splits if_splits)

lemma approve_cases:
  obtains "snd (approveMemberInviteRequest env actor w i st db0 db) = db"
  | m q st' r db1 where "decidable_request env actor w i st db0 = Inr (m, q, st')"
      "createMember env actor w (iq_email q) (iq_displayName q) CONTRIBUTOR None False st' db0 db = Inr (r, db1)"
      "snd (approveMemberInviteRequest env actor w i st db0 db) =
         saved db1 (decide_request (me_cfg env) m i INVITE_APPROVED db1)"
proof (cases "decidable_request env actor w i st db0")
  case (Inl e)
  then show thesis by (simp add: approveMemberInviteRequest_def that(1))
next
  case (Inr d)
  obtain m q st' where d: "d = (m, q, st')" by (metis prod_cases3)
  show thesis
  proof (cases "createMember env actor w (iq_email q) (iq_displayName q) CONTRIBUTOR None False st' db0 db")
    case (Inl e)
    then show thesis by (simp add: approveMemberInviteRequest_def Inr d that(1))
  next
    case c: (Inr x)
    obtain r db1 where x: "x = (r, db1)" by (cases x)
    have "snd (approveMemberInviteRequest env actor w i st db0 db) =
        saved db1 (decide_request (me_cfg env) m i INVITE_APPROVED db1)"
      by (simp add: approveMemberInviteRequest_def Inr d c x saved_def split: sum.split)
    then show thesis using that(2) Inr d c x by blast
  qed
qed

lemma create_links:
  "createMember env actor w email name role kind skip st db0 db = Inr (r, db') \<Longrightarrow>
   links_move (md_resets db) (md_resets db')"
  by (blast elim: createMember_store intro: store_member_links)

lemma decide_frame:
  assumes "decide_request cfg m i s db = Inr db'"
  shows "md_auth db' = md_auth db" "md_resets db' = md_resets db" "md_plans db' = md_plans db"
  using assms by (auto simp: decide_request_def split: if_splits)

lemma saved_decide [simp]:
  "md_auth (saved db (decide_request cfg m i s db)) = md_auth db"
  "md_resets (saved db (decide_request cfg m i s db)) = md_resets db"
  by (rule saved_cases; simp add: decide_frame)+

lemma approve_links: "links_move (md_resets db) (md_resets (snd (approveMemberInviteRequest env actor w i st db0 db)))"
  by (rule approve_cases [of env actor w i st db0 db]) (auto dest: create_links)

lemma update_parts:
  assumes "updateMember env actor w i up st db0 db = Inr (r, db')"
  obtains st' x m u where "member_access env actor w admins st' db = Inr x"
    "update_checks env actor w i up db = Inr (m, u)" "store_update env actor w up m u db = Inr (r, db')"
  using assms by (auto simp: updateMember_def result_simps)

lemma store_update_links:
  assumes "store_update env actor w up m u db = Inr (r, db')"
  shows "links_move (md_resets db) (md_resets db')"
  using assms
  by (auto simp: store_update_def Let_def result_simps split: option.splits if_splits dest!: issue_moves)

lemma resend_links:
  assumes "resendMemberAccessLink env actor w i st db0 db = Inr (r, db')"
  shows "links_move (md_resets db) (md_resets db')"
  using assms
  by (auto simp: resendMemberAccessLink_def result_simps split: option.splits dest!: issue_moves)

lemma kept_links:
  assumes "\<And>x db'. r = Inr (x, db') \<Longrightarrow> links_move (md_resets db) (md_resets db')"
  shows "links_move (md_resets db) (md_resets (kept db r))"
  by (rule kept_cases) (simp_all add: assms)

lemma saved_links:
  assumes "\<And>db'. r = Inr db' \<Longrightarrow> links_move (md_resets db) (md_resets db')"
  shows "links_move (md_resets db) (md_resets (saved db r))"
  by (rule saved_cases) (simp_all add: assms)

lemma invite_links:
  "inviteMember env actor w email name st db0 db = Inr (r, db') \<Longrightarrow> links_move (md_resets db) (md_resets db')"
  by (blast elim: inviteMember_create intro: create_links)

lemma update_links:
  "updateMember env actor w i up st db0 db = Inr (r, db') \<Longrightarrow> links_move (md_resets db) (md_resets db')"
  by (blast elim: update_parts intro: store_update_links)

lemma policy_frame:
  assumes "updateMemberInvitePolicy env actor w policy st db = Inr db'"
  shows "md_auth db' = md_auth db" "md_resets db' = md_resets db" "md_invites db' = md_invites db"
  using assms by (auto simp: updateMemberInvitePolicy_def result_simps Let_def)

lemma request_frame:
  assumes "requestMemberInvite env actor w email name st db = Inr (q, db')"
  shows "md_auth db' = md_auth db" "md_resets db' = md_resets db" "md_plans db' = md_plans db"
  using assms by (auto simp: requestMemberInvite_def result_simps Let_def split: option.splits if_splits)

lemma reject_frame:
  assumes "rejectMemberInviteRequest env actor w i st db0 db = Inr db'"
  shows "md_auth db' = md_auth db" "md_resets db' = md_resets db" "md_plans db' = md_plans db"
  using assms by (auto simp: rejectMemberInviteRequest_def result_simps decide_frame)

lemma consume_parts:
  assumes "consumePasswordReset cfg token pw db0 db = Inr db'"
  obtains r where "usable_link cfg token pw db0 = Inr r" "set_password cfg r pw db = Inr db'"
  using assms by (auto simp: consumePasswordReset_def result_simps)

lemma find_in_set: "find P xs = Some x \<Longrightarrow> x \<in> set xs \<and> P x"
  by (induction xs) (auto split: if_splits)

text \<open>The operations outside of \<open>members.ts\<close>: what they leave alone.\<close>

lemma alias_frame:
  assumes "writeMemberEmailAlias w i email source by allowed db = Inr (a, db')"
  shows "md_auth db' = md_auth db" "md_resets db' = md_resets db" "md_invites db' = md_invites db"
  using assms
  by (auto simp: writeMemberEmailAlias_def Let_def result_simps split: option.splits if_splits)

lemma add_alias_frame:
  assumes "addMemberEmailAlias env actor w i email source st db0 db = Inr (a, db')"
  shows "md_auth db' = md_auth db" "md_resets db' = md_resets db"
proof -
  obtain m where 1: "find (\<lambda>m. am_id m = i) (tb_members (md_auth db)) = Some m"
    using assms by (auto simp: addMemberEmailAlias_def and_then_Inr_iff split: option.splits)
  obtain label row where "writeMemberEmailAlias w i email label (acting_user_id actor) [i] db = Inr (row, db')"
    using assms
    by (fastforce simp: addMemberEmailAlias_def and_then_Inr_iff 1 simp del: and_then_invariant split: option.splits)
  then show "md_auth db' = md_auth db" "md_resets db' = md_resets db" using alias_frame by metis+
qed

lemma merge_aliases_frame:
  assumes "write_merge_aliases w t by allowed es db = Inr db'"
  shows "md_auth db' = md_auth db \<and> md_resets db' = md_resets db"
  using assms
proof (induction es arbitrary: db)
  case (Cons e es)
  then obtain a db1 where "writeMemberEmailAlias w t e ''MERGE'' by allowed db = Inr (a, db1)"
      "write_merge_aliases w t by allowed es db1 = Inr db'"
    by (auto simp: result_simps)
  then show ?case using Cons.IH alias_frame by metis
qed simp

lemma merge_parts:
  assumes "mergeWorkspaceMembers env actor w s t extra st db0 db = Inr (r, db')"
  obtains st' x source su target tu db1 where "s \<noteq> t" "member_access env actor w admins st' db = Inr x"
    "merge_checks env w s t db = Inr ((source, su), (target, tu))"
    "md_auth db1 = md_auth db" "md_resets db1 = md_resets db"
    "db' = snd (store_merge env actor w source target (fst r) db1)"
proof -
  obtain y st' x source su target tu where 1: "s \<noteq> t" "member_access env actor w admins st' db = Inr x"
    "merge_checks env w s t db = Inr ((source, su), (target, tu))"
    "member_access env actor w admins st db0 = Inr (y, st')"
    using assms unfolding mergeWorkspaceMembers_def and_then_Inr_iff
    by (auto simp: and_then_Inr_iff split: if_splits)
  let ?al = "mergeAliasEmails (us_email su)
      (map ea_email (filter (\<lambda>a. ea_member a = s) (md_aliases db))) (us_email tu) extra"
  obtain db1 where a: "write_merge_aliases w t (acting_user_id actor) [s, t] ?al db = Inr db1"
    and m: "store_merge env actor w source target ?al db1 = (r, db')"
    using assms by (auto simp: mergeWorkspaceMembers_def 1 Let_def and_then_Inr_iff)
  have "fst r = ?al" using m by (auto simp: store_merge_def Let_def split: prod.splits)
  then have "db' = snd (store_merge env actor w source target (fst r) db1)" using m by simp
  then show thesis using that [OF 1(1-3)] merge_aliases_frame [OF a] by blast
qed

lemma store_merge_frame:
  "md_resets (snd (store_merge env actor w source target aliases db)) = md_resets db"
  by (simp add: store_merge_def Let_def split: prod.split)

lemma merge_links:
  "mergeWorkspaceMembers env actor w s t extra st db0 db = Inr (r, db') \<Longrightarrow> md_resets db' = md_resets db"
  by (erule merge_parts) (simp add: store_merge_frame)

lemma admin_add_parts:
  assumes "adminAddToWorkspace env actor uid w role st db0 db = Inr (r, db')"
  obtains u where "isGlobalOperator actor" "find_user uid (tb_users (md_auth db0)) = Some u"
    "createMember env actor w (us_email u) (us_displayName u) role None False st db0 db = Inr (r, db')"
  using assms
  by (auto simp: adminAddToWorkspace_def requireGlobalOperator_def result_simps split: option.splits if_splits)

lemma admin_create_parts:
  assumes "adminCreateMember env actor w email name role st db0 db = Inr (r, db')"
  shows "isGlobalOperator actor" "createMember env actor w email name role None True st db0 db = Inr (r, db')"
  using assms by (auto simp: adminCreateMember_def requireGlobalOperator_def result_simps split: if_splits)

lemma unmanagedD:
  assumes "unmanaged_member w i db = Inr m"
  shows "m \<in> set (tb_members (md_auth db))" "am_id m = i" "am_workspace m = w"
    "requireUnmanagedMember w (am_user m) (md_auth db) = Inr ()"
  using assms by (auto simp: unmanaged_member_def result_simps split: option.splits dest!: find_in_set)

lemma admin_update_parts:
  assumes "adminUpdateMember actor w i role db = Inr db'"
  obtains m where "isGlobalOperator actor" "unmanaged_member w i db = Inr m"
    "db' = change_member i (\<lambda>x. x\<lparr>am_role := role\<rparr>) db"
  using assms
  by (auto simp: adminUpdateMember_def requireGlobalOperator_def result_simps unmanagedD(2) split: if_splits)

lemma admin_deactivate_parts:
  assumes "adminDeactivateMember actor w i db = Inr db'"
  obtains m where "isGlobalOperator actor" "unmanaged_member w i db = Inr m"
    "db' = change_member i (\<lambda>x. x\<lparr>am_active := False\<rparr>) db"
  using assms
  by (auto simp: adminDeactivateMember_def requireGlobalOperator_def result_simps unmanagedD(2) split: if_splits)

lemma admin_remove_parts:
  assumes "adminRemoveFromWorkspace env actor i db0 db = Inr db'"
  obtains w m where "isGlobalOperator actor" "unmanaged_member w i db = Inr m" "remove_member_row env i db = Inr db'"
  using assms
  by (auto simp: adminRemoveFromWorkspace_def requireGlobalOperator_def result_simps unmanagedD(2)
      split: option.splits if_splits)

lemma change_member_frame [simp]:
  "md_resets (change_member i f db) = md_resets db"
  "tb_members (md_auth (change_member i f db)) = map (\<lambda>x. if am_id x = i then f x else x) (tb_members (md_auth db))"
  by (simp_all add: change_member_def)

lemma remove_frame:
  assumes "remove_member_row env i db = Inr db'"
  shows "md_resets db' = md_resets db" "tb_members (md_auth db') = filter (\<lambda>x. am_id x \<noteq> i) (tb_members (md_auth db))"
  using assms by (auto simp: remove_member_row_def result_simps)

lemma admin_reset_frame:
  "snd (adminTriggerPasswordReset cfg actor email db) \<in> {db, snd (requestPasswordReset cfg email db)}"
  by (auto simp: adminTriggerPasswordReset_def split: sum.splits option.splits prod.splits)

lemma admin_resend_frame:
  "snd (adminResendAccessLink cfg actor i db) \<in> insert db ((\<lambda>e. snd (requestPasswordReset cfg e db)) ` UNIV)"
  by (auto simp: adminResendAccessLink_def split: sum.splits option.splits prod.splits) (metis rangeI snd_conv)+

lemma ensure_frame:
  assumes "ensureSsoMembership cfg w uid db = Inr db'"
  shows "md_resets db' = md_resets db"
    "tb_members (md_auth db') = tb_members (md_auth db) \<or>
     (\<exists>n. tb_members (md_auth db') = tb_members (md_auth db) @ [n] \<and> am_workspace n = w \<and> am_user n = uid \<and>
        am_role n = CONTRIBUTOR \<and> am_active n \<and> find_grant w uid (tb_grants (md_auth db)) = None \<and>
        find_member w uid (tb_members (md_auth db)) = None \<and> (\<forall>x\<in>set (tb_members (md_auth db)). am_id x \<noteq> am_id n))"
  using assms by (auto simp: ensureSsoMembership_def Let_def list_ex_iff split: if_splits)

lemma sso_account_frame:
  assumes "sso_account env email name known db = Inr (u, db')"
  shows "md_resets db' = md_resets db" "tb_members (md_auth db') = tb_members (md_auth db)"
    "tb_grants (md_auth db') = tb_grants (md_auth db)"
  using assms by (auto simp: sso_account_def Let_def split: option.splits if_splits)

lemma link_identity_frame [simp]:
  "md_resets (link_identity p s uid e db) = md_resets db" "md_auth (link_identity p s uid e db) = md_auth db"
  by (simp_all add: link_identity_def)

lemma sso_cases:
  obtains db1 and u :: user_row and db2 where "md_resets db1 = md_resets db" "tb_members (md_auth db1) = tb_members (md_auth db)"
      "tb_grants (md_auth db1) = tb_grants (md_auth db)" "ensureSsoMembership (me_cfg env) w (us_id u) db1 = Inr db2"
      "snd (linkOrProvisionSsoUser env w p s e n db0 db) = db2"
  | "md_resets (snd (linkOrProvisionSsoUser env w p s e n db0 db)) = md_resets db"
    "tb_members (md_auth (snd (linkOrProvisionSsoUser env w p s e n db0 db))) = tb_members (md_auth db)"
proof -
  let ?r = "linkOrProvisionSsoUser env w p s e n db0 db"
  show thesis
  proof (cases "sso_reads p s (normalizeEmail e) db0")
    case (Inl err)
    then show thesis by (intro that(2)) (simp_all add: linkOrProvisionSsoUser_def Let_def)
  next
    case (Inr found)
    obtain known user where f: "found = (known, user)" by (cases found)
    show thesis
    proof (cases known)
      case (Some u)
      show thesis
      proof (cases "ensureSsoMembership (me_cfg env) w (us_id u) db")
        case (Inl err)
        then show thesis
          using \<open>sso_reads p s (normalizeEmail e) db0 = Inr found\<close> f Some
          by (intro that(2)) (simp_all add: linkOrProvisionSsoUser_def Let_def)
      next
        case (Inr db')
        then show thesis
          using \<open>sso_reads p s (normalizeEmail e) db0 = Inr found\<close> f Some
          by (intro that(1) [of db u db']) (simp_all add: linkOrProvisionSsoUser_def Let_def)
      qed
    next
      case None
      show thesis
      proof (cases "sso_account env (normalizeEmail e) n user db")
        case (Inl err)
        then show thesis using Inr f None by (intro that(2)) (simp_all add: linkOrProvisionSsoUser_def Let_def)
      next
        case (Inr made)
        obtain u db1 where m: "made = (u, db1)" by (cases made)
        note a = sso_account_frame [OF Inr [unfolded m]]
        let ?db2 = "link_identity p s (us_id u) (normalizeEmail e) db1"
        note r = linkOrProvisionSsoUser_def \<open>sso_reads p s (normalizeEmail e) db0 = Inr found\<close> f None Inr m Let_def
        show thesis
        proof (cases "ensureSsoMembership (me_cfg env) w (us_id u) ?db2")
          case (Inl err)
          then show thesis by (intro that(2)) (simp_all add: r a)
        next
          case (Inr db')
          then show thesis by (intro that(1) [of ?db2 u db']) (simp_all add: r a)
        qed
      qed
    qed
  qed
qed

lemma sso_links: "md_resets (snd (linkOrProvisionSsoUser env w p s e n db0 db)) = md_resets db"
  by (rule sso_cases [of db env w p s e n db0]) (auto dest: ensure_frame(1))

lemma grant_change_parts:
  assumes "grant_change env actor w email role active expected db = Inr db'"
  obtains g auth where "changeWorkspaceSupportGrant (me_cfg env) (me_close_roles env) actor w email role active expected
      (md_auth db) = Inr (g, auth)" "db' = db\<lparr>md_auth := auth\<rparr>"
  using assms by (auto simp: grant_change_def result_simps)

lemma command_account_frame:
  assumes "command_account env w email db = Inr (uid, delivery, db')"
  shows "links_move (md_resets db) (md_resets db')" "tb_members (md_auth db') = tb_members (md_auth db)"
  using assms
  by (auto simp: command_account_def Let_def result_simps split: option.splits if_splits dest: issue_moves issue_frame(1))

lemma emit_frame [simp]:
  "md_resets (emit_member w a i p db) = md_resets db" "tb_members (md_auth (emit_member w a i p db)) = tb_members (md_auth db)"
  "md_resets (support_audit cfg w uid a e i p db) = md_resets db"
  "tb_members (md_auth (support_audit cfg w uid a e i p db)) = tb_members (md_auth db)"
  "md_resets (store_policy cfg w policy db) = md_resets db" "md_auth (store_policy cfg w policy db) = md_auth db"
  "md_resets (decided_access cfg i uid approve db) = md_resets db" "md_auth (decided_access cfg i uid approve db) = md_auth db"
  by (simp_all add: emit_member_def support_audit_def store_policy_def Let_def decided_access_def)

lemma apply_links:
  assumes "applyConfiguration env actor w uid grant command db = Inr (delivery, db')"
  shows "links_move (md_resets db) (md_resets db')"
  using assms
  by (cases command)
    (auto simp: applyConfiguration_def apply_member_def apply_addMember_def Let_def result_simps split: if_splits
      dest!: command_account_frame(1))

lemma configure_parts:
  assumes "changeSupportConfiguration env actor w expected command db = Inr (r, db')"
  obtains uid grant delivery where "authorize_support (me_cfg env) actor w expected (md_auth db) = Inr (uid, grant)"
      "sg_role grant = SR_setup \<longrightarrow> (\<exists>target. accessChange w command db = Inr (False, target))"
      "applyConfiguration env actor w uid grant command db = Inr (delivery, db')"
  | "md_resets db' = md_resets db" "tb_members (md_auth db') = tb_members (md_auth db)"
proof -
  obtain uid grant where 1: "authorize_support (me_cfg env) actor w expected (md_auth db) = Inr (uid, grant)"
    using assms by (auto simp: changeSupportConfiguration_def and_then_Inr_iff simp del: and_then_invariant)
  let ?run = "and_then (applyConfiguration env actor w uid grant command db) (\<lambda>(delivery, db'). Inr ((None, delivery), db'))"
  have 2: "(if sg_role grant = SR_setup then and_then (accessChange w command db) (\<lambda>(approval, target).
        if approval then and_then (request_access env w uid grant command target db) (\<lambda>(i, db'). Inr ((Some i, []), db'))
        else ?run)
      else ?run) = Inr (r, db')"
    using assms unfolding changeSupportConfiguration_def 1 Let_def
    by (cases "0 < expected \<and> expected \<le> max_safe_integer")
      (auto simp: and_then_Inr_iff 1 simp del: split_paired_Ex)
  have run: "\<exists>delivery. applyConfiguration env actor w uid grant command db = Inr (delivery, db')" if "?run = Inr (r, db')"
    using that by (auto simp: and_then_Inr_iff)
  show thesis
  proof (cases "sg_role grant = SR_setup")
    case False
    then show thesis using that(1) [OF 1] run 2 by auto
  next
    case True
    then obtain approval target where 3: "accessChange w command db = Inr (approval, target)"
      using 2 by (auto simp: and_then_Inr_iff)
    show thesis
    proof (cases approval)
      case False
      then show thesis using that(1) [OF 1] run 2 3 True by auto
    next
      case approval: True
      then obtain i where "request_access env w uid grant command target db = Inr (i, db')"
        using 2 3 True by (auto simp: and_then_Inr_iff)
      then show thesis
        by (intro that(2)) (auto simp: request_access_def Let_def result_simps split: if_splits)
    qed
  qed
qed

lemma configure_links:
  assumes "changeSupportConfiguration env actor w expected command db = Inr (r, db')"
  shows "links_move (md_resets db) (md_resets db')"
  using assms by (rule configure_parts) (auto intro: apply_links)

lemma decide_parts:
  assumes "decideSupportAccessRequest env actor w i approve db = Inr (r, db')"
  obtains owner q db1 where "requireSupportOwner (me_cfg env) actor w (md_auth db) = Inr owner"
    "find (\<lambda>q. aq_id q = i \<and> aq_workspace q = w) (md_access db) = Some q" "aq_status q = INVITE_PENDING"
    "if approve then \<exists>delivery. approve_access env actor w owner q db = Inr (delivery, db1) else db1 = db"
    "md_resets db' = md_resets db1" "tb_members (md_auth db') = tb_members (md_auth db1)"
proof -
  obtain owner where 1: "requireSupportOwner (me_cfg env) actor w (md_auth db) = Inr owner"
    using assms by (auto simp: decideSupportAccessRequest_def and_then_Inr_iff)
  obtain q where 2: "find (\<lambda>q. aq_id q = i \<and> aq_workspace q = w) (md_access db) = Some q"
    using assms by (auto simp: decideSupportAccessRequest_def 1 split: option.splits)
  have 3: "aq_status q = INVITE_PENDING"
    using assms by (auto simp: decideSupportAccessRequest_def 1 2 split: if_splits)
  obtain d db1 where 4: "(if approve then approve_access env actor w owner q db else Inr ([], db)) = Inr (d, db1)"
    and 5: "md_resets db' = md_resets db1" "tb_members (md_auth db') = tb_members (md_auth db1)"
    using assms by (auto simp: decideSupportAccessRequest_def 1 2 3 and_then_Inr_iff)
  show thesis by (rule that [OF 1 2 3 _ 5]) (use 4 in \<open>auto split: if_splits\<close>)
qed

lemma approve_access_parts:
  assumes "approve_access env actor w owner q db = Inr (delivery, db')"
  obtains grant where "grant \<in> set (tb_grants (md_auth db))" "sg_id grant = aq_grant q" "sg_workspace grant = w"
    "sg_user grant = aq_requester q" "sg_version grant = aq_version q" "sg_active grant" "sg_role grant = SR_setup"
    "applyConfiguration env actor w owner grant (aq_command q) db = Inr (delivery, db')"
  using assms by (auto simp: approve_access_def result_simps split: option.splits if_splits dest!: find_in_set)

lemma decide_links:
  assumes "decideSupportAccessRequest env actor w i approve db = Inr (r, db')"
  shows "links_move (md_resets db) (md_resets db')"
  using assms
  by (rule decide_parts) (auto split: if_splits elim!: approve_access_parts dest: apply_links)

lemma step_links: "links_move (md_resets db) (md_resets (member_step env st op db0 db))"
proof (cases op)
  case (Consume token pw)
  then show ?thesis by (auto intro!: saved_links elim!: consume_parts dest: set_password_moves)
next
  case (Add_to_workspace actor uid w role)
  then show ?thesis by (auto intro!: kept_links elim!: admin_add_parts dest: create_links)
next
  case (Admin_create actor w email name role)
  then show ?thesis by (auto intro!: kept_links dest!: admin_create_parts(2) create_links)
next
  case (Admin_update actor w i role)
  then show ?thesis by (auto intro!: saved_links elim!: admin_update_parts)
next
  case (Admin_deactivate actor w i)
  then show ?thesis by (auto intro!: saved_links elim!: admin_deactivate_parts)
next
  case (Admin_remove actor i)
  then show ?thesis by (auto intro!: saved_links elim!: admin_remove_parts simp: remove_frame)
next
  case (Admin_reset actor email)
  then show ?thesis
    using admin_reset_frame [of "me_cfg env" actor email db] by (auto simp: requestPasswordReset_def request_moves)
next
  case (Admin_resend actor i)
  then show ?thesis
    using admin_resend_frame [of "me_cfg env" actor i db] by (auto simp: requestPasswordReset_def request_moves)
next
  case (Change_grant actor w email role active expected)
  then show ?thesis by (auto intro!: saved_links elim!: grant_change_parts)
qed (simp_all add: kept_links saved_links create_links invite_links update_links resend_links policy_frame
    request_frame reject_frame approve_links requestPasswordReset_def requestPasswordResetForActiveMember_def
    request_moves add_alias_frame merge_links sso_links configure_links decide_links)

definition keeps_links :: "'l member_db \<Rightarrow> 'l member_db \<Rightarrow> bool" where
  "keeps_links db db' \<longleftrightarrow> links_move (md_resets db) (md_resets db')"

lemma run_links: "member_run keeps_links db db' \<Longrightarrow> links_move (md_resets db) (md_resets db')"
  by (induction rule: member_run.induct)
    (auto simp: keeps_links_def intro: links_move_trans step_links)

definition spent :: "auth_config \<Rightarrow> string \<Rightarrow> 'l member_db \<Rightarrow> bool" where
  "spent cfg token db \<longleftrightarrow> (\<exists>r\<in>set (md_resets db). rs_tokenHash r = ac_sha256 cfg token \<and> rs_usedAt r \<noteq> None)"

lemma spent_moves:
  assumes "links_move (md_resets db) (md_resets db')" "spent cfg token db"
  shows "spent cfg token db'"
  using assms unfolding links_move_def spent_def same_link_def by metis

lemma spent_link_refused:
  assumes "spent cfg token db" "links_ok (md_resets db)"
  shows "\<exists>e. usable_link cfg token pw db = Inl e"
proof -
  obtain r where r: "r \<in> set (md_resets db)" "rs_tokenHash r = ac_sha256 cfg token" "rs_usedAt r \<noteq> None"
    using assms(1) by (auto simp: spent_def)
  have "find (\<lambda>x. rs_tokenHash x = ac_sha256 cfg token) (md_resets db) = Some r"
    using find_by_key [of rs_tokenHash "md_resets db" r] assms(2) r by (simp add: links_ok_def)
  then show ?thesis using r(3) by (auto simp: usable_link_def result_simps)
qed

lemma retire_spends:
  "r \<in> set rs \<Longrightarrow> \<exists>r'\<in>set (retire_links cfg (rs_user r) rs). rs_tokenHash r' = rs_tokenHash r \<and> rs_usedAt r' \<noteq> None"
proof (rule bexI [of _ "if rs_usedAt r = None then r\<lparr>rs_usedAt := Some (ac_now cfg)\<rparr> else r"])
qed (auto simp: retire_links_def)

lemma usable_linkD:
  assumes "usable_link cfg token pw db = Inr r"
  shows "r \<in> set (md_resets db)" "rs_tokenHash r = ac_sha256 cfg token" "rs_usedAt r = None"
    "ac_now cfg < rs_expiresAt r"
  using assms by (auto simp: usable_link_def result_simps dest: find_in_set split: option.splits if_splits)

lemma create_keeps: "create_link cfg ttl uid rs = Inr rs' \<Longrightarrow> set rs \<subseteq> set rs'"
  by (auto simp: create_link_def split: if_splits)

lemma issue_spends:
  assumes "issueSetupToken cfg (rs_user r) db = Inr (new, db')" "r \<in> set (md_resets db)"
    "rs_tokenHash r = ac_sha256 cfg token"
  shows "spent cfg token db'"
proof -
  obtain rs where "create_link cfg SETUP_TOKEN_TTL_MS (rs_user r) (retire_links cfg (rs_user r) (md_resets db)) = Inr rs"
    "db' = db\<lparr>md_resets := rs\<rparr>"
    using assms(1) by (auto simp: issueSetupToken_def result_simps)
  then show ?thesis
    using create_keeps retire_spends [OF assms(2)] assms(3) unfolding spent_def by fastforce
qed

lemma reset_issue_spends:
  assumes "r \<in> set (md_resets db)" "rs_tokenHash r = ac_sha256 cfg token" "us_id u = rs_user r"
  shows "spent cfg token (snd (issuePasswordResetToken cfg u db))"
proof (cases "create_link cfg RESET_TOKEN_TTL_MS (us_id u) (retire_links cfg (us_id u) (md_resets db))")
  case (Inl e)
  then show ?thesis
    using retire_spends [OF assms(1)] assms(2,3) by (simp add: issuePasswordResetToken_def spent_def)
next
  case (Inr rs)
  then show ?thesis
    using create_keeps [OF Inr] retire_spends [OF assms(1)] assms(2,3)
    unfolding spent_def by (fastforce simp: issuePasswordResetToken_def)
qed

lemma consume_spends:
  assumes "links_ok (md_resets db)" "links_move (md_resets db0) (md_resets db)"
    "consumePasswordReset cfg token pw db0 db = Inr db'"
  shows "spent cfg token db'"
proof -
  obtain r where r: "r \<in> set (md_resets db0)" "rs_tokenHash r = ac_sha256 cfg token"
    and set: "set_password cfg r pw db = Inr db'"
    using assms(3) by (metis consume_parts usable_linkD(1,2))
  obtain r' where "r' \<in> set (md_resets db)" "rs_id r' = rs_id r" "rs_tokenHash r' = rs_tokenHash r"
    using assms(2) r(1) unfolding links_move_def same_link_def by metis
  moreover have "md_resets db' = map (\<lambda>x. if rs_id x = rs_id r then x\<lparr>rs_usedAt := Some (ac_now cfg)\<rparr> else x) (md_resets db)"
    using set by (auto simp: set_password_def Let_def split: if_splits)
  ultimately have "r'\<lparr>rs_usedAt := Some (ac_now cfg)\<rparr> \<in> set (md_resets db')" by force
  then show ?thesis
    using \<open>rs_tokenHash r' = rs_tokenHash r\<close> r(2) unfolding spent_def
    by (intro bexI [of _ "r'\<lparr>rs_usedAt := Some (ac_now cfg)\<rparr>"]) auto
qed

end
