(* ===== verification/Member_Authority.thy ===== *)
theory Member_Authority
  imports Member_Facts
begin

text \<open>
  Who changes the members of a workspace, how a workspace loses its last administrator, and the facts
  that lead from an invitation to a session.
\<close>

section \<open>Who changes members\<close>

text \<open>One row \<open>n\<close> is new, or takes the place of the row with its id.\<close>

definition puts :: "auth_member \<Rightarrow> auth_member list \<Rightarrow> auth_member list \<Rightarrow> bool" where
  "puts n ms ms' \<longleftrightarrow>
     (\<forall>x\<in>set ms. am_id x \<noteq> am_id n) \<and> ms' = ms @ [n] \<or>
     (\<exists>m\<in>set ms. am_id m = am_id n \<and> am_workspace m = am_workspace n \<and> am_user m = am_user n) \<and>
     ms' = map (\<lambda>x. if am_id x = am_id n then n else x) ms"

abbreviation members_of :: "'l member_db \<Rightarrow> auth_member list" where
  "members_of db \<equiv> tb_members (md_auth db)"

lemma same_id: "distinct (map am_id ms) \<Longrightarrow> x \<in> set ms \<Longrightarrow> y \<in> set ms \<Longrightarrow> am_id x = am_id y \<Longrightarrow> x = y"
  by (metis find_by_key option.inject)

lemma puts_new: "puts n ms ms' \<Longrightarrow> x \<in> set ms' \<Longrightarrow> x \<notin> set ms \<Longrightarrow> x = n"
  by (auto simp: puts_def split: if_splits)

lemma upsert_account_frame:
  assumes "upsert_account env email name auth = Inr (u, auth')"
  shows "tb_members auth' = tb_members auth" "tb_grants auth' = tb_grants auth"
    "tb_workspaces auth' = tb_workspaces auth" "tb_sessions auth' = tb_sessions auth"
  using assms by (auto simp: upsert_account_def Let_def split: option.splits if_splits)

lemma record_member_frame [simp]:
  "tb_members (record_member actor w a i meta p auth) = tb_members auth"
  "tb_users (record_member actor w a i meta p auth) = tb_users auth"
  "tb_sessions (record_member actor w a i meta p auth) = tb_sessions auth"
  "tb_grants (record_member actor w a i meta p auth) = tb_grants auth"
  "tb_workspaces (record_member actor w a i meta p auth) = tb_workspaces auth"
  by (simp_all add: record_member_def)

lemma upsert_member_puts:
  assumes "upsert_member cfg w uid role kind auth = Inr (n, auth')"
  shows "puts n (tb_members auth) (tb_members auth')"
    "am_workspace n = w" "am_user n = uid" "am_role n = role" "am_active n"
    "tb_users auth' = tb_users auth" "tb_sessions auth' = tb_sessions auth" "tb_grants auth' = tb_grants auth"
    "tb_workspaces auth' = tb_workspaces auth"
  using assms
  by (auto simp: upsert_member_def Let_def puts_def find_member_def list_ex_iff split: option.splits if_splits
      dest: find_in_set)

lemma store_member_parts:
  assumes "store_member env actor w info role skip st db = Inr ((u, n, token), db')"
  obtains auth1 auth2 where "skip \<or> (\<exists>x. member_access env actor w admins st db = Inr x)"
    "upsert_account env (fst info) (fst (snd info)) (md_auth db) = Inr (u, auth1)"
    "requireUnmanagedMember w (us_id u) auth1 = Inr ()"
    "upsert_member (me_cfg env) w (us_id u) role (snd (snd info)) auth1 = Inr (n, auth2)"
    "\<exists>meta payload. issueSetupToken (me_cfg env) (us_id u)
       (db\<lparr>md_auth := record_member actor w ''member.created'' (am_id n) meta payload auth2\<rparr>) = Inr (token, db')"
  using assms by (auto simp: store_member_def Let_def result_simps split: if_splits)

lemma store_member_puts:
  assumes "store_member env actor w info role skip st db = Inr (r, db')"
  shows "\<exists>n. puts n (members_of db) (members_of db') \<and> am_workspace n = w \<and> am_role n = role \<and> am_active n \<and>
    fst (snd r) = n \<and> am_user n = us_id (fst r)"
    "skip \<or> (\<exists>x. member_access env actor w admins st db = Inr x)"
proof -
  obtain u n token where r: "r = (u, n, token)" by (metis prod_cases3)
  obtain auth1 auth2 meta payload where p: "skip \<or> (\<exists>x. member_access env actor w admins st db = Inr x)"
    "upsert_account env (fst info) (fst (snd info)) (md_auth db) = Inr (u, auth1)"
    "upsert_member (me_cfg env) w (us_id u) role (snd (snd info)) auth1 = Inr (n, auth2)"
    "issueSetupToken (me_cfg env) (us_id u)
       (db\<lparr>md_auth := record_member actor w ''member.created'' (am_id n) meta payload auth2\<rparr>) = Inr (token, db')"
    using assms unfolding r by (blast elim: store_member_parts)
  show "skip \<or> (\<exists>x. member_access env actor w admins st db = Inr x)" by (rule p(1))
  show "\<exists>n. puts n (members_of db) (members_of db') \<and> am_workspace n = w \<and> am_role n = role \<and> am_active n \<and>
      fst (snd r) = n \<and> am_user n = us_id (fst r)"
    using upsert_member_puts [OF p(3)] upsert_account_frame(1) [OF p(2)] issue_frame(1) [OF p(4)]
    by (auto simp: r)
qed

lemma keys_kept [simp]:
  "am_id (updated_member up u m) = am_id m" "am_workspace (updated_member up u m) = am_workspace m"
  "am_user (updated_member up u m) = am_user m"
  by (simp_all add: updated_member_def)

lemma update_checksD:
  assumes "update_checks env actor w i up db = Inr (m, u)"
  shows "m \<in> set (members_of db)" "am_id m = i" "am_workspace m = w" "find_user (am_user m) (tb_users (md_auth db)) = Some u"
    "keeps_admin w up m (md_auth db) = Inr ()" "requireUnmanagedMember w (am_user m) (md_auth db) = Inr ()"
proof -
  obtain m' where m': "find (\<lambda>m. am_id m = i \<and> am_workspace m = w) (members_of db) = Some m'"
    using assms by (cases "find (\<lambda>m. am_id m = i \<and> am_workspace m = w) (members_of db)")
      (auto simp: update_checks_def Let_def)
  obtain u' where u': "find_user (am_user m') (tb_users (md_auth db)) = Some u'"
    using assms by (cases "find_user (am_user m') (tb_users (md_auth db))") (auto simp: update_checks_def Let_def m')
  have "m' = m \<and> u' = u \<and> keeps_admin w up m' (md_auth db) = Inr () \<and>
      requireUnmanagedMember w (am_user m') (md_auth db) = Inr ()"
    using assms by (auto simp: update_checks_def Let_def m' u' result_simps simp del: and_then_invariant)
  then show "m \<in> set (members_of db)" "am_id m = i" "am_workspace m = w"
      "find_user (am_user m) (tb_users (md_auth db)) = Some u" "keeps_admin w up m (md_auth db) = Inr ()"
      "requireUnmanagedMember w (am_user m) (md_auth db) = Inr ()"
    using find_in_set [OF m'] u' by auto
qed

lemma store_update_members:
  assumes "store_update env actor w up m u db = Inr (r, db')"
  shows "members_of db' = map (\<lambda>x. if am_id x = am_id m then updated_member up u m else x) (members_of db)"
  using assms
  by (auto simp: store_update_def Let_def result_simps split: option.splits if_splits dest!: issue_frame(1))

lemma resend_members:
  "resendMemberAccessLink env actor w i st db0 db = Inr (r, db') \<Longrightarrow> members_of db' = members_of db"
  by (auto simp: resendMemberAccessLink_def result_simps split: option.splits dest!: issue_frame(1))

lemma request_link_auth: "md_auth (snd (request_link cfg ok email db)) = md_auth db"
  by (auto simp: request_link_def Let_def issuePasswordResetToken_def split: sum.splits option.splits prod.splits)

lemma set_password_members: "set_password cfg r pw db = Inr db' \<Longrightarrow> members_of db' = members_of db"
  by (auto simp: set_password_def Let_def split: if_splits)

text \<open>
  The authority behind a change of members: an administrator's check inside the transaction, or the
  standing of the inviting member under the invite policy.
\<close>

definition admin_now :: "'l member_env \<Rightarrow> auth_actor \<Rightarrow> string \<Rightarrow> 'l member_db \<Rightarrow> bool" where
  "admin_now env actor w db \<longleftrightarrow> (\<exists>st x. member_access env actor w admins st db = Inr x)"

definition may_invite :: "'l member_env \<Rightarrow> auth_actor \<Rightarrow> string \<Rightarrow> support_store \<Rightarrow> 'l member_db \<Rightarrow> bool" where
  "may_invite env actor w st db \<longleftrightarrow>
     (\<exists>m st'. member_access env actor w None st db = Inr (Some m, st') \<and>
        (mb_role m = ADMIN \<or> getMemberInvitePolicy w db = MEMBERS_CAN_INVITE))"

text \<open>One row changes; a row of workspace \<open>w\<close> with the role \<open>role\<close> that is active.\<close>

definition one_row :: "(auth_member \<Rightarrow> bool) \<Rightarrow> auth_member list \<Rightarrow> auth_member list \<Rightarrow> bool" where
  "one_row P ms ms' \<longleftrightarrow> (\<exists>n. puts n ms ms' \<and> P n)"

definition active_as :: "string \<Rightarrow> member_role \<Rightarrow> auth_member \<Rightarrow> bool" where
  "active_as w role n \<longleftrightarrow> am_workspace n = w \<and> am_role n = role \<and> am_active n"

definition human_id :: "auth_actor \<Rightarrow> string" where
  "human_id actor = (case actor of Auth_user u \<Rightarrow> hu_id u | Auth_agent _ \<Rightarrow> [])"

definition owns_support :: "'l member_env \<Rightarrow> auth_actor \<Rightarrow> string \<Rightarrow> 'l member_db \<Rightarrow> bool" where
  "owns_support env actor w db \<longleftrightarrow>
     requireSupportOwner (me_cfg env) actor w (md_auth db) = Inr (human_id actor)"

text \<open>What a command of a support account may do to the row \<open>n\<close>: never its own account's.\<close>

definition commanded :: "string \<Rightarrow> string \<Rightarrow> support_command \<Rightarrow> auth_member \<Rightarrow> bool" where
  "commanded w uid command n \<longleftrightarrow> am_workspace n = w \<and> am_user n \<noteq> uid \<and>
     (case command of
        Cmd_member i role active \<Rightarrow> am_id n = i \<and> am_role n = role \<and> am_active n = active
      | Cmd_addMember _ role \<Rightarrow> am_role n = role \<and> am_active n
      | Cmd_invitePolicy _ \<Rightarrow> False)"

text \<open>Under a setup grant alone: the role stays, and the member does not become active.\<close>

definition only_deactivates :: "auth_member list \<Rightarrow> auth_member list \<Rightarrow> bool" where
  "only_deactivates ms ms' \<longleftrightarrow>
     (\<exists>m\<in>set ms. ms' = map (\<lambda>x. if am_id x = am_id m then m\<lparr>am_active := False\<rparr> else x) ms)"

text \<open>
  The authority behind a change of the members to \<open>ms'\<close>, for each operation: who may make it, and
  which rows it may change to what.
\<close>

fun authority ::
    "'l member_env \<Rightarrow> support_store \<Rightarrow> 'l member_op \<Rightarrow> 'l member_db \<Rightarrow> 'l member_db \<Rightarrow> auth_member list \<Rightarrow> bool" where
  "authority env st (Create actor w email name role kind) db0 db ms' =
     (admin_now env actor w db \<and> one_row (active_as w role) (members_of db) ms')"
| "authority env st (Invite actor w email name) db0 db ms' =
     (may_invite env actor w st db0 \<and> one_row (active_as w CONTRIBUTOR) (members_of db) ms')"
| "authority env st (Approve actor w i) db0 db ms' =
     (admin_now env actor w db \<and> one_row (active_as w CONTRIBUTOR) (members_of db) ms')"
| "authority env st (Update actor w i up) db0 db ms' =
     (admin_now env actor w db \<and> one_row (\<lambda>n. am_workspace n = w \<and> am_id n = i) (members_of db) ms')"
| "authority env st (Add_to_workspace actor uid w role) db0 db ms' =
     (isGlobalOperator actor \<and> admin_now env actor w db \<and> one_row (active_as w role) (members_of db) ms')"
| "authority env st (Admin_create actor w email name role) db0 db ms' =
     (isGlobalOperator actor \<and> one_row (active_as w role) (members_of db) ms')"
| "authority env st (Admin_update actor w i role) db0 db ms' =
     (isGlobalOperator actor \<and>
      (\<exists>m\<in>set (members_of db). am_id m = i \<and> am_workspace m = w \<and> puts (m\<lparr>am_role := role\<rparr>) (members_of db) ms'))"
| "authority env st (Admin_deactivate actor w i) db0 db ms' =
     (isGlobalOperator actor \<and>
      (\<exists>m\<in>set (members_of db). am_id m = i \<and> am_workspace m = w \<and> puts (m\<lparr>am_active := False\<rparr>) (members_of db) ms'))"
| "authority env st (Admin_remove actor i) db0 db ms' =
     (isGlobalOperator actor \<and> ms' = filter (\<lambda>x. am_id x \<noteq> i) (members_of db))"
| "authority env st (Merge actor w s t extra) db0 db ms' =
     (admin_now env actor w db \<and> s \<noteq> t \<and>
      (\<exists>a\<in>set (members_of db). \<exists>b\<in>set (members_of db). am_id a = s \<and> am_id b = t \<and>
         am_workspace a = w \<and> am_workspace b = w \<and> am_active b \<and>
         ms' = merge_rows s t (strongestRole (am_role a) (am_role b)) (members_of db)))"
| "authority env st (Sso w provider subject email name) db0 db ms' =
     (\<exists>n. active_as w CONTRIBUTOR n \<and> ms' = members_of db @ [n] \<and>
        find_member w (am_user n) (members_of db) = None \<and> find_grant w (am_user n) (tb_grants (md_auth db)) = None)"
| "authority env st (Change_grant actor w email role active expected) db0 db ms' =
     (owns_support env actor w db \<and>
      (\<exists>u. find_email (normalizeEmail email) (tb_users (md_auth db)) = Some u \<and> us_id u \<noteq> human_id actor \<and>
         filter (\<lambda>x. \<not> (am_workspace x = w \<and> am_user x = us_id u)) ms' =
         filter (\<lambda>x. \<not> (am_workspace x = w \<and> am_user x = us_id u)) (members_of db)))"
| "authority env st (Configure actor w expected command) db0 db ms' =
     (\<exists>g. find_grant w (human_id actor) (tb_grants (md_auth db)) = Some g \<and> sg_active g \<and> sg_version g = expected \<and>
        one_row (commanded w (human_id actor) command) (members_of db) ms' \<and>
        (sg_role g = SR_setup \<longrightarrow> only_deactivates (members_of db) ms'))"
| "authority env st (Decide actor w i approve) db0 db ms' =
     (approve \<and> owns_support env actor w db \<and>
      (\<exists>q\<in>set (md_access db). aq_id q = i \<and> aq_workspace q = w \<and> aq_status q = INVITE_PENDING \<and>
         (\<exists>g\<in>set (tb_grants (md_auth db)). sg_id g = aq_grant q \<and> sg_workspace g = w \<and> sg_user g = aq_requester q \<and>
            sg_version g = aq_version q \<and> sg_active g \<and> sg_role g = SR_setup) \<and>
         one_row (commanded w (human_id actor) (aq_command q)) (members_of db) ms'))"
| "authority env st _ db0 db ms' = False"

lemma create_puts:
  assumes "createMember env actor w email name role kind skip st db0 db = Inr (r, db')"
  shows "one_row (active_as w role) (members_of db) (members_of db')" "skip \<or> admin_now env actor w db"
proof -
  obtain st' where s: "store_member env actor w (member_input email name kind) role skip st' db = Inr (r, db')"
    using assms by (rule createMember_store)
  show "one_row (active_as w role) (members_of db) (members_of db')"
    using store_member_puts(1) [OF s] by (auto simp: one_row_def active_as_def)
  show "skip \<or> admin_now env actor w db" using store_member_puts(2) [OF s] by (auto simp: admin_now_def)
qed

lemma kept_authority:
  assumes "members_of (kept db r) \<noteq> members_of db"
    and "\<And>x db'. r = Inr (x, db') \<Longrightarrow> members_of db' \<noteq> members_of db \<Longrightarrow> authority env st op db0 db (members_of db')"
  shows "authority env st op db0 db (members_of (kept db r))"
  using assms by (auto simp: kept_def split: sum.splits)

lemma saved_authority:
  assumes "members_of (saved db r) \<noteq> members_of db"
    and "\<And>db'. r = Inr db' \<Longrightarrow> members_of db' \<noteq> members_of db \<Longrightarrow> authority env st op db0 db (members_of db')"
  shows "authority env st op db0 db (members_of (saved db r))"
  using assms by (auto simp: saved_def split: sum.splits)

lemma invite_authority:
  assumes "inviteMember env actor w email name st db0 db = Inr (r, db')"
  shows "authority env st (Invite actor w email name) db0 db (members_of db')"
  using assms by (rule inviteMember_create) (auto simp: may_invite_def dest: create_puts(1))

lemma update_authority:
  assumes "updateMember env actor w i up st db0 db = Inr (r, db')"
  shows "authority env st (Update actor w i up) db0 db (members_of db')"
proof -
  obtain st' x m u where p: "member_access env actor w admins st' db = Inr x"
    "update_checks env actor w i up db = Inr (m, u)" "store_update env actor w up m u db = Inr (r, db')"
    using assms by (rule update_parts)
  have "puts (updated_member up u m) (members_of db) (members_of db')"
    unfolding puts_def store_update_members [OF p(3)] using update_checksD(1) [OF p(2)] by auto
  moreover have "admin_now env actor w db" unfolding admin_now_def using p(1) by blast
  ultimately show ?thesis using update_checksD(2,3) [OF p(2)] by (auto simp: one_row_def)
qed

lemma approve_authority:
  assumes "members_of (snd (approveMemberInviteRequest env actor w i st db0 db)) \<noteq> members_of db"
  shows "authority env st (Approve actor w i) db0 db (members_of (snd (approveMemberInviteRequest env actor w i st db0 db)))"
  by (rule approve_cases [of env actor w i st db0 db]) (use assms in \<open>auto dest: create_puts\<close>)

lemma unmanaged_puts:
  assumes "unmanaged_member w i db = Inr m" "\<And>x. am_id (f x) = am_id x \<and> am_workspace (f x) = am_workspace x \<and> am_user (f x) = am_user x"
    and "distinct (map am_id (members_of db))"
  shows "m \<in> set (members_of db) \<and> am_id m = i \<and> am_workspace m = w \<and> puts (f m) (members_of db) (members_of (change_member i f db))"
proof -
  note m = unmanagedD [OF assms(1)]
  have "map (\<lambda>x. if am_id x = i then f x else x) (members_of db) = map (\<lambda>x. if am_id x = am_id (f m) then f m else x) (members_of db)"
    using same_id [OF assms(3) _ m(1)] m(2) assms(2) by (intro map_cong) auto
  then show ?thesis using m assms(2) by (auto simp: puts_def)
qed

lemma admin_update_authority:
  assumes "adminUpdateMember actor w i role db = Inr db'" "distinct (map am_id (members_of db))"
  shows "authority env st (Admin_update actor w i role) db0 db (members_of db')"
  using assms(1)
proof (rule admin_update_parts)
  fix m assume a: "isGlobalOperator actor" "unmanaged_member w i db = Inr m"
    "db' = change_member i (\<lambda>x. x\<lparr>am_role := role\<rparr>) db"
  show ?thesis using unmanaged_puts [OF a(2) _ assms(2), of "\<lambda>x. x\<lparr>am_role := role\<rparr>"] a(1,3) by auto
qed

lemma admin_deactivate_authority:
  assumes "adminDeactivateMember actor w i db = Inr db'" "distinct (map am_id (members_of db))"
  shows "authority env st (Admin_deactivate actor w i) db0 db (members_of db')"
  using assms(1)
proof (rule admin_deactivate_parts)
  fix m assume a: "isGlobalOperator actor" "unmanaged_member w i db = Inr m"
    "db' = change_member i (\<lambda>x. x\<lparr>am_active := False\<rparr>) db"
  show ?thesis using unmanaged_puts [OF a(2) _ assms(2), of "\<lambda>x. x\<lparr>am_active := False\<rparr>"] a(1,3) by auto
qed

lemma merge_checksD:
  assumes "merge_checks env w s t db = Inr ((a, su), (b, tu))"
  shows "a \<in> set (members_of db)" "b \<in> set (members_of db)" "am_id a = s" "am_id b = t" "am_workspace a = w"
    "am_workspace b = w" "am_active b"
proof -
  have party: "m \<in> set (members_of db) \<and> am_id m = i \<and> am_workspace m = w"
    if "merge_party w i message db = Inr (m, u)" for i message m u
    using that by (auto simp: merge_party_def result_simps split: option.splits if_splits dest!: find_in_set)
  have "merge_party w s ''Source member not found.'' db = Inr (a, su)" "merge_party w t ''Target member not found.'' db = Inr (b, tu)"
    "am_active b"
    using assms by (auto simp: merge_checks_def and_then_Inr_iff invariant_Inr_iff simp del: and_then_invariant)
  then show "a \<in> set (members_of db)" "b \<in> set (members_of db)" "am_id a = s" "am_id b = t" "am_workspace a = w"
    "am_workspace b = w" "am_active b" using party by blast+
qed

lemma store_merge_members:
  "members_of (snd (store_merge env actor w a b aliases db)) =
   merge_rows (am_id a) (am_id b) (strongestRole (am_role a) (am_role b)) (members_of db)"
  by (simp add: store_merge_def Let_def split: prod.split)

lemma merge_authority:
  assumes "mergeWorkspaceMembers env actor w s t extra st db0 db = Inr (r, db')"
  shows "authority env st (Merge actor w s t extra) db0 db (members_of db')"
  using assms
proof (rule merge_parts)
  fix st' x a su b tu db1
  assume p: "s \<noteq> t" "member_access env actor w admins st' db = Inr x" "merge_checks env w s t db = Inr ((a, su), (b, tu))"
    "md_auth db1 = md_auth db" "db' = snd (store_merge env actor w a b (fst r) db1)"
  note c = merge_checksD [OF p(3)]
  have "admin_now env actor w db" unfolding admin_now_def using p(2) by blast
  moreover have "members_of db' = merge_rows s t (strongestRole (am_role a) (am_role b)) (members_of db)"
    using c(3,4) p(4,5) by (simp add: store_merge_members)
  ultimately show ?thesis using p(1) c by auto
qed

lemma sso_authority:
  assumes "members_of (snd (linkOrProvisionSsoUser env w p s e n db0 db)) \<noteq> members_of db"
  shows "authority env st (Sso w p s e n) db0 db (members_of (snd (linkOrProvisionSsoUser env w p s e n db0 db)))"
  by (rule sso_cases [of db env w p s e n db0])
    (use assms in \<open>auto simp: active_as_def dest!: ensure_frame(2)\<close>)

lemma support_ownerD:
  assumes "requireSupportOwner cfg actor w auth = Inr owner"
  shows "owner = human_id actor" "owner_member w (human_id actor) auth"
  using assms by (auto simp: requireSupportOwner_def human_id_def result_simps split: auth_actor.splits if_splits)

lemma grant_checksD:
  assumes "grant_checks cfg actor w email active expected auth = Inr (uid, owner, current)"
  shows "requireSupportOwner cfg actor w auth = Inr owner" "uid \<noteq> owner"
    "\<exists>u. find_email (normalizeEmail email) (tb_users auth) = Some u \<and> us_id u = uid"
proof -
  obtain u where u: "find_email (normalizeEmail email) (tb_users auth) = Some u"
    and o: "requireSupportOwner cfg actor w auth = Inr owner"
    using assms
    by (auto simp: grant_checks_def normalizeEmail_def Let_def and_then_Inr_iff simp del: and_then_invariant split: option.splits)
  moreover have "us_id u = uid \<and> uid \<noteq> owner"
    using assms u
    by (auto simp: grant_checks_def normalizeEmail_def Let_def and_then_Inr_iff o invariant_Inr_iff
        simp del: and_then_invariant)
  ultimately show "requireSupportOwner cfg actor w auth = Inr owner" "uid \<noteq> owner"
    "\<exists>u. find_email (normalizeEmail email) (tb_users auth) = Some u \<and> us_id u = uid" by auto
qed

lemma filter_map_same: "(\<And>x. x \<in> set xs \<Longrightarrow> P (f x) = P x) \<Longrightarrow> (\<And>x. x \<in> set xs \<Longrightarrow> P x \<Longrightarrow> f x = x) \<Longrightarrow> filter P (map f xs) = filter P xs"
  by (induction xs) auto

lemma grant_members_others:
  assumes "grant_members cfg close actor w uid role active auth = Inr auth'" "distinct (map am_id (tb_members auth))"
  shows "filter (\<lambda>x. \<not> (am_workspace x = w \<and> am_user x = uid)) (tb_members auth') =
    filter (\<lambda>x. \<not> (am_workspace x = w \<and> am_user x = uid)) (tb_members auth)" (is "filter ?P _ = _")
proof (cases "active \<and> role = SR_full")
  case True
  have "tb_members auth' = upsert_support_member cfg w uid (tb_members auth)"
    using assms(1) True by (auto simp: grant_members_def Let_def split: option.splits)
  then show ?thesis
    by (auto simp: upsert_support_member_def split: option.split intro!: filter_map_same)
next
  case False
  show ?thesis
  proof (cases "find_member w uid (tb_members auth)")
    case None
    then show ?thesis using assms(1) False by (auto simp: grant_members_def)
  next
    case (Some m)
    then have members: "tb_members auth' = map (\<lambda>x. if am_id x = am_id m then x\<lparr>am_active := False\<rparr> else x) (tb_members auth)"
      using assms(1) False by (auto simp: grant_members_def result_simps)
    have "x = m" if "x \<in> set (tb_members auth)" "am_id x = am_id m" for x
      using same_id [OF assms(2) that(1)] that(2) find_member_SomeD [OF Some] by blast
    then show ?thesis
      unfolding members using find_member_SomeD [OF Some] by (intro filter_map_same) (auto split: if_splits)
  qed
qed

lemma grant_authority:
  assumes "grant_change env actor w email role active expected db = Inr db'" "distinct (map am_id (members_of db))"
  shows "authority env st (Change_grant actor w email role active expected) db0 db (members_of db')"
proof -
  obtain g auth where p: "changeWorkspaceSupportGrant (me_cfg env) (me_close_roles env) actor w email role active expected
      (md_auth db) = Inr (g, auth)" "db' = db\<lparr>md_auth := auth\<rparr>"
    using assms(1) by (rule grant_change_parts)
  then obtain uid owner current where c: "grant_checks (me_cfg env) actor w email active expected (md_auth db) = Inr (uid, owner, current)"
    and s: "store_grant (me_cfg env) (me_close_roles env) actor w (uid, owner, current) role active (md_auth db) = Inr (g, auth)"
    by (auto simp: changeWorkspaceSupportGrant_def result_simps)
  obtain auth2 where m: "grant_members (me_cfg env) (me_close_roles env) actor w uid role active
      ((md_auth db)\<lparr>tb_grants := upsert_grant (me_cfg env) w uid owner role active (tb_grants (md_auth db))\<rparr>) = Inr auth2"
    and "tb_members auth = tb_members auth2"
    using s by (auto simp: store_grant_def Let_def result_simps revoke_capabilities_def split: option.splits)
  then have "filter (\<lambda>x. \<not> (am_workspace x = w \<and> am_user x = uid)) (members_of db') =
      filter (\<lambda>x. \<not> (am_workspace x = w \<and> am_user x = uid)) (members_of db)"
    using grant_members_others [OF m] assms(2) p(2) by simp
  then show ?thesis
    using grant_checksD [OF c] support_ownerD(1) [OF grant_checksD(1) [OF c]]
    unfolding authority.simps owns_support_def by auto
qed

lemma command_checksD:
  assumes "command_checks env w uid i role active db = Inr m"
  shows "m \<in> set (members_of db)" "am_workspace m = w" "am_id m = i" "am_user m \<noteq> uid" "am_kind m = HUMAN"
    "am_role m = ADMIN \<and> am_active m \<and> (role \<noteq> ADMIN \<or> \<not> active) \<Longrightarrow>
     list_ex (\<lambda>x. am_workspace x = w \<and> am_role x = ADMIN \<and> am_active x \<and> am_id x \<noteq> am_id m) (members_of db)"
proof -
  obtain m' where f: "human_member w i (md_auth db) = Some m'"
    using assms by (auto simp: command_checks_def Let_def split: option.splits)
  have m: "m' = m \<and> am_user m \<noteq> uid \<and> (am_role m = ADMIN \<and> am_active m \<and> (role \<noteq> ADMIN \<or> \<not> active) \<longrightarrow>
     list_ex (\<lambda>x. am_workspace x = w \<and> am_role x = ADMIN \<and> am_active x \<and> am_id x \<noteq> am_id m) (members_of db))"
    using assms
    by (auto simp: command_checks_def Let_def f and_then_Inr_iff invariant_Inr_iff simp del: and_then_invariant split: if_splits)
  show "m \<in> set (members_of db)" "am_workspace m = w" "am_id m = i" "am_user m \<noteq> uid" "am_kind m = HUMAN"
    "am_role m = ADMIN \<and> am_active m \<and> (role \<noteq> ADMIN \<or> \<not> active) \<Longrightarrow>
     list_ex (\<lambda>x. am_workspace x = w \<and> am_role x = ADMIN \<and> am_active x \<and> am_id x \<noteq> am_id m) (members_of db)"
    using m f by (auto simp: human_member_def dest!: find_in_set)
qed

lemma apply_member_parts:
  assumes "apply_member env actor w uid i role active db = Inr (e, d, db')"
  obtains m where "command_checks env w uid i role active db = Inr m"
    "members_of db' = map (\<lambda>x. if am_id x = am_id m then m\<lparr>am_role := role, am_active := active\<rparr> else x) (members_of db)"
  using assms by (auto simp: apply_member_def Let_def and_then_Inr_iff simp del: split_paired_Ex)

lemma apply_addMember_parts:
  assumes "apply_addMember env w uid email role db = Inr (e, d, db')"
  obtains n where "members_of db' = members_of db @ [n]" "\<forall>x\<in>set (members_of db). am_id x \<noteq> am_id n"
    "am_workspace n = w" "am_role n = role" "am_active n" "am_user n \<noteq> uid"
  using assms
  by (auto simp: apply_addMember_def Let_def and_then_Inr_iff list_ex_iff invariant_Inr_iff
      simp del: and_then_invariant dest!: command_account_frame(2) split: if_splits)

lemma apply_changes:
  assumes "applyConfiguration env actor w uid grant command db = Inr (d, db')" "members_of db' \<noteq> members_of db"
  shows "one_row (commanded w uid command) (members_of db) (members_of db')"
proof (cases command)
  case (Cmd_member i role active)
  obtain e d1 db1 where a: "apply_member env actor w uid i role active db = Inr (e, d1, db1)" "members_of db' = members_of db1"
    using assms(1) by (auto simp: applyConfiguration_def Cmd_member result_simps)
  obtain m where m: "command_checks env w uid i role active db = Inr m"
    "members_of db1 = map (\<lambda>x. if am_id x = am_id m then m\<lparr>am_role := role, am_active := active\<rparr> else x) (members_of db)"
    using a(1) by (rule apply_member_parts)
  then have "puts (m\<lparr>am_role := role, am_active := active\<rparr>) (members_of db) (members_of db')"
    using command_checksD(1) [OF m(1)] a(2) by (auto simp: puts_def)
  then show ?thesis
    using command_checksD(2-4) [OF m(1)] unfolding one_row_def commanded_def Cmd_member
    by (intro exI [of _ "m\<lparr>am_role := role, am_active := active\<rparr>"]) auto
next
  case (Cmd_addMember email role)
  obtain e d1 db1 where "apply_addMember env w uid email role db = Inr (e, d1, db1)" "members_of db' = members_of db1"
    using assms(1) by (auto simp: applyConfiguration_def Cmd_addMember result_simps)
  then show ?thesis
    by (auto simp: one_row_def commanded_def Cmd_addMember puts_def elim!: apply_addMember_parts)
next
  case (Cmd_invitePolicy policy)
  then show ?thesis using assms by (auto simp: applyConfiguration_def)
qed

lemma authorizeD:
  assumes "authorize_support cfg actor w expected auth = Inr (uid, g)"
  shows "uid = human_id actor" "find_grant w (human_id actor) (tb_grants auth) = Some g" "sg_active g" "sg_version g = expected"
  using assms
  by (auto simp: authorize_support_def human_id_def result_simps split: auth_actor.splits option.splits if_splits)

text \<open>Without an approval a command keeps the role and at most deactivates.\<close>

lemma unapproved_deactivates:
  assumes "accessChange w command db = Inr (False, target)"
    and "applyConfiguration env actor w uid grant command db = Inr (d, db')"
    and "members_of db' \<noteq> members_of db" "distinct (map am_id (members_of db))"
  shows "only_deactivates (members_of db) (members_of db')"
proof (cases command)
  case (Cmd_member i role active)
  obtain e d1 db1 where a: "apply_member env actor w uid i role active db = Inr (e, d1, db1)" "members_of db' = members_of db1"
    using assms(2) by (auto simp: applyConfiguration_def Cmd_member result_simps)
  obtain m where m: "command_checks env w uid i role active db = Inr m"
    "members_of db1 = map (\<lambda>x. if am_id x = am_id m then m\<lparr>am_role := role, am_active := active\<rparr> else x) (members_of db)"
    using a(1) by (rule apply_member_parts)
  have "human_member w i (md_auth db) = Some m"
    using m(1) by (auto simp: command_checks_def Let_def and_then_Inr_iff simp del: and_then_invariant split: option.splits)
  then have r: "role = am_role m" "active \<longrightarrow> am_active m"
    using assms(1) by (auto simp: accessChange_def Let_def Cmd_member and_then_Inr_iff split: option.splits)
  have "\<not> active"
  proof
    assume active
    then have "m\<lparr>am_role := role, am_active := active\<rparr> = m" using r by simp
    then have "members_of db1 = members_of db"
      using m(2) same_id [OF assms(4)] command_checksD(1) [OF m(1)] by (auto intro!: map_idI)
    then show False using a(2) assms(3) by simp
  qed
  then have "m\<lparr>am_role := role, am_active := active\<rparr> = m\<lparr>am_active := False\<rparr>" using r by simp
  then show ?thesis
    using command_checksD(1) [OF m(1)] a(2) m(2) by (auto simp: only_deactivates_def)
next
  case (Cmd_addMember email role)
  then show ?thesis using assms(1) by (auto simp: accessChange_def Let_def and_then_Inr_iff split: if_splits)
next
  case (Cmd_invitePolicy policy)
  then show ?thesis using assms(2,3) by (auto simp: applyConfiguration_def)
qed

lemma configure_authority:
  assumes "changeSupportConfiguration env actor w expected command db = Inr (r, db')" "members_of db' \<noteq> members_of db"
    "distinct (map am_id (members_of db))"
  shows "authority env st (Configure actor w expected command) db0 db (members_of db')"
  using assms(1)
proof (rule configure_parts)
  fix uid grant delivery
  assume a: "authorize_support (me_cfg env) actor w expected (md_auth db) = Inr (uid, grant)"
    and b: "sg_role grant = SR_setup \<longrightarrow> (\<exists>target. accessChange w command db = Inr (False, target))"
    and c: "applyConfiguration env actor w uid grant command db = Inr (delivery, db')"
  show ?thesis
    using authorizeD [OF a] apply_changes [OF c assms(2)] unapproved_deactivates [OF _ c assms(2,3)] b by auto
qed (use assms(2) in simp)

lemma decide_authority:
  assumes "decideSupportAccessRequest env actor w i approve db = Inr (r, db')" "members_of db' \<noteq> members_of db"
  shows "authority env st (Decide actor w i approve) db0 db (members_of db')"
  using assms(1)
proof (rule decide_parts)
  fix owner q db1
  assume o: "requireSupportOwner (me_cfg env) actor w (md_auth db) = Inr owner"
    and q: "find (\<lambda>q. aq_id q = i \<and> aq_workspace q = w) (md_access db) = Some q" "aq_status q = INVITE_PENDING"
    and run: "if approve then \<exists>delivery. approve_access env actor w owner q db = Inr (delivery, db1) else db1 = db"
    and same: "members_of db' = members_of db1"
  have approve using run same assms(2) by (auto split: if_splits)
  then obtain delivery where a: "approve_access env actor w owner q db = Inr (delivery, db1)" using run by auto
  obtain g where g: "g \<in> set (tb_grants (md_auth db))" "sg_id g = aq_grant q" "sg_workspace g = w"
    "sg_user g = aq_requester q" "sg_version g = aq_version q" "sg_active g" "sg_role g = SR_setup"
    "applyConfiguration env actor w owner g (aq_command q) db = Inr (delivery, db1)"
    using a by (rule approve_access_parts)
  have "owns_support env actor w db" "owner = human_id actor" using o support_ownerD(1) [OF o] by (auto simp: owns_support_def)
  moreover have "one_row (commanded w owner (aq_command q)) (members_of db) (members_of db')"
    using apply_changes [OF g(8)] same assms(2) by simp
  moreover have "q \<in> set (md_access db) \<and> aq_id q = i \<and> aq_workspace q = w" using find_in_set [OF q(1)] by blast
  ultimately show ?thesis using \<open>approve\<close> g(1-7) q(2) by auto
qed

lemma requests_keep_members:
  "members_of (snd (adminTriggerPasswordReset cfg actor email db)) = members_of db"
  "members_of (snd (adminResendAccessLink cfg actor i db)) = members_of db"
  using admin_reset_frame [of cfg actor email db] admin_resend_frame [of cfg actor i db]
  by (auto simp: requestPasswordReset_def request_link_auth)

fun quiet :: "'l member_op \<Rightarrow> bool" where
  "quiet (Resend _ _ _) = True"
| "quiet (Set_policy _ _ _) = True"
| "quiet (Request _ _ _ _) = True"
| "quiet (Reject _ _ _) = True"
| "quiet (Reset _) = True"
| "quiet (Reset_member _) = True"
| "quiet (Consume _ _) = True"
| "quiet (Admin_reset _ _) = True"
| "quiet (Admin_resend _ _) = True"
| "quiet (Add_alias _ _ _ _ _) = True"
| "quiet _ = False"

lemma kept_same: "(\<And>x db'. r = Inr (x, db') \<Longrightarrow> f db' = f db) \<Longrightarrow> f (kept db r) = f db"
  by (rule kept_cases) simp_all

lemma saved_same: "(\<And>db'. r = Inr db' \<Longrightarrow> f db' = f db) \<Longrightarrow> f (saved db r) = f db"
  by (rule saved_cases) simp_all

lemma quiet_step: "quiet op \<Longrightarrow> members_of (member_step env st op db0 db) = members_of db"
  by (cases op) (auto simp: requestPasswordReset_def requestPasswordResetForActiveMember_def request_link_auth
      requests_keep_members
      intro!: kept_same saved_same dest: resend_members request_frame(1) policy_frame(1) reject_frame(1) add_alias_frame(1)
      elim!: consume_parts dest!: set_password_members)

lemma step_authority:
  assumes change: "members_of (member_step env st op db0 db) \<noteq> members_of db"
    and ids: "distinct (map am_id (members_of db))"
  shows "authority env st op db0 db (members_of (member_step env st op db0 db))"
proof (cases "quiet op")
  case True
  then show ?thesis using change quiet_step by blast
next
  case False
  then show ?thesis
  proof (cases op)
    case (Approve actor w i)
    then show ?thesis using change approve_authority by (metis member_step.simps(7))
  next
    case (Sso w p s e n)
    then show ?thesis using change sso_authority [of env w p s e n db0 db] by simp
  next
    case (Create actor w email name role kind)
    show ?thesis using change unfolding Create member_step.simps
      by (rule kept_authority) (auto dest: create_puts)
  next
    case (Invite actor w email name)
    show ?thesis using change unfolding Invite member_step.simps by (rule kept_authority) (rule invite_authority)
  next
    case (Update actor w i up)
    show ?thesis using change unfolding Update member_step.simps by (rule kept_authority) (rule update_authority)
  next
    case (Add_to_workspace actor uid w role)
    show ?thesis using change unfolding Add_to_workspace member_step.simps
      by (rule kept_authority) (auto elim!: admin_add_parts dest: create_puts)
  next
    case (Admin_create actor w email name role)
    show ?thesis using change unfolding Admin_create member_step.simps
      by (rule kept_authority) (auto dest: admin_create_parts create_puts(1))
  next
    case (Admin_update actor w i role)
    show ?thesis using change unfolding Admin_update member_step.simps
      by (rule saved_authority) (rule admin_update_authority [OF _ ids])
  next
    case (Admin_deactivate actor w i)
    show ?thesis using change unfolding Admin_deactivate member_step.simps
      by (rule saved_authority) (rule admin_deactivate_authority [OF _ ids])
  next
    case (Admin_remove actor i)
    show ?thesis using change unfolding Admin_remove member_step.simps
      by (rule saved_authority) (auto elim!: admin_remove_parts simp: remove_frame(2))
  next
    case (Merge actor w s t extra)
    show ?thesis using change unfolding Merge member_step.simps by (rule kept_authority) (rule merge_authority)
  next
    case (Change_grant actor w email role active expected)
    show ?thesis using change unfolding Change_grant member_step.simps
      by (rule saved_authority) (rule grant_authority [OF _ ids])
  next
    case (Configure actor w expected command)
    show ?thesis using change unfolding Configure member_step.simps
      by (rule kept_authority) (rule configure_authority [OF _ _ ids])
  next
    case (Decide actor w i approve)
    show ?thesis using change unfolding Decide member_step.simps by (rule kept_authority) (rule decide_authority)
  qed simp_all
qed

section \<open>The last administrator\<close>

definition admin_of :: "string \<Rightarrow> auth_member \<Rightarrow> bool" where
  "admin_of w m \<longleftrightarrow> am_workspace m = w \<and> am_role m = ADMIN \<and> am_active m"

definition has_admin :: "string \<Rightarrow> 'l member_db \<Rightarrow> bool" where
  "has_admin w db \<longleftrightarrow> list_ex (admin_of w) (members_of db)"

definition members_keyed :: "'l auth_db \<Rightarrow> bool" where
  "members_keyed auth \<longleftrightarrow>
     distinct (map am_id (tb_members auth)) \<and>
     list_all (\<lambda>m. list_ex (\<lambda>u. us_id u = am_user m) (tb_users auth)) (tb_members auth)"

text \<open>The workspace, address and role of the member an operation creates.\<close>

fun created_as :: "'l member_op \<Rightarrow> 'l member_db \<Rightarrow> (string \<times> string \<times> member_role) option" where
  "created_as (Create actor w email name role kind) db0 = Some (w, normalizeEmail email, role)"
| "created_as (Invite actor w email name) db0 = Some (w, normalizeEmail email, CONTRIBUTOR)"
| "created_as (Approve actor w i) db0 =
     (case find (\<lambda>q. iq_id q = i \<and> iq_workspace q = w) (md_invites db0) of
        None \<Rightarrow> None | Some q \<Rightarrow> Some (w, normalizeEmail (iq_email q), CONTRIBUTOR))"
| "created_as (Admin_create actor w email name role) db0 = Some (w, normalizeEmail email, role)"
| "created_as (Add_to_workspace actor uid w role) db0 =
     (case find_user uid (tb_users (md_auth db0)) of
        None \<Rightarrow> None | Some u \<Rightarrow> Some (w, normalizeEmail (us_email u), role))"
| "created_as _ db0 = None"

lemma puts_loses:
  assumes "puts n ms ms'" "distinct (map am_id ms)" "list_ex (admin_of w) ms" "\<not> list_ex (admin_of w) ms'"
  shows "\<exists>m. {x \<in> set ms. admin_of w x} = {m} \<and> am_id m = am_id n \<and> am_workspace n = w \<and> am_user m = am_user n \<and>
    \<not> admin_of w n"
proof -
  obtain m where m: "m \<in> set ms" "am_id m = am_id n" "am_workspace m = am_workspace n" "am_user m = am_user n"
    and ms': "ms' = map (\<lambda>x. if am_id x = am_id n then n else x) ms"
    using assms(1,3,4) by (auto simp: puts_def)
  have gone: "x = m" if "x \<in> set ms" "admin_of w x" for x
  proof (rule ccontr)
    assume "x \<noteq> m"
    then have "am_id x \<noteq> am_id n" using same_id [OF assms(2) that(1) m(1)] m(2) by auto
    then have "x \<in> set ms'" using that(1) unfolding ms' by force
    then show False using assms(4) that(2) by (auto simp: list_ex_iff)
  qed
  obtain x where x: "x \<in> set ms" "admin_of w x" using assms(3) by (auto simp: list_ex_iff)
  then have a: "admin_of w m" using gone by blast
  have "n \<in> set ms'" unfolding ms' using m(1,2) by force
  then have "\<not> admin_of w n" using assms(4) by (auto simp: list_ex_iff)
  moreover have "{x \<in> set ms. admin_of w x} = {m}" using gone a m(1) by blast
  moreover have "am_workspace n = w" using a m(3) by (simp add: admin_of_def)
  ultimately show ?thesis using m(2,4) by blast
qed

lemma create_loses:
  assumes "createMember env actor w' email name role kind skip st db0 db = Inr (r, db')"
    and keyed: "members_keyed (md_auth db)"
    and admin: "has_admin w db" "\<not> has_admin w db'"
  shows "w' = w \<and> role \<noteq> ADMIN \<and> (\<exists>u m. find_email (normalizeEmail email) (tb_users (md_auth db)) = Some u \<and>
    find_member w (us_id u) (members_of db) = Some m \<and> {x \<in> set (members_of db). admin_of w x} = {m})"
proof -
  obtain st' where "store_member env actor w' (member_input email name kind) role skip st' db = Inr (r, db')"
    using assms(1) by (rule createMember_store)
  moreover obtain u n token where r: "r = (u, n, token)" by (metis prod_cases3)
  moreover have info: "fst (member_input email name kind) = normalizeEmail email"
    by (simp add: member_input_def Let_def)
  ultimately obtain auth1 auth2 meta payload where p:
    "upsert_account env (normalizeEmail email) (fst (snd (member_input email name kind))) (md_auth db) = Inr (u, auth1)"
    "upsert_member (me_cfg env) w' (us_id u) role (snd (snd (member_input email name kind))) auth1 = Inr (n, auth2)"
    "issueSetupToken (me_cfg env) (us_id u)
       (db\<lparr>md_auth := record_member actor w' ''member.created'' (am_id n) meta payload auth2\<rparr>) = Inr (token, db')"
    by (metis store_member_parts)
  note n = upsert_member_puts [OF p(2)]
  have puts: "puts n (members_of db) (members_of db')"
    using n(1) upsert_account_frame(1) [OF p(1)] issue_frame(1) [OF p(3)] by simp
  obtain m where m: "{x \<in> set (members_of db). admin_of w x} = {m}" "am_id m = am_id n" "am_workspace n = w"
    "am_user m = am_user n" "\<not> admin_of w n"
    using puts_loses [OF puts] keyed admin by (auto simp: members_keyed_def has_admin_def)
  have role: "role \<noteq> ADMIN" "w' = w" using m(3,5) n(2,4,5) by (auto simp: admin_of_def)
  have mem: "m \<in> set (members_of db)" using m(1) by blast
  have user: "us_id v = us_id u \<longrightarrow> (\<exists>y. find_email (normalizeEmail email) (tb_users (md_auth db)) = Some y \<and> us_id y = us_id u)"
    if "v \<in> set (tb_users (md_auth db))" for v
    using p(1) that by (auto simp: upsert_account_def Let_def list_ex_iff split: option.splits if_splits)
  obtain v where "v \<in> set (tb_users (md_auth db))" "us_id v = am_user m"
    using keyed mem by (auto simp: members_keyed_def list_all_iff list_ex_iff)
  then obtain y where y: "find_email (normalizeEmail email) (tb_users (md_auth db)) = Some y" "us_id y = us_id u"
    using user n(3) m(4) by auto
  have "find_member w (us_id y) (members_of db) = Some m"
  proof (cases "find_member w' (us_id u) (tb_members auth1)")
    case None
    then show ?thesis
      using mem m(1-4) n(3) role(2) upsert_account_frame(1) [OF p(1)]
      by (auto simp: find_member_def find_None_iff admin_of_def)
  next
    case (Some k)
    then have "am_id k = am_id n" "k \<in> set (members_of db)"
      using p(2) find_member_SomeD [OF Some] upsert_account_frame(1) [OF p(1)]
      by (auto simp: upsert_member_def Let_def)
    then have "k = m" using same_id [of "members_of db" k m] keyed mem m(2) by (simp add: members_keyed_def)
    then show ?thesis using Some y(2) role(2) upsert_account_frame(1) [OF p(1)] by simp
  qed
  then show ?thesis using role y(1) m(1) by blast
qed

lemma update_keeps_admin:
  assumes "updateMember env actor w' i up st db0 db = Inr (r, db')"
    and keyed: "members_keyed (md_auth db)" and admin: "has_admin w db"
  shows "has_admin w db'"
proof (rule ccontr)
  assume gone: "\<not> has_admin w db'"
  obtain st' x m u where p: "update_checks env actor w' i up db = Inr (m, u)"
    "store_update env actor w' up m u db = Inr (r, db')"
    using assms(1) by (rule update_parts)
  note c = update_checksD [OF p(1)]
  let ?n = "updated_member up u m"
  have puts: "puts ?n (members_of db) (members_of db')"
    unfolding puts_def store_update_members [OF p(2)] using c(1) by auto
  obtain k where k: "{x \<in> set (members_of db). admin_of w x} = {k}" "am_id k = am_id ?n" "am_workspace ?n = w"
    "\<not> admin_of w ?n"
    using puts_loses [OF puts] keyed admin gone by (auto simp: members_keyed_def has_admin_def)
  have "k = m" using same_id [of "members_of db" k m] keyed k(1,2) c(1) by (auto simp: members_keyed_def)
  then have "admin_of w m" "w' = w" using k(1,3) c(3) by auto
  moreover have "\<not> (\<exists>x\<in>set (members_of db). admin_of w x \<and> am_id x \<noteq> am_id m)"
    using k(1) \<open>k = m\<close> by auto
  ultimately show False
    using c(5) k(4)
    by (auto simp: keeps_admin_def admin_of_def updated_member_def list_ex_iff result_simps split: if_splits option.splits)
qed

lemma kept_loses:
  assumes "\<not> has_admin w (kept db r)" "has_admin w db"
  obtains x db' where "r = Inr (x, db')" "\<not> has_admin w db'"
  using assms by (cases r) (auto simp: kept_def)

lemma decidableD:
  assumes "decidable_request env actor w i st db = Inr (m, q, st')"
  shows "find (\<lambda>q. iq_id q = i \<and> iq_workspace q = w) (md_invites db) = Some q"
  using assms by (auto simp: decidable_request_def result_simps split: option.splits if_splits)

text \<open>A merge, single sign-on, a support grant and a command of a support account keep an administrator.\<close>

lemma merge_rows_keeps_admin:
  assumes ids: "distinct (map am_id ms)" and ab: "a \<in> set ms" "b \<in> set ms" "am_id a = s" "am_id b = t" "s \<noteq> t"
    "am_workspace a = w'" "am_workspace b = w'" "am_active b"
    and admin: "list_ex (admin_of w) ms"
  shows "list_ex (admin_of w) (merge_rows s t (strongestRole (am_role a) (am_role b)) ms)"
proof -
  obtain x where x: "x \<in> set ms" "admin_of w x" using admin by (auto simp: list_ex_iff)
  let ?r = "strongestRole (am_role a) (am_role b)"
  let ?f = "\<lambda>y. if am_id y = s then y\<lparr>am_active := False\<rparr> else y"
  let ?g = "\<lambda>y. if am_id y = t then y\<lparr>am_role := ?r\<rparr> else y"
  have in_rows: "?f (?g y) \<in> set (merge_rows s t ?r ms)" if "y \<in> set ms" for y
    using that by (auto simp: merge_rows_def)
  have "\<exists>y\<in>set ms. admin_of w (?f (?g y))"
  proof (cases "am_id x = s \<or> am_id x = t")
    case True
    then have "x = a \<or> x = b" using same_id [OF ids x(1) ab(1)] same_id [OF ids x(1) ab(2)] ab(3,4) by auto
    then have "am_workspace b = w \<and> strongestRole (am_role a) (am_role b) = ADMIN"
      using x(2) ab(6,7) by (auto simp: admin_of_def strongestRole_def)
    then have "admin_of w (?f (?g b))" using ab(4,5,8) by (simp add: admin_of_def)
    then show ?thesis using ab(2) by blast
  next
    case False
    then show ?thesis using x by (intro bexI [of _ x]) auto
  qed
  then show ?thesis using in_rows unfolding list_ex_iff by blast
qed

lemma grant_keeps_admin:
  assumes "owner_member w' owner auth" "uid \<noteq> owner" "list_ex (admin_of w) (tb_members auth)"
    and "filter (\<lambda>x. \<not> (am_workspace x = w' \<and> am_user x = uid)) ms' =
      filter (\<lambda>x. \<not> (am_workspace x = w' \<and> am_user x = uid)) (tb_members auth)"
  shows "list_ex (admin_of w) ms'"
proof -
  obtain x where x: "x \<in> set (tb_members auth)" "admin_of w x" using assms(3) by (auto simp: list_ex_iff)
  obtain m where m: "find_member w' owner (tb_members auth) = Some m" "am_active m" "am_role m = ADMIN"
    using assms(1) by (auto simp: owner_member_def split: option.splits)
  note k = find_member_SomeD [OF m(1)]
  let ?y = "if w = w' then m else x"
  have "?y \<in> set (tb_members auth)" "admin_of w ?y" "\<not> (am_workspace ?y = w' \<and> am_user ?y = uid)"
    using x m k assms(2) by (auto simp: admin_of_def)
  then have "?y \<in> set (filter (\<lambda>x. \<not> (am_workspace x = w' \<and> am_user x = uid)) ms')"
    unfolding assms(4) by simp
  then have "?y \<in> set ms'" by simp
  then show ?thesis using \<open>admin_of w ?y\<close> unfolding list_ex_iff by blast
qed

lemma apply_keeps_admin:
  assumes "applyConfiguration env actor w' uid grant command db = Inr (d, db')"
    and keyed: "members_keyed (md_auth db)" and admin: "has_admin w db"
  shows "has_admin w db'"
proof (cases command)
  case (Cmd_member i role active)
  obtain e d1 db1 where a: "apply_member env actor w' uid i role active db = Inr (e, d1, db1)" "members_of db' = members_of db1"
    using assms(1) by (auto simp: applyConfiguration_def Cmd_member result_simps)
  obtain m where m: "command_checks env w' uid i role active db = Inr m"
    "members_of db1 = map (\<lambda>x. if am_id x = am_id m then m\<lparr>am_role := role, am_active := active\<rparr> else x) (members_of db)"
    using a(1) by (rule apply_member_parts)
  note c = command_checksD [OF m(1)]
  let ?n = "m\<lparr>am_role := role, am_active := active\<rparr>"
  have puts: "puts ?n (members_of db) (members_of db')" unfolding puts_def a(2) m(2) using c(1) by auto
  show ?thesis
  proof (rule ccontr)
    assume gone: "\<not> has_admin w db'"
    obtain k where k: "{x \<in> set (members_of db). admin_of w x} = {k}" "am_id k = am_id ?n" "am_workspace ?n = w"
      "\<not> admin_of w ?n"
      using puts_loses [OF puts] keyed admin gone by (auto simp: members_keyed_def has_admin_def)
    have "k = m" using same_id [of "members_of db" k m] keyed k(1,2) c(1) by (auto simp: members_keyed_def)
    then have "admin_of w m" "w' = w" using k(1,3) c(2) by auto
    then have "list_ex (\<lambda>x. am_workspace x = w \<and> am_role x = ADMIN \<and> am_active x \<and> am_id x \<noteq> am_id m) (members_of db)"
      using c(6) k(4) by (auto simp: admin_of_def)
    then show False using k(1) \<open>k = m\<close> by (auto simp: list_ex_iff admin_of_def)
  qed
next
  case (Cmd_addMember email role)
  obtain e d1 db1 where "apply_addMember env w' uid email role db = Inr (e, d1, db1)" "members_of db' = members_of db1"
    using assms(1) by (auto simp: applyConfiguration_def Cmd_addMember result_simps)
  then show ?thesis using admin by (auto simp: has_admin_def elim!: apply_addMember_parts)
next
  case (Cmd_invitePolicy policy)
  then show ?thesis using assms by (auto simp: applyConfiguration_def has_admin_def)
qed

lemma configure_keeps_admin:
  assumes "changeSupportConfiguration env actor w' expected command db = Inr (r, db')"
    and "members_keyed (md_auth db)" "has_admin w db"
  shows "has_admin w db'"
  using assms(1) by (rule configure_parts) (use apply_keeps_admin assms(2,3) in \<open>auto simp: has_admin_def\<close>)

lemma decide_keeps_admin:
  assumes "decideSupportAccessRequest env actor w' i approve db = Inr (r, db')"
    and "members_keyed (md_auth db)" "has_admin w db"
  shows "has_admin w db'"
  using assms(1)
proof (rule decide_parts)
  fix owner q db1
  assume run: "if approve then \<exists>delivery. approve_access env actor w' owner q db = Inr (delivery, db1) else db1 = db"
    and same: "members_of db' = members_of db1"
  have "has_admin w db1"
  proof (cases approve)
    case True
    then obtain delivery where "approve_access env actor w' owner q db = Inr (delivery, db1)" using run by auto
    then show ?thesis by (rule approve_access_parts) (rule apply_keeps_admin [OF _ assms(2,3)])
  qed (use run assms(3) in simp)
  then show ?thesis using same by (simp add: has_admin_def)
qed

text \<open>A platform operator's update, deactivation or removal of one member.\<close>

definition operator_change :: "'l member_op \<Rightarrow> string \<Rightarrow> auth_member \<Rightarrow> bool" where
  "operator_change op w m \<longleftrightarrow>
     (\<exists>actor. isGlobalOperator actor \<and>
        ((\<exists>role. op = Admin_update actor w (am_id m) role \<and> role \<noteq> ADMIN) \<or>
         op = Admin_deactivate actor w (am_id m) \<or> op = Admin_remove actor (am_id m)))"

lemma put_by_operator:
  assumes "puts n (members_of db) ms'" "m \<in> set (members_of db)" "am_id n = am_id m"
    and "members_keyed (md_auth db)" "has_admin w db" "\<not> list_ex (admin_of w) ms'"
  shows "{x \<in> set (members_of db). admin_of w x} = {m} \<and> am_workspace n = w \<and> \<not> admin_of w n"
proof -
  obtain k where k: "{x \<in> set (members_of db). admin_of w x} = {k}" "am_id k = am_id n" "am_workspace n = w" "\<not> admin_of w n"
    using puts_loses [OF assms(1)] assms(4-6) by (auto simp: members_keyed_def has_admin_def)
  have "k = m" using same_id [of "members_of db" k m] assms(2-4) k(1,2) by (auto simp: members_keyed_def)
  then show ?thesis using k by simp
qed

lemma removal_loses:
  assumes "members_keyed (md_auth db)" "has_admin w db"
    "\<not> list_ex (admin_of w) (filter (\<lambda>x. am_id x \<noteq> i) (members_of db))"
  shows "\<exists>m. {x \<in> set (members_of db). admin_of w x} = {m} \<and> am_id m = i"
proof -
  obtain m where m: "m \<in> set (members_of db)" "admin_of w m" using assms(2) by (auto simp: has_admin_def list_ex_iff)
  have all: "am_id x = i" if "x \<in> set (members_of db)" "admin_of w x" for x
    using assms(3) that by (auto simp: list_ex_iff)
  then have "x = m" if "x \<in> set (members_of db)" "admin_of w x" for x
    using same_id [of "members_of db" x m] that m assms(1) by (simp add: members_keyed_def)
  then have "{x \<in> set (members_of db). admin_of w x} = {m}" using m by blast
  then show ?thesis using all m by blast
qed

lemma update_by_operator_loses:
  assumes "members_keyed (md_auth db)" "has_admin w db" "\<not> list_ex (admin_of w) ms'"
    and "authority env st (Admin_update actor w' i role) db0 db ms'"
  shows "\<exists>m. {x \<in> set (members_of db). admin_of w x} = {m} \<and> operator_change (Admin_update actor w' i role) w m"
proof -
  obtain m where m: "m \<in> set (members_of db)" "am_id m = i" "am_workspace m = w'"
    "puts (m\<lparr>am_role := role\<rparr>) (members_of db) ms'" "isGlobalOperator actor"
    using assms(4) by auto
  have p: "{x \<in> set (members_of db). admin_of w x} = {m}" "am_workspace m = w" "\<not> admin_of w (m\<lparr>am_role := role\<rparr>)"
    using put_by_operator [OF m(4,1) _ assms(1-3)] by auto
  have "admin_of w m" using p(1) by blast
  then have "role \<noteq> ADMIN" using p(3) by (auto simp: admin_of_def)
  then show ?thesis using p(1,2) m by (auto simp: operator_change_def)
qed

lemma deactivation_loses:
  assumes "members_keyed (md_auth db)" "has_admin w db" "\<not> list_ex (admin_of w) ms'"
    and "authority env st (Admin_deactivate actor w' i) db0 db ms'"
  shows "\<exists>m. {x \<in> set (members_of db). admin_of w x} = {m} \<and> operator_change (Admin_deactivate actor w' i) w m"
proof -
  obtain m where m: "m \<in> set (members_of db)" "am_id m = i" "am_workspace m = w'"
    "puts (m\<lparr>am_active := False\<rparr>) (members_of db) ms'" "isGlobalOperator actor"
    using assms(4) by auto
  have "{x \<in> set (members_of db). admin_of w x} = {m}" "am_workspace m = w"
    using put_by_operator [OF m(4,1) _ assms(1-3)] by auto
  then show ?thesis using m by (auto simp: operator_change_def)
qed

lemma grant_change_keeps_admin:
  assumes "authority env st (Change_grant actor w' email role active expected) db0 db ms'" "has_admin w db"
  shows "list_ex (admin_of w) ms'"
proof -
  obtain u :: user_row where u: "us_id u \<noteq> human_id actor" "owns_support env actor w' db"
    "filter (\<lambda>x. \<not> (am_workspace x = w' \<and> am_user x = us_id u)) ms' =
     filter (\<lambda>x. \<not> (am_workspace x = w' \<and> am_user x = us_id u)) (members_of db)"
    using assms(1) unfolding authority.simps by blast
  have "owner_member w' (human_id actor) (md_auth db)"
    using u(2) support_ownerD(2) unfolding owns_support_def by blast
  then show ?thesis using grant_keeps_admin [OF _ u(1) _ u(3)] assms(2) by (simp add: has_admin_def)
qed

lemma approve_loses:
  assumes keyed: "members_keyed (md_auth db)" and before: "has_admin w db"
    and lost: "\<not> has_admin w (snd (approveMemberInviteRequest env actor w' i st db0 db))"
  shows "\<exists>m. {x \<in> set (members_of db). admin_of w x} = {m} \<and>
    (operator_change (Approve actor w' i) w m \<or>
     (\<exists>email role u. created_as (Approve actor w' i) db0 = Some (w, email, role) \<and> role \<noteq> ADMIN \<and>
        find_email email (tb_users (md_auth db)) = Some u \<and> find_member w (us_id u) (members_of db) = Some m))"
proof (rule approve_cases [of env actor w' i st db0 db])
  assume "snd (approveMemberInviteRequest env actor w' i st db0 db) = db"
  then show ?thesis using lost before by simp
next
  fix m q st' r db1
  assume q: "decidable_request env actor w' i st db0 = Inr (m, q, st')"
    and c: "createMember env actor w' (iq_email q) (iq_displayName q) CONTRIBUTOR None False st' db0 db = Inr (r, db1)"
    and s: "snd (approveMemberInviteRequest env actor w' i st db0 db) =
      saved db1 (decide_request (me_cfg env) m i INVITE_APPROVED db1)"
  have "\<not> has_admin w db1" using lost by (simp add: s has_admin_def)
  then show ?thesis using create_loses [OF c keyed before] decidableD [OF q] by auto
qed

section \<open>From an invitation to a session\<close>

lemma find_map_same: "(\<And>x. P (f x) = P x) \<Longrightarrow> find P (map f xs) = map_option f (find P xs)"
  by (induction xs) auto

lemma find_map_cong: "(\<And>x. x \<in> set xs \<Longrightarrow> P (f x) = P x) \<Longrightarrow> find P (map f xs) = map_option f (find P xs)"
  by (induction xs) auto

lemma find_append_new: "\<forall>x\<in>set xs. \<not> P x \<Longrightarrow> P y \<Longrightarrow> find P (xs @ [y]) = Some y"
  by (induction xs) auto

lemma upsert_account_finds:
  assumes "upsert_account env email name auth = Inr (u, auth')" "distinct (map us_id (tb_users auth))"
  shows "find_user (us_id u) (tb_users auth') = Some u" "find_email email (tb_users auth') = Some u"
    "distinct (map us_id (tb_users auth'))" "us_email u = email"
proof -
  have "find_user (us_id u) (tb_users auth') = Some u \<and> find_email email (tb_users auth') = Some u \<and>
      distinct (map us_id (tb_users auth')) \<and> us_email u = email"
  proof (cases "find_email email (tb_users auth)")
    case None
    then have u: "us_email u = email" "tb_users auth' = tb_users auth @ [u]"
        "\<forall>x\<in>set (tb_users auth). us_id x \<noteq> us_id u"
      using assms(1) by (auto simp: upsert_account_def Let_def list_ex_iff split: if_splits)
    then have "find_user (us_id u) (tb_users auth') = Some u"
      unfolding find_user_def u(2) by (intro find_append_new) auto
    moreover have "find_email email (tb_users auth') = Some u"
      unfolding find_email_def u(2) using None u(1) by (intro find_append_new) (auto simp: find_email_def find_None_iff)
    moreover have "us_id u \<notin> us_id ` set (tb_users auth)" using u(3) by force
    ultimately show ?thesis using assms(2) u(1,2) by simp
  next
    case (Some v)
    let ?f = "\<lambda>x. if us_id x = us_id v then u else x"
    have v: "v \<in> set (tb_users auth)" "us_email v = email" using find_email_SomeD [OF Some] by auto
    have u: "us_id u = us_id v" "us_email u = us_email v" "tb_users auth' = map ?f (tb_users auth)"
      using assms(1) by (auto simp: upsert_account_def Let_def Some split: if_splits)
    have only: "x = v" if "x \<in> set (tb_users auth)" "us_id x = us_id v" for x
      using find_by_key [OF assms(2)] that v(1) by (metis option.inject)
    have "us_id \<circ> ?f = us_id" using u(1) by (simp add: fun_eq_iff)
    then have "map us_id (map ?f (tb_users auth)) = map us_id (tb_users auth)" by simp
    moreover have "find_user (us_id u) (tb_users auth') = Some u"
      using find_by_key [OF assms(2) v(1)] u(1) unfolding find_user_def u(3) by (subst find_map_cong) auto
    moreover have "find_email email (tb_users auth') = Some u"
      using Some u(2) only unfolding find_email_def u(3) by (subst find_map_cong) auto
    ultimately show ?thesis using assms(2) u v(2) by metis
  qed
  then show "find_user (us_id u) (tb_users auth') = Some u" "find_email email (tb_users auth') = Some u"
    "distinct (map us_id (tb_users auth'))" "us_email u = email" by auto
qed

lemma upsert_member_finds:
  assumes "upsert_member cfg w uid role kind auth = Inr (n, auth')"
    "distinct (map (\<lambda>m. (am_workspace m, am_user m)) (tb_members auth))" "distinct (map am_id (tb_members auth))"
  shows "find_member w uid (tb_members auth') = Some n"
proof (cases "find_member w uid (tb_members auth)")
  case None
  then have "tb_members auth' = tb_members auth @ [n]" "am_workspace n = w" "am_user n = uid"
    using assms(1) by (auto simp: upsert_member_def Let_def split: if_splits)
  then show ?thesis
    using None unfolding find_member_def by (auto simp: find_None_iff intro!: find_append_new)
next
  case (Some m)
  note m = find_member_SomeD [OF Some]
  let ?f = "\<lambda>x. if am_id x = am_id m then n else x"
  have n: "am_workspace n = w" "am_user n = uid" "tb_members auth' = map ?f (tb_members auth)"
    using assms(1) m by (auto simp: upsert_member_def Let_def Some split: if_splits)
  have "x = m" if "x \<in> set (tb_members auth)" "am_id x = am_id m" for x
    using same_id [OF assms(3)] that m(1) by blast
  then show ?thesis
    using Some n(1,2) m unfolding find_member_def n(3) by (subst find_map_cong) auto
qed

lemma issue_finds:
  assumes "issueSetupToken cfg uid db = Inr (token, db')"
  shows "\<exists>r. find (\<lambda>r. rs_tokenHash r = ac_sha256 cfg token) (md_resets db') = Some r \<and> rs_user r = uid \<and>
    rs_usedAt r = None \<and> rs_expiresAt r = ac_now cfg + SETUP_TOKEN_TTL_MS \<and> token = ac_token cfg"
  using assms
  by (auto simp: issueSetupToken_def create_link_def result_simps list_ex_iff find_append_new split: if_splits)

text \<open>What a new password does to the account of a link.\<close>

lemma set_password_effect:
  assumes "find_user (rs_user r) (tb_users (md_auth db)) = Some u" "r \<in> set (md_resets db)"
  obtains db' where "set_password cfg r pw db = Inr db'"
    "find_user (rs_user r) (tb_users (md_auth db')) = Some (u\<lparr>us_passwordHash := ac_hashPassword cfg pw\<rparr>)"
    "find_email e (tb_users (md_auth db')) =
       map_option (\<lambda>x. if us_id x = rs_user r then x\<lparr>us_passwordHash := ac_hashPassword cfg pw\<rparr> else x)
         (find_email e (tb_users (md_auth db)))"
    "tb_members (md_auth db') = tb_members (md_auth db)" "tb_grants (md_auth db') = tb_grants (md_auth db)"
    "tb_workspaces (md_auth db') = tb_workspaces (md_auth db)"
    "tb_sessions (md_auth db') = filter (\<lambda>s. se_user s \<noteq> rs_user r) (tb_sessions (md_auth db))"
proof -
  let ?g = "\<lambda>x. if us_id x = rs_user r then x\<lparr>us_passwordHash := ac_hashPassword cfg pw\<rparr> else x"
  have u: "u \<in> set (tb_users (md_auth db))" "us_id u = rs_user r"
    using assms(1) by (auto simp: find_user_def dest: find_in_set)
  have "list_ex (\<lambda>x. us_id x = rs_user r) (tb_users (md_auth db))" "list_ex (\<lambda>x. rs_id x = rs_id r) (md_resets db)"
    using assms(2) u by (auto simp: list_ex_iff)
  then obtain db' where set: "set_password cfg r pw db = Inr db'"
    and users: "tb_users (md_auth db') = map ?g (tb_users (md_auth db))"
    by (simp add: set_password_def Let_def)
  have rest: "tb_members (md_auth db') = tb_members (md_auth db)" "tb_grants (md_auth db') = tb_grants (md_auth db)"
    "tb_workspaces (md_auth db') = tb_workspaces (md_auth db)"
    "tb_sessions (md_auth db') = filter (\<lambda>s. se_user s \<noteq> rs_user r) (tb_sessions (md_auth db))"
    using set by (auto simp: set_password_def Let_def split: if_splits)
  have "find_user (rs_user r) (tb_users (md_auth db')) = Some (u\<lparr>us_passwordHash := ac_hashPassword cfg pw\<rparr>)"
    using assms(1) u(2) unfolding find_user_def users by (subst find_map_same) auto
  moreover have "find_email e (tb_users (md_auth db')) = map_option ?g (find_email e (tb_users (md_auth db)))"
    unfolding find_email_def users by (rule find_map_same) auto
  ultimately show thesis using that set rest by blast
qed

end
