(* ===== verification/Member_Promises.thy ===== *)
theory Member_Promises
  imports Member_Authority
begin

text \<open>
  The promises of the member operations with their examples, and the weaknesses the model shows: an
  invitation demotes the last administrator, a platform operator removes it, a merge of two
  facilitators leaves a contributor, a new member's link opens an account of another workspace, two
  readers of one link both use it, and two invitations exceed the trial's limit of members.
\<close>

section \<open>Links\<close>

text \<open>
  C34: A link that opens an account does so once, and only the newest of an account does: a link that
  was used, or that was replaced by a newer one of the same account, is refused for good, whatever
  operations and other issues of links follow, and whatever state the write of the refused attempt
  would meet.  The attempts before may have read the link in any earlier state.
\<close>

theorem retired_link_is_refused_forever:
  assumes ok: "links_ok (md_resets db0)"
    and before: "member_run keeps_links db0 db"
    and retired: "consumePasswordReset cfg token pw db0 db = Inr db1 \<or>
      (\<exists>r\<in>set (md_resets db). rs_tokenHash r = ac_sha256 cfg token \<and>
         ((\<exists>new. issueSetupToken cfg (rs_user r) db = Inr (new, db1)) \<or>
          (\<exists>u. us_id u = rs_user r \<and> db1 = snd (issuePasswordResetToken cfg u db))))"
    and later: "member_run keeps_links db1 db2"
    and hash: "ac_sha256 cfg' = ac_sha256 cfg"
  shows "\<exists>e. consumePasswordReset cfg' token pw' db2 db3 = Inl e"
proof -
  have moves: "links_move (md_resets db0) (md_resets db)" by (rule run_links [OF before])
  then have ok1: "links_ok (md_resets db)" using ok by (simp add: links_move_def)
  have "spent cfg token db1"
    using retired consume_spends [OF ok1 moves] issue_spends reset_issue_spends by blast
  moreover have "links_move (md_resets db) (md_resets db1)"
    using retired by (auto intro: reset_issue_moves dest: issue_moves elim!: consume_parts dest: set_password_moves)
  ultimately have "spent cfg' token db2" "links_ok (md_resets db2)"
    using spent_moves [OF run_links [OF later]] run_links [OF later] ok1 hash
    by (auto simp: spent_def links_move_def)
  then show ?thesis
    using spent_link_refused by (fastforce simp: consumePasswordReset_def result_simps)
qed


text \<open>
  C36: A workspace loses its last active administrator in two ways only: an operation creates a member
  with a role other than administrator for the address of that administrator, or a platform
  operator gives it another role, deactivates it or deletes it.  \<open>updateMember\<close>, merges, single
  sign-on, changes of support grants and the commands of support accounts keep one.
\<close>

theorem last_admin_leaves_by_creation_or_operator:
  assumes keyed: "members_keyed (md_auth db)"
    and before: "has_admin w db"
    and lost: "\<not> has_admin w (member_step env st op db0 db)"
  shows "\<exists>m. {x \<in> set (tb_members (md_auth db)). admin_of w x} = {m} \<and>
    (operator_change op w m \<or>
     (\<exists>email role u. created_as op db0 = Some (w, email, role) \<and> role \<noteq> ADMIN \<and>
        find_email email (tb_users (md_auth db)) = Some u \<and>
        find_member w (us_id u) (tb_members (md_auth db)) = Some m))"
proof -
  have change: "members_of (member_step env st op db0 db) \<noteq> members_of db"
    using before lost by (auto simp: has_admin_def)
  have ids: "distinct (map am_id (members_of db))" using keyed by (simp add: members_keyed_def)
  have gone: "\<not> list_ex (admin_of w) (members_of (member_step env st op db0 db))" using lost by (simp add: has_admin_def)
  note auth = step_authority [OF change ids]
  show ?thesis
  proof (cases op)
    case (Create actor w' email name role kind)
    obtain r db' where c: "createMember env actor w' email name role kind False st db0 db = Inr (r, db')"
        "\<not> has_admin w db'"
      using lost before by (auto simp: Create elim!: kept_loses)
    then show ?thesis using create_loses [OF c(1) keyed before c(2)] by (auto simp: Create)
  next
    case (Invite actor w' email name)
    obtain r db' where i: "inviteMember env actor w' email name st db0 db = Inr (r, db')" "\<not> has_admin w db'"
      using lost before by (auto simp: Invite elim!: kept_loses)
    obtain m st' where c: "createMember env actor w' email name CONTRIBUTOR None True st' db0 db = Inr (r, db')"
      using i(1) by (rule inviteMember_create)
    show ?thesis using create_loses [OF c keyed before i(2)] by (auto simp: Invite)
  next
    case (Approve actor w' i)
    show ?thesis using approve_loses [OF keyed before] lost by (simp add: Approve)
  next
    case (Add_to_workspace actor uid w' role)
    obtain r db' where a: "adminAddToWorkspace env actor uid w' role st db0 db = Inr (r, db')" "\<not> has_admin w db'"
      using lost before by (auto simp: Add_to_workspace elim!: kept_loses)
    obtain u where u: "find_user uid (tb_users (md_auth db0)) = Some u"
      and c: "createMember env actor w' (us_email u) (us_displayName u) role None False st db0 db = Inr (r, db')"
      using a(1) by (rule admin_add_parts)
    show ?thesis using create_loses [OF c keyed before a(2)] u by (auto simp: Add_to_workspace)
  next
    case (Admin_create actor w' email name role)
    obtain r db' where a: "adminCreateMember env actor w' email name role st db0 db = Inr (r, db')" "\<not> has_admin w db'"
      using lost before by (auto simp: Admin_create elim!: kept_loses)
    show ?thesis
      using create_loses [OF admin_create_parts(2) [OF a(1)] keyed before a(2)] by (auto simp: Admin_create)
  next
    case (Update actor w' i up)
    then show ?thesis using lost before update_keeps_admin [OF _ keyed before] by (auto elim!: kept_loses)
  next
    case (Admin_update actor w' i role)
    then show ?thesis using update_by_operator_loses [OF keyed before gone] auth by simp
  next
    case (Admin_deactivate actor w' i)
    then show ?thesis using deactivation_loses [OF keyed before gone] auth by simp
  next
    case (Admin_remove actor i)
    then show ?thesis
      using removal_loses [OF keyed before, of i] gone auth by (auto simp: operator_change_def)
  next
    case (Merge actor w' s t extra)
    obtain a b where m: "a \<in> set (members_of db)" "b \<in> set (members_of db)" "am_id a = s" "am_id b = t" "s \<noteq> t"
      "am_workspace a = w'" "am_workspace b = w'" "am_active b"
      "members_of (member_step env st op db0 db) = merge_rows s t (strongestRole (am_role a) (am_role b)) (members_of db)"
      using auth unfolding Merge authority.simps by blast
    show ?thesis using merge_rows_keeps_admin [OF ids m(1-8)] gone before m(9) by (simp add: has_admin_def)
  next
    case (Sso w' p s e n)
    then show ?thesis using gone auth before by (auto simp: has_admin_def)
  next
    case (Change_grant actor w' email role active expected)
    show ?thesis using grant_change_keeps_admin [OF auth [unfolded Change_grant] before] gone by (simp add: Change_grant)
  next
    case (Configure actor w' expected command)
    then show ?thesis using lost before configure_keeps_admin [OF _ keyed before] by (auto elim!: kept_loses)
  next
    case (Decide actor w' i approve)
    then show ?thesis using lost before decide_keeps_admin [OF _ keyed before] by (auto elim!: kept_loses)
  qed (use auth in simp_all)
qed

section \<open>Invitations\<close>

text \<open>An invitation leaves the account with one link, the membership, and no support grant.\<close>

lemma created_state:
  assumes "auth_keys_unique (md_auth db)" "members_keyed (md_auth db)"
    and "createMember env actor w email name role kind skip st db0 db = Inr ((u, m, token), db1)"
  obtains r where "find (\<lambda>r. rs_tokenHash r = ac_sha256 (me_cfg env) token) (md_resets db1) = Some r"
    "rs_user r = us_id u" "rs_usedAt r = None" "rs_expiresAt r = ac_now (me_cfg env) + SETUP_TOKEN_TTL_MS"
    "find_user (us_id u) (tb_users (md_auth db1)) = Some u"
    "find_email (normalizeEmail email) (tb_users (md_auth db1)) = Some u"
    "find_member w (us_id u) (tb_members (md_auth db1)) = Some m" "am_role m = role" "am_active m"
    "find_grant w (us_id u) (tb_grants (md_auth db1)) = None"
    "tb_workspaces (md_auth db1) = tb_workspaces (md_auth db)"
    "normalizeEmail email \<noteq> []" "\<not> isPublicDemoUser (normalizeEmail email)" "us_email u = normalizeEmail email"
proof -
  obtain st' where checks: "create_checks env actor w (normalizeEmail email) skip st db0 = Inr st'"
    and "store_member env actor w (member_input email name kind) role skip st' db = Inr ((u, m, token), db1)"
    using assms(3) by (rule createMember_store)
  moreover have "fst (member_input email name kind) = normalizeEmail email" by (simp add: member_input_def Let_def)
  ultimately obtain auth1 auth2 meta payload where p:
    "upsert_account env (normalizeEmail email) (fst (snd (member_input email name kind))) (md_auth db) = Inr (u, auth1)"
    "requireUnmanagedMember w (us_id u) auth1 = Inr ()"
    "upsert_member (me_cfg env) w (us_id u) role (snd (snd (member_input email name kind))) auth1 = Inr (m, auth2)"
    "issueSetupToken (me_cfg env) (us_id u)
       (db\<lparr>md_auth := record_member actor w ''member.created'' (am_id m) meta payload auth2\<rparr>) = Inr (token, db1)"
    by (metis store_member_parts)
  have keys: "distinct (map us_id (tb_users (md_auth db)))"
    "distinct (map (\<lambda>m. (am_workspace m, am_user m)) (tb_members auth1))" "distinct (map am_id (tb_members auth1))"
    using assms(1,2) upsert_account_frame(1) [OF p(1)] by (simp_all add: auth_keys_unique_def members_keyed_def)
  note a = upsert_account_finds [OF p(1) keys(1)] and n = upsert_member_puts [OF p(3)]
    and f = upsert_member_finds [OF p(3) keys(2,3)] and i = issue_frame(1) [OF p(4)]
  have g: "find_grant w (us_id u) (tb_grants auth1) = None"
    using p(2) by (auto simp: requireUnmanagedMember_def split: if_splits)
  have e: "normalizeEmail email \<noteq> []" "\<not> isPublicDemoUser (normalizeEmail email)"
    using checks by (auto simp: create_checks_def result_simps requireUnreservedPublicDemoEmail_def
        isReservedPublicDemoEmail_def isPublicDemoUser_def PUBLIC_DEMO_EMAIL_def split: if_splits)
  obtain r where r: "find (\<lambda>r. rs_tokenHash r = ac_sha256 (me_cfg env) token) (md_resets db1) = Some r"
    "rs_user r = us_id u" "rs_usedAt r = None" "rs_expiresAt r = ac_now (me_cfg env) + SETUP_TOKEN_TTL_MS"
    using issue_finds [OF p(4)] by blast
  show thesis
    by (rule that [OF r]) (use a n f i g e upsert_account_frame [OF p(1)] in simp_all)
qed

text \<open>
  C37: An invitation leads into the workspace: within a week its link sets a password, with which the
  invited address signs in, as the account of the invitation and with no other session left, and
  passes the membership check of the workspace with the role of the invitation.  The hash is
  assumed to verify the password it was made of and not to look like a disabled login.
\<close>

theorem invitation_leads_into_the_workspace:
  assumes keys: "auth_keys_unique (md_auth db)" "members_keyed (md_auth db)"
    and created: "createMember env actor w email name role kind skip st db0 db = Inr ((u, m, token), db1)"
    and token: "token \<noteq> []" "ac_sha256 cfg = ac_sha256 (me_cfg env)"
    and time: "ac_now cfg < ac_now (me_cfg env) + SETUP_TOKEN_TTL_MS"
    and password: "8 \<le> length password" "ac_verifyPassword cfg password (ac_hashPassword cfg password)"
    and enabled: "\<not> isPasswordLoginDisabled (ac_hashPassword cfg password)"
      "\<not> isPasswordLoginDisabled (us_passwordHash u)"
    and scope: "ac_mcp cfg w = Inr ()" "requireDeploymentWorkspaceScope cfg w (md_auth db) = Inr ()"
  shows "\<exists>db2 u2 db3 s st3. consumePasswordReset cfg token password db1 db1 = Inr db2 \<and>
    loginUserWithPassword cfg email password ip agent (md_auth db2) =
      Inr ((ac_token cfg, ac_now cfg + SESSION_TTL_MS, u2), db3) \<and>
    us_id u2 = us_id u \<and> filter (\<lambda>s. se_user s = us_id u) (tb_sessions db3) = [s] \<and>
    requireWorkspaceMembership cfg (Auth_user (session_user u2)) w (Some [role]) None st2 db3 =
      Inr (Some (membership_of m), st3)"
proof -
  obtain r where r: "find (\<lambda>r. rs_tokenHash r = ac_sha256 (me_cfg env) token) (md_resets db1) = Some r"
    "rs_user r = us_id u" "rs_usedAt r = None" "rs_expiresAt r = ac_now (me_cfg env) + SETUP_TOKEN_TTL_MS"
    and u: "find_user (us_id u) (tb_users (md_auth db1)) = Some u"
    "find_email (normalizeEmail email) (tb_users (md_auth db1)) = Some u"
    and m: "find_member w (us_id u) (tb_members (md_auth db1)) = Some m" "am_role m = role" "am_active m"
    and g: "find_grant w (us_id u) (tb_grants (md_auth db1)) = None"
    and w: "tb_workspaces (md_auth db1) = tb_workspaces (md_auth db)"
    and e: "normalizeEmail email \<noteq> []" "\<not> isPublicDemoUser (normalizeEmail email)" "us_email u = normalizeEmail email"
    using created_state [OF keys created] by blast
  let ?u2 = "u\<lparr>us_passwordHash := ac_hashPassword cfg password\<rparr>"
  have mem: "r \<in> set (md_resets db1)" using find_in_set [OF r(1)] by blast
  have fu: "find_user (rs_user r) (tb_users (md_auth db1)) = Some u" using u(1) r(2) by simp
  have usable: "usable_link cfg token password db1 = Inr r"
    using r time token password(1) enabled(2) u(1) by (simp add: usable_link_def)
  obtain db2 where set: "set_password cfg r password db1 = Inr db2"
    "find_user (us_id u) (tb_users (md_auth db2)) = Some ?u2"
    "find_email (normalizeEmail email) (tb_users (md_auth db2)) = Some ?u2"
    "tb_members (md_auth db2) = tb_members (md_auth db1)" "tb_grants (md_auth db2) = tb_grants (md_auth db1)"
    "tb_workspaces (md_auth db2) = tb_workspaces (md_auth db1)"
    "tb_sessions (md_auth db2) = filter (\<lambda>s. se_user s \<noteq> us_id u) (tb_sessions (md_auth db1))"
    by (rule set_password_effect [OF fu mem, of cfg password "normalizeEmail email"]) (use u(2) r(2) in simp)
  let ?s = "\<lparr>se_id = ac_new_id cfg ''session'', se_user = us_id u, se_tokenHash = ac_sha256 cfg (ac_token cfg),
      se_expiresAt = ac_now cfg + SESSION_TTL_MS, se_lastSeenAt = ac_now cfg, se_ip = ip, se_agent = agent\<rparr>"
  let ?db3 = "(md_auth db2)\<lparr>tb_sessions := tb_sessions (md_auth db2) @ [?s]\<rparr>"
  have consumed: "consumePasswordReset cfg token password db1 db1 = Inr db2"
    by (simp add: consumePasswordReset_def usable set(1))
  have logged: "loginUserWithPassword cfg email password ip agent (md_auth db2) =
      Inr ((ac_token cfg, ac_now cfg + SESSION_TTL_MS, ?u2), ?db3)"
    using set(2,3) e password enabled(1)
    by (simp add: loginUserWithPassword_def createSession_def Let_def normalizeEmail_def)
  have alone: "filter (\<lambda>s. se_user s = us_id u) (tb_sessions ?db3) = [?s]"
    by (simp add: set(7))
  have "requireDeploymentWorkspaceScope cfg w ?db3 = Inr ()"
    using scope(2) w set(6) by (auto simp: requireDeploymentWorkspaceScope_def result_simps split: if_splits)
  then obtain st3 where member: "requireWorkspaceMembership cfg (Auth_user (session_user ?u2)) w (Some [role]) None st2 ?db3 =
      Inr (Some (membership_of m), st3)"
    using scope(1) m g set(4,5) e
    by (simp add: requireWorkspaceMembership_def Let_def session_user_def support_gate_def require_user_def role_allowed_def)
  show ?thesis
    by (rule exI [of _ db2], rule exI [of _ ?u2], rule exI [of _ ?db3], rule exI [of _ ?s], rule exI [of _ st3])
      (intro conjI consumed logged alone member, simp)
qed

section \<open>Examples\<close>

text \<open>A workspace with an administrator and a contributor, where members may invite.\<close>

definition example_plan_env :: plan_env where
  "example_plan_env =
     \<lparr>pe_now = 0, pe_zone = 0, pe_new_id = (\<lambda>s. s), pe_rate = (\<lambda>k opts. Inl NonError), pe_column = Inr,
      pe_percent = (\<lambda>a b. a), pe_receipt = (\<lambda>b us. Inr ()), pe_admins = (\<lambda>w. True), pe_alert = (\<lambda>b us. Inr ())\<rparr>"

definition example_member_env :: "unit member_env" where
  "example_member_env =
     \<lparr>me_cfg = example_auth_cfg, me_plans = example_plan_env, me_password = ''random'',
      me_close_roles = (\<lambda>actor w m l. Inr l), me_remove = (\<lambda>m l. Inr l),
      me_conflicts = (\<lambda>s t l. Inr ()), me_rewire = (\<lambda>s t l. ([], l))\<rparr>"

definition example_member :: "string \<Rightarrow> member_role \<Rightarrow> auth_member" where
  "example_member i role =
     \<lparr>am_id = i, am_workspace = ''w'', am_user = i, am_role = role, am_kind = HUMAN, am_active = True\<rparr>"

definition example_plans :: plan_db where
  "example_plans =
     \<lparr>pl_workspaces = [], pl_budgets = [], pl_trials = [], pl_credentials = [], pl_items = [], pl_usage = [],
      pl_documents = [], pl_profiles = [], pl_ledger = [], pl_stripe = [], pl_accounts = [],
      pl_flags = [\<lparr>wf_id = ''f'', wf_workspace = ''w'', wf_flag = ''MEMBER_INVITES'', wf_enabled = True,
        wf_config = Some (JObj [(''policy'', JStr ''MEMBERS_CAN_INVITE'')]), wf_updatedAt = 0\<rparr>],
      pl_audit = [], pl_events = []\<rparr>"

definition example_members :: "unit member_db" where
  "example_members =
     \<lparr>md_auth = example_auth_db\<lparr>tb_users := [example_account ''a'', example_account ''c''],
        tb_members := [example_member ''a'' ADMIN, example_member ''c'' CONTRIBUTOR], tb_grants := []\<rparr>,
      md_plans = example_plans, md_resets = [], md_invites = [], md_sso = [],
      md_aliases = [], md_merged = [], md_access = []\<rparr>"

definition example_linked :: "unit member_db" where
  "example_linked = example_members\<lparr>md_resets :=
     [\<lparr>rs_id = ''r'', rs_user = ''a'', rs_tokenHash = ''ht'', rs_expiresAt = 1000, rs_usedAt = None\<rparr>]\<rparr>"

definition example_contributor :: auth_actor where
  "example_contributor = Auth_user (session_user (example_account ''c''))"

theorem retired_link_is_refused_forever_witness:
  "\<exists>db1. consumePasswordReset example_auth_cfg ''t'' ''password'' example_linked example_linked = Inr db1 \<and>
     (\<exists>e. consumePasswordReset example_auth_cfg ''t'' ''passw0rd'' db1 db1 = Inl e)"
proof -
  have "case consumePasswordReset example_auth_cfg ''t'' ''password'' example_linked example_linked of
      Inl e \<Rightarrow> False | Inr _ \<Rightarrow> True"
    by code_simp
  then obtain db1 where 1: "consumePasswordReset example_auth_cfg ''t'' ''password'' example_linked example_linked = Inr db1"
    by (cases "consumePasswordReset example_auth_cfg ''t'' ''password'' example_linked example_linked") auto
  have "\<exists>e. consumePasswordReset example_auth_cfg ''t'' ''passw0rd'' db1 db1 = Inl e"
    by (rule retired_link_is_refused_forever [where cfg = example_auth_cfg and ?db0.0 = example_linked,
          OF _ run_none disjI1 [OF 1] run_none refl])
      (simp add: links_ok_def example_linked_def)
  with 1 show ?thesis by blast
qed


definition example_operator :: auth_actor where
  "example_operator = Auth_user (session_user ((example_account ''o'')\<lparr>us_globalRole := GR_operator\<rparr>))"

theorem last_admin_leaves_by_creation_or_operator_witness:
  "(\<exists>u m. find_email ''a'' (tb_users (md_auth example_members)) = Some u \<and>
      find_member ''w'' (us_id u) (members_of example_members) = Some m \<and>
      {x \<in> set (members_of example_members). admin_of ''w'' x} = {m} \<and>
      \<not> has_admin ''w'' (member_step example_member_env None (Invite example_contributor ''w'' '' A '' None) example_members example_members)) \<and>
   (\<exists>m. operator_change (Admin_remove example_operator ''a'' :: unit member_op) ''w'' m \<and> am_id m = ''a'' \<and>
      \<not> has_admin ''w'' (member_step example_member_env None (Admin_remove example_operator ''a'') example_members example_members))"
proof
  have 1: "members_keyed (md_auth example_members)" by code_simp
  have 2: "has_admin ''w'' example_members" by code_simp
  have 3: "\<not> has_admin ''w'' (member_step example_member_env None (Invite example_contributor ''w'' '' A '' None)
      example_members example_members)" by code_simp
  have a: "normalizeEmail '' A '' = ''a''" by code_simp
  show "\<exists>u m. find_email ''a'' (tb_users (md_auth example_members)) = Some u \<and>
      find_member ''w'' (us_id u) (members_of example_members) = Some m \<and>
      {x \<in> set (members_of example_members). admin_of ''w'' x} = {m} \<and>
      \<not> has_admin ''w'' (member_step example_member_env None (Invite example_contributor ''w'' '' A '' None) example_members example_members)"
    using last_admin_leaves_by_creation_or_operator [OF 1 2 3] 3 by (auto simp: operator_change_def a)
  have 4: "\<not> has_admin ''w'' (member_step example_member_env None (Admin_remove example_operator ''a'')
      example_members example_members)" by code_simp
  show "\<exists>m. operator_change (Admin_remove example_operator ''a'' :: unit member_op) ''w'' m \<and> am_id m = ''a'' \<and>
      \<not> has_admin ''w'' (member_step example_member_env None (Admin_remove example_operator ''a'') example_members example_members)"
    using last_admin_leaves_by_creation_or_operator [OF 1 2 4] 4 by (auto simp: operator_change_def)
qed

theorem invitation_leads_into_the_workspace_witness:
  "\<exists>u m db1 db2 u2 db3 st3.
     createMember example_member_env (Auth_user (session_user (example_account ''a''))) ''w'' ''x'' None FACILITATOR None False
       None example_members example_members = Inr ((u, m, ''t''), db1) \<and>
     consumePasswordReset example_auth_cfg ''t'' ''password'' db1 db1 = Inr db2 \<and>
     loginUserWithPassword example_auth_cfg ''x'' ''password'' None None (md_auth db2) =
       Inr ((''t'', SESSION_TTL_MS, u2), db3) \<and>
     requireWorkspaceMembership example_auth_cfg (Auth_user (session_user u2)) ''w'' (Some [FACILITATOR]) None None db3 =
       Inr (Some (membership_of m), st3)"
proof -
  let ?r = "createMember example_member_env (Auth_user (session_user (example_account ''a''))) ''w'' ''x'' None FACILITATOR
      None False None example_members example_members"
  have run: "case ?r of Inl e \<Rightarrow> False
      | Inr ((u, m, t), db1) \<Rightarrow> t = ''t'' \<and> \<not> isPasswordLoginDisabled (us_passwordHash u)"
    by code_simp
  obtain u m db1 where created: "?r = Inr ((u, m, ''t''), db1)" and enabled: "\<not> isPasswordLoginDisabled (us_passwordHash u)"
    using run by (cases ?r) auto
  have keys: "auth_keys_unique (md_auth example_members)" "members_keyed (md_auth example_members)"
    by (simp_all add: auth_keys_unique_def members_keyed_def example_members_def example_account_def example_member_def)
  have hash: "ac_sha256 example_auth_cfg = ac_sha256 (me_cfg example_member_env)"
    by (simp add: example_member_env_def)
  have time: "ac_now example_auth_cfg < ac_now (me_cfg example_member_env) + SETUP_TOKEN_TTL_MS"
    by (simp add: example_member_env_def SETUP_TOKEN_TTL_MS_def)
  have verify: "ac_verifyPassword example_auth_cfg ''password'' (ac_hashPassword example_auth_cfg ''password'')"
    and login: "\<not> isPasswordLoginDisabled (ac_hashPassword example_auth_cfg ''password'')"
    by code_simp+
  have scope: "ac_mcp example_auth_cfg ''w'' = Inr ()"
    "requireDeploymentWorkspaceScope example_auth_cfg ''w'' (md_auth example_members) = Inr ()"
    by (simp_all add: example_auth_cfg_def requireDeploymentWorkspaceScope_def truthy_str_def)
  obtain db2 u2 db3 s st3 where
    "consumePasswordReset example_auth_cfg ''t'' ''password'' db1 db1 = Inr db2"
    "loginUserWithPassword example_auth_cfg ''x'' ''password'' None None (md_auth db2) =
       Inr ((ac_token example_auth_cfg, ac_now example_auth_cfg + SESSION_TTL_MS, u2), db3)"
    "requireWorkspaceMembership example_auth_cfg (Auth_user (session_user u2)) ''w'' (Some [FACILITATOR]) None None db3 =
       Inr (Some (membership_of m), st3)"
    using invitation_leads_into_the_workspace [OF keys created _ hash time _ verify login enabled scope, of None None None]
    by auto
  then show ?thesis using created by (auto simp: example_auth_cfg_def)
qed

section \<open>Weaknesses\<close>

text \<open>
  Creating a member gives the caller a link to the account of the address, also where the account
  exists and belongs to other workspaces: an administrator of one workspace sets the password of a
  member of another.
\<close>

definition example_neighbour :: "unit member_db" where
  "example_neighbour = example_members\<lparr>md_auth := (md_auth example_members)\<lparr>
     tb_users := tb_users (md_auth example_members) @ [example_account ''n''],
     tb_members := tb_members (md_auth example_members) @ [(example_member ''n'' ADMIN)\<lparr>am_workspace := ''v''\<rparr>]\<rparr>\<rparr>"

lemma new_member_link_takes_over_an_account:
  fixes admin defines "admin \<equiv> Auth_user (session_user (example_account ''a''))"
  shows "\<exists>r db1 db2.
     createMember example_member_env admin ''w'' ''n'' None CONTRIBUTOR None False None example_neighbour example_neighbour =
       Inr (r, db1) \<and> snd (snd r) = ''t'' \<and>
     consumePasswordReset example_auth_cfg ''t'' ''chosen password'' db1 db1 = Inr db2 \<and>
     map_option us_passwordHash (find_user ''n'' (tb_users (md_auth db2))) = Some ''chosen password'' \<and>
     map_option am_role (find_member ''v'' ''n'' (members_of db2)) = Some ADMIN"
proof -
  let ?r = "createMember example_member_env admin ''w'' ''n'' None CONTRIBUTOR None False None example_neighbour example_neighbour"
  let ?c = "\<lambda>db. consumePasswordReset example_auth_cfg ''t'' ''chosen password'' db db"
  have run: "case ?r of Inl e \<Rightarrow> False
      | Inr (r, db1) \<Rightarrow> snd (snd r) = ''t'' \<and>
          (case ?c db1 of
             Inl e \<Rightarrow> False
           | Inr db2 \<Rightarrow>
               map_option us_passwordHash (find_user ''n'' (tb_users (md_auth db2))) = Some ''chosen password'' \<and>
               map_option am_role (find_member ''v'' ''n'' (members_of db2)) = Some ADMIN)"
    unfolding admin_def by code_simp
  then obtain r db1 where 1: "?r = Inr (r, db1)" by (cases ?r) auto
  with run obtain db2 where "?c db1 = Inr db2" by (cases "?c db1") auto
  with run 1 show ?thesis by auto
qed

text \<open>A merge takes the roles of facilitators and finance stewards away.\<close>

lemma merged_facilitator_is_a_contributor:
  fixes admin defines "admin \<equiv> Auth_user (session_user (example_account ''a''))"
    and "db \<equiv> example_members\<lparr>md_auth := (md_auth example_members)\<lparr>
      tb_users := map example_account [''a'', ''c'', ''d''],
      tb_members := [example_member ''a'' ADMIN, example_member ''c'' FACILITATOR, example_member ''d'' FACILITATOR]\<rparr>\<rparr>"
  shows "map (\<lambda>m. (am_id m, am_role m, am_active m))
      (members_of (member_step example_member_env None (Merge admin ''w'' ''c'' ''d'' []) db db)) =
    [(''a'', ADMIN, True), (''c'', FACILITATOR, False), (''d'', CONTRIBUTOR, True)]"
  unfolding admin_def db_def by code_simp

text \<open>Two requests that read one link before either of them writes both succeed, and the later password stays.\<close>

lemma two_readers_use_one_link:
  "\<exists>db1 db2. consumePasswordReset example_auth_cfg ''t'' ''password'' example_linked example_linked = Inr db1 \<and>
     consumePasswordReset example_auth_cfg ''t'' ''passw0rd'' example_linked db1 = Inr db2 \<and>
     map_option us_passwordHash (find_user ''a'' (tb_users (md_auth db2))) = Some ''passw0rd''"
proof -
  have "case consumePasswordReset example_auth_cfg ''t'' ''password'' example_linked example_linked of
      Inl e \<Rightarrow> False
    | Inr db1 \<Rightarrow>
        (case consumePasswordReset example_auth_cfg ''t'' ''passw0rd'' example_linked db1 of
           Inl e \<Rightarrow> False
         | Inr db2 \<Rightarrow> map_option us_passwordHash (find_user ''a'' (tb_users (md_auth db2))) = Some ''passw0rd'')"
    by code_simp
  then show ?thesis by (auto split: sum.splits)
qed

text \<open>Two invitations that are checked against the limit of a trial before either is stored exceed it.\<close>

definition example_trial :: trial_row where
  "example_trial =
     \<lparr>tr_id = ''trial'', tr_workspace = Some ''w'', tr_credential = None, tr_adminEmail = ''a'', tr_emailDomain = ''d'',
      tr_status = TRIAL_ACTIVE, tr_expiresAt = 1000, tr_memberLimit = 3, tr_storageLimitMb = 1,
      tr_mcpDailyCallLimit = 1, tr_suspendedAt = None, tr_suspensionReason = None\<rparr>"

definition second_env :: "unit member_env" where
  "second_env = example_member_env\<lparr>me_cfg := example_auth_cfg\<lparr>ac_new_id := (\<lambda>s. s @ ''2''), ac_token := ''t2''\<rparr>\<rparr>"

lemma overlapping_invitations_exceed_the_trial:
  fixes admin defines "admin \<equiv> Auth_user (session_user (example_account ''a''))"
    and "db \<equiv> example_members\<lparr>md_plans := example_plans\<lparr>pl_trials := [example_trial]\<rparr>\<rparr>"
  shows "\<exists>r1 db1 r2 db2.
    createMember example_member_env admin ''w'' ''x'' None CONTRIBUTOR None False None db db = Inr (r1, db1) \<and>
    createMember second_env admin ''w'' ''y'' None CONTRIBUTOR None False None db db1 = Inr (r2, db2) \<and>
    length (filter (counts_as_member ''w'' (md_auth db2)) (members_of db2)) = 4"
proof -
  let ?r1 = "createMember example_member_env admin ''w'' ''x'' None CONTRIBUTOR None False None db db"
  let ?r2 = "createMember second_env admin ''w'' ''y'' None CONTRIBUTOR None False None db"
  have run: "case ?r1 of Inl e \<Rightarrow> False
    | Inr (r1, db1) \<Rightarrow>
        (case ?r2 db1 of
           Inl e \<Rightarrow> False
         | Inr (r2, db2) \<Rightarrow> length (filter (counts_as_member ''w'' (md_auth db2)) (members_of db2)) = 4)"
    unfolding admin_def db_def by code_simp
  then obtain r1 db1 where 1: "?r1 = Inr (r1, db1)" by (cases ?r1) auto
  with run obtain r2 db2 where "?r2 db1 = Inr (r2, db2)" by (cases "?r2 db1") auto
  with run 1 show ?thesis by (cases r1, cases r2) auto
qed

end
