(* ===== verification/Goal_Progress.thy ===== *)
theory Goal_Progress
  imports Module_Grants Js_Number
begin

text \<open>
  Goals, their key results and the progress that rolls up from them: the tables of
  \<^verbatim>\<open>packages/domain/src/goals.ts\<close>, the version history of \<^verbatim>\<open>work-item-versions.ts\<close> and
  \<^verbatim>\<open>recomputeGoalProgress\<close>, with the proof that its recursion over the parents ends.

  The lineage store and the permalinks are the last field of the database, moved by \<open>ge_lineage\<close>;
  membership, readability, the captured inputs of a creation, the human member filter, the
  decision of the duplicate guard and the rendering of a fraction in JSON are arguments.
\<close>

section \<open>Tables\<close>

datatype goal_status =
  GOAL_DRAFT | GOAL_ACTIVE | GOAL_ON_TRACK | GOAL_AT_RISK | GOAL_BEHIND | GOAL_COMPLETED | GOAL_ABANDONED

datatype goal_level = COMPANY_LEVEL | CIRCLE_LEVEL | PERSONAL_LEVEL

datatype goal_cadence = WEEKLY | MONTHLY | QUARTERLY | ANNUAL | FIVE_YEAR | TEN_YEAR

record goal_row =
  go_id :: string
  go_workspace :: string
  go_author :: "string option"
  go_parent :: "string option"
  go_circle :: "string option"
  go_owner :: "string option"
  go_title :: string
  go_description :: "string option"
  go_level :: goal_level
  go_cadence :: goal_cadence
  go_status :: goal_status
  go_version :: int
  go_progress :: int
  go_private :: bool
  go_publishedAt :: "int option"
  go_targetDate :: "int option"
  go_startDate :: "int option"
  go_archivedAt :: "int option"
  go_archivedBy :: "string option"
  go_archiveReason :: "string option"

record key_result =
  ks_id :: string
  ks_goal :: string
  ks_title :: string
  ks_target :: "rat option"
  ks_current :: "rat option"
  ks_unit :: "string option"
  ks_progress :: int
  ks_sortOrder :: int

text \<open>The previous state of a version is the row it pictures, with the key results where they are named.\<close>

record version_row =
  ve_workspace :: string
  ve_type :: string
  ve_entity :: string
  ve_version :: int
  ve_fields :: "string list"
  ve_previous :: goal_row
  ve_results :: "key_result list option"
  ve_actor :: "string option"
  ve_label :: string
  ve_source :: string

record goal_update_row =
  gw_id :: string
  gw_goal :: string
  gw_author :: "string option"
  gw_body :: string
  gw_progress :: "int option"
  gw_status :: "goal_status option"

record goal_archive_row =
  gz_workspace :: string
  gz_goal :: string
  gz_label :: string
  gz_previous :: goal_row
  gz_archivedBy :: "string option"
  gz_archivedByLabel :: string
  gz_archivedAt :: int

record goal_link_row =
  gk_id :: string
  gk_goal :: string
  gk_entityType :: string
  gk_entityId :: string
  gk_confidence :: rat
  gk_linkedBy :: string
  gk_source :: "string option"
  gk_metadata :: "json option"

record 'l goal_db =
  gb_goals :: "goal_row list"
  gb_results :: "key_result list"
  gb_versions :: "version_row list"
  gb_updates :: "goal_update_row list"
  gb_archive :: "goal_archive_row list"
  gb_links :: "goal_link_row list"
  gb_members :: "auth_member list"
  gb_users :: "user_row list"
  gb_circles :: "circle list"
  gb_audit :: "audit_row list"
  gb_events :: "outbox_event list"
  gb_lineage :: 'l

datatype goal_lineage =
  GL_prepare "artifact option" | GL_finish artifact | GL_admit artifact | GL_advance artifact | GL_permalink artifact

text \<open>\<open>ge_new_id\<close> is given the table and the number of the row in its batch.\<close>

record 'l goal_env =
  ge_membership :: "app_actor \<Rightarrow> string \<Rightarrow> membership option result"
  ge_system_user :: "string \<Rightarrow> string result"
  ge_now :: int
  ge_new_id :: "string \<Rightarrow> nat \<Rightarrow> string"
  ge_readable :: "app_actor \<Rightarrow> string \<Rightarrow> goal_row \<Rightarrow> 'l \<Rightarrow> bool"
  ge_inputs :: "app_actor \<Rightarrow> string \<Rightarrow> bool \<Rightarrow> 'l \<Rightarrow> unit result"
  ge_lineage :: "app_actor \<Rightarrow> string \<Rightarrow> goal_lineage \<Rightarrow> 'l \<Rightarrow> 'l result"
  ge_human :: "auth_member \<Rightarrow> bool"
  ge_target :: "app_actor \<Rightarrow> string \<Rightarrow> string \<Rightarrow> string \<Rightarrow> 'l \<Rightarrow> bool"
  ge_normalize :: "string \<Rightarrow> string"
  ge_number :: "rat \<Rightarrow> json"

definition goal_lineage ::
    "'l goal_env \<Rightarrow> app_actor \<Rightarrow> string \<Rightarrow> goal_lineage \<Rightarrow> 'l goal_db \<Rightarrow> 'l goal_db result" where
  "goal_lineage env actor w op db =
     and_then (ge_lineage env actor w op (gb_lineage db)) (\<lambda>l. Inr (db\<lparr>gb_lineage := l\<rparr>))"

definition find_goal :: "string \<Rightarrow> 'l goal_db \<Rightarrow> goal_row option" where
  "find_goal i db = find (\<lambda>g. go_id g = i) (gb_goals db)"

definition goal_results :: "string \<Rightarrow> 'l goal_db \<Rightarrow> key_result list" where
  "goal_results i db = filter (\<lambda>k. ks_goal k = i) (gb_results db)"

text \<open>An update by the primary key changes one row.\<close>

primrec put_goal :: "goal_row \<Rightarrow> goal_row list \<Rightarrow> goal_row list" where
  "put_goal n [] = []"
| "put_goal n (g # gs) = (if go_id g = go_id n then n # gs else g # put_goal n gs)"

definition conflict :: "string \<Rightarrow> js_error" where
  "conflict message = AppError 409 ''VERSION_CONFLICT'' message"

section \<open>Numbers\<close>

definition finite_number :: "rat \<Rightarrow> bool" where
  "finite_number v \<longleftrightarrow> \<bar>v\<bar> < 2 ^ 1024"

definition clampProgressPercent :: "rat \<Rightarrow> string \<Rightarrow> int result" where
  "clampProgressPercent v fieldName =
     and_then (invariant (finite_number v) 400 ''INVALID_INPUT'' (fieldName @ '' must be a number.'')) (\<lambda>_.
     (let rounded = math_round v in
      and_then (invariant (0 \<le> rounded \<and> rounded \<le> 100) 400 ''INVALID_INPUT''
        (fieldName @ '' must be between 0 and 100.'')) (\<lambda>_. Inr rounded)))"

definition keyResultProgress :: "rat option \<Rightarrow> rat option \<Rightarrow> int result" where
  "keyResultProgress target current =
     (case target of
        None \<Rightarrow> Inr 0
      | Some t \<Rightarrow>
          if t > 0 then clampProgressPercent (js_mul (js_div (case current of None \<Rightarrow> 0 | Some c \<Rightarrow> c) t) 100)
                          ''Key result progress''
          else Inr 0)"

text \<open>\<^verbatim>\<open>Math.round(total / length)\<close>.\<close>

definition rounded_mean :: "int list \<Rightarrow> int" where
  "rounded_mean xs = math_round (js_div (of_int (sum_list xs)) (of_nat (length xs)))"

section \<open>Versions\<close>

definition effective_actor :: "app_actor option \<Rightarrow> string \<Rightarrow> app_actor" where
  "effective_actor actor w =
     (case actor of
        Some a \<Rightarrow> a
      | None \<Rightarrow> AgentActor \<lparr>ag_provider = Auth_bootstrap, ag_label = ''system:progress-recomputation'',
                  ag_workspaces = Some [w], ag_scopes = None\<rparr>)"

text \<open>The fields that \<^verbatim>\<open>pickJsonSnapshot\<close> keeps of a goal: all but those of its archiving.\<close>

definition goal_snapshot :: "goal_row \<Rightarrow> goal_row" where
  "goal_snapshot g = g\<lparr>go_archivedAt := None, go_archivedBy := None, go_archiveReason := None\<rparr>"

fun provider_text :: "auth_provider \<Rightarrow> string" where
  "provider_text Auth_bootstrap = ''bootstrap''"
| "provider_text Auth_credential = ''credential''"
| "provider_text Auth_control_plane = ''control-plane''"

definition version_label :: "app_actor \<Rightarrow> string" where
  "version_label actor =
     (case actor of
        UserActor u \<Rightarrow> if truthy_str (hu_name u) then the (hu_name u)
                        else if hu_email u \<noteq> [] then hu_email u else hu_id u
      | AgentActor a \<Rightarrow> if ag_label a \<noteq> [] then ag_label a else provider_text (ag_provider a))"

definition recordWorkItemVersion ::
    "app_actor \<Rightarrow> goal_row \<Rightarrow> key_result list option \<Rightarrow> string list \<Rightarrow> 'l goal_db \<Rightarrow> (int \<times> 'l goal_db) result" where
  "recordWorkItemVersion actor g results names db =
     (if names = [] then Inr (go_version g, db)
      else if list_ex (\<lambda>v. ve_type v = ''Goal'' \<and> ve_entity v = go_id g \<and> ve_version v = go_version g) (gb_versions db)
      then Inl (conflict ''The record changed before this update could be applied. Please refresh and try again.'')
      else Inr (go_version g + 1, db\<lparr>gb_versions := gb_versions db @
             [\<lparr>ve_workspace = go_workspace g, ve_type = ''Goal'', ve_entity = go_id g, ve_version = go_version g,
               ve_fields = names, ve_previous = goal_snapshot g, ve_results = results, ve_actor = actor_user actor,
               ve_label = version_label actor,
               ve_source = (case actor of AgentActor _ \<Rightarrow> ''MCP_AGENT'' | UserActor _ \<Rightarrow> ''WEB'')\<rparr>]\<rparr>))"

section \<open>Progress that rolls up\<close>

definition countsTowardParentProgress :: "goal_row \<Rightarrow> bool" where
  "countsTowardParentProgress g \<longleftrightarrow> go_archivedAt g = None \<and> \<not> (go_private g \<and> go_status g = GOAL_DRAFT)"

definition child_progress :: "string \<Rightarrow> 'l goal_db \<Rightarrow> int list" where
  "child_progress i db =
     map go_progress (filter (\<lambda>c. go_parent c = Some i \<and> countsTowardParentProgress c) (gb_goals db))"

text \<open>What drives a goal: its key results where it has any, otherwise the children that count.\<close>

definition driven_progress :: "string \<Rightarrow> 'l goal_db \<Rightarrow> int option" where
  "driven_progress i db =
     (let results = map ks_progress (goal_results i db); children = child_progress i db in
      if results \<noteq> [] then Some (rounded_mean results)
      else if children \<noteq> [] then Some (rounded_mean children)
      else None)"

definition computed_progress :: "bool \<Rightarrow> goal_row \<Rightarrow> 'l goal_db \<Rightarrow> int" where
  "computed_progress reset g db =
     (case driven_progress (go_id g) db of
        Some p \<Rightarrow> p
      | None \<Rightarrow> if reset then 0 else go_progress g)"

definition store_progress ::
    "'l goal_env \<Rightarrow> app_actor \<Rightarrow> string list \<Rightarrow> key_result list option \<Rightarrow> goal_row \<Rightarrow> int \<Rightarrow> 'l goal_db
     \<Rightarrow> 'l goal_db result" where
  "store_progress env actor names results g p db =
     (let a = (''Goal'', go_id g); w = go_workspace g in
     and_then (goal_lineage env actor w (GL_prepare (Some a)) db) (\<lambda>db1.
     and_then (recordWorkItemVersion actor g results
         (names @ (if p \<noteq> go_progress g then [''progressPercent''] else [])) db1) (\<lambda>(version, db2).
     goal_lineage env actor w (GL_finish a)
       (db2\<lparr>gb_goals := put_goal (g\<lparr>go_progress := p, go_version := version\<rparr>) (gb_goals db2)\<rparr>))))"

text \<open>
  \<^verbatim>\<open>recomputeGoalProgress\<close> for a goal and, where its progress changed, for its parent.  Parents may form
  a cycle (\<^verbatim>\<open>validateGoalReferences\<close> refuses the goal itself only), so that the recursion ends is not
  plain: an average is monotone, hence the goals above a change move in the direction of that change
  until they agree with their drivers.
\<close>

definition stale_goal :: "string \<Rightarrow> 'l goal_db \<Rightarrow> bool" where
  "stale_goal i db =
     (case find_goal i db of
        None \<Rightarrow> False
      | Some g \<Rightarrow> (case driven_progress i db of None \<Rightarrow> False | Some p \<Rightarrow> p \<noteq> go_progress g))"


lemma fl_power2: "fl (2 ^ k) = 2 ^ k"
proof -
  have e: "expo (2 ^ k) = int k" by (rule expo_unique) (simp_all add: power_int_add)
  have "(2::rat) ^ k / 2 powi (int k - 52) = of_int (2 ^ 52)" by (simp add: power_int_diff)
  then have "fl (2 ^ k) = of_int (2 ^ 52) * 2 powi (int k - 52)"
    by (simp only: fl_def fl_pos_def e Let_def round_half_even_of_int) simp
  then show ?thesis by (simp add: power_int_diff)
qed

lemma rounded_mean_mono:
  assumes "list_all2 (\<le>) xs ys" shows "rounded_mean xs \<le> rounded_mean ys"
proof -
  have "sum_list xs \<le> sum_list ys" using assms by (induction rule: list_all2_induct) auto
  then show ?thesis using list_all2_lengthD [OF assms]
    by (simp add: rounded_mean_def math_round_mono js_div_mono_left)
qed

lemma rounded_mean_within:
  assumes "\<forall>x\<in>set xs. \<bar>x\<bar> \<le> 2 ^ k" shows "\<bar>rounded_mean xs\<bar> \<le> 2 ^ k"
proof (cases "xs = []")
  case False
  let ?n = "of_nat (length xs) :: rat"
  have "\<bar>sum_list xs\<bar> \<le> int (length xs) * 2 ^ k"
    using assms by (induction xs) (auto simp: algebra_simps)
  then have "\<bar>of_int (sum_list xs) :: rat\<bar> \<le> of_int (int (length xs) * 2 ^ k)"
    by (metis of_int_abs of_int_le_iff)
  then have "\<bar>of_int (sum_list xs) / ?n\<bar> \<le> 2 ^ k"
    using False by (simp add: abs_divide divide_le_eq mult.commute)
  then have b: "of_int (sum_list xs) / ?n \<le> 2 ^ k" "- (2 ^ k) \<le> of_int (sum_list xs) / ?n" by linarith+
  have "fl (of_int (sum_list xs) / ?n) \<le> 2 ^ k" "- (2 ^ k) \<le> fl (of_int (sum_list xs) / ?n)"
    using fl_mono [OF b(1)] fl_mono [OF b(2)] by (simp_all add: fl_power2 fl_minus)
  moreover have "math_round (2 ^ k) = 2 ^ k" "math_round (- (2 ^ k)) = - (2 ^ k)"
    using math_round_of_int [of "2 ^ k"] math_round_of_int [of "- (2 ^ k)"] by simp_all
  ultimately show ?thesis
    using math_round_mono [of _ "2 ^ k"] math_round_mono [of "- (2 ^ k)"]
    by (fastforce simp: rounded_mean_def js_div_def abs_le_iff)
qed (use math_round_of_int [of 0] in \<open>simp add: rounded_mean_def js_div_def\<close>)

lemma find_goal_SomeD: "find_goal i db = Some g \<Longrightarrow> go_id g = i \<and> g \<in> set (gb_goals db)"
  unfolding find_goal_def by (auto simp: find_Some_iff)

lemma find_put_goal:
  "find (\<lambda>h. go_id h = j) (put_goal n gs) =
     (if j = go_id n then (if find (\<lambda>h. go_id h = j) gs = None then None else Some n)
      else find (\<lambda>h. go_id h = j) gs)"
  by (induction gs) auto

lemma put_goal_found:
  assumes "find (\<lambda>h. go_id h = go_id n) gs = Some g"
  obtains as bs where "gs = as @ g # bs" "put_goal n gs = as @ n # bs"
proof -
  have "\<exists>as bs. gs = as @ g # bs \<and> put_goal n gs = as @ n # bs" using assms
  proof (induction gs)
    case (Cons h gs)
    show ?case
    proof (cases "go_id h = go_id n")
      case True
      then show ?thesis using Cons.prems by (intro exI [of _ "[]"] exI [of _ gs]) auto
    next
      case False
      then obtain as bs where "gs = as @ g # bs" "put_goal n gs = as @ n # bs" using Cons by auto
      then show ?thesis using False by (intro exI [of _ "h # as"] exI [of _ bs]) auto
    qed
  qed simp
  then show ?thesis using that by blast
qed

text \<open>One write of a computed progress, and what it does to the drivers of the other goals.\<close>

definition progress_written :: "goal_row \<Rightarrow> int \<Rightarrow> 'l goal_db \<Rightarrow> 'l goal_db \<Rightarrow> bool" where
  "progress_written g p db db' \<longleftrightarrow>
     find_goal (go_id g) db = Some g \<and> gb_results db' = gb_results db \<and>
     (\<exists>v. gb_goals db' = put_goal (g\<lparr>go_progress := p, go_version := v\<rparr>) (gb_goals db))"

lemma written_find:
  assumes "progress_written g p db db'"
  shows "j \<noteq> go_id g \<Longrightarrow> find_goal j db' = find_goal j db"
    "\<exists>v. find_goal (go_id g) db' = Some (g\<lparr>go_progress := p, go_version := v\<rparr>)"
  using assms by (auto simp: progress_written_def find_goal_def find_put_goal)

lemma written_children:
  assumes "progress_written g p db db'"
  shows "go_parent g \<noteq> Some q \<Longrightarrow> child_progress q db' = child_progress q db"
    "go_progress g \<le> p \<Longrightarrow> list_all2 (\<le>) (child_progress q db) (child_progress q db')"
    "p \<le> go_progress g \<Longrightarrow> list_all2 (\<le>) (child_progress q db') (child_progress q db)"
proof -
  obtain v where found: "find (\<lambda>h. go_id h = go_id g) (gb_goals db) = Some g"
    and put: "gb_goals db' = put_goal (g\<lparr>go_progress := p, go_version := v\<rparr>) (gb_goals db)"
    using assms by (auto simp: progress_written_def find_goal_def)
  obtain as bs where l: "gb_goals db = as @ g # bs"
    "gb_goals db' = as @ g\<lparr>go_progress := p, go_version := v\<rparr> # bs"
    using put_goal_found [of "g\<lparr>go_progress := p, go_version := v\<rparr>" "gb_goals db" g] found put by auto
  show "go_parent g \<noteq> Some q \<Longrightarrow> child_progress q db' = child_progress q db"
    by (simp add: child_progress_def l)
  show "go_progress g \<le> p \<Longrightarrow> list_all2 (\<le>) (child_progress q db) (child_progress q db')"
    by (auto simp: child_progress_def l countsTowardParentProgress_def list_all2_append list.rel_refl)
  show "p \<le> go_progress g \<Longrightarrow> list_all2 (\<le>) (child_progress q db') (child_progress q db)"
    by (auto simp: child_progress_def l countsTowardParentProgress_def list_all2_append list.rel_refl)
qed

lemma written_driven:
  assumes "progress_written g p db db'"
  shows "go_parent g \<noteq> Some q \<Longrightarrow> driven_progress q db' = driven_progress q db"
    "go_progress g \<le> p \<Longrightarrow> rel_option (\<le>) (driven_progress q db) (driven_progress q db')"
    "p \<le> go_progress g \<Longrightarrow> rel_option (\<le>) (driven_progress q db') (driven_progress q db)"
proof -
  have r: "goal_results q db' = goal_results q db" using assms
    by (simp add: progress_written_def goal_results_def)
  show "go_parent g \<noteq> Some q \<Longrightarrow> driven_progress q db' = driven_progress q db"
    using written_children(1) [OF assms] by (simp add: driven_progress_def r)
  show "go_progress g \<le> p \<Longrightarrow> rel_option (\<le>) (driven_progress q db) (driven_progress q db')"
    using written_children(2) [OF assms, of q]
    by (auto simp: driven_progress_def r Let_def rounded_mean_mono)
  show "p \<le> go_progress g \<Longrightarrow> rel_option (\<le>) (driven_progress q db') (driven_progress q db)"
    using written_children(3) [OF assms, of q]
    by (auto simp: driven_progress_def r Let_def rounded_mean_mono)
qed

text \<open>Progress stays within a power of two, and the goals move towards one of its ends.\<close>

definition progress_within :: "nat \<Rightarrow> 'l goal_db \<Rightarrow> bool" where
  "progress_within k db \<longleftrightarrow>
     (\<forall>g\<in>set (gb_goals db). \<bar>go_progress g\<bar> \<le> 2 ^ k) \<and> (\<forall>r\<in>set (gb_results db). \<bar>ks_progress r\<bar> \<le> 2 ^ k)"

definition progress_bound :: "'l goal_db \<Rightarrow> nat" where
  "progress_bound db = (LEAST k. progress_within k db)"

lemma progress_bound_within: "progress_within (progress_bound db) db"
proof -
  define xs where "xs = map go_progress (gb_goals db) @ map ks_progress (gb_results db)"
  define m where "m = (\<Sum>x\<leftarrow>xs. nat \<bar>x\<bar>)"
  have "\<bar>x\<bar> \<le> 2 ^ m" if "x \<in> set xs" for x
  proof -
    have "nat \<bar>x\<bar> \<le> m" using that by (simp add: m_def member_le_sum_list)
    also have "m < 2 ^ m" by (rule less_exp)
    finally show ?thesis by (simp add: nat_less_iff)
  qed
  then have "progress_within m db" by (auto simp: progress_within_def xs_def)
  then show ?thesis unfolding progress_bound_def by (rule LeastI)
qed

lemma driven_within:
  assumes "progress_within k db" "driven_progress i db = Some p" shows "\<bar>p\<bar> \<le> 2 ^ k"
proof -
  have "\<forall>x\<in>set (map ks_progress (goal_results i db)). \<bar>x\<bar> \<le> 2 ^ k"
    "\<forall>x\<in>set (child_progress i db). \<bar>x\<bar> \<le> 2 ^ k"
    using assms(1) by (auto simp: progress_within_def goal_results_def child_progress_def)
  with assms(2) show ?thesis
    by (auto simp: driven_progress_def Let_def rounded_mean_within split: if_splits)
qed

lemma written_within:
  assumes "progress_written g p db db'" "driven_progress (go_id g) db = Some p" "progress_within k db"
  shows "progress_within k db'"
proof -
  have "\<bar>p\<bar> \<le> 2 ^ k" using driven_within [OF assms(3,2)] .
  moreover have "set (put_goal n gs) \<subseteq> insert n (set gs)" for n :: goal_row and gs
    by (induction gs) auto
  ultimately show ?thesis using assms(1,3)
    by (fastforce simp: progress_written_def progress_within_def)
qed

definition distance_up :: "'l goal_db \<Rightarrow> nat" where
  "distance_up db = (\<Sum>g\<leftarrow>gb_goals db. nat (2 ^ progress_bound db - go_progress g))"

definition distance_down :: "'l goal_db \<Rightarrow> nat" where
  "distance_down db = (\<Sum>g\<leftarrow>gb_goals db. nat (2 ^ progress_bound db + go_progress g))"

lemma written_distance:
  assumes w: "progress_written g p db db'" and p: "driven_progress (go_id g) db = Some p"
  shows "go_progress g < p \<Longrightarrow> distance_up db' < distance_up db"
    "p < go_progress g \<Longrightarrow> distance_down db' < distance_down db"
proof -
  obtain v where found: "find (\<lambda>h. go_id h = go_id g) (gb_goals db) = Some g"
    and put: "gb_goals db' = put_goal (g\<lparr>go_progress := p, go_version := v\<rparr>) (gb_goals db)"
    using w by (auto simp: progress_written_def find_goal_def)
  obtain as bs where l: "gb_goals db = as @ g # bs"
    "gb_goals db' = as @ g\<lparr>go_progress := p, go_version := v\<rparr> # bs"
    using put_goal_found [of "g\<lparr>go_progress := p, go_version := v\<rparr>" "gb_goals db" g] found put by auto
  let ?k = "progress_bound db" and ?l = "progress_bound db'"
  have k: "progress_within ?k db" by (rule progress_bound_within)
  have "?l \<le> ?k" unfolding progress_bound_def [of db']
    by (rule Least_le) (rule written_within [OF w p k])
  then have lk: "(2::int) ^ ?l \<le> 2 ^ ?k" by (intro power_increasing) auto
  have "progress_within ?l db'" by (rule progress_bound_within)
  then have pl: "\<bar>p\<bar> \<le> 2 ^ ?l" by (auto simp: progress_within_def l)
  have up: "(\<Sum>g\<leftarrow>gs. nat (2 ^ ?l - go_progress g)) \<le> (\<Sum>g\<leftarrow>gs. nat (2 ^ ?k - go_progress g))"
    and down: "(\<Sum>g\<leftarrow>gs. nat (2 ^ ?l + go_progress g)) \<le> (\<Sum>g\<leftarrow>gs. nat (2 ^ ?k + go_progress g))" for gs
    using lk by (auto intro!: sum_list_mono nat_mono)
  show "distance_up db' < distance_up db" if "go_progress g < p"
  proof -
    have "nat (2 ^ ?l - p) < nat (2 ^ ?k - go_progress g)" using that lk pl by linarith
    moreover have "distance_up db' = (\<Sum>g\<leftarrow>as. nat (2 ^ ?l - go_progress g)) + (nat (2 ^ ?l - p) + (\<Sum>g\<leftarrow>bs. nat (2 ^ ?l - go_progress g)))"
      "distance_up db = (\<Sum>g\<leftarrow>as. nat (2 ^ ?k - go_progress g)) + (nat (2 ^ ?k - go_progress g) + (\<Sum>g\<leftarrow>bs. nat (2 ^ ?k - go_progress g)))"
      by (simp_all add: distance_up_def l)
    ultimately show ?thesis using up [of as] up [of bs] by linarith
  qed
  show "distance_down db' < distance_down db" if "p < go_progress g"
  proof -
    have "nat (2 ^ ?l + p) < nat (2 ^ ?k + go_progress g)" using that lk pl by linarith
    moreover have "distance_down db' = (\<Sum>g\<leftarrow>as. nat (2 ^ ?l + go_progress g)) + (nat (2 ^ ?l + p) + (\<Sum>g\<leftarrow>bs. nat (2 ^ ?l + go_progress g)))"
      "distance_down db = (\<Sum>g\<leftarrow>as. nat (2 ^ ?k + go_progress g)) + (nat (2 ^ ?k + go_progress g) + (\<Sum>g\<leftarrow>bs. nat (2 ^ ?k + go_progress g)))"
      by (simp_all add: distance_down_def l)
    ultimately show ?thesis using down [of as] down [of bs] by linarith
  qed
qed

lemma written_stale:
  assumes w: "progress_written g p db db'" and p: "driven_progress (go_id g) db = Some p"
  shows "j \<noteq> go_id g \<Longrightarrow> go_parent g \<noteq> Some j \<Longrightarrow> stale_goal j db' = stale_goal j db"
    "go_parent g \<noteq> Some (go_id g) \<Longrightarrow> \<not> stale_goal (go_id g) db'"
proof -
  show "stale_goal j db' = stale_goal j db" if "j \<noteq> go_id g" "go_parent g \<noteq> Some j"
    using written_find(1) [OF w that(1)] written_driven(1) [OF w that(2)] by (simp add: stale_goal_def split: option.split)
  show "\<not> stale_goal (go_id g) db'" if "go_parent g \<noteq> Some (go_id g)"
    using written_find(2) [OF w] written_driven(1) [OF w that] p by (auto simp: stale_goal_def)
qed

definition stale_goals :: "'l goal_db \<Rightarrow> string set" where
  "stale_goals db = {j \<in> go_id ` set (gb_goals db). stale_goal j db}"

lemma stale_goals_iff: "j \<in> stale_goals db \<longleftrightarrow> stale_goal j db"
  by (auto simp: stale_goals_def stale_goal_def dest: find_goal_SomeD split: option.splits)

lemma finite_stale_goals: "finite (stale_goals db)"
  by (simp add: stale_goals_def)

definition roll_distance :: "string \<Rightarrow> 'l goal_db \<Rightarrow> nat" where
  "roll_distance i db =
     (case find_goal i db of
        None \<Rightarrow> 0
      | Some g \<Rightarrow> (case driven_progress i db of
                     None \<Rightarrow> 0
                   | Some p \<Rightarrow> if go_progress g < p then distance_up db else distance_down db))"

text \<open>A parent that was in agreement moves in the direction of its child.\<close>

lemma parent_direction:
  assumes w: "progress_written g p db db'" and p: "driven_progress (go_id g) db = Some p"
    and ne: "p \<noteq> go_progress g" and stale: "stale_goal q db'" and calm: "q = go_id g \<or> \<not> stale_goal q db"
  shows "roll_distance q db' < roll_distance (go_id g) db"
proof -
  have g: "find_goal (go_id g) db = Some g" using w by (simp add: progress_written_def)
  obtain h p' where h: "find_goal q db' = Some h" "driven_progress q db' = Some p'" "p' \<noteq> go_progress h"
    using stale by (auto simp: stale_goal_def split: option.splits)
  have drv: "driven_progress q db = Some (go_progress h)"
    "rel_option (\<le>) (driven_progress q db) (driven_progress q db') \<or> \<not> go_progress g \<le> p"
    "rel_option (\<le>) (driven_progress q db') (driven_progress q db) \<or> \<not> p \<le> go_progress g"
  proof -
    show "driven_progress q db = Some (go_progress h)"
    proof (cases "q = go_id g")
      case True
      then show ?thesis using written_find(2) [OF w] h(1) p by auto
    next
      case False
      then have "find_goal q db = Some h" "\<not> stale_goal q db" using written_find(1) [OF w] h(1) calm by auto
      moreover have "driven_progress q db \<noteq> None"
        using written_driven(2,3) [OF w, of q] h(2) by (cases "go_progress g \<le> p") (auto simp: option_rel_Some2 option_rel_Some1)
      ultimately show ?thesis by (auto simp: stale_goal_def)
    qed
  qed (use written_driven [OF w] in auto)
  show ?thesis
  proof (cases "go_progress g < p")
    case True
    then have "go_progress h < p'" using drv h by auto
    then show ?thesis using True written_distance(1) [OF w p] by (simp add: roll_distance_def h g p)
  next
    case False
    then have "p' < go_progress h" using drv h ne by auto
    then show ?thesis using False ne written_distance(2) [OF w p] by (simp add: roll_distance_def h g p)
  qed
qed

lemma roll_up_decreases:
  assumes w: "progress_written g p db db'" and p: "driven_progress (go_id g) db = Some p"
    and ne: "p \<noteq> go_progress g" and parent: "go_parent g = Some q"
  shows "((q, db'), (go_id g, db)) \<in> measures [\<lambda>(i, db). card (stale_goals db), \<lambda>(i, db). roll_distance i db]"
proof -
  let ?i = "go_id g"
  have i: "?i \<in> stale_goals db" using w p ne by (simp add: stale_goals_iff stale_goal_def progress_written_def)
  have "x = q \<or> x \<in> stale_goals db" if "x \<in> stale_goals db'" for x
    using that written_stale(1) [OF w p, of x] i parent by (cases "x = ?i"; cases "x = q") (auto simp: stale_goals_iff)
  then have "stale_goals db' \<subseteq> insert q (stale_goals db)" by blast
  moreover have "q \<noteq> ?i \<Longrightarrow> ?i \<notin> stale_goals db'"
    using written_stale(2) [OF w p] parent by (auto simp: stale_goals_iff)
  ultimately have sub: "stale_goals db' \<subseteq> insert q (stale_goals db)" "q \<noteq> ?i \<Longrightarrow> ?i \<notin> stale_goals db'" .
  consider (calm) "q \<notin> stale_goals db'" | (other) "q \<noteq> ?i" "q \<in> stale_goals db" | (same) "q \<in> stale_goals db'" "q = ?i"
    | (up) "q \<in> stale_goals db'" "q \<noteq> ?i" "q \<notin> stale_goals db" by blast
  then show ?thesis
  proof cases
    case calm
    then have "stale_goals db' \<subset> stale_goals db" using sub i by (cases "q = ?i") auto
    then have "card (stale_goals db') < card (stale_goals db)" by (rule psubset_card_mono [OF finite_stale_goals])
    then show ?thesis by simp
  next
    case other
    then have "stale_goals db' \<subset> stale_goals db" using sub i by auto
    then have "card (stale_goals db') < card (stale_goals db)" by (rule psubset_card_mono [OF finite_stale_goals])
    then show ?thesis by simp
  next
    case same
    then have "card (stale_goals db') \<le> card (stale_goals db)"
      using sub i by (intro card_mono finite_stale_goals) auto
    moreover have "roll_distance q db' < roll_distance ?i db"
      using parent_direction [OF w p ne] same by (simp add: stale_goals_iff)
    ultimately show ?thesis by auto
  next
    case up
    have "card (stale_goals db') \<le> card (insert q (stale_goals db - {?i}))"
      using sub up by (intro card_mono) (auto simp: finite_stale_goals)
    also have "\<dots> = card (stale_goals db)"
      using up card_Suc_Diff1 [OF finite_stale_goals i] by (simp add: finite_stale_goals)
    finally have "card (stale_goals db') \<le> card (stale_goals db)" .
    moreover have "roll_distance q db' < roll_distance ?i db"
      using parent_direction [OF w p ne] up by (simp add: stale_goals_iff)
    ultimately show ?thesis by auto
  qed
qed

lemma goal_lineage_frame:
  "goal_lineage env actor w op db = Inr db' \<Longrightarrow> \<exists>l. db' = db\<lparr>gb_lineage := l\<rparr>"
  by (auto simp: goal_lineage_def result_simps)

lemma recordWorkItemVersion_frame:
  "recordWorkItemVersion actor g results names db = Inr (v, db') \<Longrightarrow> \<exists>vs. db' = db\<lparr>gb_versions := gb_versions db @ vs\<rparr>"
  by (auto simp: recordWorkItemVersion_def split: if_splits intro: exI [of _ "[]"])

lemma store_progress_written:
  assumes "store_progress env actor names results g p db = Inr db'" "find_goal (go_id g) db = Some g"
  shows "progress_written g p db db'"
proof -
  obtain db1 v db2 where s: "goal_lineage env actor (go_workspace g) (GL_prepare (Some (''Goal'', go_id g))) db = Inr db1"
    "recordWorkItemVersion actor g results (names @ (if p \<noteq> go_progress g then [''progressPercent''] else [])) db1 = Inr (v, db2)"
    "goal_lineage env actor (go_workspace g) (GL_finish (''Goal'', go_id g))
       (db2\<lparr>gb_goals := put_goal (g\<lparr>go_progress := p, go_version := v\<rparr>) (gb_goals db2)\<rparr>) = Inr db'"
    using assms(1) by (auto simp: store_progress_def Let_def result_simps)
  show ?thesis
    using goal_lineage_frame [OF s(1)] recordWorkItemVersion_frame [OF s(2)] goal_lineage_frame [OF s(3)] assms(2)
    by (auto simp: progress_written_def)
qed

function roll_up :: "'l goal_env \<Rightarrow> app_actor \<Rightarrow> string \<Rightarrow> 'l goal_db \<Rightarrow> 'l goal_db result" where
  "roll_up env actor i db =
     (case find_goal i db of
        None \<Rightarrow> Inr db
      | Some g \<Rightarrow>
          if computed_progress False g db = go_progress g then Inr db
          else (case store_progress env actor [] (Some (goal_results i db)) g (computed_progress False g db) db of
                  Inl e \<Rightarrow> Inl e
                | Inr db' \<Rightarrow>
                    if truthy_str (go_parent g) then roll_up env actor (the (go_parent g)) db' else Inr db'))"
  by pat_completeness auto

termination roll_up
proof (relation "inv_image (measures [\<lambda>(i, db). card (stale_goals db), \<lambda>(i, db). roll_distance i db])
    (\<lambda>(env, actor, i, db). (i, db))")
  fix env :: "'l goal_env" and actor i and db :: "'l goal_db" and g db'
  assume g: "find_goal i db = Some g" and ne: "computed_progress False g db \<noteq> go_progress g"
    and s: "store_progress env actor [] (Some (goal_results i db)) g (computed_progress False g db) db = Inr db'"
    and parent: "truthy_str (go_parent g)"
  obtain q where q: "go_parent g = Some q" using parent by (cases "go_parent g") (auto simp: truthy_str_def)
  have i: "go_id g = i" using find_goal_SomeD [OF g] by simp
  then have p: "driven_progress (go_id g) db = Some (computed_progress False g db)"
    using ne by (auto simp: computed_progress_def split: option.splits)
  show "((env, actor, the (go_parent g), db'), env, actor, i, db) \<in> inv_image (measures
      [\<lambda>(i, db). card (stale_goals db), \<lambda>(i, db). roll_distance i db]) (\<lambda>(env, actor, i, db). (i, db))"
    using roll_up_decreases [OF store_progress_written [OF s] p ne q] g i q by (simp add: in_inv_image)
qed simp

declare roll_up.simps [simp del]

record recompute_options =
  rc_force :: bool
  rc_fields :: "string list"
  rc_results :: "key_result list option"
  rc_reset :: bool

definition no_options :: recompute_options where
  "no_options = \<lparr>rc_force = False, rc_fields = [], rc_results = None, rc_reset = False\<rparr>"

definition recomputeGoalProgress ::
    "'l goal_env \<Rightarrow> app_actor option \<Rightarrow> recompute_options \<Rightarrow> string \<Rightarrow> 'l goal_db \<Rightarrow> 'l goal_db result" where
  "recomputeGoalProgress env actor options i db =
     (case find_goal i db of
        None \<Rightarrow> Inr db
      | Some g \<Rightarrow>
          (let computed = computed_progress (rc_reset options) g db; a = effective_actor actor (go_workspace g) in
           if computed = go_progress g \<and> \<not> rc_force options then Inr db
           else and_then (store_progress env a (rc_fields options)
             (Some (case rc_results options of Some rs \<Rightarrow> rs | None \<Rightarrow> goal_results i db)) g computed db) (\<lambda>db'.
             if truthy_str (go_parent g) then roll_up env a (the (go_parent g)) db' else Inr db')))"

end
