(* ===== verification/Goals.thy ===== *)
theory Goals
  imports Goal_Progress
begin

text \<open>
  The operations of \<^verbatim>\<open>packages/domain/src/goals.ts\<close> that change goals, key results, updates and links.

  A transaction is one step; an operation that reads before it takes the advisory lock of its goal, or
  before its transaction, takes the state of those reads as well (\<open>db0\<close>).  Under the lock the row a
  handler has read is the row it updates, so the \<^verbatim>\<open>where\<close> clauses that repeat its columns hold; where the
  row was read before the lock they are \<open>lockGoalForAuthorizedMutation\<close>.  Versions are integers by
  their type.
\<close>

section \<open>Guards\<close>

definition EDITABLE_ACTIVE_GOAL_STATUSES :: "goal_status list" where
  "EDITABLE_ACTIVE_GOAL_STATUSES = [GOAL_ACTIVE, GOAL_ON_TRACK, GOAL_AT_RISK, GOAL_BEHIND]"

definition goal_item :: "goal_row \<Rightarrow> work_item_record" where
  "goal_item g = \<lparr>wi_archivedAt = go_archivedAt g, wi_isPrivate = Some (go_private g), wi_author = go_author g\<rparr>"

definition assertGoalInWorkspace :: "string \<Rightarrow> string \<Rightarrow> 'l goal_db \<Rightarrow> goal_row result" where
  "assertGoalInWorkspace w i db =
     (case find_goal i db of
        None \<Rightarrow> Inl (AppError 404 ''NOT_FOUND'' ''Goal not found.'')
      | Some g \<Rightarrow>
          and_then (invariant (go_workspace g = w \<and> go_archivedAt g = None) 404 ''NOT_FOUND'' ''Goal not found.'')
            (\<lambda>_. Inr g))"

definition lockGoalForAuthorizedMutation :: "goal_row \<Rightarrow> 'l goal_db \<Rightarrow> unit result" where
  "lockGoalForAuthorizedMutation g db =
     (case find_goal (go_id g) db of
        None \<Rightarrow> Inl (AppError 409 ''CONFLICT'' ''Goal changed while editing. Refresh and try again.'')
      | Some h \<Rightarrow>
          invariant (go_workspace h = go_workspace g \<and> go_archivedAt h = None \<and> go_status h = go_status g \<and>
              go_private h = go_private g)
            409 ''CONFLICT'' ''Goal changed while editing. Refresh and try again.'')"

definition requireEditableGoalContent ::
    "app_actor \<Rightarrow> membership option \<Rightarrow> goal_row \<Rightarrow> string \<Rightarrow> unit result" where
  "requireEditableGoalContent actor m g activeStateMessage =
     (if go_status g = GOAL_DRAFT then requirePrivateDraftEditor actor m (goal_item g)
      else and_then (invariant (go_status g \<in> set EDITABLE_ACTIVE_GOAL_STATUSES) 400 ''INVALID_STATE''
             activeStateMessage) (\<lambda>_. requireCollaborativeWorkItemEditor actor m (goal_item g)))"

definition requireEditableGoalKeyResults :: "app_actor \<Rightarrow> membership option \<Rightarrow> goal_row \<Rightarrow> unit result" where
  "requireEditableGoalKeyResults actor m g =
     requireEditableGoalContent actor m g ''Only draft or active goals can change key results.''"

definition lockGoalForKeyResultMutation ::
    "app_actor \<Rightarrow> membership option \<Rightarrow> goal_row \<Rightarrow> 'l goal_db \<Rightarrow> unit result" where
  "lockGoalForKeyResultMutation actor m g db =
     and_then (requireEditableGoalKeyResults actor m g) (\<lambda>_. lockGoalForAuthorizedMutation g db)"

definition canReadGoalRecord :: "app_actor \<Rightarrow> membership option \<Rightarrow> goal_row \<Rightarrow> bool" where
  "canReadGoalRecord actor m g =
     (if \<not> go_private g then True
      else if go_status g \<noteq> GOAL_DRAFT then False
      else (case (actor, m) of
              (UserActor u, Some mb) \<Rightarrow>
                mb_active mb \<and> mb_user mb = hu_id u \<and> (mb_role mb = ADMIN \<or> go_author g = Some (hu_id u))
            | _ \<Rightarrow> False))"

definition given :: "string option option \<Rightarrow> string option" where
  "given v = (case v of None \<Rightarrow> None | Some x \<Rightarrow> x)"

text \<open>\<^verbatim>\<open>value || null\<close>.\<close>

definition or_null :: "string option \<Rightarrow> string option" where
  "or_null v = (if truthy_str v then v else None)"

definition validateGoalReferences ::
    "'l goal_env \<Rightarrow> app_actor \<Rightarrow> membership option \<Rightarrow> string \<Rightarrow> string option \<Rightarrow> string option \<Rightarrow> string option
     \<Rightarrow> string option \<Rightarrow> 'l goal_db \<Rightarrow> unit result" where
  "validateGoalReferences env actor m w current parent circle owner db =
     and_then (if \<not> truthy_str parent then Inr () else
       and_then (invariant (parent \<noteq> current) 400 ''INVALID_INPUT'' ''Goal cannot be its own parent.'') (\<lambda>_.
       invariant (case find_goal (the parent) db of
           None \<Rightarrow> False
         | Some p \<Rightarrow> go_workspace p = w \<and> go_archivedAt p = None \<and> canReadGoalRecord actor m p)
         400 ''INVALID_INPUT'' ''Parent goal must be a visible active goal in the same workspace.'')) (\<lambda>_.
     and_then (if \<not> truthy_str circle then Inr () else
       invariant (case find_circle (the circle) (gb_circles db) of None \<Rightarrow> False | Some c \<Rightarrow> circle_active_in w c)
         400 ''INVALID_INPUT'' ''Goal circle must be an active circle in the same workspace.'') (\<lambda>_.
     (if \<not> truthy_str owner then Inr () else
       invariant (case find (\<lambda>a. am_id a = the owner \<and> ge_human env a) (gb_members db) of
           None \<Rightarrow> False
         | Some a \<Rightarrow> am_workspace a = w \<and> am_active a)
         400 ''INVALID_INPUT'' ''Goal owner must be an active human member in the same workspace.'')))"

definition check_expectedVersion :: "int option \<Rightarrow> goal_row option \<Rightarrow> string \<Rightarrow> unit result" where
  "check_expectedVersion expected g message =
     (case expected of
        None \<Rightarrow> Inr ()
      | Some v \<Rightarrow>
          and_then (invariant (v > 0) 400 ''INVALID_INPUT'' ''expectedVersion must be a positive integer.'') (\<lambda>_.
          (if map_option go_version g = Some v then Inr () else Inl (conflict message))))"

section \<open>Audit records and events\<close>

definition goal_audit :: "app_actor \<Rightarrow> string \<Rightarrow> string \<Rightarrow> string \<Rightarrow> json \<Rightarrow> 'l goal_db \<Rightarrow> 'l goal_db" where
  "goal_audit actor w action i meta db =
     db\<lparr>gb_audit := gb_audit db @
          [\<lparr>au_workspace = w, au_actor = actor_user actor, au_action = action,
            au_entityType = ''Goal'', au_entityId = i, au_meta = meta\<rparr>]\<rparr>"

definition goal_event :: "string \<Rightarrow> string \<Rightarrow> string \<Rightarrow> string \<Rightarrow> json \<Rightarrow> 'l goal_db \<Rightarrow> 'l goal_db" where
  "goal_event w type aggregate i payload db =
     db\<lparr>gb_events := gb_events db @
          [\<lparr>oe_workspace = w, oe_type = type, oe_aggregateType = aggregate, oe_aggregateId = i,
            oe_payload = payload\<rparr>]\<rparr>"

definition fields_json :: "string \<Rightarrow> string list \<Rightarrow> json" where
  "fields_json i names = JObj [(''goalId'', JStr i), (''fields'', JArr (map JStr names))]"

section \<open>Key results\<close>

record key_result_input =
  ki_title :: string
  ki_target :: "rat option"
  ki_current :: "rat option"
  ki_unit :: "string option"
  ki_sortOrder :: "int option"

primrec normalize_from :: "int \<Rightarrow> key_result_input list \<Rightarrow> key_result list result" where
  "normalize_from index [] = Inr []"
| "normalize_from index (k # ks) =
     and_then (invariant (js_trim (ki_title k) \<noteq> []) 400 ''INVALID_INPUT'' ''Key Result title is required.'') (\<lambda>_.
     and_then (keyResultProgress (ki_target k) (ki_current k)) (\<lambda>p.
     and_then (normalize_from (index + 1) ks) (\<lambda>rest.
       Inr (\<lparr>ks_id = [], ks_goal = [], ks_title = js_trim (ki_title k), ks_target = ki_target k,
              ks_current = Some (case ki_current k of None \<Rightarrow> 0 | Some c \<Rightarrow> c), ks_unit = or_null (ki_unit k),
              ks_progress = p, ks_sortOrder = (case ki_sortOrder k of None \<Rightarrow> index | Some s \<Rightarrow> s)\<rparr> # rest))))"

definition normalizeKeyResults :: "key_result_input list \<Rightarrow> key_result list result" where
  "normalizeKeyResults ks = normalize_from 0 ks"

definition insert_result :: "key_result \<Rightarrow> 'l goal_db \<Rightarrow> 'l goal_db result" where
  "insert_result k db =
     (if list_ex (\<lambda>r. ks_id r = ks_id k) (gb_results db)
      then Inl (PlainError ''Unique constraint failed on the fields: (`id`)'' (Some ''P2002''))
      else Inr (db\<lparr>gb_results := gb_results db @ [k]\<rparr>))"

primrec insert_results :: "key_result list \<Rightarrow> 'l goal_db \<Rightarrow> 'l goal_db result" where
  "insert_results [] db = Inr db"
| "insert_results (k # ks) db = and_then (insert_result k db) (insert_results ks)"

primrec finish_results ::
    "'l goal_env \<Rightarrow> app_actor \<Rightarrow> string \<Rightarrow> key_result list \<Rightarrow> 'l goal_db \<Rightarrow> 'l goal_db result" where
  "finish_results env actor w [] db = Inr db"
| "finish_results env actor w (k # ks) db =
     and_then (goal_lineage env actor w (GL_finish (''KeyResult'', ks_id k)) db) (finish_results env actor w ks)"

definition createGoalKeyResultsWithLineage ::
    "'l goal_env \<Rightarrow> app_actor \<Rightarrow> string \<Rightarrow> string \<Rightarrow> key_result list \<Rightarrow> 'l goal_db
     \<Rightarrow> (key_result list \<times> 'l goal_db) result" where
  "createGoalKeyResultsWithLineage env actor w i ks db =
     (let rows = map (\<lambda>(n, k). k\<lparr>ks_id := ge_new_id env ''KeyResult'' n, ks_goal := i\<rparr>) (enumerate 0 ks) in
     and_then (goal_lineage env actor w (GL_prepare None) db) (\<lambda>db1.
     and_then (insert_results rows db1) (\<lambda>db2.
     and_then (finish_results env actor w rows db2) (\<lambda>db3. Inr (rows, db3)))))"

definition key_result_options :: "bool \<Rightarrow> key_result list \<Rightarrow> recompute_options" where
  "key_result_options reset previous =
     \<lparr>rc_force = True, rc_fields = [''keyResults''], rc_results = Some previous, rc_reset = reset\<rparr>"

definition nonzero :: "rat option \<Rightarrow> rat option" where
  "nonzero v = (case v of None \<Rightarrow> None | Some x \<Rightarrow> if x = 0 then None else Some x)"

definition new_key_result ::
    "'l goal_env \<Rightarrow> app_actor \<Rightarrow> string \<Rightarrow> string \<Rightarrow> key_result_input \<Rightarrow> 'l goal_db \<Rightarrow> key_result result" where
  "new_key_result env actor w i ps db =
     and_then (ge_membership env actor w) (\<lambda>m.
     and_then (invariant (js_trim (ki_title ps) \<noteq> []) 400 ''INVALID_INPUT'' ''Key Result title is required.'') (\<lambda>_.
     and_then (keyResultProgress (ki_target ps) (ki_current ps)) (\<lambda>p.
     and_then (assertGoalInWorkspace w i db) (\<lambda>g.
     and_then (lockGoalForKeyResultMutation actor m g db) (\<lambda>_.
     Inr \<lparr>ks_id = ge_new_id env ''KeyResult'' 0, ks_goal = i, ks_title = js_trim (ki_title ps),
          ks_target = nonzero (ki_target ps),
          ks_current = Some (case ki_current ps of None \<Rightarrow> 0 | Some c \<Rightarrow> c), ks_unit = or_null (ki_unit ps),
          ks_progress = p, ks_sortOrder = 0\<rparr>)))))"

definition store_new_result ::
    "'l goal_env \<Rightarrow> app_actor \<Rightarrow> string \<Rightarrow> key_result \<Rightarrow> 'l goal_db \<Rightarrow> 'l goal_db result" where
  "store_new_result env actor w k db =
     and_then (goal_lineage env actor w (GL_prepare None) db) (\<lambda>db1.
     and_then (insert_result k db1) (\<lambda>db2.
     and_then (goal_lineage env actor w (GL_finish (''KeyResult'', ks_id k)) db2) (\<lambda>db3.
     recomputeGoalProgress env (Some actor) (key_result_options False (goal_results (ks_goal k) db)) (ks_goal k) db3)))"

definition addKeyResult ::
    "'l goal_env \<Rightarrow> app_actor \<Rightarrow> string \<Rightarrow> string \<Rightarrow> key_result_input \<Rightarrow> 'l goal_db
     \<Rightarrow> (key_result \<times> 'l goal_db) result" where
  "addKeyResult env actor w i ps db =
     and_then (new_key_result env actor w i ps db) (\<lambda>k.
     and_then (store_new_result env actor w k db) (\<lambda>db'. Inr (k, db')))"

record key_result_update =
  ku_title :: "string option"
  ku_target :: "rat option option"
  ku_current :: "rat option option"
  ku_unit :: "string option option"

definition find_result :: "string \<Rightarrow> 'l goal_db \<Rightarrow> key_result option" where
  "find_result i db = find (\<lambda>k. ks_id k = i) (gb_results db)"

text \<open>The key result and its goal, as the transaction reads them before it takes the lock.\<close>

definition read_result :: "string \<Rightarrow> string \<Rightarrow> 'l goal_db \<Rightarrow> (key_result \<times> goal_row) result" where
  "read_result w i db0 =
     (case find_result i db0 of
        None \<Rightarrow> Inl (AppError 404 ''NOT_FOUND'' ''Key Result not found.'')
      | Some k \<Rightarrow>
          (case find_goal (ks_goal k) db0 of
             None \<Rightarrow> Inl (AppError 404 ''NOT_FOUND'' ''Key Result not found.'')
           | Some g \<Rightarrow>
               and_then (invariant (go_workspace g = w \<and> go_archivedAt g = None) 404 ''NOT_FOUND''
                 ''Key Result not found.'') (\<lambda>_. Inr (k, g))))"

definition numericValueChanged :: "rat option \<Rightarrow> rat option \<Rightarrow> bool" where
  "numericValueChanged next current \<longleftrightarrow>
     (case (next, current) of (Some a, Some b) \<Rightarrow> a \<noteq> b | _ \<Rightarrow> next \<noteq> current)"

definition has_requested_changes :: "key_result_update \<Rightarrow> key_result \<Rightarrow> bool" where
  "has_requested_changes u k \<longleftrightarrow>
     (case ku_title u of None \<Rightarrow> False | Some t \<Rightarrow> js_trim t \<noteq> ks_title k) \<or>
     (case ku_target u of None \<Rightarrow> False | Some t \<Rightarrow> numericValueChanged t (ks_target k)) \<or>
     (case ku_current u of None \<Rightarrow> False | Some c \<Rightarrow> numericValueChanged c (ks_current k)) \<or>
     (case ku_unit u of None \<Rightarrow> False | Some x \<Rightarrow> x \<noteq> ks_unit k)"

definition apply_result_update :: "key_result_update \<Rightarrow> int \<Rightarrow> key_result \<Rightarrow> key_result" where
  "apply_result_update u p k =
     k\<lparr>ks_title := or_keep (map_option js_trim (ku_title u)) (ks_title k),
       ks_target := or_keep (ku_target u) (ks_target k), ks_current := or_keep (ku_current u) (ks_current k),
       ks_unit := or_keep (ku_unit u) (ks_unit k), ks_progress := p\<rparr>"

primrec update_result :: "string \<Rightarrow> (key_result \<Rightarrow> key_result) \<Rightarrow> key_result list \<Rightarrow> key_result list" where
  "update_result i f [] = []"
| "update_result i f (k # ks) = (if ks_id k = i then f k # ks else k # update_result i f ks)"

definition record_missing :: js_error where
  "record_missing = PlainError ''Record to update not found.'' (Some ''P2025'')"

text \<open>The key result that was read, its goal, the membership and the new progress.\<close>

definition changed_key_result ::
    "'l goal_env \<Rightarrow> app_actor \<Rightarrow> string \<Rightarrow> string \<Rightarrow> key_result_update \<Rightarrow> int option \<Rightarrow> 'l goal_db \<Rightarrow> 'l goal_db
     \<Rightarrow> (key_result \<times> goal_row \<times> membership option \<times> int) result" where
  "changed_key_result env actor w i u expected db0 db =
     and_then (ge_membership env actor w) (\<lambda>m.
     and_then (read_result w i db0) (\<lambda>(k, g).
     and_then (invariant (case ku_title u of None \<Rightarrow> True | Some t \<Rightarrow> js_trim t \<noteq> []) 400 ''INVALID_INPUT''
       ''Key Result title is required.'') (\<lambda>_.
     and_then (keyResultProgress (or_keep (ku_target u) (ks_target k)) (or_keep (ku_current u) (ks_current k))) (\<lambda>p.
     and_then (requireEditableGoalKeyResults actor m g) (\<lambda>_.
     and_then (check_expectedVersion expected (find_goal (go_id g) db)
       ''The Goal changed before this Key Result update could be applied. Please refresh and try again.'') (\<lambda>_.
     Inr (k, g, m, p)))))))"

definition store_changed_result ::
    "'l goal_env \<Rightarrow> app_actor \<Rightarrow> string \<Rightarrow> key_result_update \<Rightarrow> int \<Rightarrow> key_result \<Rightarrow> 'l goal_db
     \<Rightarrow> (key_result \<times> 'l goal_db) result" where
  "store_changed_result env actor w u p k db =
     and_then (goal_lineage env actor w (GL_prepare (Some (''KeyResult'', ks_id k))) db) (\<lambda>db1.
     (case find_result (ks_id k) db1 of
        None \<Rightarrow> Inl record_missing
      | Some r \<Rightarrow>
          and_then (goal_lineage env actor w (GL_finish (''KeyResult'', ks_id k))
            (db1\<lparr>gb_results := update_result (ks_id k) (apply_result_update u p) (gb_results db1)\<rparr>)) (\<lambda>db2.
          and_then (recomputeGoalProgress env (Some actor)
            (key_result_options False (goal_results (ks_goal k) db)) (ks_goal r) db2) (\<lambda>db3.
          Inr (apply_result_update u p r, db3)))))"

definition updateKeyResult ::
    "'l goal_env \<Rightarrow> app_actor \<Rightarrow> string \<Rightarrow> string \<Rightarrow> key_result_update \<Rightarrow> int option \<Rightarrow> 'l goal_db \<Rightarrow> 'l goal_db
     \<Rightarrow> (key_result \<times> 'l goal_db) result" where
  "updateKeyResult env actor w i u expected db0 db =
     and_then (changed_key_result env actor w i u expected db0 db) (\<lambda>(k, g, m, p).
     if \<not> has_requested_changes u k then Inr (k, db)
     else and_then (lockGoalForKeyResultMutation actor m g db) (\<lambda>_. store_changed_result env actor w u p k db))"

definition deleteKeyResult ::
    "'l goal_env \<Rightarrow> app_actor \<Rightarrow> string \<Rightarrow> string \<Rightarrow> int \<Rightarrow> 'l goal_db \<Rightarrow> 'l goal_db \<Rightarrow> 'l goal_db result" where
  "deleteKeyResult env actor w i expected db0 db =
     and_then (ge_membership env actor w) (\<lambda>m.
     and_then (read_result w i db0) (\<lambda>(k, g).
     and_then (requireEditableGoalKeyResults actor m g) (\<lambda>_.
     and_then (check_expectedVersion (Some expected) (find_goal (go_id g) db)
       ''The Goal changed before this Key Result could be deleted. Please refresh and try again.'') (\<lambda>_.
     and_then (lockGoalForKeyResultMutation actor m g db) (\<lambda>_.
     if find_result i db = None then Inl (PlainError ''Record to delete does not exist.'' (Some ''P2025''))
     else recomputeGoalProgress env (Some actor) (key_result_options True (goal_results (ks_goal k) db)) (ks_goal k)
            (db\<lparr>gb_results := filter (\<lambda>r. ks_id r \<noteq> i) (gb_results db)\<rparr>))))))"

section \<open>Editing a goal\<close>

record goal_update =
  uz_title :: "string option"
  uz_description :: "string option option"
  uz_level :: "goal_level option"
  uz_cadence :: "goal_cadence option"
  uz_status :: "goal_status option"
  uz_progress :: "rat option"
  uz_targetDate :: "int option option"
  uz_startDate :: "int option option"
  uz_parent :: "string option option"
  uz_circle :: "string option option"
  uz_owner :: "string option option"
  uz_expected :: "int option"

definition no_goal_update :: goal_update where
  "no_goal_update =
     \<lparr>uz_title = None, uz_description = None, uz_level = None, uz_cadence = None, uz_status = None,
      uz_progress = None, uz_targetDate = None, uz_startDate = None, uz_parent = None, uz_circle = None,
      uz_owner = None, uz_expected = None\<rparr>"

definition editsDraftContent :: "goal_update \<Rightarrow> bool" where
  "editsDraftContent u \<longleftrightarrow>
     uz_title u \<noteq> None \<or> uz_description u \<noteq> None \<or> uz_level u \<noteq> None \<or> uz_cadence u \<noteq> None \<or>
     uz_targetDate u \<noteq> None \<or> uz_startDate u \<noteq> None \<or> uz_parent u \<noteq> None \<or> uz_circle u \<noteq> None \<or>
     uz_owner u \<noteq> None"

definition changesWorkflow :: "goal_update \<Rightarrow> bool" where
  "changesWorkflow u \<longleftrightarrow> uz_status u \<noteq> None \<or> uz_progress u \<noteq> None"

definition may_edit_content :: "app_actor \<Rightarrow> membership option \<Rightarrow> goal_row \<Rightarrow> unit result" where
  "may_edit_content actor m g =
     requireEditableGoalContent actor m g ''Only draft or active goals can be edited.''"

definition may_change_workflow ::
    "app_actor \<Rightarrow> membership option \<Rightarrow> goal_update \<Rightarrow> goal_row \<Rightarrow> unit result" where
  "may_change_workflow actor m u g =
     (if uz_status u = Some GOAL_DRAFT then
        and_then (invariant (go_status g \<in> set EDITABLE_ACTIVE_GOAL_STATUSES) 400 ''INVALID_STATE''
          ''Only active goals can be returned to draft.'') (\<lambda>_. requirePrivateDraftEditor actor m (goal_item g))
      else if go_status g = GOAL_COMPLETED \<or> go_status g = GOAL_ABANDONED then
        invariant (uz_progress u = None \<and> uz_status u = None) 400 ''INVALID_STATE''
          ''Completed or abandoned goals cannot be changed.''
      else if go_status g = GOAL_DRAFT then requirePrivateDraftEditor actor m (goal_item g)
      else and_then (invariant (go_status g \<in> set EDITABLE_ACTIVE_GOAL_STATUSES) 400 ''INVALID_STATE''
             ''Only draft or active goals can change workflow state.'') (\<lambda>_.
             requireCollaborativeWorkItemEditor actor m (goal_item g)))"

text \<open>A status makes a draft private and unpublished, anything else public.\<close>

definition set_status :: "int \<Rightarrow> goal_status option \<Rightarrow> goal_row \<Rightarrow> goal_row" where
  "set_status now status g =
     (case status of
        None \<Rightarrow> g
      | Some st \<Rightarrow>
          if st = GOAL_DRAFT then g\<lparr>go_status := st, go_private := True, go_publishedAt := None\<rparr>
          else g\<lparr>go_status := st, go_private := False,
                 go_publishedAt := (case go_publishedAt g of None \<Rightarrow> Some now | Some t \<Rightarrow> Some t)\<rparr>)"

definition goal_data ::
    "'l goal_env \<Rightarrow> goal_update \<Rightarrow> goal_row \<Rightarrow> goal_row result" where
  "goal_data env u g =
     and_then (invariant (case uz_title u of None \<Rightarrow> True | Some t \<Rightarrow> js_trim t \<noteq> []) 400 ''INVALID_INPUT''
       ''Goal title is required.'') (\<lambda>_.
     and_then (optional_step (uz_progress u) (\<lambda>v. clampProgressPercent v ''Progress'')) (\<lambda>p.
     (let h = set_status (ge_now env) (uz_status u) g in
      Inr (h\<lparr>go_title := or_keep (map_option js_trim (uz_title u)) (go_title g),
             go_description := or_keep (map_option or_null (uz_description u)) (go_description g),
             go_level := or_keep (uz_level u) (go_level g), go_cadence := or_keep (uz_cadence u) (go_cadence g),
             go_progress := or_keep p (go_progress g),
             go_targetDate := or_keep (uz_targetDate u) (go_targetDate g),
             go_startDate := or_keep (uz_startDate u) (go_startDate g),
             go_parent := or_keep (map_option or_null (uz_parent u)) (go_parent g),
             go_circle := or_keep (map_option or_null (uz_circle u)) (go_circle g),
             go_owner := or_keep (map_option or_null (uz_owner u)) (go_owner g)\<rparr>))))"

text \<open>
  \<^verbatim>\<open>changedDataFields\<close>: the fields whose values differ, in the order the handler collects them, and
  those of them that a version records.
\<close>

definition changedDataFields :: "goal_row \<Rightarrow> goal_row \<Rightarrow> string list" where
  "changedDataFields g h =
     (if go_title g = go_title h then [] else [''title'']) @
     (if go_description g = go_description h then [] else [''descriptionMd'']) @
     (if go_level g = go_level h then [] else [''level'']) @
     (if go_cadence g = go_cadence h then [] else [''cadence'']) @
     (if go_status g = go_status h then [] else [''status'']) @
     (if go_private g = go_private h then [] else [''isPrivate'']) @
     (if go_publishedAt g = go_publishedAt h then [] else [''publishedAt'']) @
     (if go_progress g = go_progress h then [] else [''progressPercent'']) @
     (if go_targetDate g = go_targetDate h then [] else [''targetDate'']) @
     (if go_startDate g = go_startDate h then [] else [''startDate'']) @
     (if go_parent g = go_parent h then [] else [''parentGoalId'']) @
     (if go_circle g = go_circle h then [] else [''circleId'']) @
     (if go_owner g = go_owner h then [] else [''ownerMemberId''])"

definition contentFields :: "string list" where
  "contentFields =
     [''title'', ''descriptionMd'', ''level'', ''cadence'', ''progressPercent'', ''targetDate'', ''startDate'',
      ''parentGoalId'', ''circleId'', ''ownerMemberId'']"

text \<open>\<^verbatim>\<open>recomputeGoalParentsInTransaction\<close>: the distinct ids in their order.\<close>

definition sortedGoalIds :: "string option list \<Rightarrow> string list" where
  "sortedGoalIds ids = sort (remdups (map the (filter truthy_str ids)))"

primrec recompute_all :: "'l goal_env \<Rightarrow> app_actor \<Rightarrow> string list \<Rightarrow> 'l goal_db \<Rightarrow> 'l goal_db result" where
  "recompute_all env actor [] db = Inr db"
| "recompute_all env actor (i # ids) db =
     and_then (recomputeGoalProgress env (Some actor) no_options i db) (recompute_all env actor ids)"

definition recomputeGoalParentsInTransaction ::
    "'l goal_env \<Rightarrow> app_actor \<Rightarrow> string option list \<Rightarrow> 'l goal_db \<Rightarrow> 'l goal_db result" where
  "recomputeGoalParentsInTransaction env actor ids db = recompute_all env actor (sortedGoalIds ids) db"

text \<open>The row that was read and the row with the new values.\<close>

definition edited_goal ::
    "'l goal_env \<Rightarrow> app_actor \<Rightarrow> string \<Rightarrow> string \<Rightarrow> goal_update \<Rightarrow> 'l goal_db \<Rightarrow> (goal_row \<times> goal_row) result" where
  "edited_goal env actor w i u db =
     and_then (ge_membership env actor w) (\<lambda>m.
     and_then (assertGoalInWorkspace w i db) (\<lambda>g.
     and_then (invariant (ge_readable env actor w g (gb_lineage db)) 404 ''NOT_FOUND'' ''Goal not found.'') (\<lambda>_.
     and_then (validateGoalReferences env actor m w (Some i) (given (uz_parent u)) (given (uz_circle u))
       (given (uz_owner u)) db) (\<lambda>_.
     and_then (if editsDraftContent u then may_edit_content actor m g else Inr ()) (\<lambda>_.
     and_then (if changesWorkflow u then may_change_workflow actor m u g else Inr ()) (\<lambda>_.
     and_then (goal_data env u g) (\<lambda>h.
     and_then (invariant ((editsDraftContent u \<or> uz_progress u \<noteq> None) \<longrightarrow> uz_expected u \<noteq> None)
       400 ''INVALID_INPUT'' ''expectedVersion must be a positive integer.'') (\<lambda>_.
     and_then (check_expectedVersion (uz_expected u) (Some g)
       ''The record changed before this update could be applied. Please refresh and try again.'') (\<lambda>_.
     Inr (g, h))))))))))"

definition content_changes :: "goal_row \<Rightarrow> goal_row \<Rightarrow> string list" where
  "content_changes g h = filter (\<lambda>f. f \<in> set contentFields) (changedDataFields g h)"

text \<open>The parents to recompute: those the request may touch, and those the change does.\<close>

definition parents_to_recompute :: "goal_update \<Rightarrow> goal_row \<Rightarrow> goal_row \<Rightarrow> string option list" where
  "parents_to_recompute u g h =
     (if uz_parent u \<noteq> None \<or> uz_progress u \<noteq> None \<or> uz_status u \<noteq> None
      then [go_parent g, given (uz_parent u)] else []) @
     (if ''parentGoalId'' \<in> set (changedDataFields g h) \<or> ''progressPercent'' \<in> set (changedDataFields g h) \<or>
         countsTowardParentProgress g \<noteq> countsTowardParentProgress h
      then [go_parent g, go_parent h] else [])"

definition store_edited_goal ::
    "'l goal_env \<Rightarrow> app_actor \<Rightarrow> string \<Rightarrow> goal_update \<Rightarrow> goal_row \<Rightarrow> goal_row \<Rightarrow> 'l goal_db
     \<Rightarrow> (goal_row \<times> 'l goal_db) result" where
  "store_edited_goal env actor w u g h db =
     (let i = go_id g; content = content_changes g h;
          names = changedDataFields g h @ (if content = [] then [] else [''version'']) in
     and_then (recordWorkItemVersion actor g None content db) (\<lambda>(version, db1).
     and_then (goal_lineage env actor w (GL_prepare (Some (''Goal'', i))) db1) (\<lambda>db2.
     and_then (goal_lineage env actor w (GL_finish (''Goal'', i))
       (db2\<lparr>gb_goals := put_goal (h\<lparr>go_version := version\<rparr>) (gb_goals db2)\<rparr>)) (\<lambda>db3.
     and_then (recomputeGoalParentsInTransaction env actor (parents_to_recompute u g h) db3) (\<lambda>db4.
     Inr (h\<lparr>go_version := version\<rparr>,
       goal_event w ''goal.updated'' ''Goal'' i (fields_json i names)
         (goal_audit actor w ''goal.updated'' i
           (JObj [(''fields'', JArr (map JStr names)), (''version'', JNum version)]) db4)))))))"

definition updateGoal ::
    "'l goal_env \<Rightarrow> app_actor \<Rightarrow> string \<Rightarrow> string \<Rightarrow> goal_update \<Rightarrow> 'l goal_db \<Rightarrow> (goal_row \<times> 'l goal_db) result" where
  "updateGoal env actor w i u db =
     and_then (edited_goal env actor w i u db) (\<lambda>(g, h).
     if changedDataFields g h = [] then Inr (g, db) else store_edited_goal env actor w u g h db)"

definition returnGoalToDraft ::
    "'l goal_env \<Rightarrow> app_actor \<Rightarrow> string \<Rightarrow> string \<Rightarrow> 'l goal_db \<Rightarrow> (goal_row \<times> 'l goal_db) result" where
  "returnGoalToDraft env actor w i db =
     updateGoal env actor w i (no_goal_update\<lparr>uz_status := Some GOAL_DRAFT\<rparr>) db"

definition deletion_reason :: string where
  "deletion_reason = ''Archived from goal delete path.''"

definition deletable_goal ::
    "'l goal_env \<Rightarrow> app_actor \<Rightarrow> string \<Rightarrow> string \<Rightarrow> bool \<Rightarrow> 'l goal_db \<Rightarrow> goal_row result" where
  "deletable_goal env actor w i includeArchived db =
     and_then (ge_membership env actor w) (\<lambda>m.
     (case find_goal i db of
        None \<Rightarrow> Inl (AppError 404 ''NOT_FOUND'' ''Goal not found.'')
      | Some g \<Rightarrow>
          and_then (invariant (go_workspace g = w \<and> (includeArchived \<or> go_archivedAt g = None))
            404 ''NOT_FOUND'' ''Goal not found.'') (\<lambda>_.
          and_then (if go_status g = GOAL_DRAFT \<or> go_private g then requirePrivateDraftEditor actor m (goal_item g)
                    else requireCollaborativeWorkItemEditor actor m (goal_item g)) (\<lambda>_. Inr g))))"

definition archived_goal :: "'l goal_env \<Rightarrow> app_actor \<Rightarrow> goal_row \<Rightarrow> goal_row" where
  "archived_goal env actor g =
     g\<lparr>go_archivedAt := Some (ge_now env), go_archivedBy := actor_user actor, go_archiveReason := Some deletion_reason\<rparr>"

definition recompute_parent ::
    "'l goal_env \<Rightarrow> app_actor \<Rightarrow> string option \<Rightarrow> 'l goal_db \<Rightarrow> 'l goal_db result" where
  "recompute_parent env actor parent db =
     (if truthy_str parent then recomputeGoalProgress env (Some actor) no_options (the parent) db else Inr db)"

definition store_deleted_goal ::
    "'l goal_env \<Rightarrow> app_actor \<Rightarrow> string \<Rightarrow> goal_row \<Rightarrow> 'l goal_db \<Rightarrow> 'l goal_db result" where
  "store_deleted_goal env actor w g db =
     and_then (recompute_parent env actor (go_parent g)
       (db\<lparr>gb_goals := put_goal (archived_goal env actor g) (gb_goals db)\<rparr>)) (\<lambda>db1.
     and_then (goal_lineage env actor w (GL_permalink (''Goal'', go_id g)) db1) (\<lambda>db2.
     Inr (goal_audit actor w ''workspace-artifact.archived'' (go_id g)
       (JObj [(''label'', JStr (go_title g)), (''reason'', JStr deletion_reason)])
       (db2\<lparr>gb_archive := gb_archive db2 @
          [\<lparr>gz_workspace = w, gz_goal = go_id g, gz_label = go_title g, gz_previous = g,
            gz_archivedBy = actor_user actor, gz_archivedByLabel = version_label actor,
            gz_archivedAt = ge_now env\<rparr>]\<rparr>))))"

definition deleteGoal ::
    "'l goal_env \<Rightarrow> app_actor \<Rightarrow> string \<Rightarrow> string \<Rightarrow> bool \<Rightarrow> 'l goal_db \<Rightarrow> 'l goal_db result" where
  "deleteGoal env actor w i includeArchived db =
     and_then (deletable_goal env actor w i includeArchived db) (\<lambda>g.
     if go_archivedAt g \<noteq> None then Inr db else store_deleted_goal env actor w g db)"

section \<open>Posting an update\<close>

record goal_post =
  uo_body :: string
  uo_author :: "string option"
  uo_status :: "goal_status option"
  uo_progress :: "rat option"
  uo_expected :: "int option"

definition may_post_update ::
    "app_actor \<Rightarrow> membership option \<Rightarrow> goal_post \<Rightarrow> goal_row \<Rightarrow> unit result" where
  "may_post_update actor m ps g =
     (if go_status g = GOAL_DRAFT \<or> uo_status ps = Some GOAL_DRAFT then requirePrivateDraftEditor actor m (goal_item g)
      else and_then (invariant (go_status g \<in> set EDITABLE_ACTIVE_GOAL_STATUSES) 400 ''INVALID_STATE''
             ''Only draft or active goals can receive updates.'') (\<lambda>_.
             requireCollaborativeWorkItemEditor actor m (goal_item g)))"

text \<open>What the update makes of the goal; it has the keys of \<^verbatim>\<open>updateData\<close> as well.\<close>

definition posted_goal :: "int \<Rightarrow> goal_status option \<Rightarrow> int option \<Rightarrow> goal_row \<Rightarrow> goal_row" where
  "posted_goal now status p g = (let h = set_status now status g in h\<lparr>go_progress := or_keep p (go_progress g)\<rparr>)"

definition posted_keys :: "goal_status option \<Rightarrow> int option \<Rightarrow> string list" where
  "posted_keys status p =
     (if status = None then [] else [''status'', ''isPrivate'', ''publishedAt'']) @
     (if p = None then [] else [''progressPercent''])"

definition goal_author_member :: "string \<Rightarrow> string option \<Rightarrow> 'l goal_db \<Rightarrow> unit result" where
  "goal_author_member w author db =
     (if \<not> truthy_str author then Inr () else
        invariant (case find (\<lambda>a. am_id a = the author) (gb_members db) of
            None \<Rightarrow> False
          | Some a \<Rightarrow> am_workspace a = w \<and> am_active a)
          400 ''INVALID_INPUT'' ''Goal update author must be an active member in the same workspace.'')"

definition advance_posted_goal ::
    "'l goal_env \<Rightarrow> app_actor \<Rightarrow> string \<Rightarrow> goal_status option \<Rightarrow> int option \<Rightarrow> goal_row \<Rightarrow> 'l goal_db
     \<Rightarrow> 'l goal_db result" where
  "advance_posted_goal env actor w status p g db =
     (if posted_keys status p = [] then Inr db
      else
        (let i = go_id g; h = posted_goal (ge_now env) status p g;
             content = (if go_progress h = go_progress g then [] else [''progressPercent'']) in
         and_then (recordWorkItemVersion actor g None content db) (\<lambda>(version, db1).
         (let updated = h\<lparr>go_version := version\<rparr>;
              parents = (if p \<noteq> None \<or> status \<noteq> None \<or>
                            countsTowardParentProgress g \<noteq> countsTowardParentProgress updated
                         then [go_parent g] else []) in
         and_then (goal_lineage env actor w (GL_advance (''Goal'', i))
           (db1\<lparr>gb_goals := put_goal updated (gb_goals db1)\<rparr>)) (\<lambda>db2.
         and_then (recomputeGoalParentsInTransaction env actor parents db2) (\<lambda>db3.
         Inr (goal_event w ''goal.updated'' ''Goal'' i
           (fields_json i (posted_keys status p @ (if content = [] then [] else [''version'']))) db3)))))))"

definition posted_update ::
    "'l goal_env \<Rightarrow> app_actor \<Rightarrow> string \<Rightarrow> string \<Rightarrow> goal_post \<Rightarrow> 'l goal_db
     \<Rightarrow> (goal_row \<times> int option \<times> goal_update_row) result" where
  "posted_update env actor w i ps db =
     and_then (ge_membership env actor w) (\<lambda>m.
     and_then (assertGoalInWorkspace w i db) (\<lambda>g.
     and_then (may_post_update actor m ps g) (\<lambda>_.
     and_then (invariant (js_trim (uo_body ps) \<noteq> []) 400 ''INVALID_INPUT'' ''Goal update body is required.'') (\<lambda>_.
     and_then (optional_step (uo_progress ps) (\<lambda>v. clampProgressPercent v ''Goal progress'')) (\<lambda>p.
     and_then (check_expectedVersion (uo_expected ps) (Some g)
       ''The record changed before this update could be applied. Please refresh and try again.'') (\<lambda>_.
     and_then (goal_author_member w (uo_author ps) db) (\<lambda>_.
     Inr (g, p, \<lparr>gw_id = ge_new_id env ''GoalUpdate'' 0, gw_goal = i,
                 gw_author = (case uo_author ps of Some a \<Rightarrow> Some a | None \<Rightarrow> map_option mb_id m),
                 gw_body = js_trim (uo_body ps), gw_progress = p, gw_status = uo_status ps\<rparr>))))))))"

definition store_posted_update ::
    "'l goal_env \<Rightarrow> app_actor \<Rightarrow> string \<Rightarrow> goal_update_row \<Rightarrow> 'l goal_db \<Rightarrow> 'l goal_db result" where
  "store_posted_update env actor w update db =
     and_then (if gw_status update \<noteq> None \<or> gw_progress update \<noteq> None
               then goal_lineage env actor w (GL_admit (''Goal'', gw_goal update)) db else Inr db) (\<lambda>db1.
     and_then (goal_lineage env actor w (GL_prepare None) db1) (\<lambda>db2.
     goal_lineage env actor w (GL_finish (''GoalUpdate'', gw_id update))
       (db2\<lparr>gb_updates := gb_updates db2 @ [update]\<rparr>)))"

definition postGoalUpdate ::
    "'l goal_env \<Rightarrow> app_actor \<Rightarrow> string \<Rightarrow> string \<Rightarrow> goal_post \<Rightarrow> 'l goal_db
     \<Rightarrow> (goal_update_row \<times> 'l goal_db) result" where
  "postGoalUpdate env actor w i ps db =
     and_then (posted_update env actor w i ps db) (\<lambda>(g, p, update).
     and_then (store_posted_update env actor w update db) (\<lambda>db1.
     and_then (advance_posted_goal env actor w (uo_status ps) p g db1) (\<lambda>db2. Inr (update, db2))))"

section \<open>Creating a goal\<close>

record create_goal_params =
  cg_title :: string
  cg_description :: "string option"
  cg_level :: "goal_level option"
  cg_cadence :: "goal_cadence option"
  cg_status :: "goal_status option"
  cg_private :: "bool option"
  cg_targetDate :: "int option"
  cg_startDate :: "int option"
  cg_parent :: "string option"
  cg_circle :: "string option"
  cg_owner :: "string option"
  cg_author :: "string option"
  cg_results :: "key_result_input list"

definition requested_status :: "app_actor \<Rightarrow> create_goal_params \<Rightarrow> goal_status" where
  "requested_status actor ps =
     (case cg_status ps of
        Some s \<Rightarrow> s
      | None \<Rightarrow> (case actor of AgentActor _ \<Rightarrow> GOAL_ACTIVE | UserActor _ \<Rightarrow> GOAL_DRAFT))"

definition requested_private :: "app_actor \<Rightarrow> create_goal_params \<Rightarrow> bool" where
  "requested_private actor ps = or_keep (cg_private ps) (requested_status actor ps = GOAL_DRAFT)"

definition created_status :: "app_actor \<Rightarrow> create_goal_params \<Rightarrow> goal_status" where
  "created_status actor ps =
     (if requested_private actor ps then GOAL_DRAFT
      else if requested_status actor ps = GOAL_DRAFT then GOAL_ACTIVE
      else requested_status actor ps)"

definition resolveWorkspaceMemberUserId :: "string \<Rightarrow> string \<Rightarrow> string \<Rightarrow> 'l goal_db \<Rightarrow> string result" where
  "resolveWorkspaceMemberUserId w i message db =
     (case find (\<lambda>a. am_id a = i \<and> am_workspace a = w \<and> am_active a) (gb_members db) of
        None \<Rightarrow> Inl (AppError 400 ''INVALID_INPUT'' message)
      | Some a \<Rightarrow> Inr (am_user a))"

definition goal_author :: "'l goal_env \<Rightarrow> app_actor \<Rightarrow> string \<Rightarrow> string option \<Rightarrow> 'l goal_db \<Rightarrow> string result" where
  "goal_author env actor w author db =
     (case actor of
        UserActor u \<Rightarrow> Inr (hu_id u)
      | AgentActor _ \<Rightarrow>
          and_then (ge_system_user env w) (\<lambda>s.
          if truthy_str author
          then resolveWorkspaceMemberUserId w (the author) ''Goal author must be an active member of this workspace.'' db
          else Inr s))"

definition new_goal ::
    "'l goal_env \<Rightarrow> app_actor \<Rightarrow> string \<Rightarrow> create_goal_params \<Rightarrow> string \<Rightarrow> key_result list \<Rightarrow> goal_row" where
  "new_goal env actor w ps author ks =
     (let private = requested_private actor ps in
      \<lparr>go_id = ge_new_id env ''Goal'' 0, go_workspace = w, go_author = Some author, go_parent = or_null (cg_parent ps),
       go_circle = or_null (cg_circle ps), go_owner = or_null (cg_owner ps), go_title = js_trim (cg_title ps),
       go_description = or_null (cg_description ps), go_level = or_keep (cg_level ps) COMPANY_LEVEL,
       go_cadence = or_keep (cg_cadence ps) QUARTERLY, go_status = created_status actor ps, go_version = 1,
       go_progress = (if ks = [] then 0 else rounded_mean (map ks_progress ks)), go_private = private,
       go_publishedAt = (if private then None else Some (ge_now env)), go_targetDate = cg_targetDate ps,
       go_startDate = cg_startDate ps, go_archivedAt = None, go_archivedBy = None, go_archiveReason = None\<rparr>)"

definition insert_goal :: "goal_row \<Rightarrow> 'l goal_db \<Rightarrow> 'l goal_db result" where
  "insert_goal g db =
     (if find_goal (go_id g) db = None then Inr (db\<lparr>gb_goals := gb_goals db @ [g]\<rparr>)
      else Inl (PlainError ''Unique constraint failed on the fields: (`id`)'' (Some ''P2002'')))"

definition created_goal ::
    "'l goal_env \<Rightarrow> app_actor \<Rightarrow> string \<Rightarrow> create_goal_params \<Rightarrow> membership option \<Rightarrow> 'l goal_db
     \<Rightarrow> (goal_row \<times> key_result list) result" where
  "created_goal env actor w ps m db =
     and_then (ge_inputs env actor w (requested_private actor ps) (gb_lineage db)) (\<lambda>_.
     and_then (validateGoalReferences env actor m w None (cg_parent ps) (cg_circle ps) (cg_owner ps) db) (\<lambda>_.
     and_then (normalizeKeyResults (cg_results ps)) (\<lambda>ks.
     and_then (goal_author env actor w (cg_author ps) db) (\<lambda>author.
     Inr (new_goal env actor w ps author ks, ks)))))"

definition store_new_goal ::
    "'l goal_env \<Rightarrow> app_actor \<Rightarrow> string \<Rightarrow> goal_row \<Rightarrow> key_result list \<Rightarrow> 'l goal_db \<Rightarrow> 'l goal_db result" where
  "store_new_goal env actor w g ks db =
     and_then (goal_lineage env actor w (GL_prepare None) db) (\<lambda>db1.
     and_then (insert_goal g db1) (\<lambda>db2.
     and_then (goal_lineage env actor w (GL_finish (''Goal'', go_id g)) db2) (\<lambda>db3.
     and_then (goal_lineage env actor w (GL_permalink (''Goal'', go_id g)) db3) (\<lambda>db4.
     if ks = [] then Inr db4
     else and_then (createGoalKeyResultsWithLineage env actor w (go_id g) ks db4) (\<lambda>(_, db5). Inr db5)))))"

definition create_new_goal ::
    "'l goal_env \<Rightarrow> app_actor \<Rightarrow> string \<Rightarrow> create_goal_params \<Rightarrow> membership option
     \<Rightarrow> (string \<times> json) list \<Rightarrow> 'l goal_db \<Rightarrow> (goal_row \<times> 'l goal_db) result" where
  "create_new_goal env actor w ps m meta db =
     and_then (created_goal env actor w ps m db) (\<lambda>(g, ks).
     and_then (store_new_goal env actor w g ks db) (\<lambda>db1.
     (let db2 = goal_audit actor w ''goal.created'' (go_id g)
                  (JObj (if go_private g then [(''isPrivate'', JBool True)] else (''title'', JStr (go_title g)) # meta)) db1 in
      Inr (g, if go_private g then db2
              else goal_event w ''goal.created'' ''Goal'' (go_id g)
                     (JObj [(''goalId'', JStr (go_id g)), (''title'', JStr (go_title g))]) db2))))"

text \<open>\<^verbatim>\<open>getGoal\<close>, as far as its callers here use it: the goal they may see.\<close>

definition privacyFilter :: "app_actor \<Rightarrow> membership option \<Rightarrow> goal_row \<Rightarrow> bool" where
  "privacyFilter actor m g \<longleftrightarrow>
     \<not> go_private g \<or>
     (case actor of
        AgentActor _ \<Rightarrow> False
      | UserActor u \<Rightarrow>
          go_status g = GOAL_DRAFT \<and> (map_option mb_role m = Some ADMIN \<or> go_author g = Some (hu_id u)))"

definition getGoal ::
    "'l goal_env \<Rightarrow> app_actor \<Rightarrow> string \<Rightarrow> string \<Rightarrow> bool \<Rightarrow> 'l goal_db \<Rightarrow> goal_row result" where
  "getGoal env actor w i includeArchived db =
     and_then (ge_membership env actor w) (\<lambda>m.
     (case find_goal i db of
        None \<Rightarrow> Inl (AppError 404 ''NOT_FOUND'' ''Goal not found.'')
      | Some g \<Rightarrow>
          and_then (invariant (go_workspace g = w \<and> privacyFilter actor m g \<and>
              (includeArchived \<or> go_archivedAt g = None) \<and> ge_readable env actor w g (gb_lineage db))
            404 ''NOT_FOUND'' ''Goal not found.'') (\<lambda>_. Inr g)))"

section \<open>The duplicate guard\<close>

datatype duplicate_decision =
  Use_existing string | Update_existing string | Create_anyway "(string \<times> json) list"

definition duplicateGuardMergeText :: "(string \<Rightarrow> string) \<Rightarrow> string option \<Rightarrow> string option \<Rightarrow> string option" where
  "duplicateGuardMergeText canon existing incoming =
     (let current = (case existing of None \<Rightarrow> [] | Some t \<Rightarrow> js_trim t);
          next = (case incoming of None \<Rightarrow> [] | Some t \<Rightarrow> js_trim t); nl = [CHR 0x0A] in
      if next = [] then (if current = [] then None else Some current)
      else if current = [] then Some next
      else if canon current = canon next \<or> is_substring (canon next) (canon current) then Some current
      else if is_substring (canon current) (canon next) then Some next
      else Some (current @ nl @ nl @ ''---'' @ nl @ ''Additional duplicate upload context:'' @ nl @ next))"

definition fill_in :: "'a option \<Rightarrow> 'a option \<Rightarrow> 'a option option" where
  "fill_in existing incoming = (if existing = None \<and> incoming \<noteq> None then Some incoming else None)"

definition replace_by :: "'a \<Rightarrow> 'a option \<Rightarrow> 'a option" where
  "replace_by existing incoming =
     (case incoming of None \<Rightarrow> None | Some x \<Rightarrow> if existing = x then None else Some x)"

definition merge_update :: "'l goal_env \<Rightarrow> create_goal_params \<Rightarrow> goal_row \<Rightarrow> goal_update" where
  "merge_update env ps g =
     (let merged = duplicateGuardMergeText (ge_normalize env) (go_description g) (cg_description ps) in
      \<lparr>uz_title = None, uz_description = (if merged = go_description g then None else Some merged),
       uz_level = replace_by (go_level g) (cg_level ps), uz_cadence = replace_by (go_cadence g) (cg_cadence ps),
       uz_status = replace_by (go_status g) (cg_status ps), uz_progress = None,
       uz_targetDate = fill_in (go_targetDate g) (cg_targetDate ps),
       uz_startDate = fill_in (go_startDate g) (cg_startDate ps),
       uz_parent = fill_in (or_null (go_parent g)) (or_null (cg_parent ps)),
       uz_circle = fill_in (or_null (go_circle g)) (or_null (cg_circle ps)),
       uz_owner = fill_in (or_null (go_owner g)) (or_null (cg_owner ps)), uz_expected = None\<rparr>)"

definition missing_results ::
    "'l goal_env \<Rightarrow> key_result list \<Rightarrow> key_result list \<Rightarrow> key_result list" where
  "missing_results env existing ks =
     (let titles = map (\<lambda>k. ge_normalize env (ks_title k)) existing;
          missing = filter (\<lambda>k. ge_normalize env (ks_title k) \<notin> set titles) ks;
          top = foldl max (- 1) (map ks_sortOrder existing)
      in map (\<lambda>(n, k). k\<lparr>ks_sortOrder := top + int n + 1\<rparr>) (enumerate 0 missing))"

definition store_missing_results ::
    "'l goal_env \<Rightarrow> app_actor \<Rightarrow> string \<Rightarrow> goal_row \<Rightarrow> key_result list \<Rightarrow> 'l goal_db \<Rightarrow> 'l goal_db result" where
  "store_missing_results env actor w g missing db =
     (let i = go_id g; p = rounded_mean (map ks_progress (goal_results i db) @ map ks_progress missing) in
     and_then (createGoalKeyResultsWithLineage env actor w i missing db) (\<lambda>(_, db1).
     and_then (goal_lineage env actor w (GL_prepare (Some (''Goal'', i))) db1) (\<lambda>db2.
     and_then (recordWorkItemVersion actor g None [''keyResults'', ''progressPercent''] db2) (\<lambda>(version, db3).
     and_then (goal_lineage env actor w (GL_finish (''Goal'', i))
       (db3\<lparr>gb_goals := put_goal (g\<lparr>go_progress := p, go_version := version\<rparr>) (gb_goals db3)\<rparr>)) (\<lambda>db4.
     recomputeGoalParentsInTransaction env actor [go_parent g] db4)))))"

definition appendMissingDuplicateGoalKeyResults ::
    "'l goal_env \<Rightarrow> app_actor \<Rightarrow> string \<Rightarrow> create_goal_params \<Rightarrow> string \<Rightarrow> membership option \<Rightarrow> 'l goal_db
     \<Rightarrow> (bool \<times> 'l goal_db) result" where
  "appendMissingDuplicateGoalKeyResults env actor w ps i m db =
     and_then (normalizeKeyResults (cg_results ps)) (\<lambda>ks.
     if ks = [] then Inr (False, db)
     else
     and_then (assertGoalInWorkspace w i db) (\<lambda>g.
     and_then (lockGoalForKeyResultMutation actor m g db) (\<lambda>_.
     (let missing = missing_results env (goal_results i db) ks; names = [''keyResults'', ''progressPercent''] in
     if missing = [] then Inr (False, db)
     else
     and_then (store_missing_results env actor w g missing db) (\<lambda>db1.
     Inr (True,
       goal_event w ''goal.updated'' ''Goal'' i (fields_json i names)
         (goal_audit actor w ''goal.updated'' i
           (JObj [(''fields'', JArr (map JStr names)), (''reason'', JStr ''duplicate_guard_update''),
                  (''addedKeyResultCount'', JNum (int (length missing)))]) db1)))))))"

text \<open>The transactions of an update follow one another.\<close>

definition merge_into_existing ::
    "'l goal_env \<Rightarrow> app_actor \<Rightarrow> string \<Rightarrow> create_goal_params \<Rightarrow> membership option \<Rightarrow> string \<Rightarrow> 'l goal_db
     \<Rightarrow> (goal_row \<times> 'l goal_db) result" where
  "merge_into_existing env actor w ps m i db =
     and_then (getGoal env actor w i False db) (\<lambda>existing.
     (let u = merge_update env ps existing; fields = editsDraftContent u \<or> changesWorkflow u in
     and_then (if fields then and_then (updateGoal env actor w i (u\<lparr>uz_expected := Some (go_version existing)\<rparr>) db)
                                (\<lambda>(_, d). Inr d)
               else Inr db) (\<lambda>db1.
     and_then (appendMissingDuplicateGoalKeyResults env actor w ps i m db1) (\<lambda>(added, db2).
     if fields \<or> added then and_then (getGoal env actor w i False db2) (\<lambda>g. Inr (g, db2))
     else Inr (existing, db2)))))"

text \<open>\<open>guard\<close> is the decision of the duplicate guard.\<close>

definition createGoal ::
    "'l goal_env \<Rightarrow> ('l goal_db \<Rightarrow> duplicate_decision result) \<Rightarrow> app_actor \<Rightarrow> string \<Rightarrow> create_goal_params
     \<Rightarrow> 'l goal_db \<Rightarrow> (goal_row \<times> 'l goal_db) result" where
  "createGoal env guard actor w ps db =
     and_then (ge_membership env actor w) (\<lambda>m.
     and_then (ge_inputs env actor w (requested_private actor ps) (gb_lineage db)) (\<lambda>_.
     and_then (invariant (js_trim (cg_title ps) \<noteq> []) 400 ''INVALID_INPUT'' ''Goal title is required.'') (\<lambda>_.
     and_then (guard db) (\<lambda>decision.
     (case decision of
        Use_existing i \<Rightarrow> and_then (getGoal env actor w i False db) (\<lambda>g. Inr (g, db))
      | Update_existing i \<Rightarrow> merge_into_existing env actor w ps m i db
      | Create_anyway meta \<Rightarrow> create_new_goal env actor w ps m meta db)))))"

section \<open>Links\<close>

record goal_link_params =
  lk_entityType :: string
  lk_entityId :: string
  lk_confidence :: "rat option"
  lk_linkedBy :: "string option"
  lk_source :: "string option"
  lk_metadata :: "json option"

definition clampConfidence :: "rat option \<Rightarrow> string \<Rightarrow> rat option result" where
  "clampConfidence v fieldName =
     optional_step v (\<lambda>x.
       and_then (invariant (finite_number x) 400 ''INVALID_INPUT'' (fieldName @ '' must be a number.'')) (\<lambda>_.
       and_then (invariant (0 \<le> x \<and> x \<le> 1) 400 ''INVALID_INPUT'' (fieldName @ '' must be between 0 and 1.'')) (\<lambda>_.
       Inr x)))"

definition same_goal_link :: "string \<Rightarrow> goal_link_params \<Rightarrow> goal_link_row \<Rightarrow> bool" where
  "same_goal_link i ps l \<longleftrightarrow> gk_goal l = i \<and> gk_entityType l = lk_entityType ps \<and> gk_entityId l = lk_entityId ps"

definition createGoalLink ::
    "'l goal_env \<Rightarrow> app_actor \<Rightarrow> string \<Rightarrow> string \<Rightarrow> goal_link_params \<Rightarrow> 'l goal_db \<Rightarrow> 'l goal_db
     \<Rightarrow> (goal_link_row \<times> 'l goal_db) result" where
  "createGoalLink env actor w i ps db0 db =
     and_then (ge_membership env actor w) (\<lambda>m.
     and_then (assertGoalInWorkspace w i db0) (\<lambda>g.
     and_then (requireEditableGoalContent actor m g ''Only draft or active goals can change links.'') (\<lambda>_.
     and_then (clampConfidence (lk_confidence ps) ''Confidence'') (\<lambda>c.
     and_then (invariant (lk_entityType ps = ''BrainSource'' \<longrightarrow>
         ge_target env actor w (lk_entityType ps) (lk_entityId ps) (gb_lineage db))
       404 ''NOT_FOUND'' ''Linked source not found.'') (\<lambda>_.
     and_then (invariant (lk_entityType ps = ''BrainArticle'' \<longrightarrow>
         ge_target env actor w (lk_entityType ps) (lk_entityId ps) (gb_lineage db))
       404 ''NOT_FOUND'' ''Linked article not found.'') (\<lambda>_.
     (let prior = find (same_goal_link i ps) (gb_links db);
          link = \<lparr>gk_id = (case prior of None \<Rightarrow> ge_new_id env ''GoalLink'' 0 | Some l \<Rightarrow> gk_id l), gk_goal = i,
                  gk_entityType = lk_entityType ps, gk_entityId = lk_entityId ps, gk_confidence = or_keep c 1,
                  gk_linkedBy = or_keep (trimmed_or_none (lk_linkedBy ps)) ''human'',
                  gk_source = trimmed_or_none (lk_source ps),
                  gk_metadata = (case lk_metadata ps of
                                   None \<Rightarrow> (case prior of None \<Rightarrow> None | Some l \<Rightarrow> gk_metadata l) | Some x \<Rightarrow> Some x)\<rparr> in
     and_then (goal_lineage env actor w (GL_prepare (map_option (\<lambda>l. (''GoalLink'', gk_id l)) prior)) db) (\<lambda>db1.
     and_then (goal_lineage env actor w (GL_finish (''GoalLink'', gk_id link))
       (db1\<lparr>gb_links := (if prior = None then gb_links db1 @ [link]
                         else map (\<lambda>l. if same_goal_link i ps l then link else l) (gb_links db1))\<rparr>)) (\<lambda>db2.
     Inr (link, goal_event w ''goal-link.created'' ''GoalLink'' (gk_id link)
       (JObj [(''goalId'', JStr i), (''entityType'', JStr (gk_entityType link)),
              (''entityId'', JStr (gk_entityId link)), (''confidence'', ge_number env (gk_confidence link)),
              (''source'', opt_json (gk_source link))]) db2))))))))))"

definition deleteGoalLink ::
    "'l goal_env \<Rightarrow> app_actor \<Rightarrow> string \<Rightarrow> string \<Rightarrow> 'l goal_db \<Rightarrow> 'l goal_db \<Rightarrow> 'l goal_db result" where
  "deleteGoalLink env actor w i db0 db =
     and_then (ge_membership env actor w) (\<lambda>m.
     (case find (\<lambda>l. gk_id l = i) (gb_links db0) of
        None \<Rightarrow> Inl (AppError 404 ''NOT_FOUND'' ''Link not found.'')
      | Some l \<Rightarrow>
     (case find_goal (gk_goal l) db0 of
        None \<Rightarrow> Inl (AppError 404 ''NOT_FOUND'' ''Link not found.'')
      | Some g \<Rightarrow>
     and_then (invariant (go_workspace g = w \<and> go_archivedAt g = None) 404 ''NOT_FOUND'' ''Link not found.'') (\<lambda>_.
     and_then (requireEditableGoalContent actor m g ''Only draft or active goals can change links.'') (\<lambda>_.
     if list_ex (\<lambda>k. gk_id k = i) (gb_links db)
     then Inr (db\<lparr>gb_links := filter (\<lambda>k. gk_id k \<noteq> i) (gb_links db)\<rparr>)
     else Inl (PlainError ''Record to delete does not exist.'' (Some ''P2025'')))))))"

end
