(* ===== verification/Goal_Facts.thy ===== *)
theory Goal_Facts
  imports Goals
begin

text \<open>
  What the operations on goals keep: a goal agrees with what drives it (its key results, or the children
  that count) after every change of the drivers, versions number the recorded states without a gap,
  and a draft is private and unpublished.
\<close>

section \<open>Agreement with the drivers\<close>

text \<open>Two databases that agree on the tables the progress is computed from.\<close>

definition same_progress :: "'l goal_db \<Rightarrow> 'l goal_db \<Rightarrow> bool" where
  "same_progress db db' \<longleftrightarrow> gb_goals db' = gb_goals db \<and> gb_results db' = gb_results db"

lemma same_progress_frame:
  assumes "same_progress db db'"
  shows "find_goal j db' = find_goal j db" "driven_progress j db' = driven_progress j db"
  using assms by (auto simp: same_progress_def find_goal_def driven_progress_def goal_results_def child_progress_def)

lemma same_progress_stale:
  assumes "same_progress db db'" shows "stale_goals db' = stale_goals db"
proof -
  have "stale_goal j db' = stale_goal j db" for j
    using same_progress_frame [OF assms] by (simp add: stale_goal_def split: option.split)
  then show ?thesis using assms by (simp add: stale_goals_def same_progress_def)
qed

lemma lineage_same_progress:
  "goal_lineage env actor w op db = Inr db' \<Longrightarrow> same_progress db db'"
  by (auto dest!: goal_lineage_frame simp: same_progress_def)

lemma version_same_progress:
  "recordWorkItemVersion actor g results names db = Inr (v, db') \<Longrightarrow> same_progress db db'"
  by (auto dest!: recordWorkItemVersion_frame simp: same_progress_def)

lemma same_progress_trans [trans]: "same_progress a b \<Longrightarrow> same_progress b c \<Longrightarrow> same_progress a c"
  by (simp add: same_progress_def)

text \<open>After a written progress only the parent may disagree, and the goal itself where it is its parent.\<close>

lemma stale_after_write:
  assumes w: "progress_written g p db db'"
    and p: "driven_progress (go_id g) db = None \<or> driven_progress (go_id g) db = Some p"
  shows "stale_goals db' \<subseteq> (stale_goals db - {go_id g}) \<union> {q. go_parent g = Some q}"
proof
  fix j assume j: "j \<in> stale_goals db'"
  show "j \<in> (stale_goals db - {go_id g}) \<union> {q. go_parent g = Some q}"
  proof (cases "go_parent g = Some j")
    case False
    have d: "driven_progress j db' = driven_progress j db" by (rule written_driven(1) [OF w False])
    have "j \<noteq> go_id g"
      using j d p written_find(2) [OF w] by (auto simp: stale_goals_iff stale_goal_def)
    moreover have "stale_goal j db"
      using j d written_find(1) [OF w \<open>j \<noteq> go_id g\<close>] by (auto simp: stale_goals_iff stale_goal_def split: option.splits)
    ultimately show ?thesis by (simp add: stale_goals_iff)
  qed simp
qed

lemma roll_up_settles:
  "roll_up env actor i db = Inr db' \<Longrightarrow> stale_goals db \<subseteq> insert i A \<Longrightarrow> [] \<in> A \<Longrightarrow> stale_goals db' \<subseteq> A"
proof (induction env actor i db rule: roll_up.induct)
  case (1 env actor i db)
  show ?case
  proof (cases "find_goal i db")
    case None
    then have "i \<notin> stale_goals db" by (simp add: stale_goals_iff stale_goal_def)
    moreover have "db' = db" using 1(2) None by (simp add: roll_up.simps [of env actor i db])
    ultimately show ?thesis using 1(3) by auto
  next
    case (Some g)
    have i: "go_id g = i" using find_goal_SomeD [OF Some] by simp
    show ?thesis
    proof (cases "computed_progress False g db = go_progress g")
      case True
      then have "i \<notin> stale_goals db"
        using Some i by (auto simp: stale_goals_iff stale_goal_def computed_progress_def split: option.splits)
      moreover have "db' = db" using 1(2) Some True by (simp add: roll_up.simps [of env actor i db])
      ultimately show ?thesis using 1(3) by auto
    next
      case False
      let ?p = "computed_progress False g db"
      obtain db1 where s: "store_progress env actor [] (Some (goal_results i db)) g ?p db = Inr db1"
        using 1(2) Some False by (auto simp: roll_up.simps [of env actor i db] split: sum.splits)
      have p: "driven_progress (go_id g) db = Some ?p"
        using False by (auto simp: computed_progress_def split: option.splits)
      have w: "progress_written g ?p db db1" using store_progress_written [OF s] Some i by simp
      have st: "stale_goals db1 \<subseteq> (stale_goals db - {i}) \<union> {q. go_parent g = Some q}"
        using stale_after_write [OF w] p i by simp
      show ?thesis
      proof (cases "truthy_str (go_parent g)")
        case parent: False
        then have "db' = db1" using 1(2) Some False s by (simp add: roll_up.simps [of env actor i db])
        then show ?thesis using st parent 1(3,4) by (auto simp: truthy_str_def split: option.splits)
      next
        case parent: True
        then have "roll_up env actor (the (go_parent g)) db1 = Inr db'"
          using 1(2) Some False s by (simp add: roll_up.simps [of env actor i db])
        moreover have "stale_goals db1 \<subseteq> insert (the (go_parent g)) A" using st 1(3) by auto
        ultimately show ?thesis using 1(1) [OF Some False s parent] 1(4) by simp
      qed
    qed
  qed
qed

lemma recompute_settles:
  assumes r: "recomputeGoalProgress env actor options i db = Inr db'" and st: "stale_goals db \<subseteq> insert i A" and A: "[] \<in> A"
  shows "stale_goals db' \<subseteq> A"
proof (cases "find_goal i db")
  case None
  then have "i \<notin> stale_goals db" by (simp add: stale_goals_iff stale_goal_def)
  then show ?thesis using r st None by (auto simp: recomputeGoalProgress_def)
next
  case (Some g)
  have i: "go_id g = i" using find_goal_SomeD [OF Some] by simp
  let ?p = "computed_progress (rc_reset options) g db" and ?a = "effective_actor actor (go_workspace g)"
  have p: "driven_progress i db = None \<or> driven_progress i db = Some ?p"
    using i by (auto simp: computed_progress_def split: option.splits)
  show ?thesis
  proof (cases "?p = go_progress g \<and> \<not> rc_force options")
    case True
    then have "i \<notin> stale_goals db" using p Some by (auto simp: stale_goals_iff stale_goal_def)
    then show ?thesis using r st Some True by (auto simp: recomputeGoalProgress_def Let_def)
  next
    case False
    obtain db1 where s: "store_progress env ?a (rc_fields options)
        (Some (case rc_results options of Some rs \<Rightarrow> rs | None \<Rightarrow> goal_results i db)) g ?p db = Inr db1"
      and rest: "(if truthy_str (go_parent g) then roll_up env ?a (the (go_parent g)) db1 else Inr db1) = Inr db'"
      using r Some False unfolding recomputeGoalProgress_def Let_def by (auto simp: and_then_Inr_iff)
    have w: "progress_written g ?p db db1" using store_progress_written [OF s] Some i by simp
    have st1: "stale_goals db1 \<subseteq> (stale_goals db - {i}) \<union> {q. go_parent g = Some q}"
      using stale_after_write [OF w] p i by simp
    show ?thesis
    proof (cases "truthy_str (go_parent g)")
      case False
      then show ?thesis using st1 rest st A by (auto simp: truthy_str_def split: option.splits)
    next
      case True
      have "stale_goals db1 \<subseteq> insert (the (go_parent g)) A" using st1 st by auto
      then show ?thesis using rest True roll_up_settles A by simp
    qed
  qed
qed

lemma recompute_all_settles:
  "recompute_all env actor ids db = Inr db' \<Longrightarrow> stale_goals db \<subseteq> set ids \<union> A \<Longrightarrow> [] \<in> A \<Longrightarrow> stale_goals db' \<subseteq> A"
proof (induction ids arbitrary: db)
  case (Cons i ids)
  obtain db1 where s: "recomputeGoalProgress env (Some actor) no_options i db = Inr db1"
    "recompute_all env actor ids db1 = Inr db'" using Cons.prems(1) by (auto simp: result_simps)
  have "stale_goals db1 \<subseteq> set ids \<union> A"
    by (rule recompute_settles [OF s(1)]) (use Cons.prems(2,3) in auto)
  then show ?case using Cons.IH s(2) Cons.prems(3) by simp
qed simp

lemma recompute_parents_settles:
  assumes "recomputeGoalParentsInTransaction env actor ids db = Inr db'"
    and "stale_goals db \<subseteq> {q. Some q \<in> set ids} \<union> A" "[] \<in> A"
  shows "stale_goals db' \<subseteq> A"
proof (rule recompute_all_settles)
  show "recompute_all env actor (sortedGoalIds ids) db = Inr db'"
    using assms(1) by (simp add: recomputeGoalParentsInTransaction_def)
  have "{q. Some q \<in> set ids} \<subseteq> insert [] (set (sortedGoalIds ids))"
    by (force simp: sortedGoalIds_def truthy_str_def)
  then show "stale_goals db \<subseteq> set (sortedGoalIds ids) \<union> A" using assms(2,3) by blast
  show "[] \<in> A" by (rule assms(3))
qed

text \<open>The changes of rows that the operations make before they recompute.\<close>

lemma stale_after_results:
  assumes "gb_goals db' = gb_goals db" "\<And>j. j \<noteq> i \<Longrightarrow> goal_results j db' = goal_results j db"
  shows "stale_goals db' \<subseteq> insert i (stale_goals db)"
proof
  fix j assume j: "j \<in> stale_goals db'"
  have "stale_goal j db" if "j \<noteq> i"
    using j assms(1) assms(2) [OF that]
    by (auto simp: stale_goals_iff stale_goal_def find_goal_def driven_progress_def child_progress_def split: option.splits)
  then show "j \<in> insert i (stale_goals db)" by (auto simp: stale_goals_iff)
qed

definition parent_view :: "goal_row \<Rightarrow> string option \<times> int \<times> bool" where
  "parent_view g = (go_parent g, go_progress g, countsTowardParentProgress g)"

lemma put_driven:
  assumes "find_goal (go_id g) db = Some g" "go_id h = go_id g"
    "gb_goals db' = put_goal h (gb_goals db)" "gb_results db' = gb_results db"
    and view: "parent_view h = parent_view g \<or> (go_parent g \<noteq> Some j \<and> go_parent h \<noteq> Some j)"
  shows "driven_progress j db' = driven_progress j db"
proof -
  have "find (\<lambda>x. go_id x = go_id h) (gb_goals db) = Some g" using assms(1,2) by (simp add: find_goal_def)
  then obtain as bs where l: "gb_goals db = as @ g # bs" "put_goal h (gb_goals db) = as @ h # bs"
    by (rule put_goal_found)
  have "child_progress j db' = child_progress j db"
    using view assms(3) l by (auto simp: child_progress_def parent_view_def)
  then show ?thesis using assms(4) by (simp add: driven_progress_def goal_results_def)
qed

lemma stale_after_put:
  assumes put: "find_goal (go_id g) db = Some g" "go_id h = go_id g"
    "gb_goals db' = put_goal h (gb_goals db)" "gb_results db' = gb_results db"
    and own: "go_progress h = go_progress g \<or> driven_progress (go_id g) db \<in> {None, Some (go_progress h)}"
    and view: "parent_view h = parent_view g \<or> (\<forall>q. go_parent g = Some q \<or> go_parent h = Some q \<longrightarrow> q \<in> Q)"
  shows "stale_goals db' \<subseteq> stale_goals db \<union> Q"
proof
  fix j assume j: "j \<in> stale_goals db'"
  have f: "find_goal j db' = (if j = go_id g then Some h else find_goal j db)"
    using put by (auto simp: find_goal_def find_put_goal)
  show "j \<in> stale_goals db \<union> Q"
  proof (cases "j \<in> Q")
    case False
    then have "driven_progress j db' = driven_progress j db"
      using view by (intro put_driven [OF put]) auto
    then have "stale_goal j db"
      using j f own put(1) by (cases "j = go_id g") (auto simp: stale_goals_iff stale_goal_def split: option.splits)
    then show ?thesis by (simp add: stale_goals_iff)
  qed simp
qed

definition goals_settled :: "'l goal_db \<Rightarrow> bool" where
  "goals_settled db \<longleftrightarrow> stale_goals db \<subseteq> {[]}"

lemma insert_result_Inr:
  "insert_result k db = Inr db' \<Longrightarrow> gb_goals db' = gb_goals db \<and> gb_results db' = gb_results db @ [k]"
  by (auto simp: insert_result_def split: if_splits)

lemma store_new_result_settled:
  assumes run: "store_new_result env actor w k db = Inr db'" and s: "goals_settled db"
  shows "goals_settled db'"
proof -
  obtain db1 db2 db3 where steps: "goal_lineage env actor w (GL_prepare None) db = Inr db1"
    "insert_result k db1 = Inr db2" "goal_lineage env actor w (GL_finish (''KeyResult'', ks_id k)) db2 = Inr db3"
    "recomputeGoalProgress env (Some actor) (key_result_options False (goal_results (ks_goal k) db)) (ks_goal k) db3
       = Inr db'"
    using run by (auto simp: store_new_result_def and_then_Inr_iff)
  have "stale_goals db2 \<subseteq> insert (ks_goal k) (stale_goals db1)"
    using insert_result_Inr [OF steps(2)] by (intro stale_after_results) (auto simp: goal_results_def)
  then have "stale_goals db3 \<subseteq> insert (ks_goal k) {[]}"
    using same_progress_stale [OF lineage_same_progress [OF steps(1)]]
      same_progress_stale [OF lineage_same_progress [OF steps(3)]] s by (auto simp: goals_settled_def)
  then show ?thesis using recompute_settles [OF steps(4)] by (simp add: goals_settled_def)
qed

lemma goal_results_update:
  assumes "\<And>k. ks_goal (f k) = ks_goal k" "find_result i db = Some r" "j \<noteq> ks_goal r"
  shows "filter (\<lambda>k. ks_goal k = j) (update_result i f (gb_results db)) = filter (\<lambda>k. ks_goal k = j) (gb_results db)"
proof -
  have "find (\<lambda>k. ks_id k = i) rs = Some r \<Longrightarrow>
      filter (\<lambda>k. ks_goal k = j) (update_result i f rs) = filter (\<lambda>k. ks_goal k = j) rs" for rs
    using assms(1,3) by (induction rs) (auto split: if_splits)
  then show ?thesis using assms(2) by (simp add: find_result_def)
qed

lemma apply_result_update_goal [simp]: "ks_goal (apply_result_update u p k) = ks_goal k"
  by (simp add: apply_result_update_def)

lemma store_changed_result_Inr:
  assumes "store_changed_result env actor w u p k db = Inr (k', db')"
  obtains db1 r db2 where "goal_lineage env actor w (GL_prepare (Some (''KeyResult'', ks_id k))) db = Inr db1"
    "find_result (ks_id k) db1 = Some r"
    "goal_lineage env actor w (GL_finish (''KeyResult'', ks_id k))
       (db1\<lparr>gb_results := update_result (ks_id k) (apply_result_update u p) (gb_results db1)\<rparr>) = Inr db2"
    "recomputeGoalProgress env (Some actor) (key_result_options False (goal_results (ks_goal k) db)) (ks_goal r) db2
       = Inr db'"
  using assms by (auto simp: store_changed_result_def and_then_Inr_iff split: option.splits)

lemma store_changed_result_settled:
  fixes db :: "'l goal_db"
  assumes run: "store_changed_result env actor w u p k db = Inr (k', db')" and s: "goals_settled db"
  shows "goals_settled db'"
  using run
proof (rule store_changed_result_Inr)
  let ?i = "ks_id k"
  fix db1 :: "'l goal_db" and r and db2 :: "'l goal_db"
  let ?d = "db1\<lparr>gb_results := update_result ?i (apply_result_update u p) (gb_results db1)\<rparr>"
  assume steps: "goal_lineage env actor w (GL_prepare (Some (''KeyResult'', ?i))) db = Inr db1"
    "find_result ?i db1 = Some r" "goal_lineage env actor w (GL_finish (''KeyResult'', ?i)) ?d = Inr db2"
    "recomputeGoalProgress env (Some actor) (key_result_options False (goal_results (ks_goal k) db)) (ks_goal r) db2
       = Inr db'"
  have "stale_goals ?d \<subseteq> insert (ks_goal r) (stale_goals db1)"
    using steps(2) by (intro stale_after_results) (simp_all add: goal_results_def goal_results_update)
  then have "stale_goals db2 \<subseteq> insert (ks_goal r) {[]}"
    using same_progress_stale [OF lineage_same_progress [OF steps(1)]]
      same_progress_stale [OF lineage_same_progress [OF steps(3)]] s by (auto simp: goals_settled_def)
  then show ?thesis using recompute_settles [OF steps(4)] by (simp add: goals_settled_def)
qed

text \<open>Ids are not reused: a key result keeps its goal.\<close>

definition results_agree :: "'l goal_db \<Rightarrow> 'l goal_db \<Rightarrow> bool" where
  "results_agree db0 db \<longleftrightarrow>
     (\<forall>k\<in>set (gb_results db0). \<forall>r\<in>set (gb_results db). ks_id r = ks_id k \<longrightarrow> ks_goal r = ks_goal k)"

lemma read_result_Inr:
  assumes "read_result w i db0 = Inr (k, g)"
  shows "k \<in> set (gb_results db0)" "ks_id k = i" "find_goal (ks_goal k) db0 = Some g"
  using assms by (auto simp: read_result_def find_result_def result_simps find_Some_iff split: option.splits if_splits)

lemma deleteKeyResult_Inr:
  assumes "deleteKeyResult env actor w i expected db0 db = Inr db'"
  obtains k g where "read_result w i db0 = Inr (k, g)" "find_result i db \<noteq> None"
    "map_option go_version (find_goal (go_id g) db) = Some expected"
    "recomputeGoalProgress env (Some actor) (key_result_options True (goal_results (ks_goal k) db)) (ks_goal k)
       (db\<lparr>gb_results := filter (\<lambda>r. ks_id r \<noteq> i) (gb_results db)\<rparr>) = Inr db'"
proof -
  obtain m kg where rd: "ge_membership env actor w = Inr m" "read_result w i db0 = Inr kg"
    using assms by (auto simp: deleteKeyResult_def and_then_Inr_iff)
  obtain k g where kg: "kg = (k, g)" by (cases kg)
  show ?thesis
    using assms that [of k g]
    by (auto simp: deleteKeyResult_def and_then_Inr_iff rd kg check_expectedVersion_def split: if_splits option.splits)
qed

lemma deleteKeyResult_settled:
  assumes run: "deleteKeyResult env actor w i expected db0 db = Inr db'" and s: "goals_settled db"
    and agree: "results_agree db0 db"
  shows "goals_settled db'"
  using run
proof (rule deleteKeyResult_Inr)
  fix k g
  let ?d = "db\<lparr>gb_results := filter (\<lambda>r. ks_id r \<noteq> i) (gb_results db)\<rparr>"
  assume k: "read_result w i db0 = Inr (k, g)"
    and r: "recomputeGoalProgress env (Some actor) (key_result_options True (goal_results (ks_goal k) db)) (ks_goal k)
       ?d = Inr db'"
  have "stale_goals ?d \<subseteq> insert (ks_goal k) (stale_goals db)"
  proof (rule stale_after_results)
    fix j assume "j \<noteq> ks_goal k"
    then show "goal_results j ?d = goal_results j db"
      using agree read_result_Inr(1,2) [OF k]
      by (auto simp: goal_results_def results_agree_def intro!: filter_cong)
  qed simp
  then have "stale_goals ?d \<subseteq> insert (ks_goal k) {[]}" using s by (auto simp: goals_settled_def)
  then show ?thesis using recompute_settles [OF r] by (simp add: goals_settled_def)
qed

lemma store_deleted_goal_Inr:
  assumes "store_deleted_goal env actor w g db = Inr db'"
  obtains db1 where "recompute_parent env actor (go_parent g)
      (db\<lparr>gb_goals := put_goal (archived_goal env actor g) (gb_goals db)\<rparr>) = Inr db1"
    "same_progress db1 db'" "gb_versions db' = gb_versions db1"
proof -
  obtain db1 db2 where "recompute_parent env actor (go_parent g)
      (db\<lparr>gb_goals := put_goal (archived_goal env actor g) (gb_goals db)\<rparr>) = Inr db1"
    "goal_lineage env actor w (GL_permalink (''Goal'', go_id g)) db1 = Inr db2"
    "same_progress db2 db'" "gb_versions db' = gb_versions db2"
    using assms by (auto simp: store_deleted_goal_def and_then_Inr_iff goal_audit_def same_progress_def)
  then show ?thesis using that by (auto dest!: goal_lineage_frame simp: same_progress_def)
qed

lemma recompute_parent_settles:
  assumes "recompute_parent env actor parent db = Inr db'"
    and "stale_goals db \<subseteq> {q. parent = Some q} \<union> A" "[] \<in> A"
  shows "stale_goals db' \<subseteq> A"
proof (cases "truthy_str parent")
  case True
  then have "stale_goals db \<subseteq> insert (the parent) A" using assms(2) by auto
  then show ?thesis using True assms(1,3) recompute_settles by (simp add: recompute_parent_def)
qed (use assms in \<open>auto simp: recompute_parent_def truthy_str_def split: option.splits\<close>)

lemma store_deleted_goal_settled:
  assumes run: "store_deleted_goal env actor w g db = Inr db'" and s: "goals_settled db"
    and g: "find_goal (go_id g) db = Some g"
  shows "goals_settled db'"
  using run
proof (rule store_deleted_goal_Inr)
  fix db1
  let ?d = "db\<lparr>gb_goals := put_goal (archived_goal env actor g) (gb_goals db)\<rparr>"
  assume r: "recompute_parent env actor (go_parent g) ?d = Inr db1" and same: "same_progress db1 db'"
  have "stale_goals ?d \<subseteq> stale_goals db \<union> {q. go_parent g = Some q}"
    using g by (intro stale_after_put [of g _ "archived_goal env actor g"]) (auto simp: archived_goal_def)
  then have "stale_goals db1 \<subseteq> {[]}"
    using s by (intro recompute_parent_settles [OF r]) (auto simp: goals_settled_def)
  then show ?thesis using same_progress_stale [OF same] by (simp add: goals_settled_def)
qed

lemma deletable_goal_find: "deletable_goal env actor w i b db = Inr g \<Longrightarrow> find_goal i db = Some g"
  by (auto simp: deletable_goal_def and_then_Inr_iff simp del: and_then_invariant split: option.splits)

lemma set_status_frame [simp]:
  "go_id (set_status now st g) = go_id g" "go_workspace (set_status now st g) = go_workspace g"
  "go_parent (set_status now st g) = go_parent g" "go_progress (set_status now st g) = go_progress g"
  "go_version (set_status now st g) = go_version g" "go_archivedAt (set_status now st g) = go_archivedAt g"
  by (simp_all add: set_status_def split: option.splits)

lemma assertGoal_find: "assertGoalInWorkspace w i db = Inr g \<Longrightarrow> find_goal i db = Some g \<and> go_archivedAt g = None"
  by (auto simp: assertGoalInWorkspace_def result_simps split: option.splits if_splits)

lemma goal_data_Inr:
  assumes "goal_data env u g = Inr h"
  shows "go_id h = go_id g" "go_version h = go_version g" "uz_progress u = None \<Longrightarrow> go_progress h = go_progress g"
    "go_progress h = go_progress g \<or> 0 \<le> go_progress h \<and> go_progress h \<le> 100"
    "go_status h = go_status (set_status (ge_now env) (uz_status u) g)"
    "go_private h = go_private (set_status (ge_now env) (uz_status u) g)"
    "go_publishedAt h = go_publishedAt (set_status (ge_now env) (uz_status u) g)"
    "go_archivedAt h = go_archivedAt g"
proof -
  obtain p where p: "optional_step (uz_progress u) (\<lambda>v. clampProgressPercent v ''Progress'') = Inr p"
    and h: "h = (set_status (ge_now env) (uz_status u) g)\<lparr>go_title := or_keep (map_option js_trim (uz_title u)) (go_title g),
             go_description := or_keep (map_option or_null (uz_description u)) (go_description g),
             go_level := or_keep (uz_level u) (go_level g), go_cadence := or_keep (uz_cadence u) (go_cadence g),
             go_progress := or_keep p (go_progress g),
             go_targetDate := or_keep (uz_targetDate u) (go_targetDate g),
             go_startDate := or_keep (uz_startDate u) (go_startDate g),
             go_parent := or_keep (map_option or_null (uz_parent u)) (go_parent g),
             go_circle := or_keep (map_option or_null (uz_circle u)) (go_circle g),
             go_owner := or_keep (map_option or_null (uz_owner u)) (go_owner g)\<rparr>"
    using assms unfolding goal_data_def and_then_Inr_iff Let_def sum.inject by (elim exE conjE) (rule that, assumption, rule sym)
  have "p = None \<and> uz_progress u = None \<or> (\<exists>x v. p = Some x \<and> clampProgressPercent v ''Progress'' = Inr x)"
    using p by (auto simp: optional_step_def and_then_Inr_iff split: option.splits)
  moreover have "0 \<le> x \<and> x \<le> 100" if "clampProgressPercent v t = Inr x" for v t x
    using that by (auto simp: clampProgressPercent_def Let_def result_simps split: if_splits)
  ultimately have p': "uz_progress u = None \<longrightarrow> p = None" "\<forall>x. p = Some x \<longrightarrow> 0 \<le> x \<and> x \<le> 100"
    using p by (auto simp: optional_step_def)
  show "uz_progress u = None \<Longrightarrow> go_progress h = go_progress g"
    "go_progress h = go_progress g \<or> 0 \<le> go_progress h \<and> go_progress h \<le> 100"
    using p' by (auto simp: h or_keep_def split: option.splits)
  show "go_id h = go_id g" "go_version h = go_version g"
    "go_status h = go_status (set_status (ge_now env) (uz_status u) g)"
    "go_private h = go_private (set_status (ge_now env) (uz_status u) g)"
    "go_publishedAt h = go_publishedAt (set_status (ge_now env) (uz_status u) g)"
    "go_archivedAt h = go_archivedAt g"
    by (simp_all add: h)
qed

lemma edited_goal_Inr:
  assumes "edited_goal env actor w i u db = Inr (g, h)"
  shows "find_goal i db = Some g" "goal_data env u g = Inr h"
    "editsDraftContent u \<or> uz_progress u \<noteq> None \<Longrightarrow> uz_expected u \<noteq> None"
    "uz_expected u = Some v \<Longrightarrow> go_version g = v"
proof -
  have e: "assertGoalInWorkspace w i db = Inr g" "goal_data env u g = Inr h"
    "editsDraftContent u \<or> uz_progress u \<noteq> None \<longrightarrow> uz_expected u \<noteq> None"
    "check_expectedVersion (uz_expected u) (Some g)
       ''The record changed before this update could be applied. Please refresh and try again.'' = Inr ()"
    using assms unfolding edited_goal_def and_then_Inr_iff invariant_Inr_iff sum.inject prod.inject
    by auto
  show "find_goal i db = Some g" "goal_data env u g = Inr h" using assertGoal_find [OF e(1)] e(2) by simp_all
  show "editsDraftContent u \<or> uz_progress u \<noteq> None \<Longrightarrow> uz_expected u \<noteq> None" using e(3) by blast
  show "uz_expected u = Some v \<Longrightarrow> go_version g = v"
    using e(4) by (auto simp: check_expectedVersion_def result_simps split: if_splits)
qed

lemma version_frame:
  assumes "recordWorkItemVersion actor g results names db = Inr (v, db')"
  shows "find_goal j db' = find_goal j db" "driven_progress j db' = driven_progress j db"
    "stale_goals db' = stale_goals db"
  using version_same_progress [OF assms] by (auto simp: same_progress_frame same_progress_stale)

lemma lineage_frame:
  assumes "goal_lineage env actor w op db = Inr db'"
  shows "find_goal j db' = find_goal j db" "driven_progress j db' = driven_progress j db"
    "stale_goals db' = stale_goals db"
  using lineage_same_progress [OF assms] by (auto simp: same_progress_frame same_progress_stale)

text \<open>A row is written between two moves of the lineage store, then the parents are recomputed.\<close>

lemma stored_goal_settled:
  assumes first: "stale_goals db1 = stale_goals db" "find_goal (go_id g) db1 = Some g"
      "driven_progress (go_id g) db1 = driven_progress (go_id g) db"
    and l: "goal_lineage env actor w op (db1\<lparr>gb_goals := put_goal h (gb_goals db1)\<rparr>) = Inr db2"
    and r: "recomputeGoalParentsInTransaction env actor' ids db2 = Inr db3"
    and s: "goals_settled db" and h: "go_id h = go_id g"
    and own: "go_progress h = go_progress g \<or> driven_progress (go_id g) db \<in> {None, Some (go_progress h)}"
    and view: "parent_view h = parent_view g \<or> {go_parent g, go_parent h} \<subseteq> insert None (set ids)"
  shows "goals_settled db3"
proof -
  let ?d = "db1\<lparr>gb_goals := put_goal h (gb_goals db1)\<rparr>"
  have "stale_goals ?d \<subseteq> stale_goals db1 \<union> {q. Some q \<in> set ids}"
    using own view first(3) by (intro stale_after_put [OF first(2) h]) auto
  then have "stale_goals db2 \<subseteq> {q. Some q \<in> set ids} \<union> {[]}"
    using lineage_frame(3) [OF l] first(1) s by (auto simp: goals_settled_def)
  then show ?thesis using recompute_parents_settles [OF r] by (simp add: goals_settled_def)
qed

lemma changed_fields_iff:
  "''parentGoalId'' \<in> set (changedDataFields g h) \<longleftrightarrow> go_parent g \<noteq> go_parent h"
  "''progressPercent'' \<in> set (changedDataFields g h) \<longleftrightarrow> go_progress g \<noteq> go_progress h"
  by (auto simp: changedDataFields_def)

lemma store_edited_goal_settled:
  assumes run: "store_edited_goal env actor w u g h db = Inr (g', db')" and s: "goals_settled db"
    and g: "find_goal (go_id g) db = Some g" and h: "go_id h = go_id g"
    and own: "go_progress h = go_progress g \<or> driven_progress (go_id g) db = None"
  shows "goals_settled db'"
proof -
  obtain v db1 db2 db3 db4 where steps: "recordWorkItemVersion actor g None (content_changes g h) db = Inr (v, db1)"
    "goal_lineage env actor w (GL_prepare (Some (''Goal'', go_id g))) db1 = Inr db2"
    "goal_lineage env actor w (GL_finish (''Goal'', go_id g))
       (db2\<lparr>gb_goals := put_goal (h\<lparr>go_version := v\<rparr>) (gb_goals db2)\<rparr>) = Inr db3"
    "recomputeGoalParentsInTransaction env actor (parents_to_recompute u g h) db3 = Inr db4"
    and same: "same_progress db4 db'"
    using run by (auto simp: store_edited_goal_def and_then_Inr_iff Let_def same_progress_def goal_event_def goal_audit_def)
  have "goals_settled db4"
  proof (rule stored_goal_settled [OF _ _ _ steps(3,4) s])
    show "stale_goals db2 = stale_goals db" "find_goal (go_id g) db2 = Some g"
      "driven_progress (go_id g) db2 = driven_progress (go_id g) db"
      using version_frame [OF steps(1)] lineage_frame [OF steps(2)] g by simp_all
    show "go_id (h\<lparr>go_version := v\<rparr>) = go_id g" using h by simp
    show "go_progress (h\<lparr>go_version := v\<rparr>) = go_progress g \<or>
        driven_progress (go_id g) db \<in> {None, Some (go_progress (h\<lparr>go_version := v\<rparr>))}"
      using own by auto
    show "parent_view (h\<lparr>go_version := v\<rparr>) = parent_view g \<or>
        {go_parent g, go_parent (h\<lparr>go_version := v\<rparr>)} \<subseteq> insert None (set (parents_to_recompute u g h))"
      by (auto simp: parent_view_def parents_to_recompute_def changed_fields_iff countsTowardParentProgress_def)
  qed
  then show ?thesis using same_progress_stale [OF same] by (simp add: goals_settled_def)
qed

lemma advance_posted_goal_settled:
  assumes run: "advance_posted_goal env actor w status p g db = Inr db'" and s: "goals_settled db"
    and g: "find_goal (go_id g) db = Some g" and own: "p = None \<or> driven_progress (go_id g) db = None"
  shows "goals_settled db'"
proof (cases "posted_keys status p = []")
  case True
  then show ?thesis using run s by (simp add: advance_posted_goal_def)
next
  case False
  let ?h = "posted_goal (ge_now env) status p g"
  let ?content = "if go_progress ?h = go_progress g then [] else [''progressPercent'']"
  obtain v db1 db2 db3 where steps: "recordWorkItemVersion actor g None ?content db = Inr (v, db1)"
    "goal_lineage env actor w (GL_advance (''Goal'', go_id g))
       (db1\<lparr>gb_goals := put_goal (?h\<lparr>go_version := v\<rparr>) (gb_goals db1)\<rparr>) = Inr db2"
    "recomputeGoalParentsInTransaction env actor
       (if p \<noteq> None \<or> status \<noteq> None \<or> countsTowardParentProgress g \<noteq> countsTowardParentProgress (?h\<lparr>go_version := v\<rparr>)
        then [go_parent g] else []) db2 = Inr db3"
    and same: "same_progress db3 db'"
    using run False
    by (auto simp: advance_posted_goal_def and_then_Inr_iff Let_def same_progress_def goal_event_def simp del: if_split)
  have "goals_settled db3"
  proof (rule stored_goal_settled [OF _ _ _ steps(2,3) s])
    show "stale_goals db1 = stale_goals db" "find_goal (go_id g) db1 = Some g"
      "driven_progress (go_id g) db1 = driven_progress (go_id g) db"
      using version_frame [OF steps(1)] g by simp_all
    show "go_id (?h\<lparr>go_version := v\<rparr>) = go_id g" by (simp add: posted_goal_def Let_def)
    show "go_progress (?h\<lparr>go_version := v\<rparr>) = go_progress g \<or>
        driven_progress (go_id g) db \<in> {None, Some (go_progress (?h\<lparr>go_version := v\<rparr>))}"
      using own by (auto simp: posted_goal_def Let_def or_keep_def)
    show "parent_view (?h\<lparr>go_version := v\<rparr>) = parent_view g \<or>
        {go_parent g, go_parent (?h\<lparr>go_version := v\<rparr>)} \<subseteq> insert None (set
          (if p \<noteq> None \<or> status \<noteq> None \<or> countsTowardParentProgress g \<noteq> countsTowardParentProgress (?h\<lparr>go_version := v\<rparr>)
           then [go_parent g] else []))"
      using False by (auto simp: posted_keys_def posted_goal_def Let_def)
  qed
  then show ?thesis using same_progress_stale [OF same] by (simp add: goals_settled_def)
qed

lemma insert_results_Inr:
  "insert_results ks db = Inr db' \<Longrightarrow> gb_goals db' = gb_goals db \<and> gb_results db' = gb_results db @ ks"
  by (induction ks arbitrary: db) (auto simp: and_then_Inr_iff dest: insert_result_Inr)

lemma finish_results_same:
  "finish_results env actor w ks db = Inr db' \<Longrightarrow> same_progress db db'"
proof (induction ks arbitrary: db)
  case (Cons k ks)
  then obtain db1 where "goal_lineage env actor w (GL_finish (''KeyResult'', ks_id k)) db = Inr db1"
    "finish_results env actor w ks db1 = Inr db'" by (auto simp: and_then_Inr_iff)
  then show ?case using Cons.IH lineage_same_progress same_progress_trans by blast
qed (simp add: same_progress_def)

lemma createGoalKeyResults_Inr:
  assumes "createGoalKeyResultsWithLineage env actor w i ks db = Inr (rows, db')"
  shows "gb_goals db' = gb_goals db" "gb_results db' = gb_results db @ rows" "map ks_progress rows = map ks_progress ks"
    "\<forall>r\<in>set rows. ks_goal r = i"
proof -
  have p: "map (ks_progress \<circ> (\<lambda>(n, k). k\<lparr>ks_id := f n, ks_goal := i\<rparr>)) (enumerate m ks) = map ks_progress ks"
    for f m by (induction ks arbitrary: m) (simp_all add: comp_def)
  obtain db1 db2 where steps: "goal_lineage env actor w (GL_prepare None) db = Inr db1"
    "insert_results rows db1 = Inr db2" "finish_results env actor w rows db2 = Inr db'"
    and rows: "rows = map (\<lambda>(n, k). k\<lparr>ks_id := ge_new_id env ''KeyResult'' n, ks_goal := i\<rparr>) (enumerate 0 ks)"
    using assms by (auto simp: createGoalKeyResultsWithLineage_def and_then_Inr_iff Let_def)
  show "gb_goals db' = gb_goals db" "gb_results db' = gb_results db @ rows"
    using lineage_same_progress [OF steps(1)] insert_results_Inr [OF steps(2)] finish_results_same [OF steps(3)]
    by (simp_all add: same_progress_def)
  show "map ks_progress rows = map ks_progress ks" using p by (simp add: rows)
  show "\<forall>r\<in>set rows. ks_goal r = i" by (auto simp: rows)
qed

lemma stale_after_own_put:
  assumes put: "find_goal (go_id g) db = Some g" "go_id h = go_id g"
    "gb_goals db' = put_goal h (gb_goals db)" "gb_results db' = gb_results db"
    and own: "driven_progress (go_id g) db \<in> {None, Some (go_progress h)}" "go_parent h = go_parent g"
  shows "stale_goals db' \<subseteq> (stale_goals db - {go_id g}) \<union> {q. go_parent g = Some q}"
proof
  fix j assume j: "j \<in> stale_goals db'"
  have f: "find_goal j db' = (if j = go_id g then Some h else find_goal j db)"
    using put by (auto simp: find_goal_def find_put_goal)
  show "j \<in> (stale_goals db - {go_id g}) \<union> {q. go_parent g = Some q}"
  proof (cases "go_parent g = Some j")
    case False
    then have "driven_progress j db' = driven_progress j db" using own by (intro put_driven [OF put]) auto
    then show ?thesis
      using j f own(1) by (cases "j = go_id g") (auto simp: stale_goals_iff stale_goal_def split: option.splits)
  qed simp
qed

lemma store_missing_results_settled:
  assumes run: "store_missing_results env actor w g missing db = Inr db'" and s: "goals_settled db"
    and g: "find_goal (go_id g) db = Some g" and ne: "missing \<noteq> []"
  shows "goals_settled db'"
proof -
  let ?i = "go_id g" and ?p = "rounded_mean (map ks_progress (goal_results (go_id g) db) @ map ks_progress missing)"
  obtain rows db1 db2 v db3 db4 where steps: "createGoalKeyResultsWithLineage env actor w ?i missing db = Inr (rows, db1)"
    "goal_lineage env actor w (GL_prepare (Some (''Goal'', ?i))) db1 = Inr db2"
    "recordWorkItemVersion actor g None [''keyResults'', ''progressPercent''] db2 = Inr (v, db3)"
    "goal_lineage env actor w (GL_finish (''Goal'', ?i))
       (db3\<lparr>gb_goals := put_goal (g\<lparr>go_progress := ?p, go_version := v\<rparr>) (gb_goals db3)\<rparr>) = Inr db4"
    "recomputeGoalParentsInTransaction env actor [go_parent g] db4 = Inr db'"
    using run by (auto simp: store_missing_results_def and_then_Inr_iff Let_def)
  note rows = createGoalKeyResults_Inr [OF steps(1)]
  have "goal_results ?i db1 = goal_results ?i db @ rows" using rows by (simp add: goal_results_def)
  then have d1: "driven_progress ?i db1 = Some ?p"
    using rows(3) ne by (auto simp: driven_progress_def Let_def)
  have "stale_goals db1 \<subseteq> insert ?i (stale_goals db)"
    using rows by (intro stale_after_results) (auto simp: goal_results_def)
  then have st: "stale_goals db3 \<subseteq> insert ?i {[]}"
    using version_frame(3) [OF steps(3)] lineage_frame(3) [OF steps(2)] s by (auto simp: goals_settled_def)
  have d3: "driven_progress ?i db3 = Some ?p" "find_goal ?i db3 = Some g"
    using version_frame [OF steps(3)] lineage_frame [OF steps(2)] d1 g rows(1) by (auto simp: find_goal_def)
  let ?d = "db3\<lparr>gb_goals := put_goal (g\<lparr>go_progress := ?p, go_version := v\<rparr>) (gb_goals db3)\<rparr>"
  have "stale_goals ?d \<subseteq> (stale_goals db3 - {?i}) \<union> {q. go_parent g = Some q}"
    using d3 by (intro stale_after_own_put [of g db3 "g\<lparr>go_progress := ?p, go_version := v\<rparr>"]) simp_all
  then have "stale_goals db4 \<subseteq> {q. Some q \<in> set [go_parent g]} \<union> {[]}"
    using st lineage_frame(3) [OF steps(4)] by auto
  then show ?thesis using recompute_parents_settles [OF steps(5)] by (simp add: goals_settled_def)
qed

text \<open>
  The changes of drivers.  Setting the progress of a goal that is driven by others overrides its drivers
  until the next change of them, and a new goal is not counted in its parent until then; these two are
  left out.
\<close>

inductive driver_step :: "'l goal_db \<Rightarrow> 'l goal_db \<Rightarrow> bool" where
  key_result_added: "addKeyResult env actor w i ps db = Inr (k, db') \<Longrightarrow> driver_step db db'"
| key_result_updated: "updateKeyResult env actor w i u expected db0 db = Inr (k, db') \<Longrightarrow> driver_step db db'"
| key_result_deleted:
    "deleteKeyResult env actor w i v db0 db = Inr db' \<Longrightarrow> results_agree db0 db \<Longrightarrow> driver_step db db'"
| key_results_merged:
    "appendMissingDuplicateGoalKeyResults env actor w ps i m db = Inr (added, db') \<Longrightarrow> driver_step db db'"
| goal_edited:
    "updateGoal env actor w i u db = Inr (g, db') \<Longrightarrow> uz_progress u = None \<or> driven_progress i db = None
     \<Longrightarrow> driver_step db db'"
| goal_deleted: "deleteGoal env actor w i b db = Inr db' \<Longrightarrow> driver_step db db'"
| update_posted:
    "postGoalUpdate env actor w i post db = Inr (r, db') \<Longrightarrow> uo_progress post = None \<or> driven_progress i db = None
     \<Longrightarrow> driver_step db db'"

lemma optional_clamp:
  assumes "optional_step v (\<lambda>x. clampProgressPercent x name) = Inr p"
  shows "v = None \<longleftrightarrow> p = None" "p = Some x \<Longrightarrow> 0 \<le> x \<and> x \<le> 100"
  using assms by (auto simp: optional_step_def clampProgressPercent_def Let_def result_simps split: option.splits if_splits)

lemma posted_update_Inr:
  assumes "posted_update env actor w i ps db = Inr (g, p, r)"
  shows "find_goal i db = Some g" "uo_progress ps = None \<Longrightarrow> p = None" "p = Some x \<Longrightarrow> 0 \<le> x \<and> x \<le> 100"
    "uo_expected ps = Some v \<Longrightarrow> go_version g = v"
proof -
  have e: "assertGoalInWorkspace w i db = Inr g"
    "optional_step (uo_progress ps) (\<lambda>v. clampProgressPercent v ''Goal progress'') = Inr p"
    "check_expectedVersion (uo_expected ps) (Some g)
       ''The record changed before this update could be applied. Please refresh and try again.'' = Inr ()"
    using assms unfolding posted_update_def and_then_Inr_iff invariant_Inr_iff sum.inject prod.inject by auto
  show "find_goal i db = Some g" using assertGoal_find [OF e(1)] by simp
  show "uo_progress ps = None \<Longrightarrow> p = None" "p = Some x \<Longrightarrow> 0 \<le> x \<and> x \<le> 100"
    using optional_clamp [OF e(2)] by auto
  show "uo_expected ps = Some v \<Longrightarrow> go_version g = v"
    using e(3) by (auto simp: check_expectedVersion_def result_simps split: if_splits)
qed

lemma store_posted_update_same:
  assumes "store_posted_update env actor w r db = Inr db'"
  shows "same_progress db db'" "gb_versions db' = gb_versions db"
proof -
  obtain db1 db2 where steps: "(if gw_status r \<noteq> None \<or> gw_progress r \<noteq> None
      then goal_lineage env actor w (GL_admit (''Goal'', gw_goal r)) db else Inr db) = Inr db1"
    "goal_lineage env actor w (GL_prepare None) db1 = Inr db2"
    "goal_lineage env actor w (GL_finish (''GoalUpdate'', gw_id r)) (db2\<lparr>gb_updates := gb_updates db2 @ [r]\<rparr>) = Inr db'"
    using assms unfolding store_posted_update_def and_then_Inr_iff by blast
  have "same_progress db db1 \<and> gb_versions db1 = gb_versions db"
    using steps(1) by (auto simp: same_progress_def dest!: goal_lineage_frame split: if_splits)
  then show "same_progress db db'" "gb_versions db' = gb_versions db"
    using goal_lineage_frame [OF steps(2)] goal_lineage_frame [OF steps(3)] by (auto simp: same_progress_def)
qed

lemma appendMissing_Inr:
  assumes "appendMissingDuplicateGoalKeyResults env actor w ps i m db = Inr (added, db')"
  obtains (kept) "db' = db"
  | (added) ks g db1 where "normalizeKeyResults (cg_results ps) = Inr ks" "find_goal i db = Some g"
      "missing_results env (goal_results i db) ks \<noteq> []"
      "store_missing_results env actor w g (missing_results env (goal_results i db) ks) db = Inr db1"
      "same_progress db1 db'" "gb_versions db' = gb_versions db1"
proof -
  obtain ks where ks: "normalizeKeyResults (cg_results ps) = Inr ks"
    using assms by (auto simp: appendMissingDuplicateGoalKeyResults_def and_then_Inr_iff)
  show ?thesis
  proof (cases "ks = []")
    case True
    then show ?thesis using assms ks kept by (simp add: appendMissingDuplicateGoalKeyResults_def)
  next
    case False
    then obtain g where a: "assertGoalInWorkspace w i db = Inr g"
      and run: "(if missing_results env (goal_results i db) ks = [] then Inr (False, db)
        else and_then (store_missing_results env actor w g (missing_results env (goal_results i db) ks) db) (\<lambda>db1.
          Inr (True, goal_event w ''goal.updated'' ''Goal'' i (fields_json i [''keyResults'', ''progressPercent''])
            (goal_audit actor w ''goal.updated'' i
              (JObj [(''fields'', JArr (map JStr [''keyResults'', ''progressPercent''])),
                (''reason'', JStr ''duplicate_guard_update''),
                (''addedKeyResultCount'', JNum (int (length (missing_results env (goal_results i db) ks))))]) db1))))
        = Inr (added, db')"
      using assms ks by (auto simp: appendMissingDuplicateGoalKeyResults_def and_then_Inr_iff Let_def simp del: if_split)
    have g: "find_goal i db = Some g" using assertGoal_find [OF a] by simp
    show ?thesis
    proof (cases "missing_results env (goal_results i db) ks = []")
      case True
      then show ?thesis using run kept by simp
    next
      case False
      then show ?thesis
        using run added [OF ks g False]
        by (auto simp: and_then_Inr_iff goal_event_def goal_audit_def same_progress_def)
    qed
  qed
qed

lemma driver_step_settled: "driver_step db db' \<Longrightarrow> goals_settled db \<Longrightarrow> goals_settled db'"
proof (induction rule: driver_step.induct)
  case (key_result_added env actor w i ps db k db')
  then show ?case by (auto simp: addKeyResult_def and_then_Inr_iff store_new_result_settled)
next
  case (key_result_updated env actor w i u expected db0 db k db')
  then show ?case
    by (auto simp: updateKeyResult_def and_then_Inr_iff split: if_splits dest: store_changed_result_settled)
next
  case (key_result_deleted env actor w i v db0 db db')
  then show ?case by (blast intro: deleteKeyResult_settled)
next
  case (key_results_merged env actor w ps i m db added db')
  from key_results_merged(1) show ?case
  proof (cases rule: appendMissing_Inr)
    case (added ks g db1)
    then have "goals_settled db1"
      using store_missing_results_settled key_results_merged(2) find_goal_SomeD by fastforce
    then show ?thesis using same_progress_stale [OF added(5)] by (simp add: goals_settled_def)
  qed (use key_results_merged in simp)
next
  case (goal_edited env actor w i u db g db')
  then obtain g0 h where e: "edited_goal env actor w i u db = Inr (g0, h)"
    and r: "(if changedDataFields g0 h = [] then Inr (g0, db) else store_edited_goal env actor w u g0 h db) = Inr (g, db')"
    by (auto simp: updateGoal_def and_then_Inr_iff)
  note g0 = edited_goal_Inr [OF e]
  show ?case
  proof (cases "changedDataFields g0 h = []")
    case False
    show ?thesis
    proof (rule store_edited_goal_settled)
      show "store_edited_goal env actor w u g0 h db = Inr (g, db')" using r False by simp
      show "find_goal (go_id g0) db = Some g0" "go_id h = go_id g0"
        "go_progress h = go_progress g0 \<or> driven_progress (go_id g0) db = None"
        using g0(1) find_goal_SomeD [OF g0(1)] goal_data_Inr [OF g0(2)] goal_edited(2) by auto
    qed (rule goal_edited)
  qed (use r goal_edited in simp)
next
  case (goal_deleted env actor w i b db db')
  then show ?case
    using find_goal_SomeD store_deleted_goal_settled
    by (fastforce simp: deleteGoal_def and_then_Inr_iff split: if_splits dest!: deletable_goal_find)
next
  case (update_posted env actor w i post db r db')
  then obtain g p db1 where steps: "posted_update env actor w i post db = Inr (g, p, r)"
    "store_posted_update env actor w r db = Inr db1" "advance_posted_goal env actor w (uo_status post) p g db1 = Inr db'"
    by (auto simp: postGoalUpdate_def and_then_Inr_iff)
  have same: "same_progress db db1" by (rule store_posted_update_same(1) [OF steps(2)])
  show ?case
  proof (rule advance_posted_goal_settled [OF steps(3)])
    show "goals_settled db1" using same_progress_stale [OF same] update_posted by (simp add: goals_settled_def)
    show "find_goal (go_id g) db1 = Some g"
      using same_progress_frame [OF same] posted_update_Inr(1) [OF steps(1)] find_goal_SomeD by fastforce
    show "p = None \<or> driven_progress (go_id g) db1 = None"
      using same_progress_frame(2) [OF same] posted_update_Inr(1,2) [OF steps(1)] find_goal_SomeD update_posted(2)
      by fastforce
  qed
qed

end
