(* ===== verification/Goal_Records.thy ===== *)
theory Goal_Records
  imports Goal_Facts
begin

text \<open>
  The invariant of the goal tables: a goal's recorded versions are numbered from one up to its own without
  a gap, a draft is private and unpublished and nothing else is, percentages lie between 0 and 100,
  and a key result belongs to a goal.  Every operation keeps it and never lowers a version.
\<close>

section \<open>The invariant\<close>

definition goal_ok :: "goal_row \<Rightarrow> bool" where
  "goal_ok g \<longleftrightarrow>
     0 \<le> go_progress g \<and> go_progress g \<le> 100 \<and> 1 \<le> go_version g \<and>
     (go_private g \<longleftrightarrow> go_status g = GOAL_DRAFT) \<and> (go_private g \<longleftrightarrow> go_publishedAt g = None)"

definition record_numbers :: "string \<Rightarrow> 'l goal_db \<Rightarrow> int list" where
  "record_numbers i db =
     map ve_version (filter (\<lambda>v. ve_type v = ''Goal'' \<and> ve_entity v = i) (gb_versions db))"

definition goals_wf :: "'l goal_db \<Rightarrow> bool" where
  "goals_wf db \<longleftrightarrow>
     distinct (map go_id (gb_goals db)) \<and> (\<forall>g\<in>set (gb_goals db). goal_ok g) \<and>
     (\<forall>i. record_numbers i db =
        (case find_goal i db of None \<Rightarrow> [] | Some g \<Rightarrow> [1..go_version g - 1])) \<and>
     (\<forall>k\<in>set (gb_results db). 0 \<le> ks_progress k \<and> ks_progress k \<le> 100 \<and> find_goal (ks_goal k) db \<noteq> None)"

definition goals_evolve :: "'l goal_db \<Rightarrow> 'l goal_db \<Rightarrow> bool" where
  "goals_evolve db db' \<longleftrightarrow>
     (\<forall>i g. find_goal i db = Some g \<longrightarrow> (\<exists>h. find_goal i db' = Some h \<and> go_version g \<le> go_version h))"

definition goals_kept :: "'l goal_db \<Rightarrow> 'l goal_db \<Rightarrow> bool" where
  "goals_kept db db' \<longleftrightarrow> goals_wf db' \<and> goals_evolve db db'"

lemma goals_evolve_refl: "goals_evolve db db"
  by (simp add: goals_evolve_def)

lemma goals_evolve_trans: "goals_evolve a b \<Longrightarrow> goals_evolve b c \<Longrightarrow> goals_evolve a c"
  unfolding goals_evolve_def by (meson order_trans)

lemma goals_kept_trans: "goals_kept a b \<Longrightarrow> goals_kept b c \<Longrightarrow> goals_kept a c"
  unfolding goals_kept_def using goals_evolve_trans by blast

lemma goals_kept_refl: "goals_wf db \<Longrightarrow> goals_kept db db"
  by (simp add: goals_kept_def goals_evolve_refl)

definition same_tables :: "'l goal_db \<Rightarrow> 'l goal_db \<Rightarrow> bool" where
  "same_tables db db' \<longleftrightarrow> same_progress db db' \<and> gb_versions db' = gb_versions db"

lemma same_tables_kept:
  assumes "same_tables db db'" "goals_wf db" shows "goals_kept db db'"
proof -
  have "find_goal i db' = find_goal i db" "record_numbers i db' = record_numbers i db" for i
    using assms(1) by (simp_all add: same_tables_def same_progress_def find_goal_def record_numbers_def)
  then show ?thesis
    using assms by (simp add: goals_kept_def goals_wf_def goals_evolve_def same_tables_def same_progress_def)
qed

lemma lineage_same_tables: "goal_lineage env actor w op db = Inr db' \<Longrightarrow> same_tables db db'"
  by (auto dest!: goal_lineage_frame simp: same_tables_def same_progress_def)

lemma put_goal_ids: "map go_id (put_goal h gs) = map go_id gs"
  by (induction gs) auto

lemma put_goal_set: "set (put_goal h gs) \<subseteq> insert h (set gs)"
  by (induction gs) auto

lemma recordWorkItemVersion_Inr:
  assumes "recordWorkItemVersion actor g results names db = Inr (v, db')"
  obtains (none) "v = go_version g" "db' = db"
  | (row) r where "v = go_version g + 1" "db' = db\<lparr>gb_versions := gb_versions db @ [r]\<rparr>"
      "ve_type r = ''Goal''" "ve_entity r = go_id g" "ve_version r = go_version g"
  using assms by (auto simp: recordWorkItemVersion_def split: if_splits)

lemma upto_snoc: "1 \<le> v \<Longrightarrow> [1..v - 1] @ [v] = [1..v]"
  using upto_rec2 [of 1 v] by simp

text \<open>A versioned write of a row: the record, then the row, the lineage store moving in between.\<close>

lemma versioned_put_kept:
  assumes v: "recordWorkItemVersion actor g results names db = Inr (v, db1)" and same: "same_tables db1 db2"
    and g: "find_goal (go_id g) db = Some g" and h: "go_id h = go_id g" "goal_ok (h\<lparr>go_version := v\<rparr>)"
    and wf: "goals_wf db"
  shows "goals_kept db (db2\<lparr>gb_goals := put_goal (h\<lparr>go_version := v\<rparr>) (gb_goals db2)\<rparr>)"
proof -
  let ?h = "h\<lparr>go_version := v\<rparr>" and ?d = "db2\<lparr>gb_goals := put_goal (h\<lparr>go_version := v\<rparr>) (gb_goals db2)\<rparr>"
  have tables: "gb_goals db2 = gb_goals db" "gb_results db2 = gb_results db"
    using same version_same_progress [OF v] by (simp_all add: same_tables_def same_progress_def)
  have f: "find_goal i ?d = (if i = go_id g then Some ?h else find_goal i db)" for i
    using g h(1) by (auto simp: find_goal_def find_put_goal tables)
  have vs: "go_version g \<le> v" and n: "record_numbers (go_id g) ?d = [1..v - 1]"
    "\<And>i. i \<noteq> go_id g \<Longrightarrow> record_numbers i ?d = record_numbers i db"
  proof -
    have old: "record_numbers (go_id g) db = [1..go_version g - 1]" using wf g by (simp add: goals_wf_def)
    have "g \<in> set (gb_goals db)" using find_goal_SomeD [OF g] by simp
    then have pos: "1 \<le> go_version g" using wf by (simp add: goals_wf_def goal_ok_def)
    have vsame: "gb_versions ?d = gb_versions db1" using same by (simp add: same_tables_def)
    from v show "go_version g \<le> v" by (cases rule: recordWorkItemVersion_Inr) auto
    from v show "record_numbers (go_id g) ?d = [1..v - 1]"
      using old vsame upto_snoc [OF pos] by (cases rule: recordWorkItemVersion_Inr) (auto simp: record_numbers_def)
    from v show "\<And>i. i \<noteq> go_id g \<Longrightarrow> record_numbers i ?d = record_numbers i db"
      using vsame by (cases rule: recordWorkItemVersion_Inr) (auto simp: record_numbers_def)
  qed
  have "goals_wf ?d"
    unfolding goals_wf_def
  proof (intro conjI allI ballI)
    show "distinct (map go_id (gb_goals ?d))" using wf by (simp add: put_goal_ids tables goals_wf_def)
    show "goal_ok x" if "x \<in> set (gb_goals ?d)" for x
      using that put_goal_set [of ?h "gb_goals db"] h(2) wf by (auto simp: tables goals_wf_def)
    show "record_numbers i ?d = (case find_goal i ?d of None \<Rightarrow> [] | Some g \<Rightarrow> [1..go_version g - 1])" for i
      using n f wf by (cases "i = go_id g") (auto simp: goals_wf_def)
  qed (use wf f in \<open>auto simp: goals_wf_def tables\<close>)
  moreover have "goals_evolve db ?d" using f g vs by (auto simp: goals_evolve_def)
  ultimately show ?thesis by (simp add: goals_kept_def)
qed

section \<open>Percentages\<close>

lemma rounded_mean_percent:
  assumes "\<forall>x\<in>set xs. 0 \<le> x \<and> x \<le> 100" shows "0 \<le> rounded_mean xs \<and> rounded_mean xs \<le> 100"
proof (cases "xs = []")
  case False
  let ?q = "of_int (sum_list xs) / of_nat (length xs) :: rat"
  have "0 \<le> sum_list xs" "sum_list xs \<le> int (length xs) * 100" using assms by (induction xs) auto
  then have s: "0 \<le> ?q" "of_int (sum_list xs) \<le> (of_int (int (length xs) * 100) :: rat)"
    by (simp, simp only: of_int_le_iff)
  then have "?q \<le> 100" using False by (simp add: divide_le_eq mult.commute)
  then have "0 \<le> fl ?q" "fl ?q \<le> 100"
    using fl_nonneg [OF s(1)] fl_mono [of ?q 100] fl_of_nat [of 100] by simp_all
  then have "math_round (of_int 0) \<le> math_round (fl ?q)" "math_round (fl ?q) \<le> math_round (of_int 100)"
    by (auto intro!: math_round_mono)
  then show ?thesis unfolding math_round_of_int by (simp add: rounded_mean_def js_div_def)
qed (use math_round_of_int [of 0] in \<open>simp add: rounded_mean_def js_div_def\<close>)

lemma driven_percent:
  assumes "goals_wf db" "driven_progress i db = Some p" shows "0 \<le> p \<and> p \<le> 100"
proof -
  have "\<forall>x\<in>set (map ks_progress (goal_results i db)). 0 \<le> x \<and> x \<le> 100"
    "\<forall>x\<in>set (child_progress i db). 0 \<le> x \<and> x \<le> 100"
    using assms(1) by (auto simp: goals_wf_def goal_ok_def goal_results_def child_progress_def)
  with assms(2) show ?thesis
    by (auto simp: driven_progress_def Let_def rounded_mean_percent split: if_splits)
qed

lemma computed_percent:
  assumes "goals_wf db" "find_goal i db = Some g"
  shows "0 \<le> computed_progress r g db \<and> computed_progress r g db \<le> 100"
proof -
  have "goal_ok g" using assms find_goal_SomeD [OF assms(2)] by (auto simp: goals_wf_def)
  then show ?thesis
    using driven_percent [OF assms(1)] by (auto simp: computed_progress_def goal_ok_def split: option.splits)
qed

lemma keyResultProgress_percent: "keyResultProgress t c = Inr p \<Longrightarrow> 0 \<le> p \<and> p \<le> 100"
  by (auto simp: keyResultProgress_def clampProgressPercent_def Let_def result_simps split: option.splits if_splits)

section \<open>Recomputing\<close>

lemma store_progress_kept:
  assumes run: "store_progress env actor names results g p db = Inr db'" and wf: "goals_wf db"
    and g: "find_goal (go_id g) db = Some g" and p: "0 \<le> p \<and> p \<le> 100"
  shows "goals_kept db db'"
proof -
  obtain db1 v db2 where s: "goal_lineage env actor (go_workspace g) (GL_prepare (Some (''Goal'', go_id g))) db = Inr db1"
    "recordWorkItemVersion actor g results (names @ (if p \<noteq> go_progress g then [''progressPercent''] else [])) db1 = Inr (v, db2)"
    "goal_lineage env actor (go_workspace g) (GL_finish (''Goal'', go_id g))
       (db2\<lparr>gb_goals := put_goal (g\<lparr>go_progress := p, go_version := v\<rparr>) (gb_goals db2)\<rparr>) = Inr db'"
    using run by (auto simp: store_progress_def Let_def and_then_Inr_iff)
  have kept1: "goals_kept db db1" by (rule same_tables_kept [OF lineage_same_tables [OF s(1)] wf])
  have g1: "find_goal (go_id g) db1 = Some g" using lineage_frame(1) [OF s(1)] g by simp
  have "goal_ok g" using wf find_goal_SomeD [OF g] by (auto simp: goals_wf_def)
  moreover have "go_version g \<le> v" using s(2) by (cases rule: recordWorkItemVersion_Inr) auto
  ultimately have ok: "goal_ok (g\<lparr>go_progress := p, go_version := v\<rparr>)" using p by (auto simp: goal_ok_def)
  have "goals_kept db1 (db2\<lparr>gb_goals := put_goal ((g\<lparr>go_progress := p\<rparr>)\<lparr>go_version := v\<rparr>) (gb_goals db2)\<rparr>)"
    using kept1 ok by (intro versioned_put_kept [OF s(2) _ g1]) (auto simp: same_tables_def same_progress_def goals_kept_def)
  then have "goals_kept db1 db'"
    using same_tables_kept [OF lineage_same_tables [OF s(3)]] goals_kept_trans by (auto simp: goals_kept_def)
  then show ?thesis using kept1 goals_kept_trans by blast
qed

lemma roll_up_kept: "roll_up env actor i db = Inr db' \<Longrightarrow> goals_wf db \<Longrightarrow> goals_kept db db'"
proof (induction env actor i db rule: roll_up.induct)
  case (1 env actor i db)
  show ?case
  proof (cases "find_goal i db")
    case None
    then show ?thesis using 1(2,3) by (simp add: roll_up.simps [of env actor i db] goals_kept_refl)
  next
    case (Some g)
    show ?thesis
    proof (cases "computed_progress False g db = go_progress g")
      case True
      then show ?thesis using 1(2,3) Some by (simp add: roll_up.simps [of env actor i db] goals_kept_refl)
    next
      case False
      obtain db1 where s: "store_progress env actor [] (Some (goal_results i db)) g (computed_progress False g db) db = Inr db1"
        using 1(2) Some False by (auto simp: roll_up.simps [of env actor i db] split: sum.splits)
      have k: "goals_kept db db1"
        using store_progress_kept [OF s 1(3)] Some find_goal_SomeD [OF Some] computed_percent [OF 1(3) Some] by simp
      show ?thesis
      proof (cases "truthy_str (go_parent g)")
        case parent: True
        then have "roll_up env actor (the (go_parent g)) db1 = Inr db'"
          using 1(2) Some False s by (simp add: roll_up.simps [of env actor i db])
        then show ?thesis using 1(1) [OF Some False s parent] k goals_kept_trans by (auto simp: goals_kept_def)
      next
        case parent: False
        then show ?thesis using 1(2) Some False s k by (simp add: roll_up.simps [of env actor i db])
      qed
    qed
  qed
qed

lemma recompute_kept:
  assumes r: "recomputeGoalProgress env actor options i db = Inr db'" and wf: "goals_wf db"
  shows "goals_kept db db'"
proof (cases "find_goal i db")
  case None
  then show ?thesis using r wf by (simp add: recomputeGoalProgress_def goals_kept_refl)
next
  case (Some g)
  let ?p = "computed_progress (rc_reset options) g db" and ?a = "effective_actor actor (go_workspace g)"
  show ?thesis
  proof (cases "?p = go_progress g \<and> \<not> rc_force options")
    case True
    then show ?thesis using r wf Some by (simp add: recomputeGoalProgress_def Let_def goals_kept_refl)
  next
    case False
    obtain db1 where s: "store_progress env ?a (rc_fields options)
        (Some (case rc_results options of Some rs \<Rightarrow> rs | None \<Rightarrow> goal_results i db)) g ?p db = Inr db1"
      and rest: "(if truthy_str (go_parent g) then roll_up env ?a (the (go_parent g)) db1 else Inr db1) = Inr db'"
      using r Some False unfolding recomputeGoalProgress_def Let_def by (auto simp: and_then_Inr_iff)
    have k: "goals_kept db db1"
      using store_progress_kept [OF s wf] Some find_goal_SomeD [OF Some] computed_percent [OF wf Some] by simp
    then show ?thesis
      using rest roll_up_kept goals_kept_trans by (fastforce simp: goals_kept_def split: if_splits)
  qed
qed

lemma recompute_all_kept: "recompute_all env actor ids db = Inr db' \<Longrightarrow> goals_wf db \<Longrightarrow> goals_kept db db'"
proof (induction ids arbitrary: db)
  case (Cons i ids)
  then obtain db1 where s: "recomputeGoalProgress env (Some actor) no_options i db = Inr db1"
    "recompute_all env actor ids db1 = Inr db'" by (auto simp: and_then_Inr_iff)
  have k: "goals_kept db db1" by (rule recompute_kept [OF s(1) Cons.prems(2)])
  then show ?case using Cons.IH [OF s(2)] goals_kept_trans by (auto simp: goals_kept_def)
qed (simp add: goals_kept_refl)

lemma recompute_parents_kept:
  "recomputeGoalParentsInTransaction env actor ids db = Inr db' \<Longrightarrow> goals_wf db \<Longrightarrow> goals_kept db db'"
  by (auto simp: recomputeGoalParentsInTransaction_def recompute_all_kept)

section \<open>Key results\<close>

definition result_ok :: "'l goal_db \<Rightarrow> key_result \<Rightarrow> bool" where
  "result_ok db k \<longleftrightarrow> 0 \<le> ks_progress k \<and> ks_progress k \<le> 100 \<and> find_goal (ks_goal k) db \<noteq> None"

lemma results_kept:
  assumes wf: "goals_wf db" and same: "gb_goals db' = gb_goals db" "gb_versions db' = gb_versions db"
    and ok: "\<forall>k\<in>set (gb_results db'). k \<in> set (gb_results db) \<or> result_ok db k"
  shows "goals_kept db db'"
proof -
  have f: "find_goal i db' = find_goal i db" "record_numbers i db' = record_numbers i db" for i
    using same by (simp_all add: find_goal_def record_numbers_def)
  then have "goals_wf db'" using wf ok same by (auto simp: goals_wf_def result_ok_def)
  then show ?thesis using f by (simp add: goals_kept_def goals_evolve_def)
qed

lemma insert_result_frame:
  "insert_result k db = Inr db' \<Longrightarrow> db' = db\<lparr>gb_results := gb_results db @ [k]\<rparr>"
  by (auto simp: insert_result_def split: if_splits)

lemma insert_results_frame:
  "insert_results ks db = Inr db' \<Longrightarrow> db' = db\<lparr>gb_results := gb_results db @ ks\<rparr>"
proof (induction ks arbitrary: db)
  case (Cons k ks)
  then obtain db1 where s: "insert_result k db = Inr db1" "insert_results ks db1 = Inr db'"
    by (auto simp: and_then_Inr_iff)
  have "db' = db1\<lparr>gb_results := gb_results db1 @ ks\<rparr>" by (rule Cons.IH [OF s(2)])
  also have "db1 = db\<lparr>gb_results := gb_results db @ [k]\<rparr>" by (rule insert_result_frame [OF s(1)])
  finally show ?case by simp
qed simp

lemma store_new_result_kept:
  assumes run: "store_new_result env actor w k db = Inr db'" and wf: "goals_wf db" and k: "result_ok db k"
  shows "goals_kept db db'"
proof -
  obtain db1 db2 db3 where steps: "goal_lineage env actor w (GL_prepare None) db = Inr db1"
    "insert_result k db1 = Inr db2" "goal_lineage env actor w (GL_finish (''KeyResult'', ks_id k)) db2 = Inr db3"
    "recomputeGoalProgress env (Some actor) (key_result_options False (goal_results (ks_goal k) db)) (ks_goal k) db3
       = Inr db'"
    using run by (auto simp: store_new_result_def and_then_Inr_iff)
  have k1: "goals_kept db db1" by (rule same_tables_kept [OF lineage_same_tables [OF steps(1)] wf])
  have "result_ok db1 k" using k lineage_frame(1) [OF steps(1)] by (simp add: result_ok_def)
  then have k2: "goals_kept db1 db2"
    using k1 insert_result_frame [OF steps(2)] by (intro results_kept) (auto simp: goals_kept_def)
  have k3: "goals_kept db2 db3" using k2 same_tables_kept [OF lineage_same_tables [OF steps(3)]] by (simp add: goals_kept_def)
  have "goals_kept db3 db'" using k3 recompute_kept [OF steps(4)] by (simp add: goals_kept_def)
  then show ?thesis using k1 k2 k3 goals_kept_trans by blast
qed

lemma new_key_result_Inr:
  assumes "new_key_result env actor w i ps db = Inr k" shows "result_ok db k" "ks_goal k = i"
proof -
  obtain p g where e: "keyResultProgress (ki_target ps) (ki_current ps) = Inr p" "assertGoalInWorkspace w i db = Inr g"
    "ks_progress k = p" "ks_goal k = i"
    using assms by (auto simp: new_key_result_def and_then_Inr_iff simp del: and_then_invariant)
  then show "result_ok db k" "ks_goal k = i"
    using keyResultProgress_percent [OF e(1)] assertGoal_find [OF e(2)] by (simp_all add: result_ok_def)
qed

lemma update_result_set: "set (update_result i f ks) \<subseteq> set ks \<union> f ` set ks"
  by (induction ks) auto

lemma store_changed_result_kept:
  fixes db :: "'l goal_db"
  assumes run: "store_changed_result env actor w u p k db = Inr (k', db')" and wf: "goals_wf db" and p: "0 \<le> p \<and> p \<le> 100"
  shows "goals_kept db db'"
  using run
proof (rule store_changed_result_Inr)
  fix db1 :: "'l goal_db" and r and db2 :: "'l goal_db"
  let ?d = "db1\<lparr>gb_results := update_result (ks_id k) (apply_result_update u p) (gb_results db1)\<rparr>"
  assume steps: "goal_lineage env actor w (GL_prepare (Some (''KeyResult'', ks_id k))) db = Inr db1"
    "goal_lineage env actor w (GL_finish (''KeyResult'', ks_id k)) ?d = Inr db2"
    "recomputeGoalProgress env (Some actor) (key_result_options False (goal_results (ks_goal k) db)) (ks_goal r) db2
       = Inr db'"
  have k1: "goals_kept db db1" by (rule same_tables_kept [OF lineage_same_tables [OF steps(1)] wf])
  then have wf1: "goals_wf db1" by (simp add: goals_kept_def)
  have "result_ok db1 (apply_result_update u p x)" if "x \<in> set (gb_results db1)" for x
    using wf1 that p by (auto simp: result_ok_def goals_wf_def apply_result_update_def)
  then have k2: "goals_kept db1 ?d"
    using update_result_set [of "ks_id k" "apply_result_update u p" "gb_results db1"]
    by (intro results_kept [OF wf1]) auto
  have k3: "goals_kept ?d db2" using k2 same_tables_kept [OF lineage_same_tables [OF steps(2)]] by (simp add: goals_kept_def)
  have "goals_kept db2 db'" using k3 recompute_kept [OF steps(3)] by (simp add: goals_kept_def)
  then show ?thesis using k1 k2 k3 goals_kept_trans by blast
qed

lemma deleteKeyResult_kept:
  assumes run: "deleteKeyResult env actor w i expected db0 db = Inr db'" and wf: "goals_wf db"
  shows "goals_kept db db'"
  using run
proof (rule deleteKeyResult_Inr)
  fix k
  let ?d = "db\<lparr>gb_results := filter (\<lambda>r. ks_id r \<noteq> i) (gb_results db)\<rparr>"
  assume r: "recomputeGoalProgress env (Some actor) (key_result_options True (goal_results (ks_goal k) db)) (ks_goal k)
       ?d = Inr db'"
  have k1: "goals_kept db ?d" by (rule results_kept [OF wf]) auto
  then show ?thesis using recompute_kept [OF r] goals_kept_trans by (auto simp: goals_kept_def)
qed

section \<open>Goals\<close>

lemma set_status_ok: "goal_ok g \<Longrightarrow> goal_ok (set_status now st g)"
  by (auto simp: goal_ok_def set_status_def split: option.splits)

lemma store_edited_goal_kept:
  assumes run: "store_edited_goal env actor w u g h db = Inr (g', db')" and wf: "goals_wf db"
    and g: "find_goal (go_id g) db = Some g" and h: "goal_data env u g = Inr h"
  shows "goals_kept db db'"
    "\<exists>x. find_goal (go_id g) db' = Some x \<and> go_version g' \<le> go_version x"
proof -
  obtain v db1 db2 db3 db4 where steps: "recordWorkItemVersion actor g None (content_changes g h) db = Inr (v, db1)"
    "goal_lineage env actor w (GL_prepare (Some (''Goal'', go_id g))) db1 = Inr db2"
    "goal_lineage env actor w (GL_finish (''Goal'', go_id g))
       (db2\<lparr>gb_goals := put_goal (h\<lparr>go_version := v\<rparr>) (gb_goals db2)\<rparr>) = Inr db3"
    "recomputeGoalParentsInTransaction env actor (parents_to_recompute u g h) db3 = Inr db4"
    and same: "same_tables db4 db'" and g': "g' = h\<lparr>go_version := v\<rparr>"
    using run by (auto simp: store_edited_goal_def and_then_Inr_iff Let_def same_tables_def same_progress_def
        goal_event_def goal_audit_def)
  have ok: "goal_ok g" using wf find_goal_SomeD [OF g] by (auto simp: goals_wf_def)
  have "go_version g \<le> v" using steps(1) by (cases rule: recordWorkItemVersion_Inr) auto
  then have okh: "goal_ok (h\<lparr>go_version := v\<rparr>)"
    using goal_data_Inr [OF h] set_status_ok [OF ok, of "ge_now env" "uz_status u"] ok by (auto simp: goal_ok_def)
  have k1: "goals_kept db (db2\<lparr>gb_goals := put_goal (h\<lparr>go_version := v\<rparr>) (gb_goals db2)\<rparr>)"
    by (rule versioned_put_kept [OF steps(1) lineage_same_tables [OF steps(2)] g _ okh wf])
      (rule goal_data_Inr(1) [OF h])
  have k2: "goals_kept (db2\<lparr>gb_goals := put_goal (h\<lparr>go_version := v\<rparr>) (gb_goals db2)\<rparr>) db3"
    using k1 same_tables_kept [OF lineage_same_tables [OF steps(3)]] by (simp add: goals_kept_def)
  have k3: "goals_kept db3 db4" using k2 recompute_parents_kept [OF steps(4)] by (simp add: goals_kept_def)
  have k4: "goals_kept db4 db'" using k3 same_tables_kept [OF same] by (simp add: goals_kept_def)
  show "goals_kept db db'" using k1 k2 k3 k4 goals_kept_trans by blast
  have "find_goal (go_id g) (db2\<lparr>gb_goals := put_goal (h\<lparr>go_version := v\<rparr>) (gb_goals db2)\<rparr>) = Some g'"
    using g goal_data_Inr(1) [OF h] version_frame(1) [OF steps(1)] lineage_frame(1) [OF steps(2)]
    by (simp add: find_goal_def find_put_goal g')
  moreover have "goals_kept (db2\<lparr>gb_goals := put_goal (h\<lparr>go_version := v\<rparr>) (gb_goals db2)\<rparr>) db'"
    using k2 k3 k4 goals_kept_trans by blast
  ultimately show "\<exists>x. find_goal (go_id g) db' = Some x \<and> go_version g' \<le> go_version x"
    by (auto simp: goals_kept_def goals_evolve_def)
qed

text \<open>A write that leaves the version alone.\<close>

lemma plain_put_kept:
  assumes "find_goal (go_id g) db = Some g" "go_id h = go_id g" "goal_ok h" "go_version h = go_version g" "goals_wf db"
  shows "goals_kept db (db\<lparr>gb_goals := put_goal h (gb_goals db)\<rparr>)"
proof -
  have same: "h\<lparr>go_version := go_version g\<rparr> = h" using assms(4) by (cases h) simp
  have "recordWorkItemVersion undefined g None [] db = Inr (go_version g, db)"
    by (simp add: recordWorkItemVersion_def)
  then have "goals_kept db (db\<lparr>gb_goals := put_goal (h\<lparr>go_version := go_version g\<rparr>) (gb_goals db)\<rparr>)"
  proof (rule versioned_put_kept)
    show "goal_ok (h\<lparr>go_version := go_version g\<rparr>)" using assms(3) by (simp only: same)
  qed (use assms in \<open>auto simp: same_tables_def same_progress_def\<close>)
  then show ?thesis by (simp only: same)
qed

lemma recompute_parent_kept: "recompute_parent env actor q db = Inr db' \<Longrightarrow> goals_wf db \<Longrightarrow> goals_kept db db'"
  by (auto simp: recompute_parent_def recompute_kept goals_kept_refl split: if_splits)

lemma store_deleted_goal_kept:
  assumes run: "store_deleted_goal env actor w g db = Inr db'" and wf: "goals_wf db"
    and g: "find_goal (go_id g) db = Some g"
  shows "goals_kept db db'"
  using run
proof (rule store_deleted_goal_Inr)
  fix db1
  let ?d = "db\<lparr>gb_goals := put_goal (archived_goal env actor g) (gb_goals db)\<rparr>"
  assume r: "recompute_parent env actor (go_parent g) ?d = Inr db1" and same: "same_progress db1 db'"
    and vs: "gb_versions db' = gb_versions db1"
  have "goal_ok (archived_goal env actor g)"
    using wf find_goal_SomeD [OF g] by (auto simp: goals_wf_def goal_ok_def archived_goal_def)
  then have k1: "goals_kept db ?d" using g wf by (intro plain_put_kept) (auto simp: archived_goal_def)
  have k2: "goals_kept ?d db1"
    using k1 recompute_parent_kept [OF r] by (simp add: goals_kept_def)
  have "goals_kept db1 db'"
    using k2 same vs same_tables_kept [of db1 db'] by (simp add: goals_kept_def same_tables_def)
  then show ?thesis using k1 k2 goals_kept_trans by blast
qed

lemma advance_posted_goal_kept:
  assumes run: "advance_posted_goal env actor w status p g db = Inr db'" and wf: "goals_wf db"
    and g: "find_goal (go_id g) db = Some g" and p: "\<forall>x. p = Some x \<longrightarrow> 0 \<le> x \<and> x \<le> 100"
  shows "goals_kept db db'"
proof (cases "posted_keys status p = []")
  case True
  then show ?thesis using run wf by (simp add: advance_posted_goal_def goals_kept_refl)
next
  case False
  let ?h = "posted_goal (ge_now env) status p g"
  obtain v db1 db2 db3 content parents where steps: "recordWorkItemVersion actor g None content db = Inr (v, db1)"
    "goal_lineage env actor w (GL_advance (''Goal'', go_id g))
       (db1\<lparr>gb_goals := put_goal (?h\<lparr>go_version := v\<rparr>) (gb_goals db1)\<rparr>) = Inr db2"
    "recomputeGoalParentsInTransaction env actor parents db2 = Inr db3"
    and same: "same_tables db3 db'"
    using run False
    by (auto simp: advance_posted_goal_def and_then_Inr_iff Let_def same_tables_def same_progress_def goal_event_def
        simp del: if_split)
  have ok: "goal_ok g" using wf find_goal_SomeD [OF g] by (auto simp: goals_wf_def)
  have "go_version g \<le> v" using steps(1) by (cases rule: recordWorkItemVersion_Inr) auto
  then have okh: "goal_ok (?h\<lparr>go_version := v\<rparr>)"
    using set_status_ok [OF ok, of "ge_now env" status] p ok
    by (auto simp: goal_ok_def posted_goal_def Let_def or_keep_def split: option.splits)
  have k1: "goals_kept db (db1\<lparr>gb_goals := put_goal (?h\<lparr>go_version := v\<rparr>) (gb_goals db1)\<rparr>)"
    by (rule versioned_put_kept [OF steps(1) _ g _ okh wf])
      (simp_all add: same_tables_def same_progress_def posted_goal_def Let_def)
  have k2: "goals_kept (db1\<lparr>gb_goals := put_goal (?h\<lparr>go_version := v\<rparr>) (gb_goals db1)\<rparr>) db2"
    using k1 same_tables_kept [OF lineage_same_tables [OF steps(2)]] by (simp add: goals_kept_def)
  have k3: "goals_kept db2 db3" using k2 recompute_parents_kept [OF steps(3)] by (simp add: goals_kept_def)
  have "goals_kept db3 db'" using k3 same_tables_kept [OF same] by (simp add: goals_kept_def)
  then show ?thesis using k1 k2 k3 goals_kept_trans by blast
qed

lemma finish_results_tables: "finish_results env actor w ks db = Inr db' \<Longrightarrow> same_tables db db'"
proof (induction ks arbitrary: db)
  case (Cons k ks)
  then obtain db1 where "goal_lineage env actor w (GL_finish (''KeyResult'', ks_id k)) db = Inr db1"
    "finish_results env actor w ks db1 = Inr db'" by (auto simp: and_then_Inr_iff)
  then show ?case using Cons.IH lineage_same_tables by (fastforce simp: same_tables_def same_progress_def)
qed (simp add: same_tables_def same_progress_def)

lemma createGoalKeyResults_kept:
  assumes run: "createGoalKeyResultsWithLineage env actor w i ks db = Inr (rows, db')" and wf: "goals_wf db"
    and i: "find_goal i db \<noteq> None" and ks: "\<forall>k\<in>set ks. 0 \<le> ks_progress k \<and> ks_progress k \<le> 100"
  shows "goals_kept db db'"
proof (rule results_kept [OF wf])
  note r = createGoalKeyResults_Inr [OF run]
  obtain db1 db2 where steps: "goal_lineage env actor w (GL_prepare None) db = Inr db1"
    "insert_results rows db1 = Inr db2" "finish_results env actor w rows db2 = Inr db'"
    using run by (auto simp: createGoalKeyResultsWithLineage_def and_then_Inr_iff Let_def)
  show "gb_versions db' = gb_versions db"
    using lineage_same_tables [OF steps(1)] insert_results_frame [OF steps(2)] finish_results_tables [OF steps(3)]
    by (simp add: same_tables_def)
  show "gb_goals db' = gb_goals db" by (rule r(1))
  have "result_ok db k" if k: "k \<in> set rows" for k
  proof -
    have "ks_progress k \<in> ks_progress ` set ks" using k r(3) by (metis image_eqI set_map)
    then show ?thesis using k r(4) i ks by (auto simp: result_ok_def)
  qed
  then show "\<forall>k\<in>set (gb_results db'). k \<in> set (gb_results db) \<or> result_ok db k"
    by (auto simp: r(2))
qed

lemma normalize_from_percent:
  "normalize_from n ks = Inr rows \<Longrightarrow> \<forall>k\<in>set rows. 0 \<le> ks_progress k \<and> ks_progress k \<le> 100"
  by (induction ks arbitrary: n rows) (auto simp: and_then_Inr_iff simp del: and_then_invariant dest!: keyResultProgress_percent)

lemma missing_results_percent:
  assumes "\<forall>k\<in>set ks. 0 \<le> ks_progress k \<and> ks_progress k \<le> 100"
  shows "\<forall>k\<in>set (missing_results env existing ks). 0 \<le> ks_progress k \<and> ks_progress k \<le> 100"
proof
  fix k assume k: "k \<in> set (missing_results env existing ks)"
  have same: "map ks_progress (map (\<lambda>(n, k). k\<lparr>ks_sortOrder := f n\<rparr>) (enumerate m xs)) = map ks_progress xs" for f m xs
    by (induction xs arbitrary: m) simp_all
  have "ks_progress k \<in> set (map ks_progress (missing_results env existing ks))" using k by simp
  then have "ks_progress k \<in> ks_progress ` set ks"
    unfolding missing_results_def Let_def same by auto
  then show "0 \<le> ks_progress k \<and> ks_progress k \<le> 100" using assms by auto
qed

lemma store_missing_results_kept:
  assumes run: "store_missing_results env actor w g missing db = Inr db'" and wf: "goals_wf db"
    and g: "find_goal (go_id g) db = Some g" and m: "\<forall>k\<in>set missing. 0 \<le> ks_progress k \<and> ks_progress k \<le> 100"
  shows "goals_kept db db'"
proof -
  let ?i = "go_id g" and ?p = "rounded_mean (map ks_progress (goal_results (go_id g) db) @ map ks_progress missing)"
  obtain rows db1 db2 v db3 db4 where steps: "createGoalKeyResultsWithLineage env actor w ?i missing db = Inr (rows, db1)"
    "goal_lineage env actor w (GL_prepare (Some (''Goal'', ?i))) db1 = Inr db2"
    "recordWorkItemVersion actor g None [''keyResults'', ''progressPercent''] db2 = Inr (v, db3)"
    "goal_lineage env actor w (GL_finish (''Goal'', ?i))
       (db3\<lparr>gb_goals := put_goal ((g\<lparr>go_progress := ?p\<rparr>)\<lparr>go_version := v\<rparr>) (gb_goals db3)\<rparr>) = Inr db4"
    "recomputeGoalParentsInTransaction env actor [go_parent g] db4 = Inr db'"
    using run by (auto simp: store_missing_results_def and_then_Inr_iff Let_def)
  have k1: "goals_kept db db1" by (rule createGoalKeyResults_kept [OF steps(1) wf]) (use g m in simp_all)
  then have k2: "goals_kept db1 db2" using same_tables_kept [OF lineage_same_tables [OF steps(2)]] by (simp add: goals_kept_def)
  have g2: "find_goal ?i db2 = Some g"
    using g createGoalKeyResults_Inr(1) [OF steps(1)] lineage_frame(1) [OF steps(2)] by (simp add: find_goal_def)
  have "0 \<le> ?p \<and> ?p \<le> 100"
    using wf m by (intro rounded_mean_percent) (auto simp: goals_wf_def goal_results_def)
  moreover have "goal_ok g" using wf find_goal_SomeD [OF g] by (auto simp: goals_wf_def)
  moreover have "go_version g \<le> v" using steps(3) by (cases rule: recordWorkItemVersion_Inr) auto
  ultimately have ok: "goal_ok ((g\<lparr>go_progress := ?p\<rparr>)\<lparr>go_version := v\<rparr>)" by (auto simp: goal_ok_def)
  have k3: "goals_kept db2 (db3\<lparr>gb_goals := put_goal ((g\<lparr>go_progress := ?p\<rparr>)\<lparr>go_version := v\<rparr>) (gb_goals db3)\<rparr>)"
    using k2 by (intro versioned_put_kept [OF steps(3) _ g2 _ ok])
      (simp_all add: same_tables_def same_progress_def goals_kept_def)
  then have k4: "goals_kept (db3\<lparr>gb_goals := put_goal ((g\<lparr>go_progress := ?p\<rparr>)\<lparr>go_version := v\<rparr>) (gb_goals db3)\<rparr>) db4"
    using same_tables_kept [OF lineage_same_tables [OF steps(4)]] by (simp add: goals_kept_def)
  then have "goals_kept db4 db'" using recompute_parents_kept [OF steps(5)] by (simp add: goals_kept_def)
  then show ?thesis using k1 k2 k3 k4 goals_kept_trans by blast
qed

lemma insert_goal_kept:
  assumes run: "insert_goal g db = Inr db'" and wf: "goals_wf db" and ok: "goal_ok g" "go_version g = 1"
  shows "goals_kept db db'" "find_goal (go_id g) db' = Some g"
proof -
  have new: "find_goal (go_id g) db = None" and db': "db' = db\<lparr>gb_goals := gb_goals db @ [g]\<rparr>"
    using run by (auto simp: insert_goal_def split: if_splits)
  have f: "find_goal i db' = (if i = go_id g then Some g else find_goal i db)" for i
  proof -
    have "find (\<lambda>x. go_id x = i) (gs @ [g]) = (case find (\<lambda>x. go_id x = i) gs of None \<Rightarrow> (if go_id g = i then Some g else None) | Some x \<Rightarrow> Some x)" for gs
      by (induction gs) auto
    then show ?thesis using new by (auto simp: find_goal_def db' split: option.splits)
  qed
  have n: "record_numbers i db' = record_numbers i db" for i by (simp add: record_numbers_def db')
  have fresh: "go_id g \<notin> go_id ` set (gb_goals db)"
    using new by (auto simp: find_goal_def find_None_iff)
  have "goals_wf db'"
    unfolding goals_wf_def
  proof (intro conjI allI ballI)
    show "distinct (map go_id (gb_goals db'))" using wf fresh by (simp add: db' goals_wf_def)
    show "goal_ok x" if "x \<in> set (gb_goals db')" for x using that wf ok by (auto simp: db' goals_wf_def)
    show "record_numbers i db' = (case find_goal i db' of None \<Rightarrow> [] | Some g \<Rightarrow> [1..go_version g - 1])" for i
      using wf new ok(2) by (auto simp: n f goals_wf_def)
  qed (use wf f in \<open>auto simp: goals_wf_def db'\<close>)
  then show "goals_kept db db'" using f new by (auto simp: goals_kept_def goals_evolve_def)
  show "find_goal (go_id g) db' = Some g" by (simp add: f)
qed

lemma new_goal_ok:
  assumes "\<forall>k\<in>set ks. 0 \<le> ks_progress k \<and> ks_progress k \<le> 100"
  shows "goal_ok (new_goal env actor w ps author ks)" "go_version (new_goal env actor w ps author ks) = 1"
  using assms rounded_mean_percent [of "map ks_progress ks"]
  by (auto simp: new_goal_def goal_ok_def Let_def created_status_def split: if_splits)

lemma store_new_goal_kept:
  assumes run: "store_new_goal env actor w g ks db = Inr db'" and wf: "goals_wf db"
    and g: "goal_ok g" "go_version g = 1" and ks: "\<forall>k\<in>set ks. 0 \<le> ks_progress k \<and> ks_progress k \<le> 100"
  shows "goals_kept db db'"
proof -
  obtain db1 db2 db3 db4 where steps: "goal_lineage env actor w (GL_prepare None) db = Inr db1"
    "insert_goal g db1 = Inr db2" "goal_lineage env actor w (GL_finish (''Goal'', go_id g)) db2 = Inr db3"
    "goal_lineage env actor w (GL_permalink (''Goal'', go_id g)) db3 = Inr db4"
    and last: "(if ks = [] then Inr db4
      else and_then (createGoalKeyResultsWithLineage env actor w (go_id g) ks db4) (\<lambda>(_, d). Inr d)) = Inr db'"
    using run unfolding store_new_goal_def and_then_Inr_iff by blast
  have k1: "goals_kept db db1" by (rule same_tables_kept [OF lineage_same_tables [OF steps(1)] wf])
  then have k2: "goals_kept db1 db2" and f: "find_goal (go_id g) db2 = Some g"
    using insert_goal_kept [OF steps(2) _ g] by (simp_all add: goals_kept_def)
  have k3: "goals_kept db2 db3" using k2 same_tables_kept [OF lineage_same_tables [OF steps(3)]] by (simp add: goals_kept_def)
  have k4: "goals_kept db3 db4" using k3 same_tables_kept [OF lineage_same_tables [OF steps(4)]] by (simp add: goals_kept_def)
  have k5: "goals_kept db4 db'"
  proof (cases "ks = []")
    case True
    then show ?thesis using last k4 by (simp add: goals_evolve_refl goals_kept_def)
  next
    case False
    then obtain rows where r: "createGoalKeyResultsWithLineage env actor w (go_id g) ks db4 = Inr (rows, db')"
      using last by (auto simp: and_then_Inr_iff)
    have "find_goal (go_id g) db4 \<noteq> None"
      using f lineage_frame(1) [OF steps(3)] lineage_frame(1) [OF steps(4)] by simp
    then show ?thesis using createGoalKeyResults_kept [OF r] k4 ks by (simp add: goals_kept_def)
  qed
  then show ?thesis using k1 k2 k3 k4 goals_kept_trans by blast
qed

section \<open>Every operation\<close>

text \<open>
  The steps of the goal tables: the operations of \<^verbatim>\<open>goals.ts\<close> that change them.  \<open>db0\<close> is the state of
  the reads before the lock, any state at all.
\<close>

inductive goal_step :: "'l goal_db \<Rightarrow> 'l goal_db \<Rightarrow> bool" where
  goal_created: "createGoal env guard actor w ps db = Inr (g, db') \<Longrightarrow> goal_step db db'"
| goal_updated: "updateGoal env actor w i u db = Inr (g, db') \<Longrightarrow> goal_step db db'"
| goal_returned: "returnGoalToDraft env actor w i db = Inr (g, db') \<Longrightarrow> goal_step db db'"
| goal_archived: "deleteGoal env actor w i b db = Inr db' \<Longrightarrow> goal_step db db'"
| goal_posted: "postGoalUpdate env actor w i post db = Inr (r, db') \<Longrightarrow> goal_step db db'"
| result_added: "addKeyResult env actor w i ps db = Inr (k, db') \<Longrightarrow> goal_step db db'"
| result_updated: "updateKeyResult env actor w i u expected db0 db = Inr (k, db') \<Longrightarrow> goal_step db db'"
| result_deleted: "deleteKeyResult env actor w i v db0 db = Inr db' \<Longrightarrow> goal_step db db'"
| link_created: "createGoalLink env actor w i lk db0 db = Inr (l, db') \<Longrightarrow> goal_step db db'"
| link_deleted: "deleteGoalLink env actor w i db0 db = Inr db' \<Longrightarrow> goal_step db db'"

lemma store_edited_goal_version:
  assumes "store_edited_goal env actor w u g h db = Inr (g', db')" shows "go_version g \<le> go_version g'"
  using assms by (auto simp: store_edited_goal_def and_then_Inr_iff Let_def elim!: recordWorkItemVersion_Inr)

lemma updateGoal_kept:
  assumes run: "updateGoal env actor w i u db = Inr (g', db')" and wf: "goals_wf db"
  shows "goals_kept db db'"
proof -
  obtain g h where e: "edited_goal env actor w i u db = Inr (g, h)"
    and r: "(if changedDataFields g h = [] then Inr (g, db) else store_edited_goal env actor w u g h db) = Inr (g', db')"
    using run by (auto simp: updateGoal_def and_then_Inr_iff)
  note g = edited_goal_Inr [OF e]
  show ?thesis
  proof (cases "changedDataFields g h = []")
    case True
    then show ?thesis using r wf by (simp add: goals_kept_refl)
  next
    case False
    then have s: "store_edited_goal env actor w u g h db = Inr (g', db')" using r by simp
    show ?thesis using store_edited_goal_kept(1) [OF s wf _ g(2)] g(1) find_goal_SomeD [OF g(1)] by simp
  qed
qed

lemma deleteGoal_kept:
  assumes run: "deleteGoal env actor w i b db = Inr db'" and wf: "goals_wf db"
  shows "goals_kept db db'"
proof -
  obtain g where g: "deletable_goal env actor w i b db = Inr g"
    and r: "(if go_archivedAt g \<noteq> None then Inr db else store_deleted_goal env actor w g db) = Inr db'"
    using run by (auto simp: deleteGoal_def and_then_Inr_iff simp del: if_split)
  have f: "find_goal (go_id g) db = Some g" using find_goal_SomeD deletable_goal_find [OF g] by fastforce
  show ?thesis
    using r wf store_deleted_goal_kept [OF _ wf f] by (cases "go_archivedAt g = None") (auto simp: goals_kept_refl)
qed

lemma postGoalUpdate_kept:
  assumes run: "postGoalUpdate env actor w i post db = Inr (r, db')" and wf: "goals_wf db"
  shows "goals_kept db db'"
proof -
  obtain g p db1 where steps: "posted_update env actor w i post db = Inr (g, p, r)"
    "store_posted_update env actor w r db = Inr db1" "advance_posted_goal env actor w (uo_status post) p g db1 = Inr db'"
    using run by (auto simp: postGoalUpdate_def and_then_Inr_iff)
  have same: "same_tables db db1" using store_posted_update_same [OF steps(2)] by (simp add: same_tables_def)
  have k1: "goals_kept db db1" by (rule same_tables_kept [OF same wf])
  have f: "find_goal (go_id g) db1 = Some g"
    using same same_progress_frame(1) posted_update_Inr(1) [OF steps(1)] find_goal_SomeD
    by (fastforce simp: same_tables_def)
  have "goals_kept db1 db'"
    using k1 f posted_update_Inr(3) [OF steps(1)]
    by (intro advance_posted_goal_kept [OF steps(3)]) (auto simp: goals_kept_def)
  then show ?thesis using k1 goals_kept_trans by blast
qed

lemma appendMissing_kept:
  assumes "appendMissingDuplicateGoalKeyResults env actor w ps i m db = Inr (added, db')" and wf: "goals_wf db"
  shows "goals_kept db db'"
  using assms(1)
proof (cases rule: appendMissing_Inr)
  case kept
  then show ?thesis using wf by (simp add: goals_kept_refl)
next
  case (added ks g db1)
  have "\<forall>k\<in>set (missing_results env (goal_results i db) ks). 0 \<le> ks_progress k \<and> ks_progress k \<le> 100"
    using normalize_from_percent added(1) by (intro missing_results_percent) (auto simp: normalizeKeyResults_def)
  then have k1: "goals_kept db db1"
    using added(2) find_goal_SomeD [OF added(2)] by (intro store_missing_results_kept [OF added(4) wf]) auto
  then have "goals_kept db1 db'"
    using same_tables_kept [of db1 db'] added(5,6) by (simp add: goals_kept_def same_tables_def)
  then show ?thesis using k1 goals_kept_trans by blast
qed

lemma create_new_goal_kept:
  assumes run: "create_new_goal env actor w ps m meta db = Inr (g, db')" and wf: "goals_wf db"
  shows "goals_kept db db'"
proof -
  obtain ks db1 where c: "created_goal env actor w ps m db = Inr (g, ks)"
    and s: "store_new_goal env actor w g ks db = Inr db1" and same: "same_tables db1 db'"
    using run by (auto simp: create_new_goal_def and_then_Inr_iff Let_def same_tables_def same_progress_def
        goal_audit_def goal_event_def)
  obtain author where ks: "normalizeKeyResults (cg_results ps) = Inr ks" and g: "g = new_goal env actor w ps author ks"
    using c by (auto simp: created_goal_def and_then_Inr_iff)
  have p: "\<forall>k\<in>set ks. 0 \<le> ks_progress k \<and> ks_progress k \<le> 100"
    using ks normalize_from_percent by (auto simp: normalizeKeyResults_def)
  have k1: "goals_kept db db1"
    using new_goal_ok [OF p] by (intro store_new_goal_kept [OF s wf _ _ p]) (simp_all add: g)
  then have "goals_kept db1 db'" using same_tables_kept [OF same] by (simp add: goals_kept_def)
  then show ?thesis using k1 goals_kept_trans by blast
qed

lemma merge_into_existing_kept:
  assumes run: "merge_into_existing env actor w ps m i db = Inr (g, db')" and wf: "goals_wf db"
  shows "goals_kept db db'"
proof -
  define c where "c existing \<longleftrightarrow> editsDraftContent (merge_update env ps existing) \<or> changesWorkflow (merge_update env ps existing)"
    for existing
  obtain existing db1 added db2 where
      first: "(if c existing then and_then (updateGoal env actor w i
          ((merge_update env ps existing)\<lparr>uz_expected := Some (go_version existing)\<rparr>) db) (\<lambda>(_, d). Inr d) else Inr db) = Inr db1"
    and a: "appendMissingDuplicateGoalKeyResults env actor w ps i m db1 = Inr (added, db2)"
    and last: "(if c existing \<or> added then and_then (getGoal env actor w i False db2) (\<lambda>g. Inr (g, db2))
        else Inr (existing, db2)) = Inr (g, db')"
    using run unfolding merge_into_existing_def Let_def c_def [symmetric]
    by (auto simp: and_then_Inr_iff simp del: if_split split: prod.splits)
  have "db2 = db'" using last by (auto simp: and_then_Inr_iff split: if_splits)
  have k1: "goals_kept db db1"
    using first wf updateGoal_kept by (cases "c existing") (auto simp: and_then_Inr_iff goals_kept_refl)
  then have "goals_kept db1 db2" using appendMissing_kept [OF a] by (simp add: goals_kept_def)
  then show ?thesis using k1 \<open>db2 = db'\<close> goals_kept_trans by blast
qed

lemma createGoal_kept:
  assumes run: "createGoal env guard actor w ps db = Inr (g, db')" and wf: "goals_wf db"
  shows "goals_kept db db'"
proof -
  obtain m decision where d: "(case decision of
      Use_existing i \<Rightarrow> and_then (getGoal env actor w i False db) (\<lambda>g. Inr (g, db))
    | Update_existing i \<Rightarrow> merge_into_existing env actor w ps m i db
    | Create_anyway meta \<Rightarrow> create_new_goal env actor w ps m meta db) = Inr (g, db')"
    using run by (auto simp: createGoal_def and_then_Inr_iff simp del: and_then_invariant)
  show ?thesis
  proof (cases decision)
    case (Use_existing i)
    then show ?thesis using d wf by (auto simp: and_then_Inr_iff goals_kept_refl)
  next
    case (Create_anyway meta)
    then show ?thesis using d create_new_goal_kept [OF _ wf] by simp
  next
    case (Update_existing i)
    then show ?thesis using d merge_into_existing_kept [OF _ wf] by simp
  qed
qed

lemma createGoalLink_same:
  assumes "createGoalLink env actor w i ps db0 db = Inr (l, db')" shows "same_tables db db'"
proof -
  obtain db1 db2 ls where steps: "goal_lineage env actor w (GL_prepare (map_option (\<lambda>l. (''GoalLink'', gk_id l))
      (find (same_goal_link i ps) (gb_links db)))) db = Inr db1"
    "goal_lineage env actor w (GL_finish (''GoalLink'', gk_id l)) (db1\<lparr>gb_links := ls\<rparr>) = Inr db2" "same_tables db2 db'"
    using assms
    by (auto simp: createGoalLink_def Let_def and_then_Inr_iff same_tables_def same_progress_def goal_event_def
        simp del: and_then_invariant if_split)
  then show ?thesis
    using lineage_same_tables [OF steps(1)] lineage_same_tables [OF steps(2)]
    by (simp add: same_tables_def same_progress_def)
qed

lemma deleteGoalLink_same:
  assumes "deleteGoalLink env actor w i db0 db = Inr db'" shows "same_tables db db'"
proof -
  obtain l where l: "find (\<lambda>l. gk_id l = i) (gb_links db0) = Some l"
    using assms by (cases "find (\<lambda>l. gk_id l = i) (gb_links db0)") (auto simp: deleteGoalLink_def and_then_Inr_iff)
  obtain g where g: "find_goal (gk_goal l) db0 = Some g"
    using assms l by (cases "find_goal (gk_goal l) db0") (auto simp: deleteGoalLink_def and_then_Inr_iff)
  show ?thesis
    using assms l g
    by (auto simp: deleteGoalLink_def and_then_Inr_iff same_tables_def same_progress_def split: if_splits)
qed

lemma goal_step_kept: "goal_step db db' \<Longrightarrow> goals_wf db \<Longrightarrow> goals_kept db db'"
proof (induction rule: goal_step.induct)
  case (result_added env actor w i ps db k db')
  then obtain db1 where "new_key_result env actor w i ps db = Inr k" "store_new_result env actor w k db = Inr db'"
    by (auto simp: addKeyResult_def and_then_Inr_iff)
  then show ?case using store_new_result_kept new_key_result_Inr result_added by blast
next
  case (result_updated env actor w i u expected db0 db k db')
  then obtain k0 g m p where c: "changed_key_result env actor w i u expected db0 db = Inr (k0, g, m, p)"
    and r: "(if \<not> has_requested_changes u k0 then Inr (k0, db)
      else and_then (lockGoalForKeyResultMutation actor m g db) (\<lambda>_. store_changed_result env actor w u p k0 db)) = Inr (k, db')"
    by (auto simp: updateKeyResult_def and_then_Inr_iff simp del: if_split)
  have "0 \<le> p \<and> p \<le> 100"
    using c keyResultProgress_percent
    by (auto simp: changed_key_result_def and_then_Inr_iff simp del: and_then_invariant)
  then show ?case
    using r result_updated(2) store_changed_result_kept [of env actor w u p k0 db k db']
    by (cases "has_requested_changes u k0") (auto simp: and_then_Inr_iff goals_kept_refl)
next
  case (link_created env actor w i lk db0 db l db')
  then show ?case using createGoalLink_same same_tables_kept by blast
next
  case (link_deleted env actor w i db0 db db')
  then show ?case using deleteGoalLink_same same_tables_kept by blast
qed (auto intro: createGoal_kept updateGoal_kept deleteGoal_kept postGoalUpdate_kept deleteKeyResult_kept
    simp: returnGoalToDraft_def)

end
