(* ===== verification/Goal_Promises.thy ===== *)
theory Goal_Promises
  imports Goal_Records
begin

text \<open>What the goals promise, with an example workspace on which the promises are applied.\<close>

section \<open>An example\<close>

definition goal_author_user :: human_user where
  "goal_author_user = \<lparr>hu_id = ''u1'', hu_email = ''a@x'', hu_name = None\<rparr>"

definition example_goals :: "unit goal_env" where
  "example_goals =
     \<lparr>ge_membership = (\<lambda>_ w. Inr (Some \<lparr>mb_id = ''m1'', mb_workspace = w, mb_user = ''u1'', mb_role = CONTRIBUTOR,
        mb_active = True\<rparr>)),
      ge_system_user = (\<lambda>_. Inr ''u0''), ge_now = 1000, ge_new_id = (\<lambda>t n. t @ ''-1''),
      ge_readable = (\<lambda>_ _ _ _. True), ge_inputs = (\<lambda>_ _ _ _. Inr ()), ge_lineage = (\<lambda>_ _ _ l. Inr l),
      ge_human = (\<lambda>_. True), ge_target = (\<lambda>_ _ _ _ _. True), ge_normalize = (\<lambda>t. t), ge_number = (\<lambda>_. JNull)\<rparr>"

definition example_goal :: "string \<Rightarrow> string option \<Rightarrow> goal_status \<Rightarrow> int \<Rightarrow> goal_row" where
  "example_goal i parent st p =
     \<lparr>go_id = i, go_workspace = ''w1'', go_author = Some ''u1'', go_parent = parent, go_circle = None, go_owner = None,
      go_title = i, go_description = None, go_level = COMPANY_LEVEL, go_cadence = QUARTERLY, go_status = st,
      go_version = 1, go_progress = p, go_private = (st = GOAL_DRAFT),
      go_publishedAt = (if st = GOAL_DRAFT then None else Some 5), go_targetDate = None, go_startDate = None,
      go_archivedAt = None, go_archivedBy = None, go_archiveReason = None\<rparr>"

definition example_result :: "string \<Rightarrow> rat \<Rightarrow> rat \<Rightarrow> int \<Rightarrow> key_result" where
  "example_result g target current p =
     \<lparr>ks_id = ''k'' @ g, ks_goal = g, ks_title = ''k'', ks_target = Some target, ks_current = Some current,
      ks_unit = None, ks_progress = p, ks_sortOrder = 0\<rparr>"

definition example_goal_db :: "goal_row list \<Rightarrow> key_result list \<Rightarrow> unit goal_db" where
  "example_goal_db gs ks =
     \<lparr>gb_goals = gs, gb_results = ks, gb_versions = [], gb_updates = [], gb_archive = [], gb_links = [], gb_members = [],
      gb_users = [], gb_circles = [], gb_audit = [], gb_events = [], gb_lineage = ()\<rparr>"

text \<open>Two goals that are each other's parent.\<close>

definition example_cycle :: "unit goal_db" where
  "example_cycle = example_goal_db
     [example_goal ''a'' (Some ''b'') GOAL_ACTIVE 40, example_goal ''b'' (Some ''a'') GOAL_ACTIVE 40] []"

definition open_result :: key_result_input where
  "open_result = \<lparr>ki_title = ''k'', ki_target = None, ki_current = None, ki_unit = None, ki_sortOrder = None\<rparr>"

definition title_update :: "string \<Rightarrow> int \<Rightarrow> goal_update" where
  "title_update t v = no_goal_update\<lparr>uz_title := Some t, uz_expected := Some v\<rparr>"

section \<open>Progress\<close>

text \<open>
  C38: After any sequence of changes of drivers - key results added, updated, deleted or merged in, goals
  edited, moved, archived or returned to draft, updates posted - every goal that key results or
  counted children drive stands at their rounded mean again, if that was so before.  Parents may form a
  cycle; the recomputation ends on it all the same.
\<close>

theorem goals_agree_with_their_drivers:
  assumes "driver_step\<^sup>*\<^sup>* db db'" "goals_settled db"
    and "find_goal i db' = Some g" "i \<noteq> []" "driven_progress i db' = Some p"
  shows "go_progress g = p"
proof -
  have "goals_settled db'" using assms(1,2) by (induction rule: rtranclp_induct) (auto intro: driver_step_settled)
  then have "\<not> stale_goal i db'" using assms(4) by (auto simp: goals_settled_def simp flip: stale_goals_iff)
  then show ?thesis using assms(3,5) by (simp add: stale_goal_def)
qed

lemma rounded_mean_single: "0 \<le> x \<Longrightarrow> x \<le> 100 \<Longrightarrow> rounded_mean [x] = x"
  using fl_of_nat [of "nat x"] math_round_of_int [of x] by (simp add: rounded_mean_def js_div_def)

lemma example_cycle_settled: "goals_settled example_cycle"
  by (auto simp: goals_settled_def stale_goals_def stale_goal_def example_cycle_def example_goal_db_def example_goal_def
      find_goal_def driven_progress_def goal_results_def child_progress_def countsTowardParentProgress_def
      rounded_mean_single split: option.splits)

lemma example_result_added:
  obtains k db where
    "addKeyResult example_goals (UserActor goal_author_user) ''w1'' ''a'' open_result example_cycle = Inr (k, db)"
    "map go_progress (gb_goals db) = [0, 0]" "driven_progress ''b'' db = Some 0" "find_goal ''b'' db \<noteq> None"
proof -
  let ?run = "addKeyResult example_goals (UserActor goal_author_user) ''w1'' ''a'' open_result example_cycle"
  have c: "(case ?run of
      Inl e \<Rightarrow> False
    | Inr (k, db) \<Rightarrow> map go_progress (gb_goals db) = [0, 0] \<and> driven_progress ''b'' db = Some 0 \<and> find_goal ''b'' db \<noteq> None)"
    by code_simp
  show ?thesis
  proof (cases ?run)
    case (Inr x)
    then show ?thesis using c that [of "fst x" "snd x"] by (simp add: split_beta)
  qed (use c in simp)
qed

lemma goals_agree_with_their_drivers_witness:
  "\<exists>db g. driver_step\<^sup>*\<^sup>* example_cycle db \<and> goals_settled example_cycle \<and> find_goal ''b'' db = Some g \<and>
     driven_progress ''b'' db = Some 0 \<and> go_progress g = 0"
proof -
  obtain k db where run: "addKeyResult example_goals (UserActor goal_author_user) ''w1'' ''a'' open_result example_cycle = Inr (k, db)"
    and d: "driven_progress ''b'' db = Some 0" "find_goal ''b'' db \<noteq> None" by (rule example_result_added)
  have r: "driver_step\<^sup>*\<^sup>* example_cycle db" using key_result_added [OF run] by blast
  obtain g where g: "find_goal ''b'' db = Some g" using d(2) by auto
  have "go_progress g = 0"
    by (rule goals_agree_with_their_drivers [OF r example_cycle_settled g _ d(1)]) simp
  then show ?thesis using r example_cycle_settled g d(1) by blast
qed

section \<open>Records\<close>

text \<open>
  C39: Whatever operations run, the recorded versions of a goal are numbered from one to its version less
  one without gap or repetition, exactly the drafts are private and unpublished, every percentage lies
  between 0 and 100, ids are unique, and a key result belongs to a goal.
\<close>

theorem goal_records_have_no_gap:
  assumes "goal_step\<^sup>*\<^sup>* db db'" "goals_wf db" shows "goals_wf db'"
  using assms by (induction rule: rtranclp_induct) (auto dest: goal_step_kept simp: goals_kept_def)

lemma example_cycle_wf: "goals_wf example_cycle"
  by (auto simp: goals_wf_def example_cycle_def example_goal_db_def example_goal_def goal_ok_def record_numbers_def
      find_goal_def split: option.splits)

lemma goal_records_have_no_gap_witness:
  "\<exists>db. goal_step\<^sup>*\<^sup>* example_cycle db \<and> map go_progress (gb_goals db) = [0, 0] \<and> goals_wf db"
proof -
  obtain k db where run: "addKeyResult example_goals (UserActor goal_author_user) ''w1'' ''a'' open_result example_cycle = Inr (k, db)"
    and d: "map go_progress (gb_goals db) = [0, 0]" by (rule example_result_added)
  have r: "goal_step\<^sup>*\<^sup>* example_cycle db" using result_added [OF run] by blast
  show ?thesis by (intro exI conjI) (rule r, rule d, rule goal_records_have_no_gap [OF r example_cycle_wf])
qed

section \<open>Edits\<close>

lemma goal_run_kept:
  assumes "goal_step\<^sup>*\<^sup>* db db'" "goals_wf db" shows "goals_kept db db'"
  using assms
proof (induction rule: rtranclp_induct)
  case (step y z)
  then show ?case using goal_step_kept goals_kept_trans by (fastforce simp: goals_kept_def)
qed (rule goals_kept_refl)

lemma content_changes_version [simp]:
  "content_changes g (h\<lparr>go_version := v\<rparr>) = content_changes g h" "content_changes g g = []"
  by (simp_all add: content_changes_def changedDataFields_def)

lemma stored_content_raises_version:
  assumes "store_edited_goal env actor w u g h db = Inr (g', db')" "content_changes g g' \<noteq> []"
  shows "go_version g' = go_version g + 1"
  using assms by (auto simp: store_edited_goal_def and_then_Inr_iff Let_def recordWorkItemVersion_def split: if_splits)

lemma content_edit_raises_version:
  assumes run: "updateGoal env actor w i u db = Inr (g', db')" and wf: "goals_wf db"
    and v: "uz_expected u = Some v" "find_goal i db = Some g" "content_changes g g' \<noteq> []"
  shows "\<exists>h. find_goal i db' = Some h \<and> v < go_version h"
proof -
  obtain k h where e: "edited_goal env actor w i u db = Inr (k, h)"
    and r: "(if changedDataFields k h = [] then Inr (k, db) else store_edited_goal env actor w u k h db) = Inr (g', db')"
    using run by (auto simp: updateGoal_def and_then_Inr_iff)
  note k = edited_goal_Inr [OF e]
  have gk: "k = g" using k(1) v(2) by simp
  have gv: "go_version g = v" using k(4) [OF v(1)] gk by simp
  have gi: "go_id g = i" using find_goal_SomeD [OF v(2)] by simp
  show ?thesis
  proof (cases "changedDataFields g h = []")
    case True
    then show ?thesis using r v(3) gk by simp
  next
    case False
    then have s: "store_edited_goal env actor w u g h db = Inr (g', db')" using r gk by simp
    have "go_version g' = v + 1" using stored_content_raises_version [OF s v(3)] gv by simp
    then show ?thesis
      using store_edited_goal_kept(2) [OF s wf _ k(2) [unfolded gk]] k(1) gi gk by force
  qed
qed

lemma old_version_refused:
  assumes "find_goal i db = Some h" "v < go_version h"
  shows "uz_expected u = Some v \<Longrightarrow> updateGoal env actor w i u db \<noteq> Inr r"
    "read_result w j db0 = Inr (k, g) \<Longrightarrow> go_id g = i \<Longrightarrow> deleteKeyResult env actor w j v db0 db \<noteq> Inr db'"
proof -
  show "updateGoal env actor w i u db \<noteq> Inr r" if "uz_expected u = Some v"
    using assms that edited_goal_Inr(1,4) [of env actor w i u db] by (fastforce simp: updateGoal_def and_then_Inr_iff)
  show "deleteKeyResult env actor w j v db0 db \<noteq> Inr db'" if "read_result w j db0 = Inr (k, g)" "go_id g = i"
    using assms that by (auto elim!: deleteKeyResult_Inr)
qed

text \<open>
  C40: Of the edits that name the version they were made on only one changes the content of the goal:
  once an edit that expected version v has changed the title, the description, the level, the cadence,
  the progress, a date, the parent, the circle or the owner, every later edit of the goal and every
  deletion of one of its key results that expects v is refused, whatever ran in between.  (Its status is
  no content: \<open>status_edits_of_one_version\<close>.)
\<close>

theorem only_one_edit_of_a_version_wins:
  assumes "updateGoal env actor w i u db = Inr (g', db1)" "uz_expected u = Some v"
    and "find_goal i db = Some g0" "content_changes g0 g' \<noteq> []" "goals_wf db" "goal_step\<^sup>*\<^sup>* db1 db2"
    and "uz_expected u2 = Some v" "read_result w3 r db0 = Inr (k, g)" "go_id g = i"
  shows "(\<exists>e. updateGoal env2 actor2 w2 i u2 db2 = Inl e) \<and> (\<exists>e. deleteKeyResult env3 actor3 w3 r v db0 db2 = Inl e)"
proof -
  obtain h where h: "find_goal i db1 = Some h" "v < go_version h"
    using content_edit_raises_version [OF assms(1,5,2,3,4)] by blast
  have "goals_wf db1" using updateGoal_kept [OF assms(1,5)] by (simp add: goals_kept_def)
  then have "goals_evolve db1 db2" using goal_run_kept [OF assms(6)] by (simp add: goals_kept_def)
  then obtain h2 where h2: "find_goal i db2 = Some h2" "v < go_version h2"
    using h by (fastforce simp: goals_evolve_def)
  have "updateGoal env2 actor2 w2 i u2 db2 \<noteq> Inr x" "deleteKeyResult env3 actor3 w3 r v db0 db2 \<noteq> Inr y" for x y
    using old_version_refused [OF h2] assms(7-9) by blast+
  then show ?thesis by (metis obj_sumE)
qed

definition example_driven :: "unit goal_db" where
  "example_driven = example_goal_db [example_goal ''a'' None GOAL_ACTIVE 0] [example_result ''a'' 100 0 0]"

lemma only_one_edit_of_a_version_wins_witness:
  "\<exists>g db e f. updateGoal example_goals (UserActor goal_author_user) ''w1'' ''a'' (title_update ''new'' 1) example_driven
      = Inr (g, db) \<and> go_version g = 2 \<and>
     updateGoal example_goals (UserActor goal_author_user) ''w1'' ''a'' (title_update ''other'' 1) db = Inl e \<and>
     deleteKeyResult example_goals (UserActor goal_author_user) ''w1'' ''ka'' 1 example_driven db = Inl f"
proof -
  have "(case updateGoal example_goals (UserActor goal_author_user) ''w1'' ''a'' (title_update ''new'' 1) example_driven of
      Inl e \<Rightarrow> False
    | Inr (g, db) \<Rightarrow> go_version g = 2 \<and> content_changes (example_goal ''a'' None GOAL_ACTIVE 0) g = [''title''])"
    by code_simp
  then obtain g db where run: "updateGoal example_goals (UserActor goal_author_user) ''w1'' ''a'' (title_update ''new'' 1)
      example_driven = Inr (g, db)" "go_version g = 2"
      "content_changes (example_goal ''a'' None GOAL_ACTIVE 0) g \<noteq> []" by (auto split: sum.splits)
  have found: "find_goal ''a'' example_driven = Some (example_goal ''a'' None GOAL_ACTIVE 0)" by code_simp
  have wf: "goals_wf example_driven"
    by (auto simp: goals_wf_def example_driven_def example_goal_db_def example_goal_def example_result_def goal_ok_def
        record_numbers_def find_goal_def split: option.splits)
  have rd: "read_result ''w1'' ''ka'' example_driven
      = Inr (example_result ''a'' 100 0 0, example_goal ''a'' None GOAL_ACTIVE 0)"
    by code_simp
  have "(\<exists>e. updateGoal example_goals (UserActor goal_author_user) ''w1'' ''a'' (title_update ''other'' 1) db = Inl e) \<and>
    (\<exists>e. deleteKeyResult example_goals (UserActor goal_author_user) ''w1'' ''ka'' 1 example_driven db = Inl e)"
    by (rule only_one_edit_of_a_version_wins [OF run(1) _ found run(3) wf rtranclp.rtrancl_refl _ rd])
      (simp_all add: title_update_def example_goal_def)
  then show ?thesis using run by blast
qed

section \<open>What the code does besides\<close>

lemma pair_resultD: "(case r of Inl e \<Rightarrow> False | Inr (a, b) \<Rightarrow> P a b) \<Longrightarrow> \<exists>a b. r = Inr (a, b) \<and> P a b"
  by (auto split: sum.splits prod.splits)

text \<open>
  Two edits of the status that expect the same version both succeed and both change the goal: the
  status is not among the fields that raise the version.
\<close>

definition status_update :: "goal_status \<Rightarrow> int \<Rightarrow> goal_update" where
  "status_update st v = no_goal_update\<lparr>uz_status := Some st, uz_expected := Some v\<rparr>"

lemma status_edits_of_one_version:
  "\<exists>g db h db'. updateGoal example_goals (UserActor goal_author_user) ''w1'' ''a'' (status_update GOAL_ON_TRACK 1)
      example_driven = Inr (g, db) \<and> go_status g = GOAL_ON_TRACK \<and>
    updateGoal example_goals (UserActor goal_author_user) ''w1'' ''a'' (status_update GOAL_AT_RISK 1) db = Inr (h, db') \<and>
    go_status h = GOAL_AT_RISK"
proof -
  have "(case updateGoal example_goals (UserActor goal_author_user) ''w1'' ''a'' (status_update GOAL_ON_TRACK 1) example_driven of
      Inl e \<Rightarrow> False
    | Inr (g, db) \<Rightarrow> go_status g = GOAL_ON_TRACK \<and>
        (case updateGoal example_goals (UserActor goal_author_user) ''w1'' ''a'' (status_update GOAL_AT_RISK 1) db of
           Inl e \<Rightarrow> False | Inr (h, db') \<Rightarrow> go_status h = GOAL_AT_RISK))"
    by code_simp
  from pair_resultD [OF this] show ?thesis by (fast dest: pair_resultD)
qed

text \<open>A goal that is created under a parent is not counted in the parent's progress.\<close>

definition child_params :: create_goal_params where
  "child_params =
     \<lparr>cg_title = ''c'', cg_description = None, cg_level = None, cg_cadence = None, cg_status = Some GOAL_ACTIVE,
      cg_private = None, cg_targetDate = None, cg_startDate = None, cg_parent = Some ''p'', cg_circle = None,
      cg_owner = None, cg_author = None, cg_results = []\<rparr>"

lemma created_child_leaves_its_parent_stale:
  "\<exists>g db. createGoal example_goals (\<lambda>_. Inr (Create_anyway [])) (UserActor goal_author_user) ''w1'' child_params
      (example_goal_db [example_goal ''p'' None GOAL_ACTIVE 40] []) = Inr (g, db) \<and>
     driven_progress ''p'' db = Some 0 \<and> map_option go_progress (find_goal ''p'' db) = Some 40"
proof -
  have "(case createGoal example_goals (\<lambda>_. Inr (Create_anyway [])) (UserActor goal_author_user) ''w1'' child_params
      (example_goal_db [example_goal ''p'' None GOAL_ACTIVE 40] []) of
      Inl e \<Rightarrow> False
    | Inr (g, db) \<Rightarrow> driven_progress ''p'' db = Some 0 \<and> map_option go_progress (find_goal ''p'' db) = Some 40)"
    by code_simp
  then show ?thesis by (auto split: sum.splits)
qed

text \<open>A completed goal is returned to draft by an update that is posted, which editing it refuses.\<close>

definition draft_post :: goal_post where
  "draft_post = \<lparr>uo_body = ''b'', uo_author = None, uo_status = Some GOAL_DRAFT, uo_progress = None, uo_expected = None\<rparr>"

lemma posting_reopens_a_completed_goal:
  defines "db \<equiv> example_goal_db [example_goal ''a'' None GOAL_COMPLETED 100] []"
  shows "returnGoalToDraft example_goals (UserActor goal_author_user) ''w1'' ''a'' db
      = Inl (AppError 400 ''INVALID_STATE'' ''Only active goals can be returned to draft.'') \<and>
    (\<exists>r db'. postGoalUpdate example_goals (UserActor goal_author_user) ''w1'' ''a'' draft_post db = Inr (r, db') \<and>
       map go_status (gb_goals db') = [GOAL_DRAFT])"
proof -
  have "(case postGoalUpdate example_goals (UserActor goal_author_user) ''w1'' ''a'' draft_post db of
      Inl e \<Rightarrow> False | Inr (r, db') \<Rightarrow> map go_status (gb_goals db') = [GOAL_DRAFT])"
    unfolding db_def by code_simp
  moreover have "returnGoalToDraft example_goals (UserActor goal_author_user) ''w1'' ''a'' db
      = Inl (AppError 400 ''INVALID_STATE'' ''Only active goals can be returned to draft.'')"
    unfolding db_def by code_simp
  ultimately show ?thesis by (auto split: sum.splits)
qed

text \<open>A goal may be moved under its own child.\<close>

lemma goal_moves_under_its_child:
  defines "db \<equiv> example_goal_db [example_goal ''a'' None GOAL_ACTIVE 0, example_goal ''b'' (Some ''a'') GOAL_ACTIVE 0] []"
  shows "\<exists>g db'. updateGoal example_goals (UserActor goal_author_user) ''w1'' ''a''
      (no_goal_update\<lparr>uz_parent := Some (Some ''b''), uz_expected := Some 1\<rparr>) db = Inr (g, db') \<and>
    map go_parent (gb_goals db') = [Some ''b'', Some ''a'']"
proof -
  have "(case updateGoal example_goals (UserActor goal_author_user) ''w1'' ''a''
      (no_goal_update\<lparr>uz_parent := Some (Some ''b''), uz_expected := Some 1\<rparr>) db of
      Inl e \<Rightarrow> False | Inr (g, db') \<Rightarrow> map go_parent (gb_goals db') = [Some ''b'', Some ''a''])"
    unfolding db_def by code_simp
  then show ?thesis by (auto split: sum.splits)
qed

text \<open>
  The progress of a key result is computed from the row read before the lock: of two updates that overlap
  the second stores the progress its own read gives.
\<close>

definition undriven_result :: key_result where
  "undriven_result = (example_result ''a'' 100 0 0)\<lparr>ks_target := None\<rparr>"

definition current_update :: key_result_update where
  "current_update = \<lparr>ku_title = None, ku_target = None, ku_current = Some (Some 100), ku_unit = None\<rparr>"

definition target_update :: key_result_update where
  "target_update = \<lparr>ku_title = None, ku_target = Some (Some 100), ku_current = None, ku_unit = None\<rparr>"

lemma overlapping_updates_store_a_stale_progress:
  defines "db \<equiv> example_goal_db [example_goal ''a'' None GOAL_ACTIVE 0] [undriven_result]"
  shows "\<exists>k1 db1 k2 db2.
     updateKeyResult example_goals (UserActor goal_author_user) ''w1'' ''ka'' current_update None db db = Inr (k1, db1) \<and>
     updateKeyResult example_goals (UserActor goal_author_user) ''w1'' ''ka'' target_update None db db1 = Inr (k2, db2) \<and>
     ks_progress k2 = 0 \<and> keyResultProgress (ks_target k2) (ks_current k2) = Inr 100"
proof -
  have "(case updateKeyResult example_goals (UserActor goal_author_user) ''w1'' ''ka'' current_update None db db of
      Inl e \<Rightarrow> False
    | Inr (k1, db1) \<Rightarrow>
        (case updateKeyResult example_goals (UserActor goal_author_user) ''w1'' ''ka'' target_update None db db1 of
           Inl e \<Rightarrow> False
         | Inr (k2, db2) \<Rightarrow> ks_progress k2 = 0 \<and> ks_target k2 = Some 100 \<and> ks_current k2 = Some 100))"
    unfolding db_def by code_simp
  moreover have "keyResultProgress (Some 100) (Some 100) = Inr 100"
    using fl_of_nat [of 1] fl_of_nat [of 100] math_round_of_int [of 100]
    by (simp add: keyResultProgress_def clampProgressPercent_def js_div_def js_mul_def finite_number_def)
  ultimately show ?thesis
    by (cases "updateKeyResult example_goals (UserActor goal_author_user) ''w1'' ''ka'' current_update None db db")
      (fastforce split: sum.splits)+
qed

end
