(* ===== verification/Spec2Isabelle.thy ===== *)
theory Spec2Isabelle
  imports Js_Prelude Js_Number Module_Access Module_Registry Permissions Derive_Jobs Notifications
    Job_Store Job_Lease Outbox_Claim Outbox_Settle Outbox_Dispatch Outbox_Facts
    Approval_Rules Approvals Approval_Facts Approval_Invariant Proposal_Flows
    Proposal_Flow_Facts Rate_Limiter Transcript_Chunks Circle_Hierarchy Auth_Facts Release_Facts Module_Grant_Facts OAuth_Facts Finance_Facts Billing_Promises Member_Promises
    Goal_Promises
begin

text \<open>
  A verification library for the Corgtex platform (the TypeScript packages of the repository).

  \<^bold>\<open>The program.\<close>  Corgtex keeps the governance of an organisation in a Postgres database:
  workspaces with members, circles and modules, approval flows, finances, plans and billing.
  \<^verbatim>\<open>packages/domain\<close> holds the services, each a module of functions that read and write
  tables; every change appends an audit record and an event.  \<^verbatim>\<open>packages/workflows\<close>
  turns events into jobs: the outbox claims pending events, derives jobs and notifications from
  each, and claims and runs the jobs.  \<^verbatim>\<open>packages/shared\<close> has the rate limiter and the
  vocabulary of actors, \<^verbatim>\<open>packages/models\<close> the budget gates before every model call.
  Web routes, the worker's loop and the MCP server parse requests and call the services.

  \<^bold>\<open>How code becomes definitions.\<close>  A table is a list of records (or a function, where it is
  only read by key), a database is a record of its tables, and a service is a function from the
  database before to a result: \<open>Inl\<close> an error of the type \<open>js_error\<close>, with the status, code and
  message the code throws, or \<open>Inr\<close> the answer with the database after.  The steps keep the
  order of the source, \<open>and_then\<close> and \<open>invariant\<close> of \<^verbatim>\<open>Js_Prelude\<close> standing for
  \<^verbatim>\<open>await\<close> and \<^verbatim>\<open>invariant()\<close>.  An error inside a transaction gives back no database,
  which is its rollback.  A service that reads and writes in separate statements takes one state
  for each of them wherever that matters (\<^verbatim>\<open>Finance\<close>, \<^verbatim>\<open>OAuth_Server\<close>,
  \<^verbatim>\<open>Release_Ops\<close>, \<^verbatim>\<open>Circle_Facts\<close>), so that what interleaves is any change the
  property allows.  Columns have the constraints of \<^verbatim>\<open>prisma/schema.prisma\<close> and of the named
  migrations: a violated unique index is an error.  Times are integers in milliseconds, and the
  clock, fresh ids, random tokens and hashes are arguments.  JavaScript numbers are integers where
  the code computes with integers below $2^{53}$, and rationals rounded by \<open>fl\<close> of
  \<^verbatim>\<open>Js_Number\<close> where it computes with fractions.

  \<^bold>\<open>Theories, in the order of the imports.\<close>
  \<^item> \<^verbatim>\<open>Js_Prelude\<close>: thrown values and the result type, JSON values, truthiness, trimming, ISO
    dates; the lemma collections.  \<^verbatim>\<open>Js_Number\<close>: doubles as rounded rationals, with the error
    bounds of the rounding.  \<^verbatim>\<open>Js_Json\<close>: the order of object keys, \<^verbatim>\<open>JSON.stringify\<close> and
    the equality of JSON texts.
  \<^item> \<^verbatim>\<open>Module_Access\<close> (\<^verbatim>\<open>modules/access.ts\<close>, \<^verbatim>\<open>modules/types.ts\<close>): the pure
    resolver; the locale \<open>level_join\<close> proves the folds of levels to be least upper bounds.
    \<^verbatim>\<open>Module_Registry\<close> (\<^verbatim>\<open>modules/registry.ts\<close>): the shipped manifests and what is
    derived from them.  \<^verbatim>\<open>Module_Grants\<close> and \<^verbatim>\<open>Module_Grant_Facts\<close>
    (\<^verbatim>\<open>module-access.ts\<close>): gathering a member's context, grants, access requests.
  \<^item> \<^verbatim>\<open>Permissions\<close> (\<^verbatim>\<open>collaborative-permissions.ts\<close>, \<^verbatim>\<open>draft-permissions.ts\<close>,
    \<^verbatim>\<open>member-identity.ts\<close>, \<^verbatim>\<open>action-policy.ts\<close>): actors and who may do what.
  \<^item> \<^verbatim>\<open>Derive_Jobs\<close>, \<^verbatim>\<open>Notifications\<close> (\<^verbatim>\<open>derive-jobs.ts\<close>,
    \<^verbatim>\<open>derive-notifications.ts\<close>, parts of \<^verbatim>\<open>outbox.ts\<close>): the jobs and texts of an event.
    \<^verbatim>\<open>Job_Store\<close>: the table of jobs and \<^verbatim>\<open>enqueueJob\<close>.  \<^verbatim>\<open>Job_Lease\<close>:
    the leases of running jobs.  \<^verbatim>\<open>Outbox_Claim\<close>, \<^verbatim>\<open>Outbox_Settle\<close>,
    \<^verbatim>\<open>Outbox_Dispatch\<close> (\<^verbatim>\<open>outbox.ts\<close>): claiming, settling, dispatching.
    \<^verbatim>\<open>Outbox_Facts\<close>: the derived dependencies and the dispatch turn, through the locale
    \<open>job_sink\<close>, the contract of enqueueing a batch, interpreted on \<^verbatim>\<open>enqueueJob\<close>.
  \<^item> \<^verbatim>\<open>Approval_Rules\<close>, \<^verbatim>\<open>Approvals\<close> (\<^verbatim>\<open>approvals.ts\<close>, activation in
    \<^verbatim>\<open>proposals.ts\<close>): quorum rules and every operation on a flow.
    \<^verbatim>\<open>Approval_Facts\<close>: the abstract machine \<open>decision_step\<close> and what each operation
    changes.  \<^verbatim>\<open>Approval_Invariant\<close>: the refinement of \<^verbatim>\<open>approvals.ts\<close>, and the
    invariant.  \<^verbatim>\<open>Proposal_Flows\<close> (\<^verbatim>\<open>proposals.ts\<close>): the writers of flows outside of
    \<^verbatim>\<open>approvals.ts\<close>: submitting, returning to draft, reopening, resolving by hand, with the deletion
    and the merge of members as far as they touch decisions.  \<^verbatim>\<open>Proposal_Flow_Facts\<close>: what runs of
    both modules keep, and that a final flow moves by the named proposal operations only.
  \<^item> \<^verbatim>\<open>Rate_Limiter\<close> (\<^verbatim>\<open>rate-limiter.ts\<close>, \<^verbatim>\<open>postgres-shared-state.ts\<close>): two
    stores, both an interpretation of the locale \<open>sliding_window\<close>, where the bound is proved.
  \<^item> \<^verbatim>\<open>Transcript_Chunks\<close> (\<^verbatim>\<open>meeting-transcript-chunks.ts\<close>): chunking, its end and its
    reassembly.
  \<^item> \<^verbatim>\<open>Circles\<close> (\<^verbatim>\<open>circles.ts\<close>, and \<^verbatim>\<open>archive.ts\<close> for circles),
    \<^verbatim>\<open>Circle_Facts\<close>, \<^verbatim>\<open>Circle_Hierarchy\<close>: the parents of circles, what a move checks,
    and that no operation but restoring closes a cycle.
  \<^item> \<^verbatim>\<open>Workspace_Auth\<close> (\<^verbatim>\<open>auth.ts\<close>), \<^verbatim>\<open>Support_Access\<close>
    (\<^verbatim>\<open>workspace-support-access.ts\<close>), \<^verbatim>\<open>Auth_Facts\<close>: sessions, membership and the
    versions of a support grant.
  \<^item> \<^verbatim>\<open>Release_Lease\<close>, \<^verbatim>\<open>Release_Ops\<close> (\<^verbatim>\<open>control-plane-release-lease.ts\<close> with
    the constraints and the trigger of its two migrations), \<^verbatim>\<open>Release_Facts\<close>: the fenced lease of
    a deployment, refined to the machine \<open>lease_move\<close>.
  \<^item> \<^verbatim>\<open>OAuth_Server\<close> (\<^verbatim>\<open>oauth-server.ts\<close>, \<^verbatim>\<open>oauth-workspace-authorization.ts\<close>),
    \<^verbatim>\<open>OAuth_Facts\<close>: codes and tokens, under every interleaving \<open>oauth_step\<close>.
  \<^item> \<^verbatim>\<open>Finance\<close> (\<^verbatim>\<open>finance.ts\<close>), \<^verbatim>\<open>Finance_Config_Facts\<close>,
    \<^verbatim>\<open>Finance_Facts\<close>: the configuration and its compare-and-set, access, contributions and cash
    payables, under every history \<open>finance_run\<close>.
  \<^item> \<^verbatim>\<open>Plans\<close> (\<^verbatim>\<open>trial-entitlements.ts\<close>, sweeps of \<^verbatim>\<open>procurement-trials.ts\<close>),
    \<^verbatim>\<open>Budgets\<close> (\<^verbatim>\<open>cost-budget.ts\<close>, \<^verbatim>\<open>packages/models/src/usage.ts\<close>),
    \<^verbatim>\<open>Billing\<close> (\<^verbatim>\<open>billing.ts\<close>): plans, budget gates, Stripe, where the delivery of an event
    is three steps (received, applied, settled) that overlapping deliveries interleave.
    \<^verbatim>\<open>Billing_Facts\<close>: which rows each operation may move, over the histories of
    \<open>plan_op\<close>.  \<^verbatim>\<open>Billing_Promises\<close>: what a workspace is billed for and when AI is paused.
  \<^item> \<^verbatim>\<open>Members\<close> (\<^verbatim>\<open>members.ts\<close>, \<^verbatim>\<open>password-reset.ts\<close>): invitations, changes of
    members and the links that set a password.  \<^verbatim>\<open>Member_Admin\<close> (\<^verbatim>\<open>admin.ts\<close>,
    \<^verbatim>\<open>member-merge.ts\<close>, \<^verbatim>\<open>sso.ts\<close>) and \<^verbatim>\<open>Support_Commands\<close>
    (\<^verbatim>\<open>workspace-support-configuration.ts\<close>): the other operations that write members.
    \<^verbatim>\<open>Member_Facts\<close>: all of them as \<open>member_op\<close>, and histories \<open>member_run\<close>.
    \<^verbatim>\<open>Member_Authority\<close>: who may change which rows (\<open>authority\<close>) and what keeps an
    administrator.  \<^verbatim>\<open>Member_Promises\<close>: links work once, members change by authority, who can take
    the last administrator, and the way from an invitation to a session.
  \<^item> \<^verbatim>\<open>Goal_Progress\<close> (\<^verbatim>\<open>recomputeGoalProgress\<close> of \<^verbatim>\<open>goals.ts\<close>,
    \<^verbatim>\<open>work-item-versions.ts\<close>): the progress that rolls up from key results and children, and why the
    recursion ends.  \<^verbatim>\<open>Goals\<close> (\<^verbatim>\<open>goals.ts\<close>): the operations on goals, key results,
    updates and links.  \<^verbatim>\<open>Goal_Facts\<close>: a change leaves only the parent to recompute, so that
    every \<open>driver_step\<close> ends in agreement.  \<^verbatim>\<open>Goal_Records\<close>: the invariant of the tables over
    \<open>goal_step\<close>.  \<^verbatim>\<open>Goal_Promises\<close>: the properties, with an example workspace.

  \<^bold>\<open>How the parts meet.\<close>  Sessions and members (\<^verbatim>\<open>Workspace_Auth\<close>) are the base of
  support access, of the OAuth provider and of the finance guards, which extend its record of tables
  and call its membership check.  The module resolver is called with the context that
  \<^verbatim>\<open>Module_Grants\<close> gathers, and by the finance access policy.  The outbox theories share the
  event and job tables of \<^verbatim>\<open>Job_Store\<close>; the dispatch runs the derivation of
  \<^verbatim>\<open>Derive_Jobs\<close> into them.  Billing moves the plan that the budget gates read.

  \<^bold>\<open>Arguments.\<close>  Code that is not in the repository, and the lineage store (\<^verbatim>\<open>source-lineage.ts\<close>),
  which the services call to record or check provenance, are arguments of the definitions: the
  Stripe, Redis and model clients, hashing and signatures, the decimal library, the collation of
  Postgres, \<^verbatim>\<open>JSON.parse\<close>.  Properties that need something of them state it as a hypothesis and
  have a witness with a concrete function.  Text columns are compared by equality.

  \<^bold>\<open>Loops, bounds.\<close>  No definition has fuel.  The chunking loop is a partial function, and
  \<^verbatim>\<open>Transcript_Chunks\<close> proves that it returns for every transcript and option.  The walks over
  the parents of circles terminate, as in the code, because they never enter a circle twice: their
  measure is the number of circles not yet visited.  The recomputation of goals climbs parents that
  may form a cycle: means are monotone, so either fewer goals disagree with their drivers or all that
  is left moves one way within bounds, which is the measure.  All other recursion is structural.  The
  histories of the invariants are unbounded lists or inductive relations.

  \<^bold>\<open>What the modelling showed.\<close>  Beside the properties, lemmas record places where the code departs
  from its intention: an unfenced settlement that ignores a lost claim
  (\<^verbatim>\<open>Outbox_Settle\<close>), a quorum missed by rounding (\<^verbatim>\<open>Approval_Rules\<close>), a chunk one
  character too long (\<^verbatim>\<open>Transcript_Chunks\<close>), the ways to a cycle of circles
  (\<^verbatim>\<open>Circle_Facts\<close>), a grant that opens a disabled module, against the documentation
  (\<^verbatim>\<open>Module_Access\<close>), an access request that lowers access (\<^verbatim>\<open>Module_Grant_Facts\<close>),
  five of plans and billing, among them that overlapping deliveries of one Stripe event
  both take effect (\<^verbatim>\<open>Billing_Promises\<close>), six of members, invitations and links, among them that a
  platform operator removes a last administrator (\<^verbatim>\<open>Member_Promises\<close>), and five of goals, among them that edits of
  the status alone are not versioned (\<^verbatim>\<open>Goal_Promises\<close>).

  \<^bold>\<open>Not modelled.\<close>  The drivers of external systems (the control plane for Azure, Railway and GitHub,
  Slack and Google clients, meeting recorders, SQL connectors, language models, retrieval and
  embeddings), whose behaviour is that of the system they call; the context graph and the lineage
  store; the CRM, roles, tensions, actions and deliberation services, which are guarded
  updates after the permissions of \<^verbatim>\<open>Permissions\<close>; finance report imports; the validators of
  tenant purges and target inventories; the creation of workspaces with their first administrator and the copies of
  workspaces by the control plane; the web applications, the MCP tool table, scripts, which write
  any table, and migrations.  Row and advisory locks have no effect in a sequential definition and appear where a
  property depends on them.  Read-only summaries of the modelled services are left out where no
  modelled operation calls them.
\<close>

end
